(* ===== verification/Prelude.thy ===== *)
theory Prelude
  imports Complex_Main "HOL-Library.AList" "HOL-Library.Char_ord" "HOL-Library.List_Lexorder"
    "HOL-Library.Product_Lexorder" "HOL-Library.Sublist" "HOL-Library.Multiset"
begin

text \<open>
  What the component theories share: Go strings as byte lists with the functions of
  \<open>strings\<close>, \<open>strconv\<close> and \<open>fmt\<close> the harness calls, Go maps as association lists
  whose order is the iteration order of one pass, the insert-or-replace loop the report
  code repeats, and the generic lemmas on them.
\<close>

named_theorems go_map \<open>lookups in Go maps after updates\<close>
named_theorems keyed \<open>insert-or-replace lists\<close>

section \<open>Go maps\<close>

text \<open>
  A Go map is an association list with distinct keys. Its order stands for the order in
  which one \<open>range\<close> loop visits the entries, so a theorem about every list is a theorem
  about every iteration order. \<open>map_of\<close> is the lookup \<open>v, ok := m[k]\<close>; a missing key is \<open>None\<close>.
\<close>

type_synonym ('k, 'v) gomap = "('k \<times> 'v) list"

definition gm_get :: "('k, 'v) gomap \<Rightarrow> 'k \<Rightarrow> 'v option" where
  "gm_get m k = map_of m k"

definition gm_set :: "'k \<Rightarrow> 'v \<Rightarrow> ('k, 'v) gomap \<Rightarrow> ('k, 'v) gomap" where
  "gm_set k v m = AList.update k v m"

definition gm_has :: "('k, 'v) gomap \<Rightarrow> 'k \<Rightarrow> bool" where
  "gm_has m k = (gm_get m k \<noteq> None)"

text \<open>\<open>maps.Copy(dst, src)\<close>: every entry of \<open>src\<close> is stored in \<open>dst\<close>.\<close>

definition gm_copy :: "('k, 'v) gomap \<Rightarrow> ('k, 'v) gomap \<Rightarrow> ('k, 'v) gomap" where
  "gm_copy dst src = fold (\<lambda>(k, v). gm_set k v) src dst"

definition gm_wf :: "('k, 'v) gomap \<Rightarrow> bool" where
  "gm_wf m = distinct (map fst m)"

lemma gm_get_Nil [simp]: "gm_get [] k = None"
  by (simp add: gm_get_def)

lemma gm_get_Cons [go_map]: "gm_get ((a, v) # m) k = (if a = k then Some v else gm_get m k)"
  by (simp add: gm_get_def)

lemma gm_get_set [go_map, simp]: "gm_get (gm_set k v m) k' = (if k = k' then Some v else gm_get m k')"
  by (simp add: gm_get_def gm_set_def update_conv')

lemma gm_wf_Nil [simp]: "gm_wf []"
  by (simp add: gm_wf_def)

lemma gm_wf_set [simp]: "gm_wf m \<Longrightarrow> gm_wf (gm_set k v m)"
  by (simp add: gm_wf_def gm_set_def distinct_update)

lemma gm_keys_set [simp]: "fst ` set (gm_set k v m) = insert k (fst ` set m)"
  using dom_update[of k v m] by (simp add: gm_set_def)

lemma gm_set_member: "p \<in> set (gm_set k v m) \<Longrightarrow> p = (k, v) \<or> p \<in> set m"
proof (induction m)
  case Nil
  then show ?case by (simp add: gm_set_def)
next
  case (Cons q m)
  then show ?case by (cases q) (auto simp: gm_set_def split: if_splits)
qed

lemma gm_get_None: "gm_get m k = None \<longleftrightarrow> k \<notin> fst ` set m"
  by (simp add: gm_get_def map_of_eq_None_iff)

lemma gm_get_Some_set: "gm_get m k = Some v \<Longrightarrow> (k, v) \<in> set m"
  by (simp add: gm_get_def map_of_SomeD)

lemma gm_wf_get: "gm_wf m \<Longrightarrow> (k, v) \<in> set m \<Longrightarrow> gm_get m k = Some v"
  by (simp add: gm_wf_def gm_get_def)

lemma gm_get_copy [go_map]:
  "gm_wf src \<Longrightarrow> gm_get (gm_copy dst src) k = (case gm_get src k of Some v \<Rightarrow> Some v | None \<Rightarrow> gm_get dst k)"
proof (induction src arbitrary: dst)
  case Nil
  then show ?case by (simp add: gm_copy_def)
next
  case (Cons p src)
  obtain a v where p: "p = (a, v)" by (cases p)
  from Cons.prems p have wf: "gm_wf src" and a: "gm_get src a = None"
    by (auto simp: gm_wf_def gm_get_None)
  have "gm_copy dst (p # src) = gm_copy (gm_set a v dst) src"
    by (simp add: gm_copy_def p)
  with Cons.IH[OF wf, of "gm_set a v dst"] a show ?case
    by (auto simp: p gm_get_Cons split: option.splits)
qed

lemma gm_wf_copy: "gm_wf dst \<Longrightarrow> gm_wf (gm_copy dst src)"
  by (induction src arbitrary: dst) (auto simp: gm_copy_def)

section \<open>Strings\<close>

text \<open>
  A Go string is a list of bytes. \<open><\<close> on strings is the bytewise lexicographic order of Go
  (List_Lexorder over Char_ord). Case mapping and white space are those of ASCII.
\<close>

definition NUL :: string where "NUL = [CHR 0x00]"
definition LF :: string where "LF = [CHR 0x0A]"
definition CR :: string where "CR = [CHR 0x0D]"

definition digit_char :: "nat \<Rightarrow> char" where
  "digit_char d = char_of (48 + d)"

text \<open>\<open>strconv.Itoa\<close>.\<close>

fun show_nat :: "nat \<Rightarrow> string" where
  "show_nat n = (if n < 10 then [digit_char n] else show_nat (n div 10) @ [digit_char (n mod 10)])"

declare show_nat.simps [simp del]

definition show_int :: "int \<Rightarrow> string" where
  "show_int n = (if n < 0 then ''-'' @ show_nat (nat (- n)) else show_nat (nat n))"

text \<open>\<open>%0<w>d\<close> for a non-negative number.\<close>

definition show_pad :: "nat \<Rightarrow> nat \<Rightarrow> string" where
  "show_pad w n = (let s = show_nat n in replicate (w - length s) (CHR ''0'') @ s)"

definition show_bool :: "bool \<Rightarrow> string" where
  "show_bool b = (if b then ''true'' else ''false'')"

definition is_digit :: "char \<Rightarrow> bool" where
  "is_digit c = (48 \<le> (of_char c :: nat) \<and> (of_char c :: nat) \<le> 57)"

fun read_digits :: "nat \<Rightarrow> string \<Rightarrow> nat option" where
  "read_digits acc [] = Some acc"
| "read_digits acc (c # cs) = (if is_digit c then read_digits (10 * acc + (of_char c - 48)) cs else None)"

definition read_nat :: "string \<Rightarrow> nat option" where
  "read_nat s = (if s = [] then None else read_digits 0 s)"

text \<open>\<open>strconv.Atoi\<close>: an optional sign, decimal digits, and the range of a 64-bit \<open>int\<close>.\<close>

definition atoi :: "string \<Rightarrow> int option" where
  "atoi s =
     (let (neg, t) = (case s of c # cs \<Rightarrow> if c = CHR ''-'' then (True, cs)
                                         else if c = CHR ''+'' then (False, cs) else (False, s)
                       | [] \<Rightarrow> (False, []))
      in case read_nat t of
           None \<Rightarrow> None
         | Some n \<Rightarrow> (let i = (if neg then - int n else int n)
                     in if - (2 ^ 63) \<le> i \<and> i < 2 ^ 63 then Some i else None))"

text \<open>\<open>strconv.ParseBool\<close>.\<close>

definition parse_bool :: "string \<Rightarrow> bool option" where
  "parse_bool s =
     (if s \<in> set [''1'', ''t'', ''T'', ''TRUE'', ''true'', ''True''] then Some True
      else if s \<in> set [''0'', ''f'', ''F'', ''FALSE'', ''false'', ''False''] then Some False
      else None)"

definition is_space :: "char \<Rightarrow> bool" where
  "is_space c = (c \<in> set [CHR 0x09, CHR 0x0A, CHR 0x0B, CHR 0x0C, CHR 0x0D, CHR '' ''])"

definition trim_space :: "string \<Rightarrow> string" where
  "trim_space s = rev (dropWhile is_space (rev (dropWhile is_space s)))"

text \<open>\<open>strings.TrimRight(s, cutset)\<close>.\<close>

definition trim_right :: "char list \<Rightarrow> string \<Rightarrow> string" where
  "trim_right cs s = rev (dropWhile (\<lambda>c. c \<in> set cs) (rev s))"

definition lower_char :: "char \<Rightarrow> char" where
  "lower_char c = (let n = (of_char c :: nat) in if 65 \<le> n \<and> n \<le> 90 then char_of (n + 32) else c)"

definition to_lower :: "string \<Rightarrow> string" where
  "to_lower s = map lower_char s"

definition has_prefix :: "string \<Rightarrow> string \<Rightarrow> bool" where
  "has_prefix s p = (take (length p) s = p)"

fun contains :: "string \<Rightarrow> string \<Rightarrow> bool" where
  "contains [] p = (p = [])"
| "contains (c # s) p = (has_prefix (c # s) p \<or> contains s p)"

text \<open>\<open>strings.Cut(s, c)\<close> without its third result: before and after the first \<open>c\<close>.\<close>

definition cut_at :: "char \<Rightarrow> string \<Rightarrow> string \<times> string" where
  "cut_at c s = (takeWhile (\<lambda>x. x \<noteq> c) s, tl (dropWhile (\<lambda>x. x \<noteq> c) s))"

text \<open>\<open>strings.Split(s, c)\<close> for a one-byte separator.\<close>

fun split_on :: "char \<Rightarrow> string \<Rightarrow> string list" where
  "split_on c [] = [[]]"
| "split_on c (x # xs) =
     (if x = c then [] # split_on c xs
      else (case split_on c xs of [] \<Rightarrow> [[x]] | w # ws \<Rightarrow> (x # w) # ws))"

text \<open>\<open>strings.Join\<close>.\<close>

fun join_with :: "string \<Rightarrow> string list \<Rightarrow> string" where
  "join_with sep [] = []"
| "join_with sep [w] = w"
| "join_with sep (w # ws) = w @ sep @ join_with sep ws"

text \<open>\<open>%q\<close>: quotes, backslashes and control bytes escaped, every other byte kept.\<close>

definition hex_digit :: "nat \<Rightarrow> char" where
  "hex_digit d = (if d < 10 then char_of (48 + d) else char_of (87 + d))"

definition quote_char :: "char \<Rightarrow> string" where
  "quote_char c =
     (let n = (of_char c :: nat) in
      if n = 0x22 then [CHR 0x5C, CHR 0x22]
      else if n = 0x5C then [CHR 0x5C, CHR 0x5C]
      else if n = 7 then [CHR 0x5C, CHR ''a'']
      else if n = 8 then [CHR 0x5C, CHR ''b'']
      else if n = 9 then [CHR 0x5C, CHR ''t'']
      else if n = 10 then [CHR 0x5C, CHR ''n'']
      else if n = 11 then [CHR 0x5C, CHR ''v'']
      else if n = 12 then [CHR 0x5C, CHR ''f'']
      else if n = 13 then [CHR 0x5C, CHR ''r'']
      else if n < 32 \<or> n = 127 then [CHR 0x5C, CHR ''x'', hex_digit (n div 16), hex_digit (n mod 16)]
      else [c])"

definition go_quote :: "string \<Rightarrow> string" where
  "go_quote s = [CHR 0x22] @ concat (map quote_char s) @ [CHR 0x22]"

text \<open>\<open>hex.EncodeToString\<close>.\<close>

definition hex_encode :: "string \<Rightarrow> string" where
  "hex_encode s = concat (map (\<lambda>c. let n = (of_char c :: nat) in [hex_digit (n div 16), hex_digit (n mod 16)]) s)"

subsection \<open>Round trips of numbers and the separator of composite keys\<close>

lemma of_char_digit: "d < 10 \<Longrightarrow> (of_char (digit_char d) :: nat) = 48 + d"
  by (simp add: digit_char_def)

lemma is_digit_digit_char: "d < 10 \<Longrightarrow> is_digit (digit_char d)"
  by (simp add: is_digit_def of_char_digit)

lemma read_digits_append:
  "read_digits acc (s @ t) = (case read_digits acc s of None \<Rightarrow> None | Some a \<Rightarrow> read_digits a t)"
  by (induction s arbitrary: acc) auto

lemma show_nat_nonempty [simp]: "show_nat n \<noteq> []"
  by (subst show_nat.simps) simp

lemma read_digits_show_nat: "read_digits 0 (show_nat n) = Some n"
proof (induction n rule: show_nat.induct)
  case (1 n)
  show ?case
  proof (cases "n < 10")
    case True
    then show ?thesis by (subst show_nat.simps) (simp add: is_digit_digit_char of_char_digit)
  next
    case False
    with 1 show ?thesis
      by (subst show_nat.simps) (simp add: read_digits_append is_digit_digit_char of_char_digit)
  qed
qed

lemma read_nat_show_nat [simp]: "read_nat (show_nat n) = Some n"
  by (simp add: read_nat_def read_digits_show_nat)

lemma show_nat_inject [simp]: "show_nat m = show_nat n \<longleftrightarrow> m = n"
  by (metis option.inject read_nat_show_nat)

lemma show_nat_digits: "c \<in> set (show_nat n) \<Longrightarrow> is_digit c"
proof (induction n rule: show_nat.induct)
  case (1 n)
  then show ?case
    by (subst (asm) show_nat.simps) (auto simp: is_digit_digit_char split: if_splits)
qed

lemma atoi_show_int:
  assumes "- (2 ^ 63) \<le> i" and "i < 2 ^ 63"
  shows "atoi (show_int i) = Some i"
proof (cases "i < 0")
  case True
  with assms show ?thesis by (simp add: atoi_def show_int_def)
next
  case False
  then obtain c cs where s: "show_nat (nat i) = c # cs"
    by (cases "show_nat (nat i)") auto
  have "is_digit c" using show_nat_digits[of c "nat i"] s by simp
  then have "c \<noteq> CHR ''-''" and "c \<noteq> CHR ''+''" by (auto simp: is_digit_def)
  with False assms s show ?thesis
    using read_nat_show_nat[of "nat i"] by (simp add: atoi_def show_int_def)
qed

lemma sep_inject:
  assumes "c \<notin> set s" and "c \<notin> set s'"
  shows "s @ c # t = s' @ c # t' \<longleftrightarrow> s = s' \<and> t = t'"
  using assms
proof (induction s arbitrary: s')
  case Nil
  then show ?case by (cases s') auto
next
  case (Cons a s)
  then show ?case by (cases s') auto
qed

section \<open>Insert-or-replace lists\<close>

text \<open>
  The report code keeps lists in which an element replaces the earlier element with the
  same key and is appended otherwise. \<open>upsert\<close> is one such step. \<open>index_loop\<close> is the loop
  as the code has it, with a map from keys to indices.
\<close>

fun upsert :: "('a \<Rightarrow> 'k) \<Rightarrow> 'a \<Rightarrow> 'a list \<Rightarrow> 'a list" where
  "upsert key x [] = [x]"
| "upsert key x (y # ys) = (if key y = key x then x # ys else y # upsert key x ys)"

fun index_loop :: "('a \<Rightarrow> 'k) \<Rightarrow> 'a list \<Rightarrow> ('k, nat) gomap \<Rightarrow> 'a list \<Rightarrow> 'a list" where
  "index_loop key [] seen out = out"
| "index_loop key (v # vs) seen out =
     (case gm_get seen (key v) of
        Some i \<Rightarrow> index_loop key vs seen (out[i := v])
      | None \<Rightarrow> index_loop key vs (gm_set (key v) (length out) seen) (out @ [v]))"

text \<open>The last element with a given key.\<close>

definition latest :: "('a \<Rightarrow> 'k) \<Rightarrow> 'k \<Rightarrow> 'a list \<Rightarrow> 'a option" where
  "latest key k xs = find (\<lambda>x. key x = k) (rev xs)"

lemma latest_Nil [simp]: "latest key k [] = None"
  by (simp add: latest_def)

lemma find_append: "find P (xs @ ys) = (case find P xs of Some x \<Rightarrow> Some x | None \<Rightarrow> find P ys)"
  by (induction xs) auto

lemma latest_append [keyed]:
  "latest key k (xs @ ys) = (case latest key k ys of Some x \<Rightarrow> Some x | None \<Rightarrow> latest key k xs)"
  by (simp add: latest_def find_append split: option.split)

lemma latest_single [simp]: "latest key k [x] = (if key x = k then Some x else None)"
  by (simp add: latest_def)

lemma latest_snoc [keyed]: "latest key k (xs @ [x]) = (if key x = k then Some x else latest key k xs)"
  by (simp add: latest_def)

lemma latest_Some: "latest key k xs = Some x \<Longrightarrow> x \<in> set xs \<and> key x = k"
  by (auto simp: latest_def find_Some_iff) (metis nth_mem set_rev length_rev)

lemma latest_None: "latest key k xs = None \<longleftrightarrow> k \<notin> key ` set xs"
  by (auto simp: latest_def find_None_iff)

lemma upsert_keys [simp]: "key ` set (upsert key x ys) = insert (key x) (key ` set ys)"
  by (induction ys) auto

lemma upsert_distinct: "distinct (map key ys) \<Longrightarrow> distinct (map key (upsert key x ys))"
proof (induction ys)
  case Nil
  then show ?case by simp
next
  case (Cons y ys)
  then have "key y \<notin> key ` set ys" by auto
  with Cons show ?case
    using upsert_keys[of key x ys] by (auto simp: image_iff)
qed

lemma upsert_set:
  "distinct (map key ys) \<Longrightarrow> set (upsert key x ys) = insert x {y \<in> set ys. key y \<noteq> key x}"
proof (induction ys)
  case Nil
  then show ?case by simp
next
  case (Cons y ys)
  from Cons.prems have "key y \<notin> key ` set ys" by simp
  then have n: "\<forall>z \<in> set ys. key z \<noteq> key y" by (metis image_eqI)
  show ?case
  proof (cases "key y = key x")
    case True
    with n show ?thesis by auto
  next
    case False
    with Cons show ?thesis by auto
  qed
qed

lemma fold_upsert_distinct: "distinct (map key ys) \<Longrightarrow> distinct (map key (fold (upsert key) xs ys))"
  by (induction xs arbitrary: ys) (auto simp: upsert_distinct)

lemma fold_upsert_keys [simp]: "key ` set (fold (upsert key) xs ys) = key ` set xs \<union> key ` set ys"
  by (induction xs arbitrary: ys) auto

text \<open>An element is kept exactly when it is the latest one with its key.\<close>

lemma latest_distinct: "distinct (map key ys) \<Longrightarrow> latest key (key y) ys = Some y \<longleftrightarrow> y \<in> set ys"
proof (induction ys rule: rev_induct)
  case Nil
  then show ?case by simp
next
  case (snoc x ys)
  then show ?case by (auto simp: latest_snoc dest: latest_Some)
qed

lemma fold_upsert_member:
  "distinct (map key ys) \<Longrightarrow>
   x \<in> set (fold (upsert key) xs ys) \<longleftrightarrow> latest key (key x) (ys @ xs) = Some x"
proof (induction xs arbitrary: ys rule: rev_induct)
  case Nil
  then show ?case by (simp add: latest_distinct)
next
  case (snoc a xs)
  have d: "distinct (map key (fold (upsert key) xs ys))"
    using snoc.prems by (rule fold_upsert_distinct)
  have "x \<in> set (fold (upsert key) (xs @ [a]) ys) \<longleftrightarrow>
        x = a \<or> (x \<in> set (fold (upsert key) xs ys) \<and> key x \<noteq> key a)"
    by (simp add: upsert_set[OF d] disj_commute)
  also have "\<dots> \<longleftrightarrow> latest key (key x) ((ys @ xs) @ [a]) = Some x"
    unfolding latest_snoc using snoc.IH[OF snoc.prems] by auto
  finally show ?case by simp
qed

subsection \<open>Maps built from a list, the last entry per key wins\<close>

definition gm_index :: "('a \<Rightarrow> 'k) \<Rightarrow> 'a list \<Rightarrow> ('k, 'a) gomap" where
  "gm_index key xs = fold (\<lambda>x. gm_set (key x) x) xs []"

lemma gm_get_index_fold:
  "gm_get (fold (\<lambda>x. gm_set (key x) x) xs m) k = (case latest key k xs of Some x \<Rightarrow> Some x | None \<Rightarrow> gm_get m k)"
  by (induction xs rule: rev_induct) (auto simp: latest_snoc)

lemma gm_get_index [go_map]: "gm_get (gm_index key xs) k = latest key k xs"
  by (auto simp: gm_index_def gm_get_index_fold split: option.split)

lemma gm_wf_index [simp]: "gm_wf (gm_index key xs)"
  unfolding gm_index_def by (induction xs rule: rev_induct) auto

lemma gm_index_member: "(k, x) \<in> set (gm_index key xs) \<longleftrightarrow> latest key k xs = Some x"
  by (metis gm_wf_get[OF gm_wf_index] gm_get_index gm_get_Some_set)

lemma gm_index_keys: "fst ` set (gm_index key xs) = key ` set xs"
proof -
  have "k \<in> fst ` set (gm_index key xs) \<longleftrightarrow> k \<in> key ` set xs" for k
    using gm_get_None[of "gm_index key xs" k] latest_None[of key k xs] by (auto simp: gm_get_index)
  then show ?thesis by blast
qed

lemma gm_index_values_distinct:
  "distinct (map (\<lambda>p. key (snd p)) (gm_index key xs))"
proof -
  have m: "map (\<lambda>p. key (snd p)) (gm_index key xs) = map fst (gm_index key xs)"
    using gm_index_member[of _ _ key xs] by (auto dest!: latest_Some)
  show ?thesis unfolding m using gm_wf_index[of key xs] by (simp add: gm_wf_def)
qed

subsection \<open>The index-map loop computes the insert-or-replace list\<close>

lemma upsert_at:
  "distinct (map key ys) \<Longrightarrow> i < length ys \<Longrightarrow> key (ys ! i) = key x \<Longrightarrow> upsert key x ys = ys[i := x]"
proof (induction ys arbitrary: i)
  case Nil
  then show ?case by simp
next
  case (Cons y ys)
  show ?case
  proof (cases i)
    case 0
    with Cons.prems show ?thesis by simp
  next
    case (Suc j)
    with Cons.prems have "key y \<noteq> key x"
      by (metis distinct.simps(2) image_eqI length_Cons list.set_map list.simps(9) nth_Cons_Suc nth_mem Suc_less_eq)
    with Suc Cons show ?thesis by simp
  qed
qed

lemma upsert_new: "key x \<notin> key ` set ys \<Longrightarrow> upsert key x ys = ys @ [x]"
  by (induction ys) auto

definition seen_ok :: "('a \<Rightarrow> 'k) \<Rightarrow> ('k, nat) gomap \<Rightarrow> 'a list \<Rightarrow> bool" where
  "seen_ok key seen out \<longleftrightarrow> distinct (map key out) \<and>
     (\<forall>k. gm_get seen k = None \<longleftrightarrow> k \<notin> key ` set out) \<and>
     (\<forall>k i. gm_get seen k = Some i \<longrightarrow> i < length out \<and> key (out ! i) = k)"

lemma seen_ok_empty: "seen_ok key [] []"
  by (simp add: seen_ok_def)

lemma seen_ok_append:
  assumes "seen_ok key seen out" and "gm_get seen (key v) = None"
  shows "seen_ok key (gm_set (key v) (length out) seen) (out @ [v])"
  using assms unfolding seen_ok_def by (auto simp: nth_append less_Suc_eq)

lemma seen_ok_replace:
  assumes ok: "seen_ok key seen out" and i: "gm_get seen (key v) = Some i"
  shows "seen_ok key seen (out[i := v])"
proof -
  from ok i have il: "i < length out" and ik: "key (out ! i) = key v"
    by (auto simp: seen_ok_def)
  have "map key (out[i := v]) = (map key out)[i := key v]" by (simp add: map_update)
  also have "\<dots> = map key out" using il ik by (metis list_update_id nth_map)
  finally have m: "map key (out[i := v]) = map key out" .
  then have s: "key ` set (out[i := v]) = key ` set out" by (metis list.set_map)
  have n: "\<And>j. j < length out \<Longrightarrow> key (out[i := v] ! j) = key (out ! j)"
    using m by (metis length_list_update nth_map)
  show ?thesis using ok m s n by (auto simp: seen_ok_def)
qed

lemma index_loop_upsert:
  "seen_ok key seen out \<Longrightarrow> index_loop key vs seen out = fold (upsert key) vs out"
proof (induction vs arbitrary: seen out)
  case Nil
  then show ?case by simp
next
  case (Cons v vs)
  show ?case
  proof (cases "gm_get seen (key v)")
    case None
    with Cons.prems have "key v \<notin> key ` set out" by (simp add: seen_ok_def)
    with None Cons.IH[OF seen_ok_append[OF Cons.prems None]] show ?thesis
      by (simp add: upsert_new)
  next
    case (Some i)
    with Cons.prems have "upsert key v out = out[i := v]"
      by (intro upsert_at) (auto simp: seen_ok_def)
    with Some Cons.IH[OF seen_ok_replace[OF Cons.prems Some]] show ?thesis
      by simp
  qed
qed

lemma index_loop_start: "index_loop key vs [] [] = fold (upsert key) vs []"
  by (rule index_loop_upsert[OF seen_ok_empty])

section \<open>Sorting\<close>

text \<open>
  \<open>sort.Slice\<close> with a \<open>less\<close> that compares a key: sorted by the key, a permutation of the input.
  Where two elements can have equal keys Go leaves their order open; \<open>sort_key\<close> keeps the input order.
\<close>

lemma map_sort_key: "map k (sort_key k xs) = sort (map k xs)"
  by (rule properties_for_sort[symmetric]) simp_all

lemma sort_key_unique:
  assumes "mset xs = mset ys" and "inj_on k (set xs)"
  shows "sort_key k xs = sort_key k ys"
proof -
  have s: "set xs = set ys" using assms(1) by (rule mset_eq_setD)
  have "mset (map k xs) = mset (map k ys)" using assms(1) by simp
  then have "sort (map k xs) = sort (map k ys)"
    by (metis properties_for_sort mset_sort sorted_sort)
  then have "map k (sort_key k xs) = map k (sort_key k ys)" by (simp add: map_sort_key)
  moreover have "inj_on k (set (sort_key k xs) \<union> set (sort_key k ys))" using assms(2) s by simp
  ultimately show ?thesis using map_inj_on by blast
qed

end
