(* ===== verification/Go_Float.thy ===== *)
theory Go_Float
  imports Prelude "HOL-Library.Log_Nat" "HOL-Library.Code_Target_Nat"
begin

text \<open>
  Go's \<open>float64\<close>: finite values as rationals on the binary64 grid, rounding to nearest with
  ties to even after every operation, the two infinities and NaN. The sign of zero is not
  represented. Comparison follows IEEE 754 (NaN compares false). The rounding is proved
  monotone, which is what the unit-aware comparison of the grader needs; \<open>%g\<close> and the
  \<open>'f'\<close> format are the shortest decimals that round back to the value.
\<close>

datatype f64 = Fin rat | PInf | NInf | NaN

section \<open>Rounding\<close>

text \<open>The exponent \<open>e\<close> with \<open>b^e \<le> x < b^(e+1)\<close>, for \<open>x > 0\<close>.\<close>

definition rlog :: "nat \<Rightarrow> rat \<Rightarrow> int" where
  "rlog b x =
     (case quotient_of x of (n, d) \<Rightarrow>
        (let k = int (floorlog b (nat n)) - int (floorlog b (nat d))
         in if rat_of_nat b powi k \<le> x then k else k - 1))"

text \<open>Round to the nearest integer, ties to even.\<close>

definition rhe :: "rat \<Rightarrow> int" where
  "rhe x =
     (let f = \<lfloor>x\<rfloor>; r = x - of_int f
      in if r < 1 / 2 then f else if r > 1 / 2 then f + 1 else if even f then f else f + 1)"

definition ulp_exp :: "rat \<Rightarrow> int" where
  "ulp_exp x = max (rlog 2 x - 52) (- 1074)"

definition rnd_pos :: "rat \<Rightarrow> rat" where
  "rnd_pos x = of_int (rhe (x / 2 powi ulp_exp x)) * 2 powi ulp_exp x"

definition rnd :: "rat \<Rightarrow> rat" where
  "rnd x = (if x > 0 then rnd_pos x else if x < 0 then - rnd_pos (- x) else 0)"

definition f64_limit :: rat where
  "f64_limit = 2 ^ 1024"

lemma f64_limit_pos: "0 < f64_limit"
  by (simp add: f64_limit_def)

definition to_f64 :: "rat \<Rightarrow> f64" where
  "to_f64 x =
     (let r = rnd x in if r \<ge> f64_limit then PInf else if r \<le> - f64_limit then NInf else Fin r)"

section \<open>Operations\<close>

fun f64_neg :: "f64 \<Rightarrow> f64" where
  "f64_neg (Fin a) = Fin (- a)"
| "f64_neg PInf = NInf"
| "f64_neg NInf = PInf"
| "f64_neg NaN = NaN"

definition f64_sgn_inf :: "bool \<Rightarrow> f64" where
  "f64_sgn_inf pos = (if pos then PInf else NInf)"

fun f64_add :: "f64 \<Rightarrow> f64 \<Rightarrow> f64" where
  "f64_add NaN y = NaN"
| "f64_add x NaN = NaN"
| "f64_add (Fin a) (Fin b) = to_f64 (a + b)"
| "f64_add PInf NInf = NaN"
| "f64_add NInf PInf = NaN"
| "f64_add PInf y = PInf"
| "f64_add NInf y = NInf"
| "f64_add (Fin a) y = y"

fun f64_mul :: "f64 \<Rightarrow> f64 \<Rightarrow> f64" where
  "f64_mul NaN y = NaN"
| "f64_mul x NaN = NaN"
| "f64_mul (Fin a) (Fin b) = to_f64 (a * b)"
| "f64_mul PInf (Fin b) = (if b = 0 then NaN else f64_sgn_inf (b > 0))"
| "f64_mul NInf (Fin b) = (if b = 0 then NaN else f64_sgn_inf (b < 0))"
| "f64_mul (Fin a) PInf = (if a = 0 then NaN else f64_sgn_inf (a > 0))"
| "f64_mul (Fin a) NInf = (if a = 0 then NaN else f64_sgn_inf (a < 0))"
| "f64_mul PInf PInf = PInf"
| "f64_mul NInf NInf = PInf"
| "f64_mul x y = NInf"

fun f64_div :: "f64 \<Rightarrow> f64 \<Rightarrow> f64" where
  "f64_div NaN y = NaN"
| "f64_div x NaN = NaN"
| "f64_div (Fin a) (Fin b) =
     (if b = 0 then (if a = 0 then NaN else f64_sgn_inf (a > 0)) else to_f64 (a / b))"
| "f64_div PInf (Fin b) = f64_sgn_inf (b \<ge> 0)"
| "f64_div NInf (Fin b) = f64_sgn_inf (b < 0)"
| "f64_div (Fin a) y = Fin 0"
| "f64_div x y = NaN"

fun f64_le :: "f64 \<Rightarrow> f64 \<Rightarrow> bool" where
  "f64_le NaN y = False"
| "f64_le x NaN = False"
| "f64_le (Fin a) (Fin b) = (a \<le> b)"
| "f64_le NInf y = True"
| "f64_le x PInf = True"
| "f64_le x y = False"

definition f64_eq :: "f64 \<Rightarrow> f64 \<Rightarrow> bool" where
  "f64_eq x y = (x = y \<and> x \<noteq> NaN)"

definition f64_lt :: "f64 \<Rightarrow> f64 \<Rightarrow> bool" where
  "f64_lt x y = (f64_le x y \<and> x \<noteq> y)"

text \<open>\<open>float64(n)\<close> for an integer \<open>n\<close>.\<close>

definition f64_of_int :: "int \<Rightarrow> f64" where
  "f64_of_int n = to_f64 (of_int n)"

text \<open>\<open>int(x)\<close>: towards zero; outside the 64-bit range the amd64 result.\<close>

fun f64_to_int :: "f64 \<Rightarrow> int" where
  "f64_to_int (Fin a) =
     (let t = (if a < 0 then - \<lfloor>- a\<rfloor> else \<lfloor>a\<rfloor>)
      in if - (2 ^ 63) \<le> t \<and> t < 2 ^ 63 then t else - (2 ^ 63))"
| "f64_to_int x = - (2 ^ 63)"

section \<open>Formatting\<close>

text \<open>The \<open>p\<close>-digit decimal nearest to \<open>x > 0\<close>: mantissa and power of ten.\<close>

definition dec_round :: "nat \<Rightarrow> rat \<Rightarrow> int \<times> int" where
  "dec_round p x =
     (let e = rlog 10 x - int p + 1; m = rhe (x / 10 powi e)
      in if m = 10 ^ p then (10 ^ (p - 1), e + 1) else (m, e))"

text \<open>The shortest digits that round back to \<open>x > 0\<close>, and the position of the decimal point.\<close>

definition shortest :: "rat \<Rightarrow> string \<times> int" where
  "shortest x =
     (let p = (case find (\<lambda>p. (case dec_round p x of (m, e) \<Rightarrow> rnd (of_int m * 10 powi e) = x)) [1..<18] of
                 Some p \<Rightarrow> p | None \<Rightarrow> 17)
      in case dec_round p x of (m, e) \<Rightarrow> (let ds = show_nat (nat m) in (ds, int (length ds) + e)))"

definition zeros :: "int \<Rightarrow> string" where
  "zeros n = replicate (nat n) (CHR ''0'')"

definition fmt_f_digits :: "string \<Rightarrow> int \<Rightarrow> string" where
  "fmt_f_digits ds dp =
     (if dp \<le> 0 then ''0.'' @ zeros (- dp) @ ds
      else if int (length ds) \<le> dp then ds @ zeros (dp - int (length ds))
      else take (nat dp) ds @ ''.'' @ drop (nat dp) ds)"

definition fmt_e_digits :: "string \<Rightarrow> int \<Rightarrow> string" where
  "fmt_e_digits ds dp =
     (let x = dp - 1
      in take 1 ds @ (if length ds > 1 then ''.'' @ drop 1 ds else []) @ ''e''
         @ (if x < 0 then ''-'' else ''+'') @ show_pad 2 (nat \<bar>x\<bar>))"

definition fmt_g_digits :: "string \<Rightarrow> int \<Rightarrow> string" where
  "fmt_g_digits ds dp = (if dp - 1 < - 4 \<or> dp - 1 \<ge> 6 then fmt_e_digits ds dp else fmt_f_digits ds dp)"

definition fmt_with :: "(rat \<Rightarrow> string) \<Rightarrow> f64 \<Rightarrow> string" where
  "fmt_with pos x =
     (case x of
        Fin a \<Rightarrow> (if a < 0 then ''-'' @ pos (- a) else pos a)
      | PInf \<Rightarrow> ''+Inf'' | NInf \<Rightarrow> ''-Inf'' | NaN \<Rightarrow> ''NaN'')"

text \<open>\<open>%g\<close> and \<open>%v\<close>: the shortest digits, exponent form below \<open>1e-4\<close> and from \<open>1e6\<close> on.\<close>

definition fmt_g :: "f64 \<Rightarrow> string" where
  "fmt_g = fmt_with (\<lambda>a. if a = 0 then ''0'' else case shortest a of (ds, dp) \<Rightarrow> fmt_g_digits ds dp)"

text \<open>\<open>strconv.FormatFloat(x, 'f', -1, 64)\<close>.\<close>

definition fmt_f :: "f64 \<Rightarrow> string" where
  "fmt_f = fmt_with (\<lambda>a. if a = 0 then ''0'' else case shortest a of (ds, dp) \<Rightarrow> fmt_f_digits ds dp)"

text \<open>\<open>%.<p>f\<close>.\<close>

definition fmt_fix :: "nat \<Rightarrow> f64 \<Rightarrow> string" where
  "fmt_fix p = fmt_with (\<lambda>a. let n = nat (rhe (a * 10 ^ p)) in
     show_nat (n div 10 ^ p) @ (if p = 0 then [] else ''.'' @ show_pad p (n mod 10 ^ p)))"

section \<open>Rounding is monotone\<close>

lemma rlog_bounds:
  assumes x: "0 < x" and b: "2 \<le> b"
  shows "rat_of_nat b powi rlog b x \<le> x" and "x < rat_of_nat b powi (rlog b x + 1)"
proof -
  obtain n d where q: "quotient_of x = (n, d)" by fastforce
  then have xd: "x = of_int n / of_int d" and d: "d > 0"
    by (auto simp: quotient_of_div quotient_of_denom_pos)
  with x have n: "n > 0" by (simp add: zero_less_divide_iff)
  define B where "B = rat_of_nat b"
  have B: "B > 1" using b by (simp add: B_def)
  define a c where "a = floorlog b (nat n)" and "c = floorlog b (nat d)"
  have nb: "b ^ (a - 1) \<le> nat n \<and> nat n < b ^ a" and a1: "a \<ge> 1"
    using b n floorlog_bounds[of "nat n" b] by (auto simp: a_def floorlog_def)
  have db: "b ^ (c - 1) \<le> nat d \<and> nat d < b ^ c" and c1: "c \<ge> 1"
    using b d floorlog_bounds[of "nat d" b] by (auto simp: c_def floorlog_def)
  have N1: "B ^ (a - 1) \<le> of_int n" "of_int n < B ^ a"
    using nb n by (metis B_def of_nat_le_iff of_nat_power of_nat_nat order.strict_implies_order,
                   metis B_def of_nat_less_iff of_nat_power of_nat_nat n order.strict_implies_order)
  have D1: "B ^ (c - 1) \<le> of_int d" "of_int d < B ^ c"
    using db d by (metis B_def of_nat_le_iff of_nat_power of_nat_nat order.strict_implies_order,
                   metis B_def of_nat_less_iff of_nat_power of_nat_nat d order.strict_implies_order)
  have U: "x < B powi (int a - int c + 1)"
  proof -
    have "x \<le> of_int n / B ^ (c - 1)"
      unfolding xd using D1 B n d by (intro divide_left_mono) (auto simp: zero_less_mult_iff)
    also have "\<dots> < B ^ a / B ^ (c - 1)" using N1 B by (intro divide_strict_right_mono) auto
    also have "\<dots> = B powi (int a - int (c - 1))" using B by (simp add: power_int_diff)
    finally show ?thesis using c1 by (simp add: of_nat_diff algebra_simps)
  qed
  have L: "B powi (int a - int c - 1) \<le> x"
  proof -
    have "B powi (int (a - 1) - int c) = B ^ (a - 1) / B ^ c" using B by (simp add: power_int_diff)
    also have "\<dots> \<le> of_int n / B ^ c" using N1 B by (intro divide_right_mono) auto
    also have "\<dots> \<le> x"
      unfolding xd using D1 B n d by (intro divide_left_mono) (auto simp: zero_less_mult_iff)
    finally show ?thesis using a1 by (simp add: of_nat_diff algebra_simps)
  qed
  have r: "rlog b x = (if B powi (int a - int c) \<le> x then int a - int c else int a - int c - 1)"
    by (simp add: rlog_def q a_def c_def B_def Let_def)
  show "rat_of_nat b powi rlog b x \<le> x" using r L by (simp add: B_def split: if_splits)
  show "x < rat_of_nat b powi (rlog b x + 1)" using r U by (simp add: B_def split: if_splits)
qed

lemma rlog2_mono:
  assumes "0 < x" and "x \<le> y"
  shows "rlog 2 x \<le> rlog 2 y"
proof (rule ccontr)
  assume "\<not> ?thesis"
  then have "(2::rat) powi (rlog 2 y + 1) \<le> 2 powi rlog 2 x"
    by (intro power_int_increasing) auto
  with rlog_bounds[of x 2] rlog_bounds[of y 2] assms show False by fastforce
qed

lemma rhe_near: "of_int (rhe x) - 1 / 2 \<le> x" "x \<le> of_int (rhe x) + 1 / 2"
  by (auto simp: rhe_def Let_def) (linarith+)

lemma rhe_of_int [simp]: "rhe (of_int n) = n"
  by (simp add: rhe_def)

lemma rhe_numeral [simp]: "rhe (numeral n) = numeral n"
  using rhe_of_int[of "numeral n"] by simp

lemma rhe_mono: "x \<le> y \<Longrightarrow> rhe x \<le> rhe y"
proof -
  assume xy: "x \<le> y"
  show ?thesis
  proof (cases "\<lfloor>x\<rfloor> = \<lfloor>y\<rfloor>")
    case True
    with xy show ?thesis by (auto simp: rhe_def Let_def)
  next
    case False
    with xy have "\<lfloor>x\<rfloor> + 1 \<le> \<lfloor>y\<rfloor>" using floor_mono[OF xy] by linarith
    moreover have "rhe x \<le> \<lfloor>x\<rfloor> + 1" and "\<lfloor>y\<rfloor> \<le> rhe y" by (auto simp: rhe_def Let_def)
    ultimately show ?thesis by linarith
  qed
qed

lemma rnd_pos_mono:
  assumes x: "0 < x" and xy: "x \<le> y"
  shows "rnd_pos x \<le> rnd_pos y"
proof (cases "ulp_exp x = ulp_exp y")
  case True
  have "rhe (x / 2 powi ulp_exp y) \<le> rhe (y / 2 powi ulp_exp y)"
    using xy by (intro rhe_mono divide_right_mono) auto
  then show ?thesis by (simp add: rnd_pos_def True mult_right_mono)
next
  case False
  define k where "k = rlog 2 y"
  have le: "rlog 2 x \<le> k" using rlog2_mono[OF x xy] by (simp add: k_def)
  with False have lt: "rlog 2 x < k" and ky: "ulp_exp y = k - 52" and kx: "ulp_exp x \<le> k"
    by (auto simp: ulp_exp_def k_def max_def split: if_splits)
  have xk: "x \<le> 2 powi k"
    using rlog_bounds(2)[OF x, of 2] lt power_int_increasing[of "rlog 2 x + 1" k "2::rat"] by auto
  have ky': "2 powi k \<le> y" using rlog_bounds(1)[of y 2] x xy by (simp add: k_def)
  have grid: "(2::rat) powi k / 2 powi e = of_int (2 ^ nat (k - e))" if "e \<le> k" for e
  proof -
    have "(2::rat) powi k / 2 powi e = 2 powi (k - e)" by (simp add: power_int_diff)
    also have "\<dots> = 2 ^ nat (k - e)" using that by (simp add: power_int_def)
    finally show ?thesis by simp
  qed
  have ret: "of_int (2 ^ nat (k - e)) * (2::rat) powi e = 2 powi k" if "e \<le> k" for e
    using grid[OF that] by (metis nonzero_eq_divide_eq power_int_eq_0_iff zero_neq_numeral)
  have "rhe (x / 2 powi ulp_exp x) \<le> 2 ^ nat (k - ulp_exp x)"
    using rhe_mono[OF divide_right_mono[OF xk, of "2 powi ulp_exp x"]] grid[OF kx] by (simp del: of_int_power)
  then have "rnd_pos x \<le> of_int (2 ^ nat (k - ulp_exp x)) * 2 powi ulp_exp x"
    unfolding rnd_pos_def by (intro mult_right_mono) (auto simp del: of_int_power)
  also have "\<dots> = of_int (2 ^ nat (k - ulp_exp y)) * 2 powi ulp_exp y"
    using ret[OF kx] ret[of "ulp_exp y"] ky by simp
  also have "\<dots> \<le> rnd_pos y"
  proof -
    have "2 ^ nat (k - ulp_exp y) \<le> rhe (y / 2 powi ulp_exp y)"
      using rhe_mono[OF divide_right_mono[OF ky', of "2 powi ulp_exp y"]] grid[of "ulp_exp y"] ky
      by (simp del: of_int_power)
    then show ?thesis unfolding rnd_pos_def by (intro mult_right_mono) (auto simp del: of_int_power)
  qed
  finally show ?thesis .
qed

lemma rnd_pos_nonneg: "0 < x \<Longrightarrow> 0 \<le> rnd_pos x"
proof -
  assume "0 < x"
  then have "0 \<le> rhe (x / 2 powi ulp_exp x)" using rhe_mono[of 0 "x / 2 powi ulp_exp x"] rhe_of_int[of 0] by simp
  then show ?thesis by (simp add: rnd_pos_def)
qed

lemma rnd_mono: "x \<le> y \<Longrightarrow> rnd x \<le> rnd y"
proof -
  assume xy: "x \<le> y"
  consider "0 < x" | "y < 0" | "x \<le> 0" "0 \<le> y" by linarith
  then show ?thesis
  proof cases
    case 1
    with xy show ?thesis by (simp add: rnd_def rnd_pos_mono)
  next
    case 2
    with xy show ?thesis using rnd_pos_mono[of "- y" "- x"] by (simp add: rnd_def)
  next
    case 3
    then show ?thesis using rnd_pos_nonneg[of y] rnd_pos_nonneg[of "- x"] by (auto simp: rnd_def)
  qed
qed

lemma to_f64_mono: "x \<le> y \<Longrightarrow> f64_le (to_f64 x) (to_f64 y)"
  using rnd_mono[of x y] f64_limit_pos by (auto simp: to_f64_def Let_def)

lemma to_f64_not_NaN [simp]: "to_f64 x \<noteq> NaN"
  by (simp add: to_f64_def Let_def)

lemma f64_le_NInf [simp]: "f64_le NInf y = (y \<noteq> NaN)"
  by (cases y) auto

lemma f64_le_PInf [simp]: "f64_le x PInf = (x \<noteq> NaN)"
  by (cases x) auto

text \<open>Scaling by a positive finite factor keeps the order, rounding and overflow included.\<close>

lemma f64_mul_mono:
  assumes "0 < c" and "f64_le x y"
  shows "f64_le (f64_mul x (Fin c)) (f64_mul y (Fin c))"
  using assms by (cases x; cases y) (auto simp: f64_sgn_inf_def to_f64_mono mult_right_mono intro: f64_le_NInf f64_le_PInf)

lemma f64_le_refl: "x \<noteq> NaN \<Longrightarrow> f64_le x x"
  by (cases x) auto

lemma f64_le_trans: "f64_le x y \<Longrightarrow> f64_le y z \<Longrightarrow> f64_le x z"
  by (cases x; cases y; cases z) auto

lemma f64_le_total: "x \<noteq> NaN \<Longrightarrow> y \<noteq> NaN \<Longrightarrow> f64_le x y \<or> f64_le y x"
  by (cases x; cases y) auto

lemma f64_le_NaN [simp]: "f64_le x NaN = False"
  by (cases x) auto

lemma f64_le_antisym: "f64_le x y \<Longrightarrow> f64_le y x \<Longrightarrow> x = y"
  by (cases x; cases y) auto

section \<open>Exact values\<close>

lemma rlog2_unique:
  assumes "2 powi k \<le> x" and "x < 2 powi (k + 1)"
  shows "rlog 2 x = k"
proof -
  have "(0::rat) < 2 powi k" by simp
  then have x: "0 < x" using assms(1) by linarith
  note b = rlog_bounds[OF x, of 2]
  have "k < rlog 2 x + 1"
  proof (rule ccontr)
    assume "\<not> ?thesis"
    then have "(2::rat) powi (rlog 2 x + 1) \<le> 2 powi k" by (intro power_int_increasing) auto
    then show False using b assms by simp
  qed
  moreover have "rlog 2 x < k + 1"
  proof (rule ccontr)
    assume "\<not> ?thesis"
    then have "(2::rat) powi (k + 1) \<le> 2 powi rlog 2 x" by (intro power_int_increasing) auto
    then show False using b assms by simp
  qed
  ultimately show ?thesis by linarith
qed

lemma rnd_grid:
  assumes "0 < x" and "x = of_int n * 2 powi ulp_exp x"
  shows "rnd x = x"
proof -
  have "x / 2 powi ulp_exp x = of_int n"
    using assms(2) by (metis nonzero_mult_div_cancel_right power_int_eq_0_iff zero_neq_numeral)
  then have "rnd_pos x = of_int n * 2 powi ulp_exp x" by (simp add: rnd_pos_def)
  then show ?thesis using assms by (simp add: rnd_def)
qed

lemma powi_split: "e \<le> k \<Longrightarrow> (2::rat) powi k = of_int (2 ^ nat (k - e)) * 2 powi e"
proof -
  assume "e \<le> k"
  then have "(2::rat) powi k = 2 powi (k - e) * 2 powi e" by (simp flip: power_int_add)
  with \<open>e \<le> k\<close> show ?thesis by (simp add: power_int_def)
qed

lemma rnd_pow2:
  assumes "- 1074 \<le> k"
  shows "rnd (2 powi k) = 2 powi k"
proof -
  have r: "rlog 2 (2 powi k) = k"
    by (rule rlog2_unique) (auto intro: power_int_strict_increasing)
  have "ulp_exp (2 powi k) \<le> k" using assms by (simp add: ulp_exp_def r)
  then show ?thesis by (intro rnd_grid[where n = "2 ^ nat (k - ulp_exp (2 powi k))"] powi_split) simp
qed

lemma rnd_positive: "2 powi (- 1074) \<le> x \<Longrightarrow> 0 < rnd x"
  using rnd_mono[of "2 powi (- 1074)" x] rnd_pow2[of "- 1074"]
  by (metis order_refl less_le_trans zero_less_numeral zero_less_power_int)

text \<open>Integers below \<open>2^53\<close> are exact.\<close>

lemma rnd_int_pos:
  assumes "0 < n" and "n < 2 ^ 53"
  shows "rnd (of_int n) = of_int n"
proof -
  have x: "0 < rat_of_int n" using assms by simp
  have lt: "rlog 2 (of_int n) < 53"
  proof (rule ccontr)
    assume "\<not> ?thesis"
    then have "(2::rat) powi 53 \<le> 2 powi rlog 2 (of_int n)" by (intro power_int_increasing) auto
    also have "\<dots> \<le> of_int n" using rlog_bounds(1)[OF x, of 2] by simp
    finally have "of_int (2 ^ 53) \<le> rat_of_int n" by (simp add: power_int_def)
    then have "2 ^ 53 \<le> n" by (simp only: of_int_le_iff)
    with assms show False by simp
  qed
  then have e: "ulp_exp (of_int n) \<le> 0" by (simp add: ulp_exp_def)
  show ?thesis
  proof (rule rnd_grid[OF x])
    have "(2::rat) powi 0 = of_int (2 ^ nat (0 - ulp_exp (of_int n))) * 2 powi ulp_exp (of_int n)"
      using e by (rule powi_split)
    then show "rat_of_int n = of_int (n * 2 ^ nat (0 - ulp_exp (of_int n))) * 2 powi ulp_exp (of_int n)"
      by (simp add: mult.assoc)
  qed
qed

lemma to_f64_int:
  assumes "\<bar>n\<bar> < 2 ^ 53"
  shows "to_f64 (of_int n) = Fin (of_int n)"
proof -
  consider "n = 0" | "0 < n" | "n < 0" by linarith
  then have r: "rnd (of_int n) = of_int n"
  proof cases
    case 2
    with assms show ?thesis by (simp add: rnd_int_pos)
  next
    case 3
    with assms rnd_int_pos[of "- n"] show ?thesis by (simp add: rnd_def)
  qed (simp add: rnd_def)
  have "\<bar>n\<bar> < 2 ^ 1024" using assms by (rule order_less_le_trans) simp
  then have "rat_of_int n < of_int (2 ^ 1024)" and "- rat_of_int n < of_int (2 ^ 1024)"
    unfolding of_int_minus[symmetric] of_int_less_iff by auto
  then have "of_int n < f64_limit" and "- f64_limit < of_int n" by (auto simp: f64_limit_def)
  then show ?thesis using r by (simp add: to_f64_def)
qed

lemma to_f64_numeral [simp]:
  "(numeral w :: int) < 2 ^ 53 \<Longrightarrow> to_f64 (numeral w) = Fin (numeral w)"
  using to_f64_int[of "numeral w"] by simp

lemma to_f64_one [simp]: "to_f64 1 = Fin 1" and to_f64_zero [simp]: "to_f64 0 = Fin 0"
  using to_f64_int[of 1] to_f64_int[of 0] by simp_all

text \<open>A positive normal factor stays a positive finite value.\<close>

lemma to_f64_factor:
  assumes "2 powi (- 1074) \<le> x" and "x \<le> 2 ^ 52"
  shows "\<exists>c. to_f64 x = Fin c \<and> 0 < c"
proof -
  have p: "0 < rnd x" using assms(1) by (rule rnd_positive)
  have "rnd x \<le> rnd (of_int (2 ^ 52))" using assms(2) by (intro rnd_mono) simp
  also have "\<dots> = of_int (2 ^ 52)" by (rule rnd_int_pos) simp_all
  also have "\<dots> < of_int (2 ^ 1024)" by (simp only: of_int_less_iff) simp
  finally have "rnd x < f64_limit" by (simp add: f64_limit_def)
  moreover have "\<not> rnd x \<le> - f64_limit" using p f64_limit_pos by linarith
  ultimately show ?thesis using p by (simp add: to_f64_def)
qed

text \<open>Dyadic rationals with few digits are on the grid.\<close>

lemma rlog2_less: "0 < x \<Longrightarrow> x < 2 powi k \<Longrightarrow> rlog 2 x < k"
  using rlog_bounds(1)[of x 2] by (metis le_less_trans less_irrefl linorder_not_le of_nat_numeral one_le_numeral
      order_refl power_int_increasing)

lemma rnd_dyadic:
  assumes "0 < m" and "m < 2 ^ 53" and "k \<le> 1074"
  shows "rnd (of_int m / 2 ^ k) = of_int m / 2 ^ k"
proof (rule rnd_grid)
  let ?x = "rat_of_int m / 2 ^ k"
  show x: "0 < ?x" using assms(1) by simp
  have "rat_of_int m < 2 ^ 53" using assms(2) by (metis of_int_less_iff of_int_numeral of_int_power)
  then have "?x < 2 ^ 53 / 2 ^ k" by (simp add: divide_strict_right_mono)
  also have "\<dots> = 2 powi (53 - int k)" by (simp add: power_int_diff)
  finally have "rlog 2 ?x < 53 - int k" by (rule rlog2_less[OF x])
  then have u: "ulp_exp ?x \<le> - int k" using assms(3) by (simp add: ulp_exp_def)
  have "?x = of_int m * 2 powi (- int k)" by (simp add: power_int_minus field_simps)
  also have "\<dots> = of_int (m * 2 ^ nat (- int k - ulp_exp ?x)) * 2 powi ulp_exp ?x"
    using powi_split[OF u] by simp
  finally show "?x = of_int (m * 2 ^ nat (- int k - ulp_exp ?x)) * 2 powi ulp_exp ?x" .
qed

end
