(* ===== verification/Go_Path.thy ===== *)
theory Go_Path
  imports Prelude
begin

text \<open>
  The lexical part of Go's \<open>path/filepath\<close> on Unix: \<open>Clean\<close>, \<open>Join\<close>, \<open>Rel\<close>, \<open>Abs\<close>,
  \<open>Dir\<close>, \<open>Base\<close> and \<open>IsAbs\<close>.
  A path is split at its slashes; empty and dot components disappear and a dot-dot component
  removes the component before it.
\<close>

definition SLASH :: char where "SLASH = CHR ''/''"

definition path_is_abs :: "string \<Rightarrow> bool" where
  "path_is_abs p = (\<exists>r. p = SLASH # r)"

lemma path_is_abs_code [code]: "path_is_abs p = (case p of [] \<Rightarrow> False | c # _ \<Rightarrow> c = SLASH)"
  by (auto simp: path_is_abs_def split: list.split)

text \<open>One component pushed on the (reversed) components kept so far.\<close>

fun clean_push :: "bool \<Rightarrow> string list \<Rightarrow> string \<Rightarrow> string list" where
  "clean_push rooted out c =
     (if c = [] \<or> c = ''.'' then out
      else if c = ''..'' then
        (case out of
           [] \<Rightarrow> if rooted then [] else [''..'']
         | d # ds \<Rightarrow> if d = ''..'' then ''..'' # out else ds)
      else c # out)"

definition path_comps :: "string \<Rightarrow> string list" where
  "path_comps p = rev (foldl (clean_push (path_is_abs p)) [] (split_on SLASH p))"

definition path_of :: "bool \<Rightarrow> string list \<Rightarrow> string" where
  "path_of rooted cs =
     (if rooted then SLASH # join_with [SLASH] cs
      else if cs = [] then ''.'' else join_with [SLASH] cs)"

definition path_clean :: "string \<Rightarrow> string" where
  "path_clean p = path_of (path_is_abs p) (path_comps p)"

text \<open>\<open>filepath.Join\<close>: leading empty elements are ignored.\<close>

definition path_join :: "string list \<Rightarrow> string" where
  "path_join es =
     (case dropWhile (\<lambda>e. e = []) es of [] \<Rightarrow> [] | fs \<Rightarrow> path_clean (join_with [SLASH] fs))"

fun strip_common :: "string list \<Rightarrow> string list \<Rightarrow> string list \<times> string list" where
  "strip_common (b # bs) (t # ts) = (if b = t then strip_common bs ts else (b # bs, t # ts))"
| "strip_common bs ts = (bs, ts)"

text \<open>\<open>filepath.Rel\<close>; \<open>None\<close> is its error.\<close>

definition path_rel :: "string \<Rightarrow> string \<Rightarrow> string option" where
  "path_rel base targ =
     (if path_clean base = path_clean targ then Some ''.''
      else if path_is_abs base \<noteq> path_is_abs targ then None
      else case strip_common (path_comps base) (path_comps targ) of
        (bs, ts) \<Rightarrow>
          (if bs \<noteq> [] \<and> hd bs = ''..'' then None
           else Some (join_with [SLASH] (replicate (length bs) ''..'' @ ts))))"

text \<open>\<open>filepath.Abs\<close>; \<open>cwd\<close> is \<open>None\<close> when the working directory of the process cannot be read.\<close>

definition path_abs :: "string option \<Rightarrow> string \<Rightarrow> string option" where
  "path_abs cwd p = (if path_is_abs p then Some (path_clean p) else map_option (\<lambda>d. path_join [d, p]) cwd)"

text \<open>\<open>filepath.Dir\<close>.\<close>

definition path_dir :: "string \<Rightarrow> string" where
  "path_dir p = path_clean (rev (dropWhile (\<lambda>c. c \<noteq> SLASH) (rev p)))"

text \<open>\<open>filepath.Base\<close>: the last element of a path without its trailing slashes.\<close>

definition path_base :: "string \<Rightarrow> string" where
  "path_base p =
     (if p = [] then ''.''
      else let q = trim_right [SLASH] p in
        if q = [] then [SLASH] else rev (takeWhile (\<lambda>c. c \<noteq> SLASH) (rev q)))"

text \<open>A component: non-empty, without a slash.\<close>

definition plain_comp :: "string \<Rightarrow> bool" where
  "plain_comp c = (c \<noteq> [] \<and> SLASH \<notin> set c \<and> c \<noteq> ''.'' \<and> c \<noteq> ''..'')"

lemma split_on_nonempty [simp]: "split_on c s \<noteq> []"
  by (induction s) (auto split: list.splits)

lemma split_on_none: "c \<notin> set s \<Longrightarrow> split_on c s = [s]"
  by (induction s) auto

lemma split_on_append: "c \<notin> set s \<Longrightarrow> split_on c (s @ c # t) = s # split_on c t"
  by (induction s) auto

lemma split_on_no_sep: "w \<in> set (split_on c s) \<Longrightarrow> c \<notin> set w"
  by (induction s arbitrary: w) (auto split: list.splits if_splits)

lemma split_on_join:
  "ws \<noteq> [] \<Longrightarrow> \<forall>w \<in> set ws. c \<notin> set w \<Longrightarrow> split_on c (join_with [c] ws) = ws"
proof (induction ws)
  case Nil
  then show ?case by simp
next
  case (Cons w ws)
  then show ?case by (cases ws) (auto simp: split_on_none split_on_append)
qed

lemma clean_push_plain: "plain_comp c \<Longrightarrow> clean_push r out c = c # out"
  by (auto simp: plain_comp_def)

lemma foldl_clean_plain:
  "\<forall>c \<in> set cs. plain_comp c \<Longrightarrow> foldl (clean_push r) out cs = rev cs @ out"
  by (induction cs arbitrary: out) (auto simp: clean_push_plain simp del: clean_push.simps)

lemma path_comps_plain:
  assumes "cs \<noteq> []" and "\<forall>c \<in> set cs. plain_comp c"
  shows "path_comps (join_with [SLASH] cs) = cs"
proof -
  have "\<forall>w \<in> set cs. SLASH \<notin> set w" using assms by (auto simp: plain_comp_def)
  with assms have "split_on SLASH (join_with [SLASH] cs) = cs" by (simp add: split_on_join)
  then show ?thesis using assms(2) by (simp add: path_comps_def foldl_clean_plain)
qed

lemma path_comps_abs_plain:
  assumes "\<forall>c \<in> set cs. plain_comp c"
  shows "path_comps (SLASH # join_with [SLASH] cs) = cs"
proof (cases cs)
  case Nil
  then show ?thesis by (simp add: path_comps_def)
next
  case (Cons a as)
  with assms have "split_on SLASH (join_with [SLASH] cs) = cs"
    by (intro split_on_join) (auto simp: plain_comp_def)
  then show ?thesis using assms by (simp add: path_comps_def foldl_clean_plain)
qed

lemma split_on_concat: "split_on c (s @ c # t) = split_on c s @ split_on c t"
  by (induction s) (auto split: list.splits)

lemma clean_push_no_slash: "\<forall>d \<in> set out. SLASH \<notin> set d \<Longrightarrow> SLASH \<notin> set c \<Longrightarrow> \<forall>d \<in> set (clean_push r out c). SLASH \<notin> set d"
  by (cases out) (auto simp: SLASH_def)

lemma clean_push_nonempty: "\<forall>d \<in> set out. d \<noteq> [] \<Longrightarrow> \<forall>d \<in> set (clean_push r out c). d \<noteq> []"
  by (cases out) auto

lemma path_comps_no_slash: "c \<in> set (path_comps p) \<Longrightarrow> SLASH \<notin> set c \<and> c \<noteq> []"
proof -
  have "\<forall>d \<in> set (foldl (clean_push r) out cs). SLASH \<notin> set d \<and> d \<noteq> []"
    if "\<forall>c \<in> set cs. SLASH \<notin> set c" and "\<forall>d \<in> set out. SLASH \<notin> set d \<and> d \<noteq> []" for r out cs
    using that
  proof (induction cs arbitrary: out)
    case (Cons c cs)
    have "\<forall>d \<in> set (clean_push r out c). SLASH \<notin> set d \<and> d \<noteq> []"
    proof -
      have a: "\<forall>d \<in> set out. SLASH \<notin> set d" and b: "\<forall>d \<in> set out. d \<noteq> []" and c: "SLASH \<notin> set c"
        using Cons.prems by simp_all
      show ?thesis
        using clean_push_no_slash[OF a c, of r] clean_push_nonempty[OF b, of r c]
        by (simp del: clean_push.simps)
    qed
    note step = Cons.IH[OF _ this]
    show ?case unfolding foldl_Cons using Cons.prems(1) by (intro step) simp
  qed simp
  note base = this[of "split_on SLASH p" "[]" "path_is_abs p"]
  have "\<forall>d \<in> set (path_comps p). SLASH \<notin> set d \<and> d \<noteq> []"
    unfolding path_comps_def set_rev by (rule base) (auto dest: split_on_no_sep)
  then show "c \<in> set (path_comps p) \<Longrightarrow> SLASH \<notin> set c \<and> c \<noteq> []" by blast
qed

lemma path_is_abs_append [simp]: "b \<noteq> [] \<Longrightarrow> path_is_abs (b @ t) = path_is_abs b"
  by (cases b) (auto simp: path_is_abs_def)

text \<open>Plain components below a directory are kept as they are.\<close>

lemma path_clean_below:
  assumes "b \<noteq> []" and "cs \<noteq> []" and "\<forall>c \<in> set cs. plain_comp c"
  shows "path_clean (b @ SLASH # join_with [SLASH] cs) = path_of (path_is_abs b) (path_comps b @ cs)"
proof -
  have "split_on SLASH (b @ SLASH # join_with [SLASH] cs) = split_on SLASH b @ cs"
    using assms(2,3) by (simp add: split_on_concat split_on_join plain_comp_def)
  then have "path_comps (b @ SLASH # join_with [SLASH] cs) = path_comps b @ cs"
    using assms by (simp add: path_comps_def foldl_clean_plain)
  with assms(1) show ?thesis by (simp add: path_clean_def)
qed

lemma path_of_inject_below:
  assumes "cs \<noteq> []" and "ds \<noteq> []" and "\<forall>c \<in> set cs. plain_comp c" and "\<forall>c \<in> set ds. plain_comp c"
  shows "path_of r (path_comps b @ cs) = path_of r (path_comps b @ ds) \<longleftrightarrow> cs = ds"
proof
  assume e: "path_of r (path_comps b @ cs) = path_of r (path_comps b @ ds)"
  then have "join_with [SLASH] (path_comps b @ cs) = join_with [SLASH] (path_comps b @ ds)"
    using assms by (simp add: path_of_def split: if_splits)
  moreover have "split_on SLASH (join_with [SLASH] (path_comps b @ es)) = path_comps b @ es"
    if "es \<noteq> []" and "\<forall>c \<in> set es. plain_comp c" for es
    using that path_comps_no_slash[of _ b] by (intro split_on_join) (auto simp: plain_comp_def)
  ultimately show "cs = ds" using assms by (metis same_append_eq)
qed simp

section \<open>Absolute paths\<close>

lemma not_abs_Nil: "\<not> path_is_abs []"
  by (simp add: path_is_abs_def)

lemma clean_push_rooted: "\<forall>d \<in> set out. plain_comp d \<Longrightarrow> SLASH \<notin> set c \<Longrightarrow> \<forall>d \<in> set (clean_push True out c). plain_comp d"
  by (cases out) (auto simp: plain_comp_def)

lemma foldl_clean_rooted:
  "\<forall>c \<in> set cs. SLASH \<notin> set c \<Longrightarrow> \<forall>d \<in> set out. plain_comp d \<Longrightarrow> \<forall>d \<in> set (foldl (clean_push True) out cs). plain_comp d"
proof (induction cs arbitrary: out)
  case (Cons c cs)
  have "\<forall>d \<in> set (clean_push True out c). plain_comp d" using Cons.prems by (intro clean_push_rooted) auto
  from Cons.IH[OF _ this] Cons.prems show ?case by (simp del: clean_push.simps)
qed simp

lemma path_comps_rooted: "path_is_abs p \<Longrightarrow> c \<in> set (path_comps p) \<Longrightarrow> plain_comp c"
  using foldl_clean_rooted[of "split_on SLASH p" "[]"] split_on_no_sep[of _ SLASH p] by (auto simp: path_comps_def)

lemma path_clean_abs: "path_is_abs p \<Longrightarrow> path_clean p = SLASH # join_with [SLASH] (path_comps p)"
  by (simp add: path_clean_def path_of_def)

lemma path_comps_clean: "path_is_abs p \<Longrightarrow> path_comps (path_clean p) = path_comps p"
  using path_comps_rooted[of p] by (simp add: path_clean_abs path_comps_abs_plain)

lemma path_is_abs_clean: "path_is_abs p \<Longrightarrow> path_is_abs (path_clean p)"
  by (simp add: path_clean_abs path_is_abs_def)

lemma path_clean_idem: "path_is_abs p \<Longrightarrow> path_clean (path_clean p) = path_clean p"
  using path_clean_abs[of p] path_clean_abs[OF path_is_abs_clean, of p] path_comps_clean[of p] by simp

lemma strip_common_split: "strip_common bs ts = (b, t) \<Longrightarrow> \<exists>c. bs = c @ b \<and> ts = c @ t"
proof (induction bs ts rule: strip_common.induct)
  case (1 b' bs t' ts)
  show ?case
  proof (cases "b' = t'")
    case True
    with 1 obtain c where "bs = c @ b" "ts = c @ t" by auto
    with True show ?thesis by (intro exI[of _ "b' # c"]) simp
  next
    case False
    with 1 show ?thesis by simp
  qed
qed auto

lemma has_prefix_dotdot: "has_prefix (join_with [SLASH] (''..'' # ws)) ''..''"
  by (cases ws) (auto simp: has_prefix_def)

text \<open>A relative path that does not start with two dots leads from the base to the target.\<close>

lemma path_rel_below:
  assumes b: "path_is_abs base" and t: "path_is_abs targ"
    and r: "path_rel base targ = Some rel" and np: "\<not> has_prefix rel ''..''"
  shows "\<not> path_is_abs rel \<and> (\<exists>ts. path_comps targ = path_comps base @ ts \<and> rel = (if ts = [] then ''.'' else join_with [SLASH] ts))"
proof (cases "path_clean base = path_clean targ")
  case True
  then have "path_comps targ = path_comps base" using path_comps_clean[OF b] path_comps_clean[OF t] by metis
  moreover have "rel = ''.''" using r True by (simp add: path_rel_def)
  ultimately show ?thesis by (auto simp: path_is_abs_def SLASH_def)
next
  case False
  obtain bs ts where st: "strip_common (path_comps base) (path_comps targ) = (bs, ts)" by fastforce
  then obtain c where c: "path_comps base = c @ bs" "path_comps targ = c @ ts" using strip_common_split by blast
  have rel: "rel = join_with [SLASH] (replicate (length bs) ''..'' @ ts)"
    using r False b t st by (auto simp: path_rel_def split: if_splits)
  have bs: "bs = []"
  proof (rule ccontr)
    assume "bs \<noteq> []"
    then have "rel = join_with [SLASH] (''..'' # replicate (length bs - 1) ''..'' @ ts)"
      unfolding rel by (cases bs) auto
    with np has_prefix_dotdot show False by metis
  qed
  have "ts \<noteq> []" using False c bs b t by (auto simp: path_clean_abs)
  moreover have "\<not> path_is_abs (join_with [SLASH] ts)"
  proof -
    obtain w ws where w: "ts = w # ws" using \<open>ts \<noteq> []\<close> by (cases ts) auto
    have "plain_comp w" using path_comps_rooted[OF t, of w] c w by simp
    then obtain a as where "w = a # as" "a \<noteq> SLASH" by (cases w) (auto simp: plain_comp_def)
    then show ?thesis by (cases ws) (auto simp: w path_is_abs_def)
  qed
  ultimately show ?thesis using c bs rel by auto
qed

lemma path_abs_is_abs:
  assumes "\<And>d. cwd = Some d \<Longrightarrow> path_is_abs d" and "path_abs cwd p = Some a"
  shows "path_is_abs a"
proof (cases "path_is_abs p")
  case True
  with assms(2) show ?thesis by (auto simp: path_abs_def path_is_abs_clean)
next
  case False
  with assms obtain d where d: "path_is_abs d" "a = path_join [d, p]" by (auto simp: path_abs_def)
  then have "d \<noteq> []" by (auto simp: not_abs_Nil)
  with d have "a = path_clean (d @ SLASH # p)" "path_is_abs (d @ SLASH # p)" by (simp_all add: path_join_def)
  then show ?thesis by (simp add: path_is_abs_clean)
qed


section \<open>Hexadecimal components\<close>

lemma of_char_of_nat_small: "n < 256 \<Longrightarrow> (of_char (char_of n) :: nat) = n"
  by (simp add: of_char_of)

lemma of_char_hex_digit: "d < 16 \<Longrightarrow> (of_char (hex_digit d) :: nat) = (if d < 10 then 48 + d else 87 + d)"
proof -
  assume d: "d < 16"
  have "48 + d < 256" "87 + d < 256" using d by linarith+
  from this[THEN of_char_of_nat_small] show ?thesis
    unfolding hex_digit_def by (metis (full_types))
qed

lemma hex_digit_inject: "d < 16 \<Longrightarrow> e < 16 \<Longrightarrow> hex_digit d = hex_digit e \<longleftrightarrow> d = e"
proof
  assume b: "d < 16" "e < 16" and eq: "hex_digit d = hex_digit e"
  have "(if d < 10 then 48 + d else 87 + d) = (if e < 10 then 48 + e else 87 + e)"
    using of_char_hex_digit[OF b(1)] of_char_hex_digit[OF b(2)] eq by (metis (full_types))
  then show "d = e" using b by presburger
qed simp

lemma hex_digit_not: "d < 16 \<Longrightarrow> hex_digit d \<noteq> SLASH \<and> hex_digit d \<noteq> CHR ''.''"
proof -
  assume d: "d < 16"
  have "(of_char SLASH :: nat) = 47" "(of_char (CHR ''.'') :: nat) = 46" by (simp_all add: SLASH_def)
  moreover have "(if d < 10 then 48 + d else 87 + d) \<noteq> 47 \<and> (if d < 10 then 48 + d else 87 + d) \<noteq> 46" using d by presburger
  ultimately show ?thesis using of_char_hex_digit[OF d] by (metis (full_types))
qed

lemma of_char_bound: "(of_char (c :: char) :: nat) < 256"
  by (metis char_of_char of_char_of mod_less_divisor zero_less_numeral)

lemma hex_encode_Cons:
  "hex_encode (c # s) = hex_digit (of_char c div 16) # hex_digit (of_char c mod 16) # hex_encode s"
  by (simp add: hex_encode_def Let_def)

lemma hex_encode_Nil [simp]: "hex_encode [] = []"
  by (simp add: hex_encode_def)

lemma hex_nibbles: "(of_char (c :: char) :: nat) div 16 < 16" "(of_char (c :: char) :: nat) mod 16 < 16"
  using of_char_bound[of c] by (simp_all add: less_mult_imp_div_less)

lemma hex_encode_inject: "hex_encode s = hex_encode t \<longleftrightarrow> s = t"
proof (induction s arbitrary: t)
  case Nil
  then show ?case by (cases t) (auto simp: hex_encode_Cons)
next
  case (Cons c s)
  show ?case
  proof (cases t)
    case Nil
    then show ?thesis by (simp add: hex_encode_Cons)
  next
    case (Cons d t')
    have "(of_char c :: nat) = of_char d \<longleftrightarrow>
        (of_char c :: nat) div 16 = of_char d div 16 \<and> (of_char c :: nat) mod 16 = of_char d mod 16"
      by (metis div_mult_mod_eq)
    then show ?thesis
      using Cons.IH[of t'] hex_nibbles[of c] hex_nibbles[of d] Cons by (auto simp: hex_encode_Cons hex_digit_inject)
  qed
qed

lemma hex_encode_chars: "SLASH \<notin> set (hex_encode s)" "CHR ''.'' \<notin> set (hex_encode s)"
proof (induction s)
  case (Cons c s)
  { case 1 then show ?case using Cons hex_digit_not[OF hex_nibbles(1)[of c]] hex_digit_not[OF hex_nibbles(2)[of c]] by (auto simp: hex_encode_Cons) }
  { case 2 then show ?case using Cons hex_digit_not[OF hex_nibbles(1)[of c]] hex_digit_not[OF hex_nibbles(2)[of c]] by (auto simp: hex_encode_Cons) }
qed simp_all

lemma hex_encode_plain: "s \<noteq> [] \<Longrightarrow> plain_comp (hex_encode s)"
  using hex_encode_chars[of s] hex_encode_inject[of s "[]"] by (auto simp: plain_comp_def)

end
