(* ===== verification/Core_Types.thy ===== *)
theory Core_Types
  imports Go_Float Go_Path
begin

text \<open>
  The domain types of \<open>internal/core\<close> (types.go, bag.go, params.go, backend.go). Go's
  string enumerations stay strings, since any string can occur in a value of such a type; their
  constants are abbreviations. A struct is a record whose fields carry a short prefix, a
  pointer or a nil-able value that the code tests is an \<open>option\<close>, and \<open>zero_\<close> constants are
  the zero values that Go's partial struct literals start from.
\<close>

section \<open>Enumerations\<close>

type_synonym outcome = string
abbreviation OutcomePass :: outcome where "OutcomePass \<equiv> ''pass''"
abbreviation OutcomeFail :: outcome where "OutcomeFail \<equiv> ''fail''"
abbreviation OutcomeError :: outcome where "OutcomeError \<equiv> ''error''"
abbreviation OutcomeSkip :: outcome where "OutcomeSkip \<equiv> ''skip''"

type_synonym run_status = string
abbreviation RunStatusRunning :: run_status where "RunStatusRunning \<equiv> ''running''"
abbreviation RunStatusComplete :: run_status where "RunStatusComplete \<equiv> ''complete''"
abbreviation RunStatusPartial :: run_status where "RunStatusPartial \<equiv> ''partial''"
abbreviation RunStatusFailed :: run_status where "RunStatusFailed \<equiv> ''failed''"
abbreviation RunStatusAbandoned :: run_status where "RunStatusAbandoned \<equiv> ''abandoned''"

type_synonym run_health = string
abbreviation RunHealthHealthy :: run_health where "RunHealthHealthy \<equiv> ''healthy''"
abbreviation RunHealthDegraded :: run_health where "RunHealthDegraded \<equiv> ''degraded''"
abbreviation RunHealthUnhealthy :: run_health where "RunHealthUnhealthy \<equiv> ''unhealthy''"

type_synonym exec_state = string
abbreviation ExecutionQueued :: exec_state where "ExecutionQueued \<equiv> ''queued''"
abbreviation ExecutionRunning :: exec_state where "ExecutionRunning \<equiv> ''running''"
abbreviation ExecutionCompleted :: exec_state where "ExecutionCompleted \<equiv> ''completed''"
abbreviation ExecutionAborted :: exec_state where "ExecutionAborted \<equiv> ''aborted''"

abbreviation StatusDefined :: string where "StatusDefined \<equiv> ''defined''"
abbreviation StatusToBeValidated :: string where "StatusToBeValidated \<equiv> ''to-be-validated''"

abbreviation CheckCapability :: string where "CheckCapability \<equiv> ''capability''"
abbreviation CheckSuite :: string where "CheckSuite \<equiv> ''suite''"
abbreviation CheckScenario :: string where "CheckScenario \<equiv> ''scenario''"
abbreviation CheckManual :: string where "CheckManual \<equiv> ''manual''"

section \<open>Loosely typed values\<close>

text \<open>
  \<open>any\<close> holds what JSON, YAML and the tool adapters put in parameter maps. \<open>AStringer\<close> is a
  value whose dynamic type has a \<open>String\<close> method, by the string that method returns.
\<close>

datatype any =
    ANil
  | AStr string
  | AInt int
  | AInt64 int
  | AInt32 int
  | AFloat f64
  | AFloat32 f64
  | ABool bool
  | AList "any list"
  | AObj "(string \<times> any) list"
  | AStringer string

type_synonym params = "(string, any) gomap"

text \<open>\<open>fmt.Sprint\<close> of one value. Map keys are printed in sorted order.\<close>

fun go_sprint :: "any \<Rightarrow> string" where
  "go_sprint ANil = ''<nil>''"
| "go_sprint (AStr s) = s"
| "go_sprint (AInt i) = show_int i"
| "go_sprint (AInt64 i) = show_int i"
| "go_sprint (AInt32 i) = show_int i"
| "go_sprint (AFloat x) = fmt_g x"
| "go_sprint (AFloat32 x) = fmt_g x"
| "go_sprint (ABool b) = show_bool b"
| "go_sprint (AList vs) = ''['' @ join_with '' '' (map go_sprint vs) @ '']''"
| "go_sprint (AObj m) =
     ''map['' @ join_with '' '' (map (\<lambda>(k, s). k @ '':'' @ s)
        (sort_key fst (map (\<lambda>(k, v). (k, go_sprint v)) m))) @ '']''"
| "go_sprint (AStringer s) = s"

section \<open>Run state\<close>

text \<open>\<open>RunExecution\<close>: progress of one selected TR and variant.\<close>

record run_execution =
  ex_TR :: string
  ex_Variant :: string
  ex_Scenario :: string
  ex_State :: exec_state
  ex_Outcome :: outcome
  ex_Stage :: string
  ex_StartedAt :: string
  ex_EndedAt :: string
  ex_Reason :: string
  ex_Artifacts :: "string list"

definition zero_run_execution :: run_execution where
  "zero_run_execution =
    \<lparr> ex_TR = [], ex_Variant = [], ex_Scenario = [], ex_State = [], ex_Outcome = [],
      ex_Stage = [], ex_StartedAt = [], ex_EndedAt = [], ex_Reason = [], ex_Artifacts = [] \<rparr>"

text \<open>\<open>RunPart\<close>: one harness process that contributed to a composed report.\<close>

record run_part =
  pt_PartID :: string
  pt_Kind :: string
  pt_StartedAt :: string
  pt_EndedAt :: string
  pt_Status :: run_status
  pt_Reason :: string

definition zero_run_part :: run_part where
  "zero_run_part =
    \<lparr> pt_PartID = [], pt_Kind = [], pt_StartedAt = [], pt_EndedAt = [], pt_Status = [],
      pt_Reason = [] \<rparr>"

text \<open>\<open>RunComposition\<close>.\<close>

record run_composition =
  cp_PartsCount :: int
  cp_Parts :: "run_part list"

definition zero_run_composition :: run_composition where
  "zero_run_composition =
    \<lparr> cp_PartsCount = 0, cp_Parts = [] \<rparr>"

text \<open>\<open>Incident\<close>: an abnormal run condition.\<close>

record incident =
  inc_ID :: string
  inc_Type :: string
  inc_Severity :: string
  inc_TR :: string
  inc_Variant :: string
  inc_Tool :: string
  inc_Stage :: string
  inc_Message :: string
  inc_StartedAt :: string
  inc_EndedAt :: string
  inc_DurationS :: f64
  inc_Resolved :: bool
  inc_BlocksCertification :: bool
  inc_Impact :: string
  inc_Evidence :: string

definition zero_incident :: incident where
  "zero_incident =
    \<lparr> inc_ID = [], inc_Type = [], inc_Severity = [], inc_TR = [], inc_Variant = [], inc_Tool
      = [], inc_Stage = [], inc_Message = [], inc_StartedAt = [], inc_EndedAt = [],
      inc_DurationS = Fin 0, inc_Resolved = False, inc_BlocksCertification = False,
      inc_Impact = [], inc_Evidence = [] \<rparr>"

section \<open>Requirements\<close>

text \<open>\<open>SLA\<close>: a catalog descriptor or a thresholds bar. \<open>Value\<close> is a pointer; \<open>MeasuredBy\<close> is nil or a list.\<close>

record sla =
  sla_Metric :: string
  sla_Type :: string
  sla_Operator :: string
  sla_Value :: "f64 option"
  sla_Unit :: string
  sla_Percentile :: string
  sla_Condition :: string
  sla_MeasuredBy :: "string list option"
  sla_When :: params

definition zero_sla :: sla where
  "zero_sla =
    \<lparr> sla_Metric = [], sla_Type = [], sla_Operator = [], sla_Value = None, sla_Unit = [],
      sla_Percentile = [], sla_Condition = [], sla_MeasuredBy = None, sla_When = [] \<rparr>"

text \<open>\<open>ParamSpec\<close>; a nil default is \<open>ANil\<close>.\<close>

record param_spec =
  ps_Required :: bool
  ps_Default :: any

text \<open>\<open>Check\<close>: one non-quantitative criterion.\<close>

record check =
  ck_ID :: string
  ck_Kind :: string
  ck_Name :: string
  ck_Expectation :: string
  ck_Blocking :: "bool option"
  ck_Status :: string
  ck_Tool :: string
  ck_References :: "string list"

definition zero_check :: check where
  "zero_check =
    \<lparr> ck_ID = [], ck_Kind = [], ck_Name = [], ck_Expectation = [], ck_Blocking = None,
      ck_Status = [], ck_Tool = [], ck_References = [] \<rparr>"

text \<open>\<open>TestRequirement\<close>: catalog metadata joined with its bars.\<close>

record test_requirement =
  tr_Variant :: string
  tr_ID :: string
  tr_Title :: string
  tr_Description :: string
  tr_Category :: string
  tr_PartnerLevel :: int
  tr_Verified :: string
  tr_AutomationTool :: string
  tr_SLAStatus :: string
  tr_SLACount :: int
  tr_ChecksStatus :: string
  tr_ChecksCount :: int
  tr_SLAs :: "sla list"
  tr_Bars :: "sla list"
  tr_Checks :: "check list"
  tr_ParamSpec :: "(string, param_spec) gomap"
  tr_Params :: params

definition zero_test_requirement :: test_requirement where
  "zero_test_requirement =
    \<lparr> tr_Variant = [], tr_ID = [], tr_Title = [], tr_Description = [], tr_Category = [],
      tr_PartnerLevel = 0, tr_Verified = [], tr_AutomationTool = [], tr_SLAStatus = [],
      tr_SLACount = 0, tr_ChecksStatus = [], tr_ChecksCount = 0, tr_SLAs = [], tr_Bars = [],
      tr_Checks = [], tr_ParamSpec = [], tr_Params = [] \<rparr>"

section \<open>Results\<close>

text \<open>\<open>Metric\<close>: one normalized measurement of a result parser.\<close>

record metric =
  m_Name :: string
  m_Value :: f64
  m_Unit :: string
  m_Percentile :: string

definition zero_metric :: metric where
  "zero_metric =
    \<lparr> m_Name = [], m_Value = Fin 0, m_Unit = [], m_Percentile = [] \<rparr>"

text \<open>\<open>LogBundle\<close>: what a log collector hands to a result parser.\<close>

record log_bundle =
  lb_TRID :: string
  lb_Refs :: "string list"
  lb_Data :: "(string, string) gomap"
  lb_RefsByTR :: "(string, string list) gomap"

definition zero_log_bundle :: log_bundle where
  "zero_log_bundle =
    \<lparr> lb_TRID = [], lb_Refs = [], lb_Data = [], lb_RefsByTR = [] \<rparr>"

text \<open>\<open>TestResult\<close>: the normalized output of a result parser for one TR.\<close>

record test_result =
  res_TRID :: string
  res_Metrics :: "metric list"
  res_Checks :: "(string, outcome) gomap"
  res_Native :: outcome
  res_Artifacts :: "string list"
  res_Raw :: string

definition zero_test_result :: test_result where
  "zero_test_result =
    \<lparr> res_TRID = [], res_Metrics = [], res_Checks = [], res_Native = [], res_Artifacts = [],
      res_Raw = [] \<rparr>"

text \<open>\<open>Verdict\<close>: the graded result of one SLA or check.\<close>

record verdict =
  v_Variant :: string
  v_TR :: string
  v_Level :: int
  v_Scenario :: string
  v_Item :: string
  v_Outcome :: outcome
  v_DurationS :: f64
  v_Reason :: string
  v_Expected :: string
  v_Actual :: string

definition zero_verdict :: verdict where
  "zero_verdict =
    \<lparr> v_Variant = [], v_TR = [], v_Level = 0, v_Scenario = [], v_Item = [], v_Outcome = [],
      v_DurationS = Fin 0, v_Reason = [], v_Expected = [], v_Actual = [] \<rparr>"

text \<open>\<open>Provenance\<close>: the origin of the knowledge-base export.\<close>

record provenance =
  pv_KBGitCommit :: string
  pv_KBCommitDate :: string
  pv_GeneratedDate :: string

definition zero_provenance :: provenance where
  "zero_provenance =
    \<lparr> pv_KBGitCommit = [], pv_KBCommitDate = [], pv_GeneratedDate = [] \<rparr>"

text \<open>\<open>Finding\<close>: one preflight check result.\<close>

record finding =
  fd_Level :: string
  fd_Message :: string

definition zero_finding :: finding where
  "zero_finding =
    \<lparr> fd_Level = [], fd_Message = [] \<rparr>"

text \<open>\<open>StorageSelection\<close>.\<close>

record storage_selection =
  ss_TR :: string
  ss_Variant :: string
  ss_Scenario :: string
  ss_StorageClass :: string
  ss_SnapshotClass :: string
  ss_EffectiveStorageClass :: string

definition zero_storage_selection :: storage_selection where
  "zero_storage_selection =
    \<lparr> ss_TR = [], ss_Variant = [], ss_Scenario = [], ss_StorageClass = [], ss_SnapshotClass
      = [], ss_EffectiveStorageClass = [] \<rparr>"

text \<open>\<open>Measurement\<close>: a reported value, graded or not.\<close>

record measurement =
  me_Variant :: string
  me_TR :: string
  me_Level :: int
  me_Scenario :: string
  me_Name :: string
  me_Value :: f64
  me_Unit :: string
  me_Percentile :: string

definition zero_measurement :: measurement where
  "zero_measurement =
    \<lparr> me_Variant = [], me_TR = [], me_Level = 0, me_Scenario = [], me_Name = [], me_Value =
      Fin 0, me_Unit = [], me_Percentile = [] \<rparr>"

section \<open>Environment and attestations\<close>

text \<open>\<open>Fact\<close>: a source-tagged environment datum.\<close>

record fact =
  fact_Key :: string
  fact_Value :: string
  fact_Source :: string

definition zero_fact :: fact where
  "zero_fact =
    \<lparr> fact_Key = [], fact_Value = [], fact_Source = [] \<rparr>"

text \<open>\<open>Hardware\<close>.\<close>

record hardware =
  hw_Nodes :: int
  hw_Facts :: "fact list"

definition zero_hardware :: hardware where
  "zero_hardware =
    \<lparr> hw_Nodes = 0, hw_Facts = [] \<rparr>"

text \<open>\<open>CSIDriverInfo\<close>.\<close>

record csi_driver_info =
  csi_Name :: string
  csi_Version :: string
  csi_AttachRequired :: bool
  csi_FSGroupPolicy :: string
  csi_VolumeLifecycleModes :: "string list"
  csi_Capabilities :: "string list"

definition zero_csi_driver_info :: csi_driver_info where
  "zero_csi_driver_info =
    \<lparr> csi_Name = [], csi_Version = [], csi_AttachRequired = False, csi_FSGroupPolicy = [],
      csi_VolumeLifecycleModes = [], csi_Capabilities = [] \<rparr>"

text \<open>\<open>OperatorInfo\<close>.\<close>

record operator_info =
  op_Name :: string
  op_Version :: string
  op_Channel :: string
  op_Source :: string

definition zero_operator_info :: operator_info where
  "zero_operator_info =
    \<lparr> op_Name = [], op_Version = [], op_Channel = [], op_Source = [] \<rparr>"

text \<open>\<open>StorageClassInfo\<close>.\<close>

record storage_class_info =
  sci_Name :: string
  sci_Provisioner :: string
  sci_IsDefault :: bool
  sci_UnderTest :: bool
  sci_ReclaimPolicy :: string
  sci_VolumeBindingMode :: string
  sci_Parameters :: "(string, string) gomap"

definition zero_storage_class_info :: storage_class_info where
  "zero_storage_class_info =
    \<lparr> sci_Name = [], sci_Provisioner = [], sci_IsDefault = False, sci_UnderTest = False,
      sci_ReclaimPolicy = [], sci_VolumeBindingMode = [], sci_Parameters = [] \<rparr>"

text \<open>\<open>Platform\<close>.\<close>

record platform =
  pf_OCPVersion :: string
  pf_KubeVersion :: string
  pf_CNVVersion :: string
  pf_CSIDriver :: csi_driver_info
  pf_Operators :: "operator_info list"
  pf_StorageClasses :: "storage_class_info list"
  pf_Backend :: string
  pf_Facts :: "fact list"

definition zero_platform :: platform where
  "zero_platform =
    \<lparr> pf_OCPVersion = [], pf_KubeVersion = [], pf_CNVVersion = [], pf_CSIDriver =
      zero_csi_driver_info, pf_Operators = [], pf_StorageClasses = [], pf_Backend = [],
      pf_Facts = [] \<rparr>"

text \<open>\<open>Environment\<close>: the run origin.\<close>

record environment =
  env_Hardware :: hardware
  env_Platform :: platform

definition zero_environment :: environment where
  "zero_environment =
    \<lparr> env_Hardware = zero_hardware, env_Platform = zero_platform \<rparr>"

text \<open>\<open>Attestation\<close>: a partner claim the cluster does not show.\<close>

record attestation =
  att_Claim :: string
  att_Value :: string
  att_SignedBy :: string

definition zero_attestation :: attestation where
  "zero_attestation =
    \<lparr> att_Claim = [], att_Value = [], att_SignedBy = [] \<rparr>"

section \<open>The report\<close>

text \<open>\<open>Summary\<close>.\<close>

record summary =
  sm_Total :: int
  sm_Pass :: int
  sm_Fail :: int
  sm_Error :: int
  sm_Skip :: int
  sm_CertifiedLevel :: int

definition zero_summary :: summary where
  "zero_summary =
    \<lparr> sm_Total = 0, sm_Pass = 0, sm_Fail = 0, sm_Error = 0, sm_Skip = 0, sm_CertifiedLevel =
      0 \<rparr>"

text \<open>\<open>LevelRollup\<close>: the aggregate outcome of one partner level.\<close>

record level_rollup =
  lr_Level :: int
  lr_Outcome :: outcome

definition zero_level_rollup :: level_rollup where
  "zero_level_rollup =
    \<lparr> lr_Level = 0, lr_Outcome = [] \<rparr>"

text \<open>\<open>Report\<close>: the certification run output.\<close>

record report =
  r_RunID :: string
  r_Status :: run_status
  r_Health :: run_health
  r_Certifiable :: bool
  r_CompletionReason :: string
  r_SchemaVersion :: string
  r_Provenance :: provenance
  r_Environment :: environment
  r_StorageSelections :: "storage_selection list"
  r_Attestations :: "attestation list"
  r_Composition :: run_composition
  r_Executions :: "run_execution list"
  r_Incidents :: "incident list"
  r_Verdicts :: "verdict list"
  r_Measurements :: "measurement list"
  r_Warnings :: "string list"
  r_Levels :: "level_rollup list"
  r_Summary :: summary

definition zero_report :: report where
  "zero_report =
    \<lparr> r_RunID = [], r_Status = [], r_Health = [], r_Certifiable = False, r_CompletionReason
      = [], r_SchemaVersion = [], r_Provenance = zero_provenance, r_Environment =
      zero_environment, r_StorageSelections = [], r_Attestations = [], r_Composition =
      zero_run_composition, r_Executions = [], r_Incidents = [], r_Verdicts = [],
      r_Measurements = [], r_Warnings = [], r_Levels = [], r_Summary = zero_summary \<rparr>"

section \<open>Bag\<close>

text \<open>\<open>Bag\<close>: scratch state of one pipeline; its mutex makes each operation one step.\<close>

type_synonym bag = "(string, any) gomap"

definition NewBag :: bag where
  "NewBag = []"

definition Bag_Set :: "bag \<Rightarrow> string \<Rightarrow> any \<Rightarrow> bag" where
  "Bag_Set b key v = gm_set key v b"

definition Bag_Get :: "bag \<Rightarrow> string \<Rightarrow> any option" where
  "Bag_Get b key = gm_get b key"

text \<open>\<open>GetAs\<close>: the type assertion is a partial projection of \<open>any\<close>.\<close>

definition GetAs :: "(any \<Rightarrow> 'a option) \<Rightarrow> bag \<Rightarrow> string \<Rightarrow> 'a option" where
  "GetAs is_a b key = (case Bag_Get b key of None \<Rightarrow> None | Some v \<Rightarrow> is_a v)"

section \<open>Parameter coercions\<close>

fun AsString :: "any \<Rightarrow> string option" where
  "AsString (AStr s) = Some s"
| "AsString (AStringer s) = Some s"
| "AsString _ = None"

fun AsInt :: "any \<Rightarrow> int option" where
  "AsInt (AInt i) = Some i"
| "AsInt (AInt64 i) = Some i"
| "AsInt (AFloat x) = Some (f64_to_int x)"
| "AsInt (AStr s) = atoi s"
| "AsInt _ = None"

fun AsBool :: "any \<Rightarrow> bool option" where
  "AsBool (ABool b) = Some b"
| "AsBool (AStr s) = parse_bool s"
| "AsBool _ = None"

section \<open>Storage backends\<close>

text \<open>\<open>Backend\<close>, \<open>SecretRef\<close>, \<open>K8sSecretRef\<close> and \<open>ResolvedBackend\<close>.\<close>

record k8s_secret_ref =
  ks_Namespace :: string
  ks_Name :: string
  ks_Key :: string

record secret_ref =
  sr_File :: string
  sr_K8sSecret :: "k8s_secret_ref option"
  sr_Inline :: string

record backend =
  be_Name :: string
  be_Vendor :: string
  be_StorageClass :: string
  be_SnapshotClass :: string
  be_Params :: params
  be_Secrets :: "(string, secret_ref) gomap"

record resolved_backend =
  rb_Name :: string
  rb_Vendor :: string
  rb_StorageClass :: string
  rb_SnapshotClass :: string
  rb_Params :: params
  rb_secrets :: "(string, string) gomap"

definition NewResolvedBackend :: "backend \<Rightarrow> (string, string) gomap \<Rightarrow> resolved_backend" where
  "NewResolvedBackend b secrets =
    \<lparr> rb_Name = be_Name b, rb_Vendor = be_Vendor b, rb_StorageClass = be_StorageClass b,
      rb_SnapshotClass = be_SnapshotClass b, rb_Params = be_Params b, rb_secrets = secrets \<rparr>"

definition Secret :: "resolved_backend \<Rightarrow> string \<Rightarrow> string option" where
  "Secret r key = gm_get (rb_secrets r) key"

definition Param :: "resolved_backend \<Rightarrow> string \<Rightarrow> any option" where
  "Param r key = gm_get (rb_Params r) key"

section \<open>Execution directories and labels\<close>

text \<open>\<open>RunCtx.ExecutionDir\<close>, by the two fields of the run context it reads.\<close>

definition ExecutionDir :: "string \<Rightarrow> string \<Rightarrow> string \<Rightarrow> string \<Rightarrow> string \<Rightarrow> string" where
  "ExecutionDir workDir runID toolSubdir trID variant =
     (let base = (if workDir = [] then ''.'' else workDir);
          leaf = (if variant \<noteq> [] then trID @ ''.'' @ variant else trID)
      in path_join [base, toolSubdir, leaf, runID])"

definition ExecutionLabel :: "string \<Rightarrow> string \<Rightarrow> string" where
  "ExecutionLabel trID variant = (if variant = [] then trID else trID @ '' ['' @ variant @ '']'')"

lemma Bag_Get_Set [simp, go_map]: "Bag_Get (Bag_Set b k v) k' = (if k = k' then Some v else Bag_Get b k')"
  by (simp add: Bag_Get_def Bag_Set_def)

section \<open>Composite keys\<close>

text \<open>The maps of the harness are keyed by names joined with NUL bytes. Such a key determines NUL-free names.\<close>

definition nul_join :: "string list \<Rightarrow> string" where
  "nul_join ws = join_with NUL ws"

lemma nul_join_inject:
  assumes "length ws = length vs" and "\<forall>w \<in> set ws \<union> set vs. CHR 0x00 \<notin> set w"
  shows "nul_join ws = nul_join vs \<longleftrightarrow> ws = vs"
proof (cases "ws = []")
  case True
  with assms(1) show ?thesis by simp
next
  case False
  then have "vs \<noteq> []" using assms(1) by auto
  with False assms(2) have "split_on (CHR 0x00) (nul_join ws) = ws" "split_on (CHR 0x00) (nul_join vs) = vs"
    unfolding nul_join_def NUL_def by (simp_all add: split_on_join)
  then show ?thesis by metis
qed

subsection \<open>Every execution has a results directory of its own\<close>

definition exec_leaf :: "string \<Rightarrow> string \<Rightarrow> string" where
  "exec_leaf trID variant = (if variant \<noteq> [] then trID @ ''.'' @ variant else trID)"

lemma exec_leaf_plain:
  assumes "plain_comp trID" and "CHR ''.'' \<notin> set trID" and "SLASH \<notin> set variant"
  shows "plain_comp (exec_leaf trID variant)"
  using assms by (cases trID) (auto simp: exec_leaf_def plain_comp_def SLASH_def)

lemma exec_leaf_inject:
  assumes "CHR ''.'' \<notin> set a" and "CHR ''.'' \<notin> set b"
  shows "exec_leaf a v = exec_leaf b w \<longleftrightarrow> a = b \<and> v = w"
  using assms sep_inject[of "CHR ''.''" a b v w] by (auto simp: exec_leaf_def)

lemma ExecutionDir_comps:
  assumes "plain_comp sub" and "plain_comp (exec_leaf trID variant)" and "plain_comp runID"
  shows "ExecutionDir workDir runID sub trID variant =
    path_of (path_is_abs workDir) (path_comps (if workDir = [] then ''.'' else workDir) @ [sub, exec_leaf trID variant, runID])"
proof -
  let ?b = "if workDir = [] then ''.'' else workDir"
  have b: "?b \<noteq> []" by simp
  have a: "path_is_abs ?b = path_is_abs workDir" by (simp add: path_is_abs_def SLASH_def)
  have "ExecutionDir workDir runID sub trID variant = path_clean (?b @ SLASH # join_with [SLASH] [sub, exec_leaf trID variant, runID])"
    using b by (auto simp: ExecutionDir_def exec_leaf_def path_join_def Let_def)
  also have "\<dots> = path_of (path_is_abs workDir) (path_comps ?b @ [sub, exec_leaf trID variant, runID])"
    using path_clean_below[OF b, of "[sub, exec_leaf trID variant, runID]"] assms a by simp
  finally show ?thesis .
qed

text \<open>
  Two executions of one run directory (same tool subdirectory or not) whose tool, TR,
  variant or run id differ get different results directories, so a collector that reads its own
  directory cannot reach the output of another execution. TR ids and variants without dots and
  slashes are what the code's comment relies on.
\<close>

theorem ExecutionDir_isolated:
  assumes "plain_comp sub1" and "plain_comp sub2" and "plain_comp run1" and "plain_comp run2"
    and "plain_comp tr1" and "plain_comp tr2" and "CHR ''.'' \<notin> set tr1" and "CHR ''.'' \<notin> set tr2"
    and "SLASH \<notin> set v1" and "SLASH \<notin> set v2"
  shows "ExecutionDir w run1 sub1 tr1 v1 = ExecutionDir w run2 sub2 tr2 v2 \<longleftrightarrow>
         sub1 = sub2 \<and> tr1 = tr2 \<and> v1 = v2 \<and> run1 = run2"
proof -
  have p: "plain_comp (exec_leaf tr1 v1)" "plain_comp (exec_leaf tr2 v2)"
    using assms by (auto intro: exec_leaf_plain)
  show ?thesis
    unfolding ExecutionDir_comps[OF assms(1) p(1) assms(3)] ExecutionDir_comps[OF assms(2) p(2) assms(4)]
    using path_of_inject_below[of "[sub1, exec_leaf tr1 v1, run1]" "[sub2, exec_leaf tr2 v2, run2]"]
      assms p exec_leaf_inject[of tr1 tr2 v1 v2] by auto
qed

theorem ExecutionDir_isolated_witness:
  "ExecutionDir ''/w'' ''r2'' ''t'' ''vm'' [] \<noteq> ExecutionDir ''/w'' ''r1'' ''t'' ''vm'' ''big''"
  by (subst ExecutionDir_isolated) (auto simp: plain_comp_def SLASH_def)

end
