(* ===== verification/Grader.thy ===== *)
theory Grader
  imports Core_Types
begin

text \<open>
  \<open>internal/grader\<close>: unit-aware comparison (units.go), the built-in scoring of SLAs and checks
  (evaluators.go) and \<open>GradeTR\<close> (grader.go). The lemmas characterise the verdict of every
  branch and prove the comparison monotone in the measured value.
\<close>

section \<open>Units\<close>

text \<open>Multiplier to the base unit, and the dimension. The two micro signs are their UTF-8 bytes.\<close>

definition micro_s :: string where "micro_s = [CHR 0xC2, CHR 0xB5, CHR ''s'']"
definition greek_mu_s :: string where "greek_mu_s = [CHR 0xCE, CHR 0xBC, CHR ''s'']"

definition unitTable :: "(string, rat \<times> string) gomap" where
  "unitTable =
    [(''ns'', (1 / 10 ^ 9, ''time'')), (''us'', (1 / 10 ^ 6, ''time'')),
     (micro_s, (1 / 10 ^ 6, ''time'')), (greek_mu_s, (1 / 10 ^ 6, ''time'')),
     (''ms'', (1 / 10 ^ 3, ''time'')), (''s'', (1, ''time'')), (''sec'', (1, ''time'')), (''secs'', (1, ''time'')),
     (''min'', (60, ''time'')), (''mins'', (60, ''time'')),
     (''h'', (3600, ''time'')), (''hr'', (3600, ''time'')), (''hour'', (3600, ''time'')), (''hours'', (3600, ''time'')),
     (''%'', (1, ''ratio'')), (''percent'', (1, ''ratio'')), (''pct'', (1, ''ratio'')), (''ratio'', (100, ''ratio'')),
     (''iops'', (1, ''iops'')),
     (''kibps'', (1 / 1024, ''byte_rate'')), (''mibps'', (1, ''byte_rate'')), (''gibps'', (1024, ''byte_rate''))]"

text \<open>\<open>canonicalize\<close>: \<open>None\<close> is \<open>ok = false\<close>. A decimal factor is the nearest \<open>float64\<close>.\<close>

definition canonicalize :: "f64 \<Rightarrow> string \<Rightarrow> (f64 \<times> string) option" where
  "canonicalize value unit =
     (let u = trim_space unit in
      if u = [] then None
      else case gm_get unitTable u of
        Some (factor, dm) \<Rightarrow> Some (f64_mul value (to_f64 factor), dm)
      | None \<Rightarrow> (case gm_get unitTable (to_lower u) of
          Some (factor, dm) \<Rightarrow> Some (f64_mul value (to_f64 factor), dm)
        | None \<Rightarrow> None))"

definition compare :: "f64 \<Rightarrow> string \<Rightarrow> f64 \<Rightarrow> bool" where
  "compare actual op want =
     (if op = ''<='' then f64_le actual want
      else if op = ''<'' then f64_lt actual want
      else if op = ''>='' then f64_le want actual
      else if op = ''>'' then f64_lt want actual
      else if op = ''=='' then f64_eq actual want
      else False)"

text \<open>\<open>compareWithUnits\<close>: the results \<open>pass\<close> and \<open>incompatible\<close>.\<close>

definition compareWithUnits :: "f64 \<Rightarrow> string \<Rightarrow> string \<Rightarrow> f64 \<Rightarrow> string \<Rightarrow> bool \<times> bool" where
  "compareWithUnits measured measuredUnit op want wantUnit =
     (case (canonicalize measured measuredUnit, canonicalize want wantUnit) of
        (Some (mv, mdim), Some (wv, wdim)) \<Rightarrow>
          if mdim = wdim then (compare mv op wv, False) else (False, True)
      | _ \<Rightarrow> (compare measured op want, False))"

section \<open>Bar selection\<close>

fun toFloat :: "any \<Rightarrow> f64 option" where
  "toFloat (AFloat x) = Some x"
| "toFloat (AFloat32 x) = Some x"
| "toFloat (AInt i) = Some (f64_of_int i)"
| "toFloat (AInt64 i) = Some (f64_of_int i)"
| "toFloat (AInt32 i) = Some (f64_of_int i)"
| "toFloat _ = None"

definition paramEqual :: "any \<Rightarrow> any \<Rightarrow> bool" where
  "paramEqual a b =
     (case toFloat a of
        Some af \<Rightarrow> (case toFloat b of Some bf \<Rightarrow> f64_eq af bf | None \<Rightarrow> False)
      | None \<Rightarrow> go_sprint a = go_sprint b)"

text \<open>\<open>whenSubset\<close>: the loop over \<open>when\<close> in the order of that map.\<close>

fun whenSubset :: "params \<Rightarrow> params \<Rightarrow> bool" where
  "whenSubset [] params = True"
| "whenSubset ((k, v) # when) params =
     (case gm_get params k of
        None \<Rightarrow> False
      | Some pv \<Rightarrow> if paramEqual v pv then whenSubset when params else False)"

fun selectBars :: "sla list \<Rightarrow> string \<Rightarrow> string \<Rightarrow> params \<Rightarrow> sla list" where
  "selectBars [] metric percentile params = []"
| "selectBars (b # bars) metric percentile params =
     (if sla_Metric b \<noteq> metric \<or> sla_Percentile b \<noteq> percentile then selectBars bars metric percentile params
      else if whenSubset (sla_When b) params then b # selectBars bars metric percentile params
      else selectBars bars metric percentile params)"

definition measures :: "string list option \<Rightarrow> string \<Rightarrow> bool" where
  "measures measuredBy tool = (case measuredBy of None \<Rightarrow> True | Some ts \<Rightarrow> tool \<in> set ts)"

fun findMetric :: "metric list \<Rightarrow> string \<Rightarrow> string \<Rightarrow> metric option" where
  "findMetric [] name percentile = None"
| "findMetric (m # ms) name percentile =
     (if m_Name m \<noteq> name then findMetric ms name percentile
      else if percentile \<noteq> [] \<and> m_Percentile m \<noteq> percentile then findMetric ms name percentile
      else Some m)"

section \<open>Labels\<close>

definition metricLabel :: "string \<Rightarrow> string \<Rightarrow> string" where
  "metricLabel metric percentile = (if percentile \<noteq> [] then metric @ ''@'' @ percentile else metric)"

definition slaItem :: "sla \<Rightarrow> string" where
  "slaItem s = ''sla:'' @ metricLabel (sla_Metric s) (sla_Percentile s)"

definition unitOr :: "string \<Rightarrow> string \<Rightarrow> string" where
  "unitOr a b = (if a \<noteq> [] then a else b)"

definition reasonWithExpectation :: "string \<Rightarrow> string \<Rightarrow> string" where
  "reasonWithExpectation pre expectation =
     (if expectation = [] then pre else pre @ '': '' @ expectation)"

text \<open>\<open>%g %s\<close> and \<open>%s %g %s\<close>.\<close>

definition value_unit :: "f64 \<Rightarrow> string \<Rightarrow> string" where
  "value_unit x u = fmt_g x @ '' '' @ u"

definition bar_text :: "sla \<Rightarrow> f64 \<Rightarrow> string" where
  "bar_text bar value = sla_Operator bar @ '' '' @ value_unit value (sla_Unit bar)"

section \<open>Scoring\<close>

text \<open>The body of the loop of \<open>gradeSLAs\<close> for one descriptor.\<close>

definition gradeSLA :: "test_requirement \<Rightarrow> test_result \<Rightarrow> sla \<Rightarrow> verdict" where
  "gradeSLA tr res d =
     (let v0 = zero_verdict\<lparr>v_TR := tr_ID tr, v_Item := slaItem d\<rparr>;
          label = metricLabel (sla_Metric d) (sla_Percentile d);
          bars = selectBars (tr_Bars tr) (sla_Metric d) (sla_Percentile d) (tr_Params tr);
          m = findMetric (res_Metrics res) (sla_Metric d) (sla_Percentile d);
          report_only = v0\<lparr>v_Outcome := OutcomeSkip,
            v_Reason := ''report-only: no threshold bar for these run params'',
            v_Actual := (case m of Some x \<Rightarrow> value_unit (m_Value x) (unitOr (m_Unit x) (sla_Unit d)) | None \<Rightarrow> [])\<rparr>
      in if \<not> measures (sla_MeasuredBy d) (tr_AutomationTool tr) then
           v0\<lparr>v_Outcome := OutcomeSkip,
             v_Reason := ''tool cannot measure metric: '' @ go_quote (tr_AutomationTool tr) @ '' not in measured_by''\<rparr>
         else case bars of
           [] \<Rightarrow> report_only
         | bar # others \<Rightarrow>
            (if others \<noteq> [] then
               v0\<lparr>v_Outcome := OutcomeError,
                 v_Reason := ''data error: '' @ show_nat (length bars) @ '' threshold bars match '' @ go_quote label
                   @ '' for the run params '' @ [CHR 0xE2, CHR 0x80, CHR 0x94] @ '' bars must be disjoint by when''\<rparr>
             else case sla_Value bar of
               None \<Rightarrow> report_only
             | Some want \<Rightarrow>
                (case m of
                   None \<Rightarrow> v0\<lparr>v_Outcome := OutcomeError,
                     v_Reason := ''missing required metric '' @ go_quote label @ '' for graded SLA''\<rparr>
                 | Some x \<Rightarrow>
                    (let (pass, incompatible) = compareWithUnits (m_Value x) (m_Unit x) (sla_Operator bar) want (sla_Unit bar);
                         v1 = v0\<lparr>v_Expected := bar_text bar want,
                           v_Actual := value_unit (m_Value x) (unitOr (m_Unit x) (sla_Unit bar))\<rparr>
                     in if incompatible then
                          v1\<lparr>v_Outcome := OutcomeError,
                            v_Reason := ''incompatible units: measured '' @ go_quote (m_Unit x)
                              @ '' cannot be compared to sla '' @ go_quote (sla_Unit bar)\<rparr>
                        else v1\<lparr>v_Outcome := (if pass then OutcomePass else OutcomeFail), v_Reason := sla_Condition bar\<rparr>))))"

definition gradeSLAs :: "test_requirement \<Rightarrow> test_result \<Rightarrow> verdict list" where
  "gradeSLAs tr res = map (gradeSLA tr res) (tr_SLAs tr)"

definition gradeCheck :: "test_requirement \<Rightarrow> test_result \<Rightarrow> check \<Rightarrow> verdict" where
  "gradeCheck tr res c =
     (let v0 = zero_verdict\<lparr>v_TR := tr_ID tr, v_Item := ''check:'' @ ck_ID c\<rparr>;
          why = (\<lambda>pre. reasonWithExpectation pre (ck_Expectation c))
      in if ck_Status c = StatusToBeValidated then
           v0\<lparr>v_Outcome := OutcomeSkip, v_Reason := why ''check to-be-validated: no automation yet''\<rparr>
         else if ck_Kind c = CheckManual then
           v0\<lparr>v_Outcome := OutcomeSkip, v_Reason := why ''manual check: requires human sign-off''\<rparr>
         else case gm_get (res_Checks res) (ck_ID c) of
           None \<Rightarrow> v0\<lparr>v_Outcome := OutcomeError,
             v_Reason := why (''missing required outcome for '' @ ck_Kind c @ '' check'')\<rparr>
         | Some native \<Rightarrow>
            v0\<lparr>v_Outcome := (if native \<in> set [OutcomePass, OutcomeFail, OutcomeSkip, OutcomeError]
                               then native else OutcomeError),
              v_Reason := why (ck_Kind c @ '' check'')\<rparr>)"

definition gradeChecks :: "test_requirement \<Rightarrow> test_result \<Rightarrow> verdict list" where
  "gradeChecks tr res = map (gradeCheck tr res) (tr_Checks tr)"

text \<open>A custom evaluator of a tool: an error with its message, or verdicts. A registered nil is \<open>None\<close>.\<close>

type_synonym evaluator = "test_requirement \<Rightarrow> test_result \<Rightarrow> string + verdict list"

definition GradeTR :: "test_requirement \<Rightarrow> test_result \<Rightarrow> (string, evaluator option) gomap \<Rightarrow> verdict list" where
  "GradeTR tr res toolEvaluators =
     (case gm_get toolEvaluators (tr_ID tr) of
        Some (Some ev) \<Rightarrow>
          (case ev tr res of
             Inl err \<Rightarrow> [zero_verdict\<lparr>v_TR := tr_ID tr, v_Item := ''custom'', v_Outcome := OutcomeError, v_Reason := err\<rparr>]
           | Inr vs \<Rightarrow> map (\<lambda>v. if v_TR v = [] then v\<lparr>v_TR := tr_ID tr\<rparr> else v) vs)
      | _ \<Rightarrow> gradeSLAs tr res @ gradeChecks tr res)"

text \<open>\<open>NativeOrGraded\<close> (evaluator.go).\<close>

definition NativeOrGraded :: "string \<Rightarrow> string \<Rightarrow> evaluator" where
  "NativeOrGraded item reason tr res =
     (if tr_SLAs tr \<noteq> [] \<or> tr_Checks tr \<noteq> [] then Inr (GradeTR tr res [])
      else Inr [zero_verdict\<lparr>v_TR := tr_ID tr, v_Item := item,
                 v_Outcome := (if res_Native res = [] then OutcomeError else res_Native res), v_Reason := reason\<rparr>])"

section \<open>Selection lemmas\<close>

lemma selectBars_filter:
  "selectBars bars m p ps = filter (\<lambda>b. sla_Metric b = m \<and> sla_Percentile b = p \<and> whenSubset (sla_When b) ps) bars"
  by (induction bars) auto

lemma whenSubset_iff:
  "whenSubset w ps \<longleftrightarrow> (\<forall>(k, v) \<in> set w. \<exists>pv. gm_get ps k = Some pv \<and> paramEqual v pv)"
  by (induction w) (auto split: option.splits if_splits)

lemma selectBars_perm:
  "mset bars = mset bars' \<Longrightarrow> mset (selectBars bars m p ps) = mset (selectBars bars' m p ps)"
  unfolding selectBars_filter mset_filter by simp

lemma findMetric_Some:
  "findMetric ms n p = Some m \<Longrightarrow> m \<in> set ms \<and> m_Name m = n \<and> (p = [] \<or> m_Percentile m = p)"
  by (induction ms) (auto split: if_splits)

lemma findMetric_None:
  "findMetric ms n p = None \<longleftrightarrow> (\<forall>m \<in> set ms. m_Name m = n \<longrightarrow> p \<noteq> [] \<and> m_Percentile m \<noteq> p)"
  by (induction ms) auto

section \<open>Comparison lemmas\<close>

text \<open>The operators that bound a value from above, and from below.\<close>

definition upper_op :: "string \<Rightarrow> bool" where
  "upper_op op = (op = ''<='' \<or> op = ''<'')"

definition lower_op :: "string \<Rightarrow> bool" where
  "lower_op op = (op = ''>='' \<or> op = ''>'')"

lemma f64_le_lt_trans: "f64_le x y \<Longrightarrow> f64_lt y z \<Longrightarrow> f64_lt x z"
  unfolding f64_lt_def using f64_le_trans f64_le_antisym by blast

lemma f64_lt_le_trans: "f64_lt x y \<Longrightarrow> f64_le y z \<Longrightarrow> f64_lt x z"
  unfolding f64_lt_def using f64_le_trans f64_le_antisym by blast

lemma compare_upper: "upper_op op \<Longrightarrow> f64_le x y \<Longrightarrow> compare y op w \<Longrightarrow> compare x op w"
  by (auto simp: upper_op_def compare_def intro: f64_le_trans f64_le_lt_trans)

lemma compare_lower: "lower_op op \<Longrightarrow> f64_le x y \<Longrightarrow> compare x op w \<Longrightarrow> compare y op w"
  by (auto simp: lower_op_def compare_def intro: f64_le_trans f64_lt_le_trans)

lemma compare_bad_op:
  "op \<notin> {''<='', ''<'', ''>='', ''>'', ''==''} \<Longrightarrow> \<not> compare x op w"
  by (auto simp: compare_def)

lemma compare_NaN: "\<not> compare NaN op w"
  by (auto simp: compare_def f64_lt_def f64_eq_def)

text \<open>Every factor of the table is a positive finite \<open>float64\<close>, so canonicalising keeps the order.\<close>

lemma unitTable_factor:
  "gm_get unitTable u = Some (f, dm) \<Longrightarrow> 1 / 10 ^ 9 \<le> f \<and> f \<le> 3600"
  by (drule gm_get_Some_set) (auto simp: unitTable_def)

lemma unitTable_factor_f64:
  assumes "gm_get unitTable u = Some (f, dm)"
  shows "\<exists>c. to_f64 f = Fin c \<and> 0 < c"
proof (rule to_f64_factor)
  from unitTable_factor[OF assms] have f: "1 / 10 ^ 9 \<le> f" "f \<le> 3600" by auto
  have "(2::rat) powi (- 1074) \<le> 2 powi (- 30)" by (intro power_int_increasing) auto
  also have "\<dots> \<le> 1 / 10 ^ 9" by (simp add: power_int_minus power_int_def power_divide)
  finally show "2 powi (- 1074) \<le> f" using f by simp
  show "f \<le> 2 ^ 52" using f by simp
qed

text \<open>What canonicalising with a given unit does: nothing, or scaling by a positive factor.\<close>

lemma canonicalize_cases:
  obtains (raw) "\<And>x. canonicalize x u = None"
  | (scaled) c dm where "0 < c" and "\<And>x. canonicalize x u = Some (f64_mul x (Fin c), dm)"
proof -
  let ?t = "trim_space u"
  show thesis
  proof (cases "gm_get unitTable ?t")
    case (Some p)
    then obtain f dm where p: "gm_get unitTable ?t = Some (f, dm)" by (cases p) auto
    then obtain c where "to_f64 f = Fin c" "0 < c" using unitTable_factor_f64 by blast
    moreover have "?t \<noteq> []" using p by (auto simp: unitTable_def micro_s_def greek_mu_s_def gm_get_def)
    ultimately show thesis using p by (intro scaled[of c dm]) (auto simp: canonicalize_def Let_def)
  next
    case None
    show thesis
    proof (cases "?t = [] \<or> gm_get unitTable (to_lower ?t) = None")
      case True
      with None show thesis by (intro raw) (auto simp: canonicalize_def Let_def)
    next
      case False
      then obtain f dm where p: "gm_get unitTable (to_lower ?t) = Some (f, dm)" by auto
      then obtain c where "to_f64 f = Fin c" "0 < c" using unitTable_factor_f64 by blast
      with None False p show thesis by (intro scaled[of c dm]) (auto simp: canonicalize_def Let_def)
    qed
  qed
qed

lemma compareWithUnits_order:
  assumes step: "\<And>a b v. f64_le a b \<Longrightarrow> compare (if up then b else a) op v \<Longrightarrow> compare (if up then a else b) op v"
    and le: "f64_le x y"
    and pass: "fst (compareWithUnits (if up then y else x) mu op w wu)"
  shows "fst (compareWithUnits (if up then x else y) mu op w wu)"
proof (cases rule: canonicalize_cases[of mu])
  case raw
  then show ?thesis using pass step[OF le] by (auto simp: compareWithUnits_def split: if_splits)
next
  case (scaled c dm)
  have "f64_le (f64_mul x (Fin c)) (f64_mul y (Fin c))" using scaled(1) le by (rule f64_mul_mono)
  with scaled pass step[OF this] step[OF le] show ?thesis
    by (auto simp: compareWithUnits_def split: if_splits option.splits prod.splits)
qed

lemma gradeSLA_simps [simp]:
  "v_TR (gradeSLA tr res d) = tr_ID tr" "v_Item (gradeSLA tr res d) = slaItem d"
  "v_Variant (gradeSLA tr res d) = []" "v_Scenario (gradeSLA tr res d) = []"
  by (auto simp: gradeSLA_def Let_def zero_verdict_def split: list.splits option.splits prod.splits if_splits)

lemma gradeCheck_simps [simp]:
  "v_TR (gradeCheck tr res c) = tr_ID tr" "v_Item (gradeCheck tr res c) = ''check:'' @ ck_ID c"
  "v_Variant (gradeCheck tr res c) = []" "v_Scenario (gradeCheck tr res c) = []"
  by (auto simp: gradeCheck_def Let_def zero_verdict_def split: option.splits if_splits)

lemma gradeSLA_outcome:
  "v_Outcome (gradeSLA tr res d) \<in> {OutcomePass, OutcomeFail, OutcomeSkip, OutcomeError}"
  by (auto simp: gradeSLA_def Let_def split: list.splits option.splits prod.splits if_splits)

lemma gradeCheck_outcome:
  "v_Outcome (gradeCheck tr res c) \<in> {OutcomePass, OutcomeFail, OutcomeSkip, OutcomeError}"
  by (auto simp: gradeCheck_def Let_def split: option.splits if_splits)

section \<open>Properties\<close>

text \<open>
  C8: without a custom evaluator, \<open>GradeTR\<close> emits exactly one verdict per SLA and per check, in
  the order of the requirement, each under the TR's id and with one of the four outcomes.
\<close>

theorem GradeTR_one_verdict_per_item:
  assumes "\<And>ev. gm_get evs (tr_ID tr) \<noteq> Some (Some ev)"
  shows "map v_Item (GradeTR tr res evs) = map slaItem (tr_SLAs tr) @ map (\<lambda>c. ''check:'' @ ck_ID c) (tr_Checks tr)
    \<and> (\<forall>v \<in> set (GradeTR tr res evs). v_TR v = tr_ID tr \<and> v_Outcome v \<in> {OutcomePass, OutcomeFail, OutcomeSkip, OutcomeError})"
proof -
  have g: "GradeTR tr res evs = gradeSLAs tr res @ gradeChecks tr res"
    using assms by (auto simp: GradeTR_def split: option.splits)
  show ?thesis
    unfolding g gradeSLAs_def gradeChecks_def
    using gradeSLA_outcome[of tr res] gradeCheck_outcome[of tr res] by (auto simp: comp_def)
qed

definition sample_tr :: test_requirement where
  "sample_tr = zero_test_requirement\<lparr>tr_ID := ''vm-boot'', tr_AutomationTool := ''virtbench'',
     tr_SLAs := [zero_sla\<lparr>sla_Metric := ''boot_time'', sla_Unit := ''s'', sla_MeasuredBy := Some [''virtbench'']\<rparr>],
     tr_Bars := [zero_sla\<lparr>sla_Metric := ''boot_time'', sla_Operator := ''<'', sla_Value := Some (Fin 10), sla_Unit := ''min'',
                   sla_When := [(''vms'', AInt 5)]\<rparr>,
                 zero_sla\<lparr>sla_Metric := ''boot_time'', sla_Operator := ''<'', sla_Value := Some (Fin 20), sla_Unit := ''min'',
                   sla_When := [(''vms'', AInt 50)]\<rparr>],
     tr_Params := [(''vms'', AInt 5)]\<rparr>"

definition sample_res :: "rat \<Rightarrow> test_result" where
  "sample_res x = zero_test_result\<lparr>res_Metrics := [zero_metric\<lparr>m_Name := ''boot_time'', m_Value := Fin x, m_Unit := ''s''\<rparr>]\<rparr>"

theorem GradeTR_one_verdict_per_item_witness:
  "map v_Item (GradeTR sample_tr (sample_res 480) []) = [''sla:boot_time'']"
  using GradeTR_one_verdict_per_item[of "[]" sample_tr "sample_res 480"]
  by (simp add: sample_tr_def zero_test_requirement_def zero_sla_def slaItem_def metricLabel_def)

text \<open>
  C1: an SLA passes exactly when the active tool measures the metric, exactly one bar of the
  metric and percentile applies to the run parameters, that bar has a number, the metric was
  measured, and the unit-aware comparison holds. No other path reaches a pass.
\<close>

theorem gradeSLA_pass_iff:
  "v_Outcome (gradeSLA tr res d) = OutcomePass \<longleftrightarrow>
     measures (sla_MeasuredBy d) (tr_AutomationTool tr) \<and>
     (\<exists>bar want m.
        filter (\<lambda>b. sla_Metric b = sla_Metric d \<and> sla_Percentile b = sla_Percentile d \<and>
                    whenSubset (sla_When b) (tr_Params tr)) (tr_Bars tr) = [bar] \<and>
        sla_Value bar = Some want \<and>
        findMetric (res_Metrics res) (sla_Metric d) (sla_Percentile d) = Some m \<and>
        compareWithUnits (m_Value m) (m_Unit m) (sla_Operator bar) want (sla_Unit bar) = (True, False))"
  unfolding selectBars_filter[symmetric]
  by (auto simp: gradeSLA_def Let_def split: list.splits option.splits prod.splits if_splits)

text \<open>
  The verdict of an SLA does not depend on the order of the bars in the thresholds file:
  permuted bars give the same verdict, the data error for overlapping bars included.
\<close>

theorem gradeSLA_bar_order:
  assumes "mset bars = mset (tr_Bars tr)"
  shows "gradeSLA (tr\<lparr>tr_Bars := bars\<rparr>) res d = gradeSLA tr res d"
proof -
  define sel where "sel = (\<lambda>bs. selectBars bs (sla_Metric d) (sla_Percentile d) (tr_Params tr))"
  have m: "mset (sel bars) = mset (sel (tr_Bars tr))" unfolding sel_def using assms by (rule selectBars_perm)
  then have l: "length (sel bars) = length (sel (tr_Bars tr))" by (rule mset_eq_length)
  show ?thesis
  proof (cases "sel (tr_Bars tr)")
    case Nil
    with m show ?thesis by (simp add: gradeSLA_def Let_def sel_def)
  next
    case (Cons b bs)
    show ?thesis
    proof (cases bs)
      case Nil
      with Cons m have "sel bars = [b]" by simp
      with Cons Nil show ?thesis by (simp add: gradeSLA_def Let_def sel_def)
    next
      case (Cons b2 bs2)
      with \<open>sel (tr_Bars tr) = b # bs\<close> l obtain c c2 cs where s: "sel bars = c # c2 # cs" "length cs = length bs2"
        by (cases "sel bars"; cases "tl (sel bars)") auto
      with Cons \<open>sel (tr_Bars tr) = b # bs\<close> show ?thesis by (simp add: gradeSLA_def Let_def sel_def)
    qed
  qed
qed

theorem gradeSLA_bar_order_witness:
  "gradeSLA (sample_tr\<lparr>tr_Bars := rev (tr_Bars sample_tr)\<rparr>) (sample_res 480) zero_sla = gradeSLA sample_tr (sample_res 480) zero_sla"
  by (rule gradeSLA_bar_order) simp

text \<open>
  C11: a passing SLA keeps passing when the measured value improves in the same unit: lower
  for an upper bound, higher for a lower bound. Unit scaling and float rounding are included.
\<close>

theorem gradeSLA_monotone:
  assumes pass: "v_Outcome (gradeSLA tr res d) = OutcomePass"
    and bar: "selectBars (tr_Bars tr) (sla_Metric d) (sla_Percentile d) (tr_Params tr) = [bar]"
    and m: "findMetric (res_Metrics res) (sla_Metric d) (sla_Percentile d) = Some m"
    and m': "findMetric (res_Metrics res') (sla_Metric d) (sla_Percentile d) = Some m'"
    and unit: "m_Unit m' = m_Unit m"
    and better: "upper_op (sla_Operator bar) \<and> f64_le (m_Value m') (m_Value m) \<or>
                 lower_op (sla_Operator bar) \<and> f64_le (m_Value m) (m_Value m')"
  shows "v_Outcome (gradeSLA tr res' d) = OutcomePass"
proof -
  from pass bar m obtain want where want: "sla_Value bar = Some want"
    and meas: "measures (sla_MeasuredBy d) (tr_AutomationTool tr)"
    and cmp: "compareWithUnits (m_Value m) (m_Unit m) (sla_Operator bar) want (sla_Unit bar) = (True, False)"
    by (auto simp: gradeSLA_def Let_def split: option.splits prod.splits if_splits)
  have "fst (compareWithUnits (m_Value m') (m_Unit m') (sla_Operator bar) want (sla_Unit bar))"
    using better
  proof
    assume "upper_op (sla_Operator bar) \<and> f64_le (m_Value m') (m_Value m)"
    with cmp unit show ?thesis
      using compareWithUnits_order[of True "sla_Operator bar" "m_Value m'" "m_Value m" "m_Unit m"] compare_upper by simp
  next
    assume "lower_op (sla_Operator bar) \<and> f64_le (m_Value m) (m_Value m')"
    with cmp unit show ?thesis
      using compareWithUnits_order[of False "sla_Operator bar" "m_Value m" "m_Value m'" "m_Unit m"] compare_lower by simp
  qed
  then have "compareWithUnits (m_Value m') (m_Unit m') (sla_Operator bar) want (sla_Unit bar) = (True, False)"
    by (auto simp: compareWithUnits_def split: option.splits prod.splits if_splits)
  with bar m' want meas show ?thesis by (simp add: gradeSLA_def Let_def)
qed

lemma trim_space_plain [simp]: "\<forall>c \<in> set s. \<not> is_space c \<Longrightarrow> trim_space s = s"
proof -
  assume a: "\<forall>c \<in> set s. \<not> is_space c"
  then have "dropWhile is_space s = s" by (cases s) auto
  moreover have "dropWhile is_space (rev s) = rev s" using a by (cases "s = []") (simp_all add: dropWhile_eq_self_iff hd_rev)
  ultimately show ?thesis by (simp add: trim_space_def)
qed

lemma canonicalize_units [simp]:
  "canonicalize x ''s'' = Some (f64_mul x (Fin 1), ''time'')"
  "canonicalize x ''min'' = Some (f64_mul x (Fin 60), ''time'')"
  "canonicalize x ''iops'' = Some (f64_mul x (Fin 1), ''iops'')"
  by (simp_all add: canonicalize_def Let_def unitTable_def gm_get_def micro_s_def greek_mu_s_def is_space_def)

lemma sample_pass:
  assumes "to_f64 x = Fin x" and "x < 600"
  shows "selectBars (tr_Bars sample_tr) ''boot_time'' [] (tr_Params sample_tr) = [hd (tr_Bars sample_tr)]"
    and "v_Outcome (gradeSLA sample_tr (sample_res x) (hd (tr_SLAs sample_tr))) = OutcomePass"
proof -
  show s: "selectBars (tr_Bars sample_tr) ''boot_time'' [] (tr_Params sample_tr) = [hd (tr_Bars sample_tr)]"
  proof -
    have "whenSubset [(''vms'', AInt 5)] [(''vms'', AInt 5)]" and "\<not> whenSubset [(''vms'', AInt 50)] [(''vms'', AInt 5)]"
      by (simp_all add: gm_get_Cons paramEqual_def f64_of_int_def f64_eq_def)
    then show ?thesis by (simp add: sample_tr_def zero_sla_def del: whenSubset.simps)
  qed
  show "v_Outcome (gradeSLA sample_tr (sample_res x) (hd (tr_SLAs sample_tr))) = OutcomePass"
    unfolding gradeSLA_pass_iff selectBars_filter[symmetric] using s assms
    by (simp add: sample_tr_def zero_sla_def sample_res_def zero_metric_def measures_def zero_test_result_def
        compareWithUnits_def compare_def f64_lt_def)
qed

theorem gradeSLA_monotone_witness:
  "v_Outcome (gradeSLA sample_tr (sample_res 470) (hd (tr_SLAs sample_tr))) = OutcomePass"
proof -
  have d: "sla_Metric (hd (tr_SLAs sample_tr)) = ''boot_time''" "sla_Percentile (hd (tr_SLAs sample_tr)) = []"
    by (simp_all add: sample_tr_def zero_sla_def)
  show ?thesis
    by (rule gradeSLA_monotone[of sample_tr "sample_res 480" _ "hd (tr_Bars sample_tr)"
        "hd (res_Metrics (sample_res 480))" "sample_res 470" "hd (res_Metrics (sample_res 470))"])
      (simp_all add: d sample_pass(1)[of 480, simplified] sample_pass(2), simp_all add: sample_tr_def sample_res_def zero_metric_def zero_sla_def upper_op_def)
qed

text \<open>
  A number of seconds against a bar in minutes is compared exactly, for every whole number
  of seconds and minutes below \<open>2^40\<close>: \<open>480 s < 10 min\<close> holds although \<open>480 < 10\<close> does not.
\<close>

theorem compareWithUnits_seconds_minutes:
  assumes "\<bar>n\<bar> < 2 ^ 40" and "\<bar>k\<bar> < 2 ^ 40"
  shows "compareWithUnits (Fin (of_int n)) ''s'' ''<'' (Fin (of_int k)) ''min'' = (n < 60 * k, False)"
proof -
  have a: "f64_mul (Fin (of_int n)) (Fin 1) = Fin (of_int n)"
    using to_f64_int[of n] assms(1) by simp
  have b: "f64_mul (Fin (of_int k)) (Fin 60) = Fin (of_int (k * 60))"
    using to_f64_int[of "k * 60"] assms(2) by simp
  have "n < 60 * k \<longleftrightarrow> rat_of_int n < of_int (k * 60)"
    unfolding of_int_less_iff by linarith
  then show ?thesis
    unfolding compareWithUnits_def canonicalize_units a b by (auto simp: compare_def f64_lt_def simp del: of_int_mult)
qed

theorem compareWithUnits_seconds_minutes_witness:
  "compareWithUnits (Fin (of_int 480)) ''s'' ''<'' (Fin (of_int 10)) ''min'' = (True, False)"
  by (subst compareWithUnits_seconds_minutes) simp_all

text \<open>
  C13: a value measured in a unit of another dimension than its bar is an error, never a pass
  or a fail, and so are overlapping bars and a missing metric with a bar.
\<close>

theorem gradeSLA_data_errors:
  assumes "measures (sla_MeasuredBy d) (tr_AutomationTool tr)"
    and "bars = selectBars (tr_Bars tr) (sla_Metric d) (sla_Percentile d) (tr_Params tr)"
    and "m = findMetric (res_Metrics res) (sla_Metric d) (sla_Percentile d)"
    and "2 \<le> length bars \<or>
         (\<exists>bar want. bars = [bar] \<and> sla_Value bar = Some want \<and>
            (m = None \<or>
             (\<exists>x mv wv d1 d2. m = Some x \<and> canonicalize (m_Value x) (m_Unit x) = Some (mv, d1) \<and>
                canonicalize want (sla_Unit bar) = Some (wv, d2) \<and> d1 \<noteq> d2)))"
  shows "v_Outcome (gradeSLA tr res d) = OutcomeError"
proof (cases "2 \<le> length bars")
  case True
  then obtain b b2 bs where "bars = b # b2 # bs" by (cases bars; cases "tl bars") auto
  then have "selectBars (tr_Bars tr) (sla_Metric d) (sla_Percentile d) (tr_Params tr) = b # b2 # bs"
    unfolding assms(2) .
  with assms(1) show ?thesis by (simp add: gradeSLA_def Let_def)
next
  case False
  with assms(4) obtain bar want where b: "bars = [bar]" "sla_Value bar = Some want" and
    m: "m = None \<or> (\<exists>x. m = Some x \<and> compareWithUnits (m_Value x) (m_Unit x) (sla_Operator bar) want (sla_Unit bar) = (False, True))"
    by (auto simp: compareWithUnits_def)
  have s: "selectBars (tr_Bars tr) (sla_Metric d) (sla_Percentile d) (tr_Params tr) = [bar]"
    using assms(2) b by simp
  consider "findMetric (res_Metrics res) (sla_Metric d) (sla_Percentile d) = None"
    | x where "findMetric (res_Metrics res) (sla_Metric d) (sla_Percentile d) = Some x"
        "compareWithUnits (m_Value x) (m_Unit x) (sla_Operator bar) want (sla_Unit bar) = (False, True)"
    using assms(3) m by metis
  then show ?thesis
    by cases (use b assms(1) s in \<open>simp_all add: gradeSLA_def Let_def\<close>)
qed

theorem gradeSLA_data_errors_witness:
  "v_Outcome (gradeSLA sample_tr
     (zero_test_result\<lparr>res_Metrics := [zero_metric\<lparr>m_Name := ''boot_time'', m_Value := Fin 1, m_Unit := ''iops''\<rparr>]\<rparr>)
     (hd (tr_SLAs sample_tr))) = OutcomeError"
proof (rule gradeSLA_data_errors[OF _ refl refl disjI2])
  show "measures (sla_MeasuredBy (hd (tr_SLAs sample_tr))) (tr_AutomationTool sample_tr)"
    by (simp add: sample_tr_def zero_sla_def measures_def)
qed (use sample_pass(1)[of 1] in \<open>simp add: sample_tr_def zero_metric_def zero_test_result_def zero_sla_def\<close>)

text \<open>
  Bar conditions compare asymmetrically. A textual condition is matched by a number that
  prints the same, but a numeric condition is never matched by a textual parameter, so a bar
  scoped to the number 5 does not apply to a run whose plan writes the parameter as a string.
\<close>

theorem paramEqual_asymmetric:
  "paramEqual (AStr (show_int i)) (AInt i) \<and> \<not> paramEqual (AInt i) (AStr s)"
  by (simp add: paramEqual_def)

end
