(* ===== verification/Knowledge_Base.thy ===== *)
theory Knowledge_Base
  imports Core_Types
begin

text \<open>
  The knowledge-base export: \<open>internal/catalog\<close>, \<open>internal/thresholds\<close> and their join in
  \<open>internal/kb\<close>. Reading the file and decoding its JSON are arguments of the two \<open>Load\<close>
  functions. An error is its message.
\<close>

section \<open>The catalog\<close>

definition SupportedSchemaVersion :: string where "SupportedSchemaVersion = ''2.0''"

record catalog_tr =
  ct_ID :: string
  ct_Title :: string
  ct_Description :: string
  ct_Category :: string
  ct_PartnerLevel :: int
  ct_Verified :: string
  ct_AutomationTool :: string
  ct_SLAStatus :: string
  ct_SLACount :: int
  ct_ChecksStatus :: string
  ct_ChecksCount :: int
  ct_Params :: "(string, param_spec) gomap"
  ct_SLA :: "sla list"
  ct_Checks :: "check list"

record catalog_doc =
  cd_SchemaVersion :: string
  cd_Provenance :: provenance
  cd_TestRequirements :: "catalog_tr list"

definition missing_schema :: string where
  "missing_schema = ''missing schema_version''"

definition unsupported_schema :: "string \<Rightarrow> string \<Rightarrow> string" where
  "unsupported_schema got want = ''unsupported schema_version '' @ go_quote got @ '' (want '' @ go_quote want @ '')''"

definition missing_id :: "nat \<Rightarrow> string" where
  "missing_id i = ''test_requirements['' @ show_nat i @ '']: missing id''"

definition duplicate_id :: "string \<Rightarrow> string" where
  "duplicate_id i = ''duplicate test requirement id '' @ go_quote i"

text \<open>The inner loop: the first SLA with a numeric bar.\<close>

fun catalog_slas :: "string \<Rightarrow> nat \<Rightarrow> sla list \<Rightarrow> string option" where
  "catalog_slas trID j [] = None"
| "catalog_slas trID j (s # ss) =
     (if sla_Value s \<noteq> None \<or> sla_Operator s \<noteq> [] then
        Some (trID @ '' sla['' @ show_nat j @ ''] ('' @ sla_Metric s
          @ ''): catalog must not carry a numeric bar (value/operator belong in thresholds.json)'')
      else catalog_slas trID (Suc j) ss)"

fun catalog_trs :: "nat \<Rightarrow> (string, bool) gomap \<Rightarrow> catalog_tr list \<Rightarrow> string option" where
  "catalog_trs i seen [] = None"
| "catalog_trs i seen (tr # trs) =
     (if ct_ID tr = [] then Some (missing_id i)
      else if gm_get seen (ct_ID tr) = Some True then Some (duplicate_id (ct_ID tr))
      else case catalog_slas (ct_ID tr) 0 (ct_SLA tr) of
        Some e \<Rightarrow> Some e
      | None \<Rightarrow> catalog_trs (Suc i) (gm_set (ct_ID tr) True seen) trs)"

text \<open>\<open>Doc.Validate\<close>; \<open>None\<close> is success.\<close>

definition catalog_Validate :: "catalog_doc \<Rightarrow> string option" where
  "catalog_Validate d =
     (if cd_SchemaVersion d = [] then Some missing_schema
      else if cd_SchemaVersion d \<noteq> SupportedSchemaVersion then
        Some (unsupported_schema (cd_SchemaVersion d) SupportedSchemaVersion)
      else catalog_trs 0 [] (cd_TestRequirements d))"

definition catalog_Load ::
  "(string \<Rightarrow> string + string) \<Rightarrow> (string \<Rightarrow> string + catalog_doc) \<Rightarrow> string \<Rightarrow> string + catalog_doc" where
  "catalog_Load read parse path =
     (case read path of
        Inl err \<Rightarrow> Inl (''catalog: read '' @ path @ '': '' @ err)
      | Inr b \<Rightarrow> (case parse b of
          Inl err \<Rightarrow> Inl (''catalog: parse '' @ path @ '': '' @ err)
        | Inr d \<Rightarrow> (case catalog_Validate d of
            Some err \<Rightarrow> Inl (''catalog: '' @ path @ '': '' @ err)
          | None \<Rightarrow> Inr d)))"

section \<open>The thresholds\<close>

record thresholds_tr =
  tt_ID :: string
  tt_SLA :: "sla list"

record thresholds_doc =
  td_SchemaVersion :: string
  td_Provenance :: provenance
  td_TestRequirements :: "thresholds_tr list"

fun thresholds_slas :: "string \<Rightarrow> nat \<Rightarrow> sla list \<Rightarrow> string option" where
  "thresholds_slas trID j [] = None"
| "thresholds_slas trID j (s # ss) =
     (if sla_Metric s = [] then Some (trID @ '' sla['' @ show_nat j @ '']: missing metric'')
      else if sla_Operator s \<in> set [''<='', ''<'', ''>='', ''>'', ''==''] then thresholds_slas trID (Suc j) ss
      else Some (trID @ '' sla['' @ show_nat j @ ''] ('' @ sla_Metric s @ ''): unknown operator '' @ go_quote (sla_Operator s)))"

fun thresholds_trs :: "nat \<Rightarrow> (string, bool) gomap \<Rightarrow> thresholds_tr list \<Rightarrow> string option" where
  "thresholds_trs i seen [] = None"
| "thresholds_trs i seen (tr # trs) =
     (if tt_ID tr = [] then Some (missing_id i)
      else if gm_get seen (tt_ID tr) = Some True then Some (duplicate_id (tt_ID tr))
      else case thresholds_slas (tt_ID tr) 0 (tt_SLA tr) of
        Some e \<Rightarrow> Some e
      | None \<Rightarrow> thresholds_trs (Suc i) (gm_set (tt_ID tr) True seen) trs)"

definition thresholds_Validate :: "thresholds_doc \<Rightarrow> string option" where
  "thresholds_Validate d =
     (if td_SchemaVersion d = [] then Some missing_schema
      else if td_SchemaVersion d \<noteq> SupportedSchemaVersion then
        Some (unsupported_schema (td_SchemaVersion d) SupportedSchemaVersion)
      else thresholds_trs 0 [] (td_TestRequirements d))"

definition thresholds_Load ::
  "(string \<Rightarrow> string + string) \<Rightarrow> (string \<Rightarrow> string + thresholds_doc) \<Rightarrow> string \<Rightarrow> string + thresholds_doc" where
  "thresholds_Load read parse path =
     (case read path of
        Inl err \<Rightarrow> Inl (''thresholds: read '' @ path @ '': '' @ err)
      | Inr b \<Rightarrow> (case parse b of
          Inl err \<Rightarrow> Inl (''thresholds: parse '' @ path @ '': '' @ err)
        | Inr d \<Rightarrow> (case thresholds_Validate d of
            Some err \<Rightarrow> Inl (''thresholds: '' @ path @ '': '' @ err)
          | None \<Rightarrow> Inr d)))"

section \<open>The join\<close>

definition descriptors :: "catalog_tr \<Rightarrow> sla list" where
  "descriptors c =
     (if ct_SLA c = [] then []
      else map (\<lambda>s. if sla_MeasuredBy s = None \<and> ct_AutomationTool c \<noteq> []
                     then s\<lparr>sla_MeasuredBy := Some [ct_AutomationTool c]\<rparr> else s) (ct_SLA c))"

definition paramDefaults :: "(string, param_spec) gomap \<Rightarrow> params" where
  "paramDefaults spec = fold (\<lambda>(name, ps) out. if ps_Default ps \<noteq> ANil then gm_set name (ps_Default ps) out else out) spec []"

definition trFromCatalog :: "catalog_tr \<Rightarrow> test_requirement" where
  "trFromCatalog c = zero_test_requirement
     \<lparr> tr_ID := ct_ID c, tr_Title := ct_Title c, tr_Description := ct_Description c, tr_Category := ct_Category c,
       tr_PartnerLevel := ct_PartnerLevel c, tr_Verified := ct_Verified c, tr_AutomationTool := ct_AutomationTool c,
       tr_SLAStatus := ct_SLAStatus c, tr_SLACount := ct_SLACount c, tr_ChecksStatus := ct_ChecksStatus c,
       tr_ChecksCount := ct_ChecksCount c, tr_SLAs := descriptors c, tr_Checks := ct_Checks c,
       tr_ParamSpec := ct_Params c, tr_Params := paramDefaults (ct_Params c) \<rparr>"

definition FromCatalog :: "catalog_doc \<Rightarrow> test_requirement list" where
  "FromCatalog cat = map trFromCatalog (cd_TestRequirements cat)"

text \<open>The two loops of \<open>Join\<close>. The second visits the map \<open>thByID\<close> in its iteration order.\<close>

fun join_loop ::
  "(string, thresholds_tr) gomap \<Rightarrow> (string, bool) gomap \<Rightarrow> test_requirement list \<Rightarrow> catalog_tr list
   \<Rightarrow> string + (string, bool) gomap \<times> test_requirement list" where
  "join_loop thByID catIDs out [] = Inr (catIDs, out)"
| "join_loop thByID catIDs out (c # cs) =
     (case gm_get thByID (ct_ID c) of
        None \<Rightarrow> Inl (''TR '' @ go_quote (ct_ID c) @ '' present in catalog but missing from thresholds'')
      | Some t \<Rightarrow> join_loop thByID (gm_set (ct_ID c) True catIDs)
                    (out @ [(trFromCatalog c)\<lparr>tr_Bars := tt_SLA t\<rparr>]) cs)"

fun missing_loop :: "(string, bool) gomap \<Rightarrow> (string \<times> thresholds_tr) list \<Rightarrow> string option" where
  "missing_loop catIDs [] = None"
| "missing_loop catIDs ((i, t) # rest) =
     (if gm_get catIDs i = Some True then missing_loop catIDs rest
      else Some (''TR '' @ go_quote i @ '' present in thresholds but missing from catalog''))"

text \<open>
  \<open>Join\<close>. The argument \<open>order\<close> is the order in which the second loop visits the entries of the
  map it is applied to; Go does not fix it.
\<close>

definition Join ::
  "((string \<times> thresholds_tr) list \<Rightarrow> (string \<times> thresholds_tr) list)
   \<Rightarrow> catalog_doc \<Rightarrow> thresholds_doc \<Rightarrow> string + test_requirement list" where
  "Join order cat th =
     (if cd_SchemaVersion cat \<noteq> td_SchemaVersion th then
        Inl (''schema_version mismatch: catalog '' @ go_quote (cd_SchemaVersion cat) @ '' vs thresholds ''
             @ go_quote (td_SchemaVersion th))
      else if pv_KBGitCommit (cd_Provenance cat) \<noteq> pv_KBGitCommit (td_Provenance th) then
        Inl (''stale export: catalog kb_git_commit '' @ go_quote (pv_KBGitCommit (cd_Provenance cat))
             @ '' != thresholds '' @ go_quote (pv_KBGitCommit (td_Provenance th))
             @ '' '' @ [CHR 0xE2, CHR 0x80, CHR 0x94] @ '' re-export from the same KB commit'')
      else
        (let thByID = fold (\<lambda>t. gm_set (tt_ID t) t) (td_TestRequirements th) [] in
         case join_loop thByID [] [] (cd_TestRequirements cat) of
           Inl e \<Rightarrow> Inl e
         | Inr (catIDs, out) \<Rightarrow>
            (case missing_loop catIDs (order thByID) of
               Some e \<Rightarrow> Inl e
             | None \<Rightarrow> Inr (sort_key tr_ID out))))"

section \<open>Validation accepts exactly the well-formed documents\<close>

lemma catalog_slas_None:
  "catalog_slas i j ss = None \<longleftrightarrow> (\<forall>s \<in> set ss. sla_Value s = None \<and> sla_Operator s = [])"
  by (induction ss arbitrary: j) auto

lemma thresholds_slas_None:
  "thresholds_slas i j ss = None \<longleftrightarrow>
     (\<forall>s \<in> set ss. sla_Metric s \<noteq> [] \<and> sla_Operator s \<in> {''<='', ''<'', ''>='', ''>'', ''==''})"
  by (induction ss arbitrary: j) auto

lemma catalog_trs_None:
  "catalog_trs i seen trs = None \<longleftrightarrow>
     (\<forall>tr \<in> set trs. ct_ID tr \<noteq> [] \<and> gm_get seen (ct_ID tr) \<noteq> Some True \<and>
        (\<forall>s \<in> set (ct_SLA tr). sla_Value s = None \<and> sla_Operator s = [])) \<and> distinct (map ct_ID trs)"
proof (induction trs arbitrary: i seen)
  case (Cons tr trs)
  show ?case
  proof (cases "catalog_slas (ct_ID tr) 0 (ct_SLA tr)")
    case None
    from None[unfolded catalog_slas_None] None show ?thesis by (auto simp: Cons.IH image_iff)
  next
    case (Some e)
    then have "catalog_slas (ct_ID tr) 0 (ct_SLA tr) \<noteq> None" by simp
    from this[unfolded catalog_slas_None] Some show ?thesis by (simp only: catalog_trs.simps) auto
  qed
qed simp

lemma thresholds_trs_None:
  "thresholds_trs i seen trs = None \<longleftrightarrow>
     (\<forall>tr \<in> set trs. tt_ID tr \<noteq> [] \<and> gm_get seen (tt_ID tr) \<noteq> Some True \<and>
        (\<forall>s \<in> set (tt_SLA tr). sla_Metric s \<noteq> [] \<and> sla_Operator s \<in> {''<='', ''<'', ''>='', ''>'', ''==''}))
     \<and> distinct (map tt_ID trs)"
proof (induction trs arbitrary: i seen)
  case (Cons tr trs)
  show ?case
  proof (cases "thresholds_slas (tt_ID tr) 0 (tt_SLA tr)")
    case None
    from None[unfolded thresholds_slas_None] None show ?thesis by (auto simp: Cons.IH image_iff)
  next
    case (Some e)
    then have "thresholds_slas (tt_ID tr) 0 (tt_SLA tr) \<noteq> None" by simp
    from this[unfolded thresholds_slas_None] Some show ?thesis by (simp only: thresholds_trs.simps) auto
  qed
qed simp

text \<open>
  Validation accepts exactly the catalogs of the supported version whose ids are non-empty
  and distinct and that carry no numeric bar, and exactly the threshold files of that version
  whose ids are non-empty and distinct and whose bars name a metric and a known operator.
\<close>

theorem Validate_iff:
  "(catalog_Validate c = None \<longleftrightarrow> cd_SchemaVersion c = ''2.0'' \<and> distinct (map ct_ID (cd_TestRequirements c)) \<and>
      (\<forall>tr \<in> set (cd_TestRequirements c). ct_ID tr \<noteq> [] \<and>
         (\<forall>s \<in> set (ct_SLA tr). sla_Value s = None \<and> sla_Operator s = []))) \<and>
   (thresholds_Validate t = None \<longleftrightarrow> td_SchemaVersion t = ''2.0'' \<and> distinct (map tt_ID (td_TestRequirements t)) \<and>
      (\<forall>tr \<in> set (td_TestRequirements t). tt_ID tr \<noteq> [] \<and>
         (\<forall>s \<in> set (tt_SLA tr). sla_Metric s \<noteq> [] \<and> sla_Operator s \<in> {''<='', ''<'', ''>='', ''>'', ''==''})))"
  by (auto simp: catalog_Validate_def thresholds_Validate_def SupportedSchemaVersion_def missing_schema_def
      unsupported_schema_def catalog_trs_None thresholds_trs_None)

definition sample_ct :: "string \<Rightarrow> catalog_tr" where
  "sample_ct i = \<lparr> ct_ID = i, ct_Title = [], ct_Description = [], ct_Category = [], ct_PartnerLevel = 1,
     ct_Verified = [], ct_AutomationTool = ''virtbench'', ct_SLAStatus = [], ct_SLACount = 0, ct_ChecksStatus = [],
     ct_ChecksCount = 0, ct_Params = [], ct_SLA = [zero_sla\<lparr>sla_Metric := ''m''\<rparr>], ct_Checks = [] \<rparr>"

definition sample_cat :: catalog_doc where
  "sample_cat = \<lparr> cd_SchemaVersion = ''2.0'', cd_Provenance = zero_provenance,
     cd_TestRequirements = [sample_ct ''b'', sample_ct ''a''] \<rparr>"

definition sample_th :: thresholds_doc where
  "sample_th = \<lparr> td_SchemaVersion = ''2.0'', td_Provenance = zero_provenance,
     td_TestRequirements = [\<lparr> tt_ID = ''a'', tt_SLA = [zero_sla\<lparr>sla_Metric := ''m'', sla_Operator := ''<''\<rparr>] \<rparr>,
       \<lparr> tt_ID = ''b'', tt_SLA = [] \<rparr>] \<rparr>"

theorem Validate_iff_witness:
  "catalog_Validate sample_cat = None \<and> thresholds_Validate sample_th = None"
  using Validate_iff[of sample_cat sample_th] by (simp add: sample_cat_def sample_th_def sample_ct_def zero_sla_def)

section \<open>The join is one-to-one\<close>

abbreviation by_id :: "thresholds_tr list \<Rightarrow> (string, thresholds_tr) gomap" where
  "by_id \<equiv> gm_index tt_ID"

lemmas gm_get_by_id = gm_get_index[of tt_ID]
lemmas by_id_keys = gm_index_keys[of tt_ID]
lemmas by_id_def = gm_index_def[of tt_ID]

definition joined :: "thresholds_tr list \<Rightarrow> catalog_tr \<Rightarrow> test_requirement" where
  "joined ts c = (trFromCatalog c)\<lparr>tr_Bars := tt_SLA (the (latest tt_ID (ct_ID c) ts))\<rparr>"

lemma join_loop_Inr:
  "join_loop (by_id ts) cids out cs = Inr (cids', out') \<longleftrightarrow>
     (\<forall>c \<in> set cs. ct_ID c \<in> tt_ID ` set ts) \<and> out' = out @ map (joined ts) cs \<and>
     cids' = fold (\<lambda>c. gm_set (ct_ID c) True) cs cids"
proof (induction cs arbitrary: cids out)
  case (Cons c cs)
  show ?case
  proof (cases "latest tt_ID (ct_ID c) ts")
    case None
    then have "ct_ID c \<notin> tt_ID ` set ts" by (simp add: latest_None)
    with None show ?thesis by (auto simp: gm_get_by_id)
  next
    case (Some t)
    then have "ct_ID c \<in> tt_ID ` set ts" by (metis image_eqI latest_Some)
    with Some show ?thesis by (auto simp: gm_get_by_id Cons.IH joined_def)
  qed
qed auto

lemma join_loop_Inl:
  "(\<exists>c \<in> set cs. ct_ID c \<notin> tt_ID ` set ts) \<Longrightarrow> \<exists>e. join_loop (by_id ts) cids out cs = Inl e"
  using join_loop_Inr[of ts cids out cs] by (metis obj_sumE surj_pair)

lemma gm_get_ids: "gm_get (fold (\<lambda>c. gm_set (ct_ID c) True) cs m) i = (if i \<in> ct_ID ` set cs then Some True else gm_get m i)"
  by (induction cs arbitrary: m) auto

lemma missing_loop_None: "missing_loop cids m = None \<longleftrightarrow> (\<forall>i \<in> fst ` set m. gm_get cids i = Some True)"
  by (induction m) (auto split: if_splits)

lemma Join_Inr:
  assumes "\<And>m. set (order m) = set m"
  shows "Join order cat th = Inr out \<longleftrightarrow>
     cd_SchemaVersion cat = td_SchemaVersion th \<and>
     pv_KBGitCommit (cd_Provenance cat) = pv_KBGitCommit (td_Provenance th) \<and>
     ct_ID ` set (cd_TestRequirements cat) = tt_ID ` set (td_TestRequirements th) \<and>
     out = sort_key tr_ID (map (joined (td_TestRequirements th)) (cd_TestRequirements cat))"
proof -
  define ts cs where "ts = td_TestRequirements th" and "cs = cd_TestRequirements cat"
  show ?thesis
  proof (cases "\<forall>c \<in> set cs. ct_ID c \<in> tt_ID ` set ts")
    case True
    then have j: "join_loop (by_id ts) [] [] cs = Inr (fold (\<lambda>c. gm_set (ct_ID c) True) cs [], map (joined ts) cs)"
      by (simp add: join_loop_Inr)
    have m: "missing_loop (fold (\<lambda>c. gm_set (ct_ID c) True) cs []) (order (by_id ts)) = None \<longleftrightarrow> tt_ID ` set ts \<subseteq> ct_ID ` set cs"
      by (auto simp: missing_loop_None assms by_id_keys gm_get_ids)
    show ?thesis
      using True j m unfolding Join_def by_id_def[symmetric] ts_def[symmetric] cs_def[symmetric] Let_def
      by (auto split: option.splits)
  next
    case False
    then obtain e where "join_loop (by_id ts) [] [] cs = Inl e" using join_loop_Inl by metis
    with False show ?thesis
      unfolding Join_def by_id_def[symmetric] ts_def[symmetric] cs_def[symmetric] Let_def by auto
  qed
qed

text \<open>
  For every iteration order of the Go map, \<open>Join\<close> succeeds exactly when schema version and
  KB commit agree and the id sets of the two files are equal.
\<close>

theorem Join_succeeds_iff:
  assumes "\<And>m. set (order m) = set m"
  shows "(\<exists>out. Join order cat th = Inr out) \<longleftrightarrow>
     cd_SchemaVersion cat = td_SchemaVersion th \<and>
     pv_KBGitCommit (cd_Provenance cat) = pv_KBGitCommit (td_Provenance th) \<and>
     ct_ID ` set (cd_TestRequirements cat) = tt_ID ` set (td_TestRequirements th)"
  using Join_Inr[OF assms] by auto

theorem Join_succeeds_iff_witness: "\<exists>out. Join rev sample_cat sample_th = Inr out"
  by (subst Join_succeeds_iff) (auto simp: sample_cat_def sample_th_def sample_ct_def)

text \<open>
  C35: the joined requirements of valid files are sorted by id, have the catalog's ids once
  each, take their metadata from the catalog and their bars from the thresholds record with
  that id, and no descriptor among them carries a number.
\<close>

theorem Join_result:
  assumes order: "\<And>m. set (order m) = set m" and ok: "Join order cat th = Inr out"
    and cat: "catalog_Validate cat = None" and th: "thresholds_Validate th = None"
  shows "sorted (map tr_ID out) \<and> distinct (map tr_ID out) \<and>
     tr_ID ` set out = ct_ID ` set (cd_TestRequirements cat) \<and>
     (\<forall>tr \<in> set out. (\<exists>c \<in> set (cd_TestRequirements cat). \<exists>t \<in> set (td_TestRequirements th).
        ct_ID c = tr_ID tr \<and> tt_ID t = tr_ID tr \<and> tr = (trFromCatalog c)\<lparr>tr_Bars := tt_SLA t\<rparr>) \<and>
        (\<forall>s \<in> set (tr_SLAs tr). sla_Value s = None \<and> sla_Operator s = []))"
proof -
  note J = ok[unfolded Join_Inr[OF order]]
  have ids: "tr_ID \<circ> joined ts = ct_ID" for ts by (rule ext) (simp add: joined_def trFromCatalog_def)
  have d: "distinct (map ct_ID (cd_TestRequirements cat))"
    and nv: "\<And>c s. c \<in> set (cd_TestRequirements cat) \<Longrightarrow> s \<in> set (ct_SLA c) \<Longrightarrow> sla_Value s = None \<and> sla_Operator s = []"
    using cat by (auto simp: catalog_Validate_def catalog_trs_None split: if_splits)
  have "mset (map tr_ID out) = mset (map ct_ID (cd_TestRequirements cat))" using J by (simp add: image_mset.compositionality ids)
  then have dist: "distinct (map tr_ID out)" using d by (metis mset_eq_imp_distinct_iff)
  have img: "tr_ID ` set out = ct_ID ` set (cd_TestRequirements cat)" using J by (auto simp: image_image joined_def trFromCatalog_def)
  show ?thesis
  proof (intro conjI ballI)
    show "sorted (map tr_ID out)" using J by simp
    fix tr assume "tr \<in> set out"
    with J obtain c where c: "c \<in> set (cd_TestRequirements cat)" "tr = joined (td_TestRequirements th) c" by auto
    then have "ct_ID c \<in> tt_ID ` set (td_TestRequirements th)" using J by auto
    then obtain t where t: "latest tt_ID (ct_ID c) (td_TestRequirements th) = Some t"
      by (metis latest_None not_None_eq)
    then have "t \<in> set (td_TestRequirements th)" "tt_ID t = ct_ID c" by (auto dest: latest_Some)
    with c t show "\<exists>c \<in> set (cd_TestRequirements cat). \<exists>t \<in> set (td_TestRequirements th).
        ct_ID c = tr_ID tr \<and> tt_ID t = tr_ID tr \<and> tr = (trFromCatalog c)\<lparr>tr_Bars := tt_SLA t\<rparr>"
      by (intro bexI[of _ c] bexI[of _ t]) (auto simp: joined_def trFromCatalog_def)
    fix s assume "s \<in> set (tr_SLAs tr)"
    then have "s \<in> set (descriptors c)" using c by (simp add: joined_def trFromCatalog_def)
    then show "sla_Value s = None" and "sla_Operator s = []"
      using nv[OF c(1)] by (auto simp: descriptors_def split: if_splits)
  qed (use dist img in auto)
qed

theorem Join_result_witness:
  "\<exists>out. Join rev sample_cat sample_th = Inr out \<and> sorted (map tr_ID out)"
proof -
  obtain out where "Join rev sample_cat sample_th = Inr out"
    using Join_Inr[of rev sample_cat sample_th] by (auto simp: sample_cat_def sample_th_def sample_ct_def)
  moreover have "catalog_Validate sample_cat = None" "thresholds_Validate sample_th = None"
    by (auto simp: catalog_Validate_def thresholds_Validate_def sample_cat_def sample_th_def sample_ct_def
        SupportedSchemaVersion_def zero_sla_def)
  ultimately show ?thesis using Join_result[of rev sample_cat sample_th out] by auto
qed

end
