(* ===== verification/Plan.thy ===== *)
theory Plan
  imports Core_Types
begin

text \<open>
  \<open>internal/config\<close> and \<open>internal/plan\<close>: the run configuration, the test plan, its validation and
  its conversion to a configuration. Reading the file and decoding its YAML are arguments of \<open>plan_Load\<close>.
\<close>

section \<open>Configuration\<close>

record filter_spec =
  f_Tools :: "string list"
  f_IDs :: "string list"
  f_PartnerLevels :: "int list"

definition zero_filter :: filter_spec where
  "zero_filter = \<lparr> f_Tools = [], f_IDs = [], f_PartnerLevels = [] \<rparr>"

text \<open>\<open>ToolSchedule\<close>: a nil \<open>ParallelSafe\<close> and a nil list of groups keep the tool's defaults.\<close>

record tool_schedule =
  sc_ParallelSafe :: "bool option"
  sc_ExclusivityGroups :: "string list option"

record variant =
  va_Name :: string
  va_Params :: params

record config =
  cf_CatalogPath :: string
  cf_ThresholdsPath :: string
  cf_WorkDir :: string
  cf_Concurrency :: int
  cf_Filter :: filter_spec
  cf_Scenario :: string
  cf_ExtraMetrics :: "string list"
  cf_ReportMetrics :: "(string, string list) gomap"
  cf_Overrides :: "(string, params) gomap"
  cf_Variants :: "(string, variant list) gomap"
  cf_Scheduling :: "(string, tool_schedule) gomap"

definition zero_config :: config where
  "zero_config = \<lparr> cf_CatalogPath = [], cf_ThresholdsPath = [], cf_WorkDir = [], cf_Concurrency = 0,
     cf_Filter = zero_filter, cf_Scenario = [], cf_ExtraMetrics = [], cf_ReportMetrics = [], cf_Overrides = [],
     cf_Variants = [], cf_Scheduling = [] \<rparr>"

section \<open>Plans\<close>

definition PlanSchemaVersion :: string where "PlanSchemaVersion = ''1''"

record selector =
  se_All :: bool
  se_IDs :: "string list"
  se_Tools :: "string list"
  se_PartnerLevels :: "int list"

record plan =
  pl_SchemaVersion :: string
  pl_Name :: string
  pl_Description :: string
  pl_Backend :: string
  pl_Scenario :: string
  pl_Concurrency :: int
  pl_Select :: selector
  pl_ReportMetrics :: "(string, string list) gomap"
  pl_Overrides :: "(string, params) gomap"
  pl_Variants :: "(string, variant list) gomap"
  pl_Scheduling :: "(string, tool_schedule) gomap"

text \<open>The regular expression of variant names: an alphanumeric, then alphanumerics, underscores and hyphens.\<close>

definition is_alnum :: "char \<Rightarrow> bool" where
  "is_alnum c = (let n = (of_char c :: nat) in
     (48 \<le> n \<and> n \<le> 57) \<or> (65 \<le> n \<and> n \<le> 90) \<or> (97 \<le> n \<and> n \<le> 122))"

definition valid_variant_name :: "string \<Rightarrow> bool" where
  "valid_variant_name s =
     (case s of [] \<Rightarrow> False
      | c # cs \<Rightarrow> is_alnum c \<and> list_all (\<lambda>d. is_alnum d \<or> d = CHR ''_'' \<or> d = CHR ''-'') cs)"

fun validate_names :: "string \<Rightarrow> (string, bool) gomap \<Rightarrow> variant list \<Rightarrow> string option" where
  "validate_names i seen [] = None"
| "validate_names i seen (v # vs) =
     (if \<not> valid_variant_name (va_Name v) then
        Some (''variants['' @ i @ '']: invalid name '' @ go_quote (va_Name v)
          @ '' (use letters, digits, underscores or hyphens)'')
      else if gm_get seen (va_Name v) = Some True then
        Some (''variants['' @ i @ '']: duplicate name '' @ go_quote (va_Name v))
      else validate_names i (gm_set (va_Name v) True seen) vs)"

fun validate_variants :: "(string \<times> variant list) list \<Rightarrow> string option" where
  "validate_variants [] = None"
| "validate_variants ((i, vs) # rest) =
     (if i = [] \<or> vs = [] then
        Some (''variants['' @ go_quote i @ ''] must contain at least one named variant'')
      else case validate_names i [] vs of
        Some e \<Rightarrow> Some e
      | None \<Rightarrow> validate_variants rest)"

definition plan_validate :: "plan \<Rightarrow> string option" where
  "plan_validate p =
     (if pl_SchemaVersion p \<noteq> PlanSchemaVersion then
        Some (''unsupported schema_version '' @ go_quote (pl_SchemaVersion p) @ '' (want '' @ go_quote PlanSchemaVersion @ '')'')
      else if pl_Name p = [] then Some ''missing name''
      else case validate_variants (pl_Variants p) of
        Some e \<Rightarrow> Some e
      | None \<Rightarrow>
         (let s = pl_Select p in
          if \<not> se_All s \<and> se_IDs s = [] \<and> se_Tools s = [] \<and> se_PartnerLevels s = [] then
            Some ''select is empty: set all: true or at least one of ids/tools/partner_levels''
          else if pl_Concurrency p < 0 then Some ''concurrency must be >= 0''
          else None))"

definition plan_Load ::
  "(string \<Rightarrow> string + string) \<Rightarrow> (string \<Rightarrow> string + plan) \<Rightarrow> string \<Rightarrow> string + plan" where
  "plan_Load read parse path =
     (case read path of
        Inl err \<Rightarrow> Inl (''read plan '' @ path @ '': '' @ err)
      | Inr b \<Rightarrow> (case parse b of
          Inl err \<Rightarrow> Inl (''parse plan '' @ path @ '': '' @ err)
        | Inr p \<Rightarrow> (case plan_validate p of
            Some err \<Rightarrow> Inl (''invalid plan '' @ path @ '': '' @ err)
          | None \<Rightarrow> Inr p)))"

definition plan_Filter :: "plan \<Rightarrow> filter_spec" where
  "plan_Filter p =
     (if se_All (pl_Select p) then zero_filter
      else \<lparr> f_Tools = se_Tools (pl_Select p), f_IDs = se_IDs (pl_Select p),
             f_PartnerLevels = se_PartnerLevels (pl_Select p) \<rparr>)"

definition SchedulingOverrides :: "plan \<Rightarrow> (string, tool_schedule) gomap" where
  "SchedulingOverrides p =
     (if pl_Scheduling p = [] then []
      else fold (\<lambda>(tool, s) out. gm_set tool \<lparr> sc_ParallelSafe = sc_ParallelSafe s,
               sc_ExclusivityGroups = sc_ExclusivityGroups s \<rparr> out) (pl_Scheduling p) [])"

section \<open>Validation\<close>

lemma validate_names_None:
  "validate_names i seen vs = None \<longleftrightarrow>
     (\<forall>v \<in> set vs. valid_variant_name (va_Name v) \<and> gm_get seen (va_Name v) \<noteq> Some True) \<and> distinct (map va_Name vs)"
  by (induction vs arbitrary: seen) (auto split: if_splits)

lemma validate_variants_None:
  "validate_variants m = None \<longleftrightarrow>
     (\<forall>(i, vs) \<in> set m. i \<noteq> [] \<and> vs \<noteq> [] \<and> (\<forall>v \<in> set vs. valid_variant_name (va_Name v)) \<and> distinct (map va_Name vs))"
proof (induction m)
  case (Cons p m)
  obtain i vs where p: "p = (i, vs)" by (cases p) auto
  show ?case
  proof (cases "validate_names i [] vs")
    case None
    from None[unfolded validate_names_None] None show ?thesis by (auto simp: p Cons.IH)
  next
    case (Some e)
    then have "validate_names i [] vs \<noteq> None" by simp
    from this[unfolded validate_names_None] Some show ?thesis by (auto simp: p)
  qed
qed simp

text \<open>A valid variant name has no slash, dot, space or NUL byte, so it is safe in paths and keys.\<close>

lemma valid_variant_name_chars:
  "valid_variant_name s \<Longrightarrow> SLASH \<notin> set s \<and> CHR ''.'' \<notin> set s \<and> CHR 0x00 \<notin> set s \<and> s \<noteq> []"
  by (cases s) (auto simp: valid_variant_name_def is_alnum_def SLASH_def Let_def list_all_iff)

text \<open>
  A plan is accepted exactly when its schema version is supported, it has a name, every
  variant list is non-empty with valid and distinct names, it selects something and its
  concurrency is not negative. The iteration order of the variants map is irrelevant, and every
  variant name of an accepted plan is free of slashes, dots and NUL bytes.
\<close>

theorem plan_validate_iff:
  "(plan_validate p = None \<longleftrightarrow>
     pl_SchemaVersion p = ''1'' \<and> pl_Name p \<noteq> [] \<and>
     (\<forall>(i, vs) \<in> set (pl_Variants p). i \<noteq> [] \<and> vs \<noteq> [] \<and>
        (\<forall>v \<in> set vs. valid_variant_name (va_Name v)) \<and> distinct (map va_Name vs)) \<and>
     (se_All (pl_Select p) \<or> se_IDs (pl_Select p) \<noteq> [] \<or> se_Tools (pl_Select p) \<noteq> [] \<or> se_PartnerLevels (pl_Select p) \<noteq> []) \<and>
     0 \<le> pl_Concurrency p) \<and>
   (plan_validate p = None \<longrightarrow> (\<forall>(i, vs) \<in> set (pl_Variants p). \<forall>v \<in> set vs.
      SLASH \<notin> set (va_Name v) \<and> CHR ''.'' \<notin> set (va_Name v) \<and> CHR 0x00 \<notin> set (va_Name v)))"
proof -
  have i: "plan_validate p = None \<longleftrightarrow> pl_SchemaVersion p = ''1'' \<and> pl_Name p \<noteq> [] \<and> validate_variants (pl_Variants p) = None \<and>
     (se_All (pl_Select p) \<or> se_IDs (pl_Select p) \<noteq> [] \<or> se_Tools (pl_Select p) \<noteq> [] \<or> se_PartnerLevels (pl_Select p) \<noteq> []) \<and>
     0 \<le> pl_Concurrency p"
    by (auto simp: plan_validate_def PlanSchemaVersion_def Let_def split: option.splits)
  show ?thesis
    unfolding i validate_variants_None by (auto dest!: valid_variant_name_chars)
qed

definition sample_plan :: plan where
  "sample_plan = \<lparr> pl_SchemaVersion = ''1'', pl_Name = ''p'', pl_Description = [], pl_Backend = [], pl_Scenario = [],
     pl_Concurrency = 2, pl_Select = \<lparr> se_All = True, se_IDs = [], se_Tools = [], se_PartnerLevels = [] \<rparr>,
     pl_ReportMetrics = [], pl_Overrides = [],
     pl_Variants = [(''vm'', [\<lparr> va_Name = ''small'', va_Params = [] \<rparr>, \<lparr> va_Name = ''big'', va_Params = [] \<rparr>])],
     pl_Scheduling = [] \<rparr>"

theorem plan_validate_iff_witness: "plan_validate sample_plan = None"
  using plan_validate_iff[of sample_plan] by (simp add: sample_plan_def valid_variant_name_def is_alnum_def)

end
