(* ===== verification/Registry.thy ===== *)
theory Registry
  imports Core_Types
begin

text \<open>
  \<open>internal/stages\<close> and \<open>internal/registry\<close>. A stage adapter is a function of the run context,
  the bag and the world outside the harness (type \<open>'w\<close>: cluster, files, clock, cancellation); it
  returns its result with the new bag and world. The registry is explicit state: the map of
  integrations by name and the map of setup providers by scope and key.
\<close>

section \<open>The stage interfaces\<close>

text \<open>The part of \<open>RunCtx\<close> that is data.\<close>

record run_ctx =
  rc_RunID :: string
  rc_PartKind :: string
  rc_WorkDir :: string
  rc_Backend :: "resolved_backend option"

text \<open>The result type of one stage call. An error is its message; \<open>RunHandle\<close> is its id.\<close>

type_synonym ('w, 'r) staged = "bag \<Rightarrow> 'w \<Rightarrow> 'r \<times> bag \<times> 'w"
type_synonym run_handle = string
type_synonym evaluator = "test_requirement \<Rightarrow> test_result \<Rightarrow> string + verdict list"

record 'w tool_integration =
  ti_Name :: string
  ti_Image :: string
  ti_Provides :: "string list"
  ti_Preflight :: "(run_ctx \<Rightarrow> test_requirement list \<Rightarrow> ('w, finding list \<times> string option) staged) option"
  ti_Provisioner :: "(run_ctx \<Rightarrow> test_requirement list \<Rightarrow> ('w, string option) staged) option"
  ti_Runner :: "(run_ctx \<Rightarrow> test_requirement list \<Rightarrow> ('w, string + run_handle) staged) option"
  ti_LogCollector :: "(run_ctx \<Rightarrow> run_handle \<Rightarrow> ('w, string + log_bundle) staged) option"
  ti_ResultParser :: "(run_ctx \<Rightarrow> log_bundle \<Rightarrow> ('w, string + test_result list) staged) option"
  ti_Teardown :: "(run_ctx \<Rightarrow> ('w, string option) staged) option"
  ti_ParallelSafe :: bool
  ti_ExclusivityGroups :: "string list"
  ti_Evaluators :: "(string, evaluator option) gomap"
  ti_SetupGroups :: "string list"

type_synonym setup_scope = string
abbreviation ScopeRun :: setup_scope where "ScopeRun \<equiv> ''run''"
abbreviation ScopeGroup :: setup_scope where "ScopeGroup \<equiv> ''group''"

record 'w setup_provider =
  sp_Scope :: setup_scope
  sp_Key :: string
  sp_Setup :: "run_ctx \<Rightarrow> test_requirement list \<Rightarrow> 'w \<Rightarrow> string option \<times> 'w"
  sp_Teardown :: "run_ctx \<Rightarrow> test_requirement list \<Rightarrow> 'w \<Rightarrow> string option \<times> 'w"

section \<open>The registry\<close>

record 'w registry =
  rg_tools :: "(string, 'w tool_integration) gomap"
  rg_setups :: "(string, 'w setup_provider) gomap"

definition empty_registry :: "'w registry" where
  "empty_registry = \<lparr> rg_tools = [], rg_setups = [] \<rparr>"

text \<open>\<open>Register\<close>; \<open>Inl\<close> is the panic.\<close>

definition Register :: "'w tool_integration \<Rightarrow> 'w registry \<Rightarrow> string + 'w registry" where
  "Register t r =
     (if ti_Name t = [] then Inl ''registry: tool integration with empty name''
      else if gm_has (rg_tools r) (ti_Name t) then
        Inl (''registry: duplicate tool integration '' @ go_quote (ti_Name t))
      else Inr (r\<lparr>rg_tools := gm_set (ti_Name t) t (rg_tools r)\<rparr>))"

definition Get :: "'w registry \<Rightarrow> string \<Rightarrow> 'w tool_integration option" where
  "Get r name = gm_get (rg_tools r) name"

text \<open>The two nested loops of \<open>ForTRID\<close>: over the map, and over what each integration provides.\<close>

definition fortrid_provides :: "string \<Rightarrow> string \<Rightarrow> string list \<Rightarrow> string \<Rightarrow> string" where
  "fortrid_provides trID name provides best =
     fold (\<lambda>p best. if p = trID \<and> (best = [] \<or> name < best) then name else best) provides best"

definition fortrid_best :: "string \<Rightarrow> (string \<times> 'w tool_integration) list \<Rightarrow> string \<Rightarrow> string" where
  "fortrid_best trID entries best =
     fold (\<lambda>(name, t) best. fortrid_provides trID name (ti_Provides t) best) entries best"

definition ForTRID :: "'w registry \<Rightarrow> string \<Rightarrow> 'w tool_integration option" where
  "ForTRID r trID =
     (let best = fortrid_best trID (rg_tools r) [] in if best = [] then None else gm_get (rg_tools r) best)"

definition setup_id :: "setup_scope \<Rightarrow> string \<Rightarrow> string" where
  "setup_id scope key = scope @ ''/'' @ key"

definition RegisterSetup :: "'w setup_provider \<Rightarrow> 'w registry \<Rightarrow> string + 'w registry" where
  "RegisterSetup p r =
     (if sp_Key p = [] then Inl ''registry: setup provider with empty key''
      else let i = setup_id (sp_Scope p) (sp_Key p)
           in if gm_has (rg_setups r) i then Inr r else Inr (r\<lparr>rg_setups := gm_set i p (rg_setups r)\<rparr>))"

definition SetupProvider :: "'w registry \<Rightarrow> setup_scope \<Rightarrow> string \<Rightarrow> 'w setup_provider option" where
  "SetupProvider r scope key = gm_get (rg_setups r) (setup_id scope key)"

definition RunSetupProviders :: "'w registry \<Rightarrow> 'w setup_provider list" where
  "RunSetupProviders r =
     (let keys = sort (filter (\<lambda>i. has_prefix i (ScopeRun @ ''/'')) (map fst (rg_setups r)))
      in map (\<lambda>i. the (gm_get (rg_setups r) i)) keys)"

definition Names :: "'w registry \<Rightarrow> string list" where
  "Names r = sort (map fst (rg_tools r))"

definition registry_ok :: "'w registry \<Rightarrow> bool" where
  "registry_ok r \<longleftrightarrow> gm_wf (rg_tools r) \<and> gm_wf (rg_setups r) \<and>
     (\<forall>(n, t) \<in> set (rg_tools r). ti_Name t = n \<and> n \<noteq> []) \<and>
     (\<forall>(i, p) \<in> set (rg_setups r). i = setup_id (sp_Scope p) (sp_Key p) \<and> sp_Key p \<noteq> [])"

section \<open>The contract of a table of named entries\<close>

text \<open>
  What the clients of the registry use: adding an entry makes it the result of a lookup under
  its own name and changes no other lookup; an entry is refused or kept unchanged.
\<close>

locale named_table =
  fixes add :: "'t \<Rightarrow> 's \<Rightarrow> 'e + 's"
    and look :: "'s \<Rightarrow> 'k \<Rightarrow> 't option"
    and name :: "'t \<Rightarrow> 'k"
    and valid :: "'t \<Rightarrow> bool"
    and empty :: 's
  assumes look_empty: "look empty k = None"
    and add_new: "valid t \<Longrightarrow> look s (name t) = None \<Longrightarrow> \<exists>s'. add t s = Inr s'"
    and look_add: "look s (name t) = None \<Longrightarrow> add t s = Inr s' \<Longrightarrow> look s' k = (if k = name t then Some t else look s k)"
begin

fun add_all :: "'t list \<Rightarrow> 's \<Rightarrow> 'e + 's" where
  "add_all [] s = Inr s"
| "add_all (t # ts) s = (case add t s of Inl e \<Rightarrow> Inl e | Inr s' \<Rightarrow> add_all ts s')"

lemma add_all_look:
  assumes "\<forall>t \<in> set ts. valid t \<and> look s (name t) = None" and "distinct (map name ts)"
  shows "\<exists>s'. add_all ts s = Inr s' \<and>
    (\<forall>k. look s' k = (case find (\<lambda>t. name t = k) ts of Some t \<Rightarrow> Some t | None \<Rightarrow> look s k))"
  using assms
proof (induction ts arbitrary: s)
  case (Cons t ts)
  then obtain s1 where s1: "add t s = Inr s1" using add_new[of t s] by auto
  have l1: "look s1 k = (if k = name t then Some t else look s k)" for k
    using Cons.prems s1 by (intro look_add) auto
  have "\<forall>u \<in> set ts. valid u \<and> look s1 (name u) = None"
    using Cons.prems l1 by (auto simp: image_iff)
  moreover have "distinct (map name ts)" using Cons.prems by simp
  ultimately obtain s2 where s2: "add_all ts s1 = Inr s2"
    "\<forall>k. look s2 k = (case find (\<lambda>t. name t = k) ts of Some t \<Rightarrow> Some t | None \<Rightarrow> look s1 k)"
    using Cons.IH[of s1] by blast
  have "find (\<lambda>u. name u = name t) ts = None" using Cons.prems by (auto simp: find_None_iff image_iff)
  with s1 s2 l1 show ?case by (auto split: option.split)
qed simp

text \<open>The lookups after adding a list do not depend on the order of the list.\<close>

lemma add_all_order:
  assumes "\<forall>t \<in> set ts. valid t" and "distinct (map name ts)" and "mset us = mset ts"
  shows "\<exists>s1 s2. add_all ts empty = Inr s1 \<and> add_all us empty = Inr s2 \<and> (\<forall>k. look s1 k = look s2 k) \<and>
    (\<forall>k t. look s1 k = Some t \<longleftrightarrow> t \<in> set ts \<and> name t = k)"
proof -
  have su: "set us = set ts" using assms(3) by (rule mset_eq_setD)
  have du: "distinct (map name us)" using assms(2,3) by (metis mset_eq_imp_distinct_iff mset_map)
  have vu: "\<forall>t \<in> set us. valid t" using assms(1) su by simp
  have inj: "inj_on name (set ts)" using assms(2) by (simp add: distinct_map)
  have look: "\<exists>s. add_all xs empty = Inr s \<and> (\<forall>k t. look s k = Some t \<longleftrightarrow> t \<in> set ts \<and> name t = k)"
    if "set xs = set ts" "distinct (map name xs)" for xs
  proof -
    have "\<forall>t \<in> set xs. valid t \<and> look empty (name t) = None" using that(1) assms(1) look_empty by simp
    from add_all_look[OF this that(2)]
    obtain s where s: "add_all xs empty = Inr s"
      "\<forall>k. look s k = (case find (\<lambda>t. name t = k) xs of Some t \<Rightarrow> Some t | None \<Rightarrow> look empty k)"
      by blast
    have "look s k = Some t \<longleftrightarrow> t \<in> set ts \<and> name t = k" for k t
    proof (cases "find (\<lambda>t. name t = k) xs")
      case None
      then have "look s k = None" using s(2) look_empty by simp
      with None show ?thesis using that(1) by (auto simp: find_None_iff)
    next
      case (Some u)
      then have "u \<in> set ts" "name u = k" using that(1) by (auto simp: find_Some_iff)
      then show ?thesis using s(2) Some inj by (auto dest: inj_onD)
    qed
    with s show ?thesis by blast
  qed
  obtain s1 where s1: "add_all ts empty = Inr s1" "\<And>k t. look s1 k = Some t \<longleftrightarrow> t \<in> set ts \<and> name t = k"
    using look[of ts] assms(2) by auto
  obtain s2 where s2: "add_all us empty = Inr s2" "\<And>k t. look s2 k = Some t \<longleftrightarrow> t \<in> set ts \<and> name t = k"
    using look[OF su du] by auto
  have "look s1 k = look s2 k" for k
  proof -
    have "look s1 k = Some t \<longleftrightarrow> look s2 k = Some t" for t using s1(2) s2(2) by blast
    then show ?thesis by (metis option.exhaust)
  qed
  with s1 s2 show ?thesis by blast
qed

end

interpretation tools: named_table Register Get ti_Name "\<lambda>t. ti_Name t \<noteq> []" empty_registry
  by unfold_locales (auto simp: Register_def Get_def gm_has_def empty_registry_def split: if_splits)

interpretation setups: named_table RegisterSetup "\<lambda>r. gm_get (rg_setups r)"
    "\<lambda>p. setup_id (sp_Scope p) (sp_Key p)" "\<lambda>p. sp_Key p \<noteq> []" empty_registry
  by unfold_locales (auto simp: RegisterSetup_def gm_has_def empty_registry_def Let_def split: if_splits)

section \<open>Lookups by TR id\<close>

definition best_of :: "string set \<Rightarrow> string \<Rightarrow> bool" where
  "best_of S b \<longleftrightarrow> (if S = {} then b = [] else b \<in> S \<and> (\<forall>n \<in> S. b \<le> n))"

lemma best_of_step:
  assumes "best_of S b" and "[] \<notin> S" and "n \<noteq> []"
  shows "best_of (insert n S) (if b = [] \<or> n < b then n else b)"
  using assms by (auto simp: best_of_def split: if_splits)

lemma best_of_again:
  assumes "best_of (insert n S) b" and "[] \<notin> S" and "n \<noteq> []"
  shows "(if b = [] \<or> n < b then n else b) = b"
  using assms by (auto simp: best_of_def)

lemma fortrid_provides_best:
  assumes "best_of S b" and "[] \<notin> S" and "n \<noteq> []"
  shows "best_of (if trID \<in> set ps then insert n S else S) (fortrid_provides trID n ps b)"
  using assms
proof (induction ps arbitrary: S b)
  case (Cons p ps)
  show ?case
  proof (cases "p = trID")
    case True
    let ?b = "if b = [] \<or> n < b then n else b"
    have "best_of (insert n S) ?b" using Cons.prems by (rule best_of_step)
    from Cons.IH[OF this] Cons.prems(2,3)
    have "best_of (insert n S) (fortrid_provides trID n ps ?b)" by (auto simp: insert_absorb split: if_splits)
    then show ?thesis using True by (simp add: fortrid_provides_def)
  next
    case False
    with Cons show ?thesis by (simp add: fortrid_provides_def)
  qed
qed (simp add: fortrid_provides_def)

definition providers :: "string \<Rightarrow> (string \<times> 'w tool_integration) list \<Rightarrow> string set" where
  "providers trID es = {n. \<exists>t. (n, t) \<in> set es \<and> trID \<in> set (ti_Provides t)}"

lemma fortrid_best_of:
  assumes "\<forall>(n, t) \<in> set es. n \<noteq> []" and "best_of S b" and "[] \<notin> S"
  shows "best_of (S \<union> providers trID es) (fortrid_best trID es b)"
  using assms
proof (induction es arbitrary: S b)
  case (Cons e es)
  obtain n t where e: "e = (n, t)" by (cases e) auto
  let ?S = "if trID \<in> set (ti_Provides t) then insert n S else S"
  have "best_of ?S (fortrid_provides trID n (ti_Provides t) b)"
    using Cons.prems e by (intro fortrid_provides_best) auto
  moreover have "[] \<notin> ?S" using Cons.prems e by auto
  moreover have "?S \<union> providers trID es = S \<union> providers trID (e # es)"
    by (auto simp: providers_def e)
  ultimately show ?case using Cons.IH[of ?S] Cons.prems e by (auto simp: fortrid_best_def)
qed (simp add: fortrid_best_def providers_def)

lemma ForTRID_Some:
  assumes ok: "registry_ok r" and p: "providers trID (rg_tools r) \<noteq> {}"
  shows "ForTRID r trID = gm_get (rg_tools r) (Min (providers trID (rg_tools r)))"
proof -
  let ?P = "providers trID (rg_tools r)"
  have ne: "\<forall>(n, t) \<in> set (rg_tools r). n \<noteq> []" using ok by (auto simp: registry_ok_def)
  have "best_of {} []" by (simp add: best_of_def)
  from fortrid_best_of[OF ne this, of trID] p
  have b: "fortrid_best trID (rg_tools r) [] \<in> ?P" "\<forall>n \<in> ?P. fortrid_best trID (rg_tools r) [] \<le> n"
    by (auto simp: best_of_def)
  have "?P \<subseteq> fst ` set (rg_tools r)" by (force simp: providers_def)
  then have "finite ?P" by (rule finite_subset) simp
  then have "Min ?P = fortrid_best trID (rg_tools r) []" using b by (intro Min_eqI) auto
  moreover have "fortrid_best trID (rg_tools r) [] \<noteq> []" using b(1) ne by (auto simp: providers_def)
  ultimately show ?thesis by (simp add: ForTRID_def Let_def)
qed

lemma ForTRID_None:
  "registry_ok r \<Longrightarrow> ForTRID r trID = None \<longleftrightarrow> providers trID (rg_tools r) = {}"
proof -
  assume ok: "registry_ok r"
  let ?P = "providers trID (rg_tools r)"
  have ne: "\<forall>(n, t) \<in> set (rg_tools r). n \<noteq> []" using ok by (auto simp: registry_ok_def)
  show ?thesis
  proof (cases "?P = {}")
    case True
    have "best_of {} []" by (simp add: best_of_def)
    from fortrid_best_of[OF ne this, of trID] True show ?thesis by (simp add: best_of_def ForTRID_def)
  next
    case False
    have "?P \<subseteq> fst ` set (rg_tools r)" by (force simp: providers_def)
    then have "finite ?P" by (rule finite_subset) simp
    then have "Min ?P \<in> ?P" using False by (rule Min_in)
    then obtain t where "(Min ?P, t) \<in> set (rg_tools r)" by (auto simp: providers_def)
    then have "gm_get (rg_tools r) (Min ?P) \<noteq> None" by (metis gm_get_None fst_conv image_eqI)
    with ForTRID_Some[OF ok False] False show ?thesis by simp
  qed
qed

lemma Register_ok: "registry_ok r \<Longrightarrow> Register t r = Inr r' \<Longrightarrow> registry_ok r'"
  unfolding registry_ok_def Register_def
  by (auto split: if_splits dest!: gm_set_member)

section \<open>Properties\<close>

text \<open>The \<open>init\<close> functions of the tool packages, run in some order.\<close>

fun RegisterAll :: "'w tool_integration list \<Rightarrow> 'w registry \<Rightarrow> string + 'w registry" where
  "RegisterAll [] r = Inr r"
| "RegisterAll (t # ts) r = (case Register t r of Inl e \<Rightarrow> Inl e | Inr r' \<Rightarrow> RegisterAll ts r')"

lemma RegisterAll_add_all: "RegisterAll ts r = tools.add_all ts r"
  by (induction ts arbitrary: r) (auto split: sum.splits)

text \<open>
  Integrations with distinct non-empty names register without a panic in every order of
  the package initialisers; afterwards \<open>Get\<close> finds exactly them, whatever the order was.
\<close>

theorem registration_order:
  assumes "\<forall>t \<in> set ts. ti_Name t \<noteq> []" and "distinct (map ti_Name ts)" and "mset us = mset ts"
  shows "\<exists>r1 r2. RegisterAll ts empty_registry = Inr r1 \<and> RegisterAll us empty_registry = Inr r2 \<and>
    (\<forall>n. Get r1 n = Get r2 n) \<and> (\<forall>n t. Get r1 n = Some t \<longleftrightarrow> t \<in> set ts \<and> ti_Name t = n)"
  unfolding RegisterAll_add_all using assms by (rule tools.add_all_order)

definition sample_tool :: "string \<Rightarrow> string list \<Rightarrow> unit tool_integration" where
  "sample_tool n ps = \<lparr> ti_Name = n, ti_Image = [], ti_Provides = ps, ti_Preflight = None, ti_Provisioner = None,
     ti_Runner = None, ti_LogCollector = None, ti_ResultParser = None, ti_Teardown = None, ti_ParallelSafe = True,
     ti_ExclusivityGroups = [], ti_Evaluators = [], ti_SetupGroups = [] \<rparr>"

lemma sample_tool_simps [simp]: "ti_Name (sample_tool n ps) = n" "ti_Provides (sample_tool n ps) = ps"
  by (simp_all add: sample_tool_def)

theorem registration_order_witness:
  "\<exists>r. RegisterAll [sample_tool ''b'' [''x''], sample_tool ''a'' [''x'']] empty_registry = Inr r \<and> Get r ''c'' = None"
proof -
  let ?ts = "[sample_tool ''b'' [''x''], sample_tool ''a'' [''x'']]"
  have "\<forall>t \<in> set ?ts. ti_Name t \<noteq> []" and "distinct (map ti_Name ?ts)" and "mset (rev ?ts) = mset ?ts" by simp_all
  from registration_order[OF this] obtain r where r: "RegisterAll ?ts empty_registry = Inr r"
    "\<forall>n t. Get r n = Some t \<longleftrightarrow> t \<in> set ?ts \<and> ti_Name t = n" by blast
  have "Get r ''c'' \<noteq> Some t" for t using r(2) by (cases "t \<in> set ?ts") auto
  then have "Get r ''c'' = None" by (cases "Get r ''c''") blast+
  with r(1) show ?thesis by blast
qed

text \<open>
  C33: \<open>ForTRID\<close> returns the integration with the lexicographically first name among those that
  provide the TR, for every iteration order of the tools map, and fails exactly when none does.
\<close>

theorem ForTRID_first:
  assumes "registry_ok r"
  shows "(ForTRID r trID = None \<longleftrightarrow> (\<forall>n t. Get r n = Some t \<longrightarrow> trID \<notin> set (ti_Provides t))) \<and>
    (\<forall>t. ForTRID r trID = Some t \<longrightarrow> Get r (ti_Name t) = Some t \<and> trID \<in> set (ti_Provides t) \<and>
       (\<forall>n u. Get r n = Some u \<longrightarrow> trID \<in> set (ti_Provides u) \<longrightarrow> ti_Name t \<le> ti_Name u))"
proof -
  let ?P = "providers trID (rg_tools r)"
  have wf: "gm_wf (rg_tools r)" and nm: "\<And>n t. (n, t) \<in> set (rg_tools r) \<Longrightarrow> ti_Name t = n"
    using assms by (auto simp: registry_ok_def)
  have get: "Get r n = Some t \<longleftrightarrow> (n, t) \<in> set (rg_tools r)" for n t
    using gm_wf_get[OF wf] by (auto simp: Get_def dest: gm_get_Some_set)
  have fin: "finite ?P" by (rule finite_subset[of _ "fst ` set (rg_tools r)"]) (force simp: providers_def)+
  have none: "?P = {} \<longleftrightarrow> (\<forall>n t. Get r n = Some t \<longrightarrow> trID \<notin> set (ti_Provides t))"
    by (auto simp: providers_def get)
  show ?thesis
  proof (intro conjI allI impI)
    show "ForTRID r trID = None \<longleftrightarrow> (\<forall>n t. Get r n = Some t \<longrightarrow> trID \<notin> set (ti_Provides t))"
      using ForTRID_None[OF assms] none by simp
  next
    fix t assume t: "ForTRID r trID = Some t"
    then have ne: "?P \<noteq> {}" using ForTRID_None[OF assms, of trID] by auto
    with t have g: "Get r (Min ?P) = Some t" using ForTRID_Some[OF assms] by (simp add: Get_def)
    then have n: "ti_Name t = Min ?P" using nm get by blast
    show "Get r (ti_Name t) = Some t" using g n by simp
    have "Min ?P \<in> ?P" using fin ne by (rule Min_in)
    then show "trID \<in> set (ti_Provides t)" using g by (auto simp: providers_def get[symmetric])
    fix k u assume "Get r k = Some u" "trID \<in> set (ti_Provides u)"
    then have "k \<in> ?P" and "ti_Name u = k" using nm by (auto simp: providers_def get)
    then show "ti_Name t \<le> ti_Name u" using n fin by simp
  qed
qed

definition sample_registry :: "unit registry" where
  "sample_registry = \<lparr> rg_tools = [(''b'', sample_tool ''b'' [''x'']), (''a'', sample_tool ''a'' [''x''])], rg_setups = [] \<rparr>"

theorem ForTRID_first_witness: "ForTRID sample_registry ''x'' \<noteq> None \<and> ForTRID sample_registry ''y'' = None"
proof -
  have ok: "registry_ok sample_registry"
    by (simp add: registry_ok_def sample_registry_def gm_wf_def)
  have g: "Get sample_registry n = (if n = ''b'' then Some (sample_tool ''b'' [''x''])
      else if n = ''a'' then Some (sample_tool ''a'' [''x'']) else None)" for n
    by (auto simp: Get_def sample_registry_def gm_get_Cons)
  have "\<not> (\<forall>n t. Get sample_registry n = Some t \<longrightarrow> ''x'' \<notin> set (ti_Provides t))"
    using g[of "''b''"] by (intro notI) (drule spec[of _ "''b''"], simp)
  moreover have "\<forall>n t. Get sample_registry n = Some t \<longrightarrow> ''y'' \<notin> set (ti_Provides t)"
    unfolding g by auto
  ultimately show ?thesis
    using ForTRID_first[OF ok, of "''x''"] ForTRID_first[OF ok, of "''y''"] by blast
qed

end
