(* ===== verification/Reports.thy ===== *)
theory Reports
  imports Core_Types
begin

text \<open>
  The lifecycle of a report and the level roll-up of \<open>internal/report/report.go\<close>. The current
  time is an argument. The lemmas give the certification criterion, the counts of the summary
  and the certified level in terms of the levels that were tested, passed and failed.
\<close>

section \<open>Certified level\<close>

text \<open>The pair of \<open>acc\<close>: has a pass, has a fail or error.\<close>

definition rollup_step :: "verdict \<Rightarrow> (int, bool \<times> bool) gomap \<Rightarrow> (int, bool \<times> bool) gomap" where
  "rollup_step v per =
     (if v_Level v = 0 then per
      else let (p, f) = (case gm_get per (v_Level v) of Some a \<Rightarrow> a | None \<Rightarrow> (False, False))
           in gm_set (v_Level v)
                (p \<or> v_Outcome v = OutcomePass, f \<or> v_Outcome v = OutcomeFail \<or> v_Outcome v = OutcomeError) per)"

definition rollup_outcome :: "bool \<times> bool \<Rightarrow> outcome" where
  "rollup_outcome a = (case a of (p, f) \<Rightarrow> if f then OutcomeFail else if p then OutcomePass else OutcomeSkip)"

fun certified_walk :: "(int \<Rightarrow> outcome) \<Rightarrow> int list \<Rightarrow> int \<Rightarrow> int" where
  "certified_walk oc [] certified = certified"
| "certified_walk oc (l # ls) certified =
     (if oc l = OutcomePass then certified_walk oc ls l
      else if oc l = OutcomeFail then certified
      else certified_walk oc ls certified)"

definition rollupLevels :: "verdict list \<Rightarrow> level_rollup list \<times> int" where
  "rollupLevels verdicts =
     (let per = fold rollup_step verdicts [] in
      if per = [] then ([], 0)
      else let levels = sort (map fst per);
               oc = (\<lambda>l. rollup_outcome (the (gm_get per l)))
           in (map (\<lambda>l. \<lparr> lr_Level = l, lr_Outcome = oc l \<rparr>) levels, certified_walk oc levels 0))"

section \<open>Lifecycle\<close>

text \<open>The loop over the incidents of a complete run: health, and whether one blocks.\<close>

fun incident_loop :: "incident list \<Rightarrow> run_health \<Rightarrow> run_health \<times> bool" where
  "incident_loop [] health = (health, False)"
| "incident_loop (i # is) health =
     (if inc_BlocksCertification i then (RunHealthDegraded, True) else incident_loop is RunHealthDegraded)"

text \<open>The three parts of \<open>RefreshLifecycle\<close>: defaults, the count of the parts, the derived flags.\<close>

definition default_status :: "report \<Rightarrow> report" where
  "default_status r = (if r_Status r = [] then r\<lparr>r_Status := RunStatusComplete\<rparr> else r)"

definition default_parts :: "report \<Rightarrow> report" where
  "default_parts r =
     (let parts = (if cp_Parts (r_Composition r) = [] \<and> r_RunID r \<noteq> []
                   then [zero_run_part\<lparr>pt_PartID := r_RunID r, pt_Kind := ''initial'', pt_Status := r_Status r\<rparr>]
                   else cp_Parts (r_Composition r))
      in r\<lparr>r_Composition := \<lparr> cp_PartsCount = int (length parts), cp_Parts = parts \<rparr>\<rparr>)"

definition derive_flags :: "report \<Rightarrow> report" where
  "derive_flags r =
     (if r_Status r = RunStatusRunning then
        r\<lparr>r_Health := (if r_Incidents r = [] then RunHealthHealthy else RunHealthDegraded), r_Certifiable := False\<rparr>
      else if r_Status r = RunStatusComplete then
        (let (health, blocked) = incident_loop (r_Incidents r) RunHealthHealthy
         in r\<lparr>r_Health := health,
              r_Certifiable := (if blocked then False else sm_Fail (r_Summary r) = 0 \<and> sm_Error (r_Summary r) = 0)\<rparr>)
      else r\<lparr>r_Health := RunHealthUnhealthy, r_Certifiable := False\<rparr>)"

definition RefreshLifecycle :: "report \<Rightarrow> report" where
  "RefreshLifecycle r = derive_flags (default_parts (default_status r))"

definition count_step :: "verdict \<Rightarrow> summary \<Rightarrow> summary" where
  "count_step v s =
     (if v_Outcome v = OutcomePass then s\<lparr>sm_Pass := sm_Pass s + 1\<rparr>
      else if v_Outcome v = OutcomeFail then s\<lparr>sm_Fail := sm_Fail s + 1\<rparr>
      else if v_Outcome v = OutcomeError then s\<lparr>sm_Error := sm_Error s + 1\<rparr>
      else if v_Outcome v = OutcomeSkip then s\<lparr>sm_Skip := sm_Skip s + 1\<rparr>
      else s)"

definition Build :: "string \<Rightarrow> string \<Rightarrow> provenance \<Rightarrow> verdict list \<Rightarrow> report" where
  "Build runID schemaVersion prov verdicts =
     (let counts = fold count_step verdicts (zero_summary\<lparr>sm_Total := int (length verdicts)\<rparr>);
          (levels, certified) = rollupLevels verdicts
      in RefreshLifecycle (zero_report
          \<lparr> r_RunID := runID, r_Status := RunStatusComplete, r_Health := RunHealthHealthy,
            r_SchemaVersion := schemaVersion, r_Provenance := prov,
            r_Composition := \<lparr> cp_PartsCount = 1,
              cp_Parts = [zero_run_part\<lparr>pt_PartID := runID, pt_Kind := ''initial'', pt_Status := RunStatusComplete\<rparr>] \<rparr>,
            r_Verdicts := verdicts, r_Levels := levels, r_Summary := counts\<lparr>sm_CertifiedLevel := certified\<rparr> \<rparr>))"

definition NewRunning ::
  "string \<Rightarrow> string \<Rightarrow> string \<Rightarrow> provenance \<Rightarrow> test_requirement list \<Rightarrow> string \<Rightarrow> string \<Rightarrow> report" where
  "NewRunning now runID schemaVersion prov selected kind startedAt0 =
     (let startedAt = (if startedAt0 = [] then now else startedAt0)
      in zero_report
          \<lparr> r_RunID := runID, r_Status := RunStatusRunning, r_Health := RunHealthHealthy, r_Certifiable := False,
            r_SchemaVersion := schemaVersion, r_Provenance := prov,
            r_Composition := \<lparr> cp_PartsCount = 1,
              cp_Parts = [zero_run_part\<lparr>pt_PartID := runID, pt_Kind := kind, pt_StartedAt := startedAt,
                                        pt_Status := RunStatusRunning\<rparr>] \<rparr>,
            r_Executions := map (\<lambda>tr. zero_run_execution\<lparr>ex_TR := tr_ID tr, ex_Variant := tr_Variant tr,
                                        ex_State := ExecutionQueued\<rparr>) selected \<rparr>)"

definition Finalize :: "string \<Rightarrow> report \<Rightarrow> run_status \<Rightarrow> string \<Rightarrow> string \<Rightarrow> report" where
  "Finalize now r status reason endedAt0 =
     (let endedAt = (if endedAt0 = [] then now else endedAt0);
          parts0 = cp_Parts (r_Composition r);
          parts1 = (if parts0 = [] then [zero_run_part\<lparr>pt_PartID := r_RunID r\<rparr>] else parts0);
          i = length parts1 - 1;
          parts = parts1[i := (parts1 ! i)\<lparr>pt_Status := status, pt_EndedAt := endedAt, pt_Reason := reason\<rparr>]
      in RefreshLifecycle (r\<lparr>r_Status := status, r_CompletionReason := reason,
           r_Composition := \<lparr> cp_PartsCount = int (length parts), cp_Parts = parts \<rparr>\<rparr>))"

section \<open>Certification criterion\<close>

lemma incident_loop_simp:
  "incident_loop is h = (if is = [] then h else RunHealthDegraded, \<exists>i \<in> set is. inc_BlocksCertification i)"
  by (induction "is" arbitrary: h) auto

lemma default_status_simps [simp]:
  "r_Verdicts (default_status r) = r_Verdicts r"
  "r_Incidents (default_status r) = r_Incidents r"
  "r_Executions (default_status r) = r_Executions r"
  "r_Summary (default_status r) = r_Summary r"
  "r_Levels (default_status r) = r_Levels r"
  "r_Measurements (default_status r) = r_Measurements r"
  "r_Warnings (default_status r) = r_Warnings r"
  "r_StorageSelections (default_status r) = r_StorageSelections r"
  "r_RunID (default_status r) = r_RunID r"
  "r_Provenance (default_status r) = r_Provenance r"
  "r_Environment (default_status r) = r_Environment r"
  "r_Attestations (default_status r) = r_Attestations r"
  "r_CompletionReason (default_status r) = r_CompletionReason r"
  "r_SchemaVersion (default_status r) = r_SchemaVersion r"
  "r_Composition (default_status r) = r_Composition r"
  "r_Status (default_status r) = (if r_Status r = [] then RunStatusComplete else r_Status r)"
  by (simp_all add: default_status_def)

lemma default_parts_simps [simp]:
  "r_Verdicts (default_parts r) = r_Verdicts r"
  "r_Incidents (default_parts r) = r_Incidents r"
  "r_Executions (default_parts r) = r_Executions r"
  "r_Summary (default_parts r) = r_Summary r"
  "r_Levels (default_parts r) = r_Levels r"
  "r_Measurements (default_parts r) = r_Measurements r"
  "r_Warnings (default_parts r) = r_Warnings r"
  "r_StorageSelections (default_parts r) = r_StorageSelections r"
  "r_RunID (default_parts r) = r_RunID r"
  "r_Provenance (default_parts r) = r_Provenance r"
  "r_Environment (default_parts r) = r_Environment r"
  "r_Attestations (default_parts r) = r_Attestations r"
  "r_CompletionReason (default_parts r) = r_CompletionReason r"
  "r_SchemaVersion (default_parts r) = r_SchemaVersion r"
  "r_Status (default_parts r) = r_Status r"
  by (simp_all add: default_parts_def Let_def)

lemma derive_flags_simps [simp]:
  "r_Verdicts (derive_flags r) = r_Verdicts r"
  "r_Incidents (derive_flags r) = r_Incidents r"
  "r_Executions (derive_flags r) = r_Executions r"
  "r_Summary (derive_flags r) = r_Summary r"
  "r_Levels (derive_flags r) = r_Levels r"
  "r_Measurements (derive_flags r) = r_Measurements r"
  "r_Warnings (derive_flags r) = r_Warnings r"
  "r_StorageSelections (derive_flags r) = r_StorageSelections r"
  "r_RunID (derive_flags r) = r_RunID r"
  "r_Provenance (derive_flags r) = r_Provenance r"
  "r_Environment (derive_flags r) = r_Environment r"
  "r_Attestations (derive_flags r) = r_Attestations r"
  "r_CompletionReason (derive_flags r) = r_CompletionReason r"
  "r_SchemaVersion (derive_flags r) = r_SchemaVersion r"
  "r_Status (derive_flags r) = r_Status r"
  "r_Composition (derive_flags r) = r_Composition r"
  by (simp_all add: derive_flags_def incident_loop_simp)

lemma RefreshLifecycle_simps [simp]:
  "r_Verdicts (RefreshLifecycle r) = r_Verdicts r"
  "r_Incidents (RefreshLifecycle r) = r_Incidents r"
  "r_Executions (RefreshLifecycle r) = r_Executions r"
  "r_Summary (RefreshLifecycle r) = r_Summary r"
  "r_Levels (RefreshLifecycle r) = r_Levels r"
  "r_Measurements (RefreshLifecycle r) = r_Measurements r"
  "r_Warnings (RefreshLifecycle r) = r_Warnings r"
  "r_StorageSelections (RefreshLifecycle r) = r_StorageSelections r"
  "r_RunID (RefreshLifecycle r) = r_RunID r"
  "r_Provenance (RefreshLifecycle r) = r_Provenance r"
  "r_Environment (RefreshLifecycle r) = r_Environment r"
  "r_Attestations (RefreshLifecycle r) = r_Attestations r"
  "r_CompletionReason (RefreshLifecycle r) = r_CompletionReason r"
  "r_SchemaVersion (RefreshLifecycle r) = r_SchemaVersion r"
  "r_Status (RefreshLifecycle r) = (if r_Status r = [] then RunStatusComplete else r_Status r)"
  by (simp_all add: RefreshLifecycle_def)

lemma derive_flags_certifiable:
  "r_Certifiable (derive_flags r) \<longleftrightarrow> r_Status r = RunStatusComplete \<and>
     (\<forall>i \<in> set (r_Incidents r). \<not> inc_BlocksCertification i) \<and> sm_Fail (r_Summary r) = 0 \<and> sm_Error (r_Summary r) = 0"
  by (simp add: derive_flags_def incident_loop_simp)

lemma RefreshLifecycle_certifiable:
  "r_Certifiable (RefreshLifecycle r) \<longleftrightarrow>
     (r_Status r = [] \<or> r_Status r = RunStatusComplete) \<and> (\<forall>i \<in> set (r_Incidents r). \<not> inc_BlocksCertification i) \<and>
     sm_Fail (r_Summary r) = 0 \<and> sm_Error (r_Summary r) = 0"
  by (simp add: RefreshLifecycle_def derive_flags_certifiable)

lemma fold_count:
  "sm_Pass (fold count_step vs s) = sm_Pass s + int (length (filter (\<lambda>v. v_Outcome v = OutcomePass) vs))"
  "sm_Fail (fold count_step vs s) = sm_Fail s + int (length (filter (\<lambda>v. v_Outcome v = OutcomeFail) vs))"
  "sm_Error (fold count_step vs s) = sm_Error s + int (length (filter (\<lambda>v. v_Outcome v = OutcomeError) vs))"
  "sm_Skip (fold count_step vs s) = sm_Skip s + int (length (filter (\<lambda>v. v_Outcome v = OutcomeSkip) vs))"
  "sm_Total (fold count_step vs s) = sm_Total s"
  by (induction vs arbitrary: s) (auto simp: count_step_def)

lemma filter_length_0: "length (filter P xs) = 0 \<longleftrightarrow> (\<forall>x \<in> set xs. \<not> P x)"
  by (simp add: filter_empty_conv)

lemma Build_summary:
  "sm_Total (r_Summary (Build i sv pv vs)) = int (length vs)"
  "sm_Pass (r_Summary (Build i sv pv vs)) = int (length (filter (\<lambda>v. v_Outcome v = OutcomePass) vs))"
  "sm_Fail (r_Summary (Build i sv pv vs)) = int (length (filter (\<lambda>v. v_Outcome v = OutcomeFail) vs))"
  "sm_Error (r_Summary (Build i sv pv vs)) = int (length (filter (\<lambda>v. v_Outcome v = OutcomeError) vs))"
  "sm_Skip (r_Summary (Build i sv pv vs)) = int (length (filter (\<lambda>v. v_Outcome v = OutcomeSkip) vs))"
  by (simp_all add: Build_def Let_def fold_count zero_summary_def split: prod.split)

lemma Build_rollup:
  "r_Summary (Build i sv pv vs) =
     (fold count_step vs (zero_summary\<lparr>sm_Total := int (length vs)\<rparr>))\<lparr>sm_CertifiedLevel := snd (rollupLevels vs)\<rparr>"
  "r_Levels (Build i sv pv vs) = fst (rollupLevels vs)"
  by (simp_all add: Build_def Let_def split: prod.split)

lemma Build_simps [simp]:
  "r_Verdicts (Build i sv pv vs) = vs" "r_Incidents (Build i sv pv vs) = []" "r_Executions (Build i sv pv vs) = []"
  "r_RunID (Build i sv pv vs) = i" "r_Provenance (Build i sv pv vs) = pv" "r_SchemaVersion (Build i sv pv vs) = sv"
  "r_Status (Build i sv pv vs) = RunStatusComplete"
  by (simp_all add: Build_def Let_def zero_report_def split: prod.split)

lemma Build_certifiable:
  "r_Certifiable (Build i sv pv vs) \<longleftrightarrow> (\<forall>v \<in> set vs. v_Outcome v \<noteq> OutcomeFail \<and> v_Outcome v \<noteq> OutcomeError)"
proof -
  have "\<exists>r. Build i sv pv vs = RefreshLifecycle r \<and> r_Status r = RunStatusComplete \<and> r_Incidents r = []"
    unfolding Build_def Let_def
    by (cases "rollupLevels vs", simp, rule exI, rule conjI, rule refl, simp add: zero_report_def)
  then obtain r where r: "Build i sv pv vs = RefreshLifecycle r"
    and s: "r_Status r = RunStatusComplete" "r_Incidents r = []" by blast
  have sm: "r_Summary r = r_Summary (Build i sv pv vs)" unfolding r by simp
  have "r_Certifiable (Build i sv pv vs) \<longleftrightarrow> sm_Fail (r_Summary r) = 0 \<and> sm_Error (r_Summary r) = 0"
    unfolding r RefreshLifecycle_certifiable using s by simp
  also have "\<dots> \<longleftrightarrow> length (filter (\<lambda>v. v_Outcome v = OutcomeFail) vs) = 0 \<and> length (filter (\<lambda>v. v_Outcome v = OutcomeError) vs) = 0"
    unfolding sm Build_summary by simp
  also have "\<dots> \<longleftrightarrow> (\<forall>v \<in> set vs. v_Outcome v \<noteq> OutcomeFail \<and> v_Outcome v \<noteq> OutcomeError)"
    unfolding filter_length_0 by blast
  finally show ?thesis .
qed

section \<open>Certified level\<close>

definition tested :: "verdict list \<Rightarrow> int \<Rightarrow> bool" where
  "tested vs l \<longleftrightarrow> l \<noteq> 0 \<and> (\<exists>v \<in> set vs. v_Level v = l)"

definition level_fails :: "verdict list \<Rightarrow> int \<Rightarrow> bool" where
  "level_fails vs l \<longleftrightarrow> l \<noteq> 0 \<and> (\<exists>v \<in> set vs. v_Level v = l \<and> (v_Outcome v = OutcomeFail \<or> v_Outcome v = OutcomeError))"

definition level_passes :: "verdict list \<Rightarrow> int \<Rightarrow> bool" where
  "level_passes vs l \<longleftrightarrow> l \<noteq> 0 \<and> (\<exists>v \<in> set vs. v_Level v = l \<and> v_Outcome v = OutcomePass) \<and> \<not> level_fails vs l"

lemma rollup_get:
  "gm_get (fold rollup_step vs []) l =
     (if tested vs l then Some (\<exists>v \<in> set vs. v_Level v = l \<and> v_Outcome v = OutcomePass, level_fails vs l) else None)"
proof (induction vs rule: rev_induct)
  case Nil
  then show ?case by (simp add: tested_def)
next
  case (snoc v vs)
  show ?case
  proof (cases "v_Level v = 0")
    case True
    with snoc show ?thesis by (auto simp: rollup_step_def tested_def level_fails_def)
  next
    case False
    have "gm_get (rollup_step v (fold rollup_step vs [])) l =
      (if l = v_Level v then
         (let (p, f) = (case gm_get (fold rollup_step vs []) l of Some a \<Rightarrow> a | None \<Rightarrow> (False, False))
          in Some (p \<or> v_Outcome v = OutcomePass, f \<or> v_Outcome v = OutcomeFail \<or> v_Outcome v = OutcomeError))
       else gm_get (fold rollup_step vs []) l)"
      using False by (auto simp: rollup_step_def split: prod.split option.split)
    with snoc False show ?thesis
      by (cases "l = v_Level v"; cases "tested vs l") (auto simp: tested_def level_fails_def)
  qed
qed

lemma rollup_wf: "gm_wf (fold rollup_step vs [])"
  by (induction vs rule: rev_induct) (auto simp: rollup_step_def split: prod.splits)

lemma rollup_levels: "set (map fst (fold rollup_step vs [])) = {l. tested vs l}"
proof -
  have "l \<in> fst ` set (fold rollup_step vs []) \<longleftrightarrow> tested vs l" for l
    using rollup_get[of vs l] gm_get_None[of "fold rollup_step vs []" l] by (auto split: if_splits)
  then show ?thesis by auto
qed

lemma sorted_le_last: "sorted xs \<Longrightarrow> x \<in> set xs \<Longrightarrow> x \<le> last xs"
  by (induction xs) auto

lemma takeWhile_sorted:
  "sorted xs \<Longrightarrow> distinct xs \<Longrightarrow> x \<in> set (takeWhile Q xs) \<longleftrightarrow> x \<in> set xs \<and> (\<forall>y \<in> set xs. y \<le> x \<longrightarrow> Q y)"
  for x :: "'a :: linorder"
proof (induction xs)
  case (Cons a xs)
  then show ?case by (cases "x = a") (auto simp: order_antisym)
qed simp

lemma certified_walk_last:
  "certified_walk oc ls c =
     (let ps = filter (\<lambda>l. oc l = OutcomePass) (takeWhile (\<lambda>l. oc l \<noteq> OutcomeFail) ls) in if ps = [] then c else last ps)"
  by (induction ls arbitrary: c) (auto simp: Let_def)

lemma certified_level:
  "snd (rollupLevels vs) =
     (let S = {l. level_passes vs l \<and> (\<forall>k < l. \<not> level_fails vs k)} in if S = {} then 0 else Max S)"
proof -
  define per where "per = fold rollup_step vs []"
  define ls where "ls = sort (map fst per)"
  define oc where "oc = (\<lambda>l. rollup_outcome (the (gm_get per l)))"
  have ls: "set ls = {l. tested vs l}" "sorted ls" "distinct ls"
    using rollup_levels[of vs] rollup_wf[of vs] by (simp_all add: ls_def per_def gm_wf_def)
  have oc: "oc l = (if level_fails vs l then OutcomeFail else if level_passes vs l then OutcomePass else OutcomeSkip)"
    if "l \<in> set ls" for l
    using that ls rollup_get[of vs l]
    by (auto simp: oc_def per_def rollup_outcome_def level_passes_def tested_def)
  have "snd (rollupLevels vs) = certified_walk oc ls 0"
    by (auto simp: rollupLevels_def Let_def per_def[symmetric] ls_def oc_def)
  moreover define ps where "ps = filter (\<lambda>l. oc l = OutcomePass) (takeWhile (\<lambda>l. oc l \<noteq> OutcomeFail) ls)"
  ultimately have w: "snd (rollupLevels vs) = (if ps = [] then 0 else last ps)"
    by (simp add: certified_walk_last Let_def)
  define S where "S = {l. level_passes vs l \<and> (\<forall>k < l. \<not> level_fails vs k)}"
  have pt: "level_passes vs l \<Longrightarrow> tested vs l" "level_fails vs l \<Longrightarrow> tested vs l" "level_passes vs l \<Longrightarrow> \<not> level_fails vs l" for l
    by (auto simp: level_passes_def level_fails_def tested_def)
  have "l \<in> set ps \<longleftrightarrow> l \<in> S" for l
  proof
    assume "l \<in> set ps"
    then have l: "l \<in> set ls" "oc l = OutcomePass" "\<forall>k \<in> set ls. k \<le> l \<longrightarrow> oc k \<noteq> OutcomeFail"
      using takeWhile_sorted[OF ls(2,3)] by (auto simp: ps_def)
    have "\<not> level_fails vs k" if "k < l" for k
      using that l(3) oc[of k] pt(2)[of k] ls(1) by auto
    with l oc[of l] show "l \<in> S" by (auto simp: S_def split: if_splits)
  next
    assume "l \<in> S"
    then have a: "level_passes vs l" "\<forall>k < l. \<not> level_fails vs k" by (auto simp: S_def)
    then have "l \<in> set ls" using pt ls(1) by auto
    moreover have "\<forall>k \<in> set ls. k \<le> l \<longrightarrow> oc k \<noteq> OutcomeFail"
      using a pt(3)[OF a(1)] oc by (auto simp: le_less)
    ultimately show "l \<in> set ps"
      using takeWhile_sorted[OF ls(2,3)] oc[of l] a pt(3)[OF a(1)] by (auto simp: ps_def)
  qed
  then have S: "S = set ps" by auto
  have "sorted ps" unfolding ps_def by (intro sorted_wrt_filter sorted_takeWhile ls(2))
  then have "last ps = Max (set ps)" if "ps \<noteq> []"
    using that sorted_le_last[of ps] by (intro Max_eqI[symmetric]) auto
  with w S show ?thesis unfolding S_def[symmetric] Let_def by auto
qed

section \<open>Properties\<close>

text \<open>
  C4: a report is certifiable exactly when its run is complete, no incident blocks
  certification and the summary counts neither a failure nor an error.
\<close>

theorem certifiable_iff:
  "r_Certifiable (RefreshLifecycle r) \<longleftrightarrow>
     (r_Status r = [] \<or> r_Status r = RunStatusComplete) \<and> filter inc_BlocksCertification (r_Incidents r) = [] \<and>
     sm_Fail (r_Summary r) = 0 \<and> sm_Error (r_Summary r) = 0"
  by (simp add: RefreshLifecycle_certifiable filter_empty_conv)

text \<open>
  The summary of a built report counts its verdicts by outcome; verdicts with one of the
  four outcomes are all counted, and the fresh report is certifiable exactly when none of them
  is a failure or an error.
\<close>

theorem Build_counts:
  assumes "\<forall>v \<in> set vs. v_Outcome v \<in> {OutcomePass, OutcomeFail, OutcomeError, OutcomeSkip}"
  shows "(let s = r_Summary (Build i sv pv vs) in
      sm_Total s = int (length vs) \<and> sm_Total s = sm_Pass s + sm_Fail s + sm_Error s + sm_Skip s \<and>
      sm_Pass s = int (length (filter (\<lambda>v. v_Outcome v = OutcomePass) vs)) \<and>
      (r_Certifiable (Build i sv pv vs) \<longleftrightarrow> sm_Fail s + sm_Error s = 0))"
proof -
  define n where "n = (\<lambda>oc. length (filter (\<lambda>v. v_Outcome v = oc) vs))"
  have "length vs = n OutcomePass + n OutcomeFail + n OutcomeError + n OutcomeSkip"
    using assms unfolding n_def by (induction vs) auto
  moreover have "r_Certifiable (Build i sv pv vs) \<longleftrightarrow> n OutcomeFail = 0 \<and> n OutcomeError = 0"
    unfolding Build_certifiable n_def filter_length_0 by blast
  ultimately show ?thesis unfolding Let_def Build_summary n_def by linarith
qed

theorem Build_counts_witness:
  "sm_Total (r_Summary (Build [] [] zero_provenance
     [zero_verdict\<lparr>v_Outcome := OutcomePass\<rparr>, zero_verdict\<lparr>v_Outcome := OutcomeSkip\<rparr>])) = 2"
  using Build_counts[of "[zero_verdict\<lparr>v_Outcome := OutcomePass\<rparr>, zero_verdict\<lparr>v_Outcome := OutcomeSkip\<rparr>]" "[]" "[]" zero_provenance]
  by (simp add: Let_def)

text \<open>
  C6: the certified level is the highest level that has a pass, no failure and no error and
  below which no tested level fails; it is 0 when there is none. Levels that were not tested or
  only skipped are ignored, and neither the order of the verdicts nor map iteration matters.
\<close>

theorem certified_level_characterisation:
  "snd (rollupLevels vs) =
     (let S = {l. level_passes vs l \<and> \<not> (\<exists>k < l. level_fails vs k)} in if S = {} then 0 else Max S)"
  using certified_level[of vs] by simp

end
