(* ===== verification/Report_Merge.thy ===== *)
theory Report_Merge
  imports Reports
begin

text \<open>
  The merge of a prior report with a later one (\<open>internal/report/report.go\<close>) and the storage
  selections of storage.go. The argument \<open>order\<close> of a function is the iteration order of a Go
  map. The locale \<open>keyed_union\<close> is the contract the merge operations share: later entries win,
  entries with other keys survive. Each merge operation interprets it.
\<close>

section \<open>Merging\<close>

definition verdict_key :: "verdict \<Rightarrow> string" where
  "verdict_key v = nul_join [v_TR v, v_Variant v, v_Item v, v_Scenario v]"

definition dedupeVerdicts :: "verdict list \<Rightarrow> verdict list" where
  "dedupeVerdicts vs =
     sort_key (\<lambda>v. (v_TR v, v_Variant v, v_Scenario v, v_Item v)) (index_loop verdict_key vs [] [])"

definition measurement_key :: "measurement \<Rightarrow> string" where
  "measurement_key m = nul_join [me_TR m, me_Variant m, me_Name m, me_Percentile m, me_Scenario m]"

definition dedupeMeasurements :: "measurement list \<Rightarrow> measurement list" where
  "dedupeMeasurements ms =
     sort_key (\<lambda>m. (me_TR m, me_Variant m, me_Scenario m, me_Name m, me_Percentile m))
       (index_loop measurement_key ms [] [])"

definition execution_key :: "run_execution \<Rightarrow> string" where
  "execution_key e = nul_join [ex_TR e, ex_Variant e, ex_Scenario e]"

type_synonym map_order = "(string \<times> run_execution) list \<Rightarrow> (string \<times> run_execution) list"

definition mergeExecutions :: "map_order \<Rightarrow> run_execution list \<Rightarrow> run_execution list \<Rightarrow> run_execution list" where
  "mergeExecutions order base later =
     (let byKey = fold (\<lambda>e. gm_set (execution_key e) e) (base @ later) []
      in sort_key (\<lambda>e. (ex_TR e, ex_Variant e, ex_Scenario e)) (map snd (order byKey)))"

definition incident_key :: "incident \<Rightarrow> string" where
  "incident_key i = (if inc_ID i = [] then nul_join [inc_Type i, inc_TR i, inc_Message i] else inc_ID i)"

fun incident_merge :: "(string, bool) gomap \<Rightarrow> incident list \<Rightarrow> incident list \<Rightarrow> incident list" where
  "incident_merge seen out [] = out"
| "incident_merge seen out (i # is) =
     (if gm_get seen (incident_key i) = Some True then incident_merge seen out is
      else incident_merge (gm_set (incident_key i) True seen) (out @ [i]) is)"

definition mergeIncidents :: "incident list \<Rightarrow> incident list \<Rightarrow> incident list" where
  "mergeIncidents base later = incident_merge [] [] (base @ later)"

text \<open>\<open>mergeComposition\<close>: the parts of one report, then the closure \<open>add\<close> for each of them.\<close>

definition own_parts :: "report \<Rightarrow> run_part list" where
  "own_parts r =
     (if cp_Parts (r_Composition r) = [] \<and> r_RunID r \<noteq> [] then
        [zero_run_part\<lparr>pt_PartID := r_RunID r,
           pt_Status := (if r_Status r = [] then RunStatusComplete else r_Status r)\<rparr>]
      else cp_Parts (r_Composition r))"

definition add_part :: "run_part \<Rightarrow> (string, bool) gomap \<times> run_part list \<Rightarrow> (string, bool) gomap \<times> run_part list" where
  "add_part p s =
     (case s of (seen, parts) \<Rightarrow>
        if pt_PartID p = [] then (seen, parts)
        else if gm_get seen (pt_PartID p) = Some True then
          (seen, map (\<lambda>q. if pt_PartID q = pt_PartID p then p else q) parts)
        else (gm_set (pt_PartID p) True seen, parts @ [p]))"

definition mergeComposition :: "report \<Rightarrow> report \<Rightarrow> run_composition" where
  "mergeComposition base later =
     (let parts = snd (fold add_part (own_parts later) (fold add_part (own_parts base) ([], [])))
      in \<lparr> cp_PartsCount = int (length parts), cp_Parts = parts \<rparr>)"

definition selection_key :: "storage_selection \<Rightarrow> string \<times> string \<times> string" where
  "selection_key s = (ss_TR s, ss_Variant s, ss_Scenario s)"

text \<open>\<open>mergeStorageSelections\<close>: the first entry with the same identity is replaced, or the entry is appended.\<close>

definition mergeStorageSelections :: "storage_selection list \<Rightarrow> storage_selection list \<Rightarrow> storage_selection list" where
  "mergeStorageSelections base later = fold (upsert selection_key) later base"

definition emptyEnv :: "environment \<Rightarrow> bool" where
  "emptyEnv e =
     (let p = env_Platform e in
      hw_Nodes (env_Hardware e) = 0 \<and> hw_Facts (env_Hardware e) = [] \<and> pf_OCPVersion p = [] \<and>
      csi_Name (pf_CSIDriver p) = [] \<and> pf_Backend p = [] \<and> pf_StorageClasses p = [] \<and> pf_Facts p = [])"

text \<open>The merged report before its lifecycle is derived again.\<close>

definition merged_report :: "map_order \<Rightarrow> report \<Rightarrow> report \<Rightarrow> report" where
  "merged_report order base later =
     (let verdicts = dedupeVerdicts (r_Verdicts base @ r_Verdicts later);
          prov = (if pv_KBGitCommit (r_Provenance base) = [] then r_Provenance later else r_Provenance base);
          schema = (if r_SchemaVersion base = [] then r_SchemaVersion later else r_SchemaVersion base)
      in (Build (r_RunID base) schema prov verdicts)
           \<lparr> r_Measurements := dedupeMeasurements (r_Measurements base @ r_Measurements later),
             r_Composition := mergeComposition base later,
             r_Executions := mergeExecutions order (r_Executions base) (r_Executions later),
             r_StorageSelections := mergeStorageSelections (r_StorageSelections base) (r_StorageSelections later),
             r_Incidents := mergeIncidents (r_Incidents base) (r_Incidents later),
             r_Warnings := r_Warnings base @ r_Warnings later,
             r_Status := (if r_Status later = [] then RunStatusComplete else r_Status later),
             r_CompletionReason := r_CompletionReason later,
             r_Environment := (if emptyEnv (r_Environment base) then r_Environment later else r_Environment base),
             r_Attestations := (if r_Attestations base = [] then r_Attestations later else r_Attestations base) \<rparr>)"

definition Merge :: "map_order \<Rightarrow> report \<Rightarrow> report \<Rightarrow> string + report" where
  "Merge order base later =
     (let bc = pv_KBGitCommit (r_Provenance base); nc = pv_KBGitCommit (r_Provenance later) in
      if bc \<noteq> [] \<and> nc \<noteq> [] \<and> bc \<noteq> nc then
        Inl (''cannot merge reports from different KB commits ('' @ bc @ '' vs '' @ nc @ '')'')
      else Inr (RefreshLifecycle (merged_report order base later)))"

section \<open>The contract of a keyed merge\<close>

text \<open>
  \<open>merge xs ys\<close> holds, for every key, the last element with that key, once. \<open>wf\<close> is what an
  operation requires of its first argument.
\<close>

locale keyed_union =
  fixes merge :: "'a list \<Rightarrow> 'a list \<Rightarrow> 'a list"
    and key :: "'a \<Rightarrow> 'k"
    and wf :: "'a list \<Rightarrow> bool"
  assumes member: "wf xs \<Longrightarrow> x \<in> set (merge xs ys) \<longleftrightarrow> latest key (key x) (xs @ ys) = Some x"
    and distinct_keys: "wf xs \<Longrightarrow> distinct (map key (merge xs ys))"
    and wf_merge: "wf xs \<Longrightarrow> wf (merge xs ys)"
begin

lemma lookup: "wf xs \<Longrightarrow> latest key k (merge xs ys) = latest key k (xs @ ys)"
proof -
  assume wf: "wf xs"
  have "latest key k (merge xs ys) = Some x \<longleftrightarrow> latest key k (xs @ ys) = Some x" for x
  proof
    assume a: "latest key k (merge xs ys) = Some x"
    then have "x \<in> set (merge xs ys)" and "key x = k" by (auto dest: latest_Some)
    then show "latest key k (xs @ ys) = Some x" using member[OF wf] by blast
  next
    assume a: "latest key k (xs @ ys) = Some x"
    then have k: "key x = k" by (auto dest: latest_Some)
    with a have "x \<in> set (merge xs ys)" using member[OF wf] by blast
    then show "latest key k (merge xs ys) = Some x"
      using latest_distinct[OF distinct_keys[OF wf, of ys]] k by blast
  qed
  then show ?thesis by (metis option.exhaust)
qed

lemma keys: "wf xs \<Longrightarrow> key ` set (merge xs ys) = key ` set xs \<union> key ` set ys"
proof -
  assume wf: "wf xs"
  have "k \<in> key ` set (merge xs ys) \<longleftrightarrow> k \<in> key ` set (xs @ ys)" for k
    using lookup[OF wf, of k ys] latest_None[of key k "merge xs ys"] latest_None[of key k "xs @ ys"] by auto
  then show ?thesis by auto
qed

lemma later_wins: "wf xs \<Longrightarrow> latest key (key y) ys = Some y \<Longrightarrow> y \<in> set (merge xs ys)"
  by (simp add: member latest_append)

lemma survives:
  "wf xs \<Longrightarrow> latest key (key x) xs = Some x \<Longrightarrow> key x \<notin> key ` set ys \<Longrightarrow> x \<in> set (merge xs ys)"
  by (simp add: member latest_append latest_None[THEN iffD2])

lemma from_either: "wf xs \<Longrightarrow> x \<in> set (merge xs ys) \<Longrightarrow> x \<in> set xs \<union> set ys"
  using member[of xs x ys] by (auto dest: latest_Some)

lemma set_assoc: "wf xs \<Longrightarrow> wf ys \<Longrightarrow> set (merge (merge xs ys) zs) = set (merge xs (merge ys zs))"
  by (rule set_eqI) (simp add: member wf_merge latest_append lookup split: option.split)

lemma set_absorb: "wf xs \<Longrightarrow> set (merge (merge xs ys) ys) = set (merge xs ys)"
proof -
  assume wf: "wf xs"
  have "x \<in> set (merge (merge xs ys) ys) \<longleftrightarrow> x \<in> set (merge xs ys)" for x
  proof -
    have "x \<in> set (merge (merge xs ys) ys) \<longleftrightarrow> latest key (key x) (merge xs ys @ ys) = Some x"
    by (rule member[OF wf_merge[OF wf]])
  also have "\<dots> \<longleftrightarrow> latest key (key x) (xs @ ys) = Some x"
    unfolding latest_append lookup[OF wf] by (cases "latest key (key x) ys") simp_all
  also have "\<dots> \<longleftrightarrow> x \<in> set (merge xs ys)" using member[OF wf] by simp
  finally show ?thesis .
  qed
  then show ?thesis by blast
qed

end

text \<open>A keyed merge whose result is sorted by a key at least as fine: equal sets are equal lists.\<close>

locale sorted_union = keyed_union merge key wf
  for merge :: "'a list \<Rightarrow> 'a list \<Rightarrow> 'a list" and key :: "'a \<Rightarrow> 'k" and wf :: "'a list \<Rightarrow> bool" +
  fixes skey :: "'a \<Rightarrow> 's :: linorder"
  assumes sorted_merge: "sorted (map skey (merge xs ys))"
    and skey_key: "skey x = skey y \<Longrightarrow> key x = key y"
begin

lemma canonical:
  assumes "wf a" and "wf c" and s: "set (merge a b) = set (merge c d)"
  shows "merge a b = merge c d"
proof -
  have dm: "distinct (map skey (merge x y))" if "wf x" for x y
  proof -
    have "distinct (merge x y)" and "inj_on key (set (merge x y))"
      using distinct_keys[OF that, of y] by (simp_all add: distinct_map)
    moreover have "inj_on skey (set (merge x y))"
    proof (rule inj_onI)
      fix u v assume uv: "u \<in> set (merge x y)" "v \<in> set (merge x y)" and "skey u = skey v"
      then have "key u = key v" by (intro skey_key)
      with uv show "u = v" using \<open>inj_on key (set (merge x y))\<close> by (simp add: inj_on_def)
    qed
    ultimately show ?thesis by (simp add: distinct_map)
  qed
  have "map skey (merge a b) = map skey (merge c d)"
    using sorted_merge dm assms by (intro sorted_distinct_set_unique) auto
  moreover have "inj_on skey (set (merge a b) \<union> set (merge c d))"
    using dm[OF assms(1), of b] s by (simp add: distinct_map)
  ultimately show ?thesis using map_inj_on by blast
qed

lemma assoc: "wf xs \<Longrightarrow> wf ys \<Longrightarrow> merge (merge xs ys) zs = merge xs (merge ys zs)"
  by (rule canonical) (auto simp: set_assoc wf_merge)

lemma absorb: "wf xs \<Longrightarrow> merge (merge xs ys) ys = merge xs ys"
  by (rule canonical) (auto simp: set_absorb wf_merge)

end

section \<open>The merge operations satisfy it\<close>

lemma dedupe_member: "x \<in> set (index_loop key vs [] []) \<longleftrightarrow> latest key (key x) vs = Some x"
  using fold_upsert_member[of key "[]" x vs] by (simp add: index_loop_start)

lemma dedupe_distinct: "distinct (map key (sort_key sk (index_loop key vs [] [])))"
proof -
  have "mset (map key (sort_key sk (index_loop key vs [] []))) = mset (map key (fold (upsert key) vs []))"
    by (simp add: index_loop_start)
  then show ?thesis using fold_upsert_distinct[of key "[]" vs] by (metis distinct.simps(1) list.simps(8) mset_eq_imp_distinct_iff)
qed

interpretation verdicts: sorted_union "\<lambda>xs ys. dedupeVerdicts (xs @ ys)" verdict_key "\<lambda>_. True"
    "\<lambda>v. (v_TR v, v_Variant v, v_Scenario v, v_Item v)"
  by unfold_locales (simp_all add: dedupeVerdicts_def dedupe_member dedupe_distinct, simp add: verdict_key_def)

interpretation measurements: sorted_union "\<lambda>xs ys. dedupeMeasurements (xs @ ys)" measurement_key "\<lambda>_. True"
    "\<lambda>m. (me_TR m, me_Variant m, me_Scenario m, me_Name m, me_Percentile m)"
  by unfold_locales (simp_all add: dedupeMeasurements_def dedupe_member dedupe_distinct, simp add: measurement_key_def)

lemma mergeExecutions_index:
  "mergeExecutions order base later =
     sort_key (\<lambda>e. (ex_TR e, ex_Variant e, ex_Scenario e)) (map snd (order (gm_index execution_key (base @ later))))"
  by (simp add: mergeExecutions_def gm_index_def Let_def)

interpretation executions: sorted_union "mergeExecutions (\<lambda>m. m)" execution_key "\<lambda>_. True"
    "\<lambda>e. (ex_TR e, ex_Variant e, ex_Scenario e)"
proof
  fix xs ys :: "run_execution list" and x
  show "x \<in> set (mergeExecutions (\<lambda>m. m) xs ys) \<longleftrightarrow> latest execution_key (execution_key x) (xs @ ys) = Some x"
  proof -
    have "x \<in> set (mergeExecutions (\<lambda>m. m) xs ys) \<longleftrightarrow> (\<exists>k. (k, x) \<in> set (gm_index execution_key (xs @ ys)))"
      by (force simp: mergeExecutions_index)
    also have "\<dots> \<longleftrightarrow> latest execution_key (execution_key x) (xs @ ys) = Some x"
      unfolding gm_index_member by (metis latest_Some)
    finally show ?thesis .
  qed
  have "mset (map execution_key (mergeExecutions (\<lambda>m. m) xs ys)) = mset (map (\<lambda>p. execution_key (snd p)) (gm_index execution_key (xs @ ys)))"
    by (simp add: mergeExecutions_index image_mset.compositionality comp_def)
  then show "distinct (map execution_key (mergeExecutions (\<lambda>m. m) xs ys))"
    using gm_index_values_distinct[of execution_key "xs @ ys"] by (metis mset_eq_imp_distinct_iff)
qed (auto simp: mergeExecutions_index execution_key_def)

interpretation selections: keyed_union mergeStorageSelections selection_key "\<lambda>xs. distinct (map selection_key xs)"
  by unfold_locales (auto simp: mergeStorageSelections_def fold_upsert_member fold_upsert_distinct)

text \<open>The iteration order of the map does not matter.\<close>

lemma mergeExecutions_order:
  assumes "\<And>m. mset (order m) = mset m"
  shows "mergeExecutions order xs ys = mergeExecutions (\<lambda>m. m) xs ys"
  unfolding mergeExecutions_index
proof (rule sort_key_unique)
  let ?m = "gm_index execution_key (xs @ ys)"
  show "mset (map snd (order ?m)) = mset (map snd ?m)" by (simp add: assms)
  have "set (order ?m) = set ?m" using assms by (metis mset_eq_setD)
  moreover have "inj_on (\<lambda>e. (ex_TR e, ex_Variant e, ex_Scenario e)) (snd ` set ?m)"
  proof (rule inj_onI)
    fix a b assume "a \<in> snd ` set ?m" "b \<in> snd ` set ?m"
      and k: "(ex_TR a, ex_Variant a, ex_Scenario a) = (ex_TR b, ex_Variant b, ex_Scenario b)"
    then obtain i j where "latest execution_key i (xs @ ys) = Some a" "latest execution_key j (xs @ ys) = Some b"
      by (auto simp: gm_index_member)
    moreover have "execution_key a = execution_key b" using k by (simp add: execution_key_def)
    ultimately show "a = b" by (metis latest_Some option.inject)
  qed
  ultimately show "inj_on (\<lambda>e. (ex_TR e, ex_Variant e, ex_Scenario e)) (set (map snd (order ?m)))" by simp
qed

section \<open>Incidents: the first with a key is kept\<close>

lemma incident_merge_member:
  "i \<in> set (incident_merge seen out is) \<longleftrightarrow>
     i \<in> set out \<or> (gm_get seen (incident_key i) \<noteq> Some True \<and> find (\<lambda>j. incident_key j = incident_key i) is = Some i)"
proof (induction "is" arbitrary: seen out)
  case (Cons a as)
  show ?case
  proof (cases "incident_key a = incident_key i")
    case True
    then show ?thesis by (auto simp: Cons.IH)
  next
    case False
    then show ?thesis by (auto simp: Cons.IH)
  qed
qed simp

lemma mergeIncidents_member:
  "i \<in> set (mergeIncidents xs ys) \<longleftrightarrow> find (\<lambda>j. incident_key j = incident_key i) (xs @ ys) = Some i"
  by (simp add: mergeIncidents_def incident_merge_member)

lemma mergeIncidents_base:
  assumes "i \<in> set xs" and "distinct (map incident_key xs)"
  shows "i \<in> set (mergeIncidents xs ys)"
proof -
  have "find (\<lambda>j. incident_key j = incident_key i) xs = Some i"
    using assms by (induction xs) (auto simp: image_iff)
  then show ?thesis by (simp add: mergeIncidents_member find_append)
qed

lemma mergeIncidents_subset: "set (mergeIncidents xs ys) \<subseteq> set xs \<union> set ys"
  by (auto simp: mergeIncidents_member find_Some_iff dest: nth_mem) (metis nth_mem set_append Un_iff length_append)

section \<open>The merged report\<close>

lemma merged_report_simps [simp]:
  "r_Verdicts (merged_report order base later) = dedupeVerdicts (r_Verdicts base @ r_Verdicts later)"
  "r_Measurements (merged_report order base later) = dedupeMeasurements (r_Measurements base @ r_Measurements later)"
  "r_Executions (merged_report order base later) = mergeExecutions order (r_Executions base) (r_Executions later)"
  "r_StorageSelections (merged_report order base later) =
     mergeStorageSelections (r_StorageSelections base) (r_StorageSelections later)"
  "r_Incidents (merged_report order base later) = mergeIncidents (r_Incidents base) (r_Incidents later)"
  "r_Warnings (merged_report order base later) = r_Warnings base @ r_Warnings later"
  "r_RunID (merged_report order base later) = r_RunID base"
  "r_Composition (merged_report order base later) = mergeComposition base later"
  "r_Status (merged_report order base later) = (if r_Status later = [] then RunStatusComplete else r_Status later)"
  by (simp_all add: merged_report_def Let_def)

lemma merged_report_rollup:
  "r_Summary (merged_report order base later) =
     r_Summary (Build i sv pv (dedupeVerdicts (r_Verdicts base @ r_Verdicts later)))"
  "r_Levels (merged_report order base later) =
     r_Levels (Build i sv pv (dedupeVerdicts (r_Verdicts base @ r_Verdicts later)))"
  by (simp_all add: merged_report_def Let_def Build_rollup)

lemma Merge_Inr:
  assumes "Merge order base later = Inr m"
  shows "m = RefreshLifecycle (merged_report order base later)"
  using assms by (simp add: Merge_def Let_def split: if_splits)

lemma Merge_fields:
  assumes "Merge order base later = Inr m"
  shows "r_Verdicts m = dedupeVerdicts (r_Verdicts base @ r_Verdicts later)"
    "r_Measurements m = dedupeMeasurements (r_Measurements base @ r_Measurements later)"
    "r_Executions m = mergeExecutions order (r_Executions base) (r_Executions later)"
    "r_StorageSelections m = mergeStorageSelections (r_StorageSelections base) (r_StorageSelections later)"
    "r_Incidents m = mergeIncidents (r_Incidents base) (r_Incidents later)"
    "r_Warnings m = r_Warnings base @ r_Warnings later"
    "r_RunID m = r_RunID base"
    "r_Summary m = r_Summary (Build i sv pv (r_Verdicts m))"
    "r_Levels m = r_Levels (Build i sv pv (r_Verdicts m))"
  unfolding Merge_Inr[OF assms] by (simp_all add: merged_report_rollup)

lemma Merge_certifiable_raw:
  assumes "Merge order base later = Inr m"
  shows "r_Certifiable m \<longleftrightarrow> (r_Status later = [] \<or> r_Status later = RunStatusComplete) \<and>
       (\<forall>i \<in> set (r_Incidents m). \<not> inc_BlocksCertification i) \<and> sm_Fail (r_Summary m) = 0 \<and> sm_Error (r_Summary m) = 0"
  unfolding Merge_Inr[OF assms] by (simp add: RefreshLifecycle_certifiable)

lemma Merge_certifiable:
  assumes "Merge order base later = Inr m"
  shows "r_Certifiable m \<longleftrightarrow> (r_Status later = [] \<or> r_Status later = RunStatusComplete) \<and>
       (\<forall>i \<in> set (r_Incidents m). \<not> inc_BlocksCertification i) \<and>
       (\<forall>v \<in> set (r_Verdicts m). v_Outcome v \<noteq> OutcomeFail \<and> v_Outcome v \<noteq> OutcomeError)"
proof -
  have "sm_Fail (r_Summary m) = 0 \<and> sm_Error (r_Summary m) = 0 \<longleftrightarrow> r_Certifiable (Build [] [] zero_provenance (r_Verdicts m))"
    unfolding Merge_fields(8)[OF assms, of "[]" "[]" zero_provenance] Build_certifiable Build_summary
    using filter_length_0[of "\<lambda>v. v_Outcome v = OutcomeFail" "r_Verdicts m"]
      filter_length_0[of "\<lambda>v. v_Outcome v = OutcomeError" "r_Verdicts m"] by auto
  then show ?thesis unfolding Merge_certifiable_raw[OF assms] Build_certifiable by blast
qed

section \<open>Properties\<close>

text \<open>
  C16: a merge succeeds exactly when the two reports do not name two different KB commits. The
  merged report keeps the base's run id, and a verdict is in it exactly when it is the last one
  with its TR, item, scenario and variant key in the base's verdicts followed by the later ones;
  keys are unique in the result.
\<close>

theorem Merge_verdicts:
  "((\<exists>m. Merge order base later = Inr m) \<longleftrightarrow>
      pv_KBGitCommit (r_Provenance base) = [] \<or> pv_KBGitCommit (r_Provenance later) = [] \<or>
      pv_KBGitCommit (r_Provenance base) = pv_KBGitCommit (r_Provenance later)) \<and>
   (\<forall>m. Merge order base later = Inr m \<longrightarrow> r_RunID m = r_RunID base \<and>
      distinct (map verdict_key (r_Verdicts m)) \<and>
      (\<forall>v. v \<in> set (r_Verdicts m) \<longleftrightarrow> latest verdict_key (verdict_key v) (r_Verdicts base @ r_Verdicts later) = Some v))"
proof (intro conjI allI impI)
  show "(\<exists>m. Merge order base later = Inr m) \<longleftrightarrow>
      pv_KBGitCommit (r_Provenance base) = [] \<or> pv_KBGitCommit (r_Provenance later) = [] \<or>
      pv_KBGitCommit (r_Provenance base) = pv_KBGitCommit (r_Provenance later)"
    by (auto simp: Merge_def Let_def)
  fix m assume m: "Merge order base later = Inr m"
  show "r_RunID m = r_RunID base" "distinct (map verdict_key (r_Verdicts m))"
    unfolding Merge_fields(1,7)[OF m] by (simp_all add: verdicts.distinct_keys)
  fix v
  show "v \<in> set (r_Verdicts m) \<longleftrightarrow> latest verdict_key (verdict_key v) (r_Verdicts base @ r_Verdicts later) = Some v"
    unfolding Merge_fields(1)[OF m] by (rule verdicts.member) simp
qed

theorem Merge_verdicts_witness:
  "\<exists>m. Merge id (zero_report\<lparr>r_RunID := ''r1''\<rparr>) zero_report = Inr m \<and> r_RunID m = ''r1''"
proof -
  obtain m where "Merge id (zero_report\<lparr>r_RunID := ''r1''\<rparr>) zero_report = Inr m"
    using Merge_verdicts[of id "zero_report\<lparr>r_RunID := ''r1''\<rparr>" zero_report] by (auto simp: zero_report_def)
  with Merge_verdicts[of id "zero_report\<lparr>r_RunID := ''r1''\<rparr>" zero_report] show ?thesis by (auto simp: zero_report_def)
qed

text \<open>Incidents merge as a list in which only the first with a key stays.\<close>

fun first_incidents :: "string set \<Rightarrow> incident list \<Rightarrow> incident list" where
  "first_incidents S [] = []"
| "first_incidents S (i # is) =
     (if incident_key i \<in> S then first_incidents S is else i # first_incidents (insert (incident_key i) S) is)"

lemma incident_merge_first: "incident_merge seen out is = out @ first_incidents {k. gm_get seen k = Some True} is"
proof (induction "is" arbitrary: seen out)
  case (Cons i "is")
  have "{k. gm_get (gm_set (incident_key i) True seen) k = Some True} = insert (incident_key i) {k. gm_get seen k = Some True}"
    by (auto simp: go_map)
  with Cons.IH show ?case by simp
qed simp

lemma mergeIncidents_first: "mergeIncidents xs ys = first_incidents {} (xs @ ys)"
  by (simp add: mergeIncidents_def incident_merge_first)

lemma first_incidents_append: "first_incidents S (xs @ ys) = first_incidents S xs @ first_incidents (S \<union> incident_key ` set xs) ys"
  by (induction xs arbitrary: S) (auto simp: insert_absorb)

lemma first_incidents_twice: "T \<subseteq> S \<Longrightarrow> first_incidents S (first_incidents T xs) = first_incidents S xs"
proof (induction xs arbitrary: S T)
  case (Cons i xs)
  have "insert (incident_key i) T \<subseteq> insert (incident_key i) S" "T \<subseteq> S" using Cons.prems by auto
  with Cons.IH[of T S] Cons.IH[of "insert (incident_key i) T" "insert (incident_key i) S"] Cons.IH[of "insert (incident_key i) T" S] Cons.prems
  show ?case by auto
qed simp

lemma first_incidents_keys: "S \<union> incident_key ` set (first_incidents S xs) = S \<union> incident_key ` set xs"
proof (induction xs arbitrary: S)
  case (Cons i xs)
  show ?case
  proof (cases "incident_key i \<in> S")
    case True
    with Cons.IH[of S] show ?thesis by auto
  next
    case False
    with Cons.IH[of "insert (incident_key i) S"] show ?thesis by simp
  qed
qed simp

lemma mergeIncidents_assoc: "mergeIncidents (mergeIncidents xs ys) zs = mergeIncidents xs (mergeIncidents ys zs)"
proof -
  have k: "incident_key ` set (first_incidents {} us) = incident_key ` set us" for us
    using first_incidents_keys[of "{}" us] by simp
  have "mergeIncidents (mergeIncidents xs ys) zs = first_incidents {} (xs @ ys @ zs)"
    by (simp add: mergeIncidents_first first_incidents_append[of _ "first_incidents {} (xs @ ys)"] first_incidents_twice k)
      (simp add: first_incidents_append image_Un)
  moreover have "mergeIncidents xs (mergeIncidents ys zs) = first_incidents {} (xs @ ys @ zs)"
    by (simp add: mergeIncidents_first first_incidents_append[of _ xs] first_incidents_twice)
  ultimately show ?thesis by simp
qed

text \<open>The remaining fields: the later status and reason, the first known provenance, environment and attestations.\<close>

lemma Refresh_more:
  "r_CompletionReason (RefreshLifecycle x) = r_CompletionReason x" "r_SchemaVersion (RefreshLifecycle x) = r_SchemaVersion x"
  "r_Provenance (RefreshLifecycle x) = r_Provenance x" "r_Environment (RefreshLifecycle x) = r_Environment x"
  "r_Attestations (RefreshLifecycle x) = r_Attestations x"
  "r_Status (RefreshLifecycle x) = (if r_Status x = [] then RunStatusComplete else r_Status x)"
  by (simp_all add: RefreshLifecycle_def derive_flags_def default_parts_def default_status_def Let_def split_beta)

lemma Refresh_flags:
  assumes "r_Status x = r_Status y" and "r_Incidents x = r_Incidents y" and "r_Summary x = r_Summary y"
  shows "r_Health (RefreshLifecycle x) = r_Health (RefreshLifecycle y) \<and> r_Certifiable (RefreshLifecycle x) = r_Certifiable (RefreshLifecycle y)"
  using assms by (simp add: RefreshLifecycle_def derive_flags_def default_parts_def default_status_def Let_def split_beta)

lemma merged_more:
  "r_CompletionReason (merged_report order base later) = r_CompletionReason later"
  "r_SchemaVersion (merged_report order base later) = (if r_SchemaVersion base = [] then r_SchemaVersion later else r_SchemaVersion base)"
  "r_Provenance (merged_report order base later) = (if pv_KBGitCommit (r_Provenance base) = [] then r_Provenance later else r_Provenance base)"
  "r_Environment (merged_report order base later) = (if emptyEnv (r_Environment base) then r_Environment later else r_Environment base)"
  "r_Attestations (merged_report order base later) = (if r_Attestations base = [] then r_Attestations later else r_Attestations base)"
  by (simp_all add: merged_report_def Let_def Build_def Refresh_more split_beta)

lemma Merge_more:
  assumes "Merge order base later = Inr m"
  shows "r_Status m = (if r_Status later = [] then RunStatusComplete else r_Status later)"
    "r_CompletionReason m = r_CompletionReason later"
    "r_SchemaVersion m = (if r_SchemaVersion base = [] then r_SchemaVersion later else r_SchemaVersion base)"
    "r_Provenance m = (if pv_KBGitCommit (r_Provenance base) = [] then r_Provenance later else r_Provenance base)"
    "r_Environment m = (if emptyEnv (r_Environment base) then r_Environment later else r_Environment base)"
    "r_Attestations m = (if r_Attestations base = [] then r_Attestations later else r_Attestations base)"
  unfolding Merge_Inr[OF assms] by (simp_all add: Refresh_more merged_more)

text \<open>
  C34: composing three reports does not depend on the grouping, whatever the iteration order of the
  executions map: the two results are the same report up to its list of parts (the composition) and
  its storage selections. These two fields depend on the grouping in corner cases (a part or a
  selection that occurs twice, or a report without parts).
\<close>

theorem Merge_associative:
  assumes ord: "\<And>m. mset (o1 m) = mset m" "\<And>m. mset (o2 m) = mset m"
    and ab: "Merge o1 a b = Inr ab" and abc: "Merge o1 ab c = Inr l"
    and bc: "Merge o2 b c = Inr bc" and abc': "Merge o2 a bc = Inr r"
  shows "l\<lparr>r_Composition := r_Composition r, r_StorageSelections := r_StorageSelections r\<rparr> = r"
proof -
  have v: "r_Verdicts l = r_Verdicts r"
    unfolding Merge_fields(1)[OF abc] Merge_fields(1)[OF abc'] Merge_fields(1)[OF ab] Merge_fields(1)[OF bc]
    by (rule verdicts.assoc) simp_all
  have m: "r_Measurements l = r_Measurements r"
    unfolding Merge_fields(2)[OF abc] Merge_fields(2)[OF abc'] Merge_fields(2)[OF ab] Merge_fields(2)[OF bc]
    by (rule measurements.assoc) simp_all
  have e: "r_Executions l = r_Executions r"
    unfolding Merge_fields(3)[OF abc] Merge_fields(3)[OF abc'] Merge_fields(3)[OF ab] Merge_fields(3)[OF bc]
      mergeExecutions_order[OF ord(1)] mergeExecutions_order[OF ord(2)]
    by (rule executions.assoc) simp_all
  have s: "r_Summary l = r_Summary r" "r_Levels l = r_Levels r"
    unfolding Merge_fields(8)[OF abc, of "[]" "[]" zero_provenance] Merge_fields(8)[OF abc', of "[]" "[]" zero_provenance]
      Merge_fields(9)[OF abc, of "[]" "[]" zero_provenance] Merge_fields(9)[OF abc', of "[]" "[]" zero_provenance] v by simp_all
  have i: "r_Incidents l = r_Incidents r"
    unfolding Merge_fields(5)[OF abc] Merge_fields(5)[OF abc'] Merge_fields(5)[OF ab] Merge_fields(5)[OF bc] by (rule mergeIncidents_assoc)
  have w: "r_Warnings l = r_Warnings r" "r_RunID l = r_RunID r"
    unfolding Merge_fields(6)[OF abc] Merge_fields(6)[OF abc'] Merge_fields(6)[OF ab] Merge_fields(6)[OF bc]
      Merge_fields(7)[OF abc] Merge_fields(7)[OF abc'] Merge_fields(7)[OF ab] by simp_all
  have st: "r_Status l = r_Status r"
    unfolding Merge_more(1)[OF abc] Merge_more(1)[OF abc'] Merge_more(1)[OF bc] by simp
  have o: "r_CompletionReason l = r_CompletionReason r" "r_SchemaVersion l = r_SchemaVersion r" "r_Provenance l = r_Provenance r"
    "r_Environment l = r_Environment r" "r_Attestations l = r_Attestations r"
    unfolding Merge_more(2-6)[OF abc] Merge_more(2-6)[OF abc'] Merge_more(2-6)[OF ab] Merge_more(2-6)[OF bc] by simp_all
  have "r_Status (merged_report o1 ab c) = r_Status (merged_report o2 a bc)"
    using Merge_more(1)[OF bc] by simp
  moreover have "r_Incidents (merged_report o1 ab c) = r_Incidents (merged_report o2 a bc)"
    using i unfolding Merge_fields(5)[OF abc] Merge_fields(5)[OF abc'] by simp
  moreover have "r_Summary (merged_report o1 ab c) = r_Summary (merged_report o2 a bc)"
    using s(1) unfolding Merge_Inr[OF abc] Merge_Inr[OF abc'] by simp
  ultimately have f: "r_Health l = r_Health r" "r_Certifiable l = r_Certifiable r"
    unfolding Merge_Inr[OF abc] Merge_Inr[OF abc'] using Refresh_flags by blast+
  show ?thesis by (rule report.equality) (simp_all add: v m e s i w st o f)
qed

lemma Merge_same_commit:
  "pv_KBGitCommit (r_Provenance base) = pv_KBGitCommit (r_Provenance later) \<Longrightarrow>
   Merge order base later = Inr (RefreshLifecycle (merged_report order base later))"
  by (simp add: Merge_def Let_def)

lemma merged_provenance:
  "pv_KBGitCommit (r_Provenance base) = pv_KBGitCommit (r_Provenance later) \<Longrightarrow>
   pv_KBGitCommit (r_Provenance (merged_report order base later)) = pv_KBGitCommit (r_Provenance base)"
  by (simp add: merged_report_def Let_def)

theorem Merge_associative_witness:
  "\<exists>a b c ab bc l r. Merge id a b = Inr ab \<and> Merge id ab c = Inr l \<and> Merge rev b c = Inr bc \<and> Merge rev a bc = Inr r \<and>
     l\<lparr>r_Composition := r_Composition r, r_StorageSelections := r_StorageSelections r\<rparr> = r \<and> r_Verdicts a \<noteq> [] \<and> r_Executions b \<noteq> []"
proof -
  define a where "a = zero_report\<lparr>r_Verdicts := [zero_verdict\<lparr>v_TR := ''t'', v_Outcome := OutcomeFail\<rparr>]\<rparr>"
  define b where "b = zero_report\<lparr>r_Executions := [zero_run_execution\<lparr>ex_TR := ''t''\<rparr>, zero_run_execution\<lparr>ex_TR := ''s''\<rparr>]\<rparr>"
  define c where "c = zero_report\<lparr>r_Verdicts := [zero_verdict\<lparr>v_TR := ''t'', v_Outcome := OutcomePass\<rparr>]\<rparr>"
  have e: "pv_KBGitCommit (r_Provenance a) = []" "pv_KBGitCommit (r_Provenance b) = []" "pv_KBGitCommit (r_Provenance c) = []"
    by (simp_all add: a_def b_def c_def zero_report_def zero_provenance_def)
  obtain ab where ab: "Merge id a b = Inr ab" "pv_KBGitCommit (r_Provenance ab) = []"
    using e by (simp add: Merge_same_commit merged_provenance)
  obtain bc where bc: "Merge rev b c = Inr bc" "pv_KBGitCommit (r_Provenance bc) = []"
    using e by (simp add: Merge_same_commit merged_provenance)
  obtain l where l: "Merge id ab c = Inr l" using ab e by (simp add: Merge_same_commit)
  obtain r where r: "Merge rev a bc = Inr r" using bc e by (simp add: Merge_same_commit)
  have "l\<lparr>r_Composition := r_Composition r, r_StorageSelections := r_StorageSelections r\<rparr> = r"
    using Merge_associative[OF _ _ ab(1) l bc(1) r] by simp
  moreover have "r_Verdicts a \<noteq> []" "r_Executions b \<noteq> []" by (simp_all add: a_def b_def)
  ultimately show ?thesis using ab(1) bc(1) l r by blast
qed

text \<open>
  A merged report is certifiable exactly when the later report is complete, no kept
  incident blocks, and every winning verdict is neither a failure nor an error: a failure of
  the base disappears when its execution is repeated and passes.
\<close>

theorem Merge_certifiable_iff:
  assumes "Merge order base later = Inr m"
  shows "r_Certifiable m \<longleftrightarrow> (r_Status later = [] \<or> r_Status later = RunStatusComplete) \<and>
     filter inc_BlocksCertification (mergeIncidents (r_Incidents base) (r_Incidents later)) = [] \<and>
     (\<forall>v. latest verdict_key (verdict_key v) (r_Verdicts base @ r_Verdicts later) = Some v \<longrightarrow>
        v_Outcome v \<noteq> OutcomeFail \<and> v_Outcome v \<noteq> OutcomeError)"
proof -
  have "v \<in> set (r_Verdicts m) \<longleftrightarrow> latest verdict_key (verdict_key v) (r_Verdicts base @ r_Verdicts later) = Some v" for v
    unfolding Merge_fields(1)[OF assms] by (rule verdicts.member) simp
  then show ?thesis
    unfolding Merge_certifiable[OF assms] Merge_fields(5)[OF assms] by (auto simp: filter_empty_conv)
qed

definition one_verdict :: "outcome \<Rightarrow> report" where
  "one_verdict oc = zero_report\<lparr>r_Verdicts := [zero_verdict\<lparr>v_TR := ''t'', v_Outcome := oc\<rparr>]\<rparr>"

lemma one_verdict_simps [simp]:
  "r_Verdicts (one_verdict oc) = [zero_verdict\<lparr>v_TR := ''t'', v_Outcome := oc\<rparr>]" "r_Incidents (one_verdict oc) = []"
  "r_Status (one_verdict oc) = []" "pv_KBGitCommit (r_Provenance (one_verdict oc)) = []" "r_Warnings (one_verdict oc) = []"
  by (simp_all add: one_verdict_def zero_report_def zero_provenance_def)

theorem Merge_certifiable_iff_witness:
  "\<exists>m. Merge id (one_verdict OutcomeFail) (one_verdict OutcomePass) = Inr m \<and> r_Certifiable m"
proof -
  obtain m where m: "Merge id (one_verdict OutcomeFail) (one_verdict OutcomePass) = Inr m"
    using Merge_same_commit[of "one_verdict OutcomeFail" "one_verdict OutcomePass" id] by auto
  have "r_Certifiable m"
    unfolding Merge_certifiable_iff[OF m] by (simp add: mergeIncidents_def latest_def verdict_key_def zero_verdict_def split: if_splits)
  with m show ?thesis by blast
qed

text \<open>
  An incident of the base that blocks certification keeps blocking in every later merge,
  even when it is marked resolved and the resumed run is complete and all verdicts pass. A run
  once recorded as abandoned or cancelled can therefore never become certifiable by resuming.
\<close>

theorem Merge_blocking_incident_stays:
  assumes "Merge order base later = Inr m" and "i \<in> set (r_Incidents base)" and "inc_BlocksCertification i"
    and "distinct (map incident_key (r_Incidents base))"
  shows "\<not> r_Certifiable m \<and> i \<in> set (r_Incidents m)"
  using mergeIncidents_base[OF assms(2,4), of "r_Incidents later"] assms(3)
  unfolding Merge_certifiable[OF assms(1)] Merge_fields(5)[OF assms(1)] by blast

theorem Merge_blocking_incident_stays_witness:
  "\<exists>m. Merge id (zero_report\<lparr>r_Incidents := [zero_incident\<lparr>inc_ID := ''run-abandoned'', inc_Resolved := True,
       inc_BlocksCertification := True\<rparr>]\<rparr>) (one_verdict OutcomePass) = Inr m \<and> \<not> r_Certifiable m"
proof -
  define i where "i = zero_incident\<lparr>inc_ID := ''run-abandoned'', inc_Resolved := True, inc_BlocksCertification := True\<rparr>"
  define b where "b = zero_report\<lparr>r_Incidents := [i]\<rparr>"
  obtain m where m: "Merge id b (one_verdict OutcomePass) = Inr m"
    using Merge_same_commit[of b "one_verdict OutcomePass" id] by (auto simp: b_def zero_report_def zero_provenance_def)
  have "\<not> r_Certifiable m \<and> i \<in> set (r_Incidents m)"
    by (rule Merge_blocking_incident_stays[OF m]) (simp_all add: b_def i_def)
  with m show ?thesis unfolding b_def i_def by blast
qed

text \<open>
  Saving the same snapshot again changes no verdict, measurement, execution or summary of
  the composed report, but it appends the snapshot's warnings once more.
\<close>

theorem Merge_again:
  assumes ord: "\<And>m. mset (order m) = mset m"
    and m1: "Merge order base later = Inr m1" and m2: "Merge order m1 later = Inr m2"
  shows "r_Verdicts m2 = r_Verdicts m1 \<and> r_Measurements m2 = r_Measurements m1 \<and> r_Executions m2 = r_Executions m1 \<and>
    r_Summary m2 = r_Summary m1 \<and> r_Warnings m2 = r_Warnings m1 @ r_Warnings later"
proof -
  have v: "r_Verdicts m2 = r_Verdicts m1"
    unfolding Merge_fields(1)[OF m1] Merge_fields(1)[OF m2] by (rule verdicts.absorb) simp
  moreover have "r_Measurements m2 = r_Measurements m1"
    unfolding Merge_fields(2)[OF m1] Merge_fields(2)[OF m2] by (rule measurements.absorb) simp
  moreover have "r_Executions m2 = r_Executions m1"
    unfolding Merge_fields(3)[OF m1] Merge_fields(3)[OF m2] mergeExecutions_order[OF ord]
    by (rule executions.absorb) simp
  moreover have "r_Summary m2 = r_Summary m1"
    unfolding Merge_fields(8)[OF m1, of "[]" "[]" zero_provenance] Merge_fields(8)[OF m2, of "[]" "[]" zero_provenance] v ..
  ultimately show ?thesis using Merge_fields(6)[OF m2] by blast
qed

theorem Merge_again_witness:
  "\<exists>m1 m2. Merge id (one_verdict OutcomePass) (zero_report\<lparr>r_Warnings := [''w'']\<rparr>) = Inr m1 \<and>
     Merge id m1 (zero_report\<lparr>r_Warnings := [''w'']\<rparr>) = Inr m2 \<and> r_Warnings m2 = [''w'', ''w'']"
proof -
  define l where "l = zero_report\<lparr>r_Warnings := [''w'']\<rparr>"
  have l: "pv_KBGitCommit (r_Provenance l) = []" "r_Warnings l = [''w'']" by (simp_all add: l_def zero_report_def zero_provenance_def)
  obtain m1 where m1: "Merge id (one_verdict OutcomePass) l = Inr m1" "pv_KBGitCommit (r_Provenance m1) = []"
    using l by (simp add: Merge_same_commit merged_provenance)
  obtain m2 where m2: "Merge id m1 l = Inr m2" using m1(2) l by (simp add: Merge_same_commit)
  have "r_Warnings m2 = r_Warnings m1 @ [''w'']" using Merge_again[OF _ m1(1) m2] l by simp
  moreover have "r_Warnings m1 = [''w'']" using Merge_fields(6)[OF m1(1)] l by simp
  ultimately show ?thesis using m1(1) m2 unfolding l_def by auto
qed

end
