(* ===== verification/Selection.thy ===== *)
theory Selection
  imports Plan Registry
begin

text \<open>
  The pure part of \<open>internal/orchestrator/orchestrator.go\<close>: which requirements a run executes
  (filter, resume, overrides, variants), how they are bound to tools and grouped into jobs,
  which shared setups apply, and the verdicts of items that were not graded.
\<close>

section \<open>Tool resolution and selection\<close>

definition ResolveTool :: "'w registry \<Rightarrow> test_requirement \<Rightarrow> 'w tool_integration option" where
  "ResolveTool reg tr = (case Get reg (tr_AutomationTool tr) of Some t \<Rightarrow> Some t | None \<Rightarrow> ForTRID reg (tr_ID tr))"

definition runnable :: "'w registry \<Rightarrow> test_requirement \<Rightarrow> bool" where
  "runnable reg tr =
     (if tr_AutomationTool tr = [] \<or> tr_AutomationTool tr = CheckManual then False else ResolveTool reg tr \<noteq> None)"

fun SelectTRs :: "test_requirement list \<Rightarrow> filter_spec \<Rightarrow> test_requirement list" where
  "SelectTRs [] f = []"
| "SelectTRs (tr # all) f =
     (if f_IDs f \<noteq> [] \<and> tr_ID tr \<notin> set (f_IDs f) then SelectTRs all f
      else if f_Tools f \<noteq> [] \<and> tr_AutomationTool tr \<notin> set (f_Tools f) then SelectTRs all f
      else if f_PartnerLevels f \<noteq> [] \<and> tr_PartnerLevel tr \<notin> set (f_PartnerLevels f) then SelectTRs all f
      else tr # SelectTRs all f)"

section \<open>Resuming\<close>

definition executionKey :: "string \<Rightarrow> string \<Rightarrow> string \<Rightarrow> string" where
  "executionKey tr variant scenario = nul_join [tr, variant, scenario]"

record resume_maps =
  rm_completed :: "(string, bool) gomap"
  rm_failed :: "(string, bool) gomap"
  rm_known :: "(string, bool) gomap"

definition gm_true :: "('k, bool) gomap \<Rightarrow> 'k \<Rightarrow> bool" where
  "gm_true m k = (gm_get m k = Some True)"

definition resume_execution :: "string \<Rightarrow> run_execution \<Rightarrow> resume_maps \<Rightarrow> resume_maps" where
  "resume_execution scenario e s =
     (if ex_Scenario e \<noteq> scenario then s
      else let key = executionKey (ex_TR e) (ex_Variant e) (ex_Scenario e);
               s1 = s\<lparr>rm_known := gm_set key True (rm_known s)\<rparr>
           in if ex_State e = ExecutionCompleted then
                (let s2 = s1\<lparr>rm_completed := gm_set key True (rm_completed s1)\<rparr>
                 in if ex_Outcome e = OutcomeFail \<or> ex_Outcome e = OutcomeError
                    then s2\<lparr>rm_failed := gm_set key True (rm_failed s2)\<rparr> else s2)
              else s1)"

definition resume_verdict :: "string \<Rightarrow> verdict \<Rightarrow> resume_maps \<Rightarrow> resume_maps" where
  "resume_verdict scenario v s =
     (if v_Scenario v \<noteq> scenario then s
      else let key = executionKey (v_TR v) (v_Variant v) (v_Scenario v)
           in if gm_true (rm_known s) key then s
              else let s1 = s\<lparr>rm_completed := gm_set key True (rm_completed s)\<rparr>
                   in if v_Outcome v = OutcomeFail \<or> v_Outcome v = OutcomeError
                      then s1\<lparr>rm_failed := gm_set key True (rm_failed s1)\<rparr> else s1)"

definition ResumeExecutionsWithOptions ::
  "test_requirement list \<Rightarrow> report \<Rightarrow> string \<Rightarrow> bool \<Rightarrow> test_requirement list" where
  "ResumeExecutionsWithOptions selected prior scenario retryFailed =
     (let s1 = fold (resume_execution scenario) (r_Executions prior) \<lparr> rm_completed = [], rm_failed = [], rm_known = [] \<rparr>;
          s2 = fold (resume_verdict scenario) (r_Verdicts prior) s1
      in filter (\<lambda>tr. let key = executionKey (tr_ID tr) (tr_Variant tr) scenario
                      in \<not> (gm_true (rm_completed s2) key \<and> (\<not> retryFailed \<or> \<not> gm_true (rm_failed s2) key))) selected)"

definition ResumeExecutions :: "test_requirement list \<Rightarrow> report \<Rightarrow> string \<Rightarrow> test_requirement list" where
  "ResumeExecutions selected prior scenario = ResumeExecutionsWithOptions selected prior scenario False"

section \<open>Parameters\<close>

definition missingRequiredParams :: "test_requirement \<Rightarrow> string list" where
  "missingRequiredParams tr =
     sort (map fst (filter (\<lambda>(name, spec). ps_Required spec \<and> gm_get (tr_Params tr) name = None) (tr_ParamSpec tr)))"

definition applyOverrides :: "test_requirement list \<Rightarrow> (string, params) gomap \<Rightarrow> test_requirement list" where
  "applyOverrides trs overrides =
     (if overrides = [] then trs
      else map (\<lambda>tr. case gm_get overrides (tr_ID tr) of
                  None \<Rightarrow> tr
                | Some ov \<Rightarrow> if ov = [] then tr else tr\<lparr>tr_Params := gm_copy (gm_copy [] (tr_Params tr)) ov\<rparr>) trs)"

definition ApplyOverrides :: "test_requirement list \<Rightarrow> (string, params) gomap \<Rightarrow> test_requirement list" where
  "ApplyOverrides trs overrides = applyOverrides trs overrides"

fun unknown_variant :: "(string, bool) gomap \<Rightarrow> (string \<times> variant list) list \<Rightarrow> string option" where
  "unknown_variant known [] = None"
| "unknown_variant known ((i, vs) # rest) =
     (if gm_true known i then unknown_variant known rest else Some (''variants: unknown TR '' @ go_quote i))"

definition variant_tr :: "test_requirement \<Rightarrow> variant \<Rightarrow> test_requirement" where
  "variant_tr tr v = tr\<lparr>tr_Variant := va_Name v, tr_Params := gm_copy (gm_copy [] (tr_Params tr)) (va_Params v)\<rparr>"

fun expand_variants :: "(string, variant list) gomap \<Rightarrow> test_requirement list \<Rightarrow> test_requirement list \<Rightarrow> string + test_requirement list" where
  "expand_variants variants out [] = Inr out"
| "expand_variants variants out (tr # trs) =
     (case gm_get variants (tr_ID tr) of
        None \<Rightarrow> expand_variants variants (out @ [tr]) trs
      | Some vs \<Rightarrow>
         if vs = [] then Inl (''variants['' @ tr_ID tr @ ''] is empty'')
         else expand_variants variants (out @ map (variant_tr tr) vs) trs)"

definition ResolveExecutions :: "test_requirement list \<Rightarrow> config \<Rightarrow> string + test_requirement list" where
  "ResolveExecutions trs cfg =
     (let known = fold (\<lambda>tr. gm_set (tr_ID tr) True) trs [] in
      case unknown_variant known (cf_Variants cfg) of
        Some e \<Rightarrow> Inl e
      | None \<Rightarrow> expand_variants (cf_Variants cfg) []
                  (applyOverrides (SelectTRs trs (cf_Filter cfg)) (cf_Overrides cfg)))"

section \<open>Shared setups\<close>

record 'w scoped_setup =
  su_provider :: "'w setup_provider"
  su_label :: string
  su_trs :: "test_requirement list"

definition gm_list :: "('k, 'a list) gomap \<Rightarrow> 'k \<Rightarrow> 'a list" where
  "gm_list m k = (case gm_get m k of Some xs \<Rightarrow> xs | None \<Rightarrow> [])"

text \<open>One group key of one TR: the order of first use and the TRs of the group.\<close>

definition add_group_tr ::
  "test_requirement \<Rightarrow> string \<Rightarrow> (string, test_requirement list) gomap \<times> string list
   \<Rightarrow> (string, test_requirement list) gomap \<times> string list" where
  "add_group_tr tr gkey s =
     (case s of (groupTRs, order) \<Rightarrow>
        (gm_set gkey (gm_list groupTRs gkey @ [tr]) groupTRs,
         if gm_has groupTRs gkey then order else order @ [gkey]))"

definition activeSetups :: "'w registry \<Rightarrow> test_requirement list \<Rightarrow> 'w scoped_setup list" where
  "activeSetups reg scorable =
     (if scorable = [] then []
      else
        (let run = map (\<lambda>p. \<lparr> su_provider = p, su_label = ''run/'' @ sp_Key p, su_trs = scorable \<rparr>) (RunSetupProviders reg);
             (groupTRs, order) = fold (\<lambda>tr s. case ResolveTool reg tr of
                                          None \<Rightarrow> s
                                        | Some ti \<Rightarrow> fold (add_group_tr tr) (ti_SetupGroups ti) s) scorable ([], []);
             groups = List.map_filter (\<lambda>gkey. case SetupProvider reg ScopeGroup gkey of
                          None \<Rightarrow> None
                        | Some p \<Rightarrow> Some \<lparr> su_provider = p, su_label = ''group/'' @ gkey, su_trs = gm_list groupTRs gkey \<rparr>) (sort order)
         in run @ groups))"

definition withoutTRs :: "test_requirement list \<Rightarrow> test_requirement list \<Rightarrow> test_requirement list" where
  "withoutTRs trs remove =
     (let drop = fold (\<lambda>tr. gm_set (tr_ID tr) True) remove [] in filter (\<lambda>tr. \<not> gm_true drop (tr_ID tr)) trs)"

section \<open>Jobs\<close>

record job =
  j_tool :: string
  j_trs :: "test_requirement list"
  j_parallelSafe :: bool
  j_groups :: "string list"

definition group_step ::
  "test_requirement \<Rightarrow> (string, test_requirement list) gomap \<times> string list \<Rightarrow> (string, test_requirement list) gomap \<times> string list" where
  "group_step tr s = add_group_tr tr (tr_AutomationTool tr) s"

definition set_of_list :: "string list \<Rightarrow> (string, bool) gomap" where
  "set_of_list gs = fold (\<lambda>g. gm_set g True) gs []"

definition make_job :: "'w registry \<Rightarrow> (string, tool_schedule) gomap \<Rightarrow> string \<Rightarrow> test_requirement list \<Rightarrow> job" where
  "make_job reg sched tool trs =
     (let (ps0, groups0) = (case ResolveTool reg (hd trs) of
                 Some ti \<Rightarrow> (ti_ParallelSafe ti, set_of_list (ti_ExclusivityGroups ti)) | None \<Rightarrow> (False, []));
          (ps, groups) = (case gm_get sched tool of
                 None \<Rightarrow> (ps0, groups0)
               | Some ov \<Rightarrow> ((case sc_ParallelSafe ov of Some b \<Rightarrow> b | None \<Rightarrow> ps0),
                            (case sc_ExclusivityGroups ov of Some gs \<Rightarrow> set_of_list gs | None \<Rightarrow> groups0)))
      in \<lparr> j_tool = tool, j_trs = trs, j_parallelSafe = ps, j_groups = sort (map fst groups) \<rparr>)"

definition groupByTool :: "'w registry \<Rightarrow> test_requirement list \<Rightarrow> (string, tool_schedule) gomap \<Rightarrow> job list" where
  "groupByTool reg trs sched =
     (let (byTool, order) = fold group_step trs ([], [])
      in map (\<lambda>tool. make_job reg sched tool (gm_list byTool tool)) order)"

section \<open>Verdicts of ungraded items\<close>

definition item_verdict :: "test_requirement \<Rightarrow> outcome \<Rightarrow> string \<Rightarrow> string \<Rightarrow> verdict" where
  "item_verdict tr oc reason item =
     zero_verdict\<lparr>v_TR := tr_ID tr, v_Variant := tr_Variant tr, v_Item := item, v_Outcome := oc, v_Reason := reason\<rparr>"

definition item_names :: "test_requirement \<Rightarrow> string list" where
  "item_names tr =
     map (\<lambda>s. ''sla:'' @ sla_Metric s @ (if sla_Percentile s \<noteq> [] then ''@'' @ sla_Percentile s else [])) (tr_SLAs tr)
     @ map (\<lambda>c. ''check:'' @ ck_ID c) (tr_Checks tr)"

definition itemVerdicts :: "test_requirement \<Rightarrow> outcome \<Rightarrow> string \<Rightarrow> verdict list" where
  "itemVerdicts tr oc reason =
     (let out = map (item_verdict tr oc reason) (item_names tr)
      in if out = [] then [item_verdict tr oc reason ''(none)''] else out)"

definition errTR :: "test_requirement \<Rightarrow> string \<Rightarrow> verdict list" where
  "errTR tr reason = itemVerdicts tr OutcomeError reason"

definition errTRs :: "test_requirement list \<Rightarrow> string \<Rightarrow> verdict list" where
  "errTRs trs reason = concat (map (\<lambda>tr. errTR tr reason) trs)"

definition notScorable :: "test_requirement \<Rightarrow> verdict list" where
  "notScorable tr =
     itemVerdicts tr OutcomeSkip
       (if tr_AutomationTool tr = CheckManual then ''manual: requires human sign-off''
        else if tr_AutomationTool tr \<noteq> [] then ''automation tool '' @ go_quote (tr_AutomationTool tr) @ '' not integrated''
        else ''no automation tool'')"

section \<open>Artifact paths\<close>

fun relative_loop :: "string option \<Rightarrow> string \<Rightarrow> string list \<Rightarrow> string list \<Rightarrow> string list \<Rightarrow> string list \<times> string list" where
  "relative_loop cwd workdir [] kept dropped = (kept, dropped)"
| "relative_loop cwd workdir (p # ps) kept dropped =
     (case path_abs cwd p of
        None \<Rightarrow> relative_loop cwd workdir ps kept (dropped @ [p])
      | Some a \<Rightarrow>
         (case path_rel workdir a of
            None \<Rightarrow> relative_loop cwd workdir ps kept (dropped @ [p])
          | Some rel \<Rightarrow> if has_prefix rel ''..'' then relative_loop cwd workdir ps kept (dropped @ [p])
                        else relative_loop cwd workdir ps (kept @ [rel]) dropped))"

definition relativeTo :: "string option \<Rightarrow> string \<Rightarrow> string list \<Rightarrow> string list \<times> string list" where
  "relativeTo cwd workdir paths = (if workdir = [] then ([], paths) else relative_loop cwd workdir paths [] [])"

section \<open>Selection is a filter\<close>

definition matches :: "filter_spec \<Rightarrow> test_requirement \<Rightarrow> bool" where
  "matches f tr \<longleftrightarrow> (f_IDs f = [] \<or> tr_ID tr \<in> set (f_IDs f)) \<and> (f_Tools f = [] \<or> tr_AutomationTool tr \<in> set (f_Tools f)) \<and>
     (f_PartnerLevels f = [] \<or> tr_PartnerLevel tr \<in> set (f_PartnerLevels f))"

lemma SelectTRs_filter: "SelectTRs all f = filter (matches f) all"
  by (induction all) (auto simp: matches_def)

section \<open>What a resumed run repeats\<close>

definition same_exec :: "string \<Rightarrow> string \<Rightarrow> string \<Rightarrow> string \<Rightarrow> string \<Rightarrow> string \<Rightarrow> bool" where
  "same_exec t v s t' v' s' \<longleftrightarrow> executionKey t v s = executionKey t' v' s'"

lemma executionKey_inject:
  "\<lbrakk>CHR 0x00 \<notin> set t; CHR 0x00 \<notin> set v; CHR 0x00 \<notin> set s; CHR 0x00 \<notin> set t'; CHR 0x00 \<notin> set v'; CHR 0x00 \<notin> set s'\<rbrakk> \<Longrightarrow>
   executionKey t v s = executionKey t' v' s' \<longleftrightarrow> t = t' \<and> v = v' \<and> s = s'"
  unfolding executionKey_def using nul_join_inject[of "[t, v, s]" "[t', v', s']"] by auto

lemma gm_true_set [simp]: "gm_true (gm_set k b m) k' \<longleftrightarrow> (if k = k' then b else gm_true m k')"
  by (simp add: gm_true_def)

definition ekey :: "run_execution \<Rightarrow> string" where
  "ekey e = executionKey (ex_TR e) (ex_Variant e) (ex_Scenario e)"

definition vkey :: "verdict \<Rightarrow> string" where
  "vkey v = executionKey (v_TR v) (v_Variant v) (v_Scenario v)"

definition bad_outcome :: "outcome \<Rightarrow> bool" where
  "bad_outcome oc \<longleftrightarrow> oc = OutcomeFail \<or> oc = OutcomeError"

lemma resume_executions_fold:
  "gm_true (rm_known (fold (resume_execution sc) es s)) k \<longleftrightarrow>
     gm_true (rm_known s) k \<or> (\<exists>e \<in> set es. ex_Scenario e = sc \<and> ekey e = k)"
  "gm_true (rm_completed (fold (resume_execution sc) es s)) k \<longleftrightarrow>
     gm_true (rm_completed s) k \<or> (\<exists>e \<in> set es. ex_Scenario e = sc \<and> ekey e = k \<and> ex_State e = ExecutionCompleted)"
  "gm_true (rm_failed (fold (resume_execution sc) es s)) k \<longleftrightarrow>
     gm_true (rm_failed s) k \<or>
     (\<exists>e \<in> set es. ex_Scenario e = sc \<and> ekey e = k \<and> ex_State e = ExecutionCompleted \<and> bad_outcome (ex_Outcome e))"
  by (induction es arbitrary: s) (auto simp: resume_execution_def ekey_def bad_outcome_def Let_def)

lemma resume_verdicts_known [simp]: "rm_known (fold (resume_verdict sc) vs s) = rm_known s"
  by (induction vs arbitrary: s) (auto simp: resume_verdict_def Let_def)

lemma resume_verdicts_fold:
  "gm_true (rm_completed (fold (resume_verdict sc) vs s)) k \<longleftrightarrow>
     gm_true (rm_completed s) k \<or> (\<not> gm_true (rm_known s) k \<and> (\<exists>v \<in> set vs. v_Scenario v = sc \<and> vkey v = k))"
  "gm_true (rm_failed (fold (resume_verdict sc) vs s)) k \<longleftrightarrow>
     gm_true (rm_failed s) k \<or>
     (\<not> gm_true (rm_known s) k \<and> (\<exists>v \<in> set vs. v_Scenario v = sc \<and> vkey v = k \<and> bad_outcome (v_Outcome v)))"
proof (induction vs arbitrary: s)
  case (Cons v vs)
  have k: "rm_known (resume_verdict sc v s) = rm_known s" by (auto simp: resume_verdict_def Let_def)
  { case 1 show ?case unfolding fold_simps(2) Cons.IH(1) k by (auto simp: resume_verdict_def vkey_def Let_def) }
  { case 2 show ?case unfolding fold_simps(2) Cons.IH(2) k by (auto simp: resume_verdict_def vkey_def bad_outcome_def Let_def) }
qed auto

text \<open>A prior execution record decides; only without one do verdicts of the execution count.\<close>

definition recorded :: "report \<Rightarrow> string \<Rightarrow> string \<Rightarrow> string \<Rightarrow> run_execution set" where
  "recorded prior t v sc = {e \<in> set (r_Executions prior). ex_TR e = t \<and> ex_Variant e = v \<and> ex_Scenario e = sc}"

definition graded :: "report \<Rightarrow> string \<Rightarrow> string \<Rightarrow> string \<Rightarrow> verdict set" where
  "graded prior t v sc = {x \<in> set (r_Verdicts prior). v_TR x = t \<and> v_Variant x = v \<and> v_Scenario x = sc}"

definition was_completed :: "report \<Rightarrow> string \<Rightarrow> string \<Rightarrow> string \<Rightarrow> bool" where
  "was_completed prior t v sc \<longleftrightarrow>
     (\<exists>e \<in> recorded prior t v sc. ex_State e = ExecutionCompleted) \<or> (recorded prior t v sc = {} \<and> graded prior t v sc \<noteq> {})"

definition had_failed :: "report \<Rightarrow> string \<Rightarrow> string \<Rightarrow> string \<Rightarrow> bool" where
  "had_failed prior t v sc \<longleftrightarrow>
     (\<exists>e \<in> recorded prior t v sc. ex_State e = ExecutionCompleted \<and> bad_outcome (ex_Outcome e)) \<or>
     (recorded prior t v sc = {} \<and> (\<exists>x \<in> graded prior t v sc. bad_outcome (v_Outcome x)))"

definition nul_free_report :: "report \<Rightarrow> bool" where
  "nul_free_report r \<longleftrightarrow>
     (\<forall>e \<in> set (r_Executions r). CHR 0x00 \<notin> set (ex_TR e) \<union> set (ex_Variant e) \<union> set (ex_Scenario e)) \<and>
     (\<forall>v \<in> set (r_Verdicts r). CHR 0x00 \<notin> set (v_TR v) \<union> set (v_Variant v) \<union> set (v_Scenario v))"

lemma ResumeExecutions_filter:
  assumes nf: "nul_free_report prior" and ns: "CHR 0x00 \<notin> set sc"
    and nt: "\<forall>tr \<in> set trs. CHR 0x00 \<notin> set (tr_ID tr) \<union> set (tr_Variant tr)"
  shows "ResumeExecutionsWithOptions trs prior sc retry =
     filter (\<lambda>tr. \<not> (was_completed prior (tr_ID tr) (tr_Variant tr) sc \<and>
                    (\<not> retry \<or> \<not> had_failed prior (tr_ID tr) (tr_Variant tr) sc))) trs"
proof -
  let ?s1 = "fold (resume_execution sc) (r_Executions prior) \<lparr> rm_completed = [], rm_failed = [], rm_known = [] \<rparr>"
  let ?s2 = "fold (resume_verdict sc) (r_Verdicts prior) ?s1"
  have e0: "gm_true [] k = False" for k :: string by (simp add: gm_true_def)
  have c: "gm_true (rm_completed ?s2) (executionKey (tr_ID tr) (tr_Variant tr) sc) \<longleftrightarrow> was_completed prior (tr_ID tr) (tr_Variant tr) sc"
    and f: "gm_true (rm_failed ?s2) (executionKey (tr_ID tr) (tr_Variant tr) sc) \<longleftrightarrow> had_failed prior (tr_ID tr) (tr_Variant tr) sc"
    if "tr \<in> set trs" for tr
  proof -
    let ?k = "executionKey (tr_ID tr) (tr_Variant tr) sc"
    have ke: "ekey e = ?k \<longleftrightarrow> ex_TR e = tr_ID tr \<and> ex_Variant e = tr_Variant tr" if "e \<in> set (r_Executions prior)" "ex_Scenario e = sc" for e
      using that \<open>tr \<in> set trs\<close> nt nf ns executionKey_inject[of "ex_TR e" "ex_Variant e" sc "tr_ID tr" "tr_Variant tr" sc]
      by (auto simp: ekey_def nul_free_report_def)
    have kv: "vkey v = ?k \<longleftrightarrow> v_TR v = tr_ID tr \<and> v_Variant v = tr_Variant tr" if "v \<in> set (r_Verdicts prior)" "v_Scenario v = sc" for v
      using that \<open>tr \<in> set trs\<close> nt nf ns executionKey_inject[of "v_TR v" "v_Variant v" sc "tr_ID tr" "tr_Variant tr" sc]
      by (auto simp: vkey_def nul_free_report_def)
    have known: "gm_true (rm_known ?s1) ?k \<longleftrightarrow> recorded prior (tr_ID tr) (tr_Variant tr) sc \<noteq> {}"
      using ke by (auto simp: resume_executions_fold e0 recorded_def)
    show "gm_true (rm_completed ?s2) ?k \<longleftrightarrow> was_completed prior (tr_ID tr) (tr_Variant tr) sc"
      unfolding resume_verdicts_fold known resume_executions_fold was_completed_def
      using ke kv by (auto simp: e0 recorded_def graded_def)
    show "gm_true (rm_failed ?s2) ?k \<longleftrightarrow> had_failed prior (tr_ID tr) (tr_Variant tr) sc"
      unfolding resume_verdicts_fold known resume_executions_fold had_failed_def
      using ke kv by (auto simp: e0 recorded_def graded_def)
  qed
  show ?thesis
    unfolding ResumeExecutionsWithOptions_def Let_def by (rule filter_cong) (simp_all add: c f)
qed

section \<open>Grouping\<close>

lemma group_fold:
  assumes "set order = fst ` set m" and "distinct order"
  shows "(case fold group_step trs (m, order) of (m', order') \<Rightarrow>
     (\<forall>t. gm_list m' t = gm_list m t @ filter (\<lambda>tr. tr_AutomationTool tr = t) trs) \<and>
     set order' = set order \<union> tr_AutomationTool ` set trs \<and> distinct order' \<and> set order' = fst ` set m')"
  using assms
proof (induction trs arbitrary: m order)
  case (Cons tr trs)
  let ?t = "tr_AutomationTool tr"
  let ?m = "gm_set ?t (gm_list m ?t @ [tr]) m"
  let ?o = "if gm_has m ?t then order else order @ [?t]"
  have h: "gm_has m ?t \<longleftrightarrow> ?t \<in> set order" using Cons.prems by (simp add: gm_has_def gm_get_None)
  have p: "set ?o = fst ` set ?m" "distinct ?o" using Cons.prems h by auto
  have g: "gm_list ?m t = gm_list m t @ (if ?t = t then [tr] else [])" for t
    by (simp add: gm_list_def)
  have o: "set ?o = insert ?t (set order)" using h by auto
  obtain m' order' where f: "fold group_step trs (?m, ?o) = (m', order')" by fastforce
  have i: "\<forall>t. gm_list m' t = gm_list ?m t @ filter (\<lambda>tr. tr_AutomationTool tr = t) trs"
    "set order' = set ?o \<union> tr_AutomationTool ` set trs" "distinct order'" "set order' = fst ` set m'"
    using Cons.IH[OF p] unfolding f prod.case by blast+
  have e: "fold group_step (tr # trs) (m, order) = (m', order')"
    using f by (simp add: group_step_def add_group_tr_def)
  show ?case unfolding e prod.case
  proof (intro conjI allI)
    show "gm_list m' t = gm_list m t @ filter (\<lambda>tr. tr_AutomationTool tr = t) (tr # trs)" for t
      using i(1) g by simp
    show "set order' = set order \<union> tr_AutomationTool ` set (tr # trs)" unfolding i(2) o by auto
  qed (use i in blast)+
qed simp

lemma make_job_simps [simp]:
  "j_tool (make_job reg sched tool trs) = tool" "j_trs (make_job reg sched tool trs) = trs"
  by (auto simp: make_job_def Let_def split: prod.splits)

lemma set_of_list_keys: "fst ` set (set_of_list gs) = set gs" "distinct (map fst (set_of_list gs))"
proof -
  have "fst ` set (fold (\<lambda>g. gm_set g True) gs m) = set gs \<union> fst ` set m" for m :: "(string, bool) gomap"
    by (induction gs arbitrary: m) auto
  then show "fst ` set (set_of_list gs) = set gs" by (simp add: set_of_list_def)
  have "gm_wf (fold (\<lambda>g. gm_set g True) gs m)" if "gm_wf m" for m :: "(string, bool) gomap"
    using that by (induction gs arbitrary: m) auto
  from this[of "[]"] show "distinct (map fst (set_of_list gs))" by (simp add: set_of_list_def gm_wf_def)
qed

lemma make_job_groups: "sorted (j_groups (make_job reg sched tool trs)) \<and> distinct (j_groups (make_job reg sched tool trs))"
  by (auto simp: make_job_def Let_def set_of_list_keys split: prod.splits option.splits)

lemma groupByTool_form:
  "\<exists>order. groupByTool reg trs sched = map (\<lambda>t. make_job reg sched t (filter (\<lambda>tr. tr_AutomationTool tr = t) trs)) order \<and>
     distinct order \<and> set order = tr_AutomationTool ` set trs"
proof -
  obtain m order where f: "fold group_step trs ([], []) = (m, order)" by fastforce
  have "gm_list [] t = []" for t :: string by (simp add: gm_list_def)
  with group_fold[of "[]" "[]" trs] f have "\<And>t. gm_list m t = filter (\<lambda>tr. tr_AutomationTool tr = t) trs"
    "set order = tr_AutomationTool ` set trs" "distinct order" by auto
  then show ?thesis by (intro exI[of _ order]) (simp add: groupByTool_def f)
qed

section \<open>Variants\<close>

text \<open>The parameter a variant execution sees: the variant's, else the plan's, else the catalog's.\<close>

definition overridden :: "(string, params) gomap \<Rightarrow> test_requirement \<Rightarrow> string \<Rightarrow> any option" where
  "overridden ovs tr k =
     (case gm_get ovs (tr_ID tr) of
        None \<Rightarrow> gm_get (tr_Params tr) k
      | Some ov \<Rightarrow> (case gm_get ov k of Some x \<Rightarrow> Some x | None \<Rightarrow> gm_get (tr_Params tr) k))"

definition override_one :: "(string, params) gomap \<Rightarrow> test_requirement \<Rightarrow> test_requirement" where
  "override_one ovs tr =
     (case gm_get ovs (tr_ID tr) of
        None \<Rightarrow> tr
      | Some ov \<Rightarrow> if ov = [] then tr else tr\<lparr>tr_Params := gm_copy (gm_copy [] (tr_Params tr)) ov\<rparr>)"

lemma applyOverrides_map: "applyOverrides trs ovs = map (override_one ovs) trs"
proof (cases "ovs = []")
  case True
  have "override_one [] = (\<lambda>tr. tr)" by (rule ext) (simp add: override_one_def)
  with True show ?thesis by (simp add: applyOverrides_def)
next
  case False
  then show ?thesis by (simp add: applyOverrides_def override_one_def)
qed

lemma gm_true_Nil [simp]: "\<not> gm_true [] k"
  by (simp add: gm_true_def)

definition maps_ok :: "(string, params) gomap \<Rightarrow> bool" where
  "maps_ok ovs \<longleftrightarrow> (\<forall>(i, m) \<in> set ovs. gm_wf m)"

lemma override_one_simps [simp]:
  "tr_ID (override_one ovs tr) = tr_ID tr" "tr_Variant (override_one ovs tr) = tr_Variant tr"
  "tr_SLAs (override_one ovs tr) = tr_SLAs tr" "tr_Checks (override_one ovs tr) = tr_Checks tr"
  "tr_AutomationTool (override_one ovs tr) = tr_AutomationTool tr"
  by (simp_all add: override_one_def split: option.split)

lemma override_one_params:
  assumes "maps_ok ovs" and "gm_wf (tr_Params tr)"
  shows "gm_get (tr_Params (override_one ovs tr)) k = overridden ovs tr k" and "gm_wf (tr_Params (override_one ovs tr))"
proof -
  have wf: "gm_wf ov" if "gm_get ovs (tr_ID tr) = Some ov" for ov
    using assms(1) gm_get_Some_set[OF that] by (auto simp: maps_ok_def)
  show "gm_get (tr_Params (override_one ovs tr)) k = overridden ovs tr k"
    using wf assms(2) by (auto simp: override_one_def overridden_def gm_get_copy split: option.splits)
  show "gm_wf (tr_Params (override_one ovs tr))"
    using assms(2) by (auto simp: override_one_def gm_wf_copy split: option.splits)
qed

definition executions_of :: "(string, variant list) gomap \<Rightarrow> test_requirement \<Rightarrow> test_requirement list" where
  "executions_of variants tr = (case gm_get variants (tr_ID tr) of None \<Rightarrow> [tr] | Some vs \<Rightarrow> map (variant_tr tr) vs)"

lemma expand_variants_Inr:
  "expand_variants variants out trs = Inr res \<longleftrightarrow>
     (\<forall>tr \<in> set trs. gm_get variants (tr_ID tr) \<noteq> Some []) \<and> res = out @ concat (map (executions_of variants) trs)"
  by (induction trs arbitrary: out) (auto simp: executions_of_def split: option.splits)

lemma unknown_variant_None: "unknown_variant known m = None \<longleftrightarrow> (\<forall>(i, vs) \<in> set m. gm_true known i)"
  by (induction m) (auto split: if_splits)

lemma known_ids: "gm_true (fold (\<lambda>tr. gm_set (tr_ID tr) True) trs m) i \<longleftrightarrow> i \<in> tr_ID ` set trs \<or> gm_true m i"
  by (induction trs arbitrary: m) auto

lemma ResolveExecutions_Inr:
  "ResolveExecutions trs cfg = Inr out \<longleftrightarrow>
     fst ` set (cf_Variants cfg) \<subseteq> tr_ID ` set trs \<and>
     (\<forall>tr \<in> set (SelectTRs trs (cf_Filter cfg)). gm_get (cf_Variants cfg) (tr_ID tr) \<noteq> Some []) \<and>
     out = concat (map (\<lambda>tr. executions_of (cf_Variants cfg) (override_one (cf_Overrides cfg) tr)) (SelectTRs trs (cf_Filter cfg)))"
proof -
  have u: "unknown_variant (fold (\<lambda>tr. gm_set (tr_ID tr) True) trs []) (cf_Variants cfg) = None \<longleftrightarrow>
     fst ` set (cf_Variants cfg) \<subseteq> tr_ID ` set trs"
    by (auto simp: unknown_variant_None known_ids)
  show ?thesis
    unfolding ResolveExecutions_def Let_def
    by (cases "unknown_variant (fold (\<lambda>tr. gm_set (tr_ID tr) True) trs []) (cf_Variants cfg)")
      (use u in \<open>auto simp: expand_variants_Inr applyOverrides_map comp_def\<close>)
qed

section \<open>Paths below the working directory\<close>

lemma relative_loop_acc:
  "relative_loop cwd wd ps k d = (k @ fst (relative_loop cwd wd ps [] []), d @ snd (relative_loop cwd wd ps [] []))"
proof (induction ps arbitrary: k d)
  case (Cons p ps)
  have IH: "relative_loop cwd wd ps k d = (k @ fst (relative_loop cwd wd ps [] []), d @ snd (relative_loop cwd wd ps [] []))" for k d
    by (rule Cons.IH)
  have A: "relative_loop cwd wd ps k (d @ [p]) = (k @ fst (relative_loop cwd wd ps [] [p]), d @ snd (relative_loop cwd wd ps [] [p]))"
    using IH[of k "d @ [p]"] IH[of "[]" "[p]"] by simp
  have B: "relative_loop cwd wd ps (k @ [x]) d = (k @ fst (relative_loop cwd wd ps [x] []), d @ snd (relative_loop cwd wd ps [x] []))" for x
    using IH[of "k @ [x]" d] IH[of "[x]" "[]"] by simp
  show ?case by (simp add: A B split: option.split)
qed simp

section \<open>Properties\<close>


text \<open>
  C33: resuming keeps, in order, exactly the executions that the prior report does not show as
  completed, and with the retry option those it shows as failed. An execution record decides;
  verdicts count only for an execution without a record. Scenario and variant are part of the
  identity, and NUL-free names cannot be confused.
\<close>

theorem ResumeExecutions_keeps:
  assumes "nul_free_report prior" and "CHR 0x00 \<notin> set sc"
    and "\<forall>tr \<in> set trs. CHR 0x00 \<notin> set (tr_ID tr) \<union> set (tr_Variant tr)"
  shows "ResumeExecutionsWithOptions trs prior sc retry =
     filter (\<lambda>tr. \<not> was_completed prior (tr_ID tr) (tr_Variant tr) sc \<or>
                    (retry \<and> had_failed prior (tr_ID tr) (tr_Variant tr) sc)) trs"
  unfolding ResumeExecutions_filter[OF assms] by (rule filter_cong) auto

definition sample_req :: "string \<Rightarrow> string \<Rightarrow> test_requirement" where
  "sample_req i tool = zero_test_requirement\<lparr>tr_ID := i, tr_AutomationTool := tool, tr_PartnerLevel := 2\<rparr>"

lemma sample_req_simps [simp]:
  "tr_ID (sample_req i tool) = i" "tr_AutomationTool (sample_req i tool) = tool" "tr_Variant (sample_req i tool) = []"
  "tr_PartnerLevel (sample_req i tool) = 2" "tr_SLAs (sample_req i tool) = []" "tr_Checks (sample_req i tool) = []"
  "tr_Params (sample_req i tool) = []"
  by (simp_all add: sample_req_def zero_test_requirement_def)

definition sample_prior :: report where
  "sample_prior = zero_report\<lparr>r_Executions :=
     [zero_run_execution\<lparr>ex_TR := ''a'', ex_State := ExecutionCompleted, ex_Outcome := OutcomeFail\<rparr>,
      zero_run_execution\<lparr>ex_TR := ''b'', ex_State := ExecutionAborted\<rparr>],
     r_Verdicts := [zero_verdict\<lparr>v_TR := ''b''\<rparr>, zero_verdict\<lparr>v_TR := ''c'', v_Outcome := OutcomePass\<rparr>]\<rparr>"

theorem ResumeExecutions_keeps_witness:
  "map tr_ID (ResumeExecutionsWithOptions [sample_req ''a'' ''t'', sample_req ''b'' ''t'', sample_req ''c'' ''t''] sample_prior [] False) = [''b'']
   \<and> map tr_ID (ResumeExecutionsWithOptions [sample_req ''a'' ''t'', sample_req ''b'' ''t'', sample_req ''c'' ''t''] sample_prior [] True) = [''a'', ''b'']"
proof -
  have r: "recorded sample_prior i [] [] = set (filter (\<lambda>e. ex_TR e = i) (r_Executions sample_prior))" for i
    by (auto simp: recorded_def sample_prior_def zero_run_execution_def)
  have g: "graded sample_prior i [] [] = set (filter (\<lambda>v. v_TR v = i) (r_Verdicts sample_prior))" for i
    by (auto simp: graded_def sample_prior_def zero_verdict_def)
  have c: "was_completed sample_prior ''a'' [] []" "\<not> was_completed sample_prior ''b'' [] []" "was_completed sample_prior ''c'' [] []"
    unfolding was_completed_def r g by (simp_all add: sample_prior_def del: set_filter)
  have f: "had_failed sample_prior ''a'' [] []" "\<not> had_failed sample_prior ''c'' [] []"
    unfolding had_failed_def r g by (simp_all add: sample_prior_def bad_outcome_def del: set_filter)
  have nf: "nul_free_report sample_prior"
    by (simp add: nul_free_report_def sample_prior_def zero_run_execution_def zero_verdict_def)
  show ?thesis
    by (subst ResumeExecutions_keeps[OF nf]; simp add: c f)+
qed

text \<open>
  When the plan resolves, every selected requirement runs once, or once per variant where the
  plan lists variants, in catalog order; the parameters an execution sees are the variant's,
  else the plan's override, else the catalog default.
\<close>

theorem ResolveExecutions_precedence:
  assumes ok: "ResolveExecutions trs cfg = Inr out"
    and wf: "maps_ok (cf_Overrides cfg)" "\<forall>tr \<in> set trs. gm_wf (tr_Params tr)"
      "\<forall>(i, vs) \<in> set (cf_Variants cfg). \<forall>v \<in> set vs. gm_wf (va_Params v)"
  shows "map (\<lambda>e. (tr_ID e, tr_Variant e)) out =
      concat (map (\<lambda>tr. case gm_get (cf_Variants cfg) (tr_ID tr) of
                 None \<Rightarrow> [(tr_ID tr, tr_Variant tr)] | Some vs \<Rightarrow> map (\<lambda>v. (tr_ID tr, va_Name v)) vs)
              (filter (matches (cf_Filter cfg)) trs)) \<and>
    (\<forall>e \<in> set out. \<exists>tr \<in> set trs. tr_ID e = tr_ID tr \<and>
       (case gm_get (cf_Variants cfg) (tr_ID tr) of
          None \<Rightarrow> \<forall>k. gm_get (tr_Params e) k = overridden (cf_Overrides cfg) tr k
        | Some vs \<Rightarrow> \<exists>v \<in> set vs. tr_Variant e = va_Name v \<and>
            (\<forall>k. gm_get (tr_Params e) k =
               (case gm_get (va_Params v) k of Some x \<Rightarrow> Some x | None \<Rightarrow> overridden (cf_Overrides cfg) tr k))))"
proof -
  let ?ex = "\<lambda>tr. executions_of (cf_Variants cfg) (override_one (cf_Overrides cfg) tr)"
  have out: "out = concat (map ?ex (filter (matches (cf_Filter cfg)) trs))"
    using ok by (simp add: ResolveExecutions_Inr SelectTRs_filter)
  have one: "map (\<lambda>e. (tr_ID e, tr_Variant e)) (?ex tr) =
      (case gm_get (cf_Variants cfg) (tr_ID tr) of None \<Rightarrow> [(tr_ID tr, tr_Variant tr)] | Some vs \<Rightarrow> map (\<lambda>v. (tr_ID tr, va_Name v)) vs)" for tr
    by (auto simp: executions_of_def variant_tr_def split: option.split)
  have "map (\<lambda>e. (tr_ID e, tr_Variant e)) out =
      concat (map (\<lambda>tr. case gm_get (cf_Variants cfg) (tr_ID tr) of
                 None \<Rightarrow> [(tr_ID tr, tr_Variant tr)] | Some vs \<Rightarrow> map (\<lambda>v. (tr_ID tr, va_Name v)) vs)
              (filter (matches (cf_Filter cfg)) trs))"
    unfolding out map_concat map_map comp_def one ..
  moreover have "\<exists>tr \<in> set trs. tr_ID e = tr_ID tr \<and>
       (case gm_get (cf_Variants cfg) (tr_ID tr) of
          None \<Rightarrow> \<forall>k. gm_get (tr_Params e) k = overridden (cf_Overrides cfg) tr k
        | Some vs \<Rightarrow> \<exists>v \<in> set vs. tr_Variant e = va_Name v \<and>
            (\<forall>k. gm_get (tr_Params e) k =
               (case gm_get (va_Params v) k of Some x \<Rightarrow> Some x | None \<Rightarrow> overridden (cf_Overrides cfg) tr k)))"
    if "e \<in> set out" for e
  proof -
    from that obtain tr where tr: "tr \<in> set trs" "e \<in> set (?ex tr)" by (auto simp: out)
    note p = override_one_params[OF wf(1), of tr]
    have pw: "gm_wf (tr_Params tr)" using wf(2) tr(1) by blast
    show ?thesis
    proof (cases "gm_get (cf_Variants cfg) (tr_ID tr)")
      case None
      with tr p[OF pw] show ?thesis by (intro bexI[of _ tr]) (auto simp: executions_of_def)
    next
      case (Some vs)
      then obtain v where v: "v \<in> set vs" "e = variant_tr (override_one (cf_Overrides cfg) tr) v"
        using tr by (auto simp: executions_of_def)
      have "gm_wf (va_Params v)" using wf(3) gm_get_Some_set[OF Some] v(1) by auto
      then have "gm_get (tr_Params e) k = (case gm_get (va_Params v) k of Some x \<Rightarrow> Some x | None \<Rightarrow> overridden (cf_Overrides cfg) tr k)" for k
        using p[OF pw] by (auto simp: v(2) variant_tr_def gm_get_copy split: option.split)
      moreover have "tr_ID e = tr_ID tr" "tr_Variant e = va_Name v" by (simp_all add: v(2) variant_tr_def)
      ultimately show ?thesis using tr(1) Some v(1) by (intro bexI[of _ tr]) auto
    qed
  qed
  ultimately show ?thesis by blast
qed

definition sample_cfg :: config where
  "sample_cfg = zero_config\<lparr>cf_Variants := [(''a'', [\<lparr> va_Name = ''x'', va_Params = [(''n'', AInt 1)] \<rparr>, \<lparr> va_Name = ''y'', va_Params = [] \<rparr>])],
     cf_Overrides := [(''a'', [(''n'', AInt 2), (''m'', AInt 3)])]\<rparr>"

theorem ResolveExecutions_precedence_witness:
  "\<exists>out. ResolveExecutions [sample_req ''a'' ''t'', sample_req ''b'' ''t''] sample_cfg = Inr out \<and>
     map (\<lambda>e. (tr_ID e, tr_Variant e)) out = [(''a'', ''x''), (''a'', ''y''), (''b'', [])]"
proof -
  have f: "filter (matches (cf_Filter sample_cfg)) ts = ts" for ts
    by (induction ts) (auto simp: matches_def sample_cfg_def zero_config_def zero_filter_def)
  have v: "cf_Variants sample_cfg = [(''a'', [\<lparr> va_Name = ''x'', va_Params = [(''n'', AInt 1)] \<rparr>, \<lparr> va_Name = ''y'', va_Params = [] \<rparr>])]"
    by (simp add: sample_cfg_def)
  have "\<exists>out. ResolveExecutions [sample_req ''a'' ''t'', sample_req ''b'' ''t''] sample_cfg = Inr out"
    unfolding ResolveExecutions_Inr SelectTRs_filter f v by (auto simp: gm_get_Cons)
  then obtain out where out: "ResolveExecutions [sample_req ''a'' ''t'', sample_req ''b'' ''t''] sample_cfg = Inr out" by blast
  have "maps_ok (cf_Overrides sample_cfg)" by (simp add: sample_cfg_def maps_ok_def gm_wf_def)
  from ResolveExecutions_precedence[OF out this] show ?thesis
    using out unfolding f v by (simp add: gm_get_Cons gm_wf_def)
qed

text \<open>
  Grouping by tool partitions the requirements: one job per automation label in order of
  first appearance, each holding exactly the requirements with that label in their order, with
  sorted and distinct exclusivity groups.
\<close>

theorem groupByTool_partitions:
  "distinct (map j_tool (groupByTool reg trs sched)) \<and>
   set (map j_tool (groupByTool reg trs sched)) = tr_AutomationTool ` set trs \<and>
   mset (concat (map j_trs (groupByTool reg trs sched))) = mset trs \<and>
   (\<forall>j \<in> set (groupByTool reg trs sched). j_trs j = filter (\<lambda>tr. tr_AutomationTool tr = j_tool j) trs \<and>
      j_trs j \<noteq> [] \<and> sorted (j_groups j) \<and> distinct (j_groups j))"
proof -
  obtain order where o: "groupByTool reg trs sched = map (\<lambda>t. make_job reg sched t (filter (\<lambda>tr. tr_AutomationTool tr = t) trs)) order"
    "distinct order" "set order = tr_AutomationTool ` set trs"
    using groupByTool_form[of reg trs sched] by blast
  have part: "mset (concat (map (\<lambda>t. filter (\<lambda>tr. tr_AutomationTool tr = t) xs) ord)) = mset (filter (\<lambda>tr. tr_AutomationTool tr \<in> set ord) xs)"
    if "distinct ord" for xs and ord :: "string list"
    using that
  proof (induction ord)
    case (Cons t ts)
    have "mset (filter (\<lambda>tr. tr_AutomationTool tr = t \<or> tr_AutomationTool tr \<in> set ts) xs) =
      mset (filter (\<lambda>tr. tr_AutomationTool tr = t) xs) + mset (filter (\<lambda>tr. tr_AutomationTool tr \<in> set ts) xs)"
      using Cons.prems by (induction xs) auto
    with Cons show ?case by simp
  qed simp
  have "filter (\<lambda>tr. tr_AutomationTool tr \<in> set order) trs = trs" using o(3) by (intro filter_True) auto
  with part[OF o(2), of trs] have "mset (concat (map j_trs (groupByTool reg trs sched))) = mset trs"
    by (simp add: o(1) comp_def)
  moreover have "\<forall>j \<in> set (groupByTool reg trs sched). j_trs j = filter (\<lambda>tr. tr_AutomationTool tr = j_tool j) trs \<and>
      j_trs j \<noteq> [] \<and> sorted (j_groups j) \<and> distinct (j_groups j)"
    using o(3) by (auto simp: o(1) filter_empty_conv make_job_groups)
  ultimately show ?thesis using o(2,3) by (simp add: o(1) comp_def)
qed

theorem groupByTool_partitions_witness:
  "mset (concat (map j_trs (groupByTool sample_registry [sample_req ''p'' ''b'', sample_req ''q'' ''a'', sample_req ''r'' ''b''] []))) =
   mset [sample_req ''p'' ''b'', sample_req ''q'' ''a'', sample_req ''r'' ''b'']"
  using groupByTool_partitions[of sample_registry "[sample_req ''p'' ''b'', sample_req ''q'' ''a'', sample_req ''r'' ''b'']" "[]"] by blast

text \<open>
  Every artifact path that is kept is relative, does not climb out, and leads back from the
  working directory to the absolute path of one of the inputs; with an absolute working
  directory no absolute path is recorded, and every input is either kept or dropped.
\<close>

theorem relativeTo_below:
  assumes wd: "path_is_abs wd" and cwd: "\<And>d. cwd = Some d \<Longrightarrow> path_is_abs d"
  shows "length (fst (relativeTo cwd wd ps)) + length (snd (relativeTo cwd wd ps)) = length ps \<and>
    (\<forall>k \<in> set (fst (relativeTo cwd wd ps)). \<not> path_is_abs k \<and>
      (\<exists>p \<in> set ps. \<exists>a ts. path_abs cwd p = Some a \<and> path_comps a = path_comps wd @ ts \<and>
         k = (if ts = [] then ''.'' else join_with [SLASH] ts)))"
proof -
  have ne: "wd \<noteq> []" using wd by (auto simp: path_is_abs_def)
  have "length (fst (relative_loop cwd wd ps [] [])) + length (snd (relative_loop cwd wd ps [] [])) = length ps \<and>
    (\<forall>k \<in> set (fst (relative_loop cwd wd ps [] [])). \<not> path_is_abs k \<and>
      (\<exists>p \<in> set ps. \<exists>a ts. path_abs cwd p = Some a \<and> path_comps a = path_comps wd @ ts \<and>
         k = (if ts = [] then ''.'' else join_with [SLASH] ts)))"
  proof (induction ps)
    case (Cons p ps)
    have ab: "path_is_abs a" if "path_abs cwd p = Some a" for a
      using path_abs_is_abs[OF cwd that] .
    note A = relative_loop_acc[of cwd wd ps "[]" "[p]"]
    show ?case
    proof (cases "\<exists>a rel. path_abs cwd p = Some a \<and> path_rel wd a = Some rel \<and> \<not> has_prefix rel ''..''")
      case True
      then obtain a rel where ar: "path_abs cwd p = Some a" "path_rel wd a = Some rel" "\<not> has_prefix rel ''..''" by blast
      have "relative_loop cwd wd (p # ps) [] [] = relative_loop cwd wd ps [rel] []" using ar by simp
      also have "\<dots> = (rel # fst (relative_loop cwd wd ps [] []), snd (relative_loop cwd wd ps [] []))"
        using relative_loop_acc[of cwd wd ps "[rel]" "[]"] by simp
      finally have l: "relative_loop cwd wd (p # ps) [] [] = \<dots>" .
      obtain ts where "path_comps a = path_comps wd @ ts" "rel = (if ts = [] then ''.'' else join_with [SLASH] ts)" "\<not> path_is_abs rel"
        using path_rel_below[OF wd ab[OF ar(1)] ar(2,3)] by blast
      then show ?thesis unfolding l using Cons ar(1) by auto
    next
      case False
      then have "relative_loop cwd wd (p # ps) [] [] = relative_loop cwd wd ps [] [p]" by (auto split: option.split)
      with Cons show ?thesis by (auto simp: A)
    qed
  qed simp
  then show ?thesis using ne by (simp add: relativeTo_def)
qed

theorem relativeTo_below_witness:
  "length (fst (relativeTo None ''/w'' [''/w/a'', ''/x''])) + length (snd (relativeTo None ''/w'' [''/w/a'', ''/x''])) = 2"
proof -
  have "path_is_abs ''/w''" by (simp add: path_is_abs_def SLASH_def)
  from relativeTo_below[OF this, of None "[''/w/a'', ''/x'']"] show ?thesis by auto
qed

end
