(* ===== verification/Progress.thy ===== *)
theory Progress
  imports Core_Types
begin

text \<open>
  \<open>internal/orchestrator/progress.go\<close>: the tracker of execution states. Its mutex makes every
  operation one step; an operation returns the new tracker and the state-change event it sends
  after releasing the mutex. What it logs is kept in \<open>pg_log\<close>. A label missing from a map has
  Go's zero value, which is queued for a state.
\<close>

section \<open>State and operations\<close>

datatype progress_state = PQueued | PRunning | PComplete | PAborted

datatype progress_log =
    PlanStarted "string list"
  | DetailRunning string nat nat "string list" "string list"
  | TestDone string string outcome nat nat
  | DetailUpdated "string list" "string list"
  | PlanDone nat nat "string list" "string list" "string list" "string list" "string list"

record progress =
  pg_order :: "string list"
  pg_state :: "(string, progress_state) gomap"
  pg_outcomes :: "(string, outcome) gomap"
  pg_log :: "progress_log list"

type_synonym progress_event = "string \<times> progress_state \<times> outcome"

definition tr_label :: "test_requirement \<Rightarrow> string" where
  "tr_label tr = ExecutionLabel (tr_ID tr) (tr_Variant tr)"

definition state_of :: "progress \<Rightarrow> string \<Rightarrow> progress_state" where
  "state_of p l = (case gm_get (pg_state p) l of Some s \<Rightarrow> s | None \<Rightarrow> PQueued)"

definition outcome_of :: "progress \<Rightarrow> string \<Rightarrow> outcome" where
  "outcome_of p l = (case gm_get (pg_outcomes p) l of Some oc \<Rightarrow> oc | None \<Rightarrow> [])"

definition newProgressTracker :: "test_requirement list \<Rightarrow> progress" where
  "newProgressTracker trs =
     \<lparr> pg_order = map tr_label trs, pg_state = fold (\<lambda>tr. gm_set (tr_label tr) PQueued) trs [], pg_outcomes = [],
       pg_log = [PlanStarted (map tr_label trs)] \<rparr>"

definition countsLocked :: "progress \<Rightarrow> nat \<times> nat" where
  "countsLocked p = (length (filter (\<lambda>l. state_of p l = PComplete) (pg_order p)), length (pg_order p))"

text \<open>\<open>listsLocked\<close> with both wanted states, as every caller asks for them.\<close>

definition listsLocked :: "progress \<Rightarrow> string list \<times> string list" where
  "listsLocked p = (filter (\<lambda>l. state_of p l = PRunning) (pg_order p), filter (\<lambda>l. state_of p l = PQueued) (pg_order p))"

definition with_outcome :: "progress \<Rightarrow> outcome \<Rightarrow> string list" where
  "with_outcome p oc = filter (\<lambda>l. outcome_of p l = oc) (pg_order p)"

definition outcomeListsLocked :: "progress \<Rightarrow> string list \<times> string list \<times> string list \<times> string list" where
  "outcomeListsLocked p =
     (with_outcome p OutcomePass, with_outcome p OutcomeFail, with_outcome p OutcomeError, with_outcome p OutcomeSkip)"

definition progress_start :: "test_requirement \<Rightarrow> progress \<Rightarrow> progress \<times> progress_event option" where
  "progress_start tr p =
     (let label = tr_label tr in
      if state_of p label \<noteq> PQueued then (p, None)
      else
        (let p1 = p\<lparr>pg_state := gm_set label PRunning (pg_state p)\<rparr>;
             (completed, total) = countsLocked p1;
             (running, queued) = listsLocked p1
         in (p1\<lparr>pg_log := pg_log p1 @ [DetailRunning label completed total running queued]\<rparr>,
             Some (label, PRunning, []))))"

definition progress_complete :: "test_requirement \<Rightarrow> outcome \<Rightarrow> progress \<Rightarrow> progress \<times> progress_event option" where
  "progress_complete tr oc p =
     (let label = tr_label tr in
      if state_of p label = PComplete then (p, None)
      else
        (let p1 = p\<lparr>pg_state := gm_set label PComplete (pg_state p), pg_outcomes := gm_set label oc (pg_outcomes p)\<rparr>;
             (completed, total) = countsLocked p1;
             (running, queued) = listsLocked p1;
             (passed, failed, errors, skipped) = outcomeListsLocked p1
         in (p1\<lparr>pg_log := pg_log p1 @ [TestDone ''completed'' label oc completed total, DetailUpdated running queued]
                  @ (if completed = total then [PlanDone completed total passed failed errors skipped queued] else [])\<rparr>,
             Some (label, PComplete, oc))))"

definition progress_abort :: "test_requirement \<Rightarrow> outcome \<Rightarrow> progress \<Rightarrow> progress \<times> progress_event option" where
  "progress_abort tr oc p =
     (let label = tr_label tr in
      if state_of p label = PComplete \<or> state_of p label = PAborted then (p, None)
      else
        (let p1 = p\<lparr>pg_state := gm_set label PAborted (pg_state p), pg_outcomes := gm_set label oc (pg_outcomes p)\<rparr>;
             (completed, total) = countsLocked p1;
             (running, queued) = listsLocked p1
         in (p1\<lparr>pg_log := pg_log p1 @ [TestDone ''aborted'' label oc completed total, DetailUpdated running queued]\<rparr>,
             Some (label, PAborted, oc))))"

section \<open>The outcome of one execution\<close>

definition outcomeRank :: "outcome \<Rightarrow> nat" where
  "outcomeRank oc = (if oc = OutcomeError then 3 else if oc = OutcomeFail then 2 else if oc = OutcomePass then 1 else 0)"

fun summarize_loop :: "test_requirement \<Rightarrow> verdict list \<Rightarrow> outcome \<Rightarrow> bool \<Rightarrow> outcome \<times> bool" where
  "summarize_loop tr [] best seen = (best, seen)"
| "summarize_loop tr (v # vs) best seen =
     (if v_TR v \<noteq> tr_ID tr \<or> v_Variant v \<noteq> tr_Variant tr then summarize_loop tr vs best seen
      else if outcomeRank (v_Outcome v) > outcomeRank best then summarize_loop tr vs (v_Outcome v) True
      else summarize_loop tr vs best True)"

definition summarizeTR :: "verdict list \<Rightarrow> test_requirement \<Rightarrow> outcome" where
  "summarizeTR verdicts tr =
     (let (best, seen) = summarize_loop tr verdicts OutcomeSkip False in if \<not> seen then OutcomeError else best)"

section \<open>Transitions\<close>

datatype progress_op = OpStart test_requirement | OpComplete test_requirement outcome | OpAbort test_requirement outcome

fun op_label :: "progress_op \<Rightarrow> string" where
  "op_label (OpStart tr) = tr_label tr"
| "op_label (OpComplete tr oc) = tr_label tr"
| "op_label (OpAbort tr oc) = tr_label tr"

fun progress_do :: "progress_op \<Rightarrow> progress \<Rightarrow> progress \<times> progress_event option" where
  "progress_do (OpStart tr) p = progress_start tr p"
| "progress_do (OpComplete tr oc) p = progress_complete tr oc p"
| "progress_do (OpAbort tr oc) p = progress_abort tr oc p"

text \<open>The tracker states the concurrent jobs can produce, with the events sent so far.\<close>

inductive progress_reach :: "progress \<Rightarrow> progress \<times> progress_event list \<Rightarrow> bool" for p0 where
  initial: "progress_reach p0 (p0, [])"
| step: "progress_reach p0 (p, es) \<Longrightarrow> op_label q \<in> set (pg_order p) \<Longrightarrow> progress_do q p = (p', e) \<Longrightarrow>
   progress_reach p0 (p', es @ (case e of Some x \<Rightarrow> [x] | None \<Rightarrow> []))"

inductive_cases progress_stepE: "progress_reach p0 (p, es)"

lemma state_of_update [simp]: "state_of (p\<lparr>pg_log := x\<rparr>) = state_of p" "state_of (p\<lparr>pg_outcomes := y\<rparr>) = state_of p"
  "outcome_of (p\<lparr>pg_log := x\<rparr>) = outcome_of p" "outcome_of (p\<lparr>pg_state := z\<rparr>) = outcome_of p"
  by (auto simp: state_of_def outcome_of_def fun_eq_iff)

lemma state_of_set [simp]: "state_of (p\<lparr>pg_state := gm_set l s (pg_state p)\<rparr>) k = (if k = l then s else state_of p k)"
  by (auto simp: state_of_def)

lemma state_of_set2 [simp]:
  "state_of (p\<lparr>pg_state := gm_set l s (pg_state p), pg_outcomes := q\<rparr>) k = (if k = l then s else state_of p k)"
  "outcome_of (p\<lparr>pg_state := q', pg_outcomes := gm_set l oc (pg_outcomes p)\<rparr>) k = (if k = l then oc else outcome_of p k)"
  by (auto simp: state_of_def outcome_of_def)

lemma new_state [simp]: "state_of (newProgressTracker trs) l = PQueued"
proof -
  have "(case gm_get (fold (\<lambda>tr. gm_set (tr_label tr) PQueued) trs m) l of Some s \<Rightarrow> s | None \<Rightarrow> PQueued) = PQueued"
    if "(case gm_get m l of Some s \<Rightarrow> s | None \<Rightarrow> PQueued) = PQueued" for m
    using that by (induction trs arbitrary: m) auto
  then show ?thesis by (simp add: state_of_def newProgressTracker_def)
qed

text \<open>What one operation does to the state, the outcome and the event.\<close>

definition target :: "progress_op \<Rightarrow> progress_state \<times> outcome" where
  "target q = (case q of OpStart tr \<Rightarrow> (PRunning, []) | OpComplete tr oc \<Rightarrow> (PComplete, oc) | OpAbort tr oc \<Rightarrow> (PAborted, oc))"

definition enabled :: "progress_op \<Rightarrow> progress_state \<Rightarrow> bool" where
  "enabled q s = (case q of OpStart tr \<Rightarrow> s = PQueued | OpComplete tr oc \<Rightarrow> s \<noteq> PComplete | OpAbort tr oc \<Rightarrow> s \<noteq> PComplete \<and> s \<noteq> PAborted)"

lemma progress_do_event:
  "snd (progress_do q p) = (if enabled q (state_of p (op_label q)) then Some (op_label q, target q) else None)"
  by (cases q) (auto simp: progress_start_def progress_complete_def progress_abort_def Let_def enabled_def target_def split: prod.splits)

lemma progress_do_state:
  "state_of (fst (progress_do q p)) l =
     (if enabled q (state_of p (op_label q)) \<and> l = op_label q then fst (target q) else state_of p l)"
  by (cases q) (auto simp: progress_start_def progress_complete_def progress_abort_def Let_def enabled_def target_def split: prod.splits)

lemma progress_do_outcome:
  "outcome_of (fst (progress_do q p)) l =
     (if enabled q (state_of p (op_label q)) \<and> l = op_label q \<and> fst (target q) \<noteq> PRunning then snd (target q) else outcome_of p l)"
  by (cases q) (auto simp: progress_start_def progress_complete_def progress_abort_def Let_def enabled_def target_def split: prod.splits)

lemma progress_do_order [simp]: "pg_order (fst (progress_do q p)) = pg_order p"
  by (cases q) (auto simp: progress_start_def progress_complete_def progress_abort_def Let_def split: prod.splits)

definition done_labels :: "progress \<Rightarrow> nat" where
  "done_labels p = length (filter (\<lambda>l. state_of p l = PComplete) (pg_order p))"

definition plan_dones :: "progress \<Rightarrow> nat" where
  "plan_dones p = length (filter (\<lambda>x. case x of PlanDone _ _ _ _ _ _ _ \<Rightarrow> True | _ \<Rightarrow> False) (pg_log p))"

lemma progress_do_plan_dones:
  "plan_dones (fst (progress_do q p)) =
     plan_dones p + (if enabled q (state_of p (op_label q)) \<and> fst (target q) = PComplete \<and>
                        done_labels (fst (progress_do q p)) = length (pg_order p) then 1 else 0)"
proof (cases q)
  case (OpStart tr)
  then show ?thesis
    by (cases "state_of p (tr_label tr) = PQueued")
      (simp_all add: progress_start_def Let_def enabled_def target_def plan_dones_def countsLocked_def listsLocked_def)
next
  case (OpAbort tr oc)
  then show ?thesis
    by (cases "state_of p (tr_label tr) = PComplete \<or> state_of p (tr_label tr) = PAborted")
      (simp_all add: progress_abort_def Let_def enabled_def target_def plan_dones_def countsLocked_def listsLocked_def)
next
  case (OpComplete tr oc)
  show ?thesis
  proof (cases "state_of p (tr_label tr) = PComplete")
    case True
    with OpComplete show ?thesis by (simp add: progress_complete_def Let_def enabled_def)
  next
    case False
    define p1 where "p1 = p\<lparr>pg_state := gm_set (tr_label tr) PComplete (pg_state p), pg_outcomes := gm_set (tr_label tr) oc (pg_outcomes p)\<rparr>"
    obtain c t where c: "countsLocked p1 = (c, t)" by fastforce
    obtain r u where r: "listsLocked p1 = (r, u)" by fastforce
    obtain a b d e where o: "outcomeListsLocked p1 = (a, b, d, e)" by (metis surj_pair)
    have do: "fst (progress_do q p) = p1\<lparr>pg_log := pg_log p1 @ [TestDone ''completed'' (tr_label tr) oc c t, DetailUpdated r u]
        @ (if c = t then [PlanDone c t a b d e u] else [])\<rparr>"
      using False OpComplete c r o by (simp add: progress_complete_def Let_def p1_def[symmetric])
    have "done_labels (fst (progress_do q p)) = c" "t = length (pg_order p)"
      using c unfolding do done_labels_def countsLocked_def by (auto simp: p1_def)
    moreover have "pg_log p1 = pg_log p" by (simp add: p1_def)
    ultimately show ?thesis
      using False OpComplete unfolding do plan_dones_def by (simp add: enabled_def target_def)
  qed
qed

section \<open>Invariants\<close>

lemma progress_do_disabled: "\<not> enabled q (state_of p (op_label q)) \<Longrightarrow> progress_do q p = (p, None)"
  by (cases q) (simp_all add: progress_start_def progress_complete_def progress_abort_def Let_def enabled_def)

lemma not_enabled_complete: "\<not> enabled q PComplete"
  by (cases q) (auto simp: enabled_def)

definition sent_last :: "progress_event list \<Rightarrow> string \<Rightarrow> progress_state" where
  "sent_last es l = (case latest fst l es of None \<Rightarrow> PQueued | Some e \<Rightarrow> fst (snd e))"

lemma reach_step_cases:
  assumes "progress_do q p = (p', e)"
  obtains (idle) "p' = p" "e = None"
  | (moves) "enabled q (state_of p (op_label q))" "e = Some (op_label q, target q)"
      "\<And>l. state_of p' l = (if l = op_label q then fst (target q) else state_of p l)" "pg_order p' = pg_order p"
proof (cases "enabled q (state_of p (op_label q))")
  case True
  have p': "p' = fst (progress_do q p)" and e: "e = snd (progress_do q p)" using assms by simp_all
  show thesis
  proof (rule moves)
    show "enabled q (state_of p (op_label q))" by (rule True)
    show "e = Some (op_label q, target q)" using True unfolding e progress_do_event by simp
    show "state_of p' l = (if l = op_label q then fst (target q) else state_of p l)" for l
      using True unfolding p' progress_do_state by simp
    show "pg_order p' = pg_order p" unfolding p' by simp
  qed
next
  case False
  with assms idle show thesis by (simp add: progress_do_disabled)
qed

lemma reach_order: "progress_reach p0 s \<Longrightarrow> pg_order (fst s) = pg_order p0"
proof (induction rule: progress_reach.induct)
  case (step p es q p' e)
  from step.hyps(3) step.IH show ?case by (cases rule: reach_step_cases) auto
qed simp

lemma reach_events:
  assumes "progress_reach p0 s" and "\<And>l. state_of p0 l = PQueued"
  shows "(\<forall>l. state_of (fst s) l = sent_last (snd s) l) \<and>
    (\<forall>as l oc bs. snd s = as @ (l, PComplete, oc) # bs \<longrightarrow> l \<notin> fst ` set bs)"
  using assms(1)
proof (induction rule: progress_reach.induct)
  case initial
  then show ?case using assms(2) by (simp add: sent_last_def)
next
  case (step p es q p' e)
  from step.IH have st: "\<And>l. state_of p l = sent_last es l" and fin: "\<And>as l oc bs. es = as @ (l, PComplete, oc) # bs \<Longrightarrow> l \<notin> fst ` set bs" by auto
  from step.hyps(3) show ?case
  proof (cases rule: reach_step_cases)
    case idle
    with step.IH show ?thesis by simp
  next
    case moves
    let ?x = "(op_label q, target q)"
    have es': "es @ (case e of Some x \<Rightarrow> [x] | None \<Rightarrow> []) = es @ [?x]" using moves by simp
    have "state_of p' l = sent_last (es @ [?x]) l" for l
      using moves(3) st[of l] by (auto simp: sent_last_def latest_snoc)
    moreover have "l \<notin> fst ` set bs" if sp: "es @ [?x] = as @ (l, PComplete, oc) # bs" for as l oc bs
    proof (cases bs rule: rev_cases)
      case (snoc bs' y)
      with sp have e1: "es = as @ (l, PComplete, oc) # bs'" and y: "y = ?x" by auto
      have nl: "l \<notin> fst ` set bs'" using fin[OF e1] .
      have "state_of p l = PComplete"
        unfolding st e1 sent_last_def using nl by (simp add: latest_append latest_None[THEN iffD2] latest_append[of fst l "[_]", simplified])
      then have "l \<noteq> op_label q" using moves(1) not_enabled_complete by auto
      with nl y snoc show ?thesis by auto
    qed simp
    ultimately show ?thesis unfolding es' by simp
  qed
qed

lemma filter_count_less: "x \<in> set xs \<Longrightarrow> \<not> P x \<Longrightarrow> length (filter P xs) < length xs"
  using length_filter_less[of x xs P] by simp

lemma reach_plan_done:
  assumes "progress_reach p0 s" and "plan_dones p0 = 0" and "\<And>l. state_of p0 l = PQueued"
  shows "plan_dones (fst s) = (if done_labels (fst s) = length (pg_order p0) \<and> pg_order p0 \<noteq> [] then 1 else 0)"
  using assms(1)
proof (induction rule: progress_reach.induct)
  case initial
  then show ?case using assms(2,3) by (simp add: done_labels_def)
next
  case (step p es q p' e)
  have ord: "pg_order p = pg_order p0" using reach_order[OF step.hyps(1)] by simp
  from step.hyps(3) show ?case
  proof (cases rule: reach_step_cases)
    case idle
    with step.IH show ?thesis by simp
  next
    case moves
    have p': "p' = fst (progress_do q p)" using step.hyps(3) by simp
    have nc: "state_of p (op_label q) \<noteq> PComplete" using moves(1) not_enabled_complete by metis
    have lt: "done_labels p < length (pg_order p0)"
      using filter_count_less[of "op_label q" "pg_order p" "\<lambda>l. state_of p l = PComplete"] step.hyps(2) nc ord
      by (simp add: done_labels_def)
    with step.IH have z: "plan_dones p = 0" by simp
    have pd: "plan_dones p' = (if fst (target q) = PComplete \<and> done_labels p' = length (pg_order p0) then 1 else 0)"
      using progress_do_plan_dones[of q p] moves(1) z ord unfolding p' by simp
    have ne: "pg_order p0 \<noteq> []" using step.hyps(2) ord by auto
    show ?thesis
    proof (cases "fst (target q) = PComplete")
      case True
      with pd ne show ?thesis by simp
    next
      case False
      have "filter (\<lambda>l. state_of p' l = PComplete) (pg_order p) = filter (\<lambda>l. state_of p l = PComplete) (pg_order p)"
        using moves(3) False nc by (intro filter_cong) auto
      then have "done_labels p' = done_labels p" using moves(4) by (simp add: done_labels_def)
      with pd False lt show ?thesis by simp
    qed
  qed
qed

text \<open>
  Along every interleaving of tracker operations on planned executions, the state of an
  execution is the one of the last event sent for it, and after a completion event no further
  event for that execution is sent: a completed execution is never restarted or aborted. An
  aborted one can only still complete.
\<close>

theorem progress_events:
  assumes "progress_reach (newProgressTracker trs) (p, es)"
  shows "(\<forall>l. state_of p l = sent_last es l) \<and>
    (\<forall>as l oc bs. es = as @ (l, PComplete, oc) # bs \<longrightarrow> l \<notin> fst ` set bs)"
  using reach_events[OF assms] by simp

definition sample_one :: test_requirement where
  "sample_one = zero_test_requirement\<lparr>tr_ID := ''a''\<rparr>"

lemma sample_reach:
  "\<exists>p. progress_reach (newProgressTracker [sample_one]) (p, [(''a'', PRunning, []), (''a'', PComplete, OutcomePass)]) \<and>
     done_labels p = 1 \<and> pg_order p = [''a'']"
proof -
  have l: "tr_label sample_one = ''a''"
    by (simp add: tr_label_def sample_one_def zero_test_requirement_def ExecutionLabel_def)
  let ?p0 = "newProgressTracker [sample_one]"
  obtain p1 e1 where p1: "progress_do (OpStart sample_one) ?p0 = (p1, e1)" by fastforce
  obtain p2 e2 where p2: "progress_do (OpComplete sample_one OutcomePass) p1 = (p2, e2)" by fastforce
  have o0: "pg_order ?p0 = [''a'']" by (simp add: newProgressTracker_def l)
  have e1: "e1 = Some (''a'', PRunning, [])" and s1: "state_of p1 ''a'' = PRunning" and o1: "pg_order p1 = [''a'']"
    using p1 o0 progress_do_event[of "OpStart sample_one" ?p0] progress_do_state[of "OpStart sample_one" ?p0 "''a''"]
      progress_do_order[of "OpStart sample_one" ?p0] by (simp_all add: l enabled_def target_def)
  have e2: "e2 = Some (''a'', PComplete, OutcomePass)" and s2: "state_of p2 ''a'' = PComplete" and o2: "pg_order p2 = [''a'']"
    using p2 o1 s1 progress_do_event[of "OpComplete sample_one OutcomePass" p1]
      progress_do_state[of "OpComplete sample_one OutcomePass" p1 "''a''"]
      progress_do_order[of "OpComplete sample_one OutcomePass" p1] by (simp_all add: l enabled_def target_def)
  have r1: "progress_reach ?p0 (p1, [(''a'', PRunning, [])])"
    using progress_reach.step[OF progress_reach.initial _ p1] o0 e1 by (simp add: l)
  have "progress_reach ?p0 (p2, [(''a'', PRunning, []), (''a'', PComplete, OutcomePass)])"
    using progress_reach.step[OF r1 _ p2] o1 e2 by (simp add: l)
  moreover have "done_labels p2 = 1" using s2 o2 by (simp add: done_labels_def)
  ultimately show ?thesis using o2 by blast
qed

theorem progress_events_witness:
  "\<exists>p. progress_reach (newProgressTracker [sample_one]) (p, [(''a'', PRunning, []), (''a'', PComplete, OutcomePass)]) \<and>
     state_of p ''a'' = PComplete"
proof -
  obtain p where p: "progress_reach (newProgressTracker [sample_one]) (p, [(''a'', PRunning, []), (''a'', PComplete, OutcomePass)])"
    using sample_reach by blast
  from progress_events[OF this] have "state_of p ''a'' = PComplete" by (simp add: sent_last_def latest_def)
  with p show ?thesis by blast
qed

text \<open>
  The final progress record, the one that says the plan is complete, is logged exactly when
  every planned execution has completed, and never twice, in every interleaving.
\<close>

theorem progress_plan_done_once:
  assumes "progress_reach (newProgressTracker trs) (p, es)"
  shows "plan_dones p = (if done_labels p = length trs \<and> trs \<noteq> [] then 1 else 0)"
proof -
  have "plan_dones (newProgressTracker trs) = 0" and o: "pg_order (newProgressTracker trs) = map tr_label trs"
    by (simp_all add: plan_dones_def newProgressTracker_def)
  from reach_plan_done[OF assms this(1) new_state] show ?thesis unfolding o by simp
qed

theorem progress_plan_done_once_witness:
  "\<exists>p es. progress_reach (newProgressTracker [sample_one]) (p, es) \<and> plan_dones p = 1"
  using sample_reach progress_plan_done_once[of "[sample_one]"] by fastforce

section \<open>Execution outcomes\<close>

definition own :: "test_requirement \<Rightarrow> verdict list \<Rightarrow> verdict list" where
  "own tr vs = filter (\<lambda>v. v_TR v = tr_ID tr \<and> v_Variant v = tr_Variant tr) vs"

definition top_outcome :: "outcome set \<Rightarrow> outcome" where
  "top_outcome S = (if OutcomeError \<in> S then OutcomeError else if OutcomeFail \<in> S then OutcomeFail
     else if OutcomePass \<in> S then OutcomePass else OutcomeSkip)"

lemma outcomeRank_simps [simp]:
  "outcomeRank OutcomeError = 3" "outcomeRank OutcomeFail = 2" "outcomeRank OutcomePass = 1" "outcomeRank OutcomeSkip = 0"
  by (simp_all add: outcomeRank_def)

lemma outcomeRank_other: "x \<noteq> OutcomeError \<Longrightarrow> x \<noteq> OutcomeFail \<Longrightarrow> x \<noteq> OutcomePass \<Longrightarrow> outcomeRank x = 0"
  by (simp add: outcomeRank_def)

lemma top_outcome_step:
  assumes "b \<in> {OutcomePass, OutcomeFail, OutcomeError, OutcomeSkip}"
  shows "top_outcome (insert (if outcomeRank x > outcomeRank b then x else b) S) = top_outcome (insert b (insert x S))"
proof -
  consider "x = OutcomeError" | "x = OutcomeFail" | "x = OutcomePass"
    | "x \<noteq> OutcomeError" "x \<noteq> OutcomeFail" "x \<noteq> OutcomePass" by blast
  then show ?thesis
  proof cases
    case 4
    then have "outcomeRank x = 0" by (rule outcomeRank_other)
    with 4 show ?thesis by (auto simp: top_outcome_def)
  qed (use assms in \<open>elim insertE emptyE; simp add: top_outcome_def\<close>)+
qed

lemma summarize_loop_skip: "summarize_loop tr vs best seen = summarize_loop tr (own tr vs) best seen"
  by (induction vs arbitrary: best seen) (auto simp: own_def)

lemma summarize_loop_own:
  assumes "\<forall>v \<in> set vs. v_TR v = tr_ID tr \<and> v_Variant v = tr_Variant tr"
    and "best \<in> {OutcomePass, OutcomeFail, OutcomeError, OutcomeSkip}"
  shows "summarize_loop tr vs best seen = (top_outcome (insert best (v_Outcome ` set vs)), seen \<or> vs \<noteq> [])"
  using assms
proof (induction vs arbitrary: best seen)
  case Nil
  then show ?case by (auto simp: top_outcome_def)
next
  case (Cons v vs)
  let ?b = "if outcomeRank (v_Outcome v) > outcomeRank best then v_Outcome v else best"
  have b: "?b \<in> {OutcomePass, OutcomeFail, OutcomeError, OutcomeSkip}"
  proof (cases "outcomeRank (v_Outcome v) > outcomeRank best")
    case True
    then have "outcomeRank (v_Outcome v) \<noteq> 0" by simp
    then have "v_Outcome v \<in> {OutcomePass, OutcomeFail, OutcomeError, OutcomeSkip}"
      unfolding insert_iff empty_iff using outcomeRank_other[of "v_Outcome v"] by metis
    with True show ?thesis by (simp only: if_True)
  next
    case False
    with Cons.prems(2) show ?thesis by (simp only: if_False)
  qed
  have "summarize_loop tr (v # vs) best seen = summarize_loop tr vs ?b True" using Cons.prems(1) by simp
  also have "\<dots> = (top_outcome (insert ?b (v_Outcome ` set vs)), True)"
  proof -
    have "\<forall>v \<in> set vs. v_TR v = tr_ID tr \<and> v_Variant v = tr_Variant tr" using Cons.prems(1) by simp
    from Cons.IH[OF this b] show ?thesis by (simp only: simp_thms)
  qed
  also have "top_outcome (insert ?b (v_Outcome ` set vs)) = top_outcome (insert best (insert (v_Outcome v) (v_Outcome ` set vs)))"
    using Cons.prems(2) by (rule top_outcome_step)
  finally show ?case by simp
qed

text \<open>
  An execution is summarised by its own verdicts only (same TR and variant): as an error when
  it has none or one of them is an error, else as a failure when one failed, else as a pass when
  one passed, else as skipped.
\<close>

theorem summarizeTR_top:
  "summarizeTR vs tr =
     (if filter (\<lambda>v. v_TR v = tr_ID tr \<and> v_Variant v = tr_Variant tr) vs = [] then OutcomeError
      else top_outcome (v_Outcome ` set (filter (\<lambda>v. v_TR v = tr_ID tr \<and> v_Variant v = tr_Variant tr) vs)))"
proof -
  have "summarize_loop tr vs OutcomeSkip False =
      (top_outcome (insert OutcomeSkip (v_Outcome ` set (own tr vs))), own tr vs \<noteq> [])"
    by (subst summarize_loop_skip, subst summarize_loop_own) (auto simp: own_def)
  moreover have "top_outcome (insert OutcomeSkip S) = top_outcome S" for S by (simp add: top_outcome_def)
  ultimately show ?thesis by (simp add: summarizeTR_def own_def del: filter_empty_conv)
qed

end
