(* ===== verification/Scheduler.thy ===== *)
theory Scheduler
  imports Selection
begin

text \<open>
  \<open>schedule\<close> of \<open>internal/orchestrator/orchestrator.go\<close> as a step relation on the program
  counters of its goroutines. The semaphore channel, the read-write lock and the group mutexes
  are determined by the counters: who holds what follows from where each goroutine is. A
  writer that has announced itself blocks new readers, as \<open>sync.RWMutex\<close> documents.
\<close>

section \<open>Goroutines and steps\<close>

text \<open>
  \<open>HasRead n\<close> and \<open>Releasing n\<close> hold the read lock and the first \<open>n\<close> groups of the job. The
  deferred calls release the groups, the read lock and the semaphore slot in this order.
\<close>

datatype pc =
    Spawned
  | WPending
  | Excl
  | HasSem
  | HasRead nat
  | Running
  | Releasing nat
  | RelSem
  | Finished

fun holds_sem :: "pc \<Rightarrow> bool" where
  "holds_sem HasSem = True"
| "holds_sem (HasRead n) = True"
| "holds_sem Running = True"
| "holds_sem (Releasing n) = True"
| "holds_sem RelSem = True"
| "holds_sem _ = False"

fun reads :: "pc \<Rightarrow> bool" where
  "reads (HasRead n) = True"
| "reads Running = True"
| "reads (Releasing n) = True"
| "reads _ = False"

fun writer :: "pc \<Rightarrow> bool" where
  "writer WPending = True"
| "writer Excl = True"
| "writer _ = False"

fun held :: "job \<Rightarrow> pc \<Rightarrow> string list" where
  "held j (HasRead n) = take n (j_groups j)"
| "held j Running = j_groups j"
| "held j (Releasing n) = take n (j_groups j)"
| "held j _ = []"

text \<open>The goroutine is inside \<open>run(j)\<close>.\<close>

definition in_run :: "pc \<Rightarrow> bool" where
  "in_run p \<longleftrightarrow> p = Running \<or> p = Excl"

definition sem_used :: "pc list \<Rightarrow> nat" where
  "sem_used s = length (filter holds_sem s)"

definition slots :: "int \<Rightarrow> nat" where
  "slots concurrency = (if concurrency < 1 then 1 else nat concurrency)"

inductive sched_step :: "int \<Rightarrow> job list \<Rightarrow> pc list \<Rightarrow> pc list \<Rightarrow> bool" for c jobs where
  announce: "\<lbrakk>i < length s; s ! i = Spawned; \<not> j_parallelSafe (jobs ! i); \<forall>p \<in> set s. \<not> writer p\<rbrakk>
     \<Longrightarrow> sched_step c jobs s (s[i := WPending])"
| wlock: "\<lbrakk>i < length s; s ! i = WPending; \<forall>p \<in> set s. \<not> reads p\<rbrakk> \<Longrightarrow> sched_step c jobs s (s[i := Excl])"
| wunlock: "\<lbrakk>i < length s; s ! i = Excl\<rbrakk> \<Longrightarrow> sched_step c jobs s (s[i := Finished])"
| sem: "\<lbrakk>i < length s; s ! i = Spawned; j_parallelSafe (jobs ! i); sem_used s < slots c\<rbrakk>
     \<Longrightarrow> sched_step c jobs s (s[i := HasSem])"
| rlock: "\<lbrakk>i < length s; s ! i = HasSem; \<forall>p \<in> set s. \<not> writer p\<rbrakk> \<Longrightarrow> sched_step c jobs s (s[i := HasRead 0])"
| lock: "\<lbrakk>i < length s; s ! i = HasRead n; n < length (j_groups (jobs ! i));
     \<forall>k < length s. j_groups (jobs ! i) ! n \<notin> set (held (jobs ! k) (s ! k))\<rbrakk>
     \<Longrightarrow> sched_step c jobs s (s[i := HasRead (Suc n)])"
| begin_run: "\<lbrakk>i < length s; s ! i = HasRead (length (j_groups (jobs ! i)))\<rbrakk> \<Longrightarrow> sched_step c jobs s (s[i := Running])"
| end_run: "\<lbrakk>i < length s; s ! i = Running\<rbrakk> \<Longrightarrow> sched_step c jobs s (s[i := Releasing (length (j_groups (jobs ! i)))])"
| unlock: "\<lbrakk>i < length s; s ! i = Releasing (Suc n)\<rbrakk> \<Longrightarrow> sched_step c jobs s (s[i := Releasing n])"
| runlock: "\<lbrakk>i < length s; s ! i = Releasing 0\<rbrakk> \<Longrightarrow> sched_step c jobs s (s[i := RelSem])"
| semrel: "\<lbrakk>i < length s; s ! i = RelSem\<rbrakk> \<Longrightarrow> sched_step c jobs s (s[i := Finished])"

text \<open>\<open>schedule\<close> starts one goroutine per job; \<open>wg.Wait\<close> returns when all are finished.\<close>

definition sched_init :: "job list \<Rightarrow> pc list" where
  "sched_init jobs = replicate (length jobs) Spawned"

definition sched_done :: "pc list \<Rightarrow> bool" where
  "sched_done s \<longleftrightarrow> (\<forall>p \<in> set s. p = Finished)"

definition sched_reach :: "int \<Rightarrow> job list \<Rightarrow> pc list \<Rightarrow> bool" where
  "sched_reach c jobs s \<longleftrightarrow> (sched_step c jobs)\<^sup>*\<^sup>* (sched_init jobs) s"

section \<open>Safety\<close>

definition sched_inv :: "int \<Rightarrow> job list \<Rightarrow> pc list \<Rightarrow> bool" where
  "sched_inv c jobs s \<longleftrightarrow> length s = length jobs \<and> sem_used s \<le> slots c \<and>
     (\<forall>i < length s. s ! i = Excl \<longrightarrow> (\<forall>k < length s. \<not> reads (s ! k))) \<and>
     (\<forall>i < length s. \<forall>k < length s. writer (s ! i) \<longrightarrow> writer (s ! k) \<longrightarrow> i = k) \<and>
     (\<forall>i < length s. \<forall>k < length s. i \<noteq> k \<longrightarrow> set (held (jobs ! i) (s ! i)) \<inter> set (held (jobs ! k) (s ! k)) = {}) \<and>
     (\<forall>i < length s. (writer (s ! i) \<longrightarrow> \<not> j_parallelSafe (jobs ! i)) \<and> (holds_sem (s ! i) \<longrightarrow> j_parallelSafe (jobs ! i)))"

lemma sem_used_update:
  "i < length s \<Longrightarrow> sem_used (s[i := p]) + (if holds_sem (s ! i) then 1 else 0) = sem_used s + (if holds_sem p then 1 else 0)"
proof (induction s arbitrary: i)
  case (Cons a s)
  show ?case
  proof (cases i)
    case 0
    then show ?thesis by (simp add: sem_used_def)
  next
    case (Suc j)
    with Cons.prems Cons.IH[of j] show ?thesis by (auto simp: sem_used_def)
  qed
qed simp

lemma writer_excl: "p = Excl \<Longrightarrow> writer p"
  by simp

lemma sched_inv_init: "sched_inv c jobs (sched_init jobs)"
  by (auto simp: sched_inv_def sched_init_def sem_used_def)

lemma sched_inv_update:
  assumes inv: "sched_inv c jobs s" and i: "i < length s"
    and sem: "holds_sem q \<Longrightarrow> holds_sem (s ! i) \<or> sem_used s < slots c"
    and ex: "q = Excl \<Longrightarrow> \<forall>k < length s. \<not> reads (s ! k)"
    and rd: "reads q \<Longrightarrow> reads (s ! i) \<or> (\<forall>k < length s. s ! k \<noteq> Excl)"
    and wr: "writer q \<Longrightarrow> writer (s ! i) \<or> (\<forall>k < length s. \<not> writer (s ! k))"
    and hd: "\<And>g k. g \<in> set (held (jobs ! i) q) \<Longrightarrow> g \<in> set (held (jobs ! i) (s ! i)) \<or> (k < length s \<longrightarrow> g \<notin> set (held (jobs ! k) (s ! k)))"
    and ps: "writer q \<Longrightarrow> \<not> j_parallelSafe (jobs ! i)" "holds_sem q \<Longrightarrow> j_parallelSafe (jobs ! i)"
  shows "sched_inv c jobs (s[i := q])"
proof -
  note I = inv[unfolded sched_inv_def]
  have nth: "s[i := q] ! k = (if k = i then q else s ! k)" if "k < length s" for k using that by simp
  have "sem_used (s[i := q]) \<le> slots c"
    using sem_used_update[OF i, of q] sem I by (auto split: if_splits)
  moreover have "\<not> reads (s[i := q] ! k)" if "j < length s" "s[i := q] ! j = Excl" "k < length s" for j k
  proof (cases "k = i")
    case True
    show ?thesis
    proof (cases "j = i")
      case True
      with \<open>k = i\<close> that nth show ?thesis by simp
    next
      case False
      then have "s ! j = Excl" using that nth by simp
      then have "\<not> reads q" using rd I that i by (metis)
      with True i show ?thesis by simp
    qed
  next
    case False
    with that nth ex I show ?thesis by (cases "j = i") auto
  qed
  moreover have "a = b" if "a < length s" "b < length s" "writer (s[i := q] ! a)" "writer (s[i := q] ! b)" for a b
    using that nth[of a] nth[of b] wr I i by (cases "a = i"; cases "b = i") (simp_all, metis+)
  moreover have "set (held (jobs ! a) (s[i := q] ! a)) \<inter> set (held (jobs ! b) (s[i := q] ! b)) = {}"
    if "a < length s" "b < length s" "a \<noteq> b" for a b
  proof -
    have D: "set (held (jobs ! x) (s ! x)) \<inter> set (held (jobs ! y) (s ! y)) = {}" if "x < length s" "y < length s" "x \<noteq> y" for x y
      using I that by blast
    have E: "set (held (jobs ! i) q) \<inter> set (held (jobs ! y) (s ! y)) = {}" if "y < length s" "y \<noteq> i" for y
      using hd[where k = y] that D[of i y] i by blast
    show ?thesis using that nth[of a] nth[of b] D[of a b] E[of a] E[of b] by (cases "a = i"; cases "b = i") auto
  qed
  moreover have "(writer (s[i := q] ! a) \<longrightarrow> \<not> j_parallelSafe (jobs ! a)) \<and> (holds_sem (s[i := q] ! a) \<longrightarrow> j_parallelSafe (jobs ! a))"
    if "a < length s" for a
    using that nth[of a] ps I by (cases "a = i") auto
  ultimately show ?thesis using I unfolding sched_inv_def by simp
qed

lemma all_nth: "(\<forall>p \<in> set s. P p) \<Longrightarrow> k < length s \<Longrightarrow> P (s ! k)"
  by simp

lemma sched_inv_step: "sched_step c jobs s t \<Longrightarrow> sched_inv c jobs s \<Longrightarrow> sched_inv c jobs t"
proof (induction rule: sched_step.induct)
  case (announce i s)
  then show ?case by (intro sched_inv_update) auto
next
  case (wlock i s)
  then have "\<not> j_parallelSafe (jobs ! i)" by (auto simp: sched_inv_def)
  with wlock show ?case by (intro sched_inv_update) auto
next
  case (wunlock i s)
  then show ?case by (intro sched_inv_update) auto
next
  case (sem i s)
  then show ?case by (intro sched_inv_update) auto
next
  case (rlock i s)
  then have "j_parallelSafe (jobs ! i)" by (auto simp: sched_inv_def)
  moreover have "\<forall>k < length s. s ! k \<noteq> Excl" using rlock.hyps(3) by (metis nth_mem writer.simps(2))
  ultimately show ?case using rlock by (intro sched_inv_update) auto
next
  case (lock i s n)
  then have "j_parallelSafe (jobs ! i)" by (auto simp: sched_inv_def)
  moreover have "held (jobs ! i) (HasRead (Suc n)) = take n (j_groups (jobs ! i)) @ [j_groups (jobs ! i) ! n]"
    using lock.hyps(3) by (simp add: take_Suc_conv_app_nth)
  ultimately show ?case using lock by (intro sched_inv_update) auto
next
  case (begin_run i s)
  then have "j_parallelSafe (jobs ! i)" by (auto simp: sched_inv_def)
  with begin_run show ?case by (intro sched_inv_update) auto
next
  case (end_run i s)
  then have "j_parallelSafe (jobs ! i)" by (auto simp: sched_inv_def)
  with end_run show ?case by (intro sched_inv_update) auto
next
  case (unlock i s n)
  then have "j_parallelSafe (jobs ! i)" by (auto simp: sched_inv_def)
  moreover have "set (take n gs) \<subseteq> set (take (Suc n) gs)" for gs :: "string list" by (rule set_take_subset_set_take) simp
  ultimately show ?case using unlock by (intro sched_inv_update) (auto simp: subset_iff)
next
  case (runlock i s)
  then have "j_parallelSafe (jobs ! i)" by (auto simp: sched_inv_def)
  with runlock show ?case by (intro sched_inv_update) auto
next
  case (semrel i s)
  then show ?case by (intro sched_inv_update) auto
qed

lemma sched_inv_reach: "sched_reach c jobs s \<Longrightarrow> sched_inv c jobs s"
  unfolding sched_reach_def by (induction rule: rtranclp_induct) (auto simp: sched_inv_init intro: sched_inv_step)

section \<open>Progress\<close>

text \<open>How many steps a goroutine with \<open>g\<close> groups has left at most.\<close>

fun steps_left :: "nat \<Rightarrow> pc \<Rightarrow> nat" where
  "steps_left g Spawned = 2 * g + 8"
| "steps_left g WPending = 2"
| "steps_left g Excl = 1"
| "steps_left g HasSem = 2 * g + 7"
| "steps_left g (HasRead n) = (g - n) + g + 6"
| "steps_left g Running = g + 5"
| "steps_left g (Releasing n) = n + 3"
| "steps_left g RelSem = 1"
| "steps_left g Finished = 0"

definition sched_measure :: "job list \<Rightarrow> pc list \<Rightarrow> nat" where
  "sched_measure jobs s = (\<Sum>i < length s. steps_left (length (j_groups (jobs ! i))) (s ! i))"

lemma sched_measure_update:
  assumes "i < length s" and "steps_left (length (j_groups (jobs ! i))) q < steps_left (length (j_groups (jobs ! i))) (s ! i)"
  shows "sched_measure jobs (s[i := q]) < sched_measure jobs s"
  unfolding sched_measure_def length_list_update
  by (rule sum_strict_mono_ex1) (use assms in \<open>auto simp: nth_list_update intro!: bexI[of _ i]\<close>)

lemma sched_step_measure: "sched_step c jobs s t \<Longrightarrow> sched_measure jobs t < sched_measure jobs s"
  by (induction rule: sched_step.induct) (auto intro!: sched_measure_update)

lemma sched_step_length: "sched_step c jobs s t \<Longrightarrow> length t = length s"
  by (induction rule: sched_step.induct) auto

definition ordered_jobs :: "job list \<Rightarrow> bool" where
  "ordered_jobs jobs \<longleftrightarrow> (\<forall>j \<in> set jobs. sorted (j_groups j) \<and> distinct (j_groups j))"

lemma strictly_sorted_nth: "sorted xs \<Longrightarrow> distinct xs \<Longrightarrow> i < j \<Longrightarrow> j < length xs \<Longrightarrow> xs ! i < xs ! j"
  for xs :: "'a :: linorder list"
  by (metis distinct_conv_nth le_less less_trans order.strict_implies_order sorted_nth_mono nat_neq_iff)

text \<open>A goroutine that waits for a group: the group it waits for.\<close>

definition waits :: "job list \<Rightarrow> pc list \<Rightarrow> nat \<Rightarrow> string \<Rightarrow> bool" where
  "waits jobs s i g \<longleftrightarrow> i < length s \<and> (\<exists>n. s ! i = HasRead n \<and> n < length (j_groups (jobs ! i)) \<and> g = j_groups (jobs ! i) ! n)"

lemma read_n_bound:
  assumes "sched_reach c jobs s" and "i < length s" and "s ! i = HasRead n"
  shows "n \<le> length (j_groups (jobs ! i))"
proof -
  have "\<forall>i n. i < length s \<longrightarrow> s ! i = HasRead n \<longrightarrow> n \<le> length (j_groups (jobs ! i))"
    using assms(1) unfolding sched_reach_def
  proof (induction rule: rtranclp_induct)
    case base
    then show ?case by (auto simp: sched_init_def)
  next
    case (step s t)
    from step.hyps(2) step.IH show ?case
      by (induction rule: sched_step.induct) (auto simp: nth_list_update split: if_splits)
  qed
  with assms show ?thesis by blast
qed

lemma sched_stuck_done:
  assumes reach: "sched_reach c jobs s" and ord: "ordered_jobs jobs" and stuck: "\<And>t. \<not> sched_step c jobs s t"
  shows "sched_done s"
proof -
  have inv: "sched_inv c jobs s" using reach by (rule sched_inv_reach)
  have len: "length s = length jobs" using inv by (simp add: sched_inv_def)
  have simple: "s ! i \<noteq> Excl" "s ! i \<noteq> Running" "s ! i \<noteq> Releasing n" "s ! i \<noteq> RelSem" if "i < length s" for i n
    using stuck sched_step.wunlock[OF that] sched_step.end_run[OF that] sched_step.semrel[OF that]
      sched_step.runlock[OF that] sched_step.unlock[OF that] by (metis, metis, cases n, metis+)
  have wait: "\<exists>g. waits jobs s i g" if "i < length s" "s ! i = HasRead n" for i n
  proof -
    have "n \<noteq> length (j_groups (jobs ! i))" using stuck sched_step.begin_run[OF that(1)] that(2) by metis
    with read_n_bound[OF reach that] that show ?thesis by (auto simp: waits_def)
  qed
  have blocked: "\<exists>k h. waits jobs s k h \<and> g < h" if w: "waits jobs s i g" for i g
  proof -
    from w obtain n where n: "i < length s" "s ! i = HasRead n" "n < length (j_groups (jobs ! i))" "g = j_groups (jobs ! i) ! n"
      by (auto simp: waits_def)
    then obtain k where k: "k < length s" "g \<in> set (held (jobs ! k) (s ! k))"
      using stuck sched_step.lock[OF n(1,2,3)] by blast
    then obtain m where m: "s ! k = HasRead m" using simple[OF k(1)] by (cases "s ! k") auto
    with k(2) obtain a where a: "a < m" "a < length (j_groups (jobs ! k))" "g = j_groups (jobs ! k) ! a"
      by (auto simp: in_set_conv_nth)
    obtain h where h: "waits jobs s k h" using wait[OF k(1) m] by blast
    then have h': "m < length (j_groups (jobs ! k))" "h = j_groups (jobs ! k) ! m" using m by (auto simp: waits_def)
    have "sorted (j_groups (jobs ! k)) \<and> distinct (j_groups (jobs ! k))" using ord k(1) len by (auto simp: ordered_jobs_def)
    then have "g < h" using strictly_sorted_nth[of "j_groups (jobs ! k)" a m] a h' by simp
    with h show ?thesis by blast
  qed
  have no_wait: "\<not> waits jobs s i g" for i g
  proof
    assume w: "waits jobs s i g"
    let ?W = "{h. \<exists>k. waits jobs s k h}"
    have "?W \<subseteq> (\<Union>k < length s. set (j_groups (jobs ! k)))" by (auto simp: waits_def)
    then have fin: "finite ?W" by (rule finite_subset) simp
    have "Max ?W \<in> ?W" using fin w by (intro Max_in) auto
    then obtain k where "waits jobs s k (Max ?W)" by blast
    from blocked[OF this] obtain k' h where "waits jobs s k' h" "Max ?W < h" by blast
    moreover have "h \<le> Max ?W" using fin \<open>waits jobs s k' h\<close> by (intro Max_ge) auto
    ultimately show False by simp
  qed
  have noread: "s ! i \<noteq> HasRead n" if "i < length s" for i n using wait[OF that] no_wait by blast
  have nr: "\<forall>p \<in> set s. \<not> reads p"
  proof
    fix p assume "p \<in> set s"
    then obtain i where i: "i < length s" and p: "p = s ! i" by (auto simp: in_set_conv_nth)
    show "\<not> reads p" unfolding p using simple[OF i] noread[OF i] by (cases "s ! i") auto
  qed
  have nowp: "s ! i \<noteq> WPending" if "i < length s" for i using stuck sched_step.wlock[OF that _ nr] by blast
  have nw: "\<forall>p \<in> set s. \<not> writer p"
  proof
    fix p assume "p \<in> set s"
    then obtain i where i: "i < length s" and p: "p = s ! i" by (auto simp: in_set_conv_nth)
    show "\<not> writer p" unfolding p using simple[OF i] nowp[OF i] by (cases "s ! i") auto
  qed
  have nosem: "s ! i \<noteq> HasSem" if "i < length s" for i using stuck sched_step.rlock[OF that _ nw] by blast
  have "\<forall>p \<in> set s. \<not> holds_sem p"
  proof
    fix p assume "p \<in> set s"
    then obtain i where i: "i < length s" and p: "p = s ! i" by (auto simp: in_set_conv_nth)
    show "\<not> holds_sem p" unfolding p using simple[OF i] noread[OF i] nosem[OF i] by (cases "s ! i") auto
  qed
  then have su: "sem_used s < slots c" by (auto simp: sem_used_def slots_def filter_empty_conv)
  have "s ! i \<noteq> Spawned" if "i < length s" for i
    using stuck sched_step.sem[OF that _ _ su] sched_step.announce[OF that _ _ nw] by blast
  then show ?thesis
    using simple noread nowp nosem unfolding sched_done_def by (metis in_set_conv_nth pc.exhaust)
qed

lemma sched_terminates:
  assumes "sched_reach c jobs s" and "ordered_jobs jobs"
  shows "\<exists>t. (sched_step c jobs)\<^sup>*\<^sup>* s t \<and> sched_done t"
  using assms(1)
proof (induction "sched_measure jobs s" arbitrary: s rule: less_induct)
  case less
  show ?case
  proof (cases "\<exists>t. sched_step c jobs s t")
    case True
    then obtain t where t: "sched_step c jobs s t" by blast
    have "sched_reach c jobs t" using less.prems t unfolding sched_reach_def by (rule rtranclp.rtrancl_into_rtrancl)
    with less.hyps[OF sched_step_measure[OF t]] t show ?thesis by (meson converse_rtranclp_into_rtranclp)
  next
    case False
    then show ?thesis using sched_stuck_done[OF less.prems assms(2)] by blast
  qed
qed

inductive_cases sched_stepE: "sched_step c jobs s t"

lemma sched_done_no_step: "sched_done s \<Longrightarrow> \<not> sched_step c jobs s t"
  by (rule notI, erule sched_stepE) (auto simp: sched_done_def dest!: nth_mem)

section \<open>Properties\<close>

text \<open>
  C32: in every interleaving, a job that is not parallel safe runs alone, at most
  \<open>max(concurrency, 1)\<close> parallel jobs run at once, and two running jobs share no exclusivity group.
\<close>

theorem schedule_safety:
  assumes "sched_reach c jobs s"
  shows "length (filter (\<lambda>p. p = Running) s) \<le> slots c \<and>
    (\<forall>i < length s. \<forall>k < length s. i \<noteq> k \<longrightarrow> in_run (s ! i) \<longrightarrow> in_run (s ! k) \<longrightarrow>
       j_parallelSafe (jobs ! i) \<and> j_parallelSafe (jobs ! k) \<and>
       set (j_groups (jobs ! i)) \<inter> set (j_groups (jobs ! k)) = {})"
proof (intro conjI allI impI)
  note I = sched_inv_reach[OF assms, unfolded sched_inv_def]
  have "length (filter (\<lambda>p. p = Running) xs) \<le> sem_used xs" for xs
    by (induction xs) (auto simp: sem_used_def)
  then have "length (filter (\<lambda>p. p = Running) s) \<le> sem_used s" .
  also have "\<dots> \<le> slots c" using I by (elim conjE)
  finally show "length (filter (\<lambda>p. p = Running) s) \<le> slots c" .
  fix i k assume ik: "i < length s" "k < length s" "i \<noteq> k" and r: "in_run (s ! i)" "in_run (s ! k)"
  have alone: False if "a < length s" "b < length s" "a \<noteq> b" "s ! a = Excl" "in_run (s ! b)" for a b
  proof -
    have "\<not> reads (s ! b)" using I that by blast
    then have "s ! b = Excl" using that(5) by (auto simp: in_run_def)
    then have "writer (s ! a)" "writer (s ! b)" using that(4) by simp_all
    then show False using I that(1,2,3) by blast
  qed
  have run: "s ! i = Running" "s ! k = Running"
    using alone[OF ik] alone[OF ik(2,1)] ik(3) r unfolding in_run_def by metis+
  with I ik show "j_parallelSafe (jobs ! i)" "j_parallelSafe (jobs ! k)" by auto
  have "set (held (jobs ! i) (s ! i)) \<inter> set (held (jobs ! k) (s ! k)) = {}" using I ik by blast
  with run show "set (j_groups (jobs ! i)) \<inter> set (j_groups (jobs ! k)) = {}" by simp
qed

definition sample_jobs :: "job list" where
  "sample_jobs = [\<lparr> j_tool = ''a'', j_trs = [], j_parallelSafe = True, j_groups = [] \<rparr>,
                  \<lparr> j_tool = ''b'', j_trs = [], j_parallelSafe = False, j_groups = [] \<rparr>]"

lemma sample_sched: "sched_reach 1 sample_jobs [Running, WPending]"
proof -
  have s1: "sched_step 1 sample_jobs [Spawned, Spawned] [HasSem, Spawned]"
    using sched_step.sem[of 0 "[Spawned, Spawned]" sample_jobs 1] by (simp add: sample_jobs_def sem_used_def slots_def)
  have s2: "sched_step 1 sample_jobs [HasSem, Spawned] [HasRead 0, Spawned]"
    using sched_step.rlock[of 0 "[HasSem, Spawned]" 1 sample_jobs] by simp
  have s3: "sched_step 1 sample_jobs [HasRead 0, Spawned] [Running, Spawned]"
    using sched_step.begin_run[of 0 "[HasRead 0, Spawned]" sample_jobs 1] by (simp add: sample_jobs_def)
  have s4: "sched_step 1 sample_jobs [Running, Spawned] [Running, WPending]"
    using sched_step.announce[of 1 "[Running, Spawned]" sample_jobs 1] by (simp add: sample_jobs_def)
  have "sched_init sample_jobs = [Spawned, Spawned]" by (simp add: sched_init_def sample_jobs_def)
  then show ?thesis unfolding sched_reach_def using s1 s2 s3 s4
    by (metis rtranclp.rtrancl_into_rtrancl rtranclp.rtrancl_refl)
qed

theorem schedule_safety_witness:
  "sched_reach 1 sample_jobs [Running, WPending] \<and> length (filter (\<lambda>p. p = Running) [Running, WPending]) \<le> slots 1"
  using schedule_safety[OF sample_sched] sample_sched by blast

text \<open>
  C36: the jobs a run builds never deadlock. From every state the scheduler can reach on them,
  whatever the interleaving, all jobs can still finish; every step brings the end nearer, and the
  only states without a step are those in which every job has finished.
\<close>

theorem schedule_completes:
  assumes "sched_reach c (groupByTool reg trs sched) s"
  shows "(\<exists>t. (sched_step c (groupByTool reg trs sched))\<^sup>*\<^sup>* s t \<and> sched_done t) \<and>
    (sched_done s \<longleftrightarrow> (\<nexists>t. sched_step c (groupByTool reg trs sched) s t)) \<and>
    (\<forall>t. sched_step c (groupByTool reg trs sched) s t \<longrightarrow>
       sched_measure (groupByTool reg trs sched) t < sched_measure (groupByTool reg trs sched) s)"
proof -
  obtain order where o: "groupByTool reg trs sched = map (\<lambda>t. make_job reg sched t (filter (\<lambda>tr. tr_AutomationTool tr = t) trs)) order"
    using groupByTool_form[of reg trs sched] by blast
  have "ordered_jobs (groupByTool reg trs sched)"
    unfolding o ordered_jobs_def using make_job_groups by auto
  then show ?thesis
    using sched_terminates[OF assms] sched_stuck_done[OF assms] sched_done_no_step sched_step_measure by blast
qed

theorem schedule_completes_witness:
  "\<exists>t. (sched_step 0 (groupByTool sample_registry [sample_req ''p'' ''b'', sample_req ''q'' ''a''] []))\<^sup>*\<^sup>*
     (sched_init (groupByTool sample_registry [sample_req ''p'' ''b'', sample_req ''q'' ''a''] [])) t \<and> sched_done t"
  using schedule_completes[of 0 sample_registry "[sample_req ''p'' ''b'', sample_req ''q'' ''a'']" "[]"]
  by (simp add: sched_reach_def)

end
