(* ===== verification/Pipeline.thy ===== *)
theory Pipeline
  imports Selection Grader Progress Reports
begin

text \<open>
  The stage pipeline of one job: \<open>runJobWithTimeout\<close> and \<open>runToolExecutionsWithTimeout\<close> of
  \<open>internal/orchestrator/orchestrator.go\<close>. The world \<open>'w\<close> holds what is outside (cluster, files,
  clock, cancellation) and the callbacks of the run context act on it. An early return is \<open>Inl\<close>
  of its verdicts; the deferred calls run in Go's order: deadline override, teardown, duration.
\<close>

section \<open>The environment of a job\<close>

datatype ctx_err = Canceled | DeadlineExceeded

definition ctx_text :: "ctx_err \<Rightarrow> string" where
  "ctx_text e = (case e of Canceled \<Rightarrow> ''context canceled'' | DeadlineExceeded \<Rightarrow> ''context deadline exceeded'')"

text \<open>
  \<open>je_ctxErr start now\<close> is the error of the context derived at \<open>start\<close> with the timeout, and
  \<open>je_parentErr\<close> that of its parent; \<open>je_since start now\<close> is the elapsed time in seconds.
\<close>

record 'w job_env =
  je_ctxErr :: "'w \<Rightarrow> 'w \<Rightarrow> ctx_err option"
  je_parentErr :: "'w \<Rightarrow> ctx_err option"
  je_since :: "'w \<Rightarrow> 'w \<Rightarrow> f64"
  je_SetStage :: "string \<Rightarrow> test_requirement list \<Rightarrow> 'w \<Rightarrow> 'w"
  je_RecordArtifacts :: "(test_requirement list \<Rightarrow> string list \<Rightarrow> 'w \<Rightarrow> 'w) option"
  je_mkdir :: "string \<Rightarrow> 'w \<Rightarrow> string option \<times> 'w"
  je_progress :: "progress_op \<Rightarrow> 'w \<Rightarrow> 'w"

section \<open>Stages\<close>

type_synonym ('w, 'a) job_step = "bag \<Rightarrow> 'w \<Rightarrow> (verdict list + 'a) \<times> bag \<times> 'w"

definition job_bind :: "('w, 'a) job_step \<Rightarrow> ('a \<Rightarrow> ('w, 'b) job_step) \<Rightarrow> ('w, 'b) job_step" where
  "job_bind m f bag w = (case m bag w of
       (Inl vs, bag', w') \<Rightarrow> (Inl vs, bag', w') | (Inr x, bag', w') \<Rightarrow> f x bag' w')"

definition job_return :: "'a \<Rightarrow> ('w, 'a) job_step" where
  "job_return x bag w = (Inr x, bag, w)"

text \<open>The two checks after a stage: its error, then that of the context.\<close>

definition stage_result ::
  "test_requirement list \<Rightarrow> string \<Rightarrow> string + 'a \<Rightarrow> ctx_err option \<Rightarrow> verdict list + 'a" where
  "stage_result trs name r ce =
     (case r of
        Inl e \<Rightarrow> Inl (errTRs trs (name @ '': '' @ e))
      | Inr x \<Rightarrow> (case ce of
          Some c \<Rightarrow> Inl (errTRs trs (name @ '': '' @ ctx_text c))
        | None \<Rightarrow> Inr x))"

definition of_error :: "string option \<Rightarrow> string + unit" where
  "of_error e = (case e of Some s \<Rightarrow> Inl s | None \<Rightarrow> Inr ())"

definition stage_preflight ::
  "'w job_env \<Rightarrow> 'w \<Rightarrow> run_ctx \<Rightarrow> 'w tool_integration \<Rightarrow> test_requirement list \<Rightarrow> ('w, unit) job_step" where
  "stage_preflight env start rc ti trs bag w =
     (case ti_Preflight ti of
        None \<Rightarrow> (Inr (), bag, w)
      | Some check \<Rightarrow>
         (case check rc trs bag (je_SetStage env ''preflight'' trs w) of
            ((findings, err), bag', w') \<Rightarrow>
              (case stage_result trs ''preflight'' (of_error err) (je_ctxErr env start w') of
                 Inl vs \<Rightarrow> (Inl vs, bag', w')
               | Inr _ \<Rightarrow>
                  (case find (\<lambda>f. fd_Level f = ''error'') findings of
                     Some f \<Rightarrow> (Inl (errTRs trs (''preflight failed: '' @ fd_Message f)), bag', w')
                   | None \<Rightarrow> (Inr (), bag', w')))))"

definition stage_provision ::
  "'w job_env \<Rightarrow> 'w \<Rightarrow> run_ctx \<Rightarrow> 'w tool_integration \<Rightarrow> test_requirement list \<Rightarrow> ('w, unit) job_step" where
  "stage_provision env start rc ti trs bag w =
     (case ti_Provisioner ti of
        None \<Rightarrow> (Inr (), bag, w)
      | Some provision \<Rightarrow>
         (case provision rc trs bag (je_SetStage env ''provision'' trs w) of
            (err, bag', w') \<Rightarrow> (stage_result trs ''provision'' (of_error err) (je_ctxErr env start w'), bag', w')))"

definition stage_run ::
  "'w job_env \<Rightarrow> 'w \<Rightarrow> run_ctx \<Rightarrow> 'w tool_integration \<Rightarrow> test_requirement list \<Rightarrow> ('w, run_handle) job_step" where
  "stage_run env start rc ti trs bag w =
     (case ti_Runner ti of
        None \<Rightarrow> (Inr [], bag, w)
      | Some run \<Rightarrow>
         (case run rc trs bag (je_SetStage env ''run'' trs w) of
            (r, bag', w') \<Rightarrow> (stage_result trs ''run'' r (je_ctxErr env start w'), bag', w')))"

definition record_refs :: "'w job_env \<Rightarrow> test_requirement list \<Rightarrow> log_bundle \<Rightarrow> 'w \<Rightarrow> 'w" where
  "record_refs env trs lb w =
     (case je_RecordArtifacts env of
        None \<Rightarrow> w
      | Some rec \<Rightarrow>
         (if lb_RefsByTR lb \<noteq> [] then
            fold (\<lambda>tr w. let refs = gm_list (lb_RefsByTR lb) (tr_ID tr) in if refs \<noteq> [] then rec [tr] refs w else w) trs w
          else rec trs (lb_Refs lb) w))"

definition stage_collect ::
  "'w job_env \<Rightarrow> 'w \<Rightarrow> run_ctx \<Rightarrow> 'w tool_integration \<Rightarrow> test_requirement list \<Rightarrow> run_handle \<Rightarrow> ('w, log_bundle) job_step" where
  "stage_collect env start rc ti trs handle bag w =
     (case ti_LogCollector ti of
        None \<Rightarrow> (Inr zero_log_bundle, bag, w)
      | Some collect \<Rightarrow>
         (case collect rc handle bag (je_SetStage env ''collect'' trs w) of
            (r, bag', w') \<Rightarrow>
              (case stage_result trs ''collect'' r (je_ctxErr env start w') of
                 Inl vs \<Rightarrow> (Inl vs, bag', w')
               | Inr lb \<Rightarrow> (Inr lb, bag', record_refs env trs lb w'))))"

definition stage_parse ::
  "'w job_env \<Rightarrow> 'w \<Rightarrow> run_ctx \<Rightarrow> 'w tool_integration \<Rightarrow> test_requirement list \<Rightarrow> log_bundle \<Rightarrow> ('w, test_result list) job_step" where
  "stage_parse env start rc ti trs logs bag w =
     (case ti_ResultParser ti of
        None \<Rightarrow> (Inr [], bag, w)
      | Some parse \<Rightarrow>
         (case parse rc logs bag (je_SetStage env ''parse'' trs w) of
            (r, bag', w') \<Rightarrow> (stage_result trs ''parse'' r (je_ctxErr env start w'), bag', w')))"

definition measurement_of :: "test_requirement \<Rightarrow> metric \<Rightarrow> measurement" where
  "measurement_of tr m = zero_measurement\<lparr>me_TR := tr_ID tr, me_Variant := tr_Variant tr, me_Name := m_Name m,
     me_Value := m_Value m, me_Unit := m_Unit m, me_Percentile := m_Percentile m\<rparr>"

definition grade_one ::
  "'w tool_integration \<Rightarrow> (string, test_result) gomap \<Rightarrow> test_requirement \<Rightarrow> verdict list \<times> measurement list" where
  "grade_one ti byID tr =
     (case gm_get byID (tr_ID tr) of
        None \<Rightarrow> (errTR tr ''no result produced for test requirement'', [])
      | Some r \<Rightarrow> (map (\<lambda>v. v\<lparr>v_Variant := tr_Variant tr\<rparr>) (GradeTR tr r (ti_Evaluators ti)),
                   map (measurement_of tr) (res_Metrics r)))"

definition grade_results ::
  "'w tool_integration \<Rightarrow> test_requirement list \<Rightarrow> test_result list \<Rightarrow> verdict list \<times> measurement list" where
  "grade_results ti trs results =
     (let byID = gm_index res_TRID results
      in (concat (map (\<lambda>tr. fst (grade_one ti byID tr)) trs), concat (map (\<lambda>tr. snd (grade_one ti byID tr)) trs)))"

definition run_stages ::
  "'w job_env \<Rightarrow> 'w \<Rightarrow> run_ctx \<Rightarrow> 'w tool_integration \<Rightarrow> test_requirement list \<Rightarrow> ('w, verdict list \<times> measurement list) job_step" where
  "run_stages env start rc ti trs =
     job_bind (stage_preflight env start rc ti trs) (\<lambda>_.
     job_bind (stage_provision env start rc ti trs) (\<lambda>_.
     job_bind (stage_run env start rc ti trs) (\<lambda>handle.
     job_bind (stage_collect env start rc ti trs handle) (\<lambda>logs.
     job_bind (stage_parse env start rc ti trs logs) (\<lambda>results.
     job_return (grade_results ti trs results))))))"

section \<open>One job\<close>

definition stamp_duration :: "f64 \<Rightarrow> verdict list \<Rightarrow> verdict list" where
  "stamp_duration d vs = map (\<lambda>v. v\<lparr>v_DurationS := d\<rparr>) vs"

definition early_result :: "verdict list + verdict list \<times> measurement list \<Rightarrow> verdict list \<times> measurement list" where
  "early_result r = (case r of Inl vs \<Rightarrow> (vs, []) | Inr x \<Rightarrow> x)"

definition deadline_override ::
  "'w job_env \<Rightarrow> 'w \<Rightarrow> string \<Rightarrow> test_requirement list \<Rightarrow> verdict list \<times> measurement list \<Rightarrow> 'w \<Rightarrow> verdict list \<times> measurement list" where
  "deadline_override env start limit trs res w =
     (if je_ctxErr env start w = Some DeadlineExceeded \<and> je_parentErr env w = None then
        (concat (map (\<lambda>tr. itemVerdicts tr OutcomeFail (''test exceeded '' @ limit @ '' limit'')) trs), [])
      else res)"

definition run_teardown ::
  "'w job_env \<Rightarrow> run_ctx \<Rightarrow> 'w tool_integration \<Rightarrow> test_requirement list \<Rightarrow> bag \<Rightarrow> 'w \<Rightarrow> 'w" where
  "run_teardown env rc ti trs bag w =
     (case ti_Teardown ti of
        None \<Rightarrow> w
      | Some teardown \<Rightarrow> (case teardown rc bag (je_SetStage env ''teardown'' trs w) of (err, bag', w') \<Rightarrow> w'))"

text \<open>\<open>limit\<close> is the printed timeout. A job always has at least one TR.\<close>

definition runJobWithTimeout ::
  "'w registry \<Rightarrow> 'w job_env \<Rightarrow> string \<Rightarrow> run_ctx \<Rightarrow> string \<Rightarrow> test_requirement list \<Rightarrow> 'w
   \<Rightarrow> (verdict list \<times> measurement list) \<times> 'w" where
  "runJobWithTimeout reg env limit rc tool trs start =
     (let ((vs, ms), w) =
        (case je_ctxErr env start start of
           Some e \<Rightarrow> ((errTRs trs (''cancelled: '' @ ctx_text e), []), start)
         | None \<Rightarrow>
            (case ResolveTool reg (hd trs) of
               None \<Rightarrow> ((errTRs trs (''tool '' @ go_quote tool @ '' not registered''), []), start)
             | Some ti \<Rightarrow>
                (case run_stages env start rc ti trs NewBag start of
                   (r, bag, w1) \<Rightarrow>
                     (deadline_override env start limit trs (early_result r) w1, run_teardown env rc ti trs bag w1))))
      in ((stamp_duration (je_since env start w) vs, ms), w))"

section \<open>All executions of a job\<close>

definition variant_workdir :: "string \<Rightarrow> test_requirement \<Rightarrow> string" where
  "variant_workdir workDir tr = path_join [workDir, ''variants'', hex_encode (tr_ID tr), hex_encode (tr_Variant tr)]"

text \<open>One execution with its progress events: \<open>complete\<close>, or \<open>abort\<close> when the run was cancelled.\<close>

definition settle :: "'w job_env \<Rightarrow> test_requirement \<Rightarrow> outcome \<Rightarrow> 'w \<Rightarrow> 'w" where
  "settle env tr oc w =
     (if je_parentErr env w \<noteq> None then je_progress env (OpAbort tr OutcomeError) w
      else je_progress env (OpComplete tr oc) w)"

definition execute_one ::
  "'w registry \<Rightarrow> 'w job_env \<Rightarrow> string \<Rightarrow> run_ctx \<Rightarrow> string \<Rightarrow> test_requirement \<Rightarrow> 'w \<Rightarrow> (verdict list \<times> measurement list) \<times> 'w" where
  "execute_one reg env limit rc tool tr w =
     (case runJobWithTimeout reg env limit rc tool [tr] (je_progress env (OpStart tr) w) of
        ((v, m), w1) \<Rightarrow> ((v, m), settle env tr (summarizeTR v tr) w1))"

definition execute_variant ::
  "'w registry \<Rightarrow> 'w job_env \<Rightarrow> string \<Rightarrow> run_ctx \<Rightarrow> string \<Rightarrow> test_requirement \<Rightarrow> 'w \<Rightarrow> (verdict list \<times> measurement list) \<times> 'w" where
  "execute_variant reg env limit rc tool tr w =
     (let dir = variant_workdir (rc_WorkDir rc) tr in
      case je_mkdir env dir w of
        (Some err, w1) \<Rightarrow> ((errTR tr (''variant workdir: '' @ err), []), settle env tr OutcomeError w1)
      | (None, w1) \<Rightarrow> execute_one reg env limit (rc\<lparr>rc_WorkDir := dir\<rparr>) tool tr w1)"

fun run_all ::
  "(test_requirement \<Rightarrow> 'w \<Rightarrow> (verdict list \<times> measurement list) \<times> 'w) \<Rightarrow> test_requirement list \<Rightarrow> 'w
   \<Rightarrow> (verdict list \<times> measurement list) \<times> 'w" where
  "run_all one [] w = (([], []), w)"
| "run_all one (tr # trs) w =
     (case one tr w of ((v, m), w1) \<Rightarrow> (case run_all one trs w1 of ((vs, ms), w2) \<Rightarrow> ((v @ vs, m @ ms), w2)))"

definition runToolExecutionsWithTimeout ::
  "'w registry \<Rightarrow> 'w job_env \<Rightarrow> string \<Rightarrow> run_ctx \<Rightarrow> job \<Rightarrow> 'w \<Rightarrow> (verdict list \<times> measurement list) \<times> 'w" where
  "runToolExecutionsWithTimeout reg env limit rc j w =
     (let ordinary = filter (\<lambda>tr. tr_Variant tr = []) (j_trs j);
          variants = filter (\<lambda>tr. tr_Variant tr \<noteq> []) (j_trs j)
      in case run_all (execute_one reg env limit rc (j_tool j)) ordinary w of
           ((vs, ms), w1) \<Rightarrow>
             (case run_all (execute_variant reg env limit rc (j_tool j)) variants w1 of
                ((vs2, ms2), w2) \<Rightarrow> ((vs @ vs2, ms @ ms2), w2)))"

definition runToolExecutions ::
  "'w registry \<Rightarrow> 'w job_env \<Rightarrow> run_ctx \<Rightarrow> job \<Rightarrow> 'w \<Rightarrow> (verdict list \<times> measurement list) \<times> 'w" where
  "runToolExecutions reg env rc j w = runToolExecutionsWithTimeout reg env ''2h0m0s'' rc j w"


section \<open>Variant working directories\<close>

definition variant_comps :: "test_requirement \<Rightarrow> string list" where
  "variant_comps tr = [''variants'', hex_encode (tr_ID tr), hex_encode (tr_Variant tr)]"

lemma variant_comps_plain:
  "tr_ID tr \<noteq> [] \<Longrightarrow> tr_Variant tr \<noteq> [] \<Longrightarrow> \<forall>c \<in> set (variant_comps tr). plain_comp c"
  by (auto simp: variant_comps_def hex_encode_plain) (simp add: plain_comp_def SLASH_def)

lemma variant_workdir_below:
  assumes "d \<noteq> []" and "tr_ID tr \<noteq> []" and "tr_Variant tr \<noteq> []"
  shows "variant_workdir d tr = path_of (path_is_abs d) (path_comps d @ variant_comps tr)"
proof -
  have "variant_workdir d tr = path_clean (d @ SLASH # join_with [SLASH] (variant_comps tr))"
    using assms(1) by (simp add: variant_workdir_def path_join_def variant_comps_def)
  then show ?thesis
    using path_clean_below[OF assms(1), of "variant_comps tr"] variant_comps_plain[OF assms(2,3)]
    by (simp add: variant_comps_def)
qed

text \<open>
  The working directory of a variant execution lies below the working directory of the run,
  whatever characters the TR id and the variant name contain, and two variant executions share
  it only when both the TR and the variant are the same.
\<close>

theorem variant_workdir_isolated:
  assumes "d \<noteq> []" and "tr_ID t1 \<noteq> []" and "tr_Variant t1 \<noteq> []" and "tr_ID t2 \<noteq> []" and "tr_Variant t2 \<noteq> []"
  shows "(\<exists>cs. variant_workdir d t1 = path_of (path_is_abs d) (path_comps d @ cs) \<and> ''..'' \<notin> set cs) \<and>
    (variant_workdir d t1 = variant_workdir d t2 \<longleftrightarrow> tr_ID t1 = tr_ID t2 \<and> tr_Variant t1 = tr_Variant t2)"
proof
  show "\<exists>cs. variant_workdir d t1 = path_of (path_is_abs d) (path_comps d @ cs) \<and> ''..'' \<notin> set cs"
    using variant_workdir_below[OF assms(1,2,3)] variant_comps_plain[OF assms(2,3)] by (metis plain_comp_def)
  show "variant_workdir d t1 = variant_workdir d t2 \<longleftrightarrow> tr_ID t1 = tr_ID t2 \<and> tr_Variant t1 = tr_Variant t2"
    unfolding variant_workdir_below[OF assms(1,2,3)] variant_workdir_below[OF assms(1,4,5)]
    using path_of_inject_below[of "variant_comps t1" "variant_comps t2"] variant_comps_plain[OF assms(2,3)]
      variant_comps_plain[OF assms(4,5)]
    by (simp add: variant_comps_def hex_encode_inject)
qed

theorem variant_workdir_isolated_witness:
  "variant_workdir ''/w'' (zero_test_requirement\<lparr>tr_ID := ''..'', tr_Variant := ''/''\<rparr>) \<noteq>
   variant_workdir ''/w'' (zero_test_requirement\<lparr>tr_ID := ''..'', tr_Variant := ''a/b''\<rparr>)"
  using variant_workdir_isolated[of "''/w''" "zero_test_requirement\<lparr>tr_ID := ''..'', tr_Variant := ''/''\<rparr>"
      "zero_test_requirement\<lparr>tr_ID := ''..'', tr_Variant := ''a/b''\<rparr>"] by simp


section \<open>Every item gets one verdict\<close>

definition builtin_only :: "'w tool_integration \<Rightarrow> test_requirement \<Rightarrow> bool" where
  "builtin_only ti tr \<longleftrightarrow> (\<forall>ev. gm_get (ti_Evaluators ti) (tr_ID tr) \<noteq> Some (Some ev))"

definition known_outcome :: "outcome \<Rightarrow> bool" where
  "known_outcome oc \<longleftrightarrow> oc \<in> {OutcomePass, OutcomeFail, OutcomeSkip, OutcomeError}"

lemma known_outcomes [simp]:
  "known_outcome OutcomePass" "known_outcome OutcomeFail" "known_outcome OutcomeSkip" "known_outcome OutcomeError"
  unfolding known_outcome_def insert_iff by simp_all

definition scored :: "test_requirement \<Rightarrow> verdict list \<Rightarrow> bool" where
  "scored tr vs \<longleftrightarrow> map v_Item vs = item_names tr \<and>
     (\<forall>v \<in> set vs. v_TR v = tr_ID tr \<and> v_Variant v = tr_Variant tr \<and>
        known_outcome (v_Outcome v))"

lemma item_names_slaItem: "item_names tr = map slaItem (tr_SLAs tr) @ map (\<lambda>c. ''check:'' @ ck_ID c) (tr_Checks tr)"
  by (simp add: item_names_def slaItem_def[abs_def] metricLabel_def)

lemma item_verdict_fields [simp]:
  "v_TR (item_verdict tr oc reason i) = tr_ID tr" "v_Variant (item_verdict tr oc reason i) = tr_Variant tr"
  "v_Item (item_verdict tr oc reason i) = i" "v_Outcome (item_verdict tr oc reason i) = oc"
  "v_Reason (item_verdict tr oc reason i) = reason"
  by (simp_all add: item_verdict_def)

lemma itemVerdicts_items: "item_names tr \<noteq> [] \<Longrightarrow> itemVerdicts tr oc reason = map (item_verdict tr oc reason) (item_names tr)"
  by (simp add: itemVerdicts_def)

lemma scored_items:
  assumes "item_names tr \<noteq> []" and "known_outcome oc"
  shows "scored tr (itemVerdicts tr oc reason)"
  using assms(2) by (simp add: scored_def itemVerdicts_items[OF assms(1)] comp_def)

lemma errTRs_single: "errTRs [tr] reason = errTR tr reason"
  by (simp add: errTRs_def)

lemma scored_errTR: "item_names tr \<noteq> [] \<Longrightarrow> scored tr (errTR tr reason)"
  unfolding errTR_def by (rule scored_items) simp_all

lemma scored_stamp: "scored tr (stamp_duration d vs) = scored tr vs"
  by (auto simp: scored_def stamp_duration_def comp_def)

lemma scored_graded:
  assumes "builtin_only ti tr"
  shows "scored tr (map (\<lambda>v. v\<lparr>v_Variant := tr_Variant tr\<rparr>) (GradeTR tr r (ti_Evaluators ti)))"
proof -
  have g: "GradeTR tr r (ti_Evaluators ti) = gradeSLAs tr r @ gradeChecks tr r"
    using assms by (auto simp: GradeTR_def builtin_only_def split: option.splits)
  have "known_outcome (v_Outcome (gradeSLA tr r d))" for d
    using gradeSLA_outcome[of tr r d] unfolding known_outcome_def .
  moreover have "known_outcome (v_Outcome (gradeCheck tr r c))" for c
    using gradeCheck_outcome[of tr r c] unfolding known_outcome_def .
  ultimately have "\<forall>v \<in> set (gradeSLAs tr r @ gradeChecks tr r). v_TR v = tr_ID tr \<and> known_outcome (v_Outcome v)"
    by (auto simp: gradeSLAs_def gradeChecks_def)
  moreover have "map v_Item (gradeSLAs tr r @ gradeChecks tr r) = item_names tr"
    by (simp add: item_names_slaItem gradeSLAs_def gradeChecks_def comp_def)
  ultimately show ?thesis unfolding g scored_def map_map comp_def by auto
qed

lemma scored_grade_one:
  "item_names tr \<noteq> [] \<Longrightarrow> builtin_only ti tr \<Longrightarrow> scored tr (fst (grade_one ti byID tr))"
  by (auto simp: grade_one_def scored_errTR scored_graded split: option.split)

text \<open>The stage steps end early only with error verdicts of the job's TRs.\<close>

definition ends_in_errors :: "test_requirement list \<Rightarrow> ('w, 'a) job_step \<Rightarrow> bool" where
  "ends_in_errors trs m \<longleftrightarrow> (\<forall>bag w vs. fst (m bag w) = Inl vs \<longrightarrow> (\<exists>reason. vs = errTRs trs reason))"

lemma stage_result_error: "stage_result trs name r ce = Inl vs \<Longrightarrow> \<exists>reason. vs = errTRs trs reason"
  by (auto simp: stage_result_def split: sum.splits option.splits)

lemma ends_in_errors_bind:
  assumes "ends_in_errors trs m" and "\<And>x. ends_in_errors trs (f x)"
  shows "ends_in_errors trs (job_bind m f)"
  using assms unfolding ends_in_errors_def job_bind_def by (auto split: prod.splits sum.splits) (metis fst_conv)+

lemma ends_in_errors_stages:
  "ends_in_errors trs (stage_preflight env start rc ti trs)"
  "ends_in_errors trs (stage_provision env start rc ti trs)"
  "ends_in_errors trs (stage_run env start rc ti trs)"
  "ends_in_errors trs (stage_collect env start rc ti trs handle)"
  "ends_in_errors trs (stage_parse env start rc ti trs logs)"
  "ends_in_errors trs (job_return x)"
  unfolding ends_in_errors_def
  by (auto simp: stage_preflight_def stage_provision_def stage_run_def stage_collect_def stage_parse_def job_return_def
      dest!: stage_result_error split: option.splits prod.splits sum.splits)

lemma run_stages_errors: "ends_in_errors trs (run_stages env start rc ti trs)"
  unfolding run_stages_def by (intro ends_in_errors_bind ends_in_errors_stages)

lemma run_stages_done:
  "fst (run_stages env start rc ti trs bag w) = Inr x \<Longrightarrow> \<exists>results. x = grade_results ti trs results"
  unfolding run_stages_def job_bind_def job_return_def by (auto split: prod.splits sum.splits)

text \<open>
  How the verdicts of an execution come about, up to the recorded duration: all its items get the
  same error or failure, or a result of the requirement is graded with the evaluators of its tool.
\<close>

abbreviation undated :: "verdict list \<Rightarrow> verdict list" where
  "undated \<equiv> stamp_duration (f64_of_int 0)"

definition accounted_by :: "'w registry \<Rightarrow> test_requirement \<Rightarrow> verdict list \<Rightarrow> bool" where
  "accounted_by reg tr vs \<longleftrightarrow>
     (\<exists>oc reason. (oc = OutcomeError \<or> oc = OutcomeFail) \<and> undated vs = undated (itemVerdicts tr oc reason)) \<or>
     (\<exists>ti res. ResolveTool reg tr = Some ti \<and> res_TRID res = tr_ID tr \<and>
        undated vs = undated (map (\<lambda>v. v\<lparr>v_Variant := tr_Variant tr\<rparr>) (GradeTR tr res (ti_Evaluators ti))))"

lemma stamp_twice [simp]: "stamp_duration d (stamp_duration e vs) = stamp_duration d vs"
  by (simp add: stamp_duration_def)

lemma accounted_items: "oc = OutcomeError \<or> oc = OutcomeFail \<Longrightarrow> accounted_by reg tr (itemVerdicts tr oc reason)"
  unfolding accounted_by_def by blast

lemma accounted_errTR: "accounted_by reg tr (errTR tr reason)"
  unfolding errTR_def by (rule accounted_items) simp

lemma accounted_stamp: "accounted_by reg tr (stamp_duration d vs) = accounted_by reg tr vs"
  by (simp add: accounted_by_def)

lemma accounted_grade_one:
  assumes "ResolveTool reg tr = Some ti"
  shows "accounted_by reg tr (fst (grade_one ti (gm_index res_TRID results) tr))"
proof (cases "gm_get (gm_index res_TRID results) (tr_ID tr)")
  case None
  then show ?thesis by (simp add: grade_one_def accounted_errTR)
next
  case (Some r)
  then have "res_TRID r = tr_ID tr" unfolding gm_get_index using latest_Some by metis
  with assms Some show ?thesis unfolding accounted_by_def grade_one_def by auto
qed

lemma accounted_scored:
  assumes "accounted_by reg tr vs" and "item_names tr \<noteq> []" and "\<And>ti. ResolveTool reg tr = Some ti \<Longrightarrow> builtin_only ti tr"
  shows "scored tr vs"
proof -
  obtain us where us: "undated vs = undated us" and "scored tr us"
    using assms(1) scored_items[OF assms(2), of OutcomeError] scored_items[OF assms(2), of OutcomeFail] scored_graded[OF assms(3)]
    unfolding accounted_by_def by (metis known_outcomes(2,4))
  then show ?thesis using scored_stamp by metis
qed

lemma accounted_early:
  assumes "ResolveTool reg tr = Some ti"
  shows "accounted_by reg tr (fst (early_result (fst (run_stages env start rc ti [tr] bag w))))"
proof (cases "fst (run_stages env start rc ti [tr] bag w)")
  case (Inl vs)
  with run_stages_errors[of "[tr]" env start rc ti] obtain reason where "vs = errTRs [tr] reason"
    unfolding ends_in_errors_def by blast
  with Inl show ?thesis by (simp add: early_result_def errTRs_single accounted_errTR)
next
  case (Inr x)
  with run_stages_done[OF Inr] obtain results where "x = grade_results ti [tr] results" by blast
  with Inr assms show ?thesis by (simp add: early_result_def grade_results_def Let_def accounted_grade_one)
qed

lemma accounted_job: "accounted_by reg tr (fst (fst (runJobWithTimeout reg env limit rc tool [tr] w)))"
proof (cases "je_ctxErr env w w = None \<and> ResolveTool reg tr \<noteq> None")
  case False
  then show ?thesis
    by (auto simp: runJobWithTimeout_def Let_def errTRs_single accounted_stamp accounted_errTR split: option.splits)
next
  case True
  then obtain ti where ti: "ResolveTool reg tr = Some ti" by blast
  obtain r bag w1 where r: "run_stages env w rc ti [tr] NewBag w = (r, bag, w1)" by (metis prod.collapse)
  have "accounted_by reg tr (fst (early_result r))" using accounted_early[OF ti, of env w rc NewBag w] r by simp
  then have "accounted_by reg tr (fst (deadline_override env w limit [tr] (early_result r) w1))"
    by (simp add: deadline_override_def accounted_items)
  with True ti r show ?thesis by (simp add: runJobWithTimeout_def Let_def accounted_stamp split_beta)
qed

lemma accounted_variant:
  "accounted_by reg tr (fst (fst (execute_one reg env limit rc tool tr w)))"
  "accounted_by reg tr (fst (fst (execute_variant reg env limit rc tool tr w)))"
proof -
  show e: "accounted_by reg tr (fst (fst (execute_one reg env limit rc tool tr w)))" for rc w
    using accounted_job[where reg = reg and env = env and limit = limit and rc = rc and tool = tool and tr = tr and w = "je_progress env (OpStart tr) w"]
    by (auto simp: execute_one_def split: prod.splits)
  show "accounted_by reg tr (fst (fst (execute_variant reg env limit rc tool tr w)))"
    using e accounted_errTR[of reg tr] by (auto simp: execute_variant_def Let_def split: prod.splits option.splits)
qed

text \<open>The verdicts of a list of executions, one block per execution.\<close>

lemma run_all_blocks:
  assumes "\<And>tr w. P tr (fst (fst (one tr w)))"
  shows "\<exists>blocks. fst (fst (run_all one trs w)) = concat blocks \<and> list_all2 P trs blocks"
proof (induction trs arbitrary: w)
  case Nil
  show ?case by (rule exI[of _ "[]"]) simp
next
  case (Cons tr trs)
  obtain v m w1 where o: "one tr w = ((v, m), w1)" by (metis prod.collapse)
  obtain vs ms w2 where r: "run_all one trs w1 = ((vs, ms), w2)" by (metis prod.collapse)
  from Cons.IH[of w1] r obtain bs where bs: "vs = concat bs" "list_all2 P trs bs" by (metis fst_conv)
  have "P tr v" using assms[of tr w] o by simp
  with bs o r have "fst (fst (run_all one (tr # trs) w)) = concat (v # bs) \<and> list_all2 P (tr # trs) (v # bs)"
    by simp
  then show ?case by blast
qed

lemma scored_keys:
  assumes "scored tr vs"
  shows "map (\<lambda>v. (v_TR v, v_Variant v, v_Item v)) vs = map (\<lambda>i. (tr_ID tr, tr_Variant tr, i)) (item_names tr)"
proof -
  have "map (\<lambda>v. (v_TR v, v_Variant v, v_Item v)) vs = map (\<lambda>v. (tr_ID tr, tr_Variant tr, v_Item v)) vs"
    using assms by (simp add: scored_def)
  also have "\<dots> = map (\<lambda>i. (tr_ID tr, tr_Variant tr, i)) (map v_Item vs)" by simp
  also have "map v_Item vs = item_names tr" using assms by (simp add: scored_def)
  finally show ?thesis .
qed

definition job_order :: "job \<Rightarrow> test_requirement list" where
  "job_order j = filter (\<lambda>tr. tr_Variant tr = []) (j_trs j) @ filter (\<lambda>tr. tr_Variant tr \<noteq> []) (j_trs j)"

lemma job_blocks:
  "\<exists>blocks. fst (fst (runToolExecutionsWithTimeout reg env limit rc j w)) = concat blocks \<and>
     list_all2 (accounted_by reg) (job_order j) blocks"
proof -
  let ?o = "filter (\<lambda>tr. tr_Variant tr = []) (j_trs j)" and ?v = "filter (\<lambda>tr. tr_Variant tr \<noteq> []) (j_trs j)"
  obtain vs ms w1 where r1: "run_all (execute_one reg env limit rc (j_tool j)) ?o w = ((vs, ms), w1)" by (metis prod.collapse)
  obtain vs2 ms2 w2 where r2: "run_all (execute_variant reg env limit rc (j_tool j)) ?v w1 = ((vs2, ms2), w2)" by (metis prod.collapse)
  have res: "fst (fst (runToolExecutionsWithTimeout reg env limit rc j w)) = vs @ vs2"
    using r1 r2 by (simp add: runToolExecutionsWithTimeout_def Let_def)
  obtain b1 where b1: "vs = concat b1" "list_all2 (accounted_by reg) ?o b1"
    using run_all_blocks[where P = "accounted_by reg" and one = "execute_one reg env limit rc (j_tool j)", OF accounted_variant(1), of ?o w] r1 by auto
  obtain b2 where b2: "vs2 = concat b2" "list_all2 (accounted_by reg) ?v b2"
    using run_all_blocks[where P = "accounted_by reg" and one = "execute_variant reg env limit rc (j_tool j)", OF accounted_variant(2), of ?v w1] r2 by auto
  have "list_all2 (accounted_by reg) (job_order j) (b1 @ b2)"
    unfolding job_order_def using b1(2) b2(2) by (rule list_all2_appendI)
  moreover have "vs @ vs2 = concat (b1 @ b2)" using b1(1) b2(1) by simp
  ultimately show ?thesis unfolding res by blast
qed

text \<open>
  C7: whatever the stages of a tool do (fail, find problems, run into the deadline or into a
  cancellation, produce no result for a requirement), the verdicts of a job are one block per
  execution, executions without a variant first. A block gives every item of the execution the same
  error or failure, or it is the grading of a result of this requirement by the evaluators of the
  tool, labelled with the variant of the execution. When the requirement has items and its tool no
  evaluator of its own for it, the block holds exactly one verdict for every SLA and check, each
  with one of the four outcomes; what a tool's own evaluator returns is kept as it is.
\<close>

theorem job_accounts_for_executions:
  "\<exists>blocks. fst (fst (runToolExecutionsWithTimeout reg env limit rc j w)) = concat blocks \<and>
     list_all2 (\<lambda>tr vs. accounted_by reg tr vs \<and>
       (item_names tr \<noteq> [] \<and> (\<forall>ti. ResolveTool reg tr = Some ti \<longrightarrow> builtin_only ti tr) \<longrightarrow>
          map (\<lambda>v. (v_TR v, v_Variant v, v_Item v)) vs = map (\<lambda>i. (tr_ID tr, tr_Variant tr, i)) (item_names tr) \<and>
          (\<forall>v \<in> set vs. known_outcome (v_Outcome v)))) (job_order j) blocks"
proof -
  obtain blocks where b: "fst (fst (runToolExecutionsWithTimeout reg env limit rc j w)) = concat blocks"
      "list_all2 (accounted_by reg) (job_order j) blocks" using job_blocks[of reg env limit rc j w] by blast
  have "list_all2 (\<lambda>tr vs. accounted_by reg tr vs \<and>
       (item_names tr \<noteq> [] \<and> (\<forall>ti. ResolveTool reg tr = Some ti \<longrightarrow> builtin_only ti tr) \<longrightarrow>
          map (\<lambda>v. (v_TR v, v_Variant v, v_Item v)) vs = map (\<lambda>i. (tr_ID tr, tr_Variant tr, i)) (item_names tr) \<and>
          (\<forall>v \<in> set vs. known_outcome (v_Outcome v)))) (job_order j) blocks"
  proof (rule list_all2_mono[OF b(2)], intro conjI impI)
    fix tr vs
    assume a: "accounted_by reg tr vs"
    then show "accounted_by reg tr vs" .
    assume "item_names tr \<noteq> [] \<and> (\<forall>ti. ResolveTool reg tr = Some ti \<longrightarrow> builtin_only ti tr)"
    then have s: "scored tr vs" using accounted_scored[OF a] by blast
    from scored_keys[OF s] show "map (\<lambda>v. (v_TR v, v_Variant v, v_Item v)) vs = map (\<lambda>i. (tr_ID tr, tr_Variant tr, i)) (item_names tr)" .
    from s show "\<forall>v \<in> set vs. known_outcome (v_Outcome v)" by (simp add: scored_def)
  qed
  with b(1) show ?thesis by blast
qed

text \<open>The stages of an integration, and a projection of the world that sees only the stage announcements.\<close>

definition stage_names :: "'w tool_integration \<Rightarrow> string list" where
  "stage_names ti = (if ti_Preflight ti = None then [] else [''preflight'']) @ (if ti_Provisioner ti = None then [] else [''provision''])
     @ (if ti_Runner ti = None then [] else [''run'']) @ (if ti_LogCollector ti = None then [] else [''collect''])
     @ (if ti_ResultParser ti = None then [] else [''parse''])"

definition announced :: "('w \<Rightarrow> string list) \<Rightarrow> 'w job_env \<Rightarrow> run_ctx \<Rightarrow> 'w tool_integration \<Rightarrow> bool" where
  "announced ann env rc ti \<longleftrightarrow>
     (\<forall>s trs w. ann (je_SetStage env s trs w) = ann w @ [s]) \<and>
     (\<forall>f. je_RecordArtifacts env = Some f \<longrightarrow> (\<forall>trs refs w. ann (f trs refs w) = ann w)) \<and>
     (\<forall>f. ti_Preflight ti = Some f \<longrightarrow> (\<forall>trs bag w. ann (snd (snd (f rc trs bag w))) = ann w)) \<and>
     (\<forall>f. ti_Provisioner ti = Some f \<longrightarrow> (\<forall>trs bag w. ann (snd (snd (f rc trs bag w))) = ann w)) \<and>
     (\<forall>f. ti_Runner ti = Some f \<longrightarrow> (\<forall>trs bag w. ann (snd (snd (f rc trs bag w))) = ann w)) \<and>
     (\<forall>f. ti_LogCollector ti = Some f \<longrightarrow> (\<forall>h bag w. ann (snd (snd (f rc h bag w))) = ann w)) \<and>
     (\<forall>f. ti_ResultParser ti = Some f \<longrightarrow> (\<forall>l bag w. ann (snd (snd (f rc l bag w))) = ann w)) \<and>
     (\<forall>f. ti_Teardown ti = Some f \<longrightarrow> (\<forall>bag w. ann (snd (snd (f rc bag w))) = ann w))"

text \<open>
  What the pipeline is meant to do, stated over the calls alone: the data that one stage leaves for
  the next, the call of a single stage with its announcement, and the points that are reached, each
  through calls that returned no error under a live context.
\<close>

datatype stage_data = NoData | HandleData run_handle | LogData log_bundle | ResultData "test_result list"

definition handle_of :: "stage_data \<Rightarrow> run_handle" where
  "handle_of d = (case d of HandleData h \<Rightarrow> h | _ \<Rightarrow> [])"

definition logs_of :: "stage_data \<Rightarrow> log_bundle" where
  "logs_of d = (case d of LogData l \<Rightarrow> l | _ \<Rightarrow> zero_log_bundle)"

definition results_of :: "stage_data \<Rightarrow> test_result list" where
  "results_of d = (case d of ResultData rs \<Rightarrow> rs | _ \<Rightarrow> [])"

lemma data_of_simps [simp]:
  "handle_of NoData = []" "handle_of (HandleData h) = h"
  "logs_of NoData = zero_log_bundle" "logs_of (HandleData h) = zero_log_bundle" "logs_of (LogData l) = l"
  "results_of NoData = []" "results_of (HandleData h) = []" "results_of (LogData l) = []" "results_of (ResultData rs) = rs"
  by (simp_all add: handle_of_def logs_of_def results_of_def)

definition stage_error :: "'a \<Rightarrow> string option \<Rightarrow> string + 'a" where
  "stage_error x e = (case e of None \<Rightarrow> Inr x | Some m \<Rightarrow> Inl m)"

text \<open>A finding at the level error counts as an error of the preflight stage.\<close>

definition call_stage ::
  "'w job_env \<Rightarrow> run_ctx \<Rightarrow> 'w tool_integration \<Rightarrow> test_requirement list \<Rightarrow> string \<Rightarrow> stage_data \<Rightarrow> bag \<Rightarrow> 'w
   \<Rightarrow> (string + stage_data) \<times> bag \<times> 'w" where
  "call_stage env rc ti trs name d bag w =
     (let w = je_SetStage env name trs w in
      if name = ''preflight'' then
        (case the (ti_Preflight ti) rc trs bag w of ((findings, err), bag', w') \<Rightarrow>
           (if err = None \<and> (\<exists>f \<in> set findings. fd_Level f = ''error'') then Inl ''preflight failed'' else stage_error NoData err, bag', w'))
      else if name = ''provision'' then
        (case the (ti_Provisioner ti) rc trs bag w of (err, bag', w') \<Rightarrow> (stage_error NoData err, bag', w'))
      else if name = ''run'' then
        (case the (ti_Runner ti) rc trs bag w of (r, bag', w') \<Rightarrow> (map_sum id HandleData r, bag', w'))
      else if name = ''collect'' then
        (case the (ti_LogCollector ti) rc (handle_of d) bag w of (r, bag', w') \<Rightarrow> (map_sum id LogData r, bag', w'))
      else
        (case the (ti_ResultParser ti) rc (logs_of d) bag w of (r, bag', w') \<Rightarrow> (map_sum id ResultData r, bag', w')))"

text \<open>The artifacts of a log collection are recorded before the next stage.\<close>

definition after_stage :: "'w job_env \<Rightarrow> test_requirement list \<Rightarrow> stage_data \<Rightarrow> 'w \<Rightarrow> 'w" where
  "after_stage env trs d w = (case d of LogData lb \<Rightarrow> record_refs env trs lb w | _ \<Rightarrow> w)"

definition call_ok :: "'w job_env \<Rightarrow> 'w \<Rightarrow> (string + stage_data) \<times> bag \<times> 'w \<Rightarrow> bool" where
  "call_ok env start r \<longleftrightarrow> \<not> isl (fst r) \<and> je_ctxErr env start (snd (snd r)) = None"

inductive reached ::
  "'w job_env \<Rightarrow> 'w \<Rightarrow> run_ctx \<Rightarrow> 'w tool_integration \<Rightarrow> test_requirement list \<Rightarrow> nat \<Rightarrow> stage_data \<Rightarrow> bag \<Rightarrow> 'w \<Rightarrow> bool"
  for env start rc ti trs where
  reached_start: "reached env start rc ti trs 0 NoData NewBag start"
| reached_next: "reached env start rc ti trs k d bag w \<Longrightarrow> k < length (stage_names ti) \<Longrightarrow>
    call_stage env rc ti trs (stage_names ti ! k) d bag w = (Inr d', bag', w') \<Longrightarrow> je_ctxErr env start w' = None \<Longrightarrow>
    reached env start rc ti trs (Suc k) d' bag' (after_stage env trs d' w')"

text \<open>The first failing call, and the judgement on the steps of the pipeline from stage \<open>k\<close> over \<open>n\<close> stages.\<close>

definition stopped :: "'w job_env \<Rightarrow> 'w \<Rightarrow> run_ctx \<Rightarrow> 'w tool_integration \<Rightarrow> test_requirement list \<Rightarrow> 'w \<Rightarrow> bool" where
  "stopped env start rc ti trs w' \<longleftrightarrow> (\<exists>k d bag w. reached env start rc ti trs k d bag w \<and> k < length (stage_names ti) \<and>
     \<not> call_ok env start (call_stage env rc ti trs (stage_names ti ! k) d bag w) \<and>
     snd (snd (call_stage env rc ti trs (stage_names ti ! k) d bag w)) = w')"

definition steps ::
  "'w job_env \<Rightarrow> 'w \<Rightarrow> run_ctx \<Rightarrow> 'w tool_integration \<Rightarrow> test_requirement list \<Rightarrow> nat \<Rightarrow> nat \<Rightarrow>
   (stage_data \<Rightarrow> bool) \<Rightarrow> (stage_data \<Rightarrow> 'a \<Rightarrow> bool) \<Rightarrow> ('w, 'a) job_step \<Rightarrow> bool" where
  "steps env start rc ti trs k n P Q m \<longleftrightarrow> (\<forall>d bag w. reached env start rc ti trs k d bag w \<longrightarrow> P d \<longrightarrow>
     (case m bag w of
        (Inl vs, bag', w') \<Rightarrow> stopped env start rc ti trs w'
      | (Inr x, bag', w') \<Rightarrow> \<exists>d'. reached env start rc ti trs (k + n) d' bag' w' \<and> Q d' x))"

lemma steps_bind:
  assumes "steps env start rc ti trs k n P Q m" and "\<And>x. steps env start rc ti trs (k + n) n' (\<lambda>d. Q d x) Q' (f x)"
  shows "steps env start rc ti trs k (n + n') P Q' (job_bind m f)"
  unfolding steps_def
proof (intro allI impI)
  fix d bag w
  assume r: "reached env start rc ti trs k d bag w" and p: "P d"
  obtain x bag1 w1 where m: "m bag w = (x, bag1, w1)" by (metis prod.collapse)
  note a = assms(1)[unfolded steps_def, rule_format, OF r p, unfolded m]
  show "case job_bind m f bag w of (Inl vs, bag', w') \<Rightarrow> stopped env start rc ti trs w'
      | (Inr y, bag', w') \<Rightarrow> \<exists>d'. reached env start rc ti trs (k + (n + n')) d' bag' w' \<and> Q' d' y"
  proof (cases x)
    case (Inl vs)
    with a m show ?thesis by (simp add: job_bind_def)
  next
    case (Inr y)
    with a obtain d' where "reached env start rc ti trs (k + n) d' bag1 w1" "Q d' y" by auto
    from assms(2)[unfolded steps_def add.assoc, rule_format, OF this] show ?thesis using Inr m by (simp add: job_bind_def)
  qed
qed

lemma steps_skip:
  assumes "\<And>bag w. m bag w = (Inr x, bag, w)" and "\<And>d. P d \<Longrightarrow> Q d x"
  shows "steps env start rc ti trs k 0 P Q m"
  using assms unfolding steps_def by auto

lemma steps_call:
  assumes "k < length (stage_names ti)"
    and "\<And>d bag w vs bag' w'. P d \<Longrightarrow> m bag w = (Inl vs, bag', w') \<Longrightarrow>
       \<not> call_ok env start (call_stage env rc ti trs (stage_names ti ! k) d bag w) \<and>
       snd (snd (call_stage env rc ti trs (stage_names ti ! k) d bag w)) = w'"
    and "\<And>d bag w x bag' w'. P d \<Longrightarrow> m bag w = (Inr x, bag', w') \<Longrightarrow>
       \<exists>d' w1. call_stage env rc ti trs (stage_names ti ! k) d bag w = (Inr d', bag', w1) \<and> je_ctxErr env start w1 = None \<and>
         w' = after_stage env trs d' w1 \<and> Q d' x"
  shows "steps env start rc ti trs k 1 P Q m"
  unfolding steps_def
proof (intro allI impI)
  fix d bag w
  assume r: "reached env start rc ti trs k d bag w" and p: "P d"
  obtain x bag1 w1 where m: "m bag w = (x, bag1, w1)" by (metis prod.collapse)
  show "case m bag w of (Inl vs, bag', w') \<Rightarrow> stopped env start rc ti trs w'
      | (Inr y, bag', w') \<Rightarrow> \<exists>d'. reached env start rc ti trs (k + 1) d' bag' w' \<and> Q d' y"
  proof (cases x)
    case (Inl vs)
    with assms(2)[OF p, of bag w vs bag1 w1] m r assms(1) show ?thesis unfolding stopped_def by auto
  next
    case (Inr y)
    with assms(3)[OF p, of bag w y bag1 w1] m reached_next[OF r assms(1)] show ?thesis by auto
  qed
qed

lemma stage_result_Inl: "stage_result trs name r ce = Inl vs \<Longrightarrow> (\<exists>e. r = Inl e) \<or> ce \<noteq> None"
  and stage_result_Inr: "stage_result trs name r ce = Inr x \<longleftrightarrow> r = Inr x \<and> ce = None"
  by (auto simp: stage_result_def split: sum.splits option.splits)

lemma of_error_simps: "of_error e = Inl m \<longleftrightarrow> e = Some m" "of_error e = Inr u \<longleftrightarrow> e = None"
  by (auto simp: of_error_def split: option.split)

abbreviation present :: "'a option \<Rightarrow> nat" where
  "present x \<equiv> (if x = None then 0 else 1)"

lemma stage_nth:
  "ti_Preflight ti \<noteq> None \<Longrightarrow> 0 < length (stage_names ti) \<and> stage_names ti ! 0 = ''preflight''"
  "ti_Provisioner ti \<noteq> None \<Longrightarrow> present (ti_Preflight ti) < length (stage_names ti) \<and> stage_names ti ! present (ti_Preflight ti) = ''provision''"
  "ti_Runner ti \<noteq> None \<Longrightarrow> present (ti_Preflight ti) + present (ti_Provisioner ti) < length (stage_names ti) \<and>
     stage_names ti ! (present (ti_Preflight ti) + present (ti_Provisioner ti)) = ''run''"
  "ti_LogCollector ti \<noteq> None \<Longrightarrow> present (ti_Preflight ti) + present (ti_Provisioner ti) + present (ti_Runner ti) < length (stage_names ti) \<and>
     stage_names ti ! (present (ti_Preflight ti) + present (ti_Provisioner ti) + present (ti_Runner ti)) = ''collect''"
  "ti_ResultParser ti \<noteq> None \<Longrightarrow>
     present (ti_Preflight ti) + present (ti_Provisioner ti) + present (ti_Runner ti) + present (ti_LogCollector ti) < length (stage_names ti) \<and>
     stage_names ti ! (present (ti_Preflight ti) + present (ti_Provisioner ti) + present (ti_Runner ti) + present (ti_LogCollector ti)) = ''parse''"
  by (cases "ti_Preflight ti"; cases "ti_Provisioner ti"; cases "ti_Runner ti"; cases "ti_LogCollector ti"; simp add: stage_names_def)+

lemma stage_names_length:
  "length (stage_names ti) = present (ti_Preflight ti) + (present (ti_Provisioner ti) + (present (ti_Runner ti) + (present (ti_LogCollector ti) + present (ti_ResultParser ti))))"
  unfolding stage_names_def by simp

definition ran :: "stage_data \<Rightarrow> run_handle \<Rightarrow> bool" where
  "ran d h \<longleftrightarrow> handle_of d = h \<and> logs_of d = zero_log_bundle \<and> results_of d = []"

definition gathered :: "stage_data \<Rightarrow> log_bundle \<Rightarrow> bool" where
  "gathered d l \<longleftrightarrow> logs_of d = l \<and> results_of d = []"

lemma steps_preflight:
  "steps env start rc ti trs 0 (present (ti_Preflight ti)) (\<lambda>d. d = NoData) (\<lambda>d _. d = NoData) (stage_preflight env start rc ti trs)"
proof (cases "ti_Preflight ti")
  case None
  then have "steps env start rc ti trs 0 0 (\<lambda>d. d = NoData) (\<lambda>d _. d = NoData) (stage_preflight env start rc ti trs)"
    by (intro steps_skip) (simp_all add: stage_preflight_def)
  with None show ?thesis by simp
next
  case (Some f)
  note n = stage_nth(1)[of ti]
  have "steps env start rc ti trs 0 1 (\<lambda>d. d = NoData) (\<lambda>d _. d = NoData) (stage_preflight env start rc ti trs)"
    using n Some
    by (intro steps_call)
      (auto simp: stage_preflight_def call_stage_def call_ok_def stage_error_def after_stage_def of_error_simps stage_result_Inr find_None_iff find_Some_iff
        dest!: stage_result_Inl split: prod.splits sum.splits option.splits if_splits)
  with Some show ?thesis by simp
qed

lemma steps_provision:
  "steps env start rc ti trs (present (ti_Preflight ti)) (present (ti_Provisioner ti)) (\<lambda>d. d = NoData) (\<lambda>d _. d = NoData) (stage_provision env start rc ti trs)"
proof (cases "ti_Provisioner ti")
  case None
  then have "steps env start rc ti trs (present (ti_Preflight ti)) 0 (\<lambda>d. d = NoData) (\<lambda>d _. d = NoData) (stage_provision env start rc ti trs)"
    by (intro steps_skip) (simp_all add: stage_provision_def)
  with None show ?thesis by simp
next
  case (Some f)
  note n = stage_nth(2)[of ti]
  have "steps env start rc ti trs (present (ti_Preflight ti)) 1 (\<lambda>d. d = NoData) (\<lambda>d _. d = NoData) (stage_provision env start rc ti trs)"
    using n Some
    by (intro steps_call)
      (auto simp: stage_provision_def call_stage_def call_ok_def stage_error_def after_stage_def of_error_simps stage_result_Inr
        dest!: stage_result_Inl split: prod.splits option.splits)
  with Some show ?thesis by simp
qed

lemma steps_run:
  "steps env start rc ti trs (present (ti_Preflight ti) + present (ti_Provisioner ti)) (present (ti_Runner ti)) (\<lambda>d. d = NoData) ran (stage_run env start rc ti trs)"
proof (cases "ti_Runner ti")
  case None
  then have "steps env start rc ti trs (present (ti_Preflight ti) + present (ti_Provisioner ti)) 0 (\<lambda>d. d = NoData) ran (stage_run env start rc ti trs)"
    by (intro steps_skip) (simp_all add: stage_run_def ran_def)
  with None show ?thesis by simp
next
  case (Some f)
  note n = stage_nth(3)[of ti]
  have "steps env start rc ti trs (present (ti_Preflight ti) + present (ti_Provisioner ti)) 1 (\<lambda>d. d = NoData) ran (stage_run env start rc ti trs)"
    using n Some
    by (intro steps_call)
      (auto simp: stage_run_def call_stage_def call_ok_def after_stage_def stage_result_Inr ran_def
        dest!: stage_result_Inl split: prod.splits)
  with Some show ?thesis by simp
qed

lemma steps_collect:
  "steps env start rc ti trs (present (ti_Preflight ti) + present (ti_Provisioner ti) + present (ti_Runner ti)) (present (ti_LogCollector ti))
     (\<lambda>d. ran d h) gathered (stage_collect env start rc ti trs h)"
proof (cases "ti_LogCollector ti")
  case None
  then have "steps env start rc ti trs (present (ti_Preflight ti) + present (ti_Provisioner ti) + present (ti_Runner ti)) 0
     (\<lambda>d. ran d h) gathered (stage_collect env start rc ti trs h)"
    by (intro steps_skip) (simp_all add: stage_collect_def ran_def gathered_def)
  with None show ?thesis by simp
next
  case (Some f)
  note n = stage_nth(4)[of ti]
  have "steps env start rc ti trs (present (ti_Preflight ti) + present (ti_Provisioner ti) + present (ti_Runner ti)) 1
     (\<lambda>d. ran d h) gathered (stage_collect env start rc ti trs h)"
    using n Some
    by (intro steps_call)
      (auto simp: stage_collect_def call_stage_def call_ok_def after_stage_def stage_result_Inr ran_def gathered_def
        dest!: stage_result_Inl split: prod.splits sum.splits)
  with Some show ?thesis by simp
qed

lemma steps_parse:
  "steps env start rc ti trs (present (ti_Preflight ti) + present (ti_Provisioner ti) + present (ti_Runner ti) + present (ti_LogCollector ti))
     (present (ti_ResultParser ti)) (\<lambda>d. gathered d l) (\<lambda>d rs. results_of d = rs) (stage_parse env start rc ti trs l)"
proof (cases "ti_ResultParser ti")
  case None
  then have "steps env start rc ti trs (present (ti_Preflight ti) + present (ti_Provisioner ti) + present (ti_Runner ti) + present (ti_LogCollector ti)) 0
     (\<lambda>d. gathered d l) (\<lambda>d rs. results_of d = rs) (stage_parse env start rc ti trs l)"
    by (intro steps_skip) (simp_all add: stage_parse_def gathered_def)
  with None show ?thesis by simp
next
  case (Some f)
  note n = stage_nth(5)[of ti]
  have "steps env start rc ti trs (present (ti_Preflight ti) + present (ti_Provisioner ti) + present (ti_Runner ti) + present (ti_LogCollector ti)) 1
     (\<lambda>d. gathered d l) (\<lambda>d rs. results_of d = rs) (stage_parse env start rc ti trs l)"
    using n Some
    by (intro steps_call)
      (auto simp: stage_parse_def call_stage_def call_ok_def after_stage_def stage_result_Inr gathered_def
        dest!: stage_result_Inl split: prod.splits)
  with Some show ?thesis by simp
qed

text \<open>The whole pipeline: it grades the results of the last stage, or it stopped at the first failing call.\<close>

lemma steps_stages:
  "steps env start rc ti trs 0 (length (stage_names ti)) (\<lambda>d. d = NoData) (\<lambda>d x. x = grade_results ti trs (results_of d)) (run_stages env start rc ti trs)"
proof -
  have g: "steps env start rc ti trs k 0 (\<lambda>d. results_of d = rs) (\<lambda>d x. x = grade_results ti trs (results_of d))
      (job_return (grade_results ti trs rs))" for k rs
    by (rule steps_skip) (simp_all add: job_return_def)
  have p: "steps env start rc ti trs (present (ti_Preflight ti) + present (ti_Provisioner ti) + present (ti_Runner ti) + present (ti_LogCollector ti))
      (present (ti_ResultParser ti)) (\<lambda>d. gathered d l) (\<lambda>d x. x = grade_results ti trs (results_of d))
      (job_bind (stage_parse env start rc ti trs l) (\<lambda>rs. job_return (grade_results ti trs rs)))" for l
    using steps_bind[OF steps_parse g] by simp
  have c: "steps env start rc ti trs (present (ti_Preflight ti) + present (ti_Provisioner ti) + present (ti_Runner ti))
      (present (ti_LogCollector ti) + present (ti_ResultParser ti)) (\<lambda>d. ran d h) (\<lambda>d x. x = grade_results ti trs (results_of d))
      (job_bind (stage_collect env start rc ti trs h) (\<lambda>l.
       job_bind (stage_parse env start rc ti trs l) (\<lambda>rs. job_return (grade_results ti trs rs))))" for h
    by (rule steps_bind[OF steps_collect p])
  show ?thesis
    unfolding run_stages_def stage_names_length
    by (rule steps_bind[OF steps_preflight], unfold add_0,
        rule steps_bind[OF steps_provision], rule steps_bind[OF steps_run c])
qed

lemma record_refs_log: "announced ann env rc ti \<Longrightarrow> ann (record_refs env trs lb w) = ann w"
proof -
  assume a: "announced ann env rc ti"
  have "ann (fold (\<lambda>tr w. let refs = gm_list (lb_RefsByTR lb) (tr_ID tr) in if refs \<noteq> [] then f [tr] refs w else w) trs w) = ann w"
    if "je_RecordArtifacts env = Some f" for f
    using a that by (induction trs arbitrary: w) (auto simp: announced_def Let_def)
  with a show ?thesis by (auto simp: record_refs_def announced_def split: option.split)
qed

lemma errTRs_no_pass: "v \<in> set (errTRs trs reason) \<Longrightarrow> v_Outcome v = OutcomeError"
  by (auto simp: errTRs_def errTR_def itemVerdicts_def Let_def split: if_splits)

lemma deadline_no_pass:
  "v \<in> set (fst (deadline_override env start limit trs res w)) \<Longrightarrow> v_Outcome v = OutcomeFail \<or> v \<in> set (fst res)"
  by (auto simp: deadline_override_def itemVerdicts_def Let_def split: if_splits)

lemma call_announces:
  assumes "announced ann env rc ti" and "n \<in> set (stage_names ti)"
  shows "ann (snd (snd (call_stage env rc ti trs n d bag w))) = ann w @ [n]"
proof -
  have s: "ann (je_SetStage env n trs w) = ann w @ [n]" using assms(1) by (simp add: announced_def)
  have n: "n = ''preflight'' \<and> ti_Preflight ti \<noteq> None \<or> n = ''provision'' \<and> ti_Provisioner ti \<noteq> None \<or> n = ''run'' \<and> ti_Runner ti \<noteq> None \<or>
      n = ''collect'' \<and> ti_LogCollector ti \<noteq> None \<or> n = ''parse'' \<and> ti_ResultParser ti \<noteq> None"
    using assms(2) by (auto simp: stage_names_def split: if_splits)
  then show ?thesis
    using s assms(1) by (elim disjE conjE) (auto simp: call_stage_def Let_def split_beta announced_def)
qed

lemma reached_announces:
  assumes "announced ann env rc ti" and "reached env start rc ti trs k d bag w"
  shows "k \<le> length (stage_names ti) \<and> ann w = ann start @ take k (stage_names ti)"
  using assms(2)
proof (induction rule: reached.induct)
  case (reached_next k d bag w d' bag' w')
  have "stage_names ti ! k \<in> set (stage_names ti)" using reached_next.hyps(2) by simp
  from call_announces[OF assms(1) this, of trs d bag w] reached_next.hyps(3) have "ann w' = ann w @ [stage_names ti ! k]" by simp
  moreover have "ann (after_stage env trs d' w') = ann w'"
    using record_refs_log[OF assms(1)] by (simp add: after_stage_def split: stage_data.split)
  ultimately show ?case using reached_next by (simp add: take_Suc_conv_app_nth)
qed simp

lemma run_teardown_announces:
  assumes "announced ann env rc ti"
  shows "ann (run_teardown env rc ti trs bag w) = ann w @ (if ti_Teardown ti = None then [] else [''teardown''])"
proof (cases "ti_Teardown ti")
  case (Some f)
  obtain e b w2 where f: "f rc bag (je_SetStage env ''teardown'' trs w) = (e, b, w2)" by (metis prod.collapse)
  have "ann (snd (snd (f rc bag (je_SetStage env ''teardown'' trs w)))) = ann w @ [''teardown'']"
    using assms Some unfolding announced_def by metis
  with Some f show ?thesis by (simp add: run_teardown_def)
qed (simp add: run_teardown_def)

text \<open>
  C9: a job calls its stages in pipeline order (preflight, provision, run, collect, parse, as far as
  the integration has them), each on the data of the one before, and announces each. It goes past a
  stage exactly when the call of it returned no error, found no problem at the level error and left
  the context alive. When all stages were passed, the verdicts and measurements are the grading of
  the results of the last one (or the failures of a missed deadline). When the call of a stage was
  not successful, no later stage is called or announced, no verdict passes and there are no
  measurements. In both cases the teardown is announced last and once.
\<close>

theorem job_stage_order:
  assumes "announced ann env rc ti" and "ResolveTool reg (hd trs) = Some ti" and "je_ctxErr env w w = None"
    and "runJobWithTimeout reg env limit rc tool trs w = ((vs, ms), w')"
  shows "\<exists>k d bag w1. reached env w rc ti trs k d bag w1 \<and> k \<le> length (stage_names ti) \<and>
      (if k = length (stage_names ti)
       then ann w' = ann w @ stage_names ti @ (if ti_Teardown ti = None then [] else [''teardown'']) \<and>
         (\<exists>t. (stamp_duration t vs, ms) =
            map_prod (stamp_duration t) id (deadline_override env w limit trs (grade_results ti trs (results_of d)) w1))
       else \<not> call_ok env w (call_stage env rc ti trs (stage_names ti ! k) d bag w1) \<and>
         ann w' = ann w @ take (Suc k) (stage_names ti) @ (if ti_Teardown ti = None then [] else [''teardown'']) \<and>
         ms = [] \<and> (\<forall>v \<in> set vs. v_Outcome v = OutcomeError \<or> v_Outcome v = OutcomeFail))"
proof -
  obtain r bag w1 where r: "run_stages env w rc ti trs NewBag w = (r, bag, w1)" by (metis prod.collapse)
  let ?d = "deadline_override env w limit trs (early_result r) w1" and ?w = "run_teardown env rc ti trs bag w1"
  have "runJobWithTimeout reg env limit rc tool trs w = ((stamp_duration (je_since env w ?w) (fst ?d), snd ?d), ?w)"
    unfolding runJobWithTimeout_def assms(2,3) option.case r Let_def split_beta by simp
  with assms(4) have v: "vs = stamp_duration (je_since env w ?w) (fst ?d)" and o: "ms = snd ?d" and w': "w' = ?w"
    by (metis prod.inject)+
  have t: "ann w' = ann w1 @ (if ti_Teardown ti = None then [] else [''teardown''])"
    unfolding w' by (rule run_teardown_announces[OF assms(1)])
  note a = steps_stages[of env w rc ti trs, unfolded steps_def, rule_format, OF reached_start refl, unfolded r]
  show ?thesis
  proof (cases r)
    case (Inl es)
    with run_stages_errors[of trs env w rc ti] r obtain reason where "es = errTRs trs reason"
      unfolding ends_in_errors_def by (metis fst_conv)
    then have e: "\<forall>u \<in> set (fst (early_result r)). v_Outcome u = OutcomeError" "snd (early_result r) = []"
      using Inl by (auto simp: early_result_def dest: errTRs_no_pass)
    have f: "v_Outcome u = OutcomeError \<or> v_Outcome u = OutcomeFail" if "u \<in> set (fst ?d)" for u
      using deadline_no_pass[OF that] e(1) by blast
    have no: "ms = []" "\<forall>v \<in> set vs. v_Outcome v = OutcomeError \<or> v_Outcome v = OutcomeFail"
      using o e(2) f unfolding v by (auto simp: deadline_override_def stamp_duration_def)
    from a Inl obtain k d bag2 w2 where k: "reached env w rc ti trs k d bag2 w2" "k < length (stage_names ti)"
        "\<not> call_ok env w (call_stage env rc ti trs (stage_names ti ! k) d bag2 w2)"
        "snd (snd (call_stage env rc ti trs (stage_names ti ! k) d bag2 w2)) = w1"
      unfolding stopped_def by auto
    have "ann w1 = ann w @ take (Suc k) (stage_names ti)"
      using call_announces[OF assms(1) nth_mem[OF k(2)], of trs d bag2 w2] reached_announces[OF assms(1) k(1)] k(2,4)
      by (simp add: take_Suc_conv_app_nth)
    with k no t show ?thesis by (intro exI[of _ k] exI[of _ d] exI[of _ bag2] exI[of _ w2]) simp
  next
    case (Inr x)
    with a obtain d where d: "reached env w rc ti trs (length (stage_names ti)) d bag w1" "x = grade_results ti trs (results_of d)"
      by auto
    have "ann w1 = ann w @ stage_names ti" using reached_announces[OF assms(1) d(1)] by simp
    moreover have "(stamp_duration (je_since env w ?w) vs, ms) = map_prod (stamp_duration (je_since env w ?w)) id
        (deadline_override env w limit trs (grade_results ti trs (results_of d)) w1)"
      unfolding v o Inr d(2) early_result_def by (simp add: map_prod_def split_beta)
    ultimately show ?thesis using d(1) t
      by (intro exI[of _ "length (stage_names ti)"] exI[of _ d] exI[of _ bag] exI[of _ w1]) auto
  qed
qed

definition ok_env :: "f64 \<Rightarrow> string list job_env" where
  "ok_env d = \<lparr> je_ctxErr = (\<lambda>_ _. None), je_parentErr = (\<lambda>_. None), je_since = (\<lambda>_ _. d),
     je_SetStage = (\<lambda>s trs w. w @ [s]), je_RecordArtifacts = None, je_mkdir = (\<lambda>p w. (None, w)),
     je_progress = (\<lambda>q w. w) \<rparr>"

text \<open>An integration whose run fails, with a teardown.\<close>

definition failing_tool :: "string list tool_integration" where
  "failing_tool = \<lparr> ti_Name = ''b'', ti_Image = [], ti_Provides = [], ti_Preflight = Some (\<lambda>rc trs bag w. (([], None), bag, w)),
     ti_Provisioner = None, ti_Runner = Some (\<lambda>rc trs bag w. (Inl ''boom'', bag, w)), ti_LogCollector = None,
     ti_ResultParser = Some (\<lambda>rc l bag w. (Inr [], bag, w)), ti_Teardown = Some (\<lambda>rc bag w. (None, bag, w)), ti_ParallelSafe = True,
     ti_ExclusivityGroups = [], ti_Evaluators = [], ti_SetupGroups = [] \<rparr>"

definition failing_registry :: "string list registry" where
  "failing_registry = \<lparr> rg_tools = [(''b'', failing_tool)], rg_setups = [] \<rparr>"

definition checked_req :: test_requirement where
  "checked_req = (sample_req ''t1'' ''b'')\<lparr>tr_Checks := [zero_check\<lparr>ck_ID := ''alive''\<rparr>]\<rparr>"

lemma checked_req_simps [simp]: "tr_ID checked_req = ''t1''" "tr_Variant checked_req = []" "item_names checked_req = [''check:alive'']"
  by (simp_all add: checked_req_def item_names_def zero_check_def)

lemma failing_resolved [simp]: "ResolveTool failing_registry checked_req = Some failing_tool"
  by (simp add: ResolveTool_def Get_def failing_registry_def checked_req_def gm_get_Cons)

text \<open>A tool with an evaluator of its own for one requirement, whose stages produce an empty result.\<close>

definition own_evaluator_tool :: "string list tool_integration" where
  "own_evaluator_tool = failing_tool\<lparr>ti_Runner := None,
     ti_ResultParser := Some (\<lambda>rc l bag w. (Inr [zero_test_result\<lparr>res_TRID := ''t1''\<rparr>, zero_test_result\<lparr>res_TRID := ''t2''\<rparr>], bag, w)),
     ti_Evaluators := [(''t2'', Some (\<lambda>tr res. Inr [zero_verdict\<lparr>v_TR := ''t2'', v_Item := ''native'', v_Outcome := OutcomePass\<rparr>]))]\<rparr>"

definition own_evaluator_registry :: "string list registry" where
  "own_evaluator_registry = \<lparr> rg_tools = [(''b'', own_evaluator_tool)], rg_setups = [] \<rparr>"

definition own_evaluator_job :: job where
  "own_evaluator_job = \<lparr> j_tool = ''b'', j_trs = [checked_req, checked_req\<lparr>tr_ID := ''t2''\<rparr>], j_parallelSafe = True, j_groups = [] \<rparr>"

theorem job_accounts_for_executions_witness:
  "\<exists>b1 b2. fst (fst (runToolExecutionsWithTimeout own_evaluator_registry (ok_env (f64_of_int 1)) ''1s''
        \<lparr> rc_RunID = ''r'', rc_PartKind = [], rc_WorkDir = ''/w'', rc_Backend = None \<rparr> own_evaluator_job [])) = b1 @ b2 \<and>
     map (\<lambda>v. (v_TR v, v_Variant v, v_Item v)) b1 = [(''t1'', [], ''check:alive'')] \<and>
     accounted_by own_evaluator_registry (checked_req\<lparr>tr_ID := ''t2''\<rparr>) b2"
proof -
  have o: "job_order own_evaluator_job = [checked_req, checked_req\<lparr>tr_ID := ''t2''\<rparr>]"
    by (simp add: job_order_def own_evaluator_job_def checked_req_def sample_req_def)
  have t: "ResolveTool own_evaluator_registry checked_req = Some own_evaluator_tool"
    by (simp add: ResolveTool_def Get_def own_evaluator_registry_def checked_req_def gm_get_Cons)
  have "builtin_only own_evaluator_tool checked_req"
    by (simp add: builtin_only_def own_evaluator_tool_def gm_get_Cons)
  with t have s: "item_names checked_req \<noteq> [] \<and> (\<forall>ti. ResolveTool own_evaluator_registry checked_req = Some ti \<longrightarrow> builtin_only ti checked_req)"
    by simp
  from job_accounts_for_executions[of own_evaluator_registry "ok_env (f64_of_int 1)" "''1s''"
      "\<lparr> rc_RunID = ''r'', rc_PartKind = [], rc_WorkDir = ''/w'', rc_Backend = None \<rparr>" own_evaluator_job "[]", unfolded o]
  obtain b1 b2 where "fst (fst (runToolExecutionsWithTimeout own_evaluator_registry (ok_env (f64_of_int 1)) ''1s''
        \<lparr> rc_RunID = ''r'', rc_PartKind = [], rc_WorkDir = ''/w'', rc_Backend = None \<rparr> own_evaluator_job [])) = concat [b1, b2]"
    and "map (\<lambda>v. (v_TR v, v_Variant v, v_Item v)) b1 = map (\<lambda>i. (tr_ID checked_req, tr_Variant checked_req, i)) (item_names checked_req)"
    and "accounted_by own_evaluator_registry (checked_req\<lparr>tr_ID := ''t2''\<rparr>) b2"
    using s unfolding list_all2_Cons1 list_all2_Nil by blast
  then show ?thesis by (intro exI[of _ b1] exI[of _ b2]) simp
qed

lemma failing_announced: "announced (\<lambda>w. w) (ok_env d) rc failing_tool"
  by (simp add: announced_def ok_env_def failing_tool_def)

lemma failing_stages: "stage_names failing_tool = [''preflight'', ''run'', ''parse'']" "ti_Teardown failing_tool \<noteq> None"
  by (simp_all add: stage_names_def failing_tool_def)

lemma failing_calls:
  "call_stage (ok_env t) rc failing_tool trs ''preflight'' d bag w = (Inr NoData, bag, w @ [''preflight''])"
  "call_stage (ok_env t) rc failing_tool trs ''run'' d bag w = (Inl ''boom'', bag, w @ [''run''])"
  by (simp_all add: call_stage_def stage_error_def ok_env_def failing_tool_def)

lemma failing_run_reached:
  assumes "reached (ok_env d) start rc failing_tool trs k x bag w"
  shows "k \<le> 1"
  using assms
proof (induction rule: reached.induct)
  case (reached_next k x bag w x' bag' w')
  have "k \<noteq> 1"
  proof
    assume "k = 1"
    with reached_next.hyps(3) show False by (simp add: failing_stages(1) failing_calls)
  qed
  with reached_next.IH show ?case by simp
qed simp

text \<open>The run of this tool fails: it is announced after the preflight, and its parser never is.\<close>

theorem job_stage_order_witness:
  "snd (runJobWithTimeout failing_registry (ok_env (f64_of_int 1)) ''1s''
       \<lparr> rc_RunID = ''r'', rc_PartKind = [], rc_WorkDir = ''/w'', rc_Backend = None \<rparr> ''b'' [checked_req] [])
     = [''preflight'', ''run'', ''teardown'']"
proof -
  let ?rc = "\<lparr> rc_RunID = ''r'', rc_PartKind = [], rc_WorkDir = ''/w'', rc_Backend = None \<rparr>"
  obtain vs ms w' where r: "runJobWithTimeout failing_registry (ok_env (f64_of_int 1)) ''1s'' ?rc ''b'' [checked_req] [] = ((vs, ms), w')"
    by (metis prod.collapse)
  have t: "ResolveTool failing_registry (hd [checked_req]) = Some failing_tool" and c: "je_ctxErr (ok_env (f64_of_int 1)) [] [] = None"
    by (simp_all add: ok_env_def)
  from job_stage_order[OF failing_announced t c r] failing_stages obtain k d bag w1 where
    k: "reached (ok_env (f64_of_int 1)) [] ?rc failing_tool [checked_req] k d bag w1"
    and e: "k \<noteq> 3 \<Longrightarrow> \<not> call_ok (ok_env (f64_of_int 1)) [] (call_stage (ok_env (f64_of_int 1)) ?rc failing_tool [checked_req] (stage_names failing_tool ! k) d bag w1) \<and>
         w' = take (Suc k) [''preflight'', ''run'', ''parse''] @ [''teardown'']"
    by (auto split: if_splits)
  have "k \<le> 1" by (rule failing_run_reached[OF k])
  moreover have "k \<noteq> 0"
  proof
    assume "k = 0"
    with e show False by (simp add: failing_stages(1) failing_calls call_ok_def) (simp add: ok_env_def)
  qed
  ultimately have "k = 1" by simp
  with e r show ?thesis by simp
qed

text \<open>
  A requirement without SLAs and checks whose tool returns a result gets no verdict at all,
  so nothing of it reaches the report's summary, while the progress tracker records the same
  execution as an error. The report stays certifiable.
\<close>

theorem ungraded_execution_is_silent:
  assumes "tr_SLAs tr = []" and "tr_Checks tr = []" and "builtin_only ti tr" and "gm_get byID (tr_ID tr) = Some r"
  shows "fst (grade_one ti byID tr) = [] \<and> summarizeTR (fst (grade_one ti byID tr)) tr = OutcomeError \<and>
    r_Certifiable (Build runID schema prov (fst (grade_one ti byID tr)))"
proof -
  have "fst (grade_one ti byID tr) = []"
    using assms by (auto simp: grade_one_def GradeTR_def builtin_only_def gradeSLAs_def gradeChecks_def split: option.splits)
  then show ?thesis
    by (simp add: summarizeTR_def Build_certifiable)
qed

theorem ungraded_execution_is_silent_witness:
  "r_Certifiable (Build ''r'' ''1'' zero_provenance
     (fst (grade_one (failing_tool) [(''t'', zero_test_result)] (sample_req ''t'' ''b''))))"
proof -
  have "builtin_only failing_tool (sample_req ''t'' ''b'')" by (simp add: builtin_only_def failing_tool_def)
  then show ?thesis
    using ungraded_execution_is_silent[where tr = "sample_req ''t'' ''b''" and byID = "[(''t'', zero_test_result)]" and r = zero_test_result]
    by (auto simp: gm_get_Cons)
qed


section \<open>What a job leaves alone\<close>

text \<open>
  The contract between a job and its environment: \<open>R\<close> relates the world before and after. It is
  kept by the callbacks on the requirements \<open>ok\<close> and by every stage of the integration.
\<close>

definition framed :: "('w \<Rightarrow> 'w \<Rightarrow> bool) \<Rightarrow> 'w tool_integration \<Rightarrow> bool" where
  "framed R ti \<longleftrightarrow>
     (\<forall>f. ti_Preflight ti = Some f \<longrightarrow> (\<forall>rc trs bag w. R w (snd (snd (f rc trs bag w))))) \<and>
     (\<forall>f. ti_Provisioner ti = Some f \<longrightarrow> (\<forall>rc trs bag w. R w (snd (snd (f rc trs bag w))))) \<and>
     (\<forall>f. ti_Runner ti = Some f \<longrightarrow> (\<forall>rc trs bag w. R w (snd (snd (f rc trs bag w))))) \<and>
     (\<forall>f. ti_LogCollector ti = Some f \<longrightarrow> (\<forall>rc h bag w. R w (snd (snd (f rc h bag w))))) \<and>
     (\<forall>f. ti_ResultParser ti = Some f \<longrightarrow> (\<forall>rc l bag w. R w (snd (snd (f rc l bag w))))) \<and>
     (\<forall>f. ti_Teardown ti = Some f \<longrightarrow> (\<forall>rc bag w. R w (snd (snd (f rc bag w)))))"

locale stage_frame =
  fixes R :: "'w \<Rightarrow> 'w \<Rightarrow> bool" and env :: "'w job_env" and ok :: "test_requirement \<Rightarrow> bool"
  assumes refl: "R w w"
    and trans: "R w1 w2 \<Longrightarrow> R w2 w3 \<Longrightarrow> R w1 w3"
    and set_stage: "\<forall>tr \<in> set trs. ok tr \<Longrightarrow> R w (je_SetStage env s trs w)"
    and artifacts: "je_RecordArtifacts env = Some f \<Longrightarrow> \<forall>tr \<in> set trs. ok tr \<Longrightarrow> R w (f trs refs w)"
    and mkdir: "R w (snd (je_mkdir env p w))"
begin

definition step_frame :: "('w, 'a) job_step \<Rightarrow> bool" where
  "step_frame m \<longleftrightarrow> (\<forall>bag w. R w (snd (snd (m bag w))))"

lemma step_frame_bind:
  assumes "step_frame m" and "\<And>x. step_frame (f x)"
  shows "step_frame (job_bind m f)"
  unfolding step_frame_def
proof (intro allI)
  fix bag w
  obtain r bag1 w1 where m: "m bag w = (r, bag1, w1)" by (metis prod.collapse)
  have "R w w1" using assms(1) m unfolding step_frame_def by (metis snd_conv)
  moreover have "R w1 (snd (snd (f x bag1 w1)))" for x using assms(2) unfolding step_frame_def by blast
  ultimately show "R w (snd (snd (job_bind m f bag w)))"
    using m trans by (cases r) (auto simp: job_bind_def)
qed

lemma record_refs_frame: "\<forall>tr \<in> set trs. ok tr \<Longrightarrow> R w (record_refs env trs lb w)"
proof -
  assume o: "\<forall>tr \<in> set trs. ok tr"
  have "R w (fold (\<lambda>tr w. let refs = gm_list (lb_RefsByTR lb) (tr_ID tr) in if refs \<noteq> [] then f [tr] refs w else w) ts w)"
    if "je_RecordArtifacts env = Some f" and "set ts \<subseteq> set trs" for f ts
    using that(2)
  proof (induction ts arbitrary: w)
    case (Cons t ts)
    have "R w (let refs = gm_list (lb_RefsByTR lb) (tr_ID t) in if refs \<noteq> [] then f [t] refs w else w)"
      using artifacts[OF that(1), of "[t]"] Cons.prems o refl by (auto simp: Let_def)
    from trans[OF this Cons.IH] Cons.prems show ?case by simp
  qed (simp add: refl)
  then show ?thesis using artifacts[OF _ o] refl by (auto simp: record_refs_def split: option.split)
qed

lemma stages_frame:
  assumes t: "framed R ti" and o: "\<forall>tr \<in> set trs. ok tr"
  shows "step_frame (stage_preflight env start rc ti trs)" "step_frame (stage_provision env start rc ti trs)"
    "step_frame (stage_run env start rc ti trs)" "step_frame (stage_collect env start rc ti trs handle)"
    "step_frame (stage_parse env start rc ti trs logs)"
proof -
  have pre: "R w w'" if "f (je_SetStage env s trs w) = (x, b, w')" and "\<And>w. R w (snd (snd (f w)))" for f :: "'w \<Rightarrow> 'x \<times> bag \<times> 'w" and s w x b w'
    using trans[OF set_stage[OF o, of w s] that(2)[of "je_SetStage env s trs w"]] that(1) by simp
  note d = step_frame_def refl framed_def
  show "step_frame (stage_preflight env start rc ti trs)"
    using t by (auto simp: d stage_preflight_def split: option.splits prod.splits sum.splits intro: pre)
  show "step_frame (stage_provision env start rc ti trs)"
    using t by (auto simp: d stage_provision_def split: option.splits prod.splits sum.splits intro: pre)
  show "step_frame (stage_run env start rc ti trs)"
    using t by (auto simp: d stage_run_def split: option.splits prod.splits sum.splits intro: pre)
  show "step_frame (stage_parse env start rc ti trs logs)"
    using t by (auto simp: d stage_parse_def split: option.splits prod.splits sum.splits intro: pre)
  show "step_frame (stage_collect env start rc ti trs handle)"
    using t by (auto simp: d stage_collect_def split: option.splits prod.splits sum.splits intro: pre trans[OF pre record_refs_frame[OF o]])
qed

lemma run_stages_frame:
  assumes "framed R ti" and "\<forall>tr \<in> set trs. ok tr"
  shows "R w (snd (snd (run_stages env start rc ti trs bag w)))"
proof -
  have "step_frame (job_return x)" for x :: "verdict list \<times> measurement list"
    by (simp add: step_frame_def job_return_def refl)
  then have "step_frame (run_stages env start rc ti trs)"
    unfolding run_stages_def by (intro step_frame_bind stages_frame[OF assms])
  then show ?thesis by (simp add: step_frame_def)
qed

lemma teardown_frame:
  assumes "framed R ti" and "\<forall>tr \<in> set trs. ok tr"
  shows "R w (run_teardown env rc ti trs bag w)"
proof (cases "ti_Teardown ti")
  case None
  then show ?thesis by (simp add: run_teardown_def refl)
next
  case (Some f)
  have "R (je_SetStage env ''teardown'' trs w) (snd (snd (f rc bag (je_SetStage env ''teardown'' trs w))))"
    using assms(1) Some by (simp add: framed_def)
  from trans[OF set_stage[OF assms(2)] this] Some show ?thesis by (auto simp: run_teardown_def split: prod.splits)
qed

lemma job_frame:
  assumes "\<And>ti. ResolveTool reg (hd trs) = Some ti \<Longrightarrow> framed R ti" and "\<forall>tr \<in> set trs. ok tr"
  shows "R w (snd (runJobWithTimeout reg env limit rc tool trs w))"
proof (cases "je_ctxErr env w w = None \<and> ResolveTool reg (hd trs) \<noteq> None")
  case False
  then show ?thesis by (auto simp: runJobWithTimeout_def Let_def refl split: option.splits)
next
  case True
  then obtain ti where ti: "ResolveTool reg (hd trs) = Some ti" by blast
  obtain r bag w1 where r: "run_stages env w rc ti trs NewBag w = (r, bag, w1)" by (metis prod.collapse)
  have "R w w1" using run_stages_frame[OF assms(1)[OF ti] assms(2), of w w rc NewBag] r by simp
  from trans[OF this teardown_frame[OF assms(1)[OF ti] assms(2)]] True ti r show ?thesis
    by (simp add: runJobWithTimeout_def Let_def split_beta)
qed

end

end
