(* ===== verification/Measurements.thy ===== *)
theory Measurements
  imports Progress
begin

text \<open>
  Which measurements a report fits: \<open>SelectMeasurements\<close> of \<open>internal/report/measurements.go\<close>.
  The two Go maps are keyed by execution label; the warnings are sorted, so the iteration order of
  the maps does not show. The lemmas reduce the loops to a filter.
\<close>

section \<open>The selection\<close>

definition selector_sla :: "string \<Rightarrow> sla" where
  "selector_sla selector =
     (let (name, percentile) = cut_at (CHR ''@'') selector in zero_sla\<lparr>sla_Metric := name, sla_Percentile := percentile\<rparr>)"

definition fits :: "sla \<Rightarrow> measurement \<Rightarrow> bool" where
  "fits d m \<longleftrightarrow> me_Name m = sla_Metric d \<and> (sla_Percentile d = [] \<or> me_Percentile m = sla_Percentile d)"

type_synonym selection_maps = "(string, sla list) gomap \<times> (string, (string, bool) gomap) gomap"

definition select_tr :: "string list \<Rightarrow> (string, string list) gomap \<Rightarrow> test_requirement \<Rightarrow> selection_maps \<Rightarrow> selection_maps" where
  "select_tr extras perTR tr maps =
     (let key = tr_label tr;
          wanted = extras @ (case gm_get perTR (tr_ID tr) of Some l \<Rightarrow> l | None \<Rightarrow> []);
          (slas, asked) = fold (\<lambda>selector (slas, asked). (slas @ [selector_sla selector], gm_set selector False asked))
                            wanted (tr_SLAs tr, [])
      in case maps of (selected, requested) \<Rightarrow> (gm_set key slas selected, gm_set key asked requested))"

definition measurement_label :: "measurement \<Rightarrow> string" where
  "measurement_label m = ExecutionLabel (me_TR m) (me_Variant m)"

definition mark_found :: "measurement \<Rightarrow> (string, bool) gomap \<Rightarrow> (string, bool) gomap" where
  "mark_found m asked = map (\<lambda>(selector, found). (selector, fits (selector_sla selector) m \<or> found)) asked"

definition select_measurement ::
  "(string, sla list) gomap \<Rightarrow> measurement \<Rightarrow> measurement list \<times> (string, (string, bool) gomap) gomap
   \<Rightarrow> measurement list \<times> (string, (string, bool) gomap) gomap" where
  "select_measurement selected m s =
     (case s of (out, requested) \<Rightarrow>
        let key = measurement_label m;
            requested1 = (case gm_get requested key of None \<Rightarrow> requested | Some asked \<Rightarrow> gm_set key (mark_found m asked) requested);
            descriptors = (case gm_get selected key of Some ds \<Rightarrow> ds | None \<Rightarrow> [])
        in (if list_ex (\<lambda>d. fits d m) descriptors then out @ [m] else out, requested1))"

definition missing_warning :: "string \<Rightarrow> string \<Rightarrow> string" where
  "missing_warning tr selector = ''TR '' @ tr @ '': requested report metric '' @ go_quote selector @ '' was not produced''"

definition SelectMeasurements ::
  "test_requirement list \<Rightarrow> measurement list \<Rightarrow> string list \<Rightarrow> (string, string list) gomap
   \<Rightarrow> measurement list \<times> string list" where
  "SelectMeasurements trs measurements extras perTR =
     (let (selected, requested) = fold (select_tr extras perTR) trs ([], []);
          (out, requested1) = fold (select_measurement selected) measurements ([], requested)
      in (out, sort (concat (map (\<lambda>(tr, asked). map (\<lambda>(selector, found). missing_warning tr selector)
                                   (filter (\<lambda>(selector, found). \<not> found) asked)) requested1))))"


section \<open>The loops as filters\<close>

definition wanted :: "string list \<Rightarrow> (string, string list) gomap \<Rightarrow> test_requirement \<Rightarrow> string list" where
  "wanted extras perTR tr = extras @ (case gm_get perTR (tr_ID tr) of Some l \<Rightarrow> l | None \<Rightarrow> [])"

lemma gm_get_fold_val:
  "gm_get (fold (\<lambda>x. gm_set (key x) (val x)) xs m) k = (case latest key k xs of Some x \<Rightarrow> Some (val x) | None \<Rightarrow> gm_get m k)"
  by (induction xs rule: rev_induct) (auto simp: latest_snoc)

lemma gm_wf_fold_val: "gm_wf m \<Longrightarrow> gm_wf (fold (\<lambda>x. gm_set (key x) (val x)) xs m)"
  by (induction xs rule: rev_induct) auto

lemma wanted_fold:
  "fold (\<lambda>selector (slas, asked). (slas @ [selector_sla selector], gm_set selector False asked)) ss (slas, asked)
   = (slas @ map selector_sla ss, fold (\<lambda>s. gm_set s False) ss asked)"
  by (induction ss arbitrary: slas asked) auto

definition asked_of :: "string list \<Rightarrow> (string, bool) gomap" where
  "asked_of ss = fold (\<lambda>s. gm_set s False) ss []"

lemma asked_of_wf: "gm_wf (asked_of ss)"
  using gm_wf_fold_val[of "[]" "\<lambda>s. s" "\<lambda>_. False" ss] by (simp add: asked_of_def)

lemma asked_of_set: "set (asked_of ss) = (\<lambda>s. (s, False)) ` set ss"
proof -
  have "gm_get (asked_of ss) k = (if k \<in> set ss then Some False else None)" for k
    using gm_get_fold_val[of "\<lambda>s. s" "\<lambda>_. False" ss "[]" k] latest_None[of "\<lambda>s. s" k ss]
    by (auto simp: asked_of_def split: option.splits)
  moreover have "(k, b) \<in> set (asked_of ss) \<longleftrightarrow> gm_get (asked_of ss) k = Some b" for k b
    using gm_wf_get[OF asked_of_wf] gm_get_Some_set by metis
  ultimately show ?thesis by (auto split: if_splits)
qed

lemma select_tr_fold:
  "fold (select_tr extras perTR) trs (sel, req) =
     (fold (\<lambda>tr. gm_set (tr_label tr) (tr_SLAs tr @ map selector_sla (wanted extras perTR tr))) trs sel,
      fold (\<lambda>tr. gm_set (tr_label tr) (asked_of (wanted extras perTR tr))) trs req)"
  by (induction trs arbitrary: sel req) (simp_all add: select_tr_def wanted_def wanted_fold asked_of_def Let_def)

definition mark_requested :: "measurement \<Rightarrow> (string, (string, bool) gomap) gomap \<Rightarrow> (string, (string, bool) gomap) gomap" where
  "mark_requested m req =
     (case gm_get req (measurement_label m) of None \<Rightarrow> req | Some asked \<Rightarrow> gm_set (measurement_label m) (mark_found m asked) req)"

lemma select_measurement_step:
  "select_measurement sel m (out, req) =
     (out @ (if list_ex (\<lambda>d. fits d m) (case gm_get sel (measurement_label m) of Some ds \<Rightarrow> ds | None \<Rightarrow> []) then [m] else []),
      mark_requested m req)"
  by (simp add: select_measurement_def Let_def mark_requested_def)

lemma mark_requested_get:
  "gm_get (mark_requested m req) l = (if measurement_label m = l then map_option (mark_found m) (gm_get req l) else gm_get req l)"
  by (simp add: mark_requested_def split: option.split)

lemma mark_requested_wf: "gm_wf req \<Longrightarrow> gm_wf (mark_requested m req)"
  by (simp add: mark_requested_def split: option.split)

lemma select_measurement_fold:
  "fold (select_measurement sel) ms (out, req) =
     (out @ filter (\<lambda>m. list_ex (\<lambda>d. fits d m) (case gm_get sel (measurement_label m) of Some ds \<Rightarrow> ds | None \<Rightarrow> [])) ms,
      fold mark_requested ms req)"
  by (induction ms arbitrary: out req) (simp_all add: select_measurement_step)

definition found_in :: "measurement list \<Rightarrow> string \<Rightarrow> string \<Rightarrow> bool" where
  "found_in ms l s \<longleftrightarrow> (\<exists>m \<in> set ms. measurement_label m = l \<and> fits (selector_sla s) m)"

lemma mark_requested_fold:
  "gm_get (fold mark_requested ms req) l = map_option (map (\<lambda>(s, f). (s, found_in ms l s \<or> f))) (gm_get req l)"
proof (induction ms arbitrary: req)
  case Nil
  have "(\<lambda>(s, f). (s, found_in [] l s \<or> f)) = (\<lambda>x. x)" by (auto simp: found_in_def)
  then show ?case by (simp add: option.map_ident)
next
  case (Cons m ms)
  have "map (\<lambda>(s, f). (s, found_in ms l s \<or> f)) (mark_found m asked) = map (\<lambda>(s, f). (s, found_in (m # ms) l s \<or> f)) asked"
    if "measurement_label m = l" for asked
    using that by (auto simp: mark_found_def found_in_def)
  moreover have "found_in (m # ms) l s = found_in ms l s" if "measurement_label m \<noteq> l" for s
    using that by (auto simp: found_in_def)
  ultimately show ?case
    by (cases "gm_get req l") (auto simp: Cons.IH mark_requested_get)
qed

lemma mark_requested_fold_wf: "gm_wf req \<Longrightarrow> gm_wf (fold mark_requested ms req)"
  by (induction ms arbitrary: req) (simp_all add: mark_requested_wf)

lemma missing_members:
  assumes "gm_wf req"
  shows "set (concat (map (\<lambda>(tr, asked). map (\<lambda>(s, f). missing_warning tr s) (filter (\<lambda>(s, f). \<not> f) asked)) (fold mark_requested ms req)))
    = {missing_warning l s | l s asked. gm_get req l = Some asked \<and> (s, False) \<in> set asked \<and> \<not> found_in ms l s}" (is "?L = ?R")
proof -
  have m: "(l, a) \<in> set (fold mark_requested ms req) \<longleftrightarrow> (\<exists>asked. gm_get req l = Some asked \<and> a = map (\<lambda>(s, f). (s, found_in ms l s \<or> f)) asked)" for l a
    using gm_wf_get[OF mark_requested_fold_wf[OF assms, of ms], of l a] gm_get_Some_set[of "fold mark_requested ms req" l a]
    by (auto simp: mark_requested_fold)
  let ?R = "fold mark_requested ms req"
  have "x \<in> ?L \<longleftrightarrow> (\<exists>p \<in> set ?R. \<exists>q \<in> set (snd p). \<not> snd q \<and> x = missing_warning (fst p) (fst q))" for x
    unfolding case_prod_unfold by auto
  also have "\<dots> x \<longleftrightarrow> (\<exists>l a. (l, a) \<in> set ?R \<and> (\<exists>q \<in> set a. \<not> snd q \<and> x = missing_warning l (fst q)))" for x
    by (metis prod.collapse fst_conv snd_conv)
  finally have c: "x \<in> ?L \<longleftrightarrow> (\<exists>l asked. gm_get req l = Some asked \<and>
      (\<exists>q \<in> set (map (\<lambda>(s, f). (s, found_in ms l s \<or> f)) asked). \<not> snd q \<and> x = missing_warning l (fst q)))" for x
    unfolding m by blast
  have q: "(\<exists>q \<in> set (map (\<lambda>(s, f). (s, found_in ms l s \<or> f)) asked). \<not> snd q \<and> x = missing_warning l (fst q))
      \<longleftrightarrow> (\<exists>s. (s, False) \<in> set asked \<and> \<not> found_in ms l s \<and> x = missing_warning l s)" for l asked x
    by (simp add: Bex_def split_paired_Ex) (auto simp: image_iff)
  show ?thesis using c q by blast
qed

lemma SelectMeasurements_parts:
  assumes "distinct (map tr_label trs)"
  shows "fst (SelectMeasurements trs ms extras perTR) =
      filter (\<lambda>m. \<exists>tr \<in> set trs. tr_label tr = measurement_label m \<and>
        (\<exists>d \<in> set (tr_SLAs tr) \<union> selector_sla ` set (wanted extras perTR tr). fits d m)) ms"
    and "set (snd (SelectMeasurements trs ms extras perTR)) =
      {missing_warning (tr_label tr) s | tr s. tr \<in> set trs \<and> s \<in> set (wanted extras perTR tr) \<and> \<not> found_in ms (tr_label tr) s}"
    and "sorted (snd (SelectMeasurements trs ms extras perTR))"
proof -
  let ?sel = "fold (\<lambda>tr. gm_set (tr_label tr) (tr_SLAs tr @ map selector_sla (wanted extras perTR tr))) trs []"
  let ?req = "fold (\<lambda>tr. gm_set (tr_label tr) (asked_of (wanted extras perTR tr))) trs []"
  have l: "latest tr_label l trs = Some tr \<longleftrightarrow> tr \<in> set trs \<and> tr_label tr = l" for l tr
    using latest_distinct[OF assms] latest_Some[of tr_label l trs tr] by auto
  have s: "SelectMeasurements trs ms extras perTR =
      (filter (\<lambda>m. list_ex (\<lambda>d. fits d m) (case gm_get ?sel (measurement_label m) of Some ds \<Rightarrow> ds | None \<Rightarrow> [])) ms,
       sort (concat (map (\<lambda>(tr, asked). map (\<lambda>(s, f). missing_warning tr s) (filter (\<lambda>(s, f). \<not> f) asked)) (fold mark_requested ms ?req))))"
    by (simp add: SelectMeasurements_def select_tr_fold select_measurement_fold)
  have "list_ex (\<lambda>d. fits d m) (case gm_get ?sel (measurement_label m) of Some ds \<Rightarrow> ds | None \<Rightarrow> []) \<longleftrightarrow>
      (\<exists>tr \<in> set trs. tr_label tr = measurement_label m \<and>
        (\<exists>d \<in> set (tr_SLAs tr) \<union> selector_sla ` set (wanted extras perTR tr). fits d m))" for m
  proof (cases "latest tr_label (measurement_label m) trs")
    case None
    then have "measurement_label m \<notin> tr_label ` set trs" by (simp add: latest_None)
    with None show ?thesis by (simp add: gm_get_fold_val) (metis imageI)
  next
    case (Some tr)
    with l have "tr \<in> set trs" "tr_label tr = measurement_label m"
      and u: "\<And>t. t \<in> set trs \<Longrightarrow> tr_label t = measurement_label m \<Longrightarrow> t = tr" by (metis option.inject)+
    then have "(\<exists>t \<in> set trs. tr_label t = measurement_label m \<and> P t) \<longleftrightarrow> P tr" for P by blast
    with Some show ?thesis by (auto simp: gm_get_fold_val list_ex_iff)
  qed
  then show "fst (SelectMeasurements trs ms extras perTR) =
      filter (\<lambda>m. \<exists>tr \<in> set trs. tr_label tr = measurement_label m \<and>
        (\<exists>d \<in> set (tr_SLAs tr) \<union> selector_sla ` set (wanted extras perTR tr). fits d m)) ms"
    by (simp add: s)
  have "gm_wf ?req" by (rule gm_wf_fold_val) simp
  note missing_members[OF this, of ms]
  also have "{missing_warning l s | l s asked. gm_get ?req l = Some asked \<and> (s, False) \<in> set asked \<and> \<not> found_in ms l s}
      = {missing_warning (tr_label tr) s | tr s. tr \<in> set trs \<and> s \<in> set (wanted extras perTR tr) \<and> \<not> found_in ms (tr_label tr) s}"
  proof -
    have "gm_get ?req k = Some a \<longleftrightarrow> (\<exists>tr. latest tr_label k trs = Some tr \<and> a = asked_of (wanted extras perTR tr))" for k a
      by (auto simp: gm_get_fold_val split: option.split)
    then have "gm_get ?req k = Some a \<longleftrightarrow> (\<exists>tr. (tr \<in> set trs \<and> tr_label tr = k) \<and> a = asked_of (wanted extras perTR tr))" for k a
      unfolding l .
    then show ?thesis by (fastforce simp: asked_of_set)
  qed
  finally show "set (snd (SelectMeasurements trs ms extras perTR)) =
      {missing_warning (tr_label tr) s | tr s. tr \<in> set trs \<and> s \<in> set (wanted extras perTR tr) \<and> \<not> found_in ms (tr_label tr) s}"
    by (simp add: s)
  show "sorted (snd (SelectMeasurements trs ms extras perTR))" by (simp add: s)
qed

text \<open>
  A report shows exactly the measurements that one of the execution's own SLAs or one of the
  requested metrics names (a bare name covers all percentiles), in their order; and it warns
  exactly about the requested metrics that the execution did not produce. The warnings are sorted,
  so the iteration order of the maps does not show.
\<close>

theorem SelectMeasurements_exact:
  assumes "distinct (map tr_label trs)"
  shows "fst (SelectMeasurements trs ms extras perTR) =
      filter (\<lambda>m. \<exists>tr \<in> set trs. tr_label tr = measurement_label m \<and>
        (\<exists>d \<in> set (tr_SLAs tr) \<union> selector_sla ` set (wanted extras perTR tr). fits d m)) ms \<and>
    set (snd (SelectMeasurements trs ms extras perTR)) =
      {missing_warning (tr_label tr) s | tr s. tr \<in> set trs \<and> s \<in> set (wanted extras perTR tr) \<and> \<not> found_in ms (tr_label tr) s} \<and>
    sorted (snd (SelectMeasurements trs ms extras perTR))"
  using SelectMeasurements_parts[OF assms] by blast

lemma select_one:
  "tr_label t = l \<Longrightarrow> fold (select_tr [s] []) [t] ([], []) = ([(l, tr_SLAs t @ [selector_sla s])], [(l, [(s, False)])])"
  by (simp add: select_tr_def gm_set_def Let_def)

theorem SelectMeasurements_exact_witness:
  "snd (SelectMeasurements [zero_test_requirement\<lparr>tr_ID := ''t''\<rparr>] [] [''iops@p99''] []) =
    [missing_warning ''t'' ''iops@p99'']"
proof -
  let ?trs = "[zero_test_requirement\<lparr>tr_ID := ''t''\<rparr>]"
  have l: "tr_label (zero_test_requirement\<lparr>tr_ID := ''t''\<rparr>) = ''t''"
    by (simp add: tr_label_def ExecutionLabel_def zero_test_requirement_def)
  have d: "distinct (map tr_label ?trs)" by simp
  have "length (snd (SelectMeasurements ?trs [] [''iops@p99''] [])) = 1"
    unfolding SelectMeasurements_def select_one[OF l] by simp
  then obtain x where x: "snd (SelectMeasurements ?trs [] [''iops@p99''] []) = [x]" unfolding One_nat_def length_Suc_conv by blast
  let ?t = "zero_test_requirement\<lparr>tr_ID := ''t''\<rparr>"
  have w: "''iops@p99'' \<in> set (wanted [''iops@p99''] [] ?t)" by (simp add: wanted_def)
  have f: "\<not> found_in [] (tr_label ?t) ''iops@p99''" by (simp add: found_in_def)
  have "missing_warning (tr_label ?t) ''iops@p99'' \<in> set (snd (SelectMeasurements ?trs [] [''iops@p99''] []))"
    unfolding SelectMeasurements_exact[OF d, THEN conjunct2, THEN conjunct1]
    by (rule CollectI, rule exI[of _ ?t], rule exI[of _ "''iops@p99''"], intro conjI w f) simp_all
  then show ?thesis unfolding x l by simp
qed

end
