(* ===== verification/Orchestrator.thy ===== *)
theory Orchestrator
  imports Pipeline Measurements Report_Merge
begin

text \<open>
  \<open>Run\<close> of \<open>internal/orchestrator/orchestrator.go\<close>: the shared state of a run, the callbacks it
  installs in the run context, and its phases. The world of the stages is the record \<open>orch\<close>, the
  variables the closures of \<open>Run\<close> share together with what is outside the process. The jobs run in
  the order \<open>ro_schedule\<close> gives; which orders are possible is the subject of theory Scheduler, and
  the mutexes make each callback one step.
\<close>

section \<open>State\<close>

record 'w orch =
  o_ext :: 'w
  o_verdicts :: "verdict list"
  o_measurements :: "measurement list"
  o_selections :: "storage_selection list"
  o_states :: "(string, run_execution) gomap"
  o_incidents :: "incident list"
  o_progress :: progress

text \<open>What a run gets from outside: clock, cancellation, the callbacks set by the caller.\<close>

record 'w run_opts =
  ro_ctxErr :: "'w \<Rightarrow> ctx_err option"
  ro_deadline :: "'w \<Rightarrow> 'w \<Rightarrow> ctx_err option"
  ro_since :: "'w \<Rightarrow> 'w \<Rightarrow> f64"
  ro_now :: "'w \<Rightarrow> string"
  ro_mkdir :: "string \<Rightarrow> 'w \<Rightarrow> string option \<times> 'w"
  ro_cwd :: "string option"
  ro_Checkpoint :: "(report \<Rightarrow> 'w \<Rightarrow> 'w) option"
  ro_RecordIncident :: "(incident \<Rightarrow> 'w \<Rightarrow> 'w) option"
  ro_RecordStorageSelection :: "(storage_selection \<Rightarrow> 'w \<Rightarrow> 'w) option"
  ro_SetStage :: "(string \<Rightarrow> test_requirement list \<Rightarrow> 'w \<Rightarrow> 'w) option"
  ro_RecordArtifacts :: "(test_requirement list \<Rightarrow> string list \<Rightarrow> 'w \<Rightarrow> 'w) option"
  ro_mapOrder :: map_order
  ro_schedule :: "job list \<Rightarrow> job list"

text \<open>What the closures of one run read.\<close>

record run_env =
  re_cfg :: config
  re_selected :: "test_requirement list"
  re_prov :: provenance
  re_schema :: string
  re_rc :: run_ctx
  re_startedAt :: string

definition on_ext :: "('a \<Rightarrow> 'w \<Rightarrow> 'w) option \<Rightarrow> 'a \<Rightarrow> 'w orch \<Rightarrow> 'w orch" where
  "on_ext f x s = (case f of None \<Rightarrow> s | Some g \<Rightarrow> s\<lparr>o_ext := g x (o_ext s)\<rparr>)"

section \<open>Snapshots\<close>

definition levelOf :: "test_requirement list \<Rightarrow> string \<Rightarrow> int" where
  "levelOf selected i =
     (case gm_get (fold (\<lambda>tr. gm_set (tr_ID tr) (tr_PartnerLevel tr)) selected []) i of Some l \<Rightarrow> l | None \<Rightarrow> 0)"

definition stamp_verdicts :: "run_env \<Rightarrow> verdict list \<Rightarrow> verdict list" where
  "stamp_verdicts re vs =
     map (\<lambda>v. v\<lparr>v_Level := levelOf (re_selected re) (v_TR v), v_Scenario := cf_Scenario (re_cfg re)\<rparr>) vs"

definition stamp_measurements :: "run_env \<Rightarrow> measurement list \<Rightarrow> measurement list" where
  "stamp_measurements re ms =
     map (\<lambda>m. m\<lparr>me_Level := levelOf (re_selected re) (me_TR m), me_Scenario := cf_Scenario (re_cfg re)\<rparr>) ms"

definition partKind :: "run_ctx \<Rightarrow> string" where
  "partKind rc = (if rc_PartKind rc = [] then ''initial'' else rc_PartKind rc)"

definition checkpointSnapshot :: "'w run_opts \<Rightarrow> run_env \<Rightarrow> run_status \<Rightarrow> 'w orch \<Rightarrow> report" where
  "checkpointSnapshot ro re status s =
     (let vs = stamp_verdicts re (o_verdicts s);
          ms = stamp_measurements re (o_measurements s);
          (shown, warnings) = SelectMeasurements (re_selected re) ms (cf_ExtraMetrics (re_cfg re)) (cf_ReportMetrics (re_cfg re))
      in RefreshLifecycle ((Build (rc_RunID (re_rc re)) (re_schema re) (re_prov re) vs)
           \<lparr> r_StorageSelections := sort_key (\<lambda>x. ExecutionLabel (ss_TR x) (ss_Variant x)) (o_selections s),
             r_Status := status,
             r_Composition := \<lparr> cp_PartsCount = 1,
               cp_Parts = [zero_run_part\<lparr>pt_PartID := rc_RunID (re_rc re), pt_Kind := partKind (re_rc re),
                                         pt_StartedAt := re_startedAt re, pt_Status := status\<rparr>] \<rparr>,
             r_Executions := sort_key (\<lambda>e. (ex_TR e, ex_Variant e)) (map snd (ro_mapOrder ro (o_states s))),
             r_Incidents := o_incidents s,
             r_Measurements := shown,
             r_Warnings := warnings \<rparr>))"

definition checkpoint :: "'w run_opts \<Rightarrow> run_env \<Rightarrow> run_status \<Rightarrow> 'w orch \<Rightarrow> 'w orch" where
  "checkpoint ro re status s = on_ext (ro_Checkpoint ro) (checkpointSnapshot ro re status s) s"

section \<open>Callbacks\<close>

definition state_at :: "'w orch \<Rightarrow> string \<Rightarrow> run_execution" where
  "state_at s label = (case gm_get (o_states s) label of Some e \<Rightarrow> e | None \<Rightarrow> zero_run_execution)"

definition set_state :: "string \<Rightarrow> run_execution \<Rightarrow> 'w orch \<Rightarrow> 'w orch" where
  "set_state label e s = s\<lparr>o_states := gm_set label e (o_states s)\<rparr>"

definition recordIncident :: "incident \<Rightarrow> 'w orch \<Rightarrow> 'w orch" where
  "recordIncident i s =
     (let i1 = (if inc_ID i = [] then i\<lparr>inc_ID := ''incident-'' @ show_pad 3 (length (o_incidents s) + 1)\<rparr> else i)
      in s\<lparr>o_incidents := o_incidents s @ [i1]\<rparr>)"

definition rc_RecordIncident :: "'w run_opts \<Rightarrow> incident \<Rightarrow> 'w orch \<Rightarrow> 'w orch" where
  "rc_RecordIncident ro i s = on_ext (ro_RecordIncident ro) i (recordIncident i s)"

definition rc_RecordStorageSelection :: "'w run_opts \<Rightarrow> run_env \<Rightarrow> storage_selection \<Rightarrow> 'w orch \<Rightarrow> 'w orch" where
  "rc_RecordStorageSelection ro re x s =
     (let x1 = x\<lparr>ss_Scenario := cf_Scenario (re_cfg re)\<rparr>
      in on_ext (ro_RecordStorageSelection ro) x1 (s\<lparr>o_selections := o_selections s @ [x1]\<rparr>))"

definition rc_SetStage :: "'w run_opts \<Rightarrow> run_env \<Rightarrow> string \<Rightarrow> test_requirement list \<Rightarrow> 'w orch \<Rightarrow> 'w orch" where
  "rc_SetStage ro re stage trs s =
     (let s1 = fold (\<lambda>tr s. set_state (tr_label tr) ((state_at s (tr_label tr))\<lparr>ex_Stage := stage\<rparr>) s) trs s;
          s2 = checkpoint ro re RunStatusRunning s1
      in on_ext (map_option (\<lambda>f (st, ts). f st ts) (ro_SetStage ro)) (stage, trs) s2)"

definition rc_RecordArtifacts :: "'w run_opts \<Rightarrow> run_env \<Rightarrow> test_requirement list \<Rightarrow> string list \<Rightarrow> 'w orch \<Rightarrow> 'w orch" where
  "rc_RecordArtifacts ro re trs refs s =
     (let (rel, dropped) = relativeTo (ro_cwd ro) (rc_WorkDir (re_rc re)) refs;
          s1 = (if rel \<noteq> [] then
                  checkpoint ro re RunStatusRunning
                    (fold (\<lambda>tr s. set_state (tr_label tr)
                        ((state_at s (tr_label tr))\<lparr>ex_Artifacts := ex_Artifacts (state_at s (tr_label tr)) @ rel\<rparr>) s) trs s)
                else s)
      in on_ext (map_option (\<lambda>f (ts, rs). f ts rs) (ro_RecordArtifacts ro)) (trs, refs) s1)"

text \<open>\<open>progress.onStateChange\<close>; the tracker never reports a return to the queued state.\<close>

definition onStateChange :: "'w run_opts \<Rightarrow> run_env \<Rightarrow> progress_event \<Rightarrow> 'w orch \<Rightarrow> 'w orch" where
  "onStateChange ro re ev s =
     (case ev of (label, state, oc) \<Rightarrow>
        let e = state_at s label; now = ro_now ro (o_ext s);
            s1 = set_state label (case state of
                PQueued \<Rightarrow> e
              | PRunning \<Rightarrow> e\<lparr>ex_State := ExecutionRunning, ex_StartedAt := now\<rparr>
              | PComplete \<Rightarrow> e\<lparr>ex_State := ExecutionCompleted, ex_Outcome := oc, ex_Stage := ''complete'', ex_EndedAt := now\<rparr>
              | PAborted \<Rightarrow> e\<lparr>ex_State := ExecutionAborted, ex_Outcome := oc,
                               ex_Reason := ''run ended before execution completed'', ex_EndedAt := now\<rparr>) s
        in if state = PRunning then checkpoint ro re RunStatusRunning s1 else s1)"

definition track :: "'w run_opts \<Rightarrow> run_env \<Rightarrow> progress_op \<Rightarrow> 'w orch \<Rightarrow> 'w orch" where
  "track ro re q s =
     (case progress_do q (o_progress s) of
        (p, None) \<Rightarrow> s\<lparr>o_progress := p\<rparr>
      | (p, Some ev) \<Rightarrow> onStateChange ro re ev (s\<lparr>o_progress := p\<rparr>))"

text \<open>The environment the stages of a job see.\<close>

definition orch_env :: "'w run_opts \<Rightarrow> run_env \<Rightarrow> 'w orch job_env" where
  "orch_env ro re =
     \<lparr> je_ctxErr = (\<lambda>start now. ro_deadline ro (o_ext start) (o_ext now)),
       je_parentErr = (\<lambda>s. ro_ctxErr ro (o_ext s)),
       je_since = (\<lambda>start now. ro_since ro (o_ext start) (o_ext now)),
       je_SetStage = rc_SetStage ro re,
       je_RecordArtifacts = Some (rc_RecordArtifacts ro re),
       je_mkdir = (\<lambda>p s. case ro_mkdir ro p (o_ext s) of (e, w) \<Rightarrow> (e, s\<lparr>o_ext := w\<rparr>)),
       je_progress = track ro re \<rparr>"

section \<open>Phases\<close>

definition add_verdicts :: "verdict list \<Rightarrow> 'w orch \<Rightarrow> 'w orch" where
  "add_verdicts vs s = s\<lparr>o_verdicts := o_verdicts s @ vs\<rparr>"

definition missing_reason :: "string list \<Rightarrow> string" where
  "missing_reason missing = ''required param(s) not supplied and have no default: '' @ join_with '', '' missing
     @ '' (set them in the plan's overrides)''"

definition classify ::
  "'w orch registry \<Rightarrow> 'w run_opts \<Rightarrow> run_env \<Rightarrow> test_requirement \<Rightarrow> test_requirement list \<times> 'w orch \<Rightarrow> test_requirement list \<times> 'w orch" where
  "classify reg ro re tr st =
     (case st of (scorable, s) \<Rightarrow>
        if \<not> runnable reg tr then (scorable, track ro re (OpComplete tr OutcomeSkip) (add_verdicts (notScorable tr) s))
        else let missing = missingRequiredParams tr in
          if missing \<noteq> [] then
            (scorable, track ro re (OpComplete tr OutcomeError) (add_verdicts (errTR tr (missing_reason missing)) s))
          else (scorable @ [tr], s))"

definition settle_setup :: "'w run_opts \<Rightarrow> run_env \<Rightarrow> test_requirement \<Rightarrow> 'w orch \<Rightarrow> 'w orch" where
  "settle_setup ro re tr s =
     (if ro_ctxErr ro (o_ext s) \<noteq> None then track ro re (OpAbort tr OutcomeError) s
      else track ro re (OpComplete tr OutcomeError) s)"

text \<open>One scoped setup: the requirements still scorable, the setups that ran, the state.\<close>

definition setup_step ::
  "'w run_opts \<Rightarrow> run_env \<Rightarrow> 'w orch scoped_setup \<Rightarrow> test_requirement list \<times> 'w orch scoped_setup list \<times> 'w orch
   \<Rightarrow> test_requirement list \<times> 'w orch scoped_setup list \<times> 'w orch" where
  "setup_step ro re su st =
     (case st of (scorable, ready, s) \<Rightarrow>
        (case sp_Setup (su_provider su) (re_rc re) (su_trs su) (rc_SetStage ro re (''setup:'' @ su_label su) (su_trs su) s) of
           (Some err, s1) \<Rightarrow>
             (withoutTRs scorable (su_trs su), ready,
              fold (settle_setup ro re) (su_trs su)
                (add_verdicts (errTRs (su_trs su) (''setup ['' @ su_label su @ '']: '' @ err)) s1))
         | (None, s1) \<Rightarrow> (scorable, ready @ [su], s1)))"

definition teardown_setup :: "run_ctx \<Rightarrow> 'w orch scoped_setup \<Rightarrow> 'w orch \<Rightarrow> 'w orch" where
  "teardown_setup rc su s = snd (sp_Teardown (su_provider su) rc (su_trs su) s)"

definition run_job :: "'w orch registry \<Rightarrow> 'w run_opts \<Rightarrow> run_env \<Rightarrow> job \<Rightarrow> 'w orch \<Rightarrow> 'w orch" where
  "run_job reg ro re j s =
     (case runToolExecutions reg (orch_env ro re) (re_rc re) j s of
        ((vs, ms), s1) \<Rightarrow>
          checkpoint ro re RunStatusRunning
            (s1\<lparr>o_verdicts := o_verdicts s1 @ vs, o_measurements := o_measurements s1 @ ms\<rparr>))"

definition sort_results :: "run_env \<Rightarrow> 'w orch \<Rightarrow> 'w orch" where
  "sort_results re s =
     s\<lparr>o_verdicts := stamp_verdicts re (sort_key (\<lambda>v. (v_TR v, v_Variant v, v_Item v)) (o_verdicts s)),
       o_measurements := stamp_measurements re
         (sort_key (\<lambda>m. (me_TR m, me_Variant m, me_Name m, me_Percentile m)) (o_measurements s))\<rparr>"

text \<open>Executions still marked as running are aborted; whether every execution then is terminal.\<close>

definition abort_running :: "string \<Rightarrow> run_execution \<Rightarrow> run_execution" where
  "abort_running now e =
     (if ex_State e = ExecutionRunning then
        e\<lparr>ex_State := ExecutionAborted, ex_Reason := ''run ended before execution completed'', ex_EndedAt := now\<rparr>
      else e)"

definition terminal :: "run_execution \<Rightarrow> bool" where
  "terminal e \<longleftrightarrow> ex_State e = ExecutionCompleted \<or> ex_State e = ExecutionAborted"

definition end_states :: "'w run_opts \<Rightarrow> 'w orch \<Rightarrow> 'w orch" where
  "end_states ro s = s\<lparr>o_states := map (\<lambda>(l, e). (l, abort_running (ro_now ro (o_ext s)) e)) (o_states s)\<rparr>"

text \<open>The status, its reason and the incident that records it.\<close>

definition end_of_run :: "'w run_opts \<Rightarrow> 'w orch \<Rightarrow> run_status \<times> string \<times> 'w orch" where
  "end_of_run ro s =
     (case ro_ctxErr ro (o_ext s) of
        Some c \<Rightarrow> (RunStatusPartial, ctx_text c,
           recordIncident (zero_incident\<lparr>inc_ID := ''run-cancelled'', inc_Type := ''cancellation'', inc_Severity := ''error'',
             inc_Message := ctx_text c, inc_StartedAt := ro_now ro (o_ext s), inc_BlocksCertification := True,
             inc_Impact := ''run did not complete all selected executions''\<rparr>) s)
      | None \<Rightarrow>
          (if \<not> list_all (\<lambda>(l, e). terminal e) (o_states s) then
             (RunStatusPartial, ''run ended with queued executions'',
              recordIncident (zero_incident\<lparr>inc_ID := ''run-incomplete'', inc_Type := ''incomplete'', inc_Severity := ''error'',
                inc_Message := ''run ended with queued executions'', inc_BlocksCertification := True,
                inc_Impact := ''selected executions were not completed''\<rparr>) s)
           else (RunStatusComplete, [], s)))"

definition finish :: "'w run_opts \<Rightarrow> run_env \<Rightarrow> 'w orch \<Rightarrow> report" where
  "finish ro re s =
     (let now = ro_now ro (o_ext s);
          (status, reason, s1) = end_of_run ro (end_states ro s)
      in Finalize now (checkpointSnapshot ro re status s1) status reason now)"

definition initial_orch :: "run_env \<Rightarrow> 'w \<Rightarrow> 'w orch" where
  "initial_orch re w =
     \<lparr> o_ext = w, o_verdicts = [], o_measurements = [], o_selections = [],
       o_states = fold (\<lambda>tr. gm_set (tr_label tr) (zero_run_execution\<lparr>ex_TR := tr_ID tr, ex_Variant := tr_Variant tr,
                     ex_Scenario := cf_Scenario (re_cfg re), ex_State := ExecutionQueued\<rparr>)) (re_selected re) [],
       o_incidents = [], o_progress = newProgressTracker (re_selected re) \<rparr>"

text \<open>Everything after the selection: the report and the world after the deferred teardowns.\<close>

definition run_phases :: "'w orch registry \<Rightarrow> 'w run_opts \<Rightarrow> run_env \<Rightarrow> 'w \<Rightarrow> report \<times> 'w orch" where
  "run_phases reg ro re w =
     (let s0 = checkpoint ro re RunStatusRunning (initial_orch re w);
          (scorable, s1) = fold (classify reg ro re) (re_selected re) ([], s0);
          s2 = checkpoint ro re RunStatusRunning s1;
          (scorable1, ready, s3) = fold (setup_step ro re) (activeSetups reg scorable) (scorable, [], s2);
          s4 = checkpoint ro re RunStatusRunning s3;
          jobs = groupByTool reg scorable1 (cf_Scheduling (re_cfg re));
          s5 = fold (run_job reg ro re) (ro_schedule ro jobs) s4;
          rep = finish ro re (sort_results re s5)
      in (rep, fold (teardown_setup (re_rc re)) (rev ready) (sort_results re s5)))"

definition Run ::
  "'w orch registry \<Rightarrow> 'w run_opts \<Rightarrow> config \<Rightarrow> test_requirement list \<Rightarrow> provenance \<Rightarrow> string \<Rightarrow> run_ctx \<Rightarrow> 'w
   \<Rightarrow> (string + report) \<times> 'w" where
  "Run reg ro cfg trs prov schemaVersion rc w =
     (case ResolveExecutions trs cfg of
        Inl err \<Rightarrow> (Inl err, w)
      | Inr selected \<Rightarrow>
          (let re = \<lparr> re_cfg = cfg, re_selected = selected, re_prov = prov, re_schema = schemaVersion, re_rc = rc,
                      re_startedAt = ro_now ro w \<rparr>;
               (rep, s) = run_phases reg ro re w
           in (Inr rep, o_ext s)))"


section \<open>What the callbacks leave alone\<close>

definition labels :: "run_env \<Rightarrow> string set" where
  "labels re = tr_label ` set (re_selected re)"

definition keys_of :: "'w orch \<Rightarrow> string set" where
  "keys_of s = fst ` set (o_states s)"

text \<open>The rows of the execution table keep their identity and state; results and tracker are not touched.\<close>

definition keeps :: "run_env \<Rightarrow> 'w orch \<Rightarrow> 'w orch \<Rightarrow> bool" where
  "keeps re s s' \<longleftrightarrow> o_verdicts s' = o_verdicts s \<and> o_measurements s' = o_measurements s \<and> o_progress s' = o_progress s \<and>
     (gm_wf (o_states s) \<longrightarrow> gm_wf (o_states s')) \<and>
     (labels re \<subseteq> keys_of s \<longrightarrow> keys_of s' = keys_of s) \<and>
     (\<forall>l. ex_State (state_at s' l) = ex_State (state_at s l) \<and> ex_TR (state_at s' l) = ex_TR (state_at s l) \<and>
          ex_Variant (state_at s' l) = ex_Variant (state_at s l))"

lemma keeps_refl [simp]: "keeps re s s"
  by (simp add: keeps_def)

lemma keeps_trans: "keeps re s1 s2 \<Longrightarrow> keeps re s2 s3 \<Longrightarrow> keeps re s1 s3"
  by (simp add: keeps_def)

lemma on_ext_simps [simp]:
  "o_verdicts (on_ext f x s) = o_verdicts s" "o_measurements (on_ext f x s) = o_measurements s"
  "o_progress (on_ext f x s) = o_progress s" "o_states (on_ext f x s) = o_states s"
  "o_incidents (on_ext f x s) = o_incidents s" "o_selections (on_ext f x s) = o_selections s"
  by (simp_all add: on_ext_def split: option.split)

lemma checkpoint_simps [simp]:
  "o_verdicts (checkpoint ro re st s) = o_verdicts s" "o_measurements (checkpoint ro re st s) = o_measurements s"
  "o_progress (checkpoint ro re st s) = o_progress s" "o_states (checkpoint ro re st s) = o_states s"
  by (simp_all add: checkpoint_def)

lemma set_state_simps [simp]:
  "o_verdicts (set_state l e s) = o_verdicts s" "o_measurements (set_state l e s) = o_measurements s"
  "o_progress (set_state l e s) = o_progress s" "o_states (set_state l e s) = gm_set l e (o_states s)"
  "o_ext (set_state l e s) = o_ext s"
  by (simp_all add: set_state_def)

lemma state_at_set [simp]: "state_at (set_state l e s) k = (if k = l then e else state_at s k)"
  by (simp add: state_at_def)

lemma state_at_states: "o_states s' = o_states s \<Longrightarrow> state_at s' = state_at s"
  by (simp add: state_at_def fun_eq_iff)

lemma keeps_states: "o_states s' = o_states s \<Longrightarrow> o_verdicts s' = o_verdicts s \<Longrightarrow> o_measurements s' = o_measurements s \<Longrightarrow>
    o_progress s' = o_progress s \<Longrightarrow> keeps re s s'"
  using state_at_states[of s' s] by (simp add: keeps_def keys_of_def)

lemma keeps_set_state:
  assumes "l \<in> labels re" and "ex_State e = ex_State (state_at s l)" and "ex_TR e = ex_TR (state_at s l)" and "ex_Variant e = ex_Variant (state_at s l)"
  shows "keeps re s (set_state l e s)"
proof -
  have "insert l (keys_of s) = keys_of s" if "labels re \<subseteq> keys_of s" using that assms(1) by blast
  then show ?thesis using assms(2-4) by (simp add: keeps_def keys_of_def)
qed

lemma keeps_fold:
  assumes "\<And>tr s. tr \<in> set trs \<Longrightarrow> keeps re s (f tr s)"
  shows "keeps re s (fold f trs s)"
  using assms by (induction trs arbitrary: s) (auto intro: keeps_trans)

interpretation job_frame: stage_frame "keeps re" "orch_env ro re" "\<lambda>tr. tr \<in> set (re_selected re)" for ro re
proof
  show "keeps re w w" for w by simp
  show "keeps re w1 w3" if "keeps re w1 w2" "keeps re w2 w3" for w1 w2 w3 using keeps_trans[OF that] .
  fix trs :: "test_requirement list" and w :: "'a orch" and st
  assume o: "\<forall>tr \<in> set trs. tr \<in> set (re_selected re)"
  have "keeps re w (fold (\<lambda>tr s. set_state (tr_label tr) ((state_at s (tr_label tr))\<lparr>ex_Stage := st\<rparr>) s) trs w)"
    using o by (intro keeps_fold keeps_set_state) (auto simp: labels_def)
  then show "keeps re w (je_SetStage (orch_env ro re) st trs w)"
    unfolding orch_env_def job_env.select_convs rc_SetStage_def Let_def
    by (rule keeps_trans[OF _ keeps_states]) simp_all
next
  fix f trs refs and w :: "'a orch"
  assume f: "je_RecordArtifacts (orch_env ro re) = Some f" and o: "\<forall>tr \<in> set trs. tr \<in> set (re_selected re)"
  obtain rel dropped where r: "relativeTo (ro_cwd ro) (rc_WorkDir (re_rc re)) refs = (rel, dropped)" by (metis prod.collapse)
  have "keeps re w (fold (\<lambda>tr s. set_state (tr_label tr)
      ((state_at s (tr_label tr))\<lparr>ex_Artifacts := ex_Artifacts (state_at s (tr_label tr)) @ rel\<rparr>) s) trs w)"
    using o by (intro keeps_fold keeps_set_state) (auto simp: labels_def)
  then have "keeps re w (if rel \<noteq> [] then checkpoint ro re RunStatusRunning (fold (\<lambda>tr s. set_state (tr_label tr)
      ((state_at s (tr_label tr))\<lparr>ex_Artifacts := ex_Artifacts (state_at s (tr_label tr)) @ rel\<rparr>) s) trs w) else w)"
    by (auto intro: keeps_trans[OF _ keeps_states])
  then show "keeps re w (f trs refs w)"
    using f r by (auto simp: orch_env_def rc_RecordArtifacts_def Let_def intro: keeps_trans[OF _ keeps_states])
next
  show "keeps re w (snd (je_mkdir (orch_env ro re) p w))" for p and w :: "'a orch"
    by (rule keeps_states) (simp_all add: orch_env_def split: prod.split)
qed


section \<open>Tracked executions\<close>

fun exec_state_of :: "progress_state \<Rightarrow> exec_state" where
  "exec_state_of PQueued = ExecutionQueued"
| "exec_state_of PRunning = ExecutionRunning"
| "exec_state_of PComplete = ExecutionCompleted"
| "exec_state_of PAborted = ExecutionAborted"

definition row_ok :: "run_env \<Rightarrow> 'w orch \<Rightarrow> string \<Rightarrow> bool" where
  "row_ok re s l \<longleftrightarrow> ex_State (state_at s l) = exec_state_of (state_of (o_progress s) l) \<and>
     (\<exists>tr \<in> set (re_selected re). tr_label tr = l \<and> ex_TR (state_at s l) = tr_ID tr \<and> ex_Variant (state_at s l) = tr_Variant tr)"

definition synced :: "run_env \<Rightarrow> 'w orch \<Rightarrow> bool" where
  "synced re s \<longleftrightarrow> gm_wf (o_states s) \<and> keys_of s = labels re \<and> (\<forall>l \<in> labels re. row_ok re s l)"

definition settled :: "'w orch \<Rightarrow> string \<Rightarrow> bool" where
  "settled s l \<longleftrightarrow> state_of (o_progress s) l = PComplete \<or> state_of (o_progress s) l = PAborted"

definition advances :: "run_env \<Rightarrow> 'w orch \<Rightarrow> 'w orch \<Rightarrow> bool" where
  "advances re s s' \<longleftrightarrow> (synced re s \<longrightarrow> synced re s') \<and> (\<forall>l. settled s l \<longrightarrow> settled s' l) \<and> set (o_verdicts s) \<subseteq> set (o_verdicts s')"

lemma advances_refl [simp]: "advances re s s"
  by (simp add: advances_def)

lemma advances_trans: "advances re s1 s2 \<Longrightarrow> advances re s2 s3 \<Longrightarrow> advances re s1 s3"
  by (auto simp: advances_def)

lemma advances_settled: "advances re s s' \<Longrightarrow> settled s l \<Longrightarrow> settled s' l"
  by (simp add: advances_def)

lemma keeps_advances: "keeps re s s' \<Longrightarrow> advances re s s'"
proof -
  assume k: "keeps re s s'"
  have "row_ok re s' l" if "row_ok re s l" for l using that k by (simp add: row_ok_def keeps_def)
  then show ?thesis using k by (simp add: advances_def synced_def settled_def keeps_def)
qed

lemma advances_results: "o_states s' = o_states s \<Longrightarrow> o_progress s' = o_progress s \<Longrightarrow>
    set (o_verdicts s) \<subseteq> set (o_verdicts s') \<Longrightarrow> advances re s s'"
  using state_at_states[of s' s] by (simp add: advances_def synced_def settled_def keys_of_def row_ok_def)

lemma advances_checkpoint [simp]: "advances re s (checkpoint ro re st s)"
  by (rule advances_results) simp_all

lemma advances_add_verdicts [simp]: "advances re s (add_verdicts vs s)"
  by (rule advances_results) (auto simp: add_verdicts_def)

lemma onStateChange_simps:
  "o_progress (onStateChange ro re ev s) = o_progress s" "o_verdicts (onStateChange ro re ev s) = o_verdicts s"
  by (cases ev; simp add: onStateChange_def Let_def)+

lemma onStateChange_states:
  "\<exists>e. o_states (onStateChange ro re (l, st, oc) s) = gm_set l e (o_states s) \<and>
     (st \<noteq> PQueued \<longrightarrow> ex_State e = exec_state_of st) \<and> ex_TR e = ex_TR (state_at s l) \<and> ex_Variant e = ex_Variant (state_at s l)"
  by (cases st) (auto simp: onStateChange_def Let_def)

lemma track_progress: "o_progress (track ro re q s) = fst (progress_do q (o_progress s))"
  by (simp add: track_def onStateChange_simps split: prod.split option.split)

lemma track_verdicts [simp]: "o_verdicts (track ro re q s) = o_verdicts s"
  by (simp add: track_def onStateChange_simps split: prod.split option.split)

lemma track_states:
  "o_states (track ro re q s) = o_states s \<and> \<not> enabled q (state_of (o_progress s) (op_label q)) \<or>
   (\<exists>e. o_states (track ro re q s) = gm_set (op_label q) e (o_states s) \<and> enabled q (state_of (o_progress s) (op_label q)) \<and>
      ex_State e = exec_state_of (fst (target q)) \<and> ex_TR e = ex_TR (state_at s (op_label q)) \<and> ex_Variant e = ex_Variant (state_at s (op_label q)))"
proof -
  have t: "fst (target q) \<noteq> PQueued" by (cases q) (simp_all add: target_def)
  obtain p where p: "progress_do q (o_progress s) = (p, if enabled q (state_of (o_progress s) (op_label q)) then Some (op_label q, target q) else None)"
    using progress_do_event[of q "o_progress s"] by (metis prod.collapse)
  have a: "state_at (s\<lparr>o_progress := p\<rparr>) = state_at s" by (rule state_at_states) simp
  show ?thesis
    using p a t onStateChange_states[of ro re "op_label q" "fst (target q)" "snd (target q)" "s\<lparr>o_progress := p\<rparr>"]
    by (auto simp: track_def)
qed

lemma track_synced:
  assumes "op_label q \<in> labels re" and "synced re s"
  shows "synced re (track ro re q s)"
proof -
  have st: "state_of (o_progress (track ro re q s)) l =
      (if enabled q (state_of (o_progress s) (op_label q)) \<and> l = op_label q then fst (target q) else state_of (o_progress s) l)" for l
    unfolding track_progress by (rule progress_do_state)
  from track_states[of ro re q s] show ?thesis
  proof (elim disjE exE conjE)
    assume o: "o_states (track ro re q s) = o_states s" and "\<not> enabled q (state_of (o_progress s) (op_label q))"
    then have "state_of (o_progress (track ro re q s)) l = state_of (o_progress s) l" for l using st by simp
    then show ?thesis using assms(2) state_at_states[OF o] by (simp add: synced_def keys_of_def o row_ok_def)
  next
    fix e
    assume o: "o_states (track ro re q s) = gm_set (op_label q) e (o_states s)" and en: "enabled q (state_of (o_progress s) (op_label q))"
      and e: "ex_State e = exec_state_of (fst (target q))" "ex_TR e = ex_TR (state_at s (op_label q))"
        "ex_Variant e = ex_Variant (state_at s (op_label q))"
    have at: "state_at (track ro re q s) l = (if l = op_label q then e else state_at s l)" for l
      by (simp add: state_at_def o)
    have r: "row_ok re s l" if "l \<in> labels re" for l using assms(2) that by (simp add: synced_def)
    have "row_ok re (track ro re q s) l" if "l \<in> labels re" for l
      using r[OF that] en e by (cases "l = op_label q") (simp_all add: row_ok_def at st)
    moreover have "keys_of (track ro re q s) = labels re" using assms by (auto simp: synced_def keys_of_def o)
    ultimately show ?thesis using assms(2) by (simp add: synced_def o)
  qed
qed

lemma track_settled_stays: "settled s l \<Longrightarrow> settled (track ro re q s) l"
  unfolding settled_def track_progress progress_do_state
  by (cases q) (auto simp: enabled_def target_def)

lemma track_advances: "op_label q \<in> labels re \<Longrightarrow> advances re s (track ro re q s)"
  by (simp add: advances_def track_synced track_settled_stays)

lemma track_settles: "fst (target q) = PComplete \<or> fst (target q) = PAborted \<Longrightarrow> settled (track ro re q s) (op_label q)"
  unfolding settled_def track_progress progress_do_state
  by (cases q) (auto simp: enabled_def target_def)

lemma target_simps [simp]:
  "fst (target (OpComplete tr oc)) = PComplete" "fst (target (OpAbort tr oc)) = PAborted" "fst (target (OpStart tr)) = PRunning"
  by (simp_all add: target_def)

lemma track_settles_label [simp]:
  "settled (track ro re (OpComplete tr oc) s) (tr_label tr)" "settled (track ro re (OpAbort tr oc) s) (tr_label tr)"
  using track_settles[of "OpComplete tr oc" ro re s] track_settles[of "OpAbort tr oc" ro re s] by simp_all

section \<open>Executions and jobs\<close>

text \<open>Every stage of every integration in use leaves the shared state alone except through the callbacks.\<close>

definition tools_keep :: "'w orch registry \<Rightarrow> run_env \<Rightarrow> bool" where
  "tools_keep reg re \<longleftrightarrow> (\<forall>tr ti. ResolveTool reg tr = Some ti \<longrightarrow> framed (keeps re) ti)"

lemma settle_advances:
  assumes "tr \<in> set (re_selected re)"
  shows "advances re s (settle (orch_env ro re) tr oc s)" and "settled (settle (orch_env ro re) tr oc s) (tr_label tr)"
proof -
  have l: "tr_label tr \<in> labels re" using assms by (simp add: labels_def)
  show "advances re s (settle (orch_env ro re) tr oc s)"
    using l by (simp add: settle_def orch_env_def track_advances)
  show "settled (settle (orch_env ro re) tr oc s) (tr_label tr)"
    by (simp add: settle_def orch_env_def)
qed

lemma execute_one_advances:
  assumes "tools_keep reg re" and "tr \<in> set (re_selected re)"
  shows "advances re s (snd (execute_one reg (orch_env ro re) limit rc tool tr s)) \<and>
    settled (snd (execute_one reg (orch_env ro re) limit rc tool tr s)) (tr_label tr)"
proof -
  let ?s1 = "track ro re (OpStart tr) s"
  obtain v m s2 where j: "runJobWithTimeout reg (orch_env ro re) limit rc tool [tr] ?s1 = ((v, m), s2)" by (metis prod.collapse)
  have "keeps re ?s1 s2"
    using job_frame.job_frame[where reg = reg and trs = "[tr]" and re = re and ro = ro and limit = limit and rc = rc and tool = tool
        and w = ?s1] assms j by (simp add: tools_keep_def)
  then have "advances re ?s1 s2" by (rule keeps_advances)
  moreover have "advances re s ?s1" using assms(2) by (intro track_advances) (simp add: labels_def)
  moreover have "snd (execute_one reg (orch_env ro re) limit rc tool tr s) = settle (orch_env ro re) tr (summarizeTR v tr) s2"
    using j by (simp add: execute_one_def orch_env_def)
  ultimately show ?thesis using settle_advances[OF assms(2), where s = s2 and ro = ro and oc = "summarizeTR v tr"] by (metis advances_trans)
qed

lemma execute_variant_advances:
  assumes "tools_keep reg re" and "tr \<in> set (re_selected re)"
  shows "advances re s (snd (execute_variant reg (orch_env ro re) limit rc tool tr s)) \<and>
    settled (snd (execute_variant reg (orch_env ro re) limit rc tool tr s)) (tr_label tr)"
proof -
  let ?dir = "variant_workdir (rc_WorkDir rc) tr"
  obtain e s1 where m: "je_mkdir (orch_env ro re) ?dir s = (e, s1)" by (metis prod.collapse)
  have a: "advances re s s1" using keeps_advances[OF job_frame.mkdir[where re = re and w = s and ro = ro and p = ?dir]] m by simp
  show ?thesis
  proof (cases e)
    case None
    then show ?thesis
      using execute_one_advances[OF assms, where s = s1 and ro = ro and limit = limit and rc = "rc\<lparr>rc_WorkDir := ?dir\<rparr>" and tool = tool] a m advances_trans
      by (auto simp: execute_variant_def Let_def)
  next
    case (Some err)
    then show ?thesis
      using settle_advances[OF assms(2), where s = s1 and ro = ro and oc = OutcomeError] a m advances_trans
      by (auto simp: execute_variant_def Let_def)
  qed
qed

lemma run_all_advances:
  assumes "\<And>tr s. tr \<in> set trs \<Longrightarrow> advances re s (snd (one tr s)) \<and> settled (snd (one tr s)) (tr_label tr)"
  shows "advances re s (snd (run_all one trs s)) \<and> (\<forall>tr \<in> set trs. settled (snd (run_all one trs s)) (tr_label tr))"
  using assms
proof (induction trs arbitrary: s)
  case Nil
  then show ?case by simp
next
  case (Cons tr trs)
  obtain v m s1 where o: "one tr s = ((v, m), s1)" by (metis prod.collapse)
  obtain vs ms s2 where r: "run_all one trs s1 = ((vs, ms), s2)" by (metis prod.collapse)
  have h: "advances re s s1" "settled s1 (tr_label tr)" using Cons.prems[of tr s] o by simp_all
  have t: "advances re s1 s2" "\<forall>tr \<in> set trs. settled s2 (tr_label tr)"
    using Cons.IH[of s1] Cons.prems r by (metis list.set_intros(2) snd_conv)+
  have "snd (run_all one (tr # trs) s) = s2" using o r by simp
  then show ?case using h t advances_trans[OF h(1) t(1)] advances_settled[OF t(1) h(2)] by simp
qed

lemma executions_advance:
  assumes "tools_keep reg re" and "set (j_trs j) \<subseteq> set (re_selected re)"
  shows "advances re s (snd (runToolExecutions reg (orch_env ro re) rc j s)) \<and>
    (\<forall>tr \<in> set (j_trs j). settled (snd (runToolExecutions reg (orch_env ro re) rc j s)) (tr_label tr))"
proof -
  let ?o = "filter (\<lambda>tr. tr_Variant tr = []) (j_trs j)" and ?v = "filter (\<lambda>tr. tr_Variant tr \<noteq> []) (j_trs j)"
  let ?one = "execute_one reg (orch_env ro re) ''2h0m0s'' rc (j_tool j)" and ?var = "execute_variant reg (orch_env ro re) ''2h0m0s'' rc (j_tool j)"
  obtain vs ms s1 where r1: "run_all ?one ?o s = ((vs, ms), s1)" by (metis prod.collapse)
  obtain vs2 ms2 s2 where r2: "run_all ?var ?v s1 = ((vs2, ms2), s2)" by (metis prod.collapse)
  have a1: "advances re s s1 \<and> (\<forall>tr \<in> set ?o. settled s1 (tr_label tr))"
    using run_all_advances[of ?o re ?one s, OF execute_one_advances[OF assms(1)]] assms(2) r1 by auto
  have a2: "advances re s1 s2 \<and> (\<forall>tr \<in> set ?v. settled s2 (tr_label tr))"
    using run_all_advances[of ?v re ?var s1, OF execute_variant_advances[OF assms(1)]] assms(2) r2 by auto
  have "snd (runToolExecutions reg (orch_env ro re) rc j s) = s2"
    using r1 r2 by (simp add: runToolExecutions_def runToolExecutionsWithTimeout_def Let_def)
  moreover have "settled s2 (tr_label tr)" if "tr \<in> set (j_trs j)" for tr
    using that a1 a2 advances_settled[of re s1 s2] by (cases "tr_Variant tr = []") auto
  ultimately show ?thesis using a1 a2 advances_trans by blast
qed


section \<open>Phases of a run\<close>

text \<open>
  What a list of verdicts says of a requirement: every item has one, or the tool has an evaluator
  of its own for it and all that this made of a result of the requirement is there.
\<close>

definition judgement :: "verdict \<Rightarrow> string \<times> string \<times> string \<times> outcome \<times> string" where
  "judgement v = (v_TR v, v_Variant v, v_Item v, v_Outcome v, v_Reason v)"

definition answered :: "'w registry \<Rightarrow> test_requirement \<Rightarrow> verdict list \<Rightarrow> bool" where
  "answered reg tr vs \<longleftrightarrow>
     (\<forall>i \<in> set (item_names tr). \<exists>v \<in> set vs. v_TR v = tr_ID tr \<and> v_Variant v = tr_Variant tr \<and> v_Item v = i) \<or>
     (\<exists>ti ev res. ResolveTool reg tr = Some ti \<and> gm_get (ti_Evaluators ti) (tr_ID tr) = Some (Some ev) \<and> res_TRID res = tr_ID tr \<and>
        (\<forall>v \<in> set (GradeTR tr res (ti_Evaluators ti)). \<exists>u \<in> set vs. judgement u = judgement (v\<lparr>v_Variant := tr_Variant tr\<rparr>)))"

lemma judgement_key: "judgement u = judgement v \<Longrightarrow> v_TR u = v_TR v \<and> v_Variant u = v_Variant v \<and> v_Item u = v_Item v"
  by (simp add: judgement_def)

lemma answered_mono:
  assumes "answered reg tr vs" and "judgement ` set vs \<subseteq> judgement ` set vs'"
  shows "answered reg tr vs'"
proof -
  have u: "\<exists>u \<in> set vs'. judgement u = judgement v" if "v \<in> set vs" for v
  proof -
    from that assms(2) have "judgement v \<in> judgement ` set vs'" by blast
    then show ?thesis by (metis imageE)
  qed
  show ?thesis using assms(1) unfolding answered_def
  proof (elim disjE, goal_cases)
    case 1
    then show ?case using u judgement_key by metis
  next
    case 2
    then show ?case using u by metis
  qed
qed

lemma judgement_stamp [simp]: "judgement (v\<lparr>v_DurationS := d\<rparr>) = judgement v"
  by (simp add: judgement_def)

lemma judgement_undated: "undated vs = undated us \<Longrightarrow> judgement ` set vs = judgement ` set us"
proof -
  have j: "map judgement (undated xs) = map judgement xs" for xs by (simp add: stamp_duration_def comp_def)
  assume "undated vs = undated us"
  then have "map judgement vs = map judgement us" using j by metis
  then show ?thesis by (metis set_map)
qed

lemma scored_answered: "scored tr vs \<Longrightarrow> answered reg tr vs"
  unfolding answered_def scored_def by (intro disjI1 ballI) (metis (no_types, lifting) imageE list.set_map)

lemma answered_items: "answered reg tr (itemVerdicts tr oc reason)"
proof (cases "item_names tr = []")
  case False
  then have "map v_Item (itemVerdicts tr oc reason) = item_names tr"
    "\<forall>v \<in> set (itemVerdicts tr oc reason). v_TR v = tr_ID tr \<and> v_Variant v = tr_Variant tr" by (simp_all add: itemVerdicts_items comp_def)
  then show ?thesis unfolding answered_def by (intro disjI1 ballI) (metis (no_types, lifting) imageE list.set_map)
qed (simp add: answered_def)

lemma accounted_answered:
  assumes "accounted_by reg tr vs"
  shows "answered reg tr vs"
proof -
  have "answered reg tr us" if "undated us = undated vs" "answered reg tr vs" for us vs
    using answered_mono[OF that(2)] judgement_undated[OF that(1)] by simp
  moreover have "answered reg tr (map (\<lambda>v. v\<lparr>v_Variant := tr_Variant tr\<rparr>) (GradeTR tr res (ti_Evaluators ti)))"
    if t: "ResolveTool reg tr = Some ti" "res_TRID res = tr_ID tr" for ti res
  proof (cases "builtin_only ti tr")
    case True
    from scored_graded[OF this] show ?thesis by (rule scored_answered)
  next
    case False
    then obtain ev where "gm_get (ti_Evaluators ti) (tr_ID tr) = Some (Some ev)" by (auto simp: builtin_only_def)
    with t show ?thesis unfolding answered_def by (intro disjI2 exI[of _ ti] exI[of _ ev] exI[of _ res]) auto
  qed
  ultimately show ?thesis using assms answered_items unfolding accounted_by_def by metis
qed

definition covered :: "'w orch registry \<Rightarrow> 'w orch \<Rightarrow> test_requirement \<Rightarrow> bool" where
  "covered reg s tr \<longleftrightarrow> answered reg tr (o_verdicts s)"

definition handled :: "'w orch registry \<Rightarrow> 'w orch \<Rightarrow> test_requirement \<Rightarrow> bool" where
  "handled reg s tr \<longleftrightarrow> settled s (tr_label tr) \<and> covered reg s tr"

lemma covered_mono: "covered reg s tr \<Longrightarrow> set (o_verdicts s) \<subseteq> set (o_verdicts s') \<Longrightarrow> covered reg s' tr"
  unfolding covered_def by (erule answered_mono) blast

lemma advances_handled: "advances re s s' \<Longrightarrow> handled reg s tr \<Longrightarrow> handled reg s' tr"
  using covered_mono[of reg s tr s'] by (simp add: handled_def advances_def)

lemma covered_items: "set (itemVerdicts tr oc reason) \<subseteq> set (o_verdicts s) \<Longrightarrow> covered reg s tr"
  unfolding covered_def by (rule answered_mono[OF answered_items[of reg tr oc reason]]) blast

lemma covered_errTRs: "set (errTRs trs reason) \<subseteq> set (o_verdicts s) \<Longrightarrow> tr \<in> set trs \<Longrightarrow> covered reg s tr"
  by (rule covered_items[of tr OutcomeError reason]) (auto simp: errTRs_def errTR_def)

lemma add_verdicts_members [simp]: "set (o_verdicts (add_verdicts vs s)) = set (o_verdicts s) \<union> set vs"
  by (simp add: add_verdicts_def)

subsection \<open>Classification\<close>

lemma classify_step:
  assumes "tr \<in> set (re_selected re)" and "classify reg ro re tr (sc, s) = (sc', s')"
  shows "advances re s s'" and "set sc' \<subseteq> insert tr (set sc)" and "set sc \<subseteq> set sc'" and "tr \<in> set sc' \<or> handled reg s' tr"
proof -
  have l: "tr_label tr \<in> labels re" using assms(1) by (simp add: labels_def)
  have e: "advances re s (track ro re (OpComplete tr oc) (add_verdicts vs s))" for oc vs
    using l by (intro advances_trans[OF advances_add_verdicts track_advances]) simp
  have h: "handled reg (track ro re (OpComplete tr oc) (add_verdicts (itemVerdicts tr oc' reason) s)) tr" for oc oc' reason
    by (simp add: handled_def) (rule covered_items[of tr oc' reason], simp)
  show "advances re s s'" "set sc' \<subseteq> insert tr (set sc)" "set sc \<subseteq> set sc'" "tr \<in> set sc' \<or> handled reg s' tr"
    using assms(2) e h by (auto simp: classify_def Let_def notScorable_def errTR_def split: if_splits)
qed

lemma classify_fold:
  assumes "set trs \<subseteq> set (re_selected re)" and "fold (classify reg ro re) trs (sc, s) = (sc', s')"
  shows "advances re s s' \<and> set sc' \<subseteq> set sc \<union> set trs \<and> set sc \<subseteq> set sc' \<and> (\<forall>tr \<in> set trs. tr \<in> set sc' \<or> handled reg s' tr)"
  using assms
proof (induction trs arbitrary: sc s)
  case Nil
  then show ?case by simp
next
  case (Cons tr trs)
  obtain sc1 s1 where c: "classify reg ro re tr (sc, s) = (sc1, s1)" by (metis prod.collapse)
  have t: "tr \<in> set (re_selected re)" using Cons.prems(1) by simp
  note st = classify_step[OF t c]
  have i: "advances re s1 s' \<and> set sc' \<subseteq> set sc1 \<union> set trs \<and> set sc1 \<subseteq> set sc' \<and> (\<forall>tr \<in> set trs. tr \<in> set sc' \<or> handled reg s' tr)"
    using Cons.IH[of sc1 s1] Cons.prems c by simp
  have "tr \<in> set sc' \<or> handled reg s' tr" using st(4) i advances_handled[of re s1 s' reg tr] by blast
  moreover have "advances re s s'" using advances_trans[OF st(1)] i by blast
  moreover have "set sc' \<subseteq> set sc \<union> set (tr # trs)" "set sc \<subseteq> set sc'" using i st(2,3) by auto
  ultimately show ?case using i by simp
qed

subsection \<open>Setups\<close>

lemma gm_list_set: "gm_list (gm_set k v m) g = (if k = g then v else gm_list m g)"
  by (simp add: gm_list_def)

lemma gm_list_Nil [simp]: "gm_list [] g = []"
  by (simp add: gm_list_def)

lemma add_group_list:
  "gm_list (fst (fold (add_group_tr tr) gs (m, order))) g = gm_list m g @ replicate (count_list gs g) tr"
proof (induction gs arbitrary: m order)
  case (Cons x gs)
  have step: "fold (add_group_tr tr) (x # gs) (m, order) =
      fold (add_group_tr tr) gs (gm_set x (gm_list m x @ [tr]) m, if gm_has m x then order else order @ [x])"
    by (simp add: add_group_tr_def)
  show ?case unfolding step Cons.IH gm_list_set by simp
qed simp

lemma group_members:
  "set (gm_list (fst (fold (\<lambda>tr s. case ResolveTool reg tr of None \<Rightarrow> s
      | Some ti \<Rightarrow> fold (add_group_tr tr) (ti_SetupGroups ti) s) trs (m, order))) g) =
   set (gm_list m g) \<union> {tr \<in> set trs. \<exists>ti. ResolveTool reg tr = Some ti \<and> g \<in> set (ti_SetupGroups ti)}"
proof (induction trs arbitrary: m order)
  case (Cons tr trs)
  let ?in = "\<lambda>tr. \<exists>ti. ResolveTool reg tr = Some ti \<and> g \<in> set (ti_SetupGroups ti)"
  obtain m1 o1 where f: "(case ResolveTool reg tr of None \<Rightarrow> (m, order)
      | Some ti \<Rightarrow> fold (add_group_tr tr) (ti_SetupGroups ti) (m, order)) = (m1, o1)" by (metis prod.collapse)
  have m1: "set (gm_list m1 g) = set (gm_list m g) \<union> (if ?in tr then {tr} else {})"
  proof (cases "ResolveTool reg tr")
    case None
    then show ?thesis using f by simp
  next
    case (Some ti)
    have "m1 = fst (fold (add_group_tr tr) (ti_SetupGroups ti) (m, order))" using f Some by simp
    then show ?thesis unfolding add_group_list[of tr "ti_SetupGroups ti" m order g]
      using Some by (simp add: add_group_list count_list_0_iff set_replicate_conv_if)
  qed
  have "{t \<in> set (tr # trs). ?in t} = (if ?in tr then {tr} else {}) \<union> {t \<in> set trs. ?in t}" by auto
  then show ?case unfolding fold_simps(2) f using Cons.IH[of m1 o1] m1 by simp
qed simp

lemma activeSetups_members:
  assumes "su \<in> set (activeSetups reg sc)"
  shows "set (su_trs su) = set sc \<or>
    (\<exists>g. set (su_trs su) = {tr \<in> set sc. \<exists>ti. ResolveTool reg tr = Some ti \<and> g \<in> set (ti_SetupGroups ti)})"
proof -
  let ?f = "fold (\<lambda>tr s. case ResolveTool reg tr of None \<Rightarrow> s
      | Some ti \<Rightarrow> fold (add_group_tr tr) (ti_SetupGroups ti) s) sc ([], [])"
  have "su_trs su = sc \<or> (\<exists>g. su_trs su = gm_list (fst ?f) g)"
    using assms by (auto simp: activeSetups_def Let_def case_prod_unfold List.map_filter_def split: if_splits option.splits)
  then show ?thesis using group_members[of reg sc "[]" "[]"] by (elim disjE exE) (simp_all, blast)
qed

definition same_tool :: "run_env \<Rightarrow> bool" where
  "same_tool re \<longleftrightarrow> (\<forall>a \<in> set (re_selected re). \<forall>b \<in> set (re_selected re). tr_ID a = tr_ID b \<longrightarrow> tr_AutomationTool a = tr_AutomationTool b)"

lemma activeSetups_closed:
  assumes "su \<in> set (activeSetups reg sc)" and "same_tool re" and "set sc \<subseteq> set (re_selected re)"
    and "tr \<in> set sc" and "t \<in> set (su_trs su)" and "tr_ID tr = tr_ID t"
  shows "tr \<in> set (su_trs su)"
proof -
  have "t \<in> set sc" using activeSetups_members[OF assms(1)] assms(5) by blast
  then have "tr_AutomationTool tr = tr_AutomationTool t" using assms(2-4,6) unfolding same_tool_def by blast
  then have "ResolveTool reg tr = ResolveTool reg t" using assms(6) unfolding ResolveTool_def by metis
  then show ?thesis using activeSetups_members[OF assms(1)] assms(4,5) by auto
qed

lemma withoutTRs_members: "tr \<in> set (withoutTRs trs remove) \<longleftrightarrow> tr \<in> set trs \<and> tr_ID tr \<notin> tr_ID ` set remove"
proof -
  have "gm_true (fold (\<lambda>tr. gm_set (tr_ID tr) True) remove m) i \<longleftrightarrow> i \<in> tr_ID ` set remove \<or> gm_true m i" for m i
    by (induction remove arbitrary: m) (auto simp: gm_true_def)
  from this[of "[]"] show ?thesis by (simp add: withoutTRs_def gm_true_def)
qed

definition providers_keep :: "'w orch registry \<Rightarrow> run_env \<Rightarrow> bool" where
  "providers_keep reg re \<longleftrightarrow> (\<forall>sc. \<forall>su \<in> set (activeSetups reg sc). \<forall>rc trs s. keeps re s (snd (sp_Setup (su_provider su) rc trs s)))"

lemma settle_setup_fold:
  assumes "set trs \<subseteq> set (re_selected re)"
  shows "advances re s (fold (settle_setup ro re) trs s) \<and> (\<forall>tr \<in> set trs. settled (fold (settle_setup ro re) trs s) (tr_label tr))"
  using assms
proof (induction trs arbitrary: s)
  case (Cons tr trs)
  let ?s1 = "settle_setup ro re tr s"
  have "advances re s ?s1" "settled ?s1 (tr_label tr)"
    using Cons.prems by (auto simp: settle_setup_def labels_def intro!: track_advances)
  moreover have "advances re ?s1 (fold (settle_setup ro re) trs ?s1)" "\<forall>tr \<in> set trs. settled (fold (settle_setup ro re) trs ?s1) (tr_label tr)"
    using Cons.IH[of ?s1] Cons.prems by simp_all
  ultimately show ?case using advances_trans advances_settled by (metis fold_simps(2) set_ConsD)
qed simp

lemma setup_step_handles:
  assumes su: "su \<in> set (activeSetups reg sc0)" and p: "providers_keep reg re" and t: "same_tool re"
    and sc0: "set sc0 \<subseteq> set (re_selected re)" and sc: "set sc \<subseteq> set sc0"
    and st: "setup_step ro re su (sc, rdy, s) = (sc', rdy', s')"
  shows "advances re s s' \<and> set sc' \<subseteq> set sc \<and> (\<forall>tr \<in> set sc. tr \<in> set sc' \<or> handled reg s' tr)"
proof -
  let ?s0 = "rc_SetStage ro re (''setup:'' @ su_label su) (su_trs su) s"
  obtain e s1 where r: "sp_Setup (su_provider su) (re_rc re) (su_trs su) ?s0 = (e, s1)" by (metis prod.collapse)
  have sub: "set (su_trs su) \<subseteq> set sc0" using activeSetups_members[OF su] by auto
  have "keeps re s ?s0"
    using job_frame.set_stage[where re = re and ro = ro and trs = "su_trs su" and w = s and s = "''setup:'' @ su_label su"] sub sc0
    by (simp add: orch_env_def subset_iff)
  moreover have "keeps re ?s0 s1" using p su r unfolding providers_keep_def by (metis snd_conv)
  ultimately have a: "advances re s s1" by (rule keeps_advances[OF keeps_trans])
  show ?thesis
  proof (cases e)
    case None
    with st r a show ?thesis by (simp add: setup_step_def)
  next
    case (Some err)
    let ?vs = "errTRs (su_trs su) (''setup ['' @ su_label su @ '']: '' @ err)"
    let ?s2 = "add_verdicts ?vs s1"
    have sc': "sc' = withoutTRs sc (su_trs su)" and s': "s' = fold (settle_setup ro re) (su_trs su) ?s2"
      using st r Some by (simp_all add: setup_step_def)
    have f: "advances re ?s2 s'" "\<forall>tr \<in> set (su_trs su). settled s' (tr_label tr)"
      using settle_setup_fold[of "su_trs su" re ?s2 ro] sub sc0 s' by auto
    have "handled reg s' tr" if "tr \<in> set (su_trs su)" for tr
      using f(2) that covered_mono[OF covered_errTRs[OF _ that, of "''setup ['' @ su_label su @ '']: '' @ err" ?s2 reg], of s'] f(1)
      by (auto simp: handled_def advances_def)
    moreover have "tr \<in> set sc' \<or> tr \<in> set (su_trs su)" if "tr \<in> set sc" for tr
      using activeSetups_closed[OF su t sc0, of tr] that sc unfolding sc' withoutTRs_members by blast
    moreover have "set sc' \<subseteq> set sc" unfolding sc' using withoutTRs_members by blast
    moreover have "advances re s s'" using advances_trans[OF a advances_trans[OF advances_add_verdicts f(1)]] .
    ultimately show ?thesis by blast
  qed
qed

lemma setup_fold_handles:
  assumes "set sus \<subseteq> set (activeSetups reg sc0)" and "providers_keep reg re" and "same_tool re"
    and "set sc0 \<subseteq> set (re_selected re)" and "set sc \<subseteq> set sc0"
    and "fold (setup_step ro re) sus (sc, rdy, s) = (sc', rdy', s')"
  shows "advances re s s' \<and> set sc' \<subseteq> set sc \<and> (\<forall>tr \<in> set sc. tr \<in> set sc' \<or> handled reg s' tr)"
  using assms(1,5,6)
proof (induction sus arbitrary: sc rdy s)
  case Nil
  then show ?case by simp
next
  case (Cons su sus)
  obtain sc1 rdy1 s1 where c: "setup_step ro re su (sc, rdy, s) = (sc1, rdy1, s1)" by (metis prod.collapse)
  have su: "su \<in> set (activeSetups reg sc0)" using Cons.prems(1) by simp
  note h = setup_step_handles[OF su assms(2,3,4) Cons.prems(2) c]
  have i: "advances re s1 s' \<and> set sc' \<subseteq> set sc1 \<and> (\<forall>tr \<in> set sc1. tr \<in> set sc' \<or> handled reg s' tr)"
    using Cons.IH[of sc1 rdy1 s1] Cons.prems c h by auto
  show ?case using h i advances_trans[of re s s1 s'] advances_handled[of re s1 s' reg] by blast
qed


subsection \<open>Jobs\<close>

lemma job_order_members: "set (job_order j) = set (j_trs j)"
  by (auto simp: job_order_def)

lemma run_job_handles:
  assumes k: "tools_keep reg re" and sub: "set (j_trs j) \<subseteq> set (re_selected re)"
  shows "advances re s (run_job reg ro re j s) \<and> (\<forall>tr \<in> set (j_trs j). handled reg (run_job reg ro re j s) tr)"
proof -
  obtain vs ms s1 where r: "runToolExecutions reg (orch_env ro re) (re_rc re) j s = ((vs, ms), s1)" by (metis prod.collapse)
  let ?s2 = "run_job reg ro re j s"
  have a: "advances re s s1" and st: "\<forall>tr \<in> set (j_trs j). settled s1 (tr_label tr)"
    using executions_advance[OF k sub, of s ro "re_rc re"] r by simp_all
  have v: "o_verdicts ?s2 = o_verdicts s1 @ vs" and p: "o_states ?s2 = o_states s1" "o_progress ?s2 = o_progress s1"
    using r by (simp_all add: run_job_def)
  have b: "advances re s1 ?s2" by (rule advances_results[OF p]) (simp add: v)
  from job_blocks[of reg "orch_env ro re" "''2h0m0s''" "re_rc re" j s] obtain blocks where
    blocks: "vs = concat blocks" "list_all2 (accounted_by reg) (job_order j) blocks"
    using r by (auto simp: runToolExecutions_def)
  have "covered reg ?s2 tr" if "tr \<in> set (j_trs j)" for tr
  proof -
    from that have "tr \<in> set (job_order j)" by (simp add: job_order_members)
    with blocks(2) obtain block where "block \<in> set blocks" "accounted_by reg tr block"
      by (metis in_set_conv_nth list_all2_conv_all_nth)
    then have "answered reg tr block" "set block \<subseteq> set vs" using accounted_answered blocks(1) by auto
    then show ?thesis unfolding covered_def v using answered_mono[of reg tr block] by (simp add: image_Un le_supI2 image_mono)
  qed
  then show ?thesis using advances_trans[OF a b] st advances_settled[OF b] by (simp add: handled_def)
qed

lemma run_jobs_handle:
  assumes k: "tools_keep reg re" and sub: "\<forall>j \<in> set js. set (j_trs j) \<subseteq> set (re_selected re)"
  shows "advances re s (fold (run_job reg ro re) js s) \<and> (\<forall>j \<in> set js. \<forall>tr \<in> set (j_trs j). handled reg (fold (run_job reg ro re) js s) tr)"
  using sub
proof (induction js arbitrary: s)
  case (Cons j js)
  let ?s1 = "run_job reg ro re j s"
  have h: "advances re s ?s1" "\<forall>tr \<in> set (j_trs j). handled reg ?s1 tr"
    using run_job_handles[OF k, of j s ro] Cons.prems by simp_all
  have i: "advances re ?s1 (fold (run_job reg ro re) js ?s1)"
      "\<forall>j \<in> set js. \<forall>tr \<in> set (j_trs j). handled reg (fold (run_job reg ro re) js ?s1) tr"
    using Cons.IH[of ?s1] Cons.prems by simp_all
  show ?case using advances_trans[OF h(1) i(1)] i(2) h(2) advances_handled[OF i(1)] by simp
qed simp

lemma jobs_hold_all: "tr \<in> set trs \<Longrightarrow> \<exists>j \<in> set (groupByTool reg trs sched). tr \<in> set (j_trs j)"
  and jobs_within: "j \<in> set (groupByTool reg trs sched) \<Longrightarrow> set (j_trs j) \<subseteq> set trs"
  using groupByTool_form[of reg trs sched] by auto

subsection \<open>The state at the end\<close>

lemma initial_synced: "synced re (initial_orch re w)"
proof -
  let ?val = "\<lambda>tr. zero_run_execution\<lparr>ex_TR := tr_ID tr, ex_Variant := tr_Variant tr,
                     ex_Scenario := cf_Scenario (re_cfg re), ex_State := ExecutionQueued\<rparr>"
  have g: "gm_get (o_states (initial_orch re w)) l = map_option ?val (latest tr_label l (re_selected re))" for l
    by (simp add: initial_orch_def gm_get_fold_val split: option.split)
  have k: "keys_of (initial_orch re w) = labels re"
  proof -
    have "l \<in> keys_of (initial_orch re w) \<longleftrightarrow> l \<in> labels re" for l
      using gm_get_None[of "o_states (initial_orch re w)" l] latest_None[of tr_label l "re_selected re"]
      by (auto simp: keys_of_def labels_def g)
    then show ?thesis by blast
  qed
  have "row_ok re (initial_orch re w) l" if "l \<in> labels re" for l
  proof -
    from that latest_None[of tr_label l "re_selected re"] obtain tr where tr: "latest tr_label l (re_selected re) = Some tr"
      unfolding labels_def by (cases "latest tr_label l (re_selected re)") auto
    have p: "o_progress (initial_orch re w) = newProgressTracker (re_selected re)" by (simp add: initial_orch_def)
    show ?thesis
      using latest_Some[OF tr] tr unfolding row_ok_def state_at_def g p new_state by (intro conjI bexI[of _ tr]) simp_all
  qed
  moreover have "gm_wf (o_states (initial_orch re w))" unfolding initial_orch_def orch.select_convs by (rule gm_wf_fold_val) simp
  ultimately show ?thesis using k by (simp add: synced_def)
qed

text \<open>The state in which \<open>Run\<close> sorts its results.\<close>

definition final_state :: "'w orch registry \<Rightarrow> 'w run_opts \<Rightarrow> run_env \<Rightarrow> 'w \<Rightarrow> 'w orch" where
  "final_state reg ro re w =
     (let s0 = checkpoint ro re RunStatusRunning (initial_orch re w);
          (scorable, s1) = fold (classify reg ro re) (re_selected re) ([], s0);
          s2 = checkpoint ro re RunStatusRunning s1;
          (scorable1, ready, s3) = fold (setup_step ro re) (activeSetups reg scorable) (scorable, [], s2);
          s4 = checkpoint ro re RunStatusRunning s3
      in fold (run_job reg ro re) (ro_schedule ro (groupByTool reg scorable1 (cf_Scheduling (re_cfg re)))) s4)"

lemma run_phases_report: "fst (run_phases reg ro re w) = finish ro re (sort_results re (final_state reg ro re w))"
  by (simp add: run_phases_def final_state_def Let_def case_prod_unfold)

lemma final_state_handles:
  assumes "tools_keep reg re" and "providers_keep reg re" and "same_tool re"
    and "\<And>js. set (ro_schedule ro js) = set js"
  shows "synced re (final_state reg ro re w) \<and> (\<forall>tr \<in> set (re_selected re). handled reg (final_state reg ro re w) tr)"
proof -
  let ?s0 = "checkpoint ro re RunStatusRunning (initial_orch re w)"
  obtain sc s1 where c: "fold (classify reg ro re) (re_selected re) ([], ?s0) = (sc, s1)" by (metis prod.collapse)
  let ?s2 = "checkpoint ro re RunStatusRunning s1"
  obtain sc1 rdy s3 where u: "fold (setup_step ro re) (activeSetups reg sc) (sc, [], ?s2) = (sc1, rdy, s3)" by (metis prod.collapse)
  let ?s4 = "checkpoint ro re RunStatusRunning s3"
  let ?js = "ro_schedule ro (groupByTool reg sc1 (cf_Scheduling (re_cfg re)))"
  let ?s5 = "fold (run_job reg ro re) ?js ?s4"
  have f: "final_state reg ro re w = ?s5" by (simp add: final_state_def Let_def c u)
  have c1: "advances re ?s0 s1" "set sc \<subseteq> set (re_selected re)" "\<forall>tr \<in> set (re_selected re). tr \<in> set sc \<or> handled reg s1 tr"
    using classify_fold[OF order_refl c] by simp_all
  have u1: "advances re ?s2 s3" "set sc1 \<subseteq> set sc" "\<forall>tr \<in> set sc. tr \<in> set sc1 \<or> handled reg s3 tr"
    using setup_fold_handles[OF order_refl assms(2,3) c1(2) order_refl u] by simp_all
  have "\<forall>j \<in> set ?js. set (j_trs j) \<subseteq> set (re_selected re)"
    using jobs_within[of _ reg sc1] u1(2) c1(2) unfolding assms(4) by blast
  note jb = run_jobs_handle[OF assms(1) this, where s = ?s4 and ro = ro]
  have j1: "\<forall>tr \<in> set sc1. handled reg ?s5 tr"
    using jb jobs_hold_all[of _ sc1 reg "cf_Scheduling (re_cfg re)"] unfolding assms(4) by blast
  have b3: "advances re s3 ?s5" by (rule advances_trans[OF advances_checkpoint]) (use jb in blast)
  have b1: "advances re s1 ?s5" by (rule advances_trans[OF advances_checkpoint advances_trans[OF u1(1) b3]])
  have "\<forall>tr \<in> set (re_selected re). handled reg ?s5 tr"
    using c1(3) u1(3) j1 advances_handled[OF b1] advances_handled[OF b3] by blast
  moreover have "advances re (initial_orch re w) ?s5"
    by (rule advances_trans[OF advances_checkpoint advances_trans[OF c1(1) b1]])
  then have "synced re ?s5" using initial_synced[of re w] by (simp add: advances_def)
  ultimately show ?thesis unfolding f by blast
qed


section \<open>The report of a run\<close>

lemma snapshot_fields:
  "r_Executions (checkpointSnapshot ro re st s) = sort_key (\<lambda>e. (ex_TR e, ex_Variant e)) (map snd (ro_mapOrder ro (o_states s)))"
  "r_Verdicts (checkpointSnapshot ro re st s) = stamp_verdicts re (o_verdicts s)"
  "r_Incidents (checkpointSnapshot ro re st s) = o_incidents s"
  "r_Summary (checkpointSnapshot ro re st s) = r_Summary (Build (rc_RunID (re_rc re)) (re_schema re) (re_prov re) (stamp_verdicts re (o_verdicts s)))"
  by (simp_all add: checkpointSnapshot_def Let_def split: prod.split)

lemma Finalize_fields [simp]:
  "r_Executions (Finalize now r st reason e) = r_Executions r" "r_Verdicts (Finalize now r st reason e) = r_Verdicts r"
  "r_Incidents (Finalize now r st reason e) = r_Incidents r" "r_CompletionReason (Finalize now r st reason e) = reason"
  "r_Status (Finalize now r st reason e) = (if st = [] then RunStatusComplete else st)"
  "r_Summary (Finalize now r st reason e) = r_Summary r"
  by (simp_all add: Finalize_def Let_def)

lemma Finalize_certifiable:
  "r_Certifiable (Finalize now r st reason e) \<longleftrightarrow> (st = [] \<or> st = RunStatusComplete) \<and>
     (\<forall>i \<in> set (r_Incidents r). \<not> inc_BlocksCertification i) \<and> sm_Fail (r_Summary r) = 0 \<and> sm_Error (r_Summary r) = 0"
  by (simp add: Finalize_def Let_def RefreshLifecycle_certifiable)

lemma snapshot_no_failures:
  "sm_Fail (r_Summary (checkpointSnapshot ro re st s)) = 0 \<and> sm_Error (r_Summary (checkpointSnapshot ro re st s)) = 0 \<longleftrightarrow>
     (\<forall>v \<in> set (stamp_verdicts re (o_verdicts s)). v_Outcome v \<noteq> OutcomeFail \<and> v_Outcome v \<noteq> OutcomeError)"
proof -
  show ?thesis unfolding snapshot_fields Build_summary of_nat_eq_0_iff filter_length_0 by blast
qed

lemma end_states_simps [simp]:
  "o_ext (end_states ro s) = o_ext s" "o_verdicts (end_states ro s) = o_verdicts s" "o_incidents (end_states ro s) = o_incidents s"
  "o_states (end_states ro s) = map (\<lambda>(l, e). (l, abort_running (ro_now ro (o_ext s)) e)) (o_states s)"
  by (simp_all add: end_states_def)

lemma recordIncident_simps [simp]:
  "o_states (recordIncident i s) = o_states s" "o_verdicts (recordIncident i s) = o_verdicts s" "o_ext (recordIncident i s) = o_ext s"
  by (simp_all add: recordIncident_def Let_def)

lemma end_of_run_cases:
  assumes "end_of_run ro s = (status, reason, s1)"
  shows "o_states s1 = o_states s \<and> o_verdicts s1 = o_verdicts s \<and>
    ((\<exists>c. ro_ctxErr ro (o_ext s) = Some c \<and> status = RunStatusPartial \<and> reason = ctx_text c) \<or>
     ro_ctxErr ro (o_ext s) = None \<and> \<not> list_all (\<lambda>(l, e). terminal e) (o_states s) \<and> status = RunStatusPartial \<or>
     ro_ctxErr ro (o_ext s) = None \<and> list_all (\<lambda>(l, e). terminal e) (o_states s) \<and> status = RunStatusComplete \<and> reason = [] \<and> s1 = s)"
  using assms unfolding end_of_run_def by (cases "ro_ctxErr ro (o_ext s)"; cases "list_all (\<lambda>(l, e). terminal e) (o_states s)") auto

lemma order_members: "mset (ro_mapOrder ro m) = mset m \<Longrightarrow> set (ro_mapOrder ro m) = set m"
  by (metis set_mset_mset)

lemma Run_report:
  assumes "Run reg ro cfg trs prov sv rc w = (Inr rep, w')"
  obtains selected re where "ResolveExecutions trs cfg = Inr selected"
    "re = \<lparr> re_cfg = cfg, re_selected = selected, re_prov = prov, re_schema = sv, re_rc = rc, re_startedAt = ro_now ro w \<rparr>"
    "rep = finish ro re (sort_results re (final_state reg ro re w))"
proof (cases "ResolveExecutions trs cfg")
  case (Inl e)
  with assms show ?thesis by (simp add: Run_def)
next
  case (Inr selected)
  define re where "re = \<lparr> re_cfg = cfg, re_selected = selected, re_prov = prov, re_schema = sv, re_rc = rc, re_startedAt = ro_now ro w \<rparr>"
  have "rep = fst (run_phases reg ro re w)"
    using assms Inr by (simp add: Run_def re_def Let_def case_prod_unfold)
  then show ?thesis using that[OF Inr re_def] by (simp add: run_phases_report)
qed

text \<open>
  C3: a certifiable report of a run is one whose run was not cancelled and reached a terminal state
  for every execution, with no incident that blocks certification and no verdict that fails or
  errors. This holds whatever the tools and the setups do.
\<close>

theorem Run_certifiable_sound:
  assumes "Run reg ro cfg trs prov sv rc w = (Inr rep, w')" and "r_Certifiable rep"
    and "\<And>m. mset (ro_mapOrder ro m) = mset m"
  shows "r_Status rep = RunStatusComplete \<and> (\<forall>e \<in> set (r_Executions rep). terminal e) \<and>
    (\<forall>i \<in> set (r_Incidents rep). \<not> inc_BlocksCertification i) \<and>
    (\<forall>v \<in> set (r_Verdicts rep). v_Outcome v \<noteq> OutcomeFail \<and> v_Outcome v \<noteq> OutcomeError)"
proof -
  obtain re s where rep: "rep = finish ro re s" using Run_report[OF assms(1)] by blast
  have om: "set (ro_mapOrder ro m) = set m" for m using assms(3) by (rule order_members)
  obtain status reason s1 where e: "end_of_run ro (end_states ro s) = (status, reason, s1)" by (metis prod.collapse)
  have r: "rep = Finalize (ro_now ro (o_ext s)) (checkpointSnapshot ro re status s1) status reason (ro_now ro (o_ext s))"
    by (simp add: rep finish_def e Let_def)
  note cert = assms(2)[unfolded r Finalize_certifiable]
  then have c: "status = [] \<or> status = RunStatusComplete" "\<forall>i \<in> set (r_Incidents rep). \<not> inc_BlocksCertification i"
    unfolding r Finalize_fields by blast+
  have v: "\<forall>v \<in> set (r_Verdicts rep). v_Outcome v \<noteq> OutcomeFail \<and> v_Outcome v \<noteq> OutcomeError"
    using snapshot_no_failures[of ro re status s1] cert unfolding r Finalize_fields snapshot_fields(2) by blast
  from c(1) end_of_run_cases[OF e] have st: "status = RunStatusComplete" and t: "list_all (\<lambda>(l, e). terminal e) (o_states s1)"
    by auto
  have "\<forall>e \<in> set (r_Executions rep). terminal e"
    using t unfolding r Finalize_fields snapshot_fields by (auto simp: om list_all_iff)
  moreover have "r_Status rep = RunStatusComplete" by (simp add: r st)
  ultimately show ?thesis using c v by blast
qed

lemma sort_results_simps [simp]:
  "o_states (sort_results re s) = o_states s" "o_ext (sort_results re s) = o_ext s"
  by (simp_all add: sort_results_def)

lemma stamp_judgements: "judgement ` set (stamp_verdicts re vs) = judgement ` set vs"
  by (simp add: stamp_verdicts_def image_image judgement_def)

lemma answered_stamped: "answered reg tr vs \<Longrightarrow> answered reg tr (stamp_verdicts re vs)"
  by (erule answered_mono) (simp add: stamp_judgements)

lemma sort_results_covered: "covered reg s tr \<Longrightarrow> covered reg (sort_results re s) tr"
  unfolding covered_def sort_results_def by (auto intro!: answered_stamped elim: answered_mono)

lemma settled_terminal:
  assumes "row_ok re s l" and "settled s l"
  shows "terminal (state_at s l)" and "abort_running now (state_at s l) = state_at s l"
  using assms by (auto simp: row_ok_def settled_def terminal_def abort_running_def)

lemma synced_rows:
  assumes "synced re s"
  shows "snd ` set (o_states s) = state_at s ` labels re"
proof -
  have wf: "gm_wf (o_states s)" and k: "fst ` set (o_states s) = labels re" using assms by (simp_all add: synced_def keys_of_def)
  have "e = state_at s l" if "(l, e) \<in> set (o_states s)" for l e
    using gm_wf_get[OF wf that] by (simp add: state_at_def)
  then have "snd ` set (o_states s) = (\<lambda>p. state_at s (fst p)) ` set (o_states s)" by (intro image_cong) auto
  also have "\<dots> = state_at s ` labels re" unfolding k[symmetric] by (simp add: image_image)
  finally show ?thesis .
qed

text \<open>
  C2: a run accounts for everything it selected. When the selected executions have distinct labels,
  requirements with the same id the same tool, and the tools and setups touch the shared state only
  through the callbacks, then, whatever the stages return and in whatever order the jobs run, the
  report lists exactly the selected executions, each in a terminal state, and the run is complete
  unless it was cancelled. Every execution is answered: each of its SLAs and checks has a verdict,
  or its tool has an evaluator of its own for the requirement (as the virtbench and kube-burner
  tools have) and the report holds every verdict that this evaluator made of a result of it.
\<close>

theorem Run_accounts_for_everything:
  assumes "Run reg ro cfg trs prov sv rc w = (Inr rep, w')" and "ResolveExecutions trs cfg = Inr selected"
    and "re = \<lparr> re_cfg = cfg, re_selected = selected, re_prov = prov, re_schema = sv, re_rc = rc, re_startedAt = ro_now ro w \<rparr>"
    and "distinct (map tr_label selected)" and "tools_keep reg re" and "providers_keep reg re" and "same_tool re"
    and "\<And>js. set (ro_schedule ro js) = set js" and "\<And>m. mset (ro_mapOrder ro m) = mset m"
  shows "(\<lambda>e. (ex_TR e, ex_Variant e)) ` set (r_Executions rep) = (\<lambda>tr. (tr_ID tr, tr_Variant tr)) ` set selected \<and>
    (\<forall>e \<in> set (r_Executions rep). terminal e) \<and>
    (\<forall>tr \<in> set selected. answered reg tr (r_Verdicts rep)) \<and>
    (r_Status rep = RunStatusComplete \<or> r_Status rep = RunStatusPartial \<and> (\<exists>c. r_CompletionReason rep = ctx_text c))"
proof -
  let ?f = "final_state reg ro re w"
  let ?s = "sort_results re ?f"
  have rep: "rep = finish ro re ?s" using Run_report[OF assms(1)] assms(2,3) by (metis sum.inject(2))
  have om: "set (ro_mapOrder ro m) = set m" for m using assms(9) by (rule order_members)
  obtain status reason s1 where e: "end_of_run ro (end_states ro ?s) = (status, reason, s1)" by (metis prod.collapse)
  have r: "rep = Finalize (ro_now ro (o_ext ?s)) (checkpointSnapshot ro re status s1) status reason (ro_now ro (o_ext ?s))"
    by (simp add: rep finish_def e Let_def)
  have h: "synced re ?f" "\<forall>tr \<in> set (re_selected re). handled reg ?f tr"
    using final_state_handles[OF assms(5-8), of w] by blast+
  have rows: "snd ` set (o_states ?f) = state_at ?f ` labels re" by (rule synced_rows[OF h(1)])
  have row: "row_ok re ?f l" "settled ?f l" if "l \<in> labels re" for l
    using that h by (auto simp: synced_def labels_def handled_def)
  have same: "snd ` set (o_states (end_states ro ?s)) = snd ` set (o_states ?f)"
  proof -
    have "abort_running n x = x" if x: "x \<in> snd ` set (o_states ?f)" for n x
      using x settled_terminal(2)[OF row] unfolding rows by blast
    then have "(\<lambda>p. abort_running (ro_now ro (o_ext ?f)) (snd p)) ` set (o_states ?f) = snd ` set (o_states ?f)"
      by (intro image_cong) auto
    then show ?thesis by (simp add: image_image case_prod_unfold)
  qed
  have tm: "\<forall>x \<in> snd ` set (o_states (end_states ro ?s)). terminal x"
    unfolding same rows using settled_terminal(1)[OF row] by blast
  then have all: "list_all (\<lambda>(l, e). terminal e) (o_states (end_states ro ?s))" unfolding list_all_iff by (metis (mono_tags, lifting) case_prodI2 image_eqI snd_conv)
  from end_of_run_cases[OF e] all have st: "status = RunStatusComplete \<or> status = RunStatusPartial \<and> (\<exists>c. reason = ctx_text c)"
    and s1: "o_states s1 = o_states (end_states ro ?s)" "o_verdicts s1 = o_verdicts ?s" by auto
  have ex: "set (r_Executions rep) = state_at ?f ` labels re"
    unfolding r Finalize_fields snapshot_fields set_sort set_map om s1 same rows ..
  have "(\<lambda>e. (ex_TR e, ex_Variant e)) (state_at ?f (tr_label tr)) = (tr_ID tr, tr_Variant tr)" if tr: "tr \<in> set selected" for tr
  proof -
    have "tr_label tr \<in> labels re" using tr assms(3) by (simp add: labels_def)
    from row(1)[OF this] obtain t where "t \<in> set selected" "tr_label t = tr_label tr"
      "ex_TR (state_at ?f (tr_label tr)) = tr_ID t" "ex_Variant (state_at ?f (tr_label tr)) = tr_Variant t"
      unfolding row_ok_def assms(3) by auto
    moreover from this(1,2) tr assms(4) have "t = tr" by (simp add: distinct_map inj_on_def)
    ultimately show ?thesis by simp
  qed
  then have "(\<lambda>e. (ex_TR e, ex_Variant e)) ` set (r_Executions rep) = (\<lambda>tr. (tr_ID tr, tr_Variant tr)) ` set selected"
    unfolding ex labels_def assms(3) run_env.select_convs image_image by (rule image_cong[OF refl])
  moreover have "\<forall>e \<in> set (r_Executions rep). terminal e" unfolding ex using settled_terminal(1)[OF row] by blast
  moreover have "answered reg tr (r_Verdicts rep)" if "tr \<in> set selected" for tr
  proof -
    from that h(2) assms(3) have "covered reg ?f tr" by (simp add: handled_def)
    then have "covered reg s1 tr" using sort_results_covered by (metis covered_def s1(2))
    then show ?thesis unfolding r Finalize_fields snapshot_fields covered_def by (rule answered_stamped)
  qed
  moreover have "r_Status rep = RunStatusComplete \<or> r_Status rep = RunStatusPartial \<and> (\<exists>c. r_CompletionReason rep = ctx_text c)"
    using st by (auto simp: r)
  ultimately show ?thesis by blast
qed


section \<open>A sample run\<close>

definition sample_opts :: "unit run_opts" where
  "sample_opts = \<lparr> ro_ctxErr = (\<lambda>w. None), ro_deadline = (\<lambda>a b. None), ro_since = (\<lambda>a b. f64_of_int 1), ro_now = (\<lambda>w. ''now''),
     ro_mkdir = (\<lambda>p w. (None, w)), ro_cwd = None, ro_Checkpoint = None, ro_RecordIncident = None, ro_RecordStorageSelection = None,
     ro_SetStage = None, ro_RecordArtifacts = None, ro_mapOrder = (\<lambda>m. m), ro_schedule = (\<lambda>js. js) \<rparr>"

definition sample_ctx :: run_ctx where
  "sample_ctx = \<lparr> rc_RunID = ''r1'', rc_PartKind = [], rc_WorkDir = ''/w'', rc_Backend = None \<rparr>"

definition manual_req :: test_requirement where
  "manual_req = (sample_req ''t1'' CheckManual)\<lparr>tr_Checks := [zero_check\<lparr>ck_ID := ''signed''\<rparr>]\<rparr>"

definition sample_env :: run_env where
  "sample_env = \<lparr> re_cfg = zero_config, re_selected = [manual_req], re_prov = zero_provenance, re_schema = ''1'', re_rc = sample_ctx,
     re_startedAt = ''now'' \<rparr>"

lemma sample_opts_simps [simp]:
  "ro_ctxErr sample_opts w = None" "ro_now sample_opts w = ''now''" "ro_mapOrder sample_opts m = m" "ro_schedule sample_opts js = js"
  by (simp_all add: sample_opts_def)

lemma manual_req_simps [simp]: "tr_ID manual_req = ''t1''" "tr_Variant manual_req = []" "item_names manual_req = [''check:signed'']"
  "tr_AutomationTool manual_req = CheckManual"
  by (simp_all add: manual_req_def item_names_def zero_check_def)

lemma sample_resolves: "ResolveExecutions [manual_req] zero_config = Inr [manual_req]"
  by (simp add: ResolveExecutions_def zero_config_def zero_filter_def applyOverrides_def Let_def)

lemma sample_no_tool: "ResolveTool (empty_registry :: 'w registry) tr = None"
  by (simp add: ResolveTool_def Get_def ForTRID_def empty_registry_def Let_def)

lemma sample_keeps:
  "tools_keep (empty_registry :: unit orch registry) re" "same_tool sample_env"
  by (simp_all add: tools_keep_def same_tool_def sample_no_tool sample_env_def)

lemma activeSetups_empty: "activeSetups (empty_registry :: 'w registry) sc = []"
proof -
  have "fold (\<lambda>tr s. case ResolveTool (empty_registry :: 'w registry) tr of None \<Rightarrow> s
      | Some ti \<Rightarrow> fold (add_group_tr tr) (ti_SetupGroups ti) s) sc p = p" for p
    by (induction sc arbitrary: p) (simp_all add: sample_no_tool)
  then show ?thesis
    by (simp add: activeSetups_def RunSetupProviders_def List.map_filter_def) (simp add: empty_registry_def)
qed

lemma sample_providers: "providers_keep (empty_registry :: unit orch registry) re"
  by (simp add: providers_keep_def activeSetups_empty)

text \<open>A requirement that needs a human beside one of a tool with an evaluator of its own for it.\<close>

definition judged_tool :: "'w tool_integration" where
  "judged_tool = \<lparr> ti_Name = ''b'', ti_Image = [], ti_Provides = [], ti_Preflight = None, ti_Provisioner = None, ti_Runner = None,
     ti_LogCollector = None, ti_ResultParser = Some (\<lambda>rc l bag w. (Inr [zero_test_result\<lparr>res_TRID := ''t2''\<rparr>], bag, w)), ti_Teardown = None,
     ti_ParallelSafe = True, ti_ExclusivityGroups = [],
     ti_Evaluators = [(''t2'', Some (\<lambda>tr res. Inr [zero_verdict\<lparr>v_TR := ''t2'', v_Item := ''native'', v_Outcome := OutcomePass\<rparr>]))],
     ti_SetupGroups = [] \<rparr>"

definition judged_registry :: "'w registry" where
  "judged_registry = \<lparr> rg_tools = [(''b'', judged_tool)], rg_setups = [] \<rparr>"

definition judged_req :: test_requirement where
  "judged_req = (sample_req ''t2'' ''b'')\<lparr>tr_Checks := [zero_check\<lparr>ck_ID := ''alive''\<rparr>]\<rparr>"

definition judged_env :: run_env where
  "judged_env = sample_env\<lparr>re_selected := [manual_req, judged_req]\<rparr>"

lemma judged_req_simps [simp]: "tr_ID judged_req = ''t2''" "tr_Variant judged_req = []" "tr_AutomationTool judged_req = ''b''"
  by (simp_all add: judged_req_def)

lemma judged_resolves: "ResolveExecutions [manual_req, judged_req] zero_config = Inr [manual_req, judged_req]"
  by (simp add: ResolveExecutions_def zero_config_def zero_filter_def applyOverrides_def Let_def)

lemma judged_tools: "ResolveTool (judged_registry :: 'w registry) tr = Some ti \<Longrightarrow> ti = judged_tool"
  by (auto simp: ResolveTool_def Get_def ForTRID_def judged_registry_def gm_get_Cons judged_tool_def Let_def split: if_splits option.splits)

lemma judged_keep: "tools_keep (judged_registry :: unit orch registry) judged_env" "same_tool judged_env"
proof -
  have "framed (keeps judged_env) (judged_tool :: unit orch tool_integration)" by (simp add: framed_def judged_tool_def)
  then show "tools_keep (judged_registry :: unit orch registry) judged_env" unfolding tools_keep_def using judged_tools by blast
  show "same_tool judged_env" by (simp add: same_tool_def judged_env_def)
qed

lemma judged_setups: "activeSetups (judged_registry :: 'w registry) sc = []"
proof -
  have "fold (\<lambda>tr s. case ResolveTool (judged_registry :: 'w registry) tr of None \<Rightarrow> s
      | Some ti \<Rightarrow> fold (add_group_tr tr) (ti_SetupGroups ti) s) sc p = p" for p
  proof (induction sc arbitrary: p)
    case (Cons tr sc)
    have "(case ResolveTool (judged_registry :: 'w registry) tr of None \<Rightarrow> p
        | Some ti \<Rightarrow> fold (add_group_tr tr) (ti_SetupGroups ti) p) = p"
      by (auto dest!: judged_tools simp: judged_tool_def split: option.split)
    with Cons.IH show ?case by simp
  qed simp
  then show ?thesis by (simp add: activeSetups_def RunSetupProviders_def List.map_filter_def) (simp add: judged_registry_def)
qed

theorem Run_accounts_for_everything_witness:
  "\<exists>rep w'. Run judged_registry sample_opts zero_config [manual_req, judged_req] zero_provenance ''1'' sample_ctx () = (Inr rep, w') \<and>
     (\<lambda>e. (ex_TR e, ex_Variant e)) ` set (r_Executions rep) = {(''t1'', []), (''t2'', [])} \<and>
     answered (judged_registry :: unit orch registry) judged_req (r_Verdicts rep) \<and>
     (\<exists>v \<in> set (r_Verdicts rep). v_TR v = ''t1'' \<and> v_Item v = ''check:signed'')"
proof -
  obtain rep w' where r: "Run judged_registry sample_opts zero_config [manual_req, judged_req] zero_provenance ''1'' sample_ctx () = (Inr rep, w')"
    by (auto simp: Run_def judged_resolves Let_def case_prod_unfold)
  have e: "judged_env = \<lparr> re_cfg = zero_config, re_selected = [manual_req, judged_req], re_prov = zero_provenance, re_schema = ''1'',
      re_rc = sample_ctx, re_startedAt = ro_now sample_opts () \<rparr>" by (simp add: judged_env_def sample_env_def sample_opts_def)
  have d: "distinct (map tr_label [manual_req, judged_req])" by (simp add: tr_label_def ExecutionLabel_def)
  have p: "providers_keep (judged_registry :: unit orch registry) judged_env" by (simp add: providers_keep_def judged_setups)
  have manual: "ResolveTool (judged_registry :: unit orch registry) manual_req = Some ti \<Longrightarrow> gm_get (ti_Evaluators ti) ''t1'' = None" for ti
    by (auto dest!: judged_tools simp: judged_tool_def gm_get_Cons)
  from Run_accounts_for_everything[OF r judged_resolves e d judged_keep(1) p judged_keep(2)]
  have x: "(\<lambda>e. (ex_TR e, ex_Variant e)) ` set (r_Executions rep) = {(''t1'', []), (''t2'', [])}"
    "answered (judged_registry :: unit orch registry) judged_req (r_Verdicts rep)"
    "answered (judged_registry :: unit orch registry) manual_req (r_Verdicts rep)"
    by (simp_all add: sample_opts_def)
  from x(3) manual have "\<exists>v \<in> set (r_Verdicts rep). v_TR v = ''t1'' \<and> v_Item v = ''check:signed''"
    by (auto simp: answered_def)
  with r x(1,2) show ?thesis by blast
qed

text \<open>A run whose only requirement needs a human: it is skipped, and the report is certifiable.\<close>

lemma sample_final:
  "o_incidents (final_state empty_registry sample_opts sample_env ()) = [] \<and>
   o_verdicts (final_state empty_registry sample_opts sample_env ()) = notScorable manual_req \<and>
   map snd (o_states (final_state empty_registry sample_opts sample_env ())) =
     [zero_run_execution\<lparr>ex_TR := ''t1'', ex_State := ExecutionCompleted, ex_Outcome := OutcomeSkip, ex_Stage := ''complete'', ex_EndedAt := ''now''\<rparr>]"
proof -
  have l: "tr_label manual_req = ''t1''" by (simp add: tr_label_def ExecutionLabel_def)
  have c: "checkpoint sample_opts re st s = s" for re st and s :: "unit orch"
    by (simp add: checkpoint_def on_ext_def sample_opts_def)
  have r: "\<not> runnable (empty_registry :: unit orch registry) manual_req" by (simp add: runnable_def)
  have a: "activeSetups (empty_registry :: unit orch registry) [] = []" by (simp add: activeSetups_def)
  have g: "groupByTool (empty_registry :: unit orch registry) [] sched = []" for sched by (simp add: groupByTool_def)
  let ?s = "track sample_opts sample_env (OpComplete manual_req OutcomeSkip) (add_verdicts (notScorable manual_req) (initial_orch sample_env ()))"
  have f: "final_state empty_registry sample_opts sample_env () = ?s"
    by (simp add: final_state_def c sample_env_def classify_def r a g Let_def)
  define s0 where "s0 = add_verdicts (notScorable manual_req) (initial_orch sample_env ())"
  have s0: "o_progress s0 = newProgressTracker [manual_req]" "o_incidents s0 = []" "o_verdicts s0 = notScorable manual_req" "o_ext s0 = ()"
    "o_states s0 = [(''t1'', zero_run_execution\<lparr>ex_TR := ''t1'', ex_Variant := [], ex_Scenario := [], ex_State := ExecutionQueued\<rparr>)]"
    by (simp_all add: s0_def add_verdicts_def initial_orch_def sample_env_def l gm_set_def zero_config_def)
  obtain P where p: "progress_do (OpComplete manual_req OutcomeSkip) (o_progress s0) = (P, Some (''t1'', PComplete, OutcomeSkip))"
    using progress_do_event[of "OpComplete manual_req OutcomeSkip" "newProgressTracker [manual_req]"] unfolding s0(1)
    by (cases "progress_do (OpComplete manual_req OutcomeSkip) (newProgressTracker [manual_req])")
      (simp add: enabled_def target_def l del: progress_do.simps)
  have "?s = onStateChange sample_opts sample_env (''t1'', PComplete, OutcomeSkip) (s0\<lparr>o_progress := P\<rparr>)"
    unfolding track_def s0_def[symmetric] p by simp
  then have t: "final_state empty_registry sample_opts sample_env () = onStateChange sample_opts sample_env (''t1'', PComplete, OutcomeSkip) (s0\<lparr>o_progress := P\<rparr>)"
    using f by simp
  show ?thesis unfolding t
    by (simp add: onStateChange_def set_state_def state_at_def s0 gm_get_Cons gm_set_def Let_def)
      (simp add: zero_run_execution_def)
qed

theorem Run_certifiable_sound_witness:
  "\<exists>rep w'. Run empty_registry sample_opts zero_config [manual_req] zero_provenance ''1'' sample_ctx () = (Inr rep, w') \<and>
     r_Certifiable rep \<and> r_Status rep = RunStatusComplete"
proof -
  obtain rep w' where r: "Run empty_registry sample_opts zero_config [manual_req] zero_provenance ''1'' sample_ctx () = (Inr rep, w')"
    by (auto simp: Run_def sample_resolves Let_def case_prod_unfold)
  let ?s = "sort_results sample_env (final_state empty_registry sample_opts sample_env ())"
  have e: "sample_env = \<lparr> re_cfg = zero_config, re_selected = [manual_req], re_prov = zero_provenance, re_schema = ''1'',
      re_rc = sample_ctx, re_startedAt = ro_now sample_opts () \<rparr>" by (simp add: sample_env_def sample_opts_def)
  have rep: "rep = finish sample_opts sample_env ?s" using Run_report[OF r] sample_resolves e by (metis sum.inject(2))
  obtain lab where st: "o_states ?s = [(lab, zero_run_execution\<lparr>ex_TR := ''t1'', ex_State := ExecutionCompleted, ex_Outcome := OutcomeSkip,
      ex_Stage := ''complete'', ex_EndedAt := ''now''\<rparr>)]"
    using sample_final by (auto simp: map_eq_Cons_conv)
  have en: "end_of_run sample_opts (end_states sample_opts ?s) = (RunStatusComplete, [], end_states sample_opts ?s)"
    using st by (simp add: end_of_run_def abort_running_def terminal_def)
  have "stamp_verdicts sample_env (o_verdicts ?s) \<noteq> []" by (simp add: sort_results_def stamp_verdicts_def sample_final notScorable_def itemVerdicts_def)
  have "\<forall>v \<in> set (stamp_verdicts sample_env (o_verdicts ?s)). v_Outcome v = OutcomeSkip"
    by (simp add: sort_results_def stamp_verdicts_def sample_final notScorable_def itemVerdicts_def)
  then have "r_Certifiable rep"
    unfolding rep finish_def en Let_def prod.case Finalize_certifiable snapshot_no_failures
    by (simp add: snapshot_fields, simp add: sort_results_def sample_final)
  with Run_certifiable_sound[OF r this] r show ?thesis by simp
qed

end
