(* ===== verification/Checkpoint.thy ===== *)
theory Checkpoint
  imports Report_Merge Go_Path
begin

text \<open>
  The durable report of a run: \<open>cmd/harness/checkpoint.go\<close> and \<open>writeReportFiles\<close> of
  \<open>cmd/harness/main.go\<close>. A file write is an argument that takes a path and the document to render;
  it writes the file atomically or returns an error. The mutex makes \<open>Save\<close> and \<open>Finalize\<close> one
  step each; \<open>RecordIncident\<close> releases it in between and is two steps.
\<close>

section \<open>Files\<close>

datatype doc = DocJSON report | DocMarkdown report | DocJUnit report | DocAttestations "attestation list"

type_synonym 'w writer = "string \<Rightarrow> doc \<Rightarrow> 'w \<Rightarrow> string option \<times> 'w"

fun write_all :: "'w writer \<Rightarrow> (string \<times> doc) list \<Rightarrow> 'w \<Rightarrow> string option \<times> 'w" where
  "write_all put [] w = (None, w)"
| "write_all put ((path, d) # files) w =
     (case put path d w of (Some err, w1) \<Rightarrow> (Some err, w1) | (None, w1) \<Rightarrow> write_all put files w1)"

definition writeReportFiles :: "'w writer \<Rightarrow> string \<Rightarrow> report \<Rightarrow> attestation list \<Rightarrow> 'w \<Rightarrow> string option \<times> 'w" where
  "writeReportFiles put outputDir rep0 attestations w =
     (let rep = RefreshLifecycle rep0 in
      write_all put
        ((if attestations \<noteq> [] then [(path_join [outputDir, ''attestations.json''], DocAttestations attestations)] else [])
         @ [(path_join [outputDir, ''report.json''], DocJSON rep), (path_join [outputDir, ''report.md''], DocMarkdown rep),
            (path_join [outputDir, ''report.junit.xml''], DocJUnit rep)]) w)"

section \<open>The checkpoint\<close>

record report_checkpoint =
  ck_outputDir :: string
  ck_latest :: report
  ck_lastErr :: "string option"

definition newReportCheckpoint :: "string \<Rightarrow> report \<Rightarrow> report_checkpoint" where
  "newReportCheckpoint outputDir initial = \<lparr> ck_outputDir = outputDir, ck_latest = initial, ck_lastErr = None \<rparr>"

text \<open>The report a checkpoint holds after \<open>Save\<close>, and the error of the merge.\<close>

definition merge_latest :: "map_order \<Rightarrow> report \<Rightarrow> report \<Rightarrow> report \<times> string option" where
  "merge_latest order latest_rep snapshot =
     (if r_RunID latest_rep \<noteq> [] then
        (case Merge order latest_rep snapshot of Inr candidate \<Rightarrow> (candidate, None) | Inl err \<Rightarrow> (snapshot, Some err))
      else (snapshot, None))"

definition keep_err :: "string option \<Rightarrow> report_checkpoint \<Rightarrow> report_checkpoint" where
  "keep_err e c = (case e of None \<Rightarrow> c | Some err \<Rightarrow> c\<lparr>ck_lastErr := Some err\<rparr>)"

definition persist :: "'w writer \<Rightarrow> report_checkpoint \<times> 'w \<Rightarrow> report_checkpoint \<times> 'w" where
  "persist put cw =
     (case cw of (c, w) \<Rightarrow>
        if ck_outputDir c = [] then (c, w)
        else (case writeReportFiles put (ck_outputDir c) (ck_latest c) [] w of (e, w1) \<Rightarrow> (keep_err e c, w1)))"

definition Save :: "'w writer \<Rightarrow> map_order \<Rightarrow> report \<Rightarrow> report_checkpoint \<times> 'w \<Rightarrow> report_checkpoint \<times> 'w" where
  "Save put order snapshot cw =
     (case cw of (c, w) \<Rightarrow>
        (case merge_latest order (ck_latest c) snapshot of
           (merged, e) \<Rightarrow> persist put ((keep_err e c)\<lparr>ck_latest := merged\<rparr>, w)))"

text \<open>The locked part of \<open>RecordIncident\<close>: the copy it will save, or nothing for a known id.\<close>

definition incident_copy :: "incident \<Rightarrow> report_checkpoint \<Rightarrow> report option" where
  "incident_copy i c =
     (if list_ex (\<lambda>e. inc_ID e \<noteq> [] \<and> inc_ID e = inc_ID i) (r_Incidents (ck_latest c)) then None
      else Some (RefreshLifecycle ((ck_latest c)\<lparr>r_Incidents := r_Incidents (ck_latest c) @ [i]\<rparr>)))"

definition RecordIncident :: "'w writer \<Rightarrow> map_order \<Rightarrow> incident \<Rightarrow> report_checkpoint \<times> 'w \<Rightarrow> report_checkpoint \<times> 'w" where
  "RecordIncident put order i cw =
     (case incident_copy i (fst cw) of None \<Rightarrow> cw | Some copy \<Rightarrow> Save put order copy cw)"

definition ck_Finalize :: "'w writer \<Rightarrow> string \<Rightarrow> run_status \<Rightarrow> string \<Rightarrow> report_checkpoint \<times> 'w \<Rightarrow> report_checkpoint \<times> 'w" where
  "ck_Finalize put now status reason cw =
     (case cw of (c, w) \<Rightarrow> persist put (c\<lparr>ck_latest := Finalize now (ck_latest c) status reason now\<rparr>, w))"

section \<open>Recovery\<close>

definition abandoned_incident :: "string \<Rightarrow> incident" where
  "abandoned_incident reason = zero_incident\<lparr>inc_ID := ''run-abandoned'', inc_Type := ''abandoned'', inc_Severity := ''error'',
     inc_Message := reason, inc_BlocksCertification := True,
     inc_Impact := ''the report was recovered from a stale running checkpoint''\<rparr>"

definition recovered :: "string \<Rightarrow> string \<Rightarrow> report \<Rightarrow> report" where
  "recovered now reason rep =
     Finalize now (rep\<lparr>r_Incidents := r_Incidents rep @ [abandoned_incident reason]\<rparr>) RunStatusAbandoned reason now"

text \<open>The command: \<open>read\<close> loads a report, \<open>show_md\<close> writes its markdown to the standard output.\<close>

definition recover_cmd ::
  "(string \<Rightarrow> 'w \<Rightarrow> string + report) \<Rightarrow> 'w writer \<Rightarrow> (report \<Rightarrow> 'w \<Rightarrow> string option \<times> 'w) \<Rightarrow> string
   \<Rightarrow> string \<Rightarrow> string \<Rightarrow> string \<Rightarrow> 'w \<Rightarrow> string option \<times> 'w" where
  "recover_cmd read put show_md now reportPath0 outputDir0 reason0 w =
     (if reportPath0 = [] \<and> outputDir0 = [] then (Some ''provide --report or --output'', w)
      else
        (let reportPath = (if reportPath0 = [] then path_join [outputDir0, ''report.json''] else reportPath0) in
         case read reportPath w of
           Inl err \<Rightarrow> (Some err, w)
         | Inr rep \<Rightarrow>
             (if r_Status rep \<noteq> RunStatusRunning then
                (Some (''report status is '' @ go_quote (r_Status rep) @ ''; only running reports can be recovered''), w)
              else
                (let reason = (if reason0 = [] then ''process ended without finalizing the run'' else reason0);
                     rep1 = recovered now reason rep;
                     outputDir = (if outputDir0 = [] then path_dir reportPath else outputDir0)
                 in case writeReportFiles put outputDir rep1 [] w of
                      (Some err, w1) \<Rightarrow> (Some err, w1)
                    | (None, w1) \<Rightarrow> show_md rep1 w1))))"


section \<open>A checkpoint refines a map of results\<close>

text \<open>The abstract state: for every key the verdict and the execution row the report holds.\<close>

definition verdict_map :: "report \<Rightarrow> string \<Rightarrow> verdict option" where
  "verdict_map r = (\<lambda>k. latest verdict_key k (r_Verdicts r))"

definition execution_map :: "report \<Rightarrow> string \<Rightarrow> run_execution option" where
  "execution_map r = (\<lambda>k. latest execution_key k (r_Executions r))"

definition same_kb :: "report \<Rightarrow> report \<Rightarrow> bool" where
  "same_kb a b \<longleftrightarrow> pv_KBGitCommit (r_Provenance a) = pv_KBGitCommit (r_Provenance b)"

lemma latest_append_map: "latest key k (xs @ ys) = ((\<lambda>k. latest key k xs) ++ (\<lambda>k. latest key k ys)) k"
  by (simp add: latest_append map_add_def split: option.split)

lemma Merge_maps:
  assumes "Merge order base later = Inr m" and "\<And>m. mset (order m) = mset m"
  shows "verdict_map m = verdict_map base ++ verdict_map later" and "execution_map m = execution_map base ++ execution_map later"
proof -
  show "verdict_map m = verdict_map base ++ verdict_map later"
    unfolding verdict_map_def Merge_fields(1)[OF assms(1)] by (rule ext) (simp add: verdicts.lookup latest_append_map)
  show "execution_map m = execution_map base ++ execution_map later"
    unfolding execution_map_def Merge_fields(3)[OF assms(1)] mergeExecutions_order[OF assms(2)]
    by (rule ext) (simp add: executions.lookup latest_append_map)
qed

lemma persist_latest [simp]: "ck_latest (fst (persist put (c, w))) = ck_latest c"
  by (auto simp: persist_def keep_err_def split: prod.splits option.splits)

lemma Save_latest:
  "ck_latest (fst (Save put order s (c, w))) = fst (merge_latest order (ck_latest c) s)"
  by (simp add: Save_def split: prod.split)

lemma merge_latest_ok:
  assumes "r_RunID l \<noteq> []" and "same_kb l s"
  obtains m where "Merge order l s = Inr m" "merge_latest order l s = (m, None)" "r_RunID m = r_RunID l"
    "pv_KBGitCommit (r_Provenance m) = pv_KBGitCommit (r_Provenance l)"
    "r_Status m = (if r_Status s = [] then RunStatusComplete else r_Status s)"
proof -
  have m: "Merge order l s = Inr (RefreshLifecycle (merged_report order l s))"
    using assms(2) by (intro Merge_same_commit) (simp add: same_kb_def)
  have "r_RunID (RefreshLifecycle (merged_report order l s)) = r_RunID l" by (rule Merge_fields(7)[OF m])
  moreover have "pv_KBGitCommit (r_Provenance (RefreshLifecycle (merged_report order l s))) = pv_KBGitCommit (r_Provenance l)"
    using merged_provenance[of l s order] assms(2) by (simp add: same_kb_def)
  moreover have "r_Status (RefreshLifecycle (merged_report order l s)) = (if r_Status s = [] then RunStatusComplete else r_Status s)"
    by (simp add: merged_report_def Let_def)
  ultimately show ?thesis using that m assms(1) by (simp add: merge_latest_def)
qed

lemma Save_step:
  assumes "r_RunID (ck_latest c) \<noteq> []" and "same_kb (ck_latest c) s" and "\<And>m. mset (order m) = mset m"
    and "Save put order s (c, w) = (c', w')"
  shows "verdict_map (ck_latest c') = verdict_map (ck_latest c) ++ verdict_map s"
    and "execution_map (ck_latest c') = execution_map (ck_latest c) ++ execution_map s"
    and "r_RunID (ck_latest c') = r_RunID (ck_latest c)" and "same_kb (ck_latest c') (ck_latest c)"
proof -
  obtain m where m: "Merge order (ck_latest c) s = Inr m" "merge_latest order (ck_latest c) s = (m, None)"
    "r_RunID m = r_RunID (ck_latest c)" "pv_KBGitCommit (r_Provenance m) = pv_KBGitCommit (r_Provenance (ck_latest c))"
    using merge_latest_ok[OF assms(1,2), of order] by metis
  have l: "ck_latest c' = m" using Save_latest[of put order s c w] assms(4) m(2) by simp
  show "verdict_map (ck_latest c') = verdict_map (ck_latest c) ++ verdict_map s"
    "execution_map (ck_latest c') = execution_map (ck_latest c) ++ execution_map s"
    unfolding l using Merge_maps[OF m(1) assms(3)] .
  show "r_RunID (ck_latest c') = r_RunID (ck_latest c)" "same_kb (ck_latest c') (ck_latest c)"
    using m(3,4) by (simp_all add: l same_kb_def)
qed

text \<open>
  C14: a checkpoint refines a pair of maps, one from keys to verdicts and one from keys to execution
  rows: saving a snapshot of the same run overrides the maps with those of the snapshot. So after
  any sequence of snapshots every result ever saved is there, in its last version, whether or not
  the file writes succeed.
\<close>

theorem checkpoint_refines_maps:
  assumes "r_RunID (ck_latest c) \<noteq> []" and "\<forall>s \<in> set snaps. same_kb (ck_latest c) s" and "\<And>m. mset (order m) = mset m"
  shows "verdict_map (ck_latest (fst (fold (Save put order) snaps (c, w)))) =
      fold (\<lambda>s m. m ++ verdict_map s) snaps (verdict_map (ck_latest c)) \<and>
    execution_map (ck_latest (fst (fold (Save put order) snaps (c, w)))) =
      fold (\<lambda>s m. m ++ execution_map s) snaps (execution_map (ck_latest c))"
  using assms(1,2)
proof (induction snaps arbitrary: c w)
  case Nil
  then show ?case by simp
next
  case (Cons s snaps)
  obtain c' w' where sv: "Save put order s (c, w) = (c', w')" by (metis prod.collapse)
  have "same_kb (ck_latest c) s" using Cons.prems(2) by simp
  note st = Save_step[OF Cons.prems(1) this assms(3) sv]
  have "\<forall>t \<in> set snaps. same_kb (ck_latest c') t" using Cons.prems(2) st(4) by (auto simp: same_kb_def)
  with Cons.IH[of c' w'] Cons.prems(1) st show ?case by (simp add: sv)
qed

theorem checkpoint_refines_maps_witness:
  "verdict_map (ck_latest (fst (fold (Save (\<lambda>p d w. (Some ''disk full'', w)) (\<lambda>m. m)) [zero_report, one_verdict OutcomePass]
     (newReportCheckpoint ''/out'' (zero_report\<lparr>r_RunID := ''r1''\<rparr>), ())))) (verdict_key (zero_verdict\<lparr>v_TR := ''t'', v_Outcome := OutcomePass\<rparr>))
   = Some (zero_verdict\<lparr>v_TR := ''t'', v_Outcome := OutcomePass\<rparr>)"
proof -
  let ?c = "newReportCheckpoint ''/out'' (zero_report\<lparr>r_RunID := ''r1''\<rparr>)"
  have "r_RunID (ck_latest ?c) \<noteq> []" and "\<forall>s \<in> set [zero_report, one_verdict OutcomePass]. same_kb (ck_latest ?c) s"
    by (simp_all add: newReportCheckpoint_def same_kb_def one_verdict_def zero_report_def)
  from checkpoint_refines_maps[OF this, of "\<lambda>m. m" "\<lambda>p d w. (Some ''disk full'', w)" "()"] show ?thesis
    by (simp add: verdict_map_def latest_single map_add_def)
qed

text \<open>
  C43: \<open>RecordIncident\<close> is not atomic. When another snapshot is saved between its copy and its
  save, the update of that snapshot is lost for every verdict and execution the copy already had:
  the old rows overwrite the new ones.
\<close>

theorem RecordIncident_loses_updates:
  assumes "r_RunID (ck_latest c) \<noteq> []" and "same_kb (ck_latest c) snapshot" and "\<And>m. mset (order m) = mset m"
    and "incident_copy i c = Some copy"
    and "Save put order snapshot (c, w) = (c1, w1)" and "Save put order copy (c1, w1) = (c2, w2)"
  shows "\<forall>k. (verdict_map (ck_latest c) k \<noteq> None \<longrightarrow> verdict_map (ck_latest c2) k = verdict_map (ck_latest c) k) \<and>
    (execution_map (ck_latest c) k \<noteq> None \<longrightarrow> execution_map (ck_latest c2) k = execution_map (ck_latest c) k)"
proof -
  note s1 = Save_step[OF assms(1,2,3,5)]
  have copy: "copy = RefreshLifecycle ((ck_latest c)\<lparr>r_Incidents := r_Incidents (ck_latest c) @ [i]\<rparr>)"
    using assms(4) by (auto simp: incident_copy_def split: if_splits)
  have maps: "verdict_map copy = verdict_map (ck_latest c)" "execution_map copy = execution_map (ck_latest c)"
    by (simp_all add: copy verdict_map_def execution_map_def)
  have "same_kb (ck_latest c1) copy" using s1(4) by (simp add: copy same_kb_def)
  moreover have "r_RunID (ck_latest c1) \<noteq> []" using s1(3) assms(1) by simp
  ultimately show ?thesis
    using Save_step(1,2)[OF _ _ assms(3,6)] by (auto simp: maps map_add_def split: option.splits)
qed

definition row_report :: "exec_state \<Rightarrow> report" where
  "row_report st = zero_report\<lparr>r_RunID := ''r1'', r_Executions := [zero_run_execution\<lparr>ex_TR := ''t'', ex_State := st\<rparr>]\<rparr>"

theorem RecordIncident_loses_updates_witness:
  "\<exists>copy c1 w1 c2 w2. incident_copy zero_incident (newReportCheckpoint [] (row_report ExecutionRunning)) = Some copy \<and>
     Save (\<lambda>p d w. (None, w)) (\<lambda>m. m) (row_report ExecutionCompleted) (newReportCheckpoint [] (row_report ExecutionRunning), ()) = (c1, w1) \<and>
     Save (\<lambda>p d w. (None, w)) (\<lambda>m. m) copy (c1, w1) = (c2, w2) \<and>
     execution_map (ck_latest c2) (execution_key (zero_run_execution\<lparr>ex_TR := ''t''\<rparr>)) =
       Some (zero_run_execution\<lparr>ex_TR := ''t'', ex_State := ExecutionRunning\<rparr>)"
proof -
  let ?c = "newReportCheckpoint [] (row_report ExecutionRunning)" and ?put = "\<lambda>p d w. (None, w)" and ?k = "execution_key (zero_run_execution\<lparr>ex_TR := ''t''\<rparr>)"
  have r: "r_RunID (ck_latest ?c) \<noteq> []" "same_kb (ck_latest ?c) (row_report ExecutionCompleted)" "r_Incidents (ck_latest ?c) = []"
    by (simp_all add: newReportCheckpoint_def row_report_def zero_report_def same_kb_def)
  obtain copy where copy: "incident_copy zero_incident ?c = Some copy" using r(3) by (simp add: incident_copy_def)
  obtain c1 w1 where c1: "Save ?put (\<lambda>m. m) (row_report ExecutionCompleted) (?c, ()) = (c1, w1)" by (metis prod.collapse)
  obtain c2 w2 where c2: "Save ?put (\<lambda>m. m) copy (c1, w1) = (c2, w2)" by (metis prod.collapse)
  have "execution_map (ck_latest ?c) ?k = Some (zero_run_execution\<lparr>ex_TR := ''t'', ex_State := ExecutionRunning\<rparr>)"
    by (simp add: newReportCheckpoint_def row_report_def execution_map_def execution_key_def zero_run_execution_def)
  with RecordIncident_loses_updates[OF r(1,2) _ copy c1 c2] copy c1 c2 show ?thesis by auto
qed

section \<open>Recovery is final\<close>

text \<open>
  What a recovered report is, field by field: the report that was read, with its status, health,
  flag and reason set, one incident appended and its last part closed. No other field differs.
\<close>

definition recovery_incident :: "string \<Rightarrow> incident \<Rightarrow> bool" where
  "recovery_incident why i \<longleftrightarrow> inc_ID i = ''run-abandoned'' \<and> inc_Type i = ''abandoned'' \<and> inc_Severity i = ''error'' \<and>
     inc_Message i = why \<and> inc_BlocksCertification i"

definition last_part_closed :: "string \<Rightarrow> string \<Rightarrow> report \<Rightarrow> run_composition \<Rightarrow> bool" where
  "last_part_closed now why rep c \<longleftrightarrow>
     (\<exists>before part. (if cp_Parts (r_Composition rep) = [] then [zero_run_part\<lparr>pt_PartID := r_RunID rep\<rparr>] else cp_Parts (r_Composition rep)) =
          before @ [part] \<and>
        cp_Parts c = before @ [part\<lparr>pt_Status := ''abandoned'', pt_EndedAt := now, pt_Reason := why\<rparr>] \<and>
        cp_PartsCount c = int (length before) + 1)"

definition abandons :: "string \<Rightarrow> string \<Rightarrow> report \<Rightarrow> report \<Rightarrow> bool" where
  "abandons now why rep rep' \<longleftrightarrow>
     r_Status rep' = ''abandoned'' \<and> r_Health rep' = ''unhealthy'' \<and> \<not> r_Certifiable rep' \<and> r_CompletionReason rep' = why \<and>
     (\<exists>i. recovery_incident why i \<and> r_Incidents rep' = r_Incidents rep @ [i]) \<and> last_part_closed now why rep (r_Composition rep') \<and>
     rep'\<lparr>r_Status := r_Status rep, r_Health := r_Health rep, r_Certifiable := r_Certifiable rep,
          r_CompletionReason := r_CompletionReason rep, r_Incidents := r_Incidents rep, r_Composition := r_Composition rep\<rparr> = rep"

text \<open>The files are put one after the other, up to the first that fails.\<close>

inductive files_put :: "'w writer \<Rightarrow> (string \<times> doc) list \<Rightarrow> 'w \<Rightarrow> string option \<Rightarrow> 'w \<Rightarrow> bool" for put where
  put_all: "files_put put [] w None w"
| put_next: "put path d w = (None, w1) \<Longrightarrow> files_put put files w1 e w2 \<Longrightarrow> files_put put ((path, d) # files) w e w2"
| put_fails: "put path d w = (Some err, w1) \<Longrightarrow> files_put put ((path, d) # files) w (Some err) w1"

inductive_cases files_putE: "files_put put [] w e w'" "files_put put ((path, d) # files) w None w'"

definition report_files :: "string \<Rightarrow> report \<Rightarrow> (string \<times> doc) list" where
  "report_files dir rep = [(path_join [dir, ''report.json''], DocJSON rep), (path_join [dir, ''report.md''], DocMarkdown rep),
     (path_join [dir, ''report.junit.xml''], DocJUnit rep)]"

lemma write_all_put: "write_all put files w = (e, w') \<Longrightarrow> files_put put files w e w'"
  by (induction put files w rule: write_all.induct) (auto intro: files_put.intros split: prod.splits option.splits)

lemma Refresh_abandoned:
  assumes "r_Status r = RunStatusAbandoned" "cp_Parts (r_Composition r) \<noteq> []"
    and "cp_PartsCount (r_Composition r) = int (length (cp_Parts (r_Composition r)))"
  shows "RefreshLifecycle r = r\<lparr>r_Health := RunHealthUnhealthy, r_Certifiable := False\<rparr>"
proof -
  have "default_parts r = r" using assms(2,3) by (simp add: default_parts_def Let_def)
  then show ?thesis using assms(1) by (simp add: RefreshLifecycle_def default_status_def derive_flags_def)
qed

lemma recovered_abandons:
  assumes "now \<noteq> []"
  shows "abandons now why rep (recovered now why rep)" and "RefreshLifecycle (recovered now why rep) = recovered now why rep"
proof -
  define ps where "ps = (if cp_Parts (r_Composition rep) = [] then [zero_run_part\<lparr>pt_PartID := r_RunID rep\<rparr>] else cp_Parts (r_Composition rep))"
  obtain before part where ps: "ps = before @ [part]" unfolding ps_def by (metis list.distinct(1) rev_exhaust)
  have ff: "Finalize now q RunStatusAbandoned why now = RefreshLifecycle (q\<lparr>r_Status := RunStatusAbandoned, r_CompletionReason := why,
      r_Composition := \<lparr>cp_PartsCount = int (length qs), cp_Parts = qs[length qs - 1 := (qs ! (length qs - 1))\<lparr>pt_Status := RunStatusAbandoned, pt_EndedAt := now, pt_Reason := why\<rparr>]\<rparr>\<rparr>)"
    if "qs = (if cp_Parts (r_Composition q) = [] then [zero_run_part\<lparr>pt_PartID := r_RunID q\<rparr>] else cp_Parts (r_Composition q))" for q qs
    using assms by (simp only: Finalize_def Let_def that length_list_update) simp
  let ?c = "\<lparr>cp_PartsCount = int (length before) + 1, cp_Parts = before @ [part\<lparr>pt_Status := ''abandoned'', pt_EndedAt := now, pt_Reason := why\<rparr>]\<rparr>"
  have r: "recovered now why rep = rep\<lparr>r_Incidents := r_Incidents rep @ [abandoned_incident why], r_Status := RunStatusAbandoned,
      r_CompletionReason := why, r_Composition := ?c, r_Health := RunHealthUnhealthy, r_Certifiable := False\<rparr>"
    unfolding recovered_def
    by (subst ff[of ps], simp add: ps_def, subst Refresh_abandoned) (simp_all add: ps)
  show "RefreshLifecycle (recovered now why rep) = recovered now why rep" by (simp add: r Refresh_abandoned)
  have "last_part_closed now why rep ?c" unfolding last_part_closed_def ps_def[symmetric] ps by auto
  then show "abandons now why rep (recovered now why rep)"
    unfolding abandons_def r by (simp add: recovery_incident_def abandoned_incident_def)
qed

text \<open>
  C38: recovery either refuses or finishes a report that is still running. It refuses, and leaves
  every file as it is, when no path is given, the report cannot be read, or its status is not
  \<open>running\<close>. Otherwise the three report files of the directory are put in order, up to the first
  that fails, and then the report is printed; what they hold and what is printed is the report that
  was read with status abandoned, not certifiable, one more incident which blocks the certification
  and states the reason, its last part closed, and no other field changed.
\<close>

theorem recover_only_running:
  assumes "recover_cmd rd put show_md now reportPath outputDir reason w = (err, w')" and "now \<noteq> []"
  shows "let path = (if reportPath = [] then path_join [outputDir, ''report.json''] else reportPath);
      dir = (if outputDir = [] then path_dir path else outputDir);
      why = (if reason = [] then ''process ended without finalizing the run'' else reason);
      given = (reportPath \<noteq> [] \<or> outputDir \<noteq> [])
    in (w' = w \<and> err \<noteq> None \<and>
         (given \<longrightarrow> rd path w = Inl (the err) \<or> (\<exists>rep. rd path w = Inr rep \<and> r_Status rep \<noteq> ''running''))) \<or>
       (given \<and> (\<exists>rep rep'. rd path w = Inr rep \<and> r_Status rep = ''running'' \<and> abandons now why rep rep' \<and>
         (case err of
            None \<Rightarrow> \<exists>w1. files_put put (report_files dir rep') w None w1 \<and> show_md rep' w1 = (None, w')
          | Some e \<Rightarrow> files_put put (report_files dir rep') w err w' \<or>
              (\<exists>w1. files_put put (report_files dir rep') w None w1 \<and> show_md rep' w1 = (err, w')))))"
proof (cases "reportPath = [] \<and> outputDir = []")
  case True
  with assms(1) show ?thesis by (auto simp: recover_cmd_def Let_def)
next
  case given: False
  define path where "path = (if reportPath = [] then path_join [outputDir, ''report.json''] else reportPath)"
  define dir where "dir = (if outputDir = [] then path_dir path else outputDir)"
  define why where "why = (if reason = [] then ''process ended without finalizing the run'' else reason)"
  have cmd: "recover_cmd rd put show_md now reportPath outputDir reason w =
      (case rd path w of Inl e \<Rightarrow> (Some e, w)
       | Inr rep \<Rightarrow>
           if r_Status rep \<noteq> RunStatusRunning then (Some (''report status is '' @ go_quote (r_Status rep) @ ''; only running reports can be recovered''), w)
           else (case writeReportFiles put dir (recovered now why rep) [] w of
                   (Some e, w1) \<Rightarrow> (Some e, w1) | (None, w1) \<Rightarrow> show_md (recovered now why rep) w1))"
    using given unfolding recover_cmd_def path_def dir_def why_def Let_def by auto
  show ?thesis
  proof (cases "\<exists>rep. rd path w = Inr rep \<and> r_Status rep = RunStatusRunning")
    case False
    then show ?thesis using assms(1) unfolding cmd Let_def path_def[symmetric] by (auto split: sum.splits if_splits)
  next
    case True
    then obtain rep where rep: "rd path w = Inr rep" "r_Status rep = RunStatusRunning" by blast
    let ?r = "recovered now why rep"
    obtain e1 w1 where wr: "write_all put (report_files dir ?r) w = (e1, w1)" by (metis prod.collapse)
    have "writeReportFiles put dir ?r [] w = (e1, w1)"
      using wr recovered_abandons(2)[OF assms(2)] by (simp add: writeReportFiles_def report_files_def)
    then have out: "(err, w') = (case e1 of None \<Rightarrow> show_md ?r w1 | Some e \<Rightarrow> (Some e, w1))"
      using assms(1) rep unfolding cmd by (simp split: option.splits)
    have "files_put put (report_files dir ?r) w e1 w1" by (rule write_all_put[OF wr])
    with out have fin: "case err of None \<Rightarrow> \<exists>w1. files_put put (report_files dir ?r) w None w1 \<and> show_md ?r w1 = (None, w')
        | Some e \<Rightarrow> files_put put (report_files dir ?r) w err w' \<or> (\<exists>w1. files_put put (report_files dir ?r) w None w1 \<and> show_md ?r w1 = (err, w'))"
      by (cases e1) (auto split: option.splits)
    have g: "reportPath \<noteq> [] \<or> outputDir \<noteq> []" using given by blast
    show ?thesis
      unfolding Let_def path_def[symmetric] dir_def[symmetric] why_def[symmetric]
      using g rep recovered_abandons(1)[OF assms(2)] fin by blast
  qed
qed

text \<open>A run with a pass and one part was interrupted; its report is recovered into its directory.\<close>

definition stale_report :: report where
  "stale_report = zero_report\<lparr>r_RunID := ''r1'', r_Status := RunStatusRunning,
     r_Verdicts := [zero_verdict\<lparr>v_TR := ''t'', v_Outcome := OutcomePass\<rparr>],
     r_Composition := \<lparr>cp_PartsCount = 1, cp_Parts = [zero_run_part\<lparr>pt_PartID := ''r1'', pt_Status := RunStatusRunning\<rparr>]\<rparr>\<rparr>"

definition recover_stale :: "(string \<times> doc) list \<Rightarrow> string option \<times> (string \<times> doc) list" where
  "recover_stale = recover_cmd (\<lambda>p w. if w = [] then Inr stale_report else Inl ''no report'') (\<lambda>p d w. (None, w @ [(p, d)]))
     (\<lambda>r w. (None, w @ [(''stdout'', DocMarkdown r)])) ''12:00'' ''/out/report.json'' [] ''node lost''"

theorem recover_only_running_witness:
  "\<exists>rep'. recover_stale [] = (None, [(''/out/report.json'', DocJSON rep'), (''/out/report.md'', DocMarkdown rep'),
       (''/out/report.junit.xml'', DocJUnit rep'), (''stdout'', DocMarkdown rep')]) \<and>
     r_Status rep' = RunStatusAbandoned \<and> \<not> r_Certifiable rep' \<and> r_Verdicts rep' = r_Verdicts stale_report \<and>
     map inc_Message (r_Incidents rep') = [''node lost''] \<and>
     cp_Parts (r_Composition rep') =
       [zero_run_part\<lparr>pt_PartID := ''r1'', pt_Status := RunStatusAbandoned, pt_EndedAt := ''12:00'', pt_Reason := ''node lost''\<rparr>]"
proof -
  obtain err w' where cmd: "recover_stale [] = (err, w')" by (metis prod.collapse)
  have n: "err = None" and p: "w' \<noteq> []"
    using cmd by (auto simp: recover_stale_def recover_cmd_def stale_report_def Let_def writeReportFiles_def)
  note t = recover_only_running[OF cmd[unfolded recover_stale_def], simplified Let_def n]
  have paths: "path_dir ''/out/report.json'' = ''/out''" "path_join [''/out'', ''report.json''] = ''/out/report.json''"
    "path_join [''/out'', ''report.md''] = ''/out/report.md''" "path_join [''/out'', ''report.junit.xml''] = ''/out/report.junit.xml''"
    by code_simp+
  from t p obtain rep' w1 where r: "abandons ''12:00'' ''node lost'' stale_report rep'"
    and f: "files_put (\<lambda>p d w. (None, w @ [(p, d)])) (report_files ''/out'' rep') [] None w1" and w': "w' = w1 @ [(''stdout'', DocMarkdown rep')]"
    by (auto simp: paths)
  have w1: "w1 = report_files ''/out'' rep'"
    using f unfolding report_files_def by (elim files_putE) auto
  have v: "r_Verdicts rep' = r_Verdicts stale_report"
  proof -
    from r have "r_Verdicts (rep'\<lparr>r_Status := r_Status stale_report, r_Health := r_Health stale_report, r_Certifiable := r_Certifiable stale_report,
        r_CompletionReason := r_CompletionReason stale_report, r_Incidents := r_Incidents stale_report,
        r_Composition := r_Composition stale_report\<rparr>) = r_Verdicts stale_report"
      unfolding abandons_def by (elim conjE) (rule arg_cong)
    then show ?thesis by simp
  qed
  have i: "map inc_Message (r_Incidents rep') = [''node lost'']"
    using r by (auto simp: abandons_def recovery_incident_def stale_report_def zero_report_def)
  have c: "cp_Parts (r_Composition rep') =
      [zero_run_part\<lparr>pt_PartID := ''r1'', pt_Status := RunStatusAbandoned, pt_EndedAt := ''12:00'', pt_Reason := ''node lost''\<rparr>]"
    using r by (auto simp: abandons_def last_part_closed_def stale_report_def)
  have "recover_stale [] = (None, report_files ''/out'' rep' @ [(''stdout'', DocMarkdown rep')])" using cmd n w' w1 by simp
  with r v i c show ?thesis by (intro exI[of _ rep']) (simp add: report_files_def paths abandons_def)
qed

end
