(* ===== verification/Attestation.thy ===== *)
theory Attestation
  imports Core_Types
begin

text \<open>
  \<open>internal/attestation/attestation.go\<close> and \<open>loadAttestations\<close> of \<open>cmd/harness/main.go\<close>: the
  question set, the interactive prompt and the attestation file. The prompt loops until a required
  question is answered, so it is a partial function: \<open>None\<close> is a prompt that never returns. The YAML
  and JSON codecs and the file system are arguments.
\<close>

section \<open>Questions\<close>

record question =
  q_Claim :: string
  q_Prompt :: string
  q_Help :: string
  q_Required :: bool

definition pathContainsDotDot :: "string \<Rightarrow> bool" where
  "pathContainsDotDot path = list_ex (\<lambda>part. part = ''..'') (split_on (CHR ''/'') path)"

fun check_questions :: "nat \<Rightarrow> question list \<Rightarrow> string option" where
  "check_questions i [] = None"
| "check_questions i (q # qs) =
     (if q_Claim q = [] then Some (''attestation questions: entry '' @ show_nat i @ '' has no claim'') else check_questions (Suc i) qs)"

definition LoadQuestions ::
  "(string \<Rightarrow> string + question list) \<Rightarrow> string \<Rightarrow> (string \<Rightarrow> string + string) \<Rightarrow> string \<Rightarrow> string + question list" where
  "LoadQuestions unmarshal defaults readFile path =
     (let data = (if path = [] then Inr defaults
                  else if pathContainsDotDot path then Inl ''attestation questions: path traversal rejected''
                  else (case readFile path of Inl err \<Rightarrow> Inl (''attestation questions: '' @ err) | Inr b \<Rightarrow> Inr b))
      in case data of
           Inl err \<Rightarrow> Inl err
         | Inr b \<Rightarrow>
             (case unmarshal b of
                Inl err \<Rightarrow> Inl (''attestation questions: '' @ err)
              | Inr qs \<Rightarrow> (case check_questions 0 qs of Some err \<Rightarrow> Inl err | None \<Rightarrow> Inr qs)))"

section \<open>The prompt\<close>

text \<open>
  The input is the list of the lines still to be read, each a line or a read error; at its end
  every read gives an empty line, because \<open>io.EOF\<close> is not an error here. \<open>ctx n\<close> is the error of
  the context at the \<open>n\<close>-th read. What is written to the user is collected.
\<close>

record tty =
  ty_reads :: nat
  ty_lines :: "(string + string) list"
  ty_out :: "string list"

definition say :: "string \<Rightarrow> tty \<Rightarrow> tty" where
  "say s t = t\<lparr>ty_out := ty_out t @ [s]\<rparr>"

definition readLine :: "(nat \<Rightarrow> string option) \<Rightarrow> tty \<Rightarrow> (string + string) \<times> tty" where
  "readLine ctx t =
     (let t1 = t\<lparr>ty_reads := Suc (ty_reads t)\<rparr> in
      case ctx (ty_reads t) of
        Some err \<Rightarrow> (Inl err, t1)
      | None \<Rightarrow>
         (case ty_lines t of
            [] \<Rightarrow> (Inr [], t1)
          | Inl err # ls \<Rightarrow> (Inl err, t1\<lparr>ty_lines := ls\<rparr>)
          | Inr line # ls \<Rightarrow> (Inr (trim_right (CR @ LF) line), t1\<lparr>ty_lines := ls\<rparr>)))"

definition isYes :: "string \<Rightarrow> bool" where
  "isYes s = (let w = to_lower (trim_space s) in w = ''y'' \<or> w = ''yes'')"

definition question_label :: "question \<Rightarrow> string" where
  "question_label q = q_Prompt q @ (if \<not> q_Required q then '' (optional, blank to skip)'' else [])"

definition ask_once :: "(nat \<Rightarrow> string option) \<Rightarrow> question \<Rightarrow> tty \<Rightarrow> (string + string) \<times> tty" where
  "ask_once ctx q t =
     (let t1 = (if q_Help q \<noteq> [] then say (LF @ ''# '' @ q_Help q @ LF) t else t)
      in case readLine ctx (say (question_label q @ '': '') t1) of
           (Inl err, t2) \<Rightarrow> (Inl err, t2)
         | (Inr ans, t2) \<Rightarrow> (Inr (trim_space ans), t2))"

definition required_text :: string where
  "required_text = ''  (required '' @ [CHR 0xE2, CHR 0x80, CHR 0x94] @ '' please provide a value)'' @ LF"

text \<open>The inner loop: the answer to one question, blank for a skipped optional one.\<close>

partial_function (option) ask :: "(nat \<Rightarrow> string option) \<Rightarrow> question \<Rightarrow> tty \<Rightarrow> ((string + string) \<times> tty) option" where
  "ask ctx q t =
     (case ask_once ctx q t of
        (Inl err, t1) \<Rightarrow> Some (Inl err, t1)
      | (Inr ans, t1) \<Rightarrow>
          if ans = [] \<and> q_Required q then ask ctx q (say required_text t1)
          else Some (Inr ans, t1))"

fun ask_all ::
  "(nat \<Rightarrow> string option) \<Rightarrow> string \<Rightarrow> question list \<Rightarrow> attestation list \<Rightarrow> tty \<Rightarrow> (string + attestation list) option" where
  "ask_all ctx signedBy [] atts t = Some (Inr atts)"
| "ask_all ctx signedBy (q # qs) atts t =
     (case ask ctx q t of
        None \<Rightarrow> None
      | Some (Inl err, t1) \<Rightarrow> Some (Inl err)
      | Some (Inr ans, t1) \<Rightarrow>
          ask_all ctx signedBy qs
            (if ans = [] then atts else atts @ [\<lparr> att_Claim = q_Claim q, att_Value = ans, att_SignedBy = signedBy \<rparr>]) t1)"

definition gate_text :: string where
  "gate_text = LF @ ''Some Level-3 requirements (reference architecture, published SLAs) cannot be'' @ LF
     @ ''measured from the cluster and need a human answer.'' @ LF @ ''Fill in manual attestations now? [y/N]: ''"

definition Prompt :: "(nat \<Rightarrow> string option) \<Rightarrow> question list \<Rightarrow> (string + string) list \<Rightarrow> (string + attestation list) option" where
  "Prompt ctx questions input =
     (if questions = [] then Some (Inr [])
      else
        (case readLine ctx (say gate_text \<lparr> ty_reads = 0, ty_lines = input, ty_out = [] \<rparr>) of
           (Inl err, t) \<Rightarrow> Some (Inl err)
         | (Inr gate, t) \<Rightarrow>
             if \<not> isYes gate then Some (Inr [])
             else
               (case readLine ctx (say ''Signed by (name / email): '' t) of
                  (Inl err, t1) \<Rightarrow> Some (Inl err)
                | (Inr signer, t1) \<Rightarrow> ask_all ctx (trim_space signer) questions [] t1)))"

section \<open>The attestation file\<close>

record attestation_doc =
  ad_SignedBy :: string
  ad_Claims :: "(string, string) gomap"

definition doc_step :: "attestation \<Rightarrow> attestation_doc \<Rightarrow> attestation_doc" where
  "doc_step a d = d\<lparr>ad_Claims := gm_set (att_Claim a) (att_Value a) (ad_Claims d),
     ad_SignedBy := (if ad_SignedBy d = [] then att_SignedBy a else ad_SignedBy d)\<rparr>"

definition attestation_doc_of :: "attestation list \<Rightarrow> attestation_doc" where
  "attestation_doc_of atts = fold doc_step atts \<lparr> ad_SignedBy = [], ad_Claims = [] \<rparr>"

definition WriteFile ::
  "(attestation_doc \<Rightarrow> string + string) \<Rightarrow> (string \<Rightarrow> string \<Rightarrow> 'w \<Rightarrow> string option \<times> 'w) \<Rightarrow> string \<Rightarrow> attestation list
   \<Rightarrow> 'w \<Rightarrow> string option \<times> 'w" where
  "WriteFile marshal writeFile path atts w =
     (case marshal (attestation_doc_of atts) of
        Inl err \<Rightarrow> (Some err, w)
      | Inr b \<Rightarrow> writeFile path (b @ LF) w)"

definition attestations_of :: "attestation_doc \<Rightarrow> attestation list" where
  "attestations_of d =
     map (\<lambda>k. \<lparr> att_Claim = k, att_Value = (case gm_get (ad_Claims d) k of Some v \<Rightarrow> v | None \<Rightarrow> []), att_SignedBy = ad_SignedBy d \<rparr>)
       (sort (map fst (ad_Claims d)))"

definition loadAttestations ::
  "(string \<Rightarrow> string + attestation_doc) \<Rightarrow> (string \<Rightarrow> 'w \<Rightarrow> string + string) \<Rightarrow> string \<Rightarrow> 'w \<Rightarrow> string + attestation list" where
  "loadAttestations unmarshal readFile path w =
     (case readFile path w of
        Inl err \<Rightarrow> Inl (''attestations: '' @ err)
      | Inr b \<Rightarrow>
         (case unmarshal b of
            Inl err \<Rightarrow> Inl (''attestations: '' @ err)
          | Inr d \<Rightarrow> Inr (attestations_of d)))"


section \<open>The prompt returns\<close>

definition answer_of :: "string \<Rightarrow> string" where
  "answer_of line = trim_space (trim_right (CR @ LF) line)"

lemma say_simps [simp]: "ty_lines (say s t) = ty_lines t" "ty_reads (say s t) = ty_reads t"
  by (simp_all add: say_def)

lemma answer_empty [simp]: "trim_space [] = []"
  by (simp add: trim_space_def)

lemma ask_once_result:
  assumes "ask_once ctx q t = (r, t1)"
  shows "r = (case ctx (ty_reads t) of Some e \<Rightarrow> Inl e
      | None \<Rightarrow> (case ty_lines t of [] \<Rightarrow> Inr [] | Inl e # ls \<Rightarrow> Inl e | Inr l # ls \<Rightarrow> Inr (answer_of l)))"
    and "ty_reads t1 = Suc (ty_reads t)" and "ctx (ty_reads t) = None \<Longrightarrow> ty_lines t1 = tl (ty_lines t)"
  using assms by (auto simp: ask_once_def readLine_def Let_def answer_of_def split: option.splits list.splits sum.splits if_splits)

text \<open>When the context is cancelled at some read from here on, a question is answered or fails.\<close>

lemma ask_cancelled:
  assumes "\<forall>n \<ge> N. ctx n \<noteq> None"
  shows "\<exists>r t'. ask ctx q t = Some (r, t')"
proof (induction "N - ty_reads t" arbitrary: t rule: less_induct)
  case less
  obtain r t1 where o: "ask_once ctx q t = (r, t1)" by (metis prod.collapse)
  note res = ask_once_result[OF o]
  show ?case
  proof (cases r)
    case (Inl e)
    with o show ?thesis by (subst ask.simps) simp
  next
    case (Inr ans)
    then have "ctx (ty_reads t) = None" using res(1) by (cases "ctx (ty_reads t)") auto
    then have "ty_reads t < N" using assms by (meson not_less)
    with less[of "say required_text t1"] o Inr res(2) show ?thesis by (subst ask.simps) auto
  qed
qed

fun answers_end :: "question list \<Rightarrow> (string + string) list \<Rightarrow> bool" where
  "answers_end [] ls = True"
| "answers_end (q # qs) [] = (\<not> q_Required q \<and> answers_end qs [])"
| "answers_end (q # qs) (Inl e # ls) = True"
| "answers_end (q # qs) (Inr l # ls) =
     (if answer_of l = [] \<and> q_Required q then answers_end (q # qs) ls else answers_end qs ls)"

lemma ask_eof_partial:
  "ask ctx q t = Some r \<Longrightarrow> ctx = (\<lambda>_. None) \<Longrightarrow> q_Required q \<Longrightarrow> ty_lines t = [] \<Longrightarrow> False"
proof (induction ctx q t r rule: ask.raw_induct[rotated, consumes 1, case_names step])
  case (step ask' ctx q t r)
  obtain x t1 where o: "ask_once ctx q t = (x, t1)" by (metis prod.collapse)
  from ask_once_result[OF o] step(3,5) have "x = Inr []" "ty_lines (say required_text t1) = []" by simp_all
  with step(1)[of ctx q "say required_text t1" r] step(2,3,4) o show ?case by (simp split: if_splits)
qed

lemma ask_eof: "q_Required q \<Longrightarrow> ty_lines t = [] \<Longrightarrow> ask (\<lambda>_. None) q t = None"
  using ask_eof_partial by (metis not_None_eq)

lemma ask_all_returns: "ask_all (\<lambda>_. None) s qs atts t \<noteq> None \<longleftrightarrow> answers_end qs (ty_lines t)"
proof (induction qs "ty_lines t" arbitrary: atts t rule: answers_end.induct)
  case (1 t)
  show ?case by simp
next
  case (2 q qs)
  obtain x t1 where o: "ask_once (\<lambda>_. None) q t = (x, t1)" by (metis prod.collapse)
  from ask_once_result[OF o] 2(2)[symmetric] have x: "x = Inr []" "ty_lines t1 = []" by simp_all
  show ?case
  proof (cases "q_Required q")
    case True
    with ask_eof[of q t] 2(2)[symmetric] show ?thesis by simp
  next
    case False
    have "ask (\<lambda>_. None) q t = Some (Inr [], t1)" using False o x by (subst ask.simps) simp
    with 2(1)[of t1 atts] False x 2(2)[symmetric] show ?thesis by simp
  qed
next
  case (3 q qs e ls)
  obtain x t1 where o: "ask_once (\<lambda>_. None) q t = (x, t1)" by (metis prod.collapse)
  from ask_once_result[OF o] 3[symmetric] have "x = Inl e" by simp
  then have "ask (\<lambda>_. None) q t = Some (Inl e, t1)" using o by (subst ask.simps) simp
  then show ?case using 3[symmetric] by simp
next
  case (4 q qs l ls)
  obtain x t1 where o: "ask_once (\<lambda>_. None) q t = (x, t1)" by (metis prod.collapse)
  from ask_once_result[OF o] have x: "x = Inr (answer_of l)" "ty_lines t1 = ls" using 4(3)[symmetric] by simp_all
  show ?case
  proof (cases "answer_of l = [] \<and> q_Required q")
    case True
    then have "ask (\<lambda>_. None) q t = ask (\<lambda>_. None) q (say required_text t1)"
      using o x by (subst ask.simps) simp
    then have "ask_all (\<lambda>_. None) s (q # qs) atts t = ask_all (\<lambda>_. None) s (q # qs) atts (say required_text t1)" by simp
    with 4(1)[OF True, of "say required_text t1" atts] True x 4(3)[symmetric] show ?thesis by simp
  next
    case False
    then have "ask (\<lambda>_. None) q t = Some (Inr (answer_of l), t1)" using o x by (subst ask.simps) auto
    with 4(2)[OF False, of t1] False x 4(3)[symmetric] show ?thesis by auto
  qed
qed

lemma ask_all_cancelled:
  assumes "\<forall>n \<ge> N. ctx n \<noteq> None"
  shows "ask_all ctx s qs atts t \<noteq> None"
proof (induction qs arbitrary: atts t)
  case Nil
  show ?case by simp
next
  case (Cons q qs)
  obtain r t' where "ask ctx q t = Some (r, t')" using ask_cancelled[OF assms] by blast
  with Cons show ?case by (cases r) simp_all
qed


definition gate_passes :: "question list \<Rightarrow> (string + string) list \<Rightarrow> bool" where
  "gate_passes questions input =
     (case input of
        [] \<Rightarrow> True
      | Inl e # ls \<Rightarrow> True
      | Inr gate # ls \<Rightarrow> \<not> isYes (trim_right (CR @ LF) gate) \<or>
          (case ls of [] \<Rightarrow> answers_end questions [] | Inl e # ls' \<Rightarrow> True | Inr signer # ls' \<Rightarrow> answers_end questions ls'))"

lemma readLine_open:
  "readLine (\<lambda>_. None) t = (r, t1) \<Longrightarrow>
    (case ty_lines t of [] \<Rightarrow> r = Inr [] \<and> ty_lines t1 = [] | Inl e # ls \<Rightarrow> r = Inl e
     | Inr l # ls \<Rightarrow> r = Inr (trim_right (CR @ LF) l) \<and> ty_lines t1 = ls)"
  by (auto simp: readLine_def Let_def split: list.splits sum.splits)

lemma gate_returns:
  "(case readLine (\<lambda>_. None) t of
      (Inl err, t) \<Rightarrow> Some (Inl err)
    | (Inr gate, t) \<Rightarrow>
        if \<not> isYes gate then Some (Inr [])
        else (case readLine (\<lambda>_. None) (say ''Signed by (name / email): '' t) of
                (Inl err, t1) \<Rightarrow> Some (Inl err)
              | (Inr signer, t1) \<Rightarrow> ask_all (\<lambda>_. None) (trim_space signer) questions [] t1)) \<noteq> None
   \<longleftrightarrow> gate_passes questions (ty_lines t)"
proof -
  obtain r1 t1 where 1: "readLine (\<lambda>_. None) t = (r1, t1)" by (metis prod.collapse)
  obtain r2 t2 where 2: "readLine (\<lambda>_. None) (say ''Signed by (name / email): '' t1) = (r2, t2)" by (metis prod.collapse)
  have "\<not> isYes []" by (simp add: isYes_def to_lower_def)
  with readLine_open[OF 1] readLine_open[OF 2] show ?thesis
    by (auto simp: 1 2 gate_passes_def ask_all_returns simp del: not_None_eq split: list.splits sum.splits)
qed

text \<open>
  C23: the prompt always returns when its context is cancelled from some read on. Without
  cancellation it returns exactly when there is no question, the gate or the signer cannot be read
  or the gate is declined, or the input answers every required question: at the end of the input a
  required question without an answer is asked forever.
\<close>

theorem Prompt_returns:
  "((\<exists>N. \<forall>n \<ge> N. ctx n \<noteq> None) \<longrightarrow> Prompt ctx questions input \<noteq> None) \<and>
   (Prompt (\<lambda>_. None) questions input \<noteq> None \<longleftrightarrow>
     questions = [] \<or> gate_passes questions input)"
proof -
  have "Prompt ctx questions input \<noteq> None" if c: "\<forall>n \<ge> N. ctx n \<noteq> None" for N
  proof -
    have "(case (if isYes gate then readLine ctx t else (Inl [], t)) of (Inl err, t1) \<Rightarrow> True
        | (Inr signer, t1) \<Rightarrow> ask_all ctx (trim_space signer) questions [] t1 \<noteq> None)" for gate t
      using ask_all_cancelled[OF c] by (simp split: prod.split sum.split del: not_None_eq)
    with ask_all_cancelled[OF c] show ?thesis
      unfolding Prompt_def by (simp split: prod.split sum.split del: not_None_eq)
  qed
  moreover have "Prompt (\<lambda>_. None) questions input \<noteq> None \<longleftrightarrow> questions = [] \<or> gate_passes questions input"
    using gate_returns[where t = "say gate_text \<lparr>ty_reads = 0, ty_lines = input, ty_out = []\<rparr>" and questions = questions]
    by (simp add: Prompt_def del: not_None_eq)
  ultimately show ?thesis by blast
qed

theorem Prompt_returns_witness:
  "Prompt (\<lambda>_. None) [\<lparr> q_Claim = ''sla'', q_Prompt = ''SLA'', q_Help = [], q_Required = True \<rparr>] [Inr ''yes'', Inr ''me''] = None \<and>
   Prompt (\<lambda>n. if n < 5 then None else Some ''context canceled'') [\<lparr> q_Claim = ''sla'', q_Prompt = ''SLA'', q_Help = [], q_Required = True \<rparr>] [Inr ''yes'', Inr ''me''] \<noteq> None"
proof -
  let ?ctx = "\<lambda>n::nat. if n < 5 then None else Some ''context canceled''"
  have y: "isYes (trim_right (CR @ LF) ''yes'')" by code_simp
  have "\<exists>N. \<forall>n \<ge> N. ?ctx n \<noteq> None" by (intro exI[of _ 5]) simp
  with Prompt_returns[where ctx = ?ctx and questions = "[\<lparr> q_Claim = ''sla'', q_Prompt = ''SLA'', q_Help = [], q_Required = True \<rparr>]" and input = "[Inr ''yes'', Inr ''me'']"] y
  show ?thesis by (simp add: gate_passes_def)
qed

section \<open>The attestation file reads back\<close>

definition first_signer :: "attestation list \<Rightarrow> string" where
  "first_signer atts = (case find (\<lambda>a. att_SignedBy a \<noteq> []) atts of None \<Rightarrow> [] | Some a \<Rightarrow> att_SignedBy a)"

lemma doc_steps:
  "ad_SignedBy (fold doc_step atts d) = (if ad_SignedBy d = [] then first_signer atts else ad_SignedBy d)"
  "gm_get (ad_Claims (fold doc_step atts d)) k =
     (case latest att_Claim k atts of Some a \<Rightarrow> Some (att_Value a) | None \<Rightarrow> gm_get (ad_Claims d) k)"
proof (induction atts arbitrary: d)
  case (Cons a atts)
  { case 1
    show ?case using Cons(1)[of "doc_step a d"] by (simp add: doc_step_def first_signer_def) }
  { case 2
    show ?case using Cons(2)[of "doc_step a d"]
      using latest_append[of att_Claim k "[a]" atts] by (simp add: doc_step_def split: option.splits) }
qed (simp_all add: first_signer_def)

lemma sort_keys: "gm_wf m \<Longrightarrow> sort (map fst m) = sorted_list_of_set {k. gm_get m k \<noteq> None}"
proof -
  assume "gm_wf m"
  then have "sorted_list_of_set (set (map fst m)) = sort (map fst m)"
    using sorted_list_of_set_sort_remdups[of "map fst m"] by (simp add: gm_wf_def distinct_remdups_id)
  moreover have "{k. gm_get m k \<noteq> None} = set (map fst m)" by (auto simp: gm_get_None)
  ultimately show ?thesis by simp
qed

text \<open>
  C30: what is written is what is read: loading the file that \<open>WriteFile\<close> wrote gives one
  attestation per claim, in the order of the claims, with the last value given for it and the
  first signer. The codecs are assumed to keep this one document, and the file system to give
  back what was written.
\<close>

theorem attestations_roundtrip:
  assumes "\<And>b. marshal (attestation_doc_of atts) = Inr b \<Longrightarrow>
      \<exists>d. unmarshal (b @ LF) = Inr d \<and> gm_wf (ad_Claims d) \<and> ad_SignedBy d = ad_SignedBy (attestation_doc_of atts) \<and>
        gm_get (ad_Claims d) = gm_get (ad_Claims (attestation_doc_of atts))"
    and "\<And>b w w'. writeFile path b w = (None, w') \<Longrightarrow> readFile path w' = Inr b"
    and "WriteFile marshal writeFile path atts w = (None, w')"
  shows "loadAttestations unmarshal readFile path w' =
    Inr (map (\<lambda>k. (the (latest att_Claim k atts))\<lparr>att_SignedBy := first_signer atts\<rparr>) (sorted_list_of_set (att_Claim ` set atts)))"
proof -
  obtain b where b: "marshal (attestation_doc_of atts) = Inr b" "writeFile path (b @ LF) w = (None, w')"
    using assms(3) by (auto simp: WriteFile_def split: sum.splits)
  obtain d where d: "unmarshal (b @ LF) = Inr d" "gm_wf (ad_Claims d)" "ad_SignedBy d = first_signer atts"
    "\<And>k. gm_get (ad_Claims d) k = map_option att_Value (latest att_Claim k atts)"
    using assms(1)[OF b(1)] by (auto simp: attestation_doc_of_def doc_steps split: option.splits)
  have dom: "{k. gm_get (ad_Claims d) k \<noteq> None} = att_Claim ` set atts"
    unfolding d(4) using latest_None[of att_Claim _ atts] by (auto simp: image_iff)
  have "attestations_of d = map (\<lambda>k. (the (latest att_Claim k atts))\<lparr>att_SignedBy := first_signer atts\<rparr>) (sorted_list_of_set (att_Claim ` set atts))"
    unfolding attestations_of_def sort_keys[OF d(2)] dom
  proof (rule map_cong[OF refl])
    fix k assume "k \<in> set (sorted_list_of_set (att_Claim ` set atts))"
    then obtain a where a: "latest att_Claim k atts = Some a"
      using latest_None[of att_Claim k atts] by (auto simp: image_iff)
    then show "\<lparr>att_Claim = k, att_Value = case gm_get (ad_Claims d) k of None \<Rightarrow> [] | Some v \<Rightarrow> v, att_SignedBy = ad_SignedBy d\<rparr> =
        (the (latest att_Claim k atts))\<lparr>att_SignedBy := first_signer atts\<rparr>"
      using latest_Some[OF a] by (cases a) (simp add: d(3,4))
  qed
  then show ?thesis using assms(2)[OF b(2)] d(1) by (simp add: loadAttestations_def)
qed

theorem attestations_roundtrip_witness:
  "loadAttestations (\<lambda>b. if b = ''doc'' @ LF then Inr \<lparr> ad_SignedBy = ''me'', ad_Claims = [(''sla'', ''99'')] \<rparr> else Inl ''bad'')
     (\<lambda>p w. case w of None \<Rightarrow> Inl ''absent'' | Some b \<Rightarrow> Inr b) ''/a.json'' (Some (''doc'' @ LF)) =
   Inr [\<lparr> att_Claim = ''sla'', att_Value = ''99'', att_SignedBy = ''me'' \<rparr>]"
proof -
  let ?atts = "[\<lparr> att_Claim = ''sla'', att_Value = ''99'', att_SignedBy = ''me'' \<rparr>]"
  let ?un = "\<lambda>b. if b = ''doc'' @ LF then Inr \<lparr> ad_SignedBy = ''me'', ad_Claims = [(''sla'', ''99'')] \<rparr> else Inl ''bad''"
  let ?ma = "\<lambda>d::attestation_doc. Inr ''doc'' :: string + string"
  let ?wr = "\<lambda>p b w. (None, Some b) :: string option \<times> string option"
  let ?rd = "\<lambda>p w. case w of None \<Rightarrow> Inl ''absent'' | Some b \<Rightarrow> Inr b"
  have d: "attestation_doc_of ?atts = \<lparr> ad_SignedBy = ''me'', ad_Claims = [(''sla'', ''99'')] \<rparr>"
    by (simp add: attestation_doc_of_def doc_step_def gm_set_def)
  have "WriteFile ?ma ?wr ''/a.json'' ?atts None = (None, Some (''doc'' @ LF))" by (simp add: WriteFile_def)
  from attestations_roundtrip[OF _ _ this, of ?un ?rd] show ?thesis
    by (simp add: d gm_wf_def first_signer_def)
qed

end
