(* ===== verification/Backends.thy ===== *)
theory Backends
  imports Core_Types
begin

text \<open>
  \<open>internal/backend/backend.go\<close>: loading a backends file, looking up a backend and resolving its
  credential references. Files, the YAML decoder and the cluster's secrets are arguments; the log
  lines of a resolution are collected. The order of a map of secrets is the order of one loop.
\<close>

definition BackendSchemaVersion :: string where "BackendSchemaVersion = ''1''"

record backend_set =
  bs_SchemaVersion :: string
  bs_Backends :: "backend list"

section \<open>Validation\<close>

definition validateRef :: "secret_ref \<Rightarrow> string option" where
  "validateRef ref =
     (let n = (if sr_File ref \<noteq> [] then 1 else 0) + (if sr_K8sSecret ref \<noteq> None then 1 else 0)
              + (if sr_Inline ref \<noteq> [] then 1 else 0 :: nat)
      in if n = 0 then Some ''no source set (want one of file / k8s_secret / inline)''
         else if n > 1 then Some ''multiple sources set (want exactly one)''
         else (case sr_K8sSecret ref of
                 None \<Rightarrow> None
               | Some k \<Rightarrow> if ks_Name k = [] \<or> ks_Key k = [] then Some ''k8s_secret requires name and key'' else None))"

fun validate_secrets :: "string \<Rightarrow> (string \<times> secret_ref) list \<Rightarrow> string option" where
  "validate_secrets name [] = None"
| "validate_secrets name ((key, ref) # rs) =
     (case validateRef ref of
        Some err \<Rightarrow> Some (''backend '' @ go_quote name @ '' secret '' @ go_quote key @ '': '' @ err)
      | None \<Rightarrow> validate_secrets name rs)"

fun validate_backends :: "nat \<Rightarrow> (string, bool) gomap \<Rightarrow> backend list \<Rightarrow> string option" where
  "validate_backends i seen [] = None"
| "validate_backends i seen (b # bs) =
     (if be_Name b = [] then Some (''backend #'' @ show_nat i @ '': missing name'')
      else if gm_get seen (be_Name b) = Some True then Some (''duplicate backend name '' @ go_quote (be_Name b))
      else (case validate_secrets (be_Name b) (be_Secrets b) of
              Some err \<Rightarrow> Some err
            | None \<Rightarrow> validate_backends (Suc i) (gm_set (be_Name b) True seen) bs))"

definition backends_validate :: "backend_set \<Rightarrow> string option" where
  "backends_validate s =
     (if bs_SchemaVersion s \<noteq> BackendSchemaVersion then
        Some (''unsupported schema_version '' @ go_quote (bs_SchemaVersion s) @ '' (want '' @ go_quote BackendSchemaVersion @ '')'')
      else validate_backends 0 [] (bs_Backends s))"

definition backends_Load :: "(string \<Rightarrow> string + string) \<Rightarrow> (string \<Rightarrow> string + backend_set) \<Rightarrow> string \<Rightarrow> string + backend_set" where
  "backends_Load readFile unmarshal path =
     (case readFile path of
        Inl err \<Rightarrow> Inl (''read backends '' @ path @ '': '' @ err)
      | Inr data \<Rightarrow>
         (case unmarshal data of
            Inl err \<Rightarrow> Inl (''parse backends '' @ path @ '': '' @ err)
          | Inr s \<Rightarrow>
             (case backends_validate s of
                Some err \<Rightarrow> Inl (''invalid backends '' @ path @ '': '' @ err)
              | None \<Rightarrow> Inr s)))"

fun get_loop :: "string \<Rightarrow> backend list \<Rightarrow> backend option" where
  "get_loop name [] = None"
| "get_loop name (b # bs) = (if be_Name b = name then Some b else get_loop name bs)"

definition backends_Get :: "backend_set \<Rightarrow> string \<Rightarrow> backend option" where
  "backends_Get s name = get_loop name (bs_Backends s)"

section \<open>Resolution\<close>

text \<open>\<open>kube\<close> is \<open>None\<close> for a nil reader of cluster secrets, \<open>logs\<close> whether there is a logger.\<close>

type_synonym kube_reader = "(string \<Rightarrow> string \<Rightarrow> string \<Rightarrow> string + string) option"

definition resolveRef ::
  "(string \<Rightarrow> string + string) \<Rightarrow> string \<Rightarrow> string \<Rightarrow> secret_ref \<Rightarrow> kube_reader \<Rightarrow> bool \<Rightarrow> (string + string) \<times> (string \<times> string) list" where
  "resolveRef readFile backendName key ref kube logs =
     (let at_key = ''backend '' @ go_quote backendName @ '' secret '' @ go_quote key in
      if sr_File ref \<noteq> [] then
        (case readFile (sr_File ref) of
           Inl err \<Rightarrow> (Inl (at_key @ '': read file: '' @ err), [])
         | Inr data \<Rightarrow> (Inr (trim_right (CR @ LF) data), []))
      else if sr_Inline ref \<noteq> [] then (Inr (sr_Inline ref), if logs then [(backendName, key)] else [])
      else
        (case sr_K8sSecret ref of
           Some k \<Rightarrow>
             (case kube of
                None \<Rightarrow> (Inl (at_key @ '': k8s_secret resolution not yet wired (needs internal/kube)''), [])
              | Some readSecret \<Rightarrow> (readSecret (ks_Namespace k) (ks_Name k) (ks_Key k), []))
         | None \<Rightarrow> (Inl (at_key @ '': no source set''), [])))"

fun resolve_loop ::
  "(string \<Rightarrow> string + string) \<Rightarrow> string \<Rightarrow> kube_reader \<Rightarrow> bool \<Rightarrow> (string \<times> secret_ref) list \<Rightarrow> (string, string) gomap
   \<Rightarrow> (string \<times> string) list \<Rightarrow> (string + (string, string) gomap) \<times> (string \<times> string) list" where
  "resolve_loop readFile name kube logs [] secrets warned = (Inr secrets, warned)"
| "resolve_loop readFile name kube logs ((key, ref) # rs) secrets warned =
     (case resolveRef readFile name key ref kube logs of
        (Inl err, ws) \<Rightarrow> (Inl err, warned @ ws)
      | (Inr v, ws) \<Rightarrow> resolve_loop readFile name kube logs rs (gm_set key v secrets) (warned @ ws))"

definition backends_Resolve ::
  "(string \<Rightarrow> string + string) \<Rightarrow> backend \<Rightarrow> kube_reader \<Rightarrow> bool \<Rightarrow> (string + resolved_backend) \<times> (string \<times> string) list" where
  "backends_Resolve readFile b kube logs =
     (case resolve_loop readFile (be_Name b) kube logs (be_Secrets b) [] [] of
        (Inl err, ws) \<Rightarrow> (Inl err, ws)
      | (Inr secrets, ws) \<Rightarrow> (Inr (NewResolvedBackend b secrets), ws))"

section \<open>A valid set resolves\<close>

lemma validate_secrets_None: "validate_secrets name rs = None \<longleftrightarrow> (\<forall>(k, ref) \<in> set rs. validateRef ref = None)"
  by (induction rs) (auto split: option.splits)

lemma validate_backends_None:
  "validate_backends i seen bs = None \<longleftrightarrow>
    (\<forall>b \<in> set bs. be_Name b \<noteq> [] \<and> gm_get seen (be_Name b) \<noteq> Some True \<and> validate_secrets (be_Name b) (be_Secrets b) = None) \<and>
    distinct (map be_Name bs)"
proof (induction bs arbitrary: i seen)
  case Nil
  then show ?case by simp
next
  case (Cons b bs)
  show ?case
    by (cases "validate_secrets (be_Name b) (be_Secrets b)") (auto simp: Cons go_map)
qed

lemma get_loop_distinct:
  "distinct (map be_Name bs) \<Longrightarrow> get_loop name bs = Some b \<longleftrightarrow> b \<in> set bs \<and> be_Name b = name"
  by (induction bs) (auto simp: image_iff)

lemma get_loop_name: "get_loop name bs = Some b \<Longrightarrow> be_Name b = name \<and> b \<in> set bs"
  by (induction bs) (auto split: if_splits)

text \<open>The value a reference stands for.\<close>

definition ref_value :: "(string \<Rightarrow> string + string) \<Rightarrow> kube_reader \<Rightarrow> secret_ref \<Rightarrow> string option" where
  "ref_value readFile kube ref =
     (case sr_K8sSecret ref of
        Some k \<Rightarrow> (case kube of None \<Rightarrow> None
                  | Some rd \<Rightarrow> (case rd (ks_Namespace k) (ks_Name k) (ks_Key k) of Inl e \<Rightarrow> None | Inr v \<Rightarrow> Some v))
      | None \<Rightarrow> if sr_File ref = [] then Some (sr_Inline ref)
                else (case readFile (sr_File ref) of Inl e \<Rightarrow> None | Inr v \<Rightarrow> Some (trim_right (CR @ LF) v)))"

lemma resolveRef_value:
  "validateRef ref = None \<Longrightarrow>
    (case fst (resolveRef readFile name key ref kube logs) of Inl e \<Rightarrow> None | Inr v \<Rightarrow> Some v) = ref_value readFile kube ref"
  by (cases "sr_K8sSecret ref"; cases kube; cases "sr_File ref = []"; cases "sr_Inline ref = []")
    (auto simp: validateRef_def resolveRef_def ref_value_def Let_def split: sum.splits option.splits if_splits)

lemma resolve_loop_result:
  assumes "\<forall>(k, ref) \<in> set rs. validateRef ref = None"
  shows "case fst (resolve_loop readFile name kube logs rs secrets warned) of
      Inl e \<Rightarrow> \<exists>(k, ref) \<in> set rs. ref_value readFile kube ref = None
    | Inr m \<Rightarrow> (\<forall>(k, ref) \<in> set rs. ref_value readFile kube ref \<noteq> None) \<and>
        (gm_wf rs \<longrightarrow> (\<forall>k. gm_get m k = (case gm_get rs k of Some ref \<Rightarrow> ref_value readFile kube ref | None \<Rightarrow> gm_get secrets k)))"
  using assms
proof (induction rs arbitrary: secrets warned)
  case Nil
  then show ?case by simp
next
  case (Cons p rs)
  obtain key ref where p: "p = (key, ref)" by (cases p)
  obtain r ws where r: "resolveRef readFile name key ref kube logs = (r, ws)" by (metis prod.collapse)
  have v: "(case r of Inl e \<Rightarrow> None | Inr v \<Rightarrow> Some v) = ref_value readFile kube ref"
    using resolveRef_value[of ref readFile name key kube logs] Cons.prems by (simp add: p r)
  show ?case
  proof (cases r)
    case (Inl e)
    with v show ?thesis by (simp add: p r)
  next
    case (Inr x)
    have "gm_wf rs \<and> gm_get rs key = None" if "gm_wf (p # rs)"
      using that by (simp add: p gm_wf_def gm_get_None)
    moreover have "ref_value readFile kube ref = Some x" using v Inr by simp
    ultimately show ?thesis
      using Cons.IH[of "gm_set key x secrets" "warned @ ws"] Cons.prems Inr
      by (auto simp: p r go_map split: sum.splits option.splits) (metis option.distinct(1))
  qed
qed

text \<open>
  A backend taken from a loaded file has the name asked for, is the only one with it, and
  every reference of it has exactly one source. Its resolution succeeds exactly when every source
  can be read, and then each secret has the value of its one source: the file without its line
  end, the cluster secret, or the inline value.
\<close>

theorem loaded_backend_resolves:
  assumes "backends_Load readFile unmarshal path = Inr s" and "backends_Get s name = Some b" and "gm_wf (be_Secrets b)"
  shows "be_Name b = name \<and> (\<forall>b' \<in> set (bs_Backends s). be_Name b' = name \<longrightarrow> b' = b) \<and>
    (case fst (backends_Resolve readFile b kube logs) of
       Inl e \<Rightarrow> \<exists>(k, ref) \<in> set (be_Secrets b). ref_value readFile kube ref = None
     | Inr r \<Rightarrow> rb_Name r = name \<and>
         (\<forall>k. Secret r k = (case gm_get (be_Secrets b) k of Some ref \<Rightarrow> ref_value readFile kube ref | None \<Rightarrow> None)) \<and>
         (\<forall>(k, ref) \<in> set (be_Secrets b). ref_value readFile kube ref \<noteq> None))"
proof -
  have "backends_validate s = None"
    using assms(1) by (auto simp: backends_Load_def split: sum.splits option.splits)
  then have v: "validate_backends 0 [] (bs_Backends s) = None" by (simp add: backends_validate_def split: if_splits)
  have b: "be_Name b = name" "b \<in> set (bs_Backends s)" using get_loop_name assms(2) by (auto simp: backends_Get_def)
  have d: "distinct (map be_Name (bs_Backends s))" using v validate_backends_None by blast
  have refs: "\<forall>(k, ref) \<in> set (be_Secrets b). validateRef ref = None"
    using v b(2) validate_secrets_None by (auto simp: validate_backends_None)
  have "\<forall>b' \<in> set (bs_Backends s). be_Name b' = name \<longrightarrow> b' = b"
    using d b by (auto simp: distinct_map inj_on_def)
  moreover have "case fst (backends_Resolve readFile b kube logs) of
       Inl e \<Rightarrow> \<exists>(k, ref) \<in> set (be_Secrets b). ref_value readFile kube ref = None
     | Inr r \<Rightarrow> rb_Name r = name \<and>
         (\<forall>k. Secret r k = (case gm_get (be_Secrets b) k of Some ref \<Rightarrow> ref_value readFile kube ref | None \<Rightarrow> None)) \<and>
         (\<forall>(k, ref) \<in> set (be_Secrets b). ref_value readFile kube ref \<noteq> None)"
  proof -
    obtain r ws where r: "resolve_loop readFile (be_Name b) kube logs (be_Secrets b) [] [] = (r, ws)" by (metis prod.collapse)
    show ?thesis
      using resolve_loop_result[OF refs, where readFile = readFile and name = "be_Name b" and kube = kube and logs = logs and secrets = "[]" and warned = "[]"]
        assms(3) b(1)
      by (cases r) (simp_all add: r[unfolded b(1)] backends_Resolve_def Secret_def NewResolvedBackend_def cong: option.case_cong)
  qed
  ultimately show ?thesis using b(1) by blast
qed

definition token_backend :: backend where
  "token_backend = \<lparr> be_Name = ''arr'', be_Vendor = ''v'', be_StorageClass = ''fast'', be_SnapshotClass = [], be_Params = [],
     be_Secrets = [(''token'', \<lparr> sr_File = ''/t'', sr_K8sSecret = None, sr_Inline = [] \<rparr>)] \<rparr>"

theorem loaded_backend_resolves_witness:
  "\<exists>r. fst (backends_Resolve (\<lambda>p. Inr (''s3cret'' @ LF)) token_backend None True) = Inr r \<and> Secret r ''token'' = Some ''s3cret''"
proof -
  let ?s = "\<lparr> bs_SchemaVersion = ''1'', bs_Backends = [token_backend] \<rparr>"
  have l: "backends_Load (\<lambda>p. Inr (''s3cret'' @ LF)) (\<lambda>d. Inr ?s) ''b.yaml'' = Inr ?s" by code_simp
  have g: "backends_Get ?s ''arr'' = Some token_backend" by (simp add: backends_Get_def token_backend_def)
  have w: "gm_wf (be_Secrets token_backend)" by (simp add: token_backend_def gm_wf_def)
  have t: "ref_value (\<lambda>p. Inr (''s3cret'' @ LF)) None \<lparr> sr_File = ''/t'', sr_K8sSecret = None, sr_Inline = [] \<rparr> = Some ''s3cret''"
    by code_simp
  have sec: "be_Secrets token_backend = [(''token'', \<lparr> sr_File = ''/t'', sr_K8sSecret = None, sr_Inline = [] \<rparr>)]" by (simp add: token_backend_def)
  show ?thesis
    using loaded_backend_resolves[OF l g w, of None True] t by (auto simp: sec gm_get_Cons split: sum.splits)
qed

end
