(* ===== verification/Go_Strings.thy ===== *)
theory Go_Strings
  imports Go_Float
begin

text \<open>
  More of Go's \<open>strings\<close>, \<open>strconv\<close>, \<open>sort\<close> and \<open>math\<close>, used by the commands and the result
  parsers of the tools: fields, cutting at a separator, \<open>ParseFloat\<close>, \<open>Float64s\<close>, \<open>Ceil\<close>, and
  the wrap-around of 64-bit integers.
\<close>

section \<open>Strings\<close>

text \<open>\<open>strings.Fields\<close>: the maximal runs of characters that are not white space.\<close>

fun fields_from :: "string \<Rightarrow> string \<Rightarrow> string list" where
  "fields_from w [] = (if w = [] then [] else [w])"
| "fields_from w (c # cs) =
     (if is_space c then (if w = [] then fields_from [] cs else w # fields_from [] cs) else fields_from (w @ [c]) cs)"

definition str_fields :: "string \<Rightarrow> string list" where
  "str_fields s = fields_from [] s"

text \<open>\<open>strings.Cut\<close>: before and after the first occurrence of a separator.\<close>

fun str_cut :: "string \<Rightarrow> string \<Rightarrow> (string \<times> string) option" where
  "str_cut sep [] = (if sep = [] then Some ([], []) else None)"
| "str_cut sep (c # cs) =
     (if has_prefix (c # cs) sep then Some ([], drop (length sep) (c # cs))
      else map_option (\<lambda>(a, b). (c # a, b)) (str_cut sep cs))"

definition trim_prefix :: "string \<Rightarrow> string \<Rightarrow> string" where
  "trim_prefix s p = (if has_prefix s p then drop (length p) s else s)"

definition has_suffix :: "string \<Rightarrow> string \<Rightarrow> bool" where
  "has_suffix s p = has_prefix (rev s) (rev p)"

definition trim_suffix :: "string \<Rightarrow> string \<Rightarrow> string" where
  "trim_suffix s p = (if has_suffix s p then take (length s - length p) s else s)"

section \<open>Numbers\<close>

text \<open>The wrap-around of Go's 64-bit \<open>int\<close>.\<close>

definition wrap64 :: "int \<Rightarrow> int" where
  "wrap64 i = (i + 2 ^ 63) mod 2 ^ 64 - 2 ^ 63"

lemma wrap64_id: "- (2 ^ 63) \<le> i \<Longrightarrow> i < 2 ^ 63 \<Longrightarrow> wrap64 i = i"
  by (simp add: wrap64_def)

text \<open>
  \<open>strconv.ParseFloat(s, 64)\<close> for decimal numbers, infinities and NaN; a value out of range is an
  error. Hexadecimal floating-point numbers are not covered.
\<close>

definition parse_exp :: "string \<Rightarrow> int option" where
  "parse_exp s =
     (case s of
        [] \<Rightarrow> Some 0
      | c # cs \<Rightarrow>
          if c = CHR ''e'' \<or> c = CHR ''E'' then
            (let (neg, t) = (case cs of d # ds \<Rightarrow> if d = CHR ''-'' then (True, ds) else if d = CHR ''+'' then (False, ds) else (False, cs)
                              | [] \<Rightarrow> (False, []))
             in map_option (\<lambda>n. if neg then - int n else int n) (read_nat t))
          else None)"

definition parse_decimal :: "string \<Rightarrow> rat option" where
  "parse_decimal s =
     (let whole = takeWhile is_digit s; rest = dropWhile is_digit s;
          (frac, tl_s) = (case rest of c # cs \<Rightarrow> if c = CHR ''.'' then (takeWhile is_digit cs, dropWhile is_digit cs) else ([], rest)
                            | [] \<Rightarrow> ([], []))
      in if whole = [] \<and> frac = [] then None
         else (case (read_digits 0 (whole @ frac), parse_exp tl_s) of
                 (Some n, Some e) \<Rightarrow> Some (of_nat n * 10 powi (e - int (length frac)))
               | _ \<Rightarrow> None))"

definition parse_float :: "string \<Rightarrow> f64 option" where
  "parse_float s =
     (let (neg, t) = (case s of c # cs \<Rightarrow> if c = CHR ''-'' then (True, cs) else if c = CHR ''+'' then (False, cs) else (False, s)
                       | [] \<Rightarrow> (False, []));
          low = to_lower t
      in if low = ''inf'' \<or> low = ''infinity'' then Some (if neg then NInf else PInf)
         else if low = ''nan'' then (if s = t then Some NaN else None)
         else (case parse_decimal t of
                 None \<Rightarrow> None
               | Some x \<Rightarrow> (case to_f64 (if neg then - x else x) of Fin a \<Rightarrow> Some (Fin a) | _ \<Rightarrow> None)))"

text \<open>\<open>math.Ceil\<close>; the results are integers, so it does not round.\<close>

fun f64_ceil :: "f64 \<Rightarrow> f64" where
  "f64_ceil (Fin a) = Fin (of_int \<lceil>a\<rceil>)"
| "f64_ceil x = x"

definition f64_gt :: "f64 \<Rightarrow> f64 \<Rightarrow> bool" where
  "f64_gt x y = f64_lt y x"

subsection \<open>The order of \<open>sort.Float64s\<close>\<close>

text \<open>NaN comes first; on the other values it is the numerical order.\<close>

instantiation f64 :: linorder
begin

fun less_eq_f64 :: "f64 \<Rightarrow> f64 \<Rightarrow> bool" where
  "less_eq_f64 NaN y = True"
| "less_eq_f64 x NaN = False"
| "less_eq_f64 NInf y = True"
| "less_eq_f64 x NInf = False"
| "less_eq_f64 x PInf = True"
| "less_eq_f64 PInf y = False"
| "less_eq_f64 (Fin a) (Fin b) = (a \<le> b)"

definition less_f64 :: "f64 \<Rightarrow> f64 \<Rightarrow> bool" where
  "less_f64 x y = (x \<le> y \<and> \<not> y \<le> (x::f64))"

instance
proof
  fix x y z :: f64
  show "x < y \<longleftrightarrow> x \<le> y \<and> \<not> y \<le> x" by (simp add: less_f64_def)
  show "x \<le> x" by (cases x) simp_all
  show "x \<le> y \<Longrightarrow> y \<le> z \<Longrightarrow> x \<le> z" by (cases x; cases y; cases z) simp_all
  show "x \<le> y \<Longrightarrow> y \<le> x \<Longrightarrow> x = y" by (cases x; cases y) simp_all
  show "x \<le> y \<or> y \<le> x" by (cases x; cases y) auto
qed

end

lemma f64_le_order: "x \<noteq> NaN \<Longrightarrow> y \<noteq> NaN \<Longrightarrow> f64_le x y \<longleftrightarrow> x \<le> y"
  by (cases x; cases y) simp_all

lemma f64_div_mono:
  assumes "0 < c" and "f64_le x y"
  shows "f64_le (f64_div x (Fin c)) (f64_div y (Fin c))"
  using assms by (cases x; cases y) (auto simp: f64_sgn_inf_def to_f64_mono divide_right_mono intro: f64_le_NInf f64_le_PInf)

end
