(* ===== verification/Virtbench_Parse.thy ===== *)
theory Virtbench_Parse
  imports Core_Types Go_Strings
begin

text \<open>
  \<open>internal/tools/virtbench/parse.go\<close>: from the result files and logs of the benchmark to metrics and
  checks. The JSON decoder is an argument of every parser, one per shape; integers are 64-bit as the
  decoder delivers them. The drain log is parsed from its bytes.
\<close>

section \<open>Metrics\<close>

definition metric_of :: "string \<Rightarrow> f64 \<Rightarrow> string \<Rightarrow> metric" where
  "metric_of name v unit = \<lparr> m_Name = name, m_Value = v, m_Unit = unit, m_Percentile = [] \<rparr>"

definition p99_metric :: "string \<Rightarrow> f64 \<Rightarrow> metric" where
  "p99_metric name v = \<lparr> m_Name = name, m_Value = v, m_Unit = ''ms'', m_Percentile = ''p99'' \<rparr>"

definition rate_of :: "int \<Rightarrow> int \<Rightarrow> f64" where
  "rate_of part whole = f64_mul (f64_div (f64_of_int part) (f64_of_int whole)) (f64_of_int 100)"

definition vm_counts :: "int \<Rightarrow> int \<Rightarrow> int \<Rightarrow> metric list" where
  "vm_counts n_total successful failed =
     [metric_of ''vms_total'' (f64_of_int n_total) [], metric_of ''vms_successful'' (f64_of_int successful) [],
      metric_of ''vms_failed'' (f64_of_int failed) [], metric_of ''vm_success_rate'' (rate_of successful n_total) ''%'']"

section \<open>FIO results\<close>

record fio_direction =
  fx_IOPS :: f64
  fx_Percentile :: "(string, f64) gomap"

record fio_job =
  fj_Error :: int
  fj_Read :: fio_direction
  fj_Write :: fio_direction

record fio_summary =
  fs_TotalVMs :: int
  fs_Successful :: int
  fs_Failed :: int

text \<open>The bundle of a live run: the raw summary and the raw result of every VM.\<close>

record fio_collected =
  fc_Summary :: string
  fc_Results :: "string list"

text \<open>The decoders of the three shapes; a raw FIO file is its list of jobs.\<close>

record fio_codec =
  xc_collected :: "string \<Rightarrow> string + fio_collected"
  xc_summary :: "string \<Rightarrow> string + fio_summary"
  xc_raw :: "string \<Rightarrow> string + fio_job list"

definition fioJobFromRaw :: "fio_codec \<Rightarrow> string \<Rightarrow> string + fio_job" where
  "fioJobFromRaw xc data =
     (case xc_raw xc data of
        Inl err \<Rightarrow> Inl (''virtbench: parse fio: '' @ err)
      | Inr jobs \<Rightarrow>
         (case jobs of
            [job] \<Rightarrow> (if fj_Error job \<noteq> 0 then Inl (''virtbench: fio job failed with error '' @ show_int (fj_Error job)) else Inr job)
          | _ \<Rightarrow> Inl (''virtbench: fio result has '' @ show_nat (length jobs) @ '' jobs, want one group-reported job'')))"

text \<open>The first key of the iteration that is the number 99.\<close>

fun fioP99 :: "(string \<times> f64) list \<Rightarrow> string + f64" where
  "fioP99 [] = Inl ''p99 percentile missing''"
| "fioP99 ((key, v) # ps) =
     (case parse_float key of Some x \<Rightarrow> if f64_eq x (f64_of_int 99) then Inr v else fioP99 ps | None \<Rightarrow> fioP99 ps)"

definition latency_error :: "string \<Rightarrow> string \<Rightarrow> string" where
  "latency_error what err = ''virtbench: '' @ what @ '' completion latency (clat_ns): '' @ err"

definition job_p99s :: "fio_job \<Rightarrow> string + f64 \<times> f64" where
  "job_p99s job =
     (case fioP99 (fx_Percentile (fj_Read job)) of
        Inl err \<Rightarrow> Inl (latency_error ''read'' err)
      | Inr r \<Rightarrow>
         (case fioP99 (fx_Percentile (fj_Write job)) of
            Inl err \<Rightarrow> Inl (latency_error ''write'' err)
          | Inr w \<Rightarrow> Inr (r, w)))"

record fio_totals =
  ft_readP99 :: f64
  ft_writeP99 :: f64
  ft_readIOPS :: f64
  ft_writeIOPS :: f64

definition fio_metrics :: "fio_totals \<Rightarrow> metric list" where
  "fio_metrics t =
     [p99_metric ''read_latency'' (f64_div (ft_readP99 t) (f64_of_int 1000000)),
      p99_metric ''write_latency'' (f64_div (ft_writeP99 t) (f64_of_int 1000000)),
      metric_of ''read_iops'' (ft_readIOPS t) ''IOPS'', metric_of ''write_iops'' (ft_writeIOPS t) ''IOPS'']"

definition parseFIORaw :: "fio_codec \<Rightarrow> string \<Rightarrow> string \<Rightarrow> string + test_result list" where
  "parseFIORaw xc data trID =
     (case fioJobFromRaw xc data of
        Inl err \<Rightarrow> Inl err
      | Inr job \<Rightarrow>
         (case job_p99s job of
            Inl err \<Rightarrow> Inl err
          | Inr (r, w) \<Rightarrow> Inr [zero_test_result\<lparr>res_TRID := trID,
              res_Metrics := fio_metrics \<lparr> ft_readP99 = r, ft_writeP99 = w, ft_readIOPS = fx_IOPS (fj_Read job), ft_writeIOPS = fx_IOPS (fj_Write job) \<rparr>,
              res_Native := OutcomePass, res_Raw := data\<rparr>]))"

definition add_job :: "fio_job \<Rightarrow> f64 \<times> f64 \<Rightarrow> fio_totals \<Rightarrow> fio_totals" where
  "add_job job rw t =
     t\<lparr>ft_readP99 := (if f64_gt (fst rw) (ft_readP99 t) then fst rw else ft_readP99 t),
       ft_writeP99 := (if f64_gt (snd rw) (ft_writeP99 t) then snd rw else ft_writeP99 t),
       ft_readIOPS := f64_add (ft_readIOPS t) (fx_IOPS (fj_Read job)),
       ft_writeIOPS := f64_add (ft_writeIOPS t) (fx_IOPS (fj_Write job))\<rparr>"

fun fio_fleet :: "fio_codec \<Rightarrow> string list \<Rightarrow> fio_totals \<Rightarrow> string + fio_totals" where
  "fio_fleet xc [] t = Inr t"
| "fio_fleet xc (raw # raws) t =
     (case fioJobFromRaw xc raw of
        Inl err \<Rightarrow> Inl err
      | Inr job \<Rightarrow> (case job_p99s job of Inl err \<Rightarrow> Inl err | Inr rw \<Rightarrow> fio_fleet xc raws (add_job job rw t)))"

definition parseCollectedFIO :: "fio_codec \<Rightarrow> fio_collected \<Rightarrow> string \<Rightarrow> string \<Rightarrow> string + test_result list" where
  "parseCollectedFIO xc collected raw trID =
     (case xc_summary xc (fc_Summary collected) of
        Inl err \<Rightarrow> Inl (''virtbench: parse fio summary: '' @ err)
      | Inr s \<Rightarrow>
          (if fs_TotalVMs s = 0 then Inl ''virtbench: fio summary reports 0 VMs''
           else if wrap64 (fs_Successful s + fs_Failed s) \<noteq> fs_TotalVMs s then Inl ''virtbench: fio summary counts are inconsistent''
           else
             (let counts = vm_counts (fs_TotalVMs s) (fs_Successful s) (fs_Failed s) in
              if fs_Failed s > 0 then
                Inr [zero_test_result\<lparr>res_TRID := trID, res_Metrics := counts, res_Native := OutcomeFail, res_Raw := raw\<rparr>]
              else if int (length (fc_Results collected)) \<noteq> fs_TotalVMs s then
                Inl (''virtbench: fio collected '' @ show_nat (length (fc_Results collected)) @ '' VM results, want '' @ show_int (fs_TotalVMs s))
              else
                (case fio_fleet xc (fc_Results collected) \<lparr> ft_readP99 = Fin 0, ft_writeP99 = Fin 0, ft_readIOPS = Fin 0, ft_writeIOPS = Fin 0 \<rparr> of
                   Inl err \<Rightarrow> Inl err
                 | Inr t \<Rightarrow> Inr [zero_test_result\<lparr>res_TRID := trID, res_Metrics := counts @ fio_metrics t, res_Native := OutcomePass,
                     res_Raw := raw\<rparr>]))))"

definition ParseFIO :: "fio_codec \<Rightarrow> string \<Rightarrow> string \<Rightarrow> string + test_result list" where
  "ParseFIO xc data trID =
     (if data = [] then Inl ''virtbench: empty fio payload''
      else
        (case xc_collected xc data of
           Inl err \<Rightarrow> Inl (''virtbench: parse fio: '' @ err)
         | Inr collected \<Rightarrow>
            (if fc_Results collected \<noteq> [] then parseCollectedFIO xc collected data trID else parseFIORaw xc data trID)))"

section \<open>Summaries\<close>

record summary_metric =
  sx_metric :: string
  sx_avg :: "f64 option"
  sx_max :: "f64 option"
  sx_min :: "f64 option"
  sx_count :: int

record summary_file =
  sf_TotalVMs :: int
  sf_Successful :: int
  sf_Failed :: int
  sf_Duration :: "f64 option"
  sf_Metrics :: "summary_metric list"

definition opt_metric :: "string \<Rightarrow> f64 option \<Rightarrow> metric list" where
  "opt_metric name v = (case v of Some x \<Rightarrow> [metric_of name x ''s''] | None \<Rightarrow> [])"

definition summary_metrics_of :: "string \<Rightarrow> summary_metric option \<Rightarrow> metric list" where
  "summary_metrics_of base m =
     (case m of
        None \<Rightarrow> []
      | Some s \<Rightarrow> opt_metric base (sx_avg s) @ opt_metric (base @ ''_max'') (sx_max s) @ opt_metric (base @ ''_min'') (sx_min s))"

text \<open>The maps from the names in the file to the metrics of the knowledge base, in emit order.\<close>

definition cloneMetricBase :: "(string \<times> string) list" where
  "cloneMetricBase = [(''clone_duration_sec'', ''clone_duration''), (''running_time_sec'', ''time_to_running''), (''ping_time_sec'', ''time_to_ping'')]"

definition bootStormBase :: "(string \<times> string) list" where
  "bootStormBase = [(''running_time_sec'', ''time_to_running''), (''ping_time_sec'', ''time_to_ping'')]"

definition failureRecoveryMetricBase :: "(string \<times> string) list" where
  "failureRecoveryMetricBase = [(''running_time_sec'', ''vm_ha_restart_time''), (''ping_time_sec'', ''time_to_ping'')]"

definition parseSummary ::
  "(string \<times> string) list \<Rightarrow> (string \<Rightarrow> string + summary_file) \<Rightarrow> string \<Rightarrow> string \<Rightarrow> string + test_result" where
  "parseSummary bases unmarshal data trID =
     (if data = [] then Inl ''virtbench: empty summary payload''
      else
        (case unmarshal data of
           Inl err \<Rightarrow> Inl (''virtbench: parse summary: '' @ err)
         | Inr s \<Rightarrow>
             (if sf_TotalVMs s = 0 then Inl ''virtbench: summary reports 0 VMs (no data to grade)''
              else
                (let byName = fold (\<lambda>m. gm_set (sx_metric m) m) (sf_Metrics s) [];
                     metrics = concat (map (\<lambda>(key, base). summary_metrics_of base (gm_get byName key)) bases)
                       @ vm_counts (sf_TotalVMs s) (sf_Successful s) (sf_Failed s) @ opt_metric ''total_test_duration'' (sf_Duration s)
                 in Inr (zero_test_result\<lparr>res_TRID := trID, res_Metrics := metrics,
                      res_Native := (if sf_Failed s > 0 then OutcomeFail else OutcomePass)\<rparr>)))))"

definition ParseSummary :: "(string \<Rightarrow> string + summary_file) \<Rightarrow> string \<Rightarrow> string \<Rightarrow> string + test_result" where
  "ParseSummary = parseSummary cloneMetricBase"

definition ParseBootStorm :: "(string \<Rightarrow> string + summary_file) \<Rightarrow> string \<Rightarrow> string \<Rightarrow> string + test_result" where
  "ParseBootStorm unmarshal data trID =
     (case parseSummary bootStormBase unmarshal data trID of
        Inl err \<Rightarrow> Inl err
      | Inr res \<Rightarrow> Inr (case find (\<lambda>m. m_Name m = ''total_test_duration'') (res_Metrics res) of
            Some m \<Rightarrow> res\<lparr>res_Metrics := res_Metrics res @ [metric_of ''vm_boot_time'' (m_Value m) ''s'']\<rparr>
          | None \<Rightarrow> res))"

definition metricValue :: "metric list \<Rightarrow> string \<Rightarrow> f64" where
  "metricValue ms name = (case find (\<lambda>m. m_Name m = name) ms of Some m \<Rightarrow> m_Value m | None \<Rightarrow> Fin 0)"

definition ParseSingleNodeCeiling :: "(string \<Rightarrow> string + summary_file) \<Rightarrow> string \<Rightarrow> string \<Rightarrow> string + test_result" where
  "ParseSingleNodeCeiling unmarshal data trID =
     (case parseSummary cloneMetricBase unmarshal data trID of
        Inl err \<Rightarrow> Inl err
      | Inr res \<Rightarrow> Inr (res\<lparr>res_Metrics := res_Metrics res
            @ [metric_of ''max_vms_per_node'' (metricValue (res_Metrics res) ''vms_successful'') ''count''],
          res_Native := OutcomePass\<rparr>))"

text \<open>The second shape \<open>ParseFailureRecovery\<close> decodes from the same bytes.\<close>

record recovery_file =
  ry_TotalVMs :: int
  ry_Successful :: int
  ry_Failed :: int
  ry_Metrics :: "(string \<times> int) list"

definition ParseFailureRecovery ::
  "(string \<Rightarrow> string + recovery_file) \<Rightarrow> (string \<Rightarrow> string + summary_file) \<Rightarrow> string \<Rightarrow> string \<Rightarrow> string + test_result" where
  "ParseFailureRecovery unmarshal_recovery unmarshal data trID =
     (case unmarshal_recovery data of
        Inl err \<Rightarrow> Inl (''virtbench: parse failure-recovery summary: '' @ err)
      | Inr s \<Rightarrow>
         (case parseSummary failureRecoveryMetricBase unmarshal data trID of
            Inl err \<Rightarrow> Inl err
          | Inr res \<Rightarrow>
             (let complete = (ry_TotalVMs s > 0 \<and> ry_Successful s = ry_TotalVMs s \<and> ry_Failed s = 0);
                  pingComplete = list_ex (\<lambda>(name, n). name = ''ping_time_sec'' \<and> n = ry_TotalVMs s) (ry_Metrics s);
                  nativeOK = (res_Native res = OutcomePass \<and> complete)
              in Inr (res\<lparr>res_Checks := [(''node-failure-vm-recovery'', if nativeOK \<and> pingComplete then OutcomePass else OutcomeFail),
                                          (''reattach-failure-modes'', res_Native res)]\<rparr>))))"

section \<open>Percentiles of clone durations\<close>

definition parsePercentile :: "string \<Rightarrow> f64 option" where
  "parsePercentile label =
     (case parse_float (trim_prefix label ''p'') of
        None \<Rightarrow> None
      | Some n \<Rightarrow> if f64_le n (Fin 0) \<or> f64_gt n (f64_of_int 100) then None else Some (f64_div n (f64_of_int 100)))"

definition percentile_rank :: "nat \<Rightarrow> f64 \<Rightarrow> int" where
  "percentile_rank n q = min (max (wrap64 (f64_to_int (f64_ceil (f64_mul q (f64_of_int (int n)))) - 1)) 0) (int n - 1)"

text \<open>The samples are sorted and not empty.\<close>

definition percentile :: "f64 list \<Rightarrow> f64 \<Rightarrow> f64" where
  "percentile sorted_samples q = sorted_samples ! nat (percentile_rank (length sorted_samples) q)"

definition ClonePercentiles :: "(string \<Rightarrow> string + f64 option list) \<Rightarrow> string \<Rightarrow> string list \<Rightarrow> string + metric list" where
  "ClonePercentiles unmarshal data pcts =
     (if data = [] then Inr []
      else
        (case unmarshal data of
           Inl err \<Rightarrow> Inl (''virtbench: parse detailed results: '' @ err)
         | Inr rows \<Rightarrow>
            (let samples = sort (List.map_filter (\<lambda>r. r) rows) in
             if samples = [] then Inr []
             else Inr (List.map_filter (\<lambda>p. map_option (\<lambda>q. \<lparr> m_Name = ''clone_duration'', m_Value = percentile samples q,
                    m_Unit = ''s'', m_Percentile = p \<rparr>) (parsePercentile p)) pcts))))"

section \<open>Drain logs\<close>

text \<open>\<open>\\s\<close> of a regular expression.\<close>

definition re_space :: "char \<Rightarrow> bool" where
  "re_space c = (c \<in> set [CHR 0x09, CHR 0x0A, CHR 0x0C, CHR 0x0D, CHR '' ''])"

text \<open>\<open>drainNodesRe\<close> on a message: the text after \<open>Nodes:\<close> and white space, at least one character.\<close>

definition match_nodes :: "string \<Rightarrow> string option" where
  "match_nodes msg =
     (if has_prefix msg ''Nodes:'' then
        (let rest = drop 6 msg; t = dropWhile re_space rest
         in if t \<noteq> [] then Some t else if rest \<noteq> [] then Some [last rest] else None)
      else None)"

definition num_char :: "char \<Rightarrow> bool" where
  "num_char c = (is_digit c \<or> c = CHR ''.'')"

text \<open>White space, a run of digits and dots, and an \<open>s\<close>: the number of a duration.\<close>

definition match_seconds :: "string \<Rightarrow> string option" where
  "match_seconds rest =
     (let t = dropWhile re_space rest; num = takeWhile num_char t
      in if t \<noteq> rest \<and> num \<noteq> [] \<and> has_prefix (dropWhile num_char t) ''s'' then Some num else None)"

text \<open>The leftmost match of one of the labels followed by a duration.\<close>

fun match_duration :: "string list \<Rightarrow> string \<Rightarrow> string option" where
  "match_duration labels [] = None"
| "match_duration labels (c # cs) =
     (case find (\<lambda>l. has_prefix (c # cs) l \<and> match_seconds (drop (length l) (c # cs)) \<noteq> None) labels of
        Some l \<Rightarrow> match_seconds (drop (length l) (c # cs))
      | None \<Rightarrow> match_duration labels cs)"

definition drainLogMessage :: "string \<Rightarrow> string" where
  "drainLogMessage line =
     (case str_cut '' - '' line of
        None \<Rightarrow> []
      | Some (a, b) \<Rightarrow> (case str_cut '' - '' b of None \<Rightarrow> [] | Some (c, msg) \<Rightarrow> trim_space msg))"

definition drainDistRow :: "string \<Rightarrow> (string \<times> int) option" where
  "drainDistRow msg =
     (let fields = str_fields msg in
      if length fields < 2 \<or> hd fields = ''Node'' then None
      else map_option (\<lambda>n. (hd fields, n)) (atoi (last fields)))"

datatype dist_section = NoSection | Before | After

record drain_state =
  dr_target :: string
  dr_elapsed :: "f64 option"
  dr_total :: "f64 option"
  dr_before :: "(string, int) gomap"
  dr_after :: "(string, int) gomap"
  dr_section :: dist_section

definition drain_row :: "string \<Rightarrow> drain_state \<Rightarrow> drain_state" where
  "drain_row msg d =
     (case drainDistRow msg of
        None \<Rightarrow> d
      | Some (node, n) \<Rightarrow>
         (case dr_section d of
            Before \<Rightarrow> d\<lparr>dr_before := gm_set node n (dr_before d)\<rparr>
          | After \<Rightarrow> d\<lparr>dr_after := gm_set node n (dr_after d)\<rparr>
          | NoSection \<Rightarrow> d))"

definition is_before :: "string \<Rightarrow> bool" where "is_before msg = contains msg ''VMI DISTRIBUTION BEFORE DRAIN''"
definition is_after :: "string \<Rightarrow> bool" where "is_after msg = contains msg ''VMI DISTRIBUTION AFTER DRAIN''"

definition drain_line :: "string \<Rightarrow> drain_state \<Rightarrow> drain_state" where
  "drain_line raw d =
     (let msg = drainLogMessage raw in
      if msg = [] then d
      else if has_prefix msg ''==='' then d\<lparr>dr_section := NoSection\<rparr>
      else if is_before msg then d\<lparr>dr_section := Before, dr_before := []\<rparr>
      else if is_after msg then d\<lparr>dr_section := After, dr_after := []\<rparr>
      else case match_nodes msg of
        Some m \<Rightarrow> d\<lparr>dr_target := trim_space (fst (cut_at (CHR '','') m))\<rparr>
      | None \<Rightarrow>
         (case match_duration [''Drain completed in'', ''Drain timed out after''] msg of
            Some m \<Rightarrow> (case parse_float m of Some v \<Rightarrow> d\<lparr>dr_elapsed := Some v\<rparr> | None \<Rightarrow> d)
          | None \<Rightarrow>
             (case match_duration [''Total time:''] msg of
                Some m \<Rightarrow> (case parse_float m of Some v \<Rightarrow> d\<lparr>dr_total := Some v\<rparr> | None \<Rightarrow> d)
              | None \<Rightarrow> drain_row msg d)))"

definition drain_scan :: "string \<Rightarrow> drain_state" where
  "drain_scan data = fold drain_line (split_on (CHR 0x0A) data)
     \<lparr> dr_target = [], dr_elapsed = None, dr_total = None, dr_before = [], dr_after = [], dr_section = NoSection \<rparr>"

definition drain_result :: "f64 \<Rightarrow> int \<Rightarrow> int \<Rightarrow> string \<Rightarrow> test_result" where
  "drain_result elapsed n_total remaining trID =
     (let evacuated = wrap64 (n_total - remaining);
          oc = (if remaining > 0 then OutcomeFail else OutcomePass)
      in zero_test_result\<lparr>res_TRID := trID,
           res_Metrics := [metric_of ''evacuation_time'' elapsed ''s'', metric_of ''vms_total'' (f64_of_int n_total) [],
             metric_of ''vms_evacuated'' (f64_of_int evacuated) [], metric_of ''vms_remaining'' (f64_of_int remaining) [],
             metric_of ''evacuation_success_rate'' (rate_of evacuated n_total) ''%''],
           res_Checks := [(''all-vms-evacuated'', oc)], res_Native := oc\<rparr>)"

definition ParseDrain :: "string \<Rightarrow> string \<Rightarrow> string + test_result" where
  "ParseDrain data trID =
     (if data = [] then Inl ''virtbench: empty drain log''
      else
        (let d = drain_scan data in
         if dr_target d = [] then Inl ''virtbench: drain log has no target node (no 'Nodes:' line)''
         else
           (case (case dr_elapsed d of Some v \<Rightarrow> Some v | None \<Rightarrow> dr_total d) of
              None \<Rightarrow> Inl (''virtbench: drain log has no drain duration for '' @ go_quote (dr_target d))
            | Some elapsed \<Rightarrow>
               (case gm_get (dr_before d) (dr_target d) of
                  None \<Rightarrow> Inl (''virtbench: no VMs on target node '' @ go_quote (dr_target d) @ '' in the BEFORE distribution (nothing to grade)'')
                | Some n_total \<Rightarrow>
                   (if n_total = 0 then
                      Inl (''virtbench: no VMs on target node '' @ go_quote (dr_target d) @ '' in the BEFORE distribution (nothing to grade)'')
                    else
                      (let remaining = (case gm_get (dr_after d) (dr_target d) of Some n \<Rightarrow> n | None \<Rightarrow> 0)
                       in Inr (drain_result elapsed n_total remaining trID)))))))"

section \<open>Disk operations\<close>

record disk_op_agg =
  do_Successful :: int
  do_Failed :: int
  do_AvgAttach :: "f64 option"
  do_MaxAttach :: "f64 option"
  do_MinAttach :: "f64 option"
  do_AvgVolumeReady :: "f64 option"
  do_AvgValidation :: "f64 option"

definition disk_op_metrics :: "disk_op_agg \<Rightarrow> metric list" where
  "disk_op_metrics h =
     (let n_total = wrap64 (do_Successful h + do_Failed h) in
      opt_metric ''pvc_attach_time'' (do_AvgAttach h) @ opt_metric ''pvc_attach_time_max'' (do_MaxAttach h)
        @ opt_metric ''pvc_attach_time_min'' (do_MinAttach h) @ opt_metric ''volume_ready_time'' (do_AvgVolumeReady h)
        @ opt_metric ''validation_time'' (do_AvgValidation h)
        @ [metric_of ''ops_total'' (f64_of_int n_total) [], metric_of ''ops_successful'' (f64_of_int (do_Successful h)) [],
           metric_of ''ops_failed'' (f64_of_int (do_Failed h)) []]
        @ (if n_total > 0 then [metric_of ''attach_success_rate'' (rate_of (do_Successful h) n_total) ''%''] else []))"

text \<open>The decoded file is its optional hotplug section.\<close>

definition ParseDiskOps :: "(string \<Rightarrow> string + disk_op_agg option) \<Rightarrow> string \<Rightarrow> string \<Rightarrow> string + test_result" where
  "ParseDiskOps unmarshal data trID =
     (if data = [] then Inl ''virtbench: empty disk-ops payload''
      else
        (case unmarshal data of
           Inl err \<Rightarrow> Inl (''virtbench: parse disk-ops: '' @ err)
         | Inr None \<Rightarrow> Inl ''virtbench: disk-ops results have no hotplug section (no attach data to grade)''
         | Inr (Some h) \<Rightarrow>
             (if disk_op_metrics h = [] then Inl ''virtbench: disk-ops hotplug section has no timing data''
              else Inr (zero_test_result\<lparr>res_TRID := trID, res_Metrics := disk_op_metrics h,
                     res_Native := (if do_Failed h > 0 then OutcomeFail else OutcomePass)\<rparr>))))"


section \<open>Nearest rank for p99\<close>

definition p99_frac :: rat where "p99_frac = 4458563631096791 / 2 ^ 52"

lemma p99_label: "parsePercentile ''p99'' = Some (Fin p99_frac)"
proof -
  have l: "rlog 2 (99 / 100) = - 1" by (rule rlog2_unique) (simp_all add: power_int_minus)
  then have u: "ulp_exp (99 / 100) = - 53" by (simp add: ulp_exp_def)
  have "\<lfloor>222928181554839552 / 25 :: rat\<rfloor> = 8917127262193582" by (rule floor_unique) simp_all
  then have "rhe (99 / 100 / 2 powi (- 53)) = 8917127262193582" by (simp add: rhe_def power_int_minus Let_def)
  then have "rnd (99 / 100) = p99_frac" by (simp add: rnd_def rnd_pos_def u p99_frac_def power_int_minus)
  moreover have "p99_frac < f64_limit" "\<not> p99_frac \<le> - f64_limit"
    using f64_limit_pos by (simp_all add: p99_frac_def f64_limit_def)
  ultimately have d: "to_f64 (99 / 100) = Fin p99_frac" by (simp add: to_f64_def Let_def)
  have p: "parse_float ''99'' = Some (Fin 99)"
    by (simp add: parse_float_def parse_decimal_def parse_exp_def is_digit_def to_lower_def lower_char_def Let_def)
  have h: "f64_of_int 100 = Fin 100" by (simp add: f64_of_int_def)
  show ?thesis by (simp add: parsePercentile_def trim_prefix_def has_prefix_def p h f64_gt_def f64_lt_def d)
qed

lemma p99_frac_bounds: "99 / 100 - 1 / 2 ^ 53 \<le> p99_frac" "p99_frac \<le> 99 / 100"
  by (simp_all add: p99_frac_def)

definition p99_rank :: "nat \<Rightarrow> int" where
  "p99_rank n = \<lceil>99 * rat_of_nat n / 100\<rceil>"

lemma p99_rank_bounds: "0 < n \<Longrightarrow> 1 \<le> p99_rank n \<and> p99_rank n \<le> int n"
proof -
  assume "0 < n"
  then have "0 < 99 * rat_of_nat n / 100" by simp
  then have "0 < p99_rank n" unfolding p99_rank_def using zero_less_ceiling by blast
  moreover have "p99_rank n \<le> int n" unfolding p99_rank_def by (rule ceiling_le) simp
  ultimately show ?thesis by simp
qed

lemma p99_rank_exact: "rat_of_int (p99_rank n) - 1 + 1 / 100 \<le> 99 * rat_of_nat n / 100"
proof -
  have "rat_of_int (p99_rank n) - 1 < 99 * rat_of_nat n / 100" unfolding p99_rank_def by linarith
  then have "rat_of_int (100 * (p99_rank n - 1)) < rat_of_int (99 * int n)" by simp
  then have "100 * (p99_rank n - 1) + 1 \<le> 99 * int n" by linarith
  then have "rat_of_int (100 * (p99_rank n - 1) + 1) \<le> rat_of_int (99 * int n)" by (simp only: of_int_le_iff)
  then show ?thesis by simp
qed

lemma p99_product:
  assumes "0 < n" and "n < 2 ^ 44"
  shows "\<exists>r. to_f64 (p99_frac * of_nat n) = Fin r \<and> \<lceil>r\<rceil> = p99_rank n"
proof -
  let ?x = "p99_frac * rat_of_nat n" and ?c = "p99_rank n"
  note cb = p99_rank_bounds[OF assms(1)]
  have nb: "rat_of_nat n < 2 ^ 44" using assms(2) by (metis of_nat_less_iff of_nat_numeral of_nat_power)
  have n0: "0 < rat_of_nat n" using assms(1) by simp
  have c53: "?c < 2 ^ 44" using cb assms(2) by (metis le_less_trans of_nat_less_numeral_power_cancel_iff)
  have up: "?x \<le> of_int ?c"
  proof -
    have "?x \<le> 99 / 100 * rat_of_nat n" using p99_frac_bounds(2) n0 by (simp add: mult_right_mono)
    also have "\<dots> \<le> of_int ?c" unfolding p99_rank_def by (metis (no_types) le_of_int_ceiling times_divide_eq_left)
    finally show ?thesis .
  qed
  have rup: "rnd ?x \<le> of_int ?c"
    using rnd_mono[OF up] rnd_int_pos[of ?c] cb c53 by simp
  let ?y = "rat_of_int ((?c - 1) * 256 + 1) / 2 ^ 8"
  have y: "?y = of_int ?c - 1 + 1 / 256" by (simp add: field_simps)
  have low: "?y \<le> ?x"
  proof -
    have "(99 / 100 - 1 / 2 ^ 53) * rat_of_nat n \<le> ?x" using p99_frac_bounds(1) n0 by (simp add: mult_right_mono)
    moreover have "(99 / 100 - 1 / 2 ^ 53) * rat_of_nat n = 99 * rat_of_nat n / 100 - rat_of_nat n / 2 ^ 53" by (simp add: field_simps)
    moreover have "rat_of_nat n / 2 ^ 53 \<le> 1 / 512" using nb by (simp add: field_simps)
    ultimately show ?thesis using p99_rank_exact[of n] unfolding y by linarith
  qed
  have "rnd ?y = ?y" using cb c53 by (intro rnd_dyadic) simp_all
  then have rlow: "?y \<le> rnd ?x" using rnd_mono[OF low] by simp
  have "rat_of_int ?c < 2 ^ 1024"
  proof -
    have "rat_of_int ?c < rat_of_int (2 ^ 44)" using c53 by (simp only: of_int_less_iff)
    also have "\<dots> \<le> 2 ^ 1024" by simp
    finally show ?thesis .
  qed
  then have lim: "rnd ?x < f64_limit" using rup by (simp add: f64_limit_def)
  have "0 \<le> ?y" using cb by (simp add: y)
  then have "\<not> rnd ?x \<le> - f64_limit" using rlow f64_limit_pos by linarith
  with lim have "to_f64 ?x = Fin (rnd ?x)" by (simp add: to_f64_def Let_def)
  moreover have "\<lceil>rnd ?x\<rceil> = ?c"
    using rup rlow unfolding y by (intro ceiling_unique) linarith+
  ultimately show ?thesis by blast
qed

lemma p99_percentile_rank:
  assumes "0 < n" and "n < 2 ^ 44"
  shows "percentile_rank n (Fin p99_frac) = p99_rank n - 1"
proof -
  have n: "f64_of_int (int n) = Fin (of_nat n)"
    using to_f64_int[of "int n"] assms by (simp add: f64_of_int_def)
  obtain r where r: "to_f64 (p99_frac * of_nat n) = Fin r" "\<lceil>r\<rceil> = p99_rank n" using p99_product[OF assms] by blast
  note cb = p99_rank_bounds[OF assms(1)]
  have b: "p99_rank n < 2 ^ 44" using cb assms(2) by (metis le_less_trans of_nat_less_numeral_power_cancel_iff)
  have "f64_to_int (f64_ceil (f64_mul (Fin p99_frac) (f64_of_int (int n)))) = p99_rank n"
    using r cb b by (simp add: n Let_def)
  then show ?thesis using cb b by (simp add: percentile_rank_def wrap64_id)
qed

lemma sorted_rank:
  assumes "sorted xs" and "i < length xs"
  shows "i < length (filter (\<lambda>x. x \<le> xs ! i) xs)" and "length (filter (\<lambda>x. x < xs ! i) xs) \<le> i"
proof -
  have t: "xs = take (Suc i) xs @ drop (Suc i) xs" "xs = take i xs @ drop i xs" by simp_all
  have "filter (\<lambda>x. x \<le> xs ! i) (take (Suc i) xs) = take (Suc i) xs"
    using assms by (auto simp: filter_id_conv in_set_conv_nth sorted_iff_nth_mono)
  then have "length (filter (\<lambda>x. x \<le> xs ! i) xs) = Suc i + length (filter (\<lambda>x. x \<le> xs ! i) (drop (Suc i) xs))"
    using assms(2) arg_cong[OF t(1), of "\<lambda>ys. length (filter (\<lambda>x. x \<le> xs ! i) ys)"] by (simp del: append_take_drop_id)
  then show "i < length (filter (\<lambda>x. x \<le> xs ! i) xs)" by simp
  have "filter (\<lambda>x. x < xs ! i) (drop i xs) = []"
    using assms by (auto simp: filter_empty_conv in_set_conv_nth sorted_iff_nth_mono not_less)
  then have "length (filter (\<lambda>x. x < xs ! i) xs) = length (filter (\<lambda>x. x < xs ! i) (take i xs))"
    using arg_cong[OF t(2), of "\<lambda>ys. length (filter (\<lambda>x. x < xs ! i) ys)"] by (simp del: append_take_drop_id)
  also have "\<dots> \<le> i" by (rule order_trans[OF length_filter_le]) simp
  finally show "length (filter (\<lambda>x. x < xs ! i) xs) \<le> i" .
qed

text \<open>
  C26: the p99 of the clone durations is the nearest-rank percentile of the samples, rounding of
  the arithmetic included: it is a sample, at least 99 percent of the samples are not above it,
  and less than 99 percent are below it.
\<close>

theorem clone_p99_nearest_rank:
  assumes "unmarshal data = Inr rows" and "data \<noteq> []" and "samples = List.map_filter (\<lambda>r. r) rows"
    and "samples \<noteq> []" and "length samples < 2 ^ 44"
  shows "\<exists>v. ClonePercentiles unmarshal data [''p99''] =
      Inr [\<lparr> m_Name = ''clone_duration'', m_Value = v, m_Unit = ''s'', m_Percentile = ''p99'' \<rparr>] \<and>
    v \<in> set samples \<and> 99 * length samples \<le> 100 * length (filter (\<lambda>x. x \<le> v) samples) \<and>
    100 * length (filter (\<lambda>x. x < v) samples) < 99 * length samples"
proof -
  let ?n = "length samples" and ?xs = "sort samples"
  let ?i = "nat (p99_rank ?n - 1)"
  have n: "0 < ?n" using assms(4) by simp
  note cb = p99_rank_bounds[OF n]
  have i: "?i < length ?xs" using cb n by simp linarith
  have v: "percentile ?xs (Fin p99_frac) = ?xs ! ?i"
    using p99_percentile_rank[OF n assms(5)] by (simp add: percentile_def)
  have ne: "?xs \<noteq> []" using n by (metis length_sort length_greater_0_conv)
  have cp: "ClonePercentiles unmarshal data [''p99''] =
      Inr [\<lparr> m_Name = ''clone_duration'', m_Value = ?xs ! ?i, m_Unit = ''s'', m_Percentile = ''p99'' \<rparr>]"
    using assms(1-4) v ne by (simp add: ClonePercentiles_def p99_label Let_def List.map_filter_simps flip: assms(3))
  have f: "length (filter P ?xs) = length (filter P samples)" for P
    by (metis mset_filter mset_sort size_mset)
  note s = sorted_rank[OF sorted_sort i, unfolded f]
  have u: "99 * rat_of_nat ?n / 100 \<le> of_int (p99_rank ?n)" unfolding p99_rank_def by (rule le_of_int_ceiling)
  then have "rat_of_int (99 * int ?n) \<le> rat_of_int (100 * p99_rank ?n)" by simp
  then have a: "99 * int ?n \<le> 100 * p99_rank ?n" by (simp only: of_int_le_iff)
  have "rat_of_int (100 * (p99_rank ?n - 1)) < rat_of_int (99 * int ?n)" using p99_rank_exact[of ?n] by simp
  then have b: "100 * (p99_rank ?n - 1) < 99 * int ?n" by (simp only: of_int_less_iff)
  have "?xs ! ?i \<in> set samples" using nth_mem[OF i] by simp
  moreover have "99 * ?n \<le> 100 * length (filter (\<lambda>x. x \<le> ?xs ! ?i) samples)" using a s(1) cb by linarith
  moreover have "100 * length (filter (\<lambda>x. x < ?xs ! ?i) samples) < 99 * ?n"
  proof -
    have "int (length (filter (\<lambda>x. x < ?xs ! ?i) samples)) \<le> p99_rank ?n - 1" using s(2) cb by linarith
    then have "int (100 * length (filter (\<lambda>x. x < ?xs ! ?i) samples)) < int (99 * ?n)" using b by simp
    then show ?thesis by (simp only: of_nat_less_iff)
  qed
  ultimately show ?thesis using cp by blast
qed

theorem clone_p99_nearest_rank_witness:
  "\<exists>v. ClonePercentiles (\<lambda>d. Inr [Some (Fin 3), None, Some (Fin 1)]) ''[]'' [''p99''] =
      Inr [\<lparr> m_Name = ''clone_duration'', m_Value = v, m_Unit = ''s'', m_Percentile = ''p99'' \<rparr>] \<and> v \<in> {Fin 3, Fin 1}"
proof -
  have s: "[Fin 3, Fin 1] = List.map_filter (\<lambda>r. r) [Some (Fin 3), None, Some (Fin 1)]" by (simp add: List.map_filter_simps)
  from clone_p99_nearest_rank[OF _ _ s, where unmarshal = "\<lambda>d. Inr [Some (Fin 3), None, Some (Fin 1)]" and data = "''[]''"]
  show ?thesis by auto
qed


section \<open>The worst VM of a fleet\<close>

lemma f64_gt_max:
  assumes "t \<noteq> NaN"
  shows "(if f64_gt x t then x else t) \<noteq> NaN" and "f64_le t (if f64_gt x t then x else t)"
    and "x \<noteq> NaN \<Longrightarrow> f64_le x (if f64_gt x t then x else t)"
  using assms by (cases x; cases t; auto simp: f64_gt_def f64_lt_def)+

lemma fio_fleet_worst:
  assumes "fio_fleet xc raws t = Inr t'" and "ft_readP99 t \<noteq> NaN" and "ft_writeP99 t \<noteq> NaN"
  shows "f64_le (ft_readP99 t) (ft_readP99 t') \<and> f64_le (ft_writeP99 t) (ft_writeP99 t') \<and>
    (\<forall>raw \<in> set raws. \<exists>job r w. fioJobFromRaw xc raw = Inr job \<and> job_p99s job = Inr (r, w) \<and>
      (r \<noteq> NaN \<longrightarrow> f64_le r (ft_readP99 t')) \<and> (w \<noteq> NaN \<longrightarrow> f64_le w (ft_writeP99 t')))"
  using assms
proof (induction raws arbitrary: t)
  case Nil
  then show ?case by (simp add: f64_le_refl)
next
  case (Cons raw raws)
  obtain job r w where j: "fioJobFromRaw xc raw = Inr job" "job_p99s job = Inr (r, w)"
    and f: "fio_fleet xc raws (add_job job (r, w) t) = Inr t'"
    using Cons.prems(1) by (auto split: sum.splits)
  let ?t = "add_job job (r, w) t"
  have e: "ft_readP99 ?t = (if f64_gt r (ft_readP99 t) then r else ft_readP99 t)"
    "ft_writeP99 ?t = (if f64_gt w (ft_writeP99 t) then w else ft_writeP99 t)" by (simp_all add: add_job_def)
  note gr = f64_gt_max[OF Cons.prems(2), of r] and gw = f64_gt_max[OF Cons.prems(3), of w]
  from Cons.IH[OF f] gr(1) gw(1) have ih: "f64_le (ft_readP99 ?t) (ft_readP99 t')" "f64_le (ft_writeP99 ?t) (ft_writeP99 t')"
    "\<forall>raw \<in> set raws. \<exists>job r w. fioJobFromRaw xc raw = Inr job \<and> job_p99s job = Inr (r, w) \<and>
      (r \<noteq> NaN \<longrightarrow> f64_le r (ft_readP99 t')) \<and> (w \<noteq> NaN \<longrightarrow> f64_le w (ft_writeP99 t'))" by (simp_all add: e)
  have "f64_le (ft_readP99 t) (ft_readP99 t')" "f64_le (ft_writeP99 t) (ft_writeP99 t')"
    using f64_le_trans[OF gr(2)] f64_le_trans[OF gw(2)] ih(1,2) by (simp_all add: e)
  moreover have "r \<noteq> NaN \<longrightarrow> f64_le r (ft_readP99 t')" "w \<noteq> NaN \<longrightarrow> f64_le w (ft_writeP99 t')"
    using f64_le_trans[OF gr(3)] f64_le_trans[OF gw(3)] ih(1,2) by (auto simp: e)
  ultimately show ?case using j ih(3) by simp
qed

text \<open>The value of the first metric with a name, as the grader finds it.\<close>

lemma metricValue_append: "list_all (\<lambda>m. m_Name m \<noteq> name) xs \<Longrightarrow> metricValue (xs @ ys) name = metricValue ys name"
  by (induction xs) (simp_all add: metricValue_def)

text \<open>
  C29: when a fleet of VMs passes, every VM of the summary delivered a result with one group-reported
  job and both p99 latencies, and no VM has a latency above the reported one, also after the rounding
  of the conversion to milliseconds.
\<close>

theorem fio_reports_worst_vm:
  assumes "ParseFIO xc data trID = Inr [res]" and "xc_collected xc data = Inr collected" and "fc_Results collected \<noteq> []"
    and "res_Native res = OutcomePass"
  shows "\<exists>s. xc_summary xc (fc_Summary collected) = Inr s \<and> fs_TotalVMs s = int (length (fc_Results collected)) \<and> fs_Failed s \<le> 0 \<and>
    (\<forall>raw \<in> set (fc_Results collected). \<exists>job r w. fioJobFromRaw xc raw = Inr job \<and> job_p99s job = Inr (r, w) \<and>
      (r \<noteq> NaN \<longrightarrow> f64_le (f64_div r (Fin 1000000)) (metricValue (res_Metrics res) ''read_latency'')) \<and>
      (w \<noteq> NaN \<longrightarrow> f64_le (f64_div w (Fin 1000000)) (metricValue (res_Metrics res) ''write_latency'')))"
proof -
  have p: "parseCollectedFIO xc collected data trID = Inr [res]" using assms(1-3) by (auto simp: ParseFIO_def split: if_splits)
  obtain s where s: "xc_summary xc (fc_Summary collected) = Inr s" using p by (auto simp: parseCollectedFIO_def split: sum.splits)
  have f: "\<not> fs_Failed s > 0" using p s assms(4) by (auto simp: parseCollectedFIO_def Let_def split: if_splits)
  let ?t0 = "\<lparr> ft_readP99 = Fin 0, ft_writeP99 = Fin 0, ft_readIOPS = Fin 0, ft_writeIOPS = Fin 0 \<rparr>"
  obtain t where t: "fio_fleet xc (fc_Results collected) ?t0 = Inr t"
    and n: "int (length (fc_Results collected)) = fs_TotalVMs s"
    and m: "res_Metrics res = vm_counts (fs_TotalVMs s) (fs_Successful s) (fs_Failed s) @ fio_metrics t"
    using p s f by (auto simp: parseCollectedFIO_def Let_def split: if_splits sum.splits)
  have c: "list_all (\<lambda>m. m_Name m \<noteq> name) (vm_counts a b d)" if "name \<in> {''read_latency'', ''write_latency''}" for name a b d
    using that by (auto simp: vm_counts_def metric_of_def)
  have h: "f64_of_int 1000000 = Fin 1000000" by (simp add: f64_of_int_def)
  have v: "metricValue (res_Metrics res) ''read_latency'' = f64_div (ft_readP99 t) (Fin 1000000)"
    "metricValue (res_Metrics res) ''write_latency'' = f64_div (ft_writeP99 t) (Fin 1000000)"
    unfolding m by (simp_all add: metricValue_append[OF c]) (simp_all add: metricValue_def fio_metrics_def p99_metric_def h)
  have "\<forall>raw \<in> set (fc_Results collected). \<exists>job r w. fioJobFromRaw xc raw = Inr job \<and> job_p99s job = Inr (r, w) \<and>
      (r \<noteq> NaN \<longrightarrow> f64_le r (ft_readP99 t)) \<and> (w \<noteq> NaN \<longrightarrow> f64_le w (ft_writeP99 t))"
    using fio_fleet_worst[OF t] by simp
  then have "\<forall>raw \<in> set (fc_Results collected). \<exists>job r w. fioJobFromRaw xc raw = Inr job \<and> job_p99s job = Inr (r, w) \<and>
      (r \<noteq> NaN \<longrightarrow> f64_le (f64_div r (Fin 1000000)) (f64_div (ft_readP99 t) (Fin 1000000))) \<and>
      (w \<noteq> NaN \<longrightarrow> f64_le (f64_div w (Fin 1000000)) (f64_div (ft_writeP99 t) (Fin 1000000)))"
    using f64_div_mono[of 1000000] by (simp del: f64_div.simps) meson
  then show ?thesis unfolding v using s n f by auto
qed

definition two_vms :: fio_codec where
  "two_vms = \<lparr> xc_collected = (\<lambda>d. Inr \<lparr> fc_Summary = ''s'', fc_Results = [''fast'', ''slow''] \<rparr>),
     xc_summary = (\<lambda>d. Inr \<lparr> fs_TotalVMs = 2, fs_Successful = 2, fs_Failed = 0 \<rparr>),
     xc_raw = (\<lambda>d. Inr [\<lparr> fj_Error = 0, fj_Read = \<lparr> fx_IOPS = Fin 10, fx_Percentile = [(''99'', if d = ''fast'' then Fin 1000000 else Fin 5000000)] \<rparr>,
       fj_Write = \<lparr> fx_IOPS = Fin 10, fx_Percentile = [(''99'', Fin 2000000)] \<rparr> \<rparr>]) \<rparr>"

lemma two_vms_parse:
  "\<exists>res. ParseFIO two_vms ''x'' ''t'' = Inr [res] \<and> res_Native res = OutcomePass"
proof -
  have p: "parse_float ''99'' = Some (Fin 99)"
    by (simp add: parse_float_def parse_decimal_def parse_exp_def is_digit_def to_lower_def lower_char_def Let_def)
  have h: "f64_of_int 99 = Fin 99" by (simp add: f64_of_int_def)
  have j: "fioJobFromRaw two_vms raw = Inr \<lparr> fj_Error = 0, fj_Read = \<lparr> fx_IOPS = Fin 10, fx_Percentile = [(''99'', if raw = ''fast'' then Fin 1000000 else Fin 5000000)] \<rparr>,
       fj_Write = \<lparr> fx_IOPS = Fin 10, fx_Percentile = [(''99'', Fin 2000000)] \<rparr> \<rparr>" for raw
    by (simp add: fioJobFromRaw_def two_vms_def)
  have q: "job_p99s \<lparr> fj_Error = e, fj_Read = \<lparr> fx_IOPS = i, fx_Percentile = [(''99'', a)] \<rparr>, fj_Write = \<lparr> fx_IOPS = i, fx_Percentile = [(''99'', b)] \<rparr> \<rparr> = Inr (a, b)"
    for e i a b by (simp add: job_p99s_def p h f64_eq_def)
  show ?thesis
    by (simp add: ParseFIO_def parseCollectedFIO_def two_vms_def[THEN arg_cong, of xc_collected] two_vms_def[THEN arg_cong, of xc_summary] wrap64_def j q Let_def)
qed

theorem fio_reports_worst_vm_witness:
  "\<exists>res. ParseFIO two_vms ''x'' ''t'' = Inr [res] \<and> f64_le (f64_div (Fin 5000000) (Fin 1000000)) (metricValue (res_Metrics res) ''read_latency'')"
proof -
  obtain res where r: "ParseFIO two_vms ''x'' ''t'' = Inr [res]" "res_Native res = OutcomePass" using two_vms_parse by blast
  have c: "xc_collected two_vms ''x'' = Inr \<lparr> fc_Summary = ''s'', fc_Results = [''fast'', ''slow''] \<rparr>" by (simp add: two_vms_def)
  have p: "parse_float ''99'' = Some (Fin 99)"
    by (simp add: parse_float_def parse_decimal_def parse_exp_def is_digit_def to_lower_def lower_char_def Let_def)
  have h: "f64_of_int 99 = Fin 99" by (simp add: f64_of_int_def)
  have j: "fioJobFromRaw two_vms ''slow'' = Inr job \<Longrightarrow> job_p99s job = Inr (a, b) \<Longrightarrow> a = Fin 5000000" for job a b
    by (auto simp: fioJobFromRaw_def two_vms_def job_p99s_def p h f64_eq_def)
  from fio_reports_worst_vm[OF r(1) c _ r(2)] j r(1) show ?thesis by (auto simp del: f64_div.simps)
qed

section \<open>What the lines of a drain log say\<close>

text \<open>One line of the log, by the first of the forms it has.\<close>

datatype drain_item = Skipped | Rule | BeforeHead | AfterHead | Target string | Lasted f64 | Totalled f64 | Count string int

definition log_item :: "string \<Rightarrow> drain_item" where
  "log_item msg =
     (if msg = [] then Skipped
      else if has_prefix msg ''==='' then Rule
      else if contains msg ''VMI DISTRIBUTION BEFORE DRAIN'' then BeforeHead
      else if contains msg ''VMI DISTRIBUTION AFTER DRAIN'' then AfterHead
      else case match_nodes msg of
        Some m \<Rightarrow> Target (trim_space (fst (cut_at (CHR '','') m)))
      | None \<Rightarrow>
         (case match_duration [''Drain completed in'', ''Drain timed out after''] msg of
            Some m \<Rightarrow> (case parse_float m of Some v \<Rightarrow> Lasted v | None \<Rightarrow> Skipped)
          | None \<Rightarrow>
             (case match_duration [''Total time:''] msg of
                Some m \<Rightarrow> (case parse_float m of Some v \<Rightarrow> Totalled v | None \<Rightarrow> Skipped)
              | None \<Rightarrow> (case drainDistRow msg of Some (node, n) \<Rightarrow> Count node n | None \<Rightarrow> Skipped))))"

definition log_items :: "string \<Rightarrow> drain_item list" where
  "log_items data = map (\<lambda>l. log_item (drainLogMessage l)) (split_on (CHR 0x0A) data)"

text \<open>The last thing of a kind; the lines of the last table under a heading, up to the next rule or heading.\<close>

definition last_of :: "('a \<Rightarrow> 'b option) \<Rightarrow> 'a list \<Rightarrow> 'b option" where
  "last_of f xs = (case rev (List.map_filter f xs) of [] \<Rightarrow> None | y # _ \<Rightarrow> Some y)"

definition ends_table :: "drain_item \<Rightarrow> bool" where
  "ends_table x = (x = Rule \<or> x = BeforeHead \<or> x = AfterHead)"

definition last_table :: "drain_item \<Rightarrow> drain_item list \<Rightarrow> drain_item list" where
  "last_table heading items =
     (if heading \<in> set items then takeWhile (\<lambda>x. \<not> ends_table x) (rev (takeWhile (\<lambda>x. x \<noteq> heading) (rev items))) else [])"

definition table_count :: "drain_item \<Rightarrow> string \<Rightarrow> drain_item list \<Rightarrow> int option" where
  "table_count heading node items = last_of (\<lambda>x. case x of Count m n \<Rightarrow> (if m = node then Some n else None) | _ \<Rightarrow> None) (last_table heading items)"

definition drained_node :: "drain_item list \<Rightarrow> string option" where
  "drained_node = last_of (\<lambda>x. case x of Target t \<Rightarrow> Some t | _ \<Rightarrow> None)"

definition lasted :: "drain_item list \<Rightarrow> f64 option" where
  "lasted items = (case last_of (\<lambda>x. case x of Lasted v \<Rightarrow> Some v | _ \<Rightarrow> None) items of
     Some v \<Rightarrow> Some v | None \<Rightarrow> last_of (\<lambda>x. case x of Totalled v \<Rightarrow> Some v | _ \<Rightarrow> None) items)"

text \<open>The scanner on one line, and the state it has after some lines.\<close>

definition scan_item :: "drain_item \<Rightarrow> drain_state \<Rightarrow> drain_state" where
  "scan_item x d =
     (case x of
        Skipped \<Rightarrow> d | Rule \<Rightarrow> d\<lparr>dr_section := NoSection\<rparr>
      | BeforeHead \<Rightarrow> d\<lparr>dr_section := Before, dr_before := []\<rparr> | AfterHead \<Rightarrow> d\<lparr>dr_section := After, dr_after := []\<rparr>
      | Target t \<Rightarrow> d\<lparr>dr_target := t\<rparr> | Lasted v \<Rightarrow> d\<lparr>dr_elapsed := Some v\<rparr> | Totalled v \<Rightarrow> d\<lparr>dr_total := Some v\<rparr>
      | Count node n \<Rightarrow> (case dr_section d of
            Before \<Rightarrow> d\<lparr>dr_before := gm_set node n (dr_before d)\<rparr>
          | After \<Rightarrow> d\<lparr>dr_after := gm_set node n (dr_after d)\<rparr>
          | NoSection \<Rightarrow> d))"

lemma drain_line_item: "drain_line l d = scan_item (log_item (drainLogMessage l)) d"
  by (simp add: drain_line_def log_item_def scan_item_def drain_row_def is_before_def is_after_def Let_def split: option.split)

lemma last_of_simps [simp]:
  "last_of f [] = None" "last_of f (xs @ [x]) = (case f x of Some y \<Rightarrow> Some y | None \<Rightarrow> last_of f xs)"
  by (simp_all add: last_of_def List.map_filter_def split: option.split)

text \<open>The table under a heading is still open.\<close>

definition open_table :: "drain_item \<Rightarrow> drain_item list \<Rightarrow> bool" where
  "open_table heading items \<longleftrightarrow> heading \<in> set items \<and> (\<forall>x \<in> set (takeWhile (\<lambda>x. x \<noteq> heading) (rev items)). \<not> ends_table x)"

lemma open_table_snoc:
  "open_table heading (items @ [x]) \<longleftrightarrow> x = heading \<or> \<not> ends_table x \<and> open_table heading items"
  by (cases "x = heading") (simp_all add: open_table_def, blast)

lemma last_table_snoc:
  "last_table heading (items @ [x]) =
     (if x = heading then [] else last_table heading items @ (if open_table heading items \<and> \<not> ends_table x then [x] else []))"
proof -
  let ?t = "rev (takeWhile (\<lambda>x. x \<noteq> heading) (rev items))"
  have all: "takeWhile (\<lambda>x. \<not> ends_table x) ?t = ?t" if "\<forall>y \<in> set ?t. \<not> ends_table y"
    using that by (simp only: takeWhile_eq_all_conv)
  have "takeWhile (\<lambda>x. \<not> ends_table x) (?t @ [x]) =
      takeWhile (\<lambda>x. \<not> ends_table x) ?t @ (if (\<forall>y \<in> set ?t. \<not> ends_table y) \<and> \<not> ends_table x then [x] else [])"
  proof (cases "\<forall>y \<in> set ?t. \<not> ends_table y")
    case True
    then show ?thesis unfolding takeWhile_append all[OF True] by simp
  qed (auto simp: takeWhile_append)
  then show ?thesis by (simp add: last_table_def open_table_def)
qed

lemma table_count_snoc:
  "table_count heading node (items @ [x]) =
     (if x = heading then None
      else if open_table heading items then (case x of Count m n \<Rightarrow> if m = node then Some n else table_count heading node items | _ \<Rightarrow> table_count heading node items)
      else table_count heading node items)"
  by (auto simp: table_count_def last_table_snoc ends_table_def split: drain_item.split)

definition scanned :: "drain_item list \<Rightarrow> drain_state \<Rightarrow> bool" where
  "scanned items d \<longleftrightarrow>
     dr_target d = (case drained_node items of Some t \<Rightarrow> t | None \<Rightarrow> []) \<and>
     dr_elapsed d = last_of (\<lambda>x. case x of Lasted v \<Rightarrow> Some v | _ \<Rightarrow> None) items \<and>
     dr_total d = last_of (\<lambda>x. case x of Totalled v \<Rightarrow> Some v | _ \<Rightarrow> None) items \<and>
     (\<forall>node. gm_get (dr_before d) node = table_count BeforeHead node items) \<and>
     (\<forall>node. gm_get (dr_after d) node = table_count AfterHead node items) \<and>
     (dr_section d = Before \<longleftrightarrow> open_table BeforeHead items) \<and> (dr_section d = After \<longleftrightarrow> open_table AfterHead items)"

lemma scanned_snoc:
  assumes "scanned items d"
  shows "scanned (items @ [x]) (scan_item x d)"
  using assms
  by (cases x; cases "dr_section d")
    (simp_all add: scanned_def scan_item_def drained_node_def table_count_snoc open_table_snoc ends_table_def go_map)

lemma drain_scan_scanned: "scanned (log_items data) (drain_scan data)"
proof -
  let ?d0 = "\<lparr> dr_target = [], dr_elapsed = None, dr_total = None, dr_before = [], dr_after = [], dr_section = NoSection \<rparr>"
  have "scanned (map (\<lambda>l. log_item (drainLogMessage l)) ls) (fold drain_line ls ?d0)" for ls
  proof (induction ls rule: rev_induct)
    case Nil
    show ?case by (simp add: scanned_def drained_node_def table_count_def last_table_def open_table_def)
  next
    case (snoc l ls)
    from scanned_snoc[OF this] show ?case by (simp add: drain_line_item)
  qed
  then show ?thesis by (simp add: log_items_def drain_scan_def)
qed

text \<open>
  C31: what a result of the drain test rests on. The drained node is the one of the last line with
  nodes; the evacuation time is the number of the last line on the end of a drain, or else of the last
  line with a total time; the number of VMs is the last count for that node in the last table before
  the drain, and not zero; and the VMs that remain are the last count for it in the last table after
  the drain, or none when the node has no row there. The test fails exactly when VMs remain, and
  the check that all were evacuated has the same outcome. A log without a table after the drain
  therefore passes, although nothing shows that any VM left the node.
\<close>

theorem drain_result_evidence:
  assumes "ParseDrain data trID = Inr res"
  shows "\<exists>node elapsed n_total. drained_node (log_items data) = Some node \<and> node \<noteq> [] \<and> lasted (log_items data) = Some elapsed \<and>
    table_count BeforeHead node (log_items data) = Some n_total \<and> n_total \<noteq> 0 \<and>
    (let remaining = (case table_count AfterHead node (log_items data) of Some n \<Rightarrow> n | None \<Rightarrow> 0) in
      res_Native res = (if remaining > 0 then OutcomeFail else OutcomePass) \<and>
      res_Metrics res = [metric_of ''evacuation_time'' elapsed ''s'', metric_of ''vms_total'' (f64_of_int n_total) [],
        metric_of ''vms_evacuated'' (f64_of_int (wrap64 (n_total - remaining))) [], metric_of ''vms_remaining'' (f64_of_int remaining) [],
        metric_of ''evacuation_success_rate'' (rate_of (wrap64 (n_total - remaining)) n_total) ''%'']) \<and>
    res_TRID res = trID \<and> res_Checks res = [(''all-vms-evacuated'', res_Native res)] \<and>
    (AfterHead \<notin> set (log_items data) \<longrightarrow> res_Native res = OutcomePass)"
proof -
  let ?d = "drain_scan data" and ?items = "log_items data"
  note sc = drain_scan_scanned[of data, unfolded scanned_def]
  from assms obtain elapsed n_total where
    p: "dr_target ?d \<noteq> []" "(case dr_elapsed ?d of Some v \<Rightarrow> Some v | None \<Rightarrow> dr_total ?d) = Some elapsed"
      "gm_get (dr_before ?d) (dr_target ?d) = Some n_total" "n_total \<noteq> 0"
    and r: "res = drain_result elapsed n_total (case gm_get (dr_after ?d) (dr_target ?d) of Some n \<Rightarrow> n | None \<Rightarrow> 0) trID"
    by (auto simp: ParseDrain_def Let_def split: if_splits option.splits)
  from p(1) sc have node: "drained_node ?items = Some (dr_target ?d)" by (auto split: option.splits)
  from sc have e: "dr_elapsed ?d = last_of (\<lambda>x. case x of Lasted v \<Rightarrow> Some v | _ \<Rightarrow> None) ?items"
    and t: "dr_total ?d = last_of (\<lambda>x. case x of Totalled v \<Rightarrow> Some v | _ \<Rightarrow> None) ?items" by blast+
  have la: "lasted ?items = Some elapsed" unfolding lasted_def e[symmetric] t[symmetric] by (rule p(2))
  have be: "table_count BeforeHead (dr_target ?d) ?items = Some n_total" using p(3) sc by metis
  have af: "gm_get (dr_after ?d) (dr_target ?d) = table_count AfterHead (dr_target ?d) ?items" using sc by metis
  have no: "table_count AfterHead (dr_target ?d) ?items = None" if "AfterHead \<notin> set ?items"
    using that by (simp add: table_count_def last_table_def)
  show ?thesis
    by (rule exI[of _ "dr_target ?d"], rule exI[of _ elapsed], rule exI[of _ n_total])
      (simp add: node la be p(1,4) r af no drain_result_def Let_def zero_test_result_def)
qed

text \<open>A log that ends with the time-out of its drain.\<close>

definition cut_log_lines :: "string list" where
  "cut_log_lines = map (\<lambda>msg. ''2025-01-01 - INFO - '' @ msg)
     [''Nodes: worker-1'', ''VMI DISTRIBUTION BEFORE DRAIN'', ''worker-1   12'', ''==='', ''Drain timed out after 600s'']"

definition cut_drain_log :: string where
  "cut_drain_log = join_with LF cut_log_lines"

lemma cut_drain_scan:
  "drain_scan cut_drain_log = \<lparr> dr_target = ''worker-1'', dr_elapsed = Some (Fin 600), dr_total = None, dr_before = [(''worker-1'', 12)],
     dr_after = [], dr_section = NoSection \<rparr>"
proof -
  let ?d0 = "\<lparr> dr_target = [], dr_elapsed = None, dr_total = None, dr_before = [], dr_after = [], dr_section = NoSection \<rparr>"
  let ?d4 = "\<lparr> dr_target = ''worker-1'', dr_elapsed = None, dr_total = None, dr_before = [(''worker-1'', 12)], dr_after = [], dr_section = NoSection \<rparr>"
  let ?msg = "''Drain timed out after 600s''"
  have ls: "split_on (CHR 0x0A) cut_drain_log = take 4 cut_log_lines @ [''2025-01-01 - INFO - '' @ ?msg]" by code_simp
  have 4: "fold drain_line (take 4 cut_log_lines) ?d0 = ?d4" by code_simp
  have m: "drainLogMessage (''2025-01-01 - INFO - '' @ ?msg) = ?msg" by code_simp
  have n: "match_nodes ?msg = None" "match_duration [''Drain completed in'', ''Drain timed out after''] ?msg = Some ''600''" by code_simp+
  have b: "\<not> has_prefix ?msg ''===''" "\<not> is_before ?msg" "\<not> is_after ?msg" by code_simp+
  have p: "parse_float ''600'' = Some (Fin 600)"
    by (simp add: parse_float_def parse_decimal_def parse_exp_def is_digit_def to_lower_def lower_char_def Let_def)
  have "drain_line (''2025-01-01 - INFO - '' @ ?msg) ?d4 = ?d4\<lparr>dr_elapsed := Some (Fin 600)\<rparr>"
    unfolding drain_line_def m Let_def using n b p by simp
  then show ?thesis unfolding drain_scan_def ls fold_append comp_apply 4 by simp
qed

text \<open>The same log with a final table that still shows VMs on the node.\<close>

definition full_drain_log :: string where
  "full_drain_log = join_with LF (cut_log_lines @ map (\<lambda>msg. ''2025-01-01 - INFO - '' @ msg) [''VMI DISTRIBUTION AFTER DRAIN'', ''worker-1   3''])"

lemma full_drain_scan:
  "drain_scan full_drain_log = \<lparr> dr_target = ''worker-1'', dr_elapsed = Some (Fin 600), dr_total = None, dr_before = [(''worker-1'', 12)],
     dr_after = [(''worker-1'', 3)], dr_section = After \<rparr>"
proof -
  let ?a = "''2025-01-01 - INFO - VMI DISTRIBUTION AFTER DRAIN''" and ?b = "''2025-01-01 - INFO - worker-1   3''"
  have ls: "split_on (CHR 0x0A) full_drain_log = split_on (CHR 0x0A) cut_drain_log @ [?a, ?b]" by code_simp
  have m: "log_item (drainLogMessage ?a) = AfterHead" by code_simp
  have n: "drainLogMessage ?b = ''worker-1   3''" "match_nodes ''worker-1   3'' = None"
    "match_duration [''Drain completed in'', ''Drain timed out after''] ''worker-1   3'' = None" "match_duration [''Total time:''] ''worker-1   3'' = None"
    "drainDistRow ''worker-1   3'' = Some (''worker-1'', 3)" "\<not> has_prefix ''worker-1   3'' ''===''"
    "\<not> contains ''worker-1   3'' ''VMI DISTRIBUTION BEFORE DRAIN''" "\<not> contains ''worker-1   3'' ''VMI DISTRIBUTION AFTER DRAIN''"
    by code_simp+
  have "log_item (drainLogMessage ?b) = Count ''worker-1'' 3"
    unfolding n(1) log_item_def using n(2-8) by simp
  with m have "drain_scan full_drain_log = scan_item (Count ''worker-1'' 3) (scan_item AfterHead (drain_scan cut_drain_log))"
    by (simp add: drain_scan_def ls drain_line_item)
  then show ?thesis by (simp add: cut_drain_scan scan_item_def gm_set_def)
qed

theorem drain_result_evidence_witness:
  "(\<exists>res. ParseDrain cut_drain_log ''t'' = Inr res \<and> res_Native res = OutcomePass \<and> metricValue (res_Metrics res) ''vms_evacuated'' = f64_of_int 12) \<and>
   (\<exists>res. ParseDrain full_drain_log ''t'' = Inr res \<and> res_Native res = OutcomeFail \<and>
      table_count AfterHead ''worker-1'' (log_items full_drain_log) = Some 3)"
proof
  have "cut_drain_log \<noteq> []" by code_simp
  then have r: "ParseDrain cut_drain_log ''t'' = Inr (drain_result (Fin 600) 12 0 ''t'')"
    by (simp add: ParseDrain_def cut_drain_scan gm_get_Cons Let_def)
  have "list_all (\<lambda>l. \<not> is_after (drainLogMessage l)) (split_on (CHR 0x0A) cut_drain_log)" by code_simp
  then have "AfterHead \<notin> set (log_items cut_drain_log)"
    by (auto simp: log_items_def list_all_iff is_after_def log_item_def split: if_splits option.splits)
  with drain_result_evidence[OF r] r
  show "\<exists>res. ParseDrain cut_drain_log ''t'' = Inr res \<and> res_Native res = OutcomePass \<and> metricValue (res_Metrics res) ''vms_evacuated'' = f64_of_int 12"
    by (simp add: drain_result_def metricValue_def metric_of_def wrap64_def Let_def)
next
  have "full_drain_log \<noteq> []" by code_simp
  then have r: "ParseDrain full_drain_log ''t'' = Inr (drain_result (Fin 600) 12 3 ''t'')"
    by (simp add: ParseDrain_def full_drain_scan gm_get_Cons Let_def)
  have "drained_node (log_items full_drain_log) = Some ''worker-1''" "table_count AfterHead ''worker-1'' (log_items full_drain_log) = Some 3"
    using drain_scan_scanned[of full_drain_log, unfolded scanned_def full_drain_scan, simplified]
    by (simp split: option.splits, metis gm_get_Cons)
  with drain_result_evidence[OF r] r
  show "\<exists>res. ParseDrain full_drain_log ''t'' = Inr res \<and> res_Native res = OutcomeFail \<and>
      table_count AfterHead ''worker-1'' (log_items full_drain_log) = Some 3" by (auto simp: Let_def)
qed

end
