(* ===== verification/Result_Files.thy ===== *)
theory Result_Files
  imports Core_Types Go_Strings Go_Path
begin

text \<open>
  The walk over a results directory that the two kube-burner adapters share
  (\<open>findCollectedMetrics\<close> in their runner.go). The walk itself is \<open>fs.WalkDir\<close>: its entries in
  order are an argument, each with the error the walk hands over and what reading it gives.
\<close>

record walk_entry =
  we_Path :: string
  we_Name :: string
  we_IsDir :: bool
  we_Err :: "string option"
  we_Read :: "string + string"

text \<open>\<open>FindCollectedMetrics wanted missing dir opened\<close>: files by base name, and their sorted paths.\<close>

fun walk_files ::
  "(string \<Rightarrow> bool) \<Rightarrow> string \<Rightarrow> walk_entry list \<Rightarrow> (string, string) gomap \<Rightarrow> string list \<Rightarrow>
    string + (string, string) gomap \<times> string list" where
  "walk_files wanted dir [] data paths = Inr (data, paths)"
| "walk_files wanted dir (e # es) data paths =
     (case we_Err e of
        Some err \<Rightarrow> Inl err
      | None \<Rightarrow>
          if we_IsDir e then walk_files wanted dir es data paths
          else if wanted (we_Name e) then
            (case we_Read e of
               Inl err \<Rightarrow> Inl err
             | Inr content \<Rightarrow>
                 walk_files wanted dir es (gm_set (we_Name e) content data) (paths @ [path_join [dir, we_Path e]]))
          else walk_files wanted dir es data paths)"

definition collected_metrics ::
  "(string \<Rightarrow> bool) \<Rightarrow> string \<Rightarrow> string \<Rightarrow> string + walk_entry list \<Rightarrow> string + (string, string) gomap \<times> string list" where
  "collected_metrics wanted tool dir opened =
     (case opened of
        Inl err \<Rightarrow> Inl err
      | Inr es \<Rightarrow>
          (case walk_files wanted dir es [] [] of
             Inl err \<Rightarrow> Inl err
           | Inr (data, paths) \<Rightarrow>
               if data = [] then Inl (tool @ '': no collected-metrics under '' @ dir)
               else Inr (data, sort paths)))"

definition raw_param :: "params \<Rightarrow> string \<Rightarrow> any" where
  "raw_param m k = (case gm_get m k of Some v \<Rightarrow> v | None \<Rightarrow> ANil)"

text \<open>\<open>AsString\<close> with a test for a non-empty result.\<close>

definition nonempty_param :: "params \<Rightarrow> string \<Rightarrow> string \<Rightarrow> string" where
  "nonempty_param m k dflt = (case AsString (raw_param m k) of Some s \<Rightarrow> if s \<noteq> [] then s else dflt | None \<Rightarrow> dflt)"

definition int_param :: "params \<Rightarrow> string \<Rightarrow> int \<Rightarrow> int" where
  "int_param m k dflt = (case AsInt (raw_param m k) of Some n \<Rightarrow> n | None \<Rightarrow> dflt)"

text \<open>Every collected file is a wanted one, its content comes from a file read without an error.\<close>

lemma walk_files_sound:
  assumes "walk_files wanted dir es data paths = Inr (d, ps)" and "gm_get d k = Some c"
  shows "gm_get data k = Some c \<or> (\<exists>e \<in> set es. we_Name e = k \<and> we_Read e = Inr c \<and> wanted k \<and> \<not> we_IsDir e)"
  using assms
  by (induction wanted dir es data paths rule: walk_files.induct)
    (auto split: option.splits if_splits sum.splits)

lemma walk_files_complete:
  assumes "walk_files wanted dir es data paths = Inr (d, ps)" and "e \<in> set es" and "wanted (we_Name e)" and "\<not> we_IsDir e"
  shows "gm_get d (we_Name e) \<noteq> None"
proof -
  have keep: "walk_files w r es' data' ps' = Inr (d, ps) \<Longrightarrow> gm_get data' k \<noteq> None \<Longrightarrow> gm_get d k \<noteq> None" for w r es' data' ps' k
    by (induction w r es' data' ps' rule: walk_files.induct) (auto split: option.splits if_splits sum.splits)
  have new: "walk_files w r es' (gm_set k x data') ps' = Inr (d, ps) \<Longrightarrow> gm_get d k \<noteq> None" for w r es' data' ps' k x
    by (erule keep) simp
  show ?thesis
    using assms by (induction wanted dir es data paths rule: walk_files.induct)
      (auto split: option.splits if_splits sum.splits dest: new[unfolded not_None_eq])
qed

end
