(* ===== verification/Kube_Burner.thy ===== *)
theory Kube_Burner
  imports Result_Files Grader
begin

text \<open>
  \<open>internal/tools/kubeburner\<close>: the adapter of the snapshot requirements TR-VIRT-010 and
  TR-VIRT-027. Parameters (params.go), the parser of the collected measurements (parse.go), the
  evaluator (evaluator.go) and the run, collect, parse and teardown stages (runner.go). The JSON
  codec is an argument.
\<close>

section \<open>Scenarios and parameters\<close>

record snapshot_scenario =
  ks_TemplateDir :: string
  ks_SnapshotsPerVolume :: bool
  ks_SingleSourceVolume :: bool
  ks_AllowZeroSnapshots :: bool

definition snapshotScenarios :: "(string, snapshot_scenario) gomap" where
  "snapshotScenarios =
     [(''TR-VIRT-010'', \<lparr> ks_TemplateDir = ''templates/shared'', ks_SnapshotsPerVolume = False,
        ks_SingleSourceVolume = False, ks_AllowZeroSnapshots = False \<rparr>),
      (''TR-VIRT-027'', \<lparr> ks_TemplateDir = ''templates/shared'', ks_SnapshotsPerVolume = True,
        ks_SingleSourceVolume = True, ks_AllowZeroSnapshots = True \<rparr>)]"

definition scenarioFor :: "string \<Rightarrow> snapshot_scenario" where
  "scenarioFor trID =
     (case gm_get snapshotScenarios trID of
        Some s \<Rightarrow> s
      | None \<Rightarrow> \<lparr> ks_TemplateDir = [], ks_SnapshotsPerVolume = False, ks_SingleSourceVolume = False, ks_AllowZeroSnapshots = False \<rparr>)"

record kb_params =
  kp_Replicas :: int
  kp_SnapshotCount :: int
  kp_VMImage :: string
  kp_DiskSize :: string
  kp_QPS :: int
  kp_Burst :: int
  kp_MaxWait :: string
  kp_NS :: string
  kp_UsePopulator :: bool
  kp_snapshotCountSet :: bool

definition default_params :: kb_params where
  "default_params =
     \<lparr> kp_Replicas = 0, kp_SnapshotCount = 0,
       kp_VMImage = ''quay.io/kubevirt/cirros-container-disk-demo:latest'', kp_DiskSize = ''10Gi'',
       kp_QPS = 20, kp_Burst = 20, kp_MaxWait = ''1h'', kp_NS = ''storage-cert-vmsnapshot'',
       kp_UsePopulator = True, kp_snapshotCountSet = False \<rparr>"

text \<open>Without parameters the defaults; a nil map reads like an empty one.\<close>

definition resolveParams :: "test_requirement list \<Rightarrow> kb_params" where
  "resolveParams trs =
     (case trs of
        [] \<Rightarrow> default_params
      | tr # _ \<Rightarrow>
          (let raw = tr_Params tr;
               replicas = int_param raw ''replicas'' 0;
               countSet = gm_has raw ''snapshot_count'';
               snapshots = int_param raw ''snapshot_count'' 0
           in default_params\<lparr>
                kp_Replicas := replicas,
                kp_snapshotCountSet := countSet,
                kp_SnapshotCount := (if countSet then snapshots else replicas),
                kp_DiskSize := nonempty_param raw ''disk_size'' (kp_DiskSize default_params),
                kp_VMImage := nonempty_param raw ''vm_image'' (kp_VMImage default_params),
                kp_QPS := int_param raw ''qps'' (kp_QPS default_params),
                kp_Burst := int_param raw ''burst'' (kp_Burst default_params),
                kp_MaxWait := nonempty_param raw ''max_wait'' (kp_MaxWait default_params),
                kp_NS := nonempty_param raw ''namespace'' (kp_NS default_params)\<rparr>))"

definition validateFor :: "string \<Rightarrow> kb_params \<Rightarrow> string option" where
  "validateFor trID p =
     (let scenario = scenarioFor trID in
      if kp_Replicas p < 1 then Some (''kube-burner: param '' @ go_quote ''replicas'' @ '' must be >= 1'')
      else if ks_SingleSourceVolume scenario \<and> kp_Replicas p \<noteq> 1 then
        Some ''kube-burner: TR-VIRT-027 requires exactly one source volume (replicas=1)''
      else if kp_SnapshotCount p < 0 \<or> kp_SnapshotCount p = 0 \<and> \<not> ks_AllowZeroSnapshots scenario then
        Some (''kube-burner: param '' @ go_quote ''snapshot_count'' @ '' must be >= 1'')
      else None)"

definition kb_validate :: "kb_params \<Rightarrow> string option" where
  "kb_validate p = validateFor [] p"

definition buildEnv :: "kb_params \<Rightarrow> string \<Rightarrow> string list" where
  "buildEnv p storageClass =
     [''REPLICAS='' @ show_int (kp_Replicas p),
      ''SNAPSHOT_COUNT='' @ show_int (kp_SnapshotCount p),
      ''LEGACY_SNAPSHOT_JOB='' @ show_bool (\<not> kp_snapshotCountSet p \<and> kp_SnapshotCount p = kp_Replicas p),
      ''VM_IMAGE='' @ kp_VMImage p,
      ''DISK_SIZE='' @ kp_DiskSize p,
      ''STORAGE_CLASS='' @ storageClass,
      ''NAMESPACE='' @ kp_NS p,
      ''USE_POPULATOR='' @ show_bool (kp_UsePopulator p),
      ''MAX_WAIT='' @ kp_MaxWait p,
      ''QPS='' @ show_int (kp_QPS p),
      ''BURST='' @ show_int (kp_Burst p)]"

section \<open>Measurements\<close>

record job_summary =
  js_MetricName :: string
  js_ElapsedTime :: "f64 option"
  js_Passed :: bool
  js_Name :: string

record snapshot_quantile =
  sq_QuantileName :: string
  sq_P99 :: f64
  sq_P95 :: f64
  sq_P50 :: f64
  sq_Max :: f64
  sq_Min :: f64
  sq_Avg :: f64
  sq_MetricName :: string
  sq_JobName :: string

record snapshot_latency =
  sl_VSReadyLatency :: f64
  sl_VSName :: string
  sl_Namespace :: string
  sl_JobName :: string
  sl_Replica :: int

text \<open>The decoders of the three files and the encoder of the raw evidence.\<close>

record kb_codec =
  kc_summaries :: "string \<Rightarrow> string + job_summary list"
  kc_quantiles :: "string \<Rightarrow> string + snapshot_quantile list"
  kc_latencies :: "string \<Rightarrow> string + snapshot_latency list"
  kc_raw :: "job_summary list \<Rightarrow> snapshot_latency list \<Rightarrow> string"
  kc_error :: "string \<Rightarrow> string"

definition parseJobSummaries :: "kb_codec \<Rightarrow> (string, string) gomap \<Rightarrow> string + job_summary list \<times> outcome" where
  "parseJobSummaries kc data =
     (case gm_get data ''jobSummary.json'' of
        None \<Rightarrow> Inl ''kube-burner: missing or empty jobSummary.json''
      | Some blob \<Rightarrow>
          if blob = [] then Inl ''kube-burner: missing or empty jobSummary.json''
          else (case kc_summaries kc blob of
                  Inl err \<Rightarrow> Inl (''kube-burner: parse jobSummary.json: '' @ err)
                | Inr ss \<Rightarrow> Inr (ss, if ss = [] \<or> (\<exists>s \<in> set ss. \<not> js_Passed s) then OutcomeFail else OutcomePass)))"

text \<open>The loop over the files: the rows per snapshot and the \<open>Ready\<close> quantiles.\<close>

fun read_measurements ::
  "kb_codec \<Rightarrow> (string \<times> string) list \<Rightarrow> snapshot_latency list \<Rightarrow> snapshot_quantile list \<Rightarrow>
    string + snapshot_latency list \<times> snapshot_quantile list" where
  "read_measurements kc [] rows quants = Inr (rows, quants)"
| "read_measurements kc ((name, blob) # fs) rows quants =
     (if contains name ''QuantilesMeasurement'' then
        (case kc_quantiles kc blob of
           Inl err \<Rightarrow> Inl (''kube-burner: parse '' @ name @ '': '' @ err)
         | Inr qs \<Rightarrow> read_measurements kc fs rows (quants @ filter (\<lambda>q. sq_QuantileName q = ''Ready'') qs))
      else if contains name ''volumeSnapshotLatencyMeasurement'' then
        (case kc_latencies kc blob of
           Inl err \<Rightarrow> Inl (''kube-burner: parse '' @ name @ '': '' @ err)
         | Inr rs \<Rightarrow> read_measurements kc fs (rows @ rs) quants)
      else read_measurements kc fs rows quants)"

text \<open>\<open>percentile / 100 * float64(len(sorted))\<close>, and the elements an interpolation reads.\<close>

definition percentile_index :: "nat \<Rightarrow> f64 \<Rightarrow> f64" where
  "percentile_index n p = f64_mul (f64_div p (f64_of_int 100)) (f64_of_int (int n))"

definition percentile_reads :: "nat \<Rightarrow> f64 \<Rightarrow> int list" where
  "percentile_reads n p =
     (let index = percentile_index n p; i = f64_to_int index
      in if n = 1 then [0] else if f64_eq index (f64_of_int i) then [i - 1] else [i - 1, i])"

definition kubeBurnerPercentile :: "f64 list \<Rightarrow> f64 \<Rightarrow> int" where
  "kubeBurnerPercentile xs p =
     (case percentile_reads (length xs) p of
        [i] \<Rightarrow> f64_to_int (xs ! nat i)
      | i # j # _ \<Rightarrow> f64_to_int (f64_div (f64_add (xs ! nat i) (xs ! nat j)) (f64_of_int 2))
      | [] \<Rightarrow> 0)"

definition ready_metric :: "f64 \<Rightarrow> string \<Rightarrow> metric" where
  "ready_metric v pct = \<lparr> m_Name = ''snapshot_ready_time'', m_Value = v, m_Unit = ''ms'', m_Percentile = pct \<rparr>"

definition count_metric :: "string \<Rightarrow> int \<Rightarrow> metric" where
  "count_metric name n = \<lparr> m_Name = name, m_Value = f64_of_int n, m_Unit = ''count'', m_Percentile = [] \<rparr>"

definition snapshotReadyMetrics :: "snapshot_latency list \<Rightarrow> metric list" where
  "snapshotReadyMetrics rows =
     (let latencies = sort (map sl_VSReadyLatency rows);
          pct = (\<lambda>n. f64_of_int (kubeBurnerPercentile latencies (f64_of_int n)))
      in [ready_metric (pct 50) ''p50'', ready_metric (pct 95) ''p95'', ready_metric (pct 99) ''p99'',
          ready_metric (f64_of_int (f64_to_int (last latencies))) ''max''])"

definition readySnapshotCount :: "snapshot_latency list \<Rightarrow> int" where
  "readySnapshotCount rows = int (length (remdups (filter (\<lambda>n. n \<noteq> []) (map sl_VSName rows))))"

definition isSnapshotJob :: "string \<Rightarrow> bool" where
  "isSnapshotJob name = (name = ''vmsnapshot-snapshot'' \<or> has_prefix name ''vmsnapshot-snapshot-'')"

fun elapsed_loop :: "job_summary list \<Rightarrow> f64 \<Rightarrow> nat \<Rightarrow> string + f64" where
  "elapsed_loop [] elapsed batches =
     (if batches = 0 then Inl ''kube-burner: missing snapshot jobSummary'' else Inr elapsed)"
| "elapsed_loop (s # ss) elapsed batches =
     (if isSnapshotJob (js_Name s) then
        (case js_ElapsedTime s of
           None \<Rightarrow> Inl (''kube-burner: jobSummary for '' @ go_quote (js_Name s) @ '' has no elapsedTime'')
         | Some e \<Rightarrow> elapsed_loop ss (f64_add elapsed e) (batches + 1))
      else elapsed_loop ss elapsed batches)"

definition snapshotBatchElapsedTime :: "job_summary list \<Rightarrow> string + f64" where
  "snapshotBatchElapsedTime ss = elapsed_loop ss (Fin 0) 0"


section \<open>The parser\<close>

definition ready_metrics :: "snapshot_latency list \<Rightarrow> snapshot_quantile list \<Rightarrow> metric list" where
  "ready_metrics rows quants =
     (if rows \<noteq> [] then snapshotReadyMetrics rows
      else case quants of
             [q] \<Rightarrow> [ready_metric (sq_P50 q) ''p50'', ready_metric (sq_P95 q) ''p95'',
                        ready_metric (sq_P99 q) ''p99'', ready_metric (sq_Max q) ''max'']
           | _ \<Rightarrow> [])"

text \<open>The metrics of the requested batch, and the native outcome after them.\<close>

definition batch_metrics ::
  "snapshot_scenario \<Rightarrow> int \<Rightarrow> job_summary list \<Rightarrow> snapshot_latency list \<Rightarrow> outcome \<Rightarrow> string + metric list \<times> outcome" where
  "batch_metrics scenario requested ss rows native =
     (case snapshotBatchElapsedTime ss of
        Inl err \<Rightarrow> Inl err
      | Inr elapsed \<Rightarrow>
          (let ready = (if rows = [] \<and> native = OutcomePass then requested else readySnapshotCount rows) in
           if ready > requested then
             Inl (''kube-burner: measured '' @ show_int ready @ '' ready snapshots, more than '' @ show_int requested @ '' requested'')
           else Inr
             ([count_metric ''snapshot_requested_count'' requested,
               count_metric ''snapshot_ready_count'' ready,
               count_metric ''snapshot_failed_count'' (requested - ready),
               \<lparr> m_Name = ''snapshot_success_rate'',
                 m_Value = f64_mul (f64_div (f64_of_int ready) (f64_of_int requested)) (f64_of_int 100), m_Unit = ''%'', m_Percentile = [] \<rparr>,
               \<lparr> m_Name = ''snapshot_batch_completion_time'', m_Value = elapsed, m_Unit = ''s'', m_Percentile = [] \<rparr>] @
              (if ks_SnapshotsPerVolume scenario then [count_metric ''snapshots_per_volume'' ready] else []),
              if ready \<noteq> requested then OutcomeFail else native)))"

definition parseResultsWithScenario ::
  "kb_codec \<Rightarrow> string \<Rightarrow> (string, string) gomap \<Rightarrow> int \<Rightarrow> snapshot_scenario \<Rightarrow> string + test_result" where
  "parseResultsWithScenario kc trID data requested scenario =
     (case parseJobSummaries kc data of
        Inl err \<Rightarrow> Inl err
      | Inr (ss, native) \<Rightarrow>
          (case read_measurements kc data [] [] of
             Inl err \<Rightarrow> Inl err
           | Inr (rows, quants) \<Rightarrow>
               (case (if requested > 0 then batch_metrics scenario requested ss rows native else Inr ([], native)) of
                  Inl err \<Rightarrow> Inl err
                | Inr (batch, native') \<Rightarrow>
                    (let reduced = (requested = 0 \<and> ks_AllowZeroSnapshots scenario);
                         final = (if reduced then OutcomeFail else native')
                     in Inr (zero_test_result\<lparr>
                          res_TRID := trID,
                          res_Metrics := ready_metrics rows quants @ batch @
                            (if reduced then [count_metric ''snapshots_per_volume'' 0] else []),
                          res_Checks := [(''jobs_passed'', final)],
                          res_Native := final,
                          res_Raw := kc_raw kc ss rows\<rparr>)))))"

definition parseResults :: "kb_codec \<Rightarrow> string \<Rightarrow> (string, string) gomap \<Rightarrow> int \<Rightarrow> string + test_result" where
  "parseResults kc trID data requested = parseResultsWithScenario kc trID data requested (scenarioFor trID)"

definition ParseResults :: "kb_codec \<Rightarrow> string \<Rightarrow> (string, string) gomap \<Rightarrow> string + test_result" where
  "ParseResults kc trID data = parseResults kc trID data 0"

section \<open>The evaluator\<close>

definition batchMetric :: "(string, f64) gomap \<Rightarrow> string \<Rightarrow> string \<Rightarrow> string" where
  "batchMetric vs name unit = (case gm_get vs name of None \<Rightarrow> ''unavailable'' | Some v \<Rightarrow> fmt_f v @ unit)"

definition snapshotBatchActual :: "test_result \<Rightarrow> string" where
  "snapshotBatchActual res =
     (let vs = fold (\<lambda>m vs. gm_set (m_Name m) (m_Value m) vs) (res_Metrics res) [] in
      ''requested='' @ batchMetric vs ''snapshot_requested_count'' [] @
      '' ready='' @ batchMetric vs ''snapshot_ready_count'' [] @
      '' failed='' @ batchMetric vs ''snapshot_failed_count'' [] @
      '' success_rate='' @ batchMetric vs ''snapshot_success_rate'' ''%'' @
      '' batch_completion_time='' @ batchMetric vs ''snapshot_batch_completion_time'' ''s'')"

definition snapshot_Evaluate :: evaluator where
  "snapshot_Evaluate tr res =
     (let batch = zero_verdict\<lparr>
            v_TR := tr_ID tr, v_Item := ''native:jobs_passed'',
            v_Outcome := (if res_Native res = [] then OutcomeError else res_Native res),
            v_Reason := ''kube-burner VM snapshot batch measurements'',
            v_Actual := snapshotBatchActual res\<rparr>
      in if tr_SLAs tr = [] \<and> tr_Checks tr = [] then Inr [batch]
         else Inr (batch # gradeSLAs tr res @ gradeChecks tr res))"


section \<open>The percentiles stay inside the samples\<close>

lemma percentile_fraction:
  assumes "50 \<le> p" and "p \<le> 99"
  shows "\<exists>q. f64_div (f64_of_int p) (f64_of_int 100) = Fin q \<and> 1 / 2 \<le> q \<and> q \<le> 127 / 128"
proof -
  let ?x = "rat_of_int p / 100"
  have h: "rnd (1 / 2) = 1 / 2" "rnd (127 / 128) = 127 / 128"
    using rnd_dyadic[of 1 1] rnd_dyadic[of 127 7] by simp_all
  have "rnd (1 / 2) \<le> rnd ?x" "rnd ?x \<le> rnd (127 / 128)"
    using assms by (auto intro!: rnd_mono simp: field_simps)
  then have r: "1 / 2 \<le> rnd ?x" "rnd ?x \<le> 127 / 128" using h by simp_all
  then have "rnd ?x < f64_limit" "\<not> rnd ?x \<le> - f64_limit"
    using f64_limit_pos by (simp_all add: f64_limit_def)
  then have "to_f64 ?x = Fin (rnd ?x)" by (simp add: to_f64_def Let_def)
  moreover have "f64_of_int p = Fin (of_int p)" "f64_of_int 100 = Fin 100"
    using to_f64_int[of p] assms by (simp_all add: f64_of_int_def)
  ultimately show ?thesis using r by simp
qed

lemma product_inside:
  assumes "1 / 2 \<le> q" and "q \<le> 127 / 128" and "2 \<le> n" and "n < 2 ^ 44"
  shows "\<exists>r. f64_mul (Fin q) (f64_of_int (int n)) = Fin r \<and> 1 \<le> r \<and> r < of_nat n"
proof -
  have n: "f64_of_int (int n) = Fin (of_nat n)" using to_f64_int[of "int n"] assms by (simp add: f64_of_int_def)
  let ?x = "q * rat_of_nat n"
  have n2: "2 \<le> rat_of_nat n" using assms(3) by (metis of_nat_le_iff of_nat_numeral)
  have "1 / 2 * 2 \<le> ?x" using assms(1) n2 by (intro mult_mono) simp_all
  then have lo: "1 \<le> rnd ?x" using rnd_mono[of 1 ?x] rnd_dyadic[of 1 0] by simp
  have "?x \<le> 127 / 128 * rat_of_nat n" using assms(2) n2 by (intro mult_right_mono) simp_all
  also have "\<dots> = rat_of_int (127 * int n) / 2 ^ 7" by simp
  finally have "rnd ?x \<le> rat_of_int (127 * int n) / 2 ^ 7"
    using rnd_mono[of ?x "rat_of_int (127 * int n) / 2 ^ 7"] rnd_dyadic[of "127 * int n" 7] assms(3,4) by simp
  also have "\<dots> < of_nat n" using n2 by simp
  finally have hi: "rnd ?x < of_nat n" .
  have "rat_of_nat n < 2 ^ 44" using assms(4) by (metis of_nat_less_iff of_nat_numeral of_nat_power)
  then have "rnd ?x < f64_limit" using hi by (simp add: f64_limit_def)
  moreover have "\<not> rnd ?x \<le> - f64_limit" using lo f64_limit_pos by linarith
  ultimately have "to_f64 ?x = Fin (rnd ?x)" by (simp add: to_f64_def Let_def)
  then show ?thesis using n lo hi by simp
qed

text \<open>
  For every percentile from 50 to 99 and every number of samples up to seventeen trillion, the
  elements that the interpolation reads exist: no index is out of range, whatever rounding does to
  the product.
\<close>

theorem percentile_reads_in_bounds:
  assumes "50 \<le> p" and "p \<le> 99" and "0 < n" and "n < 2 ^ 44" and "i \<in> set (percentile_reads n (f64_of_int p))"
  shows "0 \<le> i \<and> i < int n"
proof (cases "n = 1")
  case True
  then show ?thesis using assms(5) by (simp add: percentile_reads_def Let_def)
next
  case False
  then have n2: "2 \<le> n" using assms(3) by simp
  obtain q where q: "f64_div (f64_of_int p) (f64_of_int 100) = Fin q" "1 / 2 \<le> q" "q \<le> 127 / 128"
    using percentile_fraction[OF assms(1,2)] by blast
  obtain r where r: "f64_mul (Fin q) (f64_of_int (int n)) = Fin r" "1 \<le> r" "r < of_nat n"
    using product_inside[OF q(2,3) n2 assms(4)] by blast
  have f: "1 \<le> \<lfloor>r\<rfloor>" "\<lfloor>r\<rfloor> < int n" using r(2,3) by (simp add: le_floor_iff, metis floor_less_iff of_int_of_nat_eq)
  have "rat_of_nat n < 2 ^ 44" using assms(4) by (metis of_nat_less_iff of_nat_numeral of_nat_power)
  then have "r < 2 ^ 63" using r(3) by simp
  then have fl: "f64_to_int (Fin r) = \<lfloor>r\<rfloor>" using f r(2) by (simp add: Let_def)
  then show ?thesis
    using assms(5) f False by (auto simp: percentile_reads_def percentile_index_def q(1) r(1) fl Let_def simp del: f64_to_int.simps split: if_splits)
qed

theorem percentile_reads_in_bounds_witness:
  "\<exists>i. i \<in> set (percentile_reads 250 (f64_of_int 99)) \<and> 0 \<le> i \<and> i < 250"
proof -
  have "percentile_reads 250 (f64_of_int 99) \<noteq> []" by (simp add: percentile_reads_def Let_def)
  then obtain i where "i \<in> set (percentile_reads 250 (f64_of_int 99))" by (meson list.set_sel(1))
  then show ?thesis using percentile_reads_in_bounds[of 99 250 i] by auto
qed

section \<open>What a passing batch shows\<close>

lemma parseJobSummaries_pass:
  assumes "parseJobSummaries kc data = Inr (ss, OutcomePass)"
  shows "ss \<noteq> [] \<and> (\<forall>s \<in> set ss. js_Passed s) \<and> (\<exists>blob. gm_get data ''jobSummary.json'' = Some blob \<and> blob \<noteq> [] \<and> kc_summaries kc blob = Inr ss)"
  using assms by (auto simp: parseJobSummaries_def split: option.splits sum.splits if_splits)

lemma parseJobSummaries_outcome:
  "parseJobSummaries kc data = Inr (ss, native) \<Longrightarrow> native = OutcomePass \<or> native = OutcomeFail"
  by (auto simp: parseJobSummaries_def split: option.splits sum.splits if_splits)

lemma batch_metrics_pass:
  assumes "batch_metrics scenario requested ss rows native = Inr (ms, OutcomePass)"
  shows "native = OutcomePass \<and> (rows = [] \<or> readySnapshotCount rows = requested) \<and>
     count_metric ''snapshot_ready_count'' requested \<in> set ms \<and> count_metric ''snapshot_failed_count'' 0 \<in> set ms \<and>
     (\<exists>s \<in> set ss. isSnapshotJob (js_Name s))"
proof -
  have el: "\<exists>s \<in> set ss. isSnapshotJob (js_Name s)" if "elapsed_loop ss e 0 = Inr x" for e x
    using that by (induction ss e "0::nat" rule: elapsed_loop.induct) (auto split: if_splits)
  from assms obtain e where "snapshotBatchElapsedTime ss = Inr e"
    by (auto simp: batch_metrics_def split: sum.splits)
  then have j: "\<exists>s \<in> set ss. isSnapshotJob (js_Name s)" using el by (auto simp: snapshotBatchElapsedTime_def)
  have "native = OutcomePass \<and> (if rows = [] \<and> native = OutcomePass then requested else readySnapshotCount rows) = requested"
    using assms by (auto simp: batch_metrics_def Let_def split: sum.splits if_splits)
  then show ?thesis
    using assms j by (auto simp: batch_metrics_def Let_def split: sum.splits if_splits)
qed


lemma parse_pass:
  assumes "parseResultsWithScenario kc trID data requested scenario = Inr res" and "res_Native res = OutcomePass"
  obtains ss rows quants batch where "parseJobSummaries kc data = Inr (ss, OutcomePass)" "read_measurements kc data [] [] = Inr (rows, quants)"
    "res_TRID res = trID" "set batch \<subseteq> set (res_Metrics res)" "requested = 0 \<longrightarrow> \<not> ks_AllowZeroSnapshots scenario"
    "requested > 0 \<longrightarrow> batch_metrics scenario requested ss rows OutcomePass = Inr (batch, OutcomePass)"
proof -
  from assms(1) obtain ss native where s: "parseJobSummaries kc data = Inr (ss, native)"
    by (auto simp: parseResultsWithScenario_def split: sum.splits)
  from assms(1) s obtain rows quants where m: "read_measurements kc data [] [] = Inr (rows, quants)"
    by (auto simp: parseResultsWithScenario_def split: sum.splits)
  from assms(1) s m obtain batch native' where
    b: "(if requested > 0 then batch_metrics scenario requested ss rows native else Inr ([], native)) = Inr (batch, native')"
    by (auto simp: parseResultsWithScenario_def split: sum.splits if_splits)
  have r: "res_Native res = (if requested = 0 \<and> ks_AllowZeroSnapshots scenario then OutcomeFail else native')"
    "res_TRID res = trID" "set batch \<subseteq> set (res_Metrics res)"
    using assms(1) s m b by (auto simp: parseResultsWithScenario_def zero_test_result_def Let_def)
  then have z: "requested = 0 \<longrightarrow> \<not> ks_AllowZeroSnapshots scenario" "native' = OutcomePass"
    using assms(2) by (auto split: if_splits)
  have n: "native = OutcomePass"
    using b z(2) batch_metrics_pass[of scenario requested ss rows native batch] by (auto split: if_splits)
  have "requested > 0 \<longrightarrow> batch_metrics scenario requested ss rows OutcomePass = Inr (batch, OutcomePass)"
    using b z(2) n by (auto split: if_splits)
  then show ?thesis by (rule that[OF s[unfolded n] m r(2,3) z(1)])
qed

text \<open>
  A result that passes natively comes from a job summary that lists at least one job, every one
  passed; when snapshots were requested, one of them is a snapshot job, exactly the requested number
  of snapshots was measured ready unless no single snapshot was measured at all, and the result says
  so; and a requirement that may do without snapshots never passes when none were requested.
\<close>

theorem snapshot_pass_sound:
  assumes "parseResultsWithScenario kc trID data requested scenario = Inr res" and "res_Native res = OutcomePass"
  shows "\<exists>ss rows quants blob. gm_get data ''jobSummary.json'' = Some blob \<and> kc_summaries kc blob = Inr ss \<and> ss \<noteq> [] \<and>
    (\<forall>s \<in> set ss. js_Passed s) \<and> read_measurements kc data [] [] = Inr (rows, quants) \<and> res_TRID res = trID \<and>
    (requested > 0 \<longrightarrow> (rows = [] \<or> readySnapshotCount rows = requested) \<and> (\<exists>s \<in> set ss. isSnapshotJob (js_Name s)) \<and>
       count_metric ''snapshot_ready_count'' requested \<in> set (res_Metrics res) \<and>
       count_metric ''snapshot_failed_count'' 0 \<in> set (res_Metrics res)) \<and>
    (requested = 0 \<longrightarrow> \<not> ks_AllowZeroSnapshots scenario)"
proof -
  obtain ss rows quants batch where f: "parseJobSummaries kc data = Inr (ss, OutcomePass)"
    "read_measurements kc data [] [] = Inr (rows, quants)" "res_TRID res = trID" "set batch \<subseteq> set (res_Metrics res)"
    "requested = 0 \<longrightarrow> \<not> ks_AllowZeroSnapshots scenario"
    "requested > 0 \<longrightarrow> batch_metrics scenario requested ss rows OutcomePass = Inr (batch, OutcomePass)"
    by (rule parse_pass[OF assms])
  then have "requested > 0 \<longrightarrow> (rows = [] \<or> readySnapshotCount rows = requested) \<and> (\<exists>s \<in> set ss. isSnapshotJob (js_Name s)) \<and>
       count_metric ''snapshot_ready_count'' requested \<in> set (res_Metrics res) \<and>
       count_metric ''snapshot_failed_count'' 0 \<in> set (res_Metrics res)"
    using batch_metrics_pass by blast
  then show ?thesis using f parseJobSummaries_pass[OF f(1)] by blast
qed

text \<open>One job that passed, without measurements.\<close>

definition one_job :: kb_codec where
  "one_job = \<lparr> kc_summaries = (\<lambda>b. Inr [\<lparr> js_MetricName = [], js_ElapsedTime = Some (Fin 5), js_Passed = True, js_Name = ''vmsnapshot-snapshot'' \<rparr>]),
     kc_quantiles = Inl, kc_latencies = Inl, kc_raw = (\<lambda>ss rows. []), kc_error = (\<lambda>e. e) \<rparr>"

theorem snapshot_pass_sound_witness:
  "\<exists>res. parseResults one_job ''TR-VIRT-010'' [(''jobSummary.json'', ''{}'')] 2 = Inr res \<and>
     count_metric ''snapshot_failed_count'' 0 \<in> set (res_Metrics res)"
proof -
  have e: "snapshotBatchElapsedTime [\<lparr> js_MetricName = [], js_ElapsedTime = Some (Fin 5), js_Passed = True, js_Name = ''vmsnapshot-snapshot'' \<rparr>] = Inr (Fin 5)"
    by (simp add: snapshotBatchElapsedTime_def isSnapshotJob_def)
  have s: "parseJobSummaries one_job [(''jobSummary.json'', ''{}'')] =
      Inr ([\<lparr> js_MetricName = [], js_ElapsedTime = Some (Fin 5), js_Passed = True, js_Name = ''vmsnapshot-snapshot'' \<rparr>], OutcomePass)"
    by (simp add: parseJobSummaries_def one_job_def gm_get_Cons)
  have m: "read_measurements one_job [(''jobSummary.json'', ''{}'')] [] [] = Inr ([], [])"
    by (simp add: has_prefix_def)
  have "\<exists>res. parseResultsWithScenario one_job ''TR-VIRT-010'' [(''jobSummary.json'', ''{}'')] 2 (scenarioFor ''TR-VIRT-010'') = Inr res \<and>
      res_Native res = OutcomePass"
    by (simp add: parseResultsWithScenario_def s m batch_metrics_def e Let_def scenarioFor_def snapshotScenarios_def gm_get_Cons zero_test_result_def
        del: read_measurements.simps)
  then obtain res where r: "parseResultsWithScenario one_job ''TR-VIRT-010'' [(''jobSummary.json'', ''{}'')] 2 (scenarioFor ''TR-VIRT-010'') = Inr res"
    "res_Native res = OutcomePass" by blast
  show ?thesis using snapshot_pass_sound[OF r] r(1) by (auto simp: parseResults_def)
qed

end
