(* ===== verification/Cluster_Check.thy ===== *)
theory Cluster_Check
  imports Core_Types Go_Strings "HOL-Library.State_Monad"
begin

text \<open>
  \<open>internal/clustercheck\<close>: the client on the path (clustercheck.go), the resolution of the snapshot
  class (snapshot.go) and the wait for a storage profile (storageprofile.go). Commands run in the
  state monad of a world \<open>'w\<close>; what a command prints, its errors and its time limits are the
  cluster's, and the JSON decoders are arguments.
\<close>

section \<open>The client\<close>

record cmd_result =
  cr_Stdout :: string
  cr_Stderr :: string
  cr_Combined :: string
  cr_Error :: "string option"

text \<open>\<open>exec.LookPath\<close>, and running a client with a standard input and arguments.\<close>

record 'w cluster =
  cl_LookPath :: "string \<Rightarrow> string + string"
  cl_Exec :: "string \<Rightarrow> string option \<Rightarrow> string list \<Rightarrow> ('w, cmd_result) state"

definition on_path :: "'w cluster \<Rightarrow> string \<Rightarrow> bool" where
  "on_path cl bin = (case cl_LookPath cl bin of Inl _ \<Rightarrow> False | Inr _ \<Rightarrow> True)"

definition KubeCLI :: "'w cluster \<Rightarrow> string" where
  "KubeCLI cl = (if on_path cl ''oc'' then ''oc'' else if on_path cl ''kubectl'' then ''kubectl'' else [])"

text \<open>The path to mount into a container; symbolic links and the absolute path are the file system's.\<close>

fun first_on_path :: "'w cluster \<Rightarrow> string list \<Rightarrow> string option" where
  "first_on_path cl [] = None"
| "first_on_path cl (b # bs) = (case cl_LookPath cl b of Inl _ \<Rightarrow> first_on_path cl bs | Inr path \<Rightarrow> Some path)"

definition ResolveKubeCLIPath ::
  "'w cluster \<Rightarrow> (string \<Rightarrow> string + string) \<Rightarrow> (string \<Rightarrow> string + string) \<Rightarrow> string + string" where
  "ResolveKubeCLIPath cl evalSymlinks absolute =
     (case first_on_path cl [''oc'', ''kubectl''] of
        None \<Rightarrow> Inl ''clustercheck: need kubectl or oc on PATH''
      | Some path \<Rightarrow> absolute (case evalSymlinks path of Inl _ \<Rightarrow> path | Inr resolved \<Rightarrow> resolved))"

definition info :: "string \<Rightarrow> finding" where "info msg = \<lparr> fd_Level = ''info'', fd_Message = msg \<rparr>"
definition error_finding :: "string \<Rightarrow> finding" where "error_finding msg = \<lparr> fd_Level = ''error'', fd_Message = msg \<rparr>"
definition warn_finding :: "string \<Rightarrow> finding" where "warn_finding msg = \<lparr> fd_Level = ''warn'', fd_Message = msg \<rparr>"
definition skip_finding :: "string \<Rightarrow> finding" where "skip_finding msg = \<lparr> fd_Level = ''skip'', fd_Message = msg \<rparr>"

text \<open>\<open>Capability\<close>: a named check of the cluster.\<close>

record 'w capability =
  cp_Name :: string
  cp_Check :: "string \<Rightarrow> ('w, finding) state"

definition failed_command :: "string \<Rightarrow> cmd_result \<Rightarrow> string \<Rightarrow> string" where
  "failed_command what r err = what @ err @ '': '' @ trim_space (cr_Combined r)"

definition CRD :: "'w cluster \<Rightarrow> string \<Rightarrow> 'w capability" where
  "CRD cl crdName =
     \<lparr> cp_Name = crdName,
       cp_Check = (\<lambda>cli. do {
         r \<leftarrow> cl_Exec cl cli None [''get'', ''crd'', crdName, ''-o'', ''name''];
         State_Monad.return (case cr_Error r of
             Some err \<Rightarrow> error_finding (failed_command (''CRD '' @ crdName @ '' not found: '') r err)
           | None \<Rightarrow> info (''CRD '' @ crdName @ '' present''))
       }) \<rparr>"

definition CDI :: "'w cluster \<Rightarrow> 'w capability" where "CDI cl = CRD cl ''datavolumes.cdi.kubevirt.io''"
definition KubeVirt :: "'w cluster \<Rightarrow> 'w capability" where "KubeVirt cl = CRD cl ''kubevirts.kubevirt.io''"

definition StorageClassExists :: "'w cluster \<Rightarrow> string \<Rightarrow> string \<Rightarrow> ('w, finding) state" where
  "StorageClassExists cl cli name = do {
     r \<leftarrow> cl_Exec cl cli None [''get'', ''storageclass'', name, ''-o'', ''name''];
     State_Monad.return (case cr_Error r of
         Some err \<Rightarrow> error_finding (failed_command (''storage class '' @ go_quote name @ '' lookup failed: '') r err)
       | None \<Rightarrow> info (''storage class '' @ go_quote name @ '' present''))
   }"

fun check_capabilities :: "string \<Rightarrow> 'w capability list \<Rightarrow> ('w, finding list) state" where
  "check_capabilities cli [] = State_Monad.return []"
| "check_capabilities cli (c # cs) = do {
     f \<leftarrow> (if cli = [] then State_Monad.return (skip_finding (cp_Name c @ '': neither kubectl nor oc found on PATH''))
          else cp_Check c cli);
     fs \<leftarrow> check_capabilities cli cs;
     State_Monad.return (f # fs)
   }"

definition cluster_Preflight :: "'w cluster \<Rightarrow> 'w capability list \<Rightarrow> string \<Rightarrow> ('w, finding list) state" where
  "cluster_Preflight cl caps storageClass = do {
     let cli = KubeCLI cl;
     fs \<leftarrow> check_capabilities cli caps;
     f \<leftarrow> (if storageClass = [] then
            State_Monad.return (skip_finding ''storage class existence: no storage_class configured'')
          else if cli = [] then
            State_Monad.return (skip_finding (''storage class '' @ go_quote storageClass @ '' existence: neither kubectl nor oc found on PATH''))
          else StorageClassExists cl cli storageClass);
     State_Monad.return (fs @ [f])
   }"

text \<open>The registered source kinds, group and kind, as the decoder yields them.\<close>

definition HasVolumePopulator ::
  "'w cluster \<Rightarrow> (string \<Rightarrow> string + (string \<times> string) list) \<Rightarrow> string \<Rightarrow> string \<Rightarrow> string \<Rightarrow> ('w, string + bool) state" where
  "HasVolumePopulator cl decode cli grp kind = do {
     r \<leftarrow> cl_Exec cl cli None [''get'', ''volumepopulator'', ''-o'', ''json''];
     State_Monad.return (case cr_Error r of
         Some err \<Rightarrow>
           (let message = to_lower (cr_Combined r) in
            if contains message (''the server doesn'' @ [CHR 0x27] @ ''t have a resource type'')
               \<or> contains message ''not found''
            then Inr False
            else Inl (failed_command ''get volume populators: '' r err))
       | None \<Rightarrow>
           (case decode (cr_Combined r) of
              Inl err \<Rightarrow> Inl (''decode volume populators: '' @ err)
            | Inr items \<Rightarrow> Inr ((grp, kind) \<in> set items)))
   }"

section \<open>Snapshot classes\<close>

record snapshot_selection =
  sn_StorageClass :: string
  sn_SnapshotClass :: string
  sn_Kubeconfig :: string

definition SnapshotCommand ::
  "'w cluster \<Rightarrow> string \<Rightarrow> string option \<Rightarrow> string list \<Rightarrow> ('w, string + string) state" where
  "SnapshotCommand cl kubeconfig input args =
     (let cli = KubeCLI cl;
          full = (if kubeconfig \<noteq> [] then [''--kubeconfig'', kubeconfig] @ args else args)
      in if cli = [] then State_Monad.return (Inl ''snapshot class: neither kubectl nor oc found on PATH'')
         else do {
           r \<leftarrow> cl_Exec cl cli input full;
           State_Monad.return (case cr_Error r of
               Some err \<Rightarrow> Inl (join_with '' '' full @ '': '' @ err @ '': '' @ trim_space (cr_Stderr r))
             | None \<Rightarrow> Inr (cr_Stdout r))
         })"

definition snapshotJSON ::
  "'w cluster \<Rightarrow> string \<Rightarrow> (string \<Rightarrow> string + 'a) \<Rightarrow> string list \<Rightarrow> ('w, string + 'a) state" where
  "snapshotJSON cl kubeconfig decode args = do {
     out \<leftarrow> SnapshotCommand cl kubeconfig None args;
     State_Monad.return (case out of
         Inl err \<Rightarrow> Inl err
       | Inr data \<Rightarrow> (case decode data of
           Inl err \<Rightarrow> Inl (''decode '' @ join_with '' '' args @ '': '' @ err)
         | Inr v \<Rightarrow> Inr v))
   }"

record snapshot_class =
  vc_Name :: string
  vc_Annotations :: "(string, string) gomap"
  vc_Driver :: string

record claim_property_set =
  cs_VolumeMode :: string
  cs_AccessModes :: "string list"

record storage_profile =
  sf_SnapshotClass :: string
  sf_ClaimPropertySets :: "claim_property_set list"

text \<open>The decoders: the provisioner of a storage class, a profile, one class and a list of classes.\<close>

record snapshot_codec =
  sx_provisioner :: "string \<Rightarrow> string + string"
  sx_profile :: "string \<Rightarrow> string + storage_profile"
  sx_class :: "string \<Rightarrow> string + snapshot_class"
  sx_classes :: "string \<Rightarrow> string + snapshot_class list"

definition gm_str :: "(string, string) gomap \<Rightarrow> string \<Rightarrow> string" where
  "gm_str m k = (case gm_get m k of Some v \<Rightarrow> v | None \<Rightarrow> [])"

definition is_default_class :: "snapshot_class \<Rightarrow> bool" where
  "is_default_class vsc = (gm_str (vc_Annotations vsc) ''snapshot.storage.kubernetes.io/is-default-class'' = ''true'')"

text \<open>The choice among the listed classes.\<close>

definition select_class :: "string \<Rightarrow> string \<Rightarrow> bool \<Rightarrow> snapshot_class list \<Rightarrow> string + string" where
  "select_class storageClass provisioner vmSnapshot items =
     (let matches = filter (\<lambda>v. vc_Driver v = provisioner \<and> provisioner \<noteq> []) items;
          defaults = filter is_default_class matches
      in if length defaults = 1 then Inr (vc_Name (hd defaults))
         else if vmSnapshot \<and> length matches = 1 then Inr (vc_Name (hd matches))
         else Inl (''storage class '' @ go_quote storageClass @ '': cannot resolve snapshot class ('' @
                   show_nat (length matches) @ '' matching classes, '' @ show_nat (length defaults) @
                   '' defaults); configure backend snapshot_class''))"

text \<open>The class named by the profile of the storage class; none when there is no profile.\<close>

definition profile_class :: "'w cluster \<Rightarrow> snapshot_codec \<Rightarrow> string \<Rightarrow> string \<Rightarrow> ('w, string + string) state" where
  "profile_class cl sx kubeconfig storageClass = do {
     out \<leftarrow> SnapshotCommand cl kubeconfig None [''get'', ''storageprofile'', storageClass, ''--ignore-not-found'', ''-o'', ''json''];
     State_Monad.return (case out of
         Inl err \<Rightarrow> Inl err
       | Inr data \<Rightarrow>
           if trim_space data = [] then Inr []
           else (case sx_profile sx data of
                   Inl err \<Rightarrow> Inl (''decode storage profile: '' @ err)
                 | Inr p \<Rightarrow> Inr (sf_SnapshotClass p)))
   }"

definition named_class ::
  "'w cluster \<Rightarrow> snapshot_codec \<Rightarrow> string \<Rightarrow> string \<Rightarrow> string \<Rightarrow> string \<Rightarrow> ('w, string + string) state" where
  "named_class cl sx kubeconfig storageClass provisioner name = do {
     r \<leftarrow> snapshotJSON cl kubeconfig (sx_class sx) [''get'', ''volumesnapshotclass'', name, ''-o'', ''json''];
     State_Monad.return (case r of
         Inl err \<Rightarrow> Inl (''snapshot class '' @ go_quote name @ '' lookup failed: '' @ err)
       | Inr vsc \<Rightarrow>
           if provisioner = [] \<or> vc_Driver vsc \<noteq> provisioner then
             Inl (''snapshot class '' @ go_quote name @ '' driver '' @ go_quote (vc_Driver vsc) @
                  '' does not match storage class '' @ go_quote storageClass @ '' provisioner '' @ go_quote provisioner)
           else Inr name)
   }"

definition listed_class ::
  "'w cluster \<Rightarrow> snapshot_codec \<Rightarrow> string \<Rightarrow> string \<Rightarrow> string \<Rightarrow> bool \<Rightarrow> ('w, string + string) state" where
  "listed_class cl sx kubeconfig storageClass provisioner vmSnapshot = do {
     r \<leftarrow> snapshotJSON cl kubeconfig (sx_classes sx) [''get'', ''volumesnapshotclass'', ''-o'', ''json''];
     State_Monad.return (case r of
         Inl err \<Rightarrow> Inl err
       | Inr items \<Rightarrow> select_class storageClass provisioner vmSnapshot items)
   }"

text \<open>The class once the provisioner is known: the configured one, that of the profile, or a listed one.\<close>

definition resolve_class ::
  "'w cluster \<Rightarrow> snapshot_codec \<Rightarrow> string \<Rightarrow> string \<Rightarrow> string \<Rightarrow> bool \<Rightarrow> string \<Rightarrow> ('w, string + string) state" where
  "resolve_class cl sx storageClass configured kubeconfig vmSnapshot provisioner = do {
     n \<leftarrow> (if configured = [] \<and> vmSnapshot then profile_class cl sx kubeconfig storageClass
          else State_Monad.return (Inr configured));
     case n of
       Inl err \<Rightarrow> State_Monad.return (Inl err)
     | Inr name \<Rightarrow>
         if name \<noteq> [] then named_class cl sx kubeconfig storageClass provisioner name
         else listed_class cl sx kubeconfig storageClass provisioner vmSnapshot
   }"

definition ResolveSnapshot ::
  "'w cluster \<Rightarrow> snapshot_codec \<Rightarrow> string \<Rightarrow> string \<Rightarrow> string \<Rightarrow> bool \<Rightarrow> ('w, string + snapshot_selection) state" where
  "ResolveSnapshot cl sx storageClass configured kubeconfig vmSnapshot =
     (if storageClass = [] then State_Monad.return (Inl ''snapshot class: storage_class is required'')
      else do {
        p \<leftarrow> snapshotJSON cl kubeconfig (sx_provisioner sx) [''get'', ''storageclass'', storageClass, ''-o'', ''json''];
        c \<leftarrow> (case p of
               Inl err \<Rightarrow> State_Monad.return (Inl err)
             | Inr provisioner \<Rightarrow> resolve_class cl sx storageClass configured kubeconfig vmSnapshot provisioner);
        State_Monad.return (case c of
            Inl err \<Rightarrow> Inl err
          | Inr cls \<Rightarrow> Inr \<lparr> sn_StorageClass = storageClass, sn_SnapshotClass = cls, sn_Kubeconfig = kubeconfig \<rparr>)
      })"

definition selection_Finding :: "snapshot_selection \<Rightarrow> finding" where
  "selection_Finding s = info (''storage_class='' @ sn_StorageClass s @ '' snapshot_class='' @ sn_SnapshotClass s)"

definition WaitForCreateSupported :: "'w cluster \<Rightarrow> string \<Rightarrow> ('w, finding) state" where
  "WaitForCreateSupported cl kubeconfig = do {
     r \<leftarrow> SnapshotCommand cl kubeconfig None
            [''wait'', ''--for=create'', ''storageprofile/storage-cert-preflight-probe'', ''--timeout=0s''];
     let quoted = (\<lambda>s. [CHR 0x22] @ s @ [CHR 0x22]);
     State_Monad.return (case r of
         Inl err \<Rightarrow>
           if contains err (''unrecognized condition: '' @ quoted ''create'') then
             error_finding (''kubectl/oc is too old for snapshot storage preparation: it does not support '' @
               quoted ''wait --for=create'' @ '' (kubectl 1.31+ / a matching oc). Provisioning would fail partway through the run.'')
           else info (''client supports '' @ quoted ''wait --for=create'')
       | Inr _ \<Rightarrow> info (''client supports '' @ quoted ''wait --for=create''))
   }"

definition CleanupVMStorage :: "'w cluster \<Rightarrow> snapshot_selection \<Rightarrow> string \<Rightarrow> ('w, string option) state" where
  "CleanupVMStorage cl s created =
     (if created = [] then State_Monad.return None
      else do {
        r \<leftarrow> SnapshotCommand cl (sn_Kubeconfig s) None
               [''delete'', ''storageclass'', created, ''--ignore-not-found'', ''--wait=false''];
        State_Monad.return (case r of Inl err \<Rightarrow> Some err | Inr _ \<Rightarrow> None)
      })"


section \<open>Waiting for a storage profile\<close>

text \<open>One element of \<open>claimPropertySets\<close>, then the whole profile: what is still missing.\<close>

definition set_issues :: "nat \<Rightarrow> claim_property_set \<Rightarrow> string list" where
  "set_issues i c =
     (if cs_VolumeMode c = [] then [''missing status.claimPropertySets['' @ show_nat i @ ''].volumeMode''] else []) @
     (if cs_AccessModes c = [] then [''missing status.claimPropertySets['' @ show_nat i @ ''].accessModes''] else []) @
     (if [] \<in> set (cs_AccessModes c) then [''empty status.claimPropertySets['' @ show_nat i @ ''].accessModes entry''] else [])"

definition profile_issues :: "string \<Rightarrow> storage_profile \<Rightarrow> string list" where
  "profile_issues wanted p =
     (if sf_SnapshotClass p \<noteq> wanted then
        [''status.snapshotClass: expected '' @ go_quote wanted @ '', observed '' @ go_quote (sf_SnapshotClass p)] else []) @
     (if sf_ClaimPropertySets p = [] then [''missing status.claimPropertySets with volumeMode and accessModes''] else []) @
     concat (map (\<lambda>(i, c). set_issues i c) (enumerate 0 (sf_ClaimPropertySets p)))"

text \<open>The context of the wait: its error, and waiting for the next tick or the end of the context.\<close>

record 'w wait_env =
  wt_ctxErr :: "'w \<Rightarrow> string option"
  wt_next :: "('w, bool) state"

definition not_ready :: "'w wait_env \<Rightarrow> snapshot_selection \<Rightarrow> string \<Rightarrow> string list \<Rightarrow> 'w \<Rightarrow> string" where
  "not_ready we s name issues w =
     ''StorageProfile '' @ go_quote name @ '' (source StorageClass '' @ go_quote (sn_StorageClass s) @ '') is not ready: '' @
     join_with ''; '' issues @ ''; check the source StorageProfile'' @ [CHR 0x27] @ ''s claimPropertySets and CDI reconciliation: '' @
     (case wt_ctxErr we w of Some e \<Rightarrow> e | None \<Rightarrow> [])"

text \<open>
  One poll: the result, or the issues to wait on. The loop repeats it until the context ends; a
  loop that never returns is \<open>None\<close>.
\<close>

definition poll_profile ::
  "'w cluster \<Rightarrow> snapshot_codec \<Rightarrow> 'w wait_env \<Rightarrow> snapshot_selection \<Rightarrow> string \<Rightarrow> string list \<Rightarrow> 'w \<Rightarrow> (string option + string list) \<times> 'w" where
  "poll_profile cl sx we s name issues w =
     (case run_state (SnapshotCommand cl (sn_Kubeconfig s) None [''get'', ''storageprofile'', name, ''-o'', ''json'']) w of
        (Inl err, w') \<Rightarrow>
          (Inl (Some (if wt_ctxErr we w' \<noteq> None then not_ready we s name issues w'
                      else ''read StorageProfile '' @ go_quote name @ '': '' @ err)), w')
      | (Inr data, w') \<Rightarrow>
          (case sx_profile sx data of
             Inl err \<Rightarrow> (Inl (Some (''decode StorageProfile '' @ go_quote name @ '': '' @ err)), w')
           | Inr p \<Rightarrow>
               (let found = profile_issues (sn_SnapshotClass s) p in
                if found = [] then (Inl None, w')
                else (case run_state (wt_next we) w' of
                        (True, w2) \<Rightarrow> (Inl (Some (not_ready we s name found w2)), w2)
                      | (False, w2) \<Rightarrow> (Inr found, w2)))))"

partial_function (option) wait_profile ::
  "'w cluster \<Rightarrow> snapshot_codec \<Rightarrow> 'w wait_env \<Rightarrow> snapshot_selection \<Rightarrow> string \<Rightarrow> string list \<Rightarrow> 'w \<Rightarrow> (string option \<times> 'w) option" where
  "wait_profile cl sx we s name issues w =
     (case poll_profile cl sx we s name issues w of
        (Inl r, w') \<Rightarrow> Some (r, w')
      | (Inr found, w') \<Rightarrow> wait_profile cl sx we s name found w')"

definition WaitForStorageProfile ::
  "'w cluster \<Rightarrow> snapshot_codec \<Rightarrow> 'w wait_env \<Rightarrow> snapshot_selection \<Rightarrow> string \<Rightarrow> 'w \<Rightarrow> (string option \<times> 'w) option" where
  "WaitForStorageProfile cl sx we s name w =
     wait_profile cl sx we s name [''effective status has not been observed''] w"


section \<open>Reasoning about commands\<close>

text \<open>The worlds that commands of the client can lead to from a start.\<close>

inductive cluster_steps :: "'w cluster \<Rightarrow> 'w \<Rightarrow> 'w \<Rightarrow> bool" for cl w0 where
  start: "cluster_steps cl w0 w0"
| exec: "cluster_steps cl w0 w \<Longrightarrow> run_state (cl_Exec cl cli input args) w = (r, w') \<Longrightarrow> cluster_steps cl w0 w'"

text \<open>
  From every world reached from \<open>w0\<close>, \<open>m\<close> leads to one reached from \<open>w0\<close>, with a result that
  satisfies \<open>P\<close>; the rules follow the structure of the program.
\<close>

definition yields :: "'w cluster \<Rightarrow> 'w \<Rightarrow> ('w, 'a) state \<Rightarrow> ('a \<Rightarrow> bool) \<Rightarrow> bool" where
  "yields cl w0 m P =
     (\<forall>w x w'. cluster_steps cl w0 w \<longrightarrow> run_state m w = (x, w') \<longrightarrow> cluster_steps cl w0 w' \<and> P x)"

named_theorems yields_rules \<open>one step of a program, by its outermost construct\<close>

lemma yields_return [yields_rules]: "P x \<Longrightarrow> yields cl w0 (State_Monad.return x) P"
  by (simp add: yields_def)

lemma yields_bind:
  assumes "yields cl w0 m Q" and "\<And>x. Q x \<Longrightarrow> yields cl w0 (f x) P"
  shows "yields cl w0 (State_Monad.bind m f) P"
  unfolding yields_def
proof (intro allI impI)
  fix w x w'
  assume "cluster_steps cl w0 w" and "run_state (State_Monad.bind m f) w = (x, w')"
  moreover obtain y w1 where "run_state m w = (y, w1)" by fastforce
  ultimately have "run_state (f y) w1 = (x, w')" "cluster_steps cl w0 w1 \<and> Q y"
    using assms(1) by (auto simp: yields_def)
  then show "cluster_steps cl w0 w' \<and> P x" using assms(2)[of y] unfolding yields_def by blast
qed

lemma yields_weaken: "yields cl w0 m Q \<Longrightarrow> (\<And>x. Q x \<Longrightarrow> P x) \<Longrightarrow> yields cl w0 m P"
  unfolding yields_def by blast

lemma yields_exec: "yields cl w0 (cl_Exec cl cli input args) (\<lambda>_. True)"
  unfolding yields_def using cluster_steps.exec by fast

lemma yields_start: "yields cl w m P \<Longrightarrow> run_state m w = (x, w') \<Longrightarrow> P x \<and> cluster_steps cl w w'"
  using cluster_steps.start[of cl w] by (simp add: yields_def)

lemma yields_if [yields_rules]: "(b \<Longrightarrow> yields cl w0 m P) \<Longrightarrow> (\<not> b \<Longrightarrow> yields cl w0 n P) \<Longrightarrow> yields cl w0 (if b then m else n) P"
  by simp

lemma yields_sum [yields_rules]:
  "(\<And>a. x = Inl a \<Longrightarrow> yields cl w0 (f a) P) \<Longrightarrow> (\<And>b. x = Inr b \<Longrightarrow> yields cl w0 (g b) P) \<Longrightarrow>
     yields cl w0 (case x of Inl a \<Rightarrow> f a | Inr b \<Rightarrow> g b) P"
  by (cases x) simp_all

lemma yields_option [yields_rules]:
  "(x = None \<Longrightarrow> yields cl w0 m P) \<Longrightarrow> (\<And>b. x = Some b \<Longrightarrow> yields cl w0 (g b) P) \<Longrightarrow>
     yields cl w0 (case x of None \<Rightarrow> m | Some b \<Rightarrow> g b) P"
  by (cases x) simp_all

lemma yields_pair [yields_rules]: "(\<And>a b. x = (a, b) \<Longrightarrow> yields cl w0 (f a b) P) \<Longrightarrow> yields cl w0 (case x of (a, b) \<Rightarrow> f a b) P"
  by (cases x) simp

text \<open>\<open>data\<close> is what the client printed for these arguments, at a world reached from \<open>w0\<close>.\<close>

definition answered :: "'w cluster \<Rightarrow> 'w \<Rightarrow> string \<Rightarrow> string list \<Rightarrow> string \<Rightarrow> bool" where
  "answered cl w0 kubeconfig args data =
     (\<exists>w w'. cluster_steps cl w0 w \<and> run_state (SnapshotCommand cl kubeconfig None args) w = (Inr data, w'))"

lemma yields_command: "yields cl w0 (SnapshotCommand cl kc input args) (\<lambda>_. True)"
proof (cases "KubeCLI cl = []")
  case True
  then show ?thesis unfolding SnapshotCommand_def Let_def by (simp add: yields_return)
next
  case False
  show ?thesis unfolding SnapshotCommand_def Let_def if_not_P[OF False]
    by (rule yields_bind[OF yields_exec]) (rule yields_return, rule TrueI)
qed

lemma yields_read: "yields cl w0 (SnapshotCommand cl kc None args) (\<lambda>r. \<forall>data. r = Inr data \<longrightarrow> answered cl w0 kc args data)"
  using yields_command[of cl w0 kc None args] unfolding yields_def answered_def by blast

lemma yields_snapshotJSON:
  "yields cl w0 (snapshotJSON cl kc decode args) (\<lambda>r. \<forall>v. r = Inr v \<longrightarrow> (\<exists>data. answered cl w0 kc args data \<and> decode data = Inr v))"
  unfolding snapshotJSON_def
  by (rule yields_bind[OF yields_read]) (auto intro!: yields_return split: sum.splits)

section \<open>What a resolved class rests on\<close>

lemma yields_profile_class: "yields cl w0 (profile_class cl sx kc sc) (\<lambda>_. True)"
  unfolding profile_class_def by (rule yields_bind[OF yields_command], rule yields_return, rule TrueI)

definition has_driver :: "'w cluster \<Rightarrow> 'w \<Rightarrow> snapshot_codec \<Rightarrow> string \<Rightarrow> string \<Rightarrow> string \<Rightarrow> bool" where
  "has_driver cl w0 sx kc name prov =
     (\<exists>data vsc. answered cl w0 kc [''get'', ''volumesnapshotclass'', name, ''-o'', ''json''] data \<and>
        sx_class sx data = Inr vsc \<and> vc_Driver vsc = prov)"

definition listed_driver :: "'w cluster \<Rightarrow> 'w \<Rightarrow> snapshot_codec \<Rightarrow> string \<Rightarrow> string \<Rightarrow> string \<Rightarrow> bool" where
  "listed_driver cl w0 sx kc name prov =
     (\<exists>data items v. answered cl w0 kc [''get'', ''volumesnapshotclass'', ''-o'', ''json''] data \<and> sx_classes sx data = Inr items \<and>
        v \<in> set items \<and> vc_Name v = name \<and> vc_Driver v = prov \<and>
        (\<forall>v' \<in> set items. vc_Driver v' = prov \<and> is_default_class v' \<longrightarrow> v' = v))"

lemma yields_named_class:
  "yields cl w0 (named_class cl sx kc sc prov n) (\<lambda>r. \<forall>c. r = Inr c \<longrightarrow> c = n \<and> prov \<noteq> [] \<and> has_driver cl w0 sx kc n prov)"
  unfolding named_class_def has_driver_def
  by (rule yields_bind[OF yields_snapshotJSON]) (rule yields_return, auto split: sum.splits if_splits, blast)

lemma select_class_Inr:
  assumes "select_class sc prov vm items = Inr c"
  shows "\<exists>v \<in> set items. vc_Name v = c \<and> vc_Driver v = prov \<and> prov \<noteq> [] \<and>
     (\<forall>v' \<in> set items. vc_Driver v' = prov \<and> is_default_class v' \<longrightarrow> v' = v)"
proof -
  let ?m = "filter (\<lambda>v. vc_Driver v = prov \<and> prov \<noteq> []) items"
  let ?d = "filter is_default_class ?m"
  have one: "\<exists>x. ys = [x]" if "length ys = 1" for ys :: "snapshot_class list"
    using that by (cases ys) auto
  consider (default) v where "?d = [v]" "c = vc_Name v" | (sole) v where "?m = [v]" "c = vc_Name v"
  proof (cases "length ?d = 1")
    case True
    then obtain v where "?d = [v]" using one by blast
    then show ?thesis using that(1)[of v] assms by (simp add: select_class_def Let_def)
  next
    case False
    then have m: "length ?m = 1" using assms by (auto simp: select_class_def Let_def simp del: filter_filter split: if_splits)
    then obtain v where v: "?m = [v]" using one by blast
    have "vm" using False assms by (auto simp: select_class_def Let_def simp del: filter_filter split: if_splits)
    then have "c = vc_Name v" using False assms v m unfolding select_class_def Let_def by simp
    then show ?thesis using that(2) v by blast
  qed
  then show ?thesis
  proof cases
    case default
    then have "set ?d = {v}" by simp
    then show ?thesis using default(2) by auto
  next
    case sole
    then have "set ?m = {v}" by simp
    then show ?thesis using sole(2) by auto
  qed
qed

lemma yields_listed_class:
  "yields cl w0 (listed_class cl sx kc sc prov vm) (\<lambda>r. \<forall>c. r = Inr c \<longrightarrow> prov \<noteq> [] \<and> listed_driver cl w0 sx kc c prov)"
  unfolding listed_class_def listed_driver_def
  by (rule yields_bind[OF yields_snapshotJSON])
    (rule yields_return, auto split: sum.splits dest!: select_class_Inr, blast+)

lemma yields_resolve_class:
  "yields cl w0 (resolve_class cl sx sc configured kc vm prov) (\<lambda>r. \<forall>c. r = Inr c \<longrightarrow>
     prov \<noteq> [] \<and> (configured \<noteq> [] \<longrightarrow> c = configured) \<and> (has_driver cl w0 sx kc c prov \<or> listed_driver cl w0 sx kc c prov))"
proof -
  have name: "yields cl w0 (if configured = [] \<and> vm then profile_class cl sx kc sc else State_Monad.return (Inr configured))
      (\<lambda>r. configured \<noteq> [] \<longrightarrow> r = Inr configured)"
    by (intro yields_if yields_weaken[OF yields_profile_class] yields_return) auto
  have cls: "yields cl w0 (if name \<noteq> [] then named_class cl sx kc sc prov name else listed_class cl sx kc sc prov vm)
      (\<lambda>r. \<forall>c. r = Inr c \<longrightarrow> prov \<noteq> [] \<and> (name \<noteq> [] \<longrightarrow> c = name) \<and> (has_driver cl w0 sx kc c prov \<or> listed_driver cl w0 sx kc c prov))" for name
    by (intro yields_if yields_weaken[OF yields_named_class] yields_weaken[OF yields_listed_class]) auto
  show ?thesis
    unfolding resolve_class_def
  proof (rule yields_bind[OF name])
    fix n :: "string + string"
    assume n: "configured \<noteq> [] \<longrightarrow> n = Inr configured"
    show "yields cl w0 (case n of Inl err \<Rightarrow> State_Monad.return (Inl err) | Inr name \<Rightarrow>
           if name \<noteq> [] then named_class cl sx kc sc prov name else listed_class cl sx kc sc prov vm)
         (\<lambda>r. \<forall>c. r = Inr c \<longrightarrow> prov \<noteq> [] \<and> (configured \<noteq> [] \<longrightarrow> c = configured) \<and>
           (has_driver cl w0 sx kc c prov \<or> listed_driver cl w0 sx kc c prov))"
    proof (cases n)
      case (Inl e)
      then show ?thesis by (simp add: yields_return)
    next
      case (Inr name)
      show ?thesis unfolding Inr sum.case by (rule yields_weaken[OF cls]) (use n Inr in auto)
    qed
  qed
qed

lemma yields_ResolveSnapshot:
  "yields cl w0 (ResolveSnapshot cl sx sc configured kc vm) (\<lambda>r. \<forall>s. r = Inr s \<longrightarrow>
     (\<exists>pdata prov. answered cl w0 kc [''get'', ''storageclass'', sc, ''-o'', ''json''] pdata \<and> sx_provisioner sx pdata = Inr prov \<and>
       prov \<noteq> [] \<and> sc \<noteq> [] \<and> sn_StorageClass s = sc \<and> sn_Kubeconfig s = kc \<and> (configured \<noteq> [] \<longrightarrow> sn_SnapshotClass s = configured) \<and>
       (has_driver cl w0 sx kc (sn_SnapshotClass s) prov \<or> listed_driver cl w0 sx kc (sn_SnapshotClass s) prov)))"
proof (cases "sc = []")
  case True
  then show ?thesis by (simp add: ResolveSnapshot_def yields_return)
next
  case False
  let ?prov = "\<lambda>prov. \<exists>pdata. answered cl w0 kc [''get'', ''storageclass'', sc, ''-o'', ''json''] pdata \<and> sx_provisioner sx pdata = Inr prov"
  have cls: "yields cl w0 (case p of Inl err \<Rightarrow> State_Monad.return (Inl err) | Inr provisioner \<Rightarrow> resolve_class cl sx sc configured kc vm provisioner)
      (\<lambda>r. \<forall>c. r = Inr c \<longrightarrow> (\<exists>prov. ?prov prov \<and> prov \<noteq> [] \<and> (configured \<noteq> [] \<longrightarrow> c = configured) \<and>
          (has_driver cl w0 sx kc c prov \<or> listed_driver cl w0 sx kc c prov)))"
    if "\<forall>v. p = Inr v \<longrightarrow> ?prov v" for p
  proof (cases p)
    case (Inl e)
    then show ?thesis by (simp add: yields_return)
  next
    case (Inr prov)
    show ?thesis unfolding Inr sum.case by (rule yields_weaken[OF yields_resolve_class]) (use that Inr in blast)
  qed
  show ?thesis
    unfolding ResolveSnapshot_def if_not_P[OF False]
    by (rule yields_bind[OF yields_snapshotJSON], rule yields_bind[OF cls], assumption, rule yields_return)
      (use False in \<open>(clarsimp split: sum.splits); blast\<close>)
qed

text \<open>
  A resolved snapshot class has a driver that the cluster reported equal to the provisioner of
  the storage class: a configured class is the result itself, without one the class of the storage
  profile for VM snapshots, and otherwise a listed class of that driver beside which no other class
  of the driver is marked as the default. Every report was given after the start of the resolution.
\<close>

theorem resolved_class_matches_driver:
  assumes "run_state (ResolveSnapshot cl sx sc configured kc vm) w = (Inr s, w')"
  shows "\<exists>pdata prov. answered cl w kc [''get'', ''storageclass'', sc, ''-o'', ''json''] pdata \<and> sx_provisioner sx pdata = Inr prov \<and>
    prov \<noteq> [] \<and> sc \<noteq> [] \<and> sn_StorageClass s = sc \<and> sn_Kubeconfig s = kc \<and> (configured \<noteq> [] \<longrightarrow> sn_SnapshotClass s = configured) \<and>
    (has_driver cl w sx kc (sn_SnapshotClass s) prov \<or> listed_driver cl w sx kc (sn_SnapshotClass s) prov)"
  using yields_start[OF yields_ResolveSnapshot assms] by blast

text \<open>A cluster whose every answer is the name of one driver.\<close>

definition csi_cluster :: "unit cluster" where
  "csi_cluster =
     \<lparr> cl_LookPath = (\<lambda>bin. Inr ''/usr/bin/oc''),
       cl_Exec = (\<lambda>cli input args. State_Monad.return \<lparr> cr_Stdout = ''csi'', cr_Stderr = [], cr_Combined = ''csi'', cr_Error = None \<rparr>) \<rparr>"

definition csi_codec :: snapshot_codec where
  "csi_codec =
     \<lparr> sx_provisioner = Inr, sx_profile = (\<lambda>d. Inr \<lparr> sf_SnapshotClass = ''snap'', sf_ClaimPropertySets = [\<lparr> cs_VolumeMode = ''Block'', cs_AccessModes = [''ReadWriteMany''] \<rparr>] \<rparr>),
       sx_class = (\<lambda>d. Inr \<lparr> vc_Name = ''snap'', vc_Annotations = [], vc_Driver = d \<rparr>), sx_classes = (\<lambda>d. Inr []) \<rparr>"

lemma csi_command: "run_state (SnapshotCommand csi_cluster kc i args) w = (Inr ''csi'', w)"
  by (simp add: SnapshotCommand_def KubeCLI_def on_path_def csi_cluster_def)

theorem resolved_class_matches_driver_witness:
  "has_driver csi_cluster () csi_codec [] ''snap'' ''csi''"
proof -
  have r: "run_state (ResolveSnapshot csi_cluster csi_codec ''sc'' ''snap'' [] True) () =
      (Inr \<lparr> sn_StorageClass = ''sc'', sn_SnapshotClass = ''snap'', sn_Kubeconfig = [] \<rparr>, ())"
    by (simp add: ResolveSnapshot_def resolve_class_def snapshotJSON_def named_class_def csi_command csi_codec_def)
  show ?thesis
    using resolved_class_matches_driver[OF r] by (auto simp: answered_def csi_command csi_codec_def listed_driver_def)
qed

section \<open>The wait ends\<close>

lemma poll_success:
  assumes "poll_profile cl sx we s name issues w = (Inl None, w')"
  shows "\<exists>data p w1. run_state (SnapshotCommand cl (sn_Kubeconfig s) None [''get'', ''storageprofile'', name, ''-o'', ''json'']) w1 = (Inr data, w') \<and>
     sx_profile sx data = Inr p \<and> profile_issues (sn_SnapshotClass s) p = []"
  using assms
  by (auto simp: poll_profile_def Let_def split: prod.splits sum.splits if_splits bool.splits)

lemma no_profile_issues:
  "profile_issues wanted p = [] \<longleftrightarrow>
     sf_SnapshotClass p = wanted \<and> sf_ClaimPropertySets p \<noteq> [] \<and>
     (\<forall>c \<in> set (sf_ClaimPropertySets p). cs_VolumeMode c \<noteq> [] \<and> cs_AccessModes c \<noteq> [] \<and> [] \<notin> set (cs_AccessModes c))"
proof -
  have "concat (map (\<lambda>(i, c). set_issues i c) (enumerate n cs)) = [] \<longleftrightarrow>
      (\<forall>c \<in> set cs. cs_VolumeMode c \<noteq> [] \<and> cs_AccessModes c \<noteq> [] \<and> [] \<notin> set (cs_AccessModes c))" for n cs
    by (induction cs arbitrary: n) (auto simp: set_issues_def split: if_splits)
  then show ?thesis unfolding profile_issues_def by simp
qed

lemma wait_profile_ends:
  fixes rank :: "'w \<Rightarrow> nat"
  assumes poll: "\<And>issues w found w'. poll_profile cl sx we s name issues w = (Inr found, w') \<Longrightarrow> rank w' < rank w"
  shows "\<exists>r w'. wait_profile cl sx we s name issues w = Some (r, w') \<and>
     (r = None \<longrightarrow> (\<exists>issues w1. poll_profile cl sx we s name issues w1 = (Inl None, w')))"
proof (induction "rank w" arbitrary: w issues rule: less_induct)
  case less
  obtain r w1 where p: "poll_profile cl sx we s name issues w = (r, w1)" by fastforce
  show ?case
  proof (cases r)
    case (Inl e)
    then show ?thesis using p by (subst wait_profile.simps) auto
  next
    case (Inr found)
    then have "rank w1 < rank w" using p poll by blast
    then show ?thesis using less[of w1 found] p Inr by (subst wait_profile.simps) auto
  qed
qed

text \<open>
  When every tick that does not end the context brings its deadline nearer, and commands do
  not put it off, the wait for a storage profile returns; without an error only when its last read
  reported the expected snapshot class and at least one property set, every one with a volume
  mode and access modes, none of them empty.
\<close>

theorem WaitForStorageProfile_returns:
  fixes deadline :: "'w \<Rightarrow> nat"
  assumes "\<And>w w'. run_state (wt_next we) w = (False, w') \<Longrightarrow> deadline w' < deadline w"
    and "\<And>args w r w'. run_state (SnapshotCommand cl (sn_Kubeconfig s) None args) w = (r, w') \<Longrightarrow> deadline w' \<le> deadline w"
  shows "\<exists>r w'. WaitForStorageProfile cl sx we s name w = Some (r, w') \<and>
    (r = None \<longrightarrow> (\<exists>data p w1. run_state (SnapshotCommand cl (sn_Kubeconfig s) None [''get'', ''storageprofile'', name, ''-o'', ''json'']) w1 = (Inr data, w') \<and>
       sx_profile sx data = Inr p \<and> sf_SnapshotClass p = sn_SnapshotClass s \<and> sf_ClaimPropertySets p \<noteq> [] \<and>
       (\<forall>c \<in> set (sf_ClaimPropertySets p). cs_VolumeMode c \<noteq> [] \<and> cs_AccessModes c \<noteq> [] \<and> [] \<notin> set (cs_AccessModes c))))"
proof -
  have dec: "deadline w' < deadline w" if "poll_profile cl sx we s name issues w = (Inr found, w')" for issues w found w'
  proof -
    obtain r w1 where c: "run_state (SnapshotCommand cl (sn_Kubeconfig s) None [''get'', ''storageprofile'', name, ''-o'', ''json'']) w = (r, w1)"
      by fastforce
    then have "run_state (wt_next we) w1 = (False, w')"
      using that by (auto simp: poll_profile_def Let_def split: prod.splits sum.splits if_splits bool.splits)
    then show ?thesis using assms(1) assms(2)[OF c] by fastforce
  qed
  have "\<exists>r w'. WaitForStorageProfile cl sx we s name w = Some (r, w') \<and>
     (r = None \<longrightarrow> (\<exists>issues w1. poll_profile cl sx we s name issues w1 = (Inl None, w')))"
    unfolding WaitForStorageProfile_def by (rule wait_profile_ends[of cl sx we s name deadline]) (rule dec)
  then obtain r w' where w: "WaitForStorageProfile cl sx we s name w = Some (r, w')"
    and r: "r = None \<longrightarrow> (\<exists>issues w1. poll_profile cl sx we s name issues w1 = (Inl None, w'))"
    by blast
  show ?thesis
  proof (intro exI[of _ r] exI[of _ w'] conjI impI w)
    assume "r = None"
    then obtain issues w1 where "poll_profile cl sx we s name issues w1 = (Inl None, w')" using r by blast
    from poll_success[OF this] show "\<exists>data p w1. run_state (SnapshotCommand cl (sn_Kubeconfig s) None [''get'', ''storageprofile'', name, ''-o'', ''json'']) w1 = (Inr data, w') \<and>
       sx_profile sx data = Inr p \<and> sf_SnapshotClass p = sn_SnapshotClass s \<and> sf_ClaimPropertySets p \<noteq> [] \<and>
       (\<forall>c \<in> set (sf_ClaimPropertySets p). cs_VolumeMode c \<noteq> [] \<and> cs_AccessModes c \<noteq> [] \<and> [] \<notin> set (cs_AccessModes c))"
      by (simp only: no_profile_issues)
  qed
qed

theorem WaitForStorageProfile_returns_witness:
  "\<exists>r w'. WaitForStorageProfile csi_cluster csi_codec \<lparr> wt_ctxErr = (\<lambda>w. None), wt_next = State_Monad.return True \<rparr>
     \<lparr> sn_StorageClass = ''sc'', sn_SnapshotClass = ''snap'', sn_Kubeconfig = [] \<rparr> ''sc-copy'' () = Some (r, w')"
  using WaitForStorageProfile_returns[of "\<lparr> wt_ctxErr = (\<lambda>w. None), wt_next = State_Monad.return True \<rparr>" "\<lambda>_. 0" csi_cluster
      "\<lparr> sn_StorageClass = ''sc'', sn_SnapshotClass = ''snap'', sn_Kubeconfig = [] \<rparr>" csi_codec "''sc-copy''" "()"]
  by auto

end
