(* ===== verification/Storage_Source.thy ===== *)
theory Storage_Source
  imports Cluster_Check
begin

text \<open>
  The read-only side of the storage preflight in \<open>internal/clustercheck\<close>: reading one resource
  (storage_legacy_resources.go, storage_resources.go), the provenance of a boot source
  (storage_source.go, storage_source_cdi.go) and CDI's clone authorization
  (storage_authorization.go). The two sentinel errors of Go are constructors of the error type.
\<close>

section \<open>Reading resources\<close>

text \<open>An error and the sentinel it wraps.\<close>

datatype probe_error = NotFound string | NotReady string | OtherError string

fun probe_text :: "probe_error \<Rightarrow> string" where
  "probe_text (NotFound s) = s @ '': preflight resource not found''"
| "probe_text (NotReady s) = s @ '': storage source is not ready''"
| "probe_text (OtherError s) = s"

record storage_reference =
  sr_Name :: string
  sr_Namespace :: string

record storage_metadata =
  md_CreationTimestamp :: int
  md_UID :: string
  md_DeletionTimestamp :: string
  md_Labels :: "(string, string) gomap"
  md_Name :: string
  md_Namespace :: string
  md_Annotations :: "(string, string) gomap"

record preflight_pvc =
  pc_StorageClassName :: string
  pc_VolumeMode :: string
  pc_VolumeName :: string
  pc_Phase :: string

record preflight_snapshot =
  pn_Metadata :: storage_metadata
  pn_PersistentVolumeClaimName :: string
  pn_ReadyToUse :: bool
  pn_BoundVolumeSnapshotContentName :: string

record preflight_data_source =
  pd_SpecSource :: "(string, storage_reference) gomap"
  pd_StatusSource :: "(string, storage_reference) gomap"
  pd_Conditions :: "(string \<times> string) list"

record listed_class_info =
  li_Metadata :: storage_metadata
  li_Provisioner :: string

record snapshot_content =
  vn_Driver :: string
  vn_SourceVolumeMode :: string
  vn_VolumeHandle :: string
  vn_VolumeSnapshotRef :: storage_metadata

text \<open>A persistent volume: its class, and driver and handle when it is a CSI volume.\<close>

record persistent_volume =
  pv_StorageClassName :: string
  pv_CSI :: "(string \<times> string) option"

record data_import_cron =
  dc_Metadata :: storage_metadata
  dc_ManagedDataSource :: string
  dc_CurrentImports :: "string list"
  dc_LastImportedPVC :: storage_reference
  dc_SourceFormat :: string

text \<open>The status of an access review: allowed, and the evaluation error.\<close>

type_synonym review_status = "bool \<times> string"

record resource_access =
  ra_Namespace :: string
  ra_Name :: string
  ra_Verb :: string
  ra_Group :: string
  ra_Resource :: string
  ra_Subresource :: string

record probe_codec =
  xp_pvc :: "string \<Rightarrow> string + preflight_pvc"
  xp_snapshot :: "string \<Rightarrow> string + preflight_snapshot"
  xp_dataSource :: "string \<Rightarrow> string + preflight_data_source"
  xp_content :: "string \<Rightarrow> string + snapshot_content"
  xp_pv :: "string \<Rightarrow> string + persistent_volume"
  xp_cron :: "string \<Rightarrow> string + data_import_cron"
  xp_classes :: "string \<Rightarrow> string + listed_class_info list"
  xp_scratch :: "string \<Rightarrow> string + string"
  xp_profile :: "string \<Rightarrow> string + string list"
  xp_set :: "string \<Rightarrow> string + claim_property_set"
  xp_review :: "resource_access \<Rightarrow> string"
  xp_status :: "string \<Rightarrow> string + review_status option"

text \<open>Continue with the result of a step unless it is an error.\<close>

definition ok_then :: "('w, 'e + 'a) state \<Rightarrow> ('a \<Rightarrow> ('w, 'e + 'b) state) \<Rightarrow> ('w, 'e + 'b) state" where
  "ok_then m f = do { r \<leftarrow> m; case r of Inl e \<Rightarrow> State_Monad.return (Inl e) | Inr x \<Rightarrow> f x }"

definition validatePreflightReference :: "string \<Rightarrow> storage_reference \<Rightarrow> string option" where
  "validatePreflightReference kind ref =
     (if sr_Name ref = [] \<or> sr_Namespace ref = [] \<or> has_prefix (sr_Name ref) ''-'' \<or> has_prefix (sr_Namespace ref) ''-''
      then Some (kind @ '' source requires name and namespace'') else None)"

definition readPreflightResource ::
  "'w cluster \<Rightarrow> string \<Rightarrow> string \<Rightarrow> string \<Rightarrow> string \<Rightarrow> (string \<Rightarrow> string + 'a) \<Rightarrow> ('w, probe_error + 'a) state" where
  "readPreflightResource cl kc kind name namespace decode =
     (if name = [] \<or> has_prefix name ''-'' then
        State_Monad.return (Inl (OtherError (kind @ '' requires an explicit resource name'')))
      else do {
        out \<leftarrow> SnapshotCommand cl kc None
          ([''get'', kind, name] @ (if namespace \<noteq> [] then [''-n'', namespace] else []) @ [''-o'', ''json'', ''--ignore-not-found'']);
        State_Monad.return (case out of
            Inl err \<Rightarrow> Inl (OtherError err)
          | Inr data \<Rightarrow>
              if trim_space data = [] then Inl (NotFound (kind @ '' '' @ namespace @ ''/'' @ name))
              else (case decode data of
                      Inl err \<Rightarrow> Inl (OtherError (''decode '' @ kind @ '' '' @ namespace @ ''/'' @ name @ '': '' @ err))
                    | Inr v \<Rightarrow> Inr v))
      })"

definition read_referenced ::
  "'w cluster \<Rightarrow> string \<Rightarrow> string \<Rightarrow> storage_reference \<Rightarrow> (string \<Rightarrow> string + 'a) \<Rightarrow> ('w, probe_error + 'a) state" where
  "read_referenced cl kc kind ref decode =
     (case validatePreflightReference kind ref of
        Some err \<Rightarrow> State_Monad.return (Inl (OtherError err))
      | None \<Rightarrow> readPreflightResource cl kc kind (sr_Name ref) (sr_Namespace ref) decode)"

definition readPreflightPVC :: "'w cluster \<Rightarrow> probe_codec \<Rightarrow> string \<Rightarrow> storage_reference \<Rightarrow> ('w, probe_error + preflight_pvc) state" where
  "readPreflightPVC cl xp kc ref = read_referenced cl kc ''pvc'' ref (xp_pvc xp)"

definition readPreflightSnapshot :: "'w cluster \<Rightarrow> probe_codec \<Rightarrow> string \<Rightarrow> storage_reference \<Rightarrow> ('w, probe_error + preflight_snapshot) state" where
  "readPreflightSnapshot cl xp kc ref = read_referenced cl kc ''volumesnapshot'' ref (xp_snapshot xp)"

definition readPreflightDataSource :: "'w cluster \<Rightarrow> probe_codec \<Rightarrow> string \<Rightarrow> storage_reference \<Rightarrow> ('w, probe_error + preflight_data_source) state" where
  "readPreflightDataSource cl xp kc ref = read_referenced cl kc ''datasource'' ref (xp_dataSource xp)"

definition readPreflightDataImportCron :: "'w cluster \<Rightarrow> probe_codec \<Rightarrow> string \<Rightarrow> storage_reference \<Rightarrow> ('w, probe_error + data_import_cron) state" where
  "readPreflightDataImportCron cl xp kc ref = read_referenced cl kc ''dataimportcron'' ref (xp_cron xp)"

definition readPreflightSnapshotContent :: "'w cluster \<Rightarrow> probe_codec \<Rightarrow> string \<Rightarrow> string \<Rightarrow> ('w, probe_error + snapshot_content) state" where
  "readPreflightSnapshotContent cl xp kc name = readPreflightResource cl kc ''volumesnapshotcontent'' name [] (xp_content xp)"

definition readPreflightPV :: "'w cluster \<Rightarrow> probe_codec \<Rightarrow> string \<Rightarrow> string \<Rightarrow> ('w, probe_error + persistent_volume) state" where
  "readPreflightPV cl xp kc name = readPreflightResource cl kc ''pv'' name [] (xp_pv xp)"

definition readPreflightStorageClass ::
  "'w cluster \<Rightarrow> (string \<Rightarrow> string + (string \<times> any) list) \<Rightarrow> string \<Rightarrow> string \<Rightarrow> ('w, probe_error + (string \<times> any) list) state" where
  "readPreflightStorageClass cl decode kc name = readPreflightResource cl kc ''storageclass'' name [] decode"

definition readPreflightStorageProfile :: "'w cluster \<Rightarrow> probe_codec \<Rightarrow> string \<Rightarrow> string \<Rightarrow> ('w, probe_error + string list) state" where
  "readPreflightStorageProfile cl xp kc name = readPreflightResource cl kc ''storageprofile'' name [] (xp_profile xp)"

definition GetCDIConfig :: "'w cluster \<Rightarrow> probe_codec \<Rightarrow> string \<Rightarrow> ('w, probe_error + string) state" where
  "GetCDIConfig cl xp kc = readPreflightResource cl kc ''cdiconfig'' ''config'' [] (xp_scratch xp)"

definition ListStorageClasses :: "'w cluster \<Rightarrow> probe_codec \<Rightarrow> string \<Rightarrow> ('w, string + listed_class_info list) state" where
  "ListStorageClasses cl xp kc = do {
     out \<leftarrow> SnapshotCommand cl kc None [''get'', ''storageclass'', ''-o'', ''json''];
     State_Monad.return (case out of Inl err \<Rightarrow> Inl err | Inr data \<Rightarrow> xp_classes xp data)
   }"

section \<open>CDI imports\<close>

definition is_ready :: "preflight_data_source \<Rightarrow> bool" where
  "is_ready ds = ((''Ready'', ''True'') \<in> set (pd_Conditions ds))"

definition cronLabel :: "preflight_snapshot \<Rightarrow> string" where
  "cronLabel s = gm_str (md_Labels (pn_Metadata s)) ''cdi.kubevirt.io/dataImportCron''"

text \<open>The tests on the import before its data source is read: the class, or the note.\<close>

definition cron_class :: "storage_reference \<Rightarrow> preflight_snapshot \<Rightarrow> data_import_cron \<Rightarrow> string + string" where
  "cron_class ref snapshot cron =
     (let original = pn_PersistentVolumeClaimName snapshot;
          class = gm_str (md_Annotations (dc_Metadata cron)) ''cdi.kubevirt.io/storage.import.storageClass''
      in if md_DeletionTimestamp (dc_Metadata cron) \<noteq> [] \<or> md_DeletionTimestamp (pn_Metadata snapshot) \<noteq> [] then
           Inl ''CDI import StorageClass was not inferred because the import or snapshot is being deleted''
         else if dc_SourceFormat cron \<noteq> ''snapshot'' \<or> sr_Name ref \<notin> set (dc_CurrentImports cron) \<or> original = []
                 \<or> sr_Name (dc_LastImportedPVC cron) \<noteq> original \<or> sr_Namespace (dc_LastImportedPVC cron) \<noteq> sr_Namespace ref then
           Inl (''CDI import StorageClass was not inferred because the snapshot does not match the cron'' @ [CHR 0x27] @ ''s current import'')
         else if class = [] \<or> dc_ManagedDataSource cron = [] then
           Inl ''CDI import has no recorded StorageClass or managed DataSource''
         else Inr class)"

definition managed_source_matches :: "storage_reference \<Rightarrow> preflight_data_source \<Rightarrow> bool" where
  "managed_source_matches ref ds =
     (case gm_get (pd_SpecSource ds) ''snapshot'' of
        None \<Rightarrow> False
      | Some source \<Rightarrow>
          is_ready ds \<and> (if sr_Namespace source = [] then source\<lparr>sr_Namespace := sr_Namespace ref\<rparr> else source) = ref)"

definition same_snapshot :: "preflight_snapshot \<Rightarrow> preflight_snapshot \<Rightarrow> bool" where
  "same_snapshot snapshot again =
     (md_UID (pn_Metadata snapshot) \<noteq> [] \<and> md_UID (pn_Metadata again) = md_UID (pn_Metadata snapshot) \<and>
      md_DeletionTimestamp (pn_Metadata again) = [] \<and> pn_ReadyToUse again \<and> cronLabel again = cronLabel snapshot)"

text \<open>The inferred class and a note; an empty class when nothing was inferred.\<close>

definition inferCDISnapshotClass ::
  "'w cluster \<Rightarrow> probe_codec \<Rightarrow> string \<Rightarrow> storage_reference \<Rightarrow> preflight_snapshot \<Rightarrow> ('w, string \<times> string) state" where
  "inferCDISnapshotClass cl xp kc ref snapshot =
     (let name = cronLabel snapshot in
      if name = [] then State_Monad.return ([], [])
      else do {
        r \<leftarrow> readPreflightDataImportCron cl xp kc \<lparr> sr_Name = name, sr_Namespace = sr_Namespace ref \<rparr>;
        case r of
          Inl err \<Rightarrow> State_Monad.return ([], ''CDI import StorageClass could not be investigated: '' @ probe_text err)
        | Inr cron \<Rightarrow>
            (case cron_class ref snapshot cron of
               Inl note \<Rightarrow> State_Monad.return ([], note)
             | Inr class \<Rightarrow> do {
                 d \<leftarrow> readPreflightDataSource cl xp kc \<lparr> sr_Name = dc_ManagedDataSource cron, sr_Namespace = sr_Namespace ref \<rparr>;
                 case d of
                   Inl err \<Rightarrow> State_Monad.return ([], ''CDI managed DataSource could not be investigated: '' @ probe_text err)
                 | Inr ds \<Rightarrow>
                     if \<not> managed_source_matches ref ds then
                       State_Monad.return ([], ''CDI import StorageClass was not inferred because its managed DataSource does not reference this ready snapshot'')
                     else do {
                       a \<leftarrow> readPreflightSnapshot cl xp kc ref;
                       State_Monad.return
                         (if (case a of Inl _ \<Rightarrow> False | Inr again \<Rightarrow> same_snapshot snapshot again) then
                            (class, ''source StorageClass '' @ go_quote class @ '' inferred from CDI DataImportCron '' @
                              sr_Namespace ref @ ''/'' @ name @ '' annotation cdi.kubevirt.io/storage.import.storageClass for current import '' @
                              sr_Name ref @ ''; this is CDI metadata, not a StorageClass field on the snapshot'')
                          else ([], ''CDI import StorageClass was not inferred because the snapshot identity or readiness changed during investigation''))
                     }
               })
      })"


section \<open>Boot sources\<close>

record storage_source =
  so_Class :: string
  so_Driver :: string
  so_VolumeMode :: string
  so_Kind :: string
  so_Reference :: storage_reference
  so_Notes :: "string list"

definition new_source :: "string \<Rightarrow> storage_reference \<Rightarrow> storage_source" where
  "new_source kind ref = \<lparr> so_Class = [], so_Driver = [], so_VolumeMode = [], so_Kind = kind, so_Reference = ref, so_Notes = [] \<rparr>"

definition add_note :: "string \<Rightarrow> storage_source \<Rightarrow> storage_source" where
  "add_note note s = s\<lparr>so_Notes := so_Notes s @ [note]\<rparr>"

definition references_other :: "storage_reference \<Rightarrow> snapshot_content \<Rightarrow> bool" where
  "references_other ref content =
     (let bound = vn_VolumeSnapshotRef content in
      md_Name bound \<noteq> [] \<and> md_Name bound \<noteq> sr_Name ref \<or> md_Namespace bound \<noteq> [] \<and> md_Namespace bound \<noteq> sr_Namespace ref)"

text \<open>The class of the persistent volume when it is the volume the snapshot was taken of.\<close>

definition volume_class :: "snapshot_content \<Rightarrow> persistent_volume \<Rightarrow> string" where
  "volume_class content pv = (if pv_CSI pv = Some (vn_Driver content, vn_VolumeHandle content) then pv_StorageClassName pv else [])"

definition original_volume ::
  "'w cluster \<Rightarrow> probe_codec \<Rightarrow> string \<Rightarrow> storage_reference \<Rightarrow> preflight_snapshot \<Rightarrow> snapshot_content \<Rightarrow> storage_source \<Rightarrow> ('w, storage_source) state" where
  "original_volume cl xp kc ref snapshot content result =
     (let name = pn_PersistentVolumeClaimName snapshot in
      if name = [] \<or> vn_VolumeHandle content = [] then State_Monad.return result
      else do {
        c \<leftarrow> readPreflightPVC cl xp kc \<lparr> sr_Name = name, sr_Namespace = sr_Namespace ref \<rparr>;
        case c of
          Inl (NotFound _) \<Rightarrow> State_Monad.return result
        | Inl _ \<Rightarrow> State_Monad.return (add_note ''snapshot is ready; original PVC provenance could not be read'' result)
        | Inr pvc \<Rightarrow>
            if pc_VolumeName pvc = [] then State_Monad.return result
            else do {
              v \<leftarrow> readPreflightPV cl xp kc (pc_VolumeName pvc);
              State_Monad.return (case v of
                  Inl _ \<Rightarrow> add_note ''snapshot is ready; original PV provenance could not be read'' result
                | Inr pv \<Rightarrow> result\<lparr>so_Class := volume_class content pv\<rparr>)
            }
      })"

definition inspectSnapshotVolume ::
  "'w cluster \<Rightarrow> probe_codec \<Rightarrow> string \<Rightarrow> storage_reference \<Rightarrow> preflight_snapshot \<Rightarrow> ('w, probe_error + storage_source) state" where
  "inspectSnapshotVolume cl xp kc ref snapshot =
     (let result = new_source ''snapshot'' ref; contentName = pn_BoundVolumeSnapshotContentName snapshot in
      if contentName = [] then
        State_Monad.return (Inr (add_note ''ready snapshot has no bound content reference; snapshot-content provenance is unavailable'' result))
      else do {
        r \<leftarrow> readPreflightSnapshotContent cl xp kc contentName;
        case r of
          Inl err \<Rightarrow> State_Monad.return (Inr (add_note (''snapshot is ready; snapshot-content provenance could not be read: '' @ probe_text err) result))
        | Inr content \<Rightarrow>
            if references_other ref content then
              State_Monad.return (Inl (NotReady (''snapshot content '' @ go_quote contentName @ '' references another snapshot'')))
            else do {
              s \<leftarrow> original_volume cl xp kc ref snapshot content
                     (result\<lparr>so_Driver := vn_Driver content, so_VolumeMode := vn_SourceVolumeMode content\<rparr>);
              State_Monad.return (Inr s)
            }
      })"

definition source_name :: "storage_reference \<Rightarrow> string" where
  "source_name ref = sr_Namespace ref @ ''/'' @ sr_Name ref"

definition inspect_pvc :: "'w cluster \<Rightarrow> probe_codec \<Rightarrow> string \<Rightarrow> storage_reference \<Rightarrow> ('w, probe_error + storage_source) state" where
  "inspect_pvc cl xp kc ref = do {
     r \<leftarrow> readPreflightPVC cl xp kc ref;
     State_Monad.return (case r of
         Inl err \<Rightarrow> Inl err
       | Inr pvc \<Rightarrow>
           if pc_Phase pvc \<noteq> ''Bound'' then Inl (NotReady (''source PVC '' @ source_name ref @ '' is not Bound''))
           else Inr ((new_source ''pvc'' ref)\<lparr>so_Class := pc_StorageClassName pvc,
                  so_VolumeMode := (if pc_VolumeMode pvc = [] then ''Filesystem'' else pc_VolumeMode pvc)\<rparr>))
   }"

text \<open>A source without a class gets the one CDI recorded, with a note.\<close>

definition infer_missing_class ::
  "'w cluster \<Rightarrow> probe_codec \<Rightarrow> string \<Rightarrow> storage_reference \<Rightarrow> preflight_snapshot \<Rightarrow> storage_source \<Rightarrow> ('w, storage_source) state" where
  "infer_missing_class cl xp kc ref snapshot result =
     (if so_Class result \<noteq> [] then State_Monad.return result
      else do {
        i \<leftarrow> inferCDISnapshotClass cl xp kc ref snapshot;
        let inferred = result\<lparr>so_Class := fst i\<rparr>;
        State_Monad.return (if snd i \<noteq> [] then add_note (snd i) inferred else inferred)
      })"

definition inspect_snapshot :: "'w cluster \<Rightarrow> probe_codec \<Rightarrow> string \<Rightarrow> storage_reference \<Rightarrow> ('w, probe_error + storage_source) state" where
  "inspect_snapshot cl xp kc ref =
     ok_then (readPreflightSnapshot cl xp kc ref) (\<lambda>snapshot.
       if \<not> pn_ReadyToUse snapshot then
         State_Monad.return (Inl (NotReady (''source snapshot '' @ source_name ref @ '' is not readyToUse'')))
       else ok_then (inspectSnapshotVolume cl xp kc ref snapshot) (\<lambda>result. do {
         s \<leftarrow> infer_missing_class cl xp kc ref snapshot result;
         State_Monad.return (Inr s)
       }))"

text \<open>The source a data source resolves to: the first of \<open>pvc\<close> and \<open>snapshot\<close> that has a name.\<close>

definition resolved_source :: "storage_reference \<Rightarrow> preflight_data_source \<Rightarrow> (string \<times> storage_reference) option" where
  "resolved_source ref ds =
     (let sources = (if gm_has (pd_SpecSource ds) ''dataSource'' then pd_StatusSource ds else pd_SpecSource ds);
          candidate = (\<lambda>k. case gm_get sources k of
              None \<Rightarrow> None
            | Some s \<Rightarrow> if sr_Name s = [] then None
                else Some (k, if sr_Namespace s = [] then s\<lparr>sr_Namespace := sr_Namespace ref\<rparr> else s))
      in case candidate ''pvc'' of Some r \<Rightarrow> Some r | None \<Rightarrow> candidate ''snapshot'')"

definition inspectStorageSource ::
  "'w cluster \<Rightarrow> probe_codec \<Rightarrow> string \<Rightarrow> string \<Rightarrow> storage_reference \<Rightarrow> ('w, probe_error + storage_source) state" where
  "inspectStorageSource cl xp kc kind ref =
     (if kind = ''DataSource'' then
        ok_then (readPreflightDataSource cl xp kc ref) (\<lambda>ds.
          if \<not> is_ready ds then State_Monad.return (Inl (NotReady (''DataSource '' @ source_name ref @ '' is not Ready'')))
          else case resolved_source ref ds of
                 None \<Rightarrow> State_Monad.return (Inl (NotReady (''DataSource '' @ source_name ref @ '' has no resolved PVC or snapshot source'')))
               | Some (k, s) \<Rightarrow> if k = ''pvc'' then inspect_pvc cl xp kc s else inspect_snapshot cl xp kc s)
      else if kind = ''pvc'' \<or> kind = ''PersistentVolumeClaim'' then inspect_pvc cl xp kc ref
      else if kind = ''snapshot'' \<or> kind = ''VolumeSnapshot'' then inspect_snapshot cl xp kc ref
      else State_Monad.return (Inl (OtherError (''unsupported source kind '' @ go_quote kind))))"

section \<open>Clone authorization\<close>

definition ReviewOwnAccess :: "'w cluster \<Rightarrow> probe_codec \<Rightarrow> string \<Rightarrow> resource_access \<Rightarrow> ('w, bool \<times> string option) state" where
  "ReviewOwnAccess cl xp kc attributes = do {
     out \<leftarrow> SnapshotCommand cl kc (Some (xp_review xp attributes))
       [''create'', ''--raw'', ''/apis/authorization.k8s.io/v1/selfsubjectaccessreviews'', ''-f'', ''-''];
     State_Monad.return (case out of
         Inl err \<Rightarrow> (False, Some err)
       | Inr data \<Rightarrow>
           (case xp_status xp data of
              Inl err \<Rightarrow> (False, Some (''decode access review: '' @ err))
            | Inr None \<Rightarrow> (False, Some ''access review returned no status'')
            | Inr (Some (allowed, evaluationError)) \<Rightarrow>
                if allowed then (True, None)
                else if evaluationError \<noteq> [] then (False, Some (''access review incomplete: '' @ evaluationError))
                else (False, None)))
   }"

definition clone_access :: "storage_reference \<Rightarrow> string \<Rightarrow> string \<Rightarrow> string \<Rightarrow> resource_access" where
  "clone_access ref grp resource subresource =
     \<lparr> ra_Namespace = sr_Namespace ref, ra_Name = sr_Name ref, ra_Verb = ''create'', ra_Group = grp,
       ra_Resource = resource, ra_Subresource = subresource \<rparr>"

definition checkCDICloneAccess :: "'w cluster \<Rightarrow> probe_codec \<Rightarrow> string \<Rightarrow> string \<Rightarrow> storage_source \<Rightarrow> ('w, bool \<times> string option) state" where
  "checkCDICloneAccess cl xp kc targetNamespace source =
     (let ref = so_Reference source;
          denied = (\<lambda>a b. (False, if a \<noteq> None then a else b))
      in if targetNamespace = [] \<or> sr_Namespace ref = [] then
           State_Monad.return (False, Some ''source or target namespace is unresolved'')
         else if targetNamespace = sr_Namespace ref then State_Monad.return (True, None)
         else do {
           e \<leftarrow> ReviewOwnAccess cl xp kc (clone_access ref ''cdi.kubevirt.io'' ''datavolumes'' ''source'');
           if fst e then State_Monad.return (True, None)
           else do {
             p \<leftarrow> ReviewOwnAccess cl xp kc (clone_access ref [] ''pods'' []);
             if so_Kind source = ''pvc'' then
               State_Monad.return (if fst p then (True, None) else denied (snd e) (snd p))
             else if \<not> fst p then State_Monad.return (denied (snd e) (snd p))
             else do {
               v \<leftarrow> ReviewOwnAccess cl xp kc (clone_access ref [] ''pvcs'' []);
               State_Monad.return (if fst v then (True, None) else denied (snd e) (snd v))
             }
           }
         })"


section \<open>What the class of a snapshot source rests on\<close>

text \<open>The cluster reported this resource at a world reached from \<open>w0\<close>.\<close>

definition reported :: "'w cluster \<Rightarrow> 'w \<Rightarrow> string \<Rightarrow> string \<Rightarrow> string \<Rightarrow> string \<Rightarrow> (string \<Rightarrow> string + 'a) \<Rightarrow> 'a \<Rightarrow> bool" where
  "reported cl w0 kc kind name namespace decode v =
     (\<exists>data. answered cl w0 kc ([''get'', kind, name] @ (if namespace \<noteq> [] then [''-n'', namespace] else []) @ [''-o'', ''json'', ''--ignore-not-found'']) data \<and>
        decode data = Inr v)"

lemma yields_ok_then:
  assumes "yields cl w0 m (\<lambda>r. \<forall>x. r = Inr x \<longrightarrow> Q x)"
    and "\<And>x. Q x \<Longrightarrow> yields cl w0 (f x) (\<lambda>r. \<forall>y. r = Inr y \<longrightarrow> P y)"
  shows "yields cl w0 (ok_then m f) (\<lambda>r. \<forall>y. r = Inr y \<longrightarrow> P y)"
  unfolding ok_then_def
  by (rule yields_bind[OF assms(1)], rule yields_sum, rule yields_return) (auto intro: assms(2))

lemma yields_resource:
  "yields cl w0 (readPreflightResource cl kc kind name ns decode) (\<lambda>r. \<forall>v. r = Inr v \<longrightarrow> reported cl w0 kc kind name ns decode v)"
  unfolding readPreflightResource_def
  by (rule yields_if, rule yields_return, simp, rule yields_bind[OF yields_read], rule yields_return)
    (auto simp: reported_def split: sum.splits if_splits)

lemma yields_referenced:
  "yields cl w0 (read_referenced cl kc kind ref decode)
     (\<lambda>r. \<forall>v. r = Inr v \<longrightarrow> reported cl w0 kc kind (sr_Name ref) (sr_Namespace ref) decode v)"
  unfolding read_referenced_def
  by (rule yields_option, rule yields_resource, rule yields_return, simp)

lemmas reads = readPreflightPVC_def readPreflightSnapshot_def readPreflightDataSource_def readPreflightDataImportCron_def
  readPreflightSnapshotContent_def readPreflightPV_def

text \<open>Binding a read: the rest may use that the resource was reported.\<close>

lemmas yields_reads = yields_bind[OF yields_referenced] yields_bind[OF yields_resource]

lemma ok_then_Inr:
  assumes "run_state (ok_then m f) w = (Inr y, w')"
  shows "\<exists>x w1. run_state m w = (Inr x, w1) \<and> run_state (f x) w1 = (Inr y, w')"
  using assms by (auto simp: ok_then_def split: prod.splits sum.splits)

text \<open>The volume the snapshot was taken of has the class; or its import recorded it.\<close>

definition volume_evidence :: "'w cluster \<Rightarrow> 'w \<Rightarrow> probe_codec \<Rightarrow> string \<Rightarrow> storage_reference \<Rightarrow> string \<Rightarrow> bool" where
  "volume_evidence cl w0 xp kc ref class =
     (\<exists>contentName content pvName pv.
        reported cl w0 kc ''volumesnapshotcontent'' contentName [] (xp_content xp) content \<and> \<not> references_other ref content \<and>
        reported cl w0 kc ''pv'' pvName [] (xp_pv xp) pv \<and>
        pv_CSI pv = Some (vn_Driver content, vn_VolumeHandle content) \<and> pv_StorageClassName pv = class)"

definition import_evidence :: "'w cluster \<Rightarrow> 'w \<Rightarrow> probe_codec \<Rightarrow> string \<Rightarrow> storage_reference \<Rightarrow> string \<Rightarrow> bool" where
  "import_evidence cl w0 xp kc ref class =
     (\<exists>snapshot cron ds again.
        reported cl w0 kc ''volumesnapshot'' (sr_Name ref) (sr_Namespace ref) (xp_snapshot xp) snapshot \<and>
        reported cl w0 kc ''dataimportcron'' (cronLabel snapshot) (sr_Namespace ref) (xp_cron xp) cron \<and>
        cron_class ref snapshot cron = Inr class \<and>
        reported cl w0 kc ''datasource'' (dc_ManagedDataSource cron) (sr_Namespace ref) (xp_dataSource xp) ds \<and>
        managed_source_matches ref ds \<and>
        reported cl w0 kc ''volumesnapshot'' (sr_Name ref) (sr_Namespace ref) (xp_snapshot xp) again \<and> same_snapshot snapshot again)"

text \<open>\<open>result\<close> with its class replaced, and perhaps a driver, a mode and notes: kind and reference stay.\<close>

definition same_source :: "storage_source \<Rightarrow> storage_source \<Rightarrow> bool" where
  "same_source a b = (so_Kind a = so_Kind b \<and> so_Reference a = so_Reference b)"

lemma same_source_simps [simp]:
  "same_source a a" "same_source (add_note n a) b = same_source a b" "same_source (a\<lparr>so_Class := c\<rparr>) b = same_source a b"
  "same_source b (a\<lparr>so_Driver := d, so_VolumeMode := m\<rparr>) = same_source b a"
  "so_Class (add_note n a) = so_Class a"
  by (auto simp: same_source_def add_note_def)

lemma yields_original_volume:
  assumes "so_Class result = []"
  shows "yields cl w0 (original_volume cl xp kc ref snapshot content result) (\<lambda>s. same_source s result \<and>
    (so_Class s = [] \<or> (\<exists>n pv. reported cl w0 kc ''pv'' n [] (xp_pv xp) pv \<and> so_Class s = volume_class content pv)))"
  unfolding original_volume_def Let_def reads
  by (rule yields_if, rule yields_return, simp add: assms, rule yields_reads, rule yields_sum)
    (auto simp: assms split: probe_error.splits sum.splits intro!: yields_if yields_return yields_reads, blast)

lemma yields_inspectSnapshotVolume:
  "yields cl w0 (inspectSnapshotVolume cl xp kc ref snapshot) (\<lambda>r. \<forall>s. r = Inr s \<longrightarrow>
     so_Kind s = ''snapshot'' \<and> so_Reference s = ref \<and> (so_Class s = [] \<or> volume_evidence cl w0 xp kc ref (so_Class s)))"
proof -
  let ?new = "\<lambda>c. (new_source ''snapshot'' ref)\<lparr>so_Driver := vn_Driver c, so_VolumeMode := vn_SourceVolumeMode c\<rparr>"
  have new: "so_Class (?new c) = []" for c by (simp add: new_source_def)
  have vol: "volume_evidence cl w0 xp kc ref (volume_class c pv)"
    if "reported cl w0 kc ''volumesnapshotcontent'' n [] (xp_content xp) c" "\<not> references_other ref c"
      "reported cl w0 kc ''pv'' m [] (xp_pv xp) pv" "volume_class c pv \<noteq> []" for c n pv m
    using that unfolding volume_evidence_def volume_class_def by (metis (full_types))
  show ?thesis
    unfolding inspectSnapshotVolume_def Let_def reads
    by (rule yields_if, rule yields_return, simp add: new_source_def add_note_def, rule yields_reads, rule yields_sum,
        rule yields_return, simp add: new_source_def add_note_def, rule yields_if, rule yields_return, simp,
        rule yields_bind[OF yields_original_volume[OF new]], rule yields_return)
      (auto simp: same_source_def new_source_def dest: vol)
qed

lemma yields_inferCDISnapshotClass:
  assumes "reported cl w0 kc ''volumesnapshot'' (sr_Name ref) (sr_Namespace ref) (xp_snapshot xp) snapshot"
  shows "yields cl w0 (inferCDISnapshotClass cl xp kc ref snapshot) (\<lambda>i. fst i \<noteq> [] \<longrightarrow> import_evidence cl w0 xp kc ref (fst i))"
proof -
  have import: "import_evidence cl w0 xp kc ref c"
    if "reported cl w0 kc ''dataimportcron'' (cronLabel snapshot) (sr_Namespace ref) (xp_cron xp) cron" "cron_class ref snapshot cron = Inr c"
      "reported cl w0 kc ''datasource'' (dc_ManagedDataSource cron) (sr_Namespace ref) (xp_dataSource xp) ds" "managed_source_matches ref ds"
      "reported cl w0 kc ''volumesnapshot'' (sr_Name ref) (sr_Namespace ref) (xp_snapshot xp) snap2" "same_snapshot snapshot snap2"
    for cron c ds snap2
    using assms that unfolding import_evidence_def by blast
  show ?thesis
    unfolding inferCDISnapshotClass_def Let_def reads
    by (intro yields_if yields_return yields_reads yields_sum) (auto intro: import split: sum.splits)
qed

lemma yields_infer_missing_class:
  assumes "reported cl w0 kc ''volumesnapshot'' (sr_Name ref) (sr_Namespace ref) (xp_snapshot xp) snapshot"
  shows "yields cl w0 (infer_missing_class cl xp kc ref snapshot result) (\<lambda>s. same_source s result \<and>
    (so_Class s = [] \<or> so_Class s = so_Class result \<or> import_evidence cl w0 xp kc ref (so_Class s)))"
  unfolding infer_missing_class_def Let_def
  by (rule yields_if, rule yields_return, simp, rule yields_bind[OF yields_inferCDISnapshotClass[OF assms]], rule yields_return)
    (auto split: if_splits)

lemma yields_inspect_snapshot:
  "yields cl w0 (inspect_snapshot cl xp kc ref) (\<lambda>r. \<forall>s. r = Inr s \<longrightarrow> so_Kind s = ''snapshot'' \<and> so_Reference s = ref \<and>
     (so_Class s = [] \<or> volume_evidence cl w0 xp kc ref (so_Class s) \<or> import_evidence cl w0 xp kc ref (so_Class s)))"
  unfolding inspect_snapshot_def reads
  by (rule yields_ok_then[OF yields_referenced], rule yields_if, rule yields_return, simp,
      rule yields_ok_then[OF yields_inspectSnapshotVolume], rule yields_bind[OF yields_infer_missing_class], assumption, rule yields_return)
    (auto simp: same_source_def)

lemma yields_inspect_pvc:
  "yields cl w0 (inspect_pvc cl xp kc ref) (\<lambda>r. \<forall>s. r = Inr s \<longrightarrow> so_Kind s = ''pvc'' \<and> so_Reference s = ref \<and> so_VolumeMode s \<noteq> [] \<and>
     (\<exists>pvc. reported cl w0 kc ''pvc'' (sr_Name ref) (sr_Namespace ref) (xp_pvc xp) pvc \<and> pc_Phase pvc = ''Bound'' \<and> so_Class s = pc_StorageClassName pvc))"
  unfolding inspect_pvc_def reads
  by (rule yields_reads, rule yields_return) (auto simp: new_source_def split: sum.splits)

text \<open>The evidence behind the class of a source.\<close>

definition source_evidence :: "'w cluster \<Rightarrow> 'w \<Rightarrow> probe_codec \<Rightarrow> string \<Rightarrow> storage_source \<Rightarrow> bool" where
  "source_evidence cl w0 xp kc s =
     (let ref = so_Reference s in
      so_Kind s = ''pvc'' \<and>
        (\<exists>pvc. reported cl w0 kc ''pvc'' (sr_Name ref) (sr_Namespace ref) (xp_pvc xp) pvc \<and>
           pc_Phase pvc = ''Bound'' \<and> so_Class s = pc_StorageClassName pvc) \<or>
      so_Kind s = ''snapshot'' \<and>
        (so_Class s = [] \<or> volume_evidence cl w0 xp kc ref (so_Class s) \<or> import_evidence cl w0 xp kc ref (so_Class s)))"

lemma yields_inspectStorageSource:
  "yields cl w0 (inspectStorageSource cl xp kc kind ref) (\<lambda>r. \<forall>s. r = Inr s \<longrightarrow> source_evidence cl w0 xp kc s)"
proof -
  have pvc: "yields cl w0 (inspect_pvc cl xp kc ref) (\<lambda>r. \<forall>s. r = Inr s \<longrightarrow> source_evidence cl w0 xp kc s)" for ref
    by (rule yields_weaken[OF yields_inspect_pvc]) (auto simp: source_evidence_def Let_def)
  have snap: "yields cl w0 (inspect_snapshot cl xp kc ref) (\<lambda>r. \<forall>s. r = Inr s \<longrightarrow> source_evidence cl w0 xp kc s)" for ref
    by (rule yields_weaken[OF yields_inspect_snapshot]) (auto simp: source_evidence_def Let_def)
  show ?thesis
    unfolding inspectStorageSource_def reads
    by (rule yields_if, rule yields_ok_then[OF yields_referenced])
      (intro yields_if yields_option yields_pair pvc snap; (rule yields_return)?; simp)+
qed

text \<open>
  C21: the storage class of a boot source always has evidence that the cluster gave after the start.
  A volume source is a claim reported as bound with that class; a snapshot source has no class, or
  the class of the very volume its content was taken of, or the one its current import recorded,
  with the snapshot read again at the end with the same identity. A data source only leads to one
  of these.
\<close>

theorem storage_source_class_evidence:
  assumes "run_state (inspectStorageSource cl xp kc kind ref) w = (Inr s, w')"
  shows "source_evidence cl w xp kc s"
  using yields_start[OF yields_inspectStorageSource assms] by blast

text \<open>A cluster that answers every read with one text; the claim it decodes to is bound.\<close>

definition bound_codec :: probe_codec where
  "bound_codec =
     \<lparr> xp_pvc = (\<lambda>d. Inr \<lparr> pc_StorageClassName = ''gold'', pc_VolumeMode = [], pc_VolumeName = ''pv1'', pc_Phase = ''Bound'' \<rparr>),
       xp_snapshot = Inl, xp_dataSource = Inl, xp_content = Inl, xp_pv = Inl, xp_cron = Inl, xp_classes = Inl, xp_scratch = Inl,
       xp_profile = Inl, xp_set = Inl, xp_review = (\<lambda>a. []), xp_status = Inl \<rparr>"

theorem storage_source_class_evidence_witness:
  "source_evidence csi_cluster () bound_codec [] \<lparr> so_Class = ''gold'', so_Driver = [], so_VolumeMode = ''Filesystem'', so_Kind = ''pvc'',
       so_Reference = \<lparr> sr_Name = ''base'', sr_Namespace = ''images'' \<rparr>, so_Notes = [] \<rparr>"
proof -
  have r: "run_state (inspectStorageSource csi_cluster bound_codec [] ''pvc'' \<lparr> sr_Name = ''base'', sr_Namespace = ''images'' \<rparr>) () =
    (Inr \<lparr> so_Class = ''gold'', so_Driver = [], so_VolumeMode = ''Filesystem'', so_Kind = ''pvc'',
       so_Reference = \<lparr> sr_Name = ''base'', sr_Namespace = ''images'' \<rparr>, so_Notes = [] \<rparr>, ())"
    by (simp add: inspectStorageSource_def inspect_pvc_def reads read_referenced_def validatePreflightReference_def has_prefix_def
        readPreflightResource_def csi_command bound_codec_def trim_space_def is_space_def new_source_def)
  show ?thesis by (rule storage_source_class_evidence[OF r])
qed

section \<open>What a permitted clone rests on\<close>

text \<open>At a world reached from \<open>w0\<close> the cluster allowed the identity this access.\<close>

definition permitted :: "'w cluster \<Rightarrow> 'w \<Rightarrow> probe_codec \<Rightarrow> string \<Rightarrow> resource_access \<Rightarrow> bool" where
  "permitted cl w0 xp kc a = (\<exists>w w' data ev. cluster_steps cl w0 w \<and> run_state (SnapshotCommand cl kc (Some (xp_review xp a))
     [''create'', ''--raw'', ''/apis/authorization.k8s.io/v1/selfsubjectaccessreviews'', ''-f'', ''-'']) w = (Inr data, w') \<and>
     xp_status xp data = Inr (Some (True, ev)))"

lemma yields_ReviewOwnAccess: "yields cl w0 (ReviewOwnAccess cl xp kc a) (\<lambda>r. fst r \<longrightarrow> snd r = None \<and> permitted cl w0 xp kc a)"
proof -
  have "yields cl w0 (SnapshotCommand cl kc (Some (xp_review xp a))
       [''create'', ''--raw'', ''/apis/authorization.k8s.io/v1/selfsubjectaccessreviews'', ''-f'', ''-''])
     (\<lambda>r. \<forall>data ev. r = Inr data \<longrightarrow> xp_status xp data = Inr (Some (True, ev)) \<longrightarrow> permitted cl w0 xp kc a)"
    using yields_command[of cl w0 kc "Some (xp_review xp a)"] unfolding yields_def permitted_def by blast
  then show ?thesis
    unfolding ReviewOwnAccess_def
    by (rule yields_bind, intro yields_return) (auto split: sum.splits option.splits if_splits)
qed

lemma yields_checkCDICloneAccess:
  "yields cl w0 (checkCDICloneAccess cl xp kc target source) (\<lambda>r. fst r \<longrightarrow> snd r = None \<and> target \<noteq> [] \<and>
    (target = sr_Namespace (so_Reference source) \<or>
     permitted cl w0 xp kc (clone_access (so_Reference source) ''cdi.kubevirt.io'' ''datavolumes'' ''source'') \<or>
     permitted cl w0 xp kc (clone_access (so_Reference source) [] ''pods'' []) \<and>
       (so_Kind source = ''pvc'' \<or> permitted cl w0 xp kc (clone_access (so_Reference source) [] ''pvcs'' []))))"
  unfolding checkCDICloneAccess_def Let_def
  by (intro yields_if yields_return yields_bind[OF yields_ReviewOwnAccess]) (auto split: if_splits)

text \<open>
  A clone is only reported as authorized inside one namespace, or when the cluster permitted the
  identity CDI's explicit permission on the source, or creating pods beside a volume, or creating pods
  and claims beside a snapshot; each review was answered after the start.
\<close>

theorem clone_authorization_sound:
  assumes "run_state (checkCDICloneAccess cl xp kc target source) w = ((True, err), w')"
  shows "err = None \<and> target \<noteq> [] \<and>
    (target = sr_Namespace (so_Reference source) \<or>
     permitted cl w xp kc (clone_access (so_Reference source) ''cdi.kubevirt.io'' ''datavolumes'' ''source'') \<or>
     permitted cl w xp kc (clone_access (so_Reference source) [] ''pods'' []) \<and>
       (so_Kind source = ''pvc'' \<or> permitted cl w xp kc (clone_access (so_Reference source) [] ''pvcs'' [])))"
  using yields_start[OF yields_checkCDICloneAccess assms] by simp

theorem clone_authorization_sound_witness:
  "\<exists>acc. permitted csi_cluster () (bound_codec\<lparr>xp_status := (\<lambda>d. Inr (Some (True, [])))\<rparr>) [] acc"
proof -
  let ?xp = "bound_codec\<lparr>xp_status := (\<lambda>d. Inr (Some (True, [])))\<rparr>"
  let ?s = "new_source ''pvc'' \<lparr> sr_Name = ''base'', sr_Namespace = ''images'' \<rparr>"
  have a: "run_state (ReviewOwnAccess csi_cluster ?xp [] a) w = ((True, None), w)" for a and w :: unit
    by (simp add: ReviewOwnAccess_def csi_command bound_codec_def)
  have r: "run_state (checkCDICloneAccess csi_cluster ?xp [] ''vms'' ?s) () = ((True, None), ())"
    by (simp add: checkCDICloneAccess_def Let_def a new_source_def)
  show ?thesis using clone_authorization_sound[OF r] by (auto simp: new_source_def)
qed

end
