(* ===== verification/Storage_Check.thy ===== *)
theory Storage_Check
  imports Storage_Source
begin

text \<open>
  \<open>internal/clustercheck/storage_requests.go\<close> and \<open>storage_check.go\<close>: the disks of a rendered
  manifest, and the read-only check of each one against the cluster. The YAML decoder and the
  decoding of a claim are arguments; the caches of one check are part of its state.
\<close>

section \<open>Storage requests\<close>

record storage_claim =
  sl_StorageClassName :: "string option"
  sl_AccessModes :: "string list"
  sl_VolumeMode :: string

record storage_request =
  rq_Identity :: string
  rq_Namespace :: string
  rq_ExpectedClass :: string
  rq_Claim :: storage_claim
  rq_CDIStorage :: bool
  rq_CDI :: bool
  rq_SourceKind :: string
  rq_Source :: storage_reference
  rq_ScratchRequired :: bool
  rq_ContentType :: string

text \<open>Type assertions: a map, a string with its zero value, a list with its zero value.\<close>

fun as_obj :: "any \<Rightarrow> (string \<times> any) list option" where
  "as_obj (AObj m) = Some m"
| "as_obj _ = None"

fun as_str :: "any \<Rightarrow> string" where
  "as_str (AStr s) = s"
| "as_str _ = []"

fun as_list :: "any \<Rightarrow> any list" where
  "as_list (AList xs) = xs"
| "as_list _ = []"

definition key :: "(string \<times> any) list \<Rightarrow> string \<Rightarrow> any" where
  "key m k = (case gm_get m k of Some v \<Rightarrow> v | None \<Rightarrow> ANil)"

definition obj_of :: "any \<Rightarrow> (string \<times> any) list" where
  "obj_of v = (case as_obj v of Some m \<Rightarrow> m | None \<Rightarrow> [])"

definition reference_of :: "(string \<times> any) list \<Rightarrow> storage_reference" where
  "reference_of ref = \<lparr> sr_Name = as_str (key ref ''name''), sr_Namespace = as_str (key ref ''namespace'') \<rparr>"

definition in_namespace :: "string \<Rightarrow> storage_reference \<Rightarrow> storage_reference" where
  "in_namespace ns ref = (if sr_Namespace ref = [] then ref\<lparr>sr_Namespace := ns\<rparr> else ref)"

definition no_reference :: storage_reference where
  "no_reference = \<lparr> sr_Name = [], sr_Namespace = [] \<rparr>"

text \<open>The kind and reference of the source of a data volume; a snapshot wins over a claim.\<close>

definition dv_source :: "(string \<times> any) list \<Rightarrow> string \<times> storage_reference" where
  "dv_source spec =
     (case as_obj (key spec ''sourceRef'') of
        Some ref \<Rightarrow> (as_str (key ref ''kind''), reference_of ref)
      | None \<Rightarrow>
          (case as_obj (key spec ''source'') of
             None \<Rightarrow> ([], no_reference)
           | Some source \<Rightarrow>
               (case as_obj (key source ''snapshot'') of
                  Some ref \<Rightarrow> (''snapshot'', reference_of ref)
                | None \<Rightarrow>
                    (case as_obj (key source ''pvc'') of
                       Some ref \<Rightarrow> (''pvc'', reference_of ref)
                     | None \<Rightarrow> ([], no_reference)))))"

definition dv_scratch :: "(string \<times> any) list \<Rightarrow> bool" where
  "dv_scratch spec =
     (case (as_obj (key spec ''sourceRef''), as_obj (key spec ''source'')) of
        (None, Some source) \<Rightarrow>
          gm_has source ''upload'' \<or>
          (case as_obj (key source ''registry'') of Some reg \<Rightarrow> key reg ''pullMethod'' \<noteq> AStr ''node'' | None \<Rightarrow> False)
      | _ \<Rightarrow> False)"

text \<open>The source of a plain claim: \<open>dataSourceRef\<close>, or \<open>dataSource\<close> when that gave no kind.\<close>

definition pvc_source :: "string \<Rightarrow> (string \<times> any) list \<Rightarrow> string \<times> storage_reference" where
  "pvc_source ns spec =
     fold (\<lambda>k acc. case as_obj (key spec k) of
         Some ref \<Rightarrow> if fst acc = [] then (as_str (key ref ''kind''), in_namespace ns (reference_of ref)) else acc
       | None \<Rightarrow> acc) [''dataSourceRef'', ''dataSource''] ([], no_reference)"

definition add_request ::
  "(any \<Rightarrow> string + storage_claim) \<Rightarrow> string \<Rightarrow> string \<Rightarrow> string \<Rightarrow> any \<Rightarrow> bool \<Rightarrow> string + storage_request" where
  "add_request decode expectedClass identity ns specv dv =
     (let spec = obj_of specv;
          storage = as_obj (key spec ''storage'');
          claim = (if \<not> dv then specv else case storage of Some m \<Rightarrow> AObj m | None \<Rightarrow> key spec ''pvc'');
          src = (if dv then (fst (dv_source spec), in_namespace ns (snd (dv_source spec))) else pvc_source ns spec)
      in if dv \<and> as_obj claim = None then Inl (identity @ '': DataVolume requires storage or pvc'')
         else case decode (case as_obj claim of Some m \<Rightarrow> AObj m | None \<Rightarrow> ANil) of
                Inl err \<Rightarrow> Inl (identity @ '' storage: '' @ err)
              | Inr c \<Rightarrow> Inr
                  \<lparr> rq_Identity = identity, rq_Namespace = ns, rq_ExpectedClass = expectedClass, rq_Claim = c,
                    rq_CDIStorage = (dv \<and> storage \<noteq> None), rq_CDI = dv, rq_SourceKind = fst src, rq_Source = snd src,
                    rq_ScratchRequired = (dv \<and> dv_scratch spec),
                    rq_ContentType = (if dv then as_str (key spec ''contentType'') else []) \<rparr>)"

text \<open>The disks of one document: identity, namespace, specification and whether it is a data volume.\<close>

definition document_disks :: "string \<Rightarrow> (string \<times> any) list \<Rightarrow> (string \<times> string \<times> any \<times> bool) list" where
  "document_disks namespace doc =
     (let metadata = obj_of (key doc ''metadata''); name = as_str (key metadata ''name'');
          ns = (let n = as_str (key metadata ''namespace'') in if n = [] then namespace else n);
          kind = as_str (key doc ''kind'')
      in if kind = ''PersistentVolumeClaim'' \<or> kind = ''DataVolume'' then
           [(kind @ ''/'' @ name, ns, key doc ''spec'', kind = ''DataVolume'')]
         else if kind = ''VirtualMachine'' then
           map (\<lambda>item. let volume = obj_of item in
               (''VirtualMachine/'' @ name @ ''/'' @ as_str (key (obj_of (key volume ''metadata'')) ''name''), ns, key volume ''spec'', True))
             (as_list (key (obj_of (key doc ''spec'')) ''dataVolumeTemplates''))
         else [])"

fun add_requests ::
  "(any \<Rightarrow> string + storage_claim) \<Rightarrow> string \<Rightarrow> (string \<times> string \<times> any \<times> bool) list \<Rightarrow> string + storage_request list" where
  "add_requests decode expected [] = Inr []"
| "add_requests decode expected ((identity, ns, spec, dv) # ds) =
     (case add_request decode expected identity ns spec dv of
        Inl err \<Rightarrow> Inl err
      | Inr r \<Rightarrow> (case add_requests decode expected ds of Inl err \<Rightarrow> Inl err | Inr rs \<Rightarrow> Inr (r # rs)))"

definition StorageRequests ::
  "(string \<Rightarrow> string + (string \<times> any) list list) \<Rightarrow> (any \<Rightarrow> string + storage_claim) \<Rightarrow> string \<Rightarrow> string \<Rightarrow> string \<Rightarrow>
    string + storage_request list" where
  "StorageRequests documents decode data expectedClass namespace =
     (case documents data of
        Inl err \<Rightarrow> Inl err
      | Inr docs \<Rightarrow> add_requests decode expectedClass (concat (map (document_disks namespace) docs)))"

definition LabelStorageRequests :: "test_requirement \<Rightarrow> storage_request list \<Rightarrow> storage_request list" where
  "LabelStorageRequests tr rs =
     (if tr_ID tr = [] then rs
      else map (\<lambda>r. r\<lparr>rq_Identity := ExecutionLabel (tr_ID tr) (tr_Variant tr) @ ''/'' @ rq_Identity r\<rparr>) rs)"


section \<open>Pure decisions of the check\<close>

definition kubeDefaultAnnotation :: string where "kubeDefaultAnnotation = ''storageclass.kubernetes.io/is-default-class''"
definition virtDefaultAnnotation :: string where "virtDefaultAnnotation = ''storageclass.kubevirt.io/is-default-virt-class''"

definition marked_default :: "string \<Rightarrow> listed_class_info \<Rightarrow> bool" where
  "marked_default annotation c =
     (let value = (\<lambda>a. to_lower (gm_str (md_Annotations (li_Metadata c)) a)) in
      value annotation = ''true'' \<or>
      annotation = kubeDefaultAnnotation \<and> value ''storageclass.beta.kubernetes.io/is-default-class'' = ''true'')"

text \<open>Newest first, then by name.\<close>

definition by_age :: "listed_class_info list \<Rightarrow> listed_class_info list" where
  "by_age cs = sort_key (\<lambda>c. - md_CreationTimestamp (li_Metadata c)) (sort_key (\<lambda>c. md_Name (li_Metadata c)) cs)"

fun default_target :: "string list \<Rightarrow> listed_class_info list \<Rightarrow> string \<times> string" where
  "default_target [] classes = ([], ''no default StorageClass'')"
| "default_target (a # as) classes =
     (case by_age (filter (marked_default a) classes) of
        [] \<Rightarrow> default_target as classes
      | c # _ \<Rightarrow> (md_Name (li_Metadata c), a))"

definition storageTarget :: "storage_request \<Rightarrow> listed_class_info list \<Rightarrow> string \<times> string" where
  "storageTarget r classes =
     (case sl_StorageClassName (rq_Claim r) of
        Some name \<Rightarrow> (name, ''explicit storageClassName'')
      | None \<Rightarrow>
          default_target ((if rq_CDIStorage r \<and> rq_ContentType r \<noteq> ''archive'' then [virtDefaultAnnotation] else []) @ [kubeDefaultAnnotation])
            classes)"

fun decode_sets :: "(string \<Rightarrow> string + claim_property_set) \<Rightarrow> string list \<Rightarrow> string + claim_property_set list" where
  "decode_sets decode [] = Inr []"
| "decode_sets decode (raw # raws) =
     (case decode raw of
        Inl err \<Rightarrow> Inl (''decode claimPropertySets: '' @ err)
      | Inr s \<Rightarrow> (case decode_sets decode raws of Inl err \<Rightarrow> Inl err | Inr ss \<Rightarrow> Inr (s # ss)))"

definition or_filesystem :: "storage_claim \<Rightarrow> storage_claim" where
  "or_filesystem c = (if sl_VolumeMode c = [] then c\<lparr>sl_VolumeMode := ''Filesystem''\<rparr> else c)"

definition fill_claim :: "storage_claim \<Rightarrow> claim_property_set list \<Rightarrow> string + storage_claim" where
  "fill_claim claim sets =
     (if sl_AccessModes claim = [] \<and> sl_VolumeMode claim = [] then
        (case sets of
           [] \<Rightarrow> Inl ''no accessModes available to fill omitted accessModes and volumeMode''
         | s # _ \<Rightarrow>
             if cs_AccessModes s = [] then Inl ''no accessModes available to fill omitted accessModes and volumeMode''
             else Inr (claim\<lparr>sl_AccessModes := cs_AccessModes s, sl_VolumeMode := cs_VolumeMode s\<rparr>))
      else if sl_AccessModes claim = [] then
        (case find (\<lambda>s. cs_VolumeMode s = sl_VolumeMode claim \<and> cs_AccessModes s \<noteq> []) sets of
           None \<Rightarrow> Inl (''no matching accessModes for requested volumeMode='' @ sl_VolumeMode claim)
         | Some s \<Rightarrow> Inr (claim\<lparr>sl_AccessModes := cs_AccessModes s\<rparr>))
      else if sl_VolumeMode claim = [] then
        (case find (\<lambda>s. \<exists>a \<in> set (cs_AccessModes s). a \<in> set (sl_AccessModes claim)) sets of
           None \<Rightarrow> Inr claim
         | Some s \<Rightarrow> Inr (claim\<lparr>sl_VolumeMode := cs_VolumeMode s\<rparr>))
      else Inr claim)"

definition defaultStorageClaim :: "probe_codec \<Rightarrow> storage_claim \<Rightarrow> string list \<Rightarrow> string + storage_claim" where
  "defaultStorageClaim xp claim raws =
     (case decode_sets (xp_set xp) raws of
        Inl err \<Rightarrow> Inl err
      | Inr sets \<Rightarrow> (case fill_claim claim sets of Inl err \<Rightarrow> Inl err | Inr c \<Rightarrow> Inr (or_filesystem c)))"

definition known_access :: "string list" where
  "known_access = [''ReadWriteOnce'', ''ReadWriteMany'', ''ReadOnlyMany'', ''ReadWriteOncePod'']"

definition validateStorageClaim :: "storage_claim \<Rightarrow> string option" where
  "validateStorageClaim c =
     (if sl_VolumeMode c \<notin> set [[], ''Filesystem'', ''Block''] then Some (''invalid volumeMode '' @ go_quote (sl_VolumeMode c))
      else if sl_AccessModes c = [] then Some ''accessModes are missing and could not be resolved''
      else map_option (\<lambda>m. ''invalid accessMode '' @ go_quote m) (find (\<lambda>m. m \<notin> set known_access) (sl_AccessModes c)))"

section \<open>The check of one request\<close>

record check_caches =
  ca_profiles :: "(string, probe_error + string list) gomap"
  ca_sources :: "(string, probe_error + storage_source) gomap"
  ca_authorizations :: "(string, finding) gomap"
  ca_scratch :: "(probe_error + string) option"

definition no_caches :: check_caches where
  "no_caches = \<lparr> ca_profiles = [], ca_sources = [], ca_authorizations = [], ca_scratch = None \<rparr>"

definition emit :: "storage_request \<Rightarrow> finding \<Rightarrow> finding" where
  "emit r f = f\<lparr>fd_Message := rq_Identity r @ '': '' @ fd_Message f\<rparr>"

text \<open>The target class, and whether the check goes on with it.\<close>

definition check_target :: "storage_request \<Rightarrow> listed_class_info list \<Rightarrow> finding \<times> string option" where
  "check_target r classes =
     (case storageTarget r classes of
        (target, reason) \<Rightarrow>
          if target = [] then
            (if rq_ExpectedClass r \<noteq> [] then
               error_finding (''no target StorageClass selected ('' @ reason @ ''); backend requires '' @ go_quote (rq_ExpectedClass r))
             else warn_finding ''no target StorageClass selected; static PV binding is not checked'', None)
          else if target \<notin> (\<lambda>c. md_Name (li_Metadata c)) ` set classes then
            (error_finding (''target StorageClass '' @ go_quote target @ '' does not exist''), None)
          else if rq_ExpectedClass r \<noteq> [] \<and> target \<noteq> rq_ExpectedClass r then
            (error_finding (''target StorageClass '' @ go_quote target @ '' ('' @ reason @ '') differs from selected backend '' @
               go_quote (rq_ExpectedClass r) @ ''; set storageClassName on the disk''), Some target)
          else (info (''target StorageClass='' @ target @ '' ('' @ reason @ '')''), Some target))"

definition cached_profile ::
  "'w cluster \<Rightarrow> probe_codec \<Rightarrow> string \<Rightarrow> string \<Rightarrow> check_caches \<Rightarrow> ('w, (probe_error + string list) \<times> check_caches) state" where
  "cached_profile cl xp kc target ca =
     (case gm_get (ca_profiles ca) target of
        Some p \<Rightarrow> State_Monad.return (p, ca)
      | None \<Rightarrow> do {
          p \<leftarrow> readPreflightStorageProfile cl xp kc target;
          State_Monad.return (p, ca\<lparr>ca_profiles := gm_set target p (ca_profiles ca)\<rparr>)
        })"

definition error_level :: "probe_error \<Rightarrow> string \<Rightarrow> finding" where
  "error_level err msg = (case err of NotFound _ \<Rightarrow> error_finding msg | _ \<Rightarrow> warn_finding msg)"

definition omitted_text :: "probe_error \<Rightarrow> string" where
  "omitted_text err = ''cannot resolve omitted disk properties: '' @ probe_text err"

text \<open>The claim with the defaults of the profile, and the findings about it.\<close>

definition check_claim ::
  "'w cluster \<Rightarrow> probe_codec \<Rightarrow> string \<Rightarrow> storage_request \<Rightarrow> string \<Rightarrow> storage_claim \<Rightarrow> check_caches \<Rightarrow> ('w, finding list \<times> check_caches) state" where
  "check_claim cl xp kc r target claim ca =
     (let verdict_of = (\<lambda>c. case validateStorageClaim c of Some err \<Rightarrow> [error_finding err] | None \<Rightarrow> []) in
      if rq_CDIStorage r \<and> (sl_VolumeMode claim = [] \<or> sl_AccessModes claim = []) then do {
        p \<leftarrow> cached_profile cl xp kc target ca;
        State_Monad.return
          (case fst p of
             Inl err \<Rightarrow> [error_level err (omitted_text err)]
           | Inr raws \<Rightarrow>
               (case defaultStorageClaim xp claim raws of
                  Inl err \<Rightarrow> [error_finding (''StorageProfile '' @ go_quote target @ '': '' @ err)]
                | Inr c \<Rightarrow> info (''CDI defaults: accessModes='' @ join_with '','' (sl_AccessModes c) @ '' volumeMode='' @ sl_VolumeMode c)
                           # verdict_of c), snd p)
      } else State_Monad.return (verdict_of claim, ca))"


definition cached_source ::
  "'w cluster \<Rightarrow> probe_codec \<Rightarrow> string \<Rightarrow> storage_request \<Rightarrow> check_caches \<Rightarrow> ('w, (probe_error + storage_source) \<times> check_caches) state" where
  "cached_source cl xp kc r ca =
     (let k = rq_SourceKind r @ ''/'' @ sr_Namespace (rq_Source r) @ ''/'' @ sr_Name (rq_Source r) in
      case gm_get (ca_sources ca) k of
        Some s \<Rightarrow> State_Monad.return (s, ca)
      | None \<Rightarrow> do {
          s \<leftarrow> inspectStorageSource cl xp kc (rq_SourceKind r) (rq_Source r);
          State_Monad.return (s, ca\<lparr>ca_sources := gm_set k s (ca_sources ca)\<rparr>)
        })"

definition authorization_key :: "storage_request \<Rightarrow> storage_source \<Rightarrow> string" where
  "authorization_key r s =
     so_Kind s @ ''/'' @ sr_Namespace (so_Reference s) @ ''/'' @ sr_Name (so_Reference s) @
     (if sr_Namespace (so_Reference s) = rq_Namespace r then ''/same-namespace'' else []) @
     (if rq_Namespace r = [] then ''/unresolved-target'' else [])"

definition authorization_finding :: "storage_source \<Rightarrow> bool \<times> string option \<Rightarrow> finding" where
  "authorization_finding s a =
     (case snd a of
        Some err \<Rightarrow> warn_finding (''CDI clone authorization could not be verified: '' @ err)
      | None \<Rightarrow>
          if fst a then info ''CDI clone authorization permitted for current kubeconfig identity''
          else error_finding (''current kubeconfig identity lacks CDI clone authorization in source namespace '' @
                 go_quote (sr_Namespace (so_Reference s)) @ '' for '' @ so_Kind s @ '' '' @ go_quote (sr_Name (so_Reference s))))"

definition cached_authorization ::
  "'w cluster \<Rightarrow> probe_codec \<Rightarrow> string \<Rightarrow> storage_request \<Rightarrow> storage_source \<Rightarrow> check_caches \<Rightarrow> ('w, finding \<times> check_caches) state" where
  "cached_authorization cl xp kc r s ca =
     (let k = authorization_key r s in
      case gm_get (ca_authorizations ca) k of
        Some f \<Rightarrow> State_Monad.return (f, ca)
      | None \<Rightarrow> do {
          a \<leftarrow> checkCDICloneAccess cl xp kc (rq_Namespace r) s;
          let f = authorization_finding s a;
          State_Monad.return (f, ca\<lparr>ca_authorizations := gm_set k f (ca_authorizations ca)\<rparr>)
        })"

text \<open>The findings about the class of a source, and about the other facts of a readable source.\<close>

definition source_class_finding :: "string \<Rightarrow> probe_error + storage_source \<Rightarrow> finding" where
  "source_class_finding target s =
     (case s of
        Inl err \<Rightarrow>
          (let msg = ''boot source validation failed: '' @ probe_text err in
           case err of OtherError _ \<Rightarrow> warn_finding msg | _ \<Rightarrow> error_finding msg)
      | Inr src \<Rightarrow>
          if so_Class src = [] then
            warn_finding ''source exists and is ready; original StorageClass is unavailable; source/target class compatibility could not be assessed; continuing''
          else if so_Class src \<noteq> target then
            warn_finding (''source StorageClass '' @ go_quote (so_Class src) @ '' differs from target StorageClass '' @ go_quote target @
              ''; there may be a compatibility or performance issue; cloning might not be accelerated and could require host-assisted copying; continuing'')
          else info (''source StorageClass='' @ so_Class src @ '' matches target; acceleration is not verified''))"

definition provisioner_of :: "listed_class_info list \<Rightarrow> string \<Rightarrow> string" where
  "provisioner_of classes target =
     (case latest (\<lambda>c. md_Name (li_Metadata c)) target classes of Some c \<Rightarrow> li_Provisioner c | None \<Rightarrow> [])"

definition source_facts :: "storage_request \<Rightarrow> string \<Rightarrow> storage_source \<Rightarrow> finding list" where
  "source_facts r provisioner s =
     map info (so_Notes s) @
     (if so_Driver s = [] then []
      else if so_Driver s \<noteq> provisioner then
        [\<lparr> fd_Level = (if rq_CDI r then ''warn'' else ''error''),
           fd_Message = ''snapshot driver '' @ go_quote (so_Driver s) @ '' differs from target provisioner '' @ go_quote provisioner @
             ''; direct snapshot restore is incompatible and CDI may require host-assisted copying'' \<rparr>]
      else [info ''snapshot driver matches target provisioner; backend restore compatibility is not verified'']) @
     (if so_VolumeMode s = [] then [] else [info (''source volumeMode='' @ so_VolumeMode s)])"

definition check_source ::
  "'w cluster \<Rightarrow> probe_codec \<Rightarrow> string \<Rightarrow> listed_class_info list \<Rightarrow> storage_request \<Rightarrow> string \<Rightarrow> check_caches \<Rightarrow> ('w, finding list \<times> check_caches) state" where
  "check_source cl xp kc classes r target ca =
     (if rq_SourceKind r = [] then State_Monad.return ([], ca)
      else do {
        s \<leftarrow> cached_source cl xp kc r ca;
        case fst s of
          Inl err \<Rightarrow> State_Monad.return ([source_class_finding target (fst s)], snd s)
        | Inr src \<Rightarrow> do {
            let facts = source_class_finding target (fst s) # source_facts r (provisioner_of classes target) src;
            if rq_CDI r then do {
              a \<leftarrow> cached_authorization cl xp kc r src (snd s);
              State_Monad.return (facts @ [fst a], snd a)
            } else State_Monad.return
                (facts @ [warn_finding ''native PVC source authorization is not covered by CDI permission checks''], snd s)
          }
      })"

definition cached_scratch :: "'w cluster \<Rightarrow> probe_codec \<Rightarrow> string \<Rightarrow> check_caches \<Rightarrow> ('w, (probe_error + string) \<times> check_caches) state" where
  "cached_scratch cl xp kc ca =
     (case ca_scratch ca of
        Some s \<Rightarrow> State_Monad.return (s, ca)
      | None \<Rightarrow> do {
          s \<leftarrow> GetCDIConfig cl xp kc;
          State_Monad.return (s, ca\<lparr>ca_scratch := Some s\<rparr>)
        })"

definition scratch_finding :: "listed_class_info list \<Rightarrow> string \<Rightarrow> probe_error + string \<Rightarrow> finding" where
  "scratch_finding classes target s =
     (case s of
        Inl err \<Rightarrow> warn_finding (''scratch selection incomplete: '' @ probe_text err)
      | Inr configured \<Rightarrow>
          (let scratch = (if configured = [] then target else configured) in
           if scratch \<notin> (\<lambda>c. md_Name (li_Metadata c)) ` set classes then
             error_finding (''required CDI scratch StorageClass '' @ go_quote scratch @ '' does not exist'')
           else info (''CDI scratch StorageClass='' @ scratch @ ''; requires Filesystem + ReadWriteOnce; provisioning capability is not verified'')))"

definition check_scratch ::
  "'w cluster \<Rightarrow> probe_codec \<Rightarrow> string \<Rightarrow> listed_class_info list \<Rightarrow> storage_request \<Rightarrow> string \<Rightarrow> check_caches \<Rightarrow> ('w, finding list \<times> check_caches) state" where
  "check_scratch cl xp kc classes r target ca =
     (if \<not> rq_ScratchRequired r then State_Monad.return ([], ca)
      else do {
        s \<leftarrow> cached_scratch cl xp kc ca;
        State_Monad.return ([scratch_finding classes target (fst s)], snd s)
      })"

section \<open>The check of all requests\<close>

definition check_request ::
  "'w cluster \<Rightarrow> probe_codec \<Rightarrow> string \<Rightarrow> listed_class_info list \<Rightarrow> storage_request \<Rightarrow> check_caches \<Rightarrow> ('w, finding list \<times> check_caches) state" where
  "check_request cl xp kc classes r ca =
     (case check_target r classes of
        (f, None) \<Rightarrow> State_Monad.return ([f], ca)
      | (f, Some target) \<Rightarrow>
          (let archive = (rq_CDIStorage r \<and> rq_ContentType r = ''archive'');
               claim = (if archive then (rq_Claim r)\<lparr>sl_VolumeMode := ''Filesystem''\<rparr> else rq_Claim r)
           in if archive \<and> sl_VolumeMode (rq_Claim r) = ''Block'' then
                State_Monad.return ([f, error_finding ''archive content cannot use Block volumeMode''], ca)
              else do {
                c \<leftarrow> check_claim cl xp kc r target claim ca;
                s \<leftarrow> check_source cl xp kc classes r target (snd c);
                t \<leftarrow> check_scratch cl xp kc classes r target (snd s);
                State_Monad.return (f # fst c @ fst s @ fst t, snd t)
              }))"

fun check_requests ::
  "'w cluster \<Rightarrow> probe_codec \<Rightarrow> string \<Rightarrow> listed_class_info list \<Rightarrow> storage_request list \<Rightarrow> storage_request list \<Rightarrow> check_caches \<Rightarrow>
    ('w, finding list) state" where
  "check_requests cl xp kc classes [] seen ca = State_Monad.return []"
| "check_requests cl xp kc classes (r # rs) seen ca =
     (if r \<in> set seen then check_requests cl xp kc classes rs seen ca
      else do {
        f \<leftarrow> check_request cl xp kc classes r ca;
        fs \<leftarrow> check_requests cl xp kc classes rs (r # seen) (snd f);
        State_Monad.return (map (emit r) (fst f) @ fs)
      })"

definition CheckStorage :: "'w cluster \<Rightarrow> probe_codec \<Rightarrow> string \<Rightarrow> storage_request list \<Rightarrow> ('w, finding list) state" where
  "CheckStorage cl xp kc requests =
     (if requests = [] then State_Monad.return []
      else do {
        l \<leftarrow> ListStorageClasses cl xp kc;
        case l of
          Inl err \<Rightarrow> State_Monad.return [warn_finding (''storage preflight incomplete: '' @ err)]
        | Inr classes \<Rightarrow> check_requests cl xp kc classes requests [] no_caches
      })"


section \<open>A check without errors\<close>

definition no_errors :: "finding list \<Rightarrow> bool" where
  "no_errors fs = (\<forall>f \<in> set fs. fd_Level f \<noteq> ''error'')"

lemma no_errors_simps [simp]:
  "no_errors []" "no_errors (f # fs) \<longleftrightarrow> fd_Level f \<noteq> ''error'' \<and> no_errors fs"
  "no_errors (xs @ ys) \<longleftrightarrow> no_errors xs \<and> no_errors ys" "no_errors (map (emit r) fs) \<longleftrightarrow> no_errors fs"
  by (auto simp: no_errors_def emit_def)

lemma error_finding_level [simp]: "fd_Level (error_finding m) = ''error''"
  by (simp add: error_finding_def)

text \<open>The cached profiles are what the cluster reported after \<open>w0\<close>.\<close>

definition caches_ok :: "'w cluster \<Rightarrow> 'w \<Rightarrow> probe_codec \<Rightarrow> string \<Rightarrow> check_caches \<Rightarrow> bool" where
  "caches_ok cl w0 xp kc ca =
     (\<forall>t raws. gm_get (ca_profiles ca) t = Some (Inr raws) \<longrightarrow> reported cl w0 kc ''storageprofile'' t [] (xp_profile xp) raws)"

lemma caches_ok_simps [simp]:
  "caches_ok cl w0 xp kc no_caches"
  "caches_ok cl w0 xp kc (ca\<lparr>ca_sources := x\<rparr>) = caches_ok cl w0 xp kc ca"
  "caches_ok cl w0 xp kc (ca\<lparr>ca_authorizations := y\<rparr>) = caches_ok cl w0 xp kc ca"
  "caches_ok cl w0 xp kc (ca\<lparr>ca_scratch := z\<rparr>) = caches_ok cl w0 xp kc ca"
  by (simp_all add: caches_ok_def no_caches_def)

lemma yields_true: "yields cl w0 m P \<Longrightarrow> yields cl w0 m (\<lambda>_. True)"
  by (rule yields_weaken) simp_all

lemma yields_cached_profile:
  assumes "caches_ok cl w0 xp kc ca"
  shows "yields cl w0 (cached_profile cl xp kc target ca) (\<lambda>p. caches_ok cl w0 xp kc (snd p) \<and>
    (\<forall>raws. fst p = Inr raws \<longrightarrow> reported cl w0 kc ''storageprofile'' target [] (xp_profile xp) raws))"
  unfolding cached_profile_def readPreflightStorageProfile_def
  by (rule yields_option, rule yields_bind[OF yields_resource], rule yields_return)
    (use assms in \<open>auto simp: caches_ok_def intro!: yields_return\<close>)

lemma yields_cached_source:
  "caches_ok cl w0 xp kc ca \<Longrightarrow> yields cl w0 (cached_source cl xp kc r ca) (\<lambda>s. caches_ok cl w0 xp kc (snd s))"
  unfolding cached_source_def Let_def
  by (rule yields_option, rule yields_bind[OF yields_inspectStorageSource], rule yields_return, simp, rule yields_return, simp)

lemma yields_cached_authorization:
  "caches_ok cl w0 xp kc ca \<Longrightarrow> yields cl w0 (cached_authorization cl xp kc r s ca) (\<lambda>a. caches_ok cl w0 xp kc (snd a))"
  unfolding cached_authorization_def Let_def
  by (rule yields_option, rule yields_bind[OF yields_checkCDICloneAccess], rule yields_return, simp, rule yields_return, simp)

lemma yields_cached_scratch:
  "caches_ok cl w0 xp kc ca \<Longrightarrow> yields cl w0 (cached_scratch cl xp kc ca) (\<lambda>s. caches_ok cl w0 xp kc (snd s))"
  unfolding cached_scratch_def GetCDIConfig_def
  by (rule yields_option, rule yields_bind[OF yields_resource], rule yields_return, simp, rule yields_return, simp)

lemma yields_check_source:
  "caches_ok cl w0 xp kc ca \<Longrightarrow> yields cl w0 (check_source cl xp kc classes r target ca) (\<lambda>s. caches_ok cl w0 xp kc (snd s))"
  unfolding check_source_def Let_def
  by (rule yields_if, rule yields_return, simp, rule yields_bind[OF yields_cached_source], assumption, rule yields_sum,
      rule yields_return, simp, rule yields_if, rule yields_bind[OF yields_cached_authorization], assumption, rule yields_return, simp,
      rule yields_return, simp)

lemma yields_check_scratch:
  "caches_ok cl w0 xp kc ca \<Longrightarrow> yields cl w0 (check_scratch cl xp kc classes r target ca) (\<lambda>s. caches_ok cl w0 xp kc (snd s))"
  unfolding check_scratch_def
  by (rule yields_if, rule yields_return, simp, rule yields_bind[OF yields_cached_scratch], assumption, rule yields_return, simp)

section \<open>The claim of a request\<close>

definition effective_claim :: "storage_request \<Rightarrow> storage_claim" where
  "effective_claim r = (if rq_CDIStorage r \<and> rq_ContentType r = ''archive'' then (rq_Claim r)\<lparr>sl_VolumeMode := ''Filesystem''\<rparr> else rq_Claim r)"

text \<open>The claim leaves open what the profile of the class has to fill in.\<close>

definition claim_open :: "storage_request \<Rightarrow> bool" where
  "claim_open r = (rq_CDIStorage r \<and> (sl_VolumeMode (effective_claim r) = [] \<or> sl_AccessModes (effective_claim r) = []))"

text \<open>The claim is valid as written, or with the defaults of the profile of the class that the cluster reported.\<close>

definition claim_valid :: "'w cluster \<Rightarrow> 'w \<Rightarrow> probe_codec \<Rightarrow> string \<Rightarrow> storage_request \<Rightarrow> string \<Rightarrow> bool" where
  "claim_valid cl w0 xp kc r target =
     (if claim_open r then
        (\<exists>raws c. reported cl w0 kc ''storageprofile'' target [] (xp_profile xp) raws \<and>
           defaultStorageClaim xp (effective_claim r) raws = Inr c \<and> validateStorageClaim c = None)
      else validateStorageClaim (effective_claim r) = None)"

definition claim_accepted :: "'w cluster \<Rightarrow> 'w \<Rightarrow> probe_codec \<Rightarrow> string \<Rightarrow> storage_request \<Rightarrow> string \<Rightarrow> finding list \<Rightarrow> bool" where
  "claim_accepted cl w0 xp kc r target fs =
     (claim_valid cl w0 xp kc r target \<or> claim_open r \<and> (\<exists>err. emit r (warn_finding (omitted_text err)) \<in> set fs))"

lemma claim_accepted_mono: "claim_accepted cl w0 xp kc r target fs \<Longrightarrow> set fs \<subseteq> set gs \<Longrightarrow> claim_accepted cl w0 xp kc r target gs"
  by (auto simp: claim_accepted_def)

lemma claim_accepted_grow: "claim_accepted cl w0 xp kc r target xs \<Longrightarrow> claim_accepted cl w0 xp kc r target (y # xs @ ys)"
  by (rule claim_accepted_mono) auto

lemma validate_no_errors:
  "no_errors (case validateStorageClaim c of Some err \<Rightarrow> [error_finding err] | None \<Rightarrow> []) \<longleftrightarrow> validateStorageClaim c = None"
  by (cases "validateStorageClaim c") simp_all

lemma error_level_warned:
  "fd_Level (error_level err (omitted_text err)) \<noteq> ''error'' \<Longrightarrow>
     \<exists>e. emit r (warn_finding (omitted_text e)) = emit r (error_level err (omitted_text err))"
  by (cases err) (auto simp: error_level_def)

lemma yields_check_claim:
  assumes "caches_ok cl w0 xp kc ca"
  shows "yields cl w0 (check_claim cl xp kc r target (effective_claim r) ca) (\<lambda>c. caches_ok cl w0 xp kc (snd c) \<and>
    (no_errors (fst c) \<longrightarrow> claim_accepted cl w0 xp kc r target (map (emit r) (fst c))))"
  unfolding check_claim_def Let_def
proof (rule yields_if)
  assume om: "rq_CDIStorage r \<and> (sl_VolumeMode (effective_claim r) = [] \<or> sl_AccessModes (effective_claim r) = [])"
  show "yields cl w0 (do {
        p \<leftarrow> cached_profile cl xp kc target ca;
        State_Monad.return
          (case fst p of
             Inl err \<Rightarrow> [error_level err (omitted_text err)]
           | Inr raws \<Rightarrow>
               (case defaultStorageClaim xp (effective_claim r) raws of
                  Inl err \<Rightarrow> [error_finding (''StorageProfile '' @ go_quote target @ '': '' @ err)]
                | Inr c \<Rightarrow> info (''CDI defaults: accessModes='' @ join_with '','' (sl_AccessModes c) @ '' volumeMode='' @ sl_VolumeMode c)
                           # (case validateStorageClaim c of Some err \<Rightarrow> [error_finding err] | None \<Rightarrow> [])), snd p) })
     (\<lambda>c. caches_ok cl w0 xp kc (snd c) \<and> (no_errors (fst c) \<longrightarrow> claim_accepted cl w0 xp kc r target (map (emit r) (fst c))))"
    by (rule yields_bind[OF yields_cached_profile[OF assms]], rule yields_return)
      (use om in \<open>auto simp: claim_accepted_def claim_valid_def claim_open_def validate_no_errors split: sum.splits intro: error_level_warned\<close>)
next
  assume "\<not> (rq_CDIStorage r \<and> (sl_VolumeMode (effective_claim r) = [] \<or> sl_AccessModes (effective_claim r) = []))"
  then show "yields cl w0 (State_Monad.return (case validateStorageClaim (effective_claim r) of Some err \<Rightarrow> [error_finding err] | None \<Rightarrow> [], ca))
     (\<lambda>c. caches_ok cl w0 xp kc (snd c) \<and> (no_errors (fst c) \<longrightarrow> claim_accepted cl w0 xp kc r target (map (emit r) (fst c))))"
    using assms by (intro yields_return) (auto simp: claim_accepted_def claim_valid_def claim_open_def validate_no_errors)
qed

section \<open>A request without errors\<close>

lemma check_target_ok:
  assumes "check_target r classes = (f, t)" and "fd_Level f \<noteq> ''error''" and "rq_ExpectedClass r \<noteq> []"
  shows "t = Some (rq_ExpectedClass r) \<and> fst (storageTarget r classes) = rq_ExpectedClass r \<and>
    rq_ExpectedClass r \<in> (\<lambda>c. md_Name (li_Metadata c)) ` set classes"
  using assms by (auto simp: check_target_def split: prod.splits if_splits)

text \<open>What the findings of one request say when none of them is an error.\<close>

definition request_ok ::
  "'w cluster \<Rightarrow> 'w \<Rightarrow> probe_codec \<Rightarrow> string \<Rightarrow> listed_class_info list \<Rightarrow> storage_request \<Rightarrow> finding list \<Rightarrow> bool" where
  "request_ok cl w0 xp kc classes r fs =
     (fd_Level (fst (check_target r classes)) \<noteq> ''error'' \<and>
      (\<forall>target. snd (check_target r classes) = Some target \<longrightarrow>
         \<not> (rq_CDIStorage r \<and> rq_ContentType r = ''archive'' \<and> sl_VolumeMode (rq_Claim r) = ''Block'') \<and>
         claim_accepted cl w0 xp kc r target fs))"

lemma request_ok_mono: "request_ok cl w0 xp kc classes r fs \<Longrightarrow> set fs \<subseteq> set gs \<Longrightarrow> request_ok cl w0 xp kc classes r gs"
  unfolding request_ok_def by (metis claim_accepted_mono)

lemma yields_check_request:
  assumes "caches_ok cl w0 xp kc ca"
  shows "yields cl w0 (check_request cl xp kc classes r ca) (\<lambda>c. caches_ok cl w0 xp kc (snd c) \<and>
    (no_errors (fst c) \<longrightarrow> request_ok cl w0 xp kc classes r (map (emit r) (fst c))))"
proof (cases "snd (check_target r classes)")
  case None
  then obtain f where "check_target r classes = (f, None)" by (metis prod.collapse)
  then show ?thesis using assms by (simp add: check_request_def request_ok_def yields_return)
next
  case (Some target)
  then obtain f where f: "check_target r classes = (f, Some target)" by (metis prod.collapse)
  have "yields cl w0 (do {
        c \<leftarrow> check_claim cl xp kc r target (effective_claim r) ca;
        s \<leftarrow> check_source cl xp kc classes r target (snd c);
        t \<leftarrow> check_scratch cl xp kc classes r target (snd s);
        State_Monad.return (f # fst c @ fst s @ fst t, snd t) })
     (\<lambda>c. caches_ok cl w0 xp kc (snd c) \<and> (no_errors (fst c) \<longrightarrow>
        fd_Level f \<noteq> ''error'' \<and> claim_accepted cl w0 xp kc r target (map (emit r) (fst c))))"
    by (rule yields_bind[OF yields_check_claim[OF assms]], elim conjE, rule yields_bind[OF yields_check_source], assumption,
        rule yields_bind[OF yields_check_scratch], assumption, rule yields_return)
      (simp add: claim_accepted_grow)
  then have "yields cl w0 (if rq_CDIStorage r \<and> rq_ContentType r = ''archive'' \<and> sl_VolumeMode (rq_Claim r) = ''Block''
        then State_Monad.return ([f, error_finding ''archive content cannot use Block volumeMode''], ca)
        else do {
          c \<leftarrow> check_claim cl xp kc r target (effective_claim r) ca;
          s \<leftarrow> check_source cl xp kc classes r target (snd c);
          t \<leftarrow> check_scratch cl xp kc classes r target (snd s);
          State_Monad.return (f # fst c @ fst s @ fst t, snd t) })
     (\<lambda>c. caches_ok cl w0 xp kc (snd c) \<and> (no_errors (fst c) \<longrightarrow> request_ok cl w0 xp kc classes r (map (emit r) (fst c))))"
    using assms f by (intro yields_if yields_return) (auto simp: request_ok_def elim: yields_weaken)
  moreover have "check_request cl xp kc classes r ca =
      (if rq_CDIStorage r \<and> rq_ContentType r = ''archive'' \<and> sl_VolumeMode (rq_Claim r) = ''Block''
        then State_Monad.return ([f, error_finding ''archive content cannot use Block volumeMode''], ca)
        else do {
          c \<leftarrow> check_claim cl xp kc r target (effective_claim r) ca;
          s \<leftarrow> check_source cl xp kc classes r target (snd c);
          t \<leftarrow> check_scratch cl xp kc classes r target (snd s);
          State_Monad.return (f # fst c @ fst s @ fst t, snd t) })"
    by (simp only: check_request_def f Let_def effective_claim_def prod.case option.case conj_assoc)
  ultimately show ?thesis by simp
qed

lemma requests_join:
  assumes "request_ok cl w0 xp kc classes q a" and "\<forall>r \<in> set qs - set (q # seen). request_ok cl w0 xp kc classes r b"
  shows "\<forall>r \<in> set (q # qs) - set seen. request_ok cl w0 xp kc classes r (a @ b)"
proof
  fix r assume r: "r \<in> set (q # qs) - set seen"
  show "request_ok cl w0 xp kc classes r (a @ b)"
  proof (cases "r = q")
    case True
    then show ?thesis using assms(1) by (auto elim: request_ok_mono)
  next
    case False
    then have "request_ok cl w0 xp kc classes r b" using r assms(2) by simp
    then show ?thesis by (rule request_ok_mono) simp
  qed
qed

lemma yields_check_requests:
  assumes "caches_ok cl w0 xp kc ca"
  shows "yields cl w0 (check_requests cl xp kc classes rs seen ca) (\<lambda>fs. no_errors fs \<longrightarrow>
    (\<forall>r \<in> set rs - set seen. request_ok cl w0 xp kc classes r fs))"
  using assms
proof (induction rs arbitrary: seen ca)
  case Nil
  then show ?case by (simp add: yields_return)
next
  case (Cons q qs)
  show ?case
    unfolding check_requests.simps
  proof (rule yields_if)
    assume "q \<in> set seen"
    then show "yields cl w0 (check_requests cl xp kc classes qs seen ca) (\<lambda>fs. no_errors fs \<longrightarrow>
        (\<forall>r \<in> set (q # qs) - set seen. request_ok cl w0 xp kc classes r fs))"
      by (intro yields_weaken[OF Cons.IH[OF Cons.prems]]) auto
  next
    show "yields cl w0 (do { f \<leftarrow> check_request cl xp kc classes q ca; fs \<leftarrow> check_requests cl xp kc classes qs (q # seen) (snd f);
          State_Monad.return (map (emit q) (fst f) @ fs) })
        (\<lambda>fs. no_errors fs \<longrightarrow> (\<forall>r \<in> set (q # qs) - set seen. request_ok cl w0 xp kc classes r fs))"
      by (rule yields_bind[OF yields_check_request[OF Cons.prems]], elim conjE, rule yields_bind[OF Cons.IH], assumption, rule yields_return)
        (intro impI requests_join, simp_all)
  qed
qed


definition gold_class :: listed_class_info where
  "gold_class = \<lparr> li_Metadata = \<lparr> md_CreationTimestamp = 0, md_UID = [], md_DeletionTimestamp = [], md_Labels = [], md_Name = ''gold'',
     md_Namespace = [], md_Annotations = [] \<rparr>, li_Provisioner = ''csi'' \<rparr>"

definition gold_codec :: probe_codec where
  "gold_codec = bound_codec\<lparr>xp_classes := (\<lambda>d. Inr [gold_class])\<rparr>"

text \<open>A codec whose profile of the class offers shared block volumes, and two disks: one written out, one left open.\<close>

definition profile_codec :: probe_codec where
  "profile_codec = gold_codec\<lparr>xp_profile := (\<lambda>d. Inr [''Block'']),
     xp_set := (\<lambda>d. Inr \<lparr> cs_VolumeMode = d, cs_AccessModes = [''ReadWriteMany''] \<rparr>)\<rparr>"

definition gold_request :: storage_request where
  "gold_request =
     \<lparr> rq_Identity = ''DataVolume/root'', rq_Namespace = ''vms'', rq_ExpectedClass = ''gold'',
       rq_Claim = \<lparr> sl_StorageClassName = Some ''gold'', sl_AccessModes = [''ReadWriteMany''], sl_VolumeMode = ''Block'' \<rparr>,
       rq_CDIStorage = True, rq_CDI = True, rq_SourceKind = [], rq_Source = no_reference, rq_ScratchRequired = False, rq_ContentType = [] \<rparr>"

definition open_request :: storage_request where
  "open_request = gold_request\<lparr>rq_Identity := ''DataVolume/data'',
     rq_Claim := \<lparr> sl_StorageClassName = Some ''gold'', sl_AccessModes = [], sl_VolumeMode = [] \<rparr>\<rparr>"

lemma profile_check:
  "run_state (CheckStorage csi_cluster profile_codec [] [gold_request, open_request]) () =
     ([info ''DataVolume/root: target StorageClass=gold (explicit storageClassName)'',
       info ''DataVolume/data: target StorageClass=gold (explicit storageClassName)'',
       info ''DataVolume/data: CDI defaults: accessModes=ReadWriteMany volumeMode=Block''], ())"
proof -
  have l: "run_state (ListStorageClasses csi_cluster profile_codec []) () = (Inr [gold_class], ())"
    by (simp add: ListStorageClasses_def csi_command gold_codec_def profile_codec_def)
  have t: "check_target gold_request [gold_class] = (info ''target StorageClass=gold (explicit storageClassName)'', Some ''gold'')"
    "check_target open_request [gold_class] = (info ''target StorageClass=gold (explicit storageClassName)'', Some ''gold'')"
    by (simp_all add: check_target_def storageTarget_def gold_request_def open_request_def gold_class_def)
  have r: "run_state (readPreflightStorageProfile csi_cluster profile_codec [] ''gold'') () = (Inr [''Block''], ())"
    by (simp add: readPreflightStorageProfile_def readPreflightResource_def csi_command profile_codec_def trim_space_def is_space_def has_prefix_def)
  have d: "defaultStorageClaim profile_codec (rq_Claim open_request) [''Block''] =
      Inr \<lparr> sl_StorageClassName = Some ''gold'', sl_AccessModes = [''ReadWriteMany''], sl_VolumeMode = ''Block'' \<rparr>"
    by (simp add: defaultStorageClaim_def fill_claim_def or_filesystem_def profile_codec_def open_request_def)
  have ne: "open_request \<noteq> gold_request" by (simp add: open_request_def gold_request_def)
  have g: "run_state (check_request csi_cluster profile_codec [] [gold_class] gold_request no_caches) () =
      (([info ''target StorageClass=gold (explicit storageClassName)''], no_caches), ())"
    using t(1) by (simp add: check_request_def check_claim_def check_source_def check_scratch_def gold_request_def
        validateStorageClaim_def known_access_def)
  have o: "run_state (check_request csi_cluster profile_codec [] [gold_class] open_request no_caches) () =
      (([info ''target StorageClass=gold (explicit storageClassName)'', info ''CDI defaults: accessModes=ReadWriteMany volumeMode=Block''],
        no_caches\<lparr>ca_profiles := [(''gold'', Inr [''Block''])]\<rparr>), ())"
    using t(2) r d by (simp add: check_request_def check_claim_def check_source_def check_scratch_def cached_profile_def no_caches_def
        gm_set_def open_request_def gold_request_def validateStorageClaim_def known_access_def)
  show ?thesis using l g o ne by (simp add: CheckStorage_def emit_def info_def) (simp add: gold_request_def open_request_def)
qed


section \<open>Defaults\<close>

text \<open>
  The defaults CDI would fill in never change what the claim states, and leave neither the
  access modes nor the volume mode open; filled access modes come from one property set of the
  profile, of the requested volume mode where the claim states one.
\<close>

theorem defaultStorageClaim_fills:
  assumes "defaultStorageClaim xp claim raws = Inr c"
  shows "sl_StorageClassName c = sl_StorageClassName claim \<and> sl_AccessModes c \<noteq> [] \<and> sl_VolumeMode c \<noteq> [] \<and>
    (sl_AccessModes claim \<noteq> [] \<longrightarrow> sl_AccessModes c = sl_AccessModes claim) \<and>
    (sl_VolumeMode claim \<noteq> [] \<longrightarrow> sl_VolumeMode c = sl_VolumeMode claim) \<and>
    (sl_AccessModes claim = [] \<longrightarrow>
       (\<exists>raw \<in> set raws. \<exists>s. xp_set xp raw = Inr s \<and> sl_AccessModes c = cs_AccessModes s \<and>
          (sl_VolumeMode claim \<noteq> [] \<longrightarrow> cs_VolumeMode s = sl_VolumeMode claim)))"
proof -
  have decode: "\<exists>raw \<in> set raws. xp_set xp raw = Inr s" if "decode_sets (xp_set xp) raws = Inr sets" "s \<in> set sets" for sets s
    using that by (induction raws arbitrary: sets) (auto split: sum.splits)
  from assms obtain sets c1 where s: "decode_sets (xp_set xp) raws = Inr sets" and f: "fill_claim claim sets = Inr c1" and c: "c = or_filesystem c1"
    by (auto simp: defaultStorageClaim_def split: sum.splits)
  have "sl_StorageClassName c1 = sl_StorageClassName claim \<and> sl_AccessModes c1 \<noteq> [] \<and>
    (sl_AccessModes claim \<noteq> [] \<longrightarrow> sl_AccessModes c1 = sl_AccessModes claim) \<and>
    (sl_VolumeMode claim \<noteq> [] \<longrightarrow> sl_VolumeMode c1 = sl_VolumeMode claim) \<and>
    (sl_AccessModes claim = [] \<longrightarrow> (\<exists>s \<in> set sets. sl_AccessModes c1 = cs_AccessModes s \<and>
       (sl_VolumeMode claim \<noteq> [] \<longrightarrow> cs_VolumeMode s = sl_VolumeMode claim)))"
    using f by (auto simp: fill_claim_def find_Some_iff split: if_splits list.splits option.splits)
  then show ?thesis using c decode[OF s] by (auto simp: or_filesystem_def)
qed

theorem defaultStorageClaim_fills_witness:
  "sl_AccessModes \<lparr> sl_StorageClassName = None, sl_AccessModes = [''ReadWriteMany''], sl_VolumeMode = ''Block'' \<rparr> \<noteq> []"
proof -
  have d: "defaultStorageClaim (bound_codec\<lparr>xp_set := (\<lambda>d. Inr \<lparr> cs_VolumeMode = d, cs_AccessModes = [''ReadWriteMany''] \<rparr>)\<rparr>)
      \<lparr> sl_StorageClassName = None, sl_AccessModes = [], sl_VolumeMode = [] \<rparr> [''Block''] =
    Inr \<lparr> sl_StorageClassName = None, sl_AccessModes = [''ReadWriteMany''], sl_VolumeMode = ''Block'' \<rparr>"
    by (simp add: defaultStorageClaim_def fill_claim_def or_filesystem_def)
  show ?thesis using defaultStorageClaim_fills[OF d] by blast
qed

text \<open>The default class is the newest among those marked, and the first by name among the newest.\<close>

lemma by_age_hd:
  assumes "by_age cs = c # rest" and "d \<in> set cs"
  shows "c \<in> set cs \<and> md_CreationTimestamp (li_Metadata d) \<le> md_CreationTimestamp (li_Metadata c)"
proof -
  have "set (c # rest) = set cs" using assms(1) by (metis by_age_def set_sort)
  moreover have "sorted (map (\<lambda>c. - md_CreationTimestamp (li_Metadata c)) (c # rest))"
    using assms(1) unfolding by_age_def by (metis sorted_sort_key)
  ultimately show ?thesis using assms(2) by auto
qed


section \<open>The requests of the documents\<close>

lemma in_namespace_set: "ns \<noteq> [] \<Longrightarrow> sr_Namespace (in_namespace ns ref) \<noteq> []"
  by (simp add: in_namespace_def)

lemma pvc_source_namespace: "ns \<noteq> [] \<Longrightarrow> fst (pvc_source ns spec) \<noteq> [] \<Longrightarrow> sr_Namespace (snd (pvc_source ns spec)) \<noteq> []"
  by (auto simp: pvc_source_def in_namespace_set split: option.splits if_splits)

text \<open>
  What the disks of a document are, stated over the JSON value alone: the value at a path, and a
  disk with the value its claim is read from.
\<close>

fun json_at :: "any \<Rightarrow> string list \<Rightarrow> any" where
  "json_at v [] = v"
| "json_at (AObj m) (k # ks) = (case gm_get m k of Some v \<Rightarrow> json_at v ks | None \<Rightarrow> ANil)"
| "json_at _ (k # ks) = ANil"

definition text_at :: "any \<Rightarrow> string list \<Rightarrow> string" where
  "text_at v path = (case json_at v path of AStr s \<Rightarrow> s | _ \<Rightarrow> [])"

definition items_at :: "any \<Rightarrow> string list \<Rightarrow> any list" where
  "items_at v path = (case json_at v path of AList xs \<Rightarrow> xs | _ \<Rightarrow> [])"

definition object_at :: "any \<Rightarrow> string list \<Rightarrow> bool" where
  "object_at v path = (case json_at v path of AObj m \<Rightarrow> True | _ \<Rightarrow> False)"

record disk =
  dk_Identity :: string
  dk_Namespace :: string
  dk_Claim :: any
  dk_Storage :: bool
  dk_CDI :: bool
  dk_ContentType :: string

text \<open>
  A volume of CDI has its claim in the object \<open>storage\<close>, or else in the object \<open>pvc\<close>, of its
  specification; a plain claim is the specification itself.
\<close>

inductive volume_disk :: "string \<Rightarrow> string \<Rightarrow> any \<Rightarrow> disk \<Rightarrow> bool" for idn ns spec where
  from_storage: "object_at spec [''storage''] \<Longrightarrow> volume_disk idn ns spec
     \<lparr> dk_Identity = idn, dk_Namespace = ns, dk_Claim = json_at spec [''storage''], dk_Storage = True, dk_CDI = True,
       dk_ContentType = text_at spec [''contentType''] \<rparr>"
| from_pvc: "\<not> object_at spec [''storage''] \<Longrightarrow> object_at spec [''pvc''] \<Longrightarrow> volume_disk idn ns spec
     \<lparr> dk_Identity = idn, dk_Namespace = ns, dk_Claim = json_at spec [''pvc''], dk_Storage = False, dk_CDI = True,
       dk_ContentType = text_at spec [''contentType''] \<rparr>"

definition disk_namespace :: "string \<Rightarrow> any \<Rightarrow> string" where
  "disk_namespace ns doc = (let n = text_at doc [''metadata'', ''namespace''] in if n = [] then ns else n)"

inductive disks_of :: "string \<Rightarrow> any \<Rightarrow> disk list \<Rightarrow> bool" for ns where
  claim_disk: "text_at doc [''kind''] = ''PersistentVolumeClaim'' \<Longrightarrow> disks_of ns doc
     [\<lparr> dk_Identity = ''PersistentVolumeClaim/'' @ text_at doc [''metadata'', ''name''], dk_Namespace = disk_namespace ns doc,
        dk_Claim = (if object_at doc [''spec''] then json_at doc [''spec''] else ANil), dk_Storage = False, dk_CDI = False, dk_ContentType = [] \<rparr>]"
| data_volume: "text_at doc [''kind''] = ''DataVolume'' \<Longrightarrow>
     volume_disk (''DataVolume/'' @ text_at doc [''metadata'', ''name'']) (disk_namespace ns doc) (json_at doc [''spec'']) d \<Longrightarrow> disks_of ns doc [d]"
| machine: "text_at doc [''kind''] = ''VirtualMachine'' \<Longrightarrow>
     list_all2 (\<lambda>t d. volume_disk (''VirtualMachine/'' @ text_at doc [''metadata'', ''name''] @ ''/'' @ text_at t [''metadata'', ''name''])
          (disk_namespace ns doc) (json_at t [''spec'']) d) (items_at doc [''spec'', ''dataVolumeTemplates'']) ds \<Longrightarrow> disks_of ns doc ds"
| no_disks: "text_at doc [''kind''] \<notin> {''PersistentVolumeClaim'', ''DataVolume'', ''VirtualMachine''} \<Longrightarrow> disks_of ns doc []"

lemma json_at_key: "json_at v (k # ks) = json_at (key (obj_of v) k) ks"
proof -
  have n: "json_at ANil ks = ANil" for ks by (cases ks) simp_all
  show ?thesis by (cases v) (simp_all add: key_def obj_of_def n split: option.split)
qed

declare json_at.simps(2,3) [simp del]

lemma text_at_key: "text_at v (k # ks) = text_at (key (obj_of v) k) ks" "text_at v [] = as_str v"
  and items_at_key: "items_at v (k # ks) = items_at (key (obj_of v) k) ks" "items_at v [] = as_list v"
  and object_at_key: "object_at v (k # ks) = object_at (key (obj_of v) k) ks" "object_at v [] = (as_obj v \<noteq> None)"
  by (simp_all add: text_at_def items_at_def object_at_def json_at_key split: any.split)

lemmas json_paths = json_at_key text_at_key items_at_key object_at_key

definition request_typed :: "(any \<Rightarrow> string + storage_claim) \<Rightarrow> string \<Rightarrow> disk \<Rightarrow> storage_request \<Rightarrow> bool" where
  "request_typed decode expectedClass d r =
     (rq_Identity r = dk_Identity d \<and> rq_Namespace r = dk_Namespace d \<and> rq_ExpectedClass r = expectedClass \<and>
      decode (dk_Claim d) = Inr (rq_Claim r) \<and> rq_CDIStorage r = dk_Storage d \<and> rq_CDI r = dk_CDI d \<and> rq_ContentType r = dk_ContentType d \<and>
      (rq_ScratchRequired r \<longrightarrow> rq_CDI r) \<and>
      (rq_Namespace r \<noteq> [] \<and> rq_SourceKind r \<noteq> [] \<longrightarrow> sr_Namespace (rq_Source r) \<noteq> []))"

lemma as_obj_Some: "as_obj v = Some m \<longleftrightarrow> v = AObj m"
  by (cases v) auto

lemma add_request_claim:
  assumes "add_request decode ec idn ns spec False = Inr r"
  shows "request_typed decode ec \<lparr> dk_Identity = idn, dk_Namespace = ns, dk_Claim = (if object_at spec [] then spec else ANil),
    dk_Storage = False, dk_CDI = False, dk_ContentType = [] \<rparr> r"
  using assms
  by (cases "as_obj spec") (auto simp: add_request_def request_typed_def Let_def json_paths as_obj_Some pvc_source_namespace split: sum.splits)

lemma add_request_volume:
  assumes "add_request decode ec idn ns spec True = Inr r"
  shows "\<exists>d. volume_disk idn ns spec d \<and> request_typed decode ec d r"
proof (cases "as_obj (key (obj_of spec) ''storage'')")
  case None
  with assms obtain m where m: "key (obj_of spec) ''pvc'' = AObj m"
    by (auto simp: add_request_def Let_def as_obj_Some split: if_splits)
  have "volume_disk idn ns spec \<lparr> dk_Identity = idn, dk_Namespace = ns, dk_Claim = json_at spec [''pvc''], dk_Storage = False, dk_CDI = True,
      dk_ContentType = text_at spec [''contentType''] \<rparr>"
    using None m by (intro from_pvc) (simp_all add: json_paths)
  then show ?thesis
    using assms None m
    by (intro exI conjI) (assumption, auto simp: add_request_def request_typed_def Let_def json_paths in_namespace_set split: sum.splits)
next
  case (Some m)
  then have m: "key (obj_of spec) ''storage'' = AObj m" by (simp add: as_obj_Some)
  have "volume_disk idn ns spec \<lparr> dk_Identity = idn, dk_Namespace = ns, dk_Claim = json_at spec [''storage''], dk_Storage = True, dk_CDI = True,
      dk_ContentType = text_at spec [''contentType''] \<rparr>"
    using Some by (intro from_storage) (simp add: json_paths)
  then show ?thesis
    using assms Some m
    by (intro exI conjI) (assumption, auto simp: add_request_def request_typed_def Let_def json_paths in_namespace_set split: sum.splits)
qed

lemma add_requests_split:
  assumes "add_requests decode ec (ds @ es) = Inr rs"
  obtains as bs where "rs = as @ bs" "add_requests decode ec ds = Inr as" "add_requests decode ec es = Inr bs"
proof -
  have "\<exists>as bs. rs = as @ bs \<and> add_requests decode ec ds = Inr as \<and> add_requests decode ec es = Inr bs"
    using assms
  proof (induction ds arbitrary: rs)
    case (Cons d ds)
    obtain idn ns spec dv where d: "d = (idn, ns, spec, dv)" by (metis prod.collapse)
    from Cons.prems obtain r rs' where r: "add_request decode ec idn ns spec dv = Inr r" "add_requests decode ec (ds @ es) = Inr rs'" "rs = r # rs'"
      by (auto simp: d split: sum.splits)
    from Cons.IH[OF r(2)] obtain as bs where "rs' = as @ bs" "add_requests decode ec ds = Inr as" "add_requests decode ec es = Inr bs" by blast
    with r show ?case by (intro exI[of _ "r # as"] exI[of _ bs]) (simp add: d)
  qed simp
  then show ?thesis using that by blast
qed

lemma add_requests_volumes:
  assumes "add_requests decode ec (map (\<lambda>t. (idn t, ns, spec t, True)) ts) = Inr rs"
  shows "\<exists>ds. list_all2 (\<lambda>t d. volume_disk (idn t) ns (spec t) d) ts ds \<and> list_all2 (request_typed decode ec) ds rs"
  using assms
proof (induction ts arbitrary: rs)
  case (Cons t ts)
  from Cons.prems obtain r rs' where r: "add_request decode ec (idn t) ns (spec t) True = Inr r" "rs = r # rs'"
      "add_requests decode ec (map (\<lambda>t. (idn t, ns, spec t, True)) ts) = Inr rs'"
    by (auto split: sum.splits)
  from add_request_volume[OF r(1)] obtain d where "volume_disk (idn t) ns (spec t) d" "request_typed decode ec d r" by blast
  moreover from Cons.IH[OF r(3)] obtain ds where "list_all2 (\<lambda>t d. volume_disk (idn t) ns (spec t) d) ts ds" "list_all2 (request_typed decode ec) ds rs'"
    by blast
  ultimately show ?case using r(2) by (intro exI[of _ "d # ds"]) simp
qed simp

lemma document_requests:
  assumes "add_requests decode ec (document_disks ns doc) = Inr rs"
  shows "\<exists>ds. disks_of ns (AObj doc) ds \<and> list_all2 (request_typed decode ec) ds rs"
proof -
  let ?v = "AObj doc"
  have o: "obj_of ?v = doc" by (simp add: obj_of_def)
  have k: "text_at ?v [''kind''] = as_str (key doc ''kind'')" "json_at ?v [''spec''] = key doc ''spec''"
    "text_at ?v [''metadata'', ''name''] = as_str (key (obj_of (key doc ''metadata'')) ''name'')"
    "object_at ?v [''spec''] = object_at (key doc ''spec'') []"
    "items_at ?v [''spec'', ''dataVolumeTemplates''] = as_list (key (obj_of (key doc ''spec'')) ''dataVolumeTemplates'')"
    by (simp_all add: json_paths o)
  let ?n = "disk_namespace ns ?v" and ?name = "text_at ?v [''metadata'', ''name'']"
  have n: "?n = (if as_str (key (obj_of (key doc ''metadata'')) ''namespace'') = [] then ns else as_str (key (obj_of (key doc ''metadata'')) ''namespace''))"
    by (simp add: disk_namespace_def json_paths o Let_def)
  consider (pvc) "text_at ?v [''kind''] = ''PersistentVolumeClaim''" | (dv) "text_at ?v [''kind''] = ''DataVolume''"
    | (vm) "text_at ?v [''kind''] = ''VirtualMachine''"
    | (other) "text_at ?v [''kind''] \<notin> {''PersistentVolumeClaim'', ''DataVolume'', ''VirtualMachine''}" by blast
  then show ?thesis
  proof cases
    case pvc
    then have "document_disks ns doc = [(''PersistentVolumeClaim/'' @ ?name, ?n, json_at ?v [''spec''], False)]"
      by (simp add: document_disks_def Let_def k n)
    with assms obtain r where r: "add_request decode ec (''PersistentVolumeClaim/'' @ ?name) ?n (json_at ?v [''spec'']) False = Inr r" "rs = [r]"
      by (auto split: sum.splits)
    from add_request_claim[OF r(1)] r(2) claim_disk[of ?v ns, OF pvc] k(2,4) show ?thesis
      by (intro exI conjI) (assumption, simp)
  next
    case dv
    then have "document_disks ns doc = [(''DataVolume/'' @ ?name, ?n, json_at ?v [''spec''], True)]"
      by (simp add: document_disks_def Let_def k n)
    with assms obtain r where r: "add_request decode ec (''DataVolume/'' @ ?name) ?n (json_at ?v [''spec'']) True = Inr r" "rs = [r]"
      by (auto split: sum.splits)
    from add_request_volume[OF r(1)] obtain d where "volume_disk (''DataVolume/'' @ ?name) ?n (json_at ?v [''spec'']) d" "request_typed decode ec d r" by blast
    with r(2) data_volume[of ?v ns d, OF dv] show ?thesis by (intro exI[of _ "[d]"]) simp
  next
    case vm
    then have "document_disks ns doc = map (\<lambda>t. (''VirtualMachine/'' @ ?name @ ''/'' @ text_at t [''metadata'', ''name''], ?n, json_at t [''spec''], True))
        (items_at ?v [''spec'', ''dataVolumeTemplates''])"
    proof -
      have "as_str (key doc ''kind'') = ''VirtualMachine''" using vm k(1) by simp
      then show ?thesis by (simp add: document_disks_def Let_def n json_paths o)
    qed
    with assms add_requests_volumes[of decode ec "\<lambda>t. ''VirtualMachine/'' @ ?name @ ''/'' @ text_at t [''metadata'', ''name'']" ?n "\<lambda>t. json_at t [''spec'']"
        "items_at ?v [''spec'', ''dataVolumeTemplates'']" rs]
    obtain ds where "list_all2 (\<lambda>t d. volume_disk (''VirtualMachine/'' @ ?name @ ''/'' @ text_at t [''metadata'', ''name'']) ?n (json_at t [''spec'']) d)
        (items_at ?v [''spec'', ''dataVolumeTemplates'']) ds" "list_all2 (request_typed decode ec) ds rs" by auto
    with machine[of ?v ns ds, OF vm] show ?thesis by blast
  next
    case other
    then have "document_disks ns doc = []" by (simp add: document_disks_def Let_def k)
    with assms no_disks[of ?v ns, OF other] show ?thesis by (intro exI[of _ "[]"]) simp
  qed
qed

lemma documents_requests:
  assumes "add_requests decode ec (concat (map (document_disks ns) docs)) = Inr rs"
  shows "\<exists>dss. list_all2 (disks_of ns) (map AObj docs) dss \<and> list_all2 (request_typed decode ec) (concat dss) rs"
  using assms
proof (induction docs arbitrary: rs)
  case (Cons doc docs)
  then have "add_requests decode ec (document_disks ns doc @ concat (map (document_disks ns) docs)) = Inr rs" by simp
  then obtain as bs where ab: "rs = as @ bs" "add_requests decode ec (document_disks ns doc) = Inr as"
    "add_requests decode ec (concat (map (document_disks ns) docs)) = Inr bs" by (rule add_requests_split)
  from document_requests[OF ab(2)] obtain ds where "disks_of ns (AObj doc) ds" "list_all2 (request_typed decode ec) ds as" by blast
  moreover from Cons.IH[OF ab(3)] obtain dss where "list_all2 (disks_of ns) (map AObj docs) dss" "list_all2 (request_typed decode ec) (concat dss) bs" by blast
  ultimately show ?case unfolding ab(1) by (intro exI[of _ "ds # dss"]) (simp add: list_all2_appendI)
qed simp


text \<open>A data volume with storage, a machine with a template of a plain claim, and a service.\<close>

definition demo_documents :: "(string \<times> any) list list" where
  "demo_documents =
     [[(''kind'', AStr ''DataVolume''), (''metadata'', AObj [(''name'', AStr ''disk'')]),
       (''spec'', AObj [(''source'', AObj [(''registry'', AObj [])]), (''storage'', AObj [(''size'', AInt 1)])])],
      [(''kind'', AStr ''VirtualMachine''), (''metadata'', AObj [(''name'', AStr ''vm''), (''namespace'', AStr ''own'')]),
       (''spec'', AObj [(''dataVolumeTemplates'', AList [AObj [(''metadata'', AObj [(''name'', AStr ''root'')]),
          (''spec'', AObj [(''pvc'', AObj [(''size'', AInt 2)])])]])])],
      [(''kind'', AStr ''Service'')]]"

text \<open>A decoder that only accepts the two claims.\<close>

definition demo_decode :: "any \<Rightarrow> string + storage_claim" where
  "demo_decode v =
     (case v of AObj [(''size'', AInt n)] \<Rightarrow> Inr \<lparr> sl_StorageClassName = None, sl_AccessModes = [], sl_VolumeMode = show_int n \<rparr>
      | _ \<Rightarrow> Inl ''no claim'')"


end
