(* ===== verification/Kube_Burner_Stages.thy ===== *)
theory Kube_Burner_Stages
  imports Kube_Burner Storage_Check Registry
begin

text \<open>
  The stages of the kube-burner adapter: config.go, preflight.go, storage_preflight.go, storage.go
  and runner.go of \<open>internal/tools/kubeburner\<close>. The host (files, processes, template engine and
  embedded templates) is a record of operations in the state monad. A struct that a stage leaves in
  the bag is the object of its fields.
\<close>

section \<open>Structs in the bag\<close>

definition any_of_params :: "kb_params \<Rightarrow> any" where
  "any_of_params p =
     AObj [(''Replicas'', AInt (kp_Replicas p)), (''SnapshotCount'', AInt (kp_SnapshotCount p)), (''VMImage'', AStr (kp_VMImage p)),
       (''DiskSize'', AStr (kp_DiskSize p)), (''QPS'', AInt (kp_QPS p)), (''Burst'', AInt (kp_Burst p)), (''MaxWait'', AStr (kp_MaxWait p)),
       (''NS'', AStr (kp_NS p)), (''UsePopulator'', ABool (kp_UsePopulator p)), (''snapshotCountSet'', ABool (kp_snapshotCountSet p))]"

definition params_of_any :: "any \<Rightarrow> kb_params option" where
  "params_of_any v =
     (case v of
        AObj [(n1, AInt replicas), (n2, AInt snapshots), (n3, AStr img), (n4, AStr disk), (n5, AInt qps), (n6, AInt burst),
              (n7, AStr maxw), (n8, AStr ns), (n9, ABool populator), (n10, ABool countSet)] \<Rightarrow>
          Some \<lparr> kp_Replicas = replicas, kp_SnapshotCount = snapshots, kp_VMImage = img, kp_DiskSize = disk, kp_QPS = qps,
            kp_Burst = burst, kp_MaxWait = maxw, kp_NS = ns, kp_UsePopulator = populator, kp_snapshotCountSet = countSet \<rparr>
      | _ \<Rightarrow> None)"

lemma params_of_any_inverse [simp]: "params_of_any (any_of_params p) = Some p"
  by (simp add: params_of_any_def any_of_params_def)

definition any_of_selection :: "snapshot_selection \<Rightarrow> any" where
  "any_of_selection s =
     AObj [(''StorageClass'', AStr (sn_StorageClass s)), (''SnapshotClass'', AStr (sn_SnapshotClass s)), (''Kubeconfig'', AStr (sn_Kubeconfig s))]"

definition selection_of_any :: "any \<Rightarrow> snapshot_selection option" where
  "selection_of_any v =
     (case v of
        AObj [(n1, AStr sc), (n2, AStr vsc), (n3, AStr kc)] \<Rightarrow> Some \<lparr> sn_StorageClass = sc, sn_SnapshotClass = vsc, sn_Kubeconfig = kc \<rparr>
      | _ \<Rightarrow> None)"

lemma selection_of_any_inverse [simp]: "selection_of_any (any_of_selection s) = Some s"
  by (simp add: selection_of_any_def any_of_selection_def)

fun string_of_any :: "any \<Rightarrow> string option" where
  "string_of_any (AStr s) = Some s"
| "string_of_any _ = None"

definition bag_string :: "bag \<Rightarrow> string \<Rightarrow> string" where
  "bag_string b k = (case GetAs string_of_any b k of Some s \<Rightarrow> s | None \<Rightarrow> [])"

section \<open>The host\<close>

text \<open>A command of the host: binary, arguments, working directory and extra environment.\<close>

record command =
  cm_Path :: string
  cm_Args :: "string list"
  cm_Dir :: string
  cm_Env :: "string list"

record 'w kb_host =
  kh_cluster :: "'w cluster"
  kh_snapshot :: snapshot_codec
  kh_probe :: probe_codec
  kh_codec :: kb_codec
  kh_populators :: "string \<Rightarrow> string + (string \<times> string) list"
  kh_documents :: "string \<Rightarrow> string + (string \<times> any) list list"
  kh_claim :: "any \<Rightarrow> string + storage_claim"
  kh_ReadDir :: "string \<Rightarrow> string + (string \<times> bool) list"
  kh_ReadTemplate :: "string \<Rightarrow> string + string"
  kh_Render :: "string \<Rightarrow> (string \<times> any) list \<Rightarrow> string + string"
  kh_RemoveAll :: "string \<Rightarrow> ('w, string option) state"
  kh_MkdirAll :: "string \<Rightarrow> ('w, string option) state"
  kh_WriteFile :: "string \<Rightarrow> string \<Rightarrow> ('w, string option) state"
  kh_Abs :: "string \<Rightarrow> string + string"
  kh_Run :: "command \<Rightarrow> ('w, string option) state"
  kh_OpenDir :: "string \<Rightarrow> ('w, string + walk_entry list) state"
  kh_TempDir :: string
  kh_object :: "string \<Rightarrow> string + (string \<times> any) list"
  kh_createdName :: "string \<Rightarrow> string + string"
  kh_claimSets :: "string \<Rightarrow> string + any list"
  kh_wait :: "'w wait_env"
  kh_RecordStorageSelection :: "(storage_selection \<Rightarrow> ('w, unit) state) option"

text \<open>Run a step unless an earlier one failed.\<close>

definition unless_error :: "('w, string option) state \<Rightarrow> ('w, string option) state \<Rightarrow> ('w, string option) state" where
  "unless_error m n = do { e \<leftarrow> m; case e of Some err \<Rightarrow> State_Monad.return (Some err) | None \<Rightarrow> n }"

definition wrap_error :: "string \<Rightarrow> ('w, string option) state \<Rightarrow> ('w, string option) state" where
  "wrap_error ctx m = do { e \<leftarrow> m; State_Monad.return (map_option (\<lambda>err. ctx @ err) e) }"

section \<open>Staging the workload\<close>

text \<open>Native rendering copies the bytes, so an entry is copied to its place.\<close>

fun copy_entries :: "'w kb_host \<Rightarrow> string \<Rightarrow> string \<Rightarrow> (string \<times> bool) list \<Rightarrow> bool \<Rightarrow> ('w, string + bool) state" where
  "copy_entries h dir sourceDir [] hasConfig = State_Monad.return (Inr hasConfig)"
| "copy_entries h dir sourceDir ((name, isDir) # es) hasConfig =
     (if isDir then copy_entries h dir sourceDir es hasConfig
      else case kh_ReadTemplate h (sourceDir @ ''/'' @ name) of
             Inl err \<Rightarrow> State_Monad.return (Inl (''kube-burner: read template '' @ name @ '': '' @ err))
           | Inr b \<Rightarrow> do {
               let config = (name = ''config.yaml'');
               e \<leftarrow> kh_WriteFile h (path_join (if config then [dir, name] else [dir, ''templates'', name])) b;
               case e of
                 Some err \<Rightarrow> State_Monad.return (Inl (''kube-burner: write template '' @ name @ '': '' @ err))
               | None \<Rightarrow> copy_entries h dir sourceDir es (hasConfig \<or> config)
             })"

definition stageConfig :: "'w kb_host \<Rightarrow> string \<Rightarrow> string \<Rightarrow> ('w, string option) state" where
  "stageConfig h dir sourceDir =
     unless_error (wrap_error ''kube-burner: create template directory: '' (kh_MkdirAll h (path_join [dir, ''templates''])))
       (case kh_ReadDir h sourceDir of
          Inl err \<Rightarrow> State_Monad.return (Some (''kube-burner: read templates: '' @ err))
        | Inr entries \<Rightarrow> do {
            r \<leftarrow> copy_entries h dir sourceDir entries False;
            State_Monad.return (case r of
                Inl err \<Rightarrow> Some err
              | Inr hasConfig \<Rightarrow>
                  if hasConfig then None
                  else Some (''kube-burner: template directory '' @ sourceDir @ '' has no config.yaml''))
          })"

section \<open>Run\<close>

definition storage_class_of :: "run_ctx \<Rightarrow> string" where
  "storage_class_of rc = (case rc_Backend rc of Some b \<Rightarrow> rb_StorageClass b | None \<Rightarrow> [])"

definition buildRunCmd :: "'w kb_host \<Rightarrow> string list \<Rightarrow> string \<Rightarrow> string \<Rightarrow> string + command" where
  "buildRunCmd h env resultsDir subdir =
     (case cl_LookPath (kh_cluster h) ''kube-burner'' of
        Inl err \<Rightarrow> Inl (''kube-burner: kube-burner not on PATH: '' @ err)
      | Inr path \<Rightarrow>
          (case kh_Abs h resultsDir of
             Inl err \<Rightarrow> Inl (''kube-burner: results dir: '' @ err)
           | Inr absResults \<Rightarrow> Inr
               \<lparr> cm_Path = path, cm_Args = [''init'', ''-c'', path_join [absResults, subdir, ''config.yaml'']],
                 cm_Dir = path_join [absResults, subdir], cm_Env = env \<rparr>))"

text \<open>The parameters of the run: resolved anew, with the populator the preflight found.\<close>

definition run_params :: "bag \<Rightarrow> test_requirement list \<Rightarrow> kb_params" where
  "run_params b trs =
     (case GetAs params_of_any b ''params'' of
        Some configured \<Rightarrow> (resolveParams trs)\<lparr>kp_UsePopulator := kp_UsePopulator configured\<rparr>
      | None \<Rightarrow> resolveParams trs)"

definition effective_class :: "bag \<Rightarrow> string \<Rightarrow> string" where
  "effective_class b sc = (let e = bag_string b ''snapshot_storage_class'' in if e \<noteq> [] then e else sc)"

definition record_selection :: "'w kb_host \<Rightarrow> bag \<Rightarrow> test_requirement \<Rightarrow> string \<Rightarrow> ('w, unit) state" where
  "record_selection h b tr sc =
     (case (GetAs selection_of_any b ''snapshot_selection'', kh_RecordStorageSelection h) of
        (Some s, Some recf) \<Rightarrow>
          recf (zero_storage_selection\<lparr>ss_TR := tr_ID tr, ss_Variant := tr_Variant tr, ss_StorageClass := sn_StorageClass s,
                 ss_SnapshotClass := sn_SnapshotClass s, ss_EffectiveStorageClass := sc\<rparr>)
      | _ \<Rightarrow> State_Monad.return ())"

definition prepare_subdir :: "'w kb_host \<Rightarrow> string \<Rightarrow> string \<Rightarrow> ('w, string option) state" where
  "prepare_subdir h subdir templateDir =
     unless_error (kh_RemoveAll h subdir) (unless_error (kh_MkdirAll h subdir) (stageConfig h subdir templateDir))"

definition kb_Run :: "'w kb_host \<Rightarrow> run_ctx \<Rightarrow> test_requirement list \<Rightarrow> bag \<Rightarrow> ('w, (string + run_handle) \<times> bag) state" where
  "kb_Run h rc trs b =
     (let fail = (\<lambda>err. State_Monad.return (Inl err, b)) in
      case trs of
        [tr] \<Rightarrow>
          (let resultsDir = bag_string b ''results_dir''; p = run_params b trs; sc0 = storage_class_of rc; sc = effective_class b sc0;
               subdir = path_join [resultsDir, tr_ID tr]
           in if tr_ID tr = [] then fail ''kube-burner: TR has empty id''
              else if resultsDir = [] then fail ''kube-burner: results_dir missing (provision first)''
              else (case validateFor (tr_ID tr) p of
                      Some err \<Rightarrow> fail err
                    | None \<Rightarrow>
                        if sc0 = [] then fail ''kube-burner: storage_class required (pass --backends/--backend)''
                        else do {
                          record_selection h b tr sc;
                          e \<leftarrow> prepare_subdir h subdir (ks_TemplateDir (scenarioFor (tr_ID tr)));
                          case e of
                            Some err \<Rightarrow> fail err
                          | None \<Rightarrow>
                              (case buildRunCmd h (buildEnv p sc) resultsDir (tr_ID tr) of
                                 Inl err \<Rightarrow> fail err
                               | Inr cmd \<Rightarrow> do {
                                   r \<leftarrow> kh_Run h cmd;
                                   State_Monad.return (Inr ''kube-burner'',
                                     Bag_Set (Bag_Set (Bag_Set b ''kb_subdir'' (AStr subdir)) ''kb_trid'' (AStr (tr_ID tr)))
                                       ''kb_runerr'' (AStr (case r of Some err \<Rightarrow> err | None \<Rightarrow> [])))
                                 })
                        }))
      | _ \<Rightarrow> fail (''kube-burner: expected exactly 1 TR, got '' @ show_nat (length trs)))"


section \<open>Collect, parse and tear down\<close>

definition kb_wanted :: "string \<Rightarrow> bool" where
  "kb_wanted name = (name = ''jobSummary.json'' \<or> contains name ''volumeSnapshotLatency'')"

definition findCollectedMetrics :: "'w kb_host \<Rightarrow> string \<Rightarrow> ('w, string + (string, string) gomap \<times> string list) state" where
  "findCollectedMetrics h dir = do {
     opened \<leftarrow> kh_OpenDir h dir;
     State_Monad.return (collected_metrics kb_wanted ''kube-burner'' dir opened)
   }"

definition kb_Collect :: "'w kb_host \<Rightarrow> bag \<Rightarrow> ('w, (string + log_bundle) \<times> bag) state" where
  "kb_Collect h b = do {
     r \<leftarrow> findCollectedMetrics h (bag_string b ''kb_subdir'');
     State_Monad.return (Inr (case r of
         Inl err \<Rightarrow> zero_log_bundle
       | Inr (m, files) \<Rightarrow> zero_log_bundle\<lparr>lb_Refs := files, lb_Data := m\<rparr>), b)
   }"

definition kb_Parse :: "kb_codec \<Rightarrow> log_bundle \<Rightarrow> bag \<Rightarrow> string + test_result list" where
  "kb_Parse kc logs b =
     (let trID = bag_string b ''kb_trid'' in
      if \<not> gm_has (lb_Data logs) ''jobSummary.json'' then
        (let e = bag_string b ''kb_runerr''; reason = (if e \<noteq> [] then e else ''kube-burner produced no jobSummary'')
         in Inr [zero_test_result\<lparr>res_TRID := trID, res_Native := OutcomeFail, res_Raw := kc_error kc reason\<rparr>])
      else case GetAs params_of_any b ''params'' of
             None \<Rightarrow> Inl ''kube-burner: params missing (preflight first)''
           | Some p \<Rightarrow>
               (case parseResultsWithScenario kc trID (lb_Data logs) (kp_SnapshotCount p) (scenarioFor trID) of
                  Inl err \<Rightarrow> Inl err
                | Inr res \<Rightarrow> Inr [res]))"

definition cleanup_class :: "'w kb_host \<Rightarrow> bag \<Rightarrow> ('w, unit) state" where
  "cleanup_class h b =
     (let selection = (case GetAs selection_of_any b ''snapshot_selection'' of Some s \<Rightarrow> s
                       | None \<Rightarrow> \<lparr> sn_StorageClass = [], sn_SnapshotClass = [], sn_Kubeconfig = [] \<rparr>)
      in do {
        e \<leftarrow> CleanupVMStorage (kh_cluster h) selection (bag_string b ''snapshot_storage_class'');
        State_Monad.return ()
      })"

text \<open>The deferred clean-up runs last; its failure and that of the deletion are only logged.\<close>

definition kb_Teardown :: "'w kb_host \<Rightarrow> bag \<Rightarrow> ('w, string option \<times> bag) state" where
  "kb_Teardown h b = do {
     u \<leftarrow> (case GetAs params_of_any b ''params'' of
         None \<Rightarrow> State_Monad.return ()
       | Some p \<Rightarrow>
           (let cli = KubeCLI (kh_cluster h) in
            if kp_NS p = [] \<or> cli = [] then State_Monad.return ()
            else do {
              r \<leftarrow> cl_Exec (kh_cluster h) cli None [''delete'', ''ns'', kp_NS p, ''--wait=false'', ''--ignore-not-found''];
              State_Monad.return ()
            }));
     v \<leftarrow> cleanup_class h b;
     State_Monad.return (None, b)
   }"

section \<open>Preflight\<close>

definition snapshotCRD :: "'w kb_host \<Rightarrow> 'w capability" where
  "snapshotCRD h = CRD (kh_cluster h) ''virtualmachinesnapshots.snapshot.kubevirt.io''"

definition workloadStoragePreflight :: "'w kb_host \<Rightarrow> test_requirement \<Rightarrow> string \<Rightarrow> ('w, finding list) state" where
  "workloadStoragePreflight h tr storageClass =
     (let p = resolveParams [tr];
          fail = (\<lambda>what err. State_Monad.return [error_finding (tr_ID tr @ what @ err)])
      in case kh_ReadTemplate h (ks_TemplateDir (scenarioFor (tr_ID tr)) @ ''/vm.yaml'') of
           Inl err \<Rightarrow> fail '' storage template: '' err
         | Inr source \<Rightarrow>
             (case kh_Render h source [(''Replica'', AInt 1), (''storageClass'', AStr storageClass), (''diskSize'', AStr (kp_DiskSize p)),
                 (''vmImage'', AStr (kp_VMImage p)), (''usePopulator'', ABool (kp_UsePopulator p))] of
                Inl err \<Rightarrow> fail '' storage render: '' (''vm.yaml: '' @ err)
              | Inr rendered \<Rightarrow>
                  (case StorageRequests (kh_documents h) (kh_claim h) rendered storageClass (kp_NS p) of
                     Inl err \<Rightarrow> fail '' storage: '' err
                   | Inr requests \<Rightarrow> CheckStorage (kh_cluster h) (kh_probe h) [] (LabelStorageRequests tr requests))))"

definition param_findings :: "test_requirement list \<Rightarrow> finding list" where
  "param_findings trs =
     map (\<lambda>tr. case validateFor (tr_ID tr) (resolveParams [tr]) of
         Some err \<Rightarrow> error_finding (tr_ID tr @ '' parameters: '' @ err)
       | None \<Rightarrow> info (tr_ID tr @ '' parameters valid'')) trs"

definition host_findings :: "'w kb_host \<Rightarrow> string \<Rightarrow> test_requirement list \<Rightarrow> finding list" where
  "host_findings h sc trs =
     (if sc = [] then [error_finding ''kube-burner: storage_class required (pass --backends/--backend)'']
      else [info (''storage_class='' @ sc)]) @
     (case trs of
        [tr] \<Rightarrow> if tr_ID tr = ''TR-VIRT-027'' \<and> kp_SnapshotCount (resolveParams trs) = 0 then
            [skip_finding ''TR-VIRT-027 snapshot readiness: reduced mode creates the source volume without snapshots; the 250-snapshot SLA will fail'']
          else []
      | _ \<Rightarrow> []) @
     (case cl_LookPath (kh_cluster h) ''kube-burner'' of
        Inl err \<Rightarrow> [error_finding (''host execution needs '' @ go_quote ''kube-burner'' @ '' on PATH: '' @ err)]
      | Inr _ \<Rightarrow> [info ''host binary found: kube-burner''])"

fun storage_findings :: "'w kb_host \<Rightarrow> string \<Rightarrow> test_requirement list \<Rightarrow> ('w, finding list) state" where
  "storage_findings h sc [] = State_Monad.return []"
| "storage_findings h sc (tr # trs) = do {
     fs \<leftarrow> workloadStoragePreflight h tr sc;
     gs \<leftarrow> storage_findings h sc trs;
     State_Monad.return (fs @ gs)
   }"

text \<open>The selection of the snapshot class, left in the bag when it succeeds.\<close>

definition snapshot_findings :: "'w kb_host \<Rightarrow> string \<Rightarrow> string \<Rightarrow> bag \<Rightarrow> ('w, finding list \<times> bag) state" where
  "snapshot_findings h sc configured b = do {
     r \<leftarrow> ResolveSnapshot (kh_cluster h) (kh_snapshot h) sc configured [] True;
     case r of
       Inl err \<Rightarrow> State_Monad.return ([error_finding err], b)
     | Inr selection \<Rightarrow> do {
         f \<leftarrow> WaitForCreateSupported (kh_cluster h) [];
         State_Monad.return ([selection_Finding selection, f], Bag_Set b ''snapshot_selection'' (any_of_selection selection))
       }
   }"

definition populator_findings :: "'w kb_host \<Rightarrow> kb_params \<Rightarrow> bag \<Rightarrow> ('w, finding list \<times> bag) state" where
  "populator_findings h p b =
     (let cli = KubeCLI (kh_cluster h) in
      if cli = [] then
        State_Monad.return ([skip_finding ''CDI VolumeImportSource populator: neither kubectl nor oc found on PATH''], b)
      else do {
        r \<leftarrow> HasVolumePopulator (kh_cluster h) (kh_populators h) cli ''cdi.kubevirt.io'' ''VolumeImportSource'';
        State_Monad.return (case r of
            Inl err \<Rightarrow> ([error_finding (''kube-burner: checking CDI VolumeImportSource populator: '' @ err)], b)
          | Inr registered \<Rightarrow>
              ([info (if registered then ''CDI VolumeImportSource populator registered; using populator imports''
                      else ''CDI VolumeImportSource populator not registered; using legacy CDI imports'')],
               Bag_Set b ''params'' (any_of_params (p\<lparr>kp_UsePopulator := registered\<rparr>))))
      })"

definition kb_Check :: "'w kb_host \<Rightarrow> run_ctx \<Rightarrow> test_requirement list \<Rightarrow> bag \<Rightarrow> ('w, (finding list \<times> string option) \<times> bag) state" where
  "kb_Check h rc trs b =
     (let p = resolveParams trs; sc = storage_class_of rc;
          needsSnapshot = (\<exists>tr \<in> set trs. kp_SnapshotCount (resolveParams [tr]) > 0);
          b1 = Bag_Set b ''params'' (any_of_params p)
      in do {
        cs \<leftarrow> cluster_Preflight (kh_cluster h) [KubeVirt (kh_cluster h), CDI (kh_cluster h), snapshotCRD h] sc;
        ws \<leftarrow> (if sc \<noteq> [] then storage_findings h sc trs else State_Monad.return []);
        ss \<leftarrow> (if sc \<noteq> [] \<and> needsSnapshot then
                 snapshot_findings h sc (case rc_Backend rc of Some be \<Rightarrow> rb_SnapshotClass be | None \<Rightarrow> []) b1
               else State_Monad.return ([], b1));
        ps \<leftarrow> populator_findings h p (snd ss);
        State_Monad.return ((param_findings trs @ host_findings h sc trs @ cs @ ws @ fst ss @ fst ps, None), snd ps)
      })"


section \<open>Provision\<close>

text \<open>The steps of \<open>prepareVMStorage\<close> before the final wait: a result, or the name to wait for.\<close>

definition render_template :: "'w kb_host \<Rightarrow> string \<Rightarrow> string \<Rightarrow> (string \<times> any) list \<Rightarrow> string + string" where
  "render_template h path name vs =
     (case kh_ReadTemplate h path of
        Inl err \<Rightarrow> Inl err
      | Inr source \<Rightarrow> (case kh_Render h source vs of Inl err \<Rightarrow> Inl (name @ '': '' @ err) | Inr data \<Rightarrow> Inr data))"

definition create_copy :: "'w kb_host \<Rightarrow> snapshot_selection \<Rightarrow> ('w, string + string) state" where
  "create_copy h s =
     ok_then (SnapshotCommand (kh_cluster h) (sn_Kubeconfig s) None [''get'', ''storageclass'', sn_StorageClass s, ''-o'', ''json'']) (\<lambda>sourceData.
       case kh_object h sourceData of
         Inl err \<Rightarrow> State_Monad.return (Inl err)
       | Inr sc \<Rightarrow>
           (case render_template h ''templates/shared/setup/storageclass.yaml'' ''storageclass.yaml'' [(''STORAGE_CLASS'', AObj sc)] of
              Inl err \<Rightarrow> State_Monad.return (Inl err)
            | Inr data \<Rightarrow>
                ok_then (SnapshotCommand (kh_cluster h) (sn_Kubeconfig s) (Some data) [''create'', ''-f'', ''-'', ''-o'', ''json'']) (\<lambda>out.
                  State_Monad.return (case kh_createdName h out of
                      Inl err \<Rightarrow> Inl err
                    | Inr created \<Rightarrow> if created = [] then Inl ''created storage class has no name'' else Inr created))))"

definition patch_profile :: "'w kb_host \<Rightarrow> snapshot_selection \<Rightarrow> string \<Rightarrow> ('w, string + unit) state" where
  "patch_profile h s created =
     (let run = SnapshotCommand (kh_cluster h) (sn_Kubeconfig s) None in
      ok_then (run [''wait'', ''--for=create'', ''storageprofile/'' @ created, ''--timeout=90s'']) (\<lambda>_.
      ok_then (run [''get'', ''storageprofile'', sn_StorageClass s, ''-o'', ''json'']) (\<lambda>sourceData.
        case kh_claimSets h sourceData of
          Inl err \<Rightarrow> State_Monad.return (Inl err)
        | Inr sets \<Rightarrow>
            (case render_template h ''templates/shared/setup/storageprofile-patch.yaml'' ''storageprofile-patch.yaml''
                [(''SNAPSHOT_CLASS'', AStr (sn_SnapshotClass s)), (''CLAIM_PROPERTY_SETS'', AList sets)] of
               Inl err \<Rightarrow> State_Monad.return (Inl err)
             | Inr patch \<Rightarrow>
                 ok_then (run [''patch'', ''storageprofile'', created, ''--type=merge'', ''-p'', patch]) (\<lambda>_.
                   State_Monad.return (Inr ()))))))"

text \<open>The created class and the error; \<open>None\<close> when the wait for the profile does not end.\<close>

definition prepareVMStorage :: "'w kb_host \<Rightarrow> snapshot_selection \<Rightarrow> 'w \<Rightarrow> ((string \<times> string option) \<times> 'w) option" where
  "prepareVMStorage h s w =
     (case run_state (create_copy h s) w of
        (Inl err, w1) \<Rightarrow> Some (([], Some err), w1)
      | (Inr created, w1) \<Rightarrow>
          (case run_state (patch_profile h s created) w1 of
             (Inl err, w2) \<Rightarrow> Some ((created, Some err), w2)
           | (Inr u, w2) \<Rightarrow>
               map_option (\<lambda>(e, w3). ((created, e), w3))
                 (WaitForStorageProfile (kh_cluster h) (kh_snapshot h) (kh_wait h) s created w2)))"

text \<open>\<open>prep\<close> is \<open>prepareVMStorage\<close>, which returns when the context of the wait ends.\<close>

definition kb_results_dir :: "'w kb_host \<Rightarrow> run_ctx \<Rightarrow> string" where
  "kb_results_dir h rc =
     trim_right [SLASH] (if rc_WorkDir rc = [] then kh_TempDir h else rc_WorkDir rc) @ ''/kubeburner-results''"

definition provision_dir :: "'w kb_host \<Rightarrow> run_ctx \<Rightarrow> bag \<Rightarrow> ('w, string option \<times> bag) state" where
  "provision_dir h rc b = do {
     e \<leftarrow> kh_MkdirAll h (kb_results_dir h rc);
     State_Monad.return (case e of
         Some err \<Rightarrow> (Some (''kube-burner: results dir: '' @ err), b)
       | None \<Rightarrow> (None, Bag_Set b ''results_dir'' (AStr (kb_results_dir h rc))))
   }"

definition kb_Provision ::
  "'w kb_host \<Rightarrow> (snapshot_selection \<Rightarrow> ('w, string \<times> string option) state) \<Rightarrow> run_ctx \<Rightarrow> bag \<Rightarrow> ('w, string option \<times> bag) state" where
  "kb_Provision h prep rc b =
     (case (GetAs selection_of_any b ''snapshot_selection'', rc_Backend rc) of
        (Some selection, Some be) \<Rightarrow>
          if rb_SnapshotClass be = [] then provision_dir h rc b
          else do {
            r \<leftarrow> prep selection;
            let b1 = Bag_Set b ''snapshot_storage_class'' (AStr (fst r));
            case snd r of
              Some err \<Rightarrow> State_Monad.return (Some (''prepare snapshot storage: '' @ err), b1)
            | None \<Rightarrow> provision_dir h rc b1
          }
      | _ \<Rightarrow> provision_dir h rc b)"

section \<open>The integration\<close>

definition staged :: "(bag \<Rightarrow> ('w, 'r \<times> bag) state) \<Rightarrow> ('w, 'r) staged" where
  "staged m b w = (case run_state (m b) w of ((r, b'), w') \<Rightarrow> (r, b', w'))"

definition kube_burner ::
  "'w kb_host \<Rightarrow> (snapshot_selection \<Rightarrow> ('w, string \<times> string option) state) \<Rightarrow> 'w tool_integration" where
  "kube_burner h prep =
     \<lparr> ti_Name = ''kube-burner'', ti_Image = [], ti_Provides = [''TR-VIRT-010'', ''TR-VIRT-027''],
       ti_Preflight = Some (\<lambda>rc trs. staged (kb_Check h rc trs)),
       ti_Provisioner = Some (\<lambda>rc trs. staged (kb_Provision h prep rc)),
       ti_Runner = Some (\<lambda>rc trs. staged (kb_Run h rc trs)),
       ti_LogCollector = Some (\<lambda>rc handle. staged (kb_Collect h)),
       ti_ResultParser = Some (\<lambda>rc logs. staged (\<lambda>b. State_Monad.return (kb_Parse (kh_codec h) logs b, b))),
       ti_Teardown = Some (\<lambda>rc. staged (kb_Teardown h)),
       ti_ParallelSafe = False, ti_ExclusivityGroups = [''kube-burner'', ''cdi'', ''storage''],
       ti_Evaluators = [(''TR-VIRT-010'', Some snapshot_Evaluate), (''TR-VIRT-027'', Some snapshot_Evaluate)],
       ti_SetupGroups = [] \<rparr>"

end
