(* ===== verification/Kube_Burner_Job.thy ===== *)
theory Kube_Burner_Job
  imports Kube_Burner_Stages Pipeline
begin

text \<open>
  The kube-burner adapter inside the stage pipeline of a job: what a passing native verdict of a
  whole job says about the command that ran and the files that were read back.
\<close>

section \<open>Inverting the stages\<close>

lemma job_bind_Inr:
  assumes "job_bind m f b w = (Inr y, b', w')"
  shows "\<exists>x b1 w1. m b w = (Inr x, b1, w1) \<and> f x b1 w1 = (Inr y, b', w')"
  using assms by (auto simp: job_bind_def split: prod.splits sum.splits)

lemma stage_result_Inr: "stage_result trs nm r ce = Inr x \<Longrightarrow> r = Inr x"
  by (auto simp: stage_result_def split: sum.splits option.splits)

lemma staged_run: "staged m b w = (r, b', w') \<longleftrightarrow> run_state (m b) w = ((r, b'), w')"
  by (auto simp: staged_def split: prod.splits)

lemma stage_run_Inr:
  assumes "stage_run env start rc ti trs b w = (Inr hdl, b', w')" and "ti_Runner ti = Some run"
  shows "run rc trs b (je_SetStage env ''run'' trs w) = (Inr hdl, b', w')"
  using assms by (auto simp: stage_run_def split: prod.splits dest!: stage_result_Inr)

lemma stage_collect_Inr:
  assumes "stage_collect env start rc ti trs hdl b w = (Inr logs, b', w')" and "ti_LogCollector ti = Some collect"
  shows "\<exists>w1. collect rc hdl b (je_SetStage env ''collect'' trs w) = (Inr logs, b', w1) \<and> w' = record_refs env trs logs w1"
  using assms by (auto simp: stage_collect_def split: prod.splits sum.splits dest!: stage_result_Inr)

lemma stage_parse_Inr:
  assumes "stage_parse env start rc ti trs logs b w = (Inr results, b', w')" and "ti_ResultParser ti = Some parse"
  shows "parse rc logs b (je_SetStage env ''parse'' trs w) = (Inr results, b', w')"
  using assms by (auto simp: stage_parse_def split: prod.splits dest!: stage_result_Inr)

section \<open>The run and its files\<close>

lemma bag_string_set [simp]:
  "bag_string (Bag_Set b k (AStr s)) k' = (if k = k' then s else bag_string b k')"
  by (auto simp: bag_string_def GetAs_def Bag_Get_def Bag_Set_def)

lemma bag_string_other: "k \<noteq> k' \<Longrightarrow> bag_string (Bag_Set b k v) k' = bag_string b k'"
  by (simp add: bag_string_def GetAs_def Bag_Get_def Bag_Set_def)

lemma kb_Run_Inr:
  assumes "run_state (kb_Run h rc [tr] b) w = ((Inr hdl, b'), w')"
  shows "\<exists>cmd w1 r. validateFor (tr_ID tr) (run_params b [tr]) = None \<and> storage_class_of rc \<noteq> [] \<and>
    buildRunCmd h (buildEnv (run_params b [tr]) (effective_class b (storage_class_of rc))) (bag_string b ''results_dir'') (tr_ID tr) = Inr cmd \<and>
    run_state (kh_Run h cmd) w1 = (r, w') \<and>
    b' = Bag_Set (Bag_Set (Bag_Set b ''kb_subdir'' (AStr (path_join [bag_string b ''results_dir'', tr_ID tr]))) ''kb_trid'' (AStr (tr_ID tr)))
           ''kb_runerr'' (AStr (case r of Some err \<Rightarrow> err | None \<Rightarrow> []))"
proof -
  from assms have v: "validateFor (tr_ID tr) (run_params b [tr]) = None" and sc: "storage_class_of rc \<noteq> []"
    by (auto simp: kb_Run_def Let_def split: if_splits option.splits)
  from assms v sc obtain w1 cmd where c: "buildRunCmd h (buildEnv (run_params b [tr]) (effective_class b (storage_class_of rc)))
      (bag_string b ''results_dir'') (tr_ID tr) = Inr cmd"
    and n: "run_state (do { r \<leftarrow> kh_Run h cmd; State_Monad.return (Inr ''kube-burner'' :: string + run_handle,
        Bag_Set (Bag_Set (Bag_Set b ''kb_subdir'' (AStr (path_join [bag_string b ''results_dir'', tr_ID tr]))) ''kb_trid'' (AStr (tr_ID tr)))
           ''kb_runerr'' (AStr (case r of Some err \<Rightarrow> err | None \<Rightarrow> []))) }) w1 = ((Inr hdl, b'), w')"
    by (simp add: kb_Run_def Let_def split: if_splits option.splits prod.splits sum.splits)
  show ?thesis using v sc c n by (auto split: prod.splits)
qed

lemma GetAs_set: "GetAs f (Bag_Set b k v) k' = (if k = k' then f v else GetAs f b k')"
  by (simp add: GetAs_def Bag_Get_def Bag_Set_def)

definition same_params :: "kb_params \<Rightarrow> kb_params \<Rightarrow> bool" where
  "same_params p q = (\<exists>populator. p = q\<lparr>kp_UsePopulator := populator\<rparr>)"

lemma same_params_simps:
  "same_params p p" "same_params (q\<lparr>kp_UsePopulator := u\<rparr>) q"
  by (auto simp: same_params_def intro: exI[of _ "kp_UsePopulator p"])

lemma snapshot_findings_params:
  assumes "run_state (snapshot_findings h sc conf b) w = ((fs, b'), w')"
  shows "GetAs params_of_any b' ''params'' = GetAs params_of_any b ''params''"
  using assms by (auto simp: snapshot_findings_def GetAs_set split: prod.splits sum.splits)

lemma populator_findings_params:
  assumes "run_state (populator_findings h p b) w = ((fs, b'), w')" and "GetAs params_of_any b ''params'' = Some p"
  shows "\<exists>q. GetAs params_of_any b' ''params'' = Some q \<and> same_params q p"
  using assms
  by (auto simp: populator_findings_def Let_def GetAs_set same_params_simps split: if_splits prod.splits sum.splits)

lemma kb_Check_params:
  assumes "run_state (kb_Check h rc trs b) w = ((r, b'), w')"
  shows "\<exists>q. GetAs params_of_any b' ''params'' = Some q \<and> same_params q (resolveParams trs)"
proof -
  let ?b1 = "Bag_Set b ''params'' (any_of_params (resolveParams trs))"
  obtain b2 w1 fs where s: "GetAs params_of_any b2 ''params'' = GetAs params_of_any ?b1 ''params''"
    and p: "\<exists>gs. run_state (populator_findings h (resolveParams trs) b2) w1 = ((gs, b'), w')"
    using assms unfolding kb_Check_def Let_def
    by (auto split: prod.splits if_splits dest!: snapshot_findings_params) blast+
  have "GetAs params_of_any b2 ''params'' = Some (resolveParams trs)" using s by (simp add: GetAs_set)
  moreover obtain gs where "run_state (populator_findings h (resolveParams trs) b2) w1 = ((gs, b'), w')" using p by blast
  ultimately show ?thesis by (rule populator_findings_params[rotated])
qed

lemma provision_dir_bag:
  assumes "run_state (provision_dir h rc b) w = ((None, b'), w')"
  shows "b' = Bag_Set b ''results_dir'' (AStr (kb_results_dir h rc))"
  using assms by (auto simp: provision_dir_def split: prod.splits option.splits)

lemma kb_Provision_bag:
  assumes "run_state (kb_Provision h prep rc b) w = ((None, b'), w')"
  shows "bag_string b' ''results_dir'' = kb_results_dir h rc \<and> GetAs params_of_any b' ''params'' = GetAs params_of_any b ''params''"
proof -
  have "\<exists>b1 w1. run_state (provision_dir h rc b1) w1 = ((None, b'), w') \<and> GetAs params_of_any b1 ''params'' = GetAs params_of_any b ''params''"
    using assms unfolding kb_Provision_def
    by (auto simp: GetAs_set Let_def split: option.splits if_splits prod.splits)
  then show ?thesis by (auto simp: GetAs_set dest!: provision_dir_bag)
qed


section \<open>A passing job\<close>

lemma kb_Collect_Inr:
  assumes "run_state (kb_Collect h b) w = ((Inr logs, b'), w')"
  shows "b' = b \<and> (\<exists>opened. run_state (kh_OpenDir h (bag_string b ''kb_subdir'')) w = (opened, w') \<and>
    (lb_Data logs = [] \<or>
     (\<exists>files. collected_metrics kb_wanted ''kube-burner'' (bag_string b ''kb_subdir'') opened = Inr (lb_Data logs, files) \<and>
        logs = zero_log_bundle\<lparr>lb_Refs := files, lb_Data := lb_Data logs\<rparr>)))"
  using assms by (auto simp: kb_Collect_def findCollectedMetrics_def zero_log_bundle_def split: prod.splits sum.splits)

lemma kb_Parse_pass:
  assumes "kb_Parse kc logs b = Inr results" and "latest res_TRID tid results = Some res" and "res_Native res = OutcomePass"
    and "GetAs params_of_any b ''params'' = Some p"
  shows "lb_Data logs \<noteq> [] \<and> (\<exists>ss rows quants. parseJobSummaries kc (lb_Data logs) = Inr (ss, OutcomePass) \<and>
    read_measurements kc (lb_Data logs) [] [] = Inr (rows, quants) \<and>
    (kp_SnapshotCount p > 0 \<longrightarrow> rows = [] \<or> readySnapshotCount rows = kp_SnapshotCount p))"
proof -
  have has: "gm_has (lb_Data logs) ''jobSummary.json''"
    using assms(1-3) by (auto simp: kb_Parse_def Let_def zero_test_result_def split: if_splits)
  then have r: "parseResultsWithScenario kc (bag_string b ''kb_trid'') (lb_Data logs) (kp_SnapshotCount p) (scenarioFor (bag_string b ''kb_trid'')) = Inr res"
    using assms(1,2,4) by (auto simp: kb_Parse_def Let_def split: sum.splits if_splits)
  have "lb_Data logs \<noteq> []" using has by (auto simp: gm_has_def)
  moreover obtain ss rows quants batch where "parseJobSummaries kc (lb_Data logs) = Inr (ss, OutcomePass)"
    "read_measurements kc (lb_Data logs) [] [] = Inr (rows, quants)"
    "kp_SnapshotCount p > 0 \<longrightarrow> batch_metrics (scenarioFor (bag_string b ''kb_trid'')) (kp_SnapshotCount p) ss rows OutcomePass = Inr (batch, OutcomePass)"
    by (rule parse_pass[OF r assms(3)])
  ultimately show ?thesis using batch_metrics_pass by blast
qed

lemma gradeSLA_item: "v_Item (gradeSLA tr res d) = slaItem d"
  unfolding gradeSLA_def Let_def
  by (auto simp: zero_verdict_def split: list.splits option.splits prod.splits if_splits)

lemma gradeCheck_item: "v_Item (gradeCheck tr res c) = ''check:'' @ ck_ID c"
  by (auto simp: gradeCheck_def Let_def zero_verdict_def split: option.splits)

lemma snapshot_Evaluate_native:
  assumes "snapshot_Evaluate tr res = Inr vs" and "v \<in> set vs" and "v_Item v = ''native:jobs_passed''" and "v_Outcome v = OutcomePass"
  shows "res_Native res = OutcomePass"
proof -
  have items: "v_Item v \<noteq> v_Item (gradeSLA tr res d)" "v_Item v \<noteq> v_Item (gradeCheck tr res c)" for d c
    using assms(3) by (simp_all add: slaItem_def gradeSLA_item gradeCheck_item)
  have "v \<notin> set (gradeSLAs tr res)" unfolding gradeSLAs_def using items(1) by fastforce
  moreover have "v \<notin> set (gradeChecks tr res)" unfolding gradeChecks_def using items(2) by fastforce
  ultimately have "v \<notin> set (gradeSLAs tr res @ gradeChecks tr res)" by simp
  then show ?thesis
    using assms by (auto simp: snapshot_Evaluate_def Let_def zero_verdict_def split: if_splits)
qed

lemma grade_native_pass:
  assumes "grade_results (kube_burner h prep) [tr] results = (vs, ms)" and "tr_ID tr \<in> {''TR-VIRT-010'', ''TR-VIRT-027''}"
    and "v \<in> set vs" and "v_Item v = ''native:jobs_passed''" and "v_Outcome v = OutcomePass"
  shows "\<exists>res. latest res_TRID (tr_ID tr) results = Some res \<and> res_Native res = OutcomePass"
proof -
  have v: "v \<in> set (fst (grade_one (kube_burner h prep) (gm_index res_TRID results) tr))"
    using assms(1,3) by (auto simp: grade_results_def Let_def)
  have ev: "gm_get (ti_Evaluators (kube_burner h prep)) (tr_ID tr) = Some (Some snapshot_Evaluate)"
    using assms(2) by (auto simp: kube_burner_def gm_get_Cons)
  obtain res where res: "gm_get (gm_index res_TRID results) (tr_ID tr) = Some res"
    using v assms(5) by (auto simp: grade_one_def errTR_def itemVerdicts_def Let_def item_verdict_def zero_verdict_def split: option.splits if_splits)
  obtain us where us: "snapshot_Evaluate tr res = Inr us"
    by (cases "tr_SLAs tr = [] \<and> tr_Checks tr = []") (simp_all add: snapshot_Evaluate_def Let_def)
  have "\<exists>u \<in> set us. v_Item u = v_Item v \<and> v_Outcome u = v_Outcome v"
    using v res ev us by (auto simp: grade_one_def GradeTR_def)
  then have "res_Native res = OutcomePass" using snapshot_Evaluate_native[OF us] assms(4,5) by auto
  then show ?thesis using res by (auto simp: gm_get_index)
qed


lemma run_stages_Inr:
  assumes "run_stages env start rc ti trs b w = (Inr (vs, ms), b', w')"
  obtains b1 w1 b2 w2 hdl b3 w3 logs b4 w4 results where
    "stage_preflight env start rc ti trs b w = (Inr (), b1, w1)" "stage_provision env start rc ti trs b1 w1 = (Inr (), b2, w2)"
    "stage_run env start rc ti trs b2 w2 = (Inr hdl, b3, w3)" "stage_collect env start rc ti trs hdl b3 w3 = (Inr logs, b4, w4)"
    "stage_parse env start rc ti trs logs b4 w4 = (Inr results, b', w')" "grade_results ti trs results = (vs, ms)"
proof -
  from job_bind_Inr[OF assms[unfolded run_stages_def]] obtain b1 w1 where
    1: "stage_preflight env start rc ti trs b w = (Inr (), b1, w1)" and
    r1: "job_bind (stage_provision env start rc ti trs) (\<lambda>_. job_bind (stage_run env start rc ti trs) (\<lambda>handle.
      job_bind (stage_collect env start rc ti trs handle) (\<lambda>logs. job_bind (stage_parse env start rc ti trs logs) (\<lambda>results.
      job_return (grade_results ti trs results))))) b1 w1 = (Inr (vs, ms), b', w')" by auto
  from job_bind_Inr[OF r1] obtain b2 w2 where 2: "stage_provision env start rc ti trs b1 w1 = (Inr (), b2, w2)" and
    r2: "job_bind (stage_run env start rc ti trs) (\<lambda>handle.
      job_bind (stage_collect env start rc ti trs handle) (\<lambda>logs. job_bind (stage_parse env start rc ti trs logs) (\<lambda>results.
      job_return (grade_results ti trs results)))) b2 w2 = (Inr (vs, ms), b', w')" by auto
  from job_bind_Inr[OF r2] obtain hdl b3 w3 where 3: "stage_run env start rc ti trs b2 w2 = (Inr hdl, b3, w3)" and
    r3: "job_bind (stage_collect env start rc ti trs hdl) (\<lambda>logs. job_bind (stage_parse env start rc ti trs logs) (\<lambda>results.
      job_return (grade_results ti trs results))) b3 w3 = (Inr (vs, ms), b', w')" by auto
  from job_bind_Inr[OF r3] obtain logs b4 w4 where 4: "stage_collect env start rc ti trs hdl b3 w3 = (Inr logs, b4, w4)" and
    r4: "job_bind (stage_parse env start rc ti trs logs) (\<lambda>results. job_return (grade_results ti trs results)) b4 w4 = (Inr (vs, ms), b', w')"
    by auto
  from job_bind_Inr[OF r4] obtain results where "stage_parse env start rc ti trs logs b4 w4 = (Inr results, b', w')"
    "grade_results ti trs results = (vs, ms)" by (auto simp: job_return_def)
  then show thesis by (rule that[OF 1 2 3 4])
qed

text \<open>The stages of the integration, by name.\<close>

lemma kube_burner_stages:
  "ti_Preflight (kube_burner h prep) = Some (\<lambda>rc trs. staged (kb_Check h rc trs))"
  "ti_Provisioner (kube_burner h prep) = Some (\<lambda>rc trs. staged (kb_Provision h prep rc))"
  "ti_Runner (kube_burner h prep) = Some (\<lambda>rc trs. staged (kb_Run h rc trs))"
  "ti_LogCollector (kube_burner h prep) = Some (\<lambda>rc handle. staged (kb_Collect h))"
  "ti_ResultParser (kube_burner h prep) = Some (\<lambda>rc logs. staged (\<lambda>b. State_Monad.return (kb_Parse (kh_codec h) logs b, b)))"
  by (simp_all add: kube_burner_def)

text \<open>After preflight and provisioning the bag holds the parameters and the results directory.\<close>

lemma kube_burner_prepared:
  assumes "stage_preflight env start rc (kube_burner h prep) trs b w = (Inr (), b1, w1)"
    and "stage_provision env start rc (kube_burner h prep) trs b1 w1 = (Inr (), b2, w2)"
  shows "\<exists>q. GetAs params_of_any b2 ''params'' = Some q \<and> same_params q (resolveParams trs) \<and>
    bag_string b2 ''results_dir'' = kb_results_dir h rc"
proof -
  obtain r w0 where "run_state (kb_Check h rc trs b) w0 = ((r, b1), w1)"
    using assms(1) by (auto simp: stage_preflight_def kube_burner_stages staged_run split: prod.splits sum.splits option.splits)
  from kb_Check_params[OF this] obtain q where q: "GetAs params_of_any b1 ''params'' = Some q" "same_params q (resolveParams trs)" by blast
  obtain w0 where "run_state (kb_Provision h prep rc b1) w0 = ((None, b2), w2)"
    using assms(2) by (auto simp: stage_provision_def kube_burner_stages staged_run of_error_def split: prod.splits option.splits dest!: stage_result_Inr)
  from kb_Provision_bag[OF this] q show ?thesis by auto
qed

lemma buildRunCmd_Inr:
  assumes "buildRunCmd h env dir subdir = Inr cmd"
  shows "\<exists>path absResults. cl_LookPath (kh_cluster h) ''kube-burner'' = Inr path \<and> kh_Abs h dir = Inr absResults \<and>
    cmd = \<lparr> cm_Path = path, cm_Args = [''init'', ''-c'', path_join [absResults, subdir, ''config.yaml'']],
      cm_Dir = path_join [absResults, subdir], cm_Env = env \<rparr>"
  using assms by (auto simp: buildRunCmd_def split: sum.splits)

text \<open>
  C17: a passing native verdict of a kube-burner job rests on a run of the tool and on its files.
  The binary found on the path ran \<open>init\<close> on the staged configuration in the requirement's own
  directory below the results directory, with the environment of the requirement's valid
  parameters and a storage class; directly after that run the directory was walked, and the files
  read there hold a job summary whose jobs all passed and, when snapshots were measured, exactly
  the requested number of ready ones. Nothing else of the host happened up to the end of the job.
\<close>

theorem kube_burner_pass_evidence:
  assumes "run_stages env start rc (kube_burner h prep) [tr] NewBag w = (Inr (vs, ms), b', w')"
    and "tr_ID tr \<in> {''TR-VIRT-010'', ''TR-VIRT-027''}"
    and "v \<in> set vs" and "v_Item v = ''native:jobs_passed''" and "v_Outcome v = OutcomePass"
  shows "\<exists>p sc path absResults w1 r w2 opened w3 data files ss rows quants.
    same_params p (resolveParams [tr]) \<and> validateFor (tr_ID tr) p = None \<and> sc \<noteq> [] \<and>
    cl_LookPath (kh_cluster h) ''kube-burner'' = Inr path \<and> kh_Abs h (kb_results_dir h rc) = Inr absResults \<and>
    run_state (kh_Run h \<lparr> cm_Path = path, cm_Args = [''init'', ''-c'', path_join [absResults, tr_ID tr, ''config.yaml'']],
      cm_Dir = path_join [absResults, tr_ID tr], cm_Env = buildEnv p sc \<rparr>) w1 = (r, w2) \<and>
    run_state (kh_OpenDir h (path_join [kb_results_dir h rc, tr_ID tr])) (je_SetStage env ''collect'' [tr] w2) = (opened, w3) \<and>
    w' = je_SetStage env ''parse'' [tr] (record_refs env [tr] (zero_log_bundle\<lparr>lb_Refs := files, lb_Data := data\<rparr>) w3) \<and>
    collected_metrics kb_wanted ''kube-burner'' (path_join [kb_results_dir h rc, tr_ID tr]) opened = Inr (data, files) \<and>
    parseJobSummaries (kh_codec h) data = Inr (ss, OutcomePass) \<and> read_measurements (kh_codec h) data [] [] = Inr (rows, quants) \<and>
    (kp_SnapshotCount p > 0 \<longrightarrow> rows = [] \<or> readySnapshotCount rows = kp_SnapshotCount p)"
proof -
  let ?ti = "kube_burner h prep" and ?dir = "path_join [kb_results_dir h rc, tr_ID tr]"
  obtain b1 w1 b2 w2 hdl b3 w3 logs b4 w4 results where
    pre: "stage_preflight env start rc ?ti [tr] NewBag w = (Inr (), b1, w1)" "stage_provision env start rc ?ti [tr] b1 w1 = (Inr (), b2, w2)" and
    run: "stage_run env start rc ?ti [tr] b2 w2 = (Inr hdl, b3, w3)" and col: "stage_collect env start rc ?ti [tr] hdl b3 w3 = (Inr logs, b4, w4)" and
    par: "stage_parse env start rc ?ti [tr] logs b4 w4 = (Inr results, b', w')" and gr: "grade_results ?ti [tr] results = (vs, ms)"
    by (rule run_stages_Inr[OF assms(1)])
  from kube_burner_prepared[OF pre] obtain q where q: "GetAs params_of_any b2 ''params'' = Some q" "same_params q (resolveParams [tr])"
    and dir: "bag_string b2 ''results_dir'' = kb_results_dir h rc" by blast
  let ?p = "run_params b2 [tr]" and ?sc = "effective_class b2 (storage_class_of rc)"
  have "run_state (kb_Run h rc [tr] b2) (je_SetStage env ''run'' [tr] w2) = ((Inr hdl, b3), w3)"
    using stage_run_Inr[OF run kube_burner_stages(3)] by (simp add: staged_run)
  from kb_Run_Inr[OF this, unfolded dir] obtain cmd w5 r where c: "validateFor (tr_ID tr) ?p = None" "storage_class_of rc \<noteq> []"
    "buildRunCmd h (buildEnv ?p ?sc) (kb_results_dir h rc) (tr_ID tr) = Inr cmd" "run_state (kh_Run h cmd) w5 = (r, w3)"
    and b3: "b3 = Bag_Set (Bag_Set (Bag_Set b2 ''kb_subdir'' (AStr ?dir)) ''kb_trid'' (AStr (tr_ID tr)))
           ''kb_runerr'' (AStr (case r of Some err \<Rightarrow> err | None \<Rightarrow> []))" by blast
  have b3': "bag_string b3 ''kb_subdir'' = ?dir" "GetAs params_of_any b3 ''params'' = Some q"
    using q(1) by (simp_all add: b3 GetAs_set)
  obtain w6 where o: "run_state (kb_Collect h b3) (je_SetStage env ''collect'' [tr] w3) = ((Inr logs, b4), w6)" and w4: "w4 = record_refs env [tr] logs w6"
    using stage_collect_Inr[OF col kube_burner_stages(4)] by (auto simp: staged_run)
  have pr: "kb_Parse (kh_codec h) logs b4 = Inr results" "w' = je_SetStage env ''parse'' [tr] w4"
    using stage_parse_Inr[OF par kube_burner_stages(5)] by (auto simp: staged_run)
  obtain res where "latest res_TRID (tr_ID tr) results = Some res" "res_Native res = OutcomePass"
    using grade_native_pass[OF gr assms(2-5)] by blast
  moreover have b4: "b4 = b3" using kb_Collect_Inr[OF o] by blast
  ultimately obtain ss rows quants where e: "lb_Data logs \<noteq> []" "parseJobSummaries (kh_codec h) (lb_Data logs) = Inr (ss, OutcomePass)"
    "read_measurements (kh_codec h) (lb_Data logs) [] [] = Inr (rows, quants)"
    "kp_SnapshotCount q > 0 \<longrightarrow> rows = [] \<or> readySnapshotCount rows = kp_SnapshotCount q"
    using kb_Parse_pass[OF pr(1) _ _ b3'(2)[folded b4]] by blast
  from kb_Collect_Inr[OF o] e(1) obtain opened files where f:
    "run_state (kh_OpenDir h ?dir) (je_SetStage env ''collect'' [tr] w3) = (opened, w6)"
    "collected_metrics kb_wanted ''kube-burner'' ?dir opened = Inr (lb_Data logs, files)"
    "logs = zero_log_bundle\<lparr>lb_Refs := files, lb_Data := lb_Data logs\<rparr>" unfolding b3'(1) by blast
  have p: "same_params ?p (resolveParams [tr])" "kp_SnapshotCount ?p = kp_SnapshotCount q"
    using q by (auto simp: run_params_def same_params_def)
  have sc: "?sc \<noteq> []" using c(2) by (simp add: effective_class_def Let_def)
  from buildRunCmd_Inr[OF c(3)] obtain path absResults where pa:
    "cl_LookPath (kh_cluster h) ''kube-burner'' = Inr path" "kh_Abs h (kb_results_dir h rc) = Inr absResults"
    "cmd = \<lparr> cm_Path = path, cm_Args = [''init'', ''-c'', path_join [absResults, tr_ID tr, ''config.yaml'']],
      cm_Dir = path_join [absResults, tr_ID tr], cm_Env = buildEnv ?p ?sc \<rparr>" by blast
  show ?thesis
    using p c(1) sc pa(1,2) c(4)[unfolded pa(3)] f e pr(2)[unfolded w4] by metis
qed


section \<open>A concrete job\<close>

text \<open>One volume, one snapshot: the tool leaves a job summary with one passed snapshot job.\<close>

definition demo_host :: "unit kb_host" where
  "demo_host =
     \<lparr> kh_cluster = csi_cluster, kh_snapshot = csi_codec, kh_probe = bound_codec,
       kh_codec = \<lparr> kc_summaries = (\<lambda>d. Inr [\<lparr> js_MetricName = ''jobSummary'', js_ElapsedTime = Some (Fin 1), js_Passed = True, js_Name = ''vmsnapshot-snapshot'' \<rparr>]),
         kc_quantiles = Inl, kc_latencies = Inl, kc_raw = (\<lambda>ss rows. []), kc_error = (\<lambda>e. e) \<rparr>,
       kh_populators = (\<lambda>d. Inr []), kh_documents = (\<lambda>d. Inr []), kh_claim = (\<lambda>v. Inl []),
       kh_ReadDir = (\<lambda>d. Inr [(''config.yaml'', False)]), kh_ReadTemplate = (\<lambda>f. Inr []), kh_Render = (\<lambda>t vs. Inr []),
       kh_RemoveAll = (\<lambda>p. State_Monad.return None), kh_MkdirAll = (\<lambda>p. State_Monad.return None),
       kh_WriteFile = (\<lambda>p c. State_Monad.return None), kh_Abs = Inr, kh_Run = (\<lambda>c. State_Monad.return None),
       kh_OpenDir = (\<lambda>d. State_Monad.return (Inr
         [\<lparr> we_Path = ''jobSummary.json'', we_Name = ''jobSummary.json'', we_IsDir = False, we_Err = None, we_Read = Inr ''x'' \<rparr>])),
       kh_TempDir = ''/tmp'', kh_object = (\<lambda>d. Inr []), kh_createdName = Inr, kh_claimSets = (\<lambda>d. Inr []),
       kh_wait = \<lparr> wt_ctxErr = (\<lambda>w. None), wt_next = State_Monad.return True \<rparr>, kh_RecordStorageSelection = None \<rparr>"

definition demo_env :: "unit job_env" where
  "demo_env =
     \<lparr> je_ctxErr = (\<lambda>s w. None), je_parentErr = (\<lambda>w. None), je_since = (\<lambda>s w. Fin 0), je_SetStage = (\<lambda>s trs w. w),
       je_RecordArtifacts = None, je_mkdir = (\<lambda>d w. (None, w)), je_progress = (\<lambda>p w. w) \<rparr>"

definition demo_rc :: run_ctx where
  "demo_rc = \<lparr> rc_RunID = ''run'', rc_PartKind = [], rc_WorkDir = ''/work'',
     rc_Backend = Some \<lparr> rb_Name = ''b'', rb_Vendor = [], rb_StorageClass = ''gold'', rb_SnapshotClass = [], rb_Params = [], rb_secrets = [] \<rparr> \<rparr>"

definition demo_tr :: test_requirement where
  "demo_tr = zero_test_requirement\<lparr>tr_ID := ''TR-VIRT-010'', tr_Params := [(''replicas'', AInt 1)]\<rparr>"

definition demo_params :: kb_params where
  "demo_params = default_params\<lparr>kp_Replicas := 1, kp_SnapshotCount := 1\<rparr>"

lemma demo_resolve: "resolveParams [demo_tr] = demo_params"
  by (simp add: resolveParams_def demo_tr_def demo_params_def default_params_def Let_def int_param_def nonempty_param_def raw_param_def gm_has_def gm_get_Cons)

lemma demo_id: "tr_ID demo_tr = ''TR-VIRT-010''"
  by (simp add: demo_tr_def)

lemma demo_valid: "validateFor ''TR-VIRT-010'' demo_params = None"
  by (simp add: validateFor_def scenarioFor_def snapshotScenarios_def demo_params_def default_params_def gm_get_Cons Let_def)

lemma csi_exec: "run_state (cl_Exec csi_cluster cli i args) w = (\<lparr> cr_Stdout = ''csi'', cr_Stderr = [], cr_Combined = ''csi'', cr_Error = None \<rparr>, w)"
  and csi_cli: "KubeCLI csi_cluster = ''oc''" and demo_cluster: "kh_cluster demo_host = csi_cluster"
  by (simp_all add: csi_cluster_def KubeCLI_def on_path_def demo_host_def)

lemma demo_capabilities:
  "\<exists>fs. run_state (cluster_Preflight csi_cluster [KubeVirt csi_cluster, CDI csi_cluster, snapshotCRD demo_host] ''gold'') w = (fs, w) \<and> no_errors fs"
  by (simp add: cluster_Preflight_def Let_def KubeVirt_def CDI_def snapshotCRD_def CRD_def StorageClassExists_def csi_cli csi_exec demo_cluster info_def)

lemma demo_storage: "run_state (storage_findings demo_host sc [demo_tr]) w = ([], w)"
  by (simp add: workloadStoragePreflight_def Let_def demo_host_def StorageRequests_def LabelStorageRequests_def CheckStorage_def)

lemma demo_selection:
  "run_state (ResolveSnapshot csi_cluster csi_codec ''gold'' [] [] True) w =
     (Inr \<lparr> sn_StorageClass = ''gold'', sn_SnapshotClass = ''snap'', sn_Kubeconfig = [] \<rparr>, w)"
  by (simp add: ResolveSnapshot_def resolve_class_def profile_class_def snapshotJSON_def named_class_def csi_command csi_codec_def
      trim_space_def is_space_def)


lemma demo_snapshot:
  "\<exists>fs. run_state (snapshot_findings demo_host ''gold'' [] b) w = ((fs, Bag_Set b ''snapshot_selection''
     (any_of_selection \<lparr> sn_StorageClass = ''gold'', sn_SnapshotClass = ''snap'', sn_Kubeconfig = [] \<rparr>)), w) \<and> no_errors fs"
  by (simp add: snapshot_findings_def demo_cluster demo_host_def demo_selection WaitForCreateSupported_def Let_def csi_command selection_Finding_def info_def)

lemma demo_populator:
  "\<exists>fs. run_state (populator_findings demo_host p b) w = ((fs, Bag_Set b ''params'' (any_of_params (p\<lparr>kp_UsePopulator := False\<rparr>))), w) \<and> no_errors fs"
  by (simp add: populator_findings_def demo_cluster csi_cli HasVolumePopulator_def csi_exec demo_host_def info_def)


definition demo_bag :: bag where
  "demo_bag = Bag_Set (Bag_Set (Bag_Set NewBag ''params'' (any_of_params demo_params)) ''snapshot_selection''
     (any_of_selection \<lparr> sn_StorageClass = ''gold'', sn_SnapshotClass = ''snap'', sn_Kubeconfig = [] \<rparr>))
     ''params'' (any_of_params (demo_params\<lparr>kp_UsePopulator := False\<rparr>))"

lemma demo_check:
  "\<exists>fs. run_state (kb_Check demo_host demo_rc [demo_tr] NewBag) w = (((fs, None), demo_bag), w) \<and> no_errors fs"
proof -
  let ?b1 = "Bag_Set NewBag ''params'' (any_of_params demo_params)"
  obtain cs where cs: "run_state (cluster_Preflight csi_cluster [KubeVirt csi_cluster, CDI csi_cluster, snapshotCRD demo_host] ''gold'') w = (cs, w)" "no_errors cs"
    using demo_capabilities by blast
  obtain ss b2 where ss: "run_state (snapshot_findings demo_host ''gold'' [] ?b1) w = ((ss, b2), w)" "no_errors ss"
    and b2: "b2 = Bag_Set ?b1 ''snapshot_selection'' (any_of_selection \<lparr> sn_StorageClass = ''gold'', sn_SnapshotClass = ''snap'', sn_Kubeconfig = [] \<rparr>)"
    using demo_snapshot by blast
  obtain ps where ps: "run_state (populator_findings demo_host demo_params b2) w = ((ps, demo_bag), w)" "no_errors ps"
    using demo_populator[of demo_params b2 w] b2 unfolding demo_bag_def by blast
  have sc: "storage_class_of demo_rc = ''gold''" "rc_Backend demo_rc = Some be \<Longrightarrow> rb_SnapshotClass be = []" for be
    by (auto simp: storage_class_of_def demo_rc_def)
  have n: "kp_SnapshotCount demo_params = 1" by (simp add: demo_params_def)
  have f: "no_errors (param_findings [demo_tr])" "no_errors (host_findings demo_host ''gold'' [demo_tr])"
    by (simp_all add: param_findings_def host_findings_def demo_resolve demo_id demo_valid info_def demo_cluster csi_cluster_def)
  have "run_state (kb_Check demo_host demo_rc [demo_tr] NewBag) w =
      (((param_findings [demo_tr] @ host_findings demo_host ''gold'' [demo_tr] @ cs @ [] @ ss @ ps, None), demo_bag), w)"
    unfolding kb_Check_def Let_def demo_resolve sc(1) demo_cluster
    using cs ss ps demo_storage[of "''gold''" w] by (simp add: n demo_resolve demo_rc_def)
  then show ?thesis using f cs ss ps by auto
qed

lemma demo_provision:
  "run_state (kb_Provision demo_host prep demo_rc demo_bag) w = ((None, Bag_Set demo_bag ''results_dir'' (AStr ''/work/kubeburner-results'')), w)"
proof -
  have d: "kb_results_dir demo_host demo_rc = ''/work/kubeburner-results''"
    by (simp add: kb_results_dir_def demo_rc_def trim_right_def SLASH_def)
  have "run_state (kb_Provision demo_host prep demo_rc demo_bag) w = run_state (provision_dir demo_host demo_rc demo_bag) w"
    by (simp add: kb_Provision_def demo_rc_def split: option.splits)
  moreover have "run_state (kh_MkdirAll demo_host x) w = (None, w)" for x by (simp add: demo_host_def)
  ultimately show ?thesis by (simp add: provision_dir_def d)
qed


abbreviation (input) demo_run_bag :: bag where
  "demo_run_bag \<equiv> Bag_Set (Bag_Set (Bag_Set (Bag_Set demo_bag ''results_dir'' (AStr ''/work/kubeburner-results''))
     ''kb_subdir'' (AStr ''/work/kubeburner-results/TR-VIRT-010'')) ''kb_trid'' (AStr ''TR-VIRT-010'')) ''kb_runerr'' (AStr [])"

lemma demo_dir: "path_join [''/work/kubeburner-results'', ''TR-VIRT-010''] = ''/work/kubeburner-results/TR-VIRT-010''"
  by code_simp

lemma demo_bag_gets:
  "GetAs params_of_any demo_bag ''params'' = Some (demo_params\<lparr>kp_UsePopulator := False\<rparr>)"
  "bag_string demo_bag ''snapshot_storage_class'' = []" "GetAs selection_of_any demo_bag ''snapshot_selection'' \<noteq> None"
  by (simp_all add: demo_bag_def GetAs_set bag_string_def NewBag_def GetAs_def Bag_Get_def Bag_Set_def)

lemma demo_stage: "run_state (prepare_subdir demo_host d t) w = (None, w)"
  by (simp add: prepare_subdir_def unless_error_def stageConfig_def wrap_error_def demo_host_def)

lemma demo_run:
  "run_state (kb_Run demo_host demo_rc [demo_tr] (Bag_Set demo_bag ''results_dir'' (AStr ''/work/kubeburner-results''))) w =
     ((Inr ''kube-burner'', demo_run_bag), w)"
proof -
  let ?b = "Bag_Set demo_bag ''results_dir'' (AStr ''/work/kubeburner-results'')"
  have p: "run_params ?b [demo_tr] = demo_params\<lparr>kp_UsePopulator := False\<rparr>"
    by (simp add: run_params_def GetAs_set demo_bag_gets demo_resolve)
  have v: "validateFor ''TR-VIRT-010'' (demo_params\<lparr>kp_UsePopulator := False\<rparr>) = None"
    by (simp add: validateFor_def scenarioFor_def snapshotScenarios_def demo_params_def default_params_def gm_get_Cons Let_def)
  have sc: "storage_class_of demo_rc = ''gold''" by (simp add: storage_class_of_def demo_rc_def)
  have r: "run_state (record_selection demo_host ?b demo_tr x) u = ((), u)" for x u
    by (simp add: record_selection_def demo_host_def split: option.splits)
  obtain cmd where c: "buildRunCmd demo_host e ''/work/kubeburner-results'' ''TR-VIRT-010'' = Inr (cmd e)" for e
    by (simp add: buildRunCmd_def demo_host_def csi_cluster_def)
  have k: "kh_Run demo_host = (\<lambda>x. State_Monad.return None)" by (simp add: demo_host_def)
  show ?thesis
    by (simp add: kb_Run_def Let_def p v sc r c k demo_id demo_stage demo_dir)
qed

definition demo_data :: "(string, string) gomap" where
  "demo_data = [(''jobSummary.json'', ''x'')]"

lemma demo_collect:
  "\<exists>files. run_state (kb_Collect demo_host demo_run_bag) w = ((Inr (zero_log_bundle\<lparr>lb_Refs := files, lb_Data := demo_data\<rparr>), demo_run_bag), w)"
  by (simp add: kb_Collect_def findCollectedMetrics_def demo_host_def collected_metrics_def kb_wanted_def demo_data_def gm_set_def)
    blast

lemma demo_parse:
  "\<exists>res. kb_Parse (kh_codec demo_host) (zero_log_bundle\<lparr>lb_Refs := files, lb_Data := demo_data\<rparr>) demo_run_bag = Inr [res] \<and>
     res_TRID res = ''TR-VIRT-010'' \<and> res_Native res = OutcomePass"
proof -
  let ?ss = "[\<lparr> js_MetricName = ''jobSummary'', js_ElapsedTime = Some (Fin 1), js_Passed = True, js_Name = ''vmsnapshot-snapshot'' \<rparr>]"
  have s: "parseJobSummaries (kh_codec demo_host) demo_data = Inr (?ss, OutcomePass)"
    by (simp add: parseJobSummaries_def demo_data_def gm_get_Cons demo_host_def)
  have m: "read_measurements (kh_codec demo_host) demo_data [] [] = Inr ([], [])"
    by (simp add: demo_data_def contains_def has_prefix_def)
  have b: "\<exists>ms. batch_metrics (scenarioFor ''TR-VIRT-010'') 1 ?ss [] OutcomePass = Inr (ms, OutcomePass)"
    by (simp add: batch_metrics_def snapshotBatchElapsedTime_def isSnapshotJob_def Let_def)
  have g: "GetAs params_of_any demo_run_bag ''params'' = Some (demo_params\<lparr>kp_UsePopulator := False\<rparr>)"
    by (simp add: GetAs_set demo_bag_gets)
  have n: "kp_SnapshotCount demo_params = 1" by (simp add: demo_params_def)
  have h: "gm_has demo_data ''jobSummary.json''" by (simp add: gm_has_def demo_data_def gm_get_Cons)
  show ?thesis
    using s m b g n h by (auto simp: kb_Parse_def Let_def parseResultsWithScenario_def)
qed


lemma demo_stages:
  "\<exists>vs ms. run_stages demo_env () demo_rc (kube_burner demo_host prep) [demo_tr] NewBag () = (Inr (vs, ms), demo_run_bag, ()) \<and>
     (\<exists>v \<in> set vs. v_Item v = ''native:jobs_passed'' \<and> v_Outcome v = OutcomePass)"
proof -
  let ?ti = "kube_burner demo_host prep" and ?b2 = "Bag_Set demo_bag ''results_dir'' (AStr ''/work/kubeburner-results'')"
  have env: "je_SetStage demo_env s trs u = u" "je_ctxErr demo_env x u = None" "je_RecordArtifacts demo_env = None" for s trs u x
    by (simp_all add: demo_env_def)
  obtain fs where "run_state (kb_Check demo_host demo_rc [demo_tr] NewBag) () = (((fs, None), demo_bag), ())" "no_errors fs"
    using demo_check by blast
  moreover from this(2) have "find (\<lambda>f. fd_Level f = ''error'') fs = None" by (auto simp: no_errors_def find_None_iff)
  ultimately have 1: "stage_preflight demo_env () demo_rc ?ti [demo_tr] NewBag () = (Inr (), demo_bag, ())"
    by (simp add: stage_preflight_def kube_burner_stages staged_def env of_error_def stage_result_def)
  have 2: "stage_provision demo_env () demo_rc ?ti [demo_tr] demo_bag () = (Inr (), ?b2, ())"
    by (simp add: stage_provision_def kube_burner_stages staged_def env of_error_def stage_result_def demo_provision)
  have 3: "stage_run demo_env () demo_rc ?ti [demo_tr] ?b2 () = (Inr ''kube-burner'', demo_run_bag, ())"
    by (simp add: stage_run_def kube_burner_stages staged_def env stage_result_def demo_run)
  obtain files where "run_state (kb_Collect demo_host demo_run_bag) () = ((Inr (zero_log_bundle\<lparr>lb_Refs := files, lb_Data := demo_data\<rparr>), demo_run_bag), ())"
    using demo_collect by blast
  then have 4: "stage_collect demo_env () demo_rc ?ti [demo_tr] ''kube-burner'' demo_run_bag () =
      (Inr (zero_log_bundle\<lparr>lb_Refs := files, lb_Data := demo_data\<rparr>), demo_run_bag, ())"
    by (simp add: stage_collect_def kube_burner_stages staged_def env stage_result_def record_refs_def)
  obtain res where r: "kb_Parse (kh_codec demo_host) (zero_log_bundle\<lparr>lb_Refs := files, lb_Data := demo_data\<rparr>) demo_run_bag = Inr [res]"
    "res_TRID res = ''TR-VIRT-010''" "res_Native res = OutcomePass" using demo_parse by blast
  then have 5: "stage_parse demo_env () demo_rc ?ti [demo_tr] (zero_log_bundle\<lparr>lb_Refs := files, lb_Data := demo_data\<rparr>) demo_run_bag () =
      (Inr [res], demo_run_bag, ())"
    by (simp add: stage_parse_def kube_burner_stages staged_def env stage_result_def)
  obtain vs ms where g: "grade_results ?ti [demo_tr] [res] = (vs, ms)" by fastforce
  have "\<exists>v \<in> set vs. v_Item v = ''native:jobs_passed'' \<and> v_Outcome v = OutcomePass"
  proof -
    have "vs = fst (grade_one ?ti [(''TR-VIRT-010'', res)] demo_tr)"
      using g r(2) by (auto simp: grade_results_def Let_def gm_index_def gm_set_def)
    moreover have "tr_SLAs demo_tr = []" "tr_Checks demo_tr = []" by (simp_all add: demo_tr_def zero_test_requirement_def)
    moreover have "ti_Evaluators ?ti = [(''TR-VIRT-010'', Some snapshot_Evaluate), (''TR-VIRT-027'', Some snapshot_Evaluate)]"
      by (simp add: kube_burner_def)
    ultimately show ?thesis
      by (simp add: grade_one_def demo_id gm_get_Cons GradeTR_def snapshot_Evaluate_def Let_def r(3))
  qed
  then show ?thesis
    using 1 2 3 4 5 g by (simp add: run_stages_def job_bind_def job_return_def)
qed

theorem kube_burner_pass_evidence_witness:
  "\<exists>p ss. same_params p (resolveParams [demo_tr]) \<and> validateFor ''TR-VIRT-010'' p = None \<and>
     parseJobSummaries (kh_codec demo_host) demo_data = Inr (ss, OutcomePass)"
proof -
  let ?prep = "\<lambda>s. State_Monad.return ([], None)"
  obtain vs ms v where r: "run_stages demo_env () demo_rc (kube_burner demo_host ?prep) [demo_tr] NewBag () = (Inr (vs, ms), demo_run_bag, ())"
    and v: "v \<in> set vs" "v_Item v = ''native:jobs_passed''" "v_Outcome v = OutcomePass" using demo_stages by blast
  have "tr_ID demo_tr \<in> {''TR-VIRT-010'', ''TR-VIRT-027''}" by (simp add: demo_id)
  from kube_burner_pass_evidence[OF r this v] obtain p where "same_params p (resolveParams [demo_tr])" "validateFor (tr_ID demo_tr) p = None" by blast
  moreover have "\<exists>ss. parseJobSummaries (kh_codec demo_host) demo_data = Inr (ss, OutcomePass)"
    by (simp add: parseJobSummaries_def demo_data_def gm_get_Cons demo_host_def)
  ultimately show ?thesis unfolding demo_id by blast
qed

end
