(* ===== verification/Kube_Burner_Ocp.thy ===== *)
theory Kube_Burner_Ocp
  imports Kube_Burner_Stages
begin

text \<open>
  \<open>internal/tools/kubeburnerocp\<close>: the adapter that runs several workloads of kube-burner-ocp in one
  job. The declared flags of each workload (workloads.go, params.go), the parser and the mapping of
  its results (parse.go, results.go) and the stages (preflight.go, runner.go). The walk over result
  files is the one of theory Result_Files. JSON is an argument; so are the processes, which are
  started together and waited for together.
\<close>

section \<open>Results of the tool\<close>

record ocp_summary =
  oj_MetricName :: string
  oj_ElapsedTime :: f64
  oj_UUID :: string
  oj_Passed :: bool
  oj_ExecutionErrors :: string
  oj_WorkloadFlags :: "(string, string) gomap"
  oj_Name :: string
  oj_JobIterations :: int
  oj_JobType :: string
  oj_WaitWhenFinished :: bool
  oj_VerifyObjects :: bool
  oj_ErrorOnVerify :: bool

record latency_quantile =
  lq_QuantileName :: string
  lq_P99 :: f64
  lq_P95 :: f64
  lq_P50 :: f64
  lq_MetricName :: string
  lq_JobName :: string

text \<open>The decoders of the two files, and the encoders of the raw evidence.\<close>

record ocp_codec =
  oc_summaries :: "string \<Rightarrow> string + ocp_summary list"
  oc_quantiles :: "string \<Rightarrow> string + latency_quantile list"
  oc_raw :: "ocp_summary list \<Rightarrow> string"
  oc_error :: "string \<Rightarrow> string"
  oc_skipped :: "string \<Rightarrow> string"

definition ocp_parseJobSummaries :: "ocp_codec \<Rightarrow> (string, string) gomap \<Rightarrow> string + ocp_summary list \<times> outcome" where
  "ocp_parseJobSummaries oc data =
     (case gm_get data ''jobSummary.json'' of
        None \<Rightarrow> Inl ''kubeburner: missing or empty jobSummary.json''
      | Some blob \<Rightarrow>
          if blob = [] then Inl ''kubeburner: missing or empty jobSummary.json''
          else (case oc_summaries oc blob of
                  Inl err \<Rightarrow> Inl (''kubeburner: parse jobSummary.json: '' @ err)
                | Inr ss \<Rightarrow> Inr (ss, if ss = [] \<or> (\<exists>s \<in> set ss. \<not> oj_Passed s) then OutcomeFail else OutcomePass)))"

definition quantileMetricName :: "latency_quantile \<Rightarrow> string" where
  "quantileMetricName q =
     (let m = trim_suffix (lq_MetricName q) ''QuantilesMeasurement''
      in (if m = [] then ''latency'' else m) @ ''_'' @ lq_QuantileName q)"

text \<open>The rows of all readable quantile files; an unreadable one is passed over.\<close>

definition quantile_rows :: "ocp_codec \<Rightarrow> (string, string) gomap \<Rightarrow> latency_quantile list" where
  "quantile_rows oc data =
     concat (map (\<lambda>(name, blob).
       if contains name ''Quantiles'' then (case oc_quantiles oc blob of Inl err \<Rightarrow> [] | Inr qs \<Rightarrow> qs) else []) data)"

definition quantile_metrics :: "latency_quantile \<Rightarrow> metric list" where
  "quantile_metrics q =
     (let m = (\<lambda>v p. \<lparr> m_Name = quantileMetricName q, m_Value = v, m_Unit = ''ms'', m_Percentile = p \<rparr>)
      in [m (lq_P50 q) ''p50'', m (lq_P95 q) ''p95'', m (lq_P99 q) ''p99''])"

section \<open>The mapping of each workload\<close>

definition add_metrics :: "metric list \<Rightarrow> test_result \<Rightarrow> test_result" where
  "add_metrics ms res = res\<lparr>res_Metrics := res_Metrics res @ ms\<rparr>"

definition set_check :: "string \<Rightarrow> outcome \<Rightarrow> test_result \<Rightarrow> test_result" where
  "set_check name oc res = res\<lparr>res_Checks := gm_set name oc (res_Checks res)\<rparr>"

text \<open>A density job whose objects were waited for and verified.\<close>

definition density_verified :: "ocp_summary \<Rightarrow> bool" where
  "density_verified s =
     (oj_Passed s \<and> oj_ExecutionErrors s = [] \<and> oj_JobIterations s > 0 \<and> oj_WaitWhenFinished s \<and> oj_VerifyObjects s \<and> oj_ErrorOnVerify s)"

definition bind_latencies :: "latency_quantile list \<Rightarrow> metric list" where
  "bind_latencies qs =
     map (\<lambda>q. \<lparr> m_Name = ''pvc_bind_latency'', m_Value = lq_P99 q, m_Unit = ''ms'', m_Percentile = ''p99'' \<rparr>)
       (filter (\<lambda>q. lq_MetricName q = ''pvcLatencyQuantilesMeasurement'' \<and> lq_QuantileName q = ''Bound'' \<and> lq_JobName q = ''pvc-density'') qs)"

type_synonym result_mapper = "ocp_codec \<Rightarrow> ocp_summary list \<Rightarrow> (string, string) gomap \<Rightarrow> test_result \<Rightarrow> string + test_result"

definition mapPVCDensityResults :: result_mapper where
  "mapPVCDensityResults oc ss data res =
     (let res1 = (case find (\<lambda>s. oj_Name s = ''pvc-density'') ss of
            None \<Rightarrow> res
          | Some s \<Rightarrow> add_metrics [count_metric ''pvc_requested_count'' (oj_JobIterations s)]
              (set_check ''pvc-1000-bound'' (if density_verified s then OutcomePass else OutcomeFail) res))
      in Inr (add_metrics (bind_latencies (quantile_rows oc data)) res1))"

definition mapVirtMigrationResults :: result_mapper where
  "mapVirtMigrationResults oc ss data res =
     Inr (case find (\<lambda>s. oj_Name s = ''migrate-vms'') ss of
        None \<Rightarrow> res
      | Some s \<Rightarrow> add_metrics [\<lparr> m_Name = ''total_migration_duration'', m_Value = oj_ElapsedTime s, m_Unit = ''s'', m_Percentile = [] \<rparr>] res)"

text \<open>
  The value of \<open>strconv.Atoi\<close> when its error is ignored: 0 for a syntax error, and the nearest number
  of 64 bits for one that is out of range. The scan stops at the first digit that overflows.
\<close>

fun parse_uint :: "nat \<Rightarrow> string \<Rightarrow> nat option" where
  "parse_uint acc [] = Some acc"
| "parse_uint acc (c # cs) =
     (if \<not> is_digit c then None
      else let n = 10 * acc + (of_char c - 48) in if n \<ge> 2 ^ 64 then Some (2 ^ 64 - 1) else parse_uint n cs)"

definition atoi_value :: "string \<Rightarrow> int" where
  "atoi_value s =
     (let (neg, t) = (case s of c # cs \<Rightarrow> if c = CHR ''-'' then (True, cs) else if c = CHR ''+'' then (False, cs) else (False, s)
                       | [] \<Rightarrow> (False, []))
      in if t = [] then 0
         else case parse_uint 0 t of
                None \<Rightarrow> 0
              | Some n \<Rightarrow> if neg then max (- int n) (- (2 ^ 63)) else min (int n) (2 ^ 63 - 1))"

definition reaches_scale :: "ocp_summary \<Rightarrow> bool" where
  "reaches_scale s =
     (case atoi (gm_str (oj_WorkloadFlags s) ''initialVms'') of
        None \<Rightarrow> False
      | Some initial \<Rightarrow>
          (let increment = atoi_value (gm_str (oj_WorkloadFlags s) ''increment'');
               n = atoi_value (gm_str (oj_WorkloadFlags s) ''maxIterations'');
               iterations = (if n < 1 then 1 else n)
           in wrap64 (initial + wrap64 (increment * (iterations - 1))) \<ge> 20))"

definition virtParallelReachesCheckScale :: "ocp_summary list \<Rightarrow> bool" where
  "virtParallelReachesCheckScale ss = (\<exists>s \<in> set ss. reaches_scale s)"

definition lifecycle_job :: "ocp_summary \<Rightarrow> bool" where
  "lifecycle_job s = (oj_Name s \<noteq> ''virt-parallel-start-fresh'' \<and> has_prefix (oj_Name s) ''virt-parallel-'')"

definition mapVirtParallelResults :: result_mapper where
  "mapVirtParallelResults oc ss data res =
     (let res1 = set_check ''parallel-lifecycle-20'' (if virtParallelReachesCheckScale ss then res_Native res else OutcomeSkip) res;
          seconds = fold (\<lambda>s total. f64_add total (oj_ElapsedTime s)) (filter lifecycle_job ss) (Fin 0)
      in Inr (if f64_lt (Fin 0) seconds then
                add_metrics [\<lparr> m_Name = ''lifecycle_completion_time'', m_Value = seconds, m_Unit = ''s'', m_Percentile = [] \<rparr>] res1
              else res1))"


section \<open>Workloads\<close>

datatype arg_type = ArgString | ArgInt | ArgBool

record arg_spec =
  ag_flag :: string
  ag_param :: string
  ag_typ :: arg_type
  ag_optional :: bool

text \<open>The contract of a workload; a prerequisite is the resource definition that its capability looks for.\<close>

record workload_spec =
  ws_sub :: string
  ws_scFlag :: string
  ws_args :: "arg_spec list"
  ws_prereqs :: "string list"
  ws_hostBins :: "string list"
  ws_mapResults :: result_mapper

definition required_arg :: "string \<Rightarrow> string \<Rightarrow> arg_type \<Rightarrow> arg_spec" where
  "required_arg flag param typ = \<lparr> ag_flag = flag, ag_param = param, ag_typ = typ, ag_optional = False \<rparr>"

definition optional_arg :: "string \<Rightarrow> string \<Rightarrow> arg_type \<Rightarrow> arg_spec" where
  "optional_arg flag param typ = \<lparr> ag_flag = flag, ag_param = param, ag_typ = typ, ag_optional = True \<rparr>"

definition virt_prereqs :: "string list" where
  "virt_prereqs = [''kubevirts.kubevirt.io'', ''datavolumes.cdi.kubevirt.io'']"

definition workloadSpecs :: "(string, workload_spec) gomap" where
  "workloadSpecs =
     [(''pvc-density'',
       \<lparr> ws_sub = ''pvc-density'', ws_scFlag = ''--storage-class-name'',
         ws_args =
           [required_arg ''--iterations'' ''iterations'' ArgInt,
            required_arg ''--claim-size'' ''claim_size'' ArgString,
            optional_arg ''--container-image'' ''container_image'' ArgString],
         ws_prereqs = [], ws_hostBins = [], ws_mapResults = mapPVCDensityResults \<rparr>),
      (''virt-migration'',
       \<lparr> ws_sub = ''virt-migration'', ws_scFlag = ''--storage-class'',
         ws_args =
           [required_arg ''--iterations'' ''iterations'' ArgInt,
            required_arg ''--iteration-vms'' ''iteration_vms'' ArgInt,
            optional_arg ''--data-volume-count'' ''data_volume_count'' ArgInt,
            optional_arg ''--migration-qps'' ''migration_qps'' ArgInt,
            optional_arg ''--worker-node'' ''worker_node'' ArgString],
         ws_prereqs = virt_prereqs, ws_hostBins = [''virtctl''], ws_mapResults = mapVirtMigrationResults \<rparr>),
      (''virt-parallel'',
       \<lparr> ws_sub = ''virt-parallel'', ws_scFlag = ''--storage-class'',
         ws_args =
           [optional_arg ''--initial-vms'' ''initial_vms'' ArgInt,
            optional_arg ''--increment'' ''increment'' ArgInt,
            optional_arg ''--data-volume-count'' ''data_volume_count'' ArgInt,
            optional_arg ''--max-iterations'' ''max_iterations'' ArgInt,
            optional_arg ''--vm-image'' ''vm_image'' ArgString,
            optional_arg ''--vm-cpu'' ''vm_cpu'' ArgString,
            optional_arg ''--vm-memory'' ''vm_memory'' ArgString,
            optional_arg ''--namespace'' ''namespace'' ArgString,
            optional_arg ''--min-vol-size'' ''min_vol_size'' ArgInt,
            optional_arg ''--min-vol-inc-size'' ''min_vol_inc_size'' ArgInt,
            optional_arg ''--skip-migration-job'' ''skip_migration_job'' ArgBool,
            optional_arg ''--skip-resize-job'' ''skip_resize_job'' ArgBool,
            optional_arg ''--skip-restart-job'' ''skip_restart_job'' ArgBool,
            optional_arg ''--skip-snapshot-job'' ''skip_snapshot_job'' ArgBool],
         ws_prereqs = virt_prereqs, ws_hostBins = [], ws_mapResults = mapVirtParallelResults \<rparr>)]"

definition globalArgs :: "arg_spec list" where
  "globalArgs =
     [optional_arg ''--qps'' ''qps'' ArgInt, optional_arg ''--burst'' ''burst'' ArgInt,
      optional_arg ''--gc'' ''gc'' ArgBool, optional_arg ''--timeout'' ''timeout'' ArgString]"

definition renderArg :: "params \<Rightarrow> arg_spec \<Rightarrow> string + string list" where
  "renderArg raw a =
     (let bad = (\<lambda>what. Inl (''kube-burner-ocp: param '' @ go_quote (ag_param a) @ '' must be '' @ what)) in
      case gm_get raw (ag_param a) of
        None \<Rightarrow> if ag_optional a then Inr []
                else Inl (''kube-burner-ocp: missing required param '' @ go_quote (ag_param a))
      | Some v \<Rightarrow>
          (case ag_typ a of
             ArgInt \<Rightarrow> (case AsInt v of None \<Rightarrow> bad ''an integer'' | Some n \<Rightarrow> Inr [ag_flag a, show_int n])
           | ArgBool \<Rightarrow> (case AsBool v of None \<Rightarrow> bad ''a boolean'' | Some b \<Rightarrow> Inr [ag_flag a @ ''='' @ show_bool b])
           | ArgString \<Rightarrow>
               (case AsString v of
                  None \<Rightarrow> bad ''a non-empty string''
                | Some s \<Rightarrow> if s = [] then bad ''a non-empty string'' else Inr [ag_flag a, s])))"

fun render_args :: "params \<Rightarrow> arg_spec list \<Rightarrow> string + string list" where
  "render_args raw [] = Inr []"
| "render_args raw (a # as) =
     (case renderArg raw a of
        Inl err \<Rightarrow> Inl err
      | Inr seg \<Rightarrow> (case render_args raw as of Inl err \<Rightarrow> Inl err | Inr segs \<Rightarrow> Inr (seg @ segs)))"

record ocp_params =
  op_Workload :: string
  op_Raw :: params

definition ocp_resolveParams :: "test_requirement list \<Rightarrow> ocp_params" where
  "ocp_resolveParams trs =
     (case trs of
        [] \<Rightarrow> \<lparr> op_Workload = [], op_Raw = [] \<rparr>
      | tr # _ \<Rightarrow>
          \<lparr> op_Workload = (case AsString (raw_param (tr_Params tr) ''workload'') of Some v \<Rightarrow> v | None \<Rightarrow> []),
            op_Raw = tr_Params tr \<rparr>)"

definition ocp_validate :: "ocp_params \<Rightarrow> string option" where
  "ocp_validate p =
     (if op_Workload p = [] then Some (''kube-burner-ocp: missing required param '' @ go_quote ''workload'')
      else case gm_get workloadSpecs (op_Workload p) of
             None \<Rightarrow> Some (''kube-burner-ocp: unknown workload '' @ go_quote (op_Workload p))
           | Some spec \<Rightarrow>
               (case render_args (op_Raw p) (ws_args spec @ globalArgs) of Inl err \<Rightarrow> Some err | Inr _ \<Rightarrow> None))"

definition buildCLIArgs :: "ocp_params \<Rightarrow> string \<Rightarrow> string + string list" where
  "buildCLIArgs p storageClass =
     (case gm_get workloadSpecs (op_Workload p) of
        None \<Rightarrow> Inl (''kube-burner-ocp: unknown workload '' @ go_quote (op_Workload p))
      | Some spec \<Rightarrow>
          (case render_args (op_Raw p) (ws_args spec @ globalArgs) of
             Inl err \<Rightarrow> Inl err
           | Inr segs \<Rightarrow>
               (let args = ws_sub spec # segs @ [''--local-indexing''] in
                if ws_scFlag spec = [] then Inr args
                else if storageClass = [] then
                  Inl (''kube-burner-ocp: workload '' @ go_quote (op_Workload p) @ '' requires storage_class (pass --backends/--backend)'')
                else Inr (args @ [ws_scFlag spec, storageClass]))))"

section \<open>The parser\<close>

definition ocp_ParseResults :: "ocp_codec \<Rightarrow> string \<Rightarrow> string \<Rightarrow> (string, string) gomap \<Rightarrow> string + test_result" where
  "ocp_ParseResults oc workload trID data =
     (if data = [] then Inl ''kubeburner: empty data map''
      else case ocp_parseJobSummaries oc data of
             Inl err \<Rightarrow> Inl err
           | Inr (ss, native) \<Rightarrow>
               (let res = zero_test_result\<lparr>
                      res_TRID := trID, res_Metrics := concat (map quantile_metrics (quantile_rows oc data)),
                      res_Checks := [(''jobs_passed'', native)], res_Native := native\<rparr>
                in case (case gm_get workloadSpecs workload of None \<Rightarrow> Inr res | Some spec \<Rightarrow> ws_mapResults spec oc ss data res) of
                     Inl err \<Rightarrow> Inl err
                   | Inr res' \<Rightarrow> Inr (res'\<lparr>res_Raw := oc_raw oc ss\<rparr>)))"


section \<open>The host and the runs\<close>

text \<open>
  \<open>oh_RunAll\<close> starts all commands together and waits for all of them: their errors, in the order of
  the commands. The goroutines that wait write to different elements of the runs.
\<close>

record 'w ocp_host =
  oh_cluster :: "'w cluster"
  oh_codec :: ocp_codec
  oh_MkdirAll :: "string \<Rightarrow> ('w, string option) state"
  oh_RunAll :: "command list \<Rightarrow> ('w, string option list) state"
  oh_OpenDir :: "string \<Rightarrow> ('w, string + walk_entry list) state"
  oh_TempDir :: string

record kbo_run =
  kr_Iterations :: int
  kr_TRID :: string
  kr_Workload :: string
  kr_Subdir :: string
  kr_RunErr :: string
  kr_Skipped :: string

definition zero_kbo_run :: kbo_run where
  "zero_kbo_run = \<lparr> kr_Iterations = 0, kr_TRID = [], kr_Workload = [], kr_Subdir = [], kr_RunErr = [], kr_Skipped = [] \<rparr>"

definition any_of_runs :: "kbo_run list \<Rightarrow> any" where
  "any_of_runs rs =
     AList (map (\<lambda>r. AObj [(''Iterations'', AInt (kr_Iterations r)), (''TRID'', AStr (kr_TRID r)), (''Workload'', AStr (kr_Workload r)),
       (''Subdir'', AStr (kr_Subdir r)), (''RunErr'', AStr (kr_RunErr r)), (''Skipped'', AStr (kr_Skipped r))]) rs)"

definition run_of_any :: "any \<Rightarrow> kbo_run" where
  "run_of_any v =
     (case v of
        AObj [(k1, AInt n), (k2, AStr tr), (k3, AStr w), (k4, AStr d), (k5, AStr e), (k6, AStr s)] \<Rightarrow>
          \<lparr> kr_Iterations = n, kr_TRID = tr, kr_Workload = w, kr_Subdir = d, kr_RunErr = e, kr_Skipped = s \<rparr>
      | _ \<Rightarrow> zero_kbo_run)"

fun runs_of_any :: "any \<Rightarrow> kbo_run list option" where
  "runs_of_any (AList vs) = Some (map run_of_any vs)"
| "runs_of_any _ = None"

lemma runs_of_any_inverse [simp]: "runs_of_any (any_of_runs rs) = Some rs"
  by (auto simp: any_of_runs_def comp_def run_of_any_def intro!: map_idI)

definition bag_runs :: "bag \<Rightarrow> kbo_run list" where
  "bag_runs b = (case GetAs runs_of_any b ''kbo_runs'' of Some rs \<Rightarrow> rs | None \<Rightarrow> [])"

definition any_of_ocp_params :: "ocp_params \<Rightarrow> any" where
  "any_of_ocp_params p = AObj [(''Workload'', AStr (op_Workload p)), (''Raw'', AObj (op_Raw p))]"

section \<open>Run\<close>

definition as_int_value :: "any \<Rightarrow> int" where
  "as_int_value v = (case v of AStr s \<Rightarrow> atoi_value s | _ \<Rightarrow> (case AsInt v of Some n \<Rightarrow> n | None \<Rightarrow> 0))"

definition ocp_buildRunCmd :: "'w ocp_host \<Rightarrow> string list \<Rightarrow> string \<Rightarrow> string \<Rightarrow> string + command" where
  "ocp_buildRunCmd h args resultsDir subdir =
     (case cl_LookPath (oh_cluster h) ''kube-burner-ocp'' of
        Inl err \<Rightarrow> Inl (''kube-burner-ocp: kube-burner-ocp not on PATH: '' @ err)
      | Inr path \<Rightarrow> Inr \<lparr> cm_Path = path, cm_Args = args, cm_Dir = path_join [resultsDir, subdir], cm_Env = [] \<rparr>)"

text \<open>One requirement: its run, its command if there is one, and the workloads seen so far.\<close>

definition plan_run ::
  "'w ocp_host \<Rightarrow> string \<Rightarrow> string \<Rightarrow> test_requirement \<Rightarrow> string list \<Rightarrow> ('w, (kbo_run \<times> command option) \<times> string list) state" where
  "plan_run h resultsDir sc tr seen =
     (let p = ocp_resolveParams [tr]; w = op_Workload p;
          r = zero_kbo_run\<lparr>kr_TRID := tr_ID tr, kr_Workload := w, kr_Iterations := as_int_value (raw_param (op_Raw p) ''iterations'')\<rparr>
      in case ocp_validate p of
           Some err \<Rightarrow> State_Monad.return ((zero_kbo_run\<lparr>kr_TRID := tr_ID tr, kr_RunErr := err\<rparr>, None), seen)
         | None \<Rightarrow>
             if w \<in> set seen then
               State_Monad.return ((r\<lparr>kr_Skipped := ''duplicate workload in job; only the first runs (shared namespace)''\<rparr>, None), seen)
             else do {
               e \<leftarrow> oh_MkdirAll h (path_join [resultsDir, tr_ID tr]);
               State_Monad.return
                 (case e of
                    Some err \<Rightarrow> (r\<lparr>kr_RunErr := err\<rparr>, None)
                  | None \<Rightarrow>
                      (case buildCLIArgs p sc of
                         Inl err \<Rightarrow> (r\<lparr>kr_RunErr := err\<rparr>, None)
                       | Inr args \<Rightarrow>
                           (case ocp_buildRunCmd h args resultsDir (tr_ID tr) of
                              Inl err \<Rightarrow> (r\<lparr>kr_RunErr := err\<rparr>, None)
                            | Inr cmd \<Rightarrow> (r\<lparr>kr_Subdir := path_join [resultsDir, tr_ID tr]\<rparr>, Some cmd))),
                  w # seen)
             })"

fun plan_runs ::
  "'w ocp_host \<Rightarrow> string \<Rightarrow> string \<Rightarrow> test_requirement list \<Rightarrow> string list \<Rightarrow> ('w, (kbo_run \<times> command option) list) state" where
  "plan_runs h resultsDir sc [] seen = State_Monad.return []"
| "plan_runs h resultsDir sc (tr # trs) seen = do {
     r \<leftarrow> plan_run h resultsDir sc tr seen;
     rs \<leftarrow> plan_runs h resultsDir sc trs (snd r);
     State_Monad.return (fst r # rs)
   }"

text \<open>The error of each command goes to its own run.\<close>

fun settle_runs :: "(kbo_run \<times> command option) list \<Rightarrow> string option list \<Rightarrow> kbo_run list" where
  "settle_runs [] es = []"
| "settle_runs ((r, None) # rs) es = r # settle_runs rs es"
| "settle_runs ((r, Some cmd) # rs) [] = r # settle_runs rs []"
| "settle_runs ((r, Some cmd) # rs) (e # es) =
     (case e of Some err \<Rightarrow> r\<lparr>kr_RunErr := err\<rparr> | None \<Rightarrow> r) # settle_runs rs es"

definition commands_of :: "(kbo_run \<times> command option) list \<Rightarrow> command list" where
  "commands_of rs = concat (map (\<lambda>(r, c). case c of Some cmd \<Rightarrow> [cmd] | None \<Rightarrow> []) rs)"

definition ocp_Run :: "'w ocp_host \<Rightarrow> run_ctx \<Rightarrow> test_requirement list \<Rightarrow> bag \<Rightarrow> ('w, (string + run_handle) \<times> bag) state" where
  "ocp_Run h rc trs b =
     (let resultsDir = bag_string b ''results_dir'' in
      if trs = [] then State_Monad.return (Inl ''kube-burner-ocp: no TRs to run'', b)
      else if resultsDir = [] then State_Monad.return (Inl ''kube-burner-ocp: results_dir missing (provision first)'', b)
      else do {
        rs \<leftarrow> plan_runs h resultsDir (storage_class_of rc) trs [];
        es \<leftarrow> oh_RunAll h (commands_of rs);
        State_Monad.return (Inr ''kube-burner-ocp'', Bag_Set b ''kbo_runs'' (any_of_runs (settle_runs rs es)))
      })"

section \<open>Collect\<close>

definition ocp_wanted :: "string \<Rightarrow> bool" where
  "ocp_wanted name = (name = ''jobSummary.json'' \<or> contains name ''Quantiles'')"

definition add_refs :: "string \<Rightarrow> string list \<Rightarrow> log_bundle \<Rightarrow> log_bundle" where
  "add_refs tr files lb = lb\<lparr>lb_Refs := lb_Refs lb @ files, lb_RefsByTR := gm_set tr ((case gm_get (lb_RefsByTR lb) tr of Some fs \<Rightarrow> fs | None \<Rightarrow> []) @ files) (lb_RefsByTR lb)\<rparr>"

definition add_data :: "string \<Rightarrow> (string, string) gomap \<Rightarrow> log_bundle \<Rightarrow> log_bundle" where
  "add_data tr m lb = lb\<lparr>lb_Data := fold (\<lambda>(name, content). gm_set (tr @ ''/'' @ name) content) m (lb_Data lb)\<rparr>"

fun collect_runs :: "'w ocp_host \<Rightarrow> kbo_run list \<Rightarrow> log_bundle \<Rightarrow> ('w, log_bundle) state" where
  "collect_runs h [] lb = State_Monad.return lb"
| "collect_runs h (r # rs) lb =
     (if kr_Skipped r \<noteq> [] \<or> kr_Subdir r = [] \<and> kr_RunErr r \<noteq> [] then collect_runs h rs lb
      else do {
        opened \<leftarrow> oh_OpenDir h (kr_Subdir r);
        collect_runs h rs
          (case collected_metrics ocp_wanted ''kube-burner-ocp'' (kr_Subdir r) opened of
             Inl err \<Rightarrow> lb
           | Inr (m, files) \<Rightarrow> add_data (kr_TRID r) m (add_refs (kr_TRID r) files lb))
      })"

definition ocp_Collect :: "'w ocp_host \<Rightarrow> bag \<Rightarrow> ('w, (string + log_bundle) \<times> bag) state" where
  "ocp_Collect h b = do {
     lb \<leftarrow> collect_runs h (bag_runs b) zero_log_bundle;
     State_Monad.return (Inr lb, b)
   }"

section \<open>Parse\<close>

definition sub_data :: "string \<Rightarrow> (string, string) gomap \<Rightarrow> (string, string) gomap" where
  "sub_data tr data = map (\<lambda>(k, v). (trim_prefix k (tr @ ''/''), v)) (filter (\<lambda>(k, v). has_prefix k (tr @ ''/'')) data)"

text \<open>The requested number of claims is that of the plan.\<close>

definition count_matches :: "kbo_run \<Rightarrow> test_result \<Rightarrow> bool" where
  "count_matches r res =
     (\<exists>m \<in> set (res_Metrics res). m_Name m = ''pvc_requested_count'' \<and> kr_Iterations r > 0 \<and> f64_eq (m_Value m) (f64_of_int (kr_Iterations r)))"

definition parse_run :: "ocp_codec \<Rightarrow> (string, string) gomap \<Rightarrow> kbo_run \<Rightarrow> string + test_result" where
  "parse_run oc data r =
     (let sub = sub_data (kr_TRID r) data; res0 = zero_test_result\<lparr>res_TRID := kr_TRID r\<rparr> in
      if kr_Skipped r \<noteq> [] then Inr (res0\<lparr>res_Native := OutcomeSkip, res_Raw := oc_skipped oc (kr_Skipped r)\<rparr>)
      else if \<not> gm_has sub ''jobSummary.json'' then
        Inr (res0\<lparr>res_Native := OutcomeFail,
          res_Raw := oc_error oc (if kr_RunErr r \<noteq> [] then kr_RunErr r else ''kube-burner produced no jobSummary'')\<rparr>)
      else case ocp_ParseResults oc (kr_Workload r) (kr_TRID r) sub of
             Inl err \<Rightarrow> Inl err
           | Inr res \<Rightarrow>
               Inr (if kr_Workload r = ''pvc-density'' \<and> \<not> count_matches r res
                    then (set_check ''pvc-1000-bound'' OutcomeError res)\<lparr>res_Native := OutcomeError\<rparr> else res))"

fun parse_runs :: "ocp_codec \<Rightarrow> (string, string) gomap \<Rightarrow> kbo_run list \<Rightarrow> string + test_result list" where
  "parse_runs oc data [] = Inr []"
| "parse_runs oc data (r # rs) =
     (case parse_run oc data r of
        Inl err \<Rightarrow> Inl err
      | Inr res \<Rightarrow> (case parse_runs oc data rs of Inl err \<Rightarrow> Inl err | Inr out \<Rightarrow> Inr (res # out)))"

definition ocp_Parse :: "ocp_codec \<Rightarrow> log_bundle \<Rightarrow> bag \<Rightarrow> string + test_result list" where
  "ocp_Parse oc logs b = parse_runs oc (lb_Data logs) (bag_runs b)"

section \<open>Preflight, provision and the integration\<close>

definition ocp_param_findings :: "test_requirement \<Rightarrow> finding list" where
  "ocp_param_findings tr =
     (let p = ocp_resolveParams [tr] in
      case ocp_validate p of
        Some err \<Rightarrow> [error_finding (tr_ID tr @ '' parameters: '' @ err),
                     skip_finding (tr_ID tr @ '' workload prerequisites: cannot select checks without a valid workload'')]
      | None \<Rightarrow> [info (tr_ID tr @ '' workload='' @ op_Workload p)])"

definition spec_of :: "test_requirement \<Rightarrow> workload_spec option" where
  "spec_of tr = gm_get workloadSpecs (op_Workload (ocp_resolveParams [tr]))"

definition bin_finding :: "'w cluster \<Rightarrow> string \<Rightarrow> string \<Rightarrow> finding" where
  "bin_finding cl what bin =
     (case cl_LookPath cl bin of
        Inl err \<Rightarrow> error_finding (what @ '' needs '' @ go_quote bin @ '' on PATH: '' @ err)
      | Inr _ \<Rightarrow> info (''host binary found: '' @ bin))"

fun host_bin_findings :: "'w cluster \<Rightarrow> (string \<times> string) list \<Rightarrow> string list \<Rightarrow> finding list" where
  "host_bin_findings cl [] seen = []"
| "host_bin_findings cl ((workload, bin) # bs) seen =
     (if bin \<in> set seen then host_bin_findings cl bs seen
      else bin_finding cl (''workload '' @ workload) bin # host_bin_findings cl bs (bin # seen))"

definition host_bins :: "test_requirement list \<Rightarrow> (string \<times> string) list" where
  "host_bins trs =
     concat (map (\<lambda>tr. case spec_of tr of
         None \<Rightarrow> [] | Some spec \<Rightarrow> map (\<lambda>bin. (op_Workload (ocp_resolveParams [tr]), bin)) (ws_hostBins spec)) trs)"

text \<open>The prerequisites of all workloads, each one once and in the order of its first use.\<close>

definition all_prereqs :: "test_requirement list \<Rightarrow> string list" where
  "all_prereqs trs = rev (remdups (rev (concat (map (\<lambda>tr. case spec_of tr of None \<Rightarrow> [] | Some spec \<Rightarrow> ws_prereqs spec) trs))))"

definition ocp_Check :: "'w ocp_host \<Rightarrow> run_ctx \<Rightarrow> test_requirement list \<Rightarrow> bag \<Rightarrow> ('w, (finding list \<times> string option) \<times> bag) state" where
  "ocp_Check h rc trs b = do {
     let cl = oh_cluster h;
     cs \<leftarrow> check_capabilities (KubeCLI cl) (map (CRD cl) (all_prereqs trs));
     State_Monad.return
       ((concat (map ocp_param_findings trs) @
         (if storage_class_of rc \<noteq> [] then [info (''storage_class='' @ storage_class_of rc)] else []) @
         bin_finding cl ''host execution'' ''kube-burner-ocp'' # host_bin_findings cl (host_bins trs) [] @ cs, None),
        Bag_Set b ''params'' (any_of_ocp_params (ocp_resolveParams trs)))
   }"

definition ocp_results_dir :: "'w ocp_host \<Rightarrow> run_ctx \<Rightarrow> string" where
  "ocp_results_dir h rc = trim_right [SLASH] (if rc_WorkDir rc = [] then oh_TempDir h else rc_WorkDir rc) @ ''/kubeburner-results''"

definition ocp_Provision :: "'w ocp_host \<Rightarrow> run_ctx \<Rightarrow> bag \<Rightarrow> ('w, string option \<times> bag) state" where
  "ocp_Provision h rc b = do {
     e \<leftarrow> oh_MkdirAll h (ocp_results_dir h rc);
     State_Monad.return (case e of
         Some err \<Rightarrow> (Some (''kube-burner-ocp: results dir: '' @ err), b)
       | None \<Rightarrow> (None, Bag_Set b ''results_dir'' (AStr (ocp_results_dir h rc))))
   }"

definition ocp_Teardown :: "bag \<Rightarrow> ('w, string option \<times> bag) state" where
  "ocp_Teardown b = State_Monad.return (None, b)"

definition native_reason :: string where
  "native_reason = ''SLA bars to-be-validated (KB sla: []); native = all kube-burner-ocp jobs passed''"

definition kube_burner_ocp :: "'w ocp_host \<Rightarrow> 'w tool_integration" where
  "kube_burner_ocp h =
     \<lparr> ti_Name = ''kube-burner-ocp'', ti_Image = [], ti_Provides = [''TR-STOR-006'', ''TR-VIRT-004'', ''TR-VIRT-019''],
       ti_Preflight = Some (\<lambda>rc trs. staged (ocp_Check h rc trs)),
       ti_Provisioner = Some (\<lambda>rc trs. staged (ocp_Provision h rc)),
       ti_Runner = Some (\<lambda>rc trs. staged (ocp_Run h rc trs)),
       ti_LogCollector = Some (\<lambda>rc handle. staged (ocp_Collect h)),
       ti_ResultParser = Some (\<lambda>rc logs. staged (\<lambda>b. State_Monad.return (ocp_Parse (oh_codec h) logs b, b))),
       ti_Teardown = Some (\<lambda>rc. staged ocp_Teardown),
       ti_ParallelSafe = False, ti_ExclusivityGroups = [''kube-burner'', ''cdi'', ''storage''],
       ti_Evaluators =
         [(''TR-STOR-006'', Some (NativeOrGraded ''native:jobs_passed'' native_reason)),
          (''TR-VIRT-019'', Some (NativeOrGraded ''native:jobs_passed'' native_reason))],
       ti_SetupGroups = [] \<rparr>"


section \<open>Preflight covers the run\<close>

lemma spec_scFlag: "gm_get workloadSpecs w = Some spec \<Longrightarrow> ws_scFlag spec \<noteq> []"
proof -
  have "\<forall>(k, s) \<in> set workloadSpecs. ws_scFlag s \<noteq> []" by (simp add: workloadSpecs_def)
  then show "gm_get workloadSpecs w = Some spec \<Longrightarrow> ws_scFlag spec \<noteq> []" by (auto dest: gm_get_Some_set)
qed

lemma no_empty_workload: "gm_get workloadSpecs [] = None"
  by (simp add: workloadSpecs_def gm_get_Cons)

lemma buildCLIArgs_cases:
  "buildCLIArgs p sc =
     (case ocp_validate p of
        Some err \<Rightarrow> if op_Workload p = [] then Inl (''kube-burner-ocp: unknown workload '' @ go_quote []) else Inl err
      | None \<Rightarrow>
          if sc = [] then Inl (''kube-burner-ocp: workload '' @ go_quote (op_Workload p) @ '' requires storage_class (pass --backends/--backend)'')
          else (case gm_get workloadSpecs (op_Workload p) of
                  Some spec \<Rightarrow> (case render_args (op_Raw p) (ws_args spec @ globalArgs) of
                      Inr segs \<Rightarrow> Inr (ws_sub spec # segs @ [''--local-indexing''] @ [ws_scFlag spec, sc]))))"
  by (auto simp: buildCLIArgs_def ocp_validate_def Let_def no_empty_workload spec_scFlag split: option.splits sum.splits)

text \<open>
  The flags of a workload can be built exactly for the parameters that the preflight accepts
  together with a storage class; without a storage class, accepted parameters always fail.
\<close>

lemma validate_iff_buildCLIArgs:
  "(\<exists>args. buildCLIArgs p sc = Inr args) \<longleftrightarrow> ocp_validate p = None \<and> sc \<noteq> []"
  by (auto simp: buildCLIArgs_cases ocp_validate_def split: option.splits sum.splits if_splits)

lemma clean_check_validates:
  assumes "run_state (ocp_Check h rc trs b) w = (((fs, e), b'), w')" and "no_errors fs" and "tr \<in> set trs"
  shows "ocp_validate (ocp_resolveParams [tr]) = None \<and> (\<exists>path. cl_LookPath (oh_cluster h) ''kube-burner-ocp'' = Inr path)"
proof -
  have fs: "no_errors (concat (map ocp_param_findings trs))" "fd_Level (bin_finding (oh_cluster h) ''host execution'' ''kube-burner-ocp'') \<noteq> ''error''"
    using assms(1,2) by (auto simp: ocp_Check_def Let_def split: prod.splits)
  have "no_errors (ocp_param_findings tr)" using fs(1) assms(3) by (auto simp: no_errors_def)
  then have "ocp_validate (ocp_resolveParams [tr]) = None"
    by (cases "ocp_validate (ocp_resolveParams [tr])") (auto simp: ocp_param_findings_def Let_def)
  moreover have "\<exists>path. cl_LookPath (oh_cluster h) ''kube-burner-ocp'' = Inr path"
    using fs(2) by (cases "cl_LookPath (oh_cluster h) ''kube-burner-ocp''") (auto simp: bin_finding_def)
  ultimately show ?thesis by blast
qed

text \<open>
  After a preflight without errors, the run of a requirement has a command, with the flags of
  its own parameters and the results directory of the requirement, unless its workload already ran
  in this job, its directory could not be made, or the backend has no storage class. The last case
  is one the preflight does not report.
\<close>

theorem ocp_preflight_covers_run:
  assumes "run_state (ocp_Check h rc trs b) w = (((fs, e), b'), w')" and "no_errors fs" and "tr \<in> set trs"
    and "run_state (plan_run h dir (storage_class_of rc) tr seen) w1 = (((r, c), seen'), w2)"
  shows "op_Workload (ocp_resolveParams [tr]) \<in> set seen \<and> c = None \<and> kr_Skipped r \<noteq> [] \<or>
    (\<exists>err. run_state (oh_MkdirAll h (path_join [dir, tr_ID tr])) w1 = (Some err, w2) \<and> c = None \<and> kr_RunErr r = err) \<or>
    storage_class_of rc = [] \<and> c = None \<and> (\<exists>err. buildCLIArgs (ocp_resolveParams [tr]) [] = Inl err \<and> kr_RunErr r = err) \<or>
    (\<exists>path args. cl_LookPath (oh_cluster h) ''kube-burner-ocp'' = Inr path \<and>
       buildCLIArgs (ocp_resolveParams [tr]) (storage_class_of rc) = Inr args \<and> kr_RunErr r = [] \<and>
       c = Some \<lparr> cm_Path = path, cm_Args = args, cm_Dir = path_join [dir, tr_ID tr], cm_Env = [] \<rparr>)"
proof -
  let ?p = "ocp_resolveParams [tr]" and ?sc = "storage_class_of rc"
  obtain path where v: "ocp_validate ?p = None" and path: "cl_LookPath (oh_cluster h) ''kube-burner-ocp'' = Inr path"
    using clean_check_validates[OF assms(1-3)] by blast
  show ?thesis
  proof (cases "op_Workload ?p \<in> set seen")
    case True
    then show ?thesis using assms(4) v by (auto simp: plan_run_def Let_def)
  next
    case new: False
    obtain e1 w3 where m: "run_state (oh_MkdirAll h (path_join [dir, tr_ID tr])) w1 = (e1, w3)" by fastforce
    show ?thesis
    proof (cases e1)
      case (Some err)
      then show ?thesis using assms(4) v new m by (auto simp: plan_run_def Let_def)
    next
      case None
      show ?thesis
      proof (cases "?sc = []")
        case True
        then obtain err where "buildCLIArgs ?p [] = Inl err" using validate_iff_buildCLIArgs[of ?p "[]"] by (cases "buildCLIArgs ?p []") auto
        then show ?thesis using assms(4) v new m None True by (auto simp: plan_run_def Let_def)
      next
        case False
        then obtain args where "buildCLIArgs ?p ?sc = Inr args" using validate_iff_buildCLIArgs[of ?p ?sc] v by blast
        then show ?thesis using assms(4) v new m None path by (auto simp: plan_run_def ocp_buildRunCmd_def zero_kbo_run_def Let_def)
      qed
    qed
  qed
qed


section \<open>What the results rest on\<close>

definition run_summary :: "(string, string) gomap \<Rightarrow> kbo_run \<Rightarrow> string option" where
  "run_summary data r = gm_get (sub_data (kr_TRID r) data) ''jobSummary.json''"

lemma ocp_mappers:
  assumes "gm_get workloadSpecs w = Some spec"
  shows "w = ''pvc-density'' \<and> ws_mapResults spec = mapPVCDensityResults \<or>
    w = ''virt-migration'' \<and> ws_mapResults spec = mapVirtMigrationResults \<or> w = ''virt-parallel'' \<and> ws_mapResults spec = mapVirtParallelResults"
proof -
  have "\<forall>(k, s) \<in> set workloadSpecs. k = ''pvc-density'' \<and> ws_mapResults s = mapPVCDensityResults \<or>
    k = ''virt-migration'' \<and> ws_mapResults s = mapVirtMigrationResults \<or> k = ''virt-parallel'' \<and> ws_mapResults s = mapVirtParallelResults"
    by (simp add: workloadSpecs_def)
  then show ?thesis using gm_get_Some_set[OF assms] by blast
qed

text \<open>A mapping keeps requirement and native outcome; it passes the density check only for a verified job.\<close>

definition mapped_ok :: "ocp_summary list \<Rightarrow> string \<Rightarrow> test_result \<Rightarrow> test_result \<Rightarrow> bool" where
  "mapped_ok ss w res res' =
     (res_TRID res' = res_TRID res \<and> res_Native res' = res_Native res \<and>
      (gm_get (res_Checks res') ''pvc-1000-bound'' = Some OutcomePass \<and> gm_get (res_Checks res) ''pvc-1000-bound'' \<noteq> Some OutcomePass \<longrightarrow>
         w = ''pvc-density'' \<and> (\<exists>s \<in> set ss. oj_Name s = ''pvc-density'' \<and> density_verified s)))"

lemma density_mapped:
  "\<exists>res'. mapPVCDensityResults oc ss data res = Inr res' \<and> mapped_ok ss ''pvc-density'' res res'"
  by (auto simp: mapPVCDensityResults_def mapped_ok_def add_metrics_def set_check_def Let_def find_Some_iff
      split: option.splits if_splits dest: nth_mem)

lemma migration_mapped:
  "\<exists>res'. mapVirtMigrationResults oc ss data res = Inr res' \<and> mapped_ok ss w res res'"
  by (auto simp: mapVirtMigrationResults_def mapped_ok_def add_metrics_def split: option.splits)

lemma parallel_mapped:
  "\<exists>res'. mapVirtParallelResults oc ss data res = Inr res' \<and> mapped_ok ss w res res'"
  by (simp add: mapVirtParallelResults_def mapped_ok_def add_metrics_def set_check_def Let_def)

lemma spec_mapped:
  assumes "gm_get workloadSpecs w = Some spec"
  shows "\<exists>res'. ws_mapResults spec oc ss data res = Inr res' \<and> mapped_ok ss w res res'"
  using ocp_mappers[OF assms] density_mapped migration_mapped parallel_mapped by metis

text \<open>A summary that decodes always gives a result.\<close>

lemma ocp_ParseResults_total:
  assumes "gm_get data ''jobSummary.json'' = Some blob"
  shows "(case if blob = [] then Inl [] else oc_summaries oc blob of
       Inl err \<Rightarrow> (\<exists>e. ocp_ParseResults oc w tr data = Inl e)
     | Inr ss \<Rightarrow> (\<exists>res. ocp_ParseResults oc w tr data = Inr res \<and> res_TRID res = tr \<and>
         (res_Native res = OutcomePass \<longrightarrow> ss \<noteq> [] \<and> (\<forall>s \<in> set ss. oj_Passed s)) \<and>
         (gm_get (res_Checks res) ''pvc-1000-bound'' = Some OutcomePass \<longrightarrow>
            w = ''pvc-density'' \<and> (\<exists>s \<in> set ss. oj_Name s = ''pvc-density'' \<and> density_verified s))))"
proof (cases "if blob = [] then Inl [] else oc_summaries oc blob")
  case (Inl e)
  then show ?thesis using assms
    by (auto simp: ocp_ParseResults_def ocp_parseJobSummaries_def split: if_splits)
next
  case (Inr ss)
  then have b: "blob \<noteq> []" "oc_summaries oc blob = Inr ss" by (auto split: if_splits)
  define native where "native = (if ss = [] \<or> (\<exists>s \<in> set ss. \<not> oj_Passed s) then OutcomeFail else OutcomePass)"
  define res where "res = zero_test_result\<lparr>res_TRID := tr, res_Metrics := concat (map quantile_metrics (quantile_rows oc data)),
      res_Checks := [(''jobs_passed'', native)], res_Native := native\<rparr>"
  have p: "ocp_parseJobSummaries oc data = Inr (ss, native)" "data \<noteq> []"
    using assms b by (auto simp: ocp_parseJobSummaries_def native_def)
  have c: "gm_get (res_Checks res) ''pvc-1000-bound'' = None" "res_TRID res = tr" "res_Native res = native"
    by (simp_all add: res_def gm_get_Cons)
  have n: "native = OutcomePass \<Longrightarrow> ss \<noteq> [] \<and> (\<forall>s \<in> set ss. oj_Passed s)" by (auto simp: native_def split: if_splits)
  obtain res' where m: "(case gm_get workloadSpecs w of None \<Rightarrow> Inr res | Some spec \<Rightarrow> ws_mapResults spec oc ss data res) = Inr res'" "mapped_ok ss w res res'"
  proof (cases "gm_get workloadSpecs w")
    case None
    then show ?thesis using that[of res] c by (simp add: mapped_ok_def)
  next
    case (Some spec)
    then show ?thesis using that spec_mapped[OF Some, of oc ss data res] by auto
  qed
  have "ocp_ParseResults oc w tr data = Inr (res'\<lparr>res_Raw := oc_raw oc ss\<rparr>)"
    using p m(1) unfolding res_def by (simp add: ocp_ParseResults_def Let_def)
  then show ?thesis using m(2) c n Inr by (auto simp: mapped_ok_def)
qed

text \<open>The evidence of the result of one run.\<close>

definition run_result_ok :: "ocp_codec \<Rightarrow> (string, string) gomap \<Rightarrow> kbo_run \<Rightarrow> test_result \<Rightarrow> bool" where
  "run_result_ok oc data r res =
     (res_TRID res = kr_TRID r \<and> (kr_Skipped r \<noteq> [] \<longrightarrow> res_Native res = OutcomeSkip) \<and>
      (res_Native res = OutcomePass \<or> gm_get (res_Checks res) ''pvc-1000-bound'' = Some OutcomePass \<longrightarrow>
        kr_Skipped r = [] \<and> (\<exists>blob ss. run_summary data r = Some blob \<and> oc_summaries oc blob = Inr ss \<and>
          (res_Native res = OutcomePass \<longrightarrow> ss \<noteq> [] \<and> (\<forall>s \<in> set ss. oj_Passed s)) \<and>
          (kr_Workload r = ''pvc-density'' \<longrightarrow> count_matches r res) \<and>
          (gm_get (res_Checks res) ''pvc-1000-bound'' = Some OutcomePass \<longrightarrow>
             kr_Workload r = ''pvc-density'' \<and> (\<exists>s \<in> set ss. oj_Name s = ''pvc-density'' \<and> density_verified s)))))"

lemma parse_run_ok:
  assumes "parse_run oc data r = Inr res"
  shows "run_result_ok oc data r res"
proof (cases "kr_Skipped r = [] \<and> run_summary data r \<noteq> None")
  case False
  then show ?thesis using assms
    by (auto simp: parse_run_def run_result_ok_def run_summary_def Let_def gm_has_def zero_test_result_def split: if_splits)
next
  case True
  then obtain blob where blob: "run_summary data r = Some blob" by blast
  then have g: "gm_get (sub_data (kr_TRID r) data) ''jobSummary.json'' = Some blob" by (simp add: run_summary_def)
  from assms True obtain res0 where p: "ocp_ParseResults oc (kr_Workload r) (kr_TRID r) (sub_data (kr_TRID r) data) = Inr res0"
    and r: "res = (if kr_Workload r = ''pvc-density'' \<and> \<not> count_matches r res0
                    then (set_check ''pvc-1000-bound'' OutcomeError res0)\<lparr>res_Native := OutcomeError\<rparr> else res0)"
    by (auto simp: parse_run_def run_summary_def Let_def gm_has_def split: sum.splits)
  note t = ocp_ParseResults_total[OF g, of oc "kr_Workload r" "kr_TRID r", unfolded p]
  then obtain ss where ss: "oc_summaries oc blob = Inr ss" by (auto split: if_splits sum.splits)
  have e: "res_TRID res0 = kr_TRID r" "res_Native res0 = OutcomePass \<longrightarrow> ss \<noteq> [] \<and> (\<forall>s \<in> set ss. oj_Passed s)"
    "gm_get (res_Checks res0) ''pvc-1000-bound'' = Some OutcomePass \<longrightarrow>
       kr_Workload r = ''pvc-density'' \<and> (\<exists>s \<in> set ss. oj_Name s = ''pvc-density'' \<and> density_verified s)"
    using t ss by (auto split: if_splits sum.splits)
  show ?thesis
  proof (cases "kr_Workload r = ''pvc-density'' \<and> \<not> count_matches r res0")
    case True
    then show ?thesis using r e(1) \<open>kr_Skipped r = [] \<and> run_summary data r \<noteq> None\<close> by (auto simp: run_result_ok_def set_check_def)
  next
    case False
    then have "res = res0" using r by (simp only: if_False)
    then show ?thesis using e False True blob ss by (auto simp: run_result_ok_def)
  qed
qed

text \<open>
  C24: the results of a job of several workloads are those of its runs, one each and in their order.
  A passing result comes from a run that was not skipped, with a summary whose jobs all passed, of
  as many claims as the plan asked for in a density run; and the check for bound claims passes only
  for a density job that verified its objects.
\<close>

theorem ocp_results_evidence:
  assumes "ocp_Parse oc logs b = Inr out"
  shows "list_all2 (run_result_ok oc (lb_Data logs)) (bag_runs b) out"
proof -
  have "list_all2 (run_result_ok oc data) rs out" if "parse_runs oc data rs = Inr out" for data rs out
    using that by (induction rs arbitrary: out) (auto split: sum.splits dest: parse_run_ok)
  then show ?thesis using assms by (simp add: ocp_Parse_def)
qed

lemma parse_run_fails:
  "(\<exists>err. parse_run oc data r = Inl err) \<longleftrightarrow>
     kr_Skipped r = [] \<and> (\<exists>blob. run_summary data r = Some blob \<and> (blob = [] \<or> (\<exists>err. oc_summaries oc blob = Inl err)))"
proof (cases "run_summary data r")
  case None
  then show ?thesis by (auto simp: parse_run_def run_summary_def Let_def gm_has_def)
next
  case (Some blob)
  then have "gm_get (sub_data (kr_TRID r) data) ''jobSummary.json'' = Some blob" by (simp add: run_summary_def)
  note t = ocp_ParseResults_total[OF this, of oc "kr_Workload r" "kr_TRID r"]
  show ?thesis
    using t Some by (auto simp: parse_run_def run_summary_def Let_def gm_has_def split: sum.splits if_splits)
qed

text \<open>
  Parsing a job fails as a whole exactly when the summary of one of its runs is empty or does
  not decode: one malformed file takes the results of every other requirement of the job with it.
\<close>

theorem ocp_Parse_fails_iff:
  "(\<exists>err. ocp_Parse oc logs b = Inl err) \<longleftrightarrow>
     (\<exists>r \<in> set (bag_runs b). kr_Skipped r = [] \<and>
        (\<exists>blob. run_summary (lb_Data logs) r = Some blob \<and> (blob = [] \<or> (\<exists>err. oc_summaries oc blob = Inl err))))"
proof -
  have "(\<exists>err. parse_runs oc data rs = Inl err) \<longleftrightarrow> (\<exists>r \<in> set rs. \<exists>err. parse_run oc data r = Inl err)" for data rs
    by (induction rs) (auto split: sum.splits)
  then show ?thesis by (simp add: ocp_Parse_def parse_run_fails)
qed


section \<open>Concrete runs\<close>

definition ocp_demo :: "unit ocp_host" where
  "ocp_demo =
     \<lparr> oh_cluster = csi_cluster,
       oh_codec = \<lparr> oc_summaries = (\<lambda>d. Inr [\<lparr> oj_MetricName = ''jobSummary'', oj_ElapsedTime = Fin 1, oj_UUID = [], oj_Passed = True,
           oj_ExecutionErrors = [], oj_WorkloadFlags = [], oj_Name = ''pvc-density'', oj_JobIterations = 1, oj_JobType = ''create'',
           oj_WaitWhenFinished = True, oj_VerifyObjects = True, oj_ErrorOnVerify = True \<rparr>]),
         oc_quantiles = Inl, oc_raw = (\<lambda>ss. []), oc_error = (\<lambda>e. e), oc_skipped = (\<lambda>s. s) \<rparr>,
       oh_MkdirAll = (\<lambda>d. State_Monad.return None), oh_RunAll = (\<lambda>cs. State_Monad.return (map (\<lambda>c. None) cs)),
       oh_OpenDir = (\<lambda>d. State_Monad.return (Inr [])), oh_TempDir = ''/tmp'' \<rparr>"

definition parallel_tr :: test_requirement where
  "parallel_tr = zero_test_requirement\<lparr>tr_ID := ''TR-VIRT-019'', tr_Params := [(''workload'', AStr ''virt-parallel'')]\<rparr>"

definition gold_rc :: run_ctx where
  "gold_rc = \<lparr> rc_RunID = ''run'', rc_PartKind = [], rc_WorkDir = ''/work'',
     rc_Backend = Some \<lparr> rb_Name = ''b'', rb_Vendor = [], rb_StorageClass = ''gold'', rb_SnapshotClass = [], rb_Params = [], rb_secrets = [] \<rparr> \<rparr>"

lemma parallel_params: "ocp_resolveParams [parallel_tr] = \<lparr> op_Workload = ''virt-parallel'', op_Raw = [(''workload'', AStr ''virt-parallel'')] \<rparr>"
  by (simp add: ocp_resolveParams_def parallel_tr_def raw_param_def gm_get_Cons)

lemma parallel_valid: "ocp_validate (ocp_resolveParams [parallel_tr]) = None"
  by (simp add: parallel_params ocp_validate_def workloadSpecs_def gm_get_Cons globalArgs_def optional_arg_def renderArg_def)

lemma parallel_spec: "\<exists>spec. spec_of parallel_tr = Some spec \<and> ws_prereqs spec = virt_prereqs \<and> ws_hostBins spec = []"
  by (simp add: spec_of_def parallel_params workloadSpecs_def gm_get_Cons)

lemma parallel_check:
  "\<exists>fs b'. run_state (ocp_Check ocp_demo gold_rc [parallel_tr] NewBag) () = (((fs, None), b'), ()) \<and> no_errors fs"
proof -
  have cl: "oh_cluster ocp_demo = csi_cluster" by (simp add: ocp_demo_def)
  have ex: "run_state (cl_Exec csi_cluster cli i args) w = (\<lparr> cr_Stdout = ''csi'', cr_Stderr = [], cr_Combined = ''csi'', cr_Error = None \<rparr>, w)" for cli i args w
    by (simp add: csi_cluster_def)
  have cli: "KubeCLI csi_cluster = ''oc''" by (simp add: csi_cluster_def KubeCLI_def on_path_def)
  have look: "cl_LookPath csi_cluster bin = Inr ''/usr/bin/oc''" for bin by (simp add: csi_cluster_def)
  have sc: "storage_class_of gold_rc = ''gold''" by (simp add: storage_class_of_def gold_rc_def)
  have pre: "all_prereqs [parallel_tr] = virt_prereqs" "host_bins [parallel_tr] = []"
    using parallel_spec by (auto simp: all_prereqs_def host_bins_def virt_prereqs_def)
  have "\<exists>cs. run_state (check_capabilities ''oc'' (map (CRD csi_cluster) virt_prereqs)) w = (cs, w) \<and> no_errors cs" for w
    by (simp add: virt_prereqs_def CRD_def ex info_def)
  then obtain cs where "run_state (check_capabilities ''oc'' (map (CRD csi_cluster) virt_prereqs)) () = (cs, ())" "no_errors cs" by blast
  then show ?thesis
    by (simp add: ocp_Check_def cl cli look sc pre ocp_param_findings_def parallel_valid bin_finding_def Let_def info_def)
qed

theorem ocp_preflight_covers_run_witness:
  "\<exists>args. buildCLIArgs (ocp_resolveParams [parallel_tr]) ''gold'' = Inr args"
proof -
  obtain fs b' where c: "run_state (ocp_Check ocp_demo gold_rc [parallel_tr] NewBag) () = (((fs, None), b'), ())" and n: "no_errors fs"
    using parallel_check by blast
  have m: "parallel_tr \<in> set [parallel_tr]" by simp
  obtain r c' seen' where p: "run_state (plan_run ocp_demo ''/work'' (storage_class_of gold_rc) parallel_tr []) () = (((r, c'), seen'), ())"
    by (cases "run_state (plan_run ocp_demo ''/work'' (storage_class_of gold_rc) parallel_tr []) ()") auto
  have k: "run_state (oh_MkdirAll ocp_demo x) () = (None, ())" for x by (simp add: ocp_demo_def)
  have sc: "storage_class_of gold_rc = ''gold''" by (simp add: storage_class_of_def gold_rc_def)
  from ocp_preflight_covers_run[OF c n m p] show ?thesis by (elim disjE) (auto simp: k sc)
qed

definition density_run :: kbo_run where
  "density_run = zero_kbo_run\<lparr>kr_TRID := ''TR-STOR-006'', kr_Workload := ''pvc-density'', kr_Iterations := 1, kr_Subdir := ''/work''\<rparr>"

definition density_logs :: log_bundle where
  "density_logs = zero_log_bundle\<lparr>lb_Data := [(''TR-STOR-006/jobSummary.json'', ''x'')]\<rparr>"

lemma density_parse:
  "\<exists>res. parse_run (oh_codec ocp_demo) (lb_Data density_logs) density_run = Inr res \<and> res_Native res = OutcomePass"
proof -
  have sub: "sub_data ''TR-STOR-006'' (lb_Data density_logs) = [(''jobSummary.json'', ''x'')]"
    by (simp add: sub_data_def density_logs_def trim_prefix_def has_prefix_def)
  have one: "f64_of_int 1 = Fin 1" using to_f64_int[of 1] by (simp add: f64_of_int_def)
  have spec: "\<exists>spec. gm_get workloadSpecs ''pvc-density'' = Some spec \<and> ws_mapResults spec = mapPVCDensityResults"
    by (simp add: workloadSpecs_def gm_get_Cons)
  have q: "quantile_rows oc [(''jobSummary.json'', ''x'')] = []" for oc
    by (simp add: quantile_rows_def has_prefix_def)
  obtain res where "ocp_ParseResults (oh_codec ocp_demo) ''pvc-density'' ''TR-STOR-006'' [(''jobSummary.json'', ''x'')] = Inr res"
    and "res_Native res = OutcomePass" and "count_metric ''pvc_requested_count'' 1 \<in> set (res_Metrics res)"
    using spec by (auto simp: ocp_ParseResults_def ocp_parseJobSummaries_def ocp_demo_def gm_get_Cons q mapPVCDensityResults_def
        add_metrics_def set_check_def bind_latencies_def Let_def)
  moreover from this have "count_matches density_run res"
    unfolding count_matches_def
    by (intro bexI[of _ "count_metric ''pvc_requested_count'' 1"]) (simp_all add: count_metric_def density_run_def one f64_eq_def)
  ultimately show ?thesis
    by (simp add: parse_run_def sub gm_has_def gm_get_Cons Let_def) (simp add: density_run_def zero_kbo_run_def sub gm_get_Cons)
qed

theorem ocp_results_evidence_witness:
  "\<exists>res. run_result_ok (oh_codec ocp_demo) (lb_Data density_logs) density_run res \<and> res_Native res = OutcomePass"
proof -
  obtain res where r: "parse_run (oh_codec ocp_demo) (lb_Data density_logs) density_run = Inr res" "res_Native res = OutcomePass"
    using density_parse by blast
  let ?b = "Bag_Set NewBag ''kbo_runs'' (any_of_runs [density_run])"
  have b: "bag_runs ?b = [density_run]" by (simp add: bag_runs_def GetAs_def Bag_Get_def Bag_Set_def)
  have "ocp_Parse (oh_codec ocp_demo) density_logs ?b = Inr [res]" using r(1) by (simp add: ocp_Parse_def b)
  from ocp_results_evidence[OF this] r(2) show ?thesis by (auto simp: b)
qed

section \<open>One command for each workload\<close>

lemma plan_run_seen:
  assumes "run_state (plan_run h dir sc tr seen) w = (((r, c), seen'), w')"
  shows "set seen \<subseteq> set seen' \<and> (c \<noteq> None \<longrightarrow> kr_Workload r \<notin> set seen \<and> kr_Workload r \<in> set seen')"
  using assms
  by (auto simp: plan_run_def Let_def split: option.splits if_splits prod.splits sum.splits)

lemma plan_runs_distinct:
  assumes "run_state (plan_runs h dir sc trs seen) w = (rs, w')"
  shows "distinct (map (\<lambda>(r, c). kr_Workload r) (filter (\<lambda>(r, c). c \<noteq> None) rs)) \<and>
    (\<forall>r cmd. (r, Some cmd) \<in> set rs \<longrightarrow> kr_Workload r \<notin> set seen)"
  using assms
proof (induction trs arbitrary: seen w rs)
  case (Cons tr trs)
  obtain r c seen' w1 where p: "run_state (plan_run h dir sc tr seen) w = (((r, c), seen'), w1)" by (metis prod.collapse)
  obtain rs' where q: "run_state (plan_runs h dir sc trs seen') w1 = (rs', w')" and rs: "rs = (r, c) # rs'"
    using Cons.prems p by (auto split: prod.splits)
  show ?case
    using plan_run_seen[OF p] Cons.IH[OF q] unfolding rs by (cases c) auto
qed simp

end
