(* ===== verification/Report_Markdown.thy ===== *)
theory Report_Markdown
  imports Report_Merge
begin

text \<open>
  The Markdown writer at the end of \<open>internal/report/report.go\<close>. Each part of the document is one
  definition and the text is their concatenation in the order of the code.
\<close>

section \<open>Cells\<close>

text \<open>The replacer of the attestation table: at each position the first matching pair, in its order.\<close>

fun md_escape :: "string \<Rightarrow> string" where
  "md_escape [] = []"
| "md_escape (c # s) =
     (if c = CHR 0x5C then [CHR 0x5C, CHR 0x5C] @ md_escape s
      else if c = CHR ''|'' then [CHR 0x5C, CHR ''|''] @ md_escape s
      else if c = CHR 0x0D then
        (case s of d # s' \<Rightarrow> if d = CHR 0x0A then ''<br>'' @ md_escape s' else ''<br>'' @ md_escape s | [] \<Rightarrow> ''<br>'')
      else if c = CHR 0x0A then ''<br>'' @ md_escape s
      else c # md_escape s)"

definition attestationLabel :: "string \<Rightarrow> string" where
  "attestationLabel claim =
     (if claim = ''storage_array_vendor'' then ''Storage array vendor''
      else if claim = ''storage_array_family'' then ''Storage array product family''
      else if claim = ''storage_array_model'' then ''Storage array model or deployment type''
      else if claim = ''storage_array_software_version'' then ''Storage array software or firmware version''
      else if claim = ''storage_array_protocol'' then ''Storage protocol or access mode''
      else if claim = ''reference_architecture_url'' then ''Reference architecture URL''
      else if claim = ''published_slas_url'' then ''Published SLAs URL''
      else map (\<lambda>c. if c = CHR ''_'' then CHR '' '' else c) claim)"

text \<open>A table row: the cells between bars, each with a space on both sides.\<close>

definition md_row :: "string list \<Rightarrow> string" where
  "md_row cells = ''|'' @ concat (map (\<lambda>c. '' '' @ c @ '' |'') cells) @ LF"

definition md_rule :: "nat list \<Rightarrow> string" where
  "md_rule ns = ''|'' @ concat (map (\<lambda>n. replicate n (CHR ''-'') @ ''|'') ns) @ LF"

section \<open>Parts of the document\<close>

definition md_heading :: "report \<Rightarrow> string" where
  "md_heading r =
     ''# Certification report '' @ r_RunID r @ LF @ LF @
     ''- Status: '' @ r_Status r @ LF @
     ''- Health: '' @ r_Health r @ LF @
     ''- Certifiable: '' @ show_bool (r_Certifiable r) @ LF @
     ''- Provenance: schema '' @ r_SchemaVersion r @
     (if pv_KBGitCommit (r_Provenance r) \<noteq> [] then '', KB commit '' @ pv_KBGitCommit (r_Provenance r) else []) @
     (if pv_GeneratedDate (r_Provenance r) \<noteq> [] then '', generated '' @ pv_GeneratedDate (r_Provenance r) else []) @ LF @
     (let p = env_Platform (r_Environment r) in
      if pf_OCPVersion p \<noteq> [] \<or> csi_Name (pf_CSIDriver p) \<noteq> [] then
        ''- Environment: OCP '' @ pf_OCPVersion p @ '', CNV '' @ pf_CNVVersion p @ '', driver '' @ csi_Name (pf_CSIDriver p) @
        '' ('' @ show_int (hw_Nodes (env_Hardware (r_Environment r))) @ '' nodes)'' @ LF
      else []) @
     ''- Certified level: '' @ show_int (sm_CertifiedLevel (r_Summary r)) @ LF @
     ''- Totals: '' @ show_int (sm_Pass (r_Summary r)) @ '' pass / '' @ show_int (sm_Fail (r_Summary r)) @ '' fail / '' @
     show_int (sm_Error (r_Summary r)) @ '' error / '' @ show_int (sm_Skip (r_Summary r)) @ '' skip (of '' @
     show_int (sm_Total (r_Summary r)) @ '')'' @ LF @ LF"

definition md_selections :: "storage_selection list \<Rightarrow> string" where
  "md_selections ss =
     (if ss = [] then []
      else ''## Snapshot storage'' @ LF @ LF @
        md_row [''TR'', ''Scenario'', ''Storage class'', ''Snapshot class'', ''Effective storage class''] @
        md_rule [4, 10, 15, 16, 25] @
        concat (map (\<lambda>s. md_row [ExecutionLabel (ss_TR s) (ss_Variant s), ss_Scenario s, ss_StorageClass s,
                                  ss_SnapshotClass s, ss_EffectiveStorageClass s]) ss) @ LF)"

definition md_composition :: "run_composition \<Rightarrow> string" where
  "md_composition c =
     (if cp_Parts c = [] then []
      else ''## Run composition'' @ LF @ LF @
        ''Composed from '' @ show_int (cp_PartsCount c) @ '' run part(s).'' @ LF @ LF @
        md_row [''Part'', ''Kind'', ''Status'', ''Started'', ''Ended'', ''Reason''] @
        md_rule [6, 6, 8, 9, 7, 8] @
        concat (map (\<lambda>p. md_row [pt_PartID p, pt_Kind p, pt_Status p, pt_StartedAt p, pt_EndedAt p, pt_Reason p]) (cp_Parts c)) @ LF)"

definition md_incidents :: "incident list \<Rightarrow> string" where
  "md_incidents is =
     (if is = [] then []
      else ''## Run incidents'' @ LF @ LF @
        md_row [''ID'', ''Severity'', ''Type'', ''TR'', ''Stage'', ''Resolved'', ''Message'', ''Impact''] @
        md_rule [4, 10, 6, 4, 7, 10, 9, 8] @
        concat (map (\<lambda>i. md_row [inc_ID i, inc_Severity i, inc_Type i, inc_TR i, inc_Stage i, show_bool (inc_Resolved i),
                                  inc_Message i, inc_Impact i]) is) @ LF)"

fun has_scenarios :: "verdict list \<Rightarrow> bool" where
  "has_scenarios [] = False"
| "has_scenarios (v # vs) = (if v_Scenario v \<noteq> [] then True else has_scenarios vs)"

text \<open>The row of a verdict; its cells are those of the report as they are.\<close>

definition md_verdict_row :: "bool \<Rightarrow> verdict \<Rightarrow> string" where
  "md_verdict_row scenarios v =
     md_row ([ExecutionLabel (v_TR v) (v_Variant v)] @ (if scenarios then [v_Scenario v] else []) @
       [v_Item v, v_Outcome v, fmt_fix 1 (v_DurationS v) @ ''s'', v_Expected v, v_Actual v, v_Reason v])"

definition md_verdicts :: "verdict list \<Rightarrow> string" where
  "md_verdicts vs =
     (if has_scenarios vs then
        md_row [''TR'', ''Scenario'', ''Item'', ''Outcome'', ''Duration'', ''Expected'', ''Actual'', ''Reason''] @
        md_rule [4, 10, 6, 9, 10, 10, 8, 8] @ concat (map (md_verdict_row True) vs)
      else
        md_row [''TR'', ''Item'', ''Outcome'', ''Duration'', ''Expected'', ''Actual'', ''Reason''] @
        md_rule [4, 6, 9, 10, 10, 8, 8] @ concat (map (md_verdict_row False) vs))"

definition md_measurements :: "measurement list \<Rightarrow> string" where
  "md_measurements ms =
     (if ms = [] then []
      else LF @ ''## Measurements'' @ LF @ LF @
        md_row [''TR'', ''Metric'', ''Percentile'', ''Value'', ''Unit''] @
        md_rule [4, 8, 12, 7, 6] @
        concat (map (\<lambda>m. md_row [ExecutionLabel (me_TR m) (me_Variant m), me_Name m, me_Percentile m, fmt_f (me_Value m), me_Unit m]) ms))"

fun array_note :: "attestation list \<Rightarrow> string" where
  "array_note [] = []"
| "array_note (a # as) =
     (if has_prefix (att_Claim a) ''storage_array_'' then
        ''The self-reported details below identify the CSI and storage-array combination covered by this report.'' @ LF @ LF
      else array_note as)"

definition md_attestations :: "attestation list \<Rightarrow> string" where
  "md_attestations as =
     (if as = [] then []
      else LF @ ''## Attestations'' @ LF @ LF @ array_note as @
        (if att_SignedBy (hd as) \<noteq> [] then ''Signed by: '' @ att_SignedBy (hd as) @ LF @ LF else []) @
        md_row [''Claim'', ''Value''] @ md_rule [7, 7] @
        concat (map (\<lambda>a. md_row [md_escape (attestationLabel (att_Claim a)), md_escape (att_Value a)]) as))"

definition md_warnings :: "string list \<Rightarrow> string" where
  "md_warnings ws =
     (if ws = [] then [] else LF @ ''## Warnings'' @ LF @ LF @ concat (map (\<lambda>s. ''- '' @ s @ LF) ws))"

definition WriteMarkdown :: "report \<Rightarrow> string" where
  "WriteMarkdown r =
     md_heading r @ md_selections (r_StorageSelections r) @ md_composition (r_Composition r) @ md_incidents (r_Incidents r) @
     md_verdicts (r_Verdicts r) @ md_measurements (r_Measurements r) @ md_attestations (r_Attestations r) @ md_warnings (r_Warnings r)"

section \<open>Reading a table row back\<close>

text \<open>
  How a reader of Markdown splits a line into cells: a backslash takes the next character with it
  and a bare bar ends a cell. \<open>cells_from cur line\<close> has read \<open>cur\<close> of the current cell.
\<close>

fun cells_from :: "string \<Rightarrow> string \<Rightarrow> string list" where
  "cells_from cur [] = [cur]"
| "cells_from cur [c] = (if c = CHR ''|'' then [cur, []] else [cur @ [c]])"
| "cells_from cur (c # d # s) =
     (if c = CHR 0x5C then cells_from (cur @ [c, d]) s
      else if c = CHR ''|'' then cur # cells_from [] (d # s)
      else cells_from (cur @ [c]) (d # s))"

lemma cells_from_plain:
  assumes "c \<noteq> CHR 0x5C" and "c \<noteq> CHR ''|''"
  shows "cells_from cur (c # s) = cells_from (cur @ [c]) s"
  using assms by (cases s) auto

lemma cells_from_bar: "cells_from cur (CHR ''|'' # s) = cur # cells_from [] s"
  by (cases s) auto

lemma md_escape_lines: "CHR 0x0A \<notin> set (md_escape s) \<and> CHR 0x0D \<notin> set (md_escape s)"
  by (induction s rule: md_escape.induct) (auto split: list.splits)

lemma cells_from_escape: "cells_from cur (md_escape s @ t) = cells_from (cur @ md_escape s) t"
proof (induction s arbitrary: cur rule: md_escape.induct)
  case (2 c s)
  then show ?case by (auto simp: cells_from_plain split: list.splits)
qed simp

lemma cells_from_cell: "cells_from [] ('' '' @ md_escape s @ '' |'' @ t) = ('' '' @ md_escape s @ '' '') # cells_from [] t"
proof -
  have "cells_from [] ('' '' @ md_escape s @ '' |'' @ t) = cells_from '' '' (md_escape s @ '' |'' @ t)"
    by (simp add: cells_from_plain)
  then show ?thesis by (simp only: cells_from_escape) (simp add: cells_from_plain cells_from_bar)
qed

lemma cells_of_escaped_row:
  "cells_from [] (concat (map (\<lambda>c. '' '' @ c @ '' |'') (map md_escape xs))) = map (\<lambda>x. '' '' @ md_escape x @ '' '') xs @ [[]]"
proof (induction xs)
  case (Cons x xs)
  then show ?case using cells_from_cell[of x "concat (map (\<lambda>c. '' '' @ c @ '' |'') (map md_escape xs))"] by simp
qed simp

text \<open>
  Whatever the claims and values of the attestations contain, each row of their table is one line
  of two cells: escaping neither loses a cell nor breaks a row.
\<close>

theorem attestation_rows_intact:
  "CHR 0x0A \<notin> set (butlast (md_row (map md_escape xs))) \<and>
   cells_from [] (butlast (md_row (map md_escape xs))) = [] # map (\<lambda>x. '' '' @ md_escape x @ '' '') xs @ [[]]"
proof -
  define body where "body = concat (map (\<lambda>c. '' '' @ c @ '' |'') (map md_escape xs))"
  have row: "butlast (md_row (map md_escape xs)) = CHR ''|'' # body"
    by (simp add: md_row_def LF_def body_def butlast_append)
  have "CHR 0x0A \<notin> set body" using md_escape_lines unfolding body_def by auto
  moreover have "cells_from [] body = map (\<lambda>x. '' '' @ md_escape x @ '' '') xs @ [[]]"
    unfolding body_def by (rule cells_of_escaped_row)
  ultimately show ?thesis unfolding row by (simp add: cells_from_bar)
qed

text \<open>The other tables do not escape: a bar in the reason of a verdict adds a cell to its row.\<close>

lemma verdict_row_splits:
  "length (cells_from [] (butlast (md_verdict_row False (zero_verdict\<lparr>v_Reason := ''a|b''\<rparr>)))) =
   length (cells_from [] (butlast (md_verdict_row False zero_verdict))) + 1"
  by (simp add: md_verdict_row_def md_row_def zero_verdict_def LF_def ExecutionLabel_def fmt_fix_def fmt_with_def butlast_append
      rhe_def show_pad_def show_nat.simps digit_char_def)

end
