(* ===== verification/Junit.thy ===== *)
theory Junit
  imports Report_Markdown "HOL-Library.Multiset"
begin

text \<open>
  The JUnit export of \<open>internal/report/junit.go\<close> and the exporters of exporter.go. The document is
  the tree of the wire structs; the encoder of \<open>encoding/xml\<close> and the destination are arguments.
  The lemmas relate the document to the verdicts of the report.
\<close>

section \<open>Wire structs\<close>

record ju_prop =
  jp_Name :: string
  jp_Value :: string

type_synonym ju_props = "ju_prop list"

record ju_case =
  jc_Name :: string
  jc_Classname :: string
  jc_Time :: string
  jc_Properties :: "ju_props option"
  jc_Failure :: "string option"
  jc_Error :: "string option"
  jc_Skipped :: "string option"

definition zero_ju_case :: ju_case where
  "zero_ju_case = \<lparr> jc_Name = [], jc_Classname = [], jc_Time = [], jc_Properties = None, jc_Failure = None, jc_Error = None, jc_Skipped = None \<rparr>"

record ju_suite =
  js_Name :: string
  js_Tests :: int
  js_Failures :: int
  js_Errors :: int
  js_Skipped :: int
  js_Properties :: "ju_props option"
  js_Cases :: "ju_case list"

definition zero_ju_suite :: ju_suite where
  "zero_ju_suite = \<lparr> js_Name = [], js_Tests = 0, js_Failures = 0, js_Errors = 0, js_Skipped = 0, js_Properties = None, js_Cases = [] \<rparr>"

record ju_suites =
  jr_Name :: string
  jr_Tests :: int
  jr_Failures :: int
  jr_Errors :: int
  jr_Skipped :: int
  jr_Properties :: ju_props
  jr_Suites :: "ju_suite list"

definition prop_add :: "ju_props \<Rightarrow> string \<Rightarrow> string \<Rightarrow> ju_props" where
  "prop_add p name value = p @ [\<lparr> jp_Name = name, jp_Value = value \<rparr>]"

definition prop_add_if :: "bool \<Rightarrow> string \<Rightarrow> string \<Rightarrow> ju_props \<Rightarrow> ju_props" where
  "prop_add_if c name value p = (if c then prop_add p name value else p)"

section \<open>Helpers\<close>

definition ju_join :: "string list \<Rightarrow> string" where
  "ju_join s = fold (\<lambda>(i, v) out. (if i > 0 then out @ '','' else out) @ v) (enumerate 0 s) []"

definition secs :: "f64 \<Rightarrow> string" where
  "secs d = fmt_fix 3 d"

definition measurementLabel :: "measurement \<Rightarrow> string" where
  "measurementLabel m = (if me_Percentile m \<noteq> [] then me_Name m @ ''@'' @ me_Percentile m else me_Name m)"

definition addFacts :: "fact list \<Rightarrow> ju_props \<Rightarrow> ju_props" where
  "addFacts facts p =
     fold (\<lambda>f q. prop_add_if (fact_Source f \<noteq> []) (''_source.'' @ fact_Key f) (fact_Source f) (prop_add q (fact_Key f) (fact_Value f))) facts p"

definition incident_ids :: "incident list \<Rightarrow> string list" where
  "incident_ids is = fold (\<lambda>i ids. if inc_ID i \<noteq> [] then ids @ [inc_ID i] else ids) is []"

definition runProperties :: "report \<Rightarrow> ju_props" where
  "runProperties r =
     (let p0 = fold (\<lambda>(n, v) p. prop_add p n v)
                 [(''harness.junit_profile_version'', ''1''),
                  (''harness.run_id'', r_RunID r),
                  (''harness.status'', r_Status r),
                  (''harness.health'', r_Health r),
                  (''harness.certifiable'', show_bool (r_Certifiable r)),
                  (''harness.incidents_present'', show_bool (length (r_Incidents r) > 0)),
                  (''harness.incident_count'', show_nat (length (r_Incidents r))),
                  (''harness.report_json'', ''report.json''),
                  (''harness.composition.parts_count'', show_int (cp_PartsCount (r_Composition r)))] [];
          p1 = prop_add_if (r_CompletionReason r \<noteq> []) ''harness.completion_reason'' (r_CompletionReason r) p0;
          parts = map pt_PartID (cp_Parts (r_Composition r));
          p2 = prop_add_if (parts \<noteq> []) ''harness.composition.parts'' (ju_join parts) p1;
          ids = incident_ids (r_Incidents r)
      in prop_add_if (ids \<noteq> []) ''harness.incident_ids'' (ju_join ids) p2)"

section \<open>Suites\<close>

definition hardware_props :: "hardware \<Rightarrow> ju_props" where
  "hardware_props h = addFacts (hw_Facts h) (prop_add [] ''nodes'' (show_int (hw_Nodes h)))"

definition class_props :: "storage_class_info \<Rightarrow> ju_props \<Rightarrow> ju_props" where
  "class_props sc p =
     (let base = ''storageclass.'' @ sci_Name sc in
      fold (\<lambda>(n, v) q. prop_add q (base @ n) v)
        [(''.provisioner'', sci_Provisioner sc), (''.is_default'', show_bool (sci_IsDefault sc)),
         (''.under_test'', show_bool (sci_UnderTest sc)), (''.volume_binding_mode'', sci_VolumeBindingMode sc)] p)"

definition selection_props :: "storage_selection \<Rightarrow> ju_props \<Rightarrow> ju_props" where
  "selection_props s p =
     (let base0 = ''storage.'' @ ExecutionLabel (ss_TR s) (ss_Variant s);
          base = (if ss_Scenario s \<noteq> [] then base0 @ ''.'' @ ss_Scenario s else base0)
      in prop_add_if (ss_EffectiveStorageClass s \<noteq> []) (base @ ''.effective_storage_class'') (ss_EffectiveStorageClass s)
           (prop_add (prop_add p (base @ ''.storage_class'') (ss_StorageClass s)) (base @ ''.snapshot_class'') (ss_SnapshotClass s)))"

definition platform_props :: "platform \<Rightarrow> storage_selection list \<Rightarrow> ju_props" where
  "platform_props p sels =
     (let d = pf_CSIDriver p;
          p0 = fold (\<lambda>(n, v) q. prop_add q n v)
                 [(''ocp_version'', pf_OCPVersion p), (''kube_version'', pf_KubeVersion p), (''cnv_version'', pf_CNVVersion p),
                  (''csi_driver.name'', csi_Name d), (''csi_driver.version'', csi_Version d),
                  (''csi_driver.attach_required'', show_bool (csi_AttachRequired d)),
                  (''csi_driver.fs_group_policy'', csi_FSGroupPolicy d),
                  (''csi_driver.volume_lifecycle_modes'', ju_join (csi_VolumeLifecycleModes d))] [];
          p1 = prop_add_if (csi_Capabilities d \<noteq> []) ''csi_driver.capabilities'' (ju_join (csi_Capabilities d)) p0;
          p2 = prop_add_if (pf_Backend p \<noteq> []) ''backend'' (pf_Backend p) p1;
          p3 = fold (\<lambda>op q. prop_add q (''operator.'' @ op_Name op @ ''.version'') (op_Version op)) (pf_Operators p) p2;
          p4 = addFacts (pf_Facts p) (fold class_props (pf_StorageClasses p) p3)
      in fold selection_props sels p4)"

text \<open>The artifact paths by execution label; a later execution with the same label replaces an earlier one.\<close>

definition artifacts_by_execution :: "run_execution list \<Rightarrow> (string, string) gomap" where
  "artifacts_by_execution es =
     fold (\<lambda>e m. if ex_Artifacts e \<noteq> [] then gm_set (ExecutionLabel (ex_TR e) (ex_Variant e)) (ju_join (ex_Artifacts e)) m else m) es []"

definition verdict_props :: "(string, string) gomap \<Rightarrow> verdict \<Rightarrow> ju_props" where
  "verdict_props arts v =
     (let a = (case gm_get arts (ExecutionLabel (v_TR v) (v_Variant v)) of Some s \<Rightarrow> s | None \<Rightarrow> []) in
      prop_add_if (a \<noteq> []) ''artifacts'' a
        (prop_add_if (v_Actual v \<noteq> []) ''actual'' (v_Actual v)
          (prop_add_if (v_Expected v \<noteq> []) ''expected'' (v_Expected v)
            (prop_add_if (v_Scenario v \<noteq> []) ''scenario'' (v_Scenario v) []))))"

definition verdict_case :: "(string, string) gomap \<Rightarrow> verdict \<Rightarrow> ju_case" where
  "verdict_case arts v =
     (let props = verdict_props arts v in
      \<lparr> jc_Name = (if v_Scenario v \<noteq> [] then v_Item v @ '' ['' @ v_Scenario v @ '']'' else v_Item v),
        jc_Classname = ExecutionLabel (v_TR v) (v_Variant v),
        jc_Time = secs (v_DurationS v),
        jc_Properties = (if props \<noteq> [] then Some props else None),
        jc_Failure = (if v_Outcome v = OutcomeFail then Some (v_Reason v) else None),
        jc_Error = (if v_Outcome v = OutcomeError then Some (v_Reason v) else None),
        jc_Skipped = (if v_Outcome v = OutcomeSkip then Some (v_Reason v) else None) \<rparr>)"

definition add_verdict :: "(string, string) gomap \<Rightarrow> verdict \<Rightarrow> ju_suite \<Rightarrow> ju_suite" where
  "add_verdict arts v ts =
     ts\<lparr> js_Failures := js_Failures ts + (if v_Outcome v = OutcomeFail then 1 else 0),
         js_Errors := js_Errors ts + (if v_Outcome v = OutcomeError then 1 else 0),
         js_Skipped := js_Skipped ts + (if v_Outcome v = OutcomeSkip then 1 else 0),
         js_Tests := js_Tests ts + 1,
         js_Cases := js_Cases ts @ [verdict_case arts v] \<rparr>"

text \<open>Grouping: the map from levels to verdicts, and the levels in the order they are first seen.\<close>

definition level_step :: "verdict \<Rightarrow> (int, verdict list) gomap \<times> int list \<Rightarrow> (int, verdict list) gomap \<times> int list" where
  "level_step v acc =
     (case acc of (byLevel, levels) \<Rightarrow>
        (case gm_get byLevel (v_Level v) of
           None \<Rightarrow> (gm_set (v_Level v) [v] byLevel, levels @ [v_Level v])
         | Some vs \<Rightarrow> (gm_set (v_Level v) (vs @ [v]) byLevel, levels)))"

definition level_name :: "int \<Rightarrow> string" where
  "level_name l = (if l = 0 then ''uncategorized'' else ''level-'' @ show_int l)"

definition level_suites :: "(string, string) gomap \<Rightarrow> verdict list \<Rightarrow> ju_suite list" where
  "level_suites arts vs =
     (case fold level_step vs ([], []) of (byLevel, levels) \<Rightarrow>
        map (\<lambda>l. fold (add_verdict arts) (case gm_get byLevel l of Some ws \<Rightarrow> ws | None \<Rightarrow> [])
                   (zero_ju_suite\<lparr>js_Name := level_name l\<rparr>)) (sort levels))"

definition measurement_case :: "measurement \<Rightarrow> ju_case" where
  "measurement_case m =
     zero_ju_case\<lparr> jc_Name := (if me_Scenario m \<noteq> [] then measurementLabel m @ '' ['' @ me_Scenario m @ '']'' else measurementLabel m),
       jc_Classname := ExecutionLabel (me_TR m) (me_Variant m),
       jc_Properties := Some
         (prop_add_if (me_Scenario m \<noteq> []) ''scenario'' (me_Scenario m)
           (prop_add_if (me_Percentile m \<noteq> []) ''percentile'' (me_Percentile m)
             (prop_add_if (me_Unit m \<noteq> []) ''unit'' (me_Unit m) (prop_add [] ''value'' (fmt_f (me_Value m)))))) \<rparr>"

definition attestation_case :: "attestation \<Rightarrow> ju_case" where
  "attestation_case a = zero_ju_case\<lparr> jc_Name := att_Claim a, jc_Properties := Some (prop_add [] ''value'' (att_Value a)) \<rparr>"

text \<open>A suite of informational cases: each one counts as a test.\<close>

definition add_case :: "ju_case \<Rightarrow> ju_suite \<Rightarrow> ju_suite" where
  "add_case c ts = ts\<lparr> js_Tests := js_Tests ts + 1, js_Cases := js_Cases ts @ [c] \<rparr>"

definition measurement_suites :: "measurement list \<Rightarrow> ju_suite list" where
  "measurement_suites ms =
     (if ms \<noteq> [] then [fold (\<lambda>m. add_case (measurement_case m)) ms (zero_ju_suite\<lparr>js_Name := ''measurements''\<rparr>)] else [])"

definition attestation_suites :: "attestation list \<Rightarrow> ju_suite list" where
  "attestation_suites as =
     (if as \<noteq> [] then
        [fold (\<lambda>a. add_case (attestation_case a)) as
           (zero_ju_suite\<lparr> js_Name := ''attestations'',
              js_Properties := (if att_SignedBy (hd as) \<noteq> [] then Some (prop_add [] ''signed_by'' (att_SignedBy (hd as))) else None) \<rparr>)]
      else [])"

definition warning_suites :: "string list \<Rightarrow> ju_suite list" where
  "warning_suites ws =
     (if ws \<noteq> [] then
        [zero_ju_suite\<lparr> js_Name := ''report-warnings'', js_Properties := Some (fold (\<lambda>x p. prop_add p ''warning'' x) ws []) \<rparr>]
      else [])"

definition roll_up :: "ju_suite \<Rightarrow> ju_suites \<Rightarrow> ju_suites" where
  "roll_up s doc =
     doc\<lparr> jr_Tests := jr_Tests doc + js_Tests s, jr_Failures := jr_Failures doc + js_Failures s,
           jr_Errors := jr_Errors doc + js_Errors s, jr_Skipped := jr_Skipped doc + js_Skipped s \<rparr>"

definition junit_root :: "bool \<Rightarrow> report \<Rightarrow> ju_suites" where
  "junit_root hardwareAtRoot r =
     (let hw = hardware_props (env_Hardware (r_Environment r));
          suites =
            (if hardwareAtRoot then [] else [zero_ju_suite\<lparr> js_Name := ''environment-hardware'', js_Properties := Some hw \<rparr>]) @
            [zero_ju_suite\<lparr> js_Name := ''environment-platform'',
               js_Properties := Some (platform_props (env_Platform (r_Environment r)) (r_StorageSelections r)) \<rparr>] @
            level_suites (artifacts_by_execution (r_Executions r)) (r_Verdicts r) @
            measurement_suites (r_Measurements r) @ attestation_suites (r_Attestations r) @ warning_suites (r_Warnings r)
      in fold roll_up suites
           \<lparr> jr_Name = ''csi-cert-harness'', jr_Tests = 0, jr_Failures = 0, jr_Errors = 0, jr_Skipped = 0,
             jr_Properties = (if hardwareAtRoot then fold (\<lambda>p q. prop_add q (jp_Name p) (jp_Value p)) hw (runProperties r) else runProperties r),
             jr_Suites = suites \<rparr>)"

section \<open>Exporters\<close>

text \<open>A destination and the encoders of XML and JSON; a writer returns its error.\<close>

record 'w export_env =
  xe_Write :: "string \<Rightarrow> 'w \<Rightarrow> string option \<times> 'w"
  xe_Encode :: "ju_suites \<Rightarrow> string + string"
  xe_JSON :: "report \<Rightarrow> string + string"

definition xml_header :: string where
  "xml_header = ''<?xml version='' @ [CHR 0x22] @ ''1.0'' @ [CHR 0x22] @ '' encoding='' @ [CHR 0x22] @ ''UTF-8'' @ [CHR 0x22] @ ''?>'' @ LF"

definition write_encoded :: "'w export_env \<Rightarrow> string + string \<Rightarrow> 'w \<Rightarrow> string option \<times> 'w" where
  "write_encoded xe enc w = (case enc of Inl err \<Rightarrow> (Some err, w) | Inr text \<Rightarrow> xe_Write xe text w)"

definition writeJUnit :: "'w export_env \<Rightarrow> report \<Rightarrow> bool \<Rightarrow> 'w \<Rightarrow> string option \<times> 'w" where
  "writeJUnit xe r hardwareAtRoot w =
     (case xe_Write xe xml_header w of
        (Some err, w1) \<Rightarrow> (Some err, w1)
      | (None, w1) \<Rightarrow>
          (case write_encoded xe (xe_Encode xe (junit_root hardwareAtRoot r)) w1 of
             (Some err, w2) \<Rightarrow> (Some err, w2)
           | (None, w2) \<Rightarrow> xe_Write xe LF w2))"

datatype exporter = JSONExporter | MarkdownExporter | JUnitExporter bool

fun Format :: "exporter \<Rightarrow> string" where
  "Format JSONExporter = ''json''"
| "Format MarkdownExporter = ''markdown''"
| "Format (JUnitExporter hardwareAtRoot) = ''junit''"

fun Export :: "'w export_env \<Rightarrow> exporter \<Rightarrow> report \<Rightarrow> 'w \<Rightarrow> string option \<times> 'w" where
  "Export xe JSONExporter r w = write_encoded xe (xe_JSON xe r) w"
| "Export xe MarkdownExporter r w = xe_Write xe (WriteMarkdown r) w"
| "Export xe (JUnitExporter hardwareAtRoot) r w = writeJUnit xe r hardwareAtRoot w"

section \<open>The document shows every verdict\<close>

lemma ju_join_eq: "ju_join s = join_with '','' s"
proof -
  have tail: "fold (\<lambda>(i, v) out. (if i > 0 then out @ '','' else out) @ v) (enumerate (Suc n) ws) out = out @ concat (map (\<lambda>v. '','' @ v) ws)" for ws n out
    by (induction ws arbitrary: n out) auto
  have join: "join_with '','' (v # ws) = v @ concat (map (\<lambda>v. '','' @ v) ws)" for v ws
    by (induction ws arbitrary: v) auto
  show ?thesis by (cases s) (simp_all add: ju_join_def tail join)
qed

definition outcome_count :: "outcome \<Rightarrow> verdict list \<Rightarrow> int" where
  "outcome_count oc vs = int (length (filter (\<lambda>v. v_Outcome v = oc) vs))"

lemma outcome_count_simps [simp]:
  "outcome_count oc [] = 0"
  "outcome_count oc (v # vs) = (if v_Outcome v = oc then 1 else 0) + outcome_count oc vs"
  by (simp_all add: outcome_count_def)

lemma add_verdict_fields [simp]:
  "js_Name (add_verdict arts v ts) = js_Name ts"
  "js_Properties (add_verdict arts v ts) = js_Properties ts"
  "js_Cases (add_verdict arts v ts) = js_Cases ts @ [verdict_case arts v]"
  "js_Tests (add_verdict arts v ts) = js_Tests ts + 1"
  "js_Failures (add_verdict arts v ts) = js_Failures ts + (if v_Outcome v = OutcomeFail then 1 else 0)"
  "js_Errors (add_verdict arts v ts) = js_Errors ts + (if v_Outcome v = OutcomeError then 1 else 0)"
  "js_Skipped (add_verdict arts v ts) = js_Skipped ts + (if v_Outcome v = OutcomeSkip then 1 else 0)"
  by (simp_all add: add_verdict_def)

lemma fold_add_verdict:
  "js_Name (fold (add_verdict arts) vs ts) = js_Name ts"
  "js_Cases (fold (add_verdict arts) vs ts) = js_Cases ts @ map (verdict_case arts) vs"
  "js_Tests (fold (add_verdict arts) vs ts) = js_Tests ts + int (length vs)"
  "js_Failures (fold (add_verdict arts) vs ts) = js_Failures ts + outcome_count OutcomeFail vs"
  "js_Errors (fold (add_verdict arts) vs ts) = js_Errors ts + outcome_count OutcomeError vs"
  "js_Skipped (fold (add_verdict arts) vs ts) = js_Skipped ts + outcome_count OutcomeSkip vs"
  by (induction vs arbitrary: ts) auto

lemma group_step_spec:
  "fold level_step vs ([], []) = (m, ls) \<Longrightarrow>
     (\<forall>l. gm_get m l = (let ws = filter (\<lambda>v. v_Level v = l) vs in if ws = [] then None else Some ws)) \<and>
     distinct ls \<and> set ls = v_Level ` set vs"
proof (induction vs arbitrary: m ls rule: rev_induct)
  case (snoc v vs)
  obtain m0 ls0 where f: "fold level_step vs ([], []) = (m0, ls0)" by fastforce
  have step: "level_step v (m0, ls0) = (m, ls)" using snoc.prems f by simp
  note IH = snoc.IH[OF f]
  have g: "gm_get m0 (v_Level v) = None \<longleftrightarrow> v_Level v \<notin> set ls0"
    using IH by (auto simp: Let_def filter_empty_conv intro: rev_image_eqI)
  show ?case
  proof (cases "gm_get m0 (v_Level v)")
    case None
    with step have "m = gm_set (v_Level v) [v] m0" "ls = ls0 @ [v_Level v]" by (auto simp: level_step_def)
    with IH None g show ?thesis by (auto simp: Let_def filter_empty_conv split: if_splits)
  next
    case (Some ws)
    with step have m: "m = gm_set (v_Level v) (ws @ [v]) m0" "ls = ls0" by (auto simp: level_step_def)
    have ws: "ws = filter (\<lambda>u. v_Level u = v_Level v) vs" "v_Level v \<in> set ls0"
      using IH Some g by (auto simp: Let_def split: if_splits)
    with IH m show ?thesis by (auto simp: Let_def split: if_splits)
  qed
qed simp

definition level_suite :: "(string, string) gomap \<Rightarrow> verdict list \<Rightarrow> int \<Rightarrow> ju_suite" where
  "level_suite arts vs l = fold (add_verdict arts) (filter (\<lambda>v. v_Level v = l) vs) (zero_ju_suite\<lparr>js_Name := level_name l\<rparr>)"

lemma level_suites_eq: "level_suites arts vs = map (level_suite arts vs) (sorted_list_of_set (v_Level ` set vs))"
proof -
  obtain m ls where f: "fold level_step vs ([], []) = (m, ls)" by fastforce
  note g = group_step_spec[OF f]
  then have "sort ls = sorted_list_of_set (v_Level ` set vs)"
    by (metis distinct_sort set_sort sorted_sort sorted_list_of_set_unique List.finite_set sorted_list_of_set.idem_if_sorted_distinct)
  moreover have "(case gm_get m l of Some ws \<Rightarrow> ws | None \<Rightarrow> []) = filter (\<lambda>v. v_Level v = l) vs" for l
    using g by (auto simp: Let_def)
  ultimately show ?thesis by (simp add: level_suites_def f level_suite_def)
qed

lemma sum_by_level:
  fixes f :: "verdict \<Rightarrow> 'a :: comm_monoid_add"
  assumes "finite L" and "v_Level ` set vs \<subseteq> L"
  shows "(\<Sum>l\<in>L. sum_list (map f (filter (\<lambda>v. v_Level v = l) vs))) = sum_list (map f vs)"
  using assms(2)
proof (induction vs)
  case (Cons v vs)
  have "(\<Sum>l\<in>L. sum_list (map f (filter (\<lambda>u. v_Level u = l) (v # vs)))) =
        (\<Sum>l\<in>L. (if l = v_Level v then f v else 0) + sum_list (map f (filter (\<lambda>u. v_Level u = l) vs)))"
    by (rule sum.cong) auto
  also have "\<dots> = f v + sum_list (map f vs)" using Cons assms(1) by (simp add: sum.distrib)
  finally show ?case by simp
qed (simp add: assms)

lemma outcome_count_sum: "outcome_count oc vs = sum_list (map (\<lambda>v. if v_Outcome v = oc then 1 else 0) vs)"
  by (induction vs) auto

lemma length_sum: "int (length vs) = sum_list (map (\<lambda>v. 1) vs)"
  by (induction vs) auto

lemma mset_sum: "mset vs = sum_list (map (\<lambda>v. {#v#}) vs)" for vs :: "'x list"
  by (induction vs) auto

lemma sum_list_levels:
  "sum_list (map g (sorted_list_of_set L)) = (\<Sum>l\<in>L. g l)" if "finite L" for L :: "int set" and g :: "int \<Rightarrow> 'a :: comm_monoid_add"
  using that by (metis sorted_list_of_set.distinct_sorted_key_list_of_set sorted_list_of_set.set_sorted_key_list_of_set sum.distinct_set_conv_list)

lemma level_suite_fields:
  "js_Name (level_suite arts vs l) = level_name l"
  "js_Cases (level_suite arts vs l) = map (verdict_case arts) (filter (\<lambda>v. v_Level v = l) vs)"
  "js_Tests (level_suite arts vs l) = int (length (filter (\<lambda>v. v_Level v = l) vs))"
  "js_Failures (level_suite arts vs l) = outcome_count OutcomeFail (filter (\<lambda>v. v_Level v = l) vs)"
  "js_Errors (level_suite arts vs l) = outcome_count OutcomeError (filter (\<lambda>v. v_Level v = l) vs)"
  "js_Skipped (level_suite arts vs l) = outcome_count OutcomeSkip (filter (\<lambda>v. v_Level v = l) vs)"
  by (simp_all add: level_suite_def fold_add_verdict zero_ju_suite_def)

lemma level_suites_sums:
  "sum_list (map js_Tests (level_suites arts vs)) = int (length vs)"
  "sum_list (map js_Failures (level_suites arts vs)) = outcome_count OutcomeFail vs"
  "sum_list (map js_Errors (level_suites arts vs)) = outcome_count OutcomeError vs"
  "sum_list (map js_Skipped (level_suites arts vs)) = outcome_count OutcomeSkip vs"
  "mset (concat (map js_Cases (level_suites arts vs))) = image_mset (verdict_case arts) (mset vs)"
proof -
  let ?L = "v_Level ` set vs"
  note s = level_suites_eq level_suite_fields comp_def sum_list_levels
  show "sum_list (map js_Tests (level_suites arts vs)) = int (length vs)"
    unfolding s map_map length_sum by (simp add: sum_list_levels sum_by_level)
  show "sum_list (map js_Failures (level_suites arts vs)) = outcome_count OutcomeFail vs"
    "sum_list (map js_Errors (level_suites arts vs)) = outcome_count OutcomeError vs"
    "sum_list (map js_Skipped (level_suites arts vs)) = outcome_count OutcomeSkip vs"
    unfolding s map_map outcome_count_sum by (simp_all add: sum_list_levels sum_by_level)
  have "mset (concat (map js_Cases (level_suites arts vs))) =
      (\<Sum>l\<in>?L. sum_list (map (\<lambda>v. {#verdict_case arts v#}) (filter (\<lambda>v. v_Level v = l) vs)))"
    by (simp add: s mset_concat mset_sum[of "map _ _"])
  also have "\<dots> = image_mset (verdict_case arts) (mset vs)"
    unfolding sum_by_level[OF finite_imageI[OF List.finite_set] order.refl] by (induction vs) auto
  finally show "mset (concat (map js_Cases (level_suites arts vs))) = image_mset (verdict_case arts) (mset vs)" .
qed

lemma add_case_fields [simp]:
  "js_Tests (add_case c ts) = js_Tests ts + 1" "js_Failures (add_case c ts) = js_Failures ts"
  "js_Errors (add_case c ts) = js_Errors ts" "js_Skipped (add_case c ts) = js_Skipped ts"
  by (simp_all add: add_case_def)

lemma fold_add_case:
  "js_Tests (fold (\<lambda>x. add_case (f x)) xs ts) = js_Tests ts + int (length xs)"
  "js_Failures (fold (\<lambda>x. add_case (f x)) xs ts) = js_Failures ts"
  "js_Errors (fold (\<lambda>x. add_case (f x)) xs ts) = js_Errors ts"
  "js_Skipped (fold (\<lambda>x. add_case (f x)) xs ts) = js_Skipped ts"
  by (induction xs arbitrary: ts) auto

lemma informational_sums:
  "sum_list (map js_Tests (measurement_suites ms)) = int (length ms)"
  "sum_list (map js_Failures (measurement_suites ms)) = 0"
  "sum_list (map js_Errors (measurement_suites ms)) = 0"
  "sum_list (map js_Skipped (measurement_suites ms)) = 0"
  "sum_list (map js_Tests (attestation_suites as)) = int (length as)"
  "sum_list (map js_Failures (attestation_suites as)) = 0"
  "sum_list (map js_Errors (attestation_suites as)) = 0"
  "sum_list (map js_Skipped (attestation_suites as)) = 0"
  "sum_list (map js_Tests (warning_suites ws)) = 0"
  "sum_list (map js_Failures (warning_suites ws)) = 0"
  "sum_list (map js_Errors (warning_suites ws)) = 0"
  "sum_list (map js_Skipped (warning_suites ws)) = 0"
  by (simp_all add: measurement_suites_def attestation_suites_def warning_suites_def fold_add_case zero_ju_suite_def)

lemma fold_roll_up:
  "jr_Tests (fold roll_up ss d) = jr_Tests d + sum_list (map js_Tests ss)"
  "jr_Failures (fold roll_up ss d) = jr_Failures d + sum_list (map js_Failures ss)"
  "jr_Errors (fold roll_up ss d) = jr_Errors d + sum_list (map js_Errors ss)"
  "jr_Skipped (fold roll_up ss d) = jr_Skipped d + sum_list (map js_Skipped ss)"
  "jr_Suites (fold roll_up ss d) = jr_Suites d"
  by (induction ss arbitrary: d) (auto simp: roll_up_def)

section \<open>Properties\<close>

text \<open>
  The verdicts of a report appear in the document as one suite per level, in ascending order of the
  levels; together these suites have exactly one case per verdict, and a case has a failure, error
  or skip element with the reason of its verdict exactly when that is the outcome.
\<close>

theorem junit_verdict_cases:
  "map js_Name (level_suites arts vs) = map level_name (sorted_list_of_set (v_Level ` set vs)) \<and>
   map js_Cases (level_suites arts vs) =
     map (\<lambda>l. map (verdict_case arts) (filter (\<lambda>v. v_Level v = l) vs)) (sorted_list_of_set (v_Level ` set vs)) \<and>
   mset (concat (map js_Cases (level_suites arts vs))) = image_mset (verdict_case arts) (mset vs)"
  by (simp add: level_suites_sums(5)) (simp add: level_suites_eq level_suite_fields)

text \<open>
  The totals of the document: a test for every verdict, measurement and attestation, and the
  failures, errors and skips of the verdicts, wherever the hardware facts go. For a freshly built
  report they are the counts of its summary, and the report is certifiable exactly when the
  document shows neither a failure nor an error.
\<close>

theorem junit_totals:
  "jr_Tests (junit_root hw r) = int (length (r_Verdicts r) + length (r_Measurements r) + length (r_Attestations r)) \<and>
   jr_Failures (junit_root hw r) = outcome_count OutcomeFail (r_Verdicts r) \<and>
   jr_Errors (junit_root hw r) = outcome_count OutcomeError (r_Verdicts r) \<and>
   jr_Skipped (junit_root hw r) = outcome_count OutcomeSkip (r_Verdicts r) \<and>
   (let b = Build i sv pv vs in
      jr_Failures (junit_root hw b) = sm_Fail (r_Summary b) \<and> jr_Errors (junit_root hw b) = sm_Error (r_Summary b) \<and>
      (r_Certifiable b \<longleftrightarrow> jr_Failures (junit_root hw b) = 0 \<and> jr_Errors (junit_root hw b) = 0))"
proof -
  have totals:
    "jr_Tests (junit_root hw r) = int (length (r_Verdicts r) + length (r_Measurements r) + length (r_Attestations r))"
    "jr_Failures (junit_root hw r) = outcome_count OutcomeFail (r_Verdicts r)"
    "jr_Errors (junit_root hw r) = outcome_count OutcomeError (r_Verdicts r)"
    "jr_Skipped (junit_root hw r) = outcome_count OutcomeSkip (r_Verdicts r)" for r
    by (simp_all add: junit_root_def Let_def fold_roll_up roll_up_def level_suites_sums informational_sums zero_ju_suite_def)
  have "r_Certifiable (Build i sv pv vs) \<longleftrightarrow> outcome_count OutcomeFail vs = 0 \<and> outcome_count OutcomeError vs = 0"
    unfolding Build_certifiable outcome_count_def by (auto simp: filter_empty_conv)
  then show ?thesis by (simp add: totals Let_def Build_summary outcome_count_def)
qed

text \<open>
  The paths shown with a verdict are those of the last execution with its label; the scenario is not
  part of the label, so of two scenarios of one requirement the first shows the other's files.
\<close>

lemma artifacts_last_scenario_wins:
  "gm_get (artifacts_by_execution
     [zero_run_execution\<lparr>ex_TR := ''T'', ex_Scenario := ''a'', ex_Artifacts := [''a.log'']\<rparr>,
      zero_run_execution\<lparr>ex_TR := ''T'', ex_Scenario := ''b'', ex_Artifacts := [''b.log'']\<rparr>]) ''T'' = Some ''b.log''"
  by (simp add: artifacts_by_execution_def zero_run_execution_def ExecutionLabel_def ju_join_eq)

end
