(* ===== verification/Cli.thy ===== *)
theory Cli
  imports Selection Knowledge_Base Backends Attestation Go_Strings
begin

text \<open>
  What the commands of \<open>cmd/harness\<close> share: \<open>configureExecution\<close>, the \<open>validate\<close> command, the
  \<open>preflight\<close> command and its output (\<open>preflight.go\<close>). Files, decoders, flags and the standard
  output are fields of an environment or arguments; the log is left out.
\<close>

section \<open>Configuration\<close>

text \<open>What a command reads: the file system, the decoders of the input files, the flags given.\<close>

record 'w cli_env =
  ce_readFile :: "'w \<Rightarrow> string \<Rightarrow> string + string"
  ce_plan :: "string \<Rightarrow> string + plan"
  ce_backends :: "string \<Rightarrow> string + backend_set"
  ce_catalog :: "string \<Rightarrow> string + catalog_doc"
  ce_thresholds :: "string \<Rightarrow> string + thresholds_doc"
  ce_joinOrder :: "(string \<times> thresholds_tr) list \<Rightarrow> (string \<times> thresholds_tr) list"
  ce_changed :: "string \<Rightarrow> bool"
  ce_out :: "string \<Rightarrow> 'w \<Rightarrow> string option \<times> 'w"

definition apply_plan :: "(string \<Rightarrow> bool) \<Rightarrow> bool \<Rightarrow> plan \<Rightarrow> config \<times> string \<Rightarrow> config \<times> string" where
  "apply_plan changed applyConcurrency p st =
     (case st of (cfg, backendName) \<Rightarrow>
        let cfg1 = (if \<not> changed ''tool'' \<and> \<not> changed ''id'' \<and> \<not> changed ''partner-level''
                    then cfg\<lparr>cf_Filter := plan_Filter p\<rparr> else cfg);
            cfg2 = (if applyConcurrency \<and> \<not> changed ''concurrency'' \<and> pl_Concurrency p > 0
                    then cfg1\<lparr>cf_Concurrency := pl_Concurrency p\<rparr> else cfg1)
        in (cfg2\<lparr>cf_Scenario := pl_Scenario p, cf_Overrides := pl_Overrides p, cf_Variants := pl_Variants p,
                 cf_Scheduling := SchedulingOverrides p, cf_ReportMetrics := pl_ReportMetrics p\<rparr>,
            if \<not> changed ''backend'' \<and> pl_Backend p \<noteq> [] then pl_Backend p else backendName))"

text \<open>The backend of a run, if one is named.\<close>

definition choose_backend :: "'w cli_env \<Rightarrow> 'w \<Rightarrow> string \<Rightarrow> string \<Rightarrow> string + resolved_backend option" where
  "choose_backend ce w backendsPath backendName =
     (if backendName = [] then Inr None
      else if backendsPath = [] then Inl (''backend '' @ go_quote backendName @ '' selected but no --backends file given'')
      else
        (case backends_Load (ce_readFile ce w) (ce_backends ce) backendsPath of
           Inl err \<Rightarrow> Inl err
         | Inr bset \<Rightarrow>
            (case backends_Get bset backendName of
               None \<Rightarrow> Inl (''backend '' @ go_quote backendName @ '' not found in '' @ backendsPath)
             | Some b \<Rightarrow>
                (case fst (backends_Resolve (ce_readFile ce w) b None True) of
                   Inl err \<Rightarrow> Inl err
                 | Inr r \<Rightarrow> Inr (Some r)))))"

text \<open>The configuration and the backend name are updated in place, also when an error follows.\<close>

definition configureExecution ::
  "'w cli_env \<Rightarrow> 'w \<Rightarrow> string \<Rightarrow> string \<Rightarrow> bool \<Rightarrow> config \<times> string \<Rightarrow> (string + resolved_backend option) \<times> config \<times> string" where
  "configureExecution ce w planPath backendsPath applyConcurrency st =
     (if planPath = [] then (choose_backend ce w backendsPath (snd st), st)
      else
        (case plan_Load (ce_readFile ce w) (ce_plan ce) planPath of
           Inl err \<Rightarrow> (Inl err, st)
         | Inr p \<Rightarrow>
            (let st1 = apply_plan (ce_changed ce) applyConcurrency p st
             in (choose_backend ce w backendsPath (snd st1), st1))))"

section \<open>The validate command\<close>

definition print_line :: "'w cli_env \<Rightarrow> string \<Rightarrow> 'w \<Rightarrow> 'w" where
  "print_line ce s w = snd (ce_out ce (s @ LF) w)"

definition count_line :: "string \<Rightarrow> nat \<Rightarrow> string \<Rightarrow> string \<Rightarrow> string" where
  "count_line what n schema commit = what @ '' OK: '' @ show_nat n @ '' test requirements, schema '' @ schema @ '', KB commit '' @ commit"

definition validate_cmd :: "'w cli_env \<Rightarrow> string \<Rightarrow> string \<Rightarrow> 'w \<Rightarrow> string option \<times> 'w" where
  "validate_cmd ce catalogPath thresholdsPath w =
     (case catalog_Load (ce_readFile ce w) (ce_catalog ce) catalogPath of
        Inl err \<Rightarrow> (Some err, w)
      | Inr cat \<Rightarrow>
         (let w1 = print_line ce (count_line ''catalog'' (length (cd_TestRequirements cat)) (cd_SchemaVersion cat)
                     (pv_KBGitCommit (cd_Provenance cat))) w in
          if thresholdsPath = [] then (None, w1)
          else
            (case thresholds_Load (ce_readFile ce w1) (ce_thresholds ce) thresholdsPath of
               Inl err \<Rightarrow> (Some err, w1)
             | Inr th \<Rightarrow>
                (let w2 = print_line ce (count_line ''thresholds'' (length (td_TestRequirements th)) (td_SchemaVersion th)
                            (pv_KBGitCommit (td_Provenance th))) w1 in
                 case Join (ce_joinOrder ce) cat th of
                   Inl err \<Rightarrow> (Some err, w2)
                 | Inr trs \<Rightarrow> (None, print_line ce (''join OK: '' @ show_nat (length trs)
                     @ '' joined test requirements (catalog + thresholds agree)'') w2)))))"

section \<open>The output of the preflight command\<close>

record preflight_output =
  po_passed :: nat
  po_failed :: nat
  po_skipped :: nat
  po_warned :: nat
  po_err :: "string option"

definition zero_output :: preflight_output where
  "zero_output = \<lparr> po_passed = 0, po_failed = 0, po_skipped = 0, po_warned = 0, po_err = None \<rparr>"

definition po_count :: "string \<Rightarrow> preflight_output \<Rightarrow> preflight_output" where
  "po_count status p =
     (if status = ''PASS'' then p\<lparr>po_passed := po_passed p + 1\<rparr>
      else if status = ''FAIL'' then p\<lparr>po_failed := po_failed p + 1\<rparr>
      else if status = ''WARN'' then p\<lparr>po_warned := po_warned p + 1\<rparr>
      else if status = ''SKIP'' then p\<lparr>po_skipped := po_skipped p + 1\<rparr>
      else p)"

definition note_err :: "string option \<Rightarrow> preflight_output \<Rightarrow> preflight_output" where
  "note_err e p = (if e \<noteq> None \<and> po_err p = None then p\<lparr>po_err := e\<rparr> else p)"

definition po_add :: "'w cli_env \<Rightarrow> string \<Rightarrow> string \<Rightarrow> string \<Rightarrow> preflight_output \<times> 'w \<Rightarrow> preflight_output \<times> 'w" where
  "po_add ce status tool message pw =
     (case pw of (p, w) \<Rightarrow>
        (case ce_out ce (''['' @ status @ ''] '' @ join_with '' '' (str_fields (tool @ '': '' @ message)) @ LF) w of
           (e, w1) \<Rightarrow> (note_err e (po_count status p), w1)))"

definition po_finish :: "'w cli_env \<Rightarrow> preflight_output \<times> 'w \<Rightarrow> string option \<times> 'w" where
  "po_finish ce pw =
     (case pw of (p, w) \<Rightarrow>
        (case ce_out ce (''Preflight summary: '' @ show_nat (po_passed p) @ '' PASS, '' @ show_nat (po_failed p) @ '' FAIL, ''
             @ show_nat (po_skipped p) @ '' SKIP'' @ LF) w of
           (e, w1) \<Rightarrow>
             (let p1 = note_err e p in
              case po_err p1 of
                Some err \<Rightarrow> (Some err, w1)
              | None \<Rightarrow>
                 (let (e2, w2) = (if po_warned p1 > 0 then ce_out ce (''Preflight warnings: '' @ show_nat (po_warned p1) @ '' WARN'' @ LF) w1
                                  else (None, w1)) in
                  if e2 \<noteq> None then (e2, w2)
                  else if po_failed p1 > 0 then (Some (show_nat (po_failed p1) @ '' preflight problem(s)''), w2)
                  else (None, w2)))))"

section \<open>The preflight command\<close>

definition preflight_key :: "test_requirement \<Rightarrow> string" where
  "preflight_key tr =
     (if tr_Variant tr \<noteq> [] then ExecutionLabel (tr_AutomationTool tr @ '':'' @ tr_ID tr) (tr_Variant tr) else tr_AutomationTool tr)"

definition group_tr :: "test_requirement \<Rightarrow> (string, test_requirement list) gomap \<Rightarrow> (string, test_requirement list) gomap" where
  "group_tr tr m = gm_set (preflight_key tr) ((case gm_get m (preflight_key tr) of Some ts \<Rightarrow> ts | None \<Rightarrow> []) @ [tr]) m"

definition finding_status :: "string \<Rightarrow> string" where
  "finding_status level =
     (if level = ''info'' then ''PASS'' else if level = ''warn'' then ''WARN'' else if level = ''skip'' then ''SKIP'' else ''FAIL'')"

definition preflight_tool ::
  "'w cli_env \<Rightarrow> 'w registry \<Rightarrow> run_ctx \<Rightarrow> string \<times> test_requirement list \<Rightarrow> preflight_output \<times> 'w \<Rightarrow> preflight_output \<times> 'w" where
  "preflight_tool ce reg rc g pw =
     (case g of (tool, ts) \<Rightarrow>
        let t0 = hd ts in
        if tr_AutomationTool t0 = [] \<or> tr_AutomationTool t0 = CheckManual then
          fold (\<lambda>tr. po_add ce ''SKIP'' (ExecutionLabel (tr_ID tr) (tr_Variant tr)) ''no automation tool; manual check required'') ts pw
        else
          (case ResolveTool reg t0 of
             None \<Rightarrow> po_add ce ''FAIL'' tool ''tool not registered'' pw
           | Some ti \<Rightarrow>
              (case ti_Preflight ti of
                 None \<Rightarrow> po_add ce ''SKIP'' tool ''no preflight checks implemented'' pw
               | Some check \<Rightarrow>
                  (case check rc ts NewBag (snd pw) of
                     ((findings, err), bag, w1) \<Rightarrow>
                       let pw1 = fold (\<lambda>f. po_add ce (finding_status (fd_Level f)) tool (fd_Message f)) findings (fst pw, w1) in
                       case err of
                         Some e \<Rightarrow> po_add ce ''FAIL'' tool e pw1
                       | None \<Rightarrow> if findings = [] then po_add ce ''SKIP'' tool ''preflight returned no check results'' pw1 else pw1))))"

definition preflight_groups :: "test_requirement list \<Rightarrow> (string \<times> test_requirement list) list" where
  "preflight_groups trs =
     (let byTool = fold group_tr trs []
      in map (\<lambda>tool. (tool, case gm_get byTool tool of Some ts \<Rightarrow> ts | None \<Rightarrow> [])) (sort (map fst byTool)))"

definition preflight_cmd ::
  "'w cli_env \<Rightarrow> 'w registry \<Rightarrow> string \<Rightarrow> string \<Rightarrow> string \<Rightarrow> string \<Rightarrow> filter_spec \<Rightarrow> 'w \<Rightarrow> string option \<times> 'w" where
  "preflight_cmd ce reg catalogPath planPath backendsPath backendName flt w =
     (case configureExecution ce w planPath backendsPath False (zero_config\<lparr>cf_Filter := flt\<rparr>, backendName) of
        (Inl err, st) \<Rightarrow> (Some err, w)
      | (Inr resolved, cfg, name) \<Rightarrow>
         (case catalog_Load (ce_readFile ce w) (ce_catalog ce) catalogPath of
            Inl err \<Rightarrow> (Some err, w)
          | Inr cat \<Rightarrow>
             (case ResolveExecutions (FromCatalog cat) cfg of
                Inl err \<Rightarrow> (Some err, w)
              | Inr trs \<Rightarrow>
                 (let rc = \<lparr> rc_RunID = ''preflight'', rc_PartKind = [], rc_WorkDir = [], rc_Backend = resolved \<rparr>
                  in po_finish ce (fold (preflight_tool ce reg rc) (preflight_groups trs) (zero_output, w))))))"


section \<open>A preflight that passes\<close>

lemma po_failed_count: "po_failed (note_err e (po_count st p)) = po_failed p + (if st = ''FAIL'' then 1 else 0)"
  by (simp add: note_err_def po_count_def)

lemma po_add_failed: "po_failed (fst (po_add ce st tool msg pw)) = po_failed (fst pw) + (if st = ''FAIL'' then 1 else 0)"
  by (cases pw) (simp add: po_add_def po_failed_count split: prod.split)

lemma po_adds_failed:
  "po_failed (fst (fold (\<lambda>x. po_add ce (st x) (lb x) (msg x)) xs pw)) = po_failed (fst pw) + length (filter (\<lambda>x. st x = ''FAIL'') xs)"
  by (induction xs arbitrary: pw) (simp_all add: po_add_failed)

text \<open>
  The checks of a group of requirements passed in the state \<open>u\<close>: the group needs a human, or the
  tool of its first requirement is registered and its checks, called with the whole group, ended
  without an error and with findings of the levels info, warn and skip only.
\<close>

definition check_passes :: "'w registry \<Rightarrow> run_ctx \<Rightarrow> test_requirement list \<Rightarrow> 'w \<Rightarrow> bool" where
  "check_passes reg rc ts u \<longleftrightarrow>
     tr_AutomationTool (hd ts) = [] \<or> tr_AutomationTool (hd ts) = CheckManual \<or>
     (\<exists>ti. ResolveTool reg (hd ts) = Some ti \<and>
        (\<forall>check. ti_Preflight ti = Some check \<longrightarrow>
          (case fst (check rc ts NewBag u) of
             (findings, err) \<Rightarrow> err = None \<and> (\<forall>f \<in> set findings. fd_Level f = ''info'' \<or> fd_Level f = ''warn'' \<or> fd_Level f = ''skip''))))"

lemma finding_status_fail: "finding_status l = ''FAIL'' \<longleftrightarrow> \<not> (l = ''info'' \<or> l = ''warn'' \<or> l = ''skip'')"
  by (simp add: finding_status_def)

lemma preflight_tool_failed:
  "po_failed (fst pw) \<le> po_failed (fst (preflight_tool ce reg rc (tool, ts) pw)) \<and>
   (po_failed (fst (preflight_tool ce reg rc (tool, ts) pw)) = 0 \<longrightarrow> check_passes reg rc ts (snd pw))"
proof (cases "tr_AutomationTool (hd ts) = [] \<or> tr_AutomationTool (hd ts) = CheckManual")
  case True
  then have "preflight_tool ce reg rc (tool, ts) pw =
      fold (\<lambda>tr. po_add ce ''SKIP'' (ExecutionLabel (tr_ID tr) (tr_Variant tr)) ''no automation tool; manual check required'') ts pw"
    by (simp add: preflight_tool_def Let_def)
  then show ?thesis
    using po_adds_failed[of ce "\<lambda>_. ''SKIP''" "\<lambda>tr. ExecutionLabel (tr_ID tr) (tr_Variant tr)" "\<lambda>_. ''no automation tool; manual check required''" ts pw] True
    by (auto simp: check_passes_def)
next
  case False
  show ?thesis
  proof (cases "ResolveTool reg (hd ts)")
    case None
    with False show ?thesis by (simp add: preflight_tool_def Let_def po_add_failed)
  next
    case (Some ti)
    show ?thesis
    proof (cases "ti_Preflight ti")
      case None
      with False Some show ?thesis by (simp add: preflight_tool_def Let_def po_add_failed check_passes_def)
    next
      case (Some check)
      obtain fs err bag w1 where c: "check rc ts NewBag (snd pw) = ((fs, err), bag, w1)" by (metis prod.collapse)
      let ?pw1 = "fold (\<lambda>f. po_add ce (finding_status (fd_Level f)) tool (fd_Message f)) fs (fst pw, w1)"
      have f: "po_failed (fst ?pw1) = po_failed (fst pw) + length (filter (\<lambda>f. finding_status (fd_Level f) = ''FAIL'') fs)"
        using po_adds_failed[of ce "\<lambda>f. finding_status (fd_Level f)" "\<lambda>_. tool" fd_Message fs "(fst pw, w1)"] by simp
      have r: "preflight_tool ce reg rc (tool, ts) pw =
          (case err of Some e \<Rightarrow> po_add ce ''FAIL'' tool e ?pw1
           | None \<Rightarrow> if fs = [] then po_add ce ''SKIP'' tool ''preflight returned no check results'' ?pw1 else ?pw1)"
        using False \<open>ResolveTool reg (hd ts) = Some ti\<close> Some c by (simp add: preflight_tool_def Let_def)
      have "check_passes reg rc ts (snd pw)" if "err = None" "\<forall>f \<in> set fs. finding_status (fd_Level f) \<noteq> ''FAIL''"
        unfolding check_passes_def
        using c that Some \<open>ResolveTool reg (hd ts) = Some ti\<close> by (intro disjI2 exI[of _ ti]) (simp add: finding_status_fail)
      then show ?thesis unfolding r by (cases err) (auto simp: po_add_failed f filter_empty_conv)
    qed
  qed
qed

lemma preflight_fold_failed:
  assumes "po_failed (fst (fold (preflight_tool ce reg rc) groups pw)) = 0"
  shows "po_failed (fst pw) = 0 \<and> (\<forall>before tool ts after. groups = before @ (tool, ts) # after \<longrightarrow>
      check_passes reg rc ts (snd (fold (preflight_tool ce reg rc) before pw)))"
  using assms
proof (induction groups arbitrary: pw)
  case (Cons g groups)
  obtain tool ts where g: "g = (tool, ts)" by (cases g)
  let ?pw = "preflight_tool ce reg rc g pw"
  have f: "po_failed (fst ?pw) = 0"
    and IH: "\<And>before tool ts after. groups = before @ (tool, ts) # after \<Longrightarrow> check_passes reg rc ts (snd (fold (preflight_tool ce reg rc) before ?pw))"
    using Cons.IH[of ?pw] Cons.prems by simp_all
  have t: "po_failed (fst pw) = 0" "check_passes reg rc ts (snd pw)"
    using preflight_tool_failed[of pw ce reg rc tool ts] f by (simp_all add: g)
  have "check_passes reg rc us (snd (fold (preflight_tool ce reg rc) before pw))" if "g # groups = before @ (tool', us) # after" for before tool' us after
    using that IH[of "tl before" tool' us after] t(2) g by (cases before) auto
  with t(1) show ?case by blast
qed simp

lemma po_finish_None:
  assumes "po_finish ce pw = (None, w')"
  shows "po_failed (fst pw) = 0"
proof -
  obtain p w where pw: "pw = (p, w)" by (cases pw)
  have n: "po_failed (note_err e p) = po_failed p" for e by (simp add: note_err_def)
  show ?thesis using assms unfolding pw po_finish_def Let_def
    by (auto simp: n split: prod.splits option.splits if_splits)
qed

lemma group_tr_fold:
  "tr \<in> set trs \<or> (\<exists>ts. gm_get m (preflight_key tr) = Some ts \<and> tr \<in> set ts) \<Longrightarrow>
    \<exists>ts. gm_get (fold group_tr trs m) (preflight_key tr) = Some ts \<and> tr \<in> set ts"
proof (induction trs arbitrary: m)
  case (Cons x trs)
  have "tr \<in> set trs \<or> (\<exists>ts. gm_get (group_tr x m) (preflight_key tr) = Some ts \<and> tr \<in> set ts)"
    using Cons.prems by (auto simp: group_tr_def go_map)
  from Cons.IH[OF this] show ?case by simp
qed auto

lemma group_tr_members:
  assumes "gm_get (fold group_tr trs m) k = Some ts" and "t \<in> set ts"
  shows "t \<in> set trs \<and> preflight_key t = k \<or> (\<exists>us. gm_get m k = Some us \<and> t \<in> set us)"
  using assms
proof (induction trs arbitrary: m)
  case (Cons x trs)
  from Cons.IH[of "group_tr x m"] Cons.prems
  have "t \<in> set trs \<and> preflight_key t = k \<or> (\<exists>us. gm_get (group_tr x m) k = Some us \<and> t \<in> set us)" by simp
  then show ?case by (auto simp: group_tr_def go_map split: if_splits option.splits)
qed simp

lemma preflight_groups_cover:
  assumes "tr \<in> set trs"
  obtains before ts after where "preflight_groups trs = before @ (preflight_key tr, ts) # after" "tr \<in> set ts"
    "\<forall>t \<in> set ts. t \<in> set trs \<and> preflight_key t = preflight_key tr"
proof -
  obtain ts where ts: "gm_get (fold group_tr trs []) (preflight_key tr) = Some ts" "tr \<in> set ts"
    using group_tr_fold[of tr trs "[]"] assms by blast
  then have "preflight_key tr \<in> set (map fst (fold group_tr trs []))" using gm_get_Some_set by force
  with ts have "(preflight_key tr, ts) \<in> set (preflight_groups trs)" by (auto simp: preflight_groups_def Let_def image_iff)
  then obtain before after where "preflight_groups trs = before @ (preflight_key tr, ts) # after" by (meson split_list)
  moreover have "\<forall>t \<in> set ts. t \<in> set trs \<and> preflight_key t = preflight_key tr" using group_tr_members[OF ts(1)] by fastforce
  ultimately show ?thesis using that ts(2) by metis
qed

text \<open>
  C12: when the preflight command succeeds, every selected execution belongs to a group of selected
  executions with the same tool label (a group of its own for a variant), and that group needs a
  human or passed: the tool of the first requirement of the group is registered, and its checks,
  called with the whole group in the state the command had reached, ended without an error and with
  findings of the levels info, warn and skip only. This is the tool that a run resolves for the
  execution itself when the two carry the same tool label and that label is the name of a registered
  integration; the command does not resolve the later requirements of a group one by one.
\<close>

theorem preflight_success_sound:
  assumes "preflight_cmd ce reg catalogPath planPath backendsPath backendName flt w = (None, w')"
  shows "\<exists>cat trs resolved cfg name.
    catalog_Load (ce_readFile ce w) (ce_catalog ce) catalogPath = Inr cat \<and>
    configureExecution ce w planPath backendsPath False (zero_config\<lparr>cf_Filter := flt\<rparr>, backendName) = (Inr resolved, cfg, name) \<and>
    ResolveExecutions (FromCatalog cat) cfg = Inr trs \<and>
    (let rc = \<lparr> rc_RunID = ''preflight'', rc_PartKind = [], rc_WorkDir = [], rc_Backend = resolved \<rparr> in
     \<forall>tr \<in> set trs. \<exists>before ts after. preflight_groups trs = before @ (preflight_key tr, ts) # after \<and> tr \<in> set ts \<and>
       (\<forall>t \<in> set ts. t \<in> set trs \<and> preflight_key t = preflight_key tr) \<and>
       check_passes reg rc ts (snd (fold (preflight_tool ce reg rc) before (zero_output, w))) \<and>
       (tr_AutomationTool (hd ts) = tr_AutomationTool tr \<and> Get reg (tr_AutomationTool tr) \<noteq> None \<longrightarrow>
          ResolveTool reg tr = ResolveTool reg (hd ts)))"
proof -
  obtain resolved cfg name where c: "configureExecution ce w planPath backendsPath False (zero_config\<lparr>cf_Filter := flt\<rparr>, backendName) = (Inr resolved, cfg, name)"
    using assms by (cases "configureExecution ce w planPath backendsPath False (zero_config\<lparr>cf_Filter := flt\<rparr>, backendName)" rule: prod.exhaust[of _ _])
      (auto simp: preflight_cmd_def split: sum.splits prod.splits)
  obtain cat where cat: "catalog_Load (ce_readFile ce w) (ce_catalog ce) catalogPath = Inr cat"
    using assms c by (auto simp: preflight_cmd_def split: sum.splits)
  obtain trs where trs: "ResolveExecutions (FromCatalog cat) cfg = Inr trs"
    using assms c cat by (auto simp: preflight_cmd_def split: sum.splits)
  let ?rc = "\<lparr> rc_RunID = ''preflight'', rc_PartKind = [], rc_WorkDir = [], rc_Backend = resolved \<rparr>"
  have "po_finish ce (fold (preflight_tool ce reg ?rc) (preflight_groups trs) (zero_output, w)) = (None, w')"
    using assms c cat trs by (simp add: preflight_cmd_def Let_def)
  from preflight_fold_failed[OF po_finish_None[OF this]]
  have p: "preflight_groups trs = before @ (tool, ts) # after \<Longrightarrow> check_passes reg ?rc ts (snd (fold (preflight_tool ce reg ?rc) before (zero_output, w)))"
    for before tool ts after by blast
  have "\<exists>before ts after. preflight_groups trs = before @ (preflight_key tr, ts) # after \<and> tr \<in> set ts \<and>
       (\<forall>t \<in> set ts. t \<in> set trs \<and> preflight_key t = preflight_key tr) \<and>
       check_passes reg ?rc ts (snd (fold (preflight_tool ce reg ?rc) before (zero_output, w))) \<and>
       (tr_AutomationTool (hd ts) = tr_AutomationTool tr \<and> Get reg (tr_AutomationTool tr) \<noteq> None \<longrightarrow>
          ResolveTool reg tr = ResolveTool reg (hd ts))" if tr: "tr \<in> set trs" for tr
  proof -
    obtain before ts after where g: "preflight_groups trs = before @ (preflight_key tr, ts) # after" "tr \<in> set ts"
        "\<forall>t \<in> set ts. t \<in> set trs \<and> preflight_key t = preflight_key tr" using preflight_groups_cover[OF tr] .
    have "ResolveTool reg tr = ResolveTool reg (hd ts)" if "tr_AutomationTool (hd ts) = tr_AutomationTool tr" "Get reg (tr_AutomationTool tr) \<noteq> None"
      using that by (auto simp: ResolveTool_def)
    with g p[OF g(1)] show ?thesis by blast
  qed
  then have "\<forall>tr \<in> set trs. \<exists>before ts after. preflight_groups trs = before @ (preflight_key tr, ts) # after \<and> tr \<in> set ts \<and>
       (\<forall>t \<in> set ts. t \<in> set trs \<and> preflight_key t = preflight_key tr) \<and>
       check_passes reg ?rc ts (snd (fold (preflight_tool ce reg ?rc) before (zero_output, w))) \<and>
       (tr_AutomationTool (hd ts) = tr_AutomationTool tr \<and> Get reg (tr_AutomationTool tr) \<noteq> None \<longrightarrow>
          ResolveTool reg tr = ResolveTool reg (hd ts))" by (rule ballI)
  then show ?thesis unfolding Let_def
    by (intro exI[of _ cat] exI[of _ trs] exI[of _ resolved] exI[of _ cfg] exI[of _ name] conjI c cat trs)
qed

text \<open>A catalog with a requirement for a human and two of one registered tool, whose checks find nothing wrong.\<close>

definition checked_tool :: "string list tool_integration" where
  "checked_tool = \<lparr> ti_Name = ''b'', ti_Image = [], ti_Provides = [],
     ti_Preflight = Some (\<lambda>rc trs bag w. (([zero_finding\<lparr>fd_Level := ''info''\<rparr>], None), bag, w @ map tr_ID trs)),
     ti_Provisioner = None, ti_Runner = None, ti_LogCollector = None, ti_ResultParser = None, ti_Teardown = None, ti_ParallelSafe = True,
     ti_ExclusivityGroups = [], ti_Evaluators = [], ti_SetupGroups = [] \<rparr>"

definition checked_registry :: "string list registry" where
  "checked_registry = \<lparr> rg_tools = [(''b'', checked_tool)], rg_setups = [] \<rparr>"

definition manual_cat :: catalog_doc where
  "manual_cat = \<lparr> cd_SchemaVersion = ''2.0'', cd_Provenance = zero_provenance,
     cd_TestRequirements = [(sample_ct ''t1'')\<lparr>ct_AutomationTool := CheckManual\<rparr>] \<rparr>"

definition tool_cat :: catalog_doc where
  "tool_cat = manual_cat\<lparr>cd_TestRequirements := [(sample_ct ''t1'')\<lparr>ct_AutomationTool := CheckManual\<rparr>,
     (sample_ct ''t2'')\<lparr>ct_AutomationTool := ''b''\<rparr>, (sample_ct ''t3'')\<lparr>ct_AutomationTool := ''b''\<rparr>]\<rparr>"

definition sample_cli :: "string list cli_env" where
  "sample_cli = \<lparr> ce_readFile = (\<lambda>w p. Inr []), ce_plan = (\<lambda>b. Inr sample_plan), ce_backends = (\<lambda>b. Inl ''no backends''),
     ce_catalog = (\<lambda>b. Inr manual_cat), ce_thresholds = (\<lambda>b. Inl ''no thresholds''), ce_joinOrder = (\<lambda>m. m),
     ce_changed = (\<lambda>f. False), ce_out = (\<lambda>s w. (None, w @ [s])) \<rparr>"

definition tool_cli :: "string list cli_env" where
  "tool_cli = sample_cli\<lparr>ce_catalog := (\<lambda>b. Inr tool_cat)\<rparr>"

lemma tool_resolves:
  "configureExecution tool_cli [] [] [] False (zero_config\<lparr>cf_Filter := zero_filter\<rparr>, []) = (Inr None, zero_config\<lparr>cf_Filter := zero_filter\<rparr>, [])"
  "map tr_ID (projr (ResolveExecutions (FromCatalog tool_cat) (zero_config\<lparr>cf_Filter := zero_filter\<rparr>))) = [''t1'', ''t2'', ''t3'']"
  by code_simp+

theorem preflight_success_sound_witness:
  "\<exists>w' trs resolved. preflight_cmd tool_cli checked_registry ''c.json'' [] [] [] zero_filter [] = (None, w') \<and>
     ResolveExecutions (FromCatalog tool_cat) (zero_config\<lparr>cf_Filter := zero_filter\<rparr>) = Inr trs \<and> map tr_ID trs = [''t1'', ''t2'', ''t3''] \<and>
     (\<forall>tr \<in> set trs. \<exists>ts u. tr \<in> set ts \<and>
        check_passes checked_registry \<lparr> rc_RunID = ''preflight'', rc_PartKind = [], rc_WorkDir = [], rc_Backend = resolved \<rparr> ts u)"
proof -
  let ?p = "preflight_cmd tool_cli checked_registry ''c.json'' [] [] [] zero_filter []"
  have "fst ?p = None" by code_simp
  then obtain w' where r: "?p = (None, w')" by (cases ?p) auto
  have l: "catalog_Load (ce_readFile tool_cli []) (ce_catalog tool_cli) ''c.json'' = Inr cat \<Longrightarrow> cat = tool_cat" for cat
    by (auto simp: catalog_Load_def tool_cli_def sample_cli_def split: if_splits option.splits sum.splits)
  from preflight_success_sound[OF r] obtain cat trs resolved cfg name where
    c: "catalog_Load (ce_readFile tool_cli []) (ce_catalog tool_cli) ''c.json'' = Inr cat"
      "configureExecution tool_cli [] [] [] False (zero_config\<lparr>cf_Filter := zero_filter\<rparr>, []) = (Inr resolved, cfg, name)"
      "ResolveExecutions (FromCatalog cat) cfg = Inr trs"
    and p: "let rc = \<lparr> rc_RunID = ''preflight'', rc_PartKind = [], rc_WorkDir = [], rc_Backend = resolved \<rparr> in
     \<forall>tr \<in> set trs. \<exists>before ts after. preflight_groups trs = before @ (preflight_key tr, ts) # after \<and> tr \<in> set ts \<and>
       (\<forall>t \<in> set ts. t \<in> set trs \<and> preflight_key t = preflight_key tr) \<and>
       check_passes checked_registry rc ts (snd (fold (preflight_tool tool_cli checked_registry rc) before (zero_output, []))) \<and>
       (tr_AutomationTool (hd ts) = tr_AutomationTool tr \<and> Get checked_registry (tr_AutomationTool tr) \<noteq> None \<longrightarrow>
          ResolveTool checked_registry tr = ResolveTool checked_registry (hd ts))"
    by (elim exE conjE)
  have "\<exists>ts u. tr \<in> set ts \<and>
      check_passes checked_registry \<lparr> rc_RunID = ''preflight'', rc_PartKind = [], rc_WorkDir = [], rc_Backend = resolved \<rparr> ts u"
    if "tr \<in> set trs" for tr using bspec[OF p[unfolded Let_def] that] by (elim exE conjE) (intro exI conjI)
  moreover from c tool_resolves(1) l
  have t: "ResolveExecutions (FromCatalog tool_cat) (zero_config\<lparr>cf_Filter := zero_filter\<rparr>) = Inr trs" by simp
  moreover from t tool_resolves(2) have "map tr_ID trs = [''t1'', ''t2'', ''t3'']" by simp
  ultimately show ?thesis using r
    by - (rule exI[of _ w'], rule exI[of _ trs], rule exI[of _ resolved], intro conjI ballI)
qed

end
