(* ===== verification/Run_Frame.thy ===== *)
theory Run_Frame
  imports Orchestrator
begin

text \<open>
  What a run leaves alone outside the process: a relation on the outside world that the callbacks of
  the caller and the creation of directories respect, and that the tools and the setups respect, holds
  between the worlds before and after \<open>Run\<close>. The locale is the contract of the caller of \<open>Run\<close>.
\<close>

text \<open>A stage or a setup respects a relation on the outside world.\<close>

definition outside :: "('w \<Rightarrow> 'w \<Rightarrow> bool) \<Rightarrow> 'w orch \<Rightarrow> 'w orch \<Rightarrow> bool" where
  "outside Q s s' \<longleftrightarrow> Q (o_ext s) (o_ext s')"

definition tools_respect :: "('w \<Rightarrow> 'w \<Rightarrow> bool) \<Rightarrow> 'w orch registry \<Rightarrow> bool" where
  "tools_respect Q reg \<longleftrightarrow> (\<forall>tr ti. ResolveTool reg tr = Some ti \<longrightarrow> framed (outside Q) ti) \<and>
     (\<forall>sc. \<forall>su \<in> set (activeSetups reg sc). \<forall>rc trs s.
        outside Q s (snd (sp_Setup (su_provider su) rc trs s)) \<and> outside Q s (snd (sp_Teardown (su_provider su) rc trs s)))"

locale outside_frame =
  fixes Q :: "'w \<Rightarrow> 'w \<Rightarrow> bool" and ro :: "'w run_opts"
  assumes Q_refl: "Q w w"
    and Q_trans: "Q w1 w2 \<Longrightarrow> Q w2 w3 \<Longrightarrow> Q w1 w3"
    and Q_checkpoint: "ro_Checkpoint ro = Some f1 \<Longrightarrow> Q w (f1 r w)"
    and Q_incident: "ro_RecordIncident ro = Some f2 \<Longrightarrow> Q w (f2 i w)"
    and Q_selection: "ro_RecordStorageSelection ro = Some f3 \<Longrightarrow> Q w (f3 x w)"
    and Q_stage: "ro_SetStage ro = Some f4 \<Longrightarrow> Q w (f4 st trs w)"
    and Q_artifacts: "ro_RecordArtifacts ro = Some f5 \<Longrightarrow> Q w (f5 trs refs w)"
    and Q_mkdir: "Q w (snd (ro_mkdir ro p w))"
begin

lemma on_ext_frame: "(\<And>f w. c = Some f \<Longrightarrow> Q w (f x w)) \<Longrightarrow> outside Q s (on_ext c x s)"
  by (auto simp: outside_def on_ext_def Q_refl split: option.split)

lemma trans_frame: "outside Q s1 s2 \<Longrightarrow> outside Q s2 s3 \<Longrightarrow> outside Q s1 s3"
  unfolding outside_def by (rule Q_trans)

lemma ext_frame: "o_ext s' = o_ext s \<Longrightarrow> outside Q s s'"
  by (simp add: outside_def Q_refl)

lemma checkpoint_frame: "outside Q s (checkpoint ro re st s)"
  unfolding checkpoint_def by (rule on_ext_frame) (rule Q_checkpoint)

lemma set_states_ext: "o_ext (fold (\<lambda>tr s. set_state (l tr) (e tr s) s) trs s) = o_ext s"
  by (induction trs arbitrary: s) simp_all

lemma track_frame: "outside Q s (track ro re q s)"
proof -
  obtain p ev where p: "progress_do q (o_progress s) = (p, ev)" by (metis prod.collapse)
  show ?thesis
  proof (cases ev)
    case None
    with p show ?thesis by (simp add: track_def ext_frame)
  next
    case (Some e)
    obtain l st oc where e: "e = (l, st, oc)" by (cases e)
    have "outside Q s (onStateChange ro re e (s\<lparr>o_progress := p\<rparr>))"
      by (auto simp: onStateChange_def e Let_def intro!: ext_frame trans_frame[OF _ checkpoint_frame])
    with p Some show ?thesis by (simp add: track_def)
  qed
qed

lemma stage_frame_orch: "stage_frame (outside Q) (orch_env ro re) (\<lambda>_. True)"
proof
  show "outside Q w w" for w by (rule ext_frame) simp
  show "outside Q w1 w3" if "outside Q w1 w2" "outside Q w2 w3" for w1 w2 w3 using trans_frame[OF that] .
  show "outside Q w (je_SetStage (orch_env ro re) st trs w)" for trs st and w :: "'w orch"
    unfolding orch_env_def job_env.select_convs rc_SetStage_def Let_def
    by (rule trans_frame[OF trans_frame[OF ext_frame checkpoint_frame] on_ext_frame]) (auto simp: set_states_ext Q_stage)
  show "outside Q w (f trs refs w)" if "je_RecordArtifacts (orch_env ro re) = Some f" for f trs refs and w :: "'w orch"
  proof -
    have f: "f trs refs w = rc_RecordArtifacts ro re trs refs w" using that by (simp add: orch_env_def)
    show ?thesis unfolding f rc_RecordArtifacts_def Let_def
      by (auto simp: Q_artifacts Q_refl set_states_ext ext_frame split: prod.split
          intro!: trans_frame[OF _ on_ext_frame] trans_frame[OF _ checkpoint_frame])
  qed
  show "outside Q w (snd (je_mkdir (orch_env ro re) p w))" for p and w :: "'w orch"
    using Q_mkdir[of "o_ext w" p] by (auto simp: orch_env_def outside_def split: prod.splits)
qed

lemma settle_frame: "outside Q s (settle (orch_env ro re) tr oc s)"
  by (simp add: settle_def orch_env_def track_frame)

lemma execute_one_frame:
  assumes "tools_respect Q reg"
  shows "outside Q s (snd (execute_one reg (orch_env ro re) limit rc tool tr s))"
proof -
  let ?s1 = "track ro re (OpStart tr) s"
  obtain v m s2 where j: "runJobWithTimeout reg (orch_env ro re) limit rc tool [tr] ?s1 = ((v, m), s2)" by (metis prod.collapse)
  have "outside Q ?s1 s2"
    using stage_frame.job_frame[OF stage_frame_orch[of re], where reg = reg and trs = "[tr]" and limit = limit and rc = rc and tool = tool and w = ?s1] assms j by (simp add: tools_respect_def)
  moreover have "snd (execute_one reg (orch_env ro re) limit rc tool tr s) = settle (orch_env ro re) tr (summarizeTR v tr) s2"
    using j by (simp add: execute_one_def orch_env_def)
  ultimately show ?thesis by (metis trans_frame track_frame settle_frame)
qed

lemma execute_variant_frame:
  assumes "tools_respect Q reg"
  shows "outside Q s (snd (execute_variant reg (orch_env ro re) limit rc tool tr s))"
proof -
  let ?dir = "variant_workdir (rc_WorkDir rc) tr"
  obtain e s1 where m: "je_mkdir (orch_env ro re) ?dir s = (e, s1)" by (metis prod.collapse)
  have a: "outside Q s s1" using stage_frame.mkdir[OF stage_frame_orch[of re], where w = s and p = ?dir] m by simp
  show ?thesis
  proof (cases e)
    case None
    then show ?thesis using m trans_frame[OF a execute_one_frame[OF assms]] by (simp add: execute_variant_def Let_def)
  next
    case (Some err)
    then show ?thesis using m trans_frame[OF a settle_frame] by (simp add: execute_variant_def Let_def)
  qed
qed

lemma run_all_frame:
  assumes "\<And>tr s. outside Q s (snd (one tr s))"
  shows "outside Q s (snd (run_all one trs s))"
proof (induction trs arbitrary: s)
  case (Cons tr trs)
  obtain v m s1 where o: "one tr s = ((v, m), s1)" by (metis prod.collapse)
  obtain vs ms s2 where r: "run_all one trs s1 = ((vs, ms), s2)" by (metis prod.collapse)
  have "outside Q s s1" "outside Q s1 s2" using assms[of s tr] o Cons.IH[of s1] r by simp_all
  then show ?case using o r trans_frame by simp
qed (simp add: ext_frame)

lemma run_job_frame:
  assumes "tools_respect Q reg"
  shows "outside Q s (run_job reg ro re j s)"
proof -
  let ?one = "execute_one reg (orch_env ro re) ''2h0m0s'' (re_rc re) (j_tool j)"
  let ?var = "execute_variant reg (orch_env ro re) ''2h0m0s'' (re_rc re) (j_tool j)"
  obtain vs ms s1 where r1: "run_all ?one (filter (\<lambda>tr. tr_Variant tr = []) (j_trs j)) s = ((vs, ms), s1)" by (metis prod.collapse)
  obtain vs2 ms2 s2 where r2: "run_all ?var (filter (\<lambda>tr. tr_Variant tr \<noteq> []) (j_trs j)) s1 = ((vs2, ms2), s2)" by (metis prod.collapse)
  have "outside Q s s1" "outside Q s1 s2"
    using run_all_frame[of ?one, OF execute_one_frame[OF assms]] run_all_frame[of ?var, OF execute_variant_frame[OF assms]] r1 r2
    by (metis snd_conv)+
  then have "outside Q s s2" by (rule trans_frame)
  then have "outside Q s (s2\<lparr>o_verdicts := o_verdicts s2 @ (vs @ vs2), o_measurements := o_measurements s2 @ (ms @ ms2)\<rparr>)"
    by (simp add: outside_def)
  from trans_frame[OF this checkpoint_frame] show ?thesis
    using r1 r2 by (simp add: run_job_def runToolExecutions_def runToolExecutionsWithTimeout_def Let_def)
qed

lemma fold_frame:
  assumes "\<And>x s. x \<in> set xs \<Longrightarrow> outside Q (g s) (g (f x s))"
  shows "outside Q (g s) (g (fold f xs s))"
  using assms by (induction xs arbitrary: s) (auto intro: ext_frame trans_frame)

lemma classify_frame: "outside Q (snd st) (snd (classify reg ro re tr st))"
  by (cases st) (auto simp: classify_def Let_def add_verdicts_def intro!: ext_frame trans_frame[OF ext_frame track_frame])

lemma setup_step_frame:
  assumes "tools_respect Q reg" and "su \<in> set (activeSetups reg sc)"
  shows "outside Q (snd (snd st)) (snd (snd (setup_step ro re su st)))"
proof -
  obtain scorable ready s where st: "st = (scorable, ready, s)" by (cases st)
  let ?s0 = "rc_SetStage ro re (''setup:'' @ su_label su) (su_trs su) s"
  obtain err s1 where r: "sp_Setup (su_provider su) (re_rc re) (su_trs su) ?s0 = (err, s1)" by (metis prod.collapse)
  have "outside Q s ?s0"
    using stage_frame.set_stage[OF stage_frame_orch[of re], where trs = "su_trs su" and w = s and s = "''setup:'' @ su_label su"] by (simp add: orch_env_def)
  moreover have "outside Q ?s0 s1" using assms r unfolding tools_respect_def by (metis snd_conv)
  ultimately have a: "outside Q s s1" by (rule trans_frame)
  have "outside Q s1 (fold (settle_setup ro re) (su_trs su) (add_verdicts vs s1))" for vs
  proof (rule trans_frame)
    show "outside Q s1 (add_verdicts vs s1)" by (rule ext_frame) (simp add: add_verdicts_def)
    show "outside Q (add_verdicts vs s1) (fold (settle_setup ro re) (su_trs su) (add_verdicts vs s1))"
      by (rule fold_frame[where g = "\<lambda>s. s"]) (simp add: settle_setup_def track_frame)
  qed
  from a trans_frame[OF a this] r st show ?thesis by (auto simp: setup_step_def split: option.split)
qed

lemma setups_ready:
  "set (fst (snd (fold (setup_step ro re) sus (scorable, ready, s)))) \<subseteq> set ready \<union> set sus"
proof (induction sus arbitrary: scorable ready s)
  case (Cons su sus)
  obtain a b c where e: "setup_step ro re su (scorable, ready, s) = (a, b, c)" by (metis prod.collapse)
  then have "set b \<subseteq> insert su (set ready)" by (auto simp: setup_step_def split: prod.splits option.splits)
  with Cons[of a b c] e show ?case by auto
qed simp

lemma Run_frame:
  assumes "tools_respect Q reg"
  shows "Q w (snd (Run reg ro cfg trs prov sv rc w))"
proof (cases "ResolveExecutions trs cfg")
  case (Inl e)
  then show ?thesis by (simp add: Run_def Q_refl)
next
  case (Inr selected)
  define re where "re = \<lparr> re_cfg = cfg, re_selected = selected, re_prov = prov, re_schema = sv, re_rc = rc, re_startedAt = ro_now ro w \<rparr>"
  let ?c = "checkpoint ro re RunStatusRunning"
  let ?s0 = "?c (initial_orch re w)"
  obtain sc s1 where c: "fold (classify reg ro re) (re_selected re) ([], ?s0) = (sc, s1)" by (metis prod.collapse)
  obtain sc1 rdy s3 where u: "fold (setup_step ro re) (activeSetups reg sc) (sc, [], ?c s1) = (sc1, rdy, s3)" by (metis prod.collapse)
  let ?s5 = "fold (run_job reg ro re) (ro_schedule ro (groupByTool reg sc1 (cf_Scheduling (re_cfg re)))) (?c s3)"
  have e: "snd (run_phases reg ro re w) = fold (teardown_setup (re_rc re)) (rev rdy) (sort_results re ?s5)"
    by (simp add: run_phases_def Let_def c u)
  have 1: "outside Q ?s0 s1" using fold_frame[where g = snd and f = "classify reg ro re", OF classify_frame, where xs = "re_selected re" and s = "([], ?s0)"] c by simp
  have 2: "outside Q (?c s1) s3"
    using fold_frame[where g = "\<lambda>s. snd (snd s)" and f = "setup_step ro re", OF setup_step_frame[OF assms], where xs = "activeSetups reg sc" and s = "(sc, [], ?c s1)"] u by simp
  have 3: "outside Q (?c s3) ?s5" by (rule fold_frame[where g = "\<lambda>s. s"]) (rule run_job_frame[OF assms])
  have rdy: "set rdy \<subseteq> set (activeSetups reg sc)" using setups_ready[of re "activeSetups reg sc" sc "[]" "?c s1"] u by simp
  have 4: "outside Q (sort_results re ?s5) (fold (teardown_setup (re_rc re)) (rev rdy) (sort_results re ?s5))"
    using rdy assms by (intro fold_frame[where g = "\<lambda>s. s"]) (auto simp: teardown_setup_def tools_respect_def)
  have 5: "outside Q ?s5 (sort_results re ?s5)" by (rule ext_frame) simp
  have "outside Q (initial_orch re w) (snd (run_phases reg ro re w))"
    unfolding e by (intro trans_frame[OF checkpoint_frame trans_frame[OF 1 trans_frame[OF checkpoint_frame
            trans_frame[OF 2 trans_frame[OF checkpoint_frame trans_frame[OF 3 trans_frame[OF 5 4]]]]]]])
  then have "Q w (o_ext (snd (run_phases reg ro re w)))" by (simp add: outside_def initial_orch_def)
  then show ?thesis by (simp add: Run_def Inr re_def Let_def case_prod_unfold)
qed

end

end
