(* ===== verification/Run_Command.thy ===== *)
theory Run_Command
  imports Cli Checkpoint Run_Frame
begin

text \<open>
  The \<open>run\<close> and \<open>attest\<close> commands of \<open>cmd/harness/main.go\<close>: from the flags to the exit status. The
  world of a run is the checkpoint and what is outside the process, so that the callbacks the command
  hands to the orchestrator are \<open>Save\<close> and \<open>RecordIncident\<close> themselves. A command is a partial
  function because the attestation prompt may never return: \<open>None\<close> is a command that does not end.
\<close>

section \<open>Flags and environment\<close>

record run_flags =
  rf_cfg :: config
  rf_thresholds :: string
  rf_output :: string
  rf_plan :: string
  rf_backends :: string
  rf_backend :: string
  rf_attestations :: string
  rf_questions :: string
  rf_noAttestations :: bool
  rf_scenario :: string
  rf_continueFrom :: string
  rf_retryFailed :: bool
  rf_skipEnv :: bool

text \<open>
  The rest of the world of a command: the clock, the terminal, the report codecs, the cluster and
  the orchestrator's options without the callbacks.
\<close>

record 'w run_io =
  io_openLog :: "string \<Rightarrow> 'w \<Rightarrow> string option \<times> 'w"
  io_logError :: "string \<Rightarrow> 'w \<Rightarrow> 'w"
  io_thresholdsEnv :: string
  io_runID :: string
  io_tempDir :: string
  io_abs :: "string \<Rightarrow> string option"
  io_now :: "'w \<Rightarrow> string"
  io_readJSON :: "string \<Rightarrow> 'w \<Rightarrow> string + report"
  io_attestationDoc :: "string \<Rightarrow> string + attestation_doc"
  io_questions :: "string \<Rightarrow> string + question list"
  io_defaultQuestions :: string
  io_interactive :: bool
  io_input :: "(string + string) list"
  io_promptCtx :: "nat \<Rightarrow> string option"
  io_collect :: "(string \<Rightarrow> 'w \<Rightarrow> environment) option"
  io_put :: "'w writer"
  io_markdown :: "report \<Rightarrow> 'w \<Rightarrow> string option \<times> 'w"
  io_mkdir :: "string \<Rightarrow> 'w \<Rightarrow> string option \<times> 'w"
  io_opts :: "(report_checkpoint \<times> 'w) run_opts"
  io_mapOrder :: map_order

section \<open>Selection\<close>

definition needs_thresholds :: "test_requirement list \<Rightarrow> string option" where
  "needs_thresholds selected =
     (case find (\<lambda>tr. tr_SLACount tr > 0 \<or> tr_ChecksCount tr > 0) selected of
        None \<Rightarrow> None
      | Some tr \<Rightarrow> Some (''TR '' @ go_quote (tr_ID tr) @ '' has scorable criteria ('' @ show_int (tr_SLACount tr) @ '' sla, ''
          @ show_int (tr_ChecksCount tr) @ '' checks); supply --thresholds or HARNESS_THRESHOLDS''))"

definition load_requirements :: "'w cli_env \<Rightarrow> 'w \<Rightarrow> catalog_doc \<Rightarrow> string \<Rightarrow> string + test_requirement list" where
  "load_requirements ce w cat path =
     (if path \<noteq> [] then
        (case thresholds_Load (ce_readFile ce w) (ce_thresholds ce) path of
           Inl err \<Rightarrow> Inl err
         | Inr th \<Rightarrow> Join (ce_joinOrder ce) cat th)
      else Inr (FromCatalog cat))"

text \<open>The catalog and the requirements the filter selects.\<close>

definition select_requirements ::
  "'w cli_env \<Rightarrow> string \<Rightarrow> string \<Rightarrow> config \<Rightarrow> 'w \<Rightarrow> string + catalog_doc \<times> test_requirement list" where
  "select_requirements ce thresholdsEnv thresholdsPath cfg w =
     (case catalog_Load (ce_readFile ce w) (ce_catalog ce) (cf_CatalogPath cfg) of
        Inl err \<Rightarrow> Inl err
      | Inr cat \<Rightarrow>
         (let path = (if thresholdsPath = [] then thresholdsEnv else thresholdsPath) in
          case load_requirements ce w cat path of
            Inl err \<Rightarrow> Inl err
          | Inr trs \<Rightarrow>
             (let selected = SelectTRs trs (cf_Filter cfg) in
              if selected = [] then Inl ''no test requirements selected''
              else if path = [] then
                (case needs_thresholds selected of Some err \<Rightarrow> Inl err | None \<Rightarrow> Inr (cat, selected))
              else Inr (cat, selected))))"

section \<open>The prior report and the attestations\<close>

definition read_prior :: "'w run_io \<Rightarrow> resolved_backend option \<Rightarrow> string \<Rightarrow> 'w \<Rightarrow> string + report option" where
  "read_prior io resolved continueFrom w =
     (if continueFrom = [] then Inr None
      else
        (case io_readJSON io continueFrom w of
           Inl err \<Rightarrow> Inl err
         | Inr p \<Rightarrow>
            (let used = pf_Backend (env_Platform (r_Environment p)) in
             case resolved of
               Some b \<Rightarrow>
                 (if used \<noteq> [] \<and> used \<noteq> rb_Name b then
                    Inl (''--continue-from: prior report backend '' @ go_quote used @ '' != current backend '' @ go_quote (rb_Name b)
                      @ ''; refusing to merge mismatched runs'')
                  else Inr (Some p))
             | None \<Rightarrow> Inr (Some p))))"

definition ask_attestations :: "'w cli_env \<Rightarrow> 'w run_io \<Rightarrow> string \<Rightarrow> 'w \<Rightarrow> (string + attestation list) option" where
  "ask_attestations ce io questionsPath w =
     (case LoadQuestions (io_questions io) (io_defaultQuestions io) (ce_readFile ce w) questionsPath of
        Inl err \<Rightarrow> Some (Inl err)
      | Inr qs \<Rightarrow> Prompt (io_promptCtx io) qs (io_input io))"

definition run_attestations ::
  "'w cli_env \<Rightarrow> 'w run_io \<Rightarrow> run_flags \<Rightarrow> report option \<Rightarrow> 'w \<Rightarrow> (string + attestation list) option" where
  "run_attestations ce io rf prior w =
     (if (case prior of Some p \<Rightarrow> r_Attestations p \<noteq> [] | None \<Rightarrow> False) then Some (Inr [])
      else if rf_attestations rf \<noteq> [] then
        Some (loadAttestations (io_attestationDoc io) (\<lambda>p w. ce_readFile ce w p) (rf_attestations rf) w)
      else if rf_noAttestations rf then Some (Inr [])
      else if io_interactive io then ask_attestations ce io (rf_questions rf) w
      else Some (Inr []))"

section \<open>The report before the run\<close>

definition initial_report ::
  "'w run_io \<Rightarrow> catalog_doc \<Rightarrow> config \<Rightarrow> test_requirement list \<Rightarrow> report option \<Rightarrow> attestation list \<Rightarrow> 'w \<Rightarrow> string + report" where
  "initial_report io cat cfg selected prior attestations w =
     (let kind = (if prior \<noteq> None then ''resume'' else ''initial'');
          now = io_now io w;
          r = NewRunning now (io_runID io) (cd_SchemaVersion cat) (cd_Provenance cat) selected kind now;
          r1 = r\<lparr>r_Executions := map (\<lambda>e. e\<lparr>ex_Scenario := cf_Scenario cfg\<rparr>) (r_Executions r)\<rparr>
      in case prior of
           Some p \<Rightarrow> Merge (io_mapOrder io) p (r1\<lparr>r_Attestations := r_Attestations p\<rparr>)
         | None \<Rightarrow> Inr (r1\<lparr>r_Attestations := attestations\<rparr>))"

definition workdir_of :: "'w run_io \<Rightarrow> string \<Rightarrow> string" where
  "workdir_of io dir =
     (let d = (if dir = [] then path_join [io_tempDir io, ''harness-'' @ io_runID io] else dir)
      in case io_abs io d of Some a \<Rightarrow> a | None \<Rightarrow> d)"

section \<open>The run and the report after it\<close>

text \<open>The options of the orchestrator: the checkpoint receives its snapshots and incidents; a
  directory is created outside the process.\<close>

definition opts_of :: "'w run_io \<Rightarrow> (report_checkpoint \<times> 'w) run_opts" where
  "opts_of io = (io_opts io)\<lparr>ro_mkdir := (\<lambda>p (c, w). case io_mkdir io p w of (e, w1) \<Rightarrow> (e, c, w1)),
     ro_Checkpoint := Some (Save (io_put io) (io_mapOrder io)),
     ro_RecordIncident := Some (RecordIncident (io_put io) (io_mapOrder io)),
     ro_RecordStorageSelection := None, ro_SetStage := None, ro_RecordArtifacts := None\<rparr>"

definition with_environment :: "'w run_io \<Rightarrow> bool \<Rightarrow> resolved_backend option \<Rightarrow> report option \<Rightarrow> report \<Rightarrow> 'w \<Rightarrow> report" where
  "with_environment io skipEnv resolved prior rep w =
     (if prior \<noteq> None \<or> skipEnv then rep
      else
        (let sc = (case resolved of Some b \<Rightarrow> rb_StorageClass b | None \<Rightarrow> []);
             rep1 = (case io_collect io of Some collect \<Rightarrow> rep\<lparr>r_Environment := collect sc w\<rparr> | None \<Rightarrow> rep);
             env = r_Environment rep1
         in case resolved of
              Some b \<Rightarrow> rep1\<lparr>r_Environment := env\<lparr>env_Platform := (env_Platform env)\<lparr>pf_Backend := rb_Name b\<rparr>\<rparr>\<rparr>
            | None \<Rightarrow> rep1))"

definition exit_status :: "report \<Rightarrow> string option" where
  "exit_status rep =
     (if r_Status rep \<noteq> RunStatusComplete then
        Some (''run did not complete: status='' @ r_Status rep @ '' reason='' @ r_CompletionReason rep)
      else if sm_Fail (r_Summary rep) > 0 \<or> sm_Error (r_Summary rep) > 0 then
        Some (''certification failed: '' @ show_int (sm_Fail (r_Summary rep)) @ '' fail, ''
          @ show_int (sm_Error (r_Summary rep)) @ '' error'')
      else None)"

text \<open>
  Writing the results: the error, whether the files are final, the report that was published and
  the world. \<open>loaded\<close> says that the attestations came from a file and are not saved again.
\<close>

definition publish ::
  "'w run_io \<Rightarrow> string \<Rightarrow> bool \<Rightarrow> attestation list \<Rightarrow> report \<Rightarrow> 'w \<Rightarrow> (string option \<times> bool) \<times> 'w" where
  "publish io outputDir loaded attestations rep w =
     (case (if outputDir \<noteq> [] then writeReportFiles (io_put io) outputDir rep (if \<not> loaded then attestations else []) w else (None, w)) of
        (Some err, w1) \<Rightarrow> ((Some err, False), w1)
      | (None, w1) \<Rightarrow>
         (case io_markdown io rep w1 of
            (Some err, w2) \<Rightarrow> ((Some err, outputDir \<noteq> []), w2)
          | (None, w2) \<Rightarrow> ((exit_status rep, outputDir \<noteq> []), w2)))"

text \<open>From the first checkpoint to the exit: the part of the command under the deferred \<open>Finalize\<close>.\<close>

definition run_and_publish ::
  "(report_checkpoint \<times> 'w) orch registry \<Rightarrow> 'w run_io \<Rightarrow> run_flags \<Rightarrow> config \<Rightarrow> resolved_backend option \<Rightarrow> catalog_doc
   \<Rightarrow> test_requirement list \<Rightarrow> report option \<Rightarrow> attestation list \<Rightarrow> report_checkpoint \<times> 'w
   \<Rightarrow> (string option \<times> bool) \<times> report_checkpoint \<times> 'w" where
  "run_and_publish reg io rf cfg resolved cat selected prior attestations cw =
     (let rc = \<lparr> rc_RunID = io_runID io, rc_PartKind = (if prior \<noteq> None then ''resume'' else ''initial''),
                 rc_WorkDir = workdir_of io (cf_WorkDir cfg), rc_Backend = resolved \<rparr> in
      case Run reg (opts_of io) cfg selected (cd_Provenance cat) (cd_SchemaVersion cat) rc cw of
        (Inl err, cw1) \<Rightarrow> ((Some err, False), cw1)
      | (Inr rep, c1, w1) \<Rightarrow>
         (case ck_lastErr c1 of
            Some err \<Rightarrow> ((Some (''write report checkpoint: '' @ err), False), c1, w1)
          | None \<Rightarrow>
             (let rep1 = (with_environment io (rf_skipEnv rf) resolved prior rep w1)\<lparr>r_Attestations := attestations\<rparr> in
              case (case prior of Some p \<Rightarrow> Merge (io_mapOrder io) p rep1 | None \<Rightarrow> Inr rep1) of
                Inl err \<Rightarrow> ((Some err, False), c1, w1)
              | Inr rep2 \<Rightarrow>
                 (case publish io (rf_output rf) (rf_attestations rf \<noteq> []) attestations rep2 w1 of
                    (res, w2) \<Rightarrow> (res, c1, w2)))))"

text \<open>The deferred call: an error before the final files are written leaves a partial report.\<close>

definition finalize_on_error ::
  "'w run_io \<Rightarrow> (string option \<times> bool) \<times> report_checkpoint \<times> 'w \<Rightarrow> string option \<times> 'w" where
  "finalize_on_error io r =
     (case r of ((err, final), c, w) \<Rightarrow>
        (case err of
           Some e \<Rightarrow> if final then (err, w) else (err, snd (ck_Finalize (io_put io) (io_now io w) RunStatusPartial e (c, w)))
         | None \<Rightarrow> (None, w)))"

definition start_run ::
  "(report_checkpoint \<times> 'w) orch registry \<Rightarrow> 'w run_io \<Rightarrow> run_flags \<Rightarrow> config \<Rightarrow> resolved_backend option \<Rightarrow> catalog_doc
   \<Rightarrow> test_requirement list \<Rightarrow> report option \<Rightarrow> attestation list \<Rightarrow> 'w \<Rightarrow> string option \<times> 'w" where
  "start_run reg io rf cfg resolved cat selected prior attestations w =
     (case initial_report io cat cfg selected prior attestations w of
        Inl err \<Rightarrow> (Some err, w)
      | Inr initial \<Rightarrow>
         (let c0 = newReportCheckpoint (rf_output rf) initial;
              (c1, w1) = (if rf_output rf \<noteq> [] then Save (io_put io) (io_mapOrder io) initial (c0, w) else (c0, w)) in
          case ck_lastErr c1 of
            Some err \<Rightarrow> (Some (''write initial report checkpoint: '' @ err), w1)
          | None \<Rightarrow> finalize_on_error io (run_and_publish reg io rf cfg resolved cat selected prior attestations (c1, w1))))"

definition run_body ::
  "'w cli_env \<Rightarrow> (report_checkpoint \<times> 'w) orch registry \<Rightarrow> 'w run_io \<Rightarrow> run_flags \<Rightarrow> 'w \<Rightarrow> (string option \<times> 'w) option" where
  "run_body ce reg io rf w =
     (case configureExecution ce w (rf_plan rf) (rf_backends rf) True (rf_cfg rf, rf_backend rf) of
        (Inl err, st) \<Rightarrow> Some (Some err, w)
      | (Inr resolved, cfg0, name) \<Rightarrow>
         (let cfg = (if ce_changed ce ''scenario'' then cfg0\<lparr>cf_Scenario := rf_scenario rf\<rparr> else cfg0) in
          case select_requirements ce (io_thresholdsEnv io) (rf_thresholds rf) cfg w of
            Inl err \<Rightarrow> Some (Some err, w)
          | Inr (cat, selected0) \<Rightarrow>
             (case read_prior io resolved (rf_continueFrom rf) w of
                Inl err \<Rightarrow> Some (Some err, w)
              | Inr prior \<Rightarrow>
                 (let selected = (case prior of
                        Some p \<Rightarrow> ResumeExecutionsWithOptions selected0 p (cf_Scenario cfg) (rf_retryFailed rf)
                      | None \<Rightarrow> selected0) in
                  case run_attestations ce io rf prior w of
                    None \<Rightarrow> None
                  | Some (Inl err) \<Rightarrow> Some (Some err, w)
                  | Some (Inr attestations) \<Rightarrow> Some (start_run reg io rf cfg resolved cat selected prior attestations w)))))"

text \<open>The command: with an output directory the log is opened first and an error is noted in it.\<close>

definition run_cmd ::
  "'w cli_env \<Rightarrow> (report_checkpoint \<times> 'w) orch registry \<Rightarrow> 'w run_io \<Rightarrow> run_flags \<Rightarrow> 'w \<Rightarrow> (string option \<times> 'w) option" where
  "run_cmd ce reg io rf w =
     (if rf_output rf = [] then run_body ce reg io rf w
      else
        (case io_openLog io (rf_output rf) w of
           (Some err, w1) \<Rightarrow> Some (Some err, w1)
         | (None, w1) \<Rightarrow>
            (case run_body ce reg io rf w1 of
               None \<Rightarrow> None
             | Some (Some err, w2) \<Rightarrow> Some (Some err, io_logError io (''error: '' @ err @ LF) w2)
             | Some (None, w2) \<Rightarrow> Some (None, w2))))"

section \<open>The attest command\<close>

definition attest_cmd ::
  "'w cli_env \<Rightarrow> 'w run_io \<Rightarrow> string \<Rightarrow> string \<Rightarrow> string \<Rightarrow> string \<Rightarrow> 'w \<Rightarrow> (string option \<times> 'w) option" where
  "attest_cmd ce io reportPath attestationsPath questionsPath outputDir0 w =
     (case io_readJSON io reportPath w of
        Inl err \<Rightarrow> Some (Some err, w)
      | Inr rep \<Rightarrow>
         (case (if attestationsPath \<noteq> [] then
                  Some (loadAttestations (io_attestationDoc io) (\<lambda>p w. ce_readFile ce w p) attestationsPath w)
                else if io_interactive io then ask_attestations ce io questionsPath w
                else Some (Inl ''provide --attestations or run interactively to add attestations'')) of
            None \<Rightarrow> None
          | Some (Inl err) \<Rightarrow> Some (Some err, w)
          | Some (Inr attestations) \<Rightarrow>
             (if attestations = [] then Some (Some ''no attestations provided'', w)
              else
                (let rep1 = rep\<lparr>r_Attestations := attestations\<rparr>;
                     outputDir = (if outputDir0 = [] then path_dir reportPath else outputDir0)
                 in case writeReportFiles (io_put io) outputDir rep1 attestations w of
                      (Some err, w1) \<Rightarrow> Some (Some err, w1)
                    | (None, w1) \<Rightarrow> Some (io_markdown io rep1 w1)))))"


section \<open>A successful exit\<close>

lemma Run_fields:
  assumes "Run reg ro cfg trs prov sv rc w = (Inr rep, w')"
  shows "r_Status rep = RunStatusComplete \<or> r_Status rep = RunStatusPartial"
    and "sm_Fail (r_Summary rep) = 0 \<and> sm_Error (r_Summary rep) = 0 \<longleftrightarrow>
      (\<forall>v \<in> set (r_Verdicts rep). v_Outcome v \<noteq> OutcomeFail \<and> v_Outcome v \<noteq> OutcomeError)"
    and "r_Certifiable rep \<longleftrightarrow> r_Status rep = RunStatusComplete \<and>
      (\<forall>i \<in> set (r_Incidents rep). \<not> inc_BlocksCertification i) \<and> sm_Fail (r_Summary rep) = 0 \<and> sm_Error (r_Summary rep) = 0"
    and "0 \<le> sm_Fail (r_Summary rep)" "0 \<le> sm_Error (r_Summary rep)"
proof -
  obtain re s where rep: "rep = finish ro re s" using Run_report[OF assms] by blast
  obtain status reason s1 where e: "end_of_run ro (end_states ro s) = (status, reason, s1)" by (metis prod.collapse)
  have r: "rep = Finalize (ro_now ro (o_ext s)) (checkpointSnapshot ro re status s1) status reason (ro_now ro (o_ext s))"
    by (simp add: rep finish_def e Let_def)
  show "r_Status rep = RunStatusComplete \<or> r_Status rep = RunStatusPartial"
    using end_of_run_cases[OF e] by (auto simp: r)
  show "sm_Fail (r_Summary rep) = 0 \<and> sm_Error (r_Summary rep) = 0 \<longleftrightarrow>
      (\<forall>v \<in> set (r_Verdicts rep). v_Outcome v \<noteq> OutcomeFail \<and> v_Outcome v \<noteq> OutcomeError)"
    using snapshot_no_failures[of ro re status s1] by (simp add: r snapshot_fields)
  show "r_Certifiable rep \<longleftrightarrow> r_Status rep = RunStatusComplete \<and>
      (\<forall>i \<in> set (r_Incidents rep). \<not> inc_BlocksCertification i) \<and> sm_Fail (r_Summary rep) = 0 \<and> sm_Error (r_Summary rep) = 0"
    unfolding r Finalize_certifiable Finalize_fields using end_of_run_cases[OF e] by auto
  show "0 \<le> sm_Fail (r_Summary rep)" "0 \<le> sm_Error (r_Summary rep)"
    by (simp_all add: r snapshot_fields Build_summary)
qed

text \<open>What the exit status knows of a report: it is complete and its verdicts neither fail nor error.\<close>

definition exit_clean :: "report \<Rightarrow> bool" where
  "exit_clean rep \<longleftrightarrow> r_Status rep = RunStatusComplete \<and>
     (\<forall>v \<in> set (r_Verdicts rep). v_Outcome v \<noteq> OutcomeFail \<and> v_Outcome v \<noteq> OutcomeError) \<and>
     (r_Certifiable rep \<longleftrightarrow> (\<forall>i \<in> set (r_Incidents rep). \<not> inc_BlocksCertification i))"

lemma exit_clean_Run:
  assumes "Run reg ro cfg trs prov sv rc w = (Inr rep, w')" and "exit_status rep = None"
  shows "exit_clean rep"
proof -
  note f = Run_fields[OF assms(1)]
  from assms(2) f(4,5) have z: "r_Status rep = RunStatusComplete" "sm_Fail (r_Summary rep) = 0" "sm_Error (r_Summary rep) = 0"
    by (auto simp: exit_status_def split: if_splits)
  then show ?thesis unfolding exit_clean_def f(3) using f(2) by blast
qed

lemma exit_clean_Merge:
  assumes "Merge order base later = Inr rep" and "exit_status rep = None" and "r_Status later = RunStatusComplete \<or> r_Status later = RunStatusPartial"
  shows "exit_clean rep"
proof -
  have z: "r_Status rep = RunStatusComplete" "sm_Fail (r_Summary rep) \<le> 0" "sm_Error (r_Summary rep) \<le> 0"
    using assms(2) by (auto simp: exit_status_def split: if_splits)
  have "r_Status rep = (if r_Status later = [] then RunStatusComplete else r_Status later)"
    unfolding Merge_Inr[OF assms(1)] by (simp add: merged_report_def Let_def)
  with z(1) assms(3) have l: "r_Status later = RunStatusComplete" by auto
  have s: "sm_Fail (r_Summary rep) = 0" "sm_Error (r_Summary rep) = 0"
    using z(2,3) unfolding Merge_fields(8)[OF assms(1), of "[]" "[]" zero_provenance] Build_summary by simp_all
  from s[unfolded Merge_fields(8)[OF assms(1), of "[]" "[]" zero_provenance] Build_summary of_nat_eq_0_iff filter_length_0]
  have v: "\<forall>v \<in> set (r_Verdicts rep). v_Outcome v \<noteq> OutcomeFail \<and> v_Outcome v \<noteq> OutcomeError" by blast
  show ?thesis unfolding exit_clean_def Merge_certifiable_raw[OF assms(1)] using z(1) l s v by blast
qed

text \<open>The report a successful command printed, and wrote when it has an output directory.\<close>

definition published :: "'w run_io \<Rightarrow> string \<Rightarrow> report \<Rightarrow> 'w \<Rightarrow> bool" where
  "published io outputDir rep w' \<longleftrightarrow>
     (\<exists>u. io_markdown io rep u = (None, w') \<and>
       (outputDir \<noteq> [] \<longrightarrow> (\<exists>atts u0. writeReportFiles (io_put io) outputDir rep atts u0 = (None, u))))"

lemma publish_None:
  assumes "publish io outputDir loaded atts rep w = ((None, final), w')"
  shows "exit_status rep = None" and "published io outputDir rep w'"
  using assms by (auto simp: publish_def published_def split: prod.splits option.splits if_splits)

lemma with_environment_simps [simp]:
  "r_Status (with_environment io s res p rep w) = r_Status rep" "r_Summary (with_environment io s res p rep w) = r_Summary rep"
  "r_Verdicts (with_environment io s res p rep w) = r_Verdicts rep" "r_Incidents (with_environment io s res p rep w) = r_Incidents rep"
  "r_Certifiable (with_environment io s res p rep w) = r_Certifiable rep" "r_CompletionReason (with_environment io s res p rep w) = r_CompletionReason rep"
  "r_RunID (with_environment io s res p rep w) = r_RunID rep" "r_Executions (with_environment io s res p rep w) = r_Executions rep"
  by (auto simp: with_environment_def Let_def split: option.splits)

lemma run_and_publish_None:
  assumes "run_and_publish reg io rf cfg resolved cat selected prior atts cw = ((None, final), cw')"
  shows "\<exists>rep. published io (rf_output rf) rep (snd cw') \<and> exit_clean rep"
proof -
  define rc where "rc = \<lparr> rc_RunID = io_runID io, rc_PartKind = (if prior \<noteq> None then ''resume'' else ''initial''),
                 rc_WorkDir = workdir_of io (cf_WorkDir cfg), rc_Backend = resolved \<rparr>"
  note d = assms[unfolded run_and_publish_def, folded rc_def, unfolded Let_def]
  obtain rep c1 w1 where run: "Run reg (opts_of io) cfg selected (cd_Provenance cat) (cd_SchemaVersion cat) rc cw = (Inr rep, c1, w1)"
    using d by (auto split: prod.splits sum.splits)
  define rep1 where "rep1 = (with_environment io (rf_skipEnv rf) resolved prior rep w1)\<lparr>r_Attestations := atts\<rparr>"
  obtain rep2 where rep2: "(case prior of Some p \<Rightarrow> Merge (io_mapOrder io) p rep1 | None \<Rightarrow> Inr rep1) = Inr rep2"
    and pub: "publish io (rf_output rf) (rf_attestations rf \<noteq> []) atts rep2 w1 = ((None, final), snd cw')"
    using d[unfolded run, folded rep1_def] by (auto simp: rep1_def split: prod.splits sum.splits option.splits)
  note p = publish_None[OF pub]
  have "exit_clean rep2"
  proof (cases prior)
    case None
    then have r2: "rep2 = rep1" using rep2 by simp
    have "exit_status rep = exit_status rep1" by (simp add: exit_status_def rep1_def)
    then have "exit_clean rep" using exit_clean_Run[OF run] p(1) r2 by simp
    then show ?thesis by (simp add: exit_clean_def r2 rep1_def)
  next
    case (Some q)
    then have "Merge (io_mapOrder io) q rep1 = Inr rep2" using rep2 by simp
    from exit_clean_Merge[OF this p(1)] show ?thesis using Run_fields(1)[OF run] by (simp add: rep1_def)
  qed
  with p(2) show ?thesis by blast
qed

lemma start_run_None:
  assumes "start_run reg io rf cfg resolved cat selected prior atts w = (None, w')"
  shows "\<exists>rep. published io (rf_output rf) rep w' \<and> exit_clean rep"
proof -
  obtain cw where "finalize_on_error io (run_and_publish reg io rf cfg resolved cat selected prior atts cw) = (None, w')"
    using assms by (auto simp: start_run_def Let_def split: sum.splits prod.splits option.splits)
  then obtain final c where "run_and_publish reg io rf cfg resolved cat selected prior atts cw = ((None, final), c, w')"
    by (auto simp: finalize_on_error_def split: prod.splits option.splits if_splits)
  from run_and_publish_None[OF this] show ?thesis by simp
qed

lemma run_body_None:
  assumes "run_body ce reg io rf w = Some (None, w')"
  shows "\<exists>rep. published io (rf_output rf) rep w' \<and> exit_clean rep"
proof -
  obtain cfg resolved cat selected prior atts where "start_run reg io rf cfg resolved cat selected prior atts w = (None, w')"
    using assms by (auto simp: run_body_def Let_def split: sum.splits prod.splits option.splits if_splits)
  then show ?thesis by (rule start_run_None)
qed

text \<open>
  C5: when the run command succeeds it has printed a report, and written the same one to the output
  directory if there is one, that is complete and has no failing and no erroring verdict, also when
  it continues a prior report. The exit status does not look at incidents: the report is certifiable
  exactly when no incident of it blocks certification.
\<close>

theorem run_success_sound:
  assumes "run_cmd ce reg io rf w = Some (None, w')"
  shows "\<exists>rep. published io (rf_output rf) rep w' \<and> exit_clean rep"
proof -
  obtain u where "run_body ce reg io rf u = Some (None, w')"
    using assms by (auto simp: run_cmd_def split: if_splits prod.splits option.splits)
  then show ?thesis by (rule run_body_None)
qed


section \<open>Continuing a finished run\<close>

text \<open>With nothing left to do the orchestrator only saves snapshots.\<close>

lemma Save_quiet:
  assumes "ck_outputDir (fst cw) = []" and "pv_KBGitCommit (r_Provenance snapshot) = []"
  shows "ck_lastErr (fst (Save put order snapshot cw)) = ck_lastErr (fst cw)" "ck_outputDir (fst (Save put order snapshot cw)) = []"
  using assms by (cases cw; simp add: Save_def merge_latest_def persist_def keep_err_def Merge_def Let_def split: prod.split option.split)+

lemma snapshot_commit: "r_Provenance (checkpointSnapshot ro re st s) = re_prov re"
  by (simp add: checkpointSnapshot_def Let_def split: prod.split)

lemma checkpoint_quiet:
  assumes "ck_outputDir (fst (o_ext s)) = []" and "pv_KBGitCommit (re_prov re) = []"
  shows "ck_lastErr (fst (o_ext (checkpoint (opts_of io) re st s))) = ck_lastErr (fst (o_ext s))"
    "ck_outputDir (fst (o_ext (checkpoint (opts_of io) re st s))) = []"
  using Save_quiet[of "o_ext s" "checkpointSnapshot (opts_of io) re st s" "io_put io" "io_mapOrder io"] assms
  by (simp_all add: checkpoint_def on_ext_def opts_of_def snapshot_commit)

lemma Run_nothing:
  assumes "ResolveExecutions [] cfg = Inr []" and "pv_KBGitCommit prov = []" and "ck_outputDir (fst cw) = []"
    and "\<And>x. ro_ctxErr (io_opts io) x = None" and "\<And>js. ro_schedule (io_opts io) [] = []"
    and "\<And>m. mset (ro_mapOrder (io_opts io) m) = mset m"
  obtains rep c w' where "Run reg (opts_of io) cfg [] prov sv rc cw = (Inr rep, c, w')" "ck_lastErr c = ck_lastErr (fst cw)"
    "r_Status rep = RunStatusComplete" "r_Verdicts rep = []" "r_Provenance rep = prov" "exit_status rep = None"
proof -
  let ?ro = "opts_of io"
  define re where "re = \<lparr> re_cfg = cfg, re_selected = [], re_prov = prov, re_schema = sv, re_rc = rc, re_startedAt = ro_now ?ro cw \<rparr>"
  let ?c = "checkpoint ?ro re RunStatusRunning"
  define s where "s = sort_results re (?c (?c (?c (initial_orch re cw))))"
  have a: "activeSetups reg [] = []" by (simp add: activeSetups_def)
  have g: "groupByTool reg [] sched = []" for sched by (simp add: groupByTool_def)
  have sch: "ro_schedule ?ro [] = []" using assms(5) by (simp add: opts_of_def)
  have ph: "run_phases reg ?ro re cw = (finish ?ro re s, s)"
    unfolding run_phases_def s_def by (simp add: re_def a g sch Let_def)
  have fin: "finish ?ro re s = Finalize (ro_now ?ro (o_ext s)) (checkpointSnapshot ?ro re RunStatusComplete (end_states ?ro s)) RunStatusComplete [] (ro_now ?ro (o_ext s))"
  proof -
    have "o_states s = []" by (simp add: s_def initial_orch_def re_def)
    then show ?thesis using assms(4) by (simp add: finish_def end_of_run_def opts_of_def Let_def)
  qed
  have v: "o_verdicts s = []" by (simp add: s_def sort_results_def stamp_verdicts_def initial_orch_def)
  have ext: "ck_lastErr (fst (o_ext s)) = ck_lastErr (fst cw)"
  proof -
    have i: "o_ext (initial_orch re cw) = cw" by (simp add: initial_orch_def)
    have p: "pv_KBGitCommit (re_prov re) = []" using assms(2) by (simp add: re_def)
    have 1: "ck_outputDir (fst (o_ext (initial_orch re cw))) = []" using i assms(3) by simp
    note 2 = checkpoint_quiet[OF 1 p, of io RunStatusRunning]
    note 3 = checkpoint_quiet[OF 2(2) p, of io RunStatusRunning]
    note 4 = checkpoint_quiet[OF 3(2) p, of io RunStatusRunning]
    show ?thesis by (simp add: s_def 2(1) 3(1) 4(1) i)
  qed
  let ?rep = "finish ?ro re s"
  obtain c w' where cw: "o_ext s = (c, w')" by (cases "o_ext s")
  have run: "Run reg ?ro cfg [] prov sv rc cw = (Inr ?rep, c, w')"
    by (simp add: Run_def assms(1) re_def[symmetric] ph cw)
  have st: "r_Status ?rep = RunStatusComplete" "r_Verdicts ?rep = []"
    by (simp_all add: fin snapshot_fields v stamp_verdicts_def)
  have pv: "r_Provenance ?rep = prov" by (simp add: fin Finalize_def Let_def snapshot_commit) (simp add: re_def)
  have "exit_status ?rep = None"
    using Run_fields(2)[OF run] st by (simp add: exit_status_def)
  with that[OF run] ext cw st pv show ?thesis by simp
qed

definition finished_report :: report where
  "finished_report = zero_report\<lparr>r_RunID := ''r0'', r_Executions := [zero_run_execution\<lparr>ex_TR := ''t1'', ex_State := ExecutionCompleted, ex_Outcome := OutcomeSkip\<rparr>]\<rparr>"

definition sample_io :: "string list run_io" where
  "sample_io = \<lparr> io_openLog = (\<lambda>d w. (None, w)), io_logError = (\<lambda>e w. w), io_thresholdsEnv = [], io_runID = ''r1'', io_tempDir = ''/tmp'',
     io_abs = (\<lambda>p. None), io_now = (\<lambda>w. ''now''), io_readJSON = (\<lambda>p w. Inr finished_report), io_attestationDoc = (\<lambda>b. Inl ''bad''),
     io_questions = (\<lambda>b. Inr []), io_defaultQuestions = [], io_interactive = False, io_input = [], io_promptCtx = (\<lambda>n. None),
     io_collect = None, io_put = (\<lambda>p d w. (None, w @ [p])), io_markdown = (\<lambda>r w. (None, w @ [''stdout''])),
     io_mkdir = (\<lambda>p w. (None, w)),
     io_opts = \<lparr> ro_ctxErr = (\<lambda>w. None), ro_deadline = (\<lambda>a b. None), ro_since = (\<lambda>a b. f64_of_int 1), ro_now = (\<lambda>w. ''now''),
       ro_mkdir = (\<lambda>p w. (None, w)), ro_cwd = None, ro_Checkpoint = None, ro_RecordIncident = None, ro_RecordStorageSelection = None,
       ro_SetStage = None, ro_RecordArtifacts = None, ro_mapOrder = (\<lambda>m. m), ro_schedule = (\<lambda>js. js) \<rparr>,
     io_mapOrder = (\<lambda>m. m) \<rparr>"

definition sample_flags :: run_flags where
  "sample_flags = \<lparr> rf_cfg = zero_config, rf_thresholds = [], rf_output = [], rf_plan = [], rf_backends = [], rf_backend = [],
     rf_attestations = [], rf_questions = [], rf_noAttestations = True, rf_scenario = [], rf_continueFrom = ''r.json'',
     rf_retryFailed = False, rf_skipEnv = True \<rparr>"

theorem run_success_sound_witness:
  "\<exists>w' rep. run_cmd sample_cli empty_registry sample_io sample_flags [] = Some (None, w') \<and> published sample_io [] rep w' \<and>
     r_Status rep = RunStatusComplete"
proof -
  have fl: "rf_output sample_flags = []" "rf_plan sample_flags = []" "rf_backends sample_flags = []" "rf_cfg sample_flags = zero_config"
    "rf_backend sample_flags = []" "rf_thresholds sample_flags = []" "rf_continueFrom sample_flags = ''r.json''" "\<not> rf_retryFailed sample_flags"
    by (simp_all add: sample_flags_def)
  have iot: "io_thresholdsEnv sample_io = []" by (simp add: sample_io_def)
  have sc: "cf_Scenario zero_config = []" by (simp add: zero_config_def)
  have cfg: "configureExecution sample_cli [] [] [] True (zero_config, []) = (Inr None, zero_config, [])"
    by (simp add: configureExecution_def choose_backend_def)
  have ch: "\<not> ce_changed sample_cli x" for x by (simp add: sample_cli_def)
  obtain tr where sel: "select_requirements sample_cli [] [] zero_config [] = Inr (manual_cat, [tr])" "tr_ID tr = ''t1''" "tr_Variant tr = []"
  proof -
    have l: "catalog_Load (ce_readFile sample_cli []) (ce_catalog sample_cli) (cf_CatalogPath zero_config) = Inr manual_cat" by code_simp
    let ?tr = "trFromCatalog ((sample_ct ''t1'')\<lparr>ct_AutomationTool := CheckManual\<rparr>)"
    have f: "FromCatalog manual_cat = [?tr]" by (simp add: FromCatalog_def manual_cat_def)
    have "tr_SLACount ?tr = 0" "tr_ChecksCount ?tr = 0" "tr_ID ?tr = ''t1''" "tr_Variant ?tr = []"
      by (simp_all add: trFromCatalog_def sample_ct_def zero_test_requirement_def)
    moreover have "SelectTRs [?tr] (cf_Filter zero_config) = [?tr]" by (simp add: zero_config_def zero_filter_def)
    ultimately show ?thesis using that[of ?tr]
      by (simp add: select_requirements_def l load_requirements_def f needs_thresholds_def Let_def)
  qed
  have pr: "read_prior sample_io None ''r.json'' [] = Inr (Some finished_report)"
    by (simp add: read_prior_def sample_io_def)
  have res: "ResumeExecutionsWithOptions [tr] finished_report [] False = []"
    by (simp add: ResumeExecutionsWithOptions_def finished_report_def zero_report_def resume_execution_def sel executionKey_def gm_true_def zero_run_execution_def go_map Let_def)
  have att: "run_attestations sample_cli sample_io sample_flags (Some finished_report) [] = Some (Inr [])"
    by (simp add: run_attestations_def finished_report_def zero_report_def sample_flags_def)
  have body: "run_cmd sample_cli empty_registry sample_io sample_flags [] =
      Some (start_run empty_registry sample_io sample_flags zero_config None manual_cat [] (Some finished_report) [] [])"
    using cfg ch sel(1) pr res att fl by (simp add: fl iot sc run_cmd_def run_body_def Let_def)
  obtain init where init: "initial_report sample_io manual_cat zero_config [] (Some finished_report) [] [] = Inr init"
    by (auto simp: initial_report_def Merge_def finished_report_def zero_report_def zero_provenance_def Let_def)
  obtain rep c w1 where run: "Run empty_registry (opts_of sample_io) zero_config [] (cd_Provenance manual_cat) (cd_SchemaVersion manual_cat)
      \<lparr> rc_RunID = io_runID sample_io, rc_PartKind = ''resume'', rc_WorkDir = workdir_of sample_io (cf_WorkDir zero_config), rc_Backend = None \<rparr>
      (newReportCheckpoint [] init, []) = (Inr rep, c, w1)" and r: "ck_lastErr c = None" "r_Status rep = RunStatusComplete" "r_Verdicts rep = []"
      "r_Provenance rep = zero_provenance"
    by (rule Run_nothing[of zero_config "cd_Provenance manual_cat" "(newReportCheckpoint [] init, [])" sample_io])
      (auto simp: ResolveExecutions_def zero_config_def applyOverrides_def manual_cat_def zero_provenance_def newReportCheckpoint_def sample_io_def)
  let ?rep1 = "(with_environment sample_io True None (Some finished_report) rep w1)\<lparr>r_Attestations := []\<rparr>"
  obtain rep2 where rep2: "Merge (io_mapOrder sample_io) finished_report ?rep1 = Inr rep2"
    using Merge_def by (auto simp: Let_def r(4) finished_report_def zero_report_def zero_provenance_def)
  have v: "r_Verdicts rep2 = []" using Merge_fields(1)[OF rep2] r(3) by (simp add: finished_report_def zero_report_def dedupeVerdicts_def)
  have st: "r_Status rep2 = RunStatusComplete"
    unfolding Merge_Inr[OF rep2] by (simp add: merged_report_def Let_def r(2))
  have ex: "exit_status rep2 = None"
    using st Merge_fields(8)[OF rep2, of "[]" "[]" zero_provenance] v by (simp add: exit_status_def Build_summary)
  have "start_run empty_registry sample_io sample_flags zero_config None manual_cat [] (Some finished_report) [] [] = (None, w1 @ [''stdout''])"
    using run r(1) rep2 ex fl init
    by (simp add: start_run_def run_and_publish_def publish_def finalize_on_error_def newReportCheckpoint_def Let_def sample_flags_def)
      (simp add: sample_io_def)
  with body have ok: "run_cmd sample_cli empty_registry sample_io sample_flags [] = Some (None, w1 @ [''stdout''])" by simp
  from run_success_sound[OF ok] ok fl show ?thesis by (auto simp: exit_clean_def)
qed


section \<open>No run leaves a running report\<close>

text \<open>A disk that takes every write: the world is the list of the documents written.\<close>

type_synonym disk = "(string \<times> doc) list"

definition disk_put :: "disk writer" where
  "disk_put p d w = (None, w @ [(p, d)])"

text \<open>The report last written as JSON.\<close>

fun json_of :: "string \<times> doc \<Rightarrow> report option" where
  "json_of (p, DocJSON r) = Some r"
| "json_of (p, d) = None"

definition last_json :: "disk \<Rightarrow> report option" where
  "last_json w = (let rs = List.map_filter json_of w in if rs = [] then None else Some (last rs))"

lemma write_all_disk: "write_all disk_put files w = (None, w @ files)"
  by (induction files arbitrary: w) (auto simp: disk_put_def)

lemma writeReportFiles_disk:
  "\<exists>w'. writeReportFiles disk_put dir rep atts w = (None, w') \<and> last_json w' = Some (RefreshLifecycle rep)"
  by (auto simp: writeReportFiles_def write_all_disk last_json_def Let_def List.map_filter_def)

definition ended :: "report option \<Rightarrow> bool" where
  "ended x \<longleftrightarrow> (\<exists>r. x = Some r \<and> (r_Status r = RunStatusComplete \<or> r_Status r = RunStatusPartial))"

lemma ck_Finalize_disk:
  assumes "ck_outputDir c \<noteq> []"
  shows "ended (last_json (snd (ck_Finalize disk_put now RunStatusPartial e (c, w))))"
proof -
  let ?r = "Finalize now (ck_latest c) RunStatusPartial e now"
  obtain w' where w': "writeReportFiles disk_put (ck_outputDir c) ?r [] w = (None, w')" "last_json w' = Some (RefreshLifecycle ?r)"
    using writeReportFiles_disk by blast
  then have "snd (ck_Finalize disk_put now RunStatusPartial e (c, w)) = w'"
    using assms by (simp add: ck_Finalize_def persist_def)
  with w'(2) show ?thesis by (simp add: ended_def)
qed

lemma publish_disk:
  assumes "publish io dir loaded atts rep w = ((err, final), w')" and "io_put io = disk_put" and "dir \<noteq> []"
    and "\<And>r w. snd (io_markdown io r w) = w" and "r_Status rep = RunStatusComplete \<or> r_Status rep = RunStatusPartial"
  shows "final \<and> ended (last_json w')"
proof -
  obtain w1 where w1: "writeReportFiles disk_put dir rep (if \<not> loaded then atts else []) w = (None, w1)" "last_json w1 = Some (RefreshLifecycle rep)"
    using writeReportFiles_disk by blast
  obtain e where md: "io_markdown io rep w1 = (e, w1)" by (metis assms(4) prod.collapse)
  have "ended (last_json w1)" using w1(2) assms(5) by (auto simp: ended_def)
  moreover have "w' = w1 \<and> final"
    using assms(1,3) unfolding publish_def assms(2) if_P[OF assms(3)] w1(1) option.case prod.case md by (auto split: option.splits)
  ultimately show ?thesis by simp
qed

lemma ck_outputDir_simps [simp]:
  "ck_outputDir (fst (persist put (c, w))) = ck_outputDir c" "ck_outputDir (fst (Save put order r (c, w))) = ck_outputDir c"
  by (auto simp: persist_def keep_err_def Save_def split: prod.splits option.splits)

lemma Save_same_report:
  assumes "Save disk_put order initial (newReportCheckpoint dir initial, w) = (c1, w1)"
  shows "ck_lastErr c1 = None"
proof -
  have p: "ck_lastErr (fst (persist disk_put (c, w))) = ck_lastErr c" for c w
    using writeReportFiles_disk[of "ck_outputDir c" "ck_latest c" "[]" w] by (auto simp: persist_def keep_err_def)
  have "snd (merge_latest order initial initial) = None" by (simp add: merge_latest_def Merge_def Let_def)
  then have "ck_lastErr (fst (Save disk_put order initial (newReportCheckpoint dir initial, w))) = None"
    by (cases "merge_latest order initial initial") (simp add: Save_def newReportCheckpoint_def p keep_err_def)
  with assms show ?thesis by simp
qed

text \<open>The callbacks of the command keep the directory of the checkpoint.\<close>

definition same_dir :: "report_checkpoint \<times> 'w \<Rightarrow> report_checkpoint \<times> 'w \<Rightarrow> bool" where
  "same_dir cw cw' \<longleftrightarrow> ck_outputDir (fst cw') = ck_outputDir (fst cw)"

interpretation dir_frame: outside_frame same_dir "opts_of io" for io
proof
  show "same_dir w w" "same_dir w1 w2 \<Longrightarrow> same_dir w2 w3 \<Longrightarrow> same_dir w1 w3" for w w1 w2 w3 :: "report_checkpoint \<times> 'a"
    by (simp_all add: same_dir_def)
  show "same_dir w (f r w)" if "ro_Checkpoint (opts_of io) = Some f" for f r and w :: "report_checkpoint \<times> 'a"
    using that by (cases w) (auto simp: opts_of_def same_dir_def)
  show "same_dir w (f i w)" if "ro_RecordIncident (opts_of io) = Some f" for f i and w :: "report_checkpoint \<times> 'a"
    using that by (cases w) (auto simp: opts_of_def same_dir_def RecordIncident_def split: option.split)
  show "same_dir w (snd (ro_mkdir (opts_of io) p w))" for p and w :: "report_checkpoint \<times> 'a"
    by (cases w) (simp add: opts_of_def same_dir_def split: prod.split)
qed (simp_all add: opts_of_def)

lemma run_and_publish_disk:
  assumes "run_and_publish reg io rf cfg resolved cat selected prior atts cw = ((err, final), c', w')" and "io_put io = disk_put" and "rf_output rf \<noteq> []"
    and "\<And>r w. snd (io_markdown io r w) = w"
    and "tools_respect same_dir reg"
  shows "ck_outputDir c' = ck_outputDir (fst cw) \<and> (err = None \<longrightarrow> final) \<and> (final \<longrightarrow> ended (last_json w'))"
proof -
  define rc where "rc = \<lparr> rc_RunID = io_runID io, rc_PartKind = (if prior \<noteq> None then ''resume'' else ''initial''),
                 rc_WorkDir = workdir_of io (cf_WorkDir cfg), rc_Backend = resolved \<rparr>"
  note d = assms(1)[unfolded run_and_publish_def, folded rc_def, unfolded Let_def]
  obtain r c1 w1 where run: "Run reg (opts_of io) cfg selected (cd_Provenance cat) (cd_SchemaVersion cat) rc cw = (r, c1, w1)" by (metis prod.collapse)
  have dir: "ck_outputDir c1 = ck_outputDir (fst cw)"
    using dir_frame.Run_frame[OF assms(5), of cw io cfg selected "cd_Provenance cat" "cd_SchemaVersion cat" rc] run by (simp add: same_dir_def)
  show ?thesis
  proof (cases r)
    case (Inl e)
    with d[unfolded run] dir show ?thesis by auto
  next
    case (Inr rep)
    define rep1 where "rep1 = (with_environment io (rf_skipEnv rf) resolved prior rep w1)\<lparr>r_Attestations := atts\<rparr>"
    note d2 = d[unfolded run Inr prod.case sum.case, folded rep1_def]
    have s1: "r_Status rep1 = RunStatusComplete \<or> r_Status rep1 = RunStatusPartial"
      using Run_fields(1)[OF run[unfolded Inr]] by (simp add: rep1_def)
    show ?thesis
    proof (cases "ck_lastErr c1")
      case (Some e)
      with d2 dir show ?thesis by auto
    next
      case None
      show ?thesis
      proof (cases "case prior of Some p \<Rightarrow> Merge (io_mapOrder io) p rep1 | None \<Rightarrow> Inr rep1")
        case (Inl e)
        with d2 None dir show ?thesis by auto
      next
        case (Inr rep2)
        have "r_Status rep2 = RunStatusComplete \<or> r_Status rep2 = RunStatusPartial"
        proof (cases prior)
          case (Some q)
          then have m: "Merge (io_mapOrder io) q rep1 = Inr rep2" using Inr by simp
          show ?thesis unfolding Merge_Inr[OF m] using s1 by (auto simp: merged_report_def Let_def)
        qed (use s1 Inr in simp)
        moreover have "c' = c1" using d2 None Inr by (simp split: prod.splits)
        moreover have "publish io (rf_output rf) (rf_attestations rf \<noteq> []) atts rep2 w1 = ((err, final), w')"
          using d2 None Inr by (simp split: prod.splits)
        ultimately show ?thesis using publish_disk[OF _ assms(2,3,4)] dir by blast
      qed
    qed
  qed
qed

text \<open>
  C10: when every write succeeds and the tools leave the checkpoint's directory alone, a run that
  got as far as its initial report never leaves a report marked as running: whether it succeeds,
  is cancelled, cannot be resolved or cannot be merged, the last report.json is complete or partial.
\<close>

theorem run_leaves_no_running_report:
  assumes "start_run reg io rf cfg resolved cat selected prior atts w = (err, w')"
    and "initial_report io cat cfg selected prior atts w = Inr initial"
    and "io_put io = disk_put" and "rf_output rf \<noteq> []" and "\<And>r w. snd (io_markdown io r w) = w" and "tools_respect same_dir reg"
  shows "ended (last_json w')"
proof -
  let ?c0 = "newReportCheckpoint (rf_output rf) initial"
  obtain c1 w1 where sv: "Save (io_put io) (io_mapOrder io) initial (?c0, w) = (c1, w1)" by (metis prod.collapse)
  have dir: "ck_outputDir c1 = rf_output rf"
    using ck_outputDir_simps(2)[of "io_put io" "io_mapOrder io" initial ?c0 w] unfolding sv by (simp add: newReportCheckpoint_def)
  have "ck_lastErr c1 = None"
    using sv unfolding assms(3) by (rule Save_same_report)
  then have "finalize_on_error io (run_and_publish reg io rf cfg resolved cat selected prior atts (c1, w1)) = (err, w')"
    using assms(1,2,4) sv by (simp add: start_run_def Let_def)
  moreover obtain e final c2 w2 where r: "run_and_publish reg io rf cfg resolved cat selected prior atts (c1, w1) = ((e, final), c2, w2)"
    by (metis prod.collapse)
  ultimately have f: "finalize_on_error io ((e, final), c2, w2) = (err, w')" by simp
  have h: "ck_outputDir c2 = rf_output rf" "e = None \<longrightarrow> final" "final \<longrightarrow> ended (last_json w2)"
    using run_and_publish_disk[OF r assms(3,4,5,6)] dir by simp_all
  show ?thesis
  proof (cases "e = None \<or> final")
    case True
    with f h show ?thesis by (auto simp: finalize_on_error_def split: option.splits)
  next
    case False
    then obtain x where "e = Some x" "\<not> final" by (cases e) auto
    with f have "w' = snd (ck_Finalize disk_put (io_now io w2) RunStatusPartial x (c2, w2))" by (simp add: finalize_on_error_def assms(3))
    with ck_Finalize_disk[of c2] h(1) assms(4) show ?thesis by simp
  qed
qed

definition disk_io :: "disk run_io" where
  "disk_io = \<lparr> io_openLog = (\<lambda>d w. (None, w)), io_logError = (\<lambda>e w. w), io_thresholdsEnv = [], io_runID = ''r1'', io_tempDir = ''/tmp'',
     io_abs = (\<lambda>p. None), io_now = (\<lambda>w. ''now''), io_readJSON = (\<lambda>p w. Inl ''absent''), io_attestationDoc = (\<lambda>b. Inl ''bad''),
     io_questions = (\<lambda>b. Inr []), io_defaultQuestions = [], io_interactive = False, io_input = [], io_promptCtx = (\<lambda>n. None),
     io_collect = None, io_put = disk_put, io_markdown = (\<lambda>r w. (None, w)), io_mkdir = (\<lambda>p w. (None, w)),
     io_opts = \<lparr> ro_ctxErr = (\<lambda>w. None), ro_deadline = (\<lambda>a b. None), ro_since = (\<lambda>a b. f64_of_int 1), ro_now = (\<lambda>w. ''now''),
       ro_mkdir = (\<lambda>p w. (None, w)), ro_cwd = None, ro_Checkpoint = None, ro_RecordIncident = None, ro_RecordStorageSelection = None,
       ro_SetStage = None, ro_RecordArtifacts = None, ro_mapOrder = (\<lambda>m. m), ro_schedule = (\<lambda>js. js) \<rparr>,
     io_mapOrder = (\<lambda>m. m) \<rparr>"

text \<open>A plan with a variant of an unselected requirement: the run is refused, the report is partial.\<close>

theorem run_leaves_no_running_report_witness:
  "\<exists>err w'. start_run empty_registry disk_io (sample_flags\<lparr>rf_output := ''/out''\<rparr>) (zero_config\<lparr>cf_Variants := [(''gone'', [])]\<rparr>) None
     manual_cat [] None [] [] = (err, w') \<and> ended (last_json w')"
proof -
  let ?rf = "sample_flags\<lparr>rf_output := ''/out''\<rparr>" and ?cfg = "zero_config\<lparr>cf_Variants := [(''gone'', [])]\<rparr>"
  obtain err w' where r: "start_run empty_registry disk_io ?rf ?cfg None manual_cat [] None [] [] = (err, w')" by (metis prod.collapse)
  obtain init where i: "initial_report disk_io manual_cat ?cfg [] None [] [] = Inr init" by (simp add: initial_report_def Let_def)
  have "tools_respect same_dir (empty_registry :: (report_checkpoint \<times> disk) orch registry)"
    by (simp add: tools_respect_def sample_no_tool activeSetups_empty)
  from run_leaves_no_running_report[OF r i _ _ _ this] r show ?thesis by (auto simp: disk_io_def)
qed

end
