(* ===== verification/Manifests.thy ===== *)
theory Manifests
  imports Core_Types
begin

text \<open>
  \<open>internal/manifest\<close>: the YAML documents of a manifest (adapter.go) and its two renderers
  (render.go). The decoder of YAML and the template engine with the Sprig functions are arguments:
  the decoder gives what each call of \<open>Decode\<close> returns until the end of the data.
\<close>

type_synonym object = "(string \<times> any) list"
type_synonym yaml_decoder = "string \<Rightarrow> (string + object) list"

text \<open>The loop over the documents; an empty one is skipped and does not count in the error message.\<close>

fun read_documents :: "(string + object) list \<Rightarrow> object list \<Rightarrow> string + object list" where
  "read_documents [] docs = (if docs = [] then Inl ''manifest contains no documents'' else Inr docs)"
| "read_documents (Inl err # ds) docs = Inl (''invalid YAML document '' @ show_nat (length docs + 1) @ '': '' @ err)"
| "read_documents (Inr obj # ds) docs = read_documents ds (if obj \<noteq> [] then docs @ [obj] else docs)"

definition Documents :: "yaml_decoder \<Rightarrow> string \<Rightarrow> string + object list" where
  "Documents yaml data = read_documents (yaml data) []"

text \<open>
  The template engine: the names of the Sprig functions, and parsing with the names of the aliases,
  which gives a template to execute with the aliases' functions and the values.
\<close>

type_synonym template = "(string \<Rightarrow> string + any) \<Rightarrow> (string, any) gomap \<Rightarrow> string + string"

record engine =
  te_Funcs :: "string \<Rightarrow> bool"
  te_Parse :: "string list \<Rightarrow> string \<Rightarrow> string + template"

definition alias_value :: "(string, string) gomap \<Rightarrow> (string, any) gomap \<Rightarrow> string \<Rightarrow> string + any" where
  "alias_value aliases values al =
     (case gm_get aliases al of
        None \<Rightarrow> Inl (''missing value '' @ al)
      | Some k \<Rightarrow> (case gm_get values k of None \<Rightarrow> Inl (''missing value '' @ k) | Some v \<Rightarrow> Inr v))"

text \<open>\<open>toYaml\<close> is a helper too, added before the aliases.\<close>

definition alias_conflict :: "engine \<Rightarrow> (string, string) gomap \<Rightarrow> string option" where
  "alias_conflict te aliases = find (\<lambda>al. te_Funcs te al \<or> al = ''toYaml'') (map fst aliases)"

definition GoTemplate_Render ::
  "yaml_decoder \<Rightarrow> engine \<Rightarrow> (string, string) gomap \<Rightarrow> string \<Rightarrow> (string, any) gomap \<Rightarrow> string + string" where
  "GoTemplate_Render yaml te aliases source values =
     (case alias_conflict te aliases of
        Some al \<Rightarrow> Inl (''manifest manifest: alias conflicts with helper '' @ al)
      | None \<Rightarrow>
          (case te_Parse te (map fst aliases) source of
             Inl err \<Rightarrow> Inl (''parse manifest template manifest: '' @ err)
           | Inr t \<Rightarrow>
               (case t (alias_value aliases values) values of
                  Inl err \<Rightarrow> Inl (''render manifest template manifest: '' @ err)
                | Inr output \<Rightarrow>
                    if contains output ''{{'' then Inl ''manifest manifest: unresolved template delimiters''
                    else (case Documents yaml output of
                            Inl err \<Rightarrow> Inl (''manifest manifest: '' @ err)
                          | Inr docs \<Rightarrow> Inr output))))"

definition Native_Render :: "string \<Rightarrow> (string, any) gomap \<Rightarrow> string + string" where
  "Native_Render source values = Inr source"

text \<open>\<open>Render\<close>: the context of the source before the error of a renderer.\<close>

definition manifest_Render ::
  "(string \<Rightarrow> (string, any) gomap \<Rightarrow> string + string) \<Rightarrow> string \<Rightarrow> string \<Rightarrow> (string, any) gomap \<Rightarrow> string + string" where
  "manifest_Render renderer name source values =
     (case renderer source values of Inl err \<Rightarrow> Inl (name @ '': '' @ err) | Inr data \<Rightarrow> Inr data)"

section \<open>What a rendered manifest guarantees\<close>

lemma read_documents_ok:
  "read_documents rs docs = Inr out \<longleftrightarrow>
     (\<exists>objs. rs = map Inr objs \<and> out = docs @ filter (\<lambda>d. d \<noteq> []) objs \<and> out \<noteq> [])"
proof (induction rs docs rule: read_documents.induct)
  case (2 err ds docs)
  then show ?case by (auto simp: Cons_eq_map_conv)
next
  case (3 obj ds docs)
  then show ?case by (fastforce simp: Cons_eq_map_conv map_eq_Cons_conv)
qed auto

text \<open>Documents are returned exactly when every one decodes and one is not empty; those are the result.\<close>

lemma Documents_ok:
  "Documents yaml data = Inr docs \<longleftrightarrow> (\<exists>objs. yaml data = map Inr objs \<and> docs = filter (\<lambda>d. d \<noteq> []) objs \<and> docs \<noteq> [])"
  by (simp add: Documents_def read_documents_ok)

lemma GoTemplate_Render_ok:
  assumes "GoTemplate_Render yaml te aliases source values = Inr out"
  shows "\<not> contains out ''{{'' \<and> (\<exists>docs. Documents yaml out = Inr docs \<and> docs \<noteq> [] \<and> [] \<notin> set docs)"
  using assms by (auto simp: GoTemplate_Render_def Documents_ok split: option.splits sum.splits if_splits)

end
