(* ===== verification/Virtbench_Args.thy ===== *)
theory Virtbench_Args
  imports Storage_Check Virtbench_Parse Manifests Registry "HOL-Library.Signed_Division"
begin

text \<open>
  What the virtbench adapter computes from the parameters of a requirement: the typed reads of
  engine.go, the ranges of VM numbers of scenario.go, the arguments of the command line as
  manifest.go reads and edits them, the template inputs, and the argument builders of the scenarios
  (engine.go, clone_at_scale.go, singlenode.go, drain.go). A file that a builder inspects is an
  argument.
\<close>

section \<open>Parameters\<close>

definition strParamOr :: "test_requirement \<Rightarrow> string \<Rightarrow> string \<Rightarrow> string" where
  "strParamOr tr k dflt = (case gm_get (tr_Params tr) k of Some (AStr s) \<Rightarrow> if s \<noteq> [] then s else dflt | _ \<Rightarrow> dflt)"

definition intParam :: "test_requirement \<Rightarrow> string \<Rightarrow> int \<Rightarrow> int" where
  "intParam tr k fallback =
     (case gm_get (tr_Params tr) k of
        None \<Rightarrow> fallback
      | Some v \<Rightarrow>
          (case v of
             AInt n \<Rightarrow> n
           | AInt64 n \<Rightarrow> n
           | AFloat x \<Rightarrow> f64_to_int x
           | AStr s \<Rightarrow> (case atoi s of Some i \<Rightarrow> i | None \<Rightarrow> fallback)
           | _ \<Rightarrow> fallback))"

definition boolParam :: "test_requirement \<Rightarrow> string \<Rightarrow> bool" where
  "boolParam tr k = (case gm_get (tr_Params tr) k of None \<Rightarrow> False | Some v \<Rightarrow> AsBool v = Some True)"

definition usesSnapshot :: "test_requirement \<Rightarrow> bool" where
  "usesSnapshot tr = (case gm_get (tr_Params tr) ''use_snapshot'' of None \<Rightarrow> False | Some v \<Rightarrow> AsBool v = Some True)"

fun replayDir :: "test_requirement list \<Rightarrow> string" where
  "replayDir [] = []"
| "replayDir (tr # trs) = (let d = strParamOr tr ''results_dir'' [] in if d \<noteq> [] then d else replayDir trs)"

definition allReplayTRs :: "test_requirement list \<Rightarrow> bool" where
  "allReplayTRs trs = (trs \<noteq> [] \<and> list_all (\<lambda>tr. strParamOr tr ''results_dir'' [] \<noteq> []) trs)"

fun kubeconfigOf :: "test_requirement list \<Rightarrow> string" where
  "kubeconfigOf [] = []"
| "kubeconfigOf (tr # trs) = (let kc = strParamOr tr ''kubeconfig'' [] in if kc \<noteq> [] then kc else kubeconfigOf trs)"

text \<open>The class of the backend wins over the parameter; the run context may be nil.\<close>

definition vb_storageClass :: "run_ctx option \<Rightarrow> test_requirement \<Rightarrow> string" where
  "vb_storageClass rc tr =
     (let own = strParamOr tr ''storage_class'' [] in
      case rc of
        None \<Rightarrow> own
      | Some c \<Rightarrow> (case rc_Backend c of None \<Rightarrow> own | Some b \<Rightarrow> if rb_StorageClass b \<noteq> [] then rb_StorageClass b else own))"

section \<open>Ranges of VM numbers\<close>

definition validateVMRange :: "test_requirement \<Rightarrow> int \<Rightarrow> int \<Rightarrow> string + int \<times> int" where
  "validateVMRange tr first final =
     (if first < 1 \<or> final < first then
        Inl (tr_ID tr @ '': invalid VM namespace range '' @ show_int first @ ''..'' @ show_int final)
      else Inr (first, final))"

definition cloneVMRange :: "test_requirement \<Rightarrow> string + int \<times> int" where
  "cloneVMRange tr = validateVMRange tr (intParam tr ''start'' 1) (intParam tr ''num_vms'' (intParam tr ''iteration_clones'' 100))"

definition diskOpsVMRange :: "test_requirement \<Rightarrow> string + int \<times> int" where
  "diskOpsVMRange tr = validateVMRange tr (intParam tr ''start'' 1) (intParam tr ''end'' (intParam tr ''count'' 100))"

definition cloneAtScaleRange :: "test_requirement \<Rightarrow> string + int \<times> int" where
  "cloneAtScaleRange tr = validateVMRange tr (intParam tr ''start'' 1) (intParam tr ''iteration_clones'' 100)"

definition drainDefaultCount :: int where "drainDefaultCount = 10"

definition drainVMRange :: "test_requirement \<Rightarrow> string + int \<times> int" where
  "drainVMRange tr = validateVMRange tr (intParam tr ''start'' 1) (intParam tr ''end'' (intParam tr ''count'' drainDefaultCount))"

definition recoveryVMRange :: "test_requirement \<Rightarrow> string + int \<times> int" where
  "recoveryVMRange tr = validateVMRange tr 1 (intParam tr ''vm_count'' 3)"

definition singleNodeDefaultCount :: int where "singleNodeDefaultCount = 100"

definition singleNodeVMRange :: "test_requirement \<Rightarrow> string + int \<times> int" where
  "singleNodeVMRange tr = validateVMRange tr (intParam tr ''start'' 1) (intParam tr ''attempt_vms'' singleNodeDefaultCount)"

definition fioVMRange :: "test_requirement \<Rightarrow> string + int \<times> int" where
  "fioVMRange tr = (let count = intParam tr ''num_vms'' 0 in if count < 1 then Inl ''num_vms must be >= 1'' else Inr (1, count))"

section \<open>The command line as a list\<close>

fun virtbenchCommand :: "string list \<Rightarrow> string" where
  "virtbenchCommand [] = []"
| "virtbenchCommand [a] = (if has_prefix a ''--'' then [] else a)"
| "virtbenchCommand (a # b # as) =
     (if has_prefix a ''--'' then virtbenchCommand (if contains a ''='' then b # as else as) else a)"

fun argument :: "string list \<Rightarrow> string \<Rightarrow> string option" where
  "argument [] flag = None"
| "argument (a # as) flag =
     (if has_prefix a (flag @ ''='') then Some (drop (length flag + 1) a)
      else if a = flag then (case as of v # _ \<Rightarrow> if \<not> has_prefix v ''--'' then Some v else Some [] | [] \<Rightarrow> Some [])
      else argument as flag)"

fun setArgument :: "string list \<Rightarrow> string \<Rightarrow> string \<Rightarrow> string list" where
  "setArgument [] flag val = [flag, val]"
| "setArgument (a # as) flag val =
     (if has_prefix a (flag @ ''='') then (flag @ ''='' @ val) # as
      else if a = flag \<and> as \<noteq> [] then a # val # tl as
      else a # setArgument as flag val)"

fun removeArgument :: "string list \<Rightarrow> string \<Rightarrow> string list" where
  "removeArgument [] flag = []"
| "removeArgument [a] flag = (if a = flag \<or> has_prefix a (flag @ ''='') then [] else [a])"
| "removeArgument (a # b # as) flag =
     (if a = flag then removeArgument as flag
      else if has_prefix a (flag @ ''='') then removeArgument (b # as) flag
      else a # removeArgument (b # as) flag)"

section \<open>Template inputs\<close>

definition defaultVMName :: string where "defaultVMName = ''rhel-9-vm''"
definition defaultFIOVMName :: string where "defaultFIOVMName = ''fio-vm''"
definition defaultFIORuntime :: int where "defaultFIORuntime = 600"
definition imageNamespace :: string where "imageNamespace = ''openshift-virtualization-os-images''"

record template_input =
  tin_key :: string
  tin_flag :: string
  tin_fallback :: any
  tin_omitDefaultFlag :: bool

definition tin :: "string \<Rightarrow> string \<Rightarrow> any \<Rightarrow> bool \<Rightarrow> template_input" where
  "tin k flag fallback omit = \<lparr> tin_key = k, tin_flag = flag, tin_fallback = fallback, tin_omitDefaultFlag = omit \<rparr>"

definition templateInputs :: "string \<Rightarrow> template_input list" where
  "templateInputs command =
     (let name = (if command = ''fio'' then defaultFIOVMName else if command = ''disk-ops'' then ''disk-ops-vm'' else defaultVMName)
      in [tin ''VM_NAME'' ''--vm-name'' (AStr name) False,
          tin ''STORAGE_CLASS_NAME'' ''--storage-class'' (AStr []) False,
          tin ''VM_PASSWORD'' ''--vm-password'' (AStr ''changeme'') True,
          tin ''DATASOURCE_NAME'' ''--datasource-name'' (AStr []) True,
          tin ''DATASOURCE_NAMESPACE'' ''--datasource-namespace'' (AStr imageNamespace) True] @
         (if command = ''fio'' then
            [tin ''FIO_RUNTIME'' ''--fio-runtime'' (AInt defaultFIORuntime) False,
             tin ''FIO_BS'' ''--fio-bs'' (AStr ''4k'') False,
             tin ''FIO_RW'' ''--fio-rw'' (AStr ''randrw'') False,
             tin ''FIO_IODEPTH'' ''--fio-iodepth'' (AInt 64) False,
             tin ''FIO_NUMJOBS'' ''--fio-numjobs'' (AInt 4) False,
             tin ''FIO_SIZE'' ''--fio-size'' (AStr ''10G'') False]
          else []))"

text \<open>One input: its default unless its flag is given; the type of the default is that of the input.\<close>

definition input_value :: "template_input \<Rightarrow> string list \<Rightarrow> string + any" where
  "input_value i args =
     (case argument args (tin_flag i) of
        None \<Rightarrow> Inr (tin_fallback i)
      | Some raw \<Rightarrow>
          (case tin_fallback i of
             AInt _ \<Rightarrow>
               (case atoi raw of
                  Some n \<Rightarrow> if n < 1 then Inl (''virtbench: '' @ tin_flag i @ '' must be a positive integer'') else Inr (AInt n)
                | None \<Rightarrow> Inl (''virtbench: '' @ tin_flag i @ '' must be a positive integer''))
           | _ \<Rightarrow>
               if raw = [] \<or> CHR 0x0D \<in> set raw \<or> CHR 0x0A \<in> set raw then
                 Inl (''virtbench: '' @ tin_flag i @ '' must be a nonempty single-line value'')
               else Inr (AStr raw)))"

fun resolve_inputs :: "template_input list \<Rightarrow> string list \<Rightarrow> (string, any) gomap \<Rightarrow> string + (string, any) gomap" where
  "resolve_inputs [] args values = Inr values"
| "resolve_inputs (i # is) args values =
     (case input_value i args of
        Inl err \<Rightarrow> Inl err
      | Inr v \<Rightarrow> resolve_inputs is args (gm_set (tin_key i) v values))"

definition resolveTemplateValues :: "string \<Rightarrow> string list \<Rightarrow> string + (string, any) gomap" where
  "resolveTemplateValues command args = resolve_inputs (templateInputs command) args []"

text \<open>The parameters of the plan as arguments: \<open>--vm-name\<close> is \<open>vm_name\<close>, and so on.\<close>

definition param_of_flag :: "string \<Rightarrow> string" where
  "param_of_flag flag = map (\<lambda>c. if c = CHR ''-'' then CHR ''_'' else c) (trim_prefix flag ''--'')"

definition planTemplateArgs :: "string \<Rightarrow> test_requirement \<Rightarrow> string list" where
  "planTemplateArgs command tr =
     concat (map (\<lambda>i. case gm_get (tr_Params tr) (param_of_flag (tin_flag i)) of
                        Some v \<Rightarrow> [tin_flag i, go_sprint v] | None \<Rightarrow> []) (templateInputs command))"

definition resolvePlanTemplateValues :: "string \<Rightarrow> run_ctx option \<Rightarrow> test_requirement \<Rightarrow> string + (string, any) gomap" where
  "resolvePlanTemplateValues command rc tr =
     (let args = planTemplateArgs command tr; sc = vb_storageClass rc tr
      in resolveTemplateValues command (if sc \<noteq> [] then setArgument args ''--storage-class'' sc else args))"


section \<open>Argument builders\<close>

definition clusterArgs :: "test_requirement \<Rightarrow> string list" where
  "clusterArgs tr =
     (let kc = strParamOr tr ''kubeconfig'' []; uuid = strParamOr tr ''uuid'' []
      in (if kc \<noteq> [] then [''--kubeconfig'', kc] else []) @ (if uuid \<noteq> [] then [''--uuid'', uuid] else []))"

definition flag_if :: "string \<Rightarrow> string \<Rightarrow> string list" where
  "flag_if flag val = (if val \<noteq> [] then [flag, val] else [])"

definition flag_pos :: "string \<Rightarrow> int \<Rightarrow> string list" where
  "flag_pos flag n = (if n > 0 then [flag, show_int n] else [])"

definition class_required :: "test_requirement \<Rightarrow> string" where
  "class_required tr = ''virtbench: '' @ tr_ID tr @ '': storage_class required (backend or '' @ [CHR 0x27] @ ''storage_class'' @ [CHR 0x27] @ '' param)''"

definition datasourceCloneArgs :: "bool \<Rightarrow> string \<Rightarrow> run_ctx option \<Rightarrow> test_requirement \<Rightarrow> string \<Rightarrow> string + string list" where
  "datasourceCloneArgs bootStorm nsPrefix rc tr resultsRoot =
     (let sc = vb_storageClass rc tr in
      if sc = [] then Inl (class_required tr)
      else case cloneVMRange tr of
        Inl err \<Rightarrow> Inl err
      | Inr (first, final) \<Rightarrow> Inr
          (clusterArgs tr @
           [''datasource-clone'', ''--start'', show_int first, ''--end'', show_int final,
            ''--vm-name'', strParamOr tr ''vm_name'' defaultVMName,
            ''--namespace-prefix'', strParamOr tr ''namespace_prefix'' nsPrefix,
            ''--storage-class'', sc, ''--save-results'', ''--results-folder'', resultsRoot] @
           flag_if ''--vm-template'' (strParamOr tr ''vm_template'' []) @
           flag_if ''--storage-driver'' (strParamOr tr ''storage_driver'' []) @
           flag_pos ''--namespace-batch-size'' (intParam tr ''namespace_batch_size'' 0) @
           flag_pos ''--num-disks'' (intParam tr ''num_disks'' 0) @
           (if bootStorm then [''--boot-storm''] else []) @
           [''--cleanup'', ''--cleanup-on-failure'', ''--yes'']))"

definition diskOpsArgs :: "string \<Rightarrow> run_ctx option \<Rightarrow> test_requirement \<Rightarrow> string \<Rightarrow> string + string list" where
  "diskOpsArgs nsPrefix rc tr resultsRoot =
     (let sc = vb_storageClass rc tr in
      if sc = [] then Inl (class_required tr)
      else case diskOpsVMRange tr of
        Inl err \<Rightarrow> Inl err
      | Inr (first, final) \<Rightarrow> Inr
          (clusterArgs tr @
           [''disk-ops'', ''--vm-name'', strParamOr tr ''vm_name'' ''disk-ops-vm'',
            ''--start'', show_int first, ''--end'', show_int final,
            ''--namespace-prefix'', strParamOr tr ''namespace_prefix'' nsPrefix,
            ''--storage-class'', sc, ''--operation'', strParamOr tr ''operation'' ''hotplug'',
            ''--save-results'', ''--results-dir'', resultsRoot] @
           flag_if ''--vm-template'' (strParamOr tr ''vm_template'' []) @
           flag_pos ''--disks'' (intParam tr ''disks'' 0) @
           [''--create-vms'', ''--cleanup'']))"

definition cloneAtScaleDefaultDisks :: int where "cloneAtScaleDefaultDisks = 2"

definition cloneAtScaleArgs :: "string \<Rightarrow> run_ctx option \<Rightarrow> test_requirement \<Rightarrow> string \<Rightarrow> string + string list" where
  "cloneAtScaleArgs nsPrefix rc tr resultsRoot =
     (let sc = vb_storageClass rc tr in
      if sc = [] then Inl (class_required tr)
      else case cloneAtScaleRange tr of
        Inl err \<Rightarrow> Inl err
      | Inr (first, final) \<Rightarrow> Inr
          (clusterArgs tr @
           [''datasource-clone'', ''--start'', show_int first, ''--end'', show_int final,
            ''--vm-name'', strParamOr tr ''vm_name'' defaultVMName,
            ''--namespace-prefix'', strParamOr tr ''namespace_prefix'' nsPrefix,
            ''--storage-class'', sc, ''--num-disks'', show_int (intParam tr ''num_disks'' cloneAtScaleDefaultDisks),
            ''--save-results'', ''--results-folder'', resultsRoot, ''--cleanup'', ''--cleanup-on-failure'', ''--yes''] @
           flag_if ''--vm-template'' (strParamOr tr ''vm_template'' [])))"

definition singleNodeCeilingArgs :: "string \<Rightarrow> run_ctx option \<Rightarrow> test_requirement \<Rightarrow> string \<Rightarrow> string + string list" where
  "singleNodeCeilingArgs nsPrefix rc tr resultsRoot =
     (let sc = vb_storageClass rc tr in
      if sc = [] then Inl (class_required tr)
      else case singleNodeVMRange tr of
        Inl err \<Rightarrow> Inl err
      | Inr (first, final) \<Rightarrow> Inr
          (clusterArgs tr @
           [''datasource-clone'', ''--start'', show_int first, ''--end'', show_int final,
            ''--vm-name'', strParamOr tr ''vm_name'' defaultVMName,
            ''--namespace-prefix'', strParamOr tr ''namespace_prefix'' nsPrefix,
            ''--storage-class'', sc, ''--single-node'', ''--save-results'', ''--results-folder'', resultsRoot] @
           flag_if ''--node-name'' (strParamOr tr ''node_name'' []) @
           flag_if ''--vm-template'' (strParamOr tr ''vm_template'' []) @
           flag_if ''--storage-driver'' (strParamOr tr ''storage_driver'' []) @
           flag_pos ''--namespace-batch-size'' (intParam tr ''namespace_batch_size'' 0) @
           flag_pos ''--num-disks'' (intParam tr ''num_disks'' 0) @
           [''--cleanup'', ''--cleanup-on-failure'', ''--yes'']))"

definition DrainFileName :: string where "DrainFileName = ''drain.log''"
definition drainDefaultTimeout :: int where "drainDefaultTimeout = 600"

definition drainArgs :: "test_requirement \<Rightarrow> string \<Rightarrow> string + string list" where
  "drainArgs tr resultsRoot =
     (let target = strParamOr tr ''target_node'' [] in
      if target = [] then Inl (''virtbench: '' @ tr_ID tr @ '': target_node param is required (the worker to drain)'')
      else Inr
        (clusterArgs tr @
         [''vm-ops'', ''drain-nodes'', ''--nodes'', target, ''--timeout'', show_int (intParam tr ''timeout'' drainDefaultTimeout),
          ''--ignore-daemonsets'', ''--force'', ''--log-file'', path_join [resultsRoot, DrainFileName]]))"

definition drainCloneArgs :: "run_ctx option \<Rightarrow> test_requirement \<Rightarrow> string \<Rightarrow> string \<Rightarrow> string \<Rightarrow> string + string list" where
  "drainCloneArgs rc tr resultsRoot template nsPrefix =
     (let sc = vb_storageClass rc tr in
      if sc = [] then Inl (class_required tr)
      else case drainVMRange tr of
        Inl err \<Rightarrow> Inl err
      | Inr (first, final) \<Rightarrow> Inr
          (clusterArgs tr @
           [''datasource-clone'', ''--start'', show_int first, ''--end'', show_int final,
            ''--vm-name'', strParamOr tr ''vm_name'' defaultVMName,
            ''--namespace-prefix'', nsPrefix, ''--storage-class'', sc, ''--save-results'', ''--results-folder'', resultsRoot] @
           flag_if ''--storage-driver'' (strParamOr tr ''storage_driver'' []) @
           flag_if ''--vm-template'' template))"

definition failureRecoveryArgs :: "string \<Rightarrow> string \<Rightarrow> test_requirement \<Rightarrow> string \<Rightarrow> string + string list" where
  "failureRecoveryArgs nsPrefix picked tr resultsRoot =
     (let node = (if picked = [] then strParamOr tr ''node'' [] else picked);
          mode = strParamOr tr ''mode'' ''far-operator'';
          farConfig = strParamOr tr ''far_config'' [];
          base = clusterArgs tr @
            [''failure-recovery'', ''--mode'', mode, ''--node'', node,
             ''--vm-name'', strParamOr tr ''vm_name'' defaultVMName,
             ''--namespace-prefix'', strParamOr tr ''namespace_prefix'' nsPrefix,
             ''--yes'', ''--save-results'', ''--results-folder'', resultsRoot] @
            flag_pos ''--recovery-timeout'' (intParam tr ''vm_recovery_timeout'' 0)
      in if node = [] then Inl (''virtbench: '' @ tr_ID tr @ '': worker node unknown (provisioning may have failed)'')
         else if mode = ''far-operator'' \<and> farConfig = [] then
           Inl (''virtbench: '' @ tr_ID tr @ '': far_config is required for far-operator mode'')
         else Inr (base @
           (if mode = ''far-operator'' then
              [''--far-config'', farConfig, ''--far-name'', node, ''--remove-node-selector'', ''--cleanup'', ''--cleanup-vms'']
            else []) @
           flag_if ''--storage-class'' (vb_storageClass None tr)))"

section \<open>FIO\<close>

definition fioProfile :: "test_requirement \<Rightarrow> string + string" where
  "fioProfile tr =
     (let p = strParamOr tr ''profile'' [] in
      if p = [] \<or> p = ''load-80'' then Inr p else Inl ''profile must be load-80 when set'')"

text \<open>The duration in nanoseconds wraps around like Go's 64-bit \<open>Duration\<close>.\<close>

definition fioVMReadyTimeout :: "test_requirement \<Rightarrow> string + int" where
  "fioVMReadyTimeout tr =
     (let seconds = intParam tr ''vm_ready_timeout'' 600 in
      if seconds < 1 then Inl ''vm_ready_timeout must be >= 1'' else Inr (wrap64 (seconds * 10 ^ 9)))"

definition fioCollectionSettings :: "test_requirement \<Rightarrow> string + int \<times> int" where
  "fioCollectionSettings tr =
     (let delay = intParam tr ''fio_collect_retry_delay'' 20;
          runtime = intParam tr ''fio_runtime'' defaultFIORuntime;
          given = intParam tr ''fio_collect_retries'' 0;
          computed = wrap64 (wrap64 (wrap64 (runtime + delay) - 1) sdiv delay + 2);
          retries = (if given = 0 then (if computed < 8 then 8 else computed) else given)
      in if delay < 1 then Inl ''fio_collect_retry_delay must be >= 1''
         else if retries < 1 then Inl ''fio_collect_retries must be >= 1''
         else Inr (retries, delay))"

text \<open>\<open>template\<close> is the result of \<open>fioTemplate\<close>, which looks at the file system.\<close>

definition fioArgs :: "string \<Rightarrow> string + string \<Rightarrow> run_ctx option \<Rightarrow> test_requirement \<Rightarrow> string \<Rightarrow> string + string list" where
  "fioArgs nsPrefix template rc tr resultsRoot =
     (let sc = vb_storageClass rc tr;
          ctx = (\<lambda>err. Inl (''virtbench: '' @ tr_ID tr @ '': '' @ err));
          bs = strParamOr tr ''fio_bs'' [];
          runtime = intParam tr ''fio_runtime'' defaultFIORuntime
      in if sc = [] then Inl (class_required tr)
         else case fioVMRange tr of Inl err \<Rightarrow> ctx err | Inr (first, final) \<Rightarrow>
           (case fioVMReadyTimeout tr of Inl err \<Rightarrow> ctx err | Inr _ \<Rightarrow>
           (case fioCollectionSettings tr of Inl err \<Rightarrow> ctx err | Inr (retries, delay) \<Rightarrow>
           (case fioProfile tr of Inl err \<Rightarrow> ctx err | Inr _ \<Rightarrow>
             if strParamOr tr ''fio_rw'' ''randrw'' \<noteq> ''randrw'' then ctx ''fio_rw must be randrw for read/write latency''
             else if bs \<noteq> ''4k'' then ctx ''fio_bs must be 4k for read/write latency''
             else case template of Inl err \<Rightarrow> Inl err | Inr path \<Rightarrow>
               if runtime < 1 then ctx ''fio_runtime must be >= 1''
               else
                 (let args = clusterArgs tr @
                    [''fio'', ''--action'', ''run-all'', ''--vm-name'', strParamOr tr ''vm_name'' defaultFIOVMName,
                     ''--start'', show_int first, ''--end'', show_int final,
                     ''--namespace-prefix'', strParamOr tr ''namespace_prefix'' nsPrefix,
                     ''--storage-class'', sc, ''--fio-rw'', ''randrw'', ''--fio-bs'', bs,
                     ''--save-results'', ''--results-dir'', resultsRoot,
                     ''--collect-retries'', show_int retries, ''--collect-retry-delay'', show_int delay] @
                    flag_if ''--vm-template'' path @ [''--fio-runtime'', show_int runtime] @
                    concat (map (\<lambda>k. case gm_get (tr_Params tr) k of
                        Some v \<Rightarrow> [''--'' @ map (\<lambda>c. if c = CHR ''_'' then CHR ''-'' else c) k, go_sprint v] | None \<Rightarrow> [])
                      [''fio_iodepth'', ''fio_numjobs'']) @
                    flag_if ''--fio-size'' (strParamOr tr ''fio_size'' []) @
                    flag_pos ''--concurrency'' (intParam tr ''concurrency'' 0) @
                    flag_if ''--storage-driver'' (strParamOr tr ''storage_driver'' [])
                  in case resolveTemplateValues ''fio'' args of Inl err \<Rightarrow> Inl err | Inr _ \<Rightarrow> Inr args)))))"

text \<open>The arguments of another FIO action: a clean-up flag is dropped and the action replaced.\<close>

fun fio_actions :: "string list \<Rightarrow> string \<Rightarrow> string list" where
  "fio_actions [] action = []"
| "fio_actions [a] action = (if a = ''--cleanup'' then [] else [a])"
| "fio_actions (a # b # as) action =
     (if a = ''--cleanup'' then fio_actions (b # as) action
      else if a = ''--action'' then ''--action'' # action # fio_actions as action
      else a # fio_actions (b # as) action)"

definition fioActionArgs :: "string list \<Rightarrow> string \<Rightarrow> string + string list" where
  "fioActionArgs base action =
     (if action \<in> set [''deploy'', ''status'', ''gather-results'', ''cleanup'', ''run-all''] then Inr (fio_actions base action)
      else Inl (''unsupported FIO action '' @ go_quote action))"

definition failureRecoveryValidate :: "test_requirement \<Rightarrow> string option" where
  "failureRecoveryValidate tr =
     (let mode = strParamOr tr ''mode'' ''far-operator''; ctx = (\<lambda>err. Some (''virtbench: '' @ tr_ID tr @ '': '' @ err)) in
      if intParam tr ''vm_count'' 3 \<le> 0 then ctx ''vm_count must be greater than zero''
      else if mode \<noteq> ''monitor'' \<and> mode \<noteq> ''far-operator'' then ctx (''unsupported failure-recovery mode '' @ go_quote mode)
      else if mode = ''monitor'' \<and> \<not> boolParam tr ''allow_monitor_mode'' then
        ctx ''monitor mode requires allow_monitor_mode=true and an externally triggered node failure''
      else if mode = ''far-operator'' \<and> strParamOr tr ''far_config'' [] = [] then ctx ''far_config is required for far-operator mode''
      else None)"


section \<open>Reading and editing the command line\<close>

lemma has_prefix_append [simp]: "has_prefix (p @ s) p"
  by (simp add: has_prefix_def)

lemma has_prefix_sep: "\<not> has_prefix f (f @ [c])"
  by (simp add: has_prefix_def)

lemma removeArgument_argument: "argument (removeArgument args flag) flag = None"
  by (induction args flag rule: removeArgument.induct) auto

text \<open>Setting a flag of the form \<open>--flag\<close> makes its value the one that is read, unless the value itself
  looks like a flag or the flag stands alone at the end.\<close>

lemma setArgument_argument:
  assumes "\<not> has_prefix val ''--''" and "args \<noteq> [] \<longrightarrow> last args \<noteq> flag"
  shows "argument (setArgument args flag val) flag = Some val"
  using assms(2)
proof (induction args)
  case Nil
  then show ?case using assms(1) has_prefix_sep[of flag] by simp
next
  case (Cons a as)
  consider "has_prefix a (flag @ ''='')" | "\<not> has_prefix a (flag @ ''='')" "a = flag" "as \<noteq> []"
    | "\<not> has_prefix a (flag @ ''='')" "a \<noteq> flag"
    using Cons.prems by (cases "as = []") auto
  then show ?case
  proof cases
    case 1
    have "has_prefix ((flag @ ''='') @ val) (flag @ ''='')" by (rule has_prefix_append)
    with 1 show ?thesis by (simp del: append_assoc has_prefix_append) (simp add: has_prefix_def)
  next
    case 2
    then show ?thesis using assms(1) by simp
  next
    case 3
    then have "as \<noteq> [] \<longrightarrow> last as \<noteq> flag" using Cons.prems by auto
    then show ?thesis using Cons.IH 3 by simp
  qed
qed

lemma argument_append:
  assumes "\<forall>a \<in> set xs. a \<noteq> flag \<and> \<not> has_prefix a (flag @ ''='')"
  shows "argument (xs @ ys) flag = argument ys flag"
  using assms by (induction xs) auto

lemma virtbenchCommand_cluster:
  assumes "\<not> has_prefix c ''--''"
  shows "virtbenchCommand (clusterArgs tr @ c # rest) = c"
  using assms by (cases rest) (auto simp: clusterArgs_def Let_def has_prefix_def)

text \<open>Every builder puts its own subcommand where the command line parser finds it.\<close>

lemma builder_commands:
  "datasourceCloneArgs b p rc tr dir = Inr args \<Longrightarrow> virtbenchCommand args = ''datasource-clone''"
  "diskOpsArgs p rc tr dir = Inr args \<Longrightarrow> virtbenchCommand args = ''disk-ops''"
  "cloneAtScaleArgs p rc tr dir = Inr args \<Longrightarrow> virtbenchCommand args = ''datasource-clone''"
  "singleNodeCeilingArgs p rc tr dir = Inr args \<Longrightarrow> virtbenchCommand args = ''datasource-clone''"
  "drainArgs tr dir = Inr args \<Longrightarrow> virtbenchCommand args = ''vm-ops''"
  "drainCloneArgs rc tr dir tmpl p = Inr args \<Longrightarrow> virtbenchCommand args = ''datasource-clone''"
  "failureRecoveryArgs p node tr dir = Inr args \<Longrightarrow> virtbenchCommand args = ''failure-recovery''"
  "fioArgs p tmpl0 rc tr dir = Inr args \<Longrightarrow> virtbenchCommand args = ''fio''"
  by (auto simp: datasourceCloneArgs_def diskOpsArgs_def cloneAtScaleArgs_def singleNodeCeilingArgs_def drainArgs_def
      drainCloneArgs_def failureRecoveryArgs_def fioArgs_def Let_def virtbenchCommand_cluster has_prefix_def
      split: sum.splits if_splits)

section \<open>Ranges\<close>

lemmas vm_range_defs = cloneVMRange_def diskOpsVMRange_def cloneAtScaleRange_def drainVMRange_def recoveryVMRange_def singleNodeVMRange_def

lemma validateVMRange_ok: "validateVMRange tr a b = Inr (x, y) \<longleftrightarrow> x = a \<and> y = b \<and> 1 \<le> a \<and> a \<le> b"
  by (auto simp: validateVMRange_def)

text \<open>
  The default number of collection attempts waits at least two delays longer than the FIO run, so
  results that are written at the end of the run are still collected; every accepted setting makes
  at least one attempt with a positive delay.
\<close>

theorem fio_collection_covers_run:
  assumes "fioCollectionSettings tr = Inr (retries, delay)"
    and "intParam tr ''fio_collect_retries'' 0 = 0"
    and "0 \<le> intParam tr ''fio_runtime'' defaultFIORuntime" and "intParam tr ''fio_runtime'' defaultFIORuntime + delay < 2 ^ 62"
  shows "intParam tr ''fio_runtime'' defaultFIORuntime + 2 * delay \<le> retries * delay \<and> 1 \<le> delay \<and> 8 \<le> retries"
proof -
  define r where "r = intParam tr ''fio_runtime'' defaultFIORuntime"
  define d where "d = intParam tr ''fio_collect_retry_delay'' 20"
  define c where "c = wrap64 (wrap64 (wrap64 (r + d) - 1) sdiv d + 2)"
  from assms(1) have d: "delay = d" "1 \<le> d" and ret: "c \<le> retries" "8 \<le> retries"
    using assms(2) by (auto simp: fioCollectionSettings_def Let_def c_def r_def d_def split: if_splits)
  have r: "0 \<le> r" "r + d < 2 ^ 62" using assms d by (simp_all add: r_def)
  define q where "q = (r + d - 1) div d"
  have q: "0 \<le> q" "q \<le> r + d - 1" "r \<le> q * d"
  proof -
    show "0 \<le> q" using r d by (simp add: q_def pos_imp_zdiv_nonneg_iff)
    show "q \<le> r + d - 1" using zdiv_mono2[of "r + d - 1" 1 d] r d by (simp add: q_def)
    have "r + d - 1 = q * d + (r + d - 1) mod d" by (simp add: q_def)
    moreover have "(r + d - 1) mod d < d" using d by simp
    ultimately show "r \<le> q * d" by linarith
  qed
  have "(r + d - 1) sdiv d = q" using r d by (simp add: signed_divide_int_def q_def sgn_if)
  then have "c = q + 2" using r d q by (simp add: c_def wrap64_id)
  then have "(q + 2) * d \<le> retries * d" using ret d by (simp add: mult_right_mono)
  then have "r + 2 * d \<le> retries * d" using q(3) by (simp add: distrib_right)
  then show ?thesis using d ret by (simp add: r_def)
qed

theorem fio_collection_covers_run_witness:
  "fioCollectionSettings zero_test_requirement = Inr (32, 20) \<and> 600 + 2 * 20 \<le> 32 * (20 :: int)"
proof -
  have p: "intParam zero_test_requirement k n = n" for k n by (simp add: intParam_def zero_test_requirement_def)
  have s: "fioCollectionSettings zero_test_requirement = Inr (32, 20)"
    by (simp add: fioCollectionSettings_def p defaultFIORuntime_def wrap64_id signed_divide_int_def)
  then show ?thesis using fio_collection_covers_run[OF s] by (simp add: p defaultFIORuntime_def)
qed

text \<open>
  Editing the command line: removing a flag leaves no occurrence of it, and a flag that is set reads
  back, unless its value looks like a flag itself or the flag stood alone at the end.
\<close>

theorem argument_roundtrip:
  assumes "\<not> has_prefix val ''--''" and "args \<noteq> [] \<longrightarrow> last args \<noteq> flag"
  shows "argument (setArgument args flag val) flag = Some val \<and> argument (removeArgument args flag) flag = None"
  using setArgument_argument[OF assms] removeArgument_argument by simp

theorem argument_roundtrip_witness:
  "argument (setArgument [''fio'', ''--vm-template=a.yaml''] ''--vm-template'' ''b.yaml'') ''--vm-template'' = Some ''b.yaml''"
  using argument_roundtrip[of "''b.yaml''" "[''fio'', ''--vm-template=a.yaml'']" "''--vm-template''"] by (simp add: has_prefix_def)

end
