(* ===== verification/Virtbench_Host.thy ===== *)
theory Virtbench_Host
  imports Virtbench_Args
begin

text \<open>
  The host of the virtbench adapter. Everything that changes the world, a process or a file, is one
  operation of the type \<open>vb_op\<close> performed by \<open>vh_Do\<close>; what is only read (files, the clock, the
  random source, contexts) is a function of the world. \<open>reaches\<close> is reachability by operations of a
  given kind, and \<open>does\<close> are the rules to show which operations a program performs.
\<close>

section \<open>Operations\<close>

text \<open>
  The contexts of the code: that of the run, the one of the set-up with its time limit, and the
  detached ones of the clean-ups.
\<close>

datatype vb_ctx = Run_ctx | Setup_ctx | Cleanup_ctx

datatype vb_op =
    Run_tool vb_ctx string "string list" "string option" string
  | Make_dir string
  | Write_file string string
  | Write_temp string
  | Remove_file string
  | Pause vb_ctx int
  | Record_selection storage_selection

datatype run_end = Ended | Exit_error string | Start_error string

record reply =
  rp_Stdout :: string
  rp_Stderr :: string
  rp_Combined :: string
  rp_End :: run_end

record ssh_pod =
  pod_UID :: string
  pod_DeletionTimestamp :: string
  pod_Labels :: "(string, string) gomap"
  pod_Annotations :: "(string, string) gomap"
  pod_Phase :: string
  pod_IP :: string
  pod_NodeName :: string

record node_item =
  ni_Name :: string
  ni_Labels :: "(string, string) gomap"
  ni_Unschedulable :: bool

record clone_source =
  cs_Name :: string
  cs_Namespace :: string

record data_source =
  ds_Source :: "(string, clone_source) gomap option"
  ds_Conditions :: "(string \<times> string) list"

text \<open>The decoders of the JSON the tools print.\<close>

record vb_codec =
  vx_pod :: "string \<Rightarrow> string + ssh_pod"
  vx_nodes :: "string \<Rightarrow> string + node_item list"
  vx_dataSource :: "string \<Rightarrow> string + data_source"
  vx_phase :: "string \<Rightarrow> string + string"
  vx_ready :: "string \<Rightarrow> string + bool"
  vx_storageClassName :: "string \<Rightarrow> string + string"
  vx_snapshotClassName :: "string \<Rightarrow> string + string"
  vx_metadata :: "string \<Rightarrow> string + clone_source"
  vx_sources :: "any \<Rightarrow> string + (string, clone_source) gomap"
  vx_deleteOptions :: "string \<Rightarrow> string"
  vx_fio :: "string \<Rightarrow> string list \<Rightarrow> string + string"

record walk_item =
  wi_Path :: string
  wi_Name :: string
  wi_IsDir :: bool
  wi_Err :: "string option"

record 'w vb_host =
  vh_Do :: "vb_op \<Rightarrow> ('w, reply) state"
  vh_LookPath :: "string \<Rightarrow> string + string"
  vh_ReadFile :: "string \<Rightarrow> 'w \<Rightarrow> string + string"
  vh_Stat :: "string \<Rightarrow> 'w \<Rightarrow> string + bool"
  vh_Walk :: "string \<Rightarrow> 'w \<Rightarrow> walk_item list"
  vh_Now :: "'w \<Rightarrow> int"
  vh_Draw :: "nat \<Rightarrow> 'w \<Rightarrow> string + nat"
  vh_ctxErr :: "vb_ctx \<Rightarrow> 'w \<Rightarrow> string option"
  vh_Abs :: "string \<Rightarrow> string + string"
  vh_EvalSymlinks :: "string \<Rightarrow> string + string"
  vh_Getenv :: "string \<Rightarrow> string"
  vh_Hostname :: "string + string"
  vh_Timestamp :: "int \<Rightarrow> string"
  vh_Embedded :: "string \<Rightarrow> string + string"
  vh_yaml :: yaml_decoder
  vh_engine :: engine
  vh_codec :: vb_codec
  vh_snapshot :: snapshot_codec
  vh_probe :: probe_codec
  vh_claim :: "any \<Rightarrow> string + storage_claim"
  vh_Records :: bool

definition asks :: "('w \<Rightarrow> 'a) \<Rightarrow> ('w, 'a) state" where
  "asks f = State (\<lambda>w. (f w, w))"

lemma run_asks [simp]: "run_state (asks f) w = (f w, w)"
  by (simp add: asks_def)

text \<open>The error of an operation that only fails to start, and that of a process.\<close>

definition end_error :: "run_end \<Rightarrow> string option" where
  "end_error e = (case e of Ended \<Rightarrow> None | Exit_error err \<Rightarrow> Some err | Start_error err \<Rightarrow> Some err)"

definition perform :: "'w vb_host \<Rightarrow> vb_op \<Rightarrow> ('w, string option) state" where
  "perform h op = do { r \<leftarrow> vh_Do h op; State_Monad.return (end_error (rp_End r)) }"

text \<open>The cluster client of \<open>clustercheck\<close> on this host, in the context of the run.\<close>

definition vh_cluster_in :: "vb_ctx \<Rightarrow> 'w vb_host \<Rightarrow> 'w cluster" where
  "vh_cluster_in c h =
     \<lparr> cl_LookPath = vh_LookPath h,
       cl_Exec = (\<lambda>cli input args. do {
         r \<leftarrow> vh_Do h (Run_tool c cli args input []);
         State_Monad.return \<lparr> cr_Stdout = rp_Stdout r, cr_Stderr = rp_Stderr r, cr_Combined = rp_Combined r,
                              cr_Error = end_error (rp_End r) \<rparr>
       }) \<rparr>"

abbreviation vh_cluster :: "'w vb_host \<Rightarrow> 'w cluster" where
  "vh_cluster h \<equiv> vh_cluster_in Run_ctx h"

section \<open>kubectl\<close>

text \<open>\<open>runKubectl\<close>: the output, whether it exited with success, and an error when it did not start.\<close>

definition with_kubeconfig :: "string \<Rightarrow> string list \<Rightarrow> string list" where
  "with_kubeconfig kubeconfig args = (if kubeconfig \<noteq> [] then [''--kubeconfig'', kubeconfig] @ args else args)"

definition runKubectl :: "'w vb_host \<Rightarrow> vb_ctx \<Rightarrow> string \<Rightarrow> string list \<Rightarrow> ('w, string \<times> bool \<times> string option) state" where
  "runKubectl h c kubeconfig args = do {
     r \<leftarrow> vh_Do h (Run_tool c ''kubectl'' (with_kubeconfig kubeconfig args) None []);
     State_Monad.return (case rp_End r of
         Ended \<Rightarrow> (rp_Combined r, True, None)
       | Exit_error err \<Rightarrow> (rp_Combined r, False, None)
       | Start_error err \<Rightarrow> (rp_Combined r, False, Some err))
   }"

definition kubectlApply :: "'w vb_host \<Rightarrow> vb_ctx \<Rightarrow> string \<Rightarrow> string \<Rightarrow> ('w, string option) state" where
  "kubectlApply h c kubeconfig manifest = do {
     r \<leftarrow> vh_Do h (Run_tool c ''kubectl'' (with_kubeconfig kubeconfig [''apply'', ''-f'', ''-'']) (Some manifest) []);
     State_Monad.return (map_option (\<lambda>err. ''kubectl apply: '' @ err @ '': '' @ trim_space (rp_Combined r)) (end_error (rp_End r)))
   }"

section \<open>What a program does\<close>

inductive reaches :: "'w vb_host \<Rightarrow> (vb_op \<Rightarrow> bool) \<Rightarrow> 'w \<Rightarrow> 'w \<Rightarrow> bool" for h may w0 where
  start: "reaches h may w0 w0"
| step: "reaches h may w0 w \<Longrightarrow> may op \<Longrightarrow> run_state (vh_Do h op) w = (r, w') \<Longrightarrow> reaches h may w0 w'"

lemma reaches_trans: "reaches h may w1 w2 \<Longrightarrow> reaches h may w0 w1 \<Longrightarrow> reaches h may w0 w2"
  by (induction rule: reaches.induct) (auto intro: reaches.step)

lemma reaches_mono: "reaches h may w0 w \<Longrightarrow> (\<And>op. may op \<Longrightarrow> may' op) \<Longrightarrow> reaches h may' w0 w"
  by (induction rule: reaches.induct) (auto intro: reaches.intros)

text \<open>A program without operations leaves the world alone.\<close>

lemma reaches_none: "reaches h (\<lambda>_. False) w0 w \<Longrightarrow> w = w0"
  by (induction rule: reaches.induct) auto

definition does :: "'w vb_host \<Rightarrow> (vb_op \<Rightarrow> bool) \<Rightarrow> 'w \<Rightarrow> ('w, 'a) state \<Rightarrow> ('a \<Rightarrow> bool) \<Rightarrow> bool" where
  "does h may w0 m P = (\<forall>w x w'. reaches h may w0 w \<longrightarrow> run_state m w = (x, w') \<longrightarrow> reaches h may w0 w' \<and> P x)"

named_theorems does_rules \<open>which operations a program performs, by its outermost construct\<close>

lemma does_return [does_rules]: "P x \<Longrightarrow> does h may w0 (State_Monad.return x) P"
  by (simp add: does_def)

lemma does_asks: "(\<And>w. reaches h may w0 w \<Longrightarrow> P (f w)) \<Longrightarrow> does h may w0 (asks f) P"
  by (simp add: does_def)

lemma does_Do: "may op \<Longrightarrow> does h may w0 (vh_Do h op) (\<lambda>_. True)"
  unfolding does_def using reaches.step by fast

lemma does_bind:
  assumes "does h may w0 m Q" and "\<And>x. Q x \<Longrightarrow> does h may w0 (f x) P"
  shows "does h may w0 (State_Monad.bind m f) P"
  unfolding does_def
proof (intro allI impI)
  fix w x w'
  assume "reaches h may w0 w" and "run_state (State_Monad.bind m f) w = (x, w')"
  moreover obtain y w1 where "run_state m w = (y, w1)" by fastforce
  ultimately have "run_state (f y) w1 = (x, w')" "reaches h may w0 w1 \<and> Q y"
    using assms(1) by (auto simp: does_def)
  then show "reaches h may w0 w' \<and> P x" using assms(2)[of y] unfolding does_def by blast
qed

lemma does_weaken: "does h may w0 m Q \<Longrightarrow> (\<And>x. Q x \<Longrightarrow> P x) \<Longrightarrow> does h may w0 m P"
  unfolding does_def by blast

lemma does_start: "does h may w m P \<Longrightarrow> run_state m w = (x, w') \<Longrightarrow> reaches h may w w' \<and> P x"
  using reaches.start[of h may w] by (simp add: does_def)

lemma does_if [does_rules]: "(b \<Longrightarrow> does h may w0 m P) \<Longrightarrow> (\<not> b \<Longrightarrow> does h may w0 n P) \<Longrightarrow> does h may w0 (if b then m else n) P"
  by simp

lemma does_sum [does_rules]:
  "(\<And>a. x = Inl a \<Longrightarrow> does h may w0 (f a) P) \<Longrightarrow> (\<And>b. x = Inr b \<Longrightarrow> does h may w0 (g b) P) \<Longrightarrow>
     does h may w0 (case x of Inl a \<Rightarrow> f a | Inr b \<Rightarrow> g b) P"
  by (cases x) simp_all

lemma does_option [does_rules]:
  "(x = None \<Longrightarrow> does h may w0 m P) \<Longrightarrow> (\<And>b. x = Some b \<Longrightarrow> does h may w0 (g b) P) \<Longrightarrow>
     does h may w0 (case x of None \<Rightarrow> m | Some b \<Rightarrow> g b) P"
  by (cases x) simp_all

lemma does_pair [does_rules]: "(\<And>a b. x = (a, b) \<Longrightarrow> does h may w0 (f a b) P) \<Longrightarrow> does h may w0 (case x of (a, b) \<Rightarrow> f a b) P"
  by (cases x) simp

text \<open>What kubectl answered, at a world reached from \<open>w0\<close>.\<close>

definition kubectl_answered ::
  "'w vb_host \<Rightarrow> (vb_op \<Rightarrow> bool) \<Rightarrow> 'w \<Rightarrow> vb_ctx \<Rightarrow> string \<Rightarrow> string list \<Rightarrow> string \<times> bool \<times> string option \<Rightarrow> bool" where
  "kubectl_answered h may w0 c kubeconfig args r =
     (\<exists>w w'. reaches h may w0 w \<and> run_state (runKubectl h c kubeconfig args) w = (r, w'))"

lemma does_kubectl:
  assumes "may (Run_tool c ''kubectl'' (with_kubeconfig kubeconfig args) None [])"
  shows "does h may w0 (runKubectl h c kubeconfig args) (kubectl_answered h may w0 c kubeconfig args)"
proof -
  have "does h may w0 (runKubectl h c kubeconfig args) (\<lambda>_. True)"
    unfolding runKubectl_def
    by (rule does_bind[where Q = "\<lambda>_. True"], rule does_Do, rule assms, rule does_return, rule TrueI)
  then show ?thesis unfolding does_def kubectl_answered_def by blast
qed

text \<open>The programs of \<open>clustercheck\<close> perform nothing but commands of the client.\<close>

definition client_op :: "vb_ctx \<Rightarrow> vb_op \<Rightarrow> bool" where
  "client_op c op = (\<exists>cli args input. op = Run_tool c cli args input [])"

lemma cluster_steps_reaches: "cluster_steps (vh_cluster_in c h) w0 w \<Longrightarrow> reaches h (client_op c) w0 w"
proof (induction rule: cluster_steps.induct)
  case start
  then show ?case by (rule reaches.start)
next
  case (exec w cli input args r w')
  then obtain r0 where "run_state (vh_Do h (Run_tool c cli args input [])) w = (r0, w')"
    by (auto simp: vh_cluster_in_def split: prod.splits)
  with exec.IH show ?case by (rule_tac reaches.step) (auto simp: client_op_def)
qed

end
