(* ===== verification/Virtbench_Manifest.thy ===== *)
theory Virtbench_Manifest
  imports Virtbench_Host
begin

text \<open>
  manifest.go of \<open>internal/tools/virtbench\<close>, with the table of the scenarios' data (scenario.go), the
  disk counts of singlenode.go and clone_at_scale.go and the template of FIO (engine.go): where the
  VM template of a requirement comes from, how it is rendered and checked, and how the command line
  is completed before virtbench runs.
\<close>

section \<open>Scenarios\<close>

record vm_template_config =
  vt_Param :: string
  vt_Embedded :: string
  vt_Upstream :: string

text \<open>The data of \<open>Scenario\<close>; its functions are added where the stages are modelled.\<close>

record vb_scenario =
  sc_VMRange :: "(test_requirement \<Rightarrow> string + int \<times> int) option"
  sc_Template :: vm_template_config
  sc_AutomationTool :: string
  sc_ProvidesTR :: string
  sc_ResultFile :: string
  sc_NSPrefix :: string
  sc_StorageClassOptional :: bool
  sc_TolerateRunError :: bool
  sc_CommandCheck :: "string list"
  sc_DetailFile :: string

definition embedded_template :: "string \<Rightarrow> vm_template_config" where
  "embedded_template path = \<lparr> vt_Param = [], vt_Embedded = path, vt_Upstream = [] \<rparr>"

definition scenario_row ::
  "string \<Rightarrow> string \<Rightarrow> (test_requirement \<Rightarrow> string + int \<times> int) \<Rightarrow> vm_template_config \<Rightarrow> string \<Rightarrow> string \<Rightarrow> vb_scenario" where
  "scenario_row tool tr vmRange template file nsPrefix =
     \<lparr> sc_VMRange = Some vmRange, sc_Template = template, sc_AutomationTool = tool, sc_ProvidesTR = tr, sc_ResultFile = file,
       sc_NSPrefix = nsPrefix, sc_StorageClassOptional = False, sc_TolerateRunError = False, sc_CommandCheck = [], sc_DetailFile = [] \<rparr>"

definition SummaryFileName :: string where "SummaryFileName = ''summary_vm_creation_results.json''"
definition singleNodeVMTemplatePath :: string where "singleNodeVMTemplatePath = ''templates/TR-VIRT-013/vm.yaml''"

definition scenario_table :: "vb_scenario list" where
  "scenario_table =
     [scenario_row ''virtbench datasource-clone'' ''TR-VIRT-002'' cloneVMRange (embedded_template singleNodeVMTemplatePath) SummaryFileName ''virtbench'',
      scenario_row ''virtbench datasource-clone --boot-storm'' ''TR-VIRT-001'' cloneVMRange (embedded_template singleNodeVMTemplatePath)
        ''summary_boot_storm_results.json'' ''virtbench'',
      scenario_row ''virtbench disk-ops'' ''TR-STOR-001'' diskOpsVMRange
        \<lparr> vt_Param = [], vt_Embedded = [], vt_Upstream = ''disk-ops-benchmark/vm-template.yaml'' \<rparr> ''disk_ops_results.json'' ''disk-ops'',
      (scenario_row ''virtbench datasource-clone --num-disks 2'' ''TR-VIRT-018'' cloneAtScaleRange
        (embedded_template ''templates/TR-VIRT-018/rhel9-vm-2disk.yaml'') SummaryFileName ''virtbench'')\<lparr>sc_DetailFile := ''vm_creation_results.json''\<rparr>,
      (scenario_row ''virtbench vm-ops drain-nodes'' ''TR-VIRT-008'' drainVMRange
        (embedded_template ''templates/TR-VIRT-008/rhel9-vm-drain.yaml'') DrainFileName ''virtbench-drain'')\<lparr>sc_TolerateRunError := True\<rparr>,
      (scenario_row ''virtbench fio'' ''TR-STOR-002'' fioVMRange
        \<lparr> vt_Param = ''fio_vm_template'', vt_Embedded = ''templates/TR-STOR-002/fio-vm-template.yaml'', vt_Upstream = [] \<rparr>
        ''fio_raw.json'' ''fio-latency'')\<lparr>sc_CommandCheck := [''fio'', ''--help'']\<rparr>,
      (scenario_row ''virtbench datasource-clone --single-node'' ''TR-VIRT-013'' singleNodeVMRange
        (embedded_template singleNodeVMTemplatePath) SummaryFileName ''virtbench-single-node'')\<lparr>sc_TolerateRunError := True\<rparr>,
      scenario_row ''virtbench failure-recovery'' ''TR-VIRT-007'' recoveryVMRange
        (embedded_template ''templates/TR-VIRT-007/rhel9-vm-failure-recovery.yaml'') ''summary_failure_recovery_results.json'' ''failure-recovery'']"

definition vb_scenarioFor :: "test_requirement \<Rightarrow> vb_scenario option" where
  "vb_scenarioFor tr = find (\<lambda>sc. sc_ProvidesTR sc = tr_ID tr) scenario_table"

section \<open>Where a template comes from\<close>

definition fioTemplate :: "'w vb_host \<Rightarrow> test_requirement \<Rightarrow> 'w \<Rightarrow> string + string" where
  "fioTemplate h tr w =
     (let template = strParamOr tr ''fio_vm_template'' []; ctx = ''virtbench: '' @ tr_ID tr @ '': '' in
      if template = [] then Inr []
      else case vh_Abs h template of
        Inl err \<Rightarrow> Inl (ctx @ ''resolve fio_vm_template: '' @ err)
      | Inr path \<Rightarrow>
          (case vh_Stat h path w of
             Inl err \<Rightarrow> Inl (ctx @ ''fio_vm_template '' @ go_quote template @ '' not accessible: '' @ err)
           | Inr isDir \<Rightarrow> if isDir then Inl (ctx @ ''fio_vm_template '' @ go_quote template @ '' is a directory'') else Inr path))"

definition fioValidate :: "'w vb_host \<Rightarrow> test_requirement \<Rightarrow> 'w \<Rightarrow> string option" where
  "fioValidate h tr w =
     (case fioVMRange tr of Inl err \<Rightarrow> Some err | Inr _ \<Rightarrow>
      (case fioProfile tr of Inl err \<Rightarrow> Some err | Inr _ \<Rightarrow>
      (case fioTemplate h tr w of Inl err \<Rightarrow> Some err | Inr _ \<Rightarrow> None)))"

text \<open>The interpreter of the launcher's first line.\<close>

definition launcher_interpreter :: "string \<Rightarrow> string + string list" where
  "launcher_interpreter data =
     (let line = fst (cut_at (CHR 0x0A) data);
          words = str_fields (trim_prefix line ''#!'')
      in if words = [] \<or> \<not> has_prefix line ''#!'' then Inl ''virtbench launcher has no Python shebang''
         else
           (let words = (if path_base (hd words) = ''env''
                         then (let rest = tl words in if rest \<noteq> [] \<and> hd rest = ''-S'' then tl rest else rest)
                         else words)
            in if words = [] \<or> \<not> has_prefix (path_base (hd words)) ''python''
               then Inl ''virtbench launcher does not identify its Python interpreter''
               else Inr words))"

definition discover_code :: string where
  "discover_code = ''from virtbench.common import find_repo_root; print(find_repo_root())''"

definition installedRuntimeRoot :: "'w vb_host \<Rightarrow> vb_ctx \<Rightarrow> ('w, string + string) state" where
  "installedRuntimeRoot h c =
     (case vh_LookPath h ''virtbench'' of
        Inl err \<Rightarrow> State_Monad.return (Inl err)
      | Inr found \<Rightarrow>
          (case vh_EvalSymlinks h found of
             Inl err \<Rightarrow> State_Monad.return (Inl err)
           | Inr launcher \<Rightarrow> do {
               data \<leftarrow> asks (vh_ReadFile h launcher);
               case data of
                 Inl err \<Rightarrow> State_Monad.return (Inl err)
               | Inr text \<Rightarrow>
                   (case launcher_interpreter text of
                      Inl err \<Rightarrow> State_Monad.return (Inl err)
                    | Inr words \<Rightarrow> do {
                        r \<leftarrow> vh_Do h (Run_tool c (hd words) (tl words @ [''-c'', discover_code]) None []);
                        let dir = trim_space (rp_Stdout r);
                        State_Monad.return (case end_error (rp_End r) of
                            Some err \<Rightarrow> Inl (''discover installed Virtbench runtime: '' @ err)
                          | None \<Rightarrow> if path_is_abs dir then Inr dir else Inl ''virtbench returned a non-absolute runtime directory'')
                      })
             }))"

fun first_readable :: "'w vb_host \<Rightarrow> string list \<Rightarrow> string \<Rightarrow> 'w \<Rightarrow> string option" where
  "first_readable h [] relative w = None"
| "first_readable h (d # ds) relative w =
     (if d = [] then first_readable h ds relative w
      else case vh_ReadFile h (path_join [d, relative]) w of Inr data \<Rightarrow> Some data | Inl _ \<Rightarrow> first_readable h ds relative w)"

definition runtimeTemplate :: "'w vb_host \<Rightarrow> vb_ctx \<Rightarrow> string \<Rightarrow> ('w, string + string) state" where
  "runtimeTemplate h c relative =
     (let missing = (\<lambda>err. Inl (''cannot locate released template '' @ relative @ ''; set vm_template or VIRTBENCH_REPO: '' @ err)) in do {
        near \<leftarrow> asks (first_readable h [vh_Getenv h ''VIRTBENCH_REPO'', ''/opt/virtbench-runtime'', ''.'', ''..''] relative);
        case near of
          Some data \<Rightarrow> State_Monad.return (Inr data)
        | None \<Rightarrow> do {
            dir \<leftarrow> installedRuntimeRoot h c;
            case dir of
              Inl err \<Rightarrow> State_Monad.return (missing err)
            | Inr d \<Rightarrow> do {
                r \<leftarrow> asks (vh_ReadFile h (path_join [d, relative]));
                State_Monad.return (case r of Inl err \<Rightarrow> missing err | Inr data \<Rightarrow> Inr data)
              }
          }
      })"

text \<open>The bytes of the template, and whether they are the harness's own choice.\<close>

definition vmSourceTemplate :: "'w vb_host \<Rightarrow> vb_ctx \<Rightarrow> test_requirement \<Rightarrow> ('w, string + string \<times> bool) state" where
  "vmSourceTemplate h c tr =
     (case vb_scenarioFor tr of
        None \<Rightarrow> State_Monad.return (Inl (''no VM template for '' @ tr_ID tr))
      | Some sc \<Rightarrow>
          (let t = sc_Template sc; param = (if vt_Param t = [] then ''vm_template'' else vt_Param t) in do {
             path \<leftarrow> (if param = ''fio_vm_template'' then asks (fioTemplate h tr) else State_Monad.return (Inr (strParamOr tr param [])));
             case path of
               Inl err \<Rightarrow> State_Monad.return (Inl err)
             | Inr p \<Rightarrow>
                 if p \<noteq> [] then do {
                   r \<leftarrow> asks (vh_ReadFile h p);
                   State_Monad.return (map_sum id (\<lambda>data. (data, False)) r)
                 }
                 else if vt_Embedded t \<noteq> [] then State_Monad.return (map_sum id (\<lambda>data. (data, True)) (vh_Embedded h (vt_Embedded t)))
                 else do {
                   r \<leftarrow> runtimeTemplate h c (vt_Upstream t);
                   State_Monad.return (map_sum id (\<lambda>data. (data, True)) r)
                 }
           }))"

section \<open>Rendering and checking\<close>

definition vm_aliases :: "(string, string) gomap" where
  "vm_aliases =
     (''STORAGE_CLASS'', ''STORAGE_CLASS_NAME'') #
     map (\<lambda>k. (k, k)) [''VM_NAME'', ''STORAGE_CLASS_NAME'', ''VM_PASSWORD'', ''FIO_RUNTIME'', ''FIO_BS'', ''FIO_RW'', ''FIO_IODEPTH'',
       ''FIO_NUMJOBS'', ''FIO_SIZE'', ''TARGET_NODE'', ''NODE_NAME'', ''HOSTNAME_LABEL'', ''NAMESPACE'']"

definition vmRender :: "'w vb_host \<Rightarrow> string \<Rightarrow> string \<Rightarrow> (string, any) gomap \<Rightarrow> string + string" where
  "vmRender h name source values = manifest_Render (GoTemplate_Render (vh_yaml h) (vh_engine h) vm_aliases) name source values"

definition check_vm :: "object \<Rightarrow> (string, any) gomap \<Rightarrow> string option" where
  "check_vm obj values =
     (let name = as_str (key (obj_of (key obj ''metadata'')) ''name'') in
      if as_str (key obj ''apiVersion'') = [] then Some ''virtbench: VM template requires apiVersion''
      else if name = [] \<or> AStr name \<noteq> key values ''VM_NAME'' then Some ''virtbench: VM metadata.name must match --vm-name''
      else if as_obj (key obj ''spec'') = None then Some ''virtbench: VM template requires a spec mapping''
      else None)"

text \<open>One pass over the documents: the first error, or the number of VMs.\<close>

fun count_vms :: "object list \<Rightarrow> (string, any) gomap \<Rightarrow> nat \<Rightarrow> string + nat" where
  "count_vms [] values n = Inr n"
| "count_vms (obj # objs) values n =
     (if key obj ''kind'' \<noteq> AStr ''VirtualMachine'' then count_vms objs values n
      else case check_vm obj values of Some err \<Rightarrow> Inl err | None \<Rightarrow> count_vms objs values (n + 1))"

definition validateVMTemplate :: "'w vb_host \<Rightarrow> string \<Rightarrow> (string, any) gomap \<Rightarrow> string option" where
  "validateVMTemplate h rendered values =
     (case Documents (vh_yaml h) rendered of
        Inl err \<Rightarrow> Some err
      | Inr docs \<Rightarrow>
          if length docs \<noteq> 1 then Some ''virtbench: VM template must contain one YAML document''
          else case count_vms docs values 0 of
            Inl err \<Rightarrow> Some err
          | Inr n \<Rightarrow> if n \<noteq> 1 then Some (''virtbench: template must contain exactly one VirtualMachine, found '' @ show_nat n) else None)"

definition renderVMTemplate :: "'w vb_host \<Rightarrow> string \<Rightarrow> string \<Rightarrow> (string, any) gomap \<Rightarrow> string + string" where
  "renderVMTemplate h name source values =
     (case vmRender h name source values of
        Inl err \<Rightarrow> Inl err
      | Inr rendered \<Rightarrow> (case validateVMTemplate h rendered values of Some err \<Rightarrow> Inl err | None \<Rightarrow> Inr rendered))"

text \<open>The volumes of the first VM that are no cloud-init volumes. the list is the path that remains.\<close>

fun count_disks :: "any list \<Rightarrow> nat \<Rightarrow> string + nat" where
  "count_disks [] n = Inr n"
| "count_disks (v # vs) n =
     (case as_obj v of
        None \<Rightarrow> Inl ''VM volume must be a mapping''
      | Some volume \<Rightarrow> count_disks vs (if \<not> gm_has volume ''cloudInitNoCloud'' \<and> \<not> gm_has volume ''cloudInitConfigDrive'' then n + 1 else n))"

fun vm_disks :: "string list \<Rightarrow> object \<Rightarrow> string + nat" where
  "vm_disks (field # below) obj =
     (case key obj field of
        ANil \<Rightarrow> Inr 0
      | v \<Rightarrow> (case as_obj v of None \<Rightarrow> Inl (''VM '' @ field @ '' must be a mapping'') | Some sub \<Rightarrow> vm_disks below sub))"
| "vm_disks [] obj =
     (case key obj ''volumes'' of
        ANil \<Rightarrow> Inr 0
      | AList vs \<Rightarrow> count_disks vs 0
      | _ \<Rightarrow> Inl ''VM volumes must be a list'')"

fun first_vm_disks :: "object list \<Rightarrow> string + nat" where
  "first_vm_disks [] = Inl ''no VirtualMachine document found''"
| "first_vm_disks (obj # objs) =
     (if key obj ''kind'' \<noteq> AStr ''VirtualMachine'' then first_vm_disks objs else vm_disks [''spec'', ''template'', ''spec''] obj)"

definition manifestDiskCount :: "'w vb_host \<Rightarrow> string \<Rightarrow> string + nat" where
  "manifestDiskCount h data = (case Documents (vh_yaml h) data of Inl err \<Rightarrow> Inl err | Inr docs \<Rightarrow> first_vm_disks docs)"

definition templateDiskCount :: "'w vb_host \<Rightarrow> string \<Rightarrow> test_requirement \<Rightarrow> 'w \<Rightarrow> string + nat" where
  "templateDiskCount h path tr w =
     (case vh_ReadFile h path w of Inl err \<Rightarrow> Inl err | Inr data \<Rightarrow>
      (case resolvePlanTemplateValues ''datasource-clone'' None tr of Inl err \<Rightarrow> Inl err | Inr values \<Rightarrow>
      (case vmRender h (path_base path) data values of Inl err \<Rightarrow> Inl err | Inr clean \<Rightarrow> manifestDiskCount h clean)))"


definition singleNodeCeilingValidate :: "'w vb_host \<Rightarrow> test_requirement \<Rightarrow> 'w \<Rightarrow> string option" where
  "singleNodeCeilingValidate h tr w =
     (let disks = intParam tr ''num_disks'' 1; tmpl = strParamOr tr ''vm_template'' []; ctx = (\<lambda>err. Some (''virtbench: '' @ tr_ID tr @ '': '' @ err)) in
      if intParam tr ''attempt_vms'' singleNodeDefaultCount < 1 then ctx ''attempt_vms must be >= 1''
      else if disks < 1 then ctx ''num_disks must be >= 1''
      else if tmpl = [] then
        (if disks > 1 then ctx (''num_disks='' @ show_int disks @ '' requires a vm_template that defines that many disks (virtbench'' @ [CHR 0x27] @ ''s bundled default is single-disk)'')
         else None)
      else case templateDiskCount h tmpl tr w of
        Inl err \<Rightarrow> ctx (''cannot count disks in vm_template '' @ go_quote tmpl @ '': '' @ err)
      | Inr got \<Rightarrow>
          if int got \<noteq> disks then ctx (''num_disks='' @ show_int disks @ '' but vm_template '' @ go_quote tmpl @ '' defines '' @ show_nat got @
            '' disk(s); they must match so max_luns_per_node is accurate'')
          else None)"

definition cloneAtScaleValidate :: "'w vb_host \<Rightarrow> test_requirement \<Rightarrow> 'w \<Rightarrow> string option" where
  "cloneAtScaleValidate h tr w =
     (let disks = intParam tr ''num_disks'' cloneAtScaleDefaultDisks; tmpl = strParamOr tr ''vm_template'' [];
          ctx = (\<lambda>err. Some (''virtbench: '' @ tr_ID tr @ '': '' @ err)) in
      if disks < 1 then ctx ''num_disks must be >= 1''
      else if tmpl = [] then
        (if disks \<noteq> cloneAtScaleDefaultDisks then
           ctx (''num_disks='' @ show_int disks @ '' requires a vm_template that defines that many disks (the built-in default template defines '' @
             show_int cloneAtScaleDefaultDisks @ '')'')
         else None)
      else case templateDiskCount h tmpl tr w of
        Inl err \<Rightarrow> ctx (''cannot count disks in vm_template '' @ go_quote tmpl @ '': '' @ err)
      | Inr got \<Rightarrow>
          if int got \<noteq> disks then ctx (''num_disks='' @ show_int disks @ '' but vm_template '' @ go_quote tmpl @ '' defines '' @ show_nat got @
            '' disk(s); they must match'')
          else None)"

section \<open>Completing the command line\<close>

record manifest_request =
  mq_Prepared :: bool
  mq_TR :: test_requirement
  mq_Directory :: string
  mq_Args :: "string list"

text \<open>The defaults that the code passes explicitly.\<close>

definition add_default :: "(string, any) gomap \<Rightarrow> template_input \<Rightarrow> string list \<Rightarrow> string list" where
  "add_default values i args =
     (if tin_omitDefaultFlag i \<or> argument args (tin_flag i) \<noteq> None then args
      else let v = go_sprint (key values (tin_key i)) in if v \<noteq> [] then args @ [tin_flag i, v] else args)"

text \<open>The requirement whose template is used when the request names none.\<close>

definition default_tr :: "string \<Rightarrow> test_requirement \<Rightarrow> test_requirement" where
  "default_tr command tr =
     (if tr_ID tr = [] then
        tr\<lparr>tr_ID := (if command = ''disk-ops'' then ''TR-STOR-001'' else if command = ''fio'' then ''TR-STOR-002'' else ''TR-VIRT-002'')\<rparr>
      else tr)"

definition disk_mismatch :: "'w vb_host \<Rightarrow> string \<Rightarrow> string list \<Rightarrow> string \<Rightarrow> string option" where
  "disk_mismatch h command args rendered =
     (case argument args ''--num-disks'' of
        None \<Rightarrow> None
      | Some raw \<Rightarrow>
          if command \<noteq> ''datasource-clone'' then None
          else case atoi raw of
            None \<Rightarrow> Some ''virtbench: --num-disks must be a positive integer''
          | Some wanted \<Rightarrow>
              if wanted < 1 then Some ''virtbench: --num-disks must be a positive integer''
              else case manifestDiskCount h rendered of
                Inl err \<Rightarrow> Some err
              | Inr got \<Rightarrow>
                  if int got \<noteq> wanted then Some (''virtbench: --num-disks='' @ show_int wanted @ '' but rendered VM defines '' @ show_nat got @ '' disks'')
                  else None)"

definition writeTemplateFile :: "'w vb_host \<Rightarrow> string \<Rightarrow> string \<Rightarrow> string \<Rightarrow> ('w, string + string) state" where
  "writeTemplateFile h directory name data = do {
     e \<leftarrow> perform h (Make_dir directory);
     case e of
       Some err \<Rightarrow> State_Monad.return (Inl err)
     | None \<Rightarrow>
         (case vh_Abs h (path_join [directory, name]) of
            Inl err \<Rightarrow> State_Monad.return (Inl err)
          | Inr path \<Rightarrow> do {
              e2 \<leftarrow> perform h (Write_file path data);
              State_Monad.return (case e2 of Some err \<Rightarrow> Inl err | None \<Rightarrow> Inr path)
            })
   }"

text \<open>The rendered copy: never written over the custom template it was made from.\<close>

definition write_rendered :: "'w vb_host \<Rightarrow> manifest_request \<Rightarrow> string \<Rightarrow> string option \<Rightarrow> string \<Rightarrow> ('w, string + string) state" where
  "write_rendered h q command custom rendered =
     (let dir = path_join [mq_Directory q, ''rendered'']; file = command @ ''-vm.yaml'' in
      case custom of
        None \<Rightarrow> writeTemplateFile h dir file rendered
      | Some path \<Rightarrow>
          (case vh_Abs h path of
             Inl err \<Rightarrow> State_Monad.return (Inl err)
           | Inr original \<Rightarrow>
               (case vh_Abs h (path_join [dir, file]) of
                  Inl err \<Rightarrow> State_Monad.return (Inl err)
                | Inr output \<Rightarrow>
                    if original = output then
                      State_Monad.return (Inl (''VM template is inside the rendering destination; choose a separate workdir to preserve '' @ path))
                    else writeTemplateFile h dir file rendered)))"

text \<open>The template of a request, rendered and checked; a prepared one is only checked.\<close>

definition load_template :: "'w vb_host \<Rightarrow> vb_ctx \<Rightarrow> manifest_request \<Rightarrow> string \<Rightarrow> string option \<Rightarrow> ('w, string + string) state" where
  "load_template h c q command custom =
     (case custom of
        Some path \<Rightarrow> do {
          r \<leftarrow> asks (vh_ReadFile h path);
          State_Monad.return (map_sum (\<lambda>err. ''virtbench: load template '' @ path @ '': '' @ err) id r)
        }
      | None \<Rightarrow> do {
          r \<leftarrow> vmSourceTemplate h c (default_tr command (mq_TR q));
          State_Monad.return (map_sum (\<lambda>err. ''virtbench: load template '' @ tr_ID (default_tr command (mq_TR q)) @ ''-vm.yaml: '' @ err) fst r)
        })"

definition checked_template :: "'w vb_host \<Rightarrow> manifest_request \<Rightarrow> string \<Rightarrow> string option \<Rightarrow> (string, any) gomap \<Rightarrow> string \<Rightarrow> string + string" where
  "checked_template h q command custom values source =
     (if mq_Prepared q then
        (if custom = None then Inl ''prepared VM requires --vm-template''
         else case validateVMTemplate h source values of Some err \<Rightarrow> Inl err | None \<Rightarrow> Inr source)
      else renderVMTemplate h (case custom of Some path \<Rightarrow> path | None \<Rightarrow> tr_ID (default_tr command (mq_TR q)) @ ''-vm.yaml'') source values)"

definition finish_args :: "string \<Rightarrow> string list \<Rightarrow> string \<Rightarrow> string list" where
  "finish_args command args destination =
     setArgument (if command = ''datasource-clone'' then removeArgument args ''--storage-class'' else args) ''--vm-template'' destination"

definition place_template ::
  "'w vb_host \<Rightarrow> vb_ctx \<Rightarrow> manifest_request \<Rightarrow> string \<Rightarrow> string list \<Rightarrow> (string, any) gomap \<Rightarrow> ('w, string + string list) state" where
  "place_template h c q command args values =
     (let custom = argument args ''--vm-template'';
          values' = gm_set ''TARGET_NODE'' (AStr (strParamOr (mq_TR q) ''target_node'' [])) values
      in ok_then (load_template h c q command custom) (\<lambda>source.
           case checked_template h q command custom values' source of
             Inl err \<Rightarrow> State_Monad.return (Inl err)
           | Inr rendered \<Rightarrow>
               (case disk_mismatch h command args rendered of
                  Some err \<Rightarrow> State_Monad.return (Inl err)
                | None \<Rightarrow>
                    ok_then (if mq_Prepared q then State_Monad.return (Inr (case custom of Some path \<Rightarrow> path | None \<Rightarrow> []))
                             else write_rendered h q command custom rendered)
                      (\<lambda>destination. State_Monad.return (Inr (finish_args command args destination))))))"

definition vm_commands :: "string list" where "vm_commands = [''datasource-clone'', ''fio'', ''disk-ops'']"

definition explicit_args :: "string \<Rightarrow> (string, any) gomap \<Rightarrow> string list \<Rightarrow> string list" where
  "explicit_args command values args = fold (add_default values) (templateInputs command) args"

definition no_vm_action :: "string \<Rightarrow> string list \<Rightarrow> bool" where
  "no_vm_action command args =
     (command = ''fio'' \<and>
      (case argument args ''--action'' of Some action \<Rightarrow> action \<noteq> [] \<and> action \<noteq> ''deploy'' \<and> action \<noteq> ''run-all'' | None \<Rightarrow> False))"

definition prepareManifest :: "'w vb_host \<Rightarrow> vb_ctx \<Rightarrow> manifest_request \<Rightarrow> ('w, string + string list) state" where
  "prepareManifest h c q = do {
     cancelled \<leftarrow> asks (vh_ctxErr h c);
     (case cancelled of
        Some err \<Rightarrow> State_Monad.return (Inl err)
      | None \<Rightarrow>
          (let args0 = mq_Args q; command = virtbenchCommand args0 in
           if command \<notin> set vm_commands then State_Monad.return (Inr args0)
           else case resolveTemplateValues command (args0 @ planTemplateArgs command (mq_TR q)) of
             Inl err \<Rightarrow> State_Monad.return (Inl err)
           | Inr values \<Rightarrow>
               (let args = explicit_args command values args0 in
                if no_vm_action command args then State_Monad.return (Inr args)
                else if key values ''STORAGE_CLASS_NAME'' = AStr [] then
                  State_Monad.return (Inl (''virtbench: '' @ command @ '' requires --storage-class''))
                else place_template h c q command args values)))
   }"

definition execVirtbench :: "'w vb_host \<Rightarrow> vb_ctx \<Rightarrow> manifest_request \<Rightarrow> ('w, string option) state" where
  "execVirtbench h c q = do {
     r \<leftarrow> prepareManifest h c q;
     case r of
       Inl err \<Rightarrow> State_Monad.return (Some err)
     | Inr args \<Rightarrow> perform h (Run_tool c ''virtbench'' args None (mq_Directory q))
   }"

definition plain_request :: "string \<Rightarrow> string list \<Rightarrow> test_requirement \<Rightarrow> manifest_request" where
  "plain_request dir args tr = \<lparr> mq_Prepared = False, mq_TR = tr, mq_Directory = dir, mq_Args = args \<rparr>"

definition runVirtbench :: "'w vb_host \<Rightarrow> vb_ctx \<Rightarrow> string \<Rightarrow> string list \<Rightarrow> test_requirement \<Rightarrow> ('w, string option) state" where
  "runVirtbench h c dir args tr = do {
     e \<leftarrow> execVirtbench h c (plain_request dir args tr);
     State_Monad.return (map_option (\<lambda>err. ''virtbench: run failed: '' @ err) e)
   }"


section \<open>What a run of virtbench starts from\<close>

text \<open>A manifest with exactly one document, a complete VM with the name the command line gives.\<close>

definition valid_vm :: "'w vb_host \<Rightarrow> string \<Rightarrow> any \<Rightarrow> bool" where
  "valid_vm h rendered name =
     (\<exists>vm n. Documents (vh_yaml h) rendered = Inr [vm] \<and> key vm ''kind'' = AStr ''VirtualMachine'' \<and>
        as_str (key vm ''apiVersion'') \<noteq> [] \<and> name = AStr n \<and> n \<noteq> [] \<and>
        as_str (key (obj_of (key vm ''metadata'')) ''name'') = n \<and> as_obj (key vm ''spec'') \<noteq> None)"

lemma count_vms_one:
  "count_vms [obj] values 0 = Inr 1 \<longleftrightarrow> key obj ''kind'' = AStr ''VirtualMachine'' \<and> check_vm obj values = None"
  by (auto split: option.splits)

lemma validateVMTemplate_None: "validateVMTemplate h rendered values = None \<longleftrightarrow> valid_vm h rendered (key values ''VM_NAME'')"
proof
  assume v: "validateVMTemplate h rendered values = None"
  then obtain docs where docs: "Documents (vh_yaml h) rendered = Inr docs" "length docs = 1"
    by (auto simp: validateVMTemplate_def split: sum.splits if_splits)
  then obtain vm where vm: "docs = [vm]" by (auto simp: length_Suc_conv)
  from v docs vm have "count_vms [vm] values 0 = Inr 1"
    by (auto simp del: count_vms.simps simp: validateVMTemplate_def split: sum.splits if_splits)
  with docs vm show "valid_vm h rendered (key values ''VM_NAME'')"
    unfolding count_vms_one valid_vm_def by (auto simp: check_vm_def Let_def split: if_splits)
next
  assume "valid_vm h rendered (key values ''VM_NAME'')"
  then obtain vm n where vm: "Documents (vh_yaml h) rendered = Inr [vm]" "key vm ''kind'' = AStr ''VirtualMachine''"
    "as_str (key vm ''apiVersion'') \<noteq> []" "key values ''VM_NAME'' = AStr n" "n \<noteq> []"
    "as_str (key (obj_of (key vm ''metadata'')) ''name'') = n" "as_obj (key vm ''spec'') \<noteq> None"
    unfolding valid_vm_def by blast
  then have "count_vms [vm] values 0 = Inr 1" unfolding count_vms_one by (simp add: check_vm_def Let_def)
  with vm(1) show "validateVMTemplate h rendered values = None" by (simp del: count_vms.simps add: validateVMTemplate_def)
qed

lemma checked_template_valid:
  "checked_template h q command custom values source = Inr rendered \<Longrightarrow> valid_vm h rendered (key values ''VM_NAME'')"
  by (auto simp: checked_template_def renderVMTemplate_def validateVMTemplate_None[symmetric] split: if_splits option.splits sum.splits)

definition disks_agree :: "'w vb_host \<Rightarrow> string list \<Rightarrow> string \<Rightarrow> bool" where
  "disks_agree h args rendered =
     (\<forall>raw. argument args ''--num-disks'' = Some raw \<longrightarrow>
        (\<exists>n. atoi raw = Some (int n) \<and> 1 \<le> n \<and> manifestDiskCount h rendered = Inr n))"

lemma disk_mismatch_None:
  "disk_mismatch h command args rendered = None \<Longrightarrow> command = ''datasource-clone'' \<Longrightarrow> disks_agree h args rendered"
  by (auto simp: disk_mismatch_def disks_agree_def split: option.splits sum.splits if_splits)

text \<open>\<open>data\<close> was written to \<open>path\<close>, between two worlds.\<close>

definition wrote :: "'w vb_host \<Rightarrow> string \<Rightarrow> string \<Rightarrow> 'w \<Rightarrow> 'w \<Rightarrow> bool" where
  "wrote h path data w w' = (run_state (perform h (Write_file path data)) w = (None, w'))"

lemma writeTemplateFile_wrote:
  assumes "run_state (writeTemplateFile h dir name data) w = (Inr path, w')"
  shows "vh_Abs h (path_join [dir, name]) = Inr path \<and> (\<exists>w1. wrote h path data w1 w')"
  using assms by (auto simp: writeTemplateFile_def wrote_def split: prod.splits option.splits sum.splits)

lemma write_rendered_wrote:
  assumes "run_state (write_rendered h q command custom rendered) w = (Inr path, w')"
  shows "vh_Abs h (path_join [path_join [mq_Directory q, ''rendered''], command @ ''-vm.yaml'']) = Inr path \<and>
         (\<forall>c. custom = Some c \<longrightarrow> vh_Abs h c \<noteq> Inr path) \<and> (\<exists>w1. wrote h path rendered w1 w')"
  using assms writeTemplateFile_wrote[of h "path_join [mq_Directory q, ''rendered'']" "command @ ''-vm.yaml''" rendered w path w']
  by (auto simp: write_rendered_def Let_def split: option.splits sum.splits if_splits)

text \<open>
  What the command line \<open>out\<close> of a run that creates VMs stands on, in the world \<open>w\<close> in which virtbench
  is started: the VM template it names was written there from a manifest with one complete VM under
  the name virtbench polls for, and was not written over a template of the user. A template that
  was prepared before (a clone of a snapshot) is read and checked instead of written.
\<close>

definition vm_ready :: "'w vb_host \<Rightarrow> manifest_request \<Rightarrow> string \<Rightarrow> string list \<Rightarrow> 'w \<Rightarrow> 'w \<Rightarrow> bool" where
  "vm_ready h q command out w w' \<longleftrightarrow>
     (\<exists>values args rendered dest.
        resolveTemplateValues command (mq_Args q @ planTemplateArgs command (mq_TR q)) = Inr values \<and>
        args = explicit_args command values (mq_Args q) \<and> key values ''STORAGE_CLASS_NAME'' \<noteq> AStr [] \<and>
        out = finish_args command args dest \<and>
        valid_vm h rendered (key values ''VM_NAME'') \<and> (command = ''datasource-clone'' \<longrightarrow> disks_agree h args rendered) \<and>
        (if mq_Prepared q then argument args ''--vm-template'' = Some dest \<and> vh_ReadFile h dest w = Inr rendered \<and> w' = w
         else (\<forall>p. argument args ''--vm-template'' = Some p \<longrightarrow> vh_Abs h p \<noteq> Inr dest) \<and> (\<exists>w1. wrote h dest rendered w1 w')))"

lemma place_template_ok:
  assumes "run_state (place_template h c q command args values) w = (Inr out, w')"
  shows "\<exists>rendered dest. out = finish_args command args dest \<and> valid_vm h rendered (key values ''VM_NAME'') \<and>
    disk_mismatch h command args rendered = None \<and>
    (if mq_Prepared q then argument args ''--vm-template'' = Some dest \<and> vh_ReadFile h dest w = Inr rendered \<and> w' = w
     else (\<forall>p. argument args ''--vm-template'' = Some p \<longrightarrow> vh_Abs h p \<noteq> Inr dest) \<and> (\<exists>w1. wrote h dest rendered w1 w'))"
proof -
  let ?v = "gm_set ''TARGET_NODE'' (AStr (strParamOr (mq_TR q) ''target_node'' [])) values"
  obtain source w1 where l: "run_state (load_template h c q command (argument args ''--vm-template'')) w = (Inr source, w1)"
    using assms(1) by (auto simp: place_template_def ok_then_def Let_def split: prod.splits sum.splits)
  with assms obtain rendered where ch: "checked_template h q command (argument args ''--vm-template'') ?v source = Inr rendered"
    by (auto simp: place_template_def ok_then_def Let_def split: prod.splits sum.splits)
  with assms l have d: "disk_mismatch h command args rendered = None"
    by (auto simp: place_template_def ok_then_def Let_def split: option.splits)
  have n: "key ?v ''VM_NAME'' = key values ''VM_NAME''" by (simp add: key_def)
  show ?thesis
  proof (cases "mq_Prepared q")
    case True
    with ch obtain path where path: "argument args ''--vm-template'' = Some path" "rendered = source"
      by (auto simp: checked_template_def split: if_splits option.splits)
    with l have "vh_ReadFile h path w = Inr rendered" "w1 = w" by (auto simp: load_template_def map_sum_def split: sum.splits)
    moreover from assms l ch d path True have "out = finish_args command args path" "w' = w1"
      by (auto simp: place_template_def ok_then_def Let_def split: prod.splits sum.splits)
    ultimately show ?thesis using path True d n checked_template_valid[OF ch] by (intro exI[of _ rendered] exI[of _ path]) simp
  next
    case False
    from assms l ch d False obtain dest where
      "run_state (write_rendered h q command (argument args ''--vm-template'') rendered) w1 = (Inr dest, w')"
      "out = finish_args command args dest"
      by (auto simp: place_template_def ok_then_def Let_def split: prod.splits sum.splits)
    then show ?thesis using write_rendered_wrote[of h q command "argument args ''--vm-template''" rendered w1 dest w'] False d n checked_template_valid[OF ch]
      by (intro exI[of _ rendered] exI[of _ dest]) simp
  qed
qed

text \<open>
  C37: virtbench creates VMs with its commands datasource-clone, disk-ops and fio (unless the action
  of fio is one on VMs that exist already). Whenever the harness starts it for one of these, whether
  it then succeeds or fails, the VM template that its command line names was written before, in the
  world in which it starts, from a manifest with exactly one complete VM whose name is the one
  virtbench polls for; a storage class is set, a template of the user is not overwritten, and for a
  clone the disks of the manifest are as many as the command line says. A prepared template, of a
  snapshot clone, is checked in the same way but not written again. When the preparation fails,
  virtbench is not started and the run returns that error.
\<close>

theorem virtbench_vm_checked:
  assumes "run_state (execVirtbench h c q) w = (e, w')"
    and "virtbenchCommand (mq_Args q) = command" and "command = ''datasource-clone'' \<or> command = ''disk-ops'' \<or> command = ''fio''"
  shows "(\<exists>err. run_state (prepareManifest h c q) w = (Inl err, w') \<and> e = Some err) \<or>
    (\<exists>out w1. run_state (perform h (Run_tool c ''virtbench'' out None (mq_Directory q))) w1 = (e, w') \<and>
       (vm_ready h q command out w w1 \<or>
        w1 = w \<and> command = ''fio'' \<and> (\<exists>action. argument out ''--action'' = Some action \<and> action \<notin> {[], ''deploy'', ''run-all''})))"
proof (cases "fst (run_state (prepareManifest h c q) w)")
  case (Inl err)
  then show ?thesis using assms(1) by (cases "run_state (prepareManifest h c q) w") (auto simp: execVirtbench_def)
next
  case (Inr out)
  then obtain w1 where p: "run_state (prepareManifest h c q) w = (Inr out, w1)" by (metis prod.collapse)
  with assms(1) have r: "run_state (perform h (Run_tool c ''virtbench'' out None (mq_Directory q))) w1 = (e, w')"
    by (simp add: execVirtbench_def)
  have cmd: "command \<in> set vm_commands" using assms(3) by (auto simp: vm_commands_def)
  from p cmd obtain vals where v: "resolveTemplateValues command (mq_Args q @ planTemplateArgs command (mq_TR q)) = Inr vals"
    by (auto simp: prepareManifest_def Let_def assms(2) split: option.splits sum.splits)
  let ?args = "explicit_args command vals (mq_Args q)"
  show ?thesis
  proof (cases "no_vm_action command ?args")
    case True
    with p cmd v have "out = ?args" "w1 = w"
      by (auto simp: prepareManifest_def Let_def assms(2) split: option.splits)
    with True r show ?thesis by (auto simp: no_vm_action_def split: option.splits)
  next
    case False
    with p cmd v have sc: "key vals ''STORAGE_CLASS_NAME'' \<noteq> AStr []"
      and pl: "run_state (place_template h c q command ?args vals) w = (Inr out, w1)"
      by (auto simp: prepareManifest_def Let_def assms(2) split: option.splits if_splits)
    from place_template_ok[OF pl] obtain rendered dest where
      "out = finish_args command ?args dest" "valid_vm h rendered (key vals ''VM_NAME'')" "disk_mismatch h command ?args rendered = None"
      "if mq_Prepared q then argument ?args ''--vm-template'' = Some dest \<and> vh_ReadFile h dest w = Inr rendered \<and> w1 = w
       else (\<forall>p. argument ?args ''--vm-template'' = Some p \<longrightarrow> vh_Abs h p \<noteq> Inr dest) \<and> (\<exists>w2. wrote h dest rendered w2 w1)"
      by blast
    with v sc disk_mismatch_None have "vm_ready h q command out w w1"
      unfolding vm_ready_def by (intro exI[of _ vals] exI[of _ ?args] exI[of _ rendered] exI[of _ dest]) auto
    with r show ?thesis by blast
  qed
qed

definition calm_reply :: reply where
  "calm_reply = \<lparr> rp_Stdout = [], rp_Stderr = [], rp_Combined = [], rp_End = Ended \<rparr>"

definition demo_vm :: object where
  "demo_vm = [(''apiVersion'', AStr ''kubevirt.io/v1''), (''kind'', AStr ''VirtualMachine''),
     (''metadata'', AObj [(''name'', AStr ''rhel-9-vm'')]), (''spec'', AObj [(''running'', ABool True)])]"

text \<open>A host on which every operation succeeds and every template renders to the demo VM.\<close>

definition calm_host :: "vb_codec \<Rightarrow> snapshot_codec \<Rightarrow> probe_codec \<Rightarrow> unit vb_host" where
  "calm_host vx sx px =
     \<lparr> vh_Do = (\<lambda>_. State_Monad.return calm_reply), vh_LookPath = Inr, vh_ReadFile = (\<lambda>_ _. Inr ''tmpl''), vh_Stat = (\<lambda>_ _. Inr False),
       vh_Walk = (\<lambda>_ _. []), vh_Now = (\<lambda>_. 0), vh_Draw = (\<lambda>_ _. Inr 0), vh_ctxErr = (\<lambda>_ _. None), vh_Abs = Inr, vh_EvalSymlinks = Inr,
       vh_Getenv = (\<lambda>_. []), vh_Hostname = Inl ''none'', vh_Timestamp = (\<lambda>_. ''now''), vh_Embedded = (\<lambda>_. Inr ''tmpl''),
       vh_yaml = (\<lambda>_. [Inr demo_vm]), vh_engine = \<lparr> te_Funcs = (\<lambda>_. False), te_Parse = (\<lambda>_ _. Inr (\<lambda>_ _. Inr ''vm'')) \<rparr>,
       vh_codec = vx, vh_snapshot = sx, vh_probe = px, vh_claim = (\<lambda>_. Inl ''none''), vh_Records = False \<rparr>"

definition demo_clone :: manifest_request where
  "demo_clone = plain_request ''/r'' [''datasource-clone'', ''--storage-class'', ''gold''] (zero_test_requirement\<lparr>tr_ID := ''TR-VIRT-002''\<rparr>)"

lemma demo_values:
  "resolveTemplateValues ''datasource-clone'' [''datasource-clone'', ''--storage-class'', ''gold''] =
     Inr [(''VM_NAME'', AStr defaultVMName), (''STORAGE_CLASS_NAME'', AStr ''gold''), (''VM_PASSWORD'', AStr ''changeme''),
          (''DATASOURCE_NAME'', AStr []), (''DATASOURCE_NAMESPACE'', AStr imageNamespace)]"
  by (simp add: resolveTemplateValues_def templateInputs_def tin_def input_value_def has_prefix_def Let_def gm_set_def)

lemma demo_args:
  "explicit_args ''datasource-clone'' [(''VM_NAME'', AStr defaultVMName), (''STORAGE_CLASS_NAME'', AStr ''gold''), (''VM_PASSWORD'', AStr ''changeme''),
      (''DATASOURCE_NAME'', AStr []), (''DATASOURCE_NAMESPACE'', AStr imageNamespace)] [''datasource-clone'', ''--storage-class'', ''gold''] =
   [''datasource-clone'', ''--storage-class'', ''gold'', ''--vm-name'', defaultVMName]"
  by (simp add: explicit_args_def templateInputs_def tin_def add_default_def has_prefix_def Let_def key_def gm_get_def defaultVMName_def)


text \<open>The same host, on which every started program exits with an error.\<close>

definition broken_host :: "vb_codec \<Rightarrow> snapshot_codec \<Rightarrow> probe_codec \<Rightarrow> unit vb_host" where
  "broken_host vx sx px = (calm_host vx sx px)\<lparr>vh_Do := (\<lambda>op. State_Monad.return
     (case op of Run_tool c cli args input dir \<Rightarrow> calm_reply\<lparr>rp_End := Exit_error ''exit status 1''\<rparr> | _ \<Rightarrow> calm_reply))\<rparr>"

lemma broken_perform:
  "run_state (perform (broken_host vx sx px) (Make_dir d)) () = (None, ())"
  "run_state (perform (broken_host vx sx px) (Write_file p x)) () = (None, ())"
  "run_state (perform (broken_host vx sx px) (Run_tool c cli args input d)) () = (Some ''exit status 1'', ())"
  by (simp_all add: perform_def broken_host_def calm_host_def calm_reply_def end_error_def)

lemma calm_fields [simp]:
  "vh_Abs (calm_host vx sx px) = Inr" "vh_ctxErr (calm_host vx sx px) = (\<lambda>_ _. None)"
  by (simp_all add: calm_host_def)

lemma broken_fields [simp]:
  "vh_Abs (broken_host vx sx px) = Inr" "vh_ctxErr (broken_host vx sx px) = (\<lambda>_ _. None)"
  by (simp_all add: broken_host_def calm_host_def)

lemma broken_render: "vmRender (broken_host vx sx px) name source values = Inr ''vm''"
  by (simp add: vmRender_def manifest_Render_def GoTemplate_Render_def broken_host_def calm_host_def alias_conflict_def vm_aliases_def
      Documents_def demo_vm_def has_prefix_def)

lemma broken_documents: "Documents (vh_yaml (broken_host vx sx px)) text = Inr [demo_vm]"
  by (simp add: Documents_def broken_host_def calm_host_def demo_vm_def)

lemma broken_valid: "valid_vm (broken_host vx sx px) text (AStr ''rhel-9-vm'')"
  unfolding valid_vm_def broken_documents by (simp add: demo_vm_def key_def gm_get_def obj_of_def)

lemma broken_source: "run_state (vmSourceTemplate (broken_host vx sx px) c (zero_test_requirement\<lparr>tr_ID := ''TR-VIRT-002''\<rparr>)) () = (Inr (''tmpl'', True), ())"
  by (simp add: vmSourceTemplate_def vb_scenarioFor_def scenario_table_def scenario_row_def embedded_template_def Let_def
      strParamOr_def zero_test_requirement_def singleNodeVMTemplatePath_def broken_host_def calm_host_def)

lemma broken_clone:
  "run_state (execVirtbench (broken_host vx sx px) Run_ctx demo_clone) () = (Some ''exit status 1'', ()) \<and>
     \<not> (\<exists>err. run_state (prepareManifest (broken_host vx sx px) Run_ctx demo_clone) () = (Inl err, ()))"
proof -
  let ?h = "broken_host vx sx px"
  let ?vals = "[(''VM_NAME'', AStr defaultVMName), (''STORAGE_CLASS_NAME'', AStr ''gold''), (''VM_PASSWORD'', AStr ''changeme''),
          (''DATASOURCE_NAME'', AStr []), (''DATASOURCE_NAMESPACE'', AStr imageNamespace)]"
  let ?args = "[''datasource-clone'', ''--storage-class'', ''gold'', ''--vm-name'', defaultVMName]"
  have q: "mq_Args demo_clone = [''datasource-clone'', ''--storage-class'', ''gold'']" "\<not> mq_Prepared demo_clone"
    "mq_TR demo_clone = zero_test_requirement\<lparr>tr_ID := ''TR-VIRT-002''\<rparr>" "mq_Directory demo_clone = ''/r''"
    by (simp_all add: demo_clone_def plain_request_def)
  have plan: "planTemplateArgs ''datasource-clone'' (zero_test_requirement\<lparr>tr_ID := ''TR-VIRT-002''\<rparr>) = []"
    by (simp add: planTemplateArgs_def templateInputs_def tin_def zero_test_requirement_def)
  have tr: "default_tr ''datasource-clone'' (zero_test_requirement\<lparr>tr_ID := ''TR-VIRT-002''\<rparr>) = zero_test_requirement\<lparr>tr_ID := ''TR-VIRT-002''\<rparr>"
    by (simp add: default_tr_def)
  have none: "argument ?args ''--vm-template'' = None" "argument ?args ''--num-disks'' = None"
    by (simp_all add: has_prefix_def defaultVMName_def)
  have chk: "checked_template ?h demo_clone ''datasource-clone'' None (gm_set ''TARGET_NODE'' t ?vals) ''tmpl'' = Inr ''vm''" for t
  proof -
    have "validateVMTemplate ?h ''vm'' (gm_set ''TARGET_NODE'' t ?vals) = None"
      unfolding validateVMTemplate_None using broken_valid[of vx sx px "''vm''"] by (simp add: key_def gm_get_Cons defaultVMName_def)
    then show ?thesis by (simp add: checked_template_def q renderVMTemplate_def broken_render)
  qed
  have wr: "run_state (write_rendered ?h demo_clone ''datasource-clone'' None ''vm'') () = (Inr ''/r/rendered/datasource-clone-vm.yaml'', ())"
    by (simp add: write_rendered_def Let_def writeTemplateFile_def broken_perform q path_join_def path_clean_def path_of_def path_comps_def
        path_is_abs_def SLASH_def)
  have pl: "run_state (place_template ?h Run_ctx demo_clone ''datasource-clone'' ?args ?vals) () =
      (Inr (finish_args ''datasource-clone'' ?args ''/r/rendered/datasource-clone-vm.yaml''), ())"
    using none by (simp add: place_template_def ok_then_def load_template_def q tr broken_source Let_def chk disk_mismatch_def wr)
  have "run_state (prepareManifest ?h Run_ctx demo_clone) () =
      (Inr (finish_args ''datasource-clone'' ?args ''/r/rendered/datasource-clone-vm.yaml''), ())"
    by (simp add: prepareManifest_def q plan demo_values demo_args Let_def pl vm_commands_def no_vm_action_def has_prefix_def key_def gm_get_Cons)
  then show ?thesis by (simp add: execVirtbench_def broken_perform)
qed

text \<open>Virtbench fails here after it was started: the manifest was checked all the same.\<close>

theorem virtbench_vm_checked_witness:
  "\<forall>vx sx px. run_state (execVirtbench (broken_host vx sx px) Run_ctx demo_clone) () = (Some ''exit status 1'', ()) \<and>
     (\<exists>rendered dest. valid_vm (broken_host vx sx px) rendered (AStr ''rhel-9-vm'') \<and> wrote (broken_host vx sx px) dest rendered () ())"
proof (intro allI conjI)
  fix vx sx px
  show r: "run_state (execVirtbench (broken_host vx sx px) Run_ctx demo_clone) () = (Some ''exit status 1'', ())"
    using broken_clone by blast
  have c: "virtbenchCommand (mq_Args demo_clone) = ''datasource-clone''" "\<not> mq_Prepared demo_clone"
    by (simp_all add: demo_clone_def plain_request_def has_prefix_def)
  have v: "resolveTemplateValues ''datasource-clone'' (mq_Args demo_clone @ planTemplateArgs ''datasource-clone'' (mq_TR demo_clone)) = Inr vals
      \<Longrightarrow> key vals ''VM_NAME'' = AStr ''rhel-9-vm''" for vals
    using demo_values by (auto simp: demo_clone_def plain_request_def planTemplateArgs_def templateInputs_def tin_def
        zero_test_requirement_def key_def gm_get_Cons defaultVMName_def)
  from virtbench_vm_checked[OF r c(1) disjI1[OF refl]] broken_clone[of vx sx px]
  obtain out w1 where "vm_ready (broken_host vx sx px) demo_clone ''datasource-clone'' out () w1" by auto
  with v c(2) show "\<exists>rendered dest. valid_vm (broken_host vx sx px) rendered (AStr ''rhel-9-vm'') \<and> wrote (broken_host vx sx px) dest rendered () ()"
    unfolding vm_ready_def by (metis (full_types) old.unit.exhaust)
qed

end
