(* ===== verification/Virtbench_Setup.thy ===== *)
theory Virtbench_Setup
  imports Virtbench_Manifest
begin

text \<open>
  setup.go of \<open>internal/tools/virtbench\<close>: the shared helper pod. Its set-up is a loop that reads
  the pod, reacts to its state and pauses; a failed set-up rolls back with a second loop on a detached
  context; the tear-down deletes the pod. The loops may run for ever, so they are partial functions
  into an option. What is only logged is left out, and the mutex makes each operation one step.
\<close>

section \<open>The pod\<close>

definition sshPodName :: string where "sshPodName = ''ssh-test-pod''"
definition sshPodNS :: string where "sshPodNS = ''default''"
definition sshPodAnnotPrefix :: string where "sshPodAnnotPrefix = ''storage-cert-harness.redhat.com/''"

definition sshPodHarnessRunID :: "ssh_pod \<Rightarrow> string" where
  "sshPodHarnessRunID pod = trim_space (gm_str (pod_Annotations pod) (sshPodAnnotPrefix @ ''run-id''))"

definition sshPodOnNode :: "ssh_pod \<Rightarrow> string list \<Rightarrow> bool" where
  "sshPodOnNode pod avoid = (pod_NodeName pod \<noteq> [] \<and> pod_NodeName pod \<in> set avoid)"

definition get_pod_args :: "string list" where
  "get_pod_args = [''get'', ''pod'', sshPodName, ''-n'', sshPodNS, ''--ignore-not-found'', ''-o'', ''json'']"

definition read_pod :: "'w vb_host \<Rightarrow> string \<times> bool \<times> string option \<Rightarrow> string option \<Rightarrow> string + ssh_pod option" where
  "read_pod h r ctxErr =
     (case r of (out, ok, err) \<Rightarrow>
        (case err of
           Some e \<Rightarrow> Inl (''get ssh helper pod: '' @ e)
         | None \<Rightarrow>
             (case ctxErr of
                Some e \<Rightarrow> Inl (''get ssh helper pod: '' @ e)
              | None \<Rightarrow>
                  if \<not> ok then Inl (''get ssh helper pod '' @ sshPodNS @ ''/'' @ sshPodName @ '': '' @ trim_space out)
                  else if trim_space out = [] then Inr None
                  else (case vx_pod (vh_codec h) out of
                          Inl e \<Rightarrow> Inl (''decode ssh helper pod: '' @ e)
                        | Inr pod \<Rightarrow> Inr (Some pod)))))"

definition getSSHPod :: "'w vb_host \<Rightarrow> vb_ctx \<Rightarrow> string \<Rightarrow> ('w, string + ssh_pod option) state" where
  "getSSHPod h c kubeconfig = do {
     r \<leftarrow> runKubectl h c kubeconfig get_pod_args;
     e \<leftarrow> asks (vh_ctxErr h c);
     State_Monad.return (read_pod h r e)
   }"

definition sshpassReady :: "'w vb_host \<Rightarrow> vb_ctx \<Rightarrow> string \<Rightarrow> ('w, bool) state" where
  "sshpassReady h c kubeconfig = do {
     r \<leftarrow> runKubectl h c kubeconfig [''exec'', ''-n'', sshPodNS, sshPodName, ''--'', ''/bin/bash'', ''-c'', ''command -v sshpass >/dev/null''];
     State_Monad.return (fst (snd r))
   }"

section \<open>Creating and annotating\<close>

definition sshPodBootstrapAnnotations :: "'w vb_host \<Rightarrow> run_ctx \<Rightarrow> 'w \<Rightarrow> (string, string) gomap" where
  "sshPodBootstrapAnnotations h rc w =
     (let a0 = [(sshPodAnnotPrefix @ ''run-id'', rc_RunID rc), (sshPodAnnotPrefix @ ''bootstrap-at'', vh_Timestamp h (vh_Now h w))];
          a1 = (if rc_PartKind rc \<noteq> [] then gm_set (sshPodAnnotPrefix @ ''part-kind'') (rc_PartKind rc) a0 else a0)
      in case vh_Hostname h of
           Inr host \<Rightarrow> if host \<noteq> [] then gm_set (sshPodAnnotPrefix @ ''bootstrap-host'') host a1 else a1
         | Inl _ \<Rightarrow> a1)"

definition sortedMapKeys :: "(string, string) gomap \<Rightarrow> string list" where
  "sortedMapKeys m = sort (map fst m)"

definition sshPodManifestForNodes :: "'w vb_host \<Rightarrow> string list \<Rightarrow> (string, string) gomap \<Rightarrow> string + string" where
  "sshPodManifestForNodes h avoid annotations =
     (case vh_Embedded h ''templates/shared/ssh-pod.yaml'' of
        Inl err \<Rightarrow> Inl err
      | Inr source \<Rightarrow> vmRender h ''ssh-pod.yaml'' source
          [(''NAME'', AStr sshPodName), (''NAMESPACE'', AStr sshPodNS),
           (''ANNOTATIONS'', AObj (map (\<lambda>(k, v). (k, AStr v)) annotations)), (''AVOID_NODES'', AList (map AStr (sort avoid)))])"

definition kubectlCreateSSHPod :: "'w vb_host \<Rightarrow> vb_ctx \<Rightarrow> string \<Rightarrow> string \<Rightarrow> ('w, string + string) state" where
  "kubectlCreateSSHPod h c kubeconfig manifest = do {
     r \<leftarrow> vh_Do h (Run_tool c ''kubectl'' (with_kubeconfig kubeconfig [''create'', ''-f'', ''-'', ''-o'', ''json'']) (Some manifest) []);
     e \<leftarrow> asks (vh_ctxErr h c);
     State_Monad.return (case end_error (rp_End r) of
         Some err \<Rightarrow>
           (case e of
              Some ctxErr \<Rightarrow> Inl (''kubectl create: '' @ ctxErr)
            | None \<Rightarrow> Inl (''kubectl create: '' @ err @ '': '' @ trim_space (rp_Stderr r)))
       | None \<Rightarrow>
           (case vx_pod (vh_codec h) (rp_Stdout r) of
              Inl err \<Rightarrow> Inl (''decode created ssh helper pod: '' @ err)
            | Inr pod \<Rightarrow> Inr (trim_space (pod_UID pod))))
   }"

definition isKubectlAlreadyExists :: "string \<Rightarrow> bool" where
  "isKubectlAlreadyExists err = contains err ''AlreadyExists''"

definition kubectlAnnotatePod :: "'w vb_host \<Rightarrow> vb_ctx \<Rightarrow> string \<Rightarrow> (string, string) gomap \<Rightarrow> ('w, string option) state" where
  "kubectlAnnotatePod h c kubeconfig annotations =
     (if annotations = [] then State_Monad.return None
      else do {
        r \<leftarrow> runKubectl h c kubeconfig ([''annotate'', ''pod'', sshPodName, ''-n'', sshPodNS, ''--overwrite''] @
               map (\<lambda>k. k @ ''='' @ gm_str annotations k) (sortedMapKeys annotations));
        State_Monad.return (case r of (out, ok, err) \<Rightarrow>
            (case err of Some e \<Rightarrow> Some e | None \<Rightarrow> if ok then None else Some (''kubectl annotate: '' @ trim_space out)))
      })"

definition stampSSHPodHarness :: "'w vb_host \<Rightarrow> vb_ctx \<Rightarrow> string \<Rightarrow> run_ctx \<Rightarrow> ssh_pod \<Rightarrow> ('w, string option) state" where
  "stampSSHPodHarness h c kubeconfig rc pod = do {
     a \<leftarrow> asks (sshPodBootstrapAnnotations h rc);
     let ip = trim_space (pod_IP pod);
     e \<leftarrow> kubectlAnnotatePod h c kubeconfig (if ip \<noteq> [] then gm_set (sshPodAnnotPrefix @ ''pod-ip'') ip a else a);
     State_Monad.return (map_option (\<lambda>err. ''annotate ssh helper pod: '' @ err) e)
   }"

section \<open>Deleting\<close>

definition sshPodDeleteAttempts :: nat where "sshPodDeleteAttempts = 3"

definition delete_pod_args :: "string list" where
  "delete_pod_args = [''delete'', ''pod'', sshPodName, ''-n'', sshPodNS, ''--wait=false'', ''--ignore-not-found'']"

text \<open>The wait between two attempts; the error of the context when it ends first.\<close>

definition retry_wait :: "'w vb_host \<Rightarrow> vb_ctx \<Rightarrow> ('w, string option) state" where
  "retry_wait h c = do { r \<leftarrow> vh_Do h (Pause c 100); asks (vh_ctxErr h c) }"

text \<open>\<open>n\<close> further attempts after the current one.\<close>

fun delete_attempts :: "'w vb_host \<Rightarrow> vb_ctx \<Rightarrow> string \<Rightarrow> nat \<Rightarrow> ('w, string option) state" where
  "delete_attempts h c kubeconfig n = do {
     r \<leftarrow> runKubectl h c kubeconfig delete_pod_args;
     case r of (out, ok, err) \<Rightarrow>
       (if err = None \<and> ok then State_Monad.return None
        else
          (let failure = (case err of Some e \<Rightarrow> e | None \<Rightarrow> ''delete ssh helper pod: '' @ trim_space out) in
           case n of
             0 \<Rightarrow> State_Monad.return (Some failure)
           | Suc m \<Rightarrow> do {
               e \<leftarrow> retry_wait h c;
               case e of Some ctxErr \<Rightarrow> State_Monad.return (Some ctxErr) | None \<Rightarrow> delete_attempts h c kubeconfig m
             }))
   }"

declare delete_attempts.simps [simp del]

definition deleteSSHPod :: "'w vb_host \<Rightarrow> vb_ctx \<Rightarrow> string \<Rightarrow> ('w, string option) state" where
  "deleteSSHPod h c kubeconfig = delete_attempts h c kubeconfig (sshPodDeleteAttempts - 1)"

text \<open>The delete of one instance: the sentinel of a failed precondition is a constructor.\<close>

datatype delete_error = UIDPreconditionFailed string | Delete_failed string

definition raw_delete_args :: "string \<Rightarrow> string list" where
  "raw_delete_args file =
     [''delete'', ''--raw'', ''/api/v1/namespaces/'' @ sshPodNS @ ''/pods/'' @ sshPodName, ''-f'', file]"

fun delete_uid_attempts :: "'w vb_host \<Rightarrow> vb_ctx \<Rightarrow> string \<Rightarrow> string \<Rightarrow> nat \<Rightarrow> ('w, delete_error option) state" where
  "delete_uid_attempts h c kubeconfig file n = do {
     r \<leftarrow> runKubectl h c kubeconfig (raw_delete_args file);
     case r of (out, ok, err) \<Rightarrow>
       (let trimmed = trim_space out;
            failure = Delete_failed (case err of Some e \<Rightarrow> e | None \<Rightarrow> ''delete ssh helper pod: '' @ trimmed) in
        if err = None \<and> ok then State_Monad.return None
        else if \<not> ok \<and> contains trimmed ''does not match the UID'' then State_Monad.return (Some (UIDPreconditionFailed trimmed))
        else if \<not> ok \<and> contains trimmed ''NotFound'' then State_Monad.return None
        else case n of
          0 \<Rightarrow> State_Monad.return (Some failure)
        | Suc m \<Rightarrow> do {
            e \<leftarrow> retry_wait h c;
            case e of
              Some ctxErr \<Rightarrow> State_Monad.return (Some (Delete_failed ctxErr))
            | None \<Rightarrow> delete_uid_attempts h c kubeconfig file m
          })
   }"

declare delete_uid_attempts.simps [simp del]

text \<open>The temporary file with the options; its name is the output of the operation that makes it.\<close>

definition writeSSHPodDeleteOptions :: "'w vb_host \<Rightarrow> string \<Rightarrow> ('w, string + string) state" where
  "writeSSHPodDeleteOptions h uid = do {
     r \<leftarrow> vh_Do h (Write_temp (vx_deleteOptions (vh_codec h) uid));
     State_Monad.return (case end_error (rp_End r) of Some err \<Rightarrow> Inl err | None \<Rightarrow> Inr (rp_Stdout r))
   }"

definition deleteSSHPodUID :: "'w vb_host \<Rightarrow> vb_ctx \<Rightarrow> string \<Rightarrow> string \<Rightarrow> ('w, delete_error option) state" where
  "deleteSSHPodUID h c kubeconfig uid0 =
     (let uid = trim_space uid0 in
      if uid = [] then State_Monad.return (Some (Delete_failed ''delete ssh helper pod: missing UID''))
      else do {
        file \<leftarrow> writeSSHPodDeleteOptions h uid;
        case file of
          Inl err \<Rightarrow> State_Monad.return (Some (Delete_failed err))
        | Inr f \<Rightarrow> do {
            e \<leftarrow> delete_uid_attempts h c kubeconfig f (sshPodDeleteAttempts - 1);
            r \<leftarrow> vh_Do h (Remove_file f);
            State_Monad.return e
          }
      })"

section \<open>Roll back\<close>

text \<open>What the loop remembers: since when the pod is absent, the last error, whether it deleted.\<close>

record rollback_state =
  rb_absentSince :: "int option"
  rb_lastErr :: "string option"
  rb_deleteIssued :: bool

definition rollback_start :: rollback_state where
  "rollback_start = \<lparr> rb_absentSince = None, rb_lastErr = None, rb_deleteIssued = False \<rparr>"

definition settle_ns :: int where "settle_ns = 10 ^ 9"

text \<open>One look at the pod: finished, or the next state of the loop.\<close>

definition rollback_look ::
  "'w vb_host \<Rightarrow> string \<Rightarrow> string \<Rightarrow> string \<Rightarrow> rollback_state \<Rightarrow> ('w, rollback_state option) state" where
  "rollback_look h kubeconfig runID createdPodUID s = do {
     p \<leftarrow> getSSHPod h Cleanup_ctx kubeconfig;
     (case p of
        Inl err \<Rightarrow> State_Monad.return (Some (s\<lparr>rb_lastErr := Some err, rb_absentSince := None\<rparr>))
      | Inr None \<Rightarrow> do {
          now \<leftarrow> asks (vh_Now h);
          let since = (case rb_absentSince s of Some t \<Rightarrow> t | None \<Rightarrow> now);
          State_Monad.return (if now - since \<ge> settle_ns then None else Some (s\<lparr>rb_absentSince := Some since\<rparr>))
        }
      | Inr (Some pod) \<Rightarrow>
          if sshPodHarnessRunID pod \<noteq> runID then State_Monad.return None
          else if createdPodUID \<noteq> [] \<and> pod_UID pod \<noteq> createdPodUID then State_Monad.return None
          else if rb_deleteIssued s then State_Monad.return (Some (s\<lparr>rb_absentSince := None\<rparr>))
          else do {
            e \<leftarrow> deleteSSHPodUID h Cleanup_ctx kubeconfig (pod_UID pod);
            State_Monad.return (case e of
                Some (UIDPreconditionFailed _) \<Rightarrow> None
              | Some (Delete_failed err) \<Rightarrow> Some (s\<lparr>rb_absentSince := None, rb_lastErr := Some err\<rparr>)
              | None \<Rightarrow> Some (s\<lparr>rb_absentSince := None, rb_deleteIssued := True\<rparr>))
          })
   }"

text \<open>Then the next tick, every second once a delete was issued, or the end of the context.\<close>

definition rollback_step ::
  "'w vb_host \<Rightarrow> string \<Rightarrow> string \<Rightarrow> string \<Rightarrow> rollback_state \<Rightarrow> ('w, string option + rollback_state) state" where
  "rollback_step h kubeconfig runID createdPodUID s = do {
     l \<leftarrow> rollback_look h kubeconfig runID createdPodUID s;
     (case l of
        None \<Rightarrow> State_Monad.return (Inl None)
      | Some s' \<Rightarrow> do {
          r \<leftarrow> vh_Do h (Pause Cleanup_ctx (if rb_deleteIssued s' then 1000 else 50));
          e \<leftarrow> asks (vh_ctxErr h Cleanup_ctx);
          State_Monad.return (case e of
              Some ctxErr \<Rightarrow> Inl (Some (case rb_lastErr s' of Some err \<Rightarrow> ''reconcile ssh helper pod rollback: '' @ err | None \<Rightarrow> ctxErr))
            | None \<Rightarrow> Inr s')
        })
   }"

partial_function (option) rollback_loop ::
  "'w vb_host \<Rightarrow> string \<Rightarrow> string \<Rightarrow> string \<Rightarrow> rollback_state \<Rightarrow> 'w \<Rightarrow> (string option \<times> 'w) option" where
  "rollback_loop h kubeconfig runID createdPodUID s w =
     (case run_state (rollback_step h kubeconfig runID createdPodUID s) w of
        (Inl r, w') \<Rightarrow> Some (r, w')
      | (Inr s', w') \<Rightarrow> rollback_loop h kubeconfig runID createdPodUID s' w')"

definition rollbackSSHPod :: "'w vb_host \<Rightarrow> string \<Rightarrow> string \<Rightarrow> string \<Rightarrow> 'w \<Rightarrow> (string option \<times> 'w) option" where
  "rollbackSSHPod h kubeconfig runID createdPodUID w =
     (if trim_space runID = [] then Some (Some ''cannot roll back ssh helper pod without a harness run ID'', w)
      else rollback_loop h kubeconfig runID createdPodUID rollback_start w)"

section \<open>Set up\<close>

definition hostname_jsonpath :: string where
  "hostname_jsonpath = ''jsonpath={.metadata.labels.kubernetes'' @ [CHR 0x5C] @ ''.io/hostname}''"

text \<open>The nodes that the plan is going to fail: their names and hostname labels.\<close>

fun sshHelperAvoidNodes ::
  "'w vb_host \<Rightarrow> string \<Rightarrow> test_requirement list \<Rightarrow> string list \<Rightarrow> string list \<Rightarrow> ('w, string + string list \<times> string list) state" where
  "sshHelperAvoidNodes h kubeconfig [] names labels = State_Monad.return (Inr (names, labels))"
| "sshHelperAvoidNodes h kubeconfig (tr # trs) names labels =
     (let node = strParamOr tr ''node'' [] in
      if node = [] then sshHelperAvoidNodes h kubeconfig trs names labels
      else do {
        r \<leftarrow> runKubectl h Run_ctx kubeconfig [''get'', ''node'', node, ''-o'', hostname_jsonpath];
        case r of (out, ok, err) \<Rightarrow>
          (let label = trim_space out; fail = (\<lambda>e. State_Monad.return (Inl (''get FAR target node '' @ node @ '': '' @ e))) in
           case err of
             Some e \<Rightarrow> fail e
           | None \<Rightarrow> if \<not> ok \<or> label = [] then fail label
                     else sshHelperAvoidNodes h kubeconfig trs (List.insert node names) (List.insert label labels))
      })"

text \<open>Whether a create was attempted, and the UID it returned.\<close>

type_synonym setup_state = "bool \<times> string"

definition wait_error :: "string \<Rightarrow> string" where
  "wait_error err = ''wait for ssh helper pod '' @ sshPodNS @ ''/'' @ sshPodName @ '': '' @ err"

definition setup_pause :: "'w vb_host \<Rightarrow> setup_state \<Rightarrow> ('w, string option + setup_state) state" where
  "setup_pause h s = do {
     r \<leftarrow> vh_Do h (Pause Setup_ctx 5000);
     e \<leftarrow> asks (vh_ctxErr h Setup_ctx);
     State_Monad.return (case e of Some err \<Rightarrow> Inl (Some (wait_error err)) | None \<Rightarrow> Inr s)
   }"

definition setup_create ::
  "'w vb_host \<Rightarrow> run_ctx \<Rightarrow> string \<Rightarrow> string list \<Rightarrow> setup_state \<Rightarrow> ('w, (string option + setup_state) \<times> setup_state) state" where
  "setup_create h rc kubeconfig labels s = do {
     a \<leftarrow> asks (sshPodBootstrapAnnotations h rc);
     (case sshPodManifestForNodes h labels a of
        Inl err \<Rightarrow> State_Monad.return (Inl (Some err), s)
      | Inr manifest \<Rightarrow> do {
          u \<leftarrow> kubectlCreateSSHPod h Setup_ctx kubeconfig manifest;
          let s1 = (True, snd s);
          State_Monad.return (case u of
              Inl err \<Rightarrow> if isKubectlAlreadyExists err then (Inr s1, s1) else (Inl (Some (''create ssh helper pod: '' @ err)), s1)
            | Inr uid \<Rightarrow> (let s2 = (True, if uid \<noteq> [] then uid else snd s) in (Inr s2, s2)))
        })
   }"

definition setup_replace ::
  "'w vb_host \<Rightarrow> string \<Rightarrow> string \<Rightarrow> setup_state \<Rightarrow> ('w, string option + setup_state) state" where
  "setup_replace h kubeconfig what s = do {
     r \<leftarrow> runKubectl h Setup_ctx kubeconfig delete_pod_args;
     State_Monad.return (case r of (out, ok, err) \<Rightarrow>
         if err \<noteq> None \<or> \<not> ok then
           Inl (Some (what @ (case err of Some e \<Rightarrow> e | None \<Rightarrow> ''<nil>'') @ '': '' @ trim_space out))
         else Inr s)
   }"

text \<open>One iteration: the result of the set-up or another one; the second component is what it knows then.\<close>

definition ssh_setup_step ::
  "'w vb_host \<Rightarrow> run_ctx \<Rightarrow> string \<Rightarrow> string list \<Rightarrow> string list \<Rightarrow> setup_state \<Rightarrow> ('w, (string option + setup_state) \<times> setup_state) state" where
  "ssh_setup_step h rc kubeconfig names labels s = do {
     cancelled \<leftarrow> asks (vh_ctxErr h Setup_ctx);
     (case cancelled of
        Some err \<Rightarrow> State_Monad.return (Inl (Some (wait_error err)), s)
      | None \<Rightarrow> do {
          p \<leftarrow> getSSHPod h Setup_ctx kubeconfig;
          let keep = (\<lambda>m. do { r \<leftarrow> m; State_Monad.return (r, s) });
          (case p of
             Inl err \<Rightarrow> State_Monad.return (Inl (Some err), s)
           | Inr None \<Rightarrow> setup_create h rc kubeconfig labels s
           | Inr (Some pod) \<Rightarrow>
               if pod_DeletionTimestamp pod \<noteq> [] then keep (setup_pause h s)
               else if pod_Phase pod = ''Failed'' \<or> pod_Phase pod = ''Succeeded'' then
                 keep (setup_replace h kubeconfig ''delete stopped ssh helper pod: '' s)
               else if sshPodOnNode pod names then
                 keep (setup_replace h kubeconfig ''delete ssh helper on FAR target node: '' s)
               else do {
                 ready \<leftarrow> (if pod_Phase pod = ''Running'' then sshpassReady h Setup_ctx kubeconfig else State_Monad.return False);
                 if ready then do {
                   e \<leftarrow> stampSSHPodHarness h Setup_ctx kubeconfig rc pod;
                   State_Monad.return (Inl e, s)
                 }
                 else keep (setup_pause h s)
               })
        })
   }"

partial_function (option) setup_loop ::
  "'w vb_host \<Rightarrow> run_ctx \<Rightarrow> string \<Rightarrow> string list \<Rightarrow> string list \<Rightarrow> setup_state \<Rightarrow> 'w \<Rightarrow> ((string option \<times> setup_state) \<times> 'w) option" where
  "setup_loop h rc kubeconfig names labels s w =
     (case run_state (ssh_setup_step h rc kubeconfig names labels s) w of
        ((Inl r, s'), w') \<Rightarrow> Some ((r, s'), w')
      | ((Inr s', t), w') \<Rightarrow> setup_loop h rc kubeconfig names labels s' w')"

text \<open>The deferred roll-back runs when the set-up failed after an attempt to create the pod.\<close>

definition ssh_Setup :: "'w vb_host \<Rightarrow> run_ctx \<Rightarrow> test_requirement list \<Rightarrow> 'w \<Rightarrow> (string option \<times> 'w) option" where
  "ssh_Setup h rc trs w =
     (if allReplayTRs trs then Some (None, w)
      else case run_state (sshHelperAvoidNodes h (kubeconfigOf trs) trs [] []) w of
        (Inl err, w1) \<Rightarrow> Some (Some err, w1)
      | (Inr (names, labels), w1) \<Rightarrow>
          (case setup_loop h rc (kubeconfigOf trs) names labels (False, []) w1 of
             None \<Rightarrow> None
           | Some ((None, s), w2) \<Rightarrow> Some (None, w2)
           | Some ((Some err, (attempted, uid)), w2) \<Rightarrow>
               if attempted then map_option (\<lambda>(e, w3). (Some err, w3)) (rollbackSSHPod h (kubeconfigOf trs) (rc_RunID rc) uid w2)
               else Some (Some err, w2)))"

definition ssh_Teardown :: "'w vb_host \<Rightarrow> test_requirement list \<Rightarrow> ('w, string option) state" where
  "ssh_Teardown h trs =
     (if allReplayTRs trs then State_Monad.return None
      else do {
        p \<leftarrow> getSSHPod h Run_ctx (kubeconfigOf trs);
        deleteSSHPod h Cleanup_ctx (kubeconfigOf trs)
      })"

section \<open>Namespaces\<close>

text \<open>\<open>strings.SplitSeq\<close> at line feeds.\<close>

definition listNamespacesByPrefix :: "'w vb_host \<Rightarrow> vb_ctx \<Rightarrow> string \<Rightarrow> string \<Rightarrow> ('w, string + string list) state" where
  "listNamespacesByPrefix h c kubeconfig pfx = do {
     r \<leftarrow> runKubectl h c kubeconfig [''get'', ''ns'', ''-o'', ''name''];
     State_Monad.return (case r of (out, ok, err) \<Rightarrow>
         (case err of
            Some e \<Rightarrow> Inl e
          | None \<Rightarrow>
              if \<not> ok then Inl (''kubectl get ns failed: '' @ trim_space out)
              else Inr (filter (\<lambda>name. name \<noteq> [] \<and> has_prefix name pfx)
                     (map (\<lambda>line. trim_prefix (trim_space line) ''namespace/'') (split_on (CHR 0x0A) (trim_space out))))))
   }"

definition delete_ns_args :: "string \<Rightarrow> string list" where
  "delete_ns_args ns = [''delete'', ''ns'', ns, ''--wait=false'', ''--ignore-not-found'']"

definition deleteNamespace :: "'w vb_host \<Rightarrow> vb_ctx \<Rightarrow> string \<Rightarrow> string \<Rightarrow> ('w, string option) state" where
  "deleteNamespace h c kubeconfig ns = do {
     r \<leftarrow> runKubectl h c kubeconfig (delete_ns_args ns);
     State_Monad.return (case r of (out, ok, err) \<Rightarrow>
         (case err of Some e \<Rightarrow> Some e | None \<Rightarrow> if ok then None else Some (''kubectl delete ns '' @ ns @ '': '' @ trim_space out)))
   }"


section \<open>What the set-up does\<close>

definition kubectl_op :: "vb_op \<Rightarrow> bool" where
  "kubectl_op op = ((\<exists>c args input. op = Run_tool c ''kubectl'' args input []) \<or> (\<exists>c n. op = Pause c n))"

lemma kubectl_op_simps [simp]:
  "kubectl_op (Run_tool c ''kubectl'' args input [])" "kubectl_op (Pause c n)"
  "\<not> kubectl_op (Write_temp d)" "\<not> kubectl_op (Remove_file f)"
  by (simp_all add: kubectl_op_def)

lemma does_runKubectl [does_rules]:
  "may (Run_tool c ''kubectl'' (with_kubeconfig kubeconfig args) None []) \<Longrightarrow> (\<And>r. P r) \<Longrightarrow> does h may w0 (runKubectl h c kubeconfig args) P"
  using does_kubectl[of may c kubeconfig args h w0] by (auto elim: does_weaken)

lemma does_ask [does_rules]: "(\<And>x. P x) \<Longrightarrow> does h may w0 (asks f) P"
  by (simp add: does_asks)

lemma does_perform_op [does_rules]: "may op \<Longrightarrow> (\<And>r. P r) \<Longrightarrow> does h may w0 (vh_Do h op) P"
  using does_Do[of may op h w0] by (auto elim: does_weaken)

text \<open>A sequence in which nothing is known of the first result.\<close>

lemma does_seq [does_rules]:
  "does h may w0 m (\<lambda>_. True) \<Longrightarrow> (\<And>x. does h may w0 (f x) P) \<Longrightarrow> does h may w0 (State_Monad.bind m f) P"
  by (rule does_bind)

lemma getSSHPod_one_op:
  "run_state (getSSHPod h c kc) w = (p, w') \<Longrightarrow>
     \<exists>r. run_state (vh_Do h (Run_tool c ''kubectl'' (with_kubeconfig kc get_pod_args) None [])) w = (r, w')"
  by (auto simp: getSSHPod_def runKubectl_def split: prod.splits)

lemma does_getSSHPod:
  assumes "may (Run_tool c ''kubectl'' (with_kubeconfig kc get_pod_args) None [])"
  shows "does h may w0 (getSSHPod h c kc) (\<lambda>p. \<exists>w1 w2. reaches h may w0 w1 \<and> run_state (getSSHPod h c kc) w1 = (p, w2))"
proof -
  have "does h may w0 (getSSHPod h c kc) (\<lambda>_. True)"
    unfolding getSSHPod_def by (intro does_rules TrueI) (rule assms)
  then show ?thesis unfolding does_def by blast
qed

lemma does_stamp: "does h kubectl_op w0 (stampSSHPodHarness h c kc rc pod) (\<lambda>_. True)"
  unfolding stampSSHPodHarness_def kubectlAnnotatePod_def Let_def by (intro does_rules TrueI) simp_all

lemma does_create: "does h kubectl_op w0 (setup_create h rc kc labels s) (\<lambda>_. True)"
  unfolding setup_create_def kubectlCreateSSHPod_def Let_def by (intro does_rules TrueI) simp_all

lemma does_replace: "does h kubectl_op w0 (setup_replace h kc what s) (\<lambda>_. True)"
  unfolding setup_replace_def by (intro does_rules TrueI) simp_all

lemma does_pause: "does h kubectl_op w0 (setup_pause h s) (\<lambda>_. True)"
  unfolding setup_pause_def by (intro does_rules TrueI) simp_all

lemma does_ready: "does h kubectl_op w0 (sshpassReady h c kc) (\<lambda>_. True)"
  unfolding sshpassReady_def by (intro does_rules TrueI) simp_all

lemma does_pod: "does h kubectl_op w0 (getSSHPod h c kc) (\<lambda>_. True)"
  unfolding getSSHPod_def by (intro does_rules TrueI) simp_all

lemma does_setup_step: "does h kubectl_op w0 (ssh_setup_step h rc kc names labels s) (\<lambda>_. True)"
  unfolding ssh_setup_step_def Let_def
  by (intro does_rules TrueI does_stamp does_create does_replace does_pause does_ready does_pod)

lemma does_avoid: "does h kubectl_op w0 (sshHelperAvoidNodes h kc trs names labels) (\<lambda>_. True)"
proof (induction trs arbitrary: names labels)
  case (Cons tr trs)
  show ?case unfolding sshHelperAvoidNodes.simps Let_def
    by (intro does_rules TrueI Cons.IH) simp_all
qed (simp add: does_return)


section \<open>The loops end\<close>

text \<open>
  Time on a context: one that has ended stays so, and while it lasts every operation uses up some of
  its budget, the way a context with a time limit behaves.
\<close>

definition timed :: "'w vb_host \<Rightarrow> vb_ctx \<Rightarrow> ('w \<Rightarrow> nat) \<Rightarrow> bool" where
  "timed h c budget =
     (\<forall>op w r w'. run_state (vh_Do h op) w = (r, w') \<longrightarrow>
        (vh_ctxErr h c w \<noteq> None \<longrightarrow> vh_ctxErr h c w' \<noteq> None) \<and> (vh_ctxErr h c w' = None \<longrightarrow> budget w' < budget w))"

definition time_left :: "'w vb_host \<Rightarrow> vb_ctx \<Rightarrow> ('w \<Rightarrow> nat) \<Rightarrow> 'w \<Rightarrow> nat" where
  "time_left h c budget w = (if vh_ctxErr h c w = None then Suc (budget w) else 0)"

lemma time_left_op:
  "timed h c budget \<Longrightarrow> run_state (vh_Do h op) w = (r, w') \<Longrightarrow> vh_ctxErr h c w = None \<Longrightarrow>
     time_left h c budget w' < time_left h c budget w"
  unfolding timed_def time_left_def by (metis Suc_less_eq zero_less_Suc)

lemma time_left_reaches: "reaches h may w0 w \<Longrightarrow> timed h c budget \<Longrightarrow> time_left h c budget w \<le> time_left h c budget w0"
proof (induction rule: reaches.induct)
  case (step w op r w')
  show ?case
  proof (cases "vh_ctxErr h c w = None")
    case True
    then show ?thesis using time_left_op[OF step.prems step.hyps(3)] step.IH[OF step.prems] by simp
  next
    case False
    then have "vh_ctxErr h c w' \<noteq> None" using step unfolding timed_def by blast
    then show ?thesis by (auto simp: time_left_def)
  qed
qed simp

lemma reaches_run:
  assumes "does h may w m (\<lambda>_. True)" and "run_state m w = (x, w')"
  shows "reaches h may w w'"
  using does_start[OF assms] by simp

text \<open>A step that goes on performed an operation while the context lasted.\<close>

lemma setup_step_time:
  assumes "timed h Setup_ctx budget" and "run_state (ssh_setup_step h rc kc names labels s) w = ((Inr s', t), w')"
  shows "time_left h Setup_ctx budget w' < time_left h Setup_ctx budget w"
proof -
  have run: "vh_ctxErr h Setup_ctx w = None" using assms(2) by (auto simp: ssh_setup_step_def split: option.splits)
  obtain p w1 where p: "run_state (getSSHPod h Setup_ctx kc) w = (p, w1)" by fastforce
  define more_steps where "more_steps = (case p of
       Inl err \<Rightarrow> State_Monad.return (Inl (Some err), s)
     | Inr None \<Rightarrow> setup_create h rc kc labels s
     | Inr (Some pod) \<Rightarrow>
         if pod_DeletionTimestamp pod \<noteq> [] then do { r \<leftarrow> setup_pause h s; State_Monad.return (r, s) }
         else if pod_Phase pod = ''Failed'' \<or> pod_Phase pod = ''Succeeded'' then
           do { r \<leftarrow> setup_replace h kc ''delete stopped ssh helper pod: '' s; State_Monad.return (r, s) }
         else if sshPodOnNode pod names then
           do { r \<leftarrow> setup_replace h kc ''delete ssh helper on FAR target node: '' s; State_Monad.return (r, s) }
         else do {
           ready \<leftarrow> (if pod_Phase pod = ''Running'' then sshpassReady h Setup_ctx kc else State_Monad.return False);
           if ready then do { e \<leftarrow> stampSSHPodHarness h Setup_ctx kc rc pod; State_Monad.return (Inl e, s) }
           else do { r \<leftarrow> setup_pause h s; State_Monad.return (r, s) }
         })"
  have "run_state more_steps w1 = ((Inr s', t), w')"
    using assms(2) run p by (simp add: ssh_setup_step_def Let_def more_steps_def)
  moreover have "does h kubectl_op w1 more_steps (\<lambda>_. True)"
    unfolding more_steps_def by (intro does_rules TrueI does_stamp does_create does_replace does_pause does_ready)
  ultimately have "reaches h kubectl_op w1 w'" by (rule reaches_run[rotated])
  then have "time_left h Setup_ctx budget w' \<le> time_left h Setup_ctx budget w1" using assms(1) by (rule time_left_reaches)
  moreover obtain r where "run_state (vh_Do h (Run_tool Setup_ctx ''kubectl'' (with_kubeconfig kc get_pod_args) None [])) w = (r, w1)"
    using getSSHPod_one_op[OF p] by blast
  from time_left_op[OF assms(1) this run] have "time_left h Setup_ctx budget w1 < time_left h Setup_ctx budget w" .
  ultimately show ?thesis by linarith
qed

lemma setup_loop_ends:
  assumes "timed h Setup_ctx budget"
  shows "\<exists>r s' w1 w' t. setup_loop h rc kc names labels s w = Some ((r, t), w') \<and> reaches h kubectl_op w w1 \<and>
     run_state (ssh_setup_step h rc kc names labels s') w1 = ((Inl r, t), w')"
proof (induction "time_left h Setup_ctx budget w" arbitrary: w s rule: less_induct)
  case less
  obtain q t w1 where st: "run_state (ssh_setup_step h rc kc names labels s) w = ((q, t), w1)" by (metis prod.exhaust)
  show ?case
  proof (cases q)
    case (Inl r)
    have "setup_loop h rc kc names labels s w = Some ((r, t), w1)" using st Inl by (subst setup_loop.simps) simp
    with st[unfolded Inl] show ?thesis
      by (intro exI[of _ r] exI[of _ s] exI[of _ w] exI[of _ w1] exI[of _ t] conjI reaches.start)
  next
    case (Inr s')
    with st have "time_left h Setup_ctx budget w1 < time_left h Setup_ctx budget w" using setup_step_time[OF assms] by blast
    from less[OF this, of s'] obtain r s2 w2 w' t2 where IH: "setup_loop h rc kc names labels s' w1 = Some ((r, t2), w')"
      "reaches h kubectl_op w1 w2" "run_state (ssh_setup_step h rc kc names labels s2) w2 = ((Inl r, t2), w')" by blast
    have "reaches h kubectl_op w w1" by (rule reaches_run[OF does_setup_step st])
    then have "reaches h kubectl_op w w2" using IH(2) reaches_trans by metis
    moreover have "setup_loop h rc kc names labels s w = Some ((r, t2), w')" using st Inr IH(1) by (subst setup_loop.simps) simp
    ultimately show ?thesis using IH(3) by blast
  qed
qed

section \<open>The roll-back ends\<close>

lemma does_nat [does_rules]:
  "(n = 0 \<Longrightarrow> does h may w0 a P) \<Longrightarrow> (\<And>m. n = Suc m \<Longrightarrow> does h may w0 (b m) P) \<Longrightarrow>
     does h may w0 (case n of 0 \<Rightarrow> a | Suc m \<Rightarrow> b m) P"
  by (cases n) simp_all

lemma delete_uid_attempts_ops:
  assumes "may (Run_tool c ''kubectl'' (with_kubeconfig kc (raw_delete_args f)) None [])" and "may (Pause c 100)"
  shows "does h may w0 (delete_uid_attempts h c kc f n) (\<lambda>_. True)"
proof (induction n)
  case 0
  show ?case
    by (subst delete_uid_attempts.simps, unfold Let_def retry_wait_def, intro does_rules TrueI assms) simp
next
  case (Suc n)
  then show ?case
    by (subst delete_uid_attempts.simps, unfold Let_def retry_wait_def, intro does_rules TrueI assms) simp
qed

lemma does_delete_uid:
  assumes "may (Write_temp (vx_deleteOptions (vh_codec h) (trim_space uid)))" and "may (Pause c 100)"
    and "\<And>f wa wb. run_state (writeSSHPodDeleteOptions h (trim_space uid)) wa = (Inr f, wb) \<Longrightarrow>
        may (Run_tool c ''kubectl'' (with_kubeconfig kc (raw_delete_args f)) None []) \<and> may (Remove_file f)"
  shows "does h may w0 (deleteSSHPodUID h c kc uid) (\<lambda>_. True)"
proof -
  have wr: "does h may w0 (writeSSHPodDeleteOptions h (trim_space uid))
      (\<lambda>r. \<exists>wa wb. run_state (writeSSHPodDeleteOptions h (trim_space uid)) wa = (r, wb))"
  proof -
    have "does h may w0 (writeSSHPodDeleteOptions h (trim_space uid)) (\<lambda>_. True)"
      unfolding writeSSHPodDeleteOptions_def by (intro does_rules TrueI assms(1))
    then show ?thesis unfolding does_def by blast
  qed
  show ?thesis
    unfolding deleteSSHPodUID_def Let_def
  proof (intro does_if does_return TrueI, rule does_bind[OF wr])
    fix x assume x: "\<exists>wa wb. run_state (writeSSHPodDeleteOptions h (trim_space uid)) wa = (x, wb)"
    show "does h may w0 (case x of Inl err \<Rightarrow> State_Monad.return (Some (Delete_failed err))
        | Inr f \<Rightarrow> do { e \<leftarrow> delete_uid_attempts h c kc f (sshPodDeleteAttempts - 1); r \<leftarrow> vh_Do h (Remove_file f); State_Monad.return e }) (\<lambda>_. True)"
      using x assms(2,3) by (intro does_sum does_return does_seq does_perform_op delete_uid_attempts_ops TrueI) blast+
  qed
qed

text \<open>What the roll-back may do: read the pod, wait, and delete an instance that it has seen to be its own.\<close>

definition own_instance :: "'w vb_host \<Rightarrow> string \<Rightarrow> string \<Rightarrow> string \<Rightarrow> 'w \<Rightarrow> string \<Rightarrow> bool" where
  "own_instance h kc runID created w0 uid =
     (\<exists>pod w1 w2. reaches h (\<lambda>_. True) w0 w1 \<and> run_state (getSSHPod h Cleanup_ctx kc) w1 = (Inr (Some pod), w2) \<and>
        sshPodHarnessRunID pod = runID \<and> (created = [] \<or> pod_UID pod = created) \<and> uid = trim_space (pod_UID pod))"

definition own_options_file :: "'w vb_host \<Rightarrow> string \<Rightarrow> string \<Rightarrow> string \<Rightarrow> 'w \<Rightarrow> string \<Rightarrow> bool" where
  "own_options_file h kc runID created w0 f =
     (\<exists>uid wa wb. own_instance h kc runID created w0 uid \<and> run_state (writeSSHPodDeleteOptions h uid) wa = (Inr f, wb))"

definition rollback_op :: "'w vb_host \<Rightarrow> string \<Rightarrow> string \<Rightarrow> string \<Rightarrow> 'w \<Rightarrow> vb_op \<Rightarrow> bool" where
  "rollback_op h kc runID created w0 op =
     (op = Run_tool Cleanup_ctx ''kubectl'' (with_kubeconfig kc get_pod_args) None [] \<or> (\<exists>n. op = Pause Cleanup_ctx n) \<or>
      (\<exists>uid. own_instance h kc runID created w0 uid \<and> op = Write_temp (vx_deleteOptions (vh_codec h) uid)) \<or>
      (\<exists>f. own_options_file h kc runID created w0 f \<and>
         (op = Run_tool Cleanup_ctx ''kubectl'' (with_kubeconfig kc (raw_delete_args f)) None [] \<or> op = Remove_file f)))"

lemma does_look:
  "does h (rollback_op h kc runID created w0) w0 (rollback_look h kc runID created s) (\<lambda>_. True)"
proof -
  let ?may = "rollback_op h kc runID created w0"
  have get: "?may (Run_tool Cleanup_ctx ''kubectl'' (with_kubeconfig kc get_pod_args) None [])"
    "?may (Pause Cleanup_ctx n)" for n
    by (simp_all add: rollback_op_def)
  have del: "does h ?may w0 (deleteSSHPodUID h Cleanup_ctx kc (pod_UID pod)) (\<lambda>_. True)"
    if "reaches h ?may w0 w1" "run_state (getSSHPod h Cleanup_ctx kc) w1 = (Inr (Some pod), w2)"
      "sshPodHarnessRunID pod = runID" "\<not> (created \<noteq> [] \<and> pod_UID pod \<noteq> created)" for pod w1 w2
  proof -
    have own: "own_instance h kc runID created w0 (trim_space (pod_UID pod))"
      unfolding own_instance_def using that reaches_mono[OF that(1), of "\<lambda>_. True"] by blast
    show ?thesis
      by (rule does_delete_uid) (use own get in \<open>auto simp: rollback_op_def own_options_file_def\<close>)
  qed
  show ?thesis
    unfolding rollback_look_def Let_def
    by (rule does_bind, rule does_getSSHPod, rule get(1), intro does_rules TrueI, elim exE conjE, hypsubst,
        rule del, assumption+, simp, assumption)
qed

lemma does_rollback_step:
  "does h (rollback_op h kc runID created w0) w0 (rollback_step h kc runID created s) (\<lambda>_. True)"
  unfolding rollback_step_def
  by (intro does_rules TrueI does_look) (simp add: rollback_op_def)

text \<open>
  The shape of a run of the loop: every step starts at a world reached from the first by operations
  of the roll-back, and the last one ends it.
\<close>

lemma rollback_step_time:
  assumes "timed h Cleanup_ctx budget" and "run_state (rollback_step h kc runID created s) w = (Inr s', w')"
  shows "time_left h Cleanup_ctx budget w' < time_left h Cleanup_ctx budget w"
proof -
  have e: "vh_ctxErr h Cleanup_ctx w' = None"
    using assms(2) by (auto simp: rollback_step_def split: prod.splits option.splits)
  obtain l w1 where l: "run_state (rollback_look h kc runID created s) w = (l, w1)" by fastforce
  with assms(2) obtain n r where p: "run_state (vh_Do h (Pause Cleanup_ctx n)) w1 = (r, w')"
    by (auto simp: rollback_step_def split: prod.splits option.splits)
  have w1: "vh_ctxErr h Cleanup_ctx w1 = None" using assms(1) p e unfolding timed_def by (metis option.distinct(1))
  have "reaches h (rollback_op h kc runID created w) w w1" by (rule reaches_run[OF does_look l])
  then have "time_left h Cleanup_ctx budget w1 \<le> time_left h Cleanup_ctx budget w" using assms(1) by (rule time_left_reaches)
  moreover have "time_left h Cleanup_ctx budget w' < time_left h Cleanup_ctx budget w1" by (rule time_left_op[OF assms(1) p w1])
  ultimately show ?thesis by linarith
qed

lemma rollback_loop_ends:
  assumes "timed h Cleanup_ctx budget"
  shows "\<exists>r w'. rollback_loop h kc runID created s w = Some (r, w')"
proof (induction "time_left h Cleanup_ctx budget w" arbitrary: w s rule: less_induct)
  case less
  obtain q w1 where st: "run_state (rollback_step h kc runID created s) w = (q, w1)" by fastforce
  show ?case
  proof (cases q)
    case (Inl r)
    then show ?thesis using st by (subst rollback_loop.simps) simp
  next
    case (Inr s')
    with st have "time_left h Cleanup_ctx budget w1 < time_left h Cleanup_ctx budget w" using rollback_step_time[OF assms] by blast
    from less[OF this, of s'] show ?thesis using st Inr by (subst rollback_loop.simps) simp
  qed
qed

lemma rollback_returns: "timed h Cleanup_ctx budget \<Longrightarrow> \<exists>e w'. rollbackSSHPod h kc runID created w = Some (e, w')"
  by (simp add: rollbackSSHPod_def rollback_loop_ends)

lemma rollback_loop_ops:
  assumes "rollback_loop h kc runID created s w = Some y"
  shows "\<forall>w0. reaches h (rollback_op h kc runID created w0) w0 w \<longrightarrow> reaches h (rollback_op h kc runID created w0) w0 (snd y)"
proof (rule rollback_loop.raw_induct[where P = "\<lambda>h kc runID created s w y.
    \<forall>w0. reaches h (rollback_op h kc runID created w0) w0 w \<longrightarrow> reaches h (rollback_op h kc runID created w0) w0 (snd y)", OF _ assms],
    intro allI impI)
  fix loop h kc runID created s w y w0
  assume IH: "\<And>h kc runID created s w y. loop h kc runID created s w = Some y \<Longrightarrow>
      \<forall>w0. reaches h (rollback_op h kc runID created w0) w0 w \<longrightarrow> reaches h (rollback_op h kc runID created w0) w0 (snd y)"
    and body: "(case run_state (rollback_step h kc runID created s) w of
       (Inl r, w') \<Rightarrow> Some (r, w') | (Inr s', w') \<Rightarrow> loop h kc runID created s' w') = Some y"
    and w: "reaches h (rollback_op h kc runID created w0) w0 w"
  obtain q w1 where st: "run_state (rollback_step h kc runID created s) w = (q, w1)" by fastforce
  with w have "reaches h (rollback_op h kc runID created w0) w0 w1"
    using does_rollback_step[of h kc runID created w0 s] unfolding does_def by blast
  with IH body st show "reaches h (rollback_op h kc runID created w0) w0 (snd y)" by (cases q) auto
qed

text \<open>
  C39: a failed set-up deletes only what is its own: all the roll-back does is to read the helper pod,
  to wait, and to delete by name and UID an instance that carries the run id of this run and, when
  the create command told its UID, that UID.
\<close>

theorem rollback_deletes_own_pod:
  assumes "rollbackSSHPod h kc runID created w = Some (r, w')"
  shows "reaches h (rollback_op h kc runID created w) w w'"
proof (cases "trim_space runID = []")
  case True
  then show ?thesis using assms reaches.start by (auto simp: rollbackSSHPod_def)
next
  case False
  then have "rollback_loop h kc runID created rollback_start w = Some (r, w')" using assms by (simp add: rollbackSSHPod_def)
  from rollback_loop_ops[OF this] show ?thesis using reaches.start[of h "rollback_op h kc runID created w" w] by simp
qed

section \<open>A set-up that succeeds has seen a usable pod\<close>

lemma setup_step_success:
  assumes "run_state (ssh_setup_step h rc kc names labels s) w = ((Inl None, t), w')"
  shows "\<exists>pod w1 w2. vh_ctxErr h Setup_ctx w = None \<and> run_state (getSSHPod h Setup_ctx kc) w = (Inr (Some pod), w1) \<and>
    pod_DeletionTimestamp pod = [] \<and> pod_Phase pod = ''Running'' \<and> \<not> sshPodOnNode pod names \<and>
    run_state (sshpassReady h Setup_ctx kc) w1 = (True, w2) \<and>
    run_state (stampSSHPodHarness h Setup_ctx kc rc pod) w2 = (None, w')"
  using assms
  by (auto simp: ssh_setup_step_def Let_def setup_create_def setup_pause_def setup_replace_def
      split: option.splits sum.splits prod.splits if_splits)

lemma avoid_names_complete:
  "run_state (sshHelperAvoidNodes h kc trs names labels) w = (Inr (names', labels'), w') \<Longrightarrow>
     set names' = set names \<union> {strParamOr tr ''node'' [] |tr. tr \<in> set trs \<and> strParamOr tr ''node'' [] \<noteq> []}"
proof (induction trs arbitrary: names labels w)
  case (Cons tr trs)
  then show ?case
    by (auto simp: Let_def split: if_splits prod.splits option.splits) 
qed simp


text \<open>
  C40: the set-up of the helper pod for a live run returns, whatever the cluster answers, when time passes
  on its context and on that of the roll-back. When it returns without an error it has seen, while
  its context lasted and after nothing but kubectl commands and pauses, the pod running and not being deleted, on none of the
  nodes the plan is going to fail, with sshpass installed, and has stamped that pod.
\<close>

theorem ssh_setup_returns:
  fixes budget :: "vb_ctx \<Rightarrow> 'w \<Rightarrow> nat"
  assumes "timed h Setup_ctx (budget Setup_ctx)" and "timed h Cleanup_ctx (budget Cleanup_ctx)" and "\<not> allReplayTRs trs"
  shows "\<exists>r w'. ssh_Setup h rc trs w = Some (r, w') \<and>
    (r = None \<longrightarrow> (\<exists>pod w1 w2 w3. reaches h kubectl_op w w1 \<and> vh_ctxErr h Setup_ctx w1 = None \<and>
       run_state (getSSHPod h Setup_ctx (kubeconfigOf trs)) w1 = (Inr (Some pod), w2) \<and>
       pod_DeletionTimestamp pod = [] \<and> pod_Phase pod = ''Running'' \<and>
       (pod_NodeName pod = [] \<or> filter (\<lambda>tr. strParamOr tr ''node'' [] = pod_NodeName pod) trs = []) \<and>
       run_state (sshpassReady h Setup_ctx (kubeconfigOf trs)) w2 = (True, w3) \<and>
       run_state (stampSSHPodHarness h Setup_ctx (kubeconfigOf trs) rc pod) w3 = (None, w')))"
proof -
  let ?kc = "kubeconfigOf trs"
  obtain a w1 where a: "run_state (sshHelperAvoidNodes h ?kc trs [] []) w = (a, w1)" by fastforce
  show ?thesis
  proof (cases a)
    case (Inl err)
    then show ?thesis using a assms(3) by (simp add: ssh_Setup_def)
  next
    case (Inr nl)
    obtain names labels where nl: "a = Inr (names, labels)" using Inr by (cases nl) simp
    obtain r s' w2 w' t where l: "setup_loop h rc ?kc names labels (False, []) w1 = Some ((r, t), w')"
      "reaches h kubectl_op w1 w2" "run_state (ssh_setup_step h rc ?kc names labels s') w2 = ((Inl r, t), w')"
      using setup_loop_ends[OF assms(1), of rc ?kc names labels "(False, [])" w1] by blast
    show ?thesis
    proof (cases r)
      case None
      have "ssh_Setup h rc trs w = Some (None, w')" using a nl l(1) None assms(3) by (simp add: ssh_Setup_def)
      moreover from setup_step_success[OF l(3)[unfolded None]] obtain pod w3 w4 where pod: "vh_ctxErr h Setup_ctx w2 = None"
        "run_state (getSSHPod h Setup_ctx ?kc) w2 = (Inr (Some pod), w3)" "pod_DeletionTimestamp pod = []" "pod_Phase pod = ''Running''"
        "\<not> sshPodOnNode pod names" "run_state (sshpassReady h Setup_ctx ?kc) w3 = (True, w4)"
        "run_state (stampSSHPodHarness h Setup_ctx ?kc rc pod) w4 = (None, w')" by blast
      moreover have "pod_NodeName pod = [] \<or> filter (\<lambda>tr. strParamOr tr ''node'' [] = pod_NodeName pod) trs = []"
        using pod(5) avoid_names_complete[OF a[unfolded nl]] by (auto simp: sshPodOnNode_def filter_empty_conv)
      moreover have "reaches h kubectl_op w w2" using reaches_run[OF does_avoid a] l(2) reaches_trans by metis
      ultimately show ?thesis by metis
    next
      case (Some err)
      show ?thesis
      proof (cases t)
        case (Pair attempted uid)
        obtain e w3 where "rollbackSSHPod h ?kc (rc_RunID rc) uid w' = Some (e, w3)" using rollback_returns[OF assms(2)] by blast
        then show ?thesis using a nl l(1) Some Pair assms(3) by (cases attempted) (simp_all add: ssh_Setup_def)
      qed
    qed
  qed
qed


text \<open>A host whose world is the time that is left: every operation takes one unit, and the pod is ready.\<close>

definition ready_pod :: ssh_pod where
  "ready_pod = \<lparr> pod_UID = ''u1'', pod_DeletionTimestamp = [], pod_Labels = [],
     pod_Annotations = [(''storage-cert-harness.redhat.com/run-id'', ''r1'')], pod_Phase = ''Running'', pod_IP = [], pod_NodeName = ''worker-1'' \<rparr>"

definition pod_codec :: vb_codec where
  "pod_codec = \<lparr> vx_pod = (\<lambda>_. Inr ready_pod), vx_nodes = (\<lambda>_. Inr []), vx_dataSource = (\<lambda>_. Inl ''none''), vx_phase = (\<lambda>_. Inl ''none''),
     vx_ready = (\<lambda>_. Inl ''none''), vx_storageClassName = (\<lambda>_. Inl ''none''), vx_snapshotClassName = (\<lambda>_. Inl ''none''),
     vx_metadata = (\<lambda>_. Inl ''none''), vx_sources = (\<lambda>_. Inl ''none''), vx_deleteOptions = id, vx_fio = (\<lambda>_ _. Inl ''none'') \<rparr>"

definition tick_host :: "nat vb_host" where
  "tick_host =
     \<lparr> vh_Do = (\<lambda>_. State (\<lambda>w. (\<lparr> rp_Stdout = ''pod'', rp_Stderr = [], rp_Combined = ''pod'', rp_End = Ended \<rparr>, w - 1))), vh_LookPath = Inr,
       vh_ReadFile = (\<lambda>_ _. Inl ''none''), vh_Stat = (\<lambda>_ _. Inl ''none''), vh_Walk = (\<lambda>_ _. []), vh_Now = int, vh_Draw = (\<lambda>_ _. Inr 0),
       vh_ctxErr = (\<lambda>_ w. if w = 0 then Some ''deadline'' else None), vh_Abs = Inr, vh_EvalSymlinks = Inr, vh_Getenv = (\<lambda>_. []),
       vh_Hostname = Inl ''none'', vh_Timestamp = (\<lambda>_. ''now''), vh_Embedded = (\<lambda>_. Inl ''none''), vh_yaml = (\<lambda>_. []),
       vh_engine = \<lparr> te_Funcs = (\<lambda>_. False), te_Parse = (\<lambda>_ _. Inl ''none'') \<rparr>, vh_codec = pod_codec,
       vh_snapshot = csi_codec, vh_probe = gold_codec, vh_claim = (\<lambda>_. Inl ''none''), vh_Records = False \<rparr>"

lemma tick_timed: "timed tick_host c id"
  by (auto simp: timed_def tick_host_def)

definition live_tr :: test_requirement where
  "live_tr = zero_test_requirement\<lparr>tr_Params := [(''node'', AStr ''worker-2'')]\<rparr>"

lemma live_not_replay: "\<not> allReplayTRs [live_tr]"
  by (simp add: allReplayTRs_def live_tr_def strParamOr_def gm_get_def)

theorem ssh_setup_returns_witness:
  "\<exists>w'. ssh_Setup tick_host \<lparr> rc_RunID = ''r1'', rc_PartKind = [], rc_WorkDir = [], rc_Backend = None \<rparr> [live_tr] 9 = Some (None, w')"
proof -
  let ?rc = "\<lparr> rc_RunID = ''r1'', rc_PartKind = [], rc_WorkDir = [], rc_Backend = None \<rparr>"
  obtain r w' where r: "ssh_Setup tick_host ?rc [live_tr] 9 = Some (r, w')"
    using ssh_setup_returns[of tick_host "\<lambda>_. id" "[live_tr]" ?rc 9] tick_timed live_not_replay by blast
  have k: "run_state (runKubectl tick_host c kc args) w = ((''pod'', True, None), w - 1)" for c kc args w
    by (simp add: runKubectl_def tick_host_def)
  have e: "vh_ctxErr tick_host c w = (if w = 0 then Some ''deadline'' else None)" for c w by (simp add: tick_host_def)
  have host: "vh_Hostname tick_host = Inl ''none''" by (simp add: tick_host_def)
  have p: "vx_pod (vh_codec tick_host) d = Inr ready_pod" for d by (simp add: tick_host_def pod_codec_def)
  have av: "run_state (sshHelperAvoidNodes tick_host [] [live_tr] [] []) 9 = (Inr ([''worker-2''], [''pod'']), 8)"
    by (simp add: live_tr_def strParamOr_def gm_get_def k Let_def trim_space_def is_space_def)
  have "run_state (ssh_setup_step tick_host ?rc [] [''worker-2''] [''pod''] (False, [])) 8 = ((Inl None, False, []), 5)"
    by (simp add: ssh_setup_step_def e Let_def getSSHPod_def k read_pod_def p trim_space_def is_space_def ready_pod_def sshPodOnNode_def
        sshpassReady_def stampSSHPodHarness_def kubectlAnnotatePod_def sshPodBootstrapAnnotations_def host)
  then have "setup_loop tick_host ?rc [] [''worker-2''] [''pod''] (False, []) 8 = Some ((None, False, []), 5)"
    by (subst setup_loop.simps) simp
  moreover have "kubeconfigOf [live_tr] = []" by (simp add: live_tr_def strParamOr_def gm_get_def)
  ultimately have "ssh_Setup tick_host ?rc [live_tr] 9 = Some (None, 5)"
    using av live_not_replay by (simp add: ssh_Setup_def)
  with r show ?thesis by simp
qed

theorem rollback_deletes_own_pod_witness:
  "\<exists>r w'. rollbackSSHPod tick_host [] ''r1'' [] 5 = Some (r, w') \<and> reaches tick_host (rollback_op tick_host [] ''r1'' [] 5) 5 w'"
proof -
  obtain r w' where r: "rollbackSSHPod tick_host [] ''r1'' [] 5 = Some (r, w')" using rollback_returns[OF tick_timed] by blast
  from rollback_deletes_own_pod[OF r] r show ?thesis by blast
qed

end
