(* ===== verification/Virtbench_Cluster.thy ===== *)
theory Virtbench_Cluster
  imports Virtbench_Setup Kube_Burner_Stages Virtbench_Parse
begin

text \<open>
  The cluster side of the virtbench scenarios: the boot sources of the VM templates (datasource.go),
  clones through snapshots (snapshot.go), the VMs of the failure recovery (vm_provision.go), and the
  worker nodes of the drain and of the single-node ceiling (drain.go, singlenode.go).
\<close>

section \<open>Boot sources\<close>

text \<open>The two name checks of the Kubernetes validation library.\<close>

definition dns_char :: "char \<Rightarrow> bool" where
  "dns_char c = (is_digit c \<or> (CHR ''a'' \<le> c \<and> c \<le> CHR ''z''))"

definition dns_part :: "string \<Rightarrow> bool" where
  "dns_part s = (s \<noteq> [] \<and> dns_char (hd s) \<and> dns_char (last s) \<and> list_all (\<lambda>c. dns_char c \<or> c = CHR ''-'') s)"

definition IsDNS1123Label :: "string \<Rightarrow> bool" where
  "IsDNS1123Label s = (length s \<le> 63 \<and> dns_part s)"

definition IsDNS1123Subdomain :: "string \<Rightarrow> bool" where
  "IsDNS1123Subdomain s = (length s \<le> 253 \<and> list_all dns_part (split_on (CHR ''.'') s))"

definition parseDataSource :: "string \<Rightarrow> string + clone_source" where
  "parseDataSource val =
     (let parts = split_on SLASH val;
          use = ''datasource '' @ go_quote val @ '': ''
      in case (case parts of
                 [n] \<Rightarrow> Some \<lparr> cs_Name = n, cs_Namespace = imageNamespace \<rparr>
               | [ns, n] \<Rightarrow> Some \<lparr> cs_Name = n, cs_Namespace = ns \<rparr>
               | _ \<Rightarrow> None) of
           None \<Rightarrow> Inl (use @ ''use name or namespace/name'')
         | Some ref \<Rightarrow>
             if \<not> IsDNS1123Subdomain (cs_Name ref) \<or> \<not> IsDNS1123Label (cs_Namespace ref) then
               Inl (use @ ''invalid Kubernetes name or namespace; use name or namespace/name'')
             else Inr ref)"

definition vmTargetNamespaces :: "test_requirement \<Rightarrow> string + string list" where
  "vmTargetNamespaces tr =
     (case vb_scenarioFor tr of
        Some sc \<Rightarrow>
          (case sc_VMRange sc of
             Some vmRange \<Rightarrow>
               (case vmRange tr of
                  Inl err \<Rightarrow> Inl err
                | Inr (first, final) \<Rightarrow>
                    Inr (map (\<lambda>i. strParamOr tr ''namespace_prefix'' (sc_NSPrefix sc) @ ''-'' @ show_int i) [first..final]))
           | None \<Rightarrow> Inl (''cannot resolve local DataSource namespace for '' @ tr_ID tr @ ''; specify sourceRef.namespace in the template''))
      | None \<Rightarrow> Inl (''cannot resolve local DataSource namespace for '' @ tr_ID tr @ ''; specify sourceRef.namespace in the template''))"

fun resolveLocalDataSources :: "test_requirement \<Rightarrow> clone_source list \<Rightarrow> string + clone_source list" where
  "resolveLocalDataSources tr [] = Inr []"
| "resolveLocalDataSources tr (ref # refs) =
     (case (if cs_Namespace ref \<noteq> [] then Inr [ref]
            else map_sum id (map (\<lambda>ns. \<lparr> cs_Name = cs_Name ref, cs_Namespace = ns \<rparr>)) (vmTargetNamespaces tr)) of
        Inl err \<Rightarrow> Inl err
      | Inr here \<Rightarrow> map_sum id (\<lambda>rest. here @ rest) (resolveLocalDataSources tr refs))"

definition getCloneObject ::
  "'w vb_host \<Rightarrow> string \<Rightarrow> (string \<Rightarrow> string + 'a) \<Rightarrow> string \<Rightarrow> clone_source \<Rightarrow> ('w, string + 'a) state" where
  "getCloneObject h kubeconfig decode kind source =
     (if cs_Name source = [] \<or> cs_Namespace source = [] then
        State_Monad.return (Inl (kind @ '' source requires name and namespace''))
      else ok_then (SnapshotCommand (vh_cluster h) kubeconfig None
             [''get'', kind, cs_Name source, ''-n'', cs_Namespace source, ''-o'', ''json''])
           (\<lambda>out. State_Monad.return (decode out)))"

text \<open>A source without a namespace lives in that of its DataSource.\<close>

definition loadDataSource :: "'w vb_host \<Rightarrow> string \<Rightarrow> clone_source \<Rightarrow> ('w, string + data_source) state" where
  "loadDataSource h kubeconfig ref =
     ok_then (getCloneObject h kubeconfig (vx_dataSource (vh_codec h)) ''datasource'' ref)
       (\<lambda>ds. State_Monad.return (Inr (ds\<lparr>ds_Source :=
          map_option (map (\<lambda>(kind, s). (kind, if cs_Namespace s = [] then s\<lparr>cs_Namespace := cs_Namespace ref\<rparr> else s))) (ds_Source ds)\<rparr>)))"

definition ref_text :: "clone_source \<Rightarrow> string" where
  "ref_text ref = cs_Namespace ref @ ''/'' @ cs_Name ref"

text \<open>The first source with a name decides; \<open>sources\<close> is in the order of one iteration over the map.\<close>

fun check_sources :: "'w vb_host \<Rightarrow> string \<Rightarrow> clone_source \<Rightarrow> (string \<times> clone_source) list \<Rightarrow> ('w, string option) state" where
  "check_sources h kubeconfig ref [] =
     State_Monad.return (Some (''DataSource '' @ ref_text ref @ '' has no PVC or snapshot source''))"
| "check_sources h kubeconfig ref ((kind, source) # sources) =
     (if cs_Name source = [] then check_sources h kubeconfig ref sources
      else if kind = ''pvc'' then do {
        r \<leftarrow> getCloneObject h kubeconfig (vx_phase (vh_codec h)) ''pvc'' source;
        State_Monad.return (case r of
            Inl err \<Rightarrow> Some err
          | Inr phase \<Rightarrow> if phase \<noteq> ''Bound'' then Some (''DataSource PVC '' @ ref_text source @ '' is not Bound'') else None)
      }
      else if kind = ''snapshot'' then do {
        r \<leftarrow> getCloneObject h kubeconfig (vx_ready (vh_codec h)) ''volumesnapshot'' source;
        State_Monad.return (case r of
            Inl err \<Rightarrow> Some err
          | Inr ready \<Rightarrow> if \<not> ready then Some (''DataSource snapshot '' @ ref_text source @ '' is not readyToUse'') else None)
      }
      else State_Monad.return (Some (''DataSource '' @ ref_text ref @ '' has unsupported source '' @ kind)))"

definition checkDataSource :: "'w vb_host \<Rightarrow> string \<Rightarrow> clone_source \<Rightarrow> ('w, string option) state" where
  "checkDataSource h kubeconfig ref = do {
     r \<leftarrow> loadDataSource h kubeconfig ref;
     case r of
       Inl err \<Rightarrow> State_Monad.return (Some err)
     | Inr ds \<Rightarrow>
         if (''Ready'', ''True'') \<notin> set (ds_Conditions ds) then
           State_Monad.return (Some (''DataSource '' @ ref_text ref @ '' is not Ready''))
         else check_sources h kubeconfig ref (case ds_Source ds of Some m \<Rightarrow> m | None \<Rightarrow> [])
   }"

text \<open>The DataSource references of a rendered VM.\<close>

fun volume_sources :: "any list \<Rightarrow> string + clone_source list" where
  "volume_sources [] = Inr []"
| "volume_sources (item # items) =
     (let ref = obj_of (key (obj_of (key (obj_of item) ''spec'')) ''sourceRef'') in
      if key ref ''kind'' \<noteq> AStr ''DataSource'' then volume_sources items
      else if as_str (key ref ''name'') = [] then Inl ''DataSource sourceRef requires a name''
      else map_sum id (\<lambda>rest. \<lparr> cs_Name = as_str (key ref ''name''), cs_Namespace = as_str (key ref ''namespace'') \<rparr> # rest)
             (volume_sources items))"

definition vmDataSources :: "'w vb_host \<Rightarrow> string \<Rightarrow> string + clone_source list" where
  "vmDataSources h data =
     (case Documents (vh_yaml h) data of
        Inl err \<Rightarrow> Inl err
      | Inr [doc] \<Rightarrow> volume_sources (as_list (key (obj_of (key doc ''spec'')) ''dataVolumeTemplates''))
      | Inr _ \<Rightarrow> Inl ''VM template must contain one YAML document'')"

fun render_namespaces :: "'w vb_host \<Rightarrow> string \<Rightarrow> (string, any) gomap \<Rightarrow> string list \<Rightarrow> string + (string \<times> string) list" where
  "render_namespaces h source values [] = Inr []"
| "render_namespaces h source values (ns # nss) =
     (case renderVMTemplate h ''datasource-preflight.yaml'' source (gm_set ''NAMESPACE'' (AStr ns) values) of
        Inl err \<Rightarrow> Inl err
      | Inr rendered \<Rightarrow> map_sum id (\<lambda>rest. (ns, rendered) # rest) (render_namespaces h source values nss))"

definition preflight_command :: "test_requirement \<Rightarrow> string" where
  "preflight_command tr =
     (if tr_ID tr = ''TR-STOR-002'' then ''fio'' else if tr_ID tr = ''TR-STOR-001'' then ''disk-ops'' else ''datasource-clone'')"

text \<open>Namespace and rendered template of every VM the requirement is going to create.\<close>

definition preflightVMTemplates :: "'w vb_host \<Rightarrow> run_ctx \<Rightarrow> test_requirement \<Rightarrow> ('w, string + (string \<times> string) list) state" where
  "preflightVMTemplates h rc tr =
     ok_then (vmSourceTemplate h Run_ctx tr) (\<lambda>source. State_Monad.return
       (case resolvePlanTemplateValues (preflight_command tr) (Some rc) tr of
          Inl err \<Rightarrow> Inl err
        | Inr values \<Rightarrow>
            (case vmTargetNamespaces tr of
               Inl err \<Rightarrow> Inl err
             | Inr namespaces \<Rightarrow>
                 render_namespaces h (fst source)
                   (gm_set ''HOSTNAME_LABEL'' (AStr (strParamOr tr ''node_hostname_label'' []))
                     (gm_set ''NODE_NAME'' (AStr (strParamOr tr ''node'' []))
                       (gm_set ''TARGET_NODE'' (AStr (strParamOr tr ''target_node'' [])) values))) namespaces)))"

fun template_sources :: "'w vb_host \<Rightarrow> (string \<times> string) list \<Rightarrow> string + clone_source list" where
  "template_sources h [] = Inr []"
| "template_sources h ((ns, data) # vms) =
     (case vmDataSources h data of
        Inl err \<Rightarrow> Inl err
      | Inr found \<Rightarrow>
          map_sum id (\<lambda>rest. map (\<lambda>ref. if cs_Namespace ref = [] then ref\<lparr>cs_Namespace := ns\<rparr> else ref) found @ rest) (template_sources h vms))"

fun check_refs :: "'w vb_host \<Rightarrow> string \<Rightarrow> clone_source list \<Rightarrow> clone_source list \<Rightarrow> ('w, string + clone_source list) state" where
  "check_refs h kubeconfig [] unique = State_Monad.return (Inr unique)"
| "check_refs h kubeconfig (ref # refs) unique =
     (if ref \<in> set unique then check_refs h kubeconfig refs unique
      else case parseDataSource (ref_text ref) of
        Inl err \<Rightarrow> State_Monad.return (Inl err)
      | Inr _ \<Rightarrow> do {
          e \<leftarrow> checkDataSource h kubeconfig ref;
          case e of Some err \<Rightarrow> State_Monad.return (Inl err) | None \<Rightarrow> check_refs h kubeconfig refs (unique @ [ref])
        })"

definition datasourcePreflight :: "'w vb_host \<Rightarrow> run_ctx \<Rightarrow> test_requirement \<Rightarrow> ('w, string + clone_source list) state" where
  "datasourcePreflight h rc tr =
     ok_then (preflightVMTemplates h rc tr) (\<lambda>prepared.
       case template_sources h prepared of
         Inl err \<Rightarrow> State_Monad.return (Inl err)
       | Inr refs \<Rightarrow> check_refs h (strParamOr tr ''kubeconfig'' []) refs [])"

fun storage_requests_of :: "'w vb_host \<Rightarrow> string \<Rightarrow> (string \<times> string) list \<Rightarrow> string + storage_request list" where
  "storage_requests_of h sc [] = Inr []"
| "storage_requests_of h sc ((ns, data) # vms) =
     (case StorageRequests (Documents (vh_yaml h)) (vh_claim h) data sc ns of
        Inl err \<Rightarrow> Inl err
      | Inr disks \<Rightarrow> map_sum id (\<lambda>rest. disks @ rest) (storage_requests_of h sc vms))"

definition vmStoragePreflight :: "'w vb_host \<Rightarrow> run_ctx \<Rightarrow> test_requirement \<Rightarrow> ('w, finding list) state" where
  "vmStoragePreflight h rc tr = do {
     p \<leftarrow> preflightVMTemplates h rc tr;
     case p of
       Inl err \<Rightarrow> State_Monad.return []
     | Inr prepared \<Rightarrow>
         (case storage_requests_of h (vb_storageClass (Some rc) tr) prepared of
            Inl err \<Rightarrow> State_Monad.return [error_finding (tr_ID tr @ '' storage: '' @ err)]
          | Inr requests \<Rightarrow> CheckStorage (vh_cluster h) (vh_probe h) (strParamOr tr ''kubeconfig'' []) (LabelStorageRequests tr requests))
   }"


section \<open>Clones through snapshots\<close>

text \<open>
  \<open>snapshotClone\<close>; its field \<open>Target\<close> is the requirement of the preflight, an argument here. The
  indices of \<open>Sources\<close> are those of the volumes.
\<close>

record snapshot_clone =
  xc_Selection :: snapshot_selection
  xc_Template :: object
  xc_Volumes :: "object list"
  xc_Sources :: "(nat, clone_source) gomap"
  xc_Snapshots :: "(string, clone_source) gomap"
  xc_Created :: "clone_source list"

text \<open>The clone in the bag. The pointer is shared there, so a stage that changes it stores it again.\<close>

definition any_of_source :: "clone_source \<Rightarrow> any" where
  "any_of_source s = AObj [(''Name'', AStr (cs_Name s)), (''Namespace'', AStr (cs_Namespace s))]"

definition source_of_any :: "any \<Rightarrow> clone_source option" where
  "source_of_any v = map_option (\<lambda>m. \<lparr> cs_Name = as_str (key m ''Name''), cs_Namespace = as_str (key m ''Namespace'') \<rparr>) (as_obj v)"

definition any_of_clone :: "snapshot_clone \<Rightarrow> any" where
  "any_of_clone c =
     AObj [(''*virtbench.snapshotClone'', any_of_selection (xc_Selection c)), (''Template'', AObj (xc_Template c)),
           (''Volumes'', AList (map AObj (xc_Volumes c))),
           (''Sources'', AList (map (\<lambda>(i, s). AList [AInt (int i), any_of_source s]) (xc_Sources c))),
           (''Snapshots'', AObj (map (\<lambda>(k, s). (k, any_of_source s)) (xc_Snapshots c))),
           (''Created'', AList (map any_of_source (xc_Created c)))]"

definition indexed_source :: "any \<Rightarrow> (nat \<times> clone_source) option" where
  "indexed_source v = (case as_list v of [AInt i, s] \<Rightarrow> map_option (Pair (nat i)) (source_of_any s) | _ \<Rightarrow> None)"

definition clone_of_any :: "any \<Rightarrow> snapshot_clone option" where
  "clone_of_any v =
     (let m = obj_of v in
      case (selection_of_any (key m ''*virtbench.snapshotClone''), those (map as_obj (as_list (key m ''Volumes''))),
          those (map indexed_source (as_list (key m ''Sources''))),
          those (map (\<lambda>(k, s). map_option (Pair k) (source_of_any s)) (obj_of (key m ''Snapshots''))),
          those (map source_of_any (as_list (key m ''Created'')))) of
        (Some s, Some vs, Some ss, Some xs, Some cs) \<Rightarrow>
          Some \<lparr> xc_Selection = s, xc_Template = obj_of (key m ''Template''), xc_Volumes = vs, xc_Sources = ss, xc_Snapshots = xs,
                 xc_Created = cs \<rparr>
      | _ \<Rightarrow> None)"

lemma source_of_any_inverse [simp]: "source_of_any (any_of_source s) = Some s"
  by (simp add: any_of_source_def source_of_any_def key_def gm_get_Cons)

lemma those_map_inverse: "(\<And>x. x \<in> set xs \<Longrightarrow> f (g x) = Some x) \<Longrightarrow> those (map (f \<circ> g) xs) = Some xs"
  by (induction xs) auto

lemma clone_of_any_inverse [simp]: "clone_of_any (any_of_clone c) = Some c"
proof -
  have "those (map (as_obj \<circ> AObj) (xc_Volumes c)) = Some (xc_Volumes c)"
    by (rule those_map_inverse) simp
  moreover have "those (map (indexed_source \<circ> (\<lambda>(i, s). AList [AInt (int i), any_of_source s])) (xc_Sources c)) = Some (xc_Sources c)"
    by (rule those_map_inverse) (auto simp: indexed_source_def split: prod.splits)
  moreover have "those (map ((\<lambda>(k, v). map_option (Pair k) (source_of_any v)) \<circ> (\<lambda>(k, s). (k, any_of_source s))) (xc_Snapshots c)) =
      Some (xc_Snapshots c)"
    by (rule those_map_inverse) (simp split: prod.splits)
  moreover have "those (map (source_of_any \<circ> any_of_source) (xc_Created c)) = Some (xc_Created c)"
    by (rule those_map_inverse) simp
  ultimately show ?thesis by (simp add: any_of_clone_def clone_of_any_def key_def gm_get_Cons obj_of_def)
qed

text \<open>\<open>maps.Equal\<close>; a nil map is an empty one.\<close>

definition sources_equal :: "(string, clone_source) gomap \<Rightarrow> (string, clone_source) gomap \<Rightarrow> bool" where
  "sources_equal a b = (length a = length b \<and> list_all (\<lambda>(k, v). gm_get b k = Some v) a)"

fun common_source ::
  "'w vb_host \<Rightarrow> string \<Rightarrow> string \<Rightarrow> clone_source list \<Rightarrow> (string, clone_source) gomap option \<Rightarrow>
     ('w, string + (string, clone_source) gomap option) state" where
  "common_source h kubeconfig name [] source = State_Monad.return (Inr source)"
| "common_source h kubeconfig name (ref # refs) source =
     ok_then (loadDataSource h kubeconfig ref) (\<lambda>ds.
       if (case source of None \<Rightarrow> False
           | Some m \<Rightarrow> \<not> sources_equal m (case ds_Source ds of Some d \<Rightarrow> d | None \<Rightarrow> []))
       then State_Monad.return (Inl (''local DataSource '' @ name @ '' resolves to different sources; specify sourceRef.namespace in the template''))
       else common_source h kubeconfig name refs (ds_Source ds))"

text \<open>\<open>None\<close> is the nil map: a blank disk is not a clone.\<close>

definition resolveSource ::
  "'w vb_host \<Rightarrow> string \<Rightarrow> test_requirement \<Rightarrow> object \<Rightarrow> ('w, string + (string, clone_source) gomap option) state" where
  "resolveSource h kubeconfig target v =
     (case as_obj (key v ''sourceRef'') of
        Some ref \<Rightarrow>
          if key ref ''kind'' \<noteq> AStr ''DataSource'' then
            State_Monad.return (Inl (''use_snapshot: unsupported sourceRef kind '' @ go_sprint (key ref ''kind'')))
          else
            (let name = as_str (key ref ''name'') in
             case resolveLocalDataSources target [\<lparr> cs_Name = name, cs_Namespace = as_str (key ref ''namespace'') \<rparr>] of
               Inl err \<Rightarrow> State_Monad.return (Inl err)
             | Inr refs \<Rightarrow> common_source h kubeconfig name refs None)
      | None \<Rightarrow>
          (let source = as_obj (key v ''source'') in
           if (case source of Some s \<Rightarrow> gm_has s ''blank'' | None \<Rightarrow> False) then State_Monad.return (Inr None)
           else State_Monad.return
             (case vx_sources (vh_codec h) (case source of Some s \<Rightarrow> AObj s | None \<Rightarrow> ANil) of
                Inl err \<Rightarrow> Inl err
              | Inr decoded \<Rightarrow> if decoded = [] then Inl ''use_snapshot: missing clone source'' else Inr (Some decoded))))"

fun template_volumes :: "any list \<Rightarrow> string + object list" where
  "template_volumes [] = Inr []"
| "template_volumes (item # items) =
     (case as_obj (key (obj_of item) ''spec'') of
        None \<Rightarrow> Inl ''snapshot clone: invalid dataVolumeTemplate''
      | Some v \<Rightarrow> map_sum id (\<lambda>rest. v # rest) (template_volumes items))"

text \<open>One volume: a PVC must be in the class of the selection, a snapshot must be of it.\<close>

definition volume_clone ::
  "'w vb_host \<Rightarrow> test_requirement \<Rightarrow> nat \<Rightarrow> object \<Rightarrow> snapshot_clone \<Rightarrow> ('w, string + bool \<times> snapshot_clone) state" where
  "volume_clone h target i v c =
     (let selection = xc_Selection c; kubeconfig = sn_Kubeconfig selection in
      ok_then (resolveSource h kubeconfig target v) (\<lambda>found.
        case found of
          None \<Rightarrow> State_Monad.return (Inr (False, c))
        | Some source \<Rightarrow>
            (case gm_get source ''pvc'' of
               Some pvc \<Rightarrow>
                 ok_then (getCloneObject h kubeconfig (vx_storageClassName (vh_codec h)) ''pvc'' pvc) (\<lambda>cls. do {
                   r \<leftarrow> ResolveSnapshot (vh_cluster h) (vh_snapshot h) cls (sn_SnapshotClass selection) kubeconfig False;
                   State_Monad.return (case r of
                       Inl err \<Rightarrow> Inl (''source PVC '' @ ref_text pvc @ '': '' @ err)
                     | Inr _ \<Rightarrow> Inr (True, c\<lparr>xc_Sources := gm_set i pvc (xc_Sources c)\<rparr>))
                 })
             | None \<Rightarrow>
                 (case gm_get source ''snapshot'' of
                    Some snapshot \<Rightarrow>
                      ok_then (getCloneObject h kubeconfig (vx_snapshotClassName (vh_codec h)) ''volumesnapshot'' snapshot) (\<lambda>cls.
                        State_Monad.return
                          (if cls \<noteq> sn_SnapshotClass selection then
                             Inl (''source snapshot '' @ ref_text snapshot @ '' uses snapshot class '' @ go_quote cls @ '', requested '' @
                               go_quote (sn_SnapshotClass selection))
                           else Inr (True, c\<lparr>xc_Snapshots := gm_set (show_nat i) snapshot (xc_Snapshots c)\<rparr>)))
                  | None \<Rightarrow> State_Monad.return (Inl ''use_snapshot requires PVC or snapshot clone sources'')))))"

fun volume_clones ::
  "'w vb_host \<Rightarrow> test_requirement \<Rightarrow> nat \<Rightarrow> object list \<Rightarrow> nat \<Rightarrow> snapshot_clone \<Rightarrow> ('w, string + nat \<times> snapshot_clone) state" where
  "volume_clones h target i [] cloned c = State_Monad.return (Inr (cloned, c))"
| "volume_clones h target i (v # vs) cloned c =
     ok_then (volume_clone h target i v c) (\<lambda>(one, c'). volume_clones h target (Suc i) vs (if one then Suc cloned else cloned) c')"

definition clone_template :: "'w vb_host \<Rightarrow> run_ctx \<Rightarrow> test_requirement \<Rightarrow> string \<Rightarrow> string + object \<times> object list" where
  "clone_template h rc tr data =
     (case resolvePlanTemplateValues ''datasource-clone'' (Some rc) tr of Inl err \<Rightarrow> Inl err | Inr values \<Rightarrow>
      (case renderVMTemplate h ''snapshot-source.yaml'' data values of Inl err \<Rightarrow> Inl err | Inr rendered \<Rightarrow>
      (case Documents (vh_yaml h) rendered of
         Inl err \<Rightarrow> Inl (''snapshot clone VM template: '' @ err)
       | Inr [template] \<Rightarrow>
           map_sum id (\<lambda>vs. (template, vs)) (template_volumes (as_list (key (obj_of (key template ''spec'')) ''dataVolumeTemplates'')))
       | Inr _ \<Rightarrow> Inl ''snapshot clone VM template must contain one YAML document'')))"

definition snapshotClonePreflight :: "'w vb_host \<Rightarrow> run_ctx \<Rightarrow> test_requirement \<Rightarrow> ('w, string + snapshot_clone) state" where
  "snapshotClonePreflight h rc tr =
     ok_then (ResolveSnapshot (vh_cluster h) (vh_snapshot h) (vb_storageClass (Some rc) tr)
         (case rc_Backend rc of Some be \<Rightarrow> rb_SnapshotClass be | None \<Rightarrow> []) (strParamOr tr ''kubeconfig'' []) False) (\<lambda>selection.
     ok_then (vmSourceTemplate h Run_ctx tr) (\<lambda>source.
       case clone_template h rc tr (fst source) of
         Inl err \<Rightarrow> State_Monad.return (Inl err)
       | Inr (template, volumes) \<Rightarrow>
           ok_then (volume_clones h tr 0 volumes 0 \<lparr> xc_Selection = selection, xc_Template = template, xc_Volumes = volumes,
               xc_Sources = [], xc_Snapshots = [], xc_Created = [] \<rparr>) (\<lambda>(cloned, c). State_Monad.return
             (if cloned = 0 then Inl ''use_snapshot requires at least one PVC or snapshot clone source in dataVolumeTemplates''
              else Inr c))))"

section \<open>Creating the snapshots\<close>

definition create_snapshot :: "'w vb_host \<Rightarrow> snapshot_clone \<Rightarrow> clone_source \<Rightarrow> ('w, string + clone_source) state" where
  "create_snapshot h c source =
     (case vh_Embedded h ''templates/shared/volume-snapshot.yaml'' of
        Inl err \<Rightarrow> State_Monad.return (Inl err)
      | Inr templateSource \<Rightarrow>
          (case vmRender h ''volume-snapshot.yaml'' templateSource
              [(''NAMESPACE'', AStr (cs_Namespace source)), (''PVC_NAME'', AStr (cs_Name source)),
               (''SNAPSHOT_CLASS'', AStr (sn_SnapshotClass (xc_Selection c)))] of
             Inl err \<Rightarrow> State_Monad.return (Inl err)
           | Inr data \<Rightarrow>
               ok_then (SnapshotCommand (vh_cluster h) (sn_Kubeconfig (xc_Selection c)) (Some data) [''create'', ''-f'', ''-'', ''-o'', ''json''])
                 (\<lambda>out. State_Monad.return (vx_metadata (vh_codec h) out))))"

definition wait_snapshot_args :: "clone_source \<Rightarrow> string list" where
  "wait_snapshot_args made =
     [''wait'', ''volumesnapshot/'' @ cs_Name made, ''-n'', cs_Namespace made, ''--for=jsonpath={.status.readyToUse}=true'', ''--timeout=5m'']"

text \<open>What was created is recorded before the wait, so that it is cleaned up.\<close>

fun create_snapshots :: "'w vb_host \<Rightarrow> nat list \<Rightarrow> snapshot_clone \<Rightarrow> ('w, string option \<times> snapshot_clone) state" where
  "create_snapshots h [] c = State_Monad.return (None, c)"
| "create_snapshots h (i # indices) c =
     (case gm_get (xc_Sources c) i of
        None \<Rightarrow> create_snapshots h indices c
      | Some source \<Rightarrow> do {
          m \<leftarrow> create_snapshot h c source;
          case m of
            Inl err \<Rightarrow> State_Monad.return (Some err, c)
          | Inr made \<Rightarrow>
              (let c1 = c\<lparr>xc_Created := xc_Created c @ [made]\<rparr> in do {
                 r \<leftarrow> SnapshotCommand (vh_cluster h) (sn_Kubeconfig (xc_Selection c)) None (wait_snapshot_args made);
                 case r of
                   Inl err \<Rightarrow> State_Monad.return (Some err, c1)
                 | Inr _ \<Rightarrow> create_snapshots h indices (c1\<lparr>xc_Snapshots := gm_set (show_nat i) made (xc_Snapshots c1)\<rparr>)
               })
        })"

definition clone_prepare :: "'w vb_host \<Rightarrow> snapshot_clone \<Rightarrow> string \<Rightarrow> ('w, (string + string) \<times> snapshot_clone) state" where
  "clone_prepare h c0 dir = do {
     p \<leftarrow> create_snapshots h [0..<length (xc_Volumes c0)] c0;
     case p of
       (Some err, c) \<Rightarrow> State_Monad.return (Inl err, c)
     | (None, c) \<Rightarrow>
         (case vh_Embedded h ''templates/shared/snapshot-vm.yaml'' of
            Inl err \<Rightarrow> State_Monad.return (Inl err, c)
          | Inr templateSource \<Rightarrow>
              (case vmRender h ''snapshot-vm.yaml'' templateSource
                  [(''VM'', AObj (xc_Template c)), (''SNAPSHOTS'', AObj (map (\<lambda>(k, s). (k, any_of_source s)) (xc_Snapshots c)))] of
                 Inl err \<Rightarrow> State_Monad.return (Inl err, c)
               | Inr data \<Rightarrow> do {
                   r \<leftarrow> writeTemplateFile h dir ''snapshot-vm.yaml'' data;
                   State_Monad.return (r, c)
                 }))
   }"

definition delete_snapshot_args :: "clone_source \<Rightarrow> string list" where
  "delete_snapshot_args source =
     [''delete'', ''volumesnapshot'', cs_Name source, ''-n'', cs_Namespace source, ''--ignore-not-found'', ''--wait=false'']"

text \<open>A failed delete is only logged.\<close>

fun clone_cleanup :: "'w vb_host \<Rightarrow> string \<Rightarrow> clone_source list \<Rightarrow> ('w, unit) state" where
  "clone_cleanup h kubeconfig [] = State_Monad.return ()"
| "clone_cleanup h kubeconfig (source # sources) = do {
     r \<leftarrow> SnapshotCommand (vh_cluster_in Cleanup_ctx h) kubeconfig None (delete_snapshot_args source);
     clone_cleanup h kubeconfig sources
   }"


section \<open>Worker nodes\<close>

definition is_worker :: "node_item \<Rightarrow> bool" where
  "is_worker n =
     (gm_has (ni_Labels n) ''node-role.kubernetes.io/worker'' \<and> \<not> gm_has (ni_Labels n) ''node-role.kubernetes.io/control-plane'' \<and>
      \<not> gm_has (ni_Labels n) ''node-role.kubernetes.io/master'')"

text \<open>The schedulable workers and all of them, each sorted by name.\<close>

definition workers_of :: "node_item list \<Rightarrow> string list \<times> string list" where
  "workers_of items =
     (let ws = filter is_worker items in (sort (map ni_Name (filter (\<lambda>n. \<not> ni_Unschedulable n) ws)), sort (map ni_Name ws)))"

definition listWorkers :: "'w vb_host \<Rightarrow> vb_ctx \<Rightarrow> string \<Rightarrow> ('w, string + string list \<times> string list) state" where
  "listWorkers h c kubeconfig = do {
     r \<leftarrow> runKubectl h c kubeconfig [''get'', ''nodes'', ''-o'', ''json''];
     State_Monad.return (case r of (out, ok, err) \<Rightarrow>
         (case err of
            Some e \<Rightarrow> Inl e
          | None \<Rightarrow>
              if \<not> ok then Inl (''kubectl get nodes failed: '' @ trim_space out)
              else (case vx_nodes (vh_codec h) out of
                      Inl e \<Rightarrow> Inl (''parse nodes: '' @ e)
                    | Inr items \<Rightarrow> Inr (workers_of items))))
   }"

definition uncordonNode :: "'w vb_host \<Rightarrow> vb_ctx \<Rightarrow> string \<Rightarrow> string \<Rightarrow> ('w, string option) state" where
  "uncordonNode h c kubeconfig node = do {
     r \<leftarrow> runKubectl h c kubeconfig [''uncordon'', node];
     State_Monad.return (case r of (out, ok, err) \<Rightarrow>
         (case err of Some e \<Rightarrow> Some e | None \<Rightarrow> if ok then None else Some (''kubectl uncordon '' @ node @ '': '' @ trim_space out)))
   }"

section \<open>The drain\<close>

definition drain_target :: "bool \<Rightarrow> test_requirement \<Rightarrow> finding" where
  "drain_target replay tr =
     (let target = strParamOr tr ''target_node'' [] in
      if replay then skip_finding (tr_ID tr @ '' target_node: replay mode'')
      else if target = [] then error_finding (''virtbench: '' @ tr_ID tr @ '' requires a target_node param (the worker to drain)'')
      else info (tr_ID tr @ '' target_node='' @ target))"

definition drainPreflight :: "'w vb_host \<Rightarrow> test_requirement list \<Rightarrow> ('w, finding list) state" where
  "drainPreflight h trs =
     (let replay = replayDir trs \<noteq> []; missing = (case vh_LookPath h ''kubectl'' of Inl _ \<Rightarrow> True | Inr _ \<Rightarrow> False);
          cli = (if replay then skip_finding ''kubectl on PATH: replay mode''
                 else if missing then error_finding ''kubectl not found on PATH (needed to drain the target node)''
                 else info ''kubectl found on PATH'');
          fs = cli # map (drain_target replay) trs;
          finish = (\<lambda>f. State_Monad.return (fs @ [f]))
      in if replay then finish (skip_finding ''schedulable workers for drain: replay mode'')
         else if missing then finish (skip_finding ''schedulable workers for drain: kubectl not found on PATH'')
         else do {
           r \<leftarrow> listWorkers h Run_ctx (kubeconfigOf trs);
           case r of
             Inl err \<Rightarrow> finish (error_finding (''virtbench: cannot list worker nodes: '' @ err))
           | Inr (schedulable, everyone) \<Rightarrow>
               finish (if length schedulable < 2 then
                         error_finding (''virtbench: node drain needs >=2 schedulable workers (a migration target); found '' @
                           show_nat (length schedulable))
                       else info (''virtbench: '' @ show_nat (length schedulable) @ '' schedulable workers available for drain''))
         })"

definition drainProvision :: "'w vb_host \<Rightarrow> run_ctx \<Rightarrow> test_requirement \<Rightarrow> string \<Rightarrow> ('w, string option) state" where
  "drainProvision h rc tr resultsRoot =
     (if strParamOr tr ''target_node'' [] = [] then
        State_Monad.return (Some ''virtbench: drain: target_node param is required (the worker to drain)'')
      else case drainCloneArgs (Some rc) tr resultsRoot (strParamOr tr ''vm_template'' []) (strParamOr tr ''namespace_prefix'' ''virtbench-drain'') of
        Inl err \<Rightarrow> State_Monad.return (Some err)
      | Inr args \<Rightarrow> do {
          e \<leftarrow> execVirtbench h Run_ctx (plain_request resultsRoot args tr);
          State_Monad.return (map_option (\<lambda>err. ''virtbench: drain: clone VMs: '' @ err) e)
        })"

text \<open>Failures are only logged.\<close>

fun uncordon_all :: "'w vb_host \<Rightarrow> string \<Rightarrow> string list \<Rightarrow> ('w, unit) state" where
  "uncordon_all h kubeconfig [] = State_Monad.return ()"
| "uncordon_all h kubeconfig (w # ws) = do { e \<leftarrow> uncordonNode h Cleanup_ctx kubeconfig w; uncordon_all h kubeconfig ws }"

definition drainTeardown :: "'w vb_host \<Rightarrow> bag \<Rightarrow> ('w, string option) state" where
  "drainTeardown h b =
     (let kubeconfig = bag_string b ''kubeconfig'' in do {
        r \<leftarrow> listWorkers h Cleanup_ctx kubeconfig;
        case r of
          Inl err \<Rightarrow> State_Monad.return None
        | Inr (schedulable, everyone) \<Rightarrow> do { u \<leftarrow> uncordon_all h kubeconfig everyone; State_Monad.return None }
      })"

section \<open>The single-node ceiling\<close>

fun node_findings :: "'w vb_host \<Rightarrow> bool \<Rightarrow> string \<Rightarrow> test_requirement list \<Rightarrow> ('w, finding list) state" where
  "node_findings h replay kubeconfig [] = State_Monad.return []"
| "node_findings h replay kubeconfig (tr # trs) = do {
     f \<leftarrow> (let node = strParamOr tr ''node_name'' []; named = ''virtbench: '' @ tr_ID tr @ '': node_name '' @ go_quote node in
          if replay then State_Monad.return (skip_finding (tr_ID tr @ '' node_name schedulability: replay mode''))
          else if node = [] then
            State_Monad.return (skip_finding (''virtbench: '' @ tr_ID tr @ '': no node_name pinned; virtbench will select a random worker''))
          else do {
            r \<leftarrow> listWorkers h Run_ctx kubeconfig;
            State_Monad.return (case r of
                Inl err \<Rightarrow> error_finding (''virtbench: cannot list worker nodes: '' @ err)
              | Inr (schedulable, everyone) \<Rightarrow>
                  if node \<notin> set schedulable then error_finding (named @ '' is not a schedulable worker'')
                  else info (named @ '' is a schedulable worker''))
          });
     fs \<leftarrow> node_findings h replay kubeconfig trs;
     State_Monad.return (f # fs)
   }"

definition singleNodeCeilingPreflight :: "'w vb_host \<Rightarrow> test_requirement list \<Rightarrow> ('w, finding list) state" where
  "singleNodeCeilingPreflight h trs = node_findings h (replayDir trs \<noteq> []) (kubeconfigOf trs) trs"

fun metric_count :: "metric list \<Rightarrow> string \<Rightarrow> int" where
  "metric_count [] name = 0"
| "metric_count (m # ms) name = (if m_Name m = name then f64_to_int (m_Value m) else metric_count ms name)"

definition vmCount :: "test_result \<Rightarrow> string \<Rightarrow> int" where
  "vmCount res name = metric_count (res_Metrics res) name"

definition singleNodeLunMetric :: "test_requirement \<Rightarrow> test_result \<Rightarrow> metric list" where
  "singleNodeLunMetric tr res =
     [metric_of ''max_luns_per_node'' (f64_of_int (wrap64 (vmCount res ''max_vms_per_node'' * intParam tr ''num_disks'' 1))) ''count'']"

section \<open>The VMs of the failure recovery\<close>

definition ready_jsonpath :: string where
  "ready_jsonpath = ''jsonpath={.status.conditions[?(@.type=='' @ [CHR 0x22] @ ''Ready'' @ [CHR 0x22] @ '')].status}''"

definition schedulable_jsonpath :: string where
  "schedulable_jsonpath = ''jsonpath={.metadata.labels.kubevirt'' @ [CHR 0x5C] @ ''.io/schedulable}''"

definition node_args :: "string \<Rightarrow> string \<Rightarrow> string list" where
  "node_args node path = [''get'', ''node'', node, ''-o'', path]"

fun ready_nodes :: "'w vb_host \<Rightarrow> string \<Rightarrow> string list \<Rightarrow> ('w, string list) state" where
  "ready_nodes h kubeconfig [] = State_Monad.return []"
| "ready_nodes h kubeconfig (n # ns) = do {
     r \<leftarrow> runKubectl h Run_ctx kubeconfig (node_args n ready_jsonpath);
     if \<not> fst (snd r) \<or> trim_space (fst r) \<noteq> ''True'' then ready_nodes h kubeconfig ns
     else do {
       s \<leftarrow> runKubectl h Run_ctx kubeconfig (node_args n schedulable_jsonpath);
       if trim_space (fst s) \<noteq> ''true'' then ready_nodes h kubeconfig ns
       else do { rest \<leftarrow> ready_nodes h kubeconfig ns; State_Monad.return (n # rest) }
     }
   }"

text \<open>The hostname label of a node, or its name.\<close>

definition hostname_label :: "'w vb_host \<Rightarrow> string \<Rightarrow> string \<Rightarrow> ('w, string) state" where
  "hostname_label h kubeconfig node = do {
     r \<leftarrow> runKubectl h Run_ctx kubeconfig (node_args node hostname_jsonpath);
     State_Monad.return (if fst (snd r) \<and> trim_space (fst r) \<noteq> [] then trim_space (fst r) else node)
   }"

definition worker_args :: "string list" where
  "worker_args = [''get'', ''nodes'', ''-l'', ''node-role.kubernetes.io/worker'', ''-o'', ''jsonpath={.items[*].metadata.name}'']"

text \<open>The random index is below its bound. A failed listing has no error to wrap.\<close>

definition pickWorkerNode :: "'w vb_host \<Rightarrow> string \<Rightarrow> ('w, string + string \<times> string) state" where
  "pickWorkerNode h kubeconfig = do {
     r \<leftarrow> runKubectl h Run_ctx kubeconfig worker_args;
     (case r of (out, ok, err) \<Rightarrow>
        if \<not> ok \<or> err \<noteq> None then
          State_Monad.return (Inl (''virtbench: list worker nodes: '' @ (case err of Some e \<Rightarrow> e | None \<Rightarrow> ''%!w(<nil>)'')))
        else if str_fields out = [] then
          State_Monad.return (Inl ''virtbench: no worker nodes found (label node-role.kubernetes.io/worker)'')
        else do {
          ready \<leftarrow> ready_nodes h kubeconfig (str_fields out);
          if ready = [] then
            State_Monad.return (Inl (''virtbench: no Ready+schedulable worker nodes found (all '' @ show_nat (length (str_fields out)) @
              '' workers are not Ready or kubevirt.io/schedulable != true)''))
          else do {
            drawn \<leftarrow> asks (vh_Draw h (length ready));
            case drawn of
              Inl e \<Rightarrow> State_Monad.return (Inl (''virtbench: choose worker node: '' @ e))
            | Inr i \<Rightarrow> do { label \<leftarrow> hostname_label h kubeconfig (ready ! i); State_Monad.return (Inr (ready ! i, label)) }
          }
        })
   }"

text \<open>One look of \<open>waitForVMRunning\<close> before its deadline, and the sleep after it.\<close>

definition vm_phase_args :: "string \<Rightarrow> string \<Rightarrow> string list" where
  "vm_phase_args ns vmName = [''get'', ''vmi'', vmName, ''-n'', ns, ''-o'', ''jsonpath={.status.phase}'']"

definition wait_vm_step :: "'w vb_host \<Rightarrow> string \<Rightarrow> string \<Rightarrow> string \<Rightarrow> int \<Rightarrow> int \<Rightarrow> ('w, string option option) state" where
  "wait_vm_step h kubeconfig ns vmName timeoutSec deadline = do {
     now \<leftarrow> asks (vh_Now h);
     if \<not> now < deadline then
       State_Monad.return (Some (Some (''VMI '' @ ns @ ''/'' @ vmName @ '' not Running after '' @ show_int timeoutSec @ ''s'')))
     else do {
       e \<leftarrow> asks (vh_ctxErr h Run_ctx);
       case e of
         Some err \<Rightarrow> State_Monad.return (Some (Some err))
       | None \<Rightarrow> do {
           r \<leftarrow> runKubectl h Run_ctx kubeconfig (vm_phase_args ns vmName);
           if fst (snd r) \<and> trim_space (fst r) = ''Running'' then State_Monad.return (Some None)
           else do { p \<leftarrow> vh_Do h (Pause Run_ctx 10000); State_Monad.return None }
         }
     }
   }"

partial_function (option) wait_vm_loop ::
  "'w vb_host \<Rightarrow> string \<Rightarrow> string \<Rightarrow> string \<Rightarrow> int \<Rightarrow> int \<Rightarrow> 'w \<Rightarrow> (string option \<times> 'w) option" where
  "wait_vm_loop h kubeconfig ns vmName timeoutSec deadline w =
     (case run_state (wait_vm_step h kubeconfig ns vmName timeoutSec deadline) w of
        (Some r, w') \<Rightarrow> Some (r, w')
      | (None, w') \<Rightarrow> wait_vm_loop h kubeconfig ns vmName timeoutSec deadline w')"

definition waitForVMRunning :: "'w vb_host \<Rightarrow> string \<Rightarrow> string \<Rightarrow> string \<Rightarrow> int \<Rightarrow> 'w \<Rightarrow> (string option \<times> 'w) option" where
  "waitForVMRunning h kubeconfig ns vmName timeoutSec w =
     wait_vm_loop h kubeconfig ns vmName timeoutSec (vh_Now h w + wrap64 (timeoutSec * 10 ^ 9)) w"

definition ensureNamespace :: "'w vb_host \<Rightarrow> string \<Rightarrow> string \<Rightarrow> ('w, string option) state" where
  "ensureNamespace h kubeconfig ns =
     (case vh_Embedded h ''templates/shared/namespace.yaml'' of
        Inl err \<Rightarrow> State_Monad.return (Some err)
      | Inr templateSource \<Rightarrow>
          (case vmRender h ''namespace.yaml'' templateSource [(''NAMESPACE'', AStr ns)] of
             Inl err \<Rightarrow> State_Monad.return (Some err)
           | Inr rendered \<Rightarrow> kubectlApply h Run_ctx kubeconfig rendered))"

fun apply_vms ::
  "'w vb_host \<Rightarrow> string \<Rightarrow> string \<Rightarrow> (string, any) gomap \<Rightarrow> string list \<Rightarrow> ('w, string option) state" where
  "apply_vms h kubeconfig source values [] = State_Monad.return None"
| "apply_vms h kubeconfig source values (ns # nss) =
     (let values' = gm_set ''NAMESPACE'' (AStr ns) values in
      case renderVMTemplate h ''failure-recovery.yaml'' source values' of
        Inl err \<Rightarrow> State_Monad.return (Some err)
      | Inr rendered \<Rightarrow> do {
          e \<leftarrow> ensureNamespace h kubeconfig ns;
          case e of
            Some err \<Rightarrow> State_Monad.return (Some (''virtbench: create namespace '' @ ns @ '': '' @ err))
          | None \<Rightarrow> do {
              a \<leftarrow> kubectlApply h Run_ctx kubeconfig rendered;
              case a of
                Some err \<Rightarrow> State_Monad.return (Some (''virtbench: apply VM in '' @ ns @ '': '' @ err))
              | None \<Rightarrow> apply_vms h kubeconfig source values' nss
            }
        })"

text \<open>The waits are a parameter: \<open>waitForVMRunning\<close>, which ends by its deadline (below).\<close>

type_synonym 'w vm_wait = "string \<Rightarrow> string \<Rightarrow> string \<Rightarrow> int \<Rightarrow> ('w, string option) state"

fun wait_vms :: "'w vm_wait \<Rightarrow> string \<Rightarrow> string \<Rightarrow> int \<Rightarrow> string list \<Rightarrow> ('w, string option) state" where
  "wait_vms wait kubeconfig vmName timeout [] = State_Monad.return None"
| "wait_vms wait kubeconfig vmName timeout (ns # nss) = do {
     e \<leftarrow> wait kubeconfig ns vmName timeout;
     case e of
       Some err \<Rightarrow> State_Monad.return (Some (''virtbench: VM '' @ ns @ ''/'' @ vmName @ '' not ready: '' @ err))
     | None \<Rightarrow> wait_vms wait kubeconfig vmName timeout nss
   }"

definition recovery_node :: "'w vb_host \<Rightarrow> string \<Rightarrow> test_requirement \<Rightarrow> ('w, string + string \<times> string) state" where
  "recovery_node h kubeconfig tr =
     (let node = strParamOr tr ''node'' []; label = strParamOr tr ''node_hostname_label'' [] in
      if node = [] then pickWorkerNode h kubeconfig
      else if label = [] then do { l \<leftarrow> hostname_label h kubeconfig node; State_Monad.return (Inr (node, l)) }
      else State_Monad.return (Inr (node, label)))"

definition recovery_vms ::
  "'w vb_host \<Rightarrow> 'w vm_wait \<Rightarrow> run_ctx \<Rightarrow> string \<Rightarrow> test_requirement \<Rightarrow> string \<Rightarrow> string \<Rightarrow> ('w, string option) state" where
  "recovery_vms h wait rc kubeconfig tr node label =
     (if vb_storageClass (Some rc) tr = [] then
        State_Monad.return (Some ''virtbench: TR-VIRT-007: storage_class required (select a --backend or set the 'storage_class' param)'')
      else case recoveryVMRange tr of
        Inl err \<Rightarrow> State_Monad.return (Some err)
      | Inr (first, final) \<Rightarrow> do {
          s \<leftarrow> vmSourceTemplate h Run_ctx tr;
          case s of
            Inl err \<Rightarrow> State_Monad.return (Some err)
          | Inr (source, b) \<Rightarrow>
              (case resolvePlanTemplateValues ''datasource-clone'' (Some rc) tr of
                 Inl err \<Rightarrow> State_Monad.return (Some err)
               | Inr values \<Rightarrow>
                   (let nss = map (\<lambda>i. strParamOr tr ''namespace_prefix'' ''failure-recovery'' @ ''-'' @ show_int i) [first..final] in do {
                      a \<leftarrow> apply_vms h kubeconfig source
                            (gm_set ''HOSTNAME_LABEL'' (AStr label) (gm_set ''NODE_NAME'' (AStr node) values)) nss;
                      case a of
                        Some err \<Rightarrow> State_Monad.return (Some err)
                      | None \<Rightarrow> wait_vms wait kubeconfig (strParamOr tr ''vm_name'' defaultVMName) (intParam tr ''vm_create_timeout'' 300) nss
                    }))
        })"

definition provisionFailureRecoveryVMs ::
  "'w vb_host \<Rightarrow> 'w vm_wait \<Rightarrow> run_ctx \<Rightarrow> test_requirement list \<Rightarrow> bag \<Rightarrow> ('w, string option \<times> bag) state" where
  "provisionFailureRecoveryVMs h wait rc trs b =
     (case trs of
        [] \<Rightarrow> State_Monad.return (None, b)
      | tr # _ \<Rightarrow>
          (let kubeconfig = bag_string b ''kubeconfig'' in do {
             n \<leftarrow> recovery_node h kubeconfig tr;
             case n of
               Inl err \<Rightarrow> State_Monad.return (Some err, b)
             | Inr (node, label) \<Rightarrow> do {
                 e \<leftarrow> recovery_vms h wait rc kubeconfig tr node label;
                 State_Monad.return (e, Bag_Set b ''picked_node'' (AStr node))
               }
           }))"


section \<open>The wait for a VM ends\<close>

text \<open>A wall clock: it never goes back, and a sleep lasts as long as it says. The clock counts nanoseconds.\<close>

definition clocked :: "'w vb_host \<Rightarrow> bool" where
  "clocked h =
     (\<forall>op w r w'. run_state (vh_Do h op) w = (r, w') \<longrightarrow>
        vh_Now h w \<le> vh_Now h w' \<and> (\<forall>n. op = Pause Run_ctx n \<longrightarrow> vh_Now h w + n * 10 ^ 6 \<le> vh_Now h w'))"

definition wait_vm_op :: "string \<Rightarrow> string \<Rightarrow> string \<Rightarrow> vb_op \<Rightarrow> bool" where
  "wait_vm_op kubeconfig ns vmName op =
     (op = Run_tool Run_ctx ''kubectl'' (with_kubeconfig kubeconfig (vm_phase_args ns vmName)) None [] \<or> op = Pause Run_ctx 10000)"

definition saw_running :: "'w vb_host \<Rightarrow> string \<Rightarrow> string \<Rightarrow> string \<Rightarrow> 'w \<Rightarrow> 'w \<Rightarrow> bool" where
  "saw_running h kubeconfig ns vmName w w' =
     (\<exists>r. run_state (runKubectl h Run_ctx kubeconfig (vm_phase_args ns vmName)) w = (r, w') \<and> fst (snd r) \<and> trim_space (fst r) = ''Running'')"

lemma kubectl_clock:
  assumes "clocked h" and "run_state (runKubectl h c kc args) w = (r, w')"
  shows "vh_Now h w \<le> vh_Now h w'"
proof -
  obtain p where "run_state (vh_Do h (Run_tool c ''kubectl'' (with_kubeconfig kc args) None [])) w = (p, w')"
    using assms(2) by (auto simp: runKubectl_def split: prod.splits)
  then show ?thesis using assms(1) unfolding clocked_def by blast
qed

lemma does_wait_vm_step: "does h (wait_vm_op kc ns vm) w0 (wait_vm_step h kc ns vm t d) (\<lambda>_. True)"
  unfolding wait_vm_step_def by (intro does_rules TrueI) (simp_all add: wait_vm_op_def)

lemma wait_vm_step_goes_on:
  assumes "clocked h" and "run_state (wait_vm_step h kc ns vm t deadline) w = (None, w')"
  shows "vh_Now h w < deadline \<and> vh_Now h w + 10 ^ 10 \<le> vh_Now h w'"
proof -
  obtain r w1 p where before: "vh_Now h w < deadline" and k: "run_state (runKubectl h Run_ctx kc (vm_phase_args ns vm)) w = (r, w1)"
    and p: "run_state (vh_Do h (Pause Run_ctx 10000)) w1 = (p, w')"
    using assms(2) by (auto simp: wait_vm_step_def split: if_splits option.splits prod.splits)
  have "vh_Now h w1 + 10000 * 10 ^ 6 \<le> vh_Now h w'" using assms(1) p unfolding clocked_def by blast
  with kubectl_clock[OF assms(1) k] before show ?thesis by simp
qed

lemma wait_vm_step_running:
  assumes "run_state (wait_vm_step h kc ns vm t deadline) w = (Some None, w')"
  shows "vh_Now h w < deadline \<and> saw_running h kc ns vm w w'"
  using assms by (auto simp: wait_vm_step_def saw_running_def split: if_splits option.splits prod.splits)

lemma wait_vm_loop_ends:
  assumes "clocked h"
  shows "\<exists>r w'. wait_vm_loop h kc ns vm t deadline w = Some (r, w') \<and> reaches h (wait_vm_op kc ns vm) w w' \<and>
     (r = None \<longrightarrow> (\<exists>w1. vh_Now h w1 < deadline \<and> saw_running h kc ns vm w1 w'))"
proof (induction "nat (deadline - vh_Now h w)" arbitrary: w rule: less_induct)
  case less
  obtain q w1 where st: "run_state (wait_vm_step h kc ns vm t deadline) w = (q, w1)" by fastforce
  have r1: "reaches h (wait_vm_op kc ns vm) w w1" by (rule reaches_run[OF does_wait_vm_step st])
  show ?case
  proof (cases q)
    case (Some r)
    then have "wait_vm_loop h kc ns vm t deadline w = Some (r, w1)" using st by (subst wait_vm_loop.simps) simp
    moreover have "r = None \<Longrightarrow> vh_Now h w < deadline \<and> saw_running h kc ns vm w w1"
      using st Some wait_vm_step_running by metis
    ultimately show ?thesis using r1 by blast
  next
    case None
    with st wait_vm_step_goes_on[OF assms] have "nat (deadline - vh_Now h w1) < nat (deadline - vh_Now h w)" by fastforce
    from less[OF this] obtain r w' where IH: "wait_vm_loop h kc ns vm t deadline w1 = Some (r, w')"
      "reaches h (wait_vm_op kc ns vm) w1 w'" "r = None \<longrightarrow> (\<exists>w2. vh_Now h w2 < deadline \<and> saw_running h kc ns vm w2 w')" by blast
    have "wait_vm_loop h kc ns vm t deadline w = Some (r, w')" using st None IH(1) by (subst wait_vm_loop.simps) simp
    with IH r1 reaches_trans show ?thesis by metis
  qed
qed

text \<open>
  The wait for a VM of the failure recovery ends on a clock that runs, it only asks for the phase and
  sleeps, and it reports success only when kubectl answered Running before the deadline.
\<close>

theorem waitForVMRunning_returns:
  assumes "clocked h"
  shows "\<exists>r w'. waitForVMRunning h kc ns vm t w = Some (r, w') \<and> reaches h (wait_vm_op kc ns vm) w w' \<and>
     (r = None \<longrightarrow> (\<exists>w1. vh_Now h w1 < vh_Now h w + wrap64 (t * 10 ^ 9) \<and> saw_running h kc ns vm w1 w'))"
  unfolding waitForVMRunning_def by (rule wait_vm_loop_ends[OF assms])

text \<open>A host on which every operation takes five seconds and a VM runs after the first minute.\<close>

definition slow_host :: "nat vb_host" where
  "slow_host = tick_host\<lparr>
     vh_Do := (\<lambda>op. State (\<lambda>w. let s = (if w < 60 then ''Scheduling'' else ''Running'') in
       (\<lparr> rp_Stdout = s, rp_Stderr = [], rp_Combined = s, rp_End = Ended \<rparr>,
        w + 5 + (case op of Pause c n \<Rightarrow> nat (n div 1000 + 1) | _ \<Rightarrow> 0)))),
     vh_Now := (\<lambda>w. int w * 10 ^ 9), vh_ctxErr := (\<lambda>_ _. None)\<rparr>"

lemma slow_clocked: "clocked slow_host"
  unfolding clocked_def
proof (intro allI impI conjI)
  fix op w r w' assume r: "run_state (vh_Do slow_host op) w = (r, w')"
  have w': "w' = w + 5 + (case op of Pause c n \<Rightarrow> nat (n div 1000 + 1) | _ \<Rightarrow> 0)"
    using r by (simp add: slow_host_def Let_def)
  show "vh_Now slow_host w \<le> vh_Now slow_host w'" by (simp add: w' slow_host_def)
  fix n assume "op = Pause Run_ctx n"
  then have "int w' \<ge> int w + (n div 1000 + 1)" using w' by simp
  then have "(int w + (n div 1000 + 1)) * 10 ^ 9 \<le> int w' * 10 ^ 9" by (intro mult_right_mono) simp_all
  then have "int w' * 10 ^ 9 \<ge> int w * 10 ^ 9 + (n div 1000 + 1) * 10 ^ 9" by (simp add: algebra_simps)
  moreover have "(n div 1000 + 1) * 10 ^ 9 \<ge> n * 10 ^ 6" by simp
  ultimately show "vh_Now slow_host w + n * 10 ^ 6 \<le> vh_Now slow_host w'" by (simp add: slow_host_def)
qed

theorem waitForVMRunning_returns_witness:
  "\<exists>r w'. waitForVMRunning slow_host [] ''failure-recovery-1'' ''rhel-9-vm'' 300 0 = Some (r, w') \<and>
     (r = None \<longrightarrow> (\<exists>w1. vh_Now slow_host w1 < 300 * 10 ^ 9 \<and> saw_running slow_host [] ''failure-recovery-1'' ''rhel-9-vm'' w1 w'))"
proof -
  have z: "vh_Now slow_host 0 + wrap64 (300 * 10 ^ 9) = 300 * 10 ^ 9" by (simp add: slow_host_def wrap64_def)
  from waitForVMRunning_returns[OF slow_clocked, of "[]" "''failure-recovery-1''" "''rhel-9-vm''" 300 0]
  show ?thesis unfolding z by blast
qed

section \<open>The node of the failure recovery\<close>

text \<open>A node that kubectl reported to be Ready and schedulable.\<close>

definition reported_usable :: "'w vb_host \<Rightarrow> string \<Rightarrow> string \<Rightarrow> bool" where
  "reported_usable h kubeconfig n =
     (\<exists>w1 w2 w3 r s. run_state (runKubectl h Run_ctx kubeconfig (node_args n ready_jsonpath)) w1 = (r, w2) \<and> fst (snd r) \<and>
        trim_space (fst r) = ''True'' \<and>
        run_state (runKubectl h Run_ctx kubeconfig (node_args n schedulable_jsonpath)) w2 = (s, w3) \<and> trim_space (fst s) = ''true'')"

lemma ready_nodes_usable:
  "run_state (ready_nodes h kc ns) w = (ready, w') \<Longrightarrow> n \<in> set ready \<Longrightarrow> n \<in> set ns \<and> reported_usable h kc n"
proof (induction ns arbitrary: w ready w')
  case (Cons m ns)
  obtain r w1 where r: "run_state (runKubectl h Run_ctx kc (node_args m ready_jsonpath)) w = (r, w1)" by fastforce
  obtain s w2 where s: "run_state (runKubectl h Run_ctx kc (node_args m schedulable_jsonpath)) w1 = (s, w2)" by fastforce
  obtain rest w3 where t: "run_state (ready_nodes h kc ns) w2 = (rest, w3)" by fastforce
  show ?case
  proof (cases "fst (snd r) \<and> trim_space (fst r) = ''True'' \<and> trim_space (fst s) = ''true''")
    case True
    then have "ready = m # rest" using Cons.prems(1) r s t by simp
    moreover have "reported_usable h kc m" using True r s unfolding reported_usable_def by blast
    ultimately show ?thesis using Cons.IH[OF t] Cons.prems(2) by auto
  next
    case False
    then obtain w4 where "run_state (ready_nodes h kc ns) w4 = (ready, w')"
      using Cons.prems(1) r s by (auto split: if_splits)
    from Cons.IH[OF this Cons.prems(2)] show ?thesis by simp
  qed
qed simp

text \<open>With a random source that keeps to its bound, the picked node was reported usable.\<close>

lemma pickWorkerNode_usable:
  assumes "run_state (pickWorkerNode h kc) w = (Inr (node, label), w')" and "\<And>k w i. vh_Draw h k w = Inr i \<Longrightarrow> i < k"
  shows "reported_usable h kc node \<and> label \<noteq> []"
proof -
  obtain out err w1 ready w2 i where
    n: "run_state (ready_nodes h kc (str_fields out)) w1 = (ready, w2)" and i: "vh_Draw h (length ready) w2 = Inr i" "node = ready ! i"
    and l: "run_state (hostname_label h kc node) w2 = (label, w')"
    using assms(1) by (auto simp: pickWorkerNode_def split: prod.splits if_splits sum.splits)
  from assms(2)[OF i(1)] i(2) have m: "node \<in> set ready" by simp
  have "n \<noteq> []" if "n \<in> set (str_fields s)" for n s
  proof -
    have "n \<in> set (fields_from acc s) \<Longrightarrow> n \<noteq> []" for acc
      by (induction acc s rule: fields_from.induct) (auto split: if_splits)
    then show ?thesis using that by (auto simp: str_fields_def)
  qed
  with ready_nodes_usable[OF n m] have "node \<noteq> []" by blast
  then have "label \<noteq> []" using l by (auto simp: hostname_label_def split: prod.splits if_splits)
  with ready_nodes_usable[OF n m] show ?thesis by blast
qed

section \<open>Clean-ups reach every item\<close>

end
