(* ===== verification/Virtbench_Engine.thy ===== *)
theory Virtbench_Engine
  imports Virtbench_Cluster Grader
begin

text \<open>
  The stages of the virtbench integrations (engine.go, scenario.go): one engine over a row of the
  scenario table and the hooks of that row. The set-up of the helper pod and the wait for a VM are
  parameters where they are called, as they are partial functions: they are \<open>ssh_Setup\<close> and
  \<open>waitForVMRunning\<close>, which return (theorems \<open>ssh_setup_returns\<close> and \<open>waitForVMRunning_returns\<close>).
  Log lines are left out.
\<close>

section \<open>Hooks\<close>

record 'w vb_hooks =
  hk_BuildArgs :: "run_ctx \<Rightarrow> bag \<Rightarrow> test_requirement \<Rightarrow> string \<Rightarrow> 'w \<Rightarrow> string + string list"
  hk_Run :: "(run_ctx \<Rightarrow> test_requirement list \<Rightarrow> bag \<Rightarrow> ('w, string + run_handle) state) option"
  hk_Parse :: "string \<Rightarrow> string \<Rightarrow> string + test_result list"
  hk_Preflight :: "(test_requirement list \<Rightarrow> ('w, finding list) state) option"
  hk_Provision :: "(run_ctx \<Rightarrow> test_requirement \<Rightarrow> string \<Rightarrow> ('w, string option) state) option"
  hk_ProvisionVMs :: "(run_ctx \<Rightarrow> test_requirement list \<Rightarrow> bag \<Rightarrow> ('w, string option \<times> bag) state) option"
  hk_Teardown :: "(bag \<Rightarrow> ('w, string option) state) option"
  hk_Collect :: "(string \<Rightarrow> bool \<Rightarrow> 'w \<Rightarrow> string + string list \<times> string) option"
  hk_Validate :: "(test_requirement \<Rightarrow> 'w \<Rightarrow> string option) option"
  hk_DetailParse :: "(string \<Rightarrow> string + metric list) option"
  hk_DeriveMetrics :: "(test_requirement \<Rightarrow> test_result \<Rightarrow> metric list) option"

definition no_hooks ::
  "(run_ctx \<Rightarrow> bag \<Rightarrow> test_requirement \<Rightarrow> string \<Rightarrow> 'w \<Rightarrow> string + string list) \<Rightarrow> (string \<Rightarrow> string \<Rightarrow> string + test_result list) \<Rightarrow> 'w vb_hooks" where
  "no_hooks build parse =
     \<lparr> hk_BuildArgs = build, hk_Run = None, hk_Parse = parse, hk_Preflight = None, hk_Provision = None, hk_ProvisionVMs = None,
       hk_Teardown = None, hk_Collect = None, hk_Validate = None, hk_DetailParse = None, hk_DeriveMetrics = None \<rparr>"

definition flag_in :: "bag \<Rightarrow> string \<Rightarrow> bool" where
  "flag_in b k = (case Bag_Get b k of Some (ABool v) \<Rightarrow> v | _ \<Rightarrow> False)"

abbreviation clone_in :: "bag \<Rightarrow> snapshot_clone option" where
  "clone_in b \<equiv> GetAs clone_of_any b ''snapshot_clone''"

section \<open>Preflight\<close>

definition replay_findings :: "'w vb_host \<Rightarrow> string \<Rightarrow> 'w \<Rightarrow> finding list" where
  "replay_findings h dir w =
     (if dir = [] then []
      else case vh_Stat h dir w of
        Inl err \<Rightarrow> [error_finding (''virtbench: replay results_dir '' @ go_quote dir @ '' not accessible: '' @ err)]
      | Inr isDir \<Rightarrow> [info (''virtbench: replay results_dir accessible: '' @ dir)])"

definition cli_missing :: string where
  "cli_missing =
     ''virtbench CLI not found on PATH (install per https://portworx.github.io/kubevirt-benchmark/install/, or use replay mode via the results_dir param)''"

definition cli_findings :: "'w vb_host \<Rightarrow> vb_scenario \<Rightarrow> string \<Rightarrow> ('w, finding list) state" where
  "cli_findings h sc dir =
     (let check = sc_CommandCheck sc;
          skipped = (\<lambda>why. if check \<noteq> [] then [skip_finding (''virtbench command '' @ hd check @ '': '' @ why)] else [])
      in if dir \<noteq> [] then
           State_Monad.return (skip_finding ''virtbench CLI on PATH: replay mode'' # skipped ''replay mode'')
         else case vh_LookPath h ''virtbench'' of
           Inl _ \<Rightarrow> State_Monad.return
             (error_finding cli_missing #
              skipped ''virtbench CLI not found on PATH'')
         | Inr _ \<Rightarrow>
             if check = [] then State_Monad.return [info ''virtbench CLI found on PATH'']
             else do {
               r \<leftarrow> vh_Do h (Run_tool Run_ctx ''virtbench'' check None []);
               State_Monad.return [info ''virtbench CLI found on PATH'',
                 (case end_error (rp_End r) of
                    Some err \<Rightarrow> error_finding (''virtbench: required command '' @ go_quote (hd check) @ '' unavailable: '' @ err @ '': '' @
                      trim_space (rp_Combined r))
                  | None \<Rightarrow> info (''virtbench command available: '' @ hd check))]
             })"

definition datasource_findings :: "'w vb_host \<Rightarrow> run_ctx \<Rightarrow> string \<Rightarrow> test_requirement \<Rightarrow> ('w, finding list) state" where
  "datasource_findings h rc dir tr =
     (if dir \<noteq> [] then State_Monad.return []
      else do {
        r \<leftarrow> datasourcePreflight h rc tr;
        State_Monad.return (case r of
            Inl err \<Rightarrow> [error_finding (tr_ID tr @ '' datasource: '' @ err)]
          | Inr refs \<Rightarrow> map (\<lambda>ref. info (tr_ID tr @ '' datasource='' @ ref_text ref)) refs)
      })"

text \<open>The clone is left in the bag for the run.\<close>

definition clone_findings ::
  "'w vb_host \<Rightarrow> vb_scenario \<Rightarrow> run_ctx \<Rightarrow> string \<Rightarrow> test_requirement \<Rightarrow> bag \<Rightarrow> ('w, finding list \<times> bag) state" where
  "clone_findings h sc rc dir tr b =
     (if dir = [] \<and> usesSnapshot tr \<and> has_prefix (sc_AutomationTool sc) ''virtbench datasource-clone'' then do {
        r \<leftarrow> snapshotClonePreflight h rc tr;
        State_Monad.return (case r of
            Inl err \<Rightarrow> ([error_finding (tr_ID tr @ '' snapshot clone: '' @ err)], b)
          | Inr clone \<Rightarrow> ([selection_Finding (xc_Selection clone)], Bag_Set b ''snapshot_clone'' (any_of_clone clone)))
      }
      else State_Monad.return ([], b))"

definition class_finding :: "vb_scenario \<Rightarrow> run_ctx \<Rightarrow> string \<Rightarrow> test_requirement \<Rightarrow> finding" where
  "class_finding sc rc dir tr =
     (let cls = vb_storageClass (Some rc) tr in
      if dir \<noteq> [] then skip_finding (tr_ID tr @ '' storage_class: replay mode'')
      else if cls = [] \<and> \<not> sc_StorageClassOptional sc then
        error_finding (''virtbench: '' @ tr_ID tr @ '' has no storage_class (select a --backend or set the TR 'storage_class' param)'')
      else info (tr_ID tr @ '' storage_class='' @ cls))"

definition validate_findings :: "'w vb_hooks \<Rightarrow> run_ctx \<Rightarrow> string \<Rightarrow> test_requirement \<Rightarrow> 'w \<Rightarrow> finding list" where
  "validate_findings hk rc dir tr w =
     (case hk_Validate hk of
        None \<Rightarrow> []
      | Some validate \<Rightarrow>
          if dir \<noteq> [] then [skip_finding (tr_ID tr @ '' scenario parameters: replay mode'')]
          else [case validate (tr\<lparr>tr_Params := gm_set ''storage_class'' (AStr (vb_storageClass (Some rc) tr)) (tr_Params tr)\<rparr>) w of
                  Some err \<Rightarrow> error_finding (tr_ID tr @ '' scenario parameters: '' @ err)
                | None \<Rightarrow> info (tr_ID tr @ '' scenario parameters valid'')])"

definition tr_findings ::
  "'w vb_host \<Rightarrow> vb_scenario \<Rightarrow> 'w vb_hooks \<Rightarrow> run_ctx \<Rightarrow> string \<Rightarrow> test_requirement \<Rightarrow> bag \<Rightarrow> ('w, finding list \<times> bag) state" where
  "tr_findings h sc hk rc dir tr b = do {
     ds \<leftarrow> datasource_findings h rc dir tr;
     ss \<leftarrow> (if dir = [] \<and> vb_storageClass (Some rc) tr \<noteq> [] then vmStoragePreflight h rc tr else State_Monad.return []);
     cs \<leftarrow> clone_findings h sc rc dir tr b;
     vs \<leftarrow> asks (validate_findings hk rc dir tr);
     State_Monad.return (ds @ ss @ fst cs @ [class_finding sc rc dir tr] @ vs, snd cs)
   }"

fun all_findings ::
  "'w vb_host \<Rightarrow> vb_scenario \<Rightarrow> 'w vb_hooks \<Rightarrow> run_ctx \<Rightarrow> string \<Rightarrow> test_requirement list \<Rightarrow> bag \<Rightarrow> ('w, finding list \<times> bag) state" where
  "all_findings h sc hk rc dir [] b = State_Monad.return ([], b)"
| "all_findings h sc hk rc dir (tr # trs) b = do {
     x \<leftarrow> tr_findings h sc hk rc dir tr b;
     y \<leftarrow> all_findings h sc hk rc dir trs (snd x);
     State_Monad.return (fst x @ fst y, snd y)
   }"

definition vb_Check ::
  "'w vb_host \<Rightarrow> vb_scenario \<Rightarrow> 'w vb_hooks \<Rightarrow> run_ctx \<Rightarrow> test_requirement list \<Rightarrow> bag \<Rightarrow> ('w, (finding list \<times> string option) \<times> bag) state" where
  "vb_Check h sc hk rc trs b =
     (let dir = replayDir trs in do {
        rs \<leftarrow> asks (replay_findings h dir);
        cs \<leftarrow> cli_findings h sc dir;
        ts \<leftarrow> all_findings h sc hk rc dir trs b;
        ps \<leftarrow> (case hk_Preflight hk of Some m \<Rightarrow> m trs | None \<Rightarrow> State_Monad.return []);
        State_Monad.return ((rs @ cs @ fst ts @ ps, None), snd ts)
      })"

section \<open>Provision\<close>

type_synonym 'w vb_setup = "run_ctx \<Rightarrow> test_requirement list \<Rightarrow> ('w, string option) state"

definition provision_bag :: "vb_scenario \<Rightarrow> test_requirement list \<Rightarrow> bag \<Rightarrow> bag" where
  "provision_bag sc trs b =
     (case trs of
        [] \<Rightarrow> b
      | tr # _ \<Rightarrow> Bag_Set (Bag_Set (Bag_Set b ''tr_id'' (AStr (tr_ID tr))) ''ns_prefix'' (AStr (strParamOr tr ''namespace_prefix'' (sc_NSPrefix sc))))
          ''kubeconfig'' (AStr (strParamOr tr ''kubeconfig'' [])))"

definition results_root :: "run_ctx \<Rightarrow> test_requirement list \<Rightarrow> string" where
  "results_root rc trs =
     (case trs of
        [] \<Rightarrow> ExecutionDir (rc_WorkDir rc) (rc_RunID rc) ''virtbench'' [] []
      | tr # _ \<Rightarrow> ExecutionDir (rc_WorkDir rc) (rc_RunID rc) ''virtbench'' (tr_ID tr) (tr_Variant tr))"

definition vb_Provision ::
  "'w vb_host \<Rightarrow> vb_scenario \<Rightarrow> 'w vb_hooks \<Rightarrow> 'w vb_setup \<Rightarrow> run_ctx \<Rightarrow> test_requirement list \<Rightarrow> bag \<Rightarrow> ('w, string option \<times> bag) state" where
  "vb_Provision h sc hk ensure rc trs b =
     (let b1 = provision_bag sc trs b; dir = replayDir trs; dest = results_root rc trs in
      if dir \<noteq> [] then State_Monad.return (None, Bag_Set (Bag_Set b1 ''replay'' (ABool True)) ''results_root'' (AStr dir))
      else do {
        e \<leftarrow> ensure rc trs;
        case e of
          Some err \<Rightarrow> State_Monad.return (Some (''virtbench: ensure ssh helper pod: '' @ err), b1)
        | None \<Rightarrow> do {
            m \<leftarrow> perform h (Make_dir dest);
            case m of
              Some err \<Rightarrow> State_Monad.return (Some (''virtbench: create results dir: '' @ err), b1)
            | None \<Rightarrow>
                (let b2 = Bag_Set (Bag_Set b1 ''replay'' (ABool False)) ''results_root'' (AStr dest) in do {
                   p \<leftarrow> (case (hk_Provision hk, trs) of
                       (Some provision, tr # _) \<Rightarrow> provision rc tr dest
                     | _ \<Rightarrow> State_Monad.return None);
                   case p of
                     Some err \<Rightarrow> State_Monad.return (Some err, b2)
                   | None \<Rightarrow> (case hk_ProvisionVMs hk of Some vms \<Rightarrow> vms rc trs b2 | None \<Rightarrow> State_Monad.return (None, b2))
                 })
          }
      })"

section \<open>Run\<close>

text \<open>The prepared clone, when there is one: the path of its template, and the bag with what it created.\<close>

definition prepare_clone ::
  "'w vb_host \<Rightarrow> test_requirement \<Rightarrow> string \<Rightarrow> string list \<Rightarrow> bag \<Rightarrow> ('w, (string + string list \<times> bool) \<times> bag) state" where
  "prepare_clone h tr dest args b =
     (case clone_in b of
        None \<Rightarrow> State_Monad.return (Inr (args, False), b)
      | Some clone \<Rightarrow> do {
          p \<leftarrow> clone_prepare h clone dest;
          let b1 = Bag_Set b ''snapshot_clone'' (any_of_clone (snd p));
          case fst p of
            Inl err \<Rightarrow> State_Monad.return (Inl (''prepare snapshot clone: '' @ err), b1)
          | Inr path \<Rightarrow> do {
              u \<leftarrow> (if vh_Records h then perform h (Record_selection (zero_storage_selection\<lparr>ss_TR := tr_ID tr, ss_Variant := tr_Variant tr,
                       ss_StorageClass := sn_StorageClass (xc_Selection clone), ss_SnapshotClass := sn_SnapshotClass (xc_Selection clone)\<rparr>))
                    else State_Monad.return None);
              State_Monad.return (Inr (setArgument args ''--vm-template'' path, True), b1)
            }
        })"

definition vb_Run ::
  "'w vb_host \<Rightarrow> vb_scenario \<Rightarrow> 'w vb_hooks \<Rightarrow> run_ctx \<Rightarrow> test_requirement list \<Rightarrow> bag \<Rightarrow> ('w, (string + run_handle) \<times> bag) state" where
  "vb_Run h sc hk rc trs b =
     (let dest = bag_string b ''results_root'' in
      if flag_in b ''replay'' then State_Monad.return (Inr ''virtbench-replay'', b)
      else case trs of
        [] \<Rightarrow> State_Monad.return (Inl ''virtbench: no TRs to run'', b)
      | tr # _ \<Rightarrow>
          (case hk_Run hk of
             Some run \<Rightarrow> do { r \<leftarrow> run rc trs b; State_Monad.return (r, b) }
           | None \<Rightarrow> do {
               built \<leftarrow> asks (hk_BuildArgs hk rc b tr dest);
               case built of
                 Inl err \<Rightarrow> State_Monad.return (Inl err, b)
               | Inr args \<Rightarrow> do {
                   p \<leftarrow> prepare_clone h tr dest args b;
                   case p of
                     (Inl err, b1) \<Rightarrow> State_Monad.return (Inl err, b1)
                   | (Inr (args1, prepared), b1) \<Rightarrow> do {
                       e \<leftarrow> execVirtbench h Run_ctx \<lparr> mq_Prepared = prepared, mq_TR = tr, mq_Directory = dest, mq_Args = args1 \<rparr>;
                       State_Monad.return
                         (if e \<noteq> None \<and> \<not> sc_TolerateRunError sc then Inl (''virtbench: run failed: '' @ the e)
                          else Inr (''virtbench-'' @ rc_RunID rc), b1)
                     }
                 }
             }))"

text \<open>\<open>runFIO\<close>: the deferred clean-up runs on its own context, and its failure is only logged.\<close>

definition runFIO :: "'w vb_host \<Rightarrow> run_ctx \<Rightarrow> test_requirement list \<Rightarrow> bag \<Rightarrow> ('w, string + run_handle) state" where
  "runFIO h rc trs b =
     (let dest = bag_string b ''results_root''; fail = (\<lambda>err. State_Monad.return (Inl err)) in
      case trs of
        [] \<Rightarrow> fail ''virtbench: no FIO test requirement''
      | tr # _ \<Rightarrow>
          if dest = [] then fail ''virtbench: no results_root in bag''
          else do {
            template \<leftarrow> asks (fioTemplate h tr);
            case fioArgs ''fio-latency'' template (Some rc) tr dest of
              Inl err \<Rightarrow> fail err
            | Inr runArgs \<Rightarrow>
                (case fioActionArgs runArgs ''cleanup'' of
                   Inl err \<Rightarrow> fail (''virtbench: '' @ tr_ID tr @ '': '' @ err)
                 | Inr cleanupArgs \<Rightarrow> do {
                     e \<leftarrow> runVirtbench h Run_ctx dest runArgs tr;
                     u \<leftarrow> runVirtbench h Cleanup_ctx dest cleanupArgs tr;
                     State_Monad.return (case e of
                         Some err \<Rightarrow> Inl (''virtbench fio: run-all: '' @ err)
                       | None \<Rightarrow> Inr (''virtbench-'' @ rc_RunID rc))
                   })
          })"

section \<open>Collect\<close>

text \<open>The callback of the walk: the first error of the file system ends it.\<close>

fun walk_matches :: "string \<Rightarrow> walk_item list \<Rightarrow> string + string list" where
  "walk_matches name [] = Inr []"
| "walk_matches name (d # ds) =
     (case wi_Err d of
        Some err \<Rightarrow> Inl err
      | None \<Rightarrow> map_sum id (\<lambda>found. if \<not> wi_IsDir d \<and> wi_Name d = name then wi_Path d # found else found) (walk_matches name ds))"

definition findResults :: "'w vb_host \<Rightarrow> string \<Rightarrow> string \<Rightarrow> 'w \<Rightarrow> string + string list" where
  "findResults h dir name w =
     (case walk_matches name (vh_Walk h dir w) of
        Inl err \<Rightarrow> Inl (''virtbench: search '' @ dir @ '': '' @ err)
      | Inr [] \<Rightarrow> Inl (''virtbench: '' @ name @ '' not found under '' @ dir)
      | Inr found \<Rightarrow> Inr (sort found))"

definition findResult :: "'w vb_host \<Rightarrow> string \<Rightarrow> string \<Rightarrow> 'w \<Rightarrow> string + string" where
  "findResult h dir name w =
     (case findResults h dir name w of
        Inl err \<Rightarrow> Inl err
      | Inr [path] \<Rightarrow> Inr path
      | Inr found \<Rightarrow> Inl (''virtbench: '' @ show_nat (length found) @ '' copies of '' @ name @ '' under '' @ dir @ '' ('' @
          join_with '', '' found @ ''); cannot tell which belongs to this execution''))"

fun read_results :: "'w vb_host \<Rightarrow> string list \<Rightarrow> 'w \<Rightarrow> string + string list" where
  "read_results h [] w = Inr []"
| "read_results h (path # paths) w =
     (case vh_ReadFile h path w of
        Inl err \<Rightarrow> Inl (''virtbench: read fio result '' @ go_quote path @ '': '' @ err)
      | Inr data \<Rightarrow> map_sum id (\<lambda>rest. data # rest) (read_results h paths w))"

definition collectFIOResults :: "'w vb_host \<Rightarrow> string \<Rightarrow> bool \<Rightarrow> 'w \<Rightarrow> string + string list \<times> string" where
  "collectFIOResults h dir replay w =
     (case findResults h dir ''fio_raw.json'' w of Inl err \<Rightarrow> Inl err | Inr paths \<Rightarrow>
      (case read_results h paths w of Inl err \<Rightarrow> Inl err | Inr results \<Rightarrow>
        if replay then
          (case results of
             [data] \<Rightarrow> Inr (paths, data)
           | _ \<Rightarrow> Inl (''virtbench: replay FIO results has '' @ show_nat (length results) @ '' raw files, want one''))
        else case findResult h dir ''summary_fio_benchmark.json'' w of Inl err \<Rightarrow> Inl err | Inr summaryPath \<Rightarrow>
          (case vh_ReadFile h summaryPath w of
             Inl err \<Rightarrow> Inl (''virtbench: read fio summary: '' @ err)
           | Inr summary \<Rightarrow>
               (case vx_fio (vh_codec h) summary results of
                  Inl err \<Rightarrow> Inl (''virtbench: package fio results: '' @ err)
                | Inr bundle \<Rightarrow> Inr (paths @ [summaryPath], bundle)))))"

text \<open>The detail file: required when the scenario grades from it, best effort otherwise.\<close>

definition collect_detail ::
  "'w vb_host \<Rightarrow> vb_scenario \<Rightarrow> 'w vb_hooks \<Rightarrow> string \<Rightarrow> 'w \<Rightarrow> log_bundle \<Rightarrow> string + log_bundle" where
  "collect_detail h sc hk dir w logs =
     (let required = (hk_DetailParse hk \<noteq> None) in
      if sc_DetailFile sc = [] then Inr logs
      else case findResult h dir (sc_DetailFile sc) w of
        Inl err \<Rightarrow> if required then Inl (''virtbench: detail results: '' @ err) else Inr logs
      | Inr dp \<Rightarrow>
          (case vh_ReadFile h dp w of
             Inl err \<Rightarrow> if required then Inl (''virtbench: read detail results '' @ dp @ '': '' @ err) else Inr logs
           | Inr dd \<Rightarrow> Inr (logs\<lparr>lb_Data := gm_set (sc_DetailFile sc) dd (lb_Data logs), lb_Refs := lb_Refs logs @ [dp]\<rparr>)))"

definition collect_files :: "'w vb_host \<Rightarrow> vb_scenario \<Rightarrow> 'w vb_hooks \<Rightarrow> bag \<Rightarrow> 'w \<Rightarrow> string + log_bundle" where
  "collect_files h sc hk b w =
     (let dir = bag_string b ''results_root''; file = sc_ResultFile sc;
          bundle = (\<lambda>refs data. zero_log_bundle\<lparr>lb_Refs := refs, lb_Data := [(file, data)]\<rparr>)
      in if dir = [] then Inl ''virtbench: no results_root in bag''
         else case hk_Collect hk of
           Some collect \<Rightarrow> map_sum id (\<lambda>(refs, data). bundle refs data) (collect dir (flag_in b ''replay'') w)
         | None \<Rightarrow>
             (case findResult h dir file w of
                Inl err \<Rightarrow> Inl err
              | Inr path \<Rightarrow>
                  (case vh_ReadFile h path w of
                     Inl err \<Rightarrow> Inl (''virtbench: read results: '' @ err)
                   | Inr data \<Rightarrow> collect_detail h sc hk dir w (bundle [path] data))))"

definition vb_Collect :: "'w vb_host \<Rightarrow> vb_scenario \<Rightarrow> 'w vb_hooks \<Rightarrow> bag \<Rightarrow> ('w, (string + log_bundle) \<times> bag) state" where
  "vb_Collect h sc hk b = do { r \<leftarrow> asks (collect_files h sc hk b); State_Monad.return (r, b) }"

section \<open>Parse\<close>

definition append_metrics :: "metric list \<Rightarrow> test_result \<Rightarrow> test_result" where
  "append_metrics ms res = res\<lparr>res_Metrics := res_Metrics res @ ms\<rparr>"

definition vb_Parse :: "vb_scenario \<Rightarrow> 'w vb_hooks \<Rightarrow> log_bundle \<Rightarrow> bag \<Rightarrow> string + test_result list" where
  "vb_Parse sc hk logs b =
     (let trID = (if bag_string b ''tr_id'' = [] then sc_ProvidesTR sc else bag_string b ''tr_id'');
          data = (case gm_get (lb_Data logs) (sc_ResultFile sc) of Some d \<Rightarrow> d | None \<Rightarrow> [])
      in case hk_Parse hk data trID of
           Inl err \<Rightarrow> Inl err
         | Inr [] \<Rightarrow> Inr []
         | Inr (res # rest) \<Rightarrow>
             (case (hk_DetailParse hk, gm_get (lb_Data logs) (sc_DetailFile sc)) of
                (Some detail, Some dd) \<Rightarrow> map_sum id (\<lambda>extra. append_metrics extra res # rest) (detail dd)
              | _ \<Rightarrow> Inr (res # rest)))"

section \<open>Tear down\<close>

fun delete_namespaces :: "'w vb_host \<Rightarrow> string \<Rightarrow> string list \<Rightarrow> ('w, unit) state" where
  "delete_namespaces h kubeconfig [] = State_Monad.return ()"
| "delete_namespaces h kubeconfig (ns # nss) =
     do { e \<leftarrow> deleteNamespace h Cleanup_ctx kubeconfig ns; delete_namespaces h kubeconfig nss }"

definition sweep_prefix :: "vb_scenario \<Rightarrow> bag \<Rightarrow> string" where
  "sweep_prefix sc b = (if bag_string b ''ns_prefix'' = [] then sc_NSPrefix sc else bag_string b ''ns_prefix'') @ ''-''"

definition vb_Teardown :: "'w vb_host \<Rightarrow> vb_scenario \<Rightarrow> 'w vb_hooks \<Rightarrow> bag \<Rightarrow> ('w, string option \<times> bag) state" where
  "vb_Teardown h sc hk b =
     (let kubeconfig = bag_string b ''kubeconfig'' in
      if flag_in b ''replay'' then State_Monad.return (None, b)
      else do {
        e \<leftarrow> (case hk_Teardown hk of Some teardown \<Rightarrow> teardown b | None \<Rightarrow> State_Monad.return None);
        r \<leftarrow> listNamespacesByPrefix h Cleanup_ctx kubeconfig (sweep_prefix sc b);
        u \<leftarrow> (case r of Inl err \<Rightarrow> State_Monad.return () | Inr leftovers \<Rightarrow> delete_namespaces h kubeconfig leftovers);
        v \<leftarrow> (case clone_in b of
               Some clone \<Rightarrow> clone_cleanup h (sn_Kubeconfig (xc_Selection clone)) (xc_Created clone)
             | None \<Rightarrow> State_Monad.return ());
        State_Monad.return (None, b)
      })"

section \<open>Evaluate\<close>

definition incomplete_run :: "test_requirement \<Rightarrow> test_result \<Rightarrow> verdict" where
  "incomplete_run tr res = zero_verdict\<lparr>v_TR := tr_ID tr, v_Item := ''native:all_vms_succeeded'', v_Outcome := OutcomeFail,
     v_Reason := ''run incomplete: '' @ show_int (vmCount res ''vms_failed'') @ '' of '' @ show_int (vmCount res ''vms_total'') @ '' VMs failed''\<rparr>"

definition fio_reason :: "vb_scenario \<Rightarrow> test_result \<Rightarrow> verdict \<Rightarrow> verdict" where
  "fio_reason sc res v =
     (if sc_AutomationTool sc = ''virtbench fio'' \<and> vmCount res ''vms_total'' > 1 \<and>
         (v_Item v = ''sla:read_latency@p99'' \<or> v_Item v = ''sla:write_latency@p99'')
      then v\<lparr>v_Reason := ''worst per-VM p99 across '' @ show_int (vmCount res ''vms_total'') @ '' VMs''\<rparr> else v)"

definition scenario_Evaluate :: "vb_scenario \<Rightarrow> 'w vb_hooks \<Rightarrow> evaluator" where
  "scenario_Evaluate sc hk tr res0 =
     (let res = (case hk_DeriveMetrics hk of Some derive \<Rightarrow> append_metrics (derive tr res0) res0 | None \<Rightarrow> res0) in
      if res_Native res = OutcomeFail then Inr [incomplete_run tr res]
      else Inr (map (fio_reason sc res) (gradeSLAs tr res) @ gradeChecks tr res))"

section \<open>The integrations\<close>

text \<open>The decoders of the result files.\<close>

record result_codec =
  rx_summary :: "string \<Rightarrow> string + summary_file"
  rx_recovery :: "string \<Rightarrow> string + recovery_file"
  rx_diskOps :: "string \<Rightarrow> string + disk_op_agg option"
  rx_fio :: fio_codec
  rx_detail :: "string \<Rightarrow> string + f64 option list"

definition one_result :: "(string \<Rightarrow> string \<Rightarrow> string + test_result) \<Rightarrow> string \<Rightarrow> string \<Rightarrow> string + test_result list" where
  "one_result parse data trID = map_sum id (\<lambda>res. [res]) (parse data trID)"

text \<open>The functions of the scenarios, by their automation tool.\<close>

definition scenario_hooks :: "'w vb_host \<Rightarrow> result_codec \<Rightarrow> 'w vm_wait \<Rightarrow> (string, 'w vb_hooks) gomap" where
  "scenario_hooks h rx wait =
     [(''virtbench datasource-clone'',
        no_hooks (\<lambda>rc b tr dir w. datasourceCloneArgs False ''virtbench'' (Some rc) tr dir) (one_result (ParseSummary (rx_summary rx)))),
      (''virtbench datasource-clone --boot-storm'',
        no_hooks (\<lambda>rc b tr dir w. datasourceCloneArgs True ''virtbench'' (Some rc) tr dir) (one_result (ParseBootStorm (rx_summary rx)))),
      (''virtbench disk-ops'',
        no_hooks (\<lambda>rc b tr dir w. diskOpsArgs ''disk-ops'' (Some rc) tr dir) (one_result (ParseDiskOps (rx_diskOps rx)))),
      (''virtbench datasource-clone --num-disks 2'',
        (no_hooks (\<lambda>rc b tr dir w. cloneAtScaleArgs ''virtbench'' (Some rc) tr dir) (one_result (ParseSummary (rx_summary rx))))
          \<lparr>hk_Validate := Some (cloneAtScaleValidate h),
           hk_DetailParse := Some (\<lambda>data. ClonePercentiles (rx_detail rx) data [''p99''])\<rparr>),
      (''virtbench vm-ops drain-nodes'',
        (no_hooks (\<lambda>rc b tr dir w. drainArgs tr dir) (one_result ParseDrain))
          \<lparr>hk_Preflight := Some (drainPreflight h), hk_Provision := Some (drainProvision h), hk_Teardown := Some (drainTeardown h)\<rparr>),
      (''virtbench fio'',
        (no_hooks (\<lambda>rc b tr dir w. fioArgs ''fio-latency'' (fioTemplate h tr w) (Some rc) tr dir) (ParseFIO (rx_fio rx)))
          \<lparr>hk_Run := Some (runFIO h), hk_Collect := Some (collectFIOResults h), hk_Validate := Some (fioValidate h)\<rparr>),
      (''virtbench datasource-clone --single-node'',
        (no_hooks (\<lambda>rc b tr dir w. singleNodeCeilingArgs ''virtbench-single-node'' (Some rc) tr dir)
            (one_result (ParseSingleNodeCeiling (rx_summary rx))))
          \<lparr>hk_Preflight := Some (singleNodeCeilingPreflight h), hk_Validate := Some (singleNodeCeilingValidate h),
           hk_DeriveMetrics := Some singleNodeLunMetric\<rparr>),
      (''virtbench failure-recovery'',
        (no_hooks (\<lambda>rc b tr dir w. failureRecoveryArgs ''failure-recovery'' (bag_string b ''picked_node'') tr dir)
            (one_result (ParseFailureRecovery (rx_recovery rx) (rx_summary rx))))
          \<lparr>hk_Validate := Some (\<lambda>tr w. failureRecoveryValidate tr), hk_ProvisionVMs := Some (provisionFailureRecoveryVMs h wait)\<rparr>)]"

definition vb_integration :: "'w vb_host \<Rightarrow> 'w vb_setup \<Rightarrow> vb_scenario \<Rightarrow> 'w vb_hooks \<Rightarrow> 'w tool_integration" where
  "vb_integration h ensure sc hk =
     \<lparr> ti_Name = sc_AutomationTool sc, ti_Image = [], ti_Provides = [sc_ProvidesTR sc],
       ti_Preflight = Some (\<lambda>rc trs. staged (vb_Check h sc hk rc trs)),
       ti_Provisioner = Some (\<lambda>rc trs. staged (vb_Provision h sc hk ensure rc trs)),
       ti_Runner = Some (\<lambda>rc trs. staged (vb_Run h sc hk rc trs)),
       ti_LogCollector = Some (\<lambda>rc handle. staged (vb_Collect h sc hk)),
       ti_ResultParser = Some (\<lambda>rc logs. staged (\<lambda>b. State_Monad.return (vb_Parse sc hk logs b, b))),
       ti_Teardown = Some (\<lambda>rc. staged (vb_Teardown h sc hk)),
       ti_ParallelSafe = False, ti_ExclusivityGroups = [''cluster''],
       ti_Evaluators = [(sc_ProvidesTR sc, Some (scenario_Evaluate sc hk))],
       ti_SetupGroups = [''virtbench''] \<rparr>"

definition virtbench_tools :: "'w vb_host \<Rightarrow> result_codec \<Rightarrow> 'w vb_setup \<Rightarrow> 'w vm_wait \<Rightarrow> 'w tool_integration list" where
  "virtbench_tools h rx ensure wait =
     List.map_filter (\<lambda>sc. map_option (vb_integration h ensure sc) (gm_get (scenario_hooks h rx wait) (sc_AutomationTool sc))) scenario_table"

definition virtbench_setup :: "'w vb_host \<Rightarrow> 'w vb_setup \<Rightarrow> 'w setup_provider" where
  "virtbench_setup h ensure =
     \<lparr> sp_Scope = ScopeGroup, sp_Key = ''virtbench'', sp_Setup = (\<lambda>rc trs. run_state (ensure rc trs)),
       sp_Teardown = (\<lambda>rc trs. run_state (ssh_Teardown h trs)) \<rparr>"


section \<open>The bag\<close>

lemma bag_string_Set [simp]:
  "bag_string (Bag_Set b k v) k' = (if k = k' then (case string_of_any v of Some s \<Rightarrow> s | None \<Rightarrow> []) else bag_string b k')"
  by (simp add: bag_string_def GetAs_def)

lemma flag_in_Set [simp]: "flag_in (Bag_Set b k v) k' = (if k = k' then v = ABool True else flag_in b k')"
  by (cases v) (auto simp: flag_in_def)

lemma clone_in_Set [simp]:
  "clone_in (Bag_Set b k v) = (if k = ''snapshot_clone'' then clone_of_any v else clone_in b)"
  by (simp add: GetAs_def)

section \<open>Replay\<close>

lemma replay_each:
  assumes "dir \<noteq> []"
  shows "\<exists>fs. run_state (all_findings h sc hk rc dir trs b) w = ((fs, b), w)"
proof (induction trs)
  case (Cons tr trs)
  have "run_state (tr_findings h sc hk rc dir tr b) w = ((class_finding sc rc dir tr # validate_findings hk rc dir tr w, b), w)"
    using assms by (simp add: tr_findings_def datasource_findings_def clone_findings_def)
  with Cons show ?case by auto
qed simp

lemma replay_node_findings: "\<exists>fs. run_state (node_findings h True kc trs) w = (fs, w)"
  by (induction trs) auto

lemma scenario_hook_cases:
  assumes "gm_get (scenario_hooks h rx wait) tool = Some hk"
  shows "hk_Preflight hk \<in> {None, Some (drainPreflight h), Some (singleNodeCeilingPreflight h)} \<and>
    hk_Teardown hk \<in> {None, Some (drainTeardown h)} \<and> hk_Run hk \<in> {None, Some (runFIO h)}"
proof -
  from assms have "(tool, hk) \<in> set (scenario_hooks h rx wait)" by (rule gm_get_Some_set)
  then show ?thesis by (auto simp: scenario_hooks_def no_hooks_def)
qed

lemma replay_preflight:
  assumes "replayDir trs \<noteq> []" and "gm_get (scenario_hooks h rx wait) tool = Some hk"
  shows "\<exists>fs. run_state (case hk_Preflight hk of Some m \<Rightarrow> m trs | None \<Rightarrow> State_Monad.return []) w = (fs, w)"
  using scenario_hook_cases[OF assms(2)] assms(1) replay_node_findings[of h "kubeconfigOf trs" trs w]
  by (auto simp: drainPreflight_def Let_def singleNodeCeilingPreflight_def)

lemma replay_Check:
  assumes "replayDir trs \<noteq> []" and "gm_get (scenario_hooks h rx wait) tool = Some hk"
  shows "\<exists>fs. run_state (vb_Check h sc hk rc trs b) w = (((fs, None), b), w)"
proof -
  have c: "\<exists>cs. run_state (cli_findings h sc (replayDir trs)) w = (cs, w)" using assms(1) by (simp add: cli_findings_def Let_def)
  from c replay_each[OF assms(1), of h sc hk rc trs b w] replay_preflight[OF assms, of w]
  show ?thesis by (auto simp: vb_Check_def Let_def)
qed

text \<open>
  C22: a batch with recorded results never touches the cluster: no stage of any scenario performs an
  operation, and the results are looked for in the directory that the plan names.
\<close>

theorem replay_performs_nothing:
  assumes "replayDir trs \<noteq> []" and "gm_get (scenario_hooks h rx wait) tool = Some hk"
  shows "(\<exists>fs. run_state (vb_Check h sc hk rc trs b) w = (((fs, None), b), w)) \<and>
    (\<exists>b'. run_state (vb_Provision h sc hk ensure rc trs b) w = ((None, b'), w) \<and> bag_string b' ''results_root'' = replayDir trs \<and>
       run_state (vb_Run h sc hk rc trs b') w = ((Inr ''virtbench-replay'', b'), w) \<and>
       snd (run_state (vb_Collect h sc hk b') w) = w \<and> run_state (vb_Teardown h sc hk b') w = ((None, b'), w))"
  using replay_Check[OF assms, of sc rc b w] assms(1)
  by (simp add: vb_Provision_def Let_def vb_Run_def vb_Collect_def vb_Teardown_def)

definition replay_tr :: test_requirement where
  "replay_tr = zero_test_requirement\<lparr>tr_ID := ''TR-VIRT-008'', tr_Params := [(''results_dir'', AStr ''/old'')]\<rparr>"

theorem replay_performs_nothing_witness:
  "\<forall>rx wait sc ensure. \<exists>hk b'. gm_get (scenario_hooks slow_host rx wait) ''virtbench vm-ops drain-nodes'' = Some hk \<and>
     run_state (vb_Provision slow_host sc hk ensure \<lparr> rc_RunID = ''r1'', rc_PartKind = [], rc_WorkDir = [], rc_Backend = None \<rparr> [replay_tr] []) 7 =
       ((None, b'), 7) \<and> bag_string b' ''results_root'' = ''/old''"
proof (intro allI)
  fix rx wait sc and ensure :: "nat vb_setup"
  obtain hk where hk: "gm_get (scenario_hooks slow_host rx wait) ''virtbench vm-ops drain-nodes'' = Some hk"
    by (simp add: scenario_hooks_def gm_get_Cons)
  have d: "replayDir [replay_tr] = ''/old''" by (simp add: replay_tr_def strParamOr_def gm_get_Cons Let_def)
  then have n: "replayDir [replay_tr] \<noteq> []" by simp
  from replay_performs_nothing[OF n hk, of sc "\<lparr> rc_RunID = ''r1'', rc_PartKind = [], rc_WorkDir = [], rc_Backend = None \<rparr>" "[]" 7 ensure]
  show "\<exists>hk b'. gm_get (scenario_hooks slow_host rx wait) ''virtbench vm-ops drain-nodes'' = Some hk \<and>
     run_state (vb_Provision slow_host sc hk ensure \<lparr> rc_RunID = ''r1'', rc_PartKind = [], rc_WorkDir = [], rc_Backend = None \<rparr> [replay_tr] []) 7 =
       ((None, b'), 7) \<and> bag_string b' ''results_root'' = ''/old''"
    using hk unfolding d by blast
qed

section \<open>The evaluator\<close>

lemma fio_reason_only: "fio_reason sc res v\<lparr>v_Reason := r\<rparr> = v\<lparr>v_Reason := r\<rparr>"
  by (simp add: fio_reason_def)

lemma fio_reason_outcome [simp]: "v_Outcome (fio_reason sc res v) = v_Outcome v"
  by (simp add: fio_reason_def)

definition measured :: "'w vb_hooks \<Rightarrow> test_requirement \<Rightarrow> test_result \<Rightarrow> test_result" where
  "measured hk tr res = (case hk_DeriveMetrics hk of Some derive \<Rightarrow> append_metrics (derive tr res) res | None \<Rightarrow> res)"

text \<open>
  Except for the reason texts, the evaluator of every scenario agrees with the generic grader on the
  measured and derived metrics, unless the run failed as a whole: then its only verdict fails.
\<close>

theorem scenario_Evaluate_equiv:
  "map_sum id (map (\<lambda>v. v\<lparr>v_Reason := []\<rparr>)) (scenario_Evaluate sc hk tr res) =
     Inr (if res_Native res = OutcomeFail
          then [zero_verdict\<lparr>v_TR := tr_ID tr, v_Item := ''native:all_vms_succeeded'', v_Outcome := OutcomeFail\<rparr>]
          else map (\<lambda>v. v\<lparr>v_Reason := []\<rparr>) (gradeSLAs tr (measured hk tr res) @ gradeChecks tr (measured hk tr res)))"
  by (simp add: scenario_Evaluate_def Let_def measured_def[symmetric] incomplete_run_def fio_reason_only o_def)
    (simp add: measured_def append_metrics_def zero_verdict_def split: option.splits)


section \<open>Traces\<close>

text \<open>A world that records every operation with its reply, in order.\<close>

definition traced :: "'w vb_host \<Rightarrow> ('w \<Rightarrow> (vb_op \<times> reply) list) \<Rightarrow> bool" where
  "traced h trace = (\<forall>op w r w'. run_state (vh_Do h op) w = (r, w') \<longrightarrow> trace w' = trace w @ [(op, r)])"

lemma traced_Do: "traced h trace \<Longrightarrow> run_state (vh_Do h op) w = (r, w') \<Longrightarrow> trace w' = trace w @ [(op, r)]"
  by (simp add: traced_def)

lemma traced_reaches:
  "reaches h may w0 w \<Longrightarrow> traced h trace \<Longrightarrow> \<exists>new. trace w = trace w0 @ new \<and> (\<forall>x \<in> set new. may (fst x))"
proof (induction rule: reaches.induct)
  case start
  then show ?case by simp
next
  case (step w op r w')
  then obtain new where new: "trace w = trace w0 @ new" "\<forall>x \<in> set new. may (fst x)" by blast
  have "trace w' = trace w0 @ (new @ [(op, r)])" using traced_Do[OF step.prems step.hyps(3)] new(1) by simp
  moreover have "\<forall>x \<in> set (new @ [(op, r)]). may (fst x)" using new(2) step.hyps(2) by simp
  ultimately show ?case by blast
qed

lemma traced_does:
  assumes "does h may w m (\<lambda>_. True)" and "run_state m w = (x, w')" and "traced h trace"
  shows "\<exists>new. trace w' = trace w @ new \<and> (\<forall>y \<in> set new. may (fst y))"
  using traced_reaches[OF reaches_run[OF assms(1,2)] assms(3)] .

text \<open>kubectl and the client of the snapshots, as operations.\<close>

definition kube :: "vb_ctx \<Rightarrow> string \<Rightarrow> string list \<Rightarrow> vb_op" where
  "kube c kubeconfig args = Run_tool c ''kubectl'' (with_kubeconfig kubeconfig args) None []"

definition kubectl_result :: "reply \<Rightarrow> string \<times> bool \<times> string option" where
  "kubectl_result r = (case rp_End r of Ended \<Rightarrow> (rp_Combined r, True, None) | Exit_error err \<Rightarrow> (rp_Combined r, False, None)
     | Start_error err \<Rightarrow> (rp_Combined r, False, Some err))"

lemma kubectl_trace:
  assumes "traced h trace" and "run_state (runKubectl h c kc args) w = (x, w')"
  shows "\<exists>r. trace w' = trace w @ [(kube c kc args, r)] \<and> x = kubectl_result r"
  using assms(2) traced_Do[OF assms(1)] by (auto simp: runKubectl_def kube_def kubectl_result_def split: prod.splits)

lemma snapshot_command_trace:
  assumes "traced h trace" and "run_state (SnapshotCommand (vh_cluster_in c h) kc input args) w = (x, w')"
  shows "if KubeCLI (vh_cluster_in c h) = [] then w' = w \<and> (\<exists>e. x = Inl e)
    else \<exists>r. trace w' = trace w @ [(Run_tool c (KubeCLI (vh_cluster_in c h)) (with_kubeconfig kc args) input [], r)] \<and>
      (x = Inr (rp_Stdout r) \<and> end_error (rp_End r) = None \<or> (\<exists>e. x = Inl e) \<and> end_error (rp_End r) \<noteq> None)"
  using assms(2) traced_Do[OF assms(1)]
  by (auto simp: SnapshotCommand_def Let_def with_kubeconfig_def vh_cluster_in_def split: prod.splits option.splits if_splits)

lemma unit_result: "\<exists>w'. run_state m w = ((), w')"
  by (cases "run_state m w") simp

section \<open>The tear-down\<close>

definition leftover_namespaces :: "reply \<Rightarrow> string \<Rightarrow> string list" where
  "leftover_namespaces r pfx =
     (if rp_End r = Ended then
        filter (\<lambda>name. name \<noteq> [] \<and> has_prefix name pfx)
          (map (\<lambda>line. trim_prefix (trim_space line) ''namespace/'') (split_on (CHR 0x0A) (trim_space (rp_Combined r))))
      else [])"

definition snapshot_delete :: "'w vb_host \<Rightarrow> snapshot_clone \<Rightarrow> clone_source \<Rightarrow> vb_op" where
  "snapshot_delete h clone source =
     Run_tool Cleanup_ctx (KubeCLI (vh_cluster_in Cleanup_ctx h)) (with_kubeconfig (sn_Kubeconfig (xc_Selection clone)) (delete_snapshot_args source)) None []"

definition uncordon_op :: "string \<Rightarrow> vb_op \<Rightarrow> bool" where
  "uncordon_op kubeconfig op =
     (op = kube Cleanup_ctx kubeconfig [''get'', ''nodes'', ''-o'', ''json''] \<or> (\<exists>n. op = kube Cleanup_ctx kubeconfig [''uncordon'', n]))"

lemma list_namespaces_trace:
  assumes "traced h trace" and "run_state (listNamespacesByPrefix h c kc pfx) w = (x, w')"
  shows "\<exists>r. trace w' = trace w @ [(kube c kc [''get'', ''ns'', ''-o'', ''name''], r)] \<and>
    (case x of Inl err \<Rightarrow> leftover_namespaces r pfx = [] | Inr names \<Rightarrow> names = leftover_namespaces r pfx)"
proof -
  obtain y where y: "run_state (runKubectl h c kc [''get'', ''ns'', ''-o'', ''name'']) w = (y, w')"
    using assms(2) by (auto simp: listNamespacesByPrefix_def split: prod.splits)
  obtain r where "trace w' = trace w @ [(kube c kc [''get'', ''ns'', ''-o'', ''name''], r)]" "y = kubectl_result r"
    using kubectl_trace[OF assms(1) y] by blast
  then show ?thesis using assms(2) y
    by (intro exI[of _ r]) (auto simp: listNamespacesByPrefix_def kubectl_result_def leftover_namespaces_def split: run_end.splits)
qed

lemma delete_namespaces_trace:
  "traced h trace \<Longrightarrow> run_state (delete_namespaces h kc nss) w = (x, w') \<Longrightarrow>
     \<exists>new. trace w' = trace w @ new \<and> map fst new = map (\<lambda>ns. kube Cleanup_ctx kc (delete_ns_args ns)) nss"
proof (induction nss arbitrary: w)
  case (Cons ns nss)
  obtain y w1 where y: "run_state (runKubectl h Cleanup_ctx kc (delete_ns_args ns)) w = (y, w1)" by fastforce
  then have "run_state (delete_namespaces h kc nss) w1 = (x, w')"
    using Cons.prems(2) by (simp add: deleteNamespace_def)
  from Cons.IH[OF Cons.prems(1) this] kubectl_trace[OF Cons.prems(1) y] show ?case by fastforce
qed simp

lemma clone_cleanup_trace:
  "traced h trace \<Longrightarrow> run_state (clone_cleanup h (sn_Kubeconfig (xc_Selection clone)) sources) w = (x, w') \<Longrightarrow>
     KubeCLI (vh_cluster_in Cleanup_ctx h) \<noteq> [] \<Longrightarrow> \<exists>new. trace w' = trace w @ new \<and> map fst new = map (snapshot_delete h clone) sources"
proof (induction sources arbitrary: w)
  case (Cons s sources)
  let ?kc = "sn_Kubeconfig (xc_Selection clone)"
  obtain y w1 where y: "run_state (SnapshotCommand (vh_cluster_in Cleanup_ctx h) ?kc None (delete_snapshot_args s)) w = (y, w1)" by fastforce
  then have "run_state (clone_cleanup h ?kc sources) w1 = (x, w')" using Cons.prems(2) by simp
  from Cons.IH[OF Cons.prems(1) this Cons.prems(3)] snapshot_command_trace[OF Cons.prems(1) y] Cons.prems(3)
  show ?case by (fastforce simp: snapshot_delete_def)
qed simp

lemma does_drain_teardown: "does h (uncordon_op (bag_string b ''kubeconfig'')) w0 (drainTeardown h b) (\<lambda>r. r = None)"
proof -
  have all: "does h (uncordon_op kc) w0 (uncordon_all h kc ws) (\<lambda>_. True)" for kc ws
    by (induction ws) (auto intro!: does_rules simp: uncordonNode_def uncordon_op_def kube_def)
  have list: "does h (uncordon_op kc) w0 (listWorkers h Cleanup_ctx kc) (\<lambda>_. True)" for kc
    unfolding listWorkers_def by (intro does_rules TrueI) (simp_all add: uncordon_op_def kube_def)
  show ?thesis unfolding drainTeardown_def Let_def by (intro does_rules list all TrueI) simp_all
qed

lemma teardown_steps:
  assumes "gm_get (scenario_hooks h rx wait) tool = Some hk" and "traced h trace" and "\<not> flag_in b ''replay''"
    and "run_state (vb_Teardown h sc hk b) w = ((e, b'), w')" and "KubeCLI (vh_cluster_in Cleanup_ctx h) \<noteq> []"
  shows "e = None \<and> b' = b \<and> (\<exists>hook r dels snaps.
    trace w' = trace w @ hook @ [(kube Cleanup_ctx (bag_string b ''kubeconfig'') [''get'', ''ns'', ''-o'', ''name''], r)] @ dels @ snaps \<and>
    (\<forall>x \<in> set hook. hk_Teardown hk \<noteq> None \<and> uncordon_op (bag_string b ''kubeconfig'') (fst x)) \<and>
    map fst dels = map (\<lambda>ns. kube Cleanup_ctx (bag_string b ''kubeconfig'') (delete_ns_args ns)) (leftover_namespaces r (sweep_prefix sc b)) \<and>
    map fst snaps = (case clone_in b of Some clone \<Rightarrow> map (snapshot_delete h clone) (xc_Created clone) | None \<Rightarrow> []))"
proof -
  let ?kc = "bag_string b ''kubeconfig''"
  let ?hook = "case hk_Teardown hk of Some teardown \<Rightarrow> teardown b | None \<Rightarrow> State_Monad.return None"
  obtain e1 w1 where s1: "run_state ?hook w = (e1, w1)" by fastforce
  obtain ls w2 where s2: "run_state (listNamespacesByPrefix h Cleanup_ctx ?kc (sweep_prefix sc b)) w1 = (ls, w2)" by fastforce
  have "\<exists>w3. run_state (case ls of Inl err \<Rightarrow> State_Monad.return () | Inr leftovers \<Rightarrow> delete_namespaces h ?kc leftovers) w2 = ((), w3)" by (rule unit_result)
  then obtain w3 where s3: "run_state (case ls of Inl err \<Rightarrow> State_Monad.return () | Inr leftovers \<Rightarrow> delete_namespaces h ?kc leftovers) w2 = ((), w3)" ..
  have "\<exists>w4. run_state (case clone_in b of Some clone \<Rightarrow> clone_cleanup h (sn_Kubeconfig (xc_Selection clone)) (xc_Created clone)
      | None \<Rightarrow> State_Monad.return ()) w3 = ((), w4)" by (rule unit_result)
  then obtain w4 where s4: "run_state (case clone_in b of Some clone \<Rightarrow> clone_cleanup h (sn_Kubeconfig (xc_Selection clone)) (xc_Created clone)
      | None \<Rightarrow> State_Monad.return ()) w3 = ((), w4)" ..
  have "run_state (vb_Teardown h sc hk b) w = ((None, b), w4)"
    unfolding vb_Teardown_def Let_def by (simp only: assms(3) if_False run_state_bind s1 s2 s3 s4 prod.case run_state_return)
  then have r: "e = None" "b' = b" "w' = w4" using assms(4) by simp_all
  have "does h (\<lambda>op. hk_Teardown hk \<noteq> None \<and> uncordon_op ?kc op) w ?hook (\<lambda>_. True)"
    using scenario_hook_cases[OF assms(1)] does_drain_teardown[of h b w] by (auto intro: does_return does_weaken)
  from traced_does[OF this s1 assms(2)] obtain hook where
    h: "trace w1 = trace w @ hook" "\<forall>x \<in> set hook. hk_Teardown hk \<noteq> None \<and> uncordon_op ?kc (fst x)" by blast
  obtain rp where n: "trace w2 = trace w1 @ [(kube Cleanup_ctx ?kc [''get'', ''ns'', ''-o'', ''name''], rp)]"
    "case ls of Inl err \<Rightarrow> leftover_namespaces rp (sweep_prefix sc b) = [] | Inr names \<Rightarrow> names = leftover_namespaces rp (sweep_prefix sc b)"
    using list_namespaces_trace[OF assms(2) s2] by blast
  obtain dels where d: "trace w3 = trace w2 @ dels"
    "map fst dels = map (\<lambda>ns. kube Cleanup_ctx ?kc (delete_ns_args ns)) (leftover_namespaces rp (sweep_prefix sc b))"
  proof (cases ls)
    case (Inl err)
    then show ?thesis using that[of "[]"] s3 n(2) by simp
  next
    case (Inr names)
    then show ?thesis using that s3 n(2) delete_namespaces_trace[OF assms(2), of ?kc names w2 "()" w3] by auto
  qed
  obtain snaps where c: "trace w4 = trace w3 @ snaps"
    "map fst snaps = (case clone_in b of Some clone \<Rightarrow> map (snapshot_delete h clone) (xc_Created clone) | None \<Rightarrow> [])"
  proof (cases "clone_in b")
    case None
    then show ?thesis using that[of "[]"] s4 by simp
  next
    case (Some clone)
    then show ?thesis using that s4 clone_cleanup_trace[OF assms(2) _ assms(5), of clone "xc_Created clone" w3 "()" w4] by auto
  qed
  show ?thesis using r h n(1) d c by (intro conjI exI[of _ hook] exI[of _ rp] exI[of _ dels] exI[of _ snaps]) simp_all
qed


section \<open>What a run creates\<close>

fun has_input :: "vb_op \<Rightarrow> bool" where
  "has_input (Run_tool c cli args input dir) = (input \<noteq> None)"
| "has_input _ = False"

text \<open>The snapshots that operations with a manifest on their input created, by the metadata of the replies.\<close>

definition created_by :: "'w vb_host \<Rightarrow> vb_op \<times> reply \<Rightarrow> clone_source list" where
  "created_by h x =
     (if has_input (fst x) \<and> end_error (rp_End (snd x)) = None then
        (case vx_metadata (vh_codec h) (rp_Stdout (snd x)) of Inr m \<Rightarrow> [m] | Inl _ \<Rightarrow> [])
      else [])"

definition created_in :: "'w vb_host \<Rightarrow> (vb_op \<times> reply) list \<Rightarrow> clone_source list" where
  "created_in h new = concat (map (created_by h) new)"

lemma created_in_simps [simp]:
  "created_in h [] = []" "created_in h (x # xs) = created_by h x @ created_in h xs"
  "created_in h (xs @ ys) = created_in h xs @ created_in h ys"
  by (simp_all add: created_in_def)

lemma created_none: "\<forall>x \<in> set new. \<not> has_input (fst x) \<Longrightarrow> created_in h new = []"
  by (induction new) (auto simp: created_by_def)

lemma does_perform [does_rules]: "may op \<Longrightarrow> (\<And>r. P r) \<Longrightarrow> does h may w0 (perform h op) P"
  unfolding perform_def by (intro does_rules) simp_all

lemma does_ok_then [does_rules]:
  "does h may w0 m (\<lambda>_. True) \<Longrightarrow> (\<And>e. P (Inl e)) \<Longrightarrow> (\<And>x. does h may w0 (f x) P) \<Longrightarrow> does h may w0 (ok_then m f) P"
  unfolding ok_then_def by (intro does_rules) simp_all

lemma does_runtime_root: "does h (Not \<circ> has_input) w0 (installedRuntimeRoot h c) (\<lambda>_. True)"
  unfolding installedRuntimeRoot_def Let_def by (intro does_rules TrueI) simp_all

lemma does_runtime: "does h (Not \<circ> has_input) w0 (runtimeTemplate h c rel) (\<lambda>_. True)"
  unfolding runtimeTemplate_def Let_def by (intro does_rules TrueI does_runtime_root)

lemma does_source: "does h (Not \<circ> has_input) w0 (vmSourceTemplate h c tr) (\<lambda>_. True)"
  unfolding vmSourceTemplate_def Let_def by (intro does_rules TrueI does_runtime)

lemma does_write_template: "does h (Not \<circ> has_input) w0 (writeTemplateFile h d n x) (\<lambda>_. True)"
  unfolding writeTemplateFile_def by (intro does_rules TrueI) simp_all

lemma does_exec: "does h (Not \<circ> has_input) w0 (execVirtbench h c q) (\<lambda>_. True)"
  unfolding execVirtbench_def prepareManifest_def place_template_def load_template_def write_rendered_def Let_def
  by (intro does_rules TrueI does_source does_write_template) simp_all

lemma exec_trace:
  assumes "traced h trace" and "run_state (execVirtbench h c q) w = (x, w')"
  shows "\<exists>new. trace w' = trace w @ new \<and> created_in h new = []"
  using traced_does[OF does_exec assms(2,1)] created_none by fastforce

lemma create_snapshot_trace:
  assumes "traced h trace" and "run_state (create_snapshot h c source) w = (x, w')"
  shows "\<exists>new. trace w' = trace w @ new \<and> created_in h new = (case x of Inr m \<Rightarrow> [m] | Inl _ \<Rightarrow> [])"
proof -
  consider (quiet) e where "x = Inl e" "w' = w"
    | (command) data y where "run_state (SnapshotCommand (vh_cluster h) (sn_Kubeconfig (xc_Selection c)) (Some data)
        [''create'', ''-f'', ''-'', ''-o'', ''json'']) w = (y, w')" "x = (case y of Inl e \<Rightarrow> Inl e | Inr out \<Rightarrow> vx_metadata (vh_codec h) out)"
    using assms(2) by (auto simp: create_snapshot_def ok_then_def split: sum.splits prod.splits)
  then show ?thesis
  proof cases
    case quiet
    then show ?thesis by (intro exI[of _ "[]"]) simp
  next
    case (command data y)
    show ?thesis
    proof (cases "KubeCLI (vh_cluster h) = []")
      case True
      then show ?thesis using snapshot_command_trace[OF assms(1) command(1)] command(2) by (intro exI[of _ "[]"]) auto
    next
      case False
      with snapshot_command_trace[OF assms(1) command(1)] obtain op r where
        t: "trace w' = trace w @ [(op, r)]" "has_input op" and
        y: "y = Inr (rp_Stdout r) \<and> end_error (rp_End r) = None \<or> (\<exists>e. y = Inl e) \<and> end_error (rp_End r) \<noteq> None"
        by fastforce
      then show ?thesis using command(2)
        by (intro exI[of _ "[(op, r)]"]) (auto simp: created_by_def split: sum.splits)
    qed
  qed
qed

lemma wait_trace:
  assumes "traced h trace" and "run_state (SnapshotCommand (vh_cluster h) kc None args) w = (x, w')"
  shows "\<exists>new. trace w' = trace w @ new \<and> created_in h new = []"
proof (cases "KubeCLI (vh_cluster h) = []")
  case True
  then show ?thesis using snapshot_command_trace[OF assms] by auto
next
  case False
  with snapshot_command_trace[OF assms] obtain op r where "trace w' = trace w @ [(op, r)]" "\<not> has_input op" by fastforce
  then show ?thesis by (intro exI[of _ "[(op, r)]"]) (simp add: created_by_def)
qed

lemma create_snapshots_trace:
  "traced h trace \<Longrightarrow> run_state (create_snapshots h is c) w = ((e, c'), w') \<Longrightarrow>
     \<exists>new. trace w' = trace w @ new \<and> xc_Created c' = xc_Created c @ created_in h new \<and> xc_Selection c' = xc_Selection c"
proof (induction "is" arbitrary: c w)
  case (Cons i "is")
  show ?case
  proof (cases "gm_get (xc_Sources c) i")
    case None
    then show ?thesis using Cons by simp
  next
    case (Some source)
    obtain m w1 where m: "run_state (create_snapshot h c source) w = (m, w1)" by fastforce
    from create_snapshot_trace[OF Cons.prems(1) this] obtain n1 where
      n1: "trace w1 = trace w @ n1" "created_in h n1 = (case m of Inr k \<Rightarrow> [k] | Inl _ \<Rightarrow> [])" by blast
    show ?thesis
    proof (cases m)
      case (Inl err)
      then show ?thesis using Cons.prems(2) Some m n1 by auto
    next
      case (Inr made)
      let ?c1 = "c\<lparr>xc_Created := xc_Created c @ [made]\<rparr>"
      obtain r w2 where r: "run_state (SnapshotCommand (vh_cluster h) (sn_Kubeconfig (xc_Selection c)) None (wait_snapshot_args made)) w1 = (r, w2)"
        by fastforce
      from wait_trace[OF Cons.prems(1) this] obtain n2 where n2: "trace w2 = trace w1 @ n2" "created_in h n2 = []" by blast
      show ?thesis
      proof (cases r)
        case (Inl err)
        then have "c' = ?c1" "w' = w2" using Cons.prems(2) Some m Inr r by (simp_all add: Let_def)
        then show ?thesis using n1 n2 Inr by (intro exI[of _ "n1 @ n2"]) simp
      next
        case (Inr u)
        then have "run_state (create_snapshots h is (?c1\<lparr>xc_Snapshots := gm_set (show_nat i) made (xc_Snapshots ?c1)\<rparr>)) w2 = ((e, c'), w')"
          using Cons.prems(2) Some m \<open>m = Inr made\<close> r by (simp add: Let_def)
        from Cons.IH[OF Cons.prems(1) this] obtain n3 where "trace w' = trace w2 @ n3"
          "xc_Created c' = xc_Created ?c1 @ created_in h n3" "xc_Selection c' = xc_Selection c" by auto
        then show ?thesis using n1 n2 \<open>m = Inr made\<close> by (intro exI[of _ "n1 @ n2 @ n3"]) simp
      qed
    qed
  qed
qed simp


lemma write_trace:
  assumes "traced h trace" and "run_state (writeTemplateFile h d n x) w = (r, w')"
  shows "\<exists>new. trace w' = trace w @ new \<and> created_in h new = []"
  using traced_does[OF does_write_template assms(2,1)] created_none by fastforce

lemma clone_prepare_trace:
  assumes "traced h trace" and "run_state (clone_prepare h c0 d) w = ((r, c), w')"
  shows "\<exists>new. trace w' = trace w @ new \<and> xc_Created c = xc_Created c0 @ created_in h new \<and> xc_Selection c = xc_Selection c0"
proof -
  obtain e c1 w1 where s: "run_state (create_snapshots h [0..<length (xc_Volumes c0)] c0) w = ((e, c1), w1)" by (metis surj_pair)
  from create_snapshots_trace[OF assms(1) this] obtain n1 where
    n1: "trace w1 = trace w @ n1" "xc_Created c1 = xc_Created c0 @ created_in h n1" "xc_Selection c1 = xc_Selection c0" by blast
  consider (stop) "c = c1" "w' = w1"
    | (written) x y where "c = c1" "run_state (writeTemplateFile h d ''snapshot-vm.yaml'' x) w1 = (y, w')"
    using assms(2) s by (auto simp: clone_prepare_def split: option.splits sum.splits prod.splits)
  then show ?thesis
  proof cases
    case stop
    then show ?thesis using n1 by blast
  next
    case (written x y)
    from write_trace[OF assms(1) written(2)] obtain n2 where "trace w' = trace w1 @ n2" "created_in h n2 = []" by blast
    then show ?thesis using n1 written(1) by (intro exI[of _ "n1 @ n2"]) simp
  qed
qed

lemma perform_trace:
  assumes "traced h trace" and "run_state (perform h op) w = (r, w')" and "\<not> has_input op"
  shows "\<exists>new. trace w' = trace w @ new \<and> created_in h new = []"
proof -
  obtain y where "run_state (vh_Do h op) w = (y, w')" using assms(2) by (auto simp: perform_def split: prod.splits)
  from traced_Do[OF assms(1) this] assms(3) show ?thesis by (intro exI[of _ "[(op, y)]"]) (simp add: created_by_def)
qed

text \<open>A stage that neither creates snapshots nor loses the clone in the bag.\<close>

definition keeps_clone :: "'w vb_host \<Rightarrow> ('w \<Rightarrow> (vb_op \<times> reply) list) \<Rightarrow> bag \<Rightarrow> 'w \<Rightarrow> bag \<Rightarrow> 'w \<Rightarrow> bool" where
  "keeps_clone h trace b w b' w' =
     (\<exists>new. trace w' = trace w @ new \<and>
        (case clone_in b of
           None \<Rightarrow> clone_in b' = None \<and> created_in h new = []
         | Some c0 \<Rightarrow> \<exists>c. clone_in b' = Some c \<and> xc_Selection c = xc_Selection c0 \<and> xc_Created c = xc_Created c0 @ created_in h new))"

lemma keeps_quiet: "trace w' = trace w @ new \<Longrightarrow> created_in h new = [] \<Longrightarrow> clone_in b' = clone_in b \<Longrightarrow> keeps_clone h trace b w b' w'"
  unfolding keeps_clone_def by (intro exI[of _ new]) (auto split: option.splits)

lemma keeps_same: "keeps_clone h trace b w b w"
  by (rule keeps_quiet[of _ _ _ "[]"]) simp_all

lemma keeps_clone_trans: "keeps_clone h trace b w b1 w1 \<Longrightarrow> keeps_clone h trace b1 w1 b2 w2 \<Longrightarrow> keeps_clone h trace b w b2 w2"
  unfolding keeps_clone_def by (elim exE conjE, rule_tac x = "new @ newa" in exI) (auto split: option.splits)

lemma prepare_clone_keeps:
  assumes "traced h trace" and "run_state (prepare_clone h tr d args b) w = ((x, b'), w')"
  shows "keeps_clone h trace b w b' w'"
proof (cases "clone_in b")
  case None
  then show ?thesis using assms(2) keeps_same by (simp add: prepare_clone_def)
next
  case (Some c0)
  obtain r c w1 where p: "run_state (clone_prepare h c0 d) w = ((r, c), w1)" by (metis surj_pair)
  from clone_prepare_trace[OF assms(1) this] Some have k: "keeps_clone h trace b w (Bag_Set b ''snapshot_clone'' (any_of_clone c)) w1"
    by (auto simp: keeps_clone_def)
  have b': "b' = Bag_Set b ''snapshot_clone'' (any_of_clone c)"
    using assms(2) Some p by (auto simp: prepare_clone_def Let_def split: sum.splits prod.splits if_splits)
  consider (stop) "w' = w1" | (noted) s y where "run_state (perform h (Record_selection s)) w1 = (y, w')"
    using assms(2) Some p by (auto simp: prepare_clone_def Let_def split: sum.splits prod.splits if_splits)
  then show ?thesis
  proof cases
    case stop
    then show ?thesis using k b' by simp
  next
    case (noted s y)
    from perform_trace[OF assms(1) this] obtain n where "trace w' = trace w1 @ n" "created_in h n = []" by auto
    then have "keeps_clone h trace b' w1 b' w'" by (rule keeps_quiet) simp
    with k show ?thesis unfolding b' by (rule keeps_clone_trans)
  qed
qed

lemma exec_keeps:
  assumes "traced h trace" and "run_state (execVirtbench h c q) w = (x, w')"
  shows "keeps_clone h trace b w b w'"
proof -
  from exec_trace[OF assms] obtain new where "trace w' = trace w @ new" "created_in h new = []" by blast
  then show ?thesis by (rule keeps_quiet) simp
qed

lemma runFIO_keeps:
  assumes "traced h trace" and "run_state (runFIO h rc trs b) w = (x, w')"
  shows "keeps_clone h trace b w b w'"
proof -
  consider (stop) "w' = w"
    | (exec) q1 q2 y1 y2 w1 where "run_state (execVirtbench h Run_ctx q1) w = (y1, w1)" "run_state (execVirtbench h Cleanup_ctx q2) w1 = (y2, w')"
    using assms(2) by (auto simp: runFIO_def runVirtbench_def Let_def split: list.splits if_splits sum.splits prod.splits)
  then show ?thesis
  proof cases
    case stop
    then show ?thesis using keeps_same by simp
  next
    case exec
    show ?thesis by (rule keeps_clone_trans[OF exec_keeps[OF assms(1) exec(1)] exec_keeps[OF assms(1) exec(2)]])
  qed
qed

lemma vb_Run_keeps:
  assumes "traced h trace" and "gm_get (scenario_hooks h rx wait) tool = Some hk"
    and "run_state (vb_Run h sc hk rc trs b) w = ((x, b'), w')"
  shows "keeps_clone h trace b w b' w'"
proof (cases "flag_in b ''replay'' \<or> trs = []")
  case True
  then show ?thesis using assms(3) keeps_same by (auto simp: vb_Run_def Let_def split: list.splits if_splits)
next
  case False
  then obtain tr rest where trs: "trs = tr # rest" by (cases trs) auto
  show ?thesis
  proof (cases "hk_Run hk")
    case (Some run)
    then have "run = runFIO h" using scenario_hook_cases[OF assms(2)] by auto
    then have "\<exists>y. run_state (runFIO h rc trs b) w = (y, w') \<and> b' = b"
      using assms(3) False Some trs by (auto simp: vb_Run_def Let_def split: prod.splits)
    then show ?thesis using runFIO_keeps[OF assms(1)] by blast
  next
    case None
    let ?dest = "bag_string b ''results_root''"
    consider (stop) "b' = b" "w' = w"
      | (prepared) args y where "run_state (prepare_clone h tr ?dest args b) w = ((Inl y, b'), w')"
      | (ran) args y q e w1 where "run_state (prepare_clone h tr ?dest args b) w = ((Inr y, b'), w1)"
          "run_state (execVirtbench h Run_ctx q) w1 = (e, w')"
      using assms(3) False None trs by (auto simp: vb_Run_def Let_def split: sum.splits prod.splits)
    then show ?thesis
    proof cases
      case stop
      then show ?thesis using keeps_same by simp
    next
      case prepared
      show ?thesis by (rule prepare_clone_keeps[OF assms(1) prepared])
    next
      case ran
      show ?thesis by (rule keeps_clone_trans[OF prepare_clone_keeps[OF assms(1) ran(1)] exec_keeps[OF assms(1) ran(2)]])
    qed
  qed
qed


section \<open>Cleaning up\<close>

lemma vb_Run_flag:
  assumes "run_state (vb_Run h sc hk rc trs b) w = ((x, b'), w')"
  shows "flag_in b' ''replay'' = flag_in b ''replay''"
proof -
  have clone: "run_state (prepare_clone h tr d args b) w = ((y, b1), w1) \<Longrightarrow> flag_in b1 ''replay'' = flag_in b ''replay''" for tr d args y b1 w w1
    by (auto simp: prepare_clone_def Let_def split: option.splits sum.splits prod.splits if_splits)
  show ?thesis using assms clone
    by (auto simp: vb_Run_def Let_def split: list.splits option.splits sum.splits prod.splits if_splits)
qed

text \<open>
  What the tear-down of a live scenario does, operation by operation: first it brings back the nodes
  when the scenario drained one, then it lists the namespaces, deletes exactly those under the
  prefix of the requirement, and deletes exactly the snapshots that the clone recorded. It never
  fails the run.
\<close>

theorem teardown_exact:
  assumes "gm_get (scenario_hooks h rx wait) tool = Some hk" and "traced h trace" and "\<not> flag_in b ''replay''"
    and "run_state (vb_Teardown h sc hk b) w = ((e, b'), w')" and "KubeCLI (vh_cluster_in Cleanup_ctx h) \<noteq> []"
  shows "e = None \<and> b' = b \<and> (\<exists>hook r dels snaps.
    trace w' = trace w @ hook @ [(kube Cleanup_ctx (bag_string b ''kubeconfig'') [''get'', ''ns'', ''-o'', ''name''], r)] @ dels @ snaps \<and>
    (\<forall>x \<in> set hook. hk_Teardown hk \<noteq> None \<and> uncordon_op (bag_string b ''kubeconfig'') (fst x)) \<and>
    map fst dels = map (\<lambda>ns. kube Cleanup_ctx (bag_string b ''kubeconfig'') (delete_ns_args ns)) (leftover_namespaces r (sweep_prefix sc b)) \<and>
    map fst snaps = (case clone_in b of Some clone \<Rightarrow> map (snapshot_delete h clone) (xc_Created clone) | None \<Rightarrow> []))"
  using assms by (rule teardown_steps)

text \<open>
  C20: no snapshot is left behind: whatever a run came to, every snapshot that one of its commands
  created is deleted by the tear-down, in the order of creation, and nothing else is.
\<close>

theorem created_snapshots_deleted:
  assumes "gm_get (scenario_hooks h rx wait) tool = Some hk" and "traced h trace"
    and "clone_in b = Some c0" and "xc_Created c0 = []" and "\<not> flag_in b ''replay''"
    and "run_state (vb_Run h sc hk rc trs b) w = ((r, b1), w1)"
    and "run_state (vb_Teardown h sc hk b1) w2 = ((e, b2), w3)" and "KubeCLI (vh_cluster_in Cleanup_ctx h) \<noteq> []"
  shows "\<exists>new rest snaps. trace w1 = trace w @ new \<and> trace w3 = trace w2 @ rest @ snaps \<and>
    map fst snaps = map (snapshot_delete h c0) (created_in h new)"
proof -
  from vb_Run_keeps[OF assms(2,1,6)] assms(3,4) obtain new c where
    n: "trace w1 = trace w @ new" "clone_in b1 = Some c" "xc_Selection c = xc_Selection c0" "xc_Created c = created_in h new"
    by (auto simp: keeps_clone_def)
  have "snapshot_delete h c = snapshot_delete h c0" using n(3) by (simp add: snapshot_delete_def fun_eq_iff)
  moreover obtain hook x dels snaps where "trace w3 = trace w2 @ hook @ [x] @ dels @ snaps" "map fst snaps = map (snapshot_delete h c) (xc_Created c)"
    using teardown_steps[OF assms(1,2) _ assms(7,8)] vb_Run_flag[OF assms(6)] assms(5) n(2) by auto
  ultimately show ?thesis using n by (intro exI[of _ new] exI[of _ "hook @ [x] @ dels"] exI[of _ snaps]) simp
qed

text \<open>
  A host whose world is its trace. It creates a snapshot, whose wait runs into its time limit, and
  knows two namespaces.
\<close>

definition log_answer :: "vb_op \<Rightarrow> reply" where
  "log_answer op =
     (case op of
        Run_tool c cli args input dir \<Rightarrow>
          if ''wait'' \<in> set args then calm_reply\<lparr>rp_End := Exit_error ''exit status 1''\<rparr>
          else if ''ns'' \<in> set args then calm_reply\<lparr>rp_Combined := ''namespace/default'' @ LF @ ''namespace/virtbench-7'' @ LF\<rparr>
          else calm_reply
      | _ \<Rightarrow> calm_reply)"

definition log_snapshot :: clone_source where
  "log_snapshot = \<lparr> cs_Name = ''snap-1'', cs_Namespace = ''images'' \<rparr>"

definition log_host :: "(vb_op \<times> reply) list vb_host" where
  "log_host =
     \<lparr> vh_Do = (\<lambda>op. State (\<lambda>w. (log_answer op, w @ [(op, log_answer op)]))), vh_LookPath = Inr, vh_ReadFile = (\<lambda>_ _. Inr ''tmpl''),
       vh_Stat = (\<lambda>_ _. Inr False), vh_Walk = (\<lambda>dir _. [\<lparr> wi_Path = dir @ ''/summary.json'', wi_Name = ''summary_failure_recovery_results.json'', wi_IsDir = False, wi_Err = None \<rparr>]),
       vh_Now = (\<lambda>w. int (length w)), vh_Draw = (\<lambda>_ _. Inr 0), vh_ctxErr = (\<lambda>_ _. None),
       vh_Abs = Inr, vh_EvalSymlinks = Inr, vh_Getenv = (\<lambda>_. []), vh_Hostname = Inl ''none'', vh_Timestamp = (\<lambda>_. ''now''),
       vh_Embedded = (\<lambda>_. Inr ''tmpl''), vh_yaml = (\<lambda>_. [Inr demo_vm]),
       vh_engine = \<lparr> te_Funcs = (\<lambda>_. False), te_Parse = (\<lambda>_ _. Inr (\<lambda>_ _. Inr ''vm'')) \<rparr>,
       vh_codec = pod_codec\<lparr>vx_metadata := (\<lambda>_. Inr log_snapshot)\<rparr>, vh_snapshot = csi_codec, vh_probe = gold_codec,
       vh_claim = (\<lambda>_. Inl ''none''), vh_Records = False \<rparr>"

lemma empty_flag: "\<not> flag_in [] k"
  by (simp add: flag_in_def Bag_Get_def)

lemma log_traced: "traced log_host id"
  by (simp add: traced_def log_host_def)

lemma log_cli: "KubeCLI (vh_cluster_in c log_host) = ''oc''"
  by (simp add: KubeCLI_def on_path_def vh_cluster_in_def log_host_def)

lemma log_Do: "run_state (vh_Do log_host op) w = (log_answer op, w @ [(op, log_answer op)])"
  by (simp add: log_host_def)

lemma log_render: "vmRender log_host name source values = Inr ''vm''"
  by (simp add: vmRender_def manifest_Render_def GoTemplate_Render_def log_host_def alias_conflict_def vm_aliases_def
      Documents_def demo_vm_def has_prefix_def)

definition log_clone :: snapshot_clone where
  "log_clone = \<lparr> xc_Selection = \<lparr> sn_StorageClass = ''gold'', sn_SnapshotClass = ''snap'', sn_Kubeconfig = [] \<rparr>, xc_Template = demo_vm,
     xc_Volumes = [[]], xc_Sources = [(0, \<lparr> cs_Name = ''rhel'', cs_Namespace = ''images'' \<rparr>)], xc_Snapshots = [], xc_Created = [] \<rparr>"

definition log_bag :: bag where
  "log_bag = Bag_Set (Bag_Set [] ''snapshot_clone'' (any_of_clone log_clone)) ''ns_prefix'' (AStr ''virtbench'')"

lemma log_snapshot_command:
  "run_state (SnapshotCommand (vh_cluster_in c log_host) [] input args) w =
     (let op = Run_tool c ''oc'' args input [] in
      (case end_error (rp_End (log_answer op)) of Some err \<Rightarrow> Inl (join_with '' '' args @ '': '' @ err @ '': '' @ trim_space (rp_Stderr (log_answer op)))
       | None \<Rightarrow> Inr (rp_Stdout (log_answer op)), w @ [(op, log_answer op)]))"
  unfolding SnapshotCommand_def log_cli Let_def by (simp add: vh_cluster_in_def log_Do split: option.splits)

lemma log_prepare:
  "\<exists>err n1 n2. run_state (clone_prepare log_host log_clone d) [] = ((Inl err, log_clone\<lparr>xc_Created := [log_snapshot]\<rparr>), [n1, n2]) \<and>
     created_in log_host [n1, n2] = [log_snapshot]"
proof -
  have e: "vh_Embedded log_host p = Inr ''tmpl''" "vx_metadata (vh_codec log_host) x = Inr log_snapshot" for p x
    by (simp_all add: log_host_def)
  show ?thesis
    by (simp add: clone_prepare_def log_clone_def create_snapshot_def e log_render ok_then_def log_snapshot_command Let_def gm_get_Cons
        log_answer_def wait_snapshot_args_def calm_reply_def end_error_def created_by_def)
qed

theorem created_snapshots_deleted_witness:
  "\<forall>rx wait. \<exists>hk r b1 w1 rest snaps. gm_get (scenario_hooks log_host rx wait) ''virtbench datasource-clone'' = Some hk \<and>
     run_state (vb_Run log_host (hd scenario_table) hk \<lparr> rc_RunID = ''r1'', rc_PartKind = [], rc_WorkDir = [], rc_Backend = None \<rparr>
       [zero_test_requirement\<lparr>tr_Params := [(''storage_class'', AStr ''gold'')]\<rparr>] log_bag) [] = ((r, b1), w1) \<and>
     snd (run_state (vb_Teardown log_host (hd scenario_table) hk b1) w1) = w1 @ rest @ snaps \<and> map fst snaps = [snapshot_delete log_host log_clone log_snapshot]"
proof (intro allI)
  fix rx :: result_codec and wait :: "(vb_op \<times> reply) list vm_wait"
  let ?sc = "hd scenario_table" and ?rc = "\<lparr> rc_RunID = ''r1'', rc_PartKind = [], rc_WorkDir = [], rc_Backend = None \<rparr>"
  let ?tr = "zero_test_requirement\<lparr>tr_Params := [(''storage_class'', AStr ''gold'')]\<rparr>"
  define hk where "hk = (no_hooks (\<lambda>rc b tr dir w. datasourceCloneArgs False ''virtbench'' (Some rc) tr dir)
      (one_result (ParseSummary (rx_summary rx))) :: (vb_op \<times> reply) list vb_hooks)"
  have hk: "gm_get (scenario_hooks log_host rx wait) ''virtbench datasource-clone'' = Some hk"
    by (simp add: scenario_hooks_def gm_get_Cons hk_def)
  obtain args where args: "hk_BuildArgs hk ?rc log_bag ?tr d [] = Inr (args d)" for d
  proof
    fix d
    show "hk_BuildArgs hk ?rc log_bag ?tr d [] = Inr (projr (hk_BuildArgs hk ?rc log_bag ?tr d []))"
      by (simp add: hk_def no_hooks_def datasourceCloneArgs_def vb_storageClass_def strParamOr_def gm_get_Cons Let_def cloneVMRange_def
          validateVMRange_def intParam_def)
  qed
  have b: "clone_in log_bag = Some log_clone" "\<not> flag_in log_bag ''replay''" by (simp_all add: log_bag_def empty_flag)
  obtain err n1 n2 where p: "\<And>d. run_state (clone_prepare log_host log_clone d) [] = ((Inl (err d), log_clone\<lparr>xc_Created := [log_snapshot]\<rparr>), [n1 d, n2 d])"
    and c: "\<And>d. created_in log_host [n1 d, n2 d] = [log_snapshot]" using log_prepare by metis
  let ?d = "bag_string log_bag ''results_root''"
  have r: "\<exists>r b1. run_state (vb_Run log_host ?sc hk ?rc [?tr] log_bag) [] = ((r, b1), [n1 ?d, n2 ?d])"
    using b args[of ?d] p[of ?d] by (simp add: vb_Run_def Let_def prepare_clone_def hk_def no_hooks_def)
  then obtain r b1 where r: "run_state (vb_Run log_host ?sc hk ?rc [?tr] log_bag) [] = ((r, b1), [n1 ?d, n2 ?d])" by blast
  obtain e b2 w3 where t: "run_state (vb_Teardown log_host ?sc hk b1) [n1 ?d, n2 ?d] = ((e, b2), w3)" by (metis surj_pair)
  have "xc_Created log_clone = []" by (simp add: log_clone_def)
  from created_snapshots_deleted[OF hk log_traced b(1) this b(2) r t] obtain new rest snaps where
    "id [n1 ?d, n2 ?d] = id [] @ new" and w3: "id w3 = id [n1 ?d, n2 ?d] @ rest @ snaps"
    and m: "map fst snaps = map (snapshot_delete log_host log_clone) (created_in log_host new)" using log_cli by auto
  then have "new = [n1 ?d, n2 ?d]" by simp
  with m have "map fst snaps = [snapshot_delete log_host log_clone log_snapshot]" by (simp only: c list.map)
  with w3 hk r t show "\<exists>hk r b1 w1 rest snaps. gm_get (scenario_hooks log_host rx wait) ''virtbench datasource-clone'' = Some hk \<and>
     run_state (vb_Run log_host ?sc hk ?rc [?tr] log_bag) [] = ((r, b1), w1) \<and>
     snd (run_state (vb_Teardown log_host ?sc hk b1) w1) = w1 @ rest @ snaps \<and> map fst snaps = [snapshot_delete log_host log_clone log_snapshot]"
    by (metis snd_conv id_apply)
qed

theorem teardown_exact_witness:
  "\<forall>rx wait. \<exists>hk w'. gm_get (scenario_hooks log_host rx wait) ''virtbench datasource-clone'' = Some hk \<and>
     run_state (vb_Teardown log_host (hd scenario_table) hk log_bag) [] = ((None, log_bag), w')"
proof (intro allI)
  fix rx :: result_codec and wait :: "(vb_op \<times> reply) list vm_wait"
  obtain hk where hk: "gm_get (scenario_hooks log_host rx wait) ''virtbench datasource-clone'' = Some hk"
    by (simp add: scenario_hooks_def gm_get_Cons)
  have b: "\<not> flag_in log_bag ''replay''" by (simp add: log_bag_def empty_flag)
  obtain e b' w' where t: "run_state (vb_Teardown log_host (hd scenario_table) hk log_bag) [] = ((e, b'), w')" by (metis surj_pair)
  from teardown_exact[OF hk log_traced b t] log_cli hk t
  show "\<exists>hk w'. gm_get (scenario_hooks log_host rx wait) ''virtbench datasource-clone'' = Some hk \<and>
     run_state (vb_Teardown log_host (hd scenario_table) hk log_bag) [] = ((None, log_bag), w')" by auto
qed


section \<open>What a result rests on\<close>

definition only_file :: "'w vb_host \<Rightarrow> string \<Rightarrow> string \<Rightarrow> 'w \<Rightarrow> string \<Rightarrow> bool" where
  "only_file h dir name w path =
     (map wi_Path (filter (\<lambda>d. \<not> wi_IsDir d \<and> wi_Name d = name) (vh_Walk h dir w)) = [path] \<and> (\<forall>d \<in> set (vh_Walk h dir w). wi_Err d = None))"

lemma walk_matches_exact:
  "walk_matches name ds = Inr found \<Longrightarrow>
     found = map wi_Path (filter (\<lambda>d. \<not> wi_IsDir d \<and> wi_Name d = name) ds) \<and> (\<forall>d \<in> set ds. wi_Err d = None)"
proof (induction ds arbitrary: found)
  case (Cons d ds)
  from Cons.prems obtain rest where "wi_Err d = None" "walk_matches name ds = Inr rest"
    "found = (if \<not> wi_IsDir d \<and> wi_Name d = name then wi_Path d # rest else rest)"
    by (cases "walk_matches name ds") (auto split: option.splits)
  then show ?case using Cons.IH by simp
qed simp

lemma findResult_unique:
  assumes "findResult h dir name w = Inr path"
  shows "only_file h dir name w path"
proof -
  obtain found where f: "walk_matches name (vh_Walk h dir w) = Inr found" "sort found = [path]"
    using assms by (auto simp: findResult_def findResults_def split: sum.splits list.splits)
  from f(2) have "found = [path]"
    by (metis length_sort length_Suc_conv length_0_conv list.size(3,4) set_sort list.set_intros(1) list.simps(15) empty_set singletonD)
  then show ?thesis using walk_matches_exact[OF f(1)] by (simp add: only_file_def)
qed

lemma scenario_rows:
  "list_all (\<lambda>sc. \<forall>hk. gm_get (scenario_hooks h rx wait) (sc_AutomationTool sc) = Some hk \<longrightarrow>
     hk_ProvisionVMs hk \<in> {None, Some (provisionFailureRecoveryVMs h wait)} \<and>
     (sc_AutomationTool sc \<noteq> ''virtbench fio'' \<longrightarrow> hk_Run hk = None \<and> hk_Collect hk = None) \<and>
     (hk_DetailParse hk = None \<or> sc_DetailFile sc \<noteq> []) \<and> sc_DetailFile sc \<noteq> sc_ResultFile sc) scenario_table"
  by (simp add: scenario_table_def scenario_hooks_def scenario_row_def gm_get_Cons no_hooks_def SummaryFileName_def DrainFileName_def)

lemma scenario_row_facts:
  assumes "sc \<in> set scenario_table" and "gm_get (scenario_hooks h rx wait) (sc_AutomationTool sc) = Some hk"
  shows "hk_ProvisionVMs hk \<in> {None, Some (provisionFailureRecoveryVMs h wait)}"
    and "sc_AutomationTool sc \<noteq> ''virtbench fio'' \<Longrightarrow> hk_Run hk = None \<and> hk_Collect hk = None"
    and "(hk_DetailParse hk = None \<or> sc_DetailFile sc \<noteq> []) \<and> sc_DetailFile sc \<noteq> sc_ResultFile sc"
  using scenario_rows[of h rx wait] assms by (auto simp: list_all_iff)

text \<open>The keys that the stages after the provisioning read.\<close>

definition provisioned :: "run_ctx \<Rightarrow> test_requirement \<Rightarrow> bag \<Rightarrow> bool" where
  "provisioned rc tr b =
     (bag_string b ''results_root'' = results_root rc [tr] \<and> bag_string b ''tr_id'' = tr_ID tr \<and> \<not> flag_in b ''replay'')"

lemma provisioned_Set:
  "provisioned rc tr b \<Longrightarrow> k \<in> {''picked_node'', ''snapshot_clone''} \<Longrightarrow> provisioned rc tr (Bag_Set b k v)"
  by (auto simp: provisioned_def)

lemma recovery_bag: "run_state (provisionFailureRecoveryVMs h wait rc trs b) w = ((e, b'), w') \<Longrightarrow> b' = b \<or> (\<exists>n. b' = Bag_Set b ''picked_node'' (AStr n))"
  by (auto simp: provisionFailureRecoveryVMs_def Let_def split: list.splits sum.splits prod.splits)

lemma vb_Provision_bag:
  assumes "run_state (vb_Provision h sc hk ensure rc [tr] b) w = ((None, b'), w')" and "replayDir [tr] = []"
    and "hk_ProvisionVMs hk \<in> {None, Some (provisionFailureRecoveryVMs h wait)}"
  shows "provisioned rc tr b'"
proof -
  let ?b = "Bag_Set (Bag_Set (provision_bag sc [tr] b) ''replay'' (ABool False)) ''results_root'' (AStr (results_root rc [tr]))"
  have p: "provisioned rc tr ?b" by (simp add: provisioned_def provision_bag_def)
  from assms have "b' = ?b \<or> (\<exists>w1 e. run_state (provisionFailureRecoveryVMs h wait rc [tr] ?b) w1 = ((e, b'), w'))"
    by (auto simp: vb_Provision_def Let_def split: option.splits prod.splits simp del: replayDir.simps)
  then show ?thesis
  proof (elim disjE exE)
    fix w1 e assume "run_state (provisionFailureRecoveryVMs h wait rc [tr] ?b) w1 = ((e, b'), w')"
    from recovery_bag[OF this] show ?thesis using p provisioned_Set[OF p] by auto
  qed (simp add: p)
qed

text \<open>
  The last thing a run did before the world \<open>w'\<close>: virtbench ran in the directory, with a command line
  prepared for the requirement, and only a scenario that grades failed runs may have seen it fail.
  Such a scenario also goes on when the preparation failed, and then virtbench did not run.
\<close>

definition tool_ran :: "'w vb_host \<Rightarrow> vb_scenario \<Rightarrow> string \<Rightarrow> test_requirement \<Rightarrow> 'w \<Rightarrow> bool" where
  "tool_ran h sc dir tr w' \<longleftrightarrow>
     (\<exists>q args e w0 w1. mq_Directory q = dir \<and> mq_TR q = tr \<and> run_state (prepareManifest h Run_ctx q) w0 = (Inr args, w1) \<and>
        run_state (perform h (Run_tool Run_ctx ''virtbench'' args None dir)) w1 = (e, w') \<and> (e = None \<or> sc_TolerateRunError sc))"

definition preparation_failed :: "'w vb_host \<Rightarrow> string \<Rightarrow> test_requirement \<Rightarrow> 'w \<Rightarrow> bool" where
  "preparation_failed h dir tr w' \<longleftrightarrow>
     (\<exists>q err w0. mq_Directory q = dir \<and> mq_TR q = tr \<and> run_state (prepareManifest h Run_ctx q) w0 = (Inl err, w'))"

lemma execVirtbench_ran:
  assumes "run_state (execVirtbench h Run_ctx q) w = (e, w')" and "e = None \<or> sc_TolerateRunError sc"
  shows "tool_ran h sc (mq_Directory q) (mq_TR q) w' \<or> sc_TolerateRunError sc \<and> preparation_failed h (mq_Directory q) (mq_TR q) w'"
proof -
  obtain r w1 where p: "run_state (prepareManifest h Run_ctx q) w = (r, w1)" by (metis prod.collapse)
  show ?thesis
  proof (cases r)
    case (Inl err)
    with p assms(1) have "e = Some err" "w' = w1" by (simp_all add: execVirtbench_def)
    with p Inl assms(2) show ?thesis unfolding preparation_failed_def by auto
  next
    case (Inr args)
    with p assms(1) have "run_state (perform h (Run_tool Run_ctx ''virtbench'' args None (mq_Directory q))) w1 = (e, w')"
      by (simp add: execVirtbench_def)
    with p Inr assms(2) show ?thesis unfolding tool_ran_def by blast
  qed
qed

lemma vb_Run_steps:
  assumes "run_state (vb_Run h sc hk rc [tr] b) w = ((Inr handle, b'), w')" and "provisioned rc tr b" and "hk_Run hk = None"
  shows "provisioned rc tr b' \<and>
    (tool_ran h sc (results_root rc [tr]) tr w' \<or> sc_TolerateRunError sc \<and> preparation_failed h (results_root rc [tr]) tr w')"
proof -
  have d: "bag_string b ''results_root'' = results_root rc [tr]" "\<not> flag_in b ''replay''" using assms(2) by (simp_all add: provisioned_def)
  from assms(1,3) d obtain args p args1 prepared w1 e where
    c: "run_state (prepare_clone h tr (results_root rc [tr]) args b) w = ((Inr (args1, prepared), b'), w1)" and
    x: "run_state (execVirtbench h Run_ctx \<lparr> mq_Prepared = prepared, mq_TR = tr, mq_Directory = results_root rc [tr], mq_Args = args1 \<rparr>) w1 = (e, w')"
      "e = None \<or> sc_TolerateRunError sc"
    by (auto simp: vb_Run_def Let_def split: sum.splits prod.splits if_splits)
  from c have "b' = b \<or> (\<exists>v. b' = Bag_Set b ''snapshot_clone'' v)"
    by (auto simp: prepare_clone_def Let_def split: option.splits sum.splits prod.splits if_splits)
  then have "provisioned rc tr b'" using assms(2) provisioned_Set by blast
  moreover have "tool_ran h sc (results_root rc [tr]) tr w' \<or> sc_TolerateRunError sc \<and> preparation_failed h (results_root rc [tr]) tr w'"
    using execVirtbench_ran[OF x] by simp
  ultimately show ?thesis by blast
qed

text \<open>The details that are added to a result: those of the one detail file, when the scenario grades from it.\<close>

definition with_details ::
  "'w vb_host \<Rightarrow> vb_scenario \<Rightarrow> 'w vb_hooks \<Rightarrow> string \<Rightarrow> 'w \<Rightarrow> test_result list \<Rightarrow> test_result list \<Rightarrow> bool" where
  "with_details h sc hk dir w parsed results =
     (case hk_DetailParse hk of
        None \<Rightarrow> results = parsed
      | Some detail \<Rightarrow>
          \<exists>path data. only_file h dir (sc_DetailFile sc) w path \<and> vh_ReadFile h path w = Inr data \<and>
            (case parsed of
               [] \<Rightarrow> results = []
             | res # rest \<Rightarrow> \<exists>extra. detail data = Inr extra \<and> results = append_metrics extra res # rest))"

lemma collect_parse:
  assumes "collect_files h sc hk b w = Inr logs" and "vb_Parse sc hk logs b = Inr results" and "provisioned rc tr b" and "tr_ID tr \<noteq> []"
    and "hk_Collect hk = None" and "(hk_DetailParse hk = None \<or> sc_DetailFile sc \<noteq> []) \<and> sc_DetailFile sc \<noteq> sc_ResultFile sc"
  shows "\<exists>path data parsed. only_file h (results_root rc [tr]) (sc_ResultFile sc) w path \<and> vh_ReadFile h path w = Inr data \<and>
    hk_Parse hk data (tr_ID tr) = Inr parsed \<and> with_details h sc hk (results_root rc [tr]) w parsed results"
proof -
  let ?d = "results_root rc [tr]" and ?f = "sc_ResultFile sc"
  have d: "bag_string b ''results_root'' = ?d" "bag_string b ''tr_id'' = tr_ID tr" using assms(3) by (simp_all add: provisioned_def)
  from assms(1,5) d obtain path data where p: "findResult h ?d ?f w = Inr path" "vh_ReadFile h path w = Inr data"
    and det: "collect_detail h sc hk ?d w (zero_log_bundle\<lparr>lb_Refs := [path], lb_Data := [(?f, data)]\<rparr>) = Inr logs"
    by (auto simp: collect_files_def Let_def split: sum.splits if_splits)
  have f: "gm_get (lb_Data logs) ?f = Some data" using det assms(6)
    by (auto simp: collect_detail_def Let_def gm_get_Cons split: sum.splits if_splits)
  from assms(2,4) d f obtain parsed where parsed: "hk_Parse hk data (tr_ID tr) = Inr parsed"
    by (auto simp: vb_Parse_def Let_def split: sum.splits)
  have "with_details h sc hk ?d w parsed results"
  proof (cases "hk_DetailParse hk")
    case None
    then show ?thesis using assms(2,4) d f parsed by (auto simp: vb_Parse_def Let_def with_details_def split: list.splits)
  next
    case (Some detail)
    with det assms(6) obtain dp dd where dd: "findResult h ?d (sc_DetailFile sc) w = Inr dp" "vh_ReadFile h dp w = Inr dd"
      "gm_get (lb_Data logs) (sc_DetailFile sc) = Some dd"
      by (auto simp: collect_detail_def Let_def split: sum.splits if_splits)
    have "case parsed of [] \<Rightarrow> results = [] | res # rest \<Rightarrow> \<exists>extra. detail dd = Inr extra \<and> results = append_metrics extra res # rest"
    proof (cases parsed)
      case Nil
      then show ?thesis using assms(2,4) d f parsed by (simp add: vb_Parse_def Let_def)
    next
      case (Cons res rest)
      then show ?thesis using assms(2,4) d f parsed dd(3) \<open>hk_DetailParse hk = Some detail\<close>
        by (cases "detail dd") (auto simp: vb_Parse_def Let_def)
    qed
    then show ?thesis using findResult_unique[OF dd(1)] dd(2) \<open>hk_DetailParse hk = Some detail\<close> by (auto simp: with_details_def)
  qed
  then show ?thesis using findResult_unique[OF p(1)] p(2) parsed by blast
qed

text \<open>
  C18: what a result of a live virtbench execution rests on, for every scenario but FIO (which
  collects several files and has stages of its own). Directly before the collection the tool ran for
  this requirement, with a prepared command line, in the results directory of this very execution;
  it succeeded, or the scenario is one of those that grade a failed run (draining a node, VMs on a
  single node), where the last step may also be a preparation that failed, so that the tool did not
  run. After that the directory held exactly one file with the result of the scenario, which is what
  was parsed; metrics from details come from the one detail file there.
\<close>

theorem virtbench_result_evidence:
  assumes "sc \<in> set scenario_table" and "gm_get (scenario_hooks h rx wait) (sc_AutomationTool sc) = Some hk"
    and "sc_AutomationTool sc \<noteq> ''virtbench fio''" and "replayDir [tr] = []" and "tr_ID tr \<noteq> []"
    and "run_state (vb_Provision h sc hk ensure rc [tr] b) w = ((None, b1), w1)"
    and "run_state (vb_Run h sc hk rc [tr] b1) w1 = ((Inr handle, b2), w2)"
    and "run_state (vb_Collect h sc hk b2) w2 = ((Inr logs, b3), w3)" and "vb_Parse sc hk logs b3 = Inr results"
  shows "w3 = w2 \<and>
    (tool_ran h sc (results_root rc [tr]) tr w2 \<or> sc_TolerateRunError sc \<and> preparation_failed h (results_root rc [tr]) tr w2) \<and>
    (\<exists>path data parsed. only_file h (results_root rc [tr]) (sc_ResultFile sc) w2 path \<and> vh_ReadFile h path w2 = Inr data \<and>
       hk_Parse hk data (tr_ID tr) = Inr parsed \<and> with_details h sc hk (results_root rc [tr]) w2 parsed results)"
proof -
  note row = scenario_row_facts[OF assms(1,2)]
  from vb_Provision_bag[OF assms(6,4) row(1)] have b1: "provisioned rc tr b1" .
  have hk: "hk_Run hk = None" "hk_Collect hk = None" using row(2)[OF assms(3)] by simp_all
  from vb_Run_steps[OF assms(7) b1 hk(1)] have r: "provisioned rc tr b2"
    "tool_ran h sc (results_root rc [tr]) tr w2 \<or> sc_TolerateRunError sc \<and> preparation_failed h (results_root rc [tr]) tr w2" by blast+
  from assms(8) have c: "collect_files h sc hk b2 w2 = Inr logs" "b3 = b2" "w3 = w2" by (auto simp: vb_Collect_def)
  have "vb_Parse sc hk logs b2 = Inr results" using assms(9) c(2) by (rule subst[where P = "\<lambda>x. vb_Parse sc hk logs x = Inr results", rotated])
  note cp = collect_parse[OF c(1) this r(1) assms(5) hk(2) row(3)]
  show ?thesis by (intro conjI) (rule c(3), rule r(2), rule cp)
qed


text \<open>A host whose only file is the summary of a failure recovery.\<close>

definition recovery_host :: "unit vb_host" where
  "recovery_host = (calm_host pod_codec csi_codec gold_codec)\<lparr>vh_Walk :=
     (\<lambda>dir _. [\<lparr> wi_Path = dir @ ''/summary.json'', wi_Name = ''summary_failure_recovery_results.json'', wi_IsDir = False, wi_Err = None \<rparr>])\<rparr>"

definition recovery_tr :: test_requirement where
  "recovery_tr = zero_test_requirement\<lparr>tr_ID := ''TR-VIRT-007'', tr_Params :=
     [(''storage_class'', AStr ''gold''), (''node'', AStr ''w1''), (''node_hostname_label'', AStr ''w1''), (''vm_count'', AInt 1),
      (''far_config'', AStr ''far'')]\<rparr>"

definition recovery_rc :: run_ctx where
  "recovery_rc = \<lparr> rc_RunID = ''r1'', rc_PartKind = [], rc_WorkDir = ''/w'', rc_Backend = None \<rparr>"

definition recovery_codec :: result_codec where
  "recovery_codec = \<lparr> rx_summary = (\<lambda>_. Inr \<lparr> sf_TotalVMs = 1, sf_Successful = 1, sf_Failed = 0, sf_Duration = None, sf_Metrics = [] \<rparr>),
     rx_recovery = (\<lambda>_. Inr \<lparr> ry_TotalVMs = 1, ry_Successful = 1, ry_Failed = 0, ry_Metrics = [(''ping_time_sec'', 1)] \<rparr>),
     rx_diskOps = (\<lambda>_. Inl ''none''), rx_fio = two_vms, rx_detail = (\<lambda>_. Inl ''none'') \<rparr>"

lemma recovery_params:
  "strParamOr recovery_tr k d = (if k = ''storage_class'' then ''gold'' else if k \<in> {''node'', ''node_hostname_label''} then ''w1''
     else if k = ''far_config'' then ''far'' else d)"
  "intParam recovery_tr k n = (if k = ''vm_count'' then 1 else if k \<in> {''storage_class'', ''node'', ''node_hostname_label'', ''far_config''} then intParam recovery_tr k n else n)"
  "tr_ID recovery_tr = ''TR-VIRT-007''"
  by (auto simp: recovery_tr_def strParamOr_def intParam_def gm_get_Cons)

lemma recovery_perform: "run_state (perform recovery_host op) w = (None, ())"
  by (simp add: perform_def recovery_host_def calm_host_def calm_reply_def end_error_def)

lemma recovery_render: "vmRender recovery_host name source values = Inr ''vm''"
  by (simp add: vmRender_def manifest_Render_def GoTemplate_Render_def recovery_host_def calm_host_def alias_conflict_def vm_aliases_def
      Documents_def demo_vm_def has_prefix_def)

lemma recovery_valid: "key values ''VM_NAME'' = AStr defaultVMName \<Longrightarrow> validateVMTemplate recovery_host ''vm'' values = None"
  by (simp add: validateVMTemplate_def Documents_def recovery_host_def calm_host_def demo_vm_def check_vm_def key_def gm_get_Cons
      obj_of_def defaultVMName_def)

lemma recovery_values:
  "\<exists>vals. resolvePlanTemplateValues ''datasource-clone'' (Some recovery_rc) recovery_tr = Inr vals \<and> key vals ''VM_NAME'' = AStr defaultVMName"
proof -
  have p: "planTemplateArgs ''datasource-clone'' recovery_tr = [''--storage-class'', ''gold'']"
    by code_simp
  have "resolveTemplateValues ''datasource-clone'' [''--storage-class'', ''gold''] =
     Inr [(''VM_NAME'', AStr defaultVMName), (''STORAGE_CLASS_NAME'', AStr ''gold''), (''VM_PASSWORD'', AStr ''changeme''),
          (''DATASOURCE_NAME'', AStr []), (''DATASOURCE_NAMESPACE'', AStr imageNamespace)]"
    by (simp add: resolveTemplateValues_def templateInputs_def tin_def input_value_def has_prefix_def Let_def gm_set_def)
  then show ?thesis
    by (simp add: resolvePlanTemplateValues_def p vb_storageClass_def recovery_rc_def recovery_params has_prefix_def Let_def key_def gm_get_Cons)
qed

lemma recovery_apply: "run_state (kubectlApply recovery_host c kubeconfig text) w = (None, ())"
  by (simp add: kubectlApply_def runKubectl_def recovery_host_def calm_host_def calm_reply_def end_error_def Let_def)

lemma recovery_namespace: "run_state (ensureNamespace recovery_host kubeconfig ns) w = (None, ())"
  using recovery_apply by (simp add: ensureNamespace_def recovery_host_def[THEN arg_cong, of vh_Embedded] calm_host_def recovery_render)

lemma recovery_source: "run_state (vmSourceTemplate recovery_host c recovery_tr) w = (Inr (''tmpl'', True), w)"
  by (simp add: vmSourceTemplate_def vb_scenarioFor_def scenario_table_def scenario_row_def embedded_template_def Let_def recovery_params
      recovery_host_def[THEN arg_cong, of vh_Embedded] calm_host_def)

lemma recovery_vms_ok: "run_state (recovery_vms recovery_host (\<lambda>_ _ _ _. State_Monad.return None) recovery_rc kc recovery_tr ''w1'' ''w1'') w = (None, ())"
proof -
  obtain vals where v: "resolvePlanTemplateValues ''datasource-clone'' (Some recovery_rc) recovery_tr = Inr vals" "key vals ''VM_NAME'' = AStr defaultVMName"
    using recovery_values by blast
  have n: "key (gm_set ''NAMESPACE'' n (gm_set ''HOSTNAME_LABEL'' x (gm_set ''NODE_NAME'' y vals))) ''VM_NAME'' = AStr defaultVMName" for n x y
    using v(2) by (simp add: key_def)
  have r: "recoveryVMRange recovery_tr = Inr (1, 1)" by (simp add: recoveryVMRange_def recovery_params validateVMRange_def)
  have c: "vb_storageClass (Some recovery_rc) recovery_tr = ''gold''" by (simp add: vb_storageClass_def recovery_rc_def recovery_params)
  show ?thesis
    by (simp add: recovery_vms_def c r recovery_source v(1) Let_def renderVMTemplate_def recovery_render recovery_valid n
      recovery_namespace recovery_apply)
qed


theorem virtbench_result_evidence_witness:
  "tool_ran recovery_host (last scenario_table) (results_root recovery_rc [recovery_tr]) recovery_tr () \<and>
   (\<exists>path. only_file recovery_host (results_root recovery_rc [recovery_tr]) ''summary_failure_recovery_results.json'' () path)"
proof -
  let ?wait = "\<lambda>_ _ _ _. State_Monad.return None :: (unit, string option) state"
  let ?ensure = "\<lambda>_ _. State_Monad.return None :: (unit, string option) state"
  let ?dir = "results_root recovery_rc [recovery_tr]" and ?file = "''summary_failure_recovery_results.json''"
  define sc where "sc = last scenario_table"
  define hk where "hk = the (gm_get (scenario_hooks recovery_host recovery_codec ?wait) ''virtbench failure-recovery'')"
  have sc: "sc \<in> set scenario_table" "sc_AutomationTool sc = ''virtbench failure-recovery''" "sc_ResultFile sc = ?file" "sc_DetailFile sc = []"
    by (simp_all add: sc_def scenario_table_def scenario_row_def)
  have hk: "gm_get (scenario_hooks recovery_host recovery_codec ?wait) (sc_AutomationTool sc) = Some hk"
    by (simp add: sc(2) hk_def scenario_hooks_def gm_get_Cons)
  have hooks: "hk_Run hk = None" "hk_Collect hk = None" "hk_DetailParse hk = None" "hk_Provision hk = None"
    "hk_ProvisionVMs hk = Some (provisionFailureRecoveryVMs recovery_host ?wait)"
    "hk_BuildArgs hk = (\<lambda>rc b tr dir w. failureRecoveryArgs ''failure-recovery'' (bag_string b ''picked_node'') tr dir)"
    "hk_Parse hk = one_result (ParseFailureRecovery (rx_recovery recovery_codec) (rx_summary recovery_codec))"
    by (simp_all add: hk_def scenario_hooks_def gm_get_Cons no_hooks_def)
  have dir: "?dir \<noteq> []" by code_simp
  have live: "replayDir [recovery_tr] = []" by (simp add: recovery_params)
  have node: "run_state (recovery_node recovery_host kc recovery_tr) w = (Inr (''w1'', ''w1''), w)" for kc w
    by (simp add: recovery_node_def recovery_params Let_def)
  have none: "clone_in [] = None" by (simp add: GetAs_def Bag_Get_def)
  obtain b1 where p: "run_state (vb_Provision recovery_host sc hk ?ensure recovery_rc [recovery_tr] []) () = ((None, b1), ())"
    and b1: "bag_string b1 ''results_root'' = ?dir" "bag_string b1 ''picked_node'' = ''w1''" "\<not> flag_in b1 ''replay''" "clone_in b1 = None"
    "bag_string b1 ''tr_id'' = ''TR-VIRT-007''"
    using live none by (auto simp: vb_Provision_def Let_def provision_bag_def recovery_perform hooks provisionFailureRecoveryVMs_def node recovery_vms_ok
      recovery_params)
  obtain argv where args: "hk_BuildArgs hk recovery_rc b1 recovery_tr ?dir () = Inr argv"
    by (auto simp: hooks b1 failureRecoveryArgs_def recovery_params Let_def)
  then have cmd: "virtbenchCommand argv = ''failure-recovery''" unfolding hooks by (rule builder_commands)
  have exec: "run_state (execVirtbench recovery_host Run_ctx \<lparr> mq_Prepared = False, mq_TR = recovery_tr, mq_Directory = ?dir, mq_Args = argv \<rparr>) () = (None, ())"
    using cmd by (simp add: execVirtbench_def prepareManifest_def recovery_host_def[THEN arg_cong, of vh_ctxErr] vm_commands_def Let_def recovery_perform)
  have run: "run_state (vb_Run recovery_host sc hk recovery_rc [recovery_tr] b1) () = ((Inr (''virtbench-'' @ rc_RunID recovery_rc), b1), ())"
    using b1 by (simp add: vb_Run_def Let_def hooks(1) args prepare_clone_def exec)
  let ?logs = "zero_log_bundle\<lparr>lb_Refs := [?dir @ ''/summary.json''], lb_Data := [(?file, ''tmpl'')]\<rparr>"
  have coll: "run_state (vb_Collect recovery_host sc hk b1) () = ((Inr ?logs, b1), ())"
    using dir b1 by (simp add: vb_Collect_def collect_files_def Let_def hooks collect_detail_def sc findResult_def findResults_def
      recovery_host_def calm_host_def)
  have "\<exists>results. vb_Parse sc hk ?logs b1 = Inr results"
    by (simp add: vb_Parse_def Let_def hooks sc gm_get_Cons one_result_def recovery_codec_def ParseFailureRecovery_def parseSummary_def)
  then obtain results where parse: "vb_Parse sc hk ?logs b1 = Inr results" by blast
  have "sc_AutomationTool sc \<noteq> ''virtbench fio''" "tr_ID recovery_tr \<noteq> []" by (simp_all add: sc recovery_params)
  from virtbench_result_evidence[OF sc(1) hk this(1) live this(2) p run coll parse]
  have "tool_ran recovery_host sc ?dir recovery_tr () \<or> sc_TolerateRunError sc"
    "\<exists>path. only_file recovery_host ?dir ?file () path" unfolding sc(3) by blast+
  moreover have "\<not> sc_TolerateRunError sc" by (simp add: sc_def scenario_table_def scenario_row_def)
  ultimately show ?thesis unfolding sc_def by blast
qed

end
