(* ===== verification/Environment.thy ===== *)
theory Environment
  imports Cluster_Check
begin

text \<open>
  \<open>internal/clustercheck/environment.go\<close>: what a run records about the cluster it ran on. Everything is
  collected as far as it can be read. The decoders of JSON are arguments; as in Go a decoder that fails
  may have filled in a part of the value.
\<close>

section \<open>Commands and facts\<close>

definition cli_output :: "'w cluster \<Rightarrow> string \<Rightarrow> string list \<Rightarrow> ('w, string + string) state" where
  "cli_output cl cli args = do {
     r \<leftarrow> cl_Exec cl cli None args;
     State_Monad.return (case cr_Error r of Some err \<Rightarrow> Inl err | None \<Rightarrow> Inr (cr_Stdout r))
   }"

definition runText :: "'w cluster \<Rightarrow> string \<Rightarrow> string list \<Rightarrow> ('w, string) state" where
  "runText cl cli args = do { r \<leftarrow> cli_output cl cli args; State_Monad.return (case r of Inl _ \<Rightarrow> [] | Inr out \<Rightarrow> out) }"

definition runJSON :: "'w cluster \<Rightarrow> string \<Rightarrow> 'a \<Rightarrow> (string \<Rightarrow> 'a \<times> string option) \<Rightarrow> string list \<Rightarrow> ('w, 'a \<times> string option) state" where
  "runJSON cl cli v decode args = do {
     r \<leftarrow> cli_output cl cli args;
     State_Monad.return (case r of Inl err \<Rightarrow> (v, Some err) | Inr out \<Rightarrow> decode out)
   }"

definition facts :: "string \<Rightarrow> (string \<times> string) list \<Rightarrow> fact list" where
  "facts source kv = map (\<lambda>(k, v). \<lparr> fact_Key = k, fact_Value = v, fact_Source = source \<rparr>) (filter (\<lambda>(k, v). v \<noteq> []) kv)"

text \<open>\<open>%.0fGi\<close> of a number of \<open>Ki\<close>.\<close>

definition kiToGi :: "string \<Rightarrow> string" where
  "kiToGi s =
     (case parse_float (trim_suffix s ''Ki'') of
        None \<Rightarrow> []
      | Some ki \<Rightarrow> fmt_fix 0 (f64_div (f64_div ki (f64_of_int 1024)) (f64_of_int 1024)) @ ''Gi'')"

section \<open>Hardware\<close>

record cluster_node =
  nd_Labels :: "(string, string) gomap"
  nd_Capacity :: "(string, string) gomap"
  nd_Architecture :: string
  nd_OSImage :: string

text \<open>The values of one fact in first-seen order.\<close>

definition distinct_add :: "string list \<Rightarrow> string \<Rightarrow> string list" where
  "distinct_add values v = (if v = [] \<or> v \<in> set values then values else values @ [v])"

definition distinct_text :: "string list \<Rightarrow> string" where
  "distinct_text vs = join_with '', '' (foldl distinct_add [] vs)"

definition cut_prefix :: "string \<Rightarrow> string \<Rightarrow> string option" where
  "cut_prefix s p = (if has_prefix s p then Some (drop (length p) s) else None)"

definition count_role :: "(string, int) gomap \<Rightarrow> string \<Rightarrow> (string, int) gomap" where
  "count_role roles k =
     (case cut_prefix k ''node-role.kubernetes.io/'' of
        Some r \<Rightarrow> if r \<noteq> [] then gm_set r ((case gm_get roles r of Some n \<Rightarrow> n | None \<Rightarrow> 0) + 1) roles else roles
      | None \<Rightarrow> roles)"

definition formatRoles :: "(string, int) gomap \<Rightarrow> string" where
  "formatRoles roles =
     join_with '','' (map (\<lambda>r. r @ ''='' @ show_int (case gm_get roles r of Some n \<Rightarrow> n | None \<Rightarrow> 0)) (sort (map fst roles)))"

definition hardware_of :: "cluster_node list \<Rightarrow> hardware" where
  "hardware_of nodes =
     \<lparr> hw_Nodes = int (length nodes),
       hw_Facts = facts ''oc get nodes -o json''
         [(''arch'', distinct_text (map nd_Architecture nodes)),
          (''os_image'', distinct_text (map nd_OSImage nodes)),
          (''cpu_per_node'', distinct_text (map (\<lambda>n. gm_str (nd_Capacity n) ''cpu'') nodes)),
          (''ram_per_node'', distinct_text (map (\<lambda>n. kiToGi (gm_str (nd_Capacity n) ''memory'')) nodes)),
          (''node_roles'', formatRoles (foldl count_role [] (concat (map (\<lambda>n. map fst (nd_Labels n)) nodes))))] \<rparr>"

definition collectHardware ::
  "'w cluster \<Rightarrow> (string \<Rightarrow> cluster_node list \<times> string option) \<Rightarrow> string \<Rightarrow> ('w, hardware) state" where
  "collectHardware cl decode cli = do {
     r \<leftarrow> runJSON cl cli [] decode [''get'', ''nodes'', ''-o'', ''json''];
     State_Monad.return (case r of (nodes, None) \<Rightarrow> hardware_of nodes | _ \<Rightarrow> zero_hardware)
   }"

section \<open>The version of a driver\<close>

definition floatingTags :: "string list" where
  "floatingTags = [''latest'', ''main'', ''master'', ''devel'', ''dev'', ''edge'', ''unknown'', ''nightly'', ''stable'']"

definition usableVersion :: "string \<Rightarrow> string" where
  "usableVersion v = (let t = trim_space v in if to_lower t \<in> set floatingTags then [] else t)"

definition genericTokens :: "string list" where
  "genericTokens = [''csi'', ''com'', ''net'', ''org'', ''k8s'', ''driver'', ''storage'', ''kubernetes'']"

text \<open>\<open>strings.FieldsFunc\<close> on dots and dashes: the pieces that are not empty.\<close>

definition driverTokens :: "string \<Rightarrow> string list" where
  "driverTokens driver =
     filter (\<lambda>t. length t > 2 \<and> t \<notin> set genericTokens)
       (concat (map (split_on (CHR ''-'')) (split_on (CHR ''.'') (to_lower driver))))"

definition matchesDriver :: "string \<Rightarrow> string \<Rightarrow> bool" where
  "matchesDriver s driver = list_ex (contains s) (driverTokens driver)"

definition version_key :: "string \<Rightarrow> bool" where
  "version_key k =
     (let l = to_lower k in
      \<not> (contains l ''k8s'' \<or> contains l ''kube'') \<and> (has_suffix l ''_version'' \<or> has_suffix l ''-version''))"

definition version_step :: "(string, string) gomap \<Rightarrow> string \<Rightarrow> string \<times> string \<Rightarrow> string \<Rightarrow> string \<times> string" where
  "version_step labels driver acc k =
     (case acc of (named, other) \<Rightarrow>
        let v = usableVersion (gm_str labels k) in
        if \<not> version_key k \<or> v = [] then acc
        else (if named = [] \<and> matchesDriver (to_lower k) driver then v else named, if other = [] then v else other))"

definition versionFromLabels :: "(string, string) gomap \<Rightarrow> string \<Rightarrow> string" where
  "versionFromLabels labels driver =
     (case foldl (version_step labels driver) ([], []) (sort (map fst labels)) of (named, other) \<Rightarrow>
        if named \<noteq> [] then named
        else if other \<noteq> [] then other
        else usableVersion (gm_str labels ''app.kubernetes.io/version''))"

record csi_container =
  ct_Name :: string
  ct_Image :: string
  ct_Args :: "string list"
  ct_Command :: "string list"
  ct_Env :: "string list"

definition registers :: "csi_container list \<Rightarrow> string \<Rightarrow> bool" where
  "registers cs driver =
     list_ex (\<lambda>c. contains (join_with '' '' (ct_Args c @ ct_Command c @ ct_Env c)) (''/'' @ driver @ ''/'')) cs"

definition csiSidecars :: "string list" where
  "csiSidecars = [''registrar'', ''provisioner'', ''attacher'', ''resizer'', ''snapshotter'', ''livenessprobe'', ''liveness-probe'', ''health-monitor'']"

definition isSidecar :: "string \<Rightarrow> bool" where
  "isSidecar hay = (contains hay ''sig-storage'' \<or> list_ex (contains hay) csiSidecars)"

definition container_text :: "csi_container \<Rightarrow> string" where
  "container_text c = to_lower (ct_Name c @ '' '' @ ct_Image c)"

definition image_score :: "string \<Rightarrow> csi_container \<Rightarrow> nat" where
  "image_score driver c = length (filter (contains (container_text c)) (driverTokens driver))"

definition image_step :: "string \<Rightarrow> string \<times> nat \<Rightarrow> csi_container \<Rightarrow> string \<times> nat" where
  "image_step driver acc c =
     (if isSidecar (container_text c) then acc
      else if image_score driver c > snd acc then (ct_Image c, image_score driver c) else acc)"

definition driverImage :: "csi_container list \<Rightarrow> string \<Rightarrow> string" where
  "driverImage cs driver = fst (foldl (image_step driver) ([], 0) cs)"

text \<open>Before and after the last occurrence of a character.\<close>

definition last_cut :: "char \<Rightarrow> string \<Rightarrow> (string \<times> string) option" where
  "last_cut c s = (if c \<in> set s then (case cut_at c (rev s) of (a, b) \<Rightarrow> Some (rev b, rev a)) else None)"

definition imageTag :: "string \<Rightarrow> string" where
  "imageTag img =
     (let name = (case last_cut (CHR ''@'') img of Some (a, _) \<Rightarrow> a | None \<Rightarrow> img) in
      case last_cut (CHR '':'') name of
        None \<Rightarrow> []
      | Some (_, tag) \<Rightarrow> if CHR ''/'' \<in> set tag then [] else usableVersion tag)"

fun daemonset_version :: "string \<Rightarrow> csi_container list list \<Rightarrow> string" where
  "daemonset_version driver [] = []"
| "daemonset_version driver (cs # ds) =
     (if \<not> registers cs driver then daemonset_version driver ds
      else (let v = imageTag (driverImage cs driver) in if v \<noteq> [] then v else daemonset_version driver ds))"

definition versionFromDaemonSet ::
  "'w cluster \<Rightarrow> (string \<Rightarrow> csi_container list list \<times> string option) \<Rightarrow> string \<Rightarrow> string \<Rightarrow> ('w, string) state" where
  "versionFromDaemonSet cl decode cli driver = do {
     r \<leftarrow> runJSON cl cli [] decode [''get'', ''daemonsets'', ''-A'', ''-o'', ''json''];
     State_Monad.return (case r of (ds, None) \<Rightarrow> daemonset_version driver ds | _ \<Rightarrow> [])
   }"

record csi_driver_object =
  cd_Labels :: "(string, string) gomap"
  cd_AttachRequired :: "bool option"
  cd_FSGroupPolicy :: string
  cd_VolumeLifecycleModes :: "string list"
  cd_PodInfoOnMount :: "bool option"
  cd_StorageCapacity :: "bool option"
  cd_RequiresRepublish :: "bool option"
  cd_SELinuxMount :: "bool option"

definition zero_driver_object :: csi_driver_object where
  "zero_driver_object = \<lparr> cd_Labels = [], cd_AttachRequired = None, cd_FSGroupPolicy = [], cd_VolumeLifecycleModes = [], cd_PodInfoOnMount = None,
     cd_StorageCapacity = None, cd_RequiresRepublish = None, cd_SELinuxMount = None \<rparr>"

definition driver_capabilities :: "csi_driver_object \<Rightarrow> string list" where
  "driver_capabilities d =
     map fst (filter (\<lambda>(name, on). on = Some True)
       [(''podInfoOnMount'', cd_PodInfoOnMount d), (''storageCapacity'', cd_StorageCapacity d),
        (''requiresRepublish'', cd_RequiresRepublish d), (''seLinuxMount'', cd_SELinuxMount d)])"

definition read_driver :: "string \<Rightarrow> csi_driver_object \<times> string option \<Rightarrow> csi_driver_info" where
  "read_driver name r =
     (let inf = zero_csi_driver_info\<lparr>csi_Name := name\<rparr>; d = fst r in
      if snd r \<noteq> None then inf
      else inf\<lparr>csi_AttachRequired := (case cd_AttachRequired d of Some b \<Rightarrow> b | None \<Rightarrow> False),
               csi_FSGroupPolicy := cd_FSGroupPolicy d, csi_VolumeLifecycleModes := cd_VolumeLifecycleModes d,
               csi_Capabilities := driver_capabilities d\<rparr>)"

text \<open>The labels are looked at even when the decoder failed.\<close>

definition collectCSIDriver ::
  "'w cluster \<Rightarrow> (string \<Rightarrow> csi_driver_object \<times> string option) \<Rightarrow> (string \<Rightarrow> csi_container list list \<times> string option) \<Rightarrow>
     string \<Rightarrow> string \<Rightarrow> ('w, csi_driver_info \<times> string) state" where
  "collectCSIDriver cl decode decode_sets cli name = do {
     r \<leftarrow> runJSON cl cli zero_driver_object decode [''get'', ''csidriver'', name, ''-o'', ''json''];
     let inf = read_driver name r;
     let v = versionFromLabels (cd_Labels (fst r)) name;
     if v \<noteq> [] then State_Monad.return (inf\<lparr>csi_Version := v\<rparr>, ''oc get csidriver '' @ name @ '' -o json (label)'')
     else do {
       t \<leftarrow> versionFromDaemonSet cl decode_sets cli name;
       State_Monad.return
         (if t \<noteq> [] then (inf\<lparr>csi_Version := t\<rparr>, ''oc get daemonsets -A -o json (driver image tag)'') else (inf, []))
     }
   }"

section \<open>Platform\<close>

record csv_item =
  csv_Name :: string
  csv_Version :: string
  csv_Reason :: string
  csv_Phase :: string

text \<open>One pass over the operators: the names seen, what is recorded and the version of the virtualization.\<close>

definition operator_base :: "csv_item \<Rightarrow> string" where
  "operator_base c = (case str_cut ''.v'' (csv_Name c) of Some (a, _) \<Rightarrow> a | None \<Rightarrow> csv_Name c)"

definition csv_installed :: "csv_item \<Rightarrow> bool" where
  "csv_installed c = (\<not> (csv_Reason c = ''Copied'' \<or> csv_Phase c \<noteq> ''Succeeded''))"

definition operator_step :: "string list \<times> operator_info list \<times> string \<Rightarrow> csv_item \<Rightarrow> string list \<times> operator_info list \<times> string" where
  "operator_step acc c =
     (case acc of (seen, ops, cnv) \<Rightarrow>
        let base = operator_base c in
        if \<not> csv_installed c \<or> base \<in> set seen then acc
        else (seen @ [base],
              ops @ [zero_operator_info\<lparr>op_Name := base, op_Version := csv_Version c, op_Source := ''oc get csv -A -o json''\<rparr>],
              if contains base ''kubevirt-hyperconverged'' then csv_Version c else cnv))"

record storage_class_item =
  st_Name :: string
  st_Annotations :: "(string, string) gomap"
  st_Provisioner :: string
  st_ReclaimPolicy :: string
  st_VolumeBindingMode :: string
  st_Parameters :: "(string, string) gomap"

definition is_default_storage :: "storage_class_item \<Rightarrow> bool" where
  "is_default_storage s = (gm_str (st_Annotations s) ''storageclass.kubernetes.io/is-default-class'' = ''true'')"

definition class_step ::
  "string \<Rightarrow> string \<times> string \<times> storage_class_info list \<Rightarrow> storage_class_item \<Rightarrow> string \<times> string \<times> storage_class_info list" where
  "class_step scUnderTest acc s =
     (case acc of (dflt, tested, classes) \<Rightarrow>
        let isDefault = is_default_storage s; underTest = (st_Name s = scUnderTest) in
        (if isDefault then st_Provisioner s else dflt, if underTest then st_Provisioner s else tested,
         if \<not> isDefault \<and> \<not> underTest then classes
         else classes @ [\<lparr> sci_Name = st_Name s, sci_Provisioner = st_Provisioner s, sci_IsDefault = isDefault, sci_UnderTest = underTest,
                sci_ReclaimPolicy = st_ReclaimPolicy s, sci_VolumeBindingMode = st_VolumeBindingMode s, sci_Parameters = st_Parameters s \<rparr>]))"

record env_codec =
  ec_nodes :: "string \<Rightarrow> cluster_node list \<times> string option"
  ec_version :: "string \<Rightarrow> string \<times> string option"
  ec_csvs :: "string \<Rightarrow> csv_item list \<times> string option"
  ec_classes :: "string \<Rightarrow> storage_class_item list \<times> string option"
  ec_driver :: "string \<Rightarrow> csi_driver_object \<times> string option"
  ec_daemonsets :: "string \<Rightarrow> csi_container list list \<times> string option"

definition add_operators :: "csv_item list \<times> string option \<Rightarrow> platform \<Rightarrow> platform" where
  "add_operators r p =
     (if snd r \<noteq> None then p
      else case foldl operator_step ([], [], pf_CNVVersion p) (fst r) of (seen, ops, cnv) \<Rightarrow>
        p\<lparr>pf_Operators := pf_Operators p @ ops, pf_CNVVersion := cnv\<rparr>)"

definition add_classes :: "string \<Rightarrow> storage_class_item list \<times> string option \<Rightarrow> platform \<Rightarrow> string \<times> string \<times> platform" where
  "add_classes scUnderTest r p =
     (if snd r \<noteq> None then ([], [], p)
      else case foldl (class_step scUnderTest) ([], [], pf_StorageClasses p) (fst r) of (dflt, tested, classes) \<Rightarrow>
        (dflt, tested, p\<lparr>pf_StorageClasses := classes,
           pf_Facts := pf_Facts p @ facts ''oc get sc -o json'' [(''storage_classes_total'', show_nat (length (fst r)))]\<rparr>))"

definition collectPlatform :: "'w cluster \<Rightarrow> env_codec \<Rightarrow> string \<Rightarrow> string \<Rightarrow> ('w, platform) state" where
  "collectPlatform cl ec cli scUnderTest = do {
     ocp \<leftarrow> runText cl cli [''get'', ''clusterversion'', ''version'', ''-o'', ''jsonpath={.status.desired.version}''];
     let p0 = zero_platform\<lparr>pf_OCPVersion := trim_space ocp\<rparr>;
     ver \<leftarrow> runJSON cl cli [] (ec_version ec) [''version'', ''-o'', ''json''];
     let p1 = (if snd ver = None then p0\<lparr>pf_KubeVersion := fst ver\<rparr> else p0);
     csvs \<leftarrow> runJSON cl cli [] (ec_csvs ec) [''get'', ''csv'', ''-A'', ''-o'', ''json''];
     let p2 = add_operators csvs p1;
     scs \<leftarrow> runJSON cl cli [] (ec_classes ec) [''get'', ''sc'', ''-o'', ''json''];
     (case add_classes scUnderTest scs p2 of (dflt, tested, p3) \<Rightarrow>
        let provisioner = (if tested = [] then dflt else tested) in
        if provisioner = [] then State_Monad.return p3
        else do {
          d \<leftarrow> collectCSIDriver cl (ec_driver ec) (ec_daemonsets ec) cli provisioner;
          State_Monad.return (p3\<lparr>pf_CSIDriver := fst d,
            pf_Facts := pf_Facts p3 @ facts (snd d) [(''csi_driver_version'', csi_Version (fst d))]\<rparr>)
        })
   }"

definition CollectEnvironment :: "'w cluster \<Rightarrow> env_codec \<Rightarrow> string \<Rightarrow> string \<Rightarrow> ('w, environment) state" where
  "CollectEnvironment cl ec cli scUnderTest = do {
     hw \<leftarrow> collectHardware cl (ec_nodes ec) cli;
     p \<leftarrow> collectPlatform cl ec cli scUnderTest;
     State_Monad.return \<lparr> env_Hardware = hw, env_Platform = p \<rparr>
   }"


section \<open>Labels\<close>

text \<open>The labels that count, in their sorted order.\<close>

definition version_labels :: "(string, string) gomap \<Rightarrow> string list" where
  "version_labels labels = filter (\<lambda>k. version_key k \<and> usableVersion (gm_str labels k) \<noteq> []) (sort (map fst labels))"

definition first_version :: "(string, string) gomap \<Rightarrow> (string \<Rightarrow> bool) \<Rightarrow> string list \<Rightarrow> string" where
  "first_version labels wanted ks = (case find wanted ks of Some k \<Rightarrow> usableVersion (gm_str labels k) | None \<Rightarrow> [])"

lemma version_fold:
  "foldl (version_step labels driver) (a, b) ks =
     (let us = filter (\<lambda>k. version_key k \<and> usableVersion (gm_str labels k) \<noteq> []) ks in
      (if a \<noteq> [] then a else first_version labels (\<lambda>k. matchesDriver (to_lower k) driver) us,
       if b \<noteq> [] then b else first_version labels (\<lambda>k. True) us))"
  by (induction ks arbitrary: a b) (simp_all add: version_step_def first_version_def Let_def)

text \<open>
  The version from the labels: the first label in key order that names the driver, else the first
  version label, else the generic one.
\<close>

lemma versionFromLabels_reference:
  "versionFromLabels labels driver =
     (case find (\<lambda>k. matchesDriver (to_lower k) driver) (version_labels labels) of
        Some k \<Rightarrow> usableVersion (gm_str labels k)
      | None \<Rightarrow> (case version_labels labels of
            k # _ \<Rightarrow> usableVersion (gm_str labels k)
          | [] \<Rightarrow> usableVersion (gm_str labels ''app.kubernetes.io/version'')))"
proof -
  let ?us = "version_labels labels"
  have u: "k \<in> set ?us \<Longrightarrow> usableVersion (gm_str labels k) \<noteq> []" for k by (simp add: version_labels_def)
  have f: "find P ?us = Some k \<Longrightarrow> usableVersion (gm_str labels k) \<noteq> []" for P k
    using u[of k] by (auto simp: find_Some_iff)
  have h: "find (\<lambda>k. True) ?us = (case ?us of [] \<Rightarrow> None | k # _ \<Rightarrow> Some k)" by (cases ?us) simp_all
  show ?thesis
    unfolding versionFromLabels_def version_fold version_labels_def[symmetric] Let_def
    using f u by (auto simp: first_version_def h split: option.splits list.splits)
qed

lemma usable_not_floating: "usableVersion x = v \<Longrightarrow> v \<noteq> [] \<Longrightarrow> to_lower v \<notin> set floatingTags"
  by (auto simp: usableVersion_def Let_def split: if_splits)

definition version_label :: "(string, string) gomap \<Rightarrow> string \<Rightarrow> string \<Rightarrow> bool" where
  "version_label labels driver v =
     (\<exists>k. usableVersion (gm_str labels k) = v \<and> (version_key k \<or> k = ''app.kubernetes.io/version'') \<and>
        (matchesDriver (to_lower k) driver \<or> (\<forall>l \<in> set (version_labels labels). \<not> matchesDriver (to_lower l) driver)))"

lemma versionFromLabels_label: "version_label labels driver (versionFromLabels labels driver)"
proof (cases "find (\<lambda>k. matchesDriver (to_lower k) driver) (version_labels labels)")
  case (Some k)
  then have "k \<in> set (version_labels labels)" "matchesDriver (to_lower k) driver" by (auto simp: find_Some_iff)
  then show ?thesis unfolding version_label_def versionFromLabels_reference Some by (auto simp: version_labels_def)
next
  case None
  then have "\<forall>l \<in> set (version_labels labels). \<not> matchesDriver (to_lower l) driver" by (auto simp: find_None_iff)
  moreover have "k # ks = version_labels labels \<Longrightarrow> version_key k" for k ks
    using list.set_intros(1)[of k ks] by (simp add: version_labels_def)
  ultimately show ?thesis unfolding version_label_def versionFromLabels_reference None by (auto split: list.splits)
qed

section \<open>Images\<close>

text \<open>The image is that of a container that is no sidecar and that no other one matches better.\<close>

definition best_container :: "string \<Rightarrow> csi_container list \<Rightarrow> csi_container \<Rightarrow> bool" where
  "best_container driver cs c =
     (c \<in> set cs \<and> \<not> isSidecar (container_text c) \<and> 0 < image_score driver c \<and>
      (\<forall>d \<in> set cs. \<not> isSidecar (container_text d) \<longrightarrow> image_score driver d \<le> image_score driver c))"

lemma image_fold:
  "foldl (image_step driver) acc cs = (x, n) \<Longrightarrow>
     snd acc \<le> n \<and> (\<forall>d \<in> set cs. \<not> isSidecar (container_text d) \<longrightarrow> image_score driver d \<le> n) \<and>
     ((x, n) = acc \<or> (\<exists>c \<in> set cs. \<not> isSidecar (container_text c) \<and> snd acc < image_score driver c \<and> n = image_score driver c \<and> x = ct_Image c))"
proof (induction cs arbitrary: acc)
  case (Cons c cs)
  show ?case
  proof (cases "isSidecar (container_text c) \<or> image_score driver c \<le> snd acc")
    case True
    then have "image_step driver acc c = acc" by (auto simp: image_step_def)
    then have "foldl (image_step driver) acc cs = (x, n)" using Cons.prems by simp
    with Cons.IH[OF this] True show ?thesis by auto
  next
    case False
    then have "image_step driver acc c = (ct_Image c, image_score driver c)" by (simp add: image_step_def)
    then have "foldl (image_step driver) (ct_Image c, image_score driver c) cs = (x, n)" using Cons.prems by simp
    with Cons.IH[OF this] False show ?thesis by (auto 0 4)
  qed
qed simp

lemma driverImage_best: "driverImage cs driver \<noteq> [] \<Longrightarrow> \<exists>c. best_container driver cs c \<and> ct_Image c = driverImage cs driver"
proof -
  assume a: "driverImage cs driver \<noteq> []"
  obtain x n where f: "foldl (image_step driver) ([], 0) cs = (x, n)" by fastforce
  with a image_fold[OF f] show ?thesis by (auto simp: driverImage_def best_container_def)
qed

lemma imageTag_Nil [simp]: "imageTag [] = []"
  by (simp add: imageTag_def last_cut_def)

definition image_version :: "string \<Rightarrow> csi_container list list \<Rightarrow> string \<Rightarrow> bool" where
  "image_version driver ds v = (\<exists>cs c. cs \<in> set ds \<and> registers cs driver \<and> best_container driver cs c \<and> imageTag (ct_Image c) = v)"

lemma daemonset_version_image: "daemonset_version driver ds \<noteq> [] \<Longrightarrow> image_version driver ds (daemonset_version driver ds)"
proof (induction ds)
  case (Cons cs ds)
  show ?case
  proof (cases "registers cs driver \<and> imageTag (driverImage cs driver) \<noteq> []")
    case True
    then have "driverImage cs driver \<noteq> []" by auto
    from driverImage_best[OF this] obtain c where "best_container driver cs c" "ct_Image c = driverImage cs driver" by blast
    with True show ?thesis unfolding image_version_def by (intro exI[of _ cs] exI[of _ c]) (simp add: Let_def)
  next
    case False
    then have "daemonset_version driver (cs # ds) = daemonset_version driver ds" by (auto simp: Let_def)
    with Cons show ?thesis by (auto simp: image_version_def)
  qed
qed simp


section \<open>What the environment of a report rests on\<close>

text \<open>The client answered these arguments at a world reached from the start of the collection.\<close>

definition cli_answered :: "'w cluster \<Rightarrow> string \<Rightarrow> 'w \<Rightarrow> string list \<Rightarrow> string \<Rightarrow> bool" where
  "cli_answered cl cli w0 args data =
     (\<exists>w w' r. cluster_steps cl w0 w \<and> run_state (cl_Exec cl cli None args) w = (r, w') \<and> cr_Error r = None \<and> cr_Stdout r = data)"

definition json_read :: "'w cluster \<Rightarrow> string \<Rightarrow> 'w \<Rightarrow> 'a \<Rightarrow> (string \<Rightarrow> 'a \<times> string option) \<Rightarrow> string list \<Rightarrow> 'a \<times> string option \<Rightarrow> bool" where
  "json_read cl cli w0 v decode args r = ((fst r = v \<and> snd r \<noteq> None) \<or> (\<exists>data. cli_answered cl cli w0 args data \<and> decode data = r))"

lemma yields_exec_answer:
  "yields cl w0 (cl_Exec cl cli None args) (\<lambda>r. cr_Error r = None \<longrightarrow> cli_answered cl cli w0 args (cr_Stdout r))"
  unfolding yields_def cli_answered_def using cluster_steps.exec by fast

lemma yields_cli_output: "yields cl w0 (cli_output cl cli args) (\<lambda>r. \<forall>data. r = Inr data \<longrightarrow> cli_answered cl cli w0 args data)"
  unfolding cli_output_def by (rule yields_bind[OF yields_exec_answer]) (auto intro!: yields_return split: option.splits)

lemma yields_runJSON: "yields cl w0 (runJSON cl cli v decode args) (json_read cl cli w0 v decode args)"
  unfolding runJSON_def by (rule yields_bind[OF yields_cli_output]) (auto intro!: yields_return simp: json_read_def split: sum.splits)

lemma yields_runText: "yields cl w0 (runText cl cli args) (\<lambda>_. True)"
  unfolding runText_def by (rule yields_bind[OF yields_cli_output], rule yields_return, rule TrueI)

definition label_evidence :: "'w cluster \<Rightarrow> env_codec \<Rightarrow> string \<Rightarrow> 'w \<Rightarrow> string \<Rightarrow> string \<Rightarrow> bool" where
  "label_evidence cl ec cli w0 name v =
     (\<exists>data. cli_answered cl cli w0 [''get'', ''csidriver'', name, ''-o'', ''json''] data \<and>
        version_label (cd_Labels (fst (ec_driver ec data))) name v)"

definition image_evidence :: "'w cluster \<Rightarrow> env_codec \<Rightarrow> string \<Rightarrow> 'w \<Rightarrow> string \<Rightarrow> string \<Rightarrow> bool" where
  "image_evidence cl ec cli w0 name v =
     (\<exists>data ds. cli_answered cl cli w0 [''get'', ''daemonsets'', ''-A'', ''-o'', ''json''] data \<and> ec_daemonsets ec data = (ds, None) \<and>
        image_version name ds v)"

text \<open>The version and its source fit together.\<close>

definition sourced :: "'w cluster \<Rightarrow> env_codec \<Rightarrow> string \<Rightarrow> 'w \<Rightarrow> string \<Rightarrow> string \<Rightarrow> string \<Rightarrow> bool" where
  "sourced cl ec cli w0 name v source =
     (v \<noteq> [] \<longrightarrow> source = ''oc get csidriver '' @ name @ '' -o json (label)'' \<and> label_evidence cl ec cli w0 name v \<or>
                 source = ''oc get daemonsets -A -o json (driver image tag)'' \<and> image_evidence cl ec cli w0 name v)"

lemma no_labels [simp]: "versionFromLabels [] name = []"
  by (simp add: versionFromLabels_def gm_str_def usableVersion_def trim_space_def)

lemma yields_daemonset:
  "yields cl w0 (versionFromDaemonSet cl (ec_daemonsets ec) cli name) (\<lambda>v. v \<noteq> [] \<longrightarrow> image_evidence cl ec cli w0 name v)"
  unfolding versionFromDaemonSet_def
proof (rule yields_bind[OF yields_runJSON], rule yields_return)
  fix r :: "csi_container list list \<times> string option"
  assume j: "json_read cl cli w0 [] (ec_daemonsets ec) [''get'', ''daemonsets'', ''-A'', ''-o'', ''json''] r"
  show "(case r of (ds, None) \<Rightarrow> daemonset_version name ds | _ \<Rightarrow> []) \<noteq> [] \<longrightarrow>
    image_evidence cl ec cli w0 name (case r of (ds, None) \<Rightarrow> daemonset_version name ds | _ \<Rightarrow> [])"
    using j daemonset_version_image[of name "fst r"]
    by (cases r) (auto simp: json_read_def image_evidence_def split: option.splits)
qed

lemma yields_driver:
  "yields cl w0 (collectCSIDriver cl (ec_driver ec) (ec_daemonsets ec) cli name)
     (\<lambda>d. csi_Name (fst d) = name \<and> sourced cl ec cli w0 name (csi_Version (fst d)) (snd d))"
  unfolding collectCSIDriver_def Let_def
proof (rule yields_bind[OF yields_runJSON])
  fix r :: "csi_driver_object \<times> string option"
  assume j: "json_read cl cli w0 zero_driver_object (ec_driver ec) [''get'', ''csidriver'', name, ''-o'', ''json''] r"
  have l: "versionFromLabels (cd_Labels (fst r)) name \<noteq> [] \<Longrightarrow> label_evidence cl ec cli w0 name (versionFromLabels (cd_Labels (fst r)) name)"
    using j versionFromLabels_label[of "cd_Labels (fst r)" name]
    by (auto simp: json_read_def label_evidence_def zero_driver_object_def)
  have n: "csi_Name (read_driver name r) = name" "csi_Version (read_driver name r) = []"
    by (simp_all add: read_driver_def Let_def zero_csi_driver_info_def)
  show "yields cl w0
     (if versionFromLabels (cd_Labels (fst r)) name \<noteq> []
      then State_Monad.return (read_driver name r\<lparr>csi_Version := versionFromLabels (cd_Labels (fst r)) name\<rparr>, ''oc get csidriver '' @ name @ '' -o json (label)'')
      else do {
        t \<leftarrow> versionFromDaemonSet cl (ec_daemonsets ec) cli name;
        State_Monad.return (if t \<noteq> [] then (read_driver name r\<lparr>csi_Version := t\<rparr>, ''oc get daemonsets -A -o json (driver image tag)'') else (read_driver name r, []))
      }) (\<lambda>d. csi_Name (fst d) = name \<and> sourced cl ec cli w0 name (csi_Version (fst d)) (snd d))"
  proof (rule yields_if)
    assume "versionFromLabels (cd_Labels (fst r)) name \<noteq> []"
    from l[OF this] show "yields cl w0 (State_Monad.return (read_driver name r\<lparr>csi_Version := versionFromLabels (cd_Labels (fst r)) name\<rparr>, ''oc get csidriver '' @ name @ '' -o json (label)''))
       (\<lambda>d. csi_Name (fst d) = name \<and> sourced cl ec cli w0 name (csi_Version (fst d)) (snd d))"
      by (intro yields_return) (simp add: sourced_def n)
  next
    show "yields cl w0 (do {
        t \<leftarrow> versionFromDaemonSet cl (ec_daemonsets ec) cli name;
        State_Monad.return (if t \<noteq> [] then (read_driver name r\<lparr>csi_Version := t\<rparr>, ''oc get daemonsets -A -o json (driver image tag)'') else (read_driver name r, []))
      }) (\<lambda>d. csi_Name (fst d) = name \<and> sourced cl ec cli w0 name (csi_Version (fst d)) (snd d))"
      by (rule yields_bind[OF yields_daemonset]) (auto intro!: yields_return simp: sourced_def n)
  qed
qed


section \<open>Operators and classes\<close>

lemma operator_fold:
  assumes "foldl operator_step (seen, ops, cnv) cs = (seen', ops', cnv')" and "map op_Name ops = seen" and "distinct seen"
  shows "map op_Name ops' = seen' \<and> distinct seen' \<and>
    (\<forall>op \<in> set ops' - set ops. \<exists>c \<in> set cs. csv_installed c \<and> op_Name op = operator_base c \<and> op_Version op = csv_Version c)"
  using assms
proof (induction cs arbitrary: seen ops cnv)
  case (Cons c cs)
  show ?case
  proof (cases "\<not> csv_installed c \<or> operator_base c \<in> set seen")
    case True
    then have "operator_step (seen, ops, cnv) c = (seen, ops, cnv)" by (auto simp: operator_step_def Let_def)
    then have "foldl operator_step (seen, ops, cnv) cs = (seen', ops', cnv')" using Cons.prems(1) by simp
    from Cons.IH[OF this Cons.prems(2,3)] show ?thesis by auto
  next
    case False
    let ?op = "zero_operator_info\<lparr>op_Name := operator_base c, op_Version := csv_Version c, op_Source := ''oc get csv -A -o json''\<rparr>"
    obtain cnv1 where "operator_step (seen, ops, cnv) c = (seen @ [operator_base c], ops @ [?op], cnv1)"
      using False by (simp add: operator_step_def Let_def)
    then have "foldl operator_step (seen @ [operator_base c], ops @ [?op], cnv1) cs = (seen', ops', cnv')" using Cons.prems(1) by simp
    from Cons.IH[OF this] Cons.prems(2,3) False show ?thesis by auto
  qed
qed simp

text \<open>
  What the classes of the cluster make of the record: those whose annotation marks them as default
  and the one under test, in the cluster's order; and the provisioner of the last class with a property.
\<close>

definition marked_item :: "storage_class_item \<Rightarrow> bool" where
  "marked_item s = (gm_get (st_Annotations s) ''storageclass.kubernetes.io/is-default-class'' = Some ''true'')"

definition class_record :: "string \<Rightarrow> storage_class_item \<Rightarrow> storage_class_info" where
  "class_record sc s =
     \<lparr> sci_Name = st_Name s, sci_Provisioner = st_Provisioner s, sci_IsDefault = marked_item s, sci_UnderTest = (st_Name s = sc),
       sci_ReclaimPolicy = st_ReclaimPolicy s, sci_VolumeBindingMode = st_VolumeBindingMode s, sci_Parameters = st_Parameters s \<rparr>"

definition last_provisioner :: "(storage_class_item \<Rightarrow> bool) \<Rightarrow> storage_class_item list \<Rightarrow> string" where
  "last_provisioner P items = (case rev (filter P items) of [] \<Rightarrow> [] | s # _ \<Rightarrow> st_Provisioner s)"

lemma is_default_marked: "is_default_storage s = marked_item s"
  by (simp add: is_default_storage_def marked_item_def gm_str_def split: option.split)

lemma last_provisioner_snoc:
  "last_provisioner P (items @ [s]) = (if P s then st_Provisioner s else last_provisioner P items)"
  by (simp add: last_provisioner_def)

lemma class_fold:
  "foldl (class_step sc) ([], [], []) items =
     (last_provisioner marked_item items, last_provisioner (\<lambda>s. st_Name s = sc) items,
      map (class_record sc) (filter (\<lambda>s. marked_item s \<or> st_Name s = sc) items))"
  by (induction items rule: rev_induct)
    (simp_all add: class_step_def Let_def is_default_marked last_provisioner_snoc class_record_def, simp add: last_provisioner_def)

definition recorded_operator :: "'w cluster \<Rightarrow> env_codec \<Rightarrow> string \<Rightarrow> 'w \<Rightarrow> operator_info \<Rightarrow> bool" where
  "recorded_operator cl ec cli w0 op =
     (\<exists>data cs c. cli_answered cl cli w0 [''get'', ''csv'', ''-A'', ''-o'', ''json''] data \<and> ec_csvs ec data = (cs, None) \<and> c \<in> set cs \<and>
        csv_installed c \<and> op_Name op = operator_base c \<and> op_Version op = csv_Version c)"

text \<open>The list of the storage classes as the collection got it; an unreadable one counts as empty.\<close>

definition classes_read :: "'w cluster \<Rightarrow> env_codec \<Rightarrow> string \<Rightarrow> 'w \<Rightarrow> storage_class_item list \<Rightarrow> bool" where
  "classes_read cl ec cli w0 items \<longleftrightarrow>
     (\<exists>w w' r. cluster_steps cl w0 w \<and> run_state (runJSON cl cli [] (ec_classes ec) [''get'', ''sc'', ''-o'', ''json'']) w = (r, w') \<and>
        items = (if snd r = None then fst r else []))"

text \<open>The driver is that of the class under test, or of the default class when there is none with a provisioner.\<close>

definition driver_name :: "string \<Rightarrow> storage_class_item list \<Rightarrow> string" where
  "driver_name sc items =
     (let tested = last_provisioner (\<lambda>s. st_Name s = sc) items in if tested \<noteq> [] then tested else last_provisioner marked_item items)"

definition classes_recorded :: "string \<Rightarrow> storage_class_item list \<Rightarrow> platform \<Rightarrow> bool" where
  "classes_recorded sc items p \<longleftrightarrow>
     pf_StorageClasses p = map (class_record sc) (filter (\<lambda>s. marked_item s \<or> st_Name s = sc) items) \<and>
     (if driver_name sc items = [] then pf_CSIDriver p = zero_csi_driver_info else csi_Name (pf_CSIDriver p) = driver_name sc items)"

lemma yields_class_list:
  "yields cl w0 (runJSON cl cli [] (ec_classes ec) [''get'', ''sc'', ''-o'', ''json''])
     (\<lambda>r. classes_read cl ec cli w0 (if snd r = None then fst r else []))"
proof -
  have "yields cl w0 (runJSON cl cli [] (ec_classes ec) [''get'', ''sc'', ''-o'', ''json'']) (\<lambda>_. True)"
    by (rule yields_weaken[OF yields_runJSON]) simp
  then show ?thesis unfolding yields_def classes_read_def by fast
qed

definition driver_version :: "'w cluster \<Rightarrow> env_codec \<Rightarrow> string \<Rightarrow> 'w \<Rightarrow> platform \<Rightarrow> bool" where
  "driver_version cl ec cli w0 p =
     (let d = pf_CSIDriver p; v = csi_Version d in
      v = [] \<or> (\<exists>source. \<lparr> fact_Key = ''csi_driver_version'', fact_Value = v, fact_Source = source \<rparr> \<in> set (pf_Facts p) \<and>
        sourced cl ec cli w0 (csi_Name d) v source))"

definition platform_before :: "'w cluster \<Rightarrow> env_codec \<Rightarrow> string \<Rightarrow> 'w \<Rightarrow> platform \<Rightarrow> bool" where
  "platform_before cl ec cli w0 p =
     (pf_CSIDriver p = zero_csi_driver_info \<and> pf_StorageClasses p = [] \<and> distinct (map op_Name (pf_Operators p)) \<and>
      (\<forall>op \<in> set (pf_Operators p). recorded_operator cl ec cli w0 op))"

lemma add_operators_before:
  assumes "json_read cl cli w0 [] (ec_csvs ec) [''get'', ''csv'', ''-A'', ''-o'', ''json''] r"
    and "pf_CSIDriver p = zero_csi_driver_info" and "pf_StorageClasses p = []" and "pf_Operators p = []"
  shows "platform_before cl ec cli w0 (add_operators r p)"
proof (cases "snd r")
  case None
  obtain seen ops cnv where f: "foldl operator_step ([], [], pf_CNVVersion p) (fst r) = (seen, ops, cnv)" by (metis surj_pair)
  from operator_fold[OF this] have o: "map op_Name ops = seen" "distinct seen"
    "\<forall>op \<in> set ops. \<exists>c \<in> set (fst r). csv_installed c \<and> op_Name op = operator_base c \<and> op_Version op = csv_Version c" by simp_all
  from assms(1) None obtain data where "cli_answered cl cli w0 [''get'', ''csv'', ''-A'', ''-o'', ''json''] data" "ec_csvs ec data = (fst r, None)"
    unfolding json_read_def by (metis prod.collapse)
  then have "\<forall>op \<in> set ops. recorded_operator cl ec cli w0 op" using o(3) unfolding recorded_operator_def by blast
  then show ?thesis using None f o(1,2) assms(2-4) by (simp add: platform_before_def add_operators_def)
qed (use assms in \<open>simp add: platform_before_def add_operators_def\<close>)

lemma add_classes_recorded:
  assumes "add_classes sc r p = (dflt, tested, p')" and "pf_StorageClasses p = []"
  shows "let items = (if snd r = None then fst r else []) in
    pf_StorageClasses p' = map (class_record sc) (filter (\<lambda>s. marked_item s \<or> st_Name s = sc) items) \<and>
    (if tested = [] then dflt else tested) = driver_name sc items \<and> pf_Operators p' = pf_Operators p \<and> pf_CSIDriver p' = pf_CSIDriver p"
  using assms by (cases "snd r") (auto simp: add_classes_def class_fold driver_name_def Let_def last_provisioner_def)

text \<open>
  C27: what the recorded platform rests on. Every operator is an installed one that the cluster listed,
  each once. The storage classes are exactly those of the list the cluster gave (none when it could
  not be read) that the annotation is-default-class marks as default or that are under test, each
  with these two flags and the rest of the cluster's answer. The driver is the provisioner of the
  class under test, or of the default class when that has none. Its version comes from a label of the
  driver or from the image of the container of a node plug-in that matches the driver best, is no
  floating tag, and is recorded with that source.
\<close>

definition platform_evidence :: "'w cluster \<Rightarrow> env_codec \<Rightarrow> string \<Rightarrow> string \<Rightarrow> 'w \<Rightarrow> platform \<Rightarrow> bool" where
  "platform_evidence cl ec cli sc w0 p =
     (distinct (map op_Name (pf_Operators p)) \<and> (\<forall>op \<in> set (pf_Operators p). recorded_operator cl ec cli w0 op) \<and>
      (\<exists>items. classes_read cl ec cli w0 items \<and> classes_recorded sc items p) \<and> driver_version cl ec cli w0 p)"

lemma yields_platform: "yields cl w0 (collectPlatform cl ec cli sc) (platform_evidence cl ec cli sc w0)"
  unfolding collectPlatform_def Let_def
proof (rule yields_bind[OF yields_runText], rule yields_bind[OF yields_runJSON], rule yields_bind[OF yields_runJSON], rule yields_bind[OF yields_class_list])
  fix ocp :: string and ver :: "string \<times> string option" and csvs :: "csv_item list \<times> string option" and scs :: "storage_class_item list \<times> string option"
  assume j: "json_read cl cli w0 [] (ec_csvs ec) [''get'', ''csv'', ''-A'', ''-o'', ''json''] csvs"
    and s: "classes_read cl ec cli w0 (if snd scs = None then fst scs else [])"
  let ?items = "if snd scs = None then fst scs else []"
  let ?p0 = "zero_platform\<lparr>pf_OCPVersion := trim_space ocp\<rparr>"
  define p2 where "p2 = add_operators csvs (if snd ver = None then ?p0\<lparr>pf_KubeVersion := fst ver\<rparr> else ?p0)"
  have b: "platform_before cl ec cli w0 p2"
    unfolding p2_def by (rule add_operators_before[OF j]) (simp_all add: zero_platform_def)
  obtain dflt tested p3 where c: "add_classes sc scs p2 = (dflt, tested, p3)" by (metis surj_pair)
  let ?prov = "if tested = [] then dflt else tested"
  from add_classes_recorded[OF c] b
  have k: "pf_StorageClasses p3 = map (class_record sc) (filter (\<lambda>s. marked_item s \<or> st_Name s = sc) ?items)"
    "?prov = driver_name sc ?items" "pf_Operators p3 = pf_Operators p2" "pf_CSIDriver p3 = zero_csi_driver_info"
    by (simp_all add: platform_before_def Let_def)
  show "yields cl w0
     (case add_classes sc scs (add_operators csvs (if snd ver = None then ?p0\<lparr>pf_KubeVersion := fst ver\<rparr> else ?p0)) of (dflt, tested, p3) \<Rightarrow>
        if (if tested = [] then dflt else tested) = [] then State_Monad.return p3
        else do {
          d \<leftarrow> collectCSIDriver cl (ec_driver ec) (ec_daemonsets ec) cli (if tested = [] then dflt else tested);
          State_Monad.return (p3\<lparr>pf_CSIDriver := fst d,
            pf_Facts := pf_Facts p3 @ facts (snd d) [(''csi_driver_version'', csi_Version (fst d))]\<rparr>)
        }) (platform_evidence cl ec cli sc w0)"
    unfolding p2_def[symmetric] c prod.case
  proof (rule yields_if)
    assume "?prov = []"
    then have "classes_recorded sc ?items p3" using k by (simp add: classes_recorded_def)
    moreover have "driver_version cl ec cli w0 p3" using k(4) by (simp add: driver_version_def zero_csi_driver_info_def)
    ultimately show "yields cl w0 (State_Monad.return p3) (platform_evidence cl ec cli sc w0)"
      using b k(3) s by (intro yields_return) (unfold platform_evidence_def platform_before_def, simp, blast)
  next
    assume n: "?prov \<noteq> []"
    show "yields cl w0 (do {
          d \<leftarrow> collectCSIDriver cl (ec_driver ec) (ec_daemonsets ec) cli ?prov;
          State_Monad.return (p3\<lparr>pf_CSIDriver := fst d,
            pf_Facts := pf_Facts p3 @ facts (snd d) [(''csi_driver_version'', csi_Version (fst d))]\<rparr>)
        }) (platform_evidence cl ec cli sc w0)"
    proof (rule yields_bind[OF yields_driver], rule yields_return)
      fix d :: "csi_driver_info \<times> string"
      assume d: "csi_Name (fst d) = ?prov \<and> sourced cl ec cli w0 ?prov (csi_Version (fst d)) (snd d)"
      let ?p = "p3\<lparr>pf_CSIDriver := fst d, pf_Facts := pf_Facts p3 @ facts (snd d) [(''csi_driver_version'', csi_Version (fst d))]\<rparr>"
      have "driver_version cl ec cli w0 ?p" using d by (auto simp: driver_version_def facts_def Let_def)
      moreover have "classes_recorded sc ?items ?p" using d k(1,2) n by (simp add: classes_recorded_def)
      moreover have "distinct (map op_Name (pf_Operators ?p))" "\<forall>op \<in> set (pf_Operators ?p). recorded_operator cl ec cli w0 op"
        using b k(3) by (simp_all add: platform_before_def)
      ultimately show "platform_evidence cl ec cli sc w0 ?p" using s unfolding platform_evidence_def by blast
    qed
  qed
qed

lemma driver_version_fixed: "driver_version cl ec cli w0 p \<Longrightarrow> to_lower (csi_Version (pf_CSIDriver p)) \<notin> set floatingTags"
proof -
  let ?v = "csi_Version (pf_CSIDriver p)"
  assume d: "driver_version cl ec cli w0 p"
  have "usableVersion x = ?v \<Longrightarrow> ?v \<noteq> [] \<Longrightarrow> to_lower ?v \<notin> set floatingTags" for x by (rule usable_not_floating)
  moreover have "imageTag x = ?v \<Longrightarrow> ?v \<noteq> [] \<Longrightarrow> \<exists>y. usableVersion y = ?v" for x
    by (auto simp: imageTag_def Let_def split: option.splits if_splits)
  moreover have "to_lower [] \<notin> set floatingTags" by (simp add: to_lower_def floatingTags_def)
  ultimately show ?thesis using d
    unfolding driver_version_def Let_def sourced_def label_evidence_def image_evidence_def version_label_def image_version_def by metis
qed

theorem environment_evidence:
  assumes "run_state (CollectEnvironment cl ec cli sc) w0 = (env, w1)"
  shows "platform_evidence cl ec cli sc w0 (env_Platform env) \<and> to_lower (csi_Version (pf_CSIDriver (env_Platform env))) \<notin> set floatingTags"
proof -
  have hw: "yields cl w0 (collectHardware cl (ec_nodes ec) cli) (\<lambda>_. True)"
    unfolding collectHardware_def by (rule yields_bind[OF yields_runJSON], rule yields_return, rule TrueI)
  have "yields cl w0 (CollectEnvironment cl ec cli sc) (\<lambda>env. platform_evidence cl ec cli sc w0 (env_Platform env))"
    unfolding CollectEnvironment_def
    by (rule yields_bind[OF hw], rule yields_bind[OF yields_platform], rule yields_return) simp
  from yields_start[OF this assms] have "platform_evidence cl ec cli sc w0 (env_Platform env)" by blast
  then show ?thesis using driver_version_fixed[of cl ec cli w0 "env_Platform env"] by (simp add: platform_evidence_def)
qed

text \<open>A cluster with one node plug-in next to a sidecar; the label of the driver object is a floating tag.\<close>

definition plugin_set :: "csi_container list" where
  "plugin_set =
     [\<lparr> ct_Name = ''node-driver-registrar'', ct_Image = ''r:5/sig-storage/reg:v9'', ct_Args = [''--path=/plugins/csi.acme.com/csi.sock''], ct_Command = [], ct_Env = [] \<rparr>,
      \<lparr> ct_Name = ''acme'', ct_Image = ''quay.io:443/acme/node:1.2@sha256:0'', ct_Args = [], ct_Command = [], ct_Env = [] \<rparr>]"

text \<open>The class under test, one marked as default and one that is neither.\<close>

definition acme_class :: "string \<Rightarrow> (string, string) gomap \<Rightarrow> string \<Rightarrow> storage_class_item" where
  "acme_class name annotations provisioner = \<lparr> st_Name = name, st_Annotations = annotations, st_Provisioner = provisioner,
     st_ReclaimPolicy = ''Delete'', st_VolumeBindingMode = ''Immediate'', st_Parameters = [] \<rparr>"

definition acme_classes :: "storage_class_item list" where
  "acme_classes = [acme_class ''gold'' [] ''csi.acme.com'', acme_class ''slow'' [] ''csi.acme.com'',
     acme_class ''std'' [(''storageclass.kubernetes.io/is-default-class'', ''true'')] ''csi.other.com'']"

definition acme_codec :: env_codec where
  "acme_codec =
     \<lparr> ec_nodes = (\<lambda>_. ([], Some ''none'')), ec_version = (\<lambda>_. (''v1.30'', None)), ec_csvs = (\<lambda>_. ([], None)),
       ec_classes = (\<lambda>_. (acme_classes, None)),
       ec_driver = (\<lambda>_. (zero_driver_object\<lparr>cd_Labels := [(''acme_version'', ''latest'')]\<rparr>, None)), ec_daemonsets = (\<lambda>_. ([plugin_set], None)) \<rparr>"

definition acme_cluster :: "unit cluster" where
  "acme_cluster = \<lparr> cl_LookPath = Inr, cl_Exec = (\<lambda>_ _ _. State_Monad.return \<lparr> cr_Stdout = ''{}'', cr_Stderr = [], cr_Combined = ''{}'', cr_Error = None \<rparr>) \<rparr>"

theorem environment_evidence_witness:
  "\<exists>env :: environment. platform_evidence acme_cluster acme_codec ''oc'' ''gold'' () (env_Platform env) \<and>
     map sci_Name (pf_StorageClasses (env_Platform env)) = [''gold'', ''std''] \<and> csi_Version (pf_CSIDriver (env_Platform env)) = ''1.2''"
proof -
  obtain env where e: "run_state (CollectEnvironment acme_cluster acme_codec ''oc'' ''gold'') () = (env, ())" by (metis (full_types) surj_pair old.unit.exhaust)
  have l: "versionFromLabels [(''acme_version'', ''latest'')] ''csi.acme.com'' = []" by code_simp
  have d: "daemonset_version ''csi.acme.com'' [plugin_set] = ''1.2''" by code_simp
  have j: "run_state (runJSON acme_cluster cli v decode args) () = (decode ''{}'', ())" for cli v args and decode :: "string \<Rightarrow> 'z \<times> string option"
    by (simp add: runJSON_def cli_output_def acme_cluster_def)
  have c: "ec_classes acme_codec x = (acme_classes, None)" "ec_driver acme_codec x = (zero_driver_object\<lparr>cd_Labels := [(''acme_version'', ''latest'')]\<rparr>, None)"
    "ec_daemonsets acme_codec x = ([plugin_set], None)" for x
    by (simp_all add: acme_codec_def)
  have t: "run_state (runText acme_cluster cli args) () = (''{}'', ())" for cli args
    by (simp add: runText_def cli_output_def acme_cluster_def)
  obtain inf src where k: "run_state (collectCSIDriver acme_cluster (ec_driver acme_codec) (ec_daemonsets acme_codec) ''oc'' ''csi.acme.com'') () =
      ((inf\<lparr>csi_Version := ''1.2''\<rparr>, src), ())"
    using l d by (simp add: collectCSIDriver_def versionFromDaemonSet_def j c Let_def)
  have f: "last_provisioner (\<lambda>s. st_Name s = ''gold'') acme_classes = ''csi.acme.com''"
    "map (sci_Name \<circ> class_record ''gold'') (filter (\<lambda>s. marked_item s \<or> st_Name s = ''gold'') acme_classes) = [''gold'', ''std'']"
    by code_simp+
  have cl: "\<exists>d q. add_classes ''gold'' (acme_classes, None) p = (d, ''csi.acme.com'', q) \<and> map sci_Name (pf_StorageClasses q) = [''gold'', ''std'']"
    if "pf_StorageClasses p = []" for p
    using f that by (simp add: add_classes_def class_fold)
  define p1 where "p1 = (if snd (ec_version acme_codec ''{}'') = None
    then (zero_platform\<lparr>pf_OCPVersion := trim_space ''{}''\<rparr>)\<lparr>pf_KubeVersion := fst (ec_version acme_codec ''{}'')\<rparr>
    else zero_platform\<lparr>pf_OCPVersion := trim_space ''{}''\<rparr>)"
  have "pf_StorageClasses (add_operators (ec_csvs acme_codec ''{}'') p1) = []"
    by (auto simp: add_operators_def p1_def zero_platform_def split: prod.split)
  from cl[OF this] obtain dd q where q: "add_classes ''gold'' (acme_classes, None) (add_operators (ec_csvs acme_codec ''{}'') p1) = (dd, ''csi.acme.com'', q)"
    "map sci_Name (pf_StorageClasses q) = [''gold'', ''std'']" by (elim exE conjE)
  obtain p2 where p2: "run_state (collectPlatform acme_cluster acme_codec ''oc'' ''gold'') () = (p2, ())" "csi_Version (pf_CSIDriver p2) = ''1.2''"
    "map sci_Name (pf_StorageClasses p2) = [''gold'', ''std'']"
    using q by (simp add: collectPlatform_def Let_def j t c(1) p1_def[symmetric] k)
  then have "csi_Version (pf_CSIDriver (env_Platform env)) = ''1.2''" "map sci_Name (pf_StorageClasses (env_Platform env)) = [''gold'', ''std'']"
    using e by (auto simp: CollectEnvironment_def split: prod.splits)
  with environment_evidence[OF e] show ?thesis by (intro exI[of _ env]) simp
qed

end
