(* ===== verification/Safe_Files.thy ===== *)
theory Safe_Files
  imports Go_Path Core_Types "HOL-Library.State_Monad" "HOL-Library.Word"
begin

text \<open>
  \<open>internal/safefs\<close> and \<open>internal/artifacts\<close>: file access that is confined to opened directories
  (\<open>os.Root\<close>). Every call to the operating system is an operation of the host, with its answer;
  handles are numbers that the host hands out. What a deferred call answers is ignored, as in the code.
\<close>

section \<open>The host\<close>

type_synonym file_mode = "32 word"

datatype fs_op =
    Stat_path string
  | Open_root string
  | Root_mkdir nat string file_mode
  | Root_stat nat string
  | Root_read nat string
  | Root_write nat string string file_mode
  | Root_create nat string file_mode
  | Root_rename nat string string
  | Root_remove nat string
  | Close_root nat
  | File_write nat string
  | File_sync nat
  | File_close nat

record fs_answer =
  fa_Error :: "string option"
  fa_Handle :: nat
  fa_Data :: string

record 'w file_host =
  fh_Do :: "fs_op \<Rightarrow> ('w, fs_answer) state"
  fh_Getwd :: "string + string"
  fh_Pid :: nat
  fh_Now :: "'w \<Rightarrow> nat"

definition fs_error :: "'w file_host \<Rightarrow> fs_op \<Rightarrow> ('w, string option) state" where
  "fs_error h op = do { a \<leftarrow> fh_Do h op; State_Monad.return (fa_Error a) }"

definition fs_handle :: "'w file_host \<Rightarrow> fs_op \<Rightarrow> ('w, string + nat) state" where
  "fs_handle h op = do { a \<leftarrow> fh_Do h op; State_Monad.return (case fa_Error a of Some err \<Rightarrow> Inl err | None \<Rightarrow> Inr (fa_Handle a)) }"

definition fs_data :: "'w file_host \<Rightarrow> fs_op \<Rightarrow> ('w, string + string) state" where
  "fs_data h op = do { a \<leftarrow> fh_Do h op; State_Monad.return (case fa_Error a of Some err \<Rightarrow> Inl err | None \<Rightarrow> Inr (fa_Data a)) }"

definition resolve_abs :: "'w file_host \<Rightarrow> string \<Rightarrow> string \<Rightarrow> string + string" where
  "resolve_abs h what p =
     (if path_is_abs p then Inr (path_clean p)
      else case fh_Getwd h of Inl err \<Rightarrow> Inl (''resolve '' @ what @ '': '' @ err) | Inr wd \<Rightarrow> Inr (path_join [wd, p]))"

text \<open>A body that runs with an opened directory, which is closed afterwards.\<close>

definition with_root :: "'w file_host \<Rightarrow> string \<Rightarrow> string \<Rightarrow> (nat \<Rightarrow> ('w, string + 'a) state) \<Rightarrow> ('w, string + 'a) state" where
  "with_root h dir failed body = do {
     r \<leftarrow> fs_handle h (Open_root dir);
     case r of
       Inl err \<Rightarrow> State_Monad.return (Inl (failed @ '': '' @ err))
     | Inr dirh \<Rightarrow> do { x \<leftarrow> body dirh; a \<leftarrow> fh_Do h (Close_root dirh); State_Monad.return x }
   }"

definition done_or :: "string \<Rightarrow> string option \<Rightarrow> string + unit" where
  "done_or failed e = (case e of None \<Rightarrow> Inr () | Some err \<Rightarrow> Inl (failed @ err))"

section \<open>Directories\<close>

text \<open>If the file is world-readable (\<open>004\<close>), its parents get \<open>0755\<close>, otherwise \<open>0750\<close>.\<close>

definition dirPerm :: "file_mode \<Rightarrow> file_mode" where
  "dirPerm filePerm = (if bit filePerm 2 then 493 else 488)"

text \<open>
  \<open>MkdirAll\<close> on the reversed components of an absolute clean path: the parent is the path without its
  last component, and resolving it again changes nothing (lemma \<open>level_paths\<close>).
\<close>

definition level_path :: "string list \<Rightarrow> string" where
  "level_path up = path_of True (rev up)"

fun mkdir_levels :: "'w file_host \<Rightarrow> file_mode \<Rightarrow> string list \<Rightarrow> ('w, string + unit) state" where
  "mkdir_levels h perm [] = State_Monad.return (Inr ())"
| "mkdir_levels h perm (name # up) = do {
     s \<leftarrow> fs_error h (Stat_path (level_path (name # up)));
     if s = None then State_Monad.return (Inr ())
     else do {
       p \<leftarrow> mkdir_levels h perm up;
       case p of
         Inl err \<Rightarrow> State_Monad.return (Inl err)
       | Inr _ \<Rightarrow> with_root h (level_path up) (''open parent '' @ go_quote (level_path up)) (\<lambda>dirh. do {
           e \<leftarrow> fs_error h (Root_mkdir dirh name perm);
           case e of
             None \<Rightarrow> State_Monad.return (Inr ())
           | Some err \<Rightarrow> do {
               t \<leftarrow> fs_error h (Root_stat dirh name);
               State_Monad.return (if t = None then Inr ()
                 else Inl (''mkdir '' @ go_quote name @ '' under '' @ go_quote (level_path up) @ '': '' @ err))
             }
         })
     }
   }"

definition MkdirAll :: "'w file_host \<Rightarrow> string \<Rightarrow> file_mode \<Rightarrow> ('w, string + unit) state" where
  "MkdirAll h dir perm =
     (case resolve_abs h ''directory'' dir of
        Inl err \<Rightarrow> State_Monad.return (Inl err)
      | Inr full \<Rightarrow> mkdir_levels h perm (rev (path_comps full)))"

definition OpenRootDir :: "'w file_host \<Rightarrow> string \<Rightarrow> file_mode \<Rightarrow> ('w, string + nat) state" where
  "OpenRootDir h dir perm = do {
     m \<leftarrow> MkdirAll h dir perm;
     case m of
       Inl err \<Rightarrow> State_Monad.return (Inl err)
     | Inr _ \<Rightarrow> (case resolve_abs h ''directory'' dir of
           Inl err \<Rightarrow> State_Monad.return (Inl err)
         | Inr full \<Rightarrow> fs_handle h (Open_root full))
   }"

text \<open>Each component inside a root; an existing directory is tolerated.\<close>

fun mkdir_parts :: "'w file_host \<Rightarrow> nat \<Rightarrow> file_mode \<Rightarrow> string \<Rightarrow> string list \<Rightarrow> ('w, string + unit) state" where
  "mkdir_parts h dirh perm here [] = State_Monad.return (Inr ())"
| "mkdir_parts h dirh perm here (part # parts) =
     (if part = [] \<or> part = ''.'' then mkdir_parts h dirh perm here parts
      else (let further = (if here \<noteq> [] then here @ ''/'' @ part else part) in do {
        e \<leftarrow> fs_error h (Root_mkdir dirh further perm);
        case e of
          None \<Rightarrow> mkdir_parts h dirh perm further parts
        | Some err \<Rightarrow> do {
            t \<leftarrow> fs_error h (Root_stat dirh further);
            if t \<noteq> None then State_Monad.return (Inl (''mkdir '' @ go_quote further @ '': '' @ err))
            else mkdir_parts h dirh perm further parts
          }
      }))"

definition mkdirUnder :: "'w file_host \<Rightarrow> nat \<Rightarrow> string \<Rightarrow> file_mode \<Rightarrow> ('w, string + unit) state" where
  "mkdirUnder h dirh rel perm = mkdir_parts h dirh perm [] (split_on SLASH rel)"

section \<open>Reading\<close>

definition ReadRelative :: "'w file_host \<Rightarrow> string \<Rightarrow> string \<Rightarrow> ('w, string + string) state" where
  "ReadRelative h rootDir name =
     (case resolve_abs h ''root'' rootDir of
        Inl err \<Rightarrow> State_Monad.return (Inl err)
      | Inr absRoot \<Rightarrow> with_root h absRoot (''open root '' @ go_quote rootDir) (\<lambda>dirh. fs_data h (Root_read dirh name)))"

definition ReadFile :: "'w file_host \<Rightarrow> string \<Rightarrow> ('w, string + string) state" where
  "ReadFile h path =
     (case resolve_abs h ''path'' path of
        Inl err \<Rightarrow> State_Monad.return (Inl err)
      | Inr full \<Rightarrow> with_root h (path_dir full) (''open parent of '' @ go_quote path) (\<lambda>dirh. fs_data h (Root_read dirh (path_base full))))"

definition escapes :: "string \<Rightarrow> bool" where
  "escapes rel = (rel = ''..'' \<or> has_prefix rel ''../'')"

definition relUnder :: "'w file_host \<Rightarrow> string \<Rightarrow> string \<Rightarrow> string + string" where
  "relUnder h rootDir filePath =
     (case resolve_abs h ''root'' rootDir of
        Inl err \<Rightarrow> Inl err
      | Inr absRoot \<Rightarrow>
          (case resolve_abs h ''path'' filePath of
             Inl err \<Rightarrow> Inl err
           | Inr absFile \<Rightarrow>
               (case path_rel absRoot absFile of
                  None \<Rightarrow> Inl (''rel path: Rel: can't make '' @ absFile @ '' relative to '' @ absRoot)
                | Some rel \<Rightarrow>
                    if escapes rel then Inl (''path '' @ go_quote filePath @ '' escapes root '' @ go_quote rootDir) else Inr rel)))"

definition ReadUnder :: "'w file_host \<Rightarrow> string \<Rightarrow> string \<Rightarrow> ('w, string + string) state" where
  "ReadUnder h rootDir filePath =
     (case relUnder h rootDir filePath of
        Inl err \<Rightarrow> State_Monad.return (Inl err)
      | Inr rel \<Rightarrow>
          (case resolve_abs h ''root'' rootDir of
             Inl err \<Rightarrow> State_Monad.return (Inl err)
           | Inr absRoot \<Rightarrow> with_root h absRoot (''open root '' @ go_quote rootDir) (\<lambda>dirh. fs_data h (Root_read dirh rel))))"

section \<open>Writing\<close>

text \<open>The start of both writers: the parent directories, and a body in the parent.\<close>

definition in_parent :: "'w file_host \<Rightarrow> string \<Rightarrow> file_mode \<Rightarrow> (nat \<Rightarrow> string \<Rightarrow> ('w, string + unit) state) \<Rightarrow> ('w, string + unit) state" where
  "in_parent h path perm body =
     (case resolve_abs h ''path'' path of
        Inl err \<Rightarrow> State_Monad.return (Inl err)
      | Inr full \<Rightarrow> do {
          m \<leftarrow> MkdirAll h (path_dir full) (dirPerm perm);
          case m of
            Inl err \<Rightarrow> State_Monad.return (Inl err)
          | Inr _ \<Rightarrow> with_root h (path_dir full) (''open parent of '' @ go_quote path) (\<lambda>dirh. body dirh (path_base full))
        })"

definition root_write :: "'w file_host \<Rightarrow> nat \<Rightarrow> string \<Rightarrow> string \<Rightarrow> file_mode \<Rightarrow> ('w, string + unit) state" where
  "root_write h dirh name data perm = do { e \<leftarrow> fs_error h (Root_write dirh name data perm); State_Monad.return (done_or [] e) }"

definition safe_WriteFile :: "'w file_host \<Rightarrow> string \<Rightarrow> string \<Rightarrow> file_mode \<Rightarrow> ('w, string + unit) state" where
  "safe_WriteFile h path data perm = in_parent h path perm (\<lambda>dirh base. root_write h dirh base data perm)"

definition temp_name :: "string \<Rightarrow> nat \<Rightarrow> nat \<Rightarrow> string" where
  "temp_name base pid now = ''.'' @ base @ ''.tmp-'' @ show_nat pid @ ''-'' @ show_nat now"

text \<open>The steps on the open temporary file, which stop at the first error.\<close>

fun file_steps :: "'w file_host \<Rightarrow> (fs_op \<times> string) list \<Rightarrow> ('w, string + unit) state" where
  "file_steps h [] = State_Monad.return (Inr ())"
| "file_steps h ((op, failed) # steps) = do {
     e \<leftarrow> fs_error h op;
     case e of Some err \<Rightarrow> State_Monad.return (Inl (failed @ '': '' @ err)) | None \<Rightarrow> file_steps h steps
   }"

definition replace_file :: "'w file_host \<Rightarrow> string \<Rightarrow> string \<Rightarrow> file_mode \<Rightarrow> nat \<Rightarrow> string \<Rightarrow> ('w, string + unit) state" where
  "replace_file h path data perm dirh base = do {
     now \<leftarrow> State_Monad.bind State_Monad.get (\<lambda>w. State_Monad.return (fh_Now h w));
     let tmp = temp_name base (fh_Pid h) now;
     c \<leftarrow> fs_handle h (Root_create dirh tmp perm);
     case c of
       Inl err \<Rightarrow> State_Monad.return (Inl (''create temporary file for '' @ go_quote path @ '': '' @ err))
     | Inr file \<Rightarrow> do {
         r \<leftarrow> file_steps h
           [(File_write file data, ''write temporary file for '' @ go_quote path),
            (File_sync file, ''sync temporary file for '' @ go_quote path),
            (File_close file, ''close temporary file for '' @ go_quote path),
            (Root_rename dirh tmp base, ''replace '' @ go_quote path)];
         a \<leftarrow> fh_Do h (File_close file);
         case r of
           Inl err \<Rightarrow> do { b \<leftarrow> fh_Do h (Root_remove dirh tmp); State_Monad.return (Inl err) }
         | Inr u \<Rightarrow> State_Monad.return (Inr u)
       }
   }"

definition WriteFileAtomic :: "'w file_host \<Rightarrow> string \<Rightarrow> string \<Rightarrow> file_mode \<Rightarrow> ('w, string + unit) state" where
  "WriteFileAtomic h path data perm = in_parent h path perm (replace_file h path data perm)"

text \<open>The writers over a function that renders into memory: here its result.\<close>

definition WriteWriter :: "'w file_host \<Rightarrow> string \<Rightarrow> file_mode \<Rightarrow> string + string \<Rightarrow> ('w, string + unit) state" where
  "WriteWriter h path perm rendered = (case rendered of Inl err \<Rightarrow> State_Monad.return (Inl err) | Inr data \<Rightarrow> safe_WriteFile h path data perm)"

definition WriteWriterAtomic :: "'w file_host \<Rightarrow> string \<Rightarrow> file_mode \<Rightarrow> string + string \<Rightarrow> ('w, string + unit) state" where
  "WriteWriterAtomic h path perm rendered = (case rendered of Inl err \<Rightarrow> State_Monad.return (Inl err) | Inr data \<Rightarrow> WriteFileAtomic h path data perm)"

definition WriteUnder :: "'w file_host \<Rightarrow> string \<Rightarrow> string \<Rightarrow> string \<Rightarrow> file_mode \<Rightarrow> ('w, string + unit) state" where
  "WriteUnder h rootDir relPath data perm =
     (case resolve_abs h ''root'' rootDir of
        Inl err \<Rightarrow> State_Monad.return (Inl err)
      | Inr absRoot \<Rightarrow>
          (let clean = path_clean relPath; dir = path_dir clean in
           if escapes clean then State_Monad.return (Inl (''path '' @ go_quote relPath @ '' escapes root '' @ go_quote rootDir))
           else with_root h absRoot (''open root '' @ go_quote rootDir) (\<lambda>dirh. do {
             m \<leftarrow> (if dir \<noteq> ''.'' then mkdirUnder h dirh dir (dirPerm perm) else State_Monad.return (Inr ()));
             case m of Inl err \<Rightarrow> State_Monad.return (Inl err) | Inr _ \<Rightarrow> root_write h dirh clean data perm
           })))"

text \<open>\<open>FSStore.Put\<close> of \<open>internal/artifacts\<close>; the mode is \<open>0600\<close>.\<close>

definition FSStore_Put :: "'w file_host \<Rightarrow> string \<Rightarrow> string \<Rightarrow> string \<Rightarrow> ('w, string + string) state" where
  "FSStore_Put h base name data =
     (let p = path_join [base, name] in do {
        r \<leftarrow> safe_WriteFile h p data 384;
        State_Monad.return (map_sum id (\<lambda>_. p) r)
      })"


section \<open>Paths\<close>

lemma path_comps_of: "\<forall>c \<in> set cs. plain_comp c \<Longrightarrow> path_comps (path_of True cs) = cs"
  by (simp add: path_of_def path_comps_abs_plain)

lemma join_snoc: "cs \<noteq> [] \<Longrightarrow> join_with sep (cs @ [c]) = join_with sep cs @ sep @ c"
proof (induction cs)
  case (Cons d ds)
  then show ?case by (cases ds) simp_all
qed simp

lemma path_of_snoc: "path_of True (cs @ [name]) = path_of True cs @ (if cs = [] then [] else [SLASH]) @ name"
  by (simp add: path_of_def join_snoc)

lemma drop_last_comp: "SLASH \<notin> set name \<Longrightarrow> rev (dropWhile (\<lambda>c. c \<noteq> SLASH) (rev (d @ SLASH # name))) = d @ [SLASH]"
proof -
  assume "SLASH \<notin> set name"
  then have "dropWhile (\<lambda>c. c \<noteq> SLASH) (rev name @ SLASH # rev d) = SLASH # rev d"
    by (subst dropWhile_append2) auto
  then show ?thesis by simp
qed

lemma take_last_comp: "SLASH \<notin> set name \<Longrightarrow> rev (takeWhile (\<lambda>c. c \<noteq> SLASH) (rev (d @ SLASH # name))) = name"
proof -
  assume "SLASH \<notin> set name"
  then have "takeWhile (\<lambda>c. c \<noteq> SLASH) (rev name @ SLASH # rev d) = rev name"
    by (subst takeWhile_append2) auto
  then show ?thesis by simp
qed

lemma path_of_snoc_slash: "\<exists>d. path_of True (cs @ [name]) = d @ SLASH # name \<and> d @ [SLASH] = path_of True cs @ (if cs = [] then [] else [SLASH])"
  by (cases "cs = []") (auto simp: path_of_def join_snoc)

lemma path_comps_trailing: "path_is_abs p \<Longrightarrow> path_comps (p @ [SLASH]) = path_comps p"
proof -
  assume a: "path_is_abs p"
  then have "p \<noteq> []" by (auto simp: path_is_abs_def)
  moreover have "split_on SLASH (p @ [SLASH]) = split_on SLASH p @ [[]]" using split_on_concat[of SLASH p "[]"] by simp
  ultimately show ?thesis by (simp add: path_comps_def)
qed

text \<open>
  The parent and the name of a level, and resolving the parent again: this is why the recursion of
  \<open>MkdirAll\<close> runs over the components.
\<close>

lemma level_paths:
  assumes "\<forall>c \<in> set (name # up). plain_comp c"
  shows "path_dir (level_path (name # up)) = level_path up" "path_base (level_path (name # up)) = name"
    "resolve_abs h what (level_path up) = Inr (level_path up)"
proof -
  let ?cs = "rev up"
  have n: "SLASH \<notin> set name" "name \<noteq> []" "\<forall>c \<in> set ?cs. plain_comp c" using assms by (auto simp: plain_comp_def)
  obtain d where d: "path_of True (?cs @ [name]) = d @ SLASH # name" "d @ [SLASH] = path_of True ?cs @ (if ?cs = [] then [] else [SLASH])"
    using path_of_snoc_slash by blast
  have abs: "path_is_abs (path_of True ?cs)" by (simp add: path_of_def path_is_abs_def)
  have "path_comps (d @ [SLASH]) = ?cs" using path_comps_of[OF n(3)] path_comps_trailing[OF abs] unfolding d(2) by (cases "?cs = []") auto
  moreover have "path_is_abs (d @ [SLASH])" using abs by (auto simp: d(2) path_is_abs_def)
  ultimately have "path_clean (d @ [SLASH]) = path_of True ?cs" by (simp add: path_clean_def)
  then show "path_dir (level_path (name # up)) = level_path up"
    by (simp add: level_path_def path_dir_def d(1) drop_last_comp[OF n(1)] del: rev_append)
  have "last name \<noteq> SLASH" using n(1,2) by (metis last_in_set)
  then have "trim_right [SLASH] (d @ SLASH # name) = d @ SLASH # name"
    using n(2) by (cases name rule: rev_cases) (simp_all add: trim_right_def)
  then show "path_base (level_path (name # up)) = name"
    by (simp add: level_path_def path_base_def d(1) take_last_comp[OF n(1)] Let_def del: rev_append)
  show "resolve_abs h what (level_path up) = Inr (level_path up)"
    using abs path_comps_of[OF n(3)] by (simp add: resolve_abs_def level_path_def path_clean_def)
qed

lemma resolve_abs_abs:
  assumes "\<And>wd. fh_Getwd h = Inr wd \<Longrightarrow> path_is_abs wd" and "resolve_abs h what p = Inr full"
  shows "path_is_abs full \<and> path_clean full = full"
proof (cases "path_is_abs p")
  case True
  then show ?thesis using assms(2) by (auto simp: resolve_abs_def path_is_abs_clean path_clean_idem)
next
  case False
  then obtain wd where wd: "fh_Getwd h = Inr wd" "full = path_join [wd, p]" using assms(2) by (auto simp: resolve_abs_def split: sum.splits)
  then have "path_is_abs wd" using assms(1) by blast
  then have "wd \<noteq> []" "path_is_abs (wd @ SLASH # p)" by (auto simp: path_is_abs_def)
  with wd(2) show ?thesis by (simp add: path_join_def path_is_abs_clean path_clean_idem)
qed

section \<open>Confinement\<close>

lemma strip_common_prefix: "strip_common bs (bs @ ts) = ([], ts)"
  by (induction bs) auto

lemma escapes_join: "escapes (join_with [SLASH] (''..'' # ws))"
  by (cases ws) (auto simp: escapes_def has_prefix_def SLASH_def)

lemma escapes_first: "escapes s \<Longrightarrow> hd (split_on SLASH s) = ''..''"
proof -
  assume e: "escapes s"
  have n: "SLASH \<notin> set ''..''" by (simp add: SLASH_def)
  from e consider "s = ''..''" | t where "s = ''..'' @ SLASH # t"
    unfolding escapes_def has_prefix_def SLASH_def by (metis append_take_drop_id append.assoc append_Cons append_Nil)
  then show ?thesis by cases (simp_all only: split_on_none[OF n] split_on_append[OF n] list.sel)
qed

lemma plain_not_escapes: "\<forall>c \<in> set ts. plain_comp c \<Longrightarrow> \<not> escapes (join_with [SLASH] ts)"
proof
  assume p: "\<forall>c \<in> set ts. plain_comp c" and e: "escapes (join_with [SLASH] ts)"
  show False
  proof (cases "ts = []")
    case True
    with e show False by (simp add: escapes_def has_prefix_def)
  next
    case False
    then have "split_on SLASH (join_with [SLASH] ts) = ts" using p by (intro split_on_join) (auto simp: plain_comp_def)
    with escapes_first[OF e] p False show False by (cases ts) (auto simp: plain_comp_def)
  qed
qed

text \<open>
  C28: a file is accepted below a root exactly when its path is the root itself or continues it, and the
  relative path that is then opened is that continuation.
\<close>

theorem relUnder_iff:
  assumes "\<And>wd. fh_Getwd h = Inr wd \<Longrightarrow> path_is_abs wd"
    and "resolve_abs h ''root'' rootDir = Inr absRoot" and "resolve_abs h ''path'' filePath = Inr absFile"
  shows "relUnder h rootDir filePath = Inr rel \<longleftrightarrow>
    (\<exists>below. path_comps absFile = path_comps absRoot @ below \<and> rel = (if below = [] then ''.'' else join_with [SLASH] below))"
proof -
  from resolve_abs_abs[OF assms(1,2)] resolve_abs_abs[OF assms(1,3)]
  have r: "path_is_abs absRoot" "path_clean absRoot = absRoot" and f: "path_is_abs absFile" "path_clean absFile = absFile" by blast+
  have plain: "c \<in> set (path_comps absFile) \<Longrightarrow> plain_comp c" for c using path_comps_rooted[OF f(1)] .
  have u: "relUnder h rootDir filePath = Inr rel \<longleftrightarrow> path_rel absRoot absFile = Some rel \<and> \<not> escapes rel"
    by (auto simp: relUnder_def assms(2,3) split: option.splits)
  have same: "absRoot = absFile \<longleftrightarrow> path_comps absRoot = path_comps absFile"
    using path_clean_abs[OF r(1)] path_clean_abs[OF f(1)] r(2) f(2) by metis
  show ?thesis
  proof
    assume "relUnder h rootDir filePath = Inr rel"
    then have pr: "path_rel absRoot absFile = Some rel" "\<not> escapes rel" using u by auto
    show "\<exists>below. path_comps absFile = path_comps absRoot @ below \<and> rel = (if below = [] then ''.'' else join_with [SLASH] below)"
    proof (cases "absRoot = absFile")
      case True
      then show ?thesis using pr by (simp add: path_rel_def)
    next
      case False
      obtain bs ts where st: "strip_common (path_comps absRoot) (path_comps absFile) = (bs, ts)" by fastforce
      then obtain c where c: "path_comps absRoot = c @ bs" "path_comps absFile = c @ ts" using strip_common_split by blast
      have rel: "rel = join_with [SLASH] (replicate (length bs) ''..'' @ ts)"
        using pr(1) False r f st by (auto simp: path_rel_def split: if_splits)
      have "bs = []" using pr(2) escapes_join unfolding rel by (cases bs) auto
      moreover have "ts \<noteq> []" using False same c calculation by auto
      ultimately show ?thesis using c rel by auto
    qed
  next
    assume "\<exists>below. path_comps absFile = path_comps absRoot @ below \<and> rel = (if below = [] then ''.'' else join_with [SLASH] below)"
    then obtain below where b: "path_comps absFile = path_comps absRoot @ below" "rel = (if below = [] then ''.'' else join_with [SLASH] below)" by blast
    have "\<not> escapes ''.''" by (simp add: escapes_def has_prefix_def)
    moreover have "\<not> escapes (join_with [SLASH] below)" using plain b(1) by (intro plain_not_escapes) simp
    ultimately have "\<not> escapes rel" using b(2) by simp
    moreover have "path_rel absRoot absFile = Some rel"
      using b same r f by (auto simp: path_rel_def strip_common_prefix)
    ultimately show "relUnder h rootDir filePath = Inr rel" using u by blast
  qed
qed

definition idle_host :: "unit file_host" where
  "idle_host = \<lparr> fh_Do = (\<lambda>_. State_Monad.return \<lparr> fa_Error = None, fa_Handle = 3, fa_Data = ''data'' \<rparr>), fh_Getwd = Inr ''/work'', fh_Pid = 1, fh_Now = (\<lambda>_. 5) \<rparr>"

theorem relUnder_iff_witness:
  "relUnder idle_host ''out'' ''out/run/../a/x.json'' = Inr ''a/x.json'' \<and> (\<forall>rel. relUnder idle_host ''out'' ''out/../secret'' \<noteq> Inr rel)"
proof -
  have wd: "fh_Getwd idle_host = Inr wd \<Longrightarrow> path_is_abs wd" for wd by (auto simp: idle_host_def path_is_abs_def SLASH_def)
  have r: "resolve_abs idle_host ''root'' ''out'' = Inr ''/work/out''" "resolve_abs idle_host ''path'' ''out/run/../a/x.json'' = Inr ''/work/out/a/x.json''"
    "resolve_abs idle_host ''path'' ''out/../secret'' = Inr ''/work/secret''" by code_simp+
  have c: "path_comps ''/work/out'' = [''work'', ''out'']" "path_comps ''/work/out/a/x.json'' = [''work'', ''out'', ''a'', ''x.json'']"
    "path_comps ''/work/secret'' = [''work'', ''secret'']" by code_simp+
  show ?thesis
    using relUnder_iff[OF wd r(1,2)] relUnder_iff[OF wd r(1,3)] by (simp add: c SLASH_def)
qed


section \<open>Traces\<close>

text \<open>A world that records every operation with its answer; what a program adds to the record.\<close>

type_synonym fs_trace = "(fs_op \<times> fs_answer) list"

definition fs_traced :: "'w file_host \<Rightarrow> ('w \<Rightarrow> fs_trace) \<Rightarrow> bool" where
  "fs_traced h trace = (\<forall>op w a w'. run_state (fh_Do h op) w = (a, w') \<longrightarrow> trace w' = trace w @ [(op, a)])"

definition performs :: "('w \<Rightarrow> fs_trace) \<Rightarrow> ('w, 'a) state \<Rightarrow> (fs_trace \<Rightarrow> 'a \<Rightarrow> bool) \<Rightarrow> bool" where
  "performs trace m Q = (\<forall>w x w'. run_state m w = (x, w') \<longrightarrow> (\<exists>new. trace w' = trace w @ new \<and> Q new x))"

lemma performs_return: "Q [] x \<Longrightarrow> performs trace (State_Monad.return x) Q"
  by (simp add: performs_def)

lemma performs_get: "(\<And>w. Q [] w) \<Longrightarrow> performs trace State_Monad.get Q"
  by (simp add: performs_def State_Monad.get_def)

lemma performs_Do: "fs_traced h trace \<Longrightarrow> performs trace (fh_Do h op) (\<lambda>new a. new = [(op, a)])"
  by (auto simp: performs_def fs_traced_def)

lemma performs_bind:
  assumes "performs trace m P" and "\<And>new x. P new x \<Longrightarrow> performs trace (f x) (\<lambda>new' y. Q (new @ new') y)"
  shows "performs trace (State_Monad.bind m f) Q"
  unfolding performs_def
proof (intro allI impI)
  fix w y w'
  assume r: "run_state (State_Monad.bind m f) w = (y, w')"
  obtain x w1 where m: "run_state m w = (x, w1)" by fastforce
  with r have f: "run_state (f x) w1 = (y, w')" by simp
  from assms(1) m obtain new where n: "trace w1 = trace w @ new" "P new x" unfolding performs_def by blast
  from assms(2)[OF n(2)] f obtain new' where "trace w' = trace w1 @ new'" "Q (new @ new') y" unfolding performs_def by blast
  with n(1) show "\<exists>new. trace w' = trace w @ new \<and> Q new y" by (intro exI[of _ "new @ new'"]) simp
qed

lemma performs_weaken: "performs trace m P \<Longrightarrow> (\<And>new x. P new x \<Longrightarrow> Q new x) \<Longrightarrow> performs trace m Q"
  unfolding performs_def by blast

lemma performs_start: "performs trace m Q \<Longrightarrow> run_state m w = (x, w') \<Longrightarrow> \<exists>new. trace w' = trace w @ new \<and> Q new x"
  by (simp add: performs_def)

lemma performs_if: "(b \<Longrightarrow> performs trace m Q) \<Longrightarrow> (\<not> b \<Longrightarrow> performs trace n Q) \<Longrightarrow> performs trace (if b then m else n) Q"
  by simp

lemma performs_sum:
  "(\<And>a. x = Inl a \<Longrightarrow> performs trace (f a) Q) \<Longrightarrow> (\<And>b. x = Inr b \<Longrightarrow> performs trace (g b) Q) \<Longrightarrow>
     performs trace (case x of Inl a \<Rightarrow> f a | Inr b \<Rightarrow> g b) Q"
  by (cases x) simp_all

lemma performs_option:
  "(x = None \<Longrightarrow> performs trace m Q) \<Longrightarrow> (\<And>b. x = Some b \<Longrightarrow> performs trace (g b) Q) \<Longrightarrow>
     performs trace (case x of None \<Rightarrow> m | Some b \<Rightarrow> g b) Q"
  by (cases x) simp_all

lemma performs_error:
  "fs_traced h trace \<Longrightarrow> performs trace (fs_error h op) (\<lambda>new e. \<exists>a. new = [(op, a)] \<and> e = fa_Error a)"
  unfolding fs_error_def by (rule performs_bind[OF performs_Do]) (auto intro!: performs_return)

lemma performs_handle:
  "fs_traced h trace \<Longrightarrow> performs trace (fs_handle h op)
     (\<lambda>new r. \<exists>a. new = [(op, a)] \<and> r = (case fa_Error a of Some err \<Rightarrow> Inl err | None \<Rightarrow> Inr (fa_Handle a)))"
  unfolding fs_handle_def by (rule performs_bind[OF performs_Do]) (auto intro!: performs_return)

text \<open>With an opened directory: either it could not be opened, or the body ran between open and close.\<close>

definition in_root :: "string \<Rightarrow> (nat \<Rightarrow> fs_trace \<Rightarrow> string + 'a \<Rightarrow> bool) \<Rightarrow> fs_trace \<Rightarrow> string + 'a \<Rightarrow> bool" where
  "in_root dir Q new x =
     ((\<exists>a err. new = [(Open_root dir, a)] \<and> fa_Error a \<noteq> None \<and> x = Inl err) \<or>
      (\<exists>a b mid. new = (Open_root dir, a) # mid @ [(Close_root (fa_Handle a), b)] \<and> fa_Error a = None \<and> Q (fa_Handle a) mid x))"

lemma performs_with_root:
  assumes "fs_traced h trace" and "\<And>dirh. performs trace (body dirh) (Q dirh)"
  shows "performs trace (with_root h dir failed body) (in_root dir Q)"
  unfolding with_root_def
proof (rule performs_bind[OF performs_handle[OF assms(1)]])
  fix new :: fs_trace and r
  assume "\<exists>a. new = [(Open_root dir, a)] \<and> r = (case fa_Error a of Some err \<Rightarrow> Inl err | None \<Rightarrow> Inr (fa_Handle a))"
  then obtain a where a: "new = [(Open_root dir, a)]" "r = (case fa_Error a of Some err \<Rightarrow> Inl err | None \<Rightarrow> Inr (fa_Handle a))" by blast
  show "performs trace (case r of Inl err \<Rightarrow> State_Monad.return (Inl (failed @ '': '' @ err))
      | Inr dirh \<Rightarrow> do { x \<leftarrow> body dirh; b \<leftarrow> fh_Do h (Close_root dirh); State_Monad.return x }) (\<lambda>new'. in_root dir Q (new @ new'))"
  proof (cases "fa_Error a")
    case None
    have "performs trace (do { x \<leftarrow> body (fa_Handle a); b \<leftarrow> fh_Do h (Close_root (fa_Handle a)); State_Monad.return x })
        (\<lambda>new' x. in_root dir Q ([(Open_root dir, a)] @ new') x)"
      by (rule performs_bind[OF assms(2)], rule performs_bind[OF performs_Do[OF assms(1)]])
         (auto intro!: performs_return simp: in_root_def None)
    then show ?thesis by (simp add: a None)
  next
    case (Some err)
    then show ?thesis by (auto intro!: performs_return simp: a in_root_def)
  qed
qed

section \<open>Making directories\<close>

definition mkdir_op :: "fs_op \<Rightarrow> bool" where
  "mkdir_op op = (case op of Stat_path _ \<Rightarrow> True | Open_root _ \<Rightarrow> True | Root_mkdir _ _ _ \<Rightarrow> True | Root_stat _ _ \<Rightarrow> True | Close_root _ \<Rightarrow> True | _ \<Rightarrow> False)"

definition only :: "(fs_op \<Rightarrow> bool) \<Rightarrow> fs_trace \<Rightarrow> 'a \<Rightarrow> bool" where
  "only may new x = (\<forall>y \<in> set new. may (fst y))"

lemma only_append [simp]: "only may (a @ b) x \<longleftrightarrow> only may a x \<and> only may b x" "only may [] x" "only may (y # b) x \<longleftrightarrow> may (fst y) \<and> only may b x"
  by (auto simp: only_def)

named_theorems only_rules \<open>which operations a program performs, by its outermost construct\<close>

lemma only_bind [only_rules]:
  "performs trace m (only may) \<Longrightarrow> (\<And>x. performs trace (f x) (only may)) \<Longrightarrow> performs trace (State_Monad.bind m f) (only may)"
  by (rule performs_bind[where P = "only may"], assumption, rule performs_weaken[where P = "only may"]) (auto simp: only_def)

lemma only_return [only_rules]: "performs trace (State_Monad.return x) (only may)"
  by (simp add: performs_return)

lemma only_Do: "fs_traced h trace \<Longrightarrow> may op \<Longrightarrow> performs trace (fh_Do h op) (only may)"
  by (rule performs_weaken[OF performs_Do]) simp_all

lemma only_error: "fs_traced h trace \<Longrightarrow> may op \<Longrightarrow> performs trace (fs_error h op) (only may)"
  unfolding fs_error_def by (intro only_rules only_Do)

lemma only_handle: "fs_traced h trace \<Longrightarrow> may op \<Longrightarrow> performs trace (fs_handle h op) (only may)"
  unfolding fs_handle_def by (intro only_rules only_Do)

lemma only_data: "fs_traced h trace \<Longrightarrow> may op \<Longrightarrow> performs trace (fs_data h op) (only may)"
  unfolding fs_data_def by (intro only_rules only_Do)

lemmas only_cases = performs_if performs_sum performs_option

lemma only_with_root:
  assumes "fs_traced h trace" and "may (Open_root dir)" and "\<And>dirh. may (Close_root dirh)" and "\<And>dirh. performs trace (body dirh) (only may)"
  shows "performs trace (with_root h dir failed body) (only may)"
  unfolding with_root_def by (intro only_rules only_cases only_handle only_Do assms)

lemma performs_mkdir_levels: "fs_traced h trace \<Longrightarrow> performs trace (mkdir_levels h perm up) (only mkdir_op)"
proof (induction up)
  case (Cons name up)
  show ?case unfolding mkdir_levels.simps
    by (intro only_rules only_cases only_error only_with_root Cons) (simp_all add: mkdir_op_def)
qed (simp add: performs_return)

lemma performs_MkdirAll: "fs_traced h trace \<Longrightarrow> performs trace (MkdirAll h dir perm) (only mkdir_op)"
  unfolding MkdirAll_def by (intro only_rules only_cases performs_mkdir_levels)

section \<open>Atomic replacement\<close>

text \<open>The four steps on the temporary file, and what the attempt to replace a file did.\<close>

definition replace_steps :: "nat \<Rightarrow> nat \<Rightarrow> string \<Rightarrow> string \<Rightarrow> string \<Rightarrow> fs_op list" where
  "replace_steps dirh file tmp base data = [File_write file data, File_sync file, File_close file, Root_rename dirh tmp base]"

definition all_ok :: "fs_trace \<Rightarrow> bool" where "all_ok tr = (\<forall>y \<in> set tr. fa_Error (snd y) = None)"

definition stopped :: "fs_op list \<Rightarrow> fs_trace \<Rightarrow> bool" where
  "stopped ops tr = (\<exists>ok op a rest. tr = ok @ [(op, a)] \<and> all_ok ok \<and> fa_Error a \<noteq> None \<and> ops = map fst ok @ op # rest)"

definition replaced :: "nat \<Rightarrow> string \<Rightarrow> file_mode \<Rightarrow> string \<Rightarrow> string \<Rightarrow> fs_trace \<Rightarrow> bool" where
  "replaced dirh tmp perm base data tr =
     (\<exists>c steps a. tr = (Root_create dirh tmp perm, c) # steps @ [(File_close (fa_Handle c), a)] \<and> fa_Error c = None \<and> all_ok steps \<and>
        map fst steps = replace_steps dirh (fa_Handle c) tmp base data)"

definition given_up :: "nat \<Rightarrow> string \<Rightarrow> file_mode \<Rightarrow> string \<Rightarrow> string \<Rightarrow> fs_trace \<Rightarrow> bool" where
  "given_up dirh tmp perm base data tr =
     ((\<exists>c. tr = [(Root_create dirh tmp perm, c)] \<and> fa_Error c \<noteq> None) \<or>
      (\<exists>c steps a b. tr = (Root_create dirh tmp perm, c) # steps @ [(File_close (fa_Handle c), a), (Root_remove dirh tmp, b)] \<and> fa_Error c = None \<and>
         stopped (replace_steps dirh (fa_Handle c) tmp base data) steps))"

lemma stopped_Cons: "stopped (op # ops) ((op, a) # tr) \<longleftrightarrow> (if fa_Error a = None then stopped ops tr else tr = [])"
proof
  assume "stopped (op # ops) ((op, a) # tr)"
  then obtain ok op' a' rest where o: "(op, a) # tr = ok @ [(op', a')]" "all_ok ok" "fa_Error a' \<noteq> None" "op # ops = map fst ok @ op' # rest"
    by (auto simp: stopped_def)
  then show "if fa_Error a = None then stopped ops tr else tr = []"
    by (cases ok) (auto simp: stopped_def all_ok_def)
next
  assume a: "if fa_Error a = None then stopped ops tr else tr = []"
  show "stopped (op # ops) ((op, a) # tr)"
  proof (cases "fa_Error a")
    case None
    with a obtain ok op' a' rest where "tr = ok @ [(op', a')]" "all_ok ok" "fa_Error a' \<noteq> None" "ops = map fst ok @ op' # rest"
      by (auto simp: stopped_def)
    with None show ?thesis unfolding stopped_def by (intro exI[of _ "(op, a) # ok"]) (auto simp: all_ok_def)
  next
    case (Some e)
    with a show ?thesis by (auto simp: stopped_def all_ok_def)
  qed
qed

lemma performs_file_steps:
  assumes "fs_traced h trace"
  shows "performs trace (file_steps h steps)
     (\<lambda>new r. (r = Inr () \<and> all_ok new \<and> map fst new = map fst steps) \<or> (\<not> r = Inr () \<and> stopped (map fst steps) new))"
proof (induction steps)
  case Nil
  show ?case by (simp add: performs_return all_ok_def)
next
  case (Cons step steps)
  obtain op failed where s: "step = (op, failed)" by (cases step)
  show ?case unfolding s file_steps.simps
  proof (rule performs_bind[OF performs_error[OF assms]])
    fix new :: fs_trace and e
    assume "\<exists>a. new = [(op, a)] \<and> e = fa_Error a"
    then obtain a where a: "new = [(op, a)]" "e = fa_Error a" by blast
    show "performs trace (case e of None \<Rightarrow> file_steps h steps | Some err \<Rightarrow> State_Monad.return (Inl (failed @ '': '' @ err)))
        (\<lambda>new' r. (r = Inr () \<and> all_ok (new @ new') \<and> map fst (new @ new') = map fst ((op, failed) # steps)) \<or>
           (\<not> r = Inr () \<and> stopped (map fst ((op, failed) # steps)) (new @ new')))"
    proof (cases e)
      case None
      show ?thesis unfolding None option.case
        by (rule performs_weaken[OF Cons.IH]) (use a None in \<open>auto simp: all_ok_def stopped_Cons\<close>)
    next
      case (Some err)
      show ?thesis unfolding Some option.case by (rule performs_return) (use a Some in \<open>auto simp: stopped_Cons\<close>)
    qed
  qed
qed

lemma performs_replace_file:
  assumes "fs_traced h trace"
  shows "performs trace (replace_file h path data perm dirh base)
    (\<lambda>new r. \<exists>now. let tmp = temp_name base (fh_Pid h) now in
       if r = Inr () then replaced dirh tmp perm base data new else given_up dirh tmp perm base data new)"
  unfolding replace_file_def
proof (rule performs_bind[where P = "\<lambda>new now. new = []"])
  show "performs trace (State_Monad.bind State_Monad.get (\<lambda>w. State_Monad.return (fh_Now h w))) (\<lambda>new now. new = [])"
    by (rule performs_bind[where P = "\<lambda>new w. new = []"]) (simp_all add: performs_get performs_return)
next
  fix new0 :: fs_trace and now
  assume n: "new0 = []"
  define tmp where "tmp = temp_name base (fh_Pid h) now"
  let ?steps = "\<lambda>file. [(File_write file data, ''write temporary file for '' @ go_quote path), (File_sync file, ''sync temporary file for '' @ go_quote path),
            (File_close file, ''close temporary file for '' @ go_quote path), (Root_rename dirh tmp base, ''replace '' @ go_quote path)]"
  let ?Q = "\<lambda>new r. if r = Inr () then replaced dirh tmp perm base data new else given_up dirh tmp perm base data new"
  have "performs trace (do {
      c \<leftarrow> fs_handle h (Root_create dirh tmp perm);
      case c of
        Inl err \<Rightarrow> State_Monad.return (Inl (''create temporary file for '' @ go_quote path @ '': '' @ err))
      | Inr file \<Rightarrow> do {
          r \<leftarrow> file_steps h (?steps file);
          a \<leftarrow> fh_Do h (File_close file);
          case r of
            Inl err \<Rightarrow> do { b \<leftarrow> fh_Do h (Root_remove dirh tmp); State_Monad.return (Inl err) }
          | Inr u \<Rightarrow> State_Monad.return (Inr u)
        }
    }) ?Q"
  proof (rule performs_bind[OF performs_handle[OF assms]])
    fix new :: fs_trace and r
    assume "\<exists>c. new = [(Root_create dirh tmp perm, c)] \<and> r = (case fa_Error c of Some err \<Rightarrow> Inl err | None \<Rightarrow> Inr (fa_Handle c))"
    then obtain c where c: "new = [(Root_create dirh tmp perm, c)]" "r = (case fa_Error c of Some err \<Rightarrow> Inl err | None \<Rightarrow> Inr (fa_Handle c))" by blast
    show "performs trace (case r of
        Inl err \<Rightarrow> State_Monad.return (Inl (''create temporary file for '' @ go_quote path @ '': '' @ err))
      | Inr file \<Rightarrow> do {
          r \<leftarrow> file_steps h (?steps file);
          a \<leftarrow> fh_Do h (File_close file);
          case r of
            Inl err \<Rightarrow> do { b \<leftarrow> fh_Do h (Root_remove dirh tmp); State_Monad.return (Inl err) }
          | Inr u \<Rightarrow> State_Monad.return (Inr u)
        }) (\<lambda>new' x. ?Q (new @ new') x)"
    proof (cases "fa_Error c")
      case (Some err)
      then show ?thesis by (auto simp: c given_up_def intro!: performs_return)
    next
      case None
      let ?file = "fa_Handle c"
      have ops: "map fst (?steps ?file) = replace_steps dirh ?file tmp base data" by (simp add: replace_steps_def)
      have r: "r = Inr ?file" by (simp add: c(2) None)
      show ?thesis unfolding r sum.case
      proof (rule performs_bind[OF performs_file_steps[OF assms]], rule performs_bind[OF performs_Do[OF assms]])
        fix mid :: fs_trace and res and last :: fs_trace and a
        assume m: "res = Inr () \<and> all_ok mid \<and> map fst mid = map fst (?steps ?file) \<or> res \<noteq> Inr () \<and> stopped (map fst (?steps ?file)) mid"
          and l: "last = [(File_close ?file, a)]"
        show "performs trace (case res of
            Inl err \<Rightarrow> do { b \<leftarrow> fh_Do h (Root_remove dirh tmp); State_Monad.return (Inl err) }
          | Inr u \<Rightarrow> State_Monad.return (Inr u)) (\<lambda>new' x. ?Q (new @ mid @ last @ new') x)"
        proof (cases "res = Inr ()")
          case True
          with m have "all_ok mid" "map fst mid = replace_steps dirh ?file tmp base data" using ops by auto
          then have "replaced dirh tmp perm base data (new @ mid @ last)" by (auto simp: replaced_def c(1) l None)
          then show ?thesis by (auto simp: True intro!: performs_return)
        next
          case False
          then obtain err where e: "res = Inl err" by (cases res) auto
          from m False have "stopped (replace_steps dirh ?file tmp base data) mid" using ops by auto
          then have "given_up dirh tmp perm base data (new @ mid @ last @ [(Root_remove dirh tmp, b)])" for b
            by (auto simp: given_up_def c(1) l None)
          then show ?thesis unfolding e sum.case
            by (intro performs_bind[OF performs_Do[OF assms]] performs_return) simp
        qed
      qed
    qed
  qed
  then show "performs trace (let tmp = temp_name base (fh_Pid h) now in do {
      c \<leftarrow> fs_handle h (Root_create dirh tmp perm);
      case c of
        Inl err \<Rightarrow> State_Monad.return (Inl (''create temporary file for '' @ go_quote path @ '': '' @ err))
      | Inr file \<Rightarrow> do {
          r \<leftarrow> file_steps h
            [(File_write file data, ''write temporary file for '' @ go_quote path), (File_sync file, ''sync temporary file for '' @ go_quote path),
             (File_close file, ''close temporary file for '' @ go_quote path), (Root_rename dirh tmp base, ''replace '' @ go_quote path)];
          a \<leftarrow> fh_Do h (File_close file);
          case r of
            Inl err \<Rightarrow> do { b \<leftarrow> fh_Do h (Root_remove dirh tmp); State_Monad.return (Inl err) }
          | Inr u \<Rightarrow> State_Monad.return (Inr u)
        }
    }) (\<lambda>new' r. \<exists>now. let tmp = temp_name base (fh_Pid h) now in
       if r = Inr () then replaced dirh tmp perm base data (new0 @ new') else given_up dirh tmp perm base data (new0 @ new'))"
    unfolding Let_def tmp_def n by (rule performs_weaken) auto
qed

lemma performs_in_parent:
  assumes "fs_traced h trace" and "resolve_abs h ''path'' path = Inr full" and "\<And>dirh. performs trace (body dirh (path_base full)) (Q dirh)"
  shows "performs trace (in_parent h path perm body)
    (\<lambda>new r. \<exists>pre post. new = pre @ post \<and> only mkdir_op pre () \<and> (post = [] \<and> r \<noteq> Inr () \<or> in_root (path_dir full) Q post r))"
  unfolding in_parent_def assms(2) sum.case
proof (rule performs_bind[OF performs_MkdirAll[OF assms(1)]])
  fix pre :: fs_trace and m :: "string + unit"
  assume o: "only mkdir_op pre m"
  then have o: "only mkdir_op pre ()" by (simp add: only_def)
  show "performs trace (case m of Inl err \<Rightarrow> State_Monad.return (Inl err)
      | Inr _ \<Rightarrow> with_root h (path_dir full) (''open parent of '' @ go_quote path) (\<lambda>dirh. body dirh (path_base full)))
    (\<lambda>new' r. \<exists>pre' post. pre @ new' = pre' @ post \<and> only mkdir_op pre' () \<and> (post = [] \<and> r \<noteq> Inr () \<or> in_root (path_dir full) Q post r))"
  proof (cases m)
    case (Inl err)
    show ?thesis unfolding Inl sum.case by (rule performs_return) (use o in \<open>intro exI[of _ pre] exI[of _ "[]"], simp\<close>)
  next
    case (Inr u)
    show ?thesis unfolding Inr sum.case by (rule performs_weaken[OF performs_with_root[OF assms(1,3)]]) (use o in blast)
  qed
qed

lemma temp_name_other: "temp_name base pid now \<noteq> base"
proof -
  have "length (temp_name base pid now) > length base" by (simp add: temp_name_def)
  then show ?thesis by auto
qed

text \<open>Operations that change what a name of a directory stands for, apart from directories.\<close>

definition alters :: "string \<Rightarrow> fs_op \<Rightarrow> bool" where
  "alters name op =
     (case op of Root_write _ n _ _ \<Rightarrow> n = name | Root_create _ n _ \<Rightarrow> n = name | Root_remove _ n \<Rightarrow> n = name
      | Root_rename _ a b \<Rightarrow> a = name \<or> b = name | _ \<Rightarrow> False)"

definition renames_to :: "string \<Rightarrow> fs_op \<times> fs_answer \<Rightarrow> bool" where
  "renames_to base y = (\<exists>dirh tmp. fst y = Root_rename dirh tmp base)"

lemma mkdir_alters: "mkdir_op op \<Longrightarrow> \<not> alters name op"
  by (cases op) (simp_all add: mkdir_op_def alters_def)

lemma steps_alter:
  "op \<in> set (replace_steps dirh file tmp base data) \<Longrightarrow> alters base op \<Longrightarrow> op = Root_rename dirh tmp base"
  by (auto simp: replace_steps_def alters_def)

lemma stopped_rename:
  assumes "stopped (replace_steps dirh file tmp base data) tr" and "y \<in> set tr" and "alters base (fst y)"
  shows "renames_to base y \<and> fa_Error (snd y) \<noteq> None"
proof -
  obtain ok op a rest where o: "tr = ok @ [(op, a)]" "fa_Error a \<noteq> None" "replace_steps dirh file tmp base data = map fst ok @ op # rest"
    using assms(1) by (auto simp: stopped_def)
  have "fst y \<in> set (replace_steps dirh file tmp base data)" using assms(2) o(1,3) by auto
  from steps_alter[OF this assms(3)] have y: "fst y = Root_rename dirh tmp base" .
  have "Root_rename dirh tmp base \<notin> fst ` set ok"
  proof
    assume "Root_rename dirh tmp base \<in> fst ` set ok"
    then have "Root_rename dirh tmp base \<in> set (butlast (replace_steps dirh file tmp base data))"
      unfolding o(3) by (auto simp: butlast_append)
    then show False by (simp add: replace_steps_def)
  qed
  then have "y = (op, a)" using assms(2) o(1) y by force
  then show ?thesis using y o(2) by (auto simp: renames_to_def)
qed

lemma given_up_alters:
  "given_up dirh (temp_name base pid now) perm base data tr \<Longrightarrow> y \<in> set tr \<Longrightarrow> alters base (fst y) \<Longrightarrow> renames_to base y \<and> fa_Error (snd y) \<noteq> None"
proof -
  let ?tmp = "temp_name base pid now"
  assume g: "given_up dirh ?tmp perm base data tr" and y: "y \<in> set tr" and alt: "alters base (fst y)"
  have n: "\<not> alters base (Root_create dirh ?tmp perm)" "\<not> alters base (Root_remove dirh ?tmp)" "\<not> alters base (File_close f)" for f
    using temp_name_other by (simp_all add: alters_def)
  from g show ?thesis unfolding given_up_def
  proof (elim disjE exE conjE)
    fix c assume "tr = [(Root_create dirh ?tmp perm, c)]"
    with y alt n show ?thesis by auto
  next
    fix c steps a b
    assume tr: "tr = (Root_create dirh ?tmp perm, c) # steps @ [(File_close (fa_Handle c), a), (Root_remove dirh ?tmp, b)]"
      and s: "stopped (replace_steps dirh (fa_Handle c) ?tmp base data) steps"
    from tr y alt n have "y \<in> set steps" by auto
    from stopped_rename[OF s this alt] show ?thesis .
  qed
qed

lemma given_up_removes:
  assumes "given_up dirh tmp perm base data tr" and "(Root_create d n p, c) \<in> set tr" and "fa_Error c = None"
  shows "\<exists>b. (Root_remove d n, b) \<in> set tr"
  using assms(1) unfolding given_up_def
proof (elim disjE exE conjE)
  fix c' assume "tr = [(Root_create dirh tmp perm, c')]" "fa_Error c' \<noteq> None"
  with assms(2,3) show ?thesis by auto
next
  fix c' steps a b
  assume tr: "tr = (Root_create dirh tmp perm, c') # steps @ [(File_close (fa_Handle c'), a), (Root_remove dirh tmp, b)]"
    and s: "stopped (replace_steps dirh (fa_Handle c') tmp base data) steps"
  from s have "fst ` set steps \<subseteq> set (replace_steps dirh (fa_Handle c') tmp base data)" by (auto simp: stopped_def) force
  then have "(Root_create d n p, c) \<notin> set steps" by (force simp: replace_steps_def)
  with assms(2) tr have "d = dirh" "n = tmp" by auto
  with tr show ?thesis by auto
qed

text \<open>
  C15: replacing a file atomically. A call that reports success made the temporary file, wrote all data,
  synced and closed it and renamed it onto the file, in this order and each without an error, and
  nothing else touched the file. A call that fails leaves the file alone, unless the host itself
  renames and reports an error, and it removes the temporary file that it made.
\<close>

theorem atomic_replacement:
  assumes "fs_traced h trace" and "resolve_abs h ''path'' path = Inr full"
    and "run_state (WriteFileAtomic h path data perm) w = (r, w')"
  shows "\<exists>new. trace w' = trace w @ new \<and>
    (r = Inr () \<longrightarrow> (\<exists>pre a mid b now. new = pre @ (Open_root (path_dir full), a) # mid @ [(Close_root (fa_Handle a), b)] \<and>
       only mkdir_op pre () \<and> fa_Error a = None \<and> replaced (fa_Handle a) (temp_name (path_base full) (fh_Pid h) now) perm (path_base full) data mid)) \<and>
    (r \<noteq> Inr () \<longrightarrow> (\<forall>y \<in> set new. alters (path_base full) (fst y) \<longrightarrow> renames_to (path_base full) y \<and> fa_Error (snd y) \<noteq> None) \<and>
       (\<forall>dirh tmp p c. (Root_create dirh tmp p, c) \<in> set new \<and> fa_Error c = None \<longrightarrow> (\<exists>b. (Root_remove dirh tmp, b) \<in> set new)))"
proof -
  define base where "base = path_base full"
  define Q where "Q = (\<lambda>dirh new (r :: string + unit). \<exists>now. let tmp = temp_name base (fh_Pid h) now in
       if r = Inr () then replaced dirh tmp perm base data new else given_up dirh tmp perm base data new)"
  have "performs trace (replace_file h path data perm dirh (path_base full)) (Q dirh)" for dirh
    unfolding Q_def base_def by (rule performs_replace_file[OF assms(1)])
  note ip = performs_in_parent[where body = "replace_file h path data perm" and Q = Q, OF assms(1,2) this]
  from performs_start[OF ip assms(3)[unfolded WriteFileAtomic_def]]
  obtain pre post where new: "trace w' = trace w @ pre @ post" "only mkdir_op pre ()"
    "post = [] \<and> r \<noteq> Inr () \<or> in_root (path_dir full) Q post r" by auto
  have pre: "y \<in> set pre \<Longrightarrow> \<not> alters base (fst y) \<and> (\<forall>dirh tmp p. fst y \<noteq> Root_create dirh tmp p)" for y
    using new(2) mkdir_alters[of "fst y" base] by (auto simp: only_def mkdir_op_def)
  from new(3) consider (early) "\<forall>y \<in> set post. \<exists>d. fst y = Open_root d" "r \<noteq> Inr ()"
    | (body) a mid b now where "post = (Open_root (path_dir full), a) # mid @ [(Close_root (fa_Handle a), b)]" "fa_Error a = None"
        "if r = Inr () then replaced (fa_Handle a) (temp_name base (fh_Pid h) now) perm base data mid
         else given_up (fa_Handle a) (temp_name base (fh_Pid h) now) perm base data mid"
    unfolding in_root_def Q_def Let_def by (auto 0 3)
  then show ?thesis
  proof cases
    case early
    then have "y \<in> set post \<Longrightarrow> \<not> alters base (fst y) \<and> (\<forall>dirh tmp p. fst y \<noteq> Root_create dirh tmp p)" for y by (auto simp: alters_def)
    with pre early(2) new(1) show ?thesis unfolding base_def[symmetric]
      by (intro exI[of _ "pre @ post"]) (auto, metis fst_conv, metis fst_conv)
  next
    case body
    show ?thesis
    proof (cases "r = Inr ()")
      case True
      with body new show ?thesis unfolding base_def[symmetric] by (intro exI[of _ "pre @ post"]) auto
    next
      case False
      with body(3) have g: "given_up (fa_Handle a) (temp_name base (fh_Pid h) now) perm base data mid" by simp
      have n: "\<not> alters base (Open_root d)" "\<not> alters base (Close_root dirh)" for d dirh by (simp_all add: alters_def)
      have alt: "renames_to base y \<and> fa_Error (snd y) \<noteq> None" if y: "y \<in> set (pre @ post)" and ay: "alters base (fst y)" for y
      proof -
        have "y \<in> set mid" using y ay pre[of y] n body(1) by auto
        from given_up_alters[OF g this ay] show ?thesis .
      qed
      have made: "(Root_create dirh tmp p, c) \<in> set (pre @ post) \<Longrightarrow> fa_Error c = None \<Longrightarrow> \<exists>b. (Root_remove dirh tmp, b) \<in> set (pre @ post)" for dirh tmp p c
        using pre body(1) given_up_removes[OF g, of dirh tmp p c] by (auto, metis fst_conv)
      show ?thesis using False alt made new(1) unfolding base_def[symmetric] by (intro exI[of _ "pre @ post"]) blast
    qed
  qed
qed


text \<open>A host that records what it does; the disk is full when the temporary file is written.\<close>

definition full_answer :: "fs_op \<Rightarrow> fs_answer" where
  "full_answer op = \<lparr> fa_Error = (case op of File_write _ _ \<Rightarrow> Some ''no space'' | _ \<Rightarrow> None), fa_Handle = 3, fa_Data = [] \<rparr>"

definition full_host :: "fs_trace file_host" where
  "full_host = \<lparr> fh_Do = (\<lambda>op. State (\<lambda>w. (full_answer op, w @ [(op, full_answer op)]))), fh_Getwd = Inr ''/work'', fh_Pid = 1, fh_Now = length \<rparr>"

theorem atomic_replacement_witness:
  "\<exists>r new tmp b. run_state (WriteFileAtomic full_host ''out/report.json'' ''data'' 384) [] = (r, new) \<and> r \<noteq> Inr () \<and>
     (Root_remove 3 tmp, b) \<in> set new \<and>
     (\<forall>y \<in> set new. alters ''report.json'' (fst y) \<longrightarrow> renames_to ''report.json'' y \<and> fa_Error (snd y) \<noteq> None)"
proof -
  have t: "fs_traced full_host id" by (simp add: fs_traced_def full_host_def)
  have p: "resolve_abs full_host ''path'' ''out/report.json'' = Inr ''/work/out/report.json''" by code_simp
  have b: "path_base ''/work/out/report.json'' = ''report.json''" by code_simp
  obtain r new where e: "run_state (WriteFileAtomic full_host ''out/report.json'' ''data'' 384) [] = (r, new)" by (metis surj_pair)
  have d: "path_dir ''/work/out/report.json'' = ''/work/out''" "rev (path_comps ''/work/out'') = [''out'', ''work'']" by code_simp+
  have m: "resolve_abs full_host ''directory'' ''/work/out'' = Inr ''/work/out''" by code_simp
  have w: "r \<noteq> Inr () \<and> (\<exists>tmp p c. (Root_create 3 tmp p, c) \<in> set new \<and> fa_Error c = None)"
    using e by (auto simp: WriteFileAtomic_def in_parent_def p b d MkdirAll_def m fs_error_def with_root_def replace_file_def fs_handle_def Let_def
      full_host_def[THEN arg_cong, of fh_Do] full_answer_def State_Monad.get_def)
  from atomic_replacement[OF t p e] obtain new' where "new = new'" and
    n: "r \<noteq> Inr () \<longrightarrow> (\<forall>y \<in> set new'. alters (path_base ''/work/out/report.json'') (fst y) \<longrightarrow>
       renames_to (path_base ''/work/out/report.json'') y \<and> fa_Error (snd y) \<noteq> None) \<and>
       (\<forall>dirh tmp p c. (Root_create dirh tmp p, c) \<in> set new' \<and> fa_Error c = None \<longrightarrow> (\<exists>b. (Root_remove dirh tmp, b) \<in> set new'))"
    by auto
  with w obtain tmp c where "(Root_remove 3 tmp, c) \<in> set new" by blast
  with n w e \<open>new = new'\<close> show ?thesis unfolding b by blast
qed

end
