(* ===== verification/Spec2Isabelle.thy ===== *)
theory Spec2Isabelle
  imports Grader Knowledge_Base Plan Registry Report_Merge Selection Progress Scheduler Pipeline Measurements Orchestrator Checkpoint Attestation Backends Go_Strings Virtbench_Parse Kube_Burner_Job Kube_Burner_Ocp Junit Cli Run_Frame Run_Command Virtbench_Engine Environment Safe_Files
begin

text \<open>
  A model of the storage certification harness, a Go program that runs the storage tests of a
  partner's backend on an OpenShift cluster, grades what the tools measured against a catalog of
  requirements and thresholds, and writes a report that says which certification level was reached.

  \<^bold>\<open>The parts and how they interact.\<close> The command line (\<open>cmd/harness\<close>) loads the catalog and the
  thresholds (\<open>internal/kb\<close>), a plan (\<open>internal/plan\<close>), a configuration (\<open>internal/config\<close>), the
  backends (\<open>internal/backend\<close>) and attestations (\<open>internal/attestation\<close>), and calls the
  orchestrator. It selects requirements, groups them by tool, schedules the jobs under a parallelism
  limit and exclusivity groups, and runs each job through the stages of its tool (preflight,
  provision, run, collect, parse, grade, teardown; \<open>internal/stages\<close>, \<open>internal/registry\<close>). Results
  go to the grader (\<open>internal/grader\<close>), verdicts and measurements to the report (\<open>internal/report\<close>);
  a checkpoint saves the report while the run goes on, and an abandoned or resumed run is recovered
  from it and merged. The tools are adapters (\<open>internal/tools\<close>) over host binaries and the cluster
  client (\<open>internal/clustercheck\<close>).

  \<^bold>\<open>Theories and sources.\<close> Paths are below \<open>src/\<close>.

  \<^item> Prelude, Go_Float, Go_Path, Go_Strings: what the program uses of the language and its
    library: maps with their iteration order, IEEE double arithmetic on rationals, \<open>path/filepath\<close>,
    \<open>strings\<close>, \<open>strconv\<close> and \<open>%q\<close>.
  \<^item> Core_Types: \<open>internal/core\<close>. Grader: \<open>internal/grader\<close>. Knowledge_Base: \<open>internal/catalog\<close>,
    \<open>internal/thresholds\<close>, \<open>internal/kb\<close>. Plan: \<open>internal/plan\<close>, \<open>internal/config\<close>. Registry:
    \<open>internal/registry\<close>, \<open>internal/stages\<close>. Backends: \<open>internal/backend\<close>. Attestation:
    \<open>internal/attestation\<close> and its part of main.go.
  \<^item> Reports, Report_Merge, Measurements: \<open>internal/report\<close> (report.go up to the Markdown writer,
    storage.go, measurements.go). Report_Markdown: the Markdown writer. Junit: junit.go and
    exporter.go. Manifests: \<open>internal/manifest\<close>.
  \<^item> Selection, Scheduler, Pipeline, Orchestrator: \<open>internal/orchestrator/orchestrator.go\<close> (choosing
    and planning the jobs, their goroutines, the stages of one job, and \<open>Run\<close>). Progress:
    progress.go. Run_Frame: what \<open>Run\<close> leaves alone outside its own variables.
  \<^item> Checkpoint: \<open>cmd/harness/checkpoint.go\<close> and the recovery command. Cli: the validate and
    preflight commands. Run_Command: the run command, the report it leaves and its exit status.
  \<^item> Cluster_Check, Storage_Source, Storage_Check: \<open>internal/clustercheck\<close> (the client, snapshot
    classes, storage profiles; boot sources and clone authorization; the storage preflight).
    Environment: its environment.go, what a report records about the cluster.
  \<^item> Safe_Files: \<open>internal/safefs\<close> and \<open>internal/artifacts\<close>, over the calls to the operating system.
  \<^item> Result_Files, Kube_Burner, Kube_Burner_Stages, Kube_Burner_Job: \<open>internal/tools/kubeburner\<close>
    (the walk over result files; parameters, parser and evaluator; the stages; whole jobs).
    Kube_Burner_Ocp: \<open>internal/tools/kubeburnerocp\<close>.
  \<^item> Virtbench_Host, Virtbench_Args, Virtbench_Manifest, Virtbench_Setup, Virtbench_Cluster,
    Virtbench_Engine: \<open>internal/tools/virtbench\<close> (the operations on the host and kubectl; parameters
    and command lines; the table of scenarios, VM templates and manifest.go; the helper pod of
    setup.go; boot sources, snapshot clones, nodes and VMs; engine.go and scenario.go).
    Virtbench_Parse: its parse.go.

  \<^bold>\<open>Conventions.\<close> Structs are records and enumerations are datatypes or the strings the code uses.
  A Go map is a list of pairs without double keys in its iteration order, so that nothing is proved
  that only holds for one order. Strings are lists of characters; case mapping and white space are
  those of ASCII. A float is a rational or one of the three special values: arithmetic is exact
  rounding to the nearest double, without a sign of zero, and JSON never yields a special value.
  An error is its message in a sum or an option, with a constructor for each sentinel error that
  the code tests for. Everything outside the process is an argument: the file system, the clock,
  cancellation, decoders and encoders of JSON and YAML, the template engine, the cluster client and
  the processes of the tools; stateful ones act on a world \<open>'w\<close> that the model threads through the
  calls in the order of the code, by state passing or in the state monad. A struct that a stage
  leaves in the bag is an object of its fields. Logging is left out.

  \<^bold>\<open>What the lemmas show.\<close> Every component has its functional behaviour on each branch, and most
  have an invariant. Beyond that:

  \<^item> grading: a pass means the bar was met by a measurement of the right unit, and improving a
    measurement never loses a pass; the built-in grader gives every declared item exactly one
    verdict, and what an evaluator of a tool itself returns is kept as it is;
  \<^item> a run: every selected requirement is accounted for, stages run in order up to the first whose
    call was not successful (\<open>reached\<close>, \<open>call_ok\<close>), teardown included, and a report is certifiable
    only when nothing failed and nothing was left behind; the exit status and the final report agree;
  \<^item> reports: merging is associative in every field but the list of parts and the storage
    selections, the checkpoint refines the abstract maps, and recovery accepts running reports only
    and writes them as they are but abandoned and not certifiable (\<open>abandons\<close>);
  \<^item> the scheduler is a step relation over program counters, with safety by rule induction and with
    progress to the end of every job; the locale \<open>stage_frame\<close> carries an invariant through the
    stages of any job and is interpreted on the state of \<open>Run\<close>; \<open>named_table\<close>, \<open>keyed_union\<close> and
    \<open>outside_frame\<close> are the contracts of the registry, of the merge operations and of the caller of \<open>Run\<close>;
  \<^item> the cluster: what a resolved snapshot class, the class of a boot source, a clone permission and
    a clean storage check rest on, stated over the worlds reached from the start of the operation
    (\<open>cluster_steps\<close>, \<open>yields\<close>), so that each conclusion is about answers given during it; the same
    for the operators, classes and the driver version in the environment of a report;
  \<^item> inputs with a grammar are specified beside the code that reads them: the disks that the documents
    of a manifest declare (\<open>disks_of\<close>), the lines of a drain log (\<open>log_items\<close>), the storage classes
    an environment records (\<open>classes_recorded\<close>);
  \<^item> files: a path is accepted below a root exactly when it continues it, and an atomic write replaces
    its target by one rename of a file that was written and synced, or leaves it alone (\<open>performs\<close>);
  \<^item> kube-burner: a passing verdict of a whole job rests on the run of the tool with valid parameters
    and on the files found directly after it;
  \<^item> kube-burner-ocp: a clean preflight leaves only named reasons why a requirement has no command,
    each workload gets one command, and a passing result rests on the summary of its own run;
  \<^item> virtbench: a replay performs no operation, a live result rests on the run of this very execution
    and the one result file found directly after it, the manifest that reaches the tool has exactly
    the VM it polls for, and the clean-up deletes what was created and nothing of another run. These
    are stated over what a program may perform (\<open>does\<close>, \<open>reaches\<close>) or over the trace of a host that
    records its operations (\<open>traced\<close>).

  \<^bold>\<open>Bounds and fuel.\<close> No definition uses fuel. The prompt for an attestation, the waits for a
  storage profile and for a VM, and the set-up and the roll-back of the helper pod may run for ever,
  so they are partial functions into an option, and their theorems show that they return. The
  percentile of the snapshot latencies is in bounds for up to \<open>2 ^ 44\<close> samples, where the products
  of the code are still far below the integers it converts to.

  \<^bold>\<open>Not modelled.\<close> The JSON reader and writer of the report are encoders whose effect is their output
  format; \<open>internal/kube\<close> is a placeholder; \<open>tools/example\<close> and simulate.go are demonstrations; the
  other half of main.go declares flags and wires them to the modelled commands.
\<close>

end
